(* ===== verification/Prelude.thy ===== *)
theory Prelude
  imports Complex_Main "HOL-Library.AList"
begin

text \<open>
  Shared vocabulary of the development: the collections of simplification rules the
  component theories extend, hash maps as association lists, bounded windows
  (\<open>push_bounded\<close> of the engines and of the ledger) and a few list facts.
\<close>

named_theorems f64_simps \<open>evaluation of binary64 operations on concrete values\<close>
named_theorems hmap_simps \<open>lookup, insertion and removal in hash maps\<close>
named_theorems engine_frame \<open>fields an engine operation leaves unchanged\<close>

section \<open>Hash maps\<close>

text \<open>
  A \<open>HashMap<K, V>\<close> is an association list with distinct keys. The order of the list
  stands for the iteration order of the map, which Rust leaves unspecified: a statement
  about an arbitrary state covers every order.
\<close>

type_synonym ('k, 'v) hmap = "('k \<times> 'v) list"

abbreviation hm_get :: "('k, 'v) hmap \<Rightarrow> 'k \<Rightarrow> 'v option" where
  "hm_get m k \<equiv> map_of m k"

abbreviation hm_insert :: "'k \<Rightarrow> 'v \<Rightarrow> ('k, 'v) hmap \<Rightarrow> ('k, 'v) hmap" where
  "hm_insert k v m \<equiv> AList.update k v m"

abbreviation hm_remove :: "'k \<Rightarrow> ('k, 'v) hmap \<Rightarrow> ('k, 'v) hmap" where
  "hm_remove k m \<equiv> AList.delete k m"

abbreviation hm_contains :: "('k, 'v) hmap \<Rightarrow> 'k \<Rightarrow> bool" where
  "hm_contains m k \<equiv> map_of m k \<noteq> None"

abbreviation hm_keys :: "('k, 'v) hmap \<Rightarrow> 'k list" where
  "hm_keys m \<equiv> map fst m"

abbreviation hm_ok :: "('k, 'v) hmap \<Rightarrow> bool" where
  "hm_ok m \<equiv> distinct (map fst m)"

lemma hm_get_insert [simp, hmap_simps]:
  "hm_get (hm_insert k v m) k' = (if k' = k then Some v else hm_get m k')"
  by (simp add: update_conv')

lemma hm_get_remove [simp, hmap_simps]:
  "hm_get (hm_remove k m) k' = (if k' = k then None else hm_get m k')"
  by (simp add: delete_conv')

lemma hm_ok_insert [simp]: "hm_ok m \<Longrightarrow> hm_ok (hm_insert k v m)"
  by (rule distinct_update)

lemma hm_ok_remove [simp]: "hm_ok m \<Longrightarrow> hm_ok (hm_remove k m)"
  by (rule distinct_delete)

lemma hm_keys_insert: "set (hm_keys (hm_insert k v m)) = insert k (set (hm_keys m))"
  by (auto simp: update_keys)

lemma hm_keys_remove: "set (hm_keys (hm_remove k m)) = set (hm_keys m) - {k}"
  by (simp add: delete_keys)

lemma hm_contains_iff: "hm_contains m k \<longleftrightarrow> k \<in> set (hm_keys m)"
  by (auto simp: map_of_eq_None_iff)

lemma hm_get_SomeD: "hm_get m k = Some v \<Longrightarrow> (k, v) \<in> set m"
  by (rule map_of_SomeD)

lemma hm_get_iff_in_set: "hm_ok m \<Longrightarrow> hm_get m k = Some v \<longleftrightarrow> (k, v) \<in> set m"
  by simp

section \<open>Bounded windows\<close>

text \<open>
  \<open>push_bounded\<close> pushes at the back and pops from the front while the buffer is longer
  than the cap. The loop of the source is the recursive \<open>pop_while_over\<close>.
\<close>

fun pop_while_over :: "nat \<Rightarrow> 'a list \<Rightarrow> 'a list" where
  "pop_while_over cap [] = []"
| "pop_while_over cap (x # xs) =
     (if length (x # xs) > cap then pop_while_over cap xs else x # xs)"

definition push_bounded :: "'a list \<Rightarrow> 'a \<Rightarrow> nat \<Rightarrow> 'a list" where
  "push_bounded buf v cap = pop_while_over cap (buf @ [v])"

definition take_last :: "nat \<Rightarrow> 'a list \<Rightarrow> 'a list" where
  "take_last n xs = drop (length xs - n) xs"

lemma pop_while_over_eq: "pop_while_over cap xs = take_last cap xs"
proof (induction xs)
  case Nil
  then show ?case by (simp add: take_last_def)
next
  case (Cons x xs)
  then show ?case
    by (cases "cap < length (x # xs)") (auto simp: take_last_def Suc_diff_le)
qed

lemma push_bounded_eq: "push_bounded buf v cap = take_last cap (buf @ [v])"
  by (simp add: push_bounded_def pop_while_over_eq)

lemma length_take_last [simp]: "length (take_last n xs) = min n (length xs)"
  by (auto simp: take_last_def)

lemma take_last_all [simp]: "length xs \<le> n \<Longrightarrow> take_last n xs = xs"
  by (simp add: take_last_def)

lemma take_last_snoc_take_last:
  "take_last n (take_last n xs @ [x]) = take_last n (xs @ [x])"
proof (cases "length xs \<le> n")
  case True
  then show ?thesis by simp
next
  case False
  then have "Suc n - n = 1" and "Suc (length xs) - n = Suc (length xs - n)" by simp_all
  with False show ?thesis by (simp add: take_last_def)
qed

lemma last_push_bounded [simp]: "0 < cap \<Longrightarrow> last (push_bounded buf v cap) = v"
  by (simp add: push_bounded_eq take_last_def)

lemma push_bounded_neq_Nil [simp]: "0 < cap \<Longrightarrow> push_bounded buf v cap \<noteq> []"
  by (simp add: push_bounded_eq take_last_def)

lemma length_push_bounded: "length (push_bounded buf v cap) = min cap (Suc (length buf))"
  by (simp add: push_bounded_eq)

lemma set_push_bounded: "set (push_bounded buf v cap) \<subseteq> insert v (set buf)"
  by (auto simp: push_bounded_eq take_last_def dest: in_set_dropD)

lemma take_last_subseq_sorted: "sorted_wrt P xs \<Longrightarrow> sorted_wrt P (take_last n xs)"
  by (simp add: take_last_def sorted_wrt_drop)

text \<open>Pushing a whole sequence keeps exactly its last \<open>cap\<close> elements.\<close>

fun push_all :: "'a list \<Rightarrow> 'a list \<Rightarrow> nat \<Rightarrow> 'a list" where
  "push_all buf [] cap = buf"
| "push_all buf (x # xs) cap = push_all (push_bounded buf x cap) xs cap"

lemma push_all_take_last:
  "push_all (take_last cap buf) xs cap = take_last cap (buf @ xs)"
proof (induction xs arbitrary: buf)
  case Nil
  then show ?case by simp
next
  case (Cons x xs)
  have "push_bounded (take_last cap buf) x cap = take_last cap (buf @ [x])"
    by (simp add: push_bounded_eq take_last_snoc_take_last)
  then show ?case using Cons.IH [of "buf @ [x]"] by simp
qed

section \<open>Machine integers\<close>

text \<open>
  \<open>i64\<close> is \<open>int\<close>: \<open>sat_add_i64\<close> is \<open>i64::saturating_add\<close>. The timestamps and durations of
  the program stay far inside the range, which the places that rely on it state.
\<close>

definition i64_min :: int where "i64_min = - (2 ^ 63)"
definition i64_max :: int where "i64_max = 2 ^ 63 - 1"

definition in_i64 :: "int \<Rightarrow> bool" where
  "in_i64 x \<longleftrightarrow> i64_min \<le> x \<and> x \<le> i64_max"

definition sat_add_i64 :: "int \<Rightarrow> int \<Rightarrow> int" where
  "sat_add_i64 a b = max i64_min (min i64_max (a + b))"

lemma sat_add_i64_exact: "in_i64 (a + b) \<Longrightarrow> sat_add_i64 a b = a + b"
  by (simp add: sat_add_i64_def in_i64_def)

lemma sat_add_i64_mono: "a \<le> a' \<Longrightarrow> sat_add_i64 a b \<le> sat_add_i64 a' b"
  by (simp add: sat_add_i64_def)

section \<open>Small list facts\<close>

lemma find_Some_filter: "find P xs = (case filter P xs of [] \<Rightarrow> None | x # _ \<Rightarrow> Some x)"
  by (induction xs) auto

lemma Some_eq_map_option [simp]: "Some x = map_option f v \<longleftrightarrow> (\<exists>y. v = Some y \<and> x = f y)"
  by (cases v) auto

definition last_opt :: "'a list \<Rightarrow> 'a option" where
  "last_opt xs = (if xs = [] then None else Some (last xs))"

lemma last_opt_snoc [simp]: "last_opt (xs @ [x]) = Some x"
  by (simp add: last_opt_def)

lemma last_opt_Nil [simp]: "last_opt [] = None"
  by (simp add: last_opt_def)

definition update_last :: "('a \<Rightarrow> 'a) \<Rightarrow> 'a list \<Rightarrow> 'a list" where
  "update_last f xs = (if xs = [] then [] else butlast xs @ [f (last xs)])"

lemma update_last_snoc [simp]: "update_last f (xs @ [x]) = xs @ [f x]"
  by (simp add: update_last_def)

lemma update_last_Nil [simp]: "update_last f [] = []"
  by (simp add: update_last_def)

lemma length_update_last [simp]: "length (update_last f xs) = length xs"
  by (simp add: update_last_def)

end
