(* ===== verification/F64.thy ===== *)
theory F64
  imports Prelude "HOL-Library.Log_Nat"
begin

text \<open>
  IEEE 754 binary64, the type \<open>f64\<close> of the program: NaN, the two infinities, the negative
  zero and the finite numbers (positive zero included), each finite number carried by its
  exact rational value. Every arithmetic operation computes the exact rational result and
  rounds it once with \<open>fl\<close>, round to nearest, ties to even, with gradual underflow and
  overflow to infinity. The section at the end gives the order and monotonicity facts
  the components rest on.
\<close>

section \<open>Rounding\<close>

datatype f64 = NaN | PInf | NInf | NZero | Fin rat

definition rne :: "rat \<Rightarrow> int" where
  "rne x =
     (let f = \<lfloor>x\<rfloor>; r = x - of_int f
      in if r < 1 / 2 then f else if 1 / 2 < r then f + 1 else if even f then f else f + 1)"

definition ilog2 :: "rat \<Rightarrow> int" where
  "ilog2 q =
     (let (n, d) = quotient_of q; k = bitlen n - bitlen d
      in if 2 powi k \<le> q then k else k - 1)"

definition fl_exp :: "rat \<Rightarrow> int" where
  "fl_exp q = max (ilog2 \<bar>q\<bar> - 52) (- 1074)"

definition fl_val :: "rat \<Rightarrow> rat" where
  "fl_val q = (if q = 0 then 0 else of_int (rne (q / 2 powi fl_exp q)) * 2 powi fl_exp q)"

definition fl :: "rat \<Rightarrow> f64" where
  "fl q =
     (let y = fl_val q
      in if 2 ^ 1024 \<le> y then PInf
         else if y \<le> - (2 ^ 1024) then NInf
         else if y = 0 \<and> q < 0 then NZero
         else Fin y)"

fun fval :: "f64 \<Rightarrow> rat" where
  "fval (Fin q) = q"
| "fval _ = 0"

fun is_finite :: "f64 \<Rightarrow> bool" where
  "is_finite (Fin _) = True"
| "is_finite NZero = True"
| "is_finite _ = False"

definition is_nan :: "f64 \<Rightarrow> bool" where
  "is_nan x \<longleftrightarrow> x = NaN"

fun is_sign_negative :: "f64 \<Rightarrow> bool" where
  "is_sign_negative (Fin q) = (q < 0)"
| "is_sign_negative NZero = True"
| "is_sign_negative NInf = True"
| "is_sign_negative _ = False"

section \<open>Operations\<close>

definition signed_zero :: "bool \<Rightarrow> f64" where
  "signed_zero neg = (if neg then NZero else Fin 0)"

definition signed_inf :: "bool \<Rightarrow> f64" where
  "signed_inf neg = (if neg then NInf else PInf)"

text \<open>The rounded exact result, with the given sign where it is zero.\<close>

definition fl_signed :: "bool \<Rightarrow> rat \<Rightarrow> f64" where
  "fl_signed neg q = (if fl_val q = 0 then signed_zero neg else fl q)"

instantiation f64 :: "{zero, one, uminus, plus, minus, times, inverse, abs, ord}"
begin

definition zero_f64 :: f64 where "0 = Fin 0"
definition one_f64 :: f64 where "1 = Fin 1"

fun uminus_f64 :: "f64 \<Rightarrow> f64" where
  "- NaN = NaN"
| "- PInf = NInf"
| "- NInf = PInf"
| "- NZero = Fin 0"
| "- (Fin q) = (if q = 0 then NZero else Fin (- q))"

definition plus_f64 :: "f64 \<Rightarrow> f64 \<Rightarrow> f64" where
  "x + y =
     (if x = NaN \<or> y = NaN \<or> (x = PInf \<and> y = NInf) \<or> (x = NInf \<and> y = PInf) then NaN
      else if x = PInf \<or> y = PInf then PInf
      else if x = NInf \<or> y = NInf then NInf
      else fl_signed (x = NZero \<and> y = NZero) (fval x + fval y))"

definition minus_f64 :: "f64 \<Rightarrow> f64 \<Rightarrow> f64" where
  "x - y = x + (- y)" for x y :: f64

definition times_f64 :: "f64 \<Rightarrow> f64 \<Rightarrow> f64" where
  "x * y =
     (let neg = (is_sign_negative x \<noteq> is_sign_negative y)
      in if x = NaN \<or> y = NaN then NaN
         else if \<not> is_finite x \<or> \<not> is_finite y
           then if (is_finite x \<and> fval x = 0) \<or> (is_finite y \<and> fval y = 0) then NaN
                else signed_inf neg
         else fl_signed neg (fval x * fval y))"

definition divide_f64 :: "f64 \<Rightarrow> f64 \<Rightarrow> f64" where
  "x div y =
     (let neg = (is_sign_negative x \<noteq> is_sign_negative y)
      in if x = NaN \<or> y = NaN then NaN
         else if \<not> is_finite x then if is_finite y then signed_inf neg else NaN
         else if \<not> is_finite y then signed_zero neg
         else if fval y = 0 then if fval x = 0 then NaN else signed_inf neg
         else fl_signed neg (fval x / fval y))" for x y :: f64

definition inverse_f64 :: "f64 \<Rightarrow> f64" where
  "inverse x = (1 :: f64) div x"

definition abs_f64 :: "f64 \<Rightarrow> f64" where
  "\<bar>x\<bar> = (if is_sign_negative x then - x else x)" for x :: f64

definition less_eq_f64 :: "f64 \<Rightarrow> f64 \<Rightarrow> bool" where
  "x \<le> y \<longleftrightarrow> x \<noteq> NaN \<and> y \<noteq> NaN \<and>
     (x = NInf \<or> y = PInf \<or> (is_finite x \<and> is_finite y \<and> fval x \<le> fval y))"

definition less_f64 :: "f64 \<Rightarrow> f64 \<Rightarrow> bool" where
  "x < y \<longleftrightarrow> x \<noteq> NaN \<and> y \<noteq> NaN \<and>
     ((x = NInf \<and> y \<noteq> NInf) \<or> (y = PInf \<and> x \<noteq> PInf) \<or>
      (is_finite x \<and> is_finite y \<and> fval x < fval y))"

instance ..

end

text \<open>Rust's \<open>==\<close> on \<open>f64\<close>: false on NaN, and the two zeros are equal.\<close>

definition feq :: "f64 \<Rightarrow> f64 \<Rightarrow> bool" where
  "feq x y \<longleftrightarrow> x \<le> y \<and> y \<le> x"

text \<open>\<open>f64::min\<close> and \<open>f64::max\<close>: a NaN argument is dropped.\<close>

definition fmin :: "f64 \<Rightarrow> f64 \<Rightarrow> f64" where
  "fmin x y = (if x = NaN then y else if y = NaN then x else if y < x then y else x)"

definition fmax :: "f64 \<Rightarrow> f64 \<Rightarrow> f64" where
  "fmax x y = (if x = NaN then y else if y = NaN then x else if x < y then y else x)"

fun ffloor :: "f64 \<Rightarrow> f64" where
  "ffloor (Fin q) = Fin (of_int \<lfloor>q\<rfloor>)"
| "ffloor x = x"

definition f64_of_int :: "int \<Rightarrow> f64" where "f64_of_int n = fl (of_int n)"
definition f64_of_nat :: "nat \<Rightarrow> f64" where "f64_of_nat n = fl (of_nat n)"

text \<open>The saturating cast \<open>x as usize\<close> (64 bits).\<close>

fun usize_of_f64 :: "f64 \<Rightarrow> nat" where
  "usize_of_f64 (Fin q) = nat (min (2 ^ 64 - 1) (if q < 0 then 0 else \<lfloor>q\<rfloor>))"
| "usize_of_f64 PInf = 2 ^ 64 - 1"
| "usize_of_f64 _ = 0"

definition f64_epsilon :: f64 where "f64_epsilon = Fin (1 / 2 ^ 52)"
definition f64_MAX :: f64 where "f64_MAX = Fin ((2 ^ 53 - 1) * 2 ^ 971)"
definition f64_MIN :: f64 where "f64_MIN = Fin (- ((2 ^ 53 - 1) * 2 ^ 971))"

text \<open>A decimal literal of the source is the nearest binary64.\<close>

abbreviation lit :: "rat \<Rightarrow> f64" where "lit q \<equiv> fl q"

text \<open>\<open>iter().sum::<f64>()\<close> folds from the left, starting with the negative zero.\<close>

definition fsum :: "f64 list \<Rightarrow> f64" where
  "fsum xs = foldl (+) NZero xs"

section \<open>Rounding is monotone\<close>


lemma rne_cases: "rne x = \<lfloor>x\<rfloor> \<or> rne x = \<lfloor>x\<rfloor> + 1"
  by (simp add: rne_def Let_def)

lemma rne_mono: "x \<le> y \<Longrightarrow> rne x \<le> rne y"
proof -
  assume le: "x \<le> y"
  show ?thesis
  proof (cases "\<lfloor>x\<rfloor> = \<lfloor>y\<rfloor>")
    case True
    with le show ?thesis by (simp add: rne_def Let_def)
  next
    case False
    with floor_mono [OF le] have "\<lfloor>x\<rfloor> + 1 \<le> \<lfloor>y\<rfloor>" by simp
    with rne_cases [of x] rne_cases [of y] show ?thesis by auto
  qed
qed

lemma rne_of_int [simp]: "rne (of_int n) = n"
  by (simp add: rne_def)

lemma rne_minus: "rne (- x) = - rne x"
proof (cases "x = of_int \<lfloor>x\<rfloor>")
  case True
  then show ?thesis by (metis rne_of_int of_int_minus)
next
  case False
  have "\<lfloor>- x\<rfloor> = - \<lceil>x\<rceil>" by (rule floor_minus)
  moreover have "\<lceil>x\<rceil> = \<lfloor>x\<rfloor> + 1" using False by (simp add: ceiling_altdef)
  ultimately have f: "\<lfloor>- x\<rfloor> = - \<lfloor>x\<rfloor> - 1" by simp
  show ?thesis by (auto simp: rne_def Let_def f)
qed

lemma powi2_pos [simp]: "0 < (2::rat) powi n"
  by simp

lemma ilog2_bounds:
  assumes "0 < q"
  shows "2 powi ilog2 q \<le> q" and "q < 2 powi (ilog2 q + 1)"
proof -
  obtain n d where nd: "quotient_of q = (n, d)" by (cases "quotient_of q")
  have d: "0 < d" using nd by (rule quotient_of_denom_pos)
  have q: "q = of_int n / of_int d" using nd by (rule quotient_of_div)
  have n: "0 < n" using assms d by (simp add: q zero_less_divide_iff)
  define k where "k = bitlen n - bitlen d"
  have pn: "0 < bitlen n" and pd: "0 < bitlen d" using n d
    by (metis bitlen_eq_zero_iff bitlen_nonneg le_less_trans less_le not_le)+
  have nb: "(2::rat) powi (bitlen n - 1) \<le> of_int n" "of_int n < (2::rat) powi bitlen n"
    using bitlen_bounds [OF n] pn
    by (simp_all add: power_int_def)
  have db: "(2::rat) powi (bitlen d - 1) \<le> of_int d" "of_int d < (2::rat) powi bitlen d"
    using bitlen_bounds [OF d] pd
    by (simp_all add: power_int_def)
  have lower: "2 powi (k - 1) \<le> q"
  proof -
    have "2 powi (k - 1) * of_int d \<le> 2 powi (k - 1) * (2::rat) powi bitlen d"
      using db(2) by (intro mult_left_mono) simp_all
    also have "\<dots> = 2 powi (bitlen n - 1)" by (simp add: k_def flip: power_int_add)
    also have "\<dots> \<le> of_int n" by (rule nb)
    finally show ?thesis using d by (simp add: q pos_le_divide_eq)
  qed
  have upper: "q < 2 powi (k + 1)"
  proof -
    have "of_int n < (2::rat) powi bitlen n" by (rule nb)
    also have "\<dots> = 2 powi (k + 1) * 2 powi (bitlen d - 1)" by (simp add: k_def flip: power_int_add)
    also have "\<dots> \<le> 2 powi (k + 1) * of_int d" using db(1) by (intro mult_left_mono) simp_all
    finally show ?thesis using d by (simp add: q pos_divide_less_eq)
  qed
  show "2 powi ilog2 q \<le> q" using lower by (simp add: ilog2_def nd k_def Let_def)
  show "q < 2 powi (ilog2 q + 1)" using upper by (auto simp: ilog2_def nd k_def Let_def not_le)
qed


lemma powi2_less_iff: "(2::rat) powi a < 2 powi b \<longleftrightarrow> a < b"
  by (meson not_less one_less_numeral_iff power_int_increasing power_int_strict_increasing
      one_le_numeral semiring_norm(76))

lemma powi2_le_iff: "(2::rat) powi a \<le> 2 powi b \<longleftrightarrow> a \<le> b"
  by (metis not_less powi2_less_iff)

lemma ilog2_mono:
  assumes "0 < x" and "x \<le> y"
  shows "ilog2 x \<le> ilog2 y"
proof -
  have "2 powi ilog2 x \<le> x" using assms by (intro ilog2_bounds)
  also have "\<dots> \<le> y" by fact
  also have "\<dots> < 2 powi (ilog2 y + 1)" using assms by (intro ilog2_bounds) simp
  finally show ?thesis by (simp add: powi2_less_iff)
qed

lemma ilog2_eqI: "2 powi k \<le> q \<Longrightarrow> q < 2 powi (k + 1) \<Longrightarrow> ilog2 q = k"
proof -
  assume lo: "2 powi k \<le> q" and hi: "q < 2 powi (k + 1)"
  have q: "0 < q" using lo powi2_pos [of k] by linarith
  have "(2::rat) powi ilog2 q < 2 powi (k + 1)" using ilog2_bounds(1) [OF q] hi by linarith
  moreover have "(2::rat) powi k < 2 powi (ilog2 q + 1)" using ilog2_bounds(2) [OF q] lo by linarith
  ultimately show ?thesis by (simp add: powi2_less_iff)
qed

lemma fl_val_0 [simp]: "fl_val 0 = 0"
  by (simp add: fl_val_def)

lemma fl_val_minus: "fl_val (- q) = - fl_val q"
  by (simp add: fl_val_def fl_exp_def rne_minus)

lemma fl_exp_mono: "0 < x \<Longrightarrow> x \<le> y \<Longrightarrow> fl_exp x \<le> fl_exp y"
  using ilog2_mono [of x y] by (auto simp: fl_exp_def)

lemma fl_val_nonneg: "0 \<le> q \<Longrightarrow> 0 \<le> fl_val q"
proof -
  assume "0 \<le> q"
  then have "rne 0 \<le> rne (q / 2 powi fl_exp q)" by (intro rne_mono) simp
  then have "0 \<le> rne (q / 2 powi fl_exp q)" using rne_of_int [of 0] by simp
  then show ?thesis by (simp add: fl_val_def)
qed

text \<open>Between two powers of two the rounded value stays between them.\<close>

lemma fl_val_le_powi:
  assumes "0 < q" and "q \<le> 2 powi k" and "fl_exp q \<le> k"
  shows "fl_val q \<le> 2 powi k"
proof -
  let ?e = "fl_exp q"
  have "q / 2 powi ?e \<le> 2 powi (k - ?e)"
    using assms(2) by (simp add: power_int_diff divide_right_mono)
  also have "\<dots> = of_int (2 ^ nat (k - ?e))" using assms(3) by (simp add: power_int_def)
  finally have "rne (q / 2 powi ?e) \<le> 2 ^ nat (k - ?e)"
    using rne_mono rne_of_int by metis
  then have "of_int (rne (q / 2 powi ?e)) \<le> (of_int (2 ^ nat (k - ?e)) :: rat)"
    by (simp only: of_int_le_iff)
  also have "\<dots> = 2 powi (k - ?e)" using assms(3) by (simp add: power_int_def)
  finally have "of_int (rne (q / 2 powi ?e)) * 2 powi ?e \<le> 2 powi (k - ?e) * (2 powi ?e :: rat)"
    by (intro mult_right_mono) simp_all
  then show ?thesis using assms(1) by (simp add: fl_val_def power_int_diff)
qed

lemma fl_val_ge_powi:
  assumes "0 < q" and "2 powi k \<le> q" and "fl_exp q \<le> k"
  shows "2 powi k \<le> fl_val q"
proof -
  let ?e = "fl_exp q"
  have "(of_int (2 ^ nat (k - ?e)) :: rat) = 2 powi (k - ?e)" using assms(3) by (simp add: power_int_def)
  also have "\<dots> \<le> q / 2 powi ?e" using assms(2) by (simp add: power_int_diff divide_right_mono)
  finally have "2 ^ nat (k - ?e) \<le> rne (q / 2 powi ?e)"
    using rne_mono rne_of_int by metis
  then have "(of_int (2 ^ nat (k - ?e)) :: rat) \<le> of_int (rne (q / 2 powi ?e))"
    by (simp only: of_int_le_iff)
  then have "2 powi (k - ?e) \<le> (of_int (rne (q / 2 powi ?e)) :: rat)"
    using assms(3) by (simp add: power_int_def)
  then have "2 powi (k - ?e) * (2 powi ?e :: rat) \<le> of_int (rne (q / 2 powi ?e)) * 2 powi ?e"
    by (intro mult_right_mono) simp_all
  then show ?thesis using assms(1) by (simp add: fl_val_def power_int_diff)
qed

lemma fl_val_mono_pos:
  assumes "0 < x" and "x \<le> y"
  shows "fl_val x \<le> fl_val y"
proof (cases "fl_exp x = fl_exp y")
  case True
  have "rne (x / 2 powi fl_exp x) \<le> rne (y / 2 powi fl_exp x)"
    using assms by (intro rne_mono divide_right_mono) simp_all
  then show ?thesis using assms True by (simp add: fl_val_def mult_right_mono)
next
  case False
  with fl_exp_mono [OF assms] have lt: "fl_exp x < fl_exp y" by simp
  have y: "0 < y" using assms by simp
  have e: "fl_exp y = ilog2 y - 52" using lt y by (auto simp: fl_exp_def max_def split: if_splits)
  have ex: "ilog2 x - 52 < fl_exp y" using lt assms by (auto simp: fl_exp_def)
  have "fl_val x \<le> 2 powi ilog2 y"
  proof (rule fl_val_le_powi)
    have "x < 2 powi (ilog2 x + 1)" using assms by (intro ilog2_bounds)
    also have "\<dots> \<le> 2 powi ilog2 y" using ex e by (simp add: powi2_le_iff)
    finally show "x \<le> 2 powi ilog2 y" by simp
    show "fl_exp x \<le> ilog2 y" using lt e by simp
  qed (use assms in simp)
  also have "\<dots> \<le> fl_val y"
    using ilog2_bounds(1) [OF y] e by (intro fl_val_ge_powi [OF y]) simp_all
  finally show ?thesis .
qed

lemma fl_val_mono:
  assumes "x \<le> y"
  shows "fl_val x \<le> fl_val y"
proof (cases "0 < x")
  case True
  then show ?thesis using assms by (rule fl_val_mono_pos)
next
  case x: False
  show ?thesis
  proof (cases "0 \<le> y")
    case True
    have "fl_val x \<le> 0" using fl_val_nonneg [of "- x"] x by (simp add: fl_val_minus)
    also have "\<dots> \<le> fl_val y" using True by (rule fl_val_nonneg)
    finally show ?thesis .
  next
    case False
    then have "fl_val (- y) \<le> fl_val (- x)" using assms by (intro fl_val_mono_pos) simp_all
    then show ?thesis by (simp add: fl_val_minus)
  qed
qed

text \<open>Representable values are not changed by rounding.\<close>

definition representable :: "rat \<Rightarrow> bool" where
  "representable q \<longleftrightarrow> (\<exists>m e. q = of_int m * 2 powi e \<and> \<bar>m\<bar> \<le> 2 ^ 53 \<and> - 1074 \<le> e \<and> \<bar>q\<bar> < 2 ^ 1024)"

lemma fl_val_representable_pos:
  assumes q: "0 < q" and r: "q = of_int m * 2 powi e" "m \<le> 2 ^ 53" "- 1074 \<le> e"
  shows "fl_val q = q"
proof -
  have m: "0 < m" using q r(1) powi2_pos [of e] by (auto simp: zero_less_mult_iff)
  have up: "q \<le> 2 powi (53 + e)"
  proof -
    have "(of_int m :: rat) \<le> of_int (2 ^ 53)" using r(2) by (simp only: of_int_le_iff)
    then have "q \<le> of_int (2 ^ 53) * 2 powi e" unfolding r(1) by (intro mult_right_mono) simp_all
    then show ?thesis by (simp add: power_int_add)
  qed
  show ?thesis
  proof (cases "q = 2 powi (53 + e)")
    case True
    have "ilog2 q = 53 + e" by (rule ilog2_eqI) (simp_all add: True powi2_less_iff)
    then have e: "fl_exp q = e + 1" using q r(3) by (simp add: fl_exp_def)
    have "q / 2 powi fl_exp q = 2 powi (53 + e - (e + 1))"
      using power_int_diff [of "2::rat" "53 + e" "e + 1"] unfolding e by (simp add: True)
    also have "\<dots> = of_int (2 ^ 52)" by simp
    finally have "of_int (rne (q / 2 powi fl_exp q)) = q / 2 powi fl_exp q"
      by (simp only: rne_of_int)
    then show ?thesis using q by (simp add: fl_val_def)
  next
    case False
    with up have "q < 2 powi (53 + e)" by simp
    then have "(2::rat) powi ilog2 q < 2 powi (53 + e)" using ilog2_bounds(1) [OF q] by linarith
    then have le: "fl_exp q \<le> e" using r(3) q by (simp add: powi2_less_iff fl_exp_def)
    have "q / 2 powi fl_exp q = of_int m * 2 powi (e - fl_exp q)"
      by (simp add: r(1) power_int_diff)
    also have "\<dots> = of_int (m * 2 ^ nat (e - fl_exp q))" using le by (simp add: power_int_def)
    finally have "of_int (rne (q / 2 powi fl_exp q)) = q / 2 powi fl_exp q"
      by (simp only: rne_of_int)
    then show ?thesis using q by (simp add: fl_val_def)
  qed
qed

lemma fl_val_representable: "representable q \<Longrightarrow> fl_val q = q"
proof -
  assume "representable q"
  then obtain m e where r: "q = of_int m * 2 powi e" "\<bar>m\<bar> \<le> 2 ^ 53" "- 1074 \<le> e"
    by (auto simp: representable_def)
  consider "0 < q" | "q = 0" | "0 < - q" by linarith
  then show ?thesis
  proof cases
    case 1
    then show ?thesis using r by (intro fl_val_representable_pos [of _ m e]) auto
  next
    case 3
    then have "fl_val (- q) = - q"
      using r by (intro fl_val_representable_pos [of _ "- m" e]) auto
    then show ?thesis by (simp add: fl_val_minus)
  qed simp
qed

lemma representable_of_int: "\<bar>n\<bar> \<le> 2 ^ 53 \<Longrightarrow> representable (of_int n)"
  unfolding representable_def
  by (intro exI [of _ n] exI [of _ 0]) (auto simp flip: of_int_abs intro: le_less_trans)


lemma representable_dyadic:
  assumes "\<bar>m\<bar> \<le> 2 ^ 53" and "k \<le> 1074"
  shows "representable (of_int m / 2 ^ k)"
  unfolding representable_def
proof (intro exI conjI)
  show "of_int m / 2 ^ k = of_int m * (2::rat) powi (- int k)"
    by (simp add: power_int_minus field_simps)
  have "(1::rat) \<le> 2 ^ k" by simp
  then have "\<bar>of_int m / 2 ^ k\<bar> \<le> \<bar>of_int m :: rat\<bar>"
    using mult_left_mono [of 1 "2 ^ k" "\<bar>of_int m :: rat\<bar>"] by (simp add: divide_le_eq)
  also have "\<dots> \<le> of_int (2 ^ 53)" using assms(1) by (simp only: of_int_le_iff flip: of_int_abs)
  also have "\<dots> < 2 ^ 1024" by simp
  finally show "\<bar>of_int m / 2 ^ k :: rat\<bar> < 2 ^ 1024" .
qed (use assms in auto)

section \<open>Order\<close>

lemma fle_refl [simp]: "x \<le> x \<longleftrightarrow> x \<noteq> NaN" for x :: f64
  by (cases x) (auto simp: less_eq_f64_def)

lemma fless_irrefl [simp]: "\<not> x < x" for x :: f64
  by (auto simp: less_f64_def)

lemma fle_trans [trans]: "x \<le> y \<Longrightarrow> y \<le> z \<Longrightarrow> x \<le> z" for x :: f64
  by (auto simp: less_eq_f64_def)

lemma fless_le_trans [trans]: "x < y \<Longrightarrow> y \<le> z \<Longrightarrow> x < z" for x :: f64
  by (auto simp: less_eq_f64_def less_f64_def)

lemma fle_less_trans [trans]: "x \<le> y \<Longrightarrow> y < z \<Longrightarrow> x < z" for x :: f64
  by (auto simp: less_eq_f64_def less_f64_def)

lemma fless_trans [trans]: "x < y \<Longrightarrow> y < z \<Longrightarrow> x < z" for x :: f64
  by (auto simp: less_f64_def)

lemma fless_imp_le: "x < y \<Longrightarrow> x \<le> y" for x :: f64
  by (auto simp: less_eq_f64_def less_f64_def)

lemma fle_nan [dest]: "x \<le> y \<Longrightarrow> x \<noteq> NaN \<and> y \<noteq> NaN" for x :: f64
  by (simp add: less_eq_f64_def)

lemma fless_nan [dest]: "x < y \<Longrightarrow> x \<noteq> NaN \<and> y \<noteq> NaN" for x :: f64
  by (simp add: less_f64_def)

lemma fcmp_nan [simp]:
  "\<not> NaN < x" "\<not> x < NaN" "\<not> NaN \<le> x" "\<not> x \<le> NaN"
  by (auto simp: less_eq_f64_def less_f64_def)

lemma fnot_less: "x \<noteq> NaN \<Longrightarrow> y \<noteq> NaN \<Longrightarrow> \<not> x < y \<longleftrightarrow> y \<le> x" for x :: f64
  by (cases x; cases y) (auto simp: less_eq_f64_def less_f64_def)

lemma fnot_le: "x \<noteq> NaN \<Longrightarrow> y \<noteq> NaN \<Longrightarrow> \<not> x \<le> y \<longleftrightarrow> y < x" for x :: f64
  by (cases x; cases y) (auto simp: less_eq_f64_def less_f64_def)

lemma fless_asym: "x < y \<Longrightarrow> \<not> y \<le> x" for x :: f64
  by (auto simp: less_eq_f64_def less_f64_def)

lemma fle_Fin [simp]: "Fin p \<le> Fin q \<longleftrightarrow> p \<le> q"
  by (simp add: less_eq_f64_def)

lemma fless_Fin [simp]: "Fin p < Fin q \<longleftrightarrow> p < q"
  by (simp add: less_f64_def)

lemma fcmp_special [simp]:
  "x \<le> PInf \<longleftrightarrow> x \<noteq> NaN" "NInf \<le> x \<longleftrightarrow> x \<noteq> NaN" "PInf \<le> x \<longleftrightarrow> x = PInf" "x \<le> NInf \<longleftrightarrow> x = NInf"
  "x < PInf \<longleftrightarrow> x \<noteq> NaN \<and> x \<noteq> PInf" "NInf < x \<longleftrightarrow> x \<noteq> NaN \<and> x \<noteq> NInf" "\<not> PInf < x" "\<not> x < NInf"
  "Fin p \<le> NZero \<longleftrightarrow> p \<le> 0" "NZero \<le> Fin p \<longleftrightarrow> 0 \<le> p" "Fin p < NZero \<longleftrightarrow> p < 0" "NZero < Fin p \<longleftrightarrow> 0 < p"
  by (cases x; simp add: less_eq_f64_def less_f64_def)+

lemma fmax_ge: "x \<noteq> NaN \<Longrightarrow> x \<le> fmax x y" "y \<noteq> NaN \<Longrightarrow> y \<le> fmax x y"
  by (auto simp: fmax_def fnot_less fless_imp_le)

lemma fmin_le: "x \<noteq> NaN \<Longrightarrow> fmin x y \<le> x" "y \<noteq> NaN \<Longrightarrow> fmin x y \<le> y"
  by (auto simp: fmin_def fnot_less fless_imp_le)

lemma fmax_le: "x \<le> z \<Longrightarrow> y \<le> z \<Longrightarrow> fmax x y \<le> z"
  by (simp add: fmax_def)

lemma fmin_ge: "z \<le> x \<Longrightarrow> z \<le> y \<Longrightarrow> z \<le> fmin x y"
  by (simp add: fmin_def)

section \<open>Rounded arithmetic respects the order\<close>

lemma fl_not_nan [simp]: "fl q \<noteq> NaN" "fl_signed n q \<noteq> NaN"
  by (simp_all add: fl_def fl_signed_def signed_zero_def Let_def)

lemma fl_mono: "p \<le> q \<Longrightarrow> fl p \<le> fl q"
  using fl_val_mono [of p q] by (auto simp: fl_def Let_def less_eq_f64_def)

lemma fl_signed_cmp [simp]:
  "fl_signed n q \<le> y \<longleftrightarrow> fl q \<le> y" "y \<le> fl_signed n q \<longleftrightarrow> y \<le> fl q"
  "fl_signed n q < y \<longleftrightarrow> fl q < y" "y < fl_signed n q \<longleftrightarrow> y < fl q"
  by (auto simp: fl_signed_def signed_zero_def fl_def Let_def less_eq_f64_def less_f64_def)

lemma fl_representable: "representable q \<Longrightarrow> fl q = Fin q"
  using fl_val_representable [of q]
  by (auto simp: fl_def Let_def representable_def)

lemma fl_of_int [f64_simps]: "\<bar>n\<bar> \<le> 2 ^ 53 \<Longrightarrow> fl (of_int n) = Fin (of_int n)"
  by (rule fl_representable) (rule representable_of_int)

lemma fl_0 [simp, f64_simps]: "fl 0 = Fin 0"
  by (simp add: fl_def)

lemma fl_1 [simp, f64_simps]: "fl 1 = Fin 1"
  using fl_of_int [of 1] by simp

lemma fl_numeral [f64_simps]: "(numeral n :: int) \<le> 2 ^ 53 \<Longrightarrow> fl (numeral n) = Fin (numeral n)"
  using fl_of_int [of "numeral n"] by simp

lemma fl_neg_numeral [f64_simps]:
  "(numeral n :: int) \<le> 2 ^ 53 \<Longrightarrow> fl (- numeral n) = Fin (- numeral n)"
  using fl_of_int [of "- numeral n"] by simp

lemma fl_nonneg: "0 \<le> q \<Longrightarrow> 0 \<le> fl q"
  using fl_mono [of 0 q] by (simp add: zero_f64_def)

lemma fl_nonpos: "q \<le> 0 \<Longrightarrow> fl q \<le> 0"
  using fl_mono [of q 0] by (simp add: zero_f64_def)

lemma f_ge_0: "0 \<le> x \<longleftrightarrow> x = PInf \<or> (is_finite x \<and> 0 \<le> fval x)" for x :: f64
  by (cases x) (auto simp: less_eq_f64_def zero_f64_def)

lemma f_le_0: "x \<le> 0 \<longleftrightarrow> x = NInf \<or> (is_finite x \<and> fval x \<le> 0)" for x :: f64
  by (cases x) (auto simp: less_eq_f64_def zero_f64_def)

lemma f_gt_0: "0 < x \<longleftrightarrow> x = PInf \<or> (is_finite x \<and> 0 < fval x)" for x :: f64
  by (cases x) (auto simp: less_f64_def zero_f64_def)

lemma is_finite_uminus [simp]: "is_finite (- x) = is_finite x"
  by (cases x) auto

lemma fval_uminus [simp]: "fval (- x) = - fval x"
  by (cases x) auto

lemma uminus_eq_special [simp]:
  "- x = NaN \<longleftrightarrow> x = NaN" "- x = PInf \<longleftrightarrow> x = NInf" "- x = NInf \<longleftrightarrow> x = PInf" for x :: f64
  by (cases x; simp)+

lemma fle_uminus: "- y \<le> - x \<longleftrightarrow> x \<le> y" for x :: f64
  by (cases x; cases y) (auto simp: less_eq_f64_def)

lemma fadd_mono:
  fixes x :: f64
  assumes "x \<le> x'" and "y \<le> y'" and "x + y \<noteq> NaN" and "x' + y' \<noteq> NaN"
  shows "x + y \<le> x' + y'"
  using assms fl_mono [of "fval x + fval y" "fval x' + fval y'"]
  by (cases x; cases x'; cases y; cases y') (simp_all add: plus_f64_def)

lemma fsub_mono:
  fixes x :: f64
  assumes "x \<le> x'" and "y' \<le> y" and "x - y \<noteq> NaN" and "x' - y' \<noteq> NaN"
  shows "x - y \<le> x' - y'"
  using assms unfolding minus_f64_def by (intro fadd_mono) (simp_all add: fle_uminus)

lemma fsub_nonneg:
  fixes x :: f64
  assumes "y \<le> x" and "x - y \<noteq> NaN"
  shows "0 \<le> x - y"
  using assms fl_nonneg [of "fval x - fval y"]
  by (cases x; cases y) (auto simp: minus_f64_def plus_f64_def zero_f64_def)

lemma fadd_nonneg:
  fixes x :: f64
  assumes "0 \<le> x" and "0 \<le> y"
  shows "0 \<le> x + y"
  using assms fl_nonneg [of "fval x + fval y"]
  by (cases x; cases y) (simp_all add: plus_f64_def zero_f64_def)

lemma fmul_nonneg:
  fixes x :: f64
  assumes "0 \<le> x" and "0 \<le> y" and "x * y \<noteq> NaN"
  shows "0 \<le> x * y"
  using assms fl_nonneg [of "fval x * fval y"]
  by (cases x; cases y) (auto simp: times_f64_def zero_f64_def signed_inf_def)

lemma fdiv_nonneg:
  fixes x :: f64
  assumes "0 \<le> x" and "0 < y"  and "x / y \<noteq> NaN"
  shows "0 \<le> x / y"
  using assms fl_nonneg [of "fval x / fval y"]
  by (cases x; cases y) (auto simp: divide_f64_def zero_f64_def signed_inf_def signed_zero_def)

lemma fmul_right_mono:
  fixes x :: f64
  assumes "x \<le> y" and "0 < c" and "is_finite c"
  shows "x * c \<le> y * c"
  using assms fl_mono [of "fval x * fval c" "fval y * fval c"]
  by (cases x; cases y; cases c) (auto simp: times_f64_def zero_f64_def signed_inf_def mult_right_mono mult_nonpos_nonneg)

lemma fdiv_right_mono:
  fixes x :: f64
  assumes "x \<le> y" and "0 < c" and "is_finite c"
  shows "x / c \<le> y / c"
  using assms fl_mono [of "fval x / fval c" "fval y / fval c"]
  by (cases x; cases y; cases c) (auto simp: divide_f64_def zero_f64_def signed_inf_def divide_right_mono divide_nonpos_pos)

lemma fdiv_left_antimono:
  fixes c :: f64
  assumes "x \<le> y" and "0 < x" and "0 \<le> c" and "is_finite c"
  shows "c / y \<le> c / x"
  using assms fl_mono [of "fval c / fval y" "fval c / fval x"] fl_nonneg [of "fval c / fval x"]
  by (cases x; cases y; cases c)
    (auto simp: divide_f64_def zero_f64_def signed_inf_def signed_zero_def divide_left_mono)


section \<open>Every result is a binary64 value\<close>

fun wf64 :: "f64 \<Rightarrow> bool" where
  "wf64 (Fin q) = representable q"
| "wf64 _ = True"

lemma fl_val_significand:
  assumes "q \<noteq> 0"
  shows "\<bar>rne (q / 2 powi fl_exp q)\<bar> \<le> 2 ^ 53"
proof -
  have "\<bar>q\<bar> < 2 powi (ilog2 \<bar>q\<bar> + 1)" using assms by (intro ilog2_bounds) simp
  also have "\<dots> \<le> 2 powi (fl_exp q + 53)" by (simp add: powi2_le_iff fl_exp_def)
  finally have "\<bar>q / 2 powi fl_exp q\<bar> \<le> of_int (2 ^ 53)"
    by (simp add: power_int_add field_simps)
  then have "rne (q / 2 powi fl_exp q) \<le> 2 ^ 53" and "rne (- (q / 2 powi fl_exp q)) \<le> 2 ^ 53"
    using rne_mono rne_of_int by (metis abs_le_D1, metis abs_le_D2 rne_mono rne_of_int)
  then show ?thesis by (simp add: rne_minus)
qed

lemma representable_fl_val: "\<bar>fl_val q\<bar> < 2 ^ 1024 \<Longrightarrow> representable (fl_val q)"
proof (cases "q = 0")
  case True
  then show ?thesis using representable_of_int [of 0] by simp
next
  case False
  assume lt: "\<bar>fl_val q\<bar> < 2 ^ 1024"
  have "fl_val q = of_int (rne (q / 2 powi fl_exp q)) * 2 powi fl_exp q"
    using False by (simp add: fl_val_def)
  moreover have "- 1074 \<le> fl_exp q" by (simp add: fl_exp_def)
  ultimately show ?thesis
    using fl_val_significand [OF False] lt unfolding representable_def by blast
qed

lemma wf64_fl [simp]: "wf64 (fl q)"
  by (auto simp: fl_def Let_def intro!: representable_fl_val)

lemma wf64_fl_signed [simp]: "wf64 (fl_signed n q)"
  using representable_of_int [of 0] by (simp add: fl_signed_def signed_zero_def)

lemma wf64_uminus: "wf64 x \<Longrightarrow> wf64 (- x)"
proof (cases x)
  case (Fin q)
  assume "wf64 x"
  with Fin obtain m e where "q = of_int m * 2 powi e" "\<bar>m\<bar> \<le> 2 ^ 53" "- 1074 \<le> e" "\<bar>q\<bar> < 2 ^ 1024"
    by (auto simp: representable_def)
  then have "representable (- q)"
    unfolding representable_def by (intro exI [of _ "- m"] exI [of _ e]) simp
  with Fin show ?thesis by simp
qed (use representable_of_int [of 0] in simp_all)

lemma wf64_arith:
  "wf64 (x + y)" "wf64 (x - y)" "wf64 (x * y)" "wf64 (x / y)"
  using representable_of_int [of 0]
  by (auto simp: plus_f64_def minus_f64_def times_f64_def divide_f64_def signed_inf_def
      signed_zero_def Let_def)

lemma fadd_neutral: "wf64 x \<Longrightarrow> x + NZero = x" "wf64 x \<Longrightarrow> NZero + x = x"
  by (cases x; auto simp: plus_f64_def fl_signed_def fl_val_representable fl_representable
      signed_zero_def)+

section \<open>Evaluation on concrete values\<close>

lemma arith_Fin [f64_simps]:
  "Fin p + Fin q = fl_signed False (p + q)"
  "Fin p - Fin q = fl_signed False (p - q)"
  "Fin p * Fin q = fl_signed ((p < 0) \<noteq> (q < 0)) (p * q)"
  "q \<noteq> 0 \<Longrightarrow> Fin p / Fin q = fl_signed ((p < 0) \<noteq> (q < 0)) (p / q)"
  by (simp_all add: plus_f64_def minus_f64_def times_f64_def divide_f64_def)

lemma fl_signed_representable:
  "representable q \<Longrightarrow> fl_signed n q = (if q = 0 then signed_zero n else Fin q)"
  by (simp add: fl_signed_def fl_val_representable fl_representable)

lemma fl_signed_int [f64_simps]:
  "fl_signed n 0 = signed_zero n"
  "fl_signed n 1 = Fin 1"
  "fl_signed n (- 1) = Fin (- 1)"
  "(numeral k :: int) \<le> 2 ^ 53 \<Longrightarrow> fl_signed n (numeral k) = Fin (numeral k)"
  "(numeral k :: int) \<le> 2 ^ 53 \<Longrightarrow> fl_signed n (- numeral k) = Fin (- numeral k)"
  using fl_signed_representable [OF representable_of_int [of 0], of n]
    fl_signed_representable [OF representable_of_int [of 1], of n]
    fl_signed_representable [OF representable_of_int [of "- 1"], of n]
    fl_signed_representable [OF representable_of_int [of "numeral k"], of n]
    fl_signed_representable [OF representable_of_int [of "- numeral k"], of n]
  by simp_all

lemma signed_zero_simps [simp, f64_simps]: "signed_zero False = Fin 0" "signed_zero True = NZero"
  by (simp_all add: signed_zero_def)

lemma fl_signed_frac [f64_simps]:
  "fl_signed n (1 / 2) = Fin (1 / 2)" "fl_signed n (1 / 4) = Fin (1 / 4)"
  "(numeral k :: int) \<le> 2 ^ 53 \<Longrightarrow> fl_signed n (numeral k / 2) = Fin (numeral k / 2)"
  "(numeral k :: int) \<le> 2 ^ 53 \<Longrightarrow> fl_signed n (numeral k / 4) = Fin (numeral k / 4)"
  using fl_signed_representable [OF representable_dyadic [of 1 1], of n]
    fl_signed_representable [OF representable_dyadic [of 1 2], of n]
    fl_signed_representable [OF representable_dyadic [of "numeral k" 1], of n]
    fl_signed_representable [OF representable_dyadic [of "numeral k" 2], of n]
  by simp_all

lemma fcmp_Fin_0 [f64_simps]:
  "0 < Fin q \<longleftrightarrow> 0 < q" "0 \<le> Fin q \<longleftrightarrow> 0 \<le> q" "Fin q < 0 \<longleftrightarrow> q < 0" "Fin q \<le> 0 \<longleftrightarrow> q \<le> 0"
  by (simp_all add: zero_f64_def)

lemma abs_Fin [f64_simps]: "\<bar>Fin q\<bar> = Fin \<bar>q\<bar>"
  by (auto simp: abs_f64_def)

lemma epsilon_cmp [f64_simps]:
  "f64_epsilon < Fin q \<longleftrightarrow> 1 / 2 ^ 52 < q" "Fin q < f64_epsilon \<longleftrightarrow> q < 1 / 2 ^ 52"
  "f64_epsilon \<le> Fin q \<longleftrightarrow> 1 / 2 ^ 52 \<le> q" "Fin q \<le> f64_epsilon \<longleftrightarrow> q \<le> 1 / 2 ^ 52"
  by (simp_all add: f64_epsilon_def)

section \<open>Cancellation and signs\<close>

lemma fadd_cancel:
  fixes x :: f64
  assumes "is_finite x"
  shows "x + (- x) = 0" and "- x + x = 0" and "x - x = 0"
  using assms by (cases x; auto simp: plus_f64_def minus_f64_def f64_simps zero_f64_def)+

lemma uminus_uminus [simp]: "- (- x) = x" for x :: f64
  by (cases x) auto

lemma fabs_nonneg: "x \<noteq> NaN \<Longrightarrow> 0 \<le> \<bar>x\<bar>" for x :: f64
  by (cases x) (auto simp: abs_f64_def zero_f64_def)

lemma fabs_pos [simp]: "0 < x \<Longrightarrow> \<bar>x\<bar> = x" for x :: f64
  by (cases x) (auto simp: abs_f64_def zero_f64_def)

lemma fabs_neg: "x < 0 \<Longrightarrow> \<bar>x\<bar> = - x" for x :: f64
  by (cases x) (auto simp: abs_f64_def zero_f64_def)

lemma fabs_zero_val [simp]: "\<bar>0\<bar> = (0 :: f64)"
  by (simp add: zero_f64_def abs_f64_def)

lemma epsilon_pos [simp]: "0 < f64_epsilon" "\<not> f64_epsilon \<le> 0" "0 \<le> f64_epsilon"
    "\<not> f64_epsilon < 0"
  by (simp_all add: f64_epsilon_def zero_f64_def)

lemma is_finite_epsilon [simp]: "is_finite f64_epsilon" "f64_epsilon \<noteq> NaN"
  by (simp_all add: f64_epsilon_def)

lemma fminus_epsilon_less_0: "x < - f64_epsilon \<Longrightarrow> x < 0" for x :: f64
  by (cases x) (auto simp: f64_epsilon_def zero_f64_def)

lemma fminus_epsilon_abs: "x < - f64_epsilon \<longleftrightarrow> f64_epsilon < - x" for x :: f64
  by (cases x) (auto simp: f64_epsilon_def)

lemma fabs_epsilon_neg: "\<not> 0 < x \<Longrightarrow> is_finite x \<Longrightarrow> f64_epsilon < \<bar>x\<bar> \<Longrightarrow> x < - f64_epsilon"
  for x :: f64
  by (cases x) (auto simp: f64_epsilon_def zero_f64_def abs_f64_def split: if_splits)

section \<open>Integers in binary64\<close>

text \<open>Sums of integers up to 2^53 are exact.\<close>

definition int_f64 :: "int \<Rightarrow> f64" where "int_f64 n = Fin (of_int n)"

lemma int_f64_arith:
  "\<bar>a + b\<bar> \<le> 2 ^ 53 \<Longrightarrow> int_f64 a + int_f64 b = int_f64 (a + b)"
  "\<bar>a - b\<bar> \<le> 2 ^ 53 \<Longrightarrow> int_f64 a - int_f64 b = int_f64 (a - b)"
  "a \<noteq> 0 \<Longrightarrow> - int_f64 a = int_f64 (- a)"
  "\<bar>int_f64 a\<bar> = int_f64 \<bar>a\<bar>"
  using fl_signed_representable [OF representable_of_int [of "a + b"], of False]
    fl_signed_representable [OF representable_of_int [of "a - b"], of False]
  by (simp_all add: int_f64_def arith_Fin abs_Fin)

lemma int_f64_0: "0 = int_f64 0"
  by (simp add: zero_f64_def int_f64_def)

lemma of_int_less_small: "c \<le> 1 \<Longrightarrow> 0 < c \<Longrightarrow> (of_int n < (c :: rat)) = (n \<le> 0)"
proof -
  assume c: "c \<le> 1" "0 < c"
  show "(of_int n < (c :: rat)) = (n \<le> 0)"
  proof (cases "n \<le> 0")
    case True
    then have "of_int n \<le> (0 :: rat)" by simp
    with c True show ?thesis by linarith
  next
    case False
    then have "(1 :: rat) \<le> of_int n" by simp
    with c False show ?thesis by linarith
  qed
qed

lemma int_f64_cmp:
  "int_f64 a < int_f64 b \<longleftrightarrow> a < b" "int_f64 a \<le> int_f64 b \<longleftrightarrow> a \<le> b"
  "f64_epsilon < int_f64 a \<longleftrightarrow> 0 < a" "int_f64 a < f64_epsilon \<longleftrightarrow> a \<le> 0"
  "int_f64 a < - f64_epsilon \<longleftrightarrow> a < 0" "int_f64 a \<noteq> NaN"
  "fmin (int_f64 a) (int_f64 b) = int_f64 (min a b)"
proof -
  have lt: "of_int n < (1 / 2 ^ 52 :: rat) \<longleftrightarrow> n \<le> 0" for n
    by (rule of_int_less_small) simp_all
  have ne: "of_int n \<noteq> (1 / 2 ^ 52 :: rat)" for n
  proof
    assume e: "of_int n = (1 / 2 ^ 52 :: rat)"
    then have "0 < (of_int n :: rat)" "(of_int n :: rat) < 1" by simp_all
    then show False by (simp only: of_int_0_less_iff of_int_less_1_iff)
  qed
  show "f64_epsilon < int_f64 a \<longleftrightarrow> 0 < a"
    using lt [of a] ne [of a] by (auto simp: int_f64_def f64_epsilon_def)
  show "int_f64 a < f64_epsilon \<longleftrightarrow> a \<le> 0"
    using lt [of a] by (auto simp: int_f64_def f64_epsilon_def)
  show "int_f64 a < - f64_epsilon \<longleftrightarrow> a < 0"
    using lt [of "- a"] ne [of "- a"] by (auto simp: int_f64_def f64_epsilon_def)
  show "fmin (int_f64 a) (int_f64 b) = int_f64 (min a b)"
    by (auto simp: fmin_def int_f64_def min_def)
qed (simp_all add: int_f64_def)

end
