(* ===== verification/Market_Types.thy ===== *)
theory Market_Types
  imports F64
begin

text \<open>
  The data of \<open>alm-core\<close>: bars and ticks (\<open>bar.rs\<close>), signals (\<open>signal.rs\<close>), orders and fills
  (\<open>order.rs\<close>), market regimes (\<open>regime.rs\<close>), exit reasons and intra-bar modes (\<open>exit.rs\<close>),
  completed trades (\<open>trade.rs\<close>), events (\<open>event.rs\<close>), and the conversions to and from the wire
  messages (\<open>msg.rs\<close>). A struct is a record whose fields carry a short prefix.
\<close>

section \<open>Bars and ticks\<close>

record bar =
  b_timestamp :: int
  b_symbol :: string
  b_open :: f64
  b_high :: f64
  b_low :: f64
  b_close :: f64
  b_volume :: f64
  b_vwap :: "f64 option"
  b_transactions :: "int option"

definition bar_new :: "int \<Rightarrow> string \<Rightarrow> f64 \<Rightarrow> f64 \<Rightarrow> f64 \<Rightarrow> f64 \<Rightarrow> f64 \<Rightarrow> bar" where
  "bar_new t s o' h l c v =
     \<lparr>b_timestamp = t, b_symbol = s, b_open = o', b_high = h, b_low = l, b_close = c,
      b_volume = v, b_vwap = None, b_transactions = None\<rparr>"

definition typical_price :: "bar \<Rightarrow> f64" where
  "typical_price b = (b_high b + b_low b + b_close b) / lit 3"

record tick =
  tk_timestamp :: int
  tk_symbol :: string
  tk_price :: f64
  tk_volume :: f64
  tk_bid :: "f64 option"
  tk_ask :: "f64 option"

section \<open>Signals\<close>

datatype direction = Long | Short | Exit

record signal =
  sg_timestamp :: int
  sg_symbol :: string
  sg_direction :: direction
  sg_strength :: f64
  sg_price :: "f64 option"
  sg_target_price :: "f64 option"
  sg_stop_price :: "f64 option"
  sg_is_offset :: bool
  sg_reason :: "string option"
  sg_atr :: "f64 option"
  sg_trailing_stop_pct :: "f64 option"
  sg_max_bars_held :: "nat option"

definition signal_of :: "direction \<Rightarrow> int \<Rightarrow> string \<Rightarrow> f64 \<Rightarrow> signal" where
  "signal_of d t s st =
     \<lparr>sg_timestamp = t, sg_symbol = s, sg_direction = d, sg_strength = st, sg_price = None,
      sg_target_price = None, sg_stop_price = None, sg_is_offset = False, sg_reason = None,
      sg_atr = None, sg_trailing_stop_pct = None, sg_max_bars_held = None\<rparr>"

definition signal_long :: "int \<Rightarrow> string \<Rightarrow> f64 \<Rightarrow> signal" where
  "signal_long t s st = signal_of Long t s st"

definition signal_short :: "int \<Rightarrow> string \<Rightarrow> f64 \<Rightarrow> signal" where
  "signal_short t s st = signal_of Short t s st"

definition signal_exit :: "int \<Rightarrow> string \<Rightarrow> signal" where
  "signal_exit t s = signal_of Exit t s (lit 1)"

definition signal_with_atr :: "signal \<Rightarrow> f64 \<Rightarrow> signal" where
  "signal_with_atr s a = s\<lparr>sg_atr := Some a\<rparr>"

section \<open>Orders and fills\<close>

datatype side = Buy | Sell

datatype order_kind = Market | Limit f64

record order_request =
  o_timestamp :: int
  o_symbol :: string
  o_side :: side
  o_kind :: order_kind
  o_qty :: f64

definition order_market :: "int \<Rightarrow> string \<Rightarrow> side \<Rightarrow> f64 \<Rightarrow> order_request" where
  "order_market t s sd q =
     \<lparr>o_timestamp = t, o_symbol = s, o_side = sd, o_kind = Market, o_qty = q\<rparr>"

record fill =
  f_timestamp :: int
  f_symbol :: string
  f_side :: side
  f_qty :: f64
  f_price :: f64
  f_commission :: f64

definition cash_impact :: "fill \<Rightarrow> f64" where
  "cash_impact f =
     (let gross = f_qty f * f_price f
      in case f_side f of
           Buy \<Rightarrow> - (gross + f_commission f)
         | Sell \<Rightarrow> gross - f_commission f)"

section \<open>Market regimes\<close>

record regime_dimension =
  rd_value :: f64
  rd_status :: string

definition dim_new :: "f64 \<Rightarrow> string \<Rightarrow> regime_dimension" where
  "dim_new v s = \<lparr>rd_value = v, rd_status = s\<rparr>"

definition dim_unknown :: regime_dimension where
  "dim_unknown = \<lparr>rd_value = 0, rd_status = ''''\<rparr>"

definition dim_is :: "regime_dimension \<Rightarrow> string \<Rightarrow> bool" where
  "dim_is d s \<longleftrightarrow> rd_status d = s"

definition dim_is_known :: "regime_dimension \<Rightarrow> bool" where
  "dim_is_known d \<longleftrightarrow> rd_status d \<noteq> ''''"

record regime_state =
  rs_trend :: regime_dimension
  rs_volatility :: regime_dimension

definition regime_unknown :: regime_state where
  "regime_unknown = \<lparr>rs_trend = dim_unknown, rs_volatility = dim_unknown\<rparr>"

definition regime_label :: "regime_state \<Rightarrow> string" where
  "regime_label r = rd_status (rs_trend r) @ ''/'' @ rd_status (rs_volatility r)"

record regime_trade_stats =
  rts_label :: string
  rts_trades :: nat
  rts_win_rate_pct :: f64
  rts_avg_return_pct :: f64
  rts_profit_factor :: f64

record regime_summary =
  rsum_changes :: "(int \<times> string) list"
  rsum_trade_breakdown :: "regime_trade_stats list"

section \<open>Exit reasons and completed trades\<close>

datatype exit_reason = RSignal | RStopLoss | RTakeProfit | RTrailingStop | RMaxBarsHeld | REndOfData

fun exit_reason_display :: "exit_reason \<Rightarrow> string" where
  "exit_reason_display RSignal = ''signal''"
| "exit_reason_display RStopLoss = ''stop_loss''"
| "exit_reason_display RTakeProfit = ''take_profit''"
| "exit_reason_display RTrailingStop = ''trailing_stop''"
| "exit_reason_display RMaxBarsHeld = ''max_bars''"
| "exit_reason_display REndOfData = ''end_of_data''"

datatype intra_bar_mode = Pessimistic | OhlcHeuristic

record trade =
  t_symbol :: string
  t_side :: side
  t_qty :: f64
  t_entry_price :: f64
  t_exit_price :: f64
  t_entry_timestamp :: int
  t_exit_timestamp :: int
  t_pnl :: f64
  t_pnl_pct :: f64
  t_commission :: f64
  t_mae_pct :: f64
  t_mfe_pct :: f64
  t_bars_held :: nat
  t_exit_reason :: exit_reason
  t_regime_at_entry :: "regime_state option"

definition is_winner :: "trade \<Rightarrow> bool" where
  "is_winner t \<longleftrightarrow> 0 < t_pnl t"

definition duration_ms_trade :: "trade \<Rightarrow> int" where
  "duration_ms_trade t = t_exit_timestamp t - t_entry_timestamp t"

definition duration_hours :: "trade \<Rightarrow> f64" where
  "duration_hours t = f64_of_int (duration_ms_trade t) / lit 3600000"

section \<open>Events\<close>

datatype event =
    EvMarket bar
  | EvSignal signal
  | EvOrder order_request
  | EvFill fill
  | EvEquity int f64 f64

section \<open>Wire messages\<close>

text \<open>
  \<open>BarMsg\<close> and \<open>SignalMsg\<close> are generated from \<open>proto/market.proto\<close>; their fields are those the
  conversions of \<open>msg.rs\<close> fill in.
\<close>

record bar_msg =
  bm_t :: int
  bm_s :: string
  bm_o :: f64
  bm_h :: f64
  bm_l :: f64
  bm_c :: f64
  bm_v :: f64

definition bar_msg_of_bar :: "bar \<Rightarrow> bar_msg" where
  "bar_msg_of_bar b =
     \<lparr>bm_t = b_timestamp b, bm_s = b_symbol b, bm_o = b_open b, bm_h = b_high b,
      bm_l = b_low b, bm_c = b_close b, bm_v = b_volume b\<rparr>"

definition bar_of_bar_msg :: "bar_msg \<Rightarrow> bar" where
  "bar_of_bar_msg m = bar_new (bm_t m) (bm_s m) (bm_o m) (bm_h m) (bm_l m) (bm_c m) (bm_v m)"

record signal_msg =
  sm_t :: int
  sm_s :: string
  sm_dir :: string
  sm_strength :: f64
  sm_price :: "f64 option"
  sm_target_price :: "f64 option"
  sm_stop_price :: "f64 option"
  sm_is_offset :: "bool option"
  sm_reason :: "string option"
  sm_atr :: "f64 option"
  sm_trailing_stop_pct :: "f64 option"
  sm_max_bars_held :: "int option"

text \<open>\<open>v as i64\<close> on a \<open>usize\<close> wraps around at \<open>2 ^ 63\<close>.\<close>

definition i64_of_usize :: "nat \<Rightarrow> int" where
  "i64_of_usize n = (if n < 2 ^ 63 then int n else int n - 2 ^ 64)"

fun direction_str :: "direction \<Rightarrow> string" where
  "direction_str Long = ''long''"
| "direction_str Short = ''short''"
| "direction_str Exit = ''exit''"

definition signal_msg_of_signal :: "signal \<Rightarrow> signal_msg" where
  "signal_msg_of_signal s =
     \<lparr>sm_t = sg_timestamp s, sm_s = sg_symbol s, sm_dir = direction_str (sg_direction s),
      sm_strength = sg_strength s, sm_price = sg_price s, sm_target_price = sg_target_price s,
      sm_stop_price = sg_stop_price s, sm_is_offset = (if sg_is_offset s then Some True else None),
      sm_reason = sg_reason s, sm_atr = sg_atr s,
      sm_trailing_stop_pct = sg_trailing_stop_pct s,
      sm_max_bars_held = map_option i64_of_usize (sg_max_bars_held s)\<rparr>"

section \<open>Facts\<close>

lemma bar_msg_roundtrip_aux:
  "bar_of_bar_msg (bar_msg_of_bar b) = b\<lparr>b_vwap := None, b_transactions := None\<rparr>"
  by (simp add: bar_of_bar_msg_def bar_msg_of_bar_def bar_new_def)

lemma direction_str_inj: "direction_str d = direction_str d' \<longleftrightarrow> d = d'"
  by (cases d; cases d') simp_all

lemma i64_of_usize_inj:
  assumes "m < 2 ^ 64" and "n < 2 ^ 64"
  shows "i64_of_usize m = i64_of_usize n \<longleftrightarrow> m = n"
  using assms by (auto simp: i64_of_usize_def)

end
