(* ===== verification/Exit_Rules.thy ===== *)
theory Exit_Rules
  imports Market_Types
begin

text \<open>
  \<open>PositionTracker\<close> of \<open>alm-core/src/exit.rs\<close>: the exit levels that travel with a position and
  their evaluation on every bar (trailing stop, signal stop, signal target, time exit).
\<close>

record position_tracker =
  pt_entry_price :: f64
  pt_bars_held :: nat
  pt_stop_price :: "f64 option"
  pt_target_price :: "f64 option"
  pt_trailing_stop_pct :: "f64 option"
  pt_max_bars_held :: "nat option"
  pt_is_long :: bool
  pt_extreme :: f64
  pt_mae :: f64
  pt_mfe :: f64
  pt_legs :: nat
  pt_last_entry_price :: f64

definition tracker_with_levels ::
  "f64 \<Rightarrow> f64 option \<Rightarrow> f64 option \<Rightarrow> f64 option \<Rightarrow> nat option \<Rightarrow> bool \<Rightarrow> position_tracker" where
  "tracker_with_levels entry stop target trail maxb long =
     \<lparr>pt_entry_price = entry, pt_bars_held = 0, pt_stop_price = stop, pt_target_price = target,
      pt_trailing_stop_pct = trail, pt_max_bars_held = maxb, pt_is_long = long,
      pt_extreme = entry, pt_mae = 0, pt_mfe = 0, pt_legs = 1, pt_last_entry_price = entry\<rparr>"

definition tracker_new :: "f64 \<Rightarrow> bool \<Rightarrow> position_tracker" where
  "tracker_new entry long =
     \<lparr>pt_entry_price = entry, pt_bars_held = 0, pt_stop_price = None, pt_target_price = None,
      pt_trailing_stop_pct = None, pt_max_bars_held = None, pt_is_long = long,
      pt_extreme = entry, pt_mae = 0, pt_mfe = 0, pt_legs = 1, pt_last_entry_price = entry\<rparr>"

definition add_leg ::
  "position_tracker \<Rightarrow> f64 \<Rightarrow> f64 option \<Rightarrow> f64 option \<Rightarrow> f64 option \<Rightarrow> nat option \<Rightarrow>
   position_tracker" where
  "add_leg tr entry stop target trail maxb =
     tr\<lparr>pt_legs := pt_legs tr + 1, pt_last_entry_price := entry, pt_entry_price := entry,
        pt_stop_price := stop, pt_target_price := target, pt_trailing_stop_pct := trail,
        pt_max_bars_held := maxb, pt_bars_held := 0, pt_extreme := entry\<rparr>"

section \<open>One bar\<close>

text \<open>The adverse and favourable excursions of the bar, and their running maxima.\<close>

definition excursions :: "position_tracker \<Rightarrow> f64 \<Rightarrow> f64 \<Rightarrow> f64 \<times> f64" where
  "excursions tr high low =
     (if pt_is_long tr
      then ((pt_entry_price tr - low) / pt_entry_price tr,
            (high - pt_entry_price tr) / pt_entry_price tr)
      else ((high - pt_entry_price tr) / pt_entry_price tr,
            (pt_entry_price tr - low) / pt_entry_price tr))"

definition update_excursions :: "position_tracker \<Rightarrow> f64 \<Rightarrow> f64 \<Rightarrow> position_tracker" where
  "update_excursions tr high low =
     (if f64_epsilon < pt_entry_price tr
      then let (adv, fav) = excursions tr high low
           in tr\<lparr>pt_mae := (if pt_mae tr < adv then adv else pt_mae tr),
                 pt_mfe := (if pt_mfe tr < fav then fav else pt_mfe tr)\<rparr>
      else tr)"

definition update_extreme :: "position_tracker \<Rightarrow> f64 \<Rightarrow> f64 \<Rightarrow> position_tracker" where
  "update_extreme tr high low =
     (if pt_is_long tr
      then if pt_extreme tr < high then tr\<lparr>pt_extreme := high\<rparr> else tr
      else if low < pt_extreme tr then tr\<lparr>pt_extreme := low\<rparr> else tr)"

definition tp_first :: "position_tracker \<Rightarrow> f64 \<Rightarrow> f64 \<Rightarrow> intra_bar_mode \<Rightarrow> bool" where
  "tp_first tr opn close mode \<longleftrightarrow>
     mode = OhlcHeuristic \<and>
     ((pt_is_long tr \<and> close < opn) \<or> (\<not> pt_is_long tr \<and> opn < close))"

definition trail_stop_price :: "position_tracker \<Rightarrow> f64 option" where
  "trail_stop_price tr =
     map_option (\<lambda>t. if pt_is_long tr then pt_extreme tr * (lit 1 - t)
                     else pt_extreme tr * (lit 1 + t)) (pt_trailing_stop_pct tr)"

definition check_stop :: "position_tracker \<Rightarrow> f64 \<Rightarrow> f64 \<Rightarrow> f64 \<Rightarrow> bool" where
  "check_stop tr high low level = (if pt_is_long tr then low \<le> level else level \<le> high)"

definition check_target :: "position_tracker \<Rightarrow> f64 \<Rightarrow> f64 \<Rightarrow> f64 \<Rightarrow> bool" where
  "check_target tr high low level = (if pt_is_long tr then level \<le> high else low \<le> level)"

text \<open>\<open>[..].iter().flatten().find(..)\<close>\<close>

definition find_level :: "(f64 \<Rightarrow> bool) \<Rightarrow> (f64 \<times> exit_reason) option list \<Rightarrow> (f64 \<times> exit_reason) option" where
  "find_level chk ls = find (\<lambda>(p, _). chk p) (List.map_filter id ls)"

definition find_stop :: "position_tracker \<Rightarrow> f64 \<Rightarrow> f64 \<Rightarrow> (f64 \<times> exit_reason) option" where
  "find_stop tr high low =
     find_level (check_stop tr high low)
       [map_option (\<lambda>p. (p, RTrailingStop)) (trail_stop_price tr),
        map_option (\<lambda>p. (p, RStopLoss)) (pt_stop_price tr)]"

definition find_target :: "position_tracker \<Rightarrow> f64 \<Rightarrow> f64 \<Rightarrow> (f64 \<times> exit_reason) option" where
  "find_target tr high low =
     find_level (check_target tr high low)
       [map_option (\<lambda>p. (p, RTakeProfit)) (pt_target_price tr)]"

definition or_else :: "'a option \<Rightarrow> 'a option \<Rightarrow> 'a option" where
  "or_else a b = (case a of Some x \<Rightarrow> Some x | None \<Rightarrow> b)"

definition update_and_check ::
  "position_tracker \<Rightarrow> f64 \<Rightarrow> f64 \<Rightarrow> f64 \<Rightarrow> f64 \<Rightarrow> intra_bar_mode \<Rightarrow>
   position_tracker \<times> (f64 \<times> exit_reason) option" where
  "update_and_check tr0 opn high low close mode =
     (let tr1 = tr0\<lparr>pt_bars_held := pt_bars_held tr0 + 1\<rparr>;
          tr2 = update_excursions tr1 high low;
          tr = update_extreme tr2 high low;
          triggered =
            (if tp_first tr opn close mode
             then or_else (find_target tr high low) (find_stop tr high low)
             else or_else (find_stop tr high low) (find_target tr high low))
      in case triggered of
           Some pr \<Rightarrow> (tr, Some pr)
         | None \<Rightarrow>
             (tr, case pt_max_bars_held tr of
                    Some mx \<Rightarrow> if mx \<le> pt_bars_held tr then Some (close, RMaxBarsHeld) else None
                  | None \<Rightarrow> None))"

section \<open>Facts\<close>

lemmas uac_defs = update_and_check_def update_excursions_def update_extreme_def Let_def

lemma uac_tracker:
  "fst (update_and_check tr o' h l c m) =
     update_extreme (update_excursions (tr\<lparr>pt_bars_held := pt_bars_held tr + 1\<rparr>) h l) h l"
  by (simp add: update_and_check_def Let_def split: option.splits)

lemma update_excursions_frame [simp]:
  "pt_entry_price (update_excursions tr h l) = pt_entry_price tr"
  "pt_is_long (update_excursions tr h l) = pt_is_long tr"
  "pt_stop_price (update_excursions tr h l) = pt_stop_price tr"
  "pt_target_price (update_excursions tr h l) = pt_target_price tr"
  "pt_trailing_stop_pct (update_excursions tr h l) = pt_trailing_stop_pct tr"
  "pt_max_bars_held (update_excursions tr h l) = pt_max_bars_held tr"
  "pt_bars_held (update_excursions tr h l) = pt_bars_held tr"
  "pt_extreme (update_excursions tr h l) = pt_extreme tr"
  "pt_legs (update_excursions tr h l) = pt_legs tr"
  "pt_last_entry_price (update_excursions tr h l) = pt_last_entry_price tr"
  by (simp_all add: update_excursions_def split_beta Let_def)

lemma update_extreme_frame [simp]:
  "pt_entry_price (update_extreme tr h l) = pt_entry_price tr"
  "pt_is_long (update_extreme tr h l) = pt_is_long tr"
  "pt_stop_price (update_extreme tr h l) = pt_stop_price tr"
  "pt_target_price (update_extreme tr h l) = pt_target_price tr"
  "pt_trailing_stop_pct (update_extreme tr h l) = pt_trailing_stop_pct tr"
  "pt_max_bars_held (update_extreme tr h l) = pt_max_bars_held tr"
  "pt_bars_held (update_extreme tr h l) = pt_bars_held tr"
  "pt_mae (update_extreme tr h l) = pt_mae tr"
  "pt_mfe (update_extreme tr h l) = pt_mfe tr"
  "pt_legs (update_extreme tr h l) = pt_legs tr"
  "pt_last_entry_price (update_extreme tr h l) = pt_last_entry_price tr"
  by (simp_all add: update_extreme_def)

lemma uac_frame [simp]:
  "pt_entry_price (fst (update_and_check tr o' h l c m)) = pt_entry_price tr"
  "pt_is_long (fst (update_and_check tr o' h l c m)) = pt_is_long tr"
  "pt_stop_price (fst (update_and_check tr o' h l c m)) = pt_stop_price tr"
  "pt_target_price (fst (update_and_check tr o' h l c m)) = pt_target_price tr"
  "pt_bars_held (fst (update_and_check tr o' h l c m)) = Suc (pt_bars_held tr)"
  "pt_max_bars_held (fst (update_and_check tr o' h l c m)) = pt_max_bars_held tr"
  by (simp_all add: uac_tracker)

text \<open>The excursions never decrease, and they start at zero.\<close>

lemma update_excursions_mono:
  assumes "pt_mae tr \<noteq> NaN" and "pt_mfe tr \<noteq> NaN"
  shows "pt_mae tr \<le> pt_mae (update_excursions tr h l)"
    and "pt_mfe tr \<le> pt_mfe (update_excursions tr h l)"
  using assms by (auto simp: update_excursions_def split_beta Let_def fless_imp_le)

lemma uac_mae_mono:
  assumes "0 \<le> pt_mae tr" and "0 \<le> pt_mfe tr"
  shows "pt_mae tr \<le> pt_mae (fst (update_and_check tr o' h l c m))"
    and "pt_mfe tr \<le> pt_mfe (fst (update_and_check tr o' h l c m))"
  using assms update_excursions_mono [of "tr\<lparr>pt_bars_held := pt_bars_held tr + 1\<rparr>" h l]
  by (auto simp: uac_tracker dest!: fle_nan)

lemma find_level_Some:
  "find_level chk ls = Some (p, r) \<Longrightarrow> Some (p, r) \<in> set ls \<and> chk p"
proof -
  assume "find_level chk ls = Some (p, r)"
  then have "(p, r) \<in> set (List.map_filter id ls)" and "chk p"
    by (auto simp: find_level_def find_Some_iff dest: nth_mem)
  then show ?thesis by (force simp: List.map_filter_def)
qed

lemma find_level_None:
  "find_level chk ls = None \<longleftrightarrow> (\<forall>p r. Some (p, r) \<in> set ls \<longrightarrow> \<not> chk p)"
  by (force simp: find_level_def find_None_iff List.map_filter_def)

text \<open>The trailing level that the bar is checked against uses the updated extremum.\<close>

definition stop_levels :: "position_tracker \<Rightarrow> (f64 \<times> exit_reason) set" where
  "stop_levels tr =
     {(p, RTrailingStop) | p. trail_stop_price tr = Some p} \<union>
     {(p, RStopLoss) | p. pt_stop_price tr = Some p}"

lemma find_stop_Some:
  "find_stop tr h l = Some (p, r) \<Longrightarrow> (p, r) \<in> stop_levels tr \<and> check_stop tr h l p"
  by (auto simp: find_stop_def stop_levels_def dest!: find_level_Some)

lemma find_stop_None:
  "find_stop tr h l = None \<longleftrightarrow> (\<forall>(p, r) \<in> stop_levels tr. \<not> check_stop tr h l p)"
  by (cases "trail_stop_price tr"; cases "pt_stop_price tr")
    (auto simp: find_stop_def stop_levels_def find_level_None)

lemma find_target_Some:
  "find_target tr h l = Some (p, r) \<Longrightarrow>
     pt_target_price tr = Some p \<and> r = RTakeProfit \<and> check_target tr h l p"
  by (auto simp: find_target_def dest!: find_level_Some)

lemma find_target_None:
  "find_target tr h l = None \<longleftrightarrow>
     (\<forall>p. pt_target_price tr = Some p \<longrightarrow> \<not> check_target tr h l p)"
  by (auto simp: find_target_def find_level_None)

lemma uac_result:
  "snd (update_and_check tr0 opn h l c m) =
     (let tr = fst (update_and_check tr0 opn h l c m)
      in case (if tp_first tr opn c m then or_else (find_target tr h l) (find_stop tr h l)
               else or_else (find_stop tr h l) (find_target tr h l)) of
           Some pr \<Rightarrow> Some pr
         | None \<Rightarrow> (case pt_max_bars_held tr of
                      Some mx \<Rightarrow> if mx \<le> pt_bars_held tr then Some (c, RMaxBarsHeld) else None
                    | None \<Rightarrow> None))"
  by (simp add: uac_tracker) (simp add: update_and_check_def Let_def split: option.splits)

lemma or_else_None [simp]: "or_else a b = None \<longleftrightarrow> a = None \<and> b = None"
  by (simp add: or_else_def split: option.splits)

lemma or_else_SomeD: "or_else a b = Some x \<Longrightarrow> a = Some x \<or> (a = None \<and> b = Some x)"
  by (auto simp: or_else_def split: option.splits)

section \<open>Properties\<close>

text \<open>C9. Every exit the tracker reports is justified by the bar. A stop-loss exit fills exactly
  at the signal's stop, which the bar's low (long) or high (short) has reached; a trailing exit
  fills exactly at the trailing level derived from the updated extremum; a take-profit exit
  fills exactly at the signal's target, which the bar's high (long) or low (short) has reached;
  a time exit fills at the close and only once the position has been held the maximal number of
  bars. No other reason is ever reported.
\<close>

theorem exit_is_justified:
  assumes "update_and_check tr0 opn h l c m = (tr, Some (p, r))"
  shows "case r of
      RStopLoss \<Rightarrow> pt_stop_price tr0 = Some p \<and> (if pt_is_long tr0 then l \<le> p else p \<le> h)
    | RTrailingStop \<Rightarrow> trail_stop_price tr = Some p \<and> (if pt_is_long tr0 then l \<le> p else p \<le> h)
    | RTakeProfit \<Rightarrow> pt_target_price tr0 = Some p \<and> (if pt_is_long tr0 then p \<le> h else l \<le> p)
    | RMaxBarsHeld \<Rightarrow> p = c \<and> (\<exists>mx. pt_max_bars_held tr0 = Some mx \<and> mx \<le> Suc (pt_bars_held tr0))
    | _ \<Rightarrow> False"
proof -
  have tr: "fst (update_and_check tr0 opn h l c m) = tr" using assms by simp
  have fr: "pt_stop_price tr = pt_stop_price tr0" "pt_target_price tr = pt_target_price tr0"
    "pt_is_long tr = pt_is_long tr0" "pt_max_bars_held tr = pt_max_bars_held tr0"
    "pt_bars_held tr = Suc (pt_bars_held tr0)"
    by (simp_all flip: tr)
  have "Some (p, r) = snd (update_and_check tr0 opn h l c m)" using assms by simp
  then consider "find_stop tr h l = Some (p, r)" | "find_target tr h l = Some (p, r)"
    | mx where "p = c" "r = RMaxBarsHeld" "pt_max_bars_held tr = Some mx" "mx \<le> pt_bars_held tr"
    unfolding uac_result tr Let_def
    by (auto split: option.splits if_splits dest: or_else_SomeD)
  then show ?thesis
  proof cases
    case 1
    then show ?thesis
      by (auto dest!: find_stop_Some simp: stop_levels_def check_stop_def fr)
  next
    case 2
    then show ?thesis by (auto dest!: find_target_Some simp: check_target_def fr)
  next
    case 3
    then show ?thesis by (simp add: fr)
  qed
qed

theorem exit_is_justified_witness:
  "(case RStopLoss of RStopLoss \<Rightarrow>
      pt_stop_price (tracker_with_levels (Fin 100) (Some (Fin 95)) (Some (Fin 110)) None None True)
        = Some (Fin 95) \<and> Fin 94 \<le> Fin 95 | _ \<Rightarrow> False)"
proof -
  let ?tr = "tracker_with_levels (Fin 100) (Some (Fin 95)) (Some (Fin 110)) None None True"
  have "update_and_check ?tr (Fin 99) (Fin 112) (Fin 94) (Fin 108) Pessimistic =
      (fst (update_and_check ?tr (Fin 99) (Fin 112) (Fin 94) (Fin 108) Pessimistic),
       Some (Fin 95, RStopLoss))"
    by (rule prod_eqI) (simp_all add: uac_result Let_def tp_first_def find_stop_def find_level_def
        trail_stop_price_def check_stop_def or_else_def uac_tracker tracker_with_levels_def
        List.map_filter_def)
  from exit_is_justified [OF this] show ?thesis by (simp add: tracker_with_levels_def)
qed

text \<open>In pessimistic mode, and in the heuristic mode whenever the heuristic does not put the
  target first, a bar that touches a stop-side level closes the position on a stop-side reason,
  whatever the target: the optimistic fill is never chosen when both levels are breached.
\<close>

theorem stop_wins_when_both_touched:
  assumes "(p, r) \<in> stop_levels tr" and "check_stop tr h l p"
    and "tr = fst (update_and_check tr0 opn h l c m)" and "\<not> tp_first tr opn c m"
  shows "\<exists>p' r'. snd (update_and_check tr0 opn h l c m) = Some (p', r') \<and>
           (p', r') \<in> stop_levels tr \<and> check_stop tr h l p'"
proof -
  have "find_stop tr h l \<noteq> None" using assms(1,2) by (auto simp: find_stop_None)
  then obtain p' r' where s: "find_stop tr h l = Some (p', r')" by auto
  then have "snd (update_and_check tr0 opn h l c m) = Some (p', r')"
    using assms(4) by (simp add: uac_result or_else_def flip: assms(3))
  with find_stop_Some [OF s] show ?thesis by blast
qed

theorem stop_wins_when_both_touched_witness:
  "\<exists>p' r'. snd (update_and_check (tracker_with_levels (Fin 100) (Some (Fin 95)) (Some (Fin 110))
      None None True) (Fin 99) (Fin 112) (Fin 94) (Fin 108) Pessimistic) = Some (p', r')"
proof -
  let ?tr0 = "tracker_with_levels (Fin 100) (Some (Fin 95)) (Some (Fin 110)) None None True"
  let ?tr = "fst (update_and_check ?tr0 (Fin 99) (Fin 112) (Fin 94) (Fin 108) Pessimistic)"
  have "(Fin 95, RStopLoss) \<in> stop_levels ?tr"
    by (simp add: stop_levels_def tracker_with_levels_def)
  moreover have "check_stop ?tr (Fin 112) (Fin 94) (Fin 95)"
    by (simp add: check_stop_def tracker_with_levels_def)
  moreover have "\<not> tp_first ?tr (Fin 99) (Fin 108) Pessimistic" by (simp add: tp_first_def)
  ultimately show ?thesis using stop_wins_when_both_touched [OF _ _ refl] by blast
qed

text \<open>C10. The trailing stop only ratchets in the position's favour: with a trailing fraction below
  one, the level of a long never falls from bar to bar and the level of a short never rises,
  in spite of rounding.
\<close>

theorem trailing_stop_ratchets:
  assumes "trail_stop_price tr = Some a"
    and "trail_stop_price (fst (update_and_check tr opn h l c m)) = Some b"
    and "pt_trailing_stop_pct tr = Some t" and "pt_extreme tr \<noteq> NaN"
    and "0 < lit 1 - t" "is_finite (lit 1 - t)" "0 < lit 1 + t" "is_finite (lit 1 + t)"
  shows "if pt_is_long tr then a \<le> b else b \<le> a"
proof -
  let ?tr1 = "update_excursions (tr\<lparr>pt_bars_held := pt_bars_held tr + 1\<rparr>) h l"
  have ext: "if pt_is_long tr then pt_extreme tr \<le> pt_extreme (update_extreme ?tr1 h l)
             else pt_extreme (update_extreme ?tr1 h l) \<le> pt_extreme tr"
    using assms(4) by (auto simp: update_extreme_def fless_imp_le)
  have "pt_trailing_stop_pct (update_extreme ?tr1 h l) = Some t" using assms(3) by simp
  then have b: "b = (if pt_is_long tr then pt_extreme (update_extreme ?tr1 h l) * (lit 1 - t)
                     else pt_extreme (update_extreme ?tr1 h l) * (lit 1 + t))"
    using assms(2) unfolding uac_tracker trail_stop_price_def by simp
  have a: "a = (if pt_is_long tr then pt_extreme tr * (lit 1 - t) else pt_extreme tr * (lit 1 + t))"
    using assms(1,3) by (simp add: trail_stop_price_def)
  show ?thesis unfolding a b using ext assms(5-8) by (auto intro: fmul_right_mono)
qed

theorem trailing_stop_ratchets_witness:
  "trail_stop_price (tracker_with_levels (Fin 120) None None (Some (Fin (1 / 4))) None True) =
     Some (Fin 90) \<and>
   trail_stop_price (fst (update_and_check
     (tracker_with_levels (Fin 120) None None (Some (Fin (1 / 4))) None True)
     (Fin 121) (Fin 160) (Fin 119) (Fin 150) Pessimistic)) = Some (Fin 120) \<and> Fin 90 \<le> Fin 120"
proof -
  let ?tr = "tracker_with_levels (Fin 120) None None (Some (Fin (1 / 4))) None True"
  have a: "trail_stop_price ?tr = Some (Fin 90)"
    by (simp add: trail_stop_price_def tracker_with_levels_def f64_simps)
  have b: "trail_stop_price (fst (update_and_check ?tr (Fin 121) (Fin 160) (Fin 119) (Fin 150)
      Pessimistic)) = Some (Fin 120)"
    unfolding uac_tracker
    by (simp add: trail_stop_price_def tracker_with_levels_def f64_simps update_extreme_def
        update_excursions_def excursions_def)
  have "Fin 90 \<le> Fin 120"
    using trailing_stop_ratchets [OF a b] by (simp add: tracker_with_levels_def f64_simps)
  with a b show ?thesis by blast
qed

end
