(* ===== verification/Broker.thy ===== *)
theory Broker
  imports Market_Types
begin

text \<open>
  \<open>alm-engine/src/broker.rs\<close>, the simulated broker: pending orders are filled at the open of the
  next bar of their base symbol (market orders, with slippage) or when the bar reaches their limit.
  \<open>base_symbol\<close> of \<open>engine.rs\<close> is here because the broker is its lowest client.
\<close>

definition base_symbol :: "string \<Rightarrow> string" where
  "base_symbol key = takeWhile (\<lambda>c. c \<noteq> CHR ''#'') key"

record sim_broker =
  br_commission_pct :: f64
  br_slippage_pct :: f64
  br_pending :: "order_request list"

definition broker_new :: "f64 \<Rightarrow> f64 \<Rightarrow> sim_broker" where
  "broker_new c s = \<lparr>br_commission_pct = c, br_slippage_pct = s, br_pending = []\<rparr>"

definition zero_cost :: sim_broker where
  "zero_cost = broker_new 0 0"

definition submit :: "sim_broker \<Rightarrow> order_request \<Rightarrow> sim_broker" where
  "submit br ord = br\<lparr>br_pending := br_pending br @ [ord]\<rparr>"

definition cancel_for_symbol :: "sim_broker \<Rightarrow> string \<Rightarrow> sim_broker" where
  "cancel_for_symbol br s = br\<lparr>br_pending := filter (\<lambda>ord. o_symbol ord \<noteq> s) (br_pending br)\<rparr>"

definition slip :: "sim_broker \<Rightarrow> side \<Rightarrow> f64" where
  "slip br sd = (case sd of Buy \<Rightarrow> 1 + br_slippage_pct br | Sell \<Rightarrow> 1 - br_slippage_pct br)"

text \<open>
  The closure \<open>process_pending\<close> hands to \<open>Vec::retain\<close>: \<open>None\<close> keeps the order, \<open>Some\<close> is the price
  at which it is filled and removed.
\<close>

definition fill_price_of :: "sim_broker \<Rightarrow> bar \<Rightarrow> order_request \<Rightarrow> f64 option" where
  "fill_price_of br b ord =
     (if base_symbol (o_symbol ord) \<noteq> b_symbol b then None
      else case o_kind ord of
             Market \<Rightarrow> Some (b_open b * slip br (o_side ord))
           | Limit price \<Rightarrow>
               (case o_side ord of
                  Buy \<Rightarrow> if b_low b \<le> price then Some (fmin (b_open b) price) else None
                | Sell \<Rightarrow> if price \<le> b_high b then Some (fmax (b_open b) price) else None))"

definition make_fill :: "sim_broker \<Rightarrow> string \<Rightarrow> side \<Rightarrow> f64 \<Rightarrow> int \<Rightarrow> f64 \<Rightarrow> fill" where
  "make_fill br s sd q ts price =
     \<lparr>f_timestamp = ts, f_symbol = s, f_side = sd, f_qty = q, f_price = price,
      f_commission = price * q * br_commission_pct br\<rparr>"

definition fill_order :: "sim_broker \<Rightarrow> bar \<Rightarrow> order_request \<Rightarrow> fill option" where
  "fill_order br b ord =
     map_option (make_fill br (o_symbol ord) (o_side ord) (o_qty ord) (b_timestamp b))
       (fill_price_of br b ord)"

fun retain_orders :: "sim_broker \<Rightarrow> bar \<Rightarrow> order_request list \<Rightarrow> fill list \<Rightarrow> order_request list \<times> fill list" where
  "retain_orders br b [] fills = ([], fills)"
| "retain_orders br b (ord # ords) fills =
     (case fill_order br b ord of
        None \<Rightarrow> (let (keep, fills') = retain_orders br b ords fills in (ord # keep, fills'))
      | Some f \<Rightarrow> retain_orders br b ords (fills @ [f]))"

definition process_pending :: "sim_broker \<Rightarrow> bar \<Rightarrow> sim_broker \<times> fill list" where
  "process_pending br b =
     (let (keep, fills) = retain_orders br b (br_pending br) []
      in (br\<lparr>br_pending := keep\<rparr>, fills))"

definition force_close :: "sim_broker \<Rightarrow> string \<Rightarrow> f64 \<Rightarrow> side \<Rightarrow> int \<Rightarrow> f64 \<Rightarrow> fill" where
  "force_close br s q sd ts price = make_fill br s sd q ts (price * slip br sd)"

definition has_pending :: "sim_broker \<Rightarrow> bool" where
  "has_pending br \<longleftrightarrow> br_pending br \<noteq> []"

section \<open>Facts\<close>

lemma base_symbol_no_hash [simp]: "CHR ''#'' \<notin> set (base_symbol s)"
  by (auto simp: base_symbol_def dest: set_takeWhileD)

lemma base_symbol_id: "CHR ''#'' \<notin> set s \<Longrightarrow> base_symbol s = s"
  by (auto simp: base_symbol_def takeWhile_eq_all_conv)

lemma base_symbol_idem [simp]: "base_symbol (base_symbol s) = base_symbol s"
  by (rule base_symbol_id) simp

lemma base_symbol_leg: "base_symbol (base_symbol s @ CHR ''#'' # n) = base_symbol s"
  by (simp add: base_symbol_def takeWhile_append takeWhile_idem del: takeWhile_takeWhile)

lemma retain_orders_eq:
  "retain_orders br b ords fills =
     (filter (\<lambda>ord. fill_order br b ord = None) ords, fills @ List.map_filter (fill_order br b) ords)"
  by (induction ords arbitrary: fills) (auto simp: map_filter_simps split: option.split)

lemma process_pending_eq:
  "process_pending br b =
     (br\<lparr>br_pending := filter (\<lambda>ord. fill_order br b ord = None) (br_pending br)\<rparr>,
      List.map_filter (fill_order br b) (br_pending br))"
  by (simp add: process_pending_def retain_orders_eq)

lemma make_fill_sel [simp]:
  "f_timestamp (make_fill br s sd q ts p) = ts" "f_symbol (make_fill br s sd q ts p) = s"
  "f_side (make_fill br s sd q ts p) = sd" "f_qty (make_fill br s sd q ts p) = q"
  "f_price (make_fill br s sd q ts p) = p"
  by (simp_all add: make_fill_def)

lemma force_close_sel [simp]:
  "f_timestamp (force_close br s q sd ts p) = ts" "f_symbol (force_close br s q sd ts p) = s"
  "f_side (force_close br s q sd ts p) = sd" "f_qty (force_close br s q sd ts p) = q"
  by (simp_all add: force_close_def)

lemma submit_sel [simp]:
  "br_pending (submit br ord) = br_pending br @ [ord]"
  "br_commission_pct (submit br ord) = br_commission_pct br"
  "br_slippage_pct (submit br ord) = br_slippage_pct br"
  by (simp_all add: submit_def)

lemma cancel_for_symbol_sel [simp]:
  "br_pending (cancel_for_symbol br s) = filter (\<lambda>ord. o_symbol ord \<noteq> s) (br_pending br)"
  "br_commission_pct (cancel_for_symbol br s) = br_commission_pct br"
  "br_slippage_pct (cancel_for_symbol br s) = br_slippage_pct br"
  by (simp_all add: cancel_for_symbol_def)

lemma fill_order_SomeD:
  assumes "fill_order br b ord = Some f"
  shows "f_symbol f = o_symbol ord" "f_side f = o_side ord" "f_qty f = o_qty ord"
    "f_timestamp f = b_timestamp b" "base_symbol (o_symbol ord) = b_symbol b"
    "fill_price_of br b ord = Some (f_price f)"
  using assms by (auto simp: fill_order_def fill_price_of_def split: if_splits)

section \<open>Properties\<close>

text \<open>C13. A limit order is never filled at a price worse than its limit, and always at a price
  the bar traded: a buy at most at its limit, a sell at least at its limit, both within the bar's
  low and high (for a bar whose open lies between its low and its high).\<close>

theorem limit_fill_never_worse:
  assumes "fill_order br b ord = Some f" and "o_kind ord = Limit price"
    and "b_low b \<le> b_open b" and "b_open b \<le> b_high b"
  shows "(case o_side ord of Buy \<Rightarrow> f_price f \<le> price | Sell \<Rightarrow> price \<le> f_price f) \<and>
    b_low b \<le> f_price f \<and> f_price f \<le> b_high b"
proof -
  have "fill_price_of br b ord = Some (f_price f)" using assms(1) by (rule fill_order_SomeD)
  then consider
      "o_side ord = Buy" "b_low b \<le> price" "f_price f = fmin (b_open b) price"
    | "o_side ord = Sell" "price \<le> b_high b" "f_price f = fmax (b_open b) price"
    using assms(2) by (auto simp: fill_price_of_def split: if_splits side.splits)
  then show ?thesis
  proof cases
    case 1
    moreover have "fmin (b_open b) price \<le> b_open b" using assms(3) by (intro fmin_le) auto
    ultimately show ?thesis using assms(3,4)
      by (auto intro: fmin_ge fmin_le(2) fle_trans)
  next
    case 2
    moreover have "b_open b \<le> fmax (b_open b) price" using assms(3) by (intro fmax_ge) auto
    ultimately show ?thesis using assms(3,4)
      by (auto intro: fmax_le fmax_ge(2) fle_trans)
  qed
qed

definition example_bar :: bar where
  "example_bar = bar_new 60000 ''BTC'' (Fin 100) (Fin 110) (Fin 90) (Fin 105) (Fin 1)"

definition example_limit :: order_request where
  "example_limit = \<lparr>o_timestamp = 0, o_symbol = ''BTC#2'', o_side = Buy, o_kind = Limit (Fin 95), o_qty = Fin 1\<rparr>"

theorem limit_fill_never_worse_witness:
  "\<exists>f. fill_order zero_cost example_bar example_limit = Some f \<and> f_price f \<le> Fin 95 \<and> Fin 90 \<le> f_price f"
proof -
  obtain f where f: "fill_order zero_cost example_bar example_limit = Some f"
    by (simp add: fill_order_def fill_price_of_def example_bar_def example_limit_def bar_new_def base_symbol_def)
  with limit_fill_never_worse [OF f, of "Fin 95"] show ?thesis
    by (auto simp: example_bar_def example_limit_def bar_new_def)
qed

text \<open>Processing the pending orders against a bar splits them without loss: the orders that
  stay are exactly those without a fill, in their order; every fill comes from one pending order of
  the bar's base symbol, in order, with its symbol, side, quantity and the bar's timestamp; no market
  order of the bar's symbol stays pending; and the cost settings are unchanged.\<close>

theorem process_pending_splits:
  "let (br', fills) = process_pending br b;
       gone = filter (\<lambda>ord. fill_order br b ord \<noteq> None) (br_pending br)
   in br_pending br' = filter (\<lambda>ord. fill_order br b ord = None) (br_pending br) \<and>
      map (\<lambda>f. (f_symbol f, f_side f, f_qty f)) fills = map (\<lambda>ord. (o_symbol ord, o_side ord, o_qty ord)) gone \<and>
      list_all (\<lambda>f. f_timestamp f = b_timestamp b \<and> base_symbol (f_symbol f) = b_symbol b) fills \<and>
      \<not> list_ex (\<lambda>ord. o_kind ord = Market \<and> base_symbol (o_symbol ord) = b_symbol b) (br_pending br') \<and>
      br_commission_pct br' = br_commission_pct br \<and> br_slippage_pct br' = br_slippage_pct br"
proof -
  have a: "map (\<lambda>f. (f_symbol f, f_side f, f_qty f)) (List.map_filter (fill_order br b) ords) =
      map (\<lambda>ord. (o_symbol ord, o_side ord, o_qty ord)) (filter (\<lambda>ord. fill_order br b ord \<noteq> None) ords)" for ords
    by (induction ords) (auto simp: map_filter_simps dest: fill_order_SomeD split: option.split)
  have b: "list_all (\<lambda>f. f_timestamp f = b_timestamp b \<and> base_symbol (f_symbol f) = b_symbol b)
      (List.map_filter (fill_order br b) ords)" for ords
    by (induction ords) (auto simp: map_filter_simps fill_order_SomeD split: option.split)
  have c: "\<not> list_ex (\<lambda>ord. o_kind ord = Market \<and> base_symbol (o_symbol ord) = b_symbol b)
      (filter (\<lambda>ord. fill_order br b ord = None) ords)" for ords
    by (auto simp: list_ex_iff fill_order_def fill_price_of_def)
  show ?thesis using a b c by (simp add: process_pending_eq)
qed

end
