(* ===== verification/Portfolios.thy ===== *)
theory Portfolios
  imports Market_Types
begin

text \<open>
  \<open>alm-core/src/portfolio.rs\<close>: positions, cash, the equity curve and the ledger of completed
  trades, with \<open>apply_fill\<close> in full (open, add, close, partial close, reversal, both sides).
\<close>

record position =
  p_symbol :: string
  p_qty :: f64
  p_avg_price :: f64
  p_entry_timestamp :: int
  p_entry_commission :: f64
  p_realized_pnl :: f64

definition unrealized_pnl :: "position \<Rightarrow> f64 \<Rightarrow> f64" where
  "unrealized_pnl p px = (px - p_avg_price p) * p_qty p"

definition market_value :: "position \<Rightarrow> f64 \<Rightarrow> f64" where
  "market_value p px = p_qty p * px"

definition is_long :: "position \<Rightarrow> bool" where "is_long p \<longleftrightarrow> 0 < p_qty p"
definition is_short :: "position \<Rightarrow> bool" where "is_short p \<longleftrightarrow> p_qty p < 0"

record position_summary =
  ps_qty :: f64
  ps_avg_price :: f64
  ps_unrealized_pnl :: f64

record portfolio_snapshot =
  snap_cash :: f64
  snap_equity :: f64
  snap_positions :: "(string, position_summary) hmap"

definition snap_is_flat :: "portfolio_snapshot \<Rightarrow> string \<Rightarrow> bool" where
  "snap_is_flat s sy =
     (case hm_get (snap_positions s) sy of Some p \<Rightarrow> \<bar>ps_qty p\<bar> < f64_epsilon | None \<Rightarrow> True)"

definition snap_is_long :: "portfolio_snapshot \<Rightarrow> string \<Rightarrow> bool" where
  "snap_is_long s sy =
     (case hm_get (snap_positions s) sy of Some p \<Rightarrow> f64_epsilon < ps_qty p | None \<Rightarrow> False)"

definition snap_is_short :: "portfolio_snapshot \<Rightarrow> string \<Rightarrow> bool" where
  "snap_is_short s sy =
     (case hm_get (snap_positions s) sy of Some p \<Rightarrow> ps_qty p < - f64_epsilon | None \<Rightarrow> False)"

definition snap_qty :: "portfolio_snapshot \<Rightarrow> string \<Rightarrow> f64" where
  "snap_qty s sy = (case hm_get (snap_positions s) sy of Some p \<Rightarrow> ps_qty p | None \<Rightarrow> 0)"

record equity_point =
  ep_timestamp :: int
  ep_equity :: f64

record portfolio =
  pf_initial_capital :: f64
  pf_cash :: f64
  pf_positions :: "(string, position) hmap"
  pf_equity_curve :: "equity_point list"
  pf_trades :: "trade list"
  pf_fills :: "fill list"

definition portfolio_new :: "f64 \<Rightarrow> portfolio" where
  "portfolio_new cap =
     \<lparr>pf_initial_capital = cap, pf_cash = cap, pf_positions = [], pf_equity_curve = [],
      pf_trades = [], pf_fills = []\<rparr>"

definition equity :: "portfolio \<Rightarrow> (string, f64) hmap \<Rightarrow> f64" where
  "equity pf prices =
     pf_cash pf +
     fsum (map (\<lambda>(_, p). market_value p
             (case hm_get prices (p_symbol p) of Some px \<Rightarrow> px | None \<Rightarrow> p_avg_price p))
           (pf_positions pf))"

definition record_equity :: "portfolio \<Rightarrow> int \<Rightarrow> (string, f64) hmap \<Rightarrow> portfolio" where
  "record_equity pf ts prices =
     pf\<lparr>pf_equity_curve := pf_equity_curve pf @
          [\<lparr>ep_timestamp = ts, ep_equity = equity pf prices\<rparr>]\<rparr>"

section \<open>Applying a fill\<close>

text \<open>The part of a commission that belongs to \<open>part\<close> of the quantity \<open>whole\<close>.\<close>

definition prorata :: "f64 \<Rightarrow> f64 \<Rightarrow> f64 \<Rightarrow> f64" where
  "prorata commission part whole =
     (if f64_epsilon < whole then commission * (part / whole) else 0)"

definition closing_trade ::
  "position \<Rightarrow> fill \<Rightarrow> side \<Rightarrow> f64 \<Rightarrow> f64 \<Rightarrow> f64 \<Rightarrow> trade" where
  "closing_trade pos f sd q pnl comm =
     \<lparr>t_symbol = f_symbol f, t_side = sd, t_qty = q, t_entry_price = p_avg_price pos,
      t_exit_price = f_price f, t_entry_timestamp = p_entry_timestamp pos,
      t_exit_timestamp = f_timestamp f, t_pnl = pnl,
      t_pnl_pct = (if f64_epsilon < \<bar>p_avg_price pos\<bar> then pnl / (p_avg_price pos * q) else 0),
      t_commission = comm, t_mae_pct = 0, t_mfe_pct = 0, t_bars_held = 0,
      t_exit_reason = RSignal, t_regime_at_entry = None\<rparr>"

text \<open>
  \<open>Side::Buy\<close>: covering a short (with the excess flipping into a long), or opening and
  adding to a long. The result is the position, the completed trade and whether the position
  is removed.
\<close>

definition apply_buy :: "position \<Rightarrow> fill \<Rightarrow> position \<times> trade option \<times> bool" where
  "apply_buy pos f =
     (if p_qty pos < - f64_epsilon
      then let existing_qty = \<bar>p_qty pos\<bar>;
               covered_qty = fmin (f_qty f) existing_qty;
               entry_commission = prorata (p_entry_commission pos) covered_qty existing_qty;
               exit_commission = prorata (f_commission f) covered_qty (f_qty f);
               pnl = (p_avg_price pos - f_price f) * covered_qty - entry_commission - exit_commission;
               trade = (if 0 < covered_qty
                        then Some (closing_trade pos f Sell covered_qty pnl
                                     (entry_commission + exit_commission)) else None);
               pos1 = pos\<lparr>p_realized_pnl := p_realized_pnl pos + pnl,
                          p_entry_commission := p_entry_commission pos - entry_commission\<rparr>;
               reversal_qty = f_qty f - covered_qty
           in if f64_epsilon < reversal_qty
              then (pos1\<lparr>p_qty := reversal_qty, p_avg_price := f_price f,
                         p_entry_timestamp := f_timestamp f,
                         p_entry_commission := f_commission f - exit_commission\<rparr>, trade, False)
              else let new_qty = p_qty pos1 + covered_qty
                   in if \<bar>new_qty\<bar> < f64_epsilon then (pos1, trade, True)
                      else (pos1\<lparr>p_qty := new_qty\<rparr>, trade, False)
      else let new_qty = p_qty pos + f_qty f;
               pos1 = (if f64_epsilon < \<bar>new_qty\<bar>
                       then pos\<lparr>p_avg_price := (p_avg_price pos * p_qty pos + f_price f * f_qty f) / new_qty\<rparr>
                       else pos);
               pos2 = (if p_qty pos1 \<le> 0 then pos1\<lparr>p_entry_timestamp := f_timestamp f\<rparr> else pos1)
           in (pos2\<lparr>p_qty := new_qty,
                    p_entry_commission := p_entry_commission pos2 + f_commission f\<rparr>, None, False))"

text \<open>\<open>Side::Sell\<close>: closing a long (with the excess flipping into a short), or opening and adding to a short.\<close>

definition apply_sell :: "position \<Rightarrow> fill \<Rightarrow> position \<times> trade option \<times> bool" where
  "apply_sell pos f =
     (if f64_epsilon < p_qty pos
      then let existing_qty = p_qty pos;
               closed_qty = fmin (f_qty f) existing_qty;
               entry_commission = prorata (p_entry_commission pos) closed_qty existing_qty;
               exit_commission = prorata (f_commission f) closed_qty (f_qty f);
               pnl = (f_price f - p_avg_price pos) * closed_qty - entry_commission - exit_commission;
               trade = (if 0 < closed_qty
                        then Some (closing_trade pos f Buy closed_qty pnl
                                     (entry_commission + exit_commission)) else None);
               pos1 = pos\<lparr>p_realized_pnl := p_realized_pnl pos + pnl,
                          p_entry_commission := p_entry_commission pos - entry_commission,
                          p_qty := p_qty pos - closed_qty\<rparr>;
               reversal_qty = f_qty f - closed_qty
           in if f64_epsilon < reversal_qty
              then (pos1\<lparr>p_qty := - reversal_qty, p_avg_price := f_price f,
                         p_entry_timestamp := f_timestamp f,
                         p_entry_commission := f_commission f - exit_commission\<rparr>, trade, False)
              else if \<bar>p_qty pos1\<bar> < f64_epsilon then (pos1, trade, True)
              else (pos1, trade, False)
      else let new_qty = p_qty pos - f_qty f;
               pos1 = (if \<bar>p_qty pos\<bar> < f64_epsilon
                       then pos\<lparr>p_avg_price := f_price f, p_entry_timestamp := f_timestamp f\<rparr>
                       else if f64_epsilon < \<bar>new_qty\<bar>
                       then pos\<lparr>p_avg_price := (p_avg_price pos * \<bar>p_qty pos\<bar> + f_price f * f_qty f) / \<bar>new_qty\<bar>\<rparr>
                       else pos)
           in (pos1\<lparr>p_qty := new_qty,
                    p_entry_commission := p_entry_commission pos1 + f_commission f\<rparr>, None, False))"

definition position_entry :: "portfolio \<Rightarrow> fill \<Rightarrow> position" where
  "position_entry pf f =
     (case hm_get (pf_positions pf) (f_symbol f) of
        Some p \<Rightarrow> p
      | None \<Rightarrow> \<lparr>p_symbol = f_symbol f, p_qty = 0, p_avg_price = 0,
                 p_entry_timestamp = f_timestamp f, p_entry_commission = 0, p_realized_pnl = 0\<rparr>)"

definition apply_fill :: "portfolio \<Rightarrow> fill \<Rightarrow> portfolio" where
  "apply_fill pf f =
     (let (pos, trade, remove) =
            (case f_side f of
               Buy \<Rightarrow> apply_buy (position_entry pf f) f
             | Sell \<Rightarrow> apply_sell (position_entry pf f) f);
          positions = (if remove then hm_remove (f_symbol f) (pf_positions pf)
                       else hm_insert (f_symbol f) pos (pf_positions pf))
      in pf\<lparr>pf_fills := pf_fills pf @ [f],
            pf_cash := pf_cash pf + cash_impact f,
            pf_positions := positions,
            pf_trades := pf_trades pf @ (case trade of Some t \<Rightarrow> [t] | None \<Rightarrow> [])\<rparr>)"

definition snapshot :: "portfolio \<Rightarrow> (string, f64) hmap \<Rightarrow> portfolio_snapshot" where
  "snapshot pf prices =
     \<lparr>snap_cash = pf_cash pf, snap_equity = equity pf prices,
      snap_positions = map (\<lambda>(sy, pos).
        (sy, \<lparr>ps_qty = p_qty pos, ps_avg_price = p_avg_price pos,
               ps_unrealized_pnl = unrealized_pnl pos
                 (case hm_get prices sy of Some px \<Rightarrow> px | None \<Rightarrow> p_avg_price pos)\<rparr>))
        (pf_positions pf)\<rparr>"

definition total_return :: "portfolio \<Rightarrow> f64" where
  "total_return pf =
     (let last_equity = (case last_opt (pf_equity_curve pf) of
                           Some p \<Rightarrow> ep_equity p | None \<Rightarrow> pf_cash pf)
      in (last_equity - pf_initial_capital pf) / pf_initial_capital pf)"

section \<open>Facts\<close>

lemma apply_fill_frame [simp]:
  "pf_initial_capital (apply_fill pf f) = pf_initial_capital pf"
  "pf_equity_curve (apply_fill pf f) = pf_equity_curve pf"
  "pf_fills (apply_fill pf f) = pf_fills pf @ [f]"
  "pf_cash (apply_fill pf f) = pf_cash pf + cash_impact f"
  by (simp_all add: apply_fill_def Let_def split_beta)

lemma record_equity_frame [simp]:
  "pf_initial_capital (record_equity pf ts pr) = pf_initial_capital pf"
  "pf_cash (record_equity pf ts pr) = pf_cash pf"
  "pf_positions (record_equity pf ts pr) = pf_positions pf"
  "pf_trades (record_equity pf ts pr) = pf_trades pf"
  "pf_fills (record_equity pf ts pr) = pf_fills pf"
  "pf_equity_curve (record_equity pf ts pr) =
     pf_equity_curve pf @ [\<lparr>ep_timestamp = ts, ep_equity = equity pf pr\<rparr>]"
  by (simp_all add: record_equity_def)

lemma apply_fill_other [simp]:
  "s \<noteq> f_symbol f \<Longrightarrow>
   hm_get (pf_positions (apply_fill pf f)) s = hm_get (pf_positions pf) s"
  by (simp add: apply_fill_def Let_def split_beta)

lemma apply_fill_hm_ok [simp]:
  "hm_ok (pf_positions pf) \<Longrightarrow> hm_ok (pf_positions (apply_fill pf f))"
  by (simp add: apply_fill_def Let_def split_beta)

lemma apply_fill_positions:
  "pf_positions (apply_fill pf f) = hm_remove (f_symbol f) (pf_positions pf) \<or>
   (\<exists>p. pf_positions (apply_fill pf f) = hm_insert (f_symbol f) p (pf_positions pf))"
  by (auto simp: apply_fill_def Let_def split_beta)

lemma apply_fill_keys:
  "set (hm_keys (pf_positions (apply_fill pf f))) \<subseteq> insert (f_symbol f) (set (hm_keys (pf_positions pf)))"
  using apply_fill_positions [of pf f]
  by (elim disjE exE) (simp_all only: hm_keys_insert hm_keys_remove, blast+)

lemma length_hm_insert: "length (hm_insert k v m) \<le> Suc (length m)"
  by (induction m) auto

lemma length_apply_fill: "length (pf_positions (apply_fill pf f)) \<le> Suc (length (pf_positions pf))"
  using apply_fill_positions [of pf f] length_hm_insert length_delete_le [of "f_symbol f" "pf_positions pf"]
  by (metis le_SucI)

lemma apply_buy_symbol [simp]: "p_symbol (fst (apply_buy pos f)) = p_symbol pos"
  by (simp add: apply_buy_def Let_def)

lemma apply_sell_symbol [simp]: "p_symbol (fst (apply_sell pos f)) = p_symbol pos"
  by (simp add: apply_sell_def Let_def)

text \<open>Every position is filed under its own symbol.\<close>

definition positions_keyed :: "portfolio \<Rightarrow> bool" where
  "positions_keyed pf \<longleftrightarrow>
     hm_ok (pf_positions pf) \<and> (\<forall>(k, p) \<in> set (pf_positions pf). p_symbol p = k)"

lemma positions_keyed_get: "positions_keyed pf \<Longrightarrow> hm_get (pf_positions pf) k = Some p \<Longrightarrow> p_symbol p = k"
  by (auto simp: positions_keyed_def dest!: map_of_SomeD)

lemma positions_keyed_iff:
  "positions_keyed pf \<longleftrightarrow> hm_ok (pf_positions pf) \<and>
     (\<forall>k p. hm_get (pf_positions pf) k = Some p \<longrightarrow> p_symbol p = k)"
  by (auto simp: positions_keyed_def dest!: map_of_SomeD)

lemma positions_keyed_apply_fill:
  assumes "positions_keyed pf"
  shows "positions_keyed (apply_fill pf f)"
proof -
  have "p_symbol (position_entry pf f) = f_symbol f"
    using assms by (auto simp: position_entry_def positions_keyed_get split: option.split)
  then show ?thesis using assms
    by (auto simp: positions_keyed_iff apply_fill_def Let_def split_beta
        simp del: map_of_eq_Some_iff split: side.splits if_splits)
qed

text \<open>The cash is the initial capital plus the cash impacts of the fills, in order.\<close>

definition cash_of_fills :: "f64 \<Rightarrow> fill list \<Rightarrow> f64" where
  "cash_of_fills c fs = foldl (\<lambda>c f. c + cash_impact f) c fs"

definition cash_reconciles :: "portfolio \<Rightarrow> bool" where
  "cash_reconciles pf \<longleftrightarrow> pf_cash pf = cash_of_fills (pf_initial_capital pf) (pf_fills pf)"

lemma cash_reconciles_new [simp]: "cash_reconciles (portfolio_new c)"
  by (simp add: cash_reconciles_def cash_of_fills_def portfolio_new_def)

lemma cash_reconciles_apply_fill [simp]: "cash_reconciles pf \<Longrightarrow> cash_reconciles (apply_fill pf f)"
  by (simp add: cash_reconciles_def cash_of_fills_def)

lemma cash_reconciles_record_equity [simp]:
  "cash_reconciles (record_equity pf ts pr) = cash_reconciles pf"
  by (simp add: cash_reconciles_def)

text \<open>A fill that closes exactly the open quantity removes the position.\<close>

lemma fmin_self [simp]: "fmin x x = x"
  by (simp add: fmin_def)

lemma apply_sell_full_close:
  assumes "f64_epsilon < p_qty pos" and "is_finite (p_qty pos)" and "f_qty f = p_qty pos"
  shows "snd (snd (apply_sell pos f))" and "\<exists>t. fst (snd (apply_sell pos f)) = Some t"
proof -
  have "0 < p_qty pos" using epsilon_pos(1) assms(1) by (rule fless_trans)
  moreover have "p_qty pos - p_qty pos = 0" using assms(2) by (rule fadd_cancel)
  ultimately show "snd (snd (apply_sell pos f))" "\<exists>t. fst (snd (apply_sell pos f)) = Some t"
    using assms by (simp_all add: apply_sell_def Let_def)
qed

lemma apply_buy_full_close:
  assumes "p_qty pos < - f64_epsilon" and "is_finite (p_qty pos)" and "f_qty f = \<bar>p_qty pos\<bar>"
  shows "snd (snd (apply_buy pos f))" and "\<exists>t. fst (snd (apply_buy pos f)) = Some t"
proof -
  have neg: "p_qty pos < 0" using assms(1) by (rule fminus_epsilon_less_0)
  then have a: "\<bar>p_qty pos\<bar> = - p_qty pos" by (rule fabs_neg)
  have pos: "0 < - p_qty pos" using neg by (cases "p_qty pos") (auto simp: zero_f64_def)
  have "is_finite (- p_qty pos)" using assms(2) by simp
  then have c: "- p_qty pos - (- p_qty pos) = 0" by (rule fadd_cancel)
  have d: "p_qty pos + - p_qty pos = 0" using assms(2) by (rule fadd_cancel)
  show "snd (snd (apply_buy pos f))" "\<exists>t. fst (snd (apply_buy pos f)) = Some t"
    using assms(1,3) pos by (simp_all add: apply_buy_def Let_def a c d)
qed

section \<open>The signed book\<close>

text \<open>
  The contract of \<open>apply_fill\<close> on quantities: the portfolio is a signed book per symbol, an
  absent position counts as zero, and a fill adds its signed quantity. In binary64 this holds
  exactly wherever the sums are exact, which sums of integers up to 2^53 are.
\<close>

definition net_qty :: "portfolio \<Rightarrow> string \<Rightarrow> f64" where
  "net_qty pf s = (case hm_get (pf_positions pf) s of Some p \<Rightarrow> p_qty p | None \<Rightarrow> 0)"

definition signed_lots :: "side \<Rightarrow> int \<Rightarrow> int" where
  "signed_lots sd k = (case sd of Buy \<Rightarrow> k | Sell \<Rightarrow> - k)"

lemma position_entry_qty: "p_qty (position_entry pf f) = net_qty pf (f_symbol f)"
  by (simp add: position_entry_def net_qty_def split: option.split)

lemma apply_buy_nets:
  assumes "p_qty pos = int_f64 m" "f_qty f = int_f64 k" "0 \<le> k" "\<bar>m\<bar> + k \<le> 2 ^ 53"
  shows "(if snd (snd (apply_buy pos f)) then 0 else p_qty (fst (apply_buy pos f))) = int_f64 (m + k)"
  using assms
  by (auto simp: apply_buy_def Let_def int_f64_cmp int_f64_arith int_f64_0 min_def
      intro!: arg_cong [where f = int_f64])

lemma apply_sell_nets:
  assumes "p_qty pos = int_f64 m" "f_qty f = int_f64 k" "0 \<le> k" "\<bar>m\<bar> + k \<le> 2 ^ 53"
  shows "(if snd (snd (apply_sell pos f)) then 0 else p_qty (fst (apply_sell pos f))) = int_f64 (m - k)"
  using assms
  by (auto simp: apply_sell_def Let_def int_f64_cmp int_f64_arith int_f64_0 min_def)

lemma net_qty_apply_fill:
  "net_qty (apply_fill pf f) s =
     (if s = f_symbol f
      then let r = (case f_side f of Buy \<Rightarrow> apply_buy (position_entry pf f) f
                                   | Sell \<Rightarrow> apply_sell (position_entry pf f) f)
           in if snd (snd r) then 0 else p_qty (fst r)
      else net_qty pf s)"
  by (simp add: net_qty_def apply_fill_def Let_def split_beta)

lemma apply_fill_nets_aux:
  assumes "net_qty pf (f_symbol f) = int_f64 m" "f_qty f = int_f64 k" "0 \<le> k" "\<bar>m\<bar> + k \<le> 2 ^ 53"
  shows "net_qty (apply_fill pf f) s =
    (if s = f_symbol f then int_f64 (m + signed_lots (f_side f) k) else net_qty pf s)"
  using apply_buy_nets [of "position_entry pf f" m f k] apply_sell_nets [of "position_entry pf f" m f k] assms
  by (simp add: net_qty_apply_fill position_entry_qty signed_lots_def Let_def split: side.splits if_splits)

text \<open>The abstract book: the sum of the signed lots of the fills of a symbol.\<close>

definition book :: "(fill \<times> int) list \<Rightarrow> string \<Rightarrow> int" where
  "book fks s = (\<Sum>(f, k) \<leftarrow> fks. if f_symbol f = s then signed_lots (f_side f) k else 0)"

lemma book_bound:
  "\<forall>(f, k) \<in> set fks. 0 \<le> k \<Longrightarrow> \<bar>book fks s\<bar> \<le> sum_list (map snd fks)"
proof (induction fks)
  case (Cons fk fks)
  then show ?case by (cases fk; cases "f_side (fst fk)") (auto simp: book_def signed_lots_def)
qed (simp add: book_def)

lemma fills_net_aux:
  assumes "\<forall>(f, k) \<in> set fks. f_qty f = int_f64 k \<and> 0 \<le> k" and "sum_list (map snd fks) \<le> 2 ^ 53"
  shows "net_qty (foldl apply_fill (portfolio_new c) (map fst fks)) s = int_f64 (book fks s)"
  using assms
proof (induction fks arbitrary: s rule: rev_induct)
  case Nil
  show ?case by (simp add: net_qty_def portfolio_new_def book_def int_f64_0)
next
  case (snoc fk fks)
  obtain f k where fk: "fk = (f, k)" by (cases fk)
  have k: "f_qty f = int_f64 k" "0 \<le> k" using snoc.prems fk by auto
  have le: "\<bar>book fks s\<bar> + k \<le> 2 ^ 53" for s
    using book_bound [of fks s] snoc.prems fk by (auto simp: case_prod_beta)
  have IH: "net_qty (foldl apply_fill (portfolio_new c) (map fst fks)) s = int_f64 (book fks s)" for s
    using snoc k fk by (intro snoc.IH) (auto simp: case_prod_beta)
  show ?case
    using apply_fill_nets_aux [OF IH k le, of s] by (simp add: fk IH book_def)
qed

section \<open>Properties\<close>

text \<open>C11. The portfolio refines a signed book: after any sequence of fills with integral
  quantities (in lots, at most 2^53 in total) the open quantity of every symbol is exactly the
  sum of its signed fills, whatever opens, adds, partial closes, full closes and reversals the
  sequence goes through, and an absent position is a zero quantity.\<close>

theorem portfolio_refines_book:
  assumes "\<forall>(f, k) \<in> set fks. f_qty f = int_f64 k \<and> 0 \<le> k" and "sum_list (map snd fks) \<le> 2 ^ 53"
  shows "net_qty (foldl apply_fill (portfolio_new c) (map fst fks)) s = int_f64 (book fks s)"
  using assms by (rule fills_net_aux)

definition example_fill :: "side \<Rightarrow> int \<Rightarrow> fill" where
  "example_fill sd k = \<lparr>f_timestamp = 1, f_symbol = ''BTC'', f_side = sd, f_qty = int_f64 k,
     f_price = Fin 100, f_commission = 0\<rparr>"

theorem portfolio_refines_book_witness:
  "net_qty (foldl apply_fill (portfolio_new (Fin 1000))
     [example_fill Buy 2, example_fill Sell 5, example_fill Buy 1]) ''BTC'' = int_f64 (- 2)"
  using portfolio_refines_book [of "[(example_fill Buy 2, 2), (example_fill Sell 5, 5), (example_fill Buy 1, 1)]"
      "Fin 1000" "''BTC''"]
  by (simp add: example_fill_def book_def signed_lots_def)


text \<open>Closing exactly the open quantity: a fill on the opposite side whose quantity is the
  absolute open quantity removes the position and appends exactly one completed trade, whose side
  is the side of the closed position and whose quantity is the closed quantity.\<close>

theorem full_close_removes_position:
  assumes "hm_get (pf_positions pf) (f_symbol f) = Some pos" and "is_finite (p_qty pos)"
    and "f64_epsilon < \<bar>p_qty pos\<bar>" and "f_qty f = \<bar>p_qty pos\<bar>"
    and "f_side f = (if 0 < p_qty pos then Sell else Buy)"
  shows "hm_get (pf_positions (apply_fill pf f)) (f_symbol f) = None \<and>
    (\<exists>t. pf_trades (apply_fill pf f) = pf_trades pf @ [t] \<and> t_qty t = \<bar>p_qty pos\<bar> \<and>
         t_side t = (if 0 < p_qty pos then Buy else Sell) \<and>
         t_entry_timestamp t = p_entry_timestamp pos \<and> t_exit_timestamp t = f_timestamp f)"
proof -
  have e: "position_entry pf f = pos" using assms(1) by (simp add: position_entry_def)
  show ?thesis
  proof (cases "0 < p_qty pos")
    case True
    then show ?thesis
      using assms apply_sell_full_close [of pos f]
      by (auto simp: apply_fill_def e Let_def split_beta apply_sell_def closing_trade_def
          split: if_splits)
  next
    case False
    then have "p_qty pos < - f64_epsilon" using assms(2,3) by (rule fabs_epsilon_neg)
    then show ?thesis
      using False assms apply_buy_full_close [of pos f]
      by (auto simp: apply_fill_def e Let_def split_beta apply_buy_def closing_trade_def
          split: if_splits)
  qed
qed


definition example_short :: portfolio where
  "example_short = (portfolio_new (Fin 1000))\<lparr>pf_positions := [(''BTC'',
     \<lparr>p_symbol = ''BTC'', p_qty = int_f64 (- 2), p_avg_price = Fin 90, p_entry_timestamp = 0,
      p_entry_commission = 0, p_realized_pnl = 0\<rparr>)]\<rparr>"

theorem full_close_removes_position_witness:
  "hm_get (pf_positions (apply_fill example_short (example_fill Buy 2))) ''BTC'' = None"
proof -
  let ?p = "the (hm_get (pf_positions example_short) ''BTC'')"
  have "hm_get (pf_positions (apply_fill example_short (example_fill Buy 2)))
      (f_symbol (example_fill Buy 2)) = None"
    by (rule full_close_removes_position [where pos = ?p, THEN conjunct1])
      (simp_all add: example_short_def example_fill_def int_f64_def f64_simps)
  then show ?thesis by (simp add: example_fill_def)
qed

end
