(* ===== verification/Risk.thy ===== *)
theory Risk
  imports Portfolios
begin

text \<open>
  \<open>alm-engine/src/risk\<close>: the seven position sizers, the enum \<open>AnySizer\<close> that selects one at run
  time, and the trait \<open>RiskManager\<close> of \<open>alm-core/src/strategy.rs\<close> as a record of functions over the
  state of the manager. The contract the engine relies on is the locale \<open>risk_guard\<close>.
\<close>

record 'r risk_manager =
  rm_validate :: "'r \<Rightarrow> signal \<Rightarrow> portfolio \<Rightarrow> bool"
  rm_size :: "'r \<Rightarrow> signal \<Rightarrow> portfolio \<Rightarrow> f64 \<Rightarrow> f64"
  rm_on_bar :: "'r \<Rightarrow> bar \<Rightarrow> 'r"

section \<open>What the sizers share\<close>

text \<open>The private \<open>equity\<close> of the sizers: the last point of the curve, or the initial capital.\<close>

definition sizing_equity :: "portfolio \<Rightarrow> f64" where
  "sizing_equity pf =
     (case last_opt (pf_equity_curve pf) of Some p \<Rightarrow> ep_equity p | None \<Rightarrow> pf_initial_capital pf)"

definition same_direction :: "signal \<Rightarrow> position \<Rightarrow> bool" where
  "same_direction sg pos \<longleftrightarrow>
     (case (sg_direction sg, is_long pos) of
        (Long, True) \<Rightarrow> True | (Short, False) \<Rightarrow> True | _ \<Rightarrow> False) \<and> f64_epsilon < \<bar>p_qty pos\<bar>"

definition holds_same_direction :: "signal \<Rightarrow> portfolio \<Rightarrow> bool" where
  "holds_same_direction sg pf =
     (case hm_get (pf_positions pf) (sg_symbol sg) of Some pos \<Rightarrow> same_direction sg pos | None \<Rightarrow> False)"

definition validate_slots :: "nat \<Rightarrow> signal \<Rightarrow> portfolio \<Rightarrow> bool" where
  "validate_slots max_positions sg pf =
     (if sg_direction sg = Exit then True
      else if holds_same_direction sg pf then False
      else length (pf_positions pf) < max_positions)"

definition round_lot :: "f64 \<Rightarrow> f64 \<Rightarrow> f64" where
  "round_lot lot_size raw =
     (if f64_epsilon < lot_size then ffloor (raw / lot_size) * lot_size else raw)"

section \<open>The sizers\<close>

record atr_sizing =
  as_risk_per_trade :: f64
  as_atr_multiplier :: f64
  as_max_positions :: nat
  as_strength_sizing :: bool

definition atr_new :: "f64 \<Rightarrow> f64 \<Rightarrow> nat \<Rightarrow> atr_sizing" where
  "atr_new r m n = \<lparr>as_risk_per_trade = r, as_atr_multiplier = m, as_max_positions = n,
     as_strength_sizing = True\<rparr>"

definition atr_with_strength_sizing :: "atr_sizing \<Rightarrow> bool \<Rightarrow> atr_sizing" where
  "atr_with_strength_sizing s v = s\<lparr>as_strength_sizing := v\<rparr>"

definition atr_validate :: "atr_sizing \<Rightarrow> signal \<Rightarrow> portfolio \<Rightarrow> bool" where
  "atr_validate s sg pf = validate_slots (as_max_positions s) sg pf"

definition atr_size :: "atr_sizing \<Rightarrow> signal \<Rightarrow> portfolio \<Rightarrow> f64 \<Rightarrow> f64" where
  "atr_size s sg pf price =
     (if price \<le> f64_epsilon then 0
      else case sg_atr sg of
             None \<Rightarrow> 0
           | Some a \<Rightarrow>
               if \<not> f64_epsilon < a then 0
               else let stop_dist = a * as_atr_multiplier s
                    in if stop_dist \<le> f64_epsilon then 0
                       else fmax (sizing_equity pf * as_risk_per_trade s / stop_dist) 0)"

record equal_weight =
  ew_max_positions :: nat
  ew_lot_size :: f64
  ew_strength_sizing :: bool

definition equal_weight_new :: "nat \<Rightarrow> equal_weight" where
  "equal_weight_new n = \<lparr>ew_max_positions = n, ew_lot_size = 0, ew_strength_sizing = True\<rparr>"

definition equal_weight_with_lot_size :: "equal_weight \<Rightarrow> f64 \<Rightarrow> equal_weight" where
  "equal_weight_with_lot_size s l = s\<lparr>ew_lot_size := l\<rparr>"

definition equal_weight_with_strength_sizing :: "equal_weight \<Rightarrow> bool \<Rightarrow> equal_weight" where
  "equal_weight_with_strength_sizing s v = s\<lparr>ew_strength_sizing := v\<rparr>"

definition equal_weight_validate :: "equal_weight \<Rightarrow> signal \<Rightarrow> portfolio \<Rightarrow> bool" where
  "equal_weight_validate s sg pf = validate_slots (ew_max_positions s) sg pf"

definition equal_weight_size :: "equal_weight \<Rightarrow> signal \<Rightarrow> portfolio \<Rightarrow> f64 \<Rightarrow> f64" where
  "equal_weight_size s sg pf price =
     (if price \<le> f64_epsilon \<or> ew_max_positions s = 0 then 0
      else let slot = sizing_equity pf / f64_of_nat (ew_max_positions s);
               st = (if ew_strength_sizing s then sg_strength sg else 1);
               raw = slot * st / price
           in round_lot (ew_lot_size s) raw)"

record fixed_fractional =
  ff_risk_per_trade :: f64
  ff_max_positions :: nat
  ff_lot_size :: f64
  ff_strength_sizing :: bool

definition fixed_fractional_new :: "f64 \<Rightarrow> nat \<Rightarrow> fixed_fractional" where
  "fixed_fractional_new r n =
     \<lparr>ff_risk_per_trade = r, ff_max_positions = n, ff_lot_size = 0, ff_strength_sizing = True\<rparr>"

definition fixed_fractional_with_lot_size :: "fixed_fractional \<Rightarrow> f64 \<Rightarrow> fixed_fractional" where
  "fixed_fractional_with_lot_size s l = s\<lparr>ff_lot_size := l\<rparr>"

definition fixed_fractional_with_strength_sizing :: "fixed_fractional \<Rightarrow> bool \<Rightarrow> fixed_fractional" where
  "fixed_fractional_with_strength_sizing s v = s\<lparr>ff_strength_sizing := v\<rparr>"

definition fixed_fractional_validate :: "fixed_fractional \<Rightarrow> signal \<Rightarrow> portfolio \<Rightarrow> bool" where
  "fixed_fractional_validate s sg pf = validate_slots (ff_max_positions s) sg pf"

definition fixed_fractional_size :: "fixed_fractional \<Rightarrow> signal \<Rightarrow> portfolio \<Rightarrow> f64 \<Rightarrow> f64" where
  "fixed_fractional_size s sg pf price =
     (if price \<le> f64_epsilon then 0
      else case sg_stop_price sg of
             None \<Rightarrow> 0
           | Some sl \<Rightarrow>
               let dist = (if sg_is_offset sg then \<bar>sl\<bar> else \<bar>price - sl\<bar>)
               in if dist \<le> f64_epsilon then 0
                  else let raw = sizing_equity pf * ff_risk_per_trade s / dist
                       in round_lot (ff_lot_size s) raw)"

record fixed_quantity =
  fq_qty :: f64
  fq_max_positions :: nat

definition fixed_quantity_new :: "f64 \<Rightarrow> nat \<Rightarrow> fixed_quantity" where
  "fixed_quantity_new q n = \<lparr>fq_qty = q, fq_max_positions = n\<rparr>"

definition fixed_quantity_validate :: "fixed_quantity \<Rightarrow> signal \<Rightarrow> portfolio \<Rightarrow> bool" where
  "fixed_quantity_validate s sg pf = validate_slots (fq_max_positions s) sg pf"

definition fixed_quantity_size :: "fixed_quantity \<Rightarrow> signal \<Rightarrow> portfolio \<Rightarrow> f64 \<Rightarrow> f64" where
  "fixed_quantity_size s sg pf price = fq_qty s"

record fixed_usd =
  fu_amount_usd :: f64
  fu_max_positions :: nat
  fu_lot_size :: f64

definition fixed_usd_new :: "f64 \<Rightarrow> nat \<Rightarrow> fixed_usd" where
  "fixed_usd_new a n = \<lparr>fu_amount_usd = a, fu_max_positions = n, fu_lot_size = 0\<rparr>"

definition fixed_usd_with_lot_size :: "fixed_usd \<Rightarrow> f64 \<Rightarrow> fixed_usd" where
  "fixed_usd_with_lot_size s l = s\<lparr>fu_lot_size := l\<rparr>"

definition fixed_usd_validate :: "fixed_usd \<Rightarrow> signal \<Rightarrow> portfolio \<Rightarrow> bool" where
  "fixed_usd_validate s sg pf =
     (if sg_direction sg = Exit then True
      else if holds_same_direction sg pf then False
      else if pf_cash pf < fu_amount_usd s then False
      else length (pf_positions pf) < fu_max_positions s)"

definition fixed_usd_size :: "fixed_usd \<Rightarrow> signal \<Rightarrow> portfolio \<Rightarrow> f64 \<Rightarrow> f64" where
  "fixed_usd_size s sg pf price =
     (if price \<le> f64_epsilon then 0
      else let raw = fu_amount_usd s / price in round_lot (fu_lot_size s) raw)"

record kelly_sizing =
  ks_win_rate :: f64
  ks_avg_win :: f64
  ks_avg_loss :: f64
  ks_fraction :: f64
  ks_max_positions :: nat
  ks_strength_sizing :: bool

definition kelly_new :: "f64 \<Rightarrow> f64 \<Rightarrow> f64 \<Rightarrow> f64 \<Rightarrow> nat \<Rightarrow> kelly_sizing" where
  "kelly_new wr aw al fr n = \<lparr>ks_win_rate = wr, ks_avg_win = aw, ks_avg_loss = al, ks_fraction = fr,
     ks_max_positions = n, ks_strength_sizing = True\<rparr>"

definition kelly_with_strength_sizing :: "kelly_sizing \<Rightarrow> bool \<Rightarrow> kelly_sizing" where
  "kelly_with_strength_sizing s v = s\<lparr>ks_strength_sizing := v\<rparr>"

definition kelly_f :: "f64 \<Rightarrow> f64 \<Rightarrow> f64 \<Rightarrow> f64" where
  "kelly_f win_rate avg_win avg_loss =
     (if avg_win < f64_epsilon \<or> avg_loss < f64_epsilon then 0
      else win_rate - (1 - win_rate) / (avg_win / avg_loss))"

definition kelly_validate :: "kelly_sizing \<Rightarrow> signal \<Rightarrow> portfolio \<Rightarrow> bool" where
  "kelly_validate s sg pf = validate_slots (ks_max_positions s) sg pf"

text \<open>The win rate, average win and average loss the formula is fed with.\<close>

definition kelly_inputs :: "kelly_sizing \<Rightarrow> portfolio \<Rightarrow> f64 \<times> f64 \<times> f64" where
  "kelly_inputs s pf =
     (if pf_trades pf = [] then (ks_win_rate s, ks_avg_win s, ks_avg_loss s)
      else let wins = filter is_winner (pf_trades pf);
               losses = filter (\<lambda>t. \<not> is_winner t) (pf_trades pf);
               wr = f64_of_nat (length wins) / f64_of_nat (length (pf_trades pf));
               aw = (if wins = [] then ks_avg_win s
                     else fsum (map t_pnl_pct wins) / f64_of_nat (length wins));
               al = (if losses = [] then ks_avg_loss s
                     else fsum (map (\<lambda>t. \<bar>t_pnl_pct t\<bar>) losses) / f64_of_nat (length losses))
           in (wr, aw, al))"

definition kelly_size :: "kelly_sizing \<Rightarrow> signal \<Rightarrow> portfolio \<Rightarrow> f64 \<Rightarrow> f64" where
  "kelly_size s sg pf price =
     (if price \<le> f64_epsilon then 0
      else let (wr, aw, al) = kelly_inputs s pf;
               f = kelly_f wr aw al
           in if f \<le> 0 then 0
              else let eq = sizing_equity pf;
                       st = (if ks_strength_sizing s then sg_strength sg else 1)
                   in fmax (eq * fmin (ks_fraction s * f) 1 * st / price) 0)"

record percent_equity =
  pe_pct :: f64
  pe_max_positions :: nat
  pe_lot_size :: f64
  pe_strength_sizing :: bool

definition percent_equity_new :: "f64 \<Rightarrow> nat \<Rightarrow> percent_equity" where
  "percent_equity_new p n = \<lparr>pe_pct = p, pe_max_positions = n, pe_lot_size = 1, pe_strength_sizing = True\<rparr>"

definition percent_equity_fractional :: "f64 \<Rightarrow> nat \<Rightarrow> percent_equity" where
  "percent_equity_fractional p n =
     \<lparr>pe_pct = p, pe_max_positions = n, pe_lot_size = 0, pe_strength_sizing = True\<rparr>"

definition percent_equity_with_lot_size :: "percent_equity \<Rightarrow> f64 \<Rightarrow> percent_equity" where
  "percent_equity_with_lot_size s l = s\<lparr>pe_lot_size := l\<rparr>"

definition percent_equity_with_strength_sizing :: "percent_equity \<Rightarrow> bool \<Rightarrow> percent_equity" where
  "percent_equity_with_strength_sizing s v = s\<lparr>pe_strength_sizing := v\<rparr>"

definition percent_equity_validate :: "percent_equity \<Rightarrow> signal \<Rightarrow> portfolio \<Rightarrow> bool" where
  "percent_equity_validate s sg pf = validate_slots (pe_max_positions s) sg pf"

definition percent_equity_size :: "percent_equity \<Rightarrow> signal \<Rightarrow> portfolio \<Rightarrow> f64 \<Rightarrow> f64" where
  "percent_equity_size s sg pf price =
     (if price \<le> f64_epsilon then 0
      else let st = (if pe_strength_sizing s then sg_strength sg else 1);
               raw = pf_cash pf * pe_pct s * st / price
           in round_lot (pe_lot_size s) raw)"

section \<open>The run-time choice\<close>

datatype any_sizer =
    FixedFractional fixed_fractional
  | PercentEquity percent_equity
  | FixedUsd fixed_usd
  | FixedQuantity fixed_quantity
  | EqualWeight equal_weight
  | AtrSizer atr_sizing
  | KellySizer kelly_sizing

fun any_validate :: "any_sizer \<Rightarrow> signal \<Rightarrow> portfolio \<Rightarrow> bool" where
  "any_validate (FixedFractional s) = fixed_fractional_validate s"
| "any_validate (PercentEquity s) = percent_equity_validate s"
| "any_validate (FixedUsd s) = fixed_usd_validate s"
| "any_validate (FixedQuantity s) = fixed_quantity_validate s"
| "any_validate (EqualWeight s) = equal_weight_validate s"
| "any_validate (AtrSizer s) = atr_validate s"
| "any_validate (KellySizer s) = kelly_validate s"

fun any_size :: "any_sizer \<Rightarrow> signal \<Rightarrow> portfolio \<Rightarrow> f64 \<Rightarrow> f64" where
  "any_size (FixedFractional s) = fixed_fractional_size s"
| "any_size (PercentEquity s) = percent_equity_size s"
| "any_size (FixedUsd s) = fixed_usd_size s"
| "any_size (FixedQuantity s) = fixed_quantity_size s"
| "any_size (EqualWeight s) = equal_weight_size s"
| "any_size (AtrSizer s) = atr_size s"
| "any_size (KellySizer s) = kelly_size s"

definition any_on_bar :: "any_sizer \<Rightarrow> bar \<Rightarrow> any_sizer" where
  "any_on_bar s b = s"

definition any_sizer_manager :: "any_sizer risk_manager" where
  "any_sizer_manager = \<lparr>rm_validate = any_validate, rm_size = any_size, rm_on_bar = any_on_bar\<rparr>"

section \<open>The contract of a risk manager\<close>

text \<open>
  What the engine can rely on: exits always pass, an entry in the direction of an open position of
  the same symbol never passes, and an entry only passes while fewer than \<open>cap\<close> positions are open.
\<close>

locale risk_guard =
  fixes validate :: "'r \<Rightarrow> signal \<Rightarrow> portfolio \<Rightarrow> bool" and cap :: "'r \<Rightarrow> nat"
  assumes exit_passes: "sg_direction sg = Exit \<Longrightarrow> validate r sg pf"
    and no_same_direction: "sg_direction sg \<noteq> Exit \<Longrightarrow> holds_same_direction sg pf \<Longrightarrow> \<not> validate r sg pf"
    and slots: "sg_direction sg \<noteq> Exit \<Longrightarrow> validate r sg pf \<Longrightarrow> length (pf_positions pf) < cap r"
begin

lemma full_rejects: "sg_direction sg \<noteq> Exit \<Longrightarrow> cap r \<le> length (pf_positions pf) \<Longrightarrow> \<not> validate r sg pf"
  using slots by fastforce

text \<open>Filling the orders of one accepted entry keeps the number of positions within the cap.\<close>

lemma accepted_fill_within_cap:
  assumes "sg_direction sg \<noteq> Exit" and "validate r sg pf"
  shows "length (pf_positions (apply_fill pf f)) \<le> cap r"
  using slots [OF assms] length_apply_fill [of pf f] by linarith

end

fun any_cap :: "any_sizer \<Rightarrow> nat" where
  "any_cap (FixedFractional s) = ff_max_positions s"
| "any_cap (PercentEquity s) = pe_max_positions s"
| "any_cap (FixedUsd s) = fu_max_positions s"
| "any_cap (FixedQuantity s) = fq_max_positions s"
| "any_cap (EqualWeight s) = ew_max_positions s"
| "any_cap (AtrSizer s) = as_max_positions s"
| "any_cap (KellySizer s) = ks_max_positions s"

lemmas sizer_validate_defs =
  fixed_fractional_validate_def percent_equity_validate_def fixed_usd_validate_def
  fixed_quantity_validate_def equal_weight_validate_def atr_validate_def kelly_validate_def

interpretation slots: risk_guard validate_slots "\<lambda>n. n"
  by unfold_locales (auto simp: validate_slots_def split: if_splits)

interpretation usd: risk_guard fixed_usd_validate fu_max_positions
  by unfold_locales (auto simp: fixed_usd_validate_def split: if_splits)

interpretation any: risk_guard any_validate any_cap
proof
  fix r :: any_sizer and sg pf
  show "sg_direction sg = Exit \<Longrightarrow> any_validate r sg pf"
    by (cases r) (simp_all add: sizer_validate_defs validate_slots_def)
  show "sg_direction sg \<noteq> Exit \<Longrightarrow> holds_same_direction sg pf \<Longrightarrow> \<not> any_validate r sg pf"
    by (cases r) (simp_all add: sizer_validate_defs validate_slots_def)
  show "sg_direction sg \<noteq> Exit \<Longrightarrow> any_validate r sg pf \<Longrightarrow> length (pf_positions pf) < any_cap r"
    by (cases r) (simp_all add: sizer_validate_defs validate_slots_def split: if_splits)
qed

section \<open>Sizes are never negative\<close>

definition not_neg :: "f64 \<Rightarrow> bool" where "not_neg x \<longleftrightarrow> \<not> x < 0"

lemma not_neg_mul: "not_neg x \<Longrightarrow> not_neg y \<Longrightarrow> not_neg (x * y)"
  using fmul_nonneg [of x y] fle_less_trans [of 0 "x * y" 0] unfolding not_neg_def
  by (cases "x * y = NaN"; cases "x = NaN"; cases "y = NaN")
    (auto simp: fnot_less zero_f64_def times_f64_def Let_def)

lemma not_neg_div: "not_neg x \<Longrightarrow> \<not> y \<le> f64_epsilon \<Longrightarrow> not_neg (x / y)"
  using fdiv_nonneg [of x y] fle_less_trans [of 0 "x / y" 0] fnot_le [of y f64_epsilon]
    fless_trans [of 0 f64_epsilon y] unfolding not_neg_def
  by (cases "x / y = NaN"; cases "x = NaN"; cases "y = NaN")
    (auto simp: fnot_less zero_f64_def [symmetric] divide_f64_def Let_def)

lemma not_neg_floor: "not_neg x \<Longrightarrow> not_neg (ffloor x)"
  by (cases x) (auto simp: zero_f64_def not_neg_def)

lemma not_neg_pos: "f64_epsilon < x \<Longrightarrow> not_neg x" "f64_epsilon < x \<Longrightarrow> \<not> x \<le> f64_epsilon"
  by (cases x; auto simp: zero_f64_def not_neg_def f64_epsilon_def)+

lemma not_neg_round_lot: "not_neg raw \<Longrightarrow> not_neg (round_lot l raw)"
  by (simp add: round_lot_def not_neg_mul not_neg_floor not_neg_div not_neg_pos)

lemma not_neg_fmax_0: "not_neg (fmax x 0)"
  by (auto simp: fmax_def zero_f64_def not_neg_def)

lemma not_neg_const [simp]: "not_neg 0" "not_neg 1"
  by (simp_all add: not_neg_def zero_f64_def one_f64_def)

lemma f64_of_nat_above_epsilon: "0 < n \<Longrightarrow> \<not> f64_of_nat n \<le> f64_epsilon"
  using fl_mono [of 1 "of_nat n"] fle_trans [of "Fin 1" "fl (of_nat n)" f64_epsilon]
  by (auto simp: f64_of_nat_def f64_epsilon_def)

text \<open>A configuration with no negative parameter.\<close>

fun sizer_ok :: "any_sizer \<Rightarrow> bool" where
  "sizer_ok (FixedFractional s) = not_neg (ff_risk_per_trade s)"
| "sizer_ok (PercentEquity s) = not_neg (pe_pct s)"
| "sizer_ok (FixedUsd s) = not_neg (fu_amount_usd s)"
| "sizer_ok (FixedQuantity s) = not_neg (fq_qty s)"
| "sizer_ok (EqualWeight s) = True"
| "sizer_ok (AtrSizer s) = True"
| "sizer_ok (KellySizer s) = True"

lemmas not_neg_rules = not_neg_round_lot not_neg_mul not_neg_div not_neg_fmax_0 f64_of_nat_above_epsilon

lemmas sizer_size_defs =
  fixed_fractional_size_def percent_equity_size_def fixed_usd_size_def fixed_quantity_size_def
  equal_weight_size_def atr_size_def kelly_size_def

section \<open>Properties\<close>

text \<open>C14. The entry guard of every sizer: exit signals always pass; an entry never passes while a
  position of the same symbol is open in the signal's direction; an entry that passes leaves room
  for its position, so filling it keeps the number of open positions within \<open>max_positions\<close>; and the
  fixed-notional sizer never lets an entry through that the cash does not cover.\<close>

theorem sizer_guards_entries:
  "(sg_direction sg = Exit \<longrightarrow> any_validate r sg pf) \<and>
   (sg_direction sg \<noteq> Exit \<and> holds_same_direction sg pf \<longrightarrow> \<not> any_validate r sg pf) \<and>
   (sg_direction sg \<noteq> Exit \<and> any_validate r sg pf \<longrightarrow>
      length (pf_positions (apply_fill pf f)) \<le> any_cap r \<and>
      (\<forall>s. r = FixedUsd s \<longrightarrow> \<not> pf_cash pf < fu_amount_usd s))"
  using any.exit_passes [of sg r pf] any.no_same_direction [of sg pf r]
    any.accepted_fill_within_cap [of sg r pf f]
  by (auto simp: fixed_usd_validate_def split: if_splits)

definition example_signal :: signal where
  "example_signal = signal_long 5 ''BTC'' 1"

theorem sizer_guards_entries_witness:
  "\<not> any_validate (FixedUsd (fixed_usd_new (Fin 2000) 5)) example_signal (portfolio_new (Fin 1000)) \<and>
   any_validate (FixedUsd (fixed_usd_new (Fin 500) 5)) example_signal (portfolio_new (Fin 1000)) \<and>
   length (pf_positions (apply_fill (portfolio_new (Fin 1000)) (example_fill Buy 2))) \<le> 5"
  using sizer_guards_entries [of example_signal "FixedUsd (fixed_usd_new (Fin 500) 5)"
      "portfolio_new (Fin 1000)" "example_fill Buy 2"]
  by (simp add: fixed_usd_validate_def fixed_usd_new_def example_signal_def signal_long_def
      signal_of_def holds_same_direction_def portfolio_new_def)

text \<open>No sizer ever asks for a negative quantity: with non-negative parameters, equity, cash and
  signal strength (NaN allowed everywhere) the size is not negative, for any price; and at a price of
  at most the machine epsilon every sizer but the fixed quantity returns zero, so that the division
  by the price never blows up.\<close>

theorem any_size_not_negative:
  assumes "sizer_ok r" and "not_neg (sizing_equity pf)" and "not_neg (pf_cash pf)"
    and "not_neg (sg_strength sg)"
  shows "not_neg (any_size r sg pf price) \<and>
    (price \<le> f64_epsilon \<longrightarrow> any_size r sg pf price = 0 \<or> (\<exists>s. r = FixedQuantity s))"
  using assms
  by (cases r; cases "price \<le> f64_epsilon"; cases "sg_stop_price sg"; cases "sg_atr sg")
    (auto simp: sizer_size_defs Let_def split_beta intro!: not_neg_rules)

theorem any_size_not_negative_witness:
  "not_neg (any_size (KellySizer (kelly_new (Fin (1/2)) (Fin 2) (Fin 1) (Fin 1) 3)) example_signal
     (portfolio_new (Fin 1000)) (Fin 10))"
  using any_size_not_negative [of "KellySizer (kelly_new (Fin (1/2)) (Fin 2) (Fin 1) (Fin 1) 3)"
      "portfolio_new (Fin 1000)" example_signal "Fin 10"]
  by (simp add: not_neg_def sizing_equity_def portfolio_new_def last_opt_def example_signal_def
      signal_long_def signal_of_def zero_f64_def one_f64_def)

end
