(* ===== verification/Event_Bus.thy ===== *)
theory Event_Bus
  imports Market_Types
begin

text \<open>
  The trait \<open>EventBus\<close> of \<open>alm-core/src/bus.rs\<close> as a locale, and \<open>SyncBus\<close> of
  \<open>alm-engine/src/bus.rs\<close>, the queue the engine uses, as its instance.
\<close>

locale event_bus =
  fixes queue :: "'b \<Rightarrow> event list"
    and send :: "'b \<Rightarrow> event \<Rightarrow> 'b"
    and try_recv :: "'b \<Rightarrow> 'b \<times> event option"
  assumes queue_send: "queue (send b e) = queue b @ [e]"
    and recv_empty: "queue b = [] \<Longrightarrow> try_recv b = (b, None)"
    and recv_cons: "queue b = e # es \<Longrightarrow> \<exists>b'. try_recv b = (b', Some e) \<and> queue b' = es"
begin

lemma queue_sends: "queue (foldl send b es) = queue b @ es"
  by (induction es arbitrary: b) (simp_all add: queue_send)

lemma recv_None_iff: "snd (try_recv b) = None \<longleftrightarrow> queue b = []"
  using recv_empty [of b] recv_cons [of b] by (cases "queue b") force+

lemma recv_SomeD: "try_recv b = (b', Some e) \<Longrightarrow> queue b = e # queue b'"
  using recv_empty [of b] recv_cons [of b] by (cases "queue b") force+

lemma recv_shrinks: "try_recv b = (b', Some e) \<Longrightarrow> length (queue b') < length (queue b)"
  using recv_SomeD by fastforce

end

record sync_bus =
  sb_queue :: "event list"

definition sync_bus_new :: sync_bus where
  "sync_bus_new = \<lparr>sb_queue = []\<rparr>"

definition bus_send :: "sync_bus \<Rightarrow> event \<Rightarrow> sync_bus" where
  "bus_send b e = b\<lparr>sb_queue := sb_queue b @ [e]\<rparr>"

definition bus_try_recv :: "sync_bus \<Rightarrow> sync_bus \<times> event option" where
  "bus_try_recv b =
     (case sb_queue b of [] \<Rightarrow> (b, None) | e # es \<Rightarrow> (b\<lparr>sb_queue := es\<rparr>, Some e))"

interpretation bus: event_bus sb_queue bus_send bus_try_recv
  by unfold_locales (auto simp: bus_send_def bus_try_recv_def)

end
