(* ===== verification/Engine_Core.thy ===== *)
theory Engine_Core
  imports Exit_Rules Broker Risk Event_Bus
begin

text \<open>
  \<open>EngineCore\<close> of \<open>alm-engine/src/core.rs\<close>, the per-bar logic that both engines embed: fills of
  pending orders, exit rules, the equity curve, signals, position sizing, pyramiding, reverse policy,
  regime tags. The risk manager is a parameter: a record of functions and its state \<open>'r\<close>.
  Logging and metrics counters are left out; they change no state the program reads.
\<close>

datatype reverse_policy = RP_Exit | RP_Flip

text \<open>\<open>(target_price, stop_price, trailing_stop_pct, max_bars_held, is_offset)\<close>\<close>

type_synonym levels = "f64 option \<times> f64 option \<times> f64 option \<times> nat option \<times> bool"

record 'r engine_core =
  ec_portfolio :: portfolio
  ec_broker :: sim_broker
  ec_risk :: 'r
  ec_bus :: sync_bus
  ec_last_price :: f64
  ec_intra_bar_mode :: intra_bar_mode
  ec_position_trackers :: "(string, position_tracker) hmap"
  ec_pending_signal_levels :: "(string, levels) hmap"
  ec_single_entry :: bool
  ec_reverse_policy :: "reverse_policy option"
  ec_max_units :: nat
  ec_max_position_pct :: f64
  ec_pyramid_merge :: bool
  ec_warmup_until :: "int option"
  ec_regime_at_entry :: "(string, regime_state) hmap"
  ec_last_regime :: "regime_state option"
  ec_regime_changes :: "(int \<times> string) list"
  ec_metrics_strategy :: string

definition core_new :: "f64 \<Rightarrow> 'r \<Rightarrow> f64 \<Rightarrow> f64 \<Rightarrow> 'r engine_core" where
  "core_new capital risk commission slippage =
     \<lparr>ec_portfolio = portfolio_new capital, ec_broker = broker_new commission slippage,
      ec_risk = risk, ec_bus = sync_bus_new, ec_last_price = 0,
      ec_intra_bar_mode = Pessimistic, ec_position_trackers = [], ec_pending_signal_levels = [],
      ec_single_entry = False, ec_reverse_policy = None, ec_max_units = 1,
      ec_max_position_pct = 0, ec_pyramid_merge = True, ec_warmup_until = None,
      ec_regime_at_entry = [], ec_last_regime = None, ec_regime_changes = [],
      ec_metrics_strategy = ''''\<rparr>"

section \<open>Builders\<close>

definition core_single_entry :: "'r engine_core \<Rightarrow> 'r engine_core" where
  "core_single_entry c = c\<lparr>ec_single_entry := True\<rparr>"

definition core_reverse_policy :: "'r engine_core \<Rightarrow> reverse_policy \<Rightarrow> 'r engine_core" where
  "core_reverse_policy c p = c\<lparr>ec_reverse_policy := Some p\<rparr>"

definition core_pyramiding :: "'r engine_core \<Rightarrow> nat \<Rightarrow> f64 \<Rightarrow> 'r engine_core" where
  "core_pyramiding c n p = c\<lparr>ec_max_units := max n 1, ec_max_position_pct := fmax p 0\<rparr>"

definition core_independent_legs :: "'r engine_core \<Rightarrow> 'r engine_core" where
  "core_independent_legs c = c\<lparr>ec_pyramid_merge := False\<rparr>"

definition core_warmup_until :: "'r engine_core \<Rightarrow> int \<Rightarrow> 'r engine_core" where
  "core_warmup_until c t = c\<lparr>ec_warmup_until := (if 0 < t then Some t else None)\<rparr>"

definition core_intra_bar_mode :: "'r engine_core \<Rightarrow> intra_bar_mode \<Rightarrow> 'r engine_core" where
  "core_intra_bar_mode c md = c\<lparr>ec_intra_bar_mode := md\<rparr>"

section \<open>Position helpers\<close>

definition resolve_offset_levels ::
  "f64 \<Rightarrow> f64 option \<Rightarrow> f64 option \<Rightarrow> bool \<Rightarrow> bool \<Rightarrow> f64 option \<times> f64 option" where
  "resolve_offset_levels price target stop is_offset long =
     (if \<not> is_offset then (target, stop)
      else (map_option (\<lambda>d. if long then price + \<bar>d\<bar> else price - \<bar>d\<bar>) target,
            map_option (\<lambda>d. if long then price - \<bar>d\<bar> else price + \<bar>d\<bar>) stop))"

definition on_side :: "side \<Rightarrow> position \<Rightarrow> bool" where
  "on_side sd p = (case sd of Buy \<Rightarrow> is_long p | Sell \<Rightarrow> is_short p)"

definition opposite :: "side \<Rightarrow> side" where
  "opposite sd = (case sd of Buy \<Rightarrow> Sell | Sell \<Rightarrow> Buy)"

definition open_leg :: "string \<Rightarrow> string \<times> position \<Rightarrow> bool" where
  "open_leg base = (\<lambda>(k, p). base_symbol k = base \<and> f64_epsilon < \<bar>p_qty p\<bar>)"

definition same_dir_legs :: "'r engine_core \<Rightarrow> string \<Rightarrow> side \<Rightarrow> (string \<times> f64 \<times> f64) list" where
  "same_dir_legs c base sd =
     map (\<lambda>(k, p). (k, p_avg_price p, p_qty p))
       (filter (\<lambda>kp. open_leg base kp \<and> on_side sd (snd kp)) (pf_positions (ec_portfolio c)))"

text \<open>The decimal rendering of \<open>format!("{base}#{i}")\<close>.\<close>

definition digit :: "nat \<Rightarrow> char" where "digit d = char_of (48 + d)"

fun show_nat :: "nat \<Rightarrow> string" where
  "show_nat n = (if n < 10 then [digit n] else show_nat (n div 10) @ [digit (n mod 10)])"

definition leg_key :: "string \<Rightarrow> nat \<Rightarrow> string" where
  "leg_key base i = base @ CHR ''#'' # show_nat i"

definition digits_val :: "string \<Rightarrow> nat" where
  "digits_val s = foldl (\<lambda>a c. 10 * a + (of_char c - 48)) 0 s"

lemma digits_val_show [simp]: "digits_val (show_nat n) = n"
proof (induction n rule: show_nat.induct)
  case (1 n)
  have d: "of_char (digit k) - 48 = k" if "k < 10" for k :: nat
    using that by (simp add: digit_def of_char_of)
  show ?case using 1 d [of "n mod 10"] d [of n]
    by (subst show_nat.simps) (simp add: digits_val_def)
qed

lemma leg_key_inj [simp]: "leg_key base i = leg_key base j \<longleftrightarrow> i = j"
  by (metis append_same_eq digits_val_show leg_key_def list.inject same_append_eq)

text \<open>The loop of \<open>mint_leg_key\<close> ends because the map has finitely many keys.\<close>

function mint_from :: "(string, position) hmap \<Rightarrow> string \<Rightarrow> nat \<Rightarrow> string" where
  "mint_from m base i =
     (if hm_contains m (leg_key base i) then mint_from m base (Suc i) else leg_key base i)"
  by pat_completeness auto
termination
proof (relation "measure (\<lambda>(m, base, i). card {k \<in> set (hm_keys m). \<exists>j\<ge>i. k = leg_key base j})")
  fix m :: "(string, position) hmap" and base i
  assume "hm_contains m (leg_key base i)"
  then have k: "leg_key base i \<in> set (hm_keys m)" by (simp only: hm_contains_iff)
  have "{k \<in> set (hm_keys m). \<exists>j\<ge>Suc i. k = leg_key base j} \<subset> {k \<in> set (hm_keys m). \<exists>j\<ge>i. k = leg_key base j}"
  proof (rule psubsetI)
    show "{k \<in> set (hm_keys m). \<exists>j\<ge>Suc i. k = leg_key base j} \<subseteq> {k \<in> set (hm_keys m). \<exists>j\<ge>i. k = leg_key base j}"
      using Suc_leD by blast
    have "leg_key base i \<in> {k \<in> set (hm_keys m). \<exists>j\<ge>i. k = leg_key base j}" using k by blast
    moreover have "leg_key base i \<notin> {k \<in> set (hm_keys m). \<exists>j\<ge>Suc i. k = leg_key base j}" by simp
    ultimately show "{k \<in> set (hm_keys m). \<exists>j\<ge>Suc i. k = leg_key base j} \<noteq> {k \<in> set (hm_keys m). \<exists>j\<ge>i. k = leg_key base j}"
      by blast
  qed
  then show "((m, base, Suc i), m, base, i) \<in> measure (\<lambda>(m, base, i). card {k \<in> set (hm_keys m). \<exists>j\<ge>i. k = leg_key base j})"
    by (simp add: psubset_card_mono)
qed simp

declare mint_from.simps [simp del]

definition mint_leg_key :: "'r engine_core \<Rightarrow> string \<Rightarrow> string" where
  "mint_leg_key c base = mint_from (pf_positions (ec_portfolio c)) base 2"

definition leg_price_map :: "'r engine_core \<Rightarrow> string \<Rightarrow> f64 \<Rightarrow> (string, f64) hmap" where
  "leg_price_map c base price =
     foldl (\<lambda>m k. if base_symbol k = base then hm_insert k price m else m)
       (hm_insert base price []) (hm_keys (pf_positions (ec_portfolio c)))"

section \<open>Events\<close>

definition core_send :: "'r engine_core \<Rightarrow> event \<Rightarrow> 'r engine_core" where
  "core_send c e = c\<lparr>ec_bus := bus_send (ec_bus c) e\<rparr>"

text \<open>\<open>if let Some(trade) = trades.last_mut() { ... }\<close>, with the exit reason only where the source sets it.\<close>

definition annotate_last_trade ::
  "portfolio \<Rightarrow> position_tracker option \<Rightarrow> regime_state option \<Rightarrow> exit_reason option \<Rightarrow> portfolio" where
  "annotate_last_trade pf tracker regime reason =
     (case tracker of
        None \<Rightarrow> pf
      | Some tr \<Rightarrow> pf\<lparr>pf_trades := update_last (\<lambda>t.
          t\<lparr>t_mae_pct := pt_mae tr, t_mfe_pct := pt_mfe tr, t_bars_held := pt_bars_held tr,
            t_exit_reason := (case reason of Some r \<Rightarrow> r | None \<Rightarrow> t_exit_reason t),
            t_regime_at_entry := (case regime of Some s \<Rightarrow> Some s | None \<Rightarrow> t_regime_at_entry t)\<rparr>)
          (pf_trades pf)\<rparr>)"

definition still_open :: "portfolio \<Rightarrow> string \<Rightarrow> bool" where
  "still_open pf s =
     (case hm_get (pf_positions pf) s of Some p \<Rightarrow> f64_epsilon < \<bar>p_qty p\<bar> | None \<Rightarrow> False)"

definition on_fill :: "'r engine_core \<Rightarrow> fill \<Rightarrow> 'r engine_core" where
  "on_fill c0 f =
     (let c = c0\<lparr>ec_portfolio := apply_fill (ec_portfolio c0) f\<rparr>;
          s = f_symbol f
      in if still_open (ec_portfolio c) s
         then let (tp0, sl0, trail, max_bars, offset) =
                    (case hm_get (ec_pending_signal_levels c) s of
                       Some l \<Rightarrow> l | None \<Rightarrow> (None, None, None, None, False));
                  c1 = c\<lparr>ec_pending_signal_levels := hm_remove s (ec_pending_signal_levels c)\<rparr>;
                  long = (case hm_get (pf_positions (ec_portfolio c1)) s of
                            Some p \<Rightarrow> 0 < p_qty p | None \<Rightarrow> True);
                  (tp, sl) = resolve_offset_levels (f_price f) tp0 sl0 offset long
              in case hm_get (ec_position_trackers c1) s of
                   None \<Rightarrow>
                     c1\<lparr>ec_position_trackers := hm_insert s
                          (tracker_with_levels (f_price f) sl tp trail max_bars long)
                          (ec_position_trackers c1),
                        ec_regime_at_entry :=
                          (case ec_last_regime c1 of
                             Some st \<Rightarrow> hm_insert s st (ec_regime_at_entry c1)
                           | None \<Rightarrow> ec_regime_at_entry c1)\<rparr>
                 | Some tr \<Rightarrow>
                     if 1 < ec_max_units c1
                     then c1\<lparr>ec_position_trackers := hm_insert s
                               (add_leg tr (f_price f) sl tp trail max_bars) (ec_position_trackers c1)\<rparr>
                     else c1
         else c\<lparr>ec_pending_signal_levels := hm_remove s (ec_pending_signal_levels c),
                ec_regime_at_entry := hm_remove s (ec_regime_at_entry c),
                ec_position_trackers := hm_remove s (ec_position_trackers c),
                ec_portfolio := annotate_last_trade (ec_portfolio c)
                  (hm_get (ec_position_trackers c) s) (hm_get (ec_regime_at_entry c) s) None\<rparr>)"

definition close_order :: "int \<Rightarrow> string \<times> position \<Rightarrow> order_request" where
  "close_order ts = (\<lambda>(k, p). order_market ts k (if is_long p then Sell else Buy) \<bar>p_qty p\<bar>)"

definition close_position_market :: "'r engine_core \<Rightarrow> signal \<Rightarrow> 'r engine_core" where
  "close_position_market c sg =
     foldl (\<lambda>c kp. core_send c (EvOrder (close_order (sg_timestamp sg) kp))) c
       (filter (open_leg (sg_symbol sg)) (pf_positions (ec_portfolio c)))"

section \<open>Opening a position\<close>

definition opposite_legs :: "'r engine_core \<Rightarrow> string \<Rightarrow> side \<Rightarrow> (string \<times> position) list" where
  "opposite_legs c base sd =
     filter (\<lambda>kp. open_leg base kp \<and> on_side (opposite sd) (snd kp)) (pf_positions (ec_portfolio c))"

text \<open>The scratch portfolio in which the opposite legs are already closed at the last price.\<close>

definition flatten_leg :: "sim_broker \<Rightarrow> f64 \<Rightarrow> portfolio \<Rightarrow> string \<Rightarrow> portfolio" where
  "flatten_leg br price pf k =
     (case hm_get (pf_positions pf) k of
        None \<Rightarrow> pf
      | Some p \<Rightarrow>
          pf\<lparr>pf_positions := hm_remove k (pf_positions pf),
             pf_cash := pf_cash pf +
               (p_qty p * price - \<bar>p_qty p\<bar> * price * br_commission_pct br)\<rparr>)"

definition temp_portfolio :: "'r engine_core \<Rightarrow> string \<Rightarrow> side \<Rightarrow> portfolio" where
  "temp_portfolio c base sd =
     (let pf = ec_portfolio c;
          tmp = \<lparr>pf_initial_capital = pf_initial_capital pf, pf_cash = pf_cash pf,
                 pf_positions = pf_positions pf, pf_equity_curve = [], pf_trades = [], pf_fills = []\<rparr>
      in foldl (flatten_leg (ec_broker c) (ec_last_price c)) tmp (map fst (opposite_legs c base sd)))"

definition pyramid_count :: "'r engine_core \<Rightarrow> string \<Rightarrow> (string \<times> f64 \<times> f64) list \<Rightarrow> nat" where
  "pyramid_count c base legs =
     (if ec_pyramid_merge c
      then (case hm_get (ec_position_trackers c) base of Some t \<Rightarrow> pt_legs t | None \<Rightarrow> 1)
      else length legs)"

definition pyramid_last_px :: "'r engine_core \<Rightarrow> string \<Rightarrow> side \<Rightarrow> (string \<times> f64 \<times> f64) list \<Rightarrow> f64" where
  "pyramid_last_px c base sd legs =
     (if ec_pyramid_merge c
      then (case hm_get (ec_position_trackers c) base of
              Some t \<Rightarrow> pt_last_entry_price t | None \<Rightarrow> ec_last_price c)
      else case sd of
             Buy \<Rightarrow> foldl fmax f64_MIN (map (fst \<circ> snd) legs)
           | Sell \<Rightarrow> foldl fmin f64_MAX (map (fst \<circ> snd) legs))"

definition pyramid_allowed ::
  "'r engine_core \<Rightarrow> portfolio \<Rightarrow> string \<Rightarrow> side \<Rightarrow> (string \<times> f64 \<times> f64) list \<Rightarrow> bool" where
  "pyramid_allowed c pf base sd legs \<longleftrightarrow>
     pyramid_count c base legs < ec_max_units c \<and>
     (case sd of Buy \<Rightarrow> pyramid_last_px c base sd legs < ec_last_price c
               | Sell \<Rightarrow> ec_last_price c < pyramid_last_px c base sd legs) \<and>
     \<not> (0 < ec_max_position_pct c \<and>
        (let eq = equity pf (leg_price_map c base (ec_last_price c));
             pos_val = fsum (map (\<lambda>l. \<bar>snd (snd l)\<bar> * ec_last_price c) legs)
         in 0 < eq \<and> ec_max_position_pct c * eq \<le> pos_val))"

text \<open>
  The guards for a symbol that is already held in the signal's direction: \<open>None\<close> is an early return,
  \<open>Some (is_pyramid_add, leg_key)\<close> continues.
\<close>

definition entry_gate ::
  "'r engine_core \<Rightarrow> portfolio \<Rightarrow> signal \<Rightarrow> side \<Rightarrow> (bool \<times> string) option" where
  "entry_gate c pf sg sd =
     (let base = sg_symbol sg; legs = same_dir_legs c base sd
      in if legs = [] then Some (False, base)
         else if 1 < ec_max_units c
         then if pyramid_allowed c pf base sd legs
              then Some (True, if ec_pyramid_merge c then base else mint_leg_key c base)
              else None
         else if ec_single_entry c then None else Some (False, base))"

definition has_levels :: "signal \<Rightarrow> bool" where
  "has_levels sg \<longleftrightarrow> sg_target_price sg \<noteq> None \<or> sg_stop_price sg \<noteq> None \<or>
     sg_trailing_stop_pct sg \<noteq> None \<or> sg_max_bars_held sg \<noteq> None"

definition signal_levels :: "signal \<Rightarrow> levels" where
  "signal_levels sg = (sg_target_price sg, sg_stop_price sg, sg_trailing_stop_pct sg,
     sg_max_bars_held sg, sg_is_offset sg)"

definition enter :: "'r risk_manager \<Rightarrow> 'r engine_core \<Rightarrow> portfolio \<Rightarrow> signal \<Rightarrow> side \<Rightarrow> bool \<Rightarrow> string \<Rightarrow> 'r engine_core" where
  "enter rm c pf sg sd is_add key =
     (if is_add \<or> rm_validate rm (ec_risk c) sg pf
      then let qty = rm_size rm (ec_risk c) sg pf (ec_last_price c)
           in if f64_epsilon < qty
              then let c1 = (if has_levels sg
                             then c\<lparr>ec_pending_signal_levels :=
                                      hm_insert key (signal_levels sg) (ec_pending_signal_levels c)\<rparr>
                             else c)
                   in core_send c1 (EvOrder (order_market (sg_timestamp sg) key sd qty))
              else c
      else c)"

definition open_position :: "'r risk_manager \<Rightarrow> 'r engine_core \<Rightarrow> signal \<Rightarrow> side \<Rightarrow> 'r engine_core" where
  "open_position rm c0 sg sd =
     (let base = sg_symbol sg;
          opp_legs = (case ec_reverse_policy c0 of None \<Rightarrow> [] | Some _ \<Rightarrow> opposite_legs c0 base sd);
          c = foldl (\<lambda>c kp. core_send c (EvOrder (close_order (sg_timestamp sg) kp))) c0 opp_legs;
          opp_legs_closed = (opp_legs \<noteq> [])
      in if opp_legs_closed \<and> ec_reverse_policy c0 = Some RP_Exit then c
         else let pf = (if opp_legs_closed then temp_portfolio c base sd else ec_portfolio c)
              in case entry_gate c pf sg sd of
                   None \<Rightarrow> c
                 | Some (is_add, key) \<Rightarrow> enter rm c pf sg sd is_add key)"

definition on_signal :: "'r risk_manager \<Rightarrow> 'r engine_core \<Rightarrow> signal \<Rightarrow> 'r engine_core" where
  "on_signal rm c sg =
     (case sg_direction sg of
        Exit \<Rightarrow> close_position_market c sg
      | Long \<Rightarrow> open_position rm c sg Buy
      | Short \<Rightarrow> open_position rm c sg Sell)"

definition dispatch :: "'r risk_manager \<Rightarrow> 'r engine_core \<Rightarrow> event \<Rightarrow> 'r engine_core" where
  "dispatch rm c ev =
     (case ev of
        EvMarket _ \<Rightarrow> c
      | EvSignal sg \<Rightarrow> on_signal rm c sg
      | EvOrder ord \<Rightarrow> c\<lparr>ec_broker := submit (ec_broker c) ord\<rparr>
      | EvFill f \<Rightarrow> on_fill c f
      | EvEquity _ _ _ \<Rightarrow> c)"

section \<open>What a signal does\<close>

lemma core_send_eq:
  "core_send c e = c\<lparr>ec_bus := ec_bus c\<lparr>sb_queue := sb_queue (ec_bus c) @ [e]\<rparr>\<rparr>"
  by (simp add: core_send_def bus_send_def)

lemma core_sends_eq:
  "foldl (\<lambda>c x. core_send c (g x)) c xs =
     c\<lparr>ec_bus := ec_bus c\<lparr>sb_queue := sb_queue (ec_bus c) @ map g xs\<rparr>\<rparr>"
  by (induction xs arbitrary: c) (simp_all add: core_send_eq)

text \<open>The orders a signal emits, and the levels it leaves for the fill.\<close>

definition emits :: "'r engine_core \<Rightarrow> order_request list \<Rightarrow> (string, levels) hmap \<Rightarrow> 'r engine_core" where
  "emits c ords lv =
     c\<lparr>ec_bus := ec_bus c\<lparr>sb_queue := sb_queue (ec_bus c) @ map EvOrder ords\<rparr>,
       ec_pending_signal_levels := lv\<rparr>"

lemma emits_refl: "c = emits c [] (ec_pending_signal_levels c)"
  by (simp add: emits_def)

lemma emits_emits: "emits (emits c ords lv) ords' lv' = emits c (ords @ ords') lv'"
  by (simp add: emits_def)

lemma emits_sends:
  "foldl (\<lambda>c kp. core_send c (EvOrder (g kp))) c xs = emits c (map g xs) (ec_pending_signal_levels c)"
  by (simp add: core_sends_eq emits_def o_def)

definition entry_qty :: "'r risk_manager \<Rightarrow> 'r engine_core \<Rightarrow> portfolio \<Rightarrow> signal \<Rightarrow> f64" where
  "entry_qty rm c pf sg = rm_size rm (ec_risk c) sg pf (ec_last_price c)"

lemma enter_eq:
  "enter rm c pf sg sd is_add key =
     (if (is_add \<or> rm_validate rm (ec_risk c) sg pf) \<and> f64_epsilon < entry_qty rm c pf sg
      then emits c [order_market (sg_timestamp sg) key sd (entry_qty rm c pf sg)]
             (if has_levels sg then hm_insert key (signal_levels sg) (ec_pending_signal_levels c)
              else ec_pending_signal_levels c)
      else c)"
  by (simp add: enter_def entry_qty_def emits_def core_send_eq Let_def)

lemma enter_emits: "\<exists>ords lv. enter rm c pf sg sd a k = emits c ords lv"
  unfolding enter_eq using emits_refl by (metis (no_types, lifting))

lemma open_position_emits: "\<exists>ords lv. open_position rm c sg sd = emits c ords lv"
proof -
  have "\<exists>ords' lv'. enter rm (emits c ords lv) pf sg sd a k = emits c ords' lv'" for ords lv pf a k
    using enter_emits [of rm "emits c ords lv" pf sg sd a k] emits_emits by metis
  then show ?thesis
    unfolding open_position_def Let_def emits_sends
    by (auto split: option.splits prod.splits)
qed

lemma on_signal_emits: "\<exists>ords lv. on_signal rm c sg = emits c ords lv"
  using open_position_emits
  by (cases "sg_direction sg") (auto simp: on_signal_def close_position_market_def emits_sends)

section \<open>The event loop\<close>

fun is_signal_ev :: "event \<Rightarrow> bool" where
  "is_signal_ev (EvSignal _) = True"
| "is_signal_ev _ = False"

lemma on_fill_bus [simp]: "ec_bus (on_fill c f) = ec_bus c"
  by (simp add: on_fill_def Let_def split_beta split: option.splits)

lemma dispatch_queue:
  "\<exists>ords. sb_queue (ec_bus (dispatch rm c ev)) = sb_queue (ec_bus c) @ map EvOrder ords \<and>
     (\<not> is_signal_ev ev \<longrightarrow> ords = [])"
proof (cases ev)
  case (EvSignal sg)
  then show ?thesis using on_signal_emits [of rm c sg] by (auto simp: dispatch_def emits_def)
qed (auto simp: dispatch_def)

lemma no_signal_orders [simp]: "filter is_signal_ev (map EvOrder ords) = []"
  by (induction ords) simp_all

text \<open>\<open>while let Some(ev) = self.bus.try_recv() { self.dispatch(ev) }\<close>: a signal turns into orders, which turn into nothing.\<close>

function drain :: "'r risk_manager \<Rightarrow> 'r engine_core \<Rightarrow> 'r engine_core" where
  "drain rm c =
     (case bus_try_recv (ec_bus c) of
        (b, None) \<Rightarrow> c\<lparr>ec_bus := b\<rparr>
      | (b, Some ev) \<Rightarrow> drain rm (dispatch rm (c\<lparr>ec_bus := b\<rparr>) ev))"
  by pat_completeness auto
termination
proof (relation "measures [\<lambda>(rm, c). length (filter is_signal_ev (sb_queue (ec_bus c))),
                           \<lambda>(rm, c). length (sb_queue (ec_bus c))]", simp, goal_cases)
  case (1 rm c b o' ev)
  then have q: "sb_queue (ec_bus c) = ev # sb_queue b" by (intro bus.recv_SomeD) simp
  obtain ords where "sb_queue (ec_bus (dispatch rm (c\<lparr>ec_bus := b\<rparr>) ev)) = sb_queue b @ map EvOrder ords"
      "\<not> is_signal_ev ev \<longrightarrow> ords = []"
    using dispatch_queue [of rm "c\<lparr>ec_bus := b\<rparr>" ev] by auto
  then show ?case by (cases "is_signal_ev ev") (simp_all add: q)
qed

declare drain.simps [simp del]

definition dispatch_signals :: "'r risk_manager \<Rightarrow> 'r engine_core \<Rightarrow> signal list \<Rightarrow> 'r engine_core" where
  "dispatch_signals rm c signals = drain rm (foldl (\<lambda>c sg. core_send c (EvSignal sg)) c signals)"

text \<open>The early drain of \<open>run_base_tick\<close>, with its guard against a runaway queue.\<close>

fun early_drain :: "'r risk_manager \<Rightarrow> nat \<Rightarrow> 'r engine_core \<Rightarrow> 'r engine_core" where
  "early_drain rm guard c =
     (case bus_try_recv (ec_bus c) of
        (b, None) \<Rightarrow> c\<lparr>ec_bus := b\<rparr>
      | (b, Some early) \<Rightarrow>
          (case guard of
             0 \<Rightarrow> core_send (c\<lparr>ec_bus := b\<rparr>) early
           | Suc g \<Rightarrow>
               (case early of
                  EvFill _ \<Rightarrow> early_drain rm g (dispatch rm (c\<lparr>ec_bus := b\<rparr>) early)
                | EvEquity _ _ _ \<Rightarrow> early_drain rm g (dispatch rm (c\<lparr>ec_bus := b\<rparr>) early)
                | other \<Rightarrow> core_send (c\<lparr>ec_bus := b\<rparr>) other)))"

declare early_drain.simps [simp del]

section \<open>Exit checks\<close>

definition exit_close :: "bar \<Rightarrow> 'r engine_core \<Rightarrow> string \<times> f64 \<times> exit_reason \<Rightarrow> 'r engine_core" where
  "exit_close b c0 = (\<lambda>(s, fill_price, reason).
     (let tracker = hm_get (ec_position_trackers c0) s;
          regime = hm_get (ec_regime_at_entry c0) s;
          c = c0\<lparr>ec_position_trackers := hm_remove s (ec_position_trackers c0),
                ec_regime_at_entry := hm_remove s (ec_regime_at_entry c0),
                ec_broker := cancel_for_symbol (ec_broker c0) s\<rparr>
      in case hm_get (pf_positions (ec_portfolio c)) s of
           None \<Rightarrow> c
         | Some pos \<Rightarrow>
             let f = force_close (ec_broker c) s \<bar>p_qty pos\<bar> (if is_long pos then Sell else Buy)
                       (b_timestamp b) fill_price
             in c\<lparr>ec_portfolio := annotate_last_trade (apply_fill (ec_portfolio c) f) tracker regime (Some reason),
                  ec_last_price := fill_price\<rparr>))"

definition check_trackers :: "'r engine_core \<Rightarrow> bar \<Rightarrow> (string \<times> position_tracker \<times> (f64 \<times> exit_reason) option) list" where
  "check_trackers c b =
     map (\<lambda>(s, tr). (s, update_and_check tr (b_open b) (b_high b) (b_low b) (b_close b) (ec_intra_bar_mode c)))
       (ec_position_trackers c)"

definition run_exit_checks :: "'r engine_core \<Rightarrow> bar \<Rightarrow> 'r engine_core" where
  "run_exit_checks c b =
     (let checked = check_trackers c b;
          to_close = List.map_filter (\<lambda>(s, tr, hit). map_option (\<lambda>(p, r). (s, p, r)) hit) checked;
          c1 = c\<lparr>ec_position_trackers := map (\<lambda>(s, tr, _). (s, tr)) checked\<rparr>
      in foldl (exit_close b) c1 to_close)"

section \<open>One bar\<close>

definition warming_up :: "'r engine_core \<Rightarrow> bar \<Rightarrow> bool" where
  "warming_up c b = (case ec_warmup_until c of Some until \<Rightarrow> b_timestamp b < until | None \<Rightarrow> False)"

definition fill_pending :: "'r risk_manager \<Rightarrow> 'r engine_core \<Rightarrow> bar \<Rightarrow> 'r engine_core" where
  "fill_pending rm c b =
     (let (br, fills) = process_pending (ec_broker c) b;
          c1 = foldl (\<lambda>c f. core_send c (EvFill f)) (c\<lparr>ec_broker := br\<rparr>) fills
      in early_drain rm (length fills + 2) c1)"

definition mark_equity :: "'r engine_core \<Rightarrow> bar \<Rightarrow> 'r engine_core" where
  "mark_equity c b =
     (let prices = leg_price_map c (b_symbol b) (ec_last_price c);
          c1 = c\<lparr>ec_portfolio := record_equity (ec_portfolio c) (b_timestamp b) prices\<rparr>;
          eq = equity (ec_portfolio c1) prices
      in core_send c1 (EvEquity (b_timestamp b) eq (pf_cash (ec_portfolio c1))))"

definition run_base_tick :: "'r risk_manager \<Rightarrow> 'r engine_core \<Rightarrow> bar \<Rightarrow> 'r engine_core \<times> bool" where
  "run_base_tick rm c0 b =
     (let c = c0\<lparr>ec_last_price := b_close b, ec_risk := rm_on_bar rm (ec_risk c0) b\<rparr>
      in if warming_up c b then (c, False)
         else let c1 = fill_pending rm c b;
                  c2 = run_exit_checks c1 b
              in (mark_equity c2 b, True))"

definition update_regime :: "'r engine_core \<Rightarrow> int \<Rightarrow> regime_state option \<Rightarrow> 'r engine_core" where
  "update_regime c ts state =
     (case state of
        None \<Rightarrow> c
      | Some st \<Rightarrow>
          c\<lparr>ec_regime_changes :=
              (if map_option regime_label (ec_last_regime c) \<noteq> Some (regime_label st)
               then ec_regime_changes c @ [(ts, regime_label st)] else ec_regime_changes c),
            ec_last_regime := Some st\<rparr>)"

definition end_close :: "bar \<Rightarrow> 'r engine_core \<Rightarrow> string \<times> f64 \<Rightarrow> 'r engine_core" where
  "end_close b c = (\<lambda>(s, qty).
     (let tracker = hm_get (ec_position_trackers c) s;
          regime = hm_get (ec_regime_at_entry c) s;
          f = force_close (ec_broker c) s \<bar>qty\<bar> (if 0 < qty then Sell else Buy) (b_timestamp b) (b_close b)
      in c\<lparr>ec_position_trackers := hm_remove s (ec_position_trackers c),
           ec_regime_at_entry := hm_remove s (ec_regime_at_entry c),
           ec_portfolio := annotate_last_trade (apply_fill (ec_portfolio c) f) tracker regime (Some REndOfData)\<rparr>))"

definition force_close_all :: "'r engine_core \<Rightarrow> bar \<Rightarrow> 'r engine_core" where
  "force_close_all c b =
     foldl (end_close b) c
       (map (\<lambda>p. (p_symbol p, p_qty p))
          (filter (\<lambda>p. f64_epsilon < \<bar>p_qty p\<bar>) (map snd (pf_positions (ec_portfolio c)))))"

definition core_reset :: "'r engine_core \<Rightarrow> f64 \<Rightarrow> 'r engine_core" where
  "core_reset c capital =
     c\<lparr>ec_portfolio := portfolio_new capital, ec_position_trackers := [],
       ec_pending_signal_levels := [], ec_regime_at_entry := [], ec_last_regime := None,
       ec_regime_changes := []\<rparr>"

section \<open>The regime summary\<close>

type_synonym bucket = "nat \<times> nat \<times> f64 \<times> f64 \<times> f64"

definition bucket_add :: "(string, bucket) hmap \<Rightarrow> trade \<Rightarrow> (string, bucket) hmap" where
  "bucket_add buckets t =
     (case t_regime_at_entry t of
        None \<Rightarrow> buckets
      | Some st \<Rightarrow>
          let key = regime_label st;
              (n, wins, pct, gain, loss) =
                (case hm_get buckets key of Some e \<Rightarrow> e | None \<Rightarrow> (0, 0, 0, 0, 0))
          in hm_insert key
               (if 0 < t_pnl t then (n + 1, wins + 1, pct + t_pnl_pct t, gain + t_pnl t, loss)
                else (n + 1, wins, pct + t_pnl_pct t, gain, loss + - t_pnl t)) buckets)"

definition bucket_stats :: "string \<times> bucket \<Rightarrow> regime_trade_stats" where
  "bucket_stats = (\<lambda>(label, trades, wins, sum_pct, gain, loss).
     \<lparr>rts_label = label, rts_trades = trades,
      rts_win_rate_pct = (if 0 < trades then lit 100 * f64_of_nat wins / f64_of_nat trades else 0),
      rts_avg_return_pct = (if 0 < trades then lit 100 * sum_pct / f64_of_nat trades else 0),
      rts_profit_factor = (if f64_epsilon < loss then gain / loss
                           else if 0 < gain then PInf else 0)\<rparr>)"

definition build_regime_summary :: "'r engine_core \<Rightarrow> regime_summary option" where
  "build_regime_summary c =
     (if ec_regime_changes c = [] then None
      else Some \<lparr>rsum_changes = ec_regime_changes c,
                 rsum_trade_breakdown =
                   sort_key (\<lambda>s. - int (rts_trades s))
                     (map bucket_stats (foldl bucket_add [] (pf_trades (ec_portfolio c))))\<rparr>)"

end
