(* ===== verification/Engine_Invariants.thy ===== *)
theory Engine_Invariants
  imports Engine_Core
begin

text \<open>
  Facts about the engine core: what each operation leaves alone, the invariant of its state
  (accounts, positions and exit trackers agree), the event loop, and the properties of one bar.
\<close>

section \<open>Frames\<close>

lemma annotate_last_trade_frame [simp]:
  "pf_initial_capital (annotate_last_trade pf tr rg rs) = pf_initial_capital pf"
  "pf_cash (annotate_last_trade pf tr rg rs) = pf_cash pf"
  "pf_positions (annotate_last_trade pf tr rg rs) = pf_positions pf"
  "pf_equity_curve (annotate_last_trade pf tr rg rs) = pf_equity_curve pf"
  "pf_fills (annotate_last_trade pf tr rg rs) = pf_fills pf"
  "length (pf_trades (annotate_last_trade pf tr rg rs)) = length (pf_trades pf)"
  by (simp_all add: annotate_last_trade_def split: option.split)

lemma positions_keyed_cong: "pf_positions pf = pf_positions pf' \<Longrightarrow> positions_keyed pf = positions_keyed pf'"
  by (simp add: positions_keyed_def)

lemma positions_keyed_annotate [simp]: "positions_keyed (annotate_last_trade pf tr rg rs) = positions_keyed pf"
  by (rule positions_keyed_cong) simp

lemma positions_keyed_record [simp]: "positions_keyed (record_equity pf ts pr) = positions_keyed pf"
  by (rule positions_keyed_cong) simp

lemma cash_reconciles_annotate [simp]: "cash_reconciles (annotate_last_trade pf tr rg rs) = cash_reconciles pf"
  by (simp add: cash_reconciles_def)

lemma still_open_annotate [simp]: "still_open (annotate_last_trade pf tr rg rs) s = still_open pf s"
  by (simp add: still_open_def)

lemma still_open_record [simp]: "still_open (record_equity pf ts pr) s = still_open pf s"
  by (simp add: still_open_def)

lemma still_open_apply_fill_other [simp]:
  "s \<noteq> f_symbol f \<Longrightarrow> still_open (apply_fill pf f) s = still_open pf s"
  by (simp add: still_open_def)

lemmas on_fill_cases = on_fill_def Let_def split_beta

lemma on_fill_frame [simp]:
  "ec_broker (on_fill c f) = ec_broker c" "ec_risk (on_fill c f) = ec_risk c"
  "ec_last_price (on_fill c f) = ec_last_price c" "ec_intra_bar_mode (on_fill c f) = ec_intra_bar_mode c"
  "ec_max_units (on_fill c f) = ec_max_units c" "ec_last_regime (on_fill c f) = ec_last_regime c"
  "ec_warmup_until (on_fill c f) = ec_warmup_until c"
  "ec_regime_changes (on_fill c f) = ec_regime_changes c"
  by (simp_all add: on_fill_cases split: option.split)

lemma on_fill_portfolio [simp]:
  "pf_fills (ec_portfolio (on_fill c f)) = pf_fills (ec_portfolio c) @ [f]"
  "pf_positions (ec_portfolio (on_fill c f)) = pf_positions (apply_fill (ec_portfolio c) f)"
  "pf_equity_curve (ec_portfolio (on_fill c f)) = pf_equity_curve (ec_portfolio c)"
  "pf_initial_capital (ec_portfolio (on_fill c f)) = pf_initial_capital (ec_portfolio c)"
  "pf_cash (ec_portfolio (on_fill c f)) = pf_cash (ec_portfolio c) + cash_impact f"
  by (simp_all add: on_fill_cases split: option.split)

lemma on_fill_bus_update: "on_fill (c\<lparr>ec_bus := b\<rparr>) f = (on_fill c f)\<lparr>ec_bus := b\<rparr>"
  by (simp add: on_fill_cases split: option.split)

lemma foldl_on_fill_bus_update:
  "foldl on_fill (c\<lparr>ec_bus := b\<rparr>) fs = (foldl on_fill c fs)\<lparr>ec_bus := b\<rparr>"
  by (induction fs arbitrary: c) (simp_all add: on_fill_bus_update)

lemma on_fill_trackers:
  "hm_get (ec_position_trackers (on_fill c f)) s = None \<longleftrightarrow>
     (if s = f_symbol f then \<not> still_open (ec_portfolio (on_fill c f)) s
      else hm_get (ec_position_trackers c) s = None)"
  by (simp add: on_fill_cases split: option.split)

lemma on_fill_hm_ok [simp]:
  "hm_ok (ec_position_trackers c) \<Longrightarrow> hm_ok (ec_position_trackers (on_fill c f))"
  by (simp add: on_fill_cases split: option.split)

lemma on_fill_accounts:
  "cash_reconciles (ec_portfolio c) \<Longrightarrow> cash_reconciles (ec_portfolio (on_fill c f))"
  "positions_keyed (ec_portfolio c) \<Longrightarrow> positions_keyed (ec_portfolio (on_fill c f))"
  by (simp_all add: cash_reconciles_def cash_of_fills_def)
     (metis on_fill_portfolio(2) positions_keyed_apply_fill positions_keyed_cong)

lemma still_open_on_fill_other:
  "s \<noteq> f_symbol f \<Longrightarrow> still_open (ec_portfolio (on_fill c f)) s = still_open (ec_portfolio c) s"
  by (simp add: still_open_def)

section \<open>The early drain applies the fills\<close>

lemma drain_step:
  "sb_queue (ec_bus c) = [] \<Longrightarrow> drain rm c = c"
  "sb_queue (ec_bus c) = ev # es \<Longrightarrow> drain rm c = drain rm (dispatch rm (c\<lparr>ec_bus := (ec_bus c)\<lparr>sb_queue := es\<rparr>\<rparr>) ev)"
  by (simp_all add: drain.simps [of rm c] bus_try_recv_def)

lemma early_drain_step:
  "sb_queue (ec_bus c) = [] \<Longrightarrow> early_drain rm g c = c"
  "sb_queue (ec_bus c) = EvFill f # es \<Longrightarrow>
     early_drain rm (Suc g) c = early_drain rm g (on_fill (c\<lparr>ec_bus := (ec_bus c)\<lparr>sb_queue := es\<rparr>\<rparr>) f)"
  by (simp_all add: early_drain.simps [of rm _ c] bus_try_recv_def dispatch_def)

lemma early_drain_fills:
  assumes "sb_queue (ec_bus c) = map EvFill fills" and "length fills \<le> g"
  shows "early_drain rm g c = (foldl on_fill c fills)\<lparr>ec_bus := (ec_bus c)\<lparr>sb_queue := []\<rparr>\<rparr>"
  using assms
proof (induction fills arbitrary: c g)
  case Nil
  then show ?case by (simp add: early_drain_step)
next
  case (Cons f fs)
  obtain g' where g: "g = Suc g'" using Cons.prems(2) by (cases g) auto
  let ?c = "c\<lparr>ec_bus := (ec_bus c)\<lparr>sb_queue := map EvFill fs\<rparr>\<rparr>"
  have "early_drain rm g c = early_drain rm g' (on_fill ?c f)"
    using Cons.prems(1) by (simp add: g early_drain_step)
  also have "\<dots> = (foldl on_fill (on_fill ?c f) fs)\<lparr>ec_bus := (ec_bus ?c)\<lparr>sb_queue := []\<rparr>\<rparr>"
    using Cons.prems(2) by (subst Cons.IH) (simp_all add: g)
  also have "\<dots> = (foldl on_fill c (f # fs))\<lparr>ec_bus := (ec_bus c)\<lparr>sb_queue := []\<rparr>\<rparr>"
    by (simp add: on_fill_bus_update foldl_on_fill_bus_update)
  finally show ?case .
qed

lemma foldl_on_fill_bus [simp]: "ec_bus (foldl on_fill c fs) = ec_bus c"
  by (induction fs arbitrary: c) simp_all

lemma ec_bus_update_id: "ec_bus c = b \<Longrightarrow> c\<lparr>ec_bus := b\<rparr> = c"
  by simp

lemma fill_pending_eq:
  assumes "sb_queue (ec_bus c) = []" and "process_pending (ec_broker c) b = (br, fills)"
  shows "fill_pending rm c b = foldl on_fill (c\<lparr>ec_broker := br\<rparr>) fills"
proof -
  let ?c = "foldl (\<lambda>c f. core_send c (EvFill f)) (c\<lparr>ec_broker := br\<rparr>) fills"
  have e: "?c = c\<lparr>ec_broker := br, ec_bus := ec_bus c\<lparr>sb_queue := map EvFill fills\<rparr>\<rparr>"
    using assms(1) by (simp add: core_sends_eq)
  have "early_drain rm (length fills + 2) ?c = (foldl on_fill ?c fills)\<lparr>ec_bus := (ec_bus ?c)\<lparr>sb_queue := []\<rparr>\<rparr>"
    by (rule early_drain_fills) (simp_all add: e)
  also have "\<dots> = (foldl on_fill (c\<lparr>ec_broker := br\<rparr>) fills)\<lparr>ec_bus := ec_bus c\<rparr>"
    using assms(1) foldl_on_fill_bus_update [where c = "c\<lparr>ec_broker := br\<rparr>"] by (simp add: e)
  also have "\<dots> = foldl on_fill (c\<lparr>ec_broker := br\<rparr>) fills"
    by (rule ec_bus_update_id) simp
  finally show ?thesis by (simp add: fill_pending_def assms(2))
qed

section \<open>The invariant\<close>

text \<open>
  The books balance, positions are filed under their symbols, and only open positions have an exit
  tracker.
\<close>

definition tracked_are_open :: "'r engine_core \<Rightarrow> bool" where
  "tracked_are_open c \<longleftrightarrow>
     (\<forall>s. hm_get (ec_position_trackers c) s \<noteq> None \<longrightarrow> still_open (ec_portfolio c) s)"

definition open_are_tracked :: "'r engine_core \<Rightarrow> bool" where
  "open_are_tracked c \<longleftrightarrow>
     (\<forall>s. still_open (ec_portfolio c) s \<longrightarrow> hm_get (ec_position_trackers c) s \<noteq> None)"

definition core_inv :: "'r engine_core \<Rightarrow> bool" where
  "core_inv c \<longleftrightarrow> cash_reconciles (ec_portfolio c) \<and> positions_keyed (ec_portfolio c) \<and>
     hm_ok (ec_position_trackers c) \<and> tracked_are_open c"

lemma core_inv_cong:
  "ec_portfolio c = ec_portfolio c' \<Longrightarrow> ec_position_trackers c = ec_position_trackers c' \<Longrightarrow>
   core_inv c = core_inv c'"
  by (simp add: core_inv_def tracked_are_open_def)

lemma core_inv_new: "core_inv (core_new cap r co sl)"
  by (simp add: core_inv_def core_new_def tracked_are_open_def positions_keyed_def portfolio_new_def
      cash_reconciles_def cash_of_fills_def)

lemma core_inv_reset: "core_inv (core_reset c cap)"
  by (simp add: core_inv_def core_reset_def tracked_are_open_def positions_keyed_def portfolio_new_def
      cash_reconciles_def cash_of_fills_def)

lemma tracked_on_fill: "tracked_are_open c \<Longrightarrow> tracked_are_open (on_fill c f)"
  unfolding tracked_are_open_def by (metis on_fill_trackers still_open_on_fill_other)

lemma open_tracked_on_fill: "open_are_tracked c \<Longrightarrow> open_are_tracked (on_fill c f)"
  unfolding open_are_tracked_def by (metis on_fill_trackers still_open_on_fill_other)

lemma core_inv_on_fill: "core_inv c \<Longrightarrow> core_inv (on_fill c f)"
  by (simp add: core_inv_def on_fill_accounts tracked_on_fill del: map_of_eq_Some_iff)

lemma core_inv_fills: "core_inv c \<Longrightarrow> core_inv (foldl on_fill c fs)"
  by (induction fs arbitrary: c) (simp_all add: core_inv_on_fill)

lemma open_tracked_fills: "open_are_tracked c \<Longrightarrow> open_are_tracked (foldl on_fill c fs)"
  by (induction fs arbitrary: c) (simp_all add: open_tracked_on_fill)

section \<open>Forced closes\<close>

lemma exit_close_frame [simp]:
  "ec_bus (exit_close b c x) = ec_bus c" "ec_risk (exit_close b c x) = ec_risk c"
  "ec_warmup_until (exit_close b c x) = ec_warmup_until c"
  "ec_max_units (exit_close b c x) = ec_max_units c"
  "pf_equity_curve (ec_portfolio (exit_close b c x)) = pf_equity_curve (ec_portfolio c)"
  "pf_initial_capital (ec_portfolio (exit_close b c x)) = pf_initial_capital (ec_portfolio c)"
  by (simp_all add: exit_close_def Let_def split_beta split: option.split)

lemma exit_close_trackers:
  "ec_position_trackers (exit_close b c (s, p, r)) = hm_remove s (ec_position_trackers c)"
  by (simp add: exit_close_def Let_def split: option.split)

lemma end_close_trackers:
  "ec_position_trackers (end_close b c (s, q)) = hm_remove s (ec_position_trackers c)"
  by (simp add: end_close_def Let_def)

lemma still_open_exit_close_other:
  "k \<noteq> s \<Longrightarrow> still_open (ec_portfolio (exit_close b c (s, p, r))) k = still_open (ec_portfolio c) k"
  by (simp add: exit_close_def Let_def still_open_def split: option.split)

lemma still_open_end_close_other:
  "k \<noteq> s \<Longrightarrow> still_open (ec_portfolio (end_close b c (s, q))) k = still_open (ec_portfolio c) k"
  by (simp add: end_close_def Let_def still_open_def)

lemma core_inv_exit_close: "core_inv c \<Longrightarrow> core_inv (exit_close b c x)"
proof (cases x)
  case (fields s p r)
  assume inv: "core_inv c"
  have "tracked_are_open (exit_close b c (s, p, r))"
    using inv unfolding core_inv_def tracked_are_open_def
    by (metis exit_close_trackers hm_get_remove still_open_exit_close_other)
  moreover have "cash_reconciles (ec_portfolio (exit_close b c (s, p, r))) \<and>
      positions_keyed (ec_portfolio (exit_close b c (s, p, r)))"
    using inv by (auto simp: core_inv_def exit_close_def Let_def positions_keyed_apply_fill split: option.split)
  ultimately show ?thesis using inv fields by (simp add: core_inv_def exit_close_trackers)
qed

lemma core_inv_end_close: "core_inv c \<Longrightarrow> core_inv (end_close b c x)"
proof (cases x)
  case (Pair s q)
  assume inv: "core_inv c"
  have "tracked_are_open (end_close b c (s, q))"
    using inv unfolding core_inv_def tracked_are_open_def
    by (metis end_close_trackers hm_get_remove still_open_end_close_other)
  moreover have "cash_reconciles (ec_portfolio (end_close b c (s, q))) \<and>
      positions_keyed (ec_portfolio (end_close b c (s, q)))"
    using inv by (auto simp: core_inv_def end_close_def Let_def positions_keyed_apply_fill)
  ultimately show ?thesis using inv Pair by (simp add: core_inv_def end_close_trackers)
qed

lemma foldl_invariant: "P c \<Longrightarrow> (\<And>c x. P c \<Longrightarrow> P (f c x)) \<Longrightarrow> P (foldl f c xs)"
  by (induction xs arbitrary: c) simp_all

lemma check_trackers_get:
  "(hm_get (map (\<lambda>(s, tr, _). (s, tr)) (check_trackers c b)) s = None) = (hm_get (ec_position_trackers c) s = None)"
  by (simp add: check_trackers_def map_of_eq_None_iff image_image split_beta)

lemma check_trackers_keys:
  "map fst (map (\<lambda>(s, tr, _). (s, tr)) (check_trackers c b)) = hm_keys (ec_position_trackers c)"
  by (simp add: check_trackers_def split_beta)

lemma core_inv_exit_checks: "core_inv c \<Longrightarrow> core_inv (run_exit_checks c b)"
  unfolding run_exit_checks_def Let_def
proof (rule foldl_invariant)
  assume "core_inv c"
  then show "core_inv (c\<lparr>ec_position_trackers := map (\<lambda>(s, tr, _). (s, tr)) (check_trackers c b)\<rparr>)"
    using check_trackers_get [of c b] check_trackers_keys [of c b]
    by (simp add: core_inv_def tracked_are_open_def del: map_map)
qed (rule core_inv_exit_close)

lemma core_inv_mark_equity: "core_inv c \<Longrightarrow> core_inv (mark_equity c b)"
  by (simp add: core_inv_def mark_equity_def Let_def core_send_def tracked_are_open_def)

lemma core_inv_update_regime: "core_inv c \<Longrightarrow> core_inv (update_regime c ts st)"
  by (simp add: update_regime_def core_inv_def tracked_are_open_def split: option.split)

lemma core_inv_force_close_all: "core_inv c \<Longrightarrow> core_inv (force_close_all c b)"
  unfolding force_close_all_def by (rule foldl_invariant) (simp_all add: core_inv_end_close)

section \<open>The event loop\<close>

lemma core_inv_dispatch: "core_inv c \<Longrightarrow> core_inv (dispatch rm c ev)"
proof (cases ev)
  case (EvSignal sg)
  assume "core_inv c"
  obtain ords lv where "on_signal rm c sg = emits c ords lv" using on_signal_emits by blast
  then have "ec_portfolio (dispatch rm c ev) = ec_portfolio c"
      "ec_position_trackers (dispatch rm c ev) = ec_position_trackers c"
    by (simp_all add: EvSignal dispatch_def emits_def)
  then show ?thesis using \<open>core_inv c\<close> core_inv_cong by blast
next
  case (EvOrder ord)
  assume "core_inv c"
  then show ?thesis by (simp add: EvOrder dispatch_def core_inv_def tracked_are_open_def)
qed (simp_all add: dispatch_def core_inv_on_fill)

lemma core_inv_bus: "core_inv (c\<lparr>ec_bus := b\<rparr>) = core_inv c"
  by (rule core_inv_cong) simp_all

lemma core_inv_drain: "core_inv c \<Longrightarrow> core_inv (drain rm c)"
proof (induction rm c rule: drain.induct)
  case (1 rm c)
  show ?case
  proof (cases "sb_queue (ec_bus c)")
    case Nil
    then show ?thesis using 1 by (simp add: drain_step)
  next
    case (Cons ev es)
    then show ?thesis
      using 1 by (simp add: drain_step bus_try_recv_def core_inv_dispatch core_inv_bus)
  qed
qed

lemma core_inv_early_drain: "core_inv c \<Longrightarrow> core_inv (early_drain rm g c)"
proof (induction g arbitrary: c)
  case 0
  then show ?case
    by (simp add: early_drain.simps [of rm 0] bus_try_recv_def core_send_def core_inv_bus split: list.split)
next
  case (Suc g)
  then show ?case
    by (auto simp: early_drain.simps [of rm "Suc g"] bus_try_recv_def core_send_def core_inv_bus
        core_inv_dispatch split: list.split event.split)
qed

lemma core_inv_sends: "core_inv (foldl (\<lambda>c x. core_send c (g x)) c xs) = core_inv c"
  by (simp add: core_sends_eq core_inv_bus)

lemma core_inv_dispatch_signals: "core_inv c \<Longrightarrow> core_inv (dispatch_signals rm c sgs)"
  by (simp add: dispatch_signals_def core_inv_drain core_inv_sends)

lemma core_inv_run_base_tick: "core_inv c \<Longrightarrow> core_inv (fst (run_base_tick rm c b))"
proof -
  assume "core_inv c"
  then have "core_inv (c\<lparr>ec_last_price := x, ec_risk := r\<rparr>)" for x r
    by (simp add: core_inv_def tracked_are_open_def)
  moreover have "core_inv c \<Longrightarrow> core_inv (fill_pending rm c b)" for c
    by (auto simp: fill_pending_def split_beta Let_def core_inv_sends
        intro!: core_inv_early_drain) (simp add: core_inv_def tracked_are_open_def)
  ultimately show ?thesis
    by (simp add: run_base_tick_def Let_def core_inv_mark_equity core_inv_exit_checks)
qed

section \<open>What signals can change\<close>

text \<open>
  Orders that a core emits at the close of a bar: market orders only, for the base symbol and with
  the timestamp of the signal that caused them.
\<close>

definition ordered_by :: "signal \<Rightarrow> order_request \<Rightarrow> bool" where
  "ordered_by sg ord \<longleftrightarrow> o_kind ord = Market \<and> o_timestamp ord = sg_timestamp sg \<and>
     base_symbol (o_symbol ord) = base_symbol (sg_symbol sg)"

lemma order_market_sel [simp]:
  "o_kind (order_market ts s sd q) = Market" "o_timestamp (order_market ts s sd q) = ts"
  "o_symbol (order_market ts s sd q) = s" "o_side (order_market ts s sd q) = sd"
  "o_qty (order_market ts s sd q) = q"
  by (simp_all add: order_market_def)

lemma ordered_by_close:
  "open_leg (sg_symbol sg) kp \<Longrightarrow> ordered_by sg (close_order (sg_timestamp sg) kp)"
  by (auto simp: ordered_by_def close_order_def open_leg_def split_beta)
     (metis base_symbol_idem)

lemma base_symbol_leg_key: "base_symbol (leg_key base i) = base_symbol base"
proof -
  have "takeWhile P (xs @ y # ys) = takeWhile P xs" if "\<not> P y" for P and xs ys :: string and y
    using that by (induction xs) auto
  then show ?thesis by (simp add: base_symbol_def leg_key_def)
qed

lemma mint_from_is_leg_key: "\<exists>i\<ge>n. mint_from m base n = leg_key base i \<and> \<not> hm_contains m (leg_key base i)"
proof (induction m base n rule: mint_from.induct)
  case (1 m base i)
  show ?case
  proof (cases "hm_contains m (leg_key base i)")
    case True
    with 1 obtain j where "j \<ge> Suc i" "mint_from m base (Suc i) = leg_key base j"
      "\<not> hm_contains m (leg_key base j)" by blast
    with True show ?thesis using Suc_leD [of i j] by (subst mint_from.simps) auto
  next
    case False
    then show ?thesis by (subst mint_from.simps) auto
  qed
qed

lemma entry_gate_key:
  assumes "entry_gate c pf sg sd = Some (a, key)"
  shows "base_symbol key = base_symbol (sg_symbol sg)"
proof -
  have "base_symbol (mint_leg_key c (sg_symbol sg)) = base_symbol (sg_symbol sg)"
    unfolding mint_leg_key_def using mint_from_is_leg_key base_symbol_leg_key by metis
  then show ?thesis using assms by (auto simp: entry_gate_def Let_def split: if_splits)
qed

text \<open>Everything \<open>open_position\<close> may emit: closes of the opposite legs, then at most one entry.\<close>

definition reversal_closes :: "'r engine_core \<Rightarrow> signal \<Rightarrow> side \<Rightarrow> order_request list" where
  "reversal_closes c sg sd =
     (case ec_reverse_policy c of
        None \<Rightarrow> []
      | Some _ \<Rightarrow> map (close_order (sg_timestamp sg)) (opposite_legs c (sg_symbol sg) sd))"

definition entry_refused :: "'r engine_core \<Rightarrow> signal \<Rightarrow> side \<Rightarrow> bool" where
  "entry_refused c sg sd \<longleftrightarrow>
     (let legs = same_dir_legs c (sg_symbol sg) sd
      in ec_reverse_policy c = Some RP_Exit \<and> opposite_legs c (sg_symbol sg) sd \<noteq> [] \<or>
         ec_single_entry c \<and> ec_max_units c \<le> 1 \<and> legs \<noteq> [] \<or>
         1 < ec_max_units c \<and> legs \<noteq> [] \<and> ec_max_units c \<le> pyramid_count c (sg_symbol sg) legs)"

lemma emits_frame [simp]:
  "ec_portfolio (emits c os lv) = ec_portfolio c" "ec_position_trackers (emits c os lv) = ec_position_trackers c"
  "ec_reverse_policy (emits c os lv) = ec_reverse_policy c" "ec_max_units (emits c os lv) = ec_max_units c"
  "ec_single_entry (emits c os lv) = ec_single_entry c" "ec_pyramid_merge (emits c os lv) = ec_pyramid_merge c"
  "ec_last_price (emits c os lv) = ec_last_price c" "ec_broker (emits c os lv) = ec_broker c"
  "ec_risk (emits c os lv) = ec_risk c" "ec_max_position_pct (emits c os lv) = ec_max_position_pct c"
  "sb_queue (ec_bus (emits c os lv)) = sb_queue (ec_bus c) @ map EvOrder os"
  by (simp_all add: emits_def)

lemma legs_emits [simp]:
  "same_dir_legs (emits c os lv) b sd = same_dir_legs c b sd"
  "opposite_legs (emits c os lv) b sd = opposite_legs c b sd"
  "pyramid_count (emits c os lv) b l = pyramid_count c b l"
  by (simp_all add: same_dir_legs_def opposite_legs_def pyramid_count_def)

lemma entry_gate_refused:
  assumes "entry_gate c pf sg sd = Some x"
  shows "\<not> (ec_single_entry c \<and> ec_max_units c \<le> 1 \<and> same_dir_legs c (sg_symbol sg) sd \<noteq> [])"
    and "\<not> (1 < ec_max_units c \<and> same_dir_legs c (sg_symbol sg) sd \<noteq> [] \<and>
           ec_max_units c \<le> pyramid_count c (sg_symbol sg) (same_dir_legs c (sg_symbol sg) sd))"
  using assms by (auto simp: entry_gate_def Let_def pyramid_allowed_def split: if_splits)

definition sizing_portfolio :: "'r engine_core \<Rightarrow> signal \<Rightarrow> side \<Rightarrow> portfolio" where
  "sizing_portfolio c sg sd =
     (if ec_reverse_policy c \<noteq> None \<and> opposite_legs c (sg_symbol sg) sd \<noteq> []
      then temp_portfolio c (sg_symbol sg) sd else ec_portfolio c)"

lemma open_position_eq:
  "open_position rm c sg sd =
     (let c1 = emits c (reversal_closes c sg sd) (ec_pending_signal_levels c)
      in if ec_reverse_policy c = Some RP_Exit \<and> opposite_legs c (sg_symbol sg) sd \<noteq> [] then c1
         else case entry_gate c1 (sizing_portfolio c1 sg sd) sg sd of
                None \<Rightarrow> c1
              | Some (a, key) \<Rightarrow> enter rm c1 (sizing_portfolio c1 sg sd) sg sd a key)"
  by (cases "ec_reverse_policy c")
     (simp_all add: open_position_def Let_def emits_sends reversal_closes_def sizing_portfolio_def
       split: option.split)

lemma open_position_orders_aux:
  "\<exists>entry lv. open_position rm c sg sd = emits c (reversal_closes c sg sd @ entry) lv \<and>
     length entry \<le> 1 \<and> (entry_refused c sg sd \<longrightarrow> entry = []) \<and>
     (\<forall>ord \<in> set entry. ordered_by sg ord \<and> o_side ord = sd \<and> f64_epsilon < o_qty ord)"
proof -
  let ?P = "\<lambda>c'. \<exists>entry lv. c' = emits c (reversal_closes c sg sd @ entry) lv \<and>
     length entry \<le> 1 \<and> (entry_refused c sg sd \<longrightarrow> entry = []) \<and>
     (\<forall>ord \<in> set entry. ordered_by sg ord \<and> o_side ord = sd \<and> f64_epsilon < o_qty ord)"
  let ?c = "emits c (reversal_closes c sg sd) (ec_pending_signal_levels c)"
  have base: "?P ?c" by (rule exI [of _ "[]"]) auto
  have enter: "?P (enter rm ?c pf sg sd a key)"
    if g: "entry_gate ?c pf sg sd = Some (a, key)"
      and ne: "\<not> (ec_reverse_policy c = Some RP_Exit \<and> opposite_legs c (sg_symbol sg) sd \<noteq> [])" for pf a key
  proof (cases "(a \<or> rm_validate rm (ec_risk ?c) sg pf) \<and> f64_epsilon < entry_qty rm ?c pf sg")
    case True
    let ?o = "order_market (sg_timestamp sg) key sd (entry_qty rm ?c pf sg)"
    let ?lv = "if has_levels sg then hm_insert key (signal_levels sg) (ec_pending_signal_levels ?c)
               else ec_pending_signal_levels ?c"
    have e: "enter rm ?c pf sg sd a key = emits ?c [?o] ?lv" using True by (simp only: enter_eq if_True simp_thms)
    have nr: "\<not> entry_refused c sg sd"
      using ne entry_gate_refused [OF g] by (auto simp: entry_refused_def Let_def)
    have ob: "ordered_by sg ?o" using entry_gate_key [OF g] by (simp add: ordered_by_def)
    show ?thesis unfolding e emits_emits using nr ob True
      by (intro exI [of _ "[?o]"] exI [of _ ?lv]) simp
  next
    case False
    then have "enter rm ?c pf sg sd a key = ?c" by (simp only: enter_eq if_False)
    with base show ?thesis by simp
  qed
  show ?thesis
  proof (cases "ec_reverse_policy c = Some RP_Exit \<and> opposite_legs c (sg_symbol sg) sd \<noteq> []")
    case True
    then have "open_position rm c sg sd = ?c"
      by (simp add: open_position_def Let_def emits_sends reversal_closes_def)
    with base show ?thesis by simp
  next
    case False
    then have e: "open_position rm c sg sd =
        (case entry_gate ?c (sizing_portfolio ?c sg sd) sg sd of
           None \<Rightarrow> ?c
         | Some (a, key) \<Rightarrow> enter rm ?c (sizing_portfolio ?c sg sd) sg sd a key)"
      unfolding open_position_eq Let_def by (rule if_not_P)
    show ?thesis
    proof (cases "entry_gate ?c (sizing_portfolio ?c sg sd) sg sd")
      case None
      with e base show ?thesis by simp
    next
      case (Some x)
      obtain a key where x: "x = (a, key)" by (cases x)
      have "open_position rm c sg sd = enter rm ?c (sizing_portfolio ?c sg sd) sg sd a key"
        using e Some x by simp
      then show ?thesis using enter [OF Some [unfolded x] False] by simp
    qed
  qed
qed

lemma reversal_closes_ordered: "ord \<in> set (reversal_closes c sg sd) \<Longrightarrow> ordered_by sg ord"
  using ordered_by_close by (auto simp: reversal_closes_def opposite_legs_def split: option.splits)

lemma on_signal_orders:
  "\<exists>ords lv. on_signal rm c sg = emits c ords lv \<and> list_all (ordered_by sg) ords"
proof (cases "sg_direction sg = Exit")
  case True
  then show ?thesis
    by (auto simp: on_signal_def close_position_market_def emits_sends list_all_iff intro!: ordered_by_close
        intro: exI [of _ "map (close_order (sg_timestamp sg)) (filter (open_leg (sg_symbol sg)) (pf_positions (ec_portfolio c)))"])
next
  case False
  then obtain sd where sd: "on_signal rm c sg = open_position rm c sg sd"
    by (cases "sg_direction sg") (auto simp: on_signal_def)
  obtain entry lv where "open_position rm c sg sd = emits c (reversal_closes c sg sd @ entry) lv"
      "\<forall>ord \<in> set entry. ordered_by sg ord"
    using open_position_orders_aux [of rm c sg sd] by blast
  moreover from this have "list_all (ordered_by sg) (reversal_closes c sg sd @ entry)"
    using reversal_closes_ordered by (auto simp: list_all_iff)
  ultimately show ?thesis using sd by metis
qed

section \<open>Draining signals\<close>

definition add_orders :: "'r engine_core \<Rightarrow> order_request list \<Rightarrow> (string, levels) hmap \<Rightarrow> 'r engine_core" where
  "add_orders c ords lv =
     c\<lparr>ec_bus := (ec_bus c)\<lparr>sb_queue := []\<rparr>,
       ec_broker := (ec_broker c)\<lparr>br_pending := br_pending (ec_broker c) @ ords\<rparr>,
       ec_pending_signal_levels := lv\<rparr>"

text \<open>Events that can only lead to orders in the set \<open>P\<close>.\<close>

fun harmless :: "(order_request \<Rightarrow> bool) \<Rightarrow> event \<Rightarrow> bool" where
  "harmless P (EvFill _) = False"
| "harmless P (EvOrder ord) = P ord"
| "harmless P (EvSignal sg) = (\<forall>ord. ordered_by sg ord \<longrightarrow> P ord)"
| "harmless P _ = True"

lemma drain_harmless:
  assumes "\<forall>ev \<in> set (sb_queue (ec_bus c)). harmless P ev"
  shows "\<exists>ords lv. drain rm c = add_orders c ords lv \<and> list_all P ords"
  using assms
proof (induction rm c rule: drain.induct)
  case (1 rm c)
  show ?case
  proof (cases "sb_queue (ec_bus c)")
    case Nil
    then have "drain rm c = add_orders c [] (ec_pending_signal_levels c)"
      by (simp add: drain_step add_orders_def)
    then show ?thesis by (metis list.pred_inject(1))
  next
    case (Cons ev es)
    let ?c = "c\<lparr>ec_bus := (ec_bus c)\<lparr>sb_queue := es\<rparr>\<rparr>"
    have IH: "\<exists>ords lv. drain rm (dispatch rm ?c ev) = add_orders (dispatch rm ?c ev) ords lv \<and> list_all P ords"
      if "\<forall>ev \<in> set (sb_queue (ec_bus (dispatch rm ?c ev))). harmless P ev"
      using 1(1) [of "(ec_bus c)\<lparr>sb_queue := es\<rparr>" "Some ev" ev] that by (simp add: Cons bus_try_recv_def)
    have step: "drain rm c = drain rm (dispatch rm ?c ev)" using Cons by (rule drain_step)
    have es: "\<forall>ev \<in> set es. harmless P ev" and ev: "harmless P ev" using 1(2) Cons by auto
    have "\<exists>ords lv. add_orders (dispatch rm ?c ev) ords0 lv0 = add_orders c ords lv \<and> list_all P ords \<and>
        (\<forall>ev \<in> set (sb_queue (ec_bus (dispatch rm ?c ev))). harmless P ev)" if "list_all P ords0" for ords0 lv0
    proof (cases ev)
      case (EvSignal sg)
      obtain os lv where "on_signal rm ?c sg = emits ?c os lv" "list_all (ordered_by sg) os"
        using on_signal_orders [of rm ?c sg] by blast
      moreover from this have "list_all P os" using ev EvSignal by (auto simp: list_all_iff)
      ultimately have "dispatch rm ?c ev = emits ?c os lv" "\<forall>ev \<in> set (es @ map EvOrder os). harmless P ev"
        using EvSignal es by (auto simp: dispatch_def list_all_iff)
      then show ?thesis using that
        by (intro exI [of _ ords0] exI [of _ lv0]) (simp add: add_orders_def emits_def)
    next
      case (EvOrder ord)
      then show ?thesis using that ev es
        by (intro exI [of _ "ord # ords0"] exI [of _ lv0]) (simp add: add_orders_def dispatch_def submit_def)
    qed (use that ev es in \<open>auto simp: add_orders_def dispatch_def\<close>)
    from this [of "[]"] this show ?thesis using IH step by (metis list.pred_inject(1))
  qed
qed

lemma dispatch_signals_adds_orders:
  assumes "\<forall>ev \<in> set (sb_queue (ec_bus c)). harmless (\<lambda>_. False) ev"
  shows "\<exists>ords lv. dispatch_signals rm c sgs = add_orders c ords lv \<and>
    (\<forall>ord \<in> set ords. \<exists>sg \<in> set sgs. ordered_by sg ord)"
proof -
  let ?P = "\<lambda>ord. \<exists>sg \<in> set sgs. ordered_by sg ord"
  let ?c = "c\<lparr>ec_bus := (ec_bus c)\<lparr>sb_queue := sb_queue (ec_bus c) @ map EvSignal sgs\<rparr>\<rparr>"
  have "harmless (\<lambda>_. False) ev \<Longrightarrow> harmless ?P ev" for ev
    by (cases ev) (auto simp: ordered_by_def)
  then have "\<forall>ev \<in> set (sb_queue (ec_bus ?c)). harmless ?P ev" using assms by auto
  then obtain ords lv where "drain rm ?c = add_orders ?c ords lv" "list_all ?P ords"
    using drain_harmless by blast
  then show ?thesis
    unfolding dispatch_signals_def core_sends_eq
    by (intro exI [of _ ords] exI [of _ lv]) (auto simp: add_orders_def list_all_iff)
qed

end
