(* ===== verification/Engine_Theorems.thy ===== *)
theory Engine_Theorems
  imports Engine_Invariants
begin

text \<open>
  The properties of the engine core: what signals may do, what one bar does, that exits flatten
  positions, and the invariant over every sequence of operations.
\<close>

section \<open>Closing a position\<close>

lemma fabs_self_sum: "is_finite q \<Longrightarrow> \<not> 0 < q \<Longrightarrow> q + \<bar>q\<bar> = 0" for q :: f64
  by (cases q) (auto simp: abs_f64_def plus_f64_def f64_simps zero_f64_def)

lemma position_entry_Some: "hm_get (pf_positions pf) (f_symbol f) = Some pos \<Longrightarrow> position_entry pf f = pos"
  by (simp add: position_entry_def)

lemma close_flattens:
  assumes pos: "hm_get (pf_positions pf) (f_symbol f) = Some pos" and fin: "is_finite (p_qty pos)"
    and qty: "f_qty f = \<bar>p_qty pos\<bar>" and side: "f_side f = (if 0 < p_qty pos then Sell else Buy)"
  shows "\<not> still_open (apply_fill pf f) (f_symbol f)"
proof (cases "0 < p_qty pos")
  case True
  show ?thesis
  proof (cases "f64_epsilon < p_qty pos")
    case big: True
    then show ?thesis using apply_sell_full_close(1) [OF big fin, of f] True qty side pos
      by (simp add: still_open_def apply_fill_def position_entry_Some Let_def split_beta)
  next
    case False
    have "p_qty pos - f_qty f = 0" using True qty fin by (simp add: fadd_cancel)
    then have "p_qty (fst (apply_sell pos f)) = 0" "\<not> snd (snd (apply_sell pos f))"
      using False by (simp_all add: apply_sell_def Let_def)
    then show ?thesis using True side pos
      by (simp add: still_open_def apply_fill_def position_entry_Some Let_def split_beta)
  qed
next
  case False
  show ?thesis
  proof (cases "p_qty pos < - f64_epsilon")
    case big: True
    then show ?thesis using apply_buy_full_close(1) [OF big fin, of f] False qty side pos
      by (simp add: still_open_def apply_fill_def position_entry_Some Let_def split_beta)
  next
    case small: False
    have "p_qty pos + f_qty f = 0" using False qty fin by (simp add: fabs_self_sum)
    then have "p_qty (fst (apply_buy pos f)) = 0" "\<not> snd (snd (apply_buy pos f))"
      using small by (simp_all add: apply_buy_def Let_def)
    then show ?thesis using False side pos
      by (simp add: still_open_def apply_fill_def position_entry_Some Let_def split_beta)
  qed
qed

text \<open>No quantity of the book has overflowed.\<close>

definition finite_book :: "portfolio \<Rightarrow> bool" where
  "finite_book pf \<longleftrightarrow> (\<forall>k p. hm_get (pf_positions pf) k = Some p \<longrightarrow> is_finite (p_qty p))"

definition finite_except :: "string set \<Rightarrow> portfolio \<Rightarrow> bool" where
  "finite_except S pf \<longleftrightarrow> (\<forall>k p. k \<notin> S \<longrightarrow> hm_get (pf_positions pf) k = Some p \<longrightarrow> is_finite (p_qty p))"

lemma exit_close_flattens:
  assumes "finite_except S (ec_portfolio c)" and "s \<notin> S"
  shows "\<not> still_open (ec_portfolio (exit_close b c (s, p, r))) s"
proof (cases "hm_get (pf_positions (ec_portfolio c)) s")
  case None
  then show ?thesis by (simp add: exit_close_def Let_def still_open_def)
next
  case (Some pos)
  let ?f = "force_close (cancel_for_symbol (ec_broker c) s) s \<bar>p_qty pos\<bar> (if is_long pos then Sell else Buy) (b_timestamp b) p"
  have "is_finite (p_qty pos)" using assms Some by (auto simp: finite_except_def)
  then have "\<not> still_open (apply_fill (ec_portfolio c) ?f) s"
    using close_flattens [of "ec_portfolio c" ?f pos] Some by (simp add: is_long_def)
  then show ?thesis using Some by (simp add: exit_close_def Let_def)
qed

lemma exit_close_positions_other:
  "k \<noteq> s \<Longrightarrow> hm_get (pf_positions (ec_portfolio (exit_close b c (s, p, r)))) k = hm_get (pf_positions (ec_portfolio c)) k"
  by (simp add: exit_close_def Let_def split: option.split)

text \<open>The positions whose trackers fire are flat after the exit checks; the others are untouched.\<close>

lemma exit_closes_flatten:
  assumes "distinct (map fst xs)" and "finite_book (ec_portfolio c)"
  shows "still_open (ec_portfolio (foldl (exit_close b) c xs)) k =
    (still_open (ec_portfolio c) k \<and> k \<notin> fst ` set xs)"
  using assms
proof (induction xs rule: rev_induct)
  case (snoc x xs)
  obtain s p r where x: "x = (s, p, r)" by (cases x)
  let ?c = "foldl (exit_close b) c xs"
  have other: "hm_get (pf_positions (ec_portfolio (foldl (exit_close b) c ys))) k = hm_get (pf_positions (ec_portfolio c)) k"
    if "k \<notin> fst ` set ys" for ys k
    using that by (induction ys rule: rev_induct) (auto simp: exit_close_positions_other)
  have "finite_except (fst ` set xs) (ec_portfolio ?c)"
    using snoc.prems(2) other by (auto simp: finite_except_def finite_book_def)
  moreover have s: "s \<notin> fst ` set xs" using snoc.prems(1) x by auto
  ultimately have flat: "\<not> still_open (ec_portfolio (exit_close b ?c (s, p, r))) s"
    by (rule exit_close_flattens)
  have IH: "still_open (ec_portfolio ?c) k = (still_open (ec_portfolio c) k \<and> k \<notin> fst ` set xs)"
    using snoc by simp
  show ?case using IH flat still_open_exit_close_other [of k s b ?c p r]
    by (cases "k = s") (auto simp: x)
qed simp

lemma exit_closes_trackers:
  "hm_get (ec_position_trackers (foldl (exit_close b) c xs)) k =
     (if k \<in> fst ` set xs then None else hm_get (ec_position_trackers c) k)"
proof (induction xs rule: rev_induct)
  case (snoc x xs)
  then show ?case by (cases x) (auto simp: exit_close_trackers)
qed simp

lemma distinct_map_filter_keys:
  assumes "distinct (map fst xs)" and "\<And>x y. f x = Some y \<Longrightarrow> fst y = fst x"
  shows "distinct (map fst (List.map_filter f xs)) \<and> fst ` set (List.map_filter f xs) \<subseteq> fst ` set xs"
  using assms
proof (induction xs)
  case (Cons x xs)
  then show ?case by (cases "f x") (auto simp: map_filter_simps)
qed (simp add: map_filter_simps)

lemma to_close_distinct:
  "hm_ok (ec_position_trackers c) \<Longrightarrow>
   distinct (map fst (List.map_filter (\<lambda>(s, tr, hit). map_option (\<lambda>(p, r). (s, p, r)) hit) (check_trackers c b)))"
  by (rule distinct_map_filter_keys [THEN conjunct1]) (auto simp: check_trackers_def split_beta comp_def)

lemma open_tracked_exit_checks:
  assumes "open_are_tracked c" and "hm_ok (ec_position_trackers c)" and "finite_book (ec_portfolio c)"
  shows "open_are_tracked (run_exit_checks c b)"
  unfolding open_are_tracked_def
proof (intro allI impI)
  fix k
  let ?c = "c\<lparr>ec_position_trackers := map (\<lambda>(s, tr, _). (s, tr)) (check_trackers c b)\<rparr>"
  let ?xs = "List.map_filter (\<lambda>(s, tr, hit). map_option (\<lambda>(p, r). (s, p, r)) hit) (check_trackers c b)"
  assume "still_open (ec_portfolio (run_exit_checks c b)) k"
  then have "still_open (ec_portfolio c) k" "k \<notin> fst ` set ?xs"
    using exit_closes_flatten [of ?xs ?c b k] to_close_distinct [OF assms(2), of b] assms(3)
    by (simp_all add: run_exit_checks_def Let_def)
  moreover from this have "hm_get (ec_position_trackers c) k \<noteq> None" using assms(1) by (simp add: open_are_tracked_def)
  ultimately show "hm_get (ec_position_trackers (run_exit_checks c b)) k \<noteq> None"
    using check_trackers_get [of c b k] by (simp add: run_exit_checks_def Let_def exit_closes_trackers)
qed

section \<open>The end of the data\<close>

lemma end_close_flattens:
  assumes "hm_get (pf_positions (ec_portfolio c)) s = Some pos" and "is_finite (p_qty pos)"
  shows "\<not> still_open (ec_portfolio (end_close b c (s, p_qty pos))) s"
proof -
  let ?f = "force_close (ec_broker c) s \<bar>p_qty pos\<bar> (if 0 < p_qty pos then Sell else Buy) (b_timestamp b) (b_close b)"
  have "\<not> still_open (apply_fill (ec_portfolio c) ?f) s"
    using close_flattens [of "ec_portfolio c" ?f pos] assms by simp
  then show ?thesis by (simp add: end_close_def Let_def)
qed

lemma end_close_positions_other:
  "k \<noteq> s \<Longrightarrow> hm_get (pf_positions (ec_portfolio (end_close b c (s, q)))) k = hm_get (pf_positions (ec_portfolio c)) k"
  by (simp add: end_close_def Let_def)

lemma end_closes_flatten:
  assumes "distinct (map fst xs)" and "finite_book (ec_portfolio c)"
    and "\<forall>(s, q) \<in> set xs. \<exists>p. hm_get (pf_positions (ec_portfolio c)) s = Some p \<and> p_qty p = q"
  shows "still_open (ec_portfolio (foldl (end_close b) c xs)) k =
    (still_open (ec_portfolio c) k \<and> k \<notin> fst ` set xs)"
  using assms
proof (induction xs rule: rev_induct)
  case (snoc x xs)
  obtain s q where x: "x = (s, q)" by (cases x)
  let ?c = "foldl (end_close b) c xs"
  have other: "hm_get (pf_positions (ec_portfolio (foldl (end_close b) c ys))) k = hm_get (pf_positions (ec_portfolio c)) k"
    if "k \<notin> fst ` set ys" for ys k
    using that by (induction ys rule: rev_induct) (auto simp: end_close_positions_other)
  obtain p where p: "hm_get (pf_positions (ec_portfolio c)) s = Some p" "p_qty p = q"
    using snoc.prems(3) x by auto
  have s: "s \<notin> fst ` set xs" using snoc.prems(1) x by auto
  have "is_finite (p_qty p)" using snoc.prems(2) p(1) by (simp add: finite_book_def)
  then have flat: "\<not> still_open (ec_portfolio (end_close b ?c (s, q))) s"
    using end_close_flattens [of ?c s p b] other [OF s] p by simp
  have IH: "still_open (ec_portfolio ?c) k = (still_open (ec_portfolio c) k \<and> k \<notin> fst ` set xs)"
    using snoc by simp
  show ?case using IH flat still_open_end_close_other [of k s b ?c q]
    by (cases "k = s") (auto simp: x)
qed simp

lemma open_values_distinct:
  assumes "positions_keyed pf"
  shows "distinct (map p_symbol (filter Q (map snd (pf_positions pf))))"
    and "p \<in> set (filter Q (map snd (pf_positions pf))) \<Longrightarrow> hm_get (pf_positions pf) (p_symbol p) = Some p"
proof -
  have keys: "map p_symbol (map snd (pf_positions pf)) = hm_keys (pf_positions pf)"
    using assms by (auto simp: positions_keyed_def)
  then have "distinct (map p_symbol (map snd (pf_positions pf)))"
    using assms by (simp add: positions_keyed_def del: map_map)
  then show "distinct (map p_symbol (filter Q (map snd (pf_positions pf))))" by (rule distinct_map_filter)
  show "hm_get (pf_positions pf) (p_symbol p) = Some p" if "p \<in> set (filter Q (map snd (pf_positions pf)))"
    using assms that by (auto simp: positions_keyed_def)
qed

lemma force_close_all_flat:
  assumes "core_inv c" and "finite_book (ec_portfolio c)"
  shows "\<not> still_open (ec_portfolio (force_close_all c b)) k"
proof -
  let ?ps = "filter (\<lambda>p. f64_epsilon < \<bar>p_qty p\<bar>) (map snd (pf_positions (ec_portfolio c)))"
  let ?xs = "map (\<lambda>p. (p_symbol p, p_qty p)) ?ps"
  have keyed: "positions_keyed (ec_portfolio c)" using assms(1) by (simp add: core_inv_def)
  have "distinct (map fst ?xs)" using open_values_distinct(1) [OF keyed] by (simp add: comp_def)
  moreover have "\<forall>(s, q) \<in> set ?xs. \<exists>p. hm_get (pf_positions (ec_portfolio c)) s = Some p \<and> p_qty p = q"
    using open_values_distinct(2) [OF keyed] by auto
  ultimately have e: "still_open (ec_portfolio (force_close_all c b)) k =
      (still_open (ec_portfolio c) k \<and> k \<notin> fst ` set ?xs)"
    unfolding force_close_all_def by (intro end_closes_flatten assms(2))
  have "k \<in> fst ` set ?xs" if open_k: "still_open (ec_portfolio c) k"
  proof -
    obtain p where p: "hm_get (pf_positions (ec_portfolio c)) k = Some p" "f64_epsilon < \<bar>p_qty p\<bar>"
      using open_k by (cases "hm_get (pf_positions (ec_portfolio c)) k") (auto simp: still_open_def)
    then have "p \<in> set ?ps" "p_symbol p = k"
      using keyed by (force dest: map_of_SomeD, auto intro: positions_keyed_get)
    then show ?thesis by force
  qed
  with e show ?thesis by blast
qed

section \<open>An exit signal and the next bar\<close>

lemma drain_orders:
  "sb_queue (ec_bus c) = map EvOrder ords \<Longrightarrow> drain rm c = add_orders c ords (ec_pending_signal_levels c)"
proof (induction ords arbitrary: c)
  case Nil
  then show ?case by (simp add: drain_step add_orders_def)
next
  case (Cons ord ords)
  let ?c = "c\<lparr>ec_bus := (ec_bus c)\<lparr>sb_queue := map EvOrder ords\<rparr>\<rparr>"
  have "drain rm c = drain rm (dispatch rm ?c (EvOrder ord))" using Cons.prems by (intro drain_step) simp
  also have "\<dots> = add_orders (dispatch rm ?c (EvOrder ord)) ords (ec_pending_signal_levels c)"
    by (subst Cons.IH) (simp_all add: dispatch_def)
  also have "\<dots> = add_orders c (ord # ords) (ec_pending_signal_levels c)"
    by (simp add: add_orders_def dispatch_def submit_def)
  finally show ?case .
qed

definition exit_orders :: "'r engine_core \<Rightarrow> signal \<Rightarrow> order_request list" where
  "exit_orders c sg = map (close_order (sg_timestamp sg))
     (filter (open_leg (sg_symbol sg)) (pf_positions (ec_portfolio c)))"

lemma dispatch_exit_signal:
  assumes "sb_queue (ec_bus c) = []" and "sg_direction sg = Exit"
  shows "dispatch_signals rm c [sg] = add_orders c (exit_orders c sg) (ec_pending_signal_levels c)"
proof -
  let ?c = "core_send c (EvSignal sg)"
  have q: "sb_queue (ec_bus ?c) = [EvSignal sg]" using assms(1) by (simp add: core_send_eq)
  have c: "?c\<lparr>ec_bus := (ec_bus ?c)\<lparr>sb_queue := []\<rparr>\<rparr> = c" using assms(1) by (simp add: core_send_eq)
  have "drain rm ?c = drain rm (dispatch rm c (EvSignal sg))"
    using drain_step(2) [OF q, of rm] by (simp only: c)
  also have "dispatch rm c (EvSignal sg) = emits c (exit_orders c sg) (ec_pending_signal_levels c)"
    using assms(2) by (simp add: dispatch_def on_signal_def close_position_market_def emits_sends exit_orders_def)
  also have "drain rm \<dots> = add_orders c (exit_orders c sg) (ec_pending_signal_levels c)"
    using assms(1) by (subst drain_orders [where ords = "exit_orders c sg"]) (simp_all add: add_orders_def emits_def)
  finally show ?thesis by (simp add: dispatch_signals_def)
qed

lemma on_fills_flatten:
  assumes "distinct (map f_symbol fs)" and "finite_book (ec_portfolio c)"
    and "\<forall>f \<in> set fs. \<exists>p. hm_get (pf_positions (ec_portfolio c)) (f_symbol f) = Some p \<and>
           f_qty f = \<bar>p_qty p\<bar> \<and> f_side f = (if 0 < p_qty p then Sell else Buy)"
  shows "still_open (ec_portfolio (foldl on_fill c fs)) k =
    (still_open (ec_portfolio c) k \<and> k \<notin> f_symbol ` set fs)"
  using assms
proof (induction fs rule: rev_induct)
  case (snoc f fs)
  let ?c = "foldl on_fill c fs"
  have other: "hm_get (pf_positions (ec_portfolio (foldl on_fill c ys))) k = hm_get (pf_positions (ec_portfolio c)) k"
    if "k \<notin> f_symbol ` set ys" for ys k
    using that by (induction ys rule: rev_induct) auto
  obtain p where p: "hm_get (pf_positions (ec_portfolio c)) (f_symbol f) = Some p"
      "f_qty f = \<bar>p_qty p\<bar>" "f_side f = (if 0 < p_qty p then Sell else Buy)"
    using snoc.prems(3) by auto
  have s: "f_symbol f \<notin> f_symbol ` set fs" using snoc.prems(1) by auto
  have "is_finite (p_qty p)" using snoc.prems(2) p(1) by (simp add: finite_book_def)
  then have "\<not> still_open (apply_fill (ec_portfolio ?c) f) (f_symbol f)"
    using close_flattens [of "ec_portfolio ?c" f p] other [OF s] p by simp
  then have flat: "\<not> still_open (ec_portfolio (on_fill ?c f)) (f_symbol f)"
    by (simp add: still_open_def)
  have IH: "still_open (ec_portfolio ?c) k = (still_open (ec_portfolio c) k \<and> k \<notin> f_symbol ` set fs)"
    using snoc by simp
  show ?case using IH flat still_open_on_fill_other [of k f ?c]
    by (cases "k = f_symbol f") auto
qed simp

lemma exit_fills:
  assumes "b_symbol b = sg_symbol sg"
  shows "process_pending (br\<lparr>br_pending := exit_orders c sg\<rparr>) b =
    (br\<lparr>br_pending := []\<rparr>,
     map (\<lambda>(k, p). make_fill br k (if is_long p then Sell else Buy) \<bar>p_qty p\<bar> (b_timestamp b)
            (b_open b * slip br (if is_long p then Sell else Buy)))
       (filter (open_leg (sg_symbol sg)) (pf_positions (ec_portfolio c))))"
proof -
  have f: "fill_order (br\<lparr>br_pending := ps\<rparr>) b (close_order ts (k, p)) =
      Some (make_fill br k (if is_long p then Sell else Buy) \<bar>p_qty p\<bar> (b_timestamp b)
            (b_open b * slip br (if is_long p then Sell else Buy)))"
    if "open_leg (b_symbol b) (k, p)" for k p ts ps
    using that by (simp add: fill_order_def fill_price_of_def close_order_def open_leg_def make_fill_def
        slip_def split: side.split)
  have mf: "List.map_filter (fill_order (br\<lparr>br_pending := ps\<rparr>) b) (map (close_order ts) xs) =
     map (\<lambda>(k, p). make_fill br k (if is_long p then Sell else Buy) \<bar>p_qty p\<bar> (b_timestamp b)
            (b_open b * slip br (if is_long p then Sell else Buy))) xs"
    if "\<forall>x \<in> set xs. open_leg (b_symbol b) x" for xs ts ps
    using that by (induction xs) (auto simp: map_filter_simps f)
  have "filter (\<lambda>ord. fill_order (br\<lparr>br_pending := ps\<rparr>) b ord = None) (map (close_order ts) xs) = []"
    if "\<forall>x \<in> set xs. open_leg (b_symbol b) x" for xs ts ps
    using that by (auto simp: filter_empty_conv f)
  then show ?thesis
    by (subst process_pending_eq) (simp add: exit_orders_def mf assms [symmetric])
qed

lemma exit_fills_flatten:
  assumes inv: "core_inv c" and fin: "finite_book (ec_portfolio c)"
    and c': "ec_portfolio c' = ec_portfolio c" and k: "base_symbol k = s"
    and fs: "fs = map (\<lambda>(k, p). make_fill br k (if is_long p then Sell else Buy) \<bar>p_qty p\<bar> ts (px p))
                   (filter (open_leg s) (pf_positions (ec_portfolio c)))"
  shows "\<not> still_open (ec_portfolio (foldl on_fill c' fs)) k"
proof -
  let ?legs = "filter (open_leg s) (pf_positions (ec_portfolio c))"
  have ok: "hm_ok (pf_positions (ec_portfolio c))" using inv by (simp add: core_inv_def positions_keyed_def)
  have syms: "map f_symbol fs = map fst ?legs" by (auto simp: fs)
  have "distinct (map f_symbol fs)" unfolding syms using ok by (rule distinct_map_filter)
  moreover have "\<forall>f \<in> set fs. \<exists>p. hm_get (pf_positions (ec_portfolio c')) (f_symbol f) = Some p \<and>
      f_qty f = \<bar>p_qty p\<bar> \<and> f_side f = (if 0 < p_qty p then Sell else Buy)"
    using ok by (auto simp: fs c' is_long_def)
  ultimately have e: "still_open (ec_portfolio (foldl on_fill c' fs)) k =
      (still_open (ec_portfolio c) k \<and> k \<notin> f_symbol ` set fs)"
    using fin by (subst on_fills_flatten) (simp_all add: c')
  have "k \<in> f_symbol ` set fs" if open_k: "still_open (ec_portfolio c) k"
  proof -
    obtain p where p: "hm_get (pf_positions (ec_portfolio c)) k = Some p" "f64_epsilon < \<bar>p_qty p\<bar>"
      using open_k by (cases "hm_get (pf_positions (ec_portfolio c)) k") (auto simp: still_open_def)
    then have "(k, p) \<in> set ?legs" using k by (auto simp: open_leg_def dest: map_of_SomeD)
    then have "k \<in> set (map fst ?legs)" by force
    then show ?thesis unfolding syms [symmetric] by simp
  qed
  with e show ?thesis by blast
qed

lemma to_close_tracked:
  assumes "hm_get (ec_position_trackers c) k = None"
  shows "k \<notin> fst ` set (List.map_filter (\<lambda>(s, tr, hit). map_option (\<lambda>(p, r). (s, p, r)) hit) (check_trackers c b))"
  using assms
  by (auto simp: map_filter_def check_trackers_def map_of_eq_None_iff split_beta image_iff)

lemma exit_checks_keep_flat:
  assumes "tracked_are_open c" and "\<not> still_open (ec_portfolio c) k"
  shows "\<not> still_open (ec_portfolio (run_exit_checks c b)) k"
proof -
  have keep: "still_open (ec_portfolio (foldl (exit_close b) c xs)) k = still_open (ec_portfolio c) k"
    if "k \<notin> fst ` set xs" for c :: "'a engine_core" and xs
    using that
  proof (induction xs arbitrary: c)
    case (Cons x xs)
    then show ?case by (cases x) (simp add: still_open_exit_close_other)
  qed simp
  have "hm_get (ec_position_trackers c) k = None"
    using assms unfolding tracked_are_open_def by blast
  then show ?thesis
    using keep [OF to_close_tracked [of c k b],
        of "c\<lparr>ec_position_trackers := map (\<lambda>(s, tr, _). (s, tr)) (check_trackers c b)\<rparr>"] assms(2)
    by (simp add: run_exit_checks_def Let_def)
qed

section \<open>Properties\<close>

text \<open>C3. Signals cannot look ahead: once the bar's own events are drained, dispatching any signals
  ends with an empty bus and changes nothing of the core but the broker's queue and the exit levels
  kept for the next fill: positions, cash, trades, trackers and prices stay as they were, and the queue
  only grows, by market orders stamped with the time of one of these signals and for its base symbol.\<close>

theorem signals_only_queue_orders:
  assumes "sb_queue (ec_bus c) = [] \<or> (\<exists>t eq ca. sb_queue (ec_bus c) = [EvEquity t eq ca])"
  shows "\<exists>ords lv. dispatch_signals rm c sgs =
      c\<lparr>ec_bus := (ec_bus c)\<lparr>sb_queue := []\<rparr>,
        ec_broker := (ec_broker c)\<lparr>br_pending := br_pending (ec_broker c) @ ords\<rparr>,
        ec_pending_signal_levels := lv\<rparr> \<and>
    (\<forall>ord \<in> set ords. \<exists>sg \<in> set sgs. o_kind ord = Market \<and> o_timestamp ord = sg_timestamp sg \<and>
       base_symbol (o_symbol ord) = base_symbol (sg_symbol sg))"
proof -
  have "\<forall>ev \<in> set (sb_queue (ec_bus c)). harmless (\<lambda>_. False) ev" using assms by auto
  from dispatch_signals_adds_orders [OF this, of rm sgs] show ?thesis
    by (simp add: add_orders_def ordered_by_def)
qed

definition example_core :: "any_sizer engine_core" where
  "example_core = core_new (Fin 1000) (FixedQuantity (fixed_quantity_new (Fin 2) 5)) 0 0"

theorem signals_only_queue_orders_witness:
  "ec_portfolio (dispatch_signals any_sizer_manager example_core [example_signal]) = portfolio_new (Fin 1000)"
  using signals_only_queue_orders [of example_core any_sizer_manager "[example_signal]"]
  by (auto simp: example_core_def core_new_def sync_bus_new_def)

text \<open>C4. One bar, on an idle bus and after the warm-up: the orders that were pending are filled by the
  broker, and exactly their fills are applied, in order; then the exit rules run; then one equity point
  with the bar's time is appended to the curve and announced, as the only event left on the bus.\<close>

theorem base_tick_applies_fills_in_order:
  assumes "sb_queue (ec_bus c) = []" and "\<not> warming_up c b"
    and "process_pending (ec_broker c) b = (br, fills)"
  shows "\<exists>c2 c'. run_base_tick rm c b = (c', True) \<and>
    c2 = run_exit_checks (foldl on_fill (c\<lparr>ec_last_price := b_close b, ec_risk := rm_on_bar rm (ec_risk c) b,
           ec_broker := br\<rparr>) fills) b \<and>
    c' = mark_equity c2 b \<and>
    map ep_timestamp (pf_equity_curve (ec_portfolio c')) =
      map ep_timestamp (pf_equity_curve (ec_portfolio c)) @ [b_timestamp b] \<and>
    (\<exists>eq. sb_queue (ec_bus c') = [EvEquity (b_timestamp b) eq (pf_cash (ec_portfolio c'))])"
proof -
  let ?c0 = "c\<lparr>ec_last_price := b_close b, ec_risk := rm_on_bar rm (ec_risk c) b\<rparr>"
  let ?c1 = "foldl on_fill (?c0\<lparr>ec_broker := br\<rparr>) fills"
  let ?c2 = "run_exit_checks ?c1 b"
  have fill: "fill_pending rm ?c0 b = ?c1" using assms(1,3) by (intro fill_pending_eq) simp_all
  have w: "\<not> warming_up ?c0 b" using assms(2) by (simp add: warming_up_def)
  have run: "run_base_tick rm c b = (mark_equity ?c2 b, True)"
    using w fill by (simp add: run_base_tick_def Let_def)
  have bus: "ec_bus (foldl (exit_close b) c xs) = ec_bus c"
    and cur: "pf_equity_curve (ec_portfolio (foldl (exit_close b) c xs)) = pf_equity_curve (ec_portfolio c)"
    for c :: "'a engine_core" and xs by (induction xs arbitrary: c) simp_all
  have cur1: "pf_equity_curve (ec_portfolio (foldl on_fill c fs)) = pf_equity_curve (ec_portfolio c)"
    for c :: "'a engine_core" and fs by (induction fs arbitrary: c) simp_all
  have "sb_queue (ec_bus ?c2) = []" using assms(1) by (simp add: run_exit_checks_def Let_def bus)
  moreover have "pf_equity_curve (ec_portfolio ?c2) = pf_equity_curve (ec_portfolio c)"
    by (simp add: run_exit_checks_def Let_def cur cur1)
  ultimately show ?thesis
    by (intro exI [of _ ?c2] exI [of _ "mark_equity ?c2 b"])
      (simp add: run mark_equity_def Let_def core_send_eq)
qed

definition short_core :: "any_sizer engine_core" where
  "short_core = example_core\<lparr>ec_portfolio := example_short\<rparr>"

lemma short_core_facts:
  "core_inv short_core" "finite_book (ec_portfolio short_core)" "sb_queue (ec_bus short_core) = []"
  "br_pending (ec_broker short_core) = []" "\<not> warming_up short_core b"
  by (simp_all add: short_core_def example_core_def core_new_def example_short_def portfolio_new_def core_inv_def
      cash_reconciles_def cash_of_fills_def positions_keyed_def tracked_are_open_def finite_book_def
      int_f64_def sync_bus_new_def broker_new_def warming_up_def)

theorem base_tick_applies_fills_in_order_witness:
  "\<exists>c'. run_base_tick any_sizer_manager short_core example_bar = (c', True) \<and>
     map ep_timestamp (pf_equity_curve (ec_portfolio c')) = [60000]"
proof -
  have p: "process_pending (ec_broker short_core) example_bar = (ec_broker short_core, [])"
    using short_core_facts(4) by (simp add: process_pending_def)
  have "map ep_timestamp (pf_equity_curve (ec_portfolio short_core)) @ [b_timestamp example_bar] = [60000]"
    by (simp add: short_core_def example_short_def portfolio_new_def example_bar_def bar_new_def)
  with base_tick_applies_fills_in_order [OF short_core_facts(3,5) p, of any_sizer_manager]
  show ?thesis by auto
qed



text \<open>C7. What an entry signal may order: the closes of the opposite legs that the reverse policy demands,
  and after them at most one entry, on the signal's side, for its base symbol and for more than the
  machine epsilon. There is no entry at all when the policy is to exit and an opposite leg is open, when
  single entry is set and the symbol is already held in that direction, or when pyramiding has reached
  its number of units.\<close>

theorem open_position_orders:
  "\<exists>entry lv. open_position rm c sg sd = emits c (reversal_closes c sg sd @ entry) lv \<and>
     length entry \<le> 1 \<and> (entry_refused c sg sd \<longrightarrow> entry = []) \<and>
     (\<forall>ord \<in> set entry. ordered_by sg ord \<and> o_side ord = sd \<and> f64_epsilon < o_qty ord)"
  by (rule open_position_orders_aux)

theorem open_position_orders_witness:
  "\<exists>lv. open_position any_sizer_manager (short_core\<lparr>ec_reverse_policy := Some RP_Exit\<rparr>) example_signal Buy =
     emits (short_core\<lparr>ec_reverse_policy := Some RP_Exit\<rparr>) [order_market 5 ''BTC'' Buy (Fin 2)] lv"
proof -
  let ?c = "short_core\<lparr>ec_reverse_policy := Some RP_Exit\<rparr>"
  have "reversal_closes ?c example_signal Buy = [order_market 5 ''BTC'' Buy (Fin 2)]" and "entry_refused ?c example_signal Buy"
    by (simp_all add: reversal_closes_def entry_refused_def opposite_legs_def open_leg_def on_side_def opposite_def
        close_order_def short_core_def example_short_def portfolio_new_def example_signal_def signal_long_def
        signal_of_def is_short_def is_long_def int_f64_def f64_simps base_symbol_def)
  with open_position_orders [of any_sizer_manager ?c example_signal Buy] show ?thesis by fastforce
qed

text \<open>C8. The end of the data: when no quantity has overflowed, closing everything at the last bar leaves no
  open position and no exit tracker, and the invariant of the core still holds.\<close>

theorem force_close_all_leaves_nothing_open:
  assumes "core_inv c" and "finite_book (ec_portfolio c)"
  shows "\<not> still_open (ec_portfolio (force_close_all c b)) k \<and>
    ec_position_trackers (force_close_all c b) = [] \<and> core_inv (force_close_all c b)"
proof -
  have inv: "core_inv (force_close_all c b)" using assms(1) by (rule core_inv_force_close_all)
  then have "hm_get (ec_position_trackers (force_close_all c b)) s = None" for s
    using force_close_all_flat [OF assms, of b s] by (auto simp: core_inv_def tracked_are_open_def simp del: not_None_eq)
  then have "ec_position_trackers (force_close_all c b) = []"
    by (metis fst_conv list.exhaust map_of_eq_None_iff list.set_intros(1) image_eqI)
  with inv force_close_all_flat [OF assms] show ?thesis by blast
qed

theorem force_close_all_leaves_nothing_open_witness:
  "\<not> still_open (ec_portfolio (force_close_all short_core example_bar)) ''BTC'' \<and> still_open (ec_portfolio short_core) ''BTC''"
  using force_close_all_leaves_nothing_open [OF short_core_facts(1,2), of example_bar "''BTC''"]
  by (simp add: still_open_def short_core_def example_short_def int_f64_def f64_simps)

text \<open>C6. Every open position is watched: if every open position has an exit tracker before a bar, and no
  quantity overflows when the pending orders are filled, then every open position has one after the bar,
  and no tracker is left for a position that is not open. So a stop, a target or a time exit attached to a
  position can never be lost while the position lives.\<close>

theorem base_tick_keeps_positions_watched:
  assumes "core_inv c" and "open_are_tracked c" and "sb_queue (ec_bus c) = []"
    and "\<And>c1. c1 = fill_pending rm (c\<lparr>ec_last_price := b_close b, ec_risk := rm_on_bar rm (ec_risk c) b\<rparr>) b \<Longrightarrow>
           finite_book (ec_portfolio c1)"
  shows "let c' = fst (run_base_tick rm c b)
    in still_open (ec_portfolio c') k \<longleftrightarrow> hm_get (ec_position_trackers c') k \<noteq> None"
proof -
  let ?c0 = "c\<lparr>ec_last_price := b_close b, ec_risk := rm_on_bar rm (ec_risk c) b\<rparr>"
  let ?c1 = "fill_pending rm ?c0 b"
  obtain br fills where pp: "process_pending (ec_broker ?c0) b = (br, fills)" by fastforce
  then have c1: "?c1 = foldl on_fill (?c0\<lparr>ec_broker := br\<rparr>) fills"
    using assms(3) by (intro fill_pending_eq) simp_all
  have 0: "open_are_tracked ?c0" "core_inv (?c0\<lparr>ec_broker := br\<rparr>)" "open_are_tracked (?c0\<lparr>ec_broker := br\<rparr>)"
    using assms(1,2) by (simp_all add: open_are_tracked_def core_inv_def tracked_are_open_def)
  have "open_are_tracked ?c1" "core_inv ?c1"
    unfolding c1 by (rule open_tracked_fills [OF 0(3)], rule core_inv_fills [OF 0(2)])
  then have "open_are_tracked (run_exit_checks ?c1 b)"
    using assms(4) [OF refl] by (intro open_tracked_exit_checks) (simp_all add: core_inv_def)
  then have "open_are_tracked (mark_equity (run_exit_checks ?c1 b) b)"
    by (simp add: open_are_tracked_def mark_equity_def Let_def core_send_def)
  then have "open_are_tracked (fst (run_base_tick rm c b))"
    using 0(1) by (simp add: run_base_tick_def Let_def)
  moreover have "tracked_are_open (fst (run_base_tick rm c b))"
    using core_inv_run_base_tick [OF assms(1), of rm b] by (simp add: core_inv_def)
  ultimately show ?thesis unfolding open_are_tracked_def tracked_are_open_def Let_def by blast
qed

theorem base_tick_keeps_positions_watched_witness:
  "let c' = fst (run_base_tick any_sizer_manager example_core example_bar)
   in still_open (ec_portfolio c') ''BTC'' \<longleftrightarrow> hm_get (ec_position_trackers c') ''BTC'' \<noteq> None"
  by (rule base_tick_keeps_positions_watched)
    (simp_all add: example_core_def core_inv_new, simp_all add: core_new_def open_are_tracked_def still_open_def
      portfolio_new_def sync_bus_new_def fill_pending_def process_pending_def broker_new_def
      early_drain_step finite_book_def)

section \<open>Every sequence of operations\<close>

text \<open>The operations the outer engines perform on a core, in any order.\<close>

inductive core_step :: "'r risk_manager \<Rightarrow> 'r engine_core \<Rightarrow> 'r engine_core \<Rightarrow> bool" for rm where
  tick: "core_step rm c (fst (run_base_tick rm c b))"
| signals: "core_step rm c (dispatch_signals rm c sgs)"
| regime: "core_step rm c (update_regime c ts st)"
| finish: "core_step rm c (force_close_all c b)"
| reset: "core_step rm c (core_reset c cap)"

inductive_cases core_stepE: "core_step rm c c'"

lemma core_inv_step: "core_step rm c c' \<Longrightarrow> core_inv c \<Longrightarrow> core_inv c'"
  by (erule core_stepE) (simp_all add: core_inv_run_base_tick core_inv_dispatch_signals core_inv_update_regime
      core_inv_force_close_all core_inv_reset)

text \<open>C2. The invariant of the engine core holds in every state that any sequence of bars, signals, regime
  updates, final closes and resets reaches from a new core: the cash is the initial capital plus the cash
  impact of every recorded fill, positions are filed under their own symbols, and a tracker exists only for
  an open position.\<close>

theorem core_invariant_reachable:
  assumes "(core_step rm)\<^sup>*\<^sup>* (core_new cap r co sl) c"
  shows "pf_cash (ec_portfolio c) =
           cash_of_fills (pf_initial_capital (ec_portfolio c)) (pf_fills (ec_portfolio c)) \<and>
    positions_keyed (ec_portfolio c) \<and>
    (\<forall>s. hm_get (ec_position_trackers c) s \<noteq> None \<longrightarrow> still_open (ec_portfolio c) s)"
proof -
  have "core_inv c" using assms
  proof (induction rule: rtranclp_induct)
    case base
    show ?case by (rule core_inv_new)
  next
    case (step y z)
    then show ?case using core_inv_step by blast
  qed
  then show ?thesis by (simp add: core_inv_def cash_reconciles_def tracked_are_open_def)
qed

theorem core_invariant_reachable_witness:
  "positions_keyed (ec_portfolio (dispatch_signals any_sizer_manager
     (fst (run_base_tick any_sizer_manager example_core example_bar)) [example_signal]))"
proof -
  let ?c1 = "fst (run_base_tick any_sizer_manager example_core example_bar)"
  have "core_step any_sizer_manager example_core ?c1"
      "core_step any_sizer_manager ?c1 (dispatch_signals any_sizer_manager ?c1 [example_signal])"
    by (rule core_step.tick, rule core_step.signals)
  then have "(core_step any_sizer_manager)\<^sup>*\<^sup>* example_core (dispatch_signals any_sizer_manager ?c1 [example_signal])"
    by (meson converse_rtranclp_into_rtranclp rtranclp.rtrancl_refl)
  from core_invariant_reachable [OF this [unfolded example_core_def]]
  show ?thesis unfolding example_core_def by (rule conjunct2 [THEN conjunct1])
qed

text \<open>Minting a leg key ends and is fresh: the key names no open position and its base symbol is the
  base symbol of the leg it is minted for, so that the broker fills it against the same bars.\<close>

theorem mint_leg_key_fresh:
  "hm_get (pf_positions (ec_portfolio c)) (mint_leg_key c base) = None \<and>
   base_symbol (mint_leg_key c base) = base_symbol base \<and> (\<exists>i\<ge>2. mint_leg_key c base = leg_key base i)"
proof -
  obtain i where "i \<ge> 2" "mint_leg_key c base = leg_key base i"
      "\<not> hm_contains (pf_positions (ec_portfolio c)) (leg_key base i)"
    unfolding mint_leg_key_def using mint_from_is_leg_key by blast
  then show ?thesis by (auto simp: base_symbol_leg_key)
qed

text \<open>C17. What a reset leaves behind: portfolio, trackers, levels and regimes are as in a new core, but the
  orders pending at the broker survive, so that an order submitted in one run is filled on the first
  matching bar of the next run.\<close>

theorem reset_keeps_pending_orders:
  "ec_portfolio (core_reset c cap) = portfolio_new cap \<and> ec_position_trackers (core_reset c cap) = [] \<and>
   ec_pending_signal_levels (core_reset c cap) = [] \<and> ec_regime_changes (core_reset c cap) = [] \<and>
   ec_broker (core_reset c cap) = ec_broker c \<and>
   (o_kind ord = Market \<longrightarrow> base_symbol (o_symbol ord) = b_symbol b \<longrightarrow> br_pending (ec_broker c) = [ord] \<longrightarrow>
    sb_queue (ec_bus c) = [] \<longrightarrow> ec_warmup_until c = None \<longrightarrow>
    pf_fills (ec_portfolio (fill_pending rm (core_reset c cap) b)) \<noteq> [])"
proof -
  have "pf_fills (ec_portfolio (fill_pending rm (core_reset c cap) b)) \<noteq> []"
    if h: "o_kind ord = Market" "base_symbol (o_symbol ord) = b_symbol b" "br_pending (ec_broker c) = [ord]"
      "sb_queue (ec_bus c) = []"
  proof -
    obtain f where f: "fill_order (ec_broker c) b ord = Some f"
      using h(1,2) by (simp add: fill_order_def fill_price_of_def)
    then have "process_pending (ec_broker (core_reset c cap)) b = ((ec_broker c)\<lparr>br_pending := []\<rparr>, [f])"
      using h(3) by (simp add: core_reset_def process_pending_eq map_filter_simps)
    moreover have "sb_queue (ec_bus (core_reset c cap)) = []" using h(4) by (simp add: core_reset_def)
    ultimately show ?thesis using fill_pending_eq [of "core_reset c cap" b _ "[f]" rm] by simp
  qed
  then show ?thesis by (simp add: core_reset_def)
qed

theorem reset_keeps_pending_orders_witness:
  "pf_fills (ec_portfolio (fill_pending any_sizer_manager (core_reset
     (example_core\<lparr>ec_broker := (ec_broker example_core)\<lparr>br_pending := [order_market 0 ''BTC'' Buy (Fin 1)]\<rparr>\<rparr>)
     (Fin 500)) example_bar)) \<noteq> []"
  using reset_keeps_pending_orders [where c = "example_core\<lparr>ec_broker :=
       (ec_broker example_core)\<lparr>br_pending := [order_market 0 ''BTC'' Buy (Fin 1)]\<rparr>\<rparr>"
      and ord = "order_market 0 ''BTC'' Buy (Fin 1)" and b = example_bar and cap = "Fin 500"
      and rm = any_sizer_manager]
  by (simp add: example_bar_def bar_new_def base_symbol_def example_core_def core_new_def sync_bus_new_def)

end
