(* ===== verification/Timeframes.thy ===== *)
theory Timeframes
  imports Market_Types
begin

text \<open>
  \<open>alm-core/src/timeframe.rs\<close>: the fourteen standard timeframes, their durations, their
  names and their detection from a series of timestamps. \<open>detect\<close> returns \<open>None\<close> where the
  Rust code would index out of bounds and panic.
\<close>

datatype timeframe = M1 | M3 | M5 | M10 | M15 | M30 | H1 | H2 | H4 | H6 | H12 | D1 | W1 | MN

fun duration_ms :: "timeframe \<Rightarrow> int" where
  "duration_ms M1 = 60000"
| "duration_ms M3 = 180000"
| "duration_ms M5 = 300000"
| "duration_ms M10 = 600000"
| "duration_ms M15 = 900000"
| "duration_ms M30 = 1800000"
| "duration_ms H1 = 3600000"
| "duration_ms H2 = 7200000"
| "duration_ms H4 = 14400000"
| "duration_ms H6 = 21600000"
| "duration_ms H12 = 43200000"
| "duration_ms D1 = 86400000"
| "duration_ms W1 = 604800000"
| "duration_ms MN = 2592000000"

definition bars_per_year :: "timeframe \<Rightarrow> f64" where
  "bars_per_year tf = lit (36525 / 100) * lit 24 * lit 3600000 / f64_of_int (duration_ms tf)"

definition all_timeframes :: "timeframe list" where
  "all_timeframes = [M1, M3, M5, M10, M15, M30, H1, H2, H4, H6, H12, D1, W1, MN]"

text \<open>\<open>Iterator::min_by_key\<close>: the first element with the least key.\<close>

fun min_by_key :: "('a \<Rightarrow> int) \<Rightarrow> 'a list \<Rightarrow> 'a option" where
  "min_by_key k [] = None"
| "min_by_key k (x # xs) =
     (case min_by_key k xs of
        None \<Rightarrow> Some x
      | Some y \<Rightarrow> if k x \<le> k y then Some x else Some y)"

definition snap :: "int \<Rightarrow> timeframe" where
  "snap ms =
     (case min_by_key (\<lambda>tf. \<bar>duration_ms tf - ms\<bar>) all_timeframes of
        Some tf \<Rightarrow> tf
      | None \<Rightarrow> M1)"

fun windows2 :: "'a list \<Rightarrow> ('a \<times> 'a) list" where
  "windows2 (x # y # zs) = (x, y) # windows2 (y # zs)"
| "windows2 _ = []"

definition intervals :: "int list \<Rightarrow> int list" where
  "intervals ts = sort (filter (\<lambda>d. d > 0) (map (\<lambda>(a, b). b - a) (windows2 ts)))"

definition tenth_percentile_idx :: "nat \<Rightarrow> nat" where
  "tenth_percentile_idx n = usize_of_f64 (f64_of_nat n * lit (1 / 10))"

definition detect :: "int list \<Rightarrow> timeframe option" where
  "detect ts =
     (if length ts < 2 then Some M1
      else if intervals ts = [] then Some M1
      else let idx = tenth_percentile_idx (length (intervals ts))
           in if idx < length (intervals ts)
              then Some (snap (max (intervals ts ! idx) 1)) else None)"

definition ascii_upper :: "char \<Rightarrow> char" where
  "ascii_upper c =
     (if 97 \<le> (of_char c :: nat) \<and> (of_char c :: nat) \<le> 122
      then char_of ((of_char c :: nat) - 32) else c)"

definition to_ascii_uppercase :: "string \<Rightarrow> string" where
  "to_ascii_uppercase s = map ascii_upper s"

fun tf_display :: "timeframe \<Rightarrow> string" where
  "tf_display M1 = ''M1''"
| "tf_display M3 = ''M3''"
| "tf_display M5 = ''M5''"
| "tf_display M10 = ''M10''"
| "tf_display M15 = ''M15''"
| "tf_display M30 = ''M30''"
| "tf_display H1 = ''H1''"
| "tf_display H2 = ''H2''"
| "tf_display H4 = ''H4''"
| "tf_display H6 = ''H6''"
| "tf_display H12 = ''H12''"
| "tf_display D1 = ''D1''"
| "tf_display W1 = ''W1''"
| "tf_display MN = ''MN''"

text \<open>The match of \<open>from_str\<close> on the upper-cased string, arm by arm; \<open>Inl\<close> is the error message.\<close>

definition tf_from_str :: "string \<Rightarrow> string + timeframe" where
  "tf_from_str s =
     (let u = to_ascii_uppercase s
      in if u = ''M1'' then Inr M1
         else if u = ''M3'' then Inr M3
         else if u = ''M5'' then Inr M5
         else if u = ''M10'' then Inr M10
         else if u = ''M15'' then Inr M15
         else if u = ''M30'' then Inr M30
         else if u = ''H1'' then Inr H1
         else if u = ''H2'' then Inr H2
         else if u = ''H4'' then Inr H4
         else if u = ''H6'' then Inr H6
         else if u = ''H12'' then Inr H12
         else if u = ''D1'' then Inr D1
         else if u = ''W1'' then Inr W1
         else if u = ''MN'' then Inr MN
         else Inl (''unknown timeframe: '' @ s))"

section \<open>Durations and names\<close>

lemma duration_ms_pos [simp]: "0 < duration_ms tf"
  by (cases tf) simp_all

lemma duration_ms_inj: "duration_ms a = duration_ms b \<longleftrightarrow> a = b"
  by (cases a; cases b) simp_all

lemma all_timeframes_complete: "tf \<in> set all_timeframes"
  by (cases tf) (simp_all add: all_timeframes_def)

text \<open>Timeframes are ordered by their duration.\<close>

instantiation timeframe :: linorder
begin

definition less_eq_timeframe :: "timeframe \<Rightarrow> timeframe \<Rightarrow> bool" where
  "a \<le> b \<longleftrightarrow> duration_ms a \<le> duration_ms b"

definition less_timeframe :: "timeframe \<Rightarrow> timeframe \<Rightarrow> bool" where
  "a < b \<longleftrightarrow> duration_ms a < duration_ms b"

instance
  by standard (auto simp: less_eq_timeframe_def less_timeframe_def duration_ms_inj)

end

lemma min_by_key_None [simp]: "min_by_key k xs = None \<longleftrightarrow> xs = []"
  by (cases xs) (auto split: option.splits)

lemma min_by_key_Some:
  "min_by_key k xs = Some y \<Longrightarrow> y \<in> set xs \<and> (\<forall>x \<in> set xs. k y \<le> k x)"
proof (induction xs arbitrary: y)
  case (Cons x xs)
  then show ?case
    by (cases "min_by_key k xs") (force split: if_splits)+
qed simp

lemma snap_nearest: "\<bar>duration_ms (snap ms) - ms\<bar> \<le> \<bar>duration_ms tf - ms\<bar>"
proof -
  let ?m = "min_by_key (\<lambda>tf. \<bar>duration_ms tf - ms\<bar>) all_timeframes"
  have "?m \<noteq> None" using all_timeframes_complete [of M1] by (subst min_by_key_None) force
  then obtain y where y: "?m = Some y" by blast
  with min_by_key_Some [OF y] all_timeframes_complete [of tf] show ?thesis
    by (simp add: snap_def)
qed

lemma snap_duration [simp]: "snap (duration_ms tf) = tf"
  using snap_nearest [of "duration_ms tf" tf] by (simp add: duration_ms_inj)

lemma to_ascii_uppercase_idem: "to_ascii_uppercase (tf_display tf) = tf_display tf"
  by (cases tf) (simp_all add: to_ascii_uppercase_def ascii_upper_def)

lemma tf_display_inj: "tf_display a = tf_display b \<longleftrightarrow> a = b"
  by (cases a; cases b) simp_all

lemma tf_from_str_cong:
  "to_ascii_uppercase s = tf_display tf \<Longrightarrow> tf_from_str s = Inr tf"
  by (cases tf) (simp_all add: tf_from_str_def Let_def)

lemma tf_from_str_Inr:
  "tf_from_str s = Inr tf \<longleftrightarrow> to_ascii_uppercase s = tf_display tf"
proof
  assume "tf_from_str s = Inr tf"
  then show "to_ascii_uppercase s = tf_display tf"
    by (auto simp: tf_from_str_def Let_def split: if_splits)
qed (rule tf_from_str_cong)

section \<open>Detection\<close>

lemma tenth_percentile_idx_le_half:
  assumes "n \<le> 2 ^ 53"
  shows "2 * tenth_percentile_idx n \<le> n"
proof -
  have n: "f64_of_nat n = Fin (of_nat n)"
    using fl_of_int [of "int n"] assms by (simp add: f64_of_nat_def)
  have half: "fl (1 / 2) = Fin (1 / 2)"
    using fl_representable [OF representable_dyadic [of 1 1]] by simp
  have "fl (1 / 10) \<le> fl (1 / 2)" and "0 \<le> fl (1 / 10)"
    by (rule fl_mono, simp) (rule fl_nonneg, simp)
  then have t: "is_finite (fl (1 / 10))" "0 \<le> fval (fl (1 / 10))" "fval (fl (1 / 10)) \<le> 1 / 2"
    unfolding half by (cases "fl (1 / 10)"; auto simp: zero_f64_def)+
  have p: "f64_of_nat n * fl (1 / 10) \<le> Fin (of_nat n / 2)"
  proof -
    have "f64_of_nat n * fl (1 / 10) \<le> fl (of_nat n / 2)"
      using t mult_left_mono [OF t(3), of "of_nat n"]
      by (auto simp: n times_f64_def Let_def intro!: fl_mono)
    also have "fl (of_nat n / 2) = Fin (of_nat n / 2)"
      using fl_representable [OF representable_dyadic [of "int n" 1]] assms by simp
    finally show ?thesis .
  qed
  show ?thesis
  proof (cases "f64_of_nat n * fl (1 / 10)")
    case (Fin r)
    with p have "r \<le> of_nat n / 2" by simp
    then have "2 * \<lfloor>r\<rfloor> \<le> int n" by linarith
    moreover have "2 * nat (min (2 ^ 64 - 1) (if r < 0 then 0 else f)) \<le> n"
      if "2 * f \<le> int n" for f
      using that by auto
    ultimately have "2 * nat (min (2 ^ 64 - 1) (if r < 0 then 0 else \<lfloor>r\<rfloor>)) \<le> n" by blast
    then show ?thesis using Fin by (simp add: tenth_percentile_idx_def)
  qed (use p in \<open>auto simp: tenth_percentile_idx_def\<close>)
qed

lemma detect_total:
  assumes "length ts \<le> 2 ^ 53"
  shows "\<exists>tf. detect ts = Some tf"
proof -
  have w: "length (windows2 ts) \<le> length ts"
    by (induction ts rule: windows2.induct) auto
  have "length (intervals ts) \<le> length (windows2 ts)"
    by (simp add: intervals_def)
  then have len: "length (intervals ts) \<le> 2 ^ 53" using w assms by linarith
  have "intervals ts \<noteq> [] \<Longrightarrow> tenth_percentile_idx (length (intervals ts)) < length (intervals ts)"
    using tenth_percentile_idx_le_half [OF len] by (cases "intervals ts") auto
  then show ?thesis by (auto simp: detect_def Let_def)
qed

lemma windows2_map_upt:
  "windows2 (map f [m..<n]) = map (\<lambda>i. (f i, f (Suc i))) [m..<n - 1]"
proof (induction "n - m" arbitrary: m)
  case (Suc k)
  then have m: "m < n" by simp
  show ?case
  proof (cases "Suc m < n")
    case True
    have "[m..<n] = m # Suc m # [Suc (Suc m)..<n]" using True by (simp add: upt_conv_Cons)
    moreover have "[m..<n - 1] = m # [Suc m..<n - 1]" using True by (simp add: upt_conv_Cons)
    moreover have "[Suc m..<n] = Suc m # [Suc (Suc m)..<n]" using True by (simp add: upt_conv_Cons)
    ultimately show ?thesis using Suc.hyps(1) [of "Suc m"] Suc.hyps(2) by simp
  next
    case False
    with m have "n = Suc m" by simp
    then show ?thesis by simp
  qed
qed simp

text \<open>A gap-free series is detected as its own timeframe.\<close>

lemma detect_regular_aux:
  assumes "2 \<le> n" and "n \<le> 2 ^ 53"
  shows "detect (map (\<lambda>i. t0 + int i * duration_ms tf) [0..<n]) = Some tf"
proof -
  let ?ts = "map (\<lambda>i. t0 + int i * duration_ms tf) [0..<n]"
  have "map (\<lambda>(a, b). b - a) (windows2 ?ts) = replicate (n - 1) (duration_ms tf)"
    by (simp add: windows2_map_upt o_def algebra_simps map_replicate_const)
  then have iv: "intervals ?ts = replicate (n - 1) (duration_ms tf)"
    by (simp add: intervals_def sort_replicate)
  have "tenth_percentile_idx (n - 1) < n - 1"
    using tenth_percentile_idx_le_half [of "n - 1"] assms by linarith
  moreover have "max (duration_ms tf) 1 = duration_ms tf" by (cases tf) simp_all
  ultimately show ?thesis using assms by (simp add: detect_def iv Let_def)
qed

section \<open>Properties\<close>

text \<open>C15. Names and timeframes correspond: printing a timeframe and parsing it, in any letter case,
  gives the timeframe back; parsing accepts nothing but the fourteen printed names (up to letter
  case), and every other string is reported as an error that quotes it.\<close>

theorem timeframe_name_roundtrip:
  "(to_ascii_uppercase s = tf_display tf \<longrightarrow> tf_from_str s = Inr tf) \<and>
   tf_from_str (tf_display tf) = Inr tf \<and>
   (tf_from_str s = Inr tf \<longrightarrow> to_ascii_uppercase s = tf_display tf) \<and>
   ((\<nexists>t. to_ascii_uppercase s = tf_display t) \<longrightarrow> tf_from_str s = Inl (''unknown timeframe: '' @ s))"
proof -
  have "tf_from_str s = Inl (''unknown timeframe: '' @ s)" if "\<nexists>t. to_ascii_uppercase s = tf_display t"
  proof (cases "tf_from_str s")
    case (Inl e)
    then show ?thesis by (simp add: tf_from_str_def Let_def split: if_splits)
  qed (use that tf_from_str_Inr [of s] in auto)
  then show ?thesis
    using tf_from_str_Inr [of s tf] tf_from_str_Inr [of "tf_display tf" tf]
    by (simp add: to_ascii_uppercase_idem)
qed

theorem timeframe_name_roundtrip_witness:
  "tf_from_str ''m15'' = Inr M15 \<and> tf_from_str ''M7'' = Inl ''unknown timeframe: M7''"
proof -
  have "to_ascii_uppercase ''m15'' = tf_display M15"
    by code_simp
  moreover have "\<nexists>t. to_ascii_uppercase ''M7'' = tf_display t"
  proof
    assume "\<exists>t. to_ascii_uppercase ''M7'' = tf_display t"
    then obtain t where "to_ascii_uppercase ''M7'' = tf_display t" by blast
    then show False by (cases t) (simp_all add: to_ascii_uppercase_def ascii_upper_def)
  qed
  ultimately have "tf_from_str ''m15'' = Inr M15"
    and "tf_from_str ''M7'' = Inl (''unknown timeframe: '' @ ''M7'')"
    using timeframe_name_roundtrip by (blast, blast)
  then show ?thesis by simp
qed

text \<open>Detection never indexes out of its intervals, on any timestamps at all (up to 2^53 of them);
  and a gap-free series of at least two bars is recognised as its own timeframe.\<close>

theorem detect_recognises_regular_series:
  assumes "length ts \<le> 2 ^ 53" and "2 \<le> n" and "n \<le> 2 ^ 53"
  shows "(\<exists>tf. detect ts = Some tf) \<and> detect (map (\<lambda>i. t0 + int i * duration_ms tf) [0..<n]) = Some tf"
  using detect_total [OF assms(1)] detect_regular_aux [OF assms(2,3), of t0 tf] by blast

theorem detect_recognises_regular_series_witness:
  "detect [0, 900000, 1800000] = Some M15"
  using detect_recognises_regular_series [of "[]" 3 0 M15] by (simp add: upt_rec)

end
