(* ===== verification/Feeds.thy ===== *)
theory Feeds
  imports Timeframes Market_Types
begin

text \<open>
  \<open>alm-data\<close>: the trait \<open>BarFeed\<close> (\<open>feed.rs\<close>) as a locale, the in-memory feed (\<open>memory.rs\<close>) and the
  resampling feed (\<open>aggregator.rs\<close>) as its instances, and the loop \<open>while let Some(bar) = feed.next()\<close>
  of the engines. The outer \<open>None\<close> of a step stands for a call that does not return.
\<close>

partial_function (option) feed_loop ::
  "('f \<Rightarrow> ('f \<times> bar option) option) \<Rightarrow> ('s \<Rightarrow> bar \<Rightarrow> 's) \<Rightarrow> 'f \<Rightarrow> 's \<Rightarrow> ('f \<times> 's) option" where
  "feed_loop nxt step f s =
     (case nxt f of
        None \<Rightarrow> None
      | Some (f', r) \<Rightarrow>
          (case r of None \<Rightarrow> Some (f', s) | Some b \<Rightarrow> feed_loop nxt step f' (step s b)))"

locale bar_feed =
  fixes nxt :: "'f \<Rightarrow> ('f \<times> bar option) option"
    and remaining :: "'f \<Rightarrow> bar list"
    and ok :: "'f \<Rightarrow> bool"
  assumes nxt_empty: "ok f \<Longrightarrow> remaining f = [] \<Longrightarrow> \<exists>f'. nxt f = Some (f', None) \<and> remaining f' = [] \<and> ok f'"
    and nxt_bar: "ok f \<Longrightarrow> remaining f = b # bs \<Longrightarrow> \<exists>f'. nxt f = Some (f', Some b) \<and> remaining f' = bs \<and> ok f'"
begin

text \<open>The loop returns and has folded its body over the bars of the feed, in order.\<close>

lemma loop_folds:
  "ok f \<Longrightarrow> \<exists>f'. feed_loop nxt step f s = Some (f', foldl step s (remaining f)) \<and> remaining f' = [] \<and> ok f'"
proof (induction "remaining f" arbitrary: f s)
  case Nil
  then obtain f' where "nxt f = Some (f', None)" "remaining f' = []" "ok f'"
    using nxt_empty [of f] by auto
  then show ?case using Nil by (auto simp: feed_loop.simps [of nxt step f])
next
  case (Cons b bs)
  then obtain f' where f': "nxt f = Some (f', Some b)" "remaining f' = bs" "ok f'"
    using nxt_bar [of f b bs] by auto
  then show ?case using Cons.hyps(1) [of f' "step s b"] Cons.hyps(2) [symmetric]
    by (auto simp: feed_loop.simps [of nxt step f])
qed

lemma loop_exhausts: "ok f \<Longrightarrow> feed_loop nxt step f s = Some (f', s') \<Longrightarrow> remaining f' = []"
  using loop_folds [of f step s] by auto

end

section \<open>The in-memory feed\<close>

record bar_vec_feed =
  bv_bars :: "bar list"
  bv_cursor :: nat
  bv_symbol :: string
  bv_timeframe :: timeframe

definition bar_vec_new :: "bar list \<Rightarrow> string \<Rightarrow> bar_vec_feed option" where
  "bar_vec_new bars s =
     (case detect (map b_timestamp bars) of
        None \<Rightarrow> None
      | Some tf \<Rightarrow> Some \<lparr>bv_bars = bars, bv_cursor = 0, bv_symbol = s, bv_timeframe = tf\<rparr>)"

definition bar_vec_with_timeframe :: "bar list \<Rightarrow> string \<Rightarrow> timeframe \<Rightarrow> bar_vec_feed" where
  "bar_vec_with_timeframe bars s tf = \<lparr>bv_bars = bars, bv_cursor = 0, bv_symbol = s, bv_timeframe = tf\<rparr>"

definition bar_vec_next :: "bar_vec_feed \<Rightarrow> (bar_vec_feed \<times> bar option) option" where
  "bar_vec_next f =
     (if bv_cursor f < length (bv_bars f)
      then Some (f\<lparr>bv_cursor := bv_cursor f + 1\<rparr>, Some (bv_bars f ! bv_cursor f))
      else Some (f, None))"

definition bar_vec_len :: "bar_vec_feed \<Rightarrow> nat" where
  "bar_vec_len f = length (bv_bars f)"

definition bar_vec_reset :: "bar_vec_feed \<Rightarrow> bar_vec_feed" where
  "bar_vec_reset f = f\<lparr>bv_cursor := 0\<rparr>"

definition bar_vec_remaining :: "bar_vec_feed \<Rightarrow> bar list" where
  "bar_vec_remaining f = drop (bv_cursor f) (bv_bars f)"

interpretation vec: bar_feed bar_vec_next bar_vec_remaining "\<lambda>_. True"
proof
  fix f :: bar_vec_feed and b bs
  show "\<exists>f'. bar_vec_next f = Some (f', None) \<and> bar_vec_remaining f' = [] \<and> True"
    if "bar_vec_remaining f = []"
    using that by (auto simp: bar_vec_next_def bar_vec_remaining_def)
  show "\<exists>f'. bar_vec_next f = Some (f', Some b) \<and> bar_vec_remaining f' = bs \<and> True"
    if r: "bar_vec_remaining f = b # bs"
  proof -
    have "bv_cursor f < length (bv_bars f)" using r by (auto simp: bar_vec_remaining_def intro: ccontr)
    then show ?thesis
      using r Cons_nth_drop_Suc [of "bv_cursor f" "bv_bars f"]
      by (auto simp: bar_vec_next_def bar_vec_remaining_def)
  qed
qed

lemma bar_vec_reset_remaining [simp]: "bar_vec_remaining (bar_vec_reset f) = bv_bars f"
  by (simp add: bar_vec_reset_def bar_vec_remaining_def)

section \<open>Resampling\<close>

definition period_start :: "int \<Rightarrow> int \<Rightarrow> int" where
  "period_start ts period_ms = (ts div period_ms) * period_ms"

record partial_bar =
  pb_period_start :: int
  pb_timestamp :: int
  pb_symbol :: string
  pb_open :: f64
  pb_high :: f64
  pb_low :: f64
  pb_close :: f64
  pb_volume :: f64

definition partial_open :: "bar \<Rightarrow> int \<Rightarrow> partial_bar" where
  "partial_open b period = \<lparr>pb_period_start = period, pb_timestamp = b_timestamp b, pb_symbol = b_symbol b,
     pb_open = b_open b, pb_high = b_high b, pb_low = b_low b, pb_close = b_close b, pb_volume = b_volume b\<rparr>"

definition partial_extend :: "partial_bar \<Rightarrow> bar \<Rightarrow> partial_bar" where
  "partial_extend p b = p\<lparr>pb_high := fmax (pb_high p) (b_high b), pb_low := fmin (pb_low p) (b_low b),
     pb_close := b_close b, pb_volume := pb_volume p + b_volume b\<rparr>"

definition into_bar :: "partial_bar \<Rightarrow> bar" where
  "into_bar p = bar_new (pb_timestamp p) (pb_symbol p) (pb_open p) (pb_high p) (pb_low p) (pb_close p) (pb_volume p)"

record standalone_aggregator =
  sa_target_tf :: timeframe
  sa_pending :: "partial_bar option"

definition aggregator_new :: "timeframe \<Rightarrow> standalone_aggregator" where
  "aggregator_new tf = \<lparr>sa_target_tf = tf, sa_pending = None\<rparr>"

definition aggregator_flush :: "standalone_aggregator \<Rightarrow> standalone_aggregator \<times> bar option" where
  "aggregator_flush a = (a\<lparr>sa_pending := None\<rparr>, map_option into_bar (sa_pending a))"

definition update_pending :: "standalone_aggregator \<Rightarrow> bar \<Rightarrow> int \<Rightarrow> standalone_aggregator" where
  "update_pending a b period =
     (case sa_pending a of
        None \<Rightarrow> a\<lparr>sa_pending := Some (partial_open b period)\<rparr>
      | Some p \<Rightarrow> a\<lparr>sa_pending := Some (partial_extend p b)\<rparr>)"

definition aggregator_update :: "standalone_aggregator \<Rightarrow> bar \<Rightarrow> standalone_aggregator \<times> bar option" where
  "aggregator_update a b =
     (let period = period_start (b_timestamp b) (duration_ms (sa_target_tf a));
          (a1, completed) =
            (case sa_pending a of
               Some p \<Rightarrow> if pb_period_start p \<noteq> period then aggregator_flush a else (a, None)
             | None \<Rightarrow> (a, None))
      in (update_pending a1 b period, completed))"

record 'f bar_aggregator =
  ba_inner :: 'f
  ba_target_tf :: timeframe
  ba_agg :: standalone_aggregator
  ba_ready :: "bar list"

definition bar_aggregator_new :: "'f \<Rightarrow> timeframe \<Rightarrow> 'f bar_aggregator" where
  "bar_aggregator_new f tf = \<lparr>ba_inner = f, ba_target_tf = tf, ba_agg = aggregator_new tf, ba_ready = []\<rparr>"

partial_function (option) pull ::
  "('f \<Rightarrow> ('f \<times> bar option) option) \<Rightarrow> 'f \<Rightarrow> standalone_aggregator \<Rightarrow>
   ('f \<times> standalone_aggregator \<times> bar option) option" where
  "pull nxt f a =
     (case nxt f of
        None \<Rightarrow> None
      | Some (f', r) \<Rightarrow>
          (case r of
             None \<Rightarrow> (let (a', flushed) = aggregator_flush a in Some (f', a', flushed))
           | Some base \<Rightarrow>
               (let (a', completed) = aggregator_update a base
                in case completed of
                     Some b \<Rightarrow> Some (f', a', Some b)
                   | None \<Rightarrow> pull nxt f' a')))"

definition bar_aggregator_next ::
  "('f \<Rightarrow> ('f \<times> bar option) option) \<Rightarrow> 'f bar_aggregator \<Rightarrow> ('f bar_aggregator \<times> bar option) option" where
  "bar_aggregator_next nxt g =
     (case ba_ready g of
        b # bs \<Rightarrow> Some (g\<lparr>ba_ready := bs\<rparr>, Some b)
      | [] \<Rightarrow>
          (case pull nxt (ba_inner g) (ba_agg g) of
             None \<Rightarrow> None
           | Some (f', a', r) \<Rightarrow> Some (g\<lparr>ba_inner := f', ba_agg := a'\<rparr>, r)))"

definition bar_aggregator_reset :: "('f \<Rightarrow> 'f) \<Rightarrow> 'f bar_aggregator \<Rightarrow> 'f bar_aggregator" where
  "bar_aggregator_reset inner_reset g =
     g\<lparr>ba_inner := inner_reset (ba_inner g), ba_agg := aggregator_new (ba_target_tf g), ba_ready := []\<rparr>"

section \<open>The reference: one bar per run of base bars of the same period\<close>

function runs :: "('a \<Rightarrow> 'k) \<Rightarrow> 'a list \<Rightarrow> 'a list list" where
  "runs k [] = []"
| "runs k (x # xs) =
     (x # takeWhile (\<lambda>y. k y = k x) xs) # runs k (dropWhile (\<lambda>y. k y = k x) xs)"
  by pat_completeness auto
termination
  by (relation "measure (length \<circ> snd)") (auto simp: length_dropWhile_le le_imp_less_Suc)

definition period_of :: "timeframe \<Rightarrow> bar \<Rightarrow> int" where
  "period_of tf b = period_start (b_timestamp b) (duration_ms tf)"

fun merge_bars :: "bar list \<Rightarrow> bar" where
  "merge_bars bs = bar_new (b_timestamp (hd bs)) (b_symbol (hd bs)) (b_open (hd bs))
     (foldl fmax (b_high (hd bs)) (map b_high (tl bs))) (foldl fmin (b_low (hd bs)) (map b_low (tl bs)))
     (b_close (last bs)) (foldl (+) (b_volume (hd bs)) (map b_volume (tl bs)))"

declare merge_bars.simps [simp del]

definition resample :: "timeframe \<Rightarrow> bar list \<Rightarrow> bar list" where
  "resample tf bs = map merge_bars (runs (period_of tf) bs)"


lemma runs_concat: "concat (runs k xs) = xs"
  by (induction k xs rule: runs.induct) simp_all

lemma runs_same_key: "r \<in> set (runs k xs) \<Longrightarrow> r \<noteq> [] \<and> (\<forall>x \<in> set r. k x = k (hd r))"
proof (induction k xs rule: runs.induct)
  case (2 k x xs)
  then consider "r = x # takeWhile (\<lambda>y. k y = k x) xs" | "r \<in> set (runs k (dropWhile (\<lambda>y. k y = k x) xs))"
    by fastforce
  then show ?case
  proof cases
    case 1
    have "k y = k x" if "y \<in> set (takeWhile (\<lambda>y. k y = k x) xs)" for y
      using set_takeWhileD [OF that] by (rule conjunct2)
    then show ?thesis unfolding 1 list.set list.sel by blast
  qed (rule 2)
qed simp

lemma into_bar_run: "into_bar (foldl partial_extend (partial_open b k) bs) = merge_bars (b # bs)"
proof (induction bs rule: rev_induct)
  case Nil
  show ?case by (simp add: into_bar_def partial_open_def merge_bars.simps)
next
  case (snoc x xs)
  have "pb_close (foldl partial_extend (partial_open b k) (xs @ [x])) = b_close x"
    by (simp add: partial_extend_def)
  with snoc show ?case
    by (simp add: into_bar_def merge_bars.simps bar_new_def partial_extend_def)
qed

lemma partial_run_period:
  "pb_period_start (foldl partial_extend (partial_open b k) bs) = k"
  by (induction bs rule: rev_induct) (simp_all add: partial_open_def partial_extend_def)

text \<open>What an aggregator still has to deliver, given the base bars to come.\<close>

fun agg_outputs :: "standalone_aggregator \<Rightarrow> bar list \<Rightarrow> bar list" where
  "agg_outputs a [] = (case sa_pending a of None \<Rightarrow> [] | Some p \<Rightarrow> [into_bar p])"
| "agg_outputs a (b # bs) =
     (case aggregator_update a b of
        (a', None) \<Rightarrow> agg_outputs a' bs
      | (a', Some x) \<Rightarrow> x # agg_outputs a' bs)"

lemma agg_outputs_run:
  assumes "sa_target_tf a = tf"
    and "sa_pending a = Some (foldl partial_extend (partial_open b (period_of tf b)) ps)"
  shows "agg_outputs a bs =
    merge_bars (b # ps @ takeWhile (\<lambda>y. period_of tf y = period_of tf b) bs) #
    resample tf (dropWhile (\<lambda>y. period_of tf y = period_of tf b) bs)"
  using assms
proof (induction bs arbitrary: a b ps)
  case Nil
  then show ?case by (simp add: resample_def into_bar_run)
next
  case (Cons x xs)
  show ?case
  proof (cases "period_of tf x = period_of tf b")
    case True
    let ?a = "a\<lparr>sa_pending := Some (foldl partial_extend (partial_open b (period_of tf b)) (ps @ [x]))\<rparr>"
    have "aggregator_update a x = (?a, None)"
      using Cons.prems True
      by (simp add: aggregator_update_def update_pending_def partial_run_period flip: period_of_def)
    then show ?thesis using Cons.IH [of ?a b "ps @ [x]"] Cons.prems(1) True by simp
  next
    case False
    let ?a = "a\<lparr>sa_pending := Some (partial_open x (period_of tf x))\<rparr>"
    have "aggregator_update a x = (?a, Some (merge_bars (b # ps)))"
      using Cons.prems False
      by (simp add: aggregator_update_def update_pending_def partial_run_period aggregator_flush_def
          into_bar_run flip: period_of_def)
    then show ?thesis using Cons.IH [of ?a x "[]"] Cons.prems(1) False by (simp add: resample_def)
  qed
qed

lemma agg_outputs_new: "agg_outputs (aggregator_new tf) bs = resample tf bs"
proof (cases bs)
  case Nil
  then show ?thesis by (simp add: aggregator_new_def resample_def)
next
  case (Cons b bs')
  let ?a = "\<lparr>sa_target_tf = tf, sa_pending = Some (partial_open b (period_of tf b))\<rparr>"
  have "aggregator_update (aggregator_new tf) b = (?a, None)"
    by (simp add: aggregator_update_def aggregator_new_def update_pending_def flip: period_of_def)
  then show ?thesis using agg_outputs_run [of ?a tf b "[]" bs'] by (simp add: Cons resample_def)
qed

context bar_feed
begin

lemma pull_spec:
  assumes "ok f"
  shows "\<exists>f' a'. ok f' \<and>
    pull nxt f a = Some (f', a', (case agg_outputs a (remaining f) of [] \<Rightarrow> None | x # _ \<Rightarrow> Some x)) \<and>
    agg_outputs a' (remaining f') = tl (agg_outputs a (remaining f))"
  using assms
proof (induction "remaining f" arbitrary: f a)
  case Nil
  then obtain f' where f': "nxt f = Some (f', None)" "remaining f' = []" "ok f'"
    using nxt_empty [of f] by auto
  then have "pull nxt f a = Some (f', aggregator_flush a)"
    by (simp add: pull.simps [of nxt f] split_beta)
  then show ?case using f' Nil
    by (cases "sa_pending a") (auto simp: aggregator_flush_def)
next
  case (Cons b bs)
  then obtain f' where f': "nxt f = Some (f', Some b)" "remaining f' = bs" "ok f'"
    using nxt_bar [of f b bs] by auto
  obtain a' c where u: "aggregator_update a b = (a', c)" by (cases "aggregator_update a b")
  show ?case
  proof (cases c)
    case None
    have "pull nxt f a = pull nxt f' a'" by (subst pull.simps) (simp add: f' u None)
    moreover have "agg_outputs a (remaining f) = agg_outputs a' (remaining f')"
      using Cons.hyps(2) [symmetric] by (simp add: u None f'(2))
    ultimately show ?thesis using Cons.hyps(1) [of f' a'] f'(2,3) by simp
  next
    case (Some x)
    have "pull nxt f a = Some (f', a', Some x)" by (subst pull.simps) (simp add: f' u Some)
    moreover have "agg_outputs a (remaining f) = x # agg_outputs a' (remaining f')"
      using Cons.hyps(2) [symmetric] by (simp add: u Some f'(2))
    ultimately show ?thesis using f'(3) by simp
  qed
qed

text \<open>Resampling a feed gives a feed.\<close>

lemma aggregator_is_feed:
  "bar_feed (bar_aggregator_next nxt)
     (\<lambda>g. ba_ready g @ agg_outputs (ba_agg g) (remaining (ba_inner g))) (\<lambda>g. ok (ba_inner g))"
proof
  fix g :: "'f bar_aggregator" and b bs
  assume ok: "ok (ba_inner g)"
  obtain f' a' where p: "ok f'" "pull nxt (ba_inner g) (ba_agg g) = Some (f', a',
        (case agg_outputs (ba_agg g) (remaining (ba_inner g)) of [] \<Rightarrow> None | x # _ \<Rightarrow> Some x))"
      "agg_outputs a' (remaining f') = tl (agg_outputs (ba_agg g) (remaining (ba_inner g)))"
    using pull_spec [OF ok, of "ba_agg g"] by blast
  show "\<exists>g'. bar_aggregator_next nxt g = Some (g', None) \<and>
      ba_ready g' @ agg_outputs (ba_agg g') (remaining (ba_inner g')) = [] \<and> ok (ba_inner g')"
    if "ba_ready g @ agg_outputs (ba_agg g) (remaining (ba_inner g)) = []"
    using that p by (simp add: bar_aggregator_next_def)
  show "\<exists>g'. bar_aggregator_next nxt g = Some (g', Some b) \<and>
      ba_ready g' @ agg_outputs (ba_agg g') (remaining (ba_inner g')) = bs \<and> ok (ba_inner g')"
    if "ba_ready g @ agg_outputs (ba_agg g) (remaining (ba_inner g)) = b # bs"
    using that p ok by (cases "ba_ready g") (auto simp: bar_aggregator_next_def)
qed

end

interpretation vec_agg: bar_feed "bar_aggregator_next bar_vec_next"
  "\<lambda>g. ba_ready g @ agg_outputs (ba_agg g) (bar_vec_remaining (ba_inner g))" "\<lambda>_. True"
  using vec.aggregator_is_feed by simp

section \<open>Properties\<close>

text \<open>C16. The resampling feed delivers exactly one bar per maximal run of consecutive base bars of the same
  period: reading it to exhaustion over an in-memory feed returns, and collects the bars of the
  reference \<open>resample\<close>, whose bar has the first base bar's time and open, the highest high, the lowest
  low, the last close and the summed volume of its run; no base bar is lost or counted twice.\<close>

theorem aggregator_resamples:
  "(\<exists>g'. feed_loop (bar_aggregator_next bar_vec_next) (\<lambda>acc b. acc @ [b])
       (bar_aggregator_new (bar_vec_with_timeframe bars s tf0) tf) [] = Some (g', resample tf bars)) \<and>
   concat (runs (period_of tf) bars) = bars \<and>
   list_all (\<lambda>r. r \<noteq> [] \<and> (\<forall>b \<in> set r. period_of tf b = period_of tf (hd r))) (runs (period_of tf) bars)"
proof -
  let ?g = "bar_aggregator_new (bar_vec_with_timeframe bars s tf0) tf"
  have rem: "ba_ready ?g @ agg_outputs (ba_agg ?g) (bar_vec_remaining (ba_inner ?g)) = resample tf bars"
    by (simp add: bar_aggregator_new_def bar_vec_with_timeframe_def bar_vec_remaining_def agg_outputs_new)
  have "foldl (\<lambda>acc b. acc @ [b]) acc xs = acc @ xs" for acc xs :: "bar list"
    by (induction xs arbitrary: acc) simp_all
  then have "\<exists>g'. feed_loop (bar_aggregator_next bar_vec_next) (\<lambda>acc b. acc @ [b]) ?g [] =
      Some (g', resample tf bars)"
    using vec_agg.loop_folds [where f = ?g and step = "\<lambda>acc b. acc @ [b]" and s = "[]"] rem by auto
  moreover have "list_all (\<lambda>r. r \<noteq> [] \<and> (\<forall>b \<in> set r. period_of tf b = period_of tf (hd r))) (runs (period_of tf) bars)"
    unfolding list_all_iff by (intro ballI runs_same_key)
  ultimately show ?thesis using runs_concat by blast
qed

theorem aggregator_resamples_witness:
  "\<exists>g'. feed_loop (bar_aggregator_next bar_vec_next) (\<lambda>acc b. acc @ [b])
     (bar_aggregator_new (bar_vec_with_timeframe
        [bar_new 0 ''S'' (Fin 100) (Fin 105) (Fin 98) (Fin 101) (Fin 10),
         bar_new 60000 ''S'' (Fin 101) (Fin 107) (Fin 99) (Fin 103) (Fin 20)] ''S'' M1) M3) [] =
     Some (g', [bar_new 0 ''S'' (Fin 100) (Fin 107) (Fin 98) (Fin 103) (Fin 30)])"
proof -
  let ?bs = "[bar_new 0 ''S'' (Fin 100) (Fin 105) (Fin 98) (Fin 101) (Fin 10),
         bar_new 60000 ''S'' (Fin 101) (Fin 107) (Fin 99) (Fin 103) (Fin 20)]"
  have "resample M3 ?bs = [bar_new 0 ''S'' (Fin 100) (Fin 107) (Fin 98) (Fin 103) (Fin 30)]"
    by (simp add: resample_def period_of_def period_start_def bar_new_def merge_bars.simps fmax_def fmin_def f64_simps)
  with aggregator_resamples [of ?bs "''S''" M1 M3] show ?thesis by simp
qed

end
