(* ===== verification/Engine_Run.thy ===== *)
theory Engine_Run
  imports Engine_Theorems Feeds
begin

text \<open>
  \<open>Engine\<close> of \<open>alm-engine/src/engine.rs\<close>, the single-symbol backtest: the builder methods, the run loop over
  a feed, the collection of signals, the (currently unused) direct execution at the open, and the reset.
  The strategy is a parameter: the trait \<open>Strategy\<close> of \<open>alm-core/src/strategy.rs\<close> as a record of functions
  over the state of the strategy. The report that \<open>run\<close> builds from the final state of the core at the
  end is added in the theory \<open>Backtests\<close>.
\<close>

record 's strategy =
  st_on_bar :: "'s \<Rightarrow> bar \<Rightarrow> 's \<times> signal list"
  st_on_window :: "'s \<Rightarrow> bar list \<Rightarrow> 's \<times> signal list"
  st_name :: "'s \<Rightarrow> string"
  st_reset :: "'s \<Rightarrow> 's"
  st_set_portfolio_snapshot :: "'s \<Rightarrow> portfolio_snapshot \<Rightarrow> 's"
  st_uses_window :: "'s \<Rightarrow> bool"
  st_uses_portfolio_snapshot :: "'s \<Rightarrow> bool"
  st_current_regime :: "'s \<Rightarrow> regime_state option"

record ('s, 'r) engine =
  en_core :: "'r engine_core"
  en_strategy :: 's
  en_bar_window :: "bar list"
  en_window_size :: nat
  en_next_bar :: bool
  en_pending_signals :: "signal list"
  en_metrics_symbol :: string

definition default_window_size :: nat where "default_window_size = 200"

definition engine_sync :: "f64 \<Rightarrow> 's \<Rightarrow> 'r \<Rightarrow> f64 \<Rightarrow> f64 \<Rightarrow> ('s, 'r) engine" where
  "engine_sync capital strategy risk commission slippage =
     \<lparr>en_core = core_new capital risk commission slippage, en_strategy = strategy, en_bar_window = [],
      en_window_size = default_window_size, en_next_bar = False, en_pending_signals = [],
      en_metrics_symbol = ''''\<rparr>"

section \<open>Builders\<close>

definition with_window :: "('s, 'r) engine \<Rightarrow> nat \<Rightarrow> ('s, 'r) engine" where
  "with_window e n = e\<lparr>en_window_size := max n 1\<rparr>"

definition with_next_bar :: "('s, 'r) engine \<Rightarrow> bool \<Rightarrow> ('s, 'r) engine" where
  "with_next_bar e b = e\<lparr>en_next_bar := b\<rparr>"

definition with_single_entry :: "('s, 'r) engine \<Rightarrow> ('s, 'r) engine" where
  "with_single_entry e = e\<lparr>en_core := core_single_entry (en_core e)\<rparr>"

definition with_reverse_policy :: "('s, 'r) engine \<Rightarrow> reverse_policy \<Rightarrow> ('s, 'r) engine" where
  "with_reverse_policy e p = e\<lparr>en_core := core_reverse_policy (en_core e) p\<rparr>"

definition with_pyramiding :: "('s, 'r) engine \<Rightarrow> nat \<Rightarrow> f64 \<Rightarrow> ('s, 'r) engine" where
  "with_pyramiding e n p = e\<lparr>en_core := core_pyramiding (en_core e) n p\<rparr>"

definition with_warmup_until :: "('s, 'r) engine \<Rightarrow> int \<Rightarrow> ('s, 'r) engine" where
  "with_warmup_until e t = e\<lparr>en_core := core_warmup_until (en_core e) t\<rparr>"

definition with_independent_legs :: "('s, 'r) engine \<Rightarrow> ('s, 'r) engine" where
  "with_independent_legs e = e\<lparr>en_core := core_independent_legs (en_core e)\<rparr>"

definition with_intra_bar_mode :: "('s, 'r) engine \<Rightarrow> intra_bar_mode \<Rightarrow> ('s, 'r) engine" where
  "with_intra_bar_mode e md = e\<lparr>en_core := core_intra_bar_mode (en_core e) md\<rparr>"

section \<open>The run loop\<close>

definition push_window :: "bar list \<Rightarrow> bar \<Rightarrow> nat \<Rightarrow> bar list" where
  "push_window w b n = (let w' = w @ [b] in if n < length w' then tl w' else w')"

definition collect_signals :: "'s strategy \<Rightarrow> ('s, 'r) engine \<Rightarrow> bar \<Rightarrow> ('s, 'r) engine \<times> signal list" where
  "collect_signals st e b =
     (let (s1, signals) = st_on_bar st (en_strategy e) b;
          core = update_regime (en_core e) (b_timestamp b) (st_current_regime st s1);
          e1 = e\<lparr>en_strategy := s1, en_core := core\<rparr>
      in if st_uses_window st s1
         then let (s2, window_signals) = st_on_window st s1 (en_bar_window e1)
              in (e1\<lparr>en_strategy := s2\<rparr>, signals @ window_signals)
         else (e1, signals))"

definition give_snapshot :: "'s strategy \<Rightarrow> ('s, 'r) engine \<Rightarrow> bar \<Rightarrow> ('s, 'r) engine" where
  "give_snapshot st e b =
     (if st_uses_portfolio_snapshot st (en_strategy e)
      then let prices = leg_price_map (en_core e) (b_symbol b) (ec_last_price (en_core e))
           in e\<lparr>en_strategy := st_set_portfolio_snapshot st (en_strategy e)
                  (snapshot (ec_portfolio (en_core e)) prices)\<rparr>
      else e)"

text \<open>The body of \<open>while let Some(bar) = feed.next()\<close>.\<close>

definition engine_bar :: "'s strategy \<Rightarrow> 'r risk_manager \<Rightarrow> ('s, 'r) engine \<Rightarrow> bar \<Rightarrow> ('s, 'r) engine" where
  "engine_bar st rm e0 b =
     (let e = e0\<lparr>en_bar_window := push_window (en_bar_window e0) b (en_window_size e0)\<rparr>;
          (core, trading) = run_base_tick rm (en_core e) b;
          e1 = e\<lparr>en_core := core\<rparr>
      in if trading
         then let e2 = give_snapshot st e1 b;
                  (e3, signals) = collect_signals st e2 b
              in e3\<lparr>en_core := dispatch_signals rm (en_core e3) signals\<rparr>
         else e1\<lparr>en_strategy := fst (st_on_bar st (en_strategy e1) b)\<rparr>)"

definition engine_finish :: "('s, 'r) engine \<Rightarrow> ('s, 'r) engine" where
  "engine_finish e =
     (case last_opt (en_bar_window e) of
        Some last_bar \<Rightarrow> e\<lparr>en_core := force_close_all (en_core e) last_bar\<rparr>
      | None \<Rightarrow> e)"

definition engine_run ::
  "'s strategy \<Rightarrow> 'r risk_manager \<Rightarrow> ('f \<Rightarrow> ('f \<times> bar option) option) \<Rightarrow> string \<Rightarrow> ('s, 'r) engine \<Rightarrow> 'f \<Rightarrow>
   ('f \<times> ('s, 'r) engine) option" where
  "engine_run st rm nxt symbol e f =
     (let e1 = e\<lparr>en_metrics_symbol := symbol,
                en_core := (en_core e)\<lparr>ec_metrics_strategy := st_name st (en_strategy e)\<rparr>\<rparr>
      in case feed_loop nxt (engine_bar st rm) f e1 of
           None \<Rightarrow> None
         | Some (f', e2) \<Rightarrow> Some (f', engine_finish e2))"

definition engine_reset :: "('s, 'r) engine \<Rightarrow> f64 \<Rightarrow> ('s, 'r) engine" where
  "engine_reset e capital =
     e\<lparr>en_core := core_reset (en_core e) capital, en_bar_window := [], en_pending_signals := []\<rparr>"

section \<open>Direct execution at the open\<close>

text \<open>\<open>execute_signal_at_open\<close>, kept in the source for the next-bar mode.\<close>

definition close_leg_at_open :: "bar \<Rightarrow> 'r engine_core \<Rightarrow> string \<times> f64 \<times> bool \<Rightarrow> 'r engine_core" where
  "close_leg_at_open b c = (\<lambda>(key, qty, long).
     (let f = force_close (ec_broker c) key qty (if long then Sell else Buy) (b_timestamp b) (b_open b)
      in c\<lparr>ec_portfolio := annotate_last_trade (apply_fill (ec_portfolio c) f)
             (hm_get (ec_position_trackers c) key) (hm_get (ec_regime_at_entry c) key) None,
           ec_regime_at_entry := hm_remove key (ec_regime_at_entry c),
           ec_position_trackers := hm_remove key (ec_position_trackers c)\<rparr>))"

definition held :: "side \<Rightarrow> portfolio \<Rightarrow> string \<Rightarrow> bool" where
  "held sd pf s = (case hm_get (pf_positions pf) s of Some p \<Rightarrow> on_side sd p | None \<Rightarrow> False)"

definition enter_at_open :: "'r risk_manager \<Rightarrow> 'r engine_core \<Rightarrow> signal \<Rightarrow> bar \<Rightarrow> side \<Rightarrow> 'r engine_core" where
  "enter_at_open rm c sg b sd =
     (if ec_single_entry c \<and> held sd (ec_portfolio c) (sg_symbol sg) then c
      else if rm_validate rm (ec_risk c) sg (ec_portfolio c)
      then let qty = rm_size rm (ec_risk c) sg (ec_portfolio c) (b_open b)
           in if f64_epsilon < qty
              then let s = sg_symbol sg; long = (sd = Buy);
                       fill_price = b_open b * slip (ec_broker c) sd;
                       f = \<lparr>f_timestamp = b_timestamp b, f_symbol = s, f_side = sd, f_qty = qty,
                            f_price = fill_price,
                            f_commission = fill_price * qty * br_commission_pct (ec_broker c)\<rparr>;
                       (tp, sl) = resolve_offset_levels fill_price (sg_target_price sg) (sg_stop_price sg)
                                    (sg_is_offset sg) long;
                       was_new = (hm_get (ec_position_trackers c) s = None);
                       c1 = c\<lparr>ec_portfolio := apply_fill (ec_portfolio c) f\<rparr>
                   in if was_new
                      then c1\<lparr>ec_position_trackers := hm_insert s
                                (tracker_with_levels fill_price sl tp (sg_trailing_stop_pct sg)
                                   (sg_max_bars_held sg) long) (ec_position_trackers c1),
                              ec_regime_at_entry :=
                                (case ec_last_regime c1 of
                                   Some r \<Rightarrow> hm_insert s r (ec_regime_at_entry c1)
                                 | None \<Rightarrow> ec_regime_at_entry c1)\<rparr>
                      else c1
              else c
      else c)"

definition execute_signal_at_open :: "'r risk_manager \<Rightarrow> ('s, 'r) engine \<Rightarrow> signal \<Rightarrow> bar \<Rightarrow> ('s, 'r) engine" where
  "execute_signal_at_open rm e sg b =
     (let c = en_core e
      in e\<lparr>en_core :=
           (case sg_direction sg of
              Exit \<Rightarrow>
                foldl (close_leg_at_open b) c
                  (map (\<lambda>(k, p). (k, \<bar>p_qty p\<bar>, is_long p))
                    (filter (open_leg (sg_symbol sg)) (pf_positions (ec_portfolio c))))
            | Long \<Rightarrow> enter_at_open rm c sg b Buy
            | Short \<Rightarrow> enter_at_open rm c sg b Sell)\<rparr>)"

section \<open>Facts\<close>

lemma push_window_take_last: "0 < n \<Longrightarrow> push_window (take_last n w) b n = take_last n (w @ [b])"
proof -
  assume n: "0 < n"
  have "push_window v b n = take_last n (v @ [b])" if "length v \<le> n" for v
  proof (cases "n < length (v @ [b])")
    case True
    then have "length v = n" using that by simp
    then show ?thesis using n by (cases v) (simp_all add: push_window_def take_last_def)
  qed (simp add: push_window_def)
  then show ?thesis by (simp add: take_last_snoc_take_last)
qed

lemma give_snapshot_frame [simp]:
  "en_core (give_snapshot st e b) = en_core e" "en_bar_window (give_snapshot st e b) = en_bar_window e"
  "en_window_size (give_snapshot st e b) = en_window_size e"
  by (simp_all add: give_snapshot_def Let_def)

lemma collect_signals_frame [simp]:
  "en_core (fst (collect_signals st e b)) =
     update_regime (en_core e) (b_timestamp b) (st_current_regime st (fst (st_on_bar st (en_strategy e) b)))"
  "en_bar_window (fst (collect_signals st e b)) = en_bar_window e"
  "en_window_size (fst (collect_signals st e b)) = en_window_size e"
  by (simp_all add: collect_signals_def Let_def split_beta)

lemma update_regime_frame [simp]:
  "ec_portfolio (update_regime c ts st) = ec_portfolio c" "ec_bus (update_regime c ts st) = ec_bus c"
  "ec_warmup_until (update_regime c ts st) = ec_warmup_until c" "ec_broker (update_regime c ts st) = ec_broker c"
  "ec_position_trackers (update_regime c ts st) = ec_position_trackers c"
  by (simp_all add: update_regime_def split: option.split)

lemma engine_bar_window:
  "en_bar_window (engine_bar st rm e b) = push_window (en_bar_window e) b (en_window_size e)"
  "en_window_size (engine_bar st rm e b) = en_window_size e"
  by (simp_all add: engine_bar_def Let_def split_beta)

section \<open>One bar of the run loop\<close>

lemma run_base_tick_idle:
  assumes "sb_queue (ec_bus c) = []"
  shows "ec_warmup_until (fst (run_base_tick rm c b)) = ec_warmup_until c"
    and "snd (run_base_tick rm c b) = (\<not> warming_up c b)"
    and "warming_up c b \<Longrightarrow> sb_queue (ec_bus (fst (run_base_tick rm c b))) = [] \<and>
           ec_portfolio (fst (run_base_tick rm c b)) = ec_portfolio c"
    and "\<not> warming_up c b \<Longrightarrow>
           (\<exists>eq ca. sb_queue (ec_bus (fst (run_base_tick rm c b))) = [EvEquity (b_timestamp b) eq ca]) \<and>
           map ep_timestamp (pf_equity_curve (ec_portfolio (fst (run_base_tick rm c b)))) =
             map ep_timestamp (pf_equity_curve (ec_portfolio c)) @ [b_timestamp b]"
proof -
  let ?c0 = "c\<lparr>ec_last_price := b_close b, ec_risk := rm_on_bar rm (ec_risk c) b\<rparr>"
  obtain br fills where "process_pending (ec_broker ?c0) b = (br, fills)" by fastforce
  then have fp: "fill_pending rm ?c0 b = foldl on_fill (?c0\<lparr>ec_broker := br\<rparr>) fills" (is "_ = ?c1")
    using assms by (intro fill_pending_eq) simp_all
  have w: "warming_up ?c0 b = warming_up c b" by (simp add: warming_up_def)
  have run: "run_base_tick rm c b =
      (if warming_up c b then (?c0, False) else (mark_equity (run_exit_checks ?c1 b) b, True))"
    by (simp only: run_base_tick_def Let_def w fp)
  have fills: "ec_warmup_until (foldl on_fill d fs) = ec_warmup_until d"
      "pf_equity_curve (ec_portfolio (foldl on_fill d fs)) = pf_equity_curve (ec_portfolio d)"
    for d :: "'a engine_core" and fs by (induction fs arbitrary: d) simp_all
  have exits: "ec_warmup_until (foldl (exit_close b) d xs) = ec_warmup_until d"
      "ec_bus (foldl (exit_close b) d xs) = ec_bus d"
      "pf_equity_curve (ec_portfolio (foldl (exit_close b) d xs)) = pf_equity_curve (ec_portfolio d)"
    for d :: "'a engine_core" and xs by (induction xs arbitrary: d) simp_all
  show "ec_warmup_until (fst (run_base_tick rm c b)) = ec_warmup_until c"
    by (simp add: run mark_equity_def Let_def core_send_def run_exit_checks_def exits fills)
  show "snd (run_base_tick rm c b) = (\<not> warming_up c b)" by (simp add: run)
  show "warming_up c b \<Longrightarrow> sb_queue (ec_bus (fst (run_base_tick rm c b))) = [] \<and>
      ec_portfolio (fst (run_base_tick rm c b)) = ec_portfolio c"
    using assms by (simp add: run)
  show "\<not> warming_up c b \<Longrightarrow>
      (\<exists>eq ca. sb_queue (ec_bus (fst (run_base_tick rm c b))) = [EvEquity (b_timestamp b) eq ca]) \<and>
      map ep_timestamp (pf_equity_curve (ec_portfolio (fst (run_base_tick rm c b)))) =
        map ep_timestamp (pf_equity_curve (ec_portfolio c)) @ [b_timestamp b]"
    using assms by (simp add: run mark_equity_def Let_def core_send_eq run_exit_checks_def exits fills)
qed

lemma dispatch_signals_idle:
  assumes "sb_queue (ec_bus c) = [] \<or> (\<exists>t eq ca. sb_queue (ec_bus c) = [EvEquity t eq ca])"
  shows "sb_queue (ec_bus (dispatch_signals rm c sgs)) = []"
    and "ec_portfolio (dispatch_signals rm c sgs) = ec_portfolio c"
    and "ec_warmup_until (dispatch_signals rm c sgs) = ec_warmup_until c"
    and "ec_position_trackers (dispatch_signals rm c sgs) = ec_position_trackers c"
proof -
  have "\<forall>ev \<in> set (sb_queue (ec_bus c)). harmless (\<lambda>_. False) ev" using assms by auto
  then obtain ords lv where "dispatch_signals rm c sgs = add_orders c ords lv"
    using dispatch_signals_adds_orders [of c rm sgs] by blast
  then show "sb_queue (ec_bus (dispatch_signals rm c sgs)) = []"
    "ec_portfolio (dispatch_signals rm c sgs) = ec_portfolio c"
    "ec_warmup_until (dispatch_signals rm c sgs) = ec_warmup_until c"
    "ec_position_trackers (dispatch_signals rm c sgs) = ec_position_trackers c"
    by (simp_all add: add_orders_def)
qed

definition engine_ok :: "('s, 'r) engine \<Rightarrow> bool" where
  "engine_ok e \<longleftrightarrow> core_inv (en_core e) \<and> sb_queue (ec_bus (en_core e)) = []"

definition trading_bar :: "('s, 'r) engine \<Rightarrow> bar \<Rightarrow> bool" where
  "trading_bar e b \<longleftrightarrow> \<not> warming_up (en_core e) b"

definition curve_times :: "('s, 'r) engine \<Rightarrow> int list" where
  "curve_times e = map ep_timestamp (pf_equity_curve (ec_portfolio (en_core e)))"

lemma engine_bar_step:
  assumes "engine_ok e"
  shows "engine_ok (engine_bar st rm e b)"
    and "ec_warmup_until (en_core (engine_bar st rm e b)) = ec_warmup_until (en_core e)"
    and "curve_times (engine_bar st rm e b) =
           curve_times e @ (if trading_bar e b then [b_timestamp b] else [])"
proof -
  let ?c = "en_core e"
  let ?c1 = "fst (run_base_tick rm ?c b)"
  have q: "sb_queue (ec_bus ?c) = []" and inv: "core_inv ?c" using assms by (simp_all add: engine_ok_def)
  have inv1: "core_inv ?c1" using inv by (rule core_inv_run_base_tick)
  note t = run_base_tick_idle [OF q, where rm = rm and b = b]
  show "engine_ok (engine_bar st rm e b)"
    "ec_warmup_until (en_core (engine_bar st rm e b)) = ec_warmup_until (en_core e)"
    "curve_times (engine_bar st rm e b) = curve_times e @ (if trading_bar e b then [b_timestamp b] else [])"
  proof (atomize (full), goal_cases)
    case 1
    show ?case
    proof (cases "warming_up ?c b")
      case True
      then have "en_core (engine_bar st rm e b) = ?c1" using t(2) by (simp add: engine_bar_def Let_def split_beta)
      then show ?thesis using True t(1,3) inv1
        by (simp add: engine_ok_def curve_times_def trading_bar_def)
    next
      case False
      then obtain r sgs where c: "en_core (engine_bar st rm e b) =
          dispatch_signals rm (update_regime ?c1 (b_timestamp b) r) sgs"
        using t(2) by (simp add: engine_bar_def Let_def split_beta)
      have "sb_queue (ec_bus (update_regime ?c1 (b_timestamp b) r)) = [] \<or>
          (\<exists>t eq ca. sb_queue (ec_bus (update_regime ?c1 (b_timestamp b) r)) = [EvEquity t eq ca])"
        using t(4) [OF False] by auto
      note d = dispatch_signals_idle [OF this, of rm sgs]
      have "core_inv (dispatch_signals rm (update_regime ?c1 (b_timestamp b) r) sgs)"
        using inv1 by (intro core_inv_dispatch_signals core_inv_update_regime)
      then show ?thesis using d t(1) t(4) [OF False] False
        by (simp add: engine_ok_def curve_times_def trading_bar_def c)
    qed
  qed
qed

lemma engine_bars_fold:
  assumes "engine_ok e" and "en_bar_window e = take_last (en_window_size e) w" and "0 < en_window_size e"
  shows "engine_ok (foldl (engine_bar st rm) e bs) \<and>
    curve_times (foldl (engine_bar st rm) e bs) =
      curve_times e @ map b_timestamp (filter (trading_bar e) bs) \<and>
    en_bar_window (foldl (engine_bar st rm) e bs) = take_last (en_window_size e) (w @ bs)"
  using assms
proof (induction bs arbitrary: e w)
  case (Cons b bs)
  let ?e = "engine_bar st rm e b"
  note s = engine_bar_step [OF Cons.prems(1), of st rm b]
  have tr: "trading_bar ?e = trading_bar e"
    using s(2) by (simp add: trading_bar_def warming_up_def fun_eq_iff)
  have w: "en_bar_window ?e = take_last (en_window_size ?e) (w @ [b])"
    using Cons.prems(2,3) by (simp add: engine_bar_window push_window_take_last)
  have "0 < en_window_size ?e" using Cons.prems(3) by (simp add: engine_bar_window)
  from Cons.IH [OF s(1) w this] s(3) tr show ?case by (simp add: engine_bar_window)
qed simp

section \<open>Properties\<close>

lemma engine_finish_curve: "curve_times (engine_finish e) = curve_times e"
proof -
  have "pf_equity_curve (ec_portfolio (foldl (end_close b) c xs)) = pf_equity_curve (ec_portfolio c)"
    for b and c :: "'b engine_core" and xs
    by (induction xs arbitrary: c) (simp_all add: end_close_def Let_def split_beta)
  then show ?thesis
    by (simp add: engine_finish_def curve_times_def force_close_all_def split: option.split)
qed

lemma engine_finish_inv: "core_inv (en_core e) \<Longrightarrow> core_inv (en_core (engine_finish e))"
  by (simp add: engine_finish_def core_inv_force_close_all split: option.split)

lemma engine_finish_flat:
  assumes "core_inv (en_core e)" and "finite_book (ec_portfolio (en_core e))" and "en_bar_window e \<noteq> []"
  shows "\<not> still_open (ec_portfolio (en_core (engine_finish e))) k"
  using assms by (simp add: engine_finish_def last_opt_def force_close_all_flat)

definition run_start :: "'s strategy \<Rightarrow> string \<Rightarrow> ('s, 'r) engine \<Rightarrow> ('s, 'r) engine" where
  "run_start st symbol e = e\<lparr>en_metrics_symbol := symbol,
     en_core := (en_core e)\<lparr>ec_metrics_strategy := st_name st (en_strategy e)\<rparr>\<rparr>"

lemma run_start_frame [simp]:
  "engine_ok (run_start st symbol e) = engine_ok e" "trading_bar (run_start st symbol e) = trading_bar e"
  "curve_times (run_start st symbol e) = curve_times e" "en_window_size (run_start st symbol e) = en_window_size e"
  "en_bar_window (run_start st symbol e) = en_bar_window e"
  by (simp_all add: engine_ok_def run_start_def core_inv_def tracked_are_open_def trading_bar_def warming_up_def
      fun_eq_iff curve_times_def)

lemma engine_run_folds:
  fixes st :: "'s strategy" and rm :: "'r risk_manager" and symbol :: string
  assumes feed: "bar_feed nxt remaining ok" "ok f"
    and eng: "engine_ok e" "en_bar_window e = []" "0 < en_window_size e"
  defines "e2 \<equiv> foldl (engine_bar st rm) (run_start st symbol e) (remaining f)"
  shows "\<exists>f'. engine_run st rm nxt symbol e f = Some (f', engine_finish e2) \<and> remaining f' = []"
    and "engine_ok e2" and "curve_times e2 = curve_times e @ map b_timestamp (filter (trading_bar e) (remaining f))"
    and "en_bar_window e2 = take_last (en_window_size e) (remaining f)"
proof -
  let ?e = "run_start st symbol e"
  show "engine_ok e2" and "curve_times e2 = curve_times e @ map b_timestamp (filter (trading_bar e) (remaining f))"
    and "en_bar_window e2 = take_last (en_window_size e) (remaining f)"
    using engine_bars_fold [of ?e "[]" st rm "remaining f"] eng by (simp_all add: e2_def)
  obtain f' where "feed_loop nxt (engine_bar st rm) f ?e = Some (f', e2)" "remaining f' = []"
    using bar_feed.loop_folds [OF feed, of "engine_bar st rm" ?e] by (auto simp: e2_def)
  then show "\<exists>f'. engine_run st rm nxt symbol e f = Some (f', engine_finish e2) \<and> remaining f' = []"
    by (simp add: engine_run_def run_start_def Let_def)
qed

text \<open>C1. A backtest terminates and accounts for every bar: on any feed that honours the feed contract, from
  any consistent engine with an idle bus and an empty window, the run returns; every bar has been
  processed once and in order; the equity curve has gained exactly one point per bar after the
  warm-up, with the bar's time; the window holds the last bars; cash, positions and trackers are
  consistent; and no position is open at the end, provided no quantity overflowed.\<close>

theorem backtest_terminates_and_accounts:
  assumes feed: "bar_feed nxt remaining ok" "ok f"
    and eng: "engine_ok e" "en_bar_window e = []" "0 < en_window_size e"
  shows "\<exists>f' e'. engine_run st rm nxt symbol e f = Some (f', e') \<and> remaining f' = [] \<and>
    e' = engine_finish (foldl (engine_bar st rm) (run_start st symbol e) (remaining f)) \<and>
    curve_times e' = curve_times e @ map b_timestamp (filter (trading_bar e) (remaining f)) \<and>
    core_inv (en_core e') \<and>
    en_bar_window (foldl (engine_bar st rm) (run_start st symbol e) (remaining f)) =
      take_last (en_window_size e) (remaining f) \<and>
    (remaining f \<noteq> [] \<and> finite_book (ec_portfolio (en_core
        (foldl (engine_bar st rm) (run_start st symbol e) (remaining f)))) \<longrightarrow>
     (\<forall>k. \<not> still_open (ec_portfolio (en_core e')) k))"
proof -
  let ?e2 = "foldl (engine_bar st rm) (run_start st symbol e) (remaining f)"
  note fold = engine_run_folds(2-4) [OF feed eng, where st = st and rm = rm and symbol = symbol]
  obtain f' where run: "engine_run st rm nxt symbol e f = Some (f', engine_finish ?e2)" and f': "remaining f' = []"
    using engine_run_folds(1) [OF feed eng, of st rm symbol] by blast
  have "en_bar_window ?e2 \<noteq> []" if "remaining f \<noteq> []"
    using that eng(3) length_take_last [of "en_window_size e" "remaining f"] unfolding fold(3)
    by (metis length_0_conv min_def not_gr_zero)
  then show ?thesis
    using run f' fold engine_finish_flat [of ?e2]
    by (intro exI [of _ f'] exI [of _ "engine_finish ?e2"])
      (auto simp: engine_finish_curve engine_ok_def intro: engine_finish_inv)
qed

definition buy_once :: "nat strategy" where
  "buy_once = \<lparr>st_on_bar = (\<lambda>n b. (Suc n, if n = 0 then [signal_long (b_timestamp b) ''BTC'' 1] else [])),
     st_on_window = (\<lambda>n _. (n, [])), st_name = (\<lambda>_. ''buy_once''), st_reset = (\<lambda>_. 0),
     st_set_portfolio_snapshot = (\<lambda>n _. n), st_uses_window = (\<lambda>_. False),
     st_uses_portfolio_snapshot = (\<lambda>_. False), st_current_regime = (\<lambda>_. None)\<rparr>"

definition example_engine :: "(nat, any_sizer) engine" where
  "example_engine = engine_sync (Fin 1000) 0 (FixedQuantity (fixed_quantity_new (Fin 2) 5)) 0 0"

lemma example_engine_ok:
  "engine_ok example_engine" "en_bar_window example_engine = []" "0 < en_window_size example_engine"
  by (simp_all add: example_engine_def engine_sync_def engine_ok_def core_inv_new default_window_size_def)
     (simp add: core_new_def sync_bus_new_def)

theorem backtest_terminates_and_accounts_witness:
  "\<exists>f' e'. engine_run buy_once any_sizer_manager bar_vec_next ''BTC'' example_engine
       (bar_vec_with_timeframe [example_bar] ''BTC'' M1) = Some (f', e') \<and> curve_times e' = [60000]"
proof -
  let ?f = "bar_vec_with_timeframe [example_bar] ''BTC'' M1"
  have r: "bar_vec_remaining ?f = [example_bar]" by (simp add: bar_vec_remaining_def bar_vec_with_timeframe_def)
  have "curve_times example_engine @ map b_timestamp (filter (trading_bar example_engine) [example_bar]) = [60000]"
    by (simp add: curve_times_def trading_bar_def warming_up_def example_engine_def engine_sync_def core_new_def
        portfolio_new_def example_bar_def bar_new_def)
  with backtest_terminates_and_accounts [OF vec.bar_feed_axioms TrueI example_engine_ok,
      of buy_once any_sizer_manager "''BTC''" ?f] r
  show ?thesis by auto
qed

end
