(* ===== verification/Mtf_Engines.thy ===== *)
theory Mtf_Engines
  imports Engine_Theorems Timeframes
begin

text \<open>
  The multi-timeframe engines: the snapshot and the strategy trait of \<open>alm-core/src/mtf_strategy.rs\<close>, the
  engine that merges its feeds with a heap (\<open>alm-engine/src/heap_mtf_engine.rs\<close>) and the engine that is
  driven by the base feed and advances the higher timeframes behind it
  (\<open>alm-engine/src/pointer_sync_mtf_engine.rs\<close>).

  A boxed \<open>BarFeed\<close> is represented by the list of bars it has still to deliver: the theory \<open>Feeds\<close> shows
  that a loop over a lawful feed only depends on that list. The binary heap is a list whose \<open>pop\<close> takes
  the greatest entry.
\<close>

section \<open>Snapshots and strategies\<close>

type_synonym tf_bar_event = "timeframe \<times> bar"

record mtf_snapshot =
  sn_base_tf :: timeframe
  sn_close_ts :: int
  sn_events :: "tf_bar_event list"
  sn_views :: "timeframe \<Rightarrow> bar list option"

definition base_window :: "mtf_snapshot \<Rightarrow> bar list option" where
  "base_window s = sn_views s (sn_base_tf s)"

definition base_closed_this_tick :: "mtf_snapshot \<Rightarrow> bool" where
  "base_closed_this_tick s = list_ex (\<lambda>(tf, _). tf = sn_base_tf s) (sn_events s)"

definition base_bar :: "mtf_snapshot \<Rightarrow> bar option" where
  "base_bar s = map_option snd (find (\<lambda>(tf, _). tf = sn_base_tf s) (sn_events s))"

definition just_closed :: "mtf_snapshot \<Rightarrow> timeframe \<Rightarrow> bool" where
  "just_closed s tf = list_ex (\<lambda>(t, _). t = tf) (sn_events s)"

definition snap_get :: "mtf_snapshot \<Rightarrow> timeframe \<Rightarrow> bar list option" where
  "snap_get s tf = sn_views s tf"

record 's mtf_strategy =
  ms_on_bars :: "'s \<Rightarrow> mtf_snapshot \<Rightarrow> 's \<times> signal list"
  ms_name :: "'s \<Rightarrow> string"
  ms_reset :: "'s \<Rightarrow> 's"
  ms_current_regime :: "'s \<Rightarrow> regime_state option"

definition mtf_default_window_size :: nat where "mtf_default_window_size = 500"

section \<open>The heap\<close>

record heap_entry =
  he_close_ts :: int
  he_tf_ms :: int
  he_tf :: timeframe
  he_bar :: bar

text \<open>\<open>Ord for HeapEntry\<close>: the greater entry closes earlier, or at the same time on the larger timeframe.\<close>

definition entry_greater :: "heap_entry \<Rightarrow> heap_entry \<Rightarrow> bool" where
  "entry_greater a b \<longleftrightarrow>
     he_close_ts a < he_close_ts b \<or> he_close_ts a = he_close_ts b \<and> he_tf_ms b < he_tf_ms a"

fun heap_peek :: "heap_entry list \<Rightarrow> heap_entry option" where
  "heap_peek [] = None"
| "heap_peek (e # es) =
     (case heap_peek es of None \<Rightarrow> Some e | Some m \<Rightarrow> Some (if entry_greater m e then m else e))"

definition heap_pop :: "heap_entry list \<Rightarrow> (heap_entry \<times> heap_entry list) option" where
  "heap_pop h = map_option (\<lambda>m. (m, remove1 m h)) (heap_peek h)"

lemma heap_peek_in_set: "heap_peek h = Some m \<Longrightarrow> m \<in> set h"
  by (induction h arbitrary: m) (auto split: option.splits if_splits)

lemma heap_pop_length: "heap_pop h = Some (m, h') \<Longrightarrow> length h = Suc (length h')"
  using heap_peek_in_set [of h m] length_pos_if_in_set [of m h] by (auto simp: heap_pop_def length_remove1)

text \<open>The inner loop of \<open>run\<close>: pop while the top closes at \<open>t\<close>.\<close>

function collect_batch :: "int \<Rightarrow> heap_entry list \<Rightarrow> heap_entry list \<times> heap_entry list" where
  "collect_batch t h =
     (case heap_peek h of
        None \<Rightarrow> ([], h)
      | Some hd_e \<Rightarrow>
          if he_close_ts hd_e = t
          then (case heap_pop h of
                  None \<Rightarrow> ([], h)
                | Some (m, h') \<Rightarrow> (let (batch, rest) = collect_batch t h' in (m # batch, rest)))
          else ([], h))"
  by pat_completeness auto
termination by (relation "measure (length \<circ> snd)") (auto dest: heap_pop_length)

declare collect_batch.simps [simp del]

section \<open>\<open>HeapMtfEngine\<close>\<close>

record ('s, 'r) heap_engine =
  hn_core :: "'r engine_core"
  hn_strategy :: 's
  hn_base_tf :: timeframe
  hn_feeds :: "(timeframe, bar list) hmap"
  hn_heap :: "heap_entry list"
  hn_windows :: "(timeframe, bar list) hmap"
  hn_window_size :: nat

definition heap_sync :: "f64 \<Rightarrow> 's \<Rightarrow> 'r \<Rightarrow> f64 \<Rightarrow> f64 \<Rightarrow> ('s, 'r) heap_engine" where
  "heap_sync capital strategy risk commission slippage =
     \<lparr>hn_core = core_new capital risk commission slippage, hn_strategy = strategy, hn_base_tf = M1, hn_feeds = [],
      hn_heap = [], hn_windows = [], hn_window_size = mtf_default_window_size\<rparr>"

definition heap_with_base_tf :: "('s, 'r) heap_engine \<Rightarrow> timeframe \<Rightarrow> ('s, 'r) heap_engine" where
  "heap_with_base_tf e tf = e\<lparr>hn_base_tf := tf\<rparr>"

definition heap_with_window :: "('s, 'r) heap_engine \<Rightarrow> nat \<Rightarrow> ('s, 'r) heap_engine" where
  "heap_with_window e n = e\<lparr>hn_window_size := max n 1\<rparr>"

text \<open>The shared builder methods change a field of the core each.\<close>

definition heap_with_core :: "('s, 'r) heap_engine \<Rightarrow> ('r engine_core \<Rightarrow> 'r engine_core) \<Rightarrow> ('s, 'r) heap_engine" where
  "heap_with_core e f = e\<lparr>hn_core := f (hn_core e)\<rparr>"

definition heap_with_intra_bar_mode :: "('s, 'r) heap_engine \<Rightarrow> intra_bar_mode \<Rightarrow> ('s, 'r) heap_engine" where
  "heap_with_intra_bar_mode e md = heap_with_core e (\<lambda>c. core_intra_bar_mode c md)"

definition heap_with_single_entry :: "('s, 'r) heap_engine \<Rightarrow> ('s, 'r) heap_engine" where
  "heap_with_single_entry e = heap_with_core e (\<lambda>c. core_single_entry c)"

definition heap_with_reverse_policy :: "('s, 'r) heap_engine \<Rightarrow> reverse_policy \<Rightarrow> ('s, 'r) heap_engine" where
  "heap_with_reverse_policy e rp = heap_with_core e (\<lambda>c. core_reverse_policy c rp)"

definition heap_with_pyramiding :: "('s, 'r) heap_engine \<Rightarrow> nat \<Rightarrow> f64 \<Rightarrow> ('s, 'r) heap_engine" where
  "heap_with_pyramiding e n pct = heap_with_core e (\<lambda>c. core_pyramiding c n pct)"

definition heap_with_independent_legs :: "('s, 'r) heap_engine \<Rightarrow> ('s, 'r) heap_engine" where
  "heap_with_independent_legs e = heap_with_core e (\<lambda>c. core_independent_legs c)"

definition heap_with_warmup_until :: "('s, 'r) heap_engine \<Rightarrow> int \<Rightarrow> ('s, 'r) heap_engine" where
  "heap_with_warmup_until e until = heap_with_core e (\<lambda>c. core_warmup_until c until)"

definition heap_add_feed :: "('s, 'r) heap_engine \<Rightarrow> timeframe \<Rightarrow> bar list \<Rightarrow> ('s, 'r) heap_engine" where
  "heap_add_feed e tf feed =
     e\<lparr>hn_feeds := hm_insert tf feed (hn_feeds e), hn_windows := hm_insert tf [] (hn_windows e)\<rparr>"

definition refill :: "timeframe \<Rightarrow> ('s, 'r) heap_engine \<Rightarrow> ('s, 'r) heap_engine" where
  "refill tf e =
     (case hm_get (hn_feeds e) tf of
        Some (b # rest) \<Rightarrow>
          e\<lparr>hn_feeds := hm_insert tf rest (hn_feeds e),
            hn_heap := \<lparr>he_close_ts = sat_add_i64 (b_timestamp b) (duration_ms tf), he_tf_ms = duration_ms tf,
                        he_tf = tf, he_bar = b\<rparr> # hn_heap e\<rparr>
      | _ \<Rightarrow> e)"

definition push_entry :: "nat \<Rightarrow> (timeframe, bar list) hmap \<Rightarrow> heap_entry \<Rightarrow> (timeframe, bar list) hmap" where
  "push_entry n ws en =
     hm_insert (he_tf en)
       (push_bounded (case hm_get ws (he_tf en) of None \<Rightarrow> [] | Some w \<Rightarrow> w) (he_bar en) n) ws"

definition heap_is_trading :: "'r engine_core \<Rightarrow> heap_entry option \<Rightarrow> bool" where
  "heap_is_trading c base =
     (case (ec_warmup_until c, base) of
        (Some until, Some en) \<Rightarrow> until \<le> b_timestamp (he_bar en)
      | (Some _, None) \<Rightarrow> False
      | (None, _) \<Rightarrow> True)"

definition heap_housekeeping :: "'r risk_manager \<Rightarrow> 'r engine_core \<Rightarrow> heap_entry option \<Rightarrow> 'r engine_core" where
  "heap_housekeeping rm c base =
     (case base of
        Some en \<Rightarrow>
          if heap_is_trading c base then fst (run_base_tick rm c (he_bar en))
          else c\<lparr>ec_risk := rm_on_bar rm (ec_risk c) (he_bar en)\<rparr>
      | None \<Rightarrow> c)"

definition heap_snapshot :: "('s, 'r) heap_engine \<Rightarrow> int \<Rightarrow> heap_entry list \<Rightarrow> mtf_snapshot" where
  "heap_snapshot e t batch =
     \<lparr>sn_base_tf = hn_base_tf e, sn_close_ts = t, sn_events = map (\<lambda>en. (he_tf en, he_bar en)) batch,
      sn_views = hm_get (hn_windows e)\<rparr>"

text \<open>Steps 1 to 3 of a turn: take the bars that close at \<open>t\<close>, refill their feeds, push them into the windows.\<close>

definition heap_advance :: "int \<Rightarrow> ('s, 'r) heap_engine \<Rightarrow> ('s, 'r) heap_engine \<times> heap_entry list" where
  "heap_advance t e0 =
     (let (batch, rest) = collect_batch t (hn_heap e0);
          e1 = foldl (\<lambda>e en. refill (he_tf en) e) (e0\<lparr>hn_heap := rest\<rparr>) batch
      in (e1\<lparr>hn_windows := foldl (push_entry (hn_window_size e1)) (hn_windows e1) batch\<rparr>, batch))"

text \<open>One turn of the outer loop, for the time \<open>t\<close> at the top of the heap.\<close>

definition heap_tick :: "'s mtf_strategy \<Rightarrow> 'r risk_manager \<Rightarrow> int \<Rightarrow> ('s, 'r) heap_engine \<Rightarrow> ('s, 'r) heap_engine" where
  "heap_tick st rm t e0 =
     (let (e2, batch) = heap_advance t e0;
          base = find (\<lambda>en. he_tf en = hn_base_tf e2) batch;
          trading = heap_is_trading (hn_core e2) base;
          core1 = heap_housekeeping rm (hn_core e2) base;
          regime = ms_current_regime st (hn_strategy e2);
          core2 = (case base of Some en \<Rightarrow> update_regime core1 (b_timestamp (he_bar en)) regime | None \<Rightarrow> core1);
          (s', signals) = ms_on_bars st (hn_strategy e2) (heap_snapshot e2 t batch);
          core3 = (if trading then dispatch_signals rm core2 signals else core2)
      in e2\<lparr>hn_core := core3, hn_strategy := s'\<rparr>)"

definition pending_total :: "('s, 'r) heap_engine \<Rightarrow> nat" where
  "pending_total e = length (hn_heap e) + sum_list (map (length \<circ> snd) (hn_feeds e))"

lemma sum_update_present:
  "map_of m k = Some v \<Longrightarrow> sum_list (map (f \<circ> snd) (AList.update k v' m)) + f v = sum_list (map (f \<circ> snd) m) + f v'"
  for f :: "'v \<Rightarrow> nat"
  by (induction m) (auto split: if_splits)

lemma refill_total: "pending_total (refill tf e) = pending_total e"
proof (cases "hm_get (hn_feeds e) tf")
  case (Some bs)
  then show ?thesis using sum_update_present [of "hn_feeds e" tf bs length "tl bs"]
    by (cases bs) (auto simp: refill_def pending_total_def)
qed (simp add: refill_def)

lemma refills_total: "pending_total (foldl (\<lambda>e en. refill (he_tf en) e) e batch) = pending_total e"
  by (induction batch arbitrary: e) (simp_all add: refill_total)

lemma collect_batch_length: "length (fst (collect_batch t h)) + length (snd (collect_batch t h)) = length h"
proof (induction t h rule: collect_batch.induct)
  case (1 t h)
  then show ?case
    by (subst (1 2) collect_batch.simps) (auto split: option.splits simp: split_beta dest: heap_pop_length)
qed

lemma collect_batch_nonempty: "heap_peek h = Some m \<Longrightarrow> fst (collect_batch (he_close_ts m) h) \<noteq> []"
  by (subst collect_batch.simps) (simp add: heap_pop_def split_beta)

lemma heap_tick_total:
  assumes "heap_peek (hn_heap e) = Some m"
  shows "pending_total (heap_tick st rm (he_close_ts m) e) < pending_total e"
proof -
  obtain batch rest where b: "collect_batch (he_close_ts m) (hn_heap e) = (batch, rest)" by fastforce
  have "pending_total (heap_tick st rm (he_close_ts m) e) = pending_total (e\<lparr>hn_heap := rest\<rparr>)"
    using refills_total [of "e\<lparr>hn_heap := rest\<rparr>" batch]
    by (simp add: heap_tick_def heap_advance_def b Let_def split_beta) (simp add: pending_total_def)
  moreover have "length rest < length (hn_heap e)"
    using collect_batch_nonempty [OF assms] collect_batch_length [of "he_close_ts m" "hn_heap e"] b
    by (cases batch) auto
  ultimately show ?thesis by (simp add: pending_total_def)
qed

function heap_loop :: "'s mtf_strategy \<Rightarrow> 'r risk_manager \<Rightarrow> ('s, 'r) heap_engine \<Rightarrow> ('s, 'r) heap_engine" where
  "heap_loop st rm e =
     (case heap_peek (hn_heap e) of
        None \<Rightarrow> e
      | Some hd_e \<Rightarrow> heap_loop st rm (heap_tick st rm (he_close_ts hd_e) e))"
  by pat_completeness auto
termination by (relation "measure (\<lambda>(st, rm, e). pending_total e)") (auto simp: heap_tick_total)

declare heap_loop.simps [simp del]

definition heap_finish :: "('s, 'r) heap_engine \<Rightarrow> ('s, 'r) heap_engine" where
  "heap_finish e =
     (case Option.bind (hm_get (hn_windows e) (hn_base_tf e)) last_opt of
        Some last_bar \<Rightarrow> e\<lparr>hn_core := force_close_all (hn_core e) last_bar\<rparr>
      | None \<Rightarrow> e)"

definition heap_start :: "'s mtf_strategy \<Rightarrow> ('s, 'r) heap_engine \<Rightarrow> ('s, 'r) heap_engine" where
  "heap_start st e =
     (let e1 = e\<lparr>hn_core := (hn_core e)\<lparr>ec_metrics_strategy := ms_name st (hn_strategy e)\<rparr>\<rparr>
      in foldl (\<lambda>e tf. refill tf e) e1 (hm_keys (hn_feeds e1)))"

definition heap_run :: "'s mtf_strategy \<Rightarrow> 'r risk_manager \<Rightarrow> ('s, 'r) heap_engine \<Rightarrow> ('s, 'r) heap_engine" where
  "heap_run st rm e = heap_finish (heap_loop st rm (heap_start st e))"

section \<open>\<open>PointerSyncMtfEngine\<close>\<close>

record htf_state =
  ht_tf :: timeframe
  ht_feed :: "bar list"
  ht_window :: "bar list"
  ht_peeked :: "bar option"

record ('s, 'r) pointer_engine =
  pn_core :: "'r engine_core"
  pn_strategy :: 's
  pn_base_tf :: timeframe
  pn_base_feed :: "bar list option"
  pn_htf_feeds :: "(timeframe, htf_state) hmap"
  pn_window_size :: nat

definition pointer_sync :: "f64 \<Rightarrow> 's \<Rightarrow> 'r \<Rightarrow> f64 \<Rightarrow> f64 \<Rightarrow> ('s, 'r) pointer_engine" where
  "pointer_sync capital strategy risk commission slippage =
     \<lparr>pn_core = core_new capital risk commission slippage, pn_strategy = strategy, pn_base_tf = M1,
      pn_base_feed = None, pn_htf_feeds = [], pn_window_size = mtf_default_window_size\<rparr>"

definition pointer_with_base_tf :: "('s, 'r) pointer_engine \<Rightarrow> timeframe \<Rightarrow> ('s, 'r) pointer_engine" where
  "pointer_with_base_tf e tf = e\<lparr>pn_base_tf := tf\<rparr>"

definition pointer_with_window :: "('s, 'r) pointer_engine \<Rightarrow> nat \<Rightarrow> ('s, 'r) pointer_engine" where
  "pointer_with_window e n = e\<lparr>pn_window_size := max n 1\<rparr>"

text \<open>The shared builder methods change a field of the core each.\<close>

definition pointer_with_core :: "('s, 'r) pointer_engine \<Rightarrow> ('r engine_core \<Rightarrow> 'r engine_core) \<Rightarrow> ('s, 'r) pointer_engine" where
  "pointer_with_core e f = e\<lparr>pn_core := f (pn_core e)\<rparr>"

definition pointer_with_intra_bar_mode :: "('s, 'r) pointer_engine \<Rightarrow> intra_bar_mode \<Rightarrow> ('s, 'r) pointer_engine" where
  "pointer_with_intra_bar_mode e md = pointer_with_core e (\<lambda>c. core_intra_bar_mode c md)"

definition pointer_with_single_entry :: "('s, 'r) pointer_engine \<Rightarrow> ('s, 'r) pointer_engine" where
  "pointer_with_single_entry e = pointer_with_core e (\<lambda>c. core_single_entry c)"

definition pointer_with_reverse_policy :: "('s, 'r) pointer_engine \<Rightarrow> reverse_policy \<Rightarrow> ('s, 'r) pointer_engine" where
  "pointer_with_reverse_policy e rp = pointer_with_core e (\<lambda>c. core_reverse_policy c rp)"

definition pointer_with_pyramiding :: "('s, 'r) pointer_engine \<Rightarrow> nat \<Rightarrow> f64 \<Rightarrow> ('s, 'r) pointer_engine" where
  "pointer_with_pyramiding e n pct = pointer_with_core e (\<lambda>c. core_pyramiding c n pct)"

definition pointer_with_independent_legs :: "('s, 'r) pointer_engine \<Rightarrow> ('s, 'r) pointer_engine" where
  "pointer_with_independent_legs e = pointer_with_core e (\<lambda>c. core_independent_legs c)"

definition pointer_with_warmup_until :: "('s, 'r) pointer_engine \<Rightarrow> int \<Rightarrow> ('s, 'r) pointer_engine" where
  "pointer_with_warmup_until e until = pointer_with_core e (\<lambda>c. core_warmup_until c until)"

definition pointer_add_feed :: "('s, 'r) pointer_engine \<Rightarrow> timeframe \<Rightarrow> bar list \<Rightarrow> ('s, 'r) pointer_engine" where
  "pointer_add_feed e tf feed =
     (if tf = pn_base_tf e then e\<lparr>pn_base_feed := Some feed\<rparr>
      else e\<lparr>pn_htf_feeds := hm_insert tf
             \<lparr>ht_tf = tf, ht_feed = feed, ht_window = [], ht_peeked = None\<rparr> (pn_htf_feeds e)\<rparr>)"

text \<open>The inner \<open>loop\<close> that advances one higher timeframe up to \<open>base_close_ts\<close>.\<close>

definition fetch :: "htf_state \<Rightarrow> htf_state" where
  "fetch h =
     (if ht_peeked h = None
      then (case ht_feed h of
              [] \<Rightarrow> h
            | b # rest \<Rightarrow> h\<lparr>ht_peeked := Some b, ht_feed := rest\<rparr>)
      else h)"

function sync_htf :: "nat \<Rightarrow> int \<Rightarrow> htf_state \<Rightarrow> bool \<Rightarrow> htf_state \<times> bool" where
  "sync_htf n base_close_ts h0 cl =
     (let h = fetch h0 in
      case ht_peeked h of
        None \<Rightarrow> (h, cl)
      | Some b \<Rightarrow>
          if sat_add_i64 (b_timestamp b) (duration_ms (ht_tf h)) \<le> base_close_ts
          then sync_htf n base_close_ts (h\<lparr>ht_peeked := None, ht_window := push_bounded (ht_window h) b n\<rparr>) True
          else (h, cl))"
  by pat_completeness auto
termination
  by (relation "measure (\<lambda>(n, t, h, c). length (ht_feed h) + (if ht_peeked h = None then 0 else 1))")
    (auto simp: fetch_def split: list.splits if_splits)

declare sync_htf.simps [simp del]

definition sync_all :: "nat \<Rightarrow> int \<Rightarrow> (timeframe, htf_state) hmap \<Rightarrow> (timeframe \<times> htf_state \<times> bool) list" where
  "sync_all n t hs = map (\<lambda>(k, h). (k, sync_htf n t h False)) hs"

text \<open>\<open>events.sort_by_key(|e| Reverse(e.tf.duration_ms()))\<close>, a stable sort.\<close>

definition sort_events :: "tf_bar_event list \<Rightarrow> tf_bar_event list" where
  "sort_events es = sort_key (\<lambda>e. - duration_ms (fst e)) es"

definition pointer_events :: "timeframe \<Rightarrow> bar \<Rightarrow> (timeframe \<times> htf_state \<times> bool) list \<Rightarrow> tf_bar_event list" where
  "pointer_events base_tf b synced =
     sort_events ((base_tf, b) #
       List.map_filter (\<lambda>(_, h, cl). if cl then map_option (\<lambda>x. (ht_tf h, x)) (last_opt (ht_window h)) else None) synced)"

definition pointer_views :: "timeframe \<Rightarrow> bar list \<Rightarrow> (timeframe, htf_state) hmap \<Rightarrow> (timeframe, bar list) hmap" where
  "pointer_views base_tf bwin hs =
     foldl (\<lambda>vs (_, h). hm_insert (ht_tf h) (ht_window h) vs) [(base_tf, bwin)] hs"

type_synonym ('s, 'r) pointer_state = "('s, 'r) pointer_engine \<times> bar list"

definition pointer_bar :: "'s mtf_strategy \<Rightarrow> 'r risk_manager \<Rightarrow> ('s, 'r) pointer_state \<Rightarrow> bar \<Rightarrow> ('s, 'r) pointer_state" where
  "pointer_bar st rm = (\<lambda>(e, win) b.
     (let base_close_ts = sat_add_i64 (b_timestamp b) (duration_ms (pn_base_tf e));
          synced = sync_all (pn_window_size e) base_close_ts (pn_htf_feeds e);
          htfs = map (\<lambda>(k, h, _). (k, h)) synced;
          win' = push_bounded win b (pn_window_size e);
          snap = \<lparr>sn_base_tf = pn_base_tf e, sn_close_ts = base_close_ts,
                  sn_events = pointer_events (pn_base_tf e) b synced,
                  sn_views = hm_get (pointer_views (pn_base_tf e) win' htfs)\<rparr>;
          trading = (case ec_warmup_until (pn_core e) of Some until \<Rightarrow> until \<le> b_timestamp b | None \<Rightarrow> True);
          core1 = (if trading then fst (run_base_tick rm (pn_core e) b)
                   else (pn_core e)\<lparr>ec_risk := rm_on_bar rm (ec_risk (pn_core e)) b\<rparr>);
          core2 = update_regime core1 (b_timestamp b) (ms_current_regime st (pn_strategy e));
          (s', signals) = ms_on_bars st (pn_strategy e) snap;
          core3 = (if trading then dispatch_signals rm core2 signals else core2)
      in (e\<lparr>pn_core := core3, pn_strategy := s', pn_htf_feeds := htfs\<rparr>, win')))"

definition pointer_finish :: "('s, 'r) pointer_state \<Rightarrow> ('s, 'r) pointer_engine" where
  "pointer_finish = (\<lambda>(e, win).
     (case last_opt win of
        Some last_bar \<Rightarrow> e\<lparr>pn_core := force_close_all (pn_core e) last_bar\<rparr>
      | None \<Rightarrow> e))"

text \<open>\<open>expect("base feed must be registered")\<close>: without a base feed the run panics.\<close>

definition pointer_run :: "'s mtf_strategy \<Rightarrow> 'r risk_manager \<Rightarrow> ('s, 'r) pointer_engine \<Rightarrow> ('s, 'r) pointer_engine option" where
  "pointer_run st rm e =
     (case pn_base_feed e of
        None \<Rightarrow> None
      | Some bars \<Rightarrow>
          (let e1 = e\<lparr>pn_base_feed := None,
                     pn_core := (pn_core e)\<lparr>ec_metrics_strategy := ms_name st (pn_strategy e)\<rparr>\<rparr>
           in Some (pointer_finish (foldl (pointer_bar st rm) (e1, []) bars))))"

end
