(* ===== verification/Mtf_Parity.thy ===== *)
theory Mtf_Parity
  imports Mtf_Engines
begin

text \<open>
  The two multi-timeframe engines compute the same backtest when every bar of a higher timeframe closes
  together with a base bar: an abstract view of the pending bars of each timeframe is kept by both
  engines, each turn of either loop takes the same bars off it, and the strategy is shown the same
  snapshot. The heap pops earliest first and, at equal times, the larger timeframe first, and never shows
  a bar before its time.
\<close>

section \<open>The heap pops in order\<close>

definition close_of :: "timeframe \<Rightarrow> bar \<Rightarrow> int" where
  "close_of tf b = sat_add_i64 (b_timestamp b) (duration_ms tf)"

definition mk_entry :: "timeframe \<Rightarrow> bar \<Rightarrow> heap_entry" where
  "mk_entry tf b = \<lparr>he_close_ts = close_of tf b, he_tf_ms = duration_ms tf, he_tf = tf, he_bar = b\<rparr>"

lemma mk_entry_sel [simp]:
  "he_close_ts (mk_entry tf b) = close_of tf b" "he_tf_ms (mk_entry tf b) = duration_ms tf"
  "he_tf (mk_entry tf b) = tf" "he_bar (mk_entry tf b) = b"
  by (simp_all add: mk_entry_def)

lemma entry_greater_trans: "entry_greater a b \<Longrightarrow> entry_greater b c \<Longrightarrow> entry_greater a c"
  by (auto simp: entry_greater_def)

lemma heap_peek_None [simp]: "heap_peek h = None \<longleftrightarrow> h = []"
  by (cases h) (auto split: option.splits)

lemma heap_peek_greatest: "heap_peek h = Some m \<Longrightarrow> e \<in> set h \<Longrightarrow> \<not> entry_greater e m"
proof (induction h arbitrary: m)
  case (Cons a h)
  show ?case
  proof (cases "heap_peek h")
    case None
    then show ?thesis using Cons.prems by (auto simp: entry_greater_def)
  next
    case (Some m')
    have le: "\<not> entry_greater a b \<Longrightarrow> \<not> entry_greater b c \<Longrightarrow> \<not> entry_greater a c" for a b c
      unfolding entry_greater_def by linarith
    have m: "m = (if entry_greater m' a then m' else a)" using Some Cons.prems(1) by simp
    have h: "\<not> entry_greater e m'" if "e \<in> set h" using Cons.IH Some that by blast
    have "\<not> entry_greater a a" "entry_greater m' a \<Longrightarrow> \<not> entry_greater a m'" by (auto simp: entry_greater_def)
    then show ?thesis using m h le [of e m' a] Cons.prems(2) by (cases "e = a") (simp_all split: if_splits)
  qed
qed simp

definition larger_first :: "heap_entry list \<Rightarrow> bool" where
  "larger_first = sorted_wrt (\<lambda>a b. he_tf_ms b < he_tf_ms a)"

lemma larger_first_distinct: "larger_first xs \<Longrightarrow> distinct (map he_tf_ms xs)"
  unfolding larger_first_def by (induction xs) auto

lemma collect_batch_correct:
  assumes "distinct (map he_tf_ms h)" and "\<forall>e \<in> set h. t \<le> he_close_ts e"
  shows "set (fst (collect_batch t h)) = {e \<in> set h. he_close_ts e = t} \<and>
    set (snd (collect_batch t h)) = {e \<in> set h. he_close_ts e \<noteq> t} \<and>
    larger_first (fst (collect_batch t h)) \<and> distinct (map he_tf_ms (snd (collect_batch t h)))"
  using assms
proof (induction t h rule: collect_batch.induct)
  case (1 t h)
  show ?case
  proof (cases "heap_peek h")
    case None
    then show ?thesis by (simp add: collect_batch.simps [of t "[]"] larger_first_def)
  next
    case (Some m)
    note great = heap_peek_greatest [OF Some]
    have m: "m \<in> set h" using Some by (rule heap_peek_in_set)
    show ?thesis
    proof (cases "he_close_ts m = t")
      case False
      have "he_close_ts e \<noteq> t" if "e \<in> set h" for e
        using great [OF that] m "1.prems"(2) False by (force simp: entry_greater_def)
      then show ?thesis using Some False "1.prems"(1) by (auto simp: collect_batch.simps [of t h] larger_first_def)
    next
      case True
      have d: "distinct h" using "1.prems"(1) by (simp add: distinct_map)
      let ?h = "remove1 m h"
      have set: "set ?h = set h - {m}" using d by (simp add: set_remove1_eq)
      have dms: "distinct (map he_tf_ms ?h)" using "1.prems"(1) d by (simp add: distinct_map set inj_on_diff)
      have pop: "heap_pop h = Some (m, ?h)" by (simp add: heap_pop_def Some)
      have IH: "set (fst (collect_batch t ?h)) = {e \<in> set ?h. he_close_ts e = t} \<and>
          set (snd (collect_batch t ?h)) = {e \<in> set ?h. he_close_ts e \<noteq> t} \<and>
          larger_first (fst (collect_batch t ?h)) \<and> distinct (map he_tf_ms (snd (collect_batch t ?h)))"
        by (rule "1.IH" [OF Some True pop refl dms]) (use "1.prems"(2) set in auto)
      have "he_tf_ms e < he_tf_ms m" if "e \<in> set ?h" "he_close_ts e = t" for e
      proof -
        have "he_tf_ms e \<noteq> he_tf_ms m" using that(1) m "1.prems"(1) by (auto simp: set distinct_map inj_on_def)
        then show ?thesis using great [of e] that True by (auto simp: set entry_greater_def)
      qed
      then have "larger_first (m # fst (collect_batch t ?h))" using IH by (auto simp: larger_first_def)
      moreover have "collect_batch t h = (m # fst (collect_batch t ?h), snd (collect_batch t ?h))"
        by (simp add: collect_batch.simps [of t h] Some True pop split_beta)
      ultimately show ?thesis using IH set m True by auto
    qed
  qed
qed

section \<open>Pending bars\<close>

text \<open>
  \<open>P tf\<close> lists the bars of the timeframe not yet processed. All timeframes but those of \<open>U\<close> have their
  first pending bar on the heap; those of \<open>U\<close> wait for their refill.
\<close>

definition feed_list :: "('s, 'r) heap_engine \<Rightarrow> timeframe \<Rightarrow> bar list" where
  "feed_list e tf = (case hm_get (hn_feeds e) tf of None \<Rightarrow> [] | Some bs \<Rightarrow> bs)"

definition heap_shows :: "('s, 'r) heap_engine \<Rightarrow> (timeframe \<Rightarrow> bar list) \<Rightarrow> timeframe set \<Rightarrow> bool" where
  "heap_shows e P U \<longleftrightarrow> distinct (map he_tf (hn_heap e)) \<and>
     set (hn_heap e) = {mk_entry tf (hd (P tf)) | tf. tf \<notin> U \<and> P tf \<noteq> []} \<and>
     feed_list e = (\<lambda>tf. if tf \<in> U then P tf else tl (P tf))"

lemma feed_list_update [simp]:
  "feed_list (e\<lparr>hn_windows := w\<rparr>) = feed_list e" "feed_list (e\<lparr>hn_core := c\<rparr>) = feed_list e"
  "feed_list (e\<lparr>hn_strategy := s\<rparr>) = feed_list e" "feed_list (e\<lparr>hn_heap := h\<rparr>) = feed_list e"
  by (simp_all add: feed_list_def [abs_def])

lemma heap_shows_update [simp]:
  "heap_shows (e\<lparr>hn_windows := w\<rparr>) P U = heap_shows e P U" "heap_shows (e\<lparr>hn_core := c\<rparr>) P U = heap_shows e P U"
  "heap_shows (e\<lparr>hn_strategy := s\<rparr>) P U = heap_shows e P U"
  by (simp_all add: heap_shows_def)

lemma shown_insert: "Q tf \<Longrightarrow> {F s | s. s \<notin> U - {tf} \<and> Q s} = insert (F tf) {F s | s. s \<notin> U \<and> Q s}"
  by blast

lemma refill_shows:
  assumes "heap_shows e P U" and "tf \<in> U"
  shows "heap_shows (refill tf e) P (U - {tf})"
proof (cases "P tf")
  case Nil
  then have "feed_list e tf = []" using assms by (simp add: heap_shows_def)
  then have "refill tf e = e" by (auto simp: refill_def feed_list_def split: option.splits)
  moreover have "{mk_entry s (hd (P s)) | s. s \<notin> U \<and> P s \<noteq> []} = {mk_entry s (hd (P s)) | s. s \<notin> U - {tf} \<and> P s \<noteq> []}"
    using Nil by auto
  moreover have "(\<lambda>s. if s \<in> U then P s else tl (P s)) = (\<lambda>s. if s \<in> U - {tf} then P s else tl (P s))"
    using Nil by auto
  ultimately show ?thesis using assms unfolding heap_shows_def by simp
next
  case (Cons b bs)
  then have "feed_list e tf = b # bs" using assms by (simp add: heap_shows_def)
  then have f: "hm_get (hn_feeds e) tf = Some (b # bs)" by (auto simp: feed_list_def split: option.splits)
  have set: "set (hn_heap e) = {mk_entry s (hd (P s)) | s. s \<notin> U \<and> P s \<noteq> []}" using assms(1) by (simp add: heap_shows_def)
  have "tf \<notin> he_tf ` set (hn_heap e)" using assms(2) by (auto simp: set)
  moreover have "hn_heap (refill tf e) = mk_entry tf b # hn_heap e"
    by (simp add: refill_def f mk_entry_def close_of_def)
  moreover have "{mk_entry s (hd (P s)) | s. s \<notin> U - {tf} \<and> P s \<noteq> []} = insert (mk_entry tf b) (set (hn_heap e))"
  proof -
    have "P tf \<noteq> []" "mk_entry tf b = mk_entry tf (hd (P tf))" using Cons by simp_all
    then show ?thesis using shown_insert [where F = "\<lambda>s. mk_entry s (hd (P s))" and Q = "\<lambda>s. P s \<noteq> []", of tf U] set
      by simp
  qed
  moreover have "feed_list (refill tf e) = (feed_list e)(tf := bs)" by (auto simp: refill_def f feed_list_def)
  moreover have "(\<lambda>s. if s \<in> U then P s else tl (P s))(tf := bs) = (\<lambda>s. if s \<in> U - {tf} then P s else tl (P s))"
    using Cons by auto
  ultimately show ?thesis using assms unfolding heap_shows_def by simp
qed

lemma refill_frame [simp]:
  "hn_core (refill tf e) = hn_core e" "hn_strategy (refill tf e) = hn_strategy e"
  "hn_base_tf (refill tf e) = hn_base_tf e" "hn_windows (refill tf e) = hn_windows e"
  "hn_window_size (refill tf e) = hn_window_size e"
  by (simp_all add: refill_def split: option.splits list.splits)

lemma refills_frame [simp]:
  "hn_core (foldl (\<lambda>e x. refill (f x) e) e xs) = hn_core e" "hn_strategy (foldl (\<lambda>e x. refill (f x) e) e xs) = hn_strategy e"
  "hn_base_tf (foldl (\<lambda>e x. refill (f x) e) e xs) = hn_base_tf e" "hn_windows (foldl (\<lambda>e x. refill (f x) e) e xs) = hn_windows e"
  "hn_window_size (foldl (\<lambda>e x. refill (f x) e) e xs) = hn_window_size e"
  by (induction xs arbitrary: e) simp_all

lemma refills_show:
  "heap_shows e P U \<Longrightarrow> distinct (map f xs) \<Longrightarrow> f ` set xs \<subseteq> U \<Longrightarrow>
   heap_shows (foldl (\<lambda>e x. refill (f x) e) e xs) P (U - f ` set xs)"
proof (induction xs arbitrary: e U)
  case (Cons x xs)
  have "heap_shows (refill (f x) e) P (U - {f x})" using Cons.prems by (intro refill_shows) auto
  then have "heap_shows (foldl (\<lambda>e x. refill (f x) e) (refill (f x) e) xs) P (U - {f x} - f ` set xs)"
    using Cons.prems by (intro Cons.IH) (auto simp: image_iff)
  moreover have "U - {f x} - f ` set xs = U - f ` set (x # xs)" by auto
  ultimately show ?case by simp
qed simp

text \<open>The bars that close at \<open>t\<close> are taken off.\<close>

definition due :: "(timeframe \<Rightarrow> bar list) \<Rightarrow> int \<Rightarrow> timeframe \<Rightarrow> bool" where
  "due P t tf \<longleftrightarrow> P tf \<noteq> [] \<and> close_of tf (hd (P tf)) = t"

definition after :: "(timeframe \<Rightarrow> bar list) \<Rightarrow> int \<Rightarrow> timeframe \<Rightarrow> bar list" where
  "after P t tf = (if due P t tf then tl (P tf) else P tf)"

lemma take_due:
  assumes sh: "heap_shows e P {}" and le: "\<forall>tf. P tf \<noteq> [] \<longrightarrow> t \<le> close_of tf (hd (P tf))"
    and cb: "collect_batch t (hn_heap e) = (batch, rest)"
  shows "set batch = {mk_entry tf (hd (P tf)) | tf. due P t tf}" and "larger_first batch"
    and "heap_shows (foldl (\<lambda>e en. refill (he_tf en) e) (e\<lparr>hn_heap := rest\<rparr>) batch) (after P t) {}"
proof -
  have set: "set (hn_heap e) = {mk_entry tf (hd (P tf)) | tf. P tf \<noteq> []}" using sh by (simp add: heap_shows_def)
  have "distinct (map he_tf_ms (hn_heap e))"
    using sh unfolding heap_shows_def distinct_map inj_on_def set by (auto simp: duration_ms_inj)
  moreover have "\<forall>x \<in> set (hn_heap e). t \<le> he_close_ts x" using le by (auto simp: set)
  ultimately have c: "set batch = {x \<in> set (hn_heap e). he_close_ts x = t}" "set rest = {x \<in> set (hn_heap e). he_close_ts x \<noteq> t}"
      "larger_first batch" "distinct (map he_tf_ms rest)"
    using collect_batch_correct [of "hn_heap e" t] unfolding cb by simp_all
  show b: "set batch = {mk_entry tf (hd (P tf)) | tf. due P t tf}" by (auto simp: c(1) set due_def)
  show "larger_first batch" by (rule c(3))
  have tfs: "he_tf ` set batch = {tf. due P t tf}" by (force simp: b)
  have r: "set rest = {mk_entry tf (hd (P tf)) | tf. \<not> due P t tf \<and> P tf \<noteq> []}" by (auto simp: c(2) set due_def)
  have dr: "distinct (map he_tf rest)" using c(4) unfolding distinct_map inj_on_def by (auto simp: r)
  have "set rest = {mk_entry tf (hd (after P t tf)) | tf. tf \<notin> {tf. due P t tf} \<and> after P t tf \<noteq> []}"
    by (auto simp: r after_def)
  moreover have "feed_list (e\<lparr>hn_heap := rest\<rparr>) = (\<lambda>tf. if tf \<in> {tf. due P t tf} then after P t tf else tl (after P t tf))"
    using sh by (auto simp: heap_shows_def feed_list_def after_def fun_eq_iff)
  ultimately have "heap_shows (e\<lparr>hn_heap := rest\<rparr>) (after P t) {tf. due P t tf}"
    using dr unfolding heap_shows_def by simp
  moreover have "distinct (map he_tf batch)"
  proof -
    have "distinct (map he_tf_ms batch)" using c(3) by (rule larger_first_distinct)
    then show ?thesis by (auto simp: distinct_map b inj_on_def)
  qed
  ultimately show "heap_shows (foldl (\<lambda>e en. refill (he_tf en) e) (e\<lparr>hn_heap := rest\<rparr>) batch) (after P t) {}"
    using refills_show [of "e\<lparr>hn_heap := rest\<rparr>" "after P t" "{tf. due P t tf}" he_tf batch] tfs by simp
qed

section \<open>The turn of the heap engine\<close>

lemma find_due:
  assumes "set batch = {mk_entry tf (hd (P tf)) | tf. due P t tf}"
  shows "find (\<lambda>en. he_tf en = tf) batch = (if due P t tf then Some (mk_entry tf (hd (P tf))) else None)"
proof (cases "find (\<lambda>en. he_tf en = tf) batch")
  case None
  then have "\<forall>en \<in> set batch. he_tf en \<noteq> tf" by (auto simp: find_None_iff)
  then show ?thesis using None by (auto simp: assms)
next
  case (Some en)
  then have "he_tf en = tf" "en \<in> set batch" by (auto simp: find_Some_iff)
  then show ?thesis using Some by (auto simp: assms)
qed

lemma push_entries:
  "distinct (map he_tf batch) \<Longrightarrow>
   hm_get (foldl (push_entry n) ws batch) tf =
     (case find (\<lambda>en. he_tf en = tf) batch of
        None \<Rightarrow> hm_get ws tf
      | Some en \<Rightarrow> Some (push_bounded (case hm_get ws tf of None \<Rightarrow> [] | Some w \<Rightarrow> w) (he_bar en) n))"
proof (induction batch arbitrary: ws)
  case (Cons en batch)
  have pe: "hm_get (push_entry n ws en) tf = (if he_tf en = tf
      then Some (push_bounded (case hm_get ws tf of None \<Rightarrow> [] | Some w \<Rightarrow> w) (he_bar en) n) else hm_get ws tf)"
    by (auto simp: push_entry_def)
  have "find (\<lambda>en. he_tf en = tf) batch = None" if "he_tf en = tf"
    using that Cons.prems by (auto simp: find_None_iff image_iff)
  then show ?case using Cons.IH [of "push_entry n ws en"] Cons.prems
    by (cases "he_tf en = tf"; cases "find (\<lambda>en. he_tf en = tf) batch") (simp_all add: pe)
qed simp

section \<open>The turn of the pointer engine\<close>

definition pend :: "htf_state \<Rightarrow> bar list" where
  "pend h = (case ht_peeked h of None \<Rightarrow> ht_feed h | Some b \<Rightarrow> b # ht_feed h)"

lemma fetch_simps [simp]:
  "pend (fetch h) = pend h" "ht_tf (fetch h) = ht_tf h" "ht_window (fetch h) = ht_window h"
  "ht_peeked (fetch h) = (case pend h of [] \<Rightarrow> None | b # _ \<Rightarrow> Some b)"
  by (auto simp: fetch_def pend_def split: option.splits list.splits)

lemma sync_htf_stop:
  "\<forall>b \<in> set (pend h). t < close_of (ht_tf h) b \<Longrightarrow> sync_htf n t h cl = (fetch h, cl)"
  by (subst sync_htf.simps) (auto simp: Let_def close_of_def split: list.splits)

lemma sync_htf_due:
  assumes "sorted_wrt (<) (map (close_of (ht_tf h)) (pend h))" and "\<forall>b \<in> set (pend h). t \<le> close_of (ht_tf h) b"
    and "sync_htf n t h False = (h', cl)"
  shows "cl \<longleftrightarrow> pend h \<noteq> [] \<and> close_of (ht_tf h) (hd (pend h)) = t" and "ht_tf h' = ht_tf h"
    and "pend h' = (if cl then tl (pend h) else pend h)"
    and "ht_window h' = (if cl then push_bounded (ht_window h) (hd (pend h)) n else ht_window h)"
proof -
  have "(cl \<longleftrightarrow> pend h \<noteq> [] \<and> close_of (ht_tf h) (hd (pend h)) = t) \<and> ht_tf h' = ht_tf h \<and>
    pend h' = (if cl then tl (pend h) else pend h) \<and>
    ht_window h' = (if cl then push_bounded (ht_window h) (hd (pend h)) n else ht_window h)"
  proof (cases "pend h \<noteq> [] \<and> close_of (ht_tf h) (hd (pend h)) = t")
    case True
    then obtain b bs where p: "pend h = b # bs" by (cases "pend h") auto
    let ?h = "(fetch h)\<lparr>ht_peeked := None, ht_window := push_bounded (ht_window h) b n\<rparr>"
    have feed: "ht_feed (fetch h) = bs" using p by (auto simp: fetch_def pend_def split: option.splits list.splits if_splits)
    then have ph: "pend ?h = bs" by (simp add: pend_def)
    have "sync_htf n t h False = sync_htf n t ?h True"
      using True p by (subst sync_htf.simps) (simp add: Let_def close_of_def)
    also have "\<dots> = (fetch ?h, True)"
      by (rule sync_htf_stop) (use assms(1) True p ph in auto)
    finally show ?thesis using assms(3) True p ph by auto
  next
    case False
    have "\<forall>b \<in> set (pend h). t < close_of (ht_tf h) b"
      using assms(1,2) False by (cases "pend h") force+
    then show ?thesis using sync_htf_stop [of h t n False] assms(3) False by auto
  qed
  then show "cl \<longleftrightarrow> pend h \<noteq> [] \<and> close_of (ht_tf h) (hd (pend h)) = t" "ht_tf h' = ht_tf h"
    "pend h' = (if cl then tl (pend h) else pend h)"
    "ht_window h' = (if cl then push_bounded (ht_window h) (hd (pend h)) n else ht_window h)" by simp_all
qed

definition pointer_shows :: "(timeframe, htf_state) hmap \<Rightarrow> timeframe \<Rightarrow> (timeframe \<Rightarrow> bar list) \<Rightarrow> bool" where
  "pointer_shows hs base P \<longleftrightarrow> hm_ok hs \<and> base \<notin> fst ` set hs \<and>
     (\<forall>(k, h) \<in> set hs. ht_tf h = k \<and> pend h = P k) \<and> (\<forall>tf. tf \<noteq> base \<and> tf \<notin> fst ` set hs \<longrightarrow> P tf = [])"

lemma views_get:
  "hm_ok hs \<Longrightarrow> \<forall>(k, h) \<in> set hs. ht_tf h = k \<Longrightarrow>
   hm_get (foldl (\<lambda>vs (_, h). hm_insert (ht_tf h) (ht_window h) vs) acc hs) tf =
     (case hm_get hs tf of Some h \<Rightarrow> Some (ht_window h) | None \<Rightarrow> hm_get acc tf)"
proof (induction hs arbitrary: acc)
  case (Cons kh hs)
  obtain k h where kh: "kh = (k, h)" by (cases kh)
  then have "k = tf \<Longrightarrow> hm_get hs tf = None" using Cons.prems by (auto simp: map_of_eq_None_iff)
  then show ?case using Cons kh by (cases "hm_get hs tf") auto
qed simp

lemma pointer_views_get:
  assumes "hm_ok hs" and "\<forall>(k, h) \<in> set hs. ht_tf h = k" and "base \<notin> fst ` set hs"
  shows "hm_get (pointer_views base win hs) = (\<lambda>tf. if tf = base then Some win else map_option ht_window (hm_get hs tf))"
proof
  fix tf
  have "hm_get hs base = None" using assms(3) by (simp add: map_of_eq_None_iff)
  then show "hm_get (pointer_views base win hs) tf = (if tf = base then Some win else map_option ht_window (hm_get hs tf))"
    unfolding pointer_views_def views_get [OF assms(1,2)] by (auto split: option.splits)
qed

lemma strict_unique:
  assumes asym: "\<And>x y. r x y \<Longrightarrow> \<not> r y x"
  shows "sorted_wrt r xs \<Longrightarrow> sorted_wrt r ys \<Longrightarrow> set xs = set ys \<Longrightarrow> xs = ys"
proof (induction xs arbitrary: ys)
  case (Cons x xs)
  then obtain y ys' where ys: "ys = y # ys'" by (cases ys) auto
  have irr: "\<not> r z z" for z using asym by blast
  have "x = y"
  proof (rule ccontr)
    assume "x \<noteq> y"
    then have "x \<in> set ys'" "y \<in> set xs" using Cons.prems(3) ys by auto
    then show False using Cons.prems(1,2) ys asym by auto
  qed
  moreover have "x \<notin> set xs" "y \<notin> set ys'" using Cons.prems(1,2) ys irr by auto
  ultimately have "set xs = set ys'" using Cons.prems(3) ys by auto
  then show ?case using Cons.IH [of ys'] Cons.prems ys \<open>x = y\<close> by simp
qed simp

section \<open>The two engines side by side\<close>

definition aligned :: "timeframe \<Rightarrow> (timeframe \<Rightarrow> bar list) \<Rightarrow> bool" where
  "aligned base P \<longleftrightarrow> (\<forall>tf. sorted_wrt (<) (map (close_of tf) (P tf)) \<and>
     close_of tf ` set (P tf) \<subseteq> close_of base ` set (P base))"

definition mtf_related :: "('s, 'r) heap_engine \<Rightarrow> ('s, 'r) pointer_engine \<Rightarrow> bar list \<Rightarrow> (timeframe \<Rightarrow> bar list) \<Rightarrow> bool" where
  "mtf_related e p win P \<longleftrightarrow> hn_core e = pn_core p \<and> hn_strategy e = pn_strategy p \<and>
     hn_base_tf e = pn_base_tf p \<and> hn_window_size e = pn_window_size p \<and> 0 < hn_window_size e \<and>
     heap_shows e P {} \<and> pointer_shows (pn_htf_feeds p) (pn_base_tf p) P \<and>
     hm_get (hn_windows e) = (\<lambda>tf. if tf = pn_base_tf p then Some win else map_option ht_window (hm_get (pn_htf_feeds p) tf))"

lemma aligned_first:
  assumes "aligned base P" and "P base = b # bs"
  shows "\<forall>tf. \<forall>x \<in> set (P tf). close_of base b \<le> close_of tf x" and "due P (close_of base b) base"
    and "aligned base (after P (close_of base b))" and "after P (close_of base b) base = bs"
proof -
  let ?t = "close_of base b"
  have s: "sorted_wrt (<) (map (close_of tf) (P tf))" and sub: "close_of tf ` set (P tf) \<subseteq> close_of base ` set (P base)" for tf
    using assms(1) by (auto simp: aligned_def)
  have base: "\<forall>x \<in> set (b # bs). ?t \<le> close_of base x" using s [of base] assms(2) by auto
  then show ge: "\<forall>tf. \<forall>x \<in> set (P tf). ?t \<le> close_of tf x" using sub assms(2) by fastforce
  show d: "due P ?t base" using assms(2) by (simp add: due_def)
  then show ab: "after P ?t base = bs" using assms(2) by (simp add: after_def)
  have gt: "?t < close_of tf x" if x: "x \<in> set (after P ?t tf)" for tf x
  proof (cases "P tf")
    case (Cons y ys)
    then have "\<forall>z \<in> set ys. close_of tf y < close_of tf z" "?t \<le> close_of tf y" using s [of tf] ge by auto
    then show ?thesis using x Cons by (auto simp: after_def due_def split: if_splits)
  qed (use x in \<open>simp add: after_def due_def\<close>)
  have "close_of tf x \<in> close_of base ` set bs" if x: "x \<in> set (after P ?t tf)" for tf x
  proof -
    have "x \<in> set (P tf)" using x by (auto simp: after_def intro: list.set_sel(2) split: if_splits)
    then have "close_of tf x \<in> close_of base ` set (b # bs)" using sub [of tf] assms(2) by auto
    then show ?thesis using gt [OF x] by auto
  qed
  moreover have "sorted_wrt (<) (map (close_of tf) (after P ?t tf))" for tf
    using s [of tf] by (cases "P tf") (auto simp: after_def due_def)
  ultimately show "aligned base (after P ?t)" unfolding aligned_def ab by auto
qed

definition synced_as :: "nat \<Rightarrow> int \<Rightarrow> (timeframe \<Rightarrow> bar list) \<Rightarrow> timeframe \<Rightarrow> htf_state \<Rightarrow> htf_state \<Rightarrow> bool" where
  "synced_as n t P k h h' \<longleftrightarrow> ht_tf h' = k \<and> pend h' = after P t k \<and>
     ht_window h' = (if due P t k then push_bounded (ht_window h) (hd (P k)) n else ht_window h)"

lemma sync_shown:
  assumes "pointer_shows hs base P" and al: "aligned base P" "P base = b # bs" and kh: "(k, h) \<in> set hs"
  shows "\<exists>h'. sync_htf n (close_of base b) h False = (h', due P (close_of base b) k) \<and>
    synced_as n (close_of base b) P k h h'"
proof -
  have h: "ht_tf h = k" "pend h = P k" using assms(1) kh by (auto simp: pointer_shows_def)
  obtain h' cl where s: "sync_htf n (close_of base b) h False = (h', cl)" by fastforce
  have "sorted_wrt (<) (map (close_of (ht_tf h)) (pend h))" using al(1) h by (simp add: aligned_def)
  moreover have "\<forall>x \<in> set (pend h). close_of base b \<le> close_of (ht_tf h) x" using aligned_first(1) [OF al] h by simp
  ultimately show ?thesis using sync_htf_due [OF _ _ s] s h by (auto simp: synced_as_def due_def after_def)
qed

lemma htfs_of_sync_all: "map (\<lambda>(k, h, _). (k, h)) (sync_all n t hs) = map (\<lambda>(k, h). (k, fst (sync_htf n t h False))) hs"
  by (simp add: sync_all_def split_beta comp_def)

lemma synced_events:
  assumes "\<forall>(k, h) \<in> set hs. \<exists>h'. sync_htf n t h False = (h', due P t k) \<and> synced_as n t P k h h'" and "0 < n"
  shows "List.map_filter (\<lambda>(_, h, cl). if cl then map_option (\<lambda>x. (ht_tf h, x)) (last_opt (ht_window h)) else None) (sync_all n t hs)
    = map (\<lambda>k. (k, hd (P k))) (filter (due P t) (map fst hs))"
  using assms
proof (induction hs)
  case (Cons kh hs)
  obtain k h where kh: "kh = (k, h)" by (cases kh)
  then obtain h' where h': "sync_htf n t h False = (h', due P t k)" "synced_as n t P k h h'" using Cons.prems by auto
  have "last_opt (ht_window h') = Some (hd (P k))" if "due P t k"
    using h'(2) that assms(2) by (simp add: synced_as_def last_opt_def)
  moreover have "ht_tf h' = k" using h'(2) by (simp add: synced_as_def)
  ultimately show ?case using Cons kh h'(1) by (auto simp: sync_all_def map_filter_simps)
qed (simp add: sync_all_def map_filter_simps)

lemma sorted_events:
  assumes "distinct (map fst es)"
  shows "sorted_wrt (\<lambda>x y. duration_ms (fst y) < duration_ms (fst x)) (sort_events es)" and "set (sort_events es) = set es"
proof -
  let ?k = "\<lambda>e :: tf_bar_event. - duration_ms (fst e)"
  have "sorted (map ?k (sort_key ?k es))" by simp
  moreover have "distinct (map (\<lambda>tf. - duration_ms tf) (map fst es))"
    using assms by (subst distinct_map) (auto simp: inj_on_def duration_ms_inj)
  then have "distinct (map ?k es)" by (simp add: comp_def)
  then have "distinct (map ?k (sort_key ?k es))" by (simp add: distinct_map)
  ultimately have "sorted_wrt (<) (map ?k (sort_key ?k es))" by (simp add: strict_sorted_iff)
  then show "sorted_wrt (\<lambda>x y. duration_ms (fst y) < duration_ms (fst x)) (sort_events es)"
    by (simp add: sort_events_def sorted_wrt_map)
  show "set (sort_events es) = set es" by (simp add: sort_events_def)
qed

lemma related_events:
  assumes ps: "pointer_shows hs base P" and n: "0 < n" and al: "aligned base P" and pb: "P base = b # bs"
    and batch: "set batch = {mk_entry tf (hd (P tf)) | tf. due P (close_of base b) tf}" "larger_first batch"
  shows "map (\<lambda>en. (he_tf en, he_bar en)) batch = pointer_events base b (sync_all n (close_of base b) hs)"
proof -
  let ?t = "close_of base b"
  let ?es = "map (\<lambda>k. (k, hd (P k))) (base # filter (due P ?t) (map fst hs))"
  let ?r = "\<lambda>(x :: tf_bar_event) y. duration_ms (fst y) < duration_ms (fst x)"
  have sy: "\<forall>(k, h) \<in> set hs. \<exists>h'. sync_htf n ?t h False = (h', due P ?t k) \<and> synced_as n ?t P k h h'"
    using sync_shown [OF ps al pb] by blast
  have pe: "pointer_events base b (sync_all n ?t hs) = sort_events ?es"
    using pb by (simp add: pointer_events_def synced_events [OF sy n])
  have "distinct (map fst ?es)" using ps by (auto simp: pointer_shows_def comp_def)
  note srt = sorted_events [OF this]
  have "tf = base \<or> tf \<in> fst ` set hs" if "due P ?t tf" for tf using that ps by (auto simp: pointer_shows_def due_def)
  then have set: "set ?es = {(tf, hd (P tf)) | tf. due P ?t tf}" using aligned_first(2) [OF al pb] by auto
  have "set (map (\<lambda>en. (he_tf en, he_bar en)) batch) = {(tf, hd (P tf)) | tf. due P ?t tf}" by (force simp: batch)
  moreover have "sorted_wrt ?r (map (\<lambda>en. (he_tf en, he_bar en)) batch)"
    using batch(2) unfolding larger_first_def sorted_wrt_map by (rule sorted_wrt_mono_rel [rotated]) (auto simp: batch(1))
  ultimately show ?thesis using srt set unfolding pe by (intro strict_unique [where r = ?r]) auto
qed

lemma pointer_shows_after:
  assumes ps: "pointer_shows hs base P" and al: "aligned base P" and pb: "P base = b # bs"
  shows "pointer_shows (map (\<lambda>(k, h, _). (k, h)) (sync_all n (close_of base b) hs)) base (after P (close_of base b))"
proof -
  let ?t = "close_of base b"
  have keys: "map fst (map (\<lambda>(k, h). (k, fst (sync_htf n ?t h False))) hs) = map fst hs" by (simp add: split_beta comp_def)
  then have sk: "fst ` set (map (\<lambda>(k, h). (k, fst (sync_htf n ?t h False))) hs) = fst ` set hs" by (metis list.set_map)
  have each: "ht_tf h' = k \<and> pend h' = after P ?t k" if "(k, h') \<in> set (map (\<lambda>(k, h). (k, fst (sync_htf n ?t h False))) hs)" for k h'
  proof -
    from that obtain h where "(k, h) \<in> set hs" "h' = fst (sync_htf n ?t h False)" by auto
    then show ?thesis using sync_shown [OF ps al pb, of k h n] by (auto simp: synced_as_def)
  qed
  have "P tf = [] \<Longrightarrow> after P ?t tf = []" for tf by (simp add: after_def due_def)
  then show ?thesis using ps each unfolding htfs_of_sync_all pointer_shows_def keys sk by blast
qed

lemma windows_after:
  assumes ps: "pointer_shows hs base P" and al: "aligned base P" and pb: "P base = b # bs"
  shows "map_option ht_window (hm_get (map (\<lambda>(k, h, _). (k, h)) (sync_all n (close_of base b) hs)) tf) =
    map_option (\<lambda>h. if due P (close_of base b) tf then push_bounded (ht_window h) (hd (P tf)) n else ht_window h) (hm_get hs tf)"
proof (cases "hm_get hs tf")
  case None
  then show ?thesis unfolding htfs_of_sync_all by (simp add: map_of_map)
next
  case (Some h)
  then have "(tf, h) \<in> set hs" by (rule map_of_SomeD)
  then show ?thesis using Some sync_shown [OF ps al pb, of tf h n] unfolding htfs_of_sync_all
    by (auto simp: map_of_map synced_as_def)
qed

lemma related_tick:
  assumes R: "mtf_related e p win P" and al: "aligned (pn_base_tf p) P" and pb: "P (pn_base_tf p) = b # bs"
    and t: "t = close_of (pn_base_tf p) b" and pt: "pointer_bar st rm (p, win) b = (p', win')"
  shows "mtf_related (heap_tick st rm t e) p' win' (after P t)" and "pn_base_tf p' = pn_base_tf p"
proof -
  let ?base = "pn_base_tf p" and ?n = "pn_window_size p" and ?hs = "pn_htf_feeds p"
  let ?synced = "sync_all ?n t ?hs"
  let ?htfs = "map (\<lambda>(k, h, _). (k, h)) ?synced"
  note rel = R [unfolded mtf_related_def]
  obtain batch rest where cb: "collect_batch t (hn_heap e) = (batch, rest)" by fastforce
  have ge: "\<forall>tf. P tf \<noteq> [] \<longrightarrow> t \<le> close_of tf (hd (P tf))" using aligned_first(1) [OF al pb] t by simp
  have sh: "heap_shows e P {}" using rel by simp
  note td = take_due [OF sh ge cb]
  let ?e1 = "foldl (\<lambda>e en. refill (he_tf en) e) (e\<lparr>hn_heap := rest\<rparr>) batch"
  have due: "due P t ?base" using aligned_first(2) [OF al pb] t by simp
  have base: "find (\<lambda>en. he_tf en = ?base) batch = Some (mk_entry ?base b)" using find_due [OF td(1), of ?base] due pb by simp
  have ps: "pointer_shows ?hs ?base P" "0 < ?n" using rel by simp_all
  have ps': "pointer_shows ?htfs ?base (after P t)" using pointer_shows_after [OF ps(1) al pb] t by simp
  have ev: "map (\<lambda>en. (he_tf en, he_bar en)) batch = pointer_events ?base b ?synced"
    using related_events [OF ps al pb] td(1,2) t by simp
  have db: "distinct (map he_tf batch)"
    using larger_first_distinct [OF td(2)] by (auto simp: distinct_map inj_on_def td(1))
  have nb: "hm_get ?hs ?base = None" using ps(1) by (simp add: pointer_shows_def map_of_eq_None_iff)
  have win: "hm_get (foldl (push_entry ?n) (hn_windows e) batch) =
      (\<lambda>tf. if tf = ?base then Some (push_bounded win b ?n) else map_option ht_window (hm_get ?htfs tf))" (is "_ = ?W")
  proof
    fix tf
    have none: "\<not> due P t tf" if "tf \<noteq> ?base" "hm_get ?hs tf = None"
      using ps(1) that by (auto simp: pointer_shows_def due_def map_of_eq_None_iff)
    have w: "hm_get (hn_windows e) tf = (if tf = ?base then Some win else map_option ht_window (hm_get ?hs tf))" using rel by simp
    show "hm_get (foldl (push_entry ?n) (hn_windows e) batch) tf = ?W tf"
    proof (cases "tf = ?base")
      case True
      then show ?thesis using due pb w by (simp add: push_entries [OF db] find_due [OF td(1)])
    next
      case False
      then show ?thesis using w none windows_after [OF ps(1) al pb, of ?n tf] t
        by (cases "hm_get ?hs tf") (auto simp: push_entries [OF db] find_due [OF td(1)])
    qed
  qed
  have views: "hm_get (pointer_views ?base (push_bounded win b ?n) ?htfs) = ?W"
    using ps' by (intro pointer_views_get) (auto simp: pointer_shows_def)
  show "pn_base_tf p' = ?base" using pt by (auto simp: pointer_bar_def Let_def split_beta)
  have shows2: "heap_shows (?e1\<lparr>hn_windows := w, hn_core := c, hn_strategy := s\<rparr>) (after P t) {}" for w c s
    using td(3) by simp
  have tr: "heap_is_trading (pn_core p) (Some (mk_entry ?base b)) =
      (case ec_warmup_until (pn_core p) of Some until \<Rightarrow> until \<le> b_timestamp b | None \<Rightarrow> True)"
    by (simp add: heap_is_trading_def split: option.splits)
  let ?snap = "\<lparr>sn_base_tf = ?base, sn_close_ts = t, sn_events = pointer_events ?base b ?synced, sn_views = ?W\<rparr>"
  obtain s' sg where ob: "ms_on_bars st (pn_strategy p) ?snap = (s', sg)" by fastforce
  let ?tr = "case ec_warmup_until (pn_core p) of Some until \<Rightarrow> until \<le> b_timestamp b | None \<Rightarrow> True"
  let ?c1 = "if ?tr then fst (run_base_tick rm (pn_core p) b)
    else (pn_core p)\<lparr>ec_risk := rm_on_bar rm (ec_risk (pn_core p)) b\<rparr>"
  let ?c2 = "update_regime ?c1 (b_timestamp b) (ms_current_regime st (pn_strategy p))"
  let ?c3 = "if ?tr then dispatch_signals rm ?c2 sg else ?c2"
  have p': "p' = p\<lparr>pn_core := ?c3, pn_strategy := s', pn_htf_feeds := ?htfs\<rparr>" "win' = push_bounded win b ?n"
    using pt ob unfolding pointer_bar_def Let_def close_of_def [symmetric] t [symmetric] views prod.case by auto
  have "heap_tick st rm t e = ?e1\<lparr>hn_windows := foldl (push_entry ?n) (hn_windows e) batch, hn_core := ?c3, hn_strategy := s'\<rparr>"
    using rel ob unfolding heap_tick_def heap_advance_def Let_def cb prod.case
    by (simp add: base heap_snapshot_def ev win tr heap_housekeeping_def)
  then obtain C where C: "heap_tick st rm t e = ?e1\<lparr>hn_windows := foldl (push_entry ?n) (hn_windows e) batch, hn_core := C, hn_strategy := s'\<rparr>"
      "p' = p\<lparr>pn_core := C, pn_strategy := s', pn_htf_feeds := ?htfs\<rparr>" using p'(1) by blast
  show "mtf_related (heap_tick st rm t e) p' win' (after P t)"
    unfolding mtf_related_def C p'(2) using rel td(3) ps' win by (simp cong: if_cong)
qed

lemma parity_loop:
  assumes "mtf_related e p win P" and "aligned (pn_base_tf p) P" and "P (pn_base_tf p) = bars"
    and "foldl (pointer_bar st rm) (p, win) bars = (p', win')"
  shows "\<exists>Q. mtf_related (heap_loop st rm e) p' win' Q"
  using assms
proof (induction bars arbitrary: e p win P)
  case Nil
  have "close_of tf ` set (P tf) \<subseteq> {}" for tf using Nil.prems(2,3) by (simp add: aligned_def)
  then have "P tf = []" for tf by simp
  then have "hn_heap e = []" using Nil.prems(1) by (simp add: mtf_related_def heap_shows_def)
  then have "heap_loop st rm e = e" by (simp add: heap_loop.simps)
  then show ?case using Nil.prems(1,4) by auto
next
  case (Cons b bars)
  let ?t = "close_of (pn_base_tf p) b"
  note al = Cons.prems(2,3)
  have heap: "set (hn_heap e) = {mk_entry tf (hd (P tf)) | tf. P tf \<noteq> []}"
    using Cons.prems(1) by (simp add: mtf_related_def heap_shows_def)
  then have base: "mk_entry (pn_base_tf p) b \<in> set (hn_heap e)" using al(2) by (auto intro!: exI [of _ "pn_base_tf p"])
  then obtain m where m: "heap_peek (hn_heap e) = Some m" by (cases "heap_peek (hn_heap e)") auto
  have "he_close_ts m \<le> ?t" using heap_peek_greatest [OF m base] by (auto simp: entry_greater_def)
  moreover have "?t \<le> he_close_ts m"
    using heap_peek_in_set [OF m] aligned_first(1) [OF al] by (auto simp: heap)
  ultimately have mt: "he_close_ts m = ?t" by simp
  obtain p1 win1 where p1: "pointer_bar st rm (p, win) b = (p1, win1)" by fastforce
  note tick = related_tick [OF Cons.prems(1) al refl p1]
  have "\<exists>Q. mtf_related (heap_loop st rm (heap_tick st rm ?t e)) p' win' Q"
    using tick aligned_first(3,4) [OF al] Cons.prems(4) p1 by (intro Cons.IH [of _ p1 win1 "after P ?t"]) auto
  then show ?case using m mt by (simp add: heap_loop.simps [of st rm e])
qed

section \<open>Building the engines\<close>

definition heap_add_feeds :: "('s, 'r) heap_engine \<Rightarrow> (timeframe \<times> bar list) list \<Rightarrow> ('s, 'r) heap_engine" where
  "heap_add_feeds = foldl (\<lambda>e (tf, bs). heap_add_feed e tf bs)"

definition pointer_add_feeds :: "('s, 'r) pointer_engine \<Rightarrow> (timeframe \<times> bar list) list \<Rightarrow> ('s, 'r) pointer_engine" where
  "pointer_add_feeds = foldl (\<lambda>e (tf, bs). pointer_add_feed e tf bs)"

definition bars_of :: "(timeframe \<times> bar list) list \<Rightarrow> timeframe \<Rightarrow> bar list" where
  "bars_of fs tf = (case map_of fs tf of None \<Rightarrow> [] | Some bs \<Rightarrow> bs)"

lemma heap_add_feeds_get:
  "distinct (map fst fs) \<Longrightarrow>
   hm_get (hn_feeds (heap_add_feeds e fs)) tf = (case map_of fs tf of Some bs \<Rightarrow> Some bs | None \<Rightarrow> hm_get (hn_feeds e) tf) \<and>
   hm_get (hn_windows (heap_add_feeds e fs)) tf = (case map_of fs tf of Some bs \<Rightarrow> Some [] | None \<Rightarrow> hm_get (hn_windows e) tf)"
proof (induction fs arbitrary: e)
  case (Cons x fs)
  obtain k bs where x: "x = (k, bs)" by (cases x)
  have "k = tf \<Longrightarrow> map_of fs tf = None" using Cons.prems x by (auto simp: map_of_eq_None_iff)
  moreover have "distinct (map fst fs)" using Cons.prems by simp
  ultimately show ?case using Cons.IH [of "heap_add_feed e k bs"] x
    by (cases "map_of fs tf") (auto simp: heap_add_feeds_def heap_add_feed_def)
qed (simp add: heap_add_feeds_def)

lemma heap_add_feeds_frame:
  "hn_core (heap_add_feeds e fs) = hn_core e \<and> hn_strategy (heap_add_feeds e fs) = hn_strategy e \<and>
   hn_base_tf (heap_add_feeds e fs) = hn_base_tf e \<and> hn_window_size (heap_add_feeds e fs) = hn_window_size e \<and>
   hn_heap (heap_add_feeds e fs) = hn_heap e \<and> (hm_ok (hn_feeds e) \<longrightarrow> hm_ok (hn_feeds (heap_add_feeds e fs)))"
  by (induction fs arbitrary: e) (auto simp: heap_add_feeds_def heap_add_feed_def)

definition fresh_htf :: "timeframe \<Rightarrow> bar list \<Rightarrow> htf_state" where
  "fresh_htf tf bs = \<lparr>ht_tf = tf, ht_feed = bs, ht_window = [], ht_peeked = None\<rparr>"

lemma pointer_add_feeds_frame:
  "pn_core (pointer_add_feeds e fs) = pn_core e \<and> pn_strategy (pointer_add_feeds e fs) = pn_strategy e \<and>
   pn_base_tf (pointer_add_feeds e fs) = pn_base_tf e \<and> pn_window_size (pointer_add_feeds e fs) = pn_window_size e \<and>
   (hm_ok (pn_htf_feeds e) \<longrightarrow> hm_ok (pn_htf_feeds (pointer_add_feeds e fs)))"
  by (induction fs arbitrary: e) (auto simp: pointer_add_feeds_def pointer_add_feed_def)

lemma pointer_add_feeds_get:
  "distinct (map fst fs) \<Longrightarrow>
   pn_base_feed (pointer_add_feeds e fs) = (case map_of fs (pn_base_tf e) of Some bs \<Rightarrow> Some bs | None \<Rightarrow> pn_base_feed e) \<and>
   hm_get (pn_htf_feeds (pointer_add_feeds e fs)) tf =
     (case map_of fs tf of
        Some bs \<Rightarrow> if tf = pn_base_tf e then hm_get (pn_htf_feeds e) tf else Some (fresh_htf tf bs)
      | None \<Rightarrow> hm_get (pn_htf_feeds e) tf)"
proof (induction fs arbitrary: e)
  case (Cons x fs)
  obtain k bs where x: "x = (k, bs)" by (cases x)
  have "map_of fs k = None" using Cons.prems x by (auto simp: map_of_eq_None_iff)
  moreover have "distinct (map fst fs)" using Cons.prems by simp
  ultimately show ?case using Cons.IH [of "pointer_add_feed e k bs"] x
    by (cases "map_of fs tf"; cases "map_of fs (pn_base_tf e)")
      (auto simp: pointer_add_feeds_def pointer_add_feed_def fresh_htf_def)
qed (simp add: pointer_add_feeds_def)

lemma heap_start_shows:
  assumes "hm_ok (hn_feeds e)" and "hn_heap e = []"
  shows "heap_shows (heap_start st e) (feed_list e) {}"
proof -
  let ?e = "e\<lparr>hn_core := (hn_core e)\<lparr>ec_metrics_strategy := ms_name st (hn_strategy e)\<rparr>\<rparr>"
  let ?U = "fst ` set (hn_feeds e)"
  have none: "feed_list e tf = []" if "tf \<notin> ?U" for tf
  proof -
    have "hm_get (hn_feeds e) tf = None" using that by (simp add: map_of_eq_None_iff)
    then show ?thesis by (simp add: feed_list_def)
  qed
  then have "heap_shows ?e (feed_list e) ?U"
    using assms(2) unfolding heap_shows_def by (auto simp: fun_eq_iff)
  moreover have "(\<lambda>tf. tf) ` set (hm_keys (hn_feeds e)) = ?U" by simp
  ultimately show ?thesis
    using refills_show [of ?e "feed_list e" ?U "\<lambda>tf. tf" "hm_keys (hn_feeds e)"] assms(1)
    by (simp add: heap_start_def Let_def)
qed

lemma heap_start_frame:
  "hn_core (heap_start st e) = (hn_core e)\<lparr>ec_metrics_strategy := ms_name st (hn_strategy e)\<rparr>"
  "hn_strategy (heap_start st e) = hn_strategy e" "hn_base_tf (heap_start st e) = hn_base_tf e"
  "hn_windows (heap_start st e) = hn_windows e" "hn_window_size (heap_start st e) = hn_window_size e"
  using refills_frame [where f = "\<lambda>tf. tf"] by (simp_all add: heap_start_def Let_def)

lemma heap_loop_frame: "hn_base_tf (heap_loop st rm e) = hn_base_tf e"
proof (induction st rm e rule: heap_loop.induct)
  case (1 st rm e)
  have "hn_base_tf (heap_tick st rm t e) = hn_base_tf e" for t
    by (simp add: heap_tick_def heap_advance_def Let_def split_beta)
  then show ?case using "1.IH" by (subst heap_loop.simps) (auto split: option.splits)
qed

section \<open>No look-ahead\<close>

inductive heap_reach :: "'s mtf_strategy \<Rightarrow> 'r risk_manager \<Rightarrow> ('s, 'r) heap_engine \<Rightarrow> ('s, 'r) heap_engine \<Rightarrow> bool"
  for st rm e0 where
  start: "heap_reach st rm e0 (heap_start st e0)"
| tick: "heap_reach st rm e0 e \<Longrightarrow> heap_peek (hn_heap e) = Some m \<Longrightarrow>
    heap_reach st rm e0 (heap_tick st rm (he_close_ts m) e)"

definition heap_causal :: "('s, 'r) heap_engine \<Rightarrow> (timeframe \<Rightarrow> bar list) \<Rightarrow> bool" where
  "heap_causal e P \<longleftrightarrow> heap_shows e P {} \<and> (\<forall>tf. sorted (map (close_of tf) (P tf))) \<and>
     (\<forall>tf w b tf'. hm_get (hn_windows e) tf = Some w \<longrightarrow> b \<in> set w \<longrightarrow> P tf' \<noteq> [] \<longrightarrow>
        close_of tf b \<le> close_of tf' (hd (P tf')))"

lemma causal_advance:
  assumes c: "heap_causal e P" and m: "heap_peek (hn_heap e) = Some m"
    and adv: "heap_advance (he_close_ts m) e = (e2, batch)"
  shows "heap_causal e2 (after P (he_close_ts m))"
    and "\<forall>tf w b. hm_get (hn_windows e2) tf = Some w \<longrightarrow> b \<in> set w \<longrightarrow> close_of tf b \<le> he_close_ts m"
    and "set batch = {mk_entry tf (hd (P tf)) | tf. due P (he_close_ts m) tf}" and "larger_first batch" and "m \<in> set batch"
proof -
  let ?t = "he_close_ts m"
  note cs = c [unfolded heap_causal_def]
  obtain rest where cb: "collect_batch ?t (hn_heap e) = (batch, rest)"
    using adv by (auto simp: heap_advance_def Let_def split: prod.splits)
  have heap: "set (hn_heap e) = {mk_entry tf (hd (P tf)) | tf. P tf \<noteq> []}" using cs by (simp add: heap_shows_def)
  have ge: "\<forall>tf. P tf \<noteq> [] \<longrightarrow> ?t \<le> close_of tf (hd (P tf))"
  proof (intro allI impI)
    fix tf assume "P tf \<noteq> []"
    then have "mk_entry tf (hd (P tf)) \<in> set (hn_heap e)" unfolding heap by blast
    then show "?t \<le> close_of tf (hd (P tf))" using heap_peek_greatest [OF m] by (fastforce simp: entry_greater_def)
  qed
  have sh: "heap_shows e P {}" using cs by simp
  note td = take_due [OF sh ge cb]
  show b: "set batch = {mk_entry tf (hd (P tf)) | tf. due P ?t tf}" and "larger_first batch" by (fact td)+
  obtain tf0 where tf0: "m = mk_entry tf0 (hd (P tf0))" "P tf0 \<noteq> []" using heap_peek_in_set [OF m] unfolding heap by blast
  then have "due P ?t tf0" by (simp add: due_def)
  then show "m \<in> set batch" using tf0(1) unfolding b by blast
  have db: "distinct (map he_tf batch)"
    using larger_first_distinct [OF td(2)] by (auto simp: distinct_map inj_on_def td(1))
  have e2: "e2 = (foldl (\<lambda>e en. refill (he_tf en) e) (e\<lparr>hn_heap := rest\<rparr>) batch)
      \<lparr>hn_windows := foldl (push_entry (hn_window_size e)) (hn_windows e) batch\<rparr>"
    using adv by (auto simp: heap_advance_def cb Let_def)
  show old: "\<forall>tf w b. hm_get (hn_windows e2) tf = Some w \<longrightarrow> b \<in> set w \<longrightarrow> close_of tf b \<le> ?t"
  proof (intro allI impI)
    fix tf w x assume w: "hm_get (hn_windows e2) tf = Some w" "x \<in> set w"
    have seen: "close_of tf x \<le> ?t" if "hm_get (hn_windows e) tf = Some w'" "x \<in> set w'" for w'
    proof -
      have "close_of tf x \<le> close_of tf0 (hd (P tf0))" using cs that tf0(2) by blast
      then show ?thesis using tf0(1) by simp
    qed
    show "close_of tf x \<le> ?t"
    proof (cases "due P ?t tf")
      case True
      then have "w = push_bounded (case hm_get (hn_windows e) tf of None \<Rightarrow> [] | Some w \<Rightarrow> w) (hd (P tf)) (hn_window_size e)"
        using w(1) by (simp add: e2 push_entries [OF db] find_due [OF b])
      then have "x = hd (P tf) \<or> x \<in> set (case hm_get (hn_windows e) tf of None \<Rightarrow> [] | Some w \<Rightarrow> w)"
        using w(2) set_push_bounded [of _ "hd (P tf)" "hn_window_size e"] by (metis insertE subsetD)
      then show ?thesis using True seen by (cases "hm_get (hn_windows e) tf") (auto simp: due_def)
    next
      case False
      then show ?thesis using w seen by (simp add: e2 push_entries [OF db] find_due [OF b])
    qed
  qed
  have later: "?t \<le> close_of tf (hd (after P ?t tf))" if ne: "after P ?t tf \<noteq> []" for tf
  proof (cases "due P ?t tf")
    case True
    then obtain x xs where "P tf = x # xs" "close_of tf x = ?t" "xs \<noteq> []"
      using ne by (cases "P tf") (auto simp: due_def after_def)
    moreover have "sorted (map (close_of tf) (P tf))" using cs by blast
    ultimately show ?thesis using True by (cases xs) (auto simp: after_def)
  qed (use ne ge in \<open>auto simp: after_def\<close>)
  moreover have "sorted (map (close_of tf) (after P ?t tf))" for tf
    using cs by (cases "P tf") (auto simp: after_def due_def dest: spec [of _ tf])
  moreover have "heap_shows e2 (after P ?t) {}" using td(3) by (simp add: e2)
  ultimately show "heap_causal e2 (after P ?t)" unfolding heap_causal_def using old by (blast intro: order_trans)
qed

lemma causal_tick:
  assumes "heap_causal e P" and "heap_peek (hn_heap e) = Some m"
  shows "\<exists>Q. heap_causal (heap_tick st rm (he_close_ts m) e) Q"
proof -
  obtain e2 batch where adv: "heap_advance (he_close_ts m) e = (e2, batch)" by fastforce
  obtain c s' where "heap_tick st rm (he_close_ts m) e = e2\<lparr>hn_core := c, hn_strategy := s'\<rparr>"
    by (auto simp: heap_tick_def adv Let_def split_beta)
  then show ?thesis using causal_advance(1) [OF assms adv] by (auto simp: heap_causal_def)
qed

section \<open>Properties\<close>

definition heap_setup ::
  "f64 \<Rightarrow> 's \<Rightarrow> 'r \<Rightarrow> f64 \<Rightarrow> f64 \<Rightarrow> timeframe \<Rightarrow> nat \<Rightarrow> ('r engine_core \<Rightarrow> 'r engine_core) \<Rightarrow> (timeframe \<times> bar list) list \<Rightarrow>
   ('s, 'r) heap_engine" where
  "heap_setup cap s r co sl base n cfg fs =
     heap_add_feeds (heap_with_core (heap_with_window (heap_with_base_tf (heap_sync cap s r co sl) base) n) cfg) fs"

definition pointer_setup ::
  "f64 \<Rightarrow> 's \<Rightarrow> 'r \<Rightarrow> f64 \<Rightarrow> f64 \<Rightarrow> timeframe \<Rightarrow> nat \<Rightarrow> ('r engine_core \<Rightarrow> 'r engine_core) \<Rightarrow> (timeframe \<times> bar list) list \<Rightarrow>
   ('s, 'r) pointer_engine" where
  "pointer_setup cap s r co sl base n cfg fs =
     pointer_add_feeds (pointer_with_core (pointer_with_window (pointer_with_base_tf (pointer_sync cap s r co sl) base) n) cfg) fs"

lemmas setup_defs = heap_setup_def heap_with_core_def heap_with_window_def heap_with_base_tf_def heap_sync_def
  pointer_setup_def pointer_with_core_def pointer_with_window_def pointer_with_base_tf_def pointer_sync_def

lemma heap_setup_simps:
  assumes "distinct (map fst fs)"
  shows "hn_core (heap_setup cap s r co sl base n cfg fs) = cfg (core_new cap r co sl)"
    "hn_strategy (heap_setup cap s r co sl base n cfg fs) = s" "hn_base_tf (heap_setup cap s r co sl base n cfg fs) = base"
    "hn_window_size (heap_setup cap s r co sl base n cfg fs) = max n 1" "hn_heap (heap_setup cap s r co sl base n cfg fs) = []"
    "hm_ok (hn_feeds (heap_setup cap s r co sl base n cfg fs))"
    "feed_list (heap_setup cap s r co sl base n cfg fs) = bars_of fs"
    "hm_get (hn_windows (heap_setup cap s r co sl base n cfg fs)) = (\<lambda>tf. map_option (\<lambda>_. []) (map_of fs tf))"
  using assms
  by (auto simp: setup_defs heap_add_feeds_frame heap_add_feeds_get feed_list_def bars_of_def fun_eq_iff split: option.splits)

lemma pointer_setup_simps:
  assumes "distinct (map fst fs)"
  shows "pn_core (pointer_setup cap s r co sl base n cfg fs) = cfg (core_new cap r co sl)"
    "pn_strategy (pointer_setup cap s r co sl base n cfg fs) = s" "pn_base_tf (pointer_setup cap s r co sl base n cfg fs) = base"
    "pn_window_size (pointer_setup cap s r co sl base n cfg fs) = max n 1"
    "hm_ok (pn_htf_feeds (pointer_setup cap s r co sl base n cfg fs))"
    "pn_base_feed (pointer_setup cap s r co sl base n cfg fs) = map_of fs base"
    "hm_get (pn_htf_feeds (pointer_setup cap s r co sl base n cfg fs)) =
       (\<lambda>tf. if tf = base then None else map_option (fresh_htf tf) (map_of fs tf))"
  using assms
  by (auto simp: setup_defs pointer_add_feeds_frame pointer_add_feeds_get fun_eq_iff split: option.splits)

lemma pointer_setup_shows:
  assumes "distinct (map fst fs)"
  shows "pointer_shows (pn_htf_feeds (pointer_setup cap s r co sl base n cfg fs)) base (bars_of fs)"
proof -
  let ?hs = "pn_htf_feeds (pointer_setup cap s r co sl base n cfg fs)"
  note ps = pointer_setup_simps [OF assms, of cap s r co sl base n cfg]
  have "ht_tf h = k \<and> pend h = bars_of fs k" if "(k, h) \<in> set ?hs" for k h
  proof -
    have "hm_get ?hs k = Some h" using that ps(5) by simp
    then show ?thesis unfolding ps(7) by (auto simp: fresh_htf_def pend_def bars_of_def split: if_splits)
  qed
  moreover have "base \<notin> fst ` set ?hs" using ps(7) by (simp add: map_of_eq_None_iff [symmetric])
  moreover have "bars_of fs tf = []" if "tf \<noteq> base" "tf \<notin> fst ` set ?hs" for tf
  proof -
    have "hm_get ?hs tf = None" using that(2) by (simp add: map_of_eq_None_iff)
    then show ?thesis using that(1) unfolding ps(7) by (simp add: bars_of_def)
  qed
  ultimately show ?thesis using ps(5) unfolding pointer_shows_def by blast
qed

text \<open>C22. The pointer-sync engine and the heap engine compute the same backtest. Given the same settings, strategy,
  risk manager and feeds, added in any order (and so for every iteration order of the hash maps), if the
  closing times of each feed increase strictly and every bar of a higher timeframe closes together with a
  base bar, then the pointer-sync engine does not panic and both runs end with the same core (portfolio,
  trades, equity curve, orders) and the same state of the strategy.\<close>

theorem mtf_engines_agree:
  assumes "distinct (map fst fs)" and "distinct (map fst fs')" and "set fs' = set fs" and "base \<in> fst ` set fs"
    and al: "aligned base (bars_of fs)"
  shows "\<exists>p. pointer_run st rm (pointer_setup cap s r co sl base n cfg fs') = Some p \<and>
    pn_core p = hn_core (heap_run st rm (heap_setup cap s r co sl base n cfg fs)) \<and>
    pn_strategy p = hn_strategy (heap_run st rm (heap_setup cap s r co sl base n cfg fs))"
proof -
  let ?e = "heap_setup cap s r co sl base n cfg fs" and ?p = "pointer_setup cap s r co sl base n cfg fs'"
  let ?p1 = "?p\<lparr>pn_base_feed := None, pn_core := (pn_core ?p)\<lparr>ec_metrics_strategy := ms_name st (pn_strategy ?p)\<rparr>\<rparr>"
  have mo: "map_of fs' = map_of fs" using map_of_inject_set [OF assms(2,1)] assms(3) by simp
  then have bo: "bars_of fs' = bars_of fs" by (simp add: bars_of_def [abs_def])
  obtain bars where bars: "map_of fs base = Some bars" using assms(4) by (cases "map_of fs base") (auto simp: map_of_eq_None_iff)
  note hsetup = heap_setup_simps [OF assms(1), of cap s r co sl base n cfg]
  note psetup = pointer_setup_simps [OF assms(2), of cap s r co sl base n cfg, unfolded mo]
  have "heap_shows (heap_start st ?e) (bars_of fs) {}" using heap_start_shows [of ?e st] hsetup(5-7) by simp
  moreover have "pointer_shows (pn_htf_feeds ?p1) base (bars_of fs)"
    using pointer_setup_shows [OF assms(2), of cap s r co sl base n cfg] bo by simp
  moreover have "(\<lambda>tf. map_option (\<lambda>_. []) (map_of fs tf)) =
      (\<lambda>tf. if tf = base then Some [] else map_option ht_window (if tf = base then None else map_option (fresh_htf tf) (map_of fs tf)))"
    using bars by (auto simp: fun_eq_iff fresh_htf_def map_option_case split: option.splits)
  ultimately have R: "mtf_related (heap_start st ?e) ?p1 [] (bars_of fs)"
    unfolding mtf_related_def by (simp add: heap_start_frame hsetup(1-4,8) psetup(1-4,7) cong: if_cong)
  obtain p' win' where fold: "foldl (pointer_bar st rm) (?p1, []) bars = (p', win')" by fastforce
  have bb: "bars_of fs base = bars" using bars by (simp add: bars_of_def)
  obtain Q where Q: "mtf_related (heap_loop st rm (heap_start st ?e)) p' win' Q"
    using parity_loop [OF R _ _ fold] al bb psetup(3) by auto
  have base': "pn_base_tf p' = base"
    using Q heap_loop_frame [of st rm "heap_start st ?e"] by (simp add: mtf_related_def heap_start_frame hsetup)
  have run: "pointer_run st rm ?p = Some (pointer_finish (p', win'))"
    using fold bars psetup(6) by (simp add: pointer_run_def Let_def)
  have "hm_get (hn_windows (heap_loop st rm (heap_start st ?e))) base = Some win'"
    using Q base' by (simp add: mtf_related_def)
  then show ?thesis using Q run base'
    by (cases "last_opt win'") (auto simp: mtf_related_def heap_run_def heap_finish_def pointer_finish_def)
qed

definition quiet_mtf :: "unit mtf_strategy" where
  "quiet_mtf = \<lparr>ms_on_bars = (\<lambda>s _. (s, [])), ms_name = (\<lambda>_. ''quiet''), ms_reset = (\<lambda>s. s), ms_current_regime = (\<lambda>_. None)\<rparr>"

definition example_feeds :: "(timeframe \<times> bar list) list" where
  "example_feeds = [(M1, [bar_new 120000 ''BTC'' (Fin 100) (Fin 110) (Fin 90) (Fin 105) (Fin 1)]),
     (M3, [bar_new 0 ''BTC'' (Fin 95) (Fin 110) (Fin 90) (Fin 105) (Fin 3)])]"

lemma example_feeds_close:
  "bars_of example_feeds tf = [] \<or> map (close_of tf) (bars_of example_feeds tf) = [180000]"
  by (auto simp: bars_of_def example_feeds_def close_of_def bar_new_def sat_add_i64_def i64_min_def i64_max_def)

theorem mtf_engines_agree_witness:
  "\<exists>p. pointer_run quiet_mtf any_sizer_manager
       (pointer_setup (Fin 1000) () (FixedQuantity (fixed_quantity_new (Fin 2) 5)) 0 0 M1 10 id (rev example_feeds)) = Some p \<and>
     pn_core p = hn_core (heap_run quiet_mtf any_sizer_manager
       (heap_setup (Fin 1000) () (FixedQuantity (fixed_quantity_new (Fin 2) 5)) 0 0 M1 10 id example_feeds))"
proof -
  have "map (close_of M1) (bars_of example_feeds M1) = [180000]" using example_feeds_close [of M1] by (auto simp: bars_of_def example_feeds_def)
  moreover have "close_of tf ` set (bars_of example_feeds tf) = set (map (close_of tf) (bars_of example_feeds tf))" for tf by simp
  ultimately have "aligned M1 (bars_of example_feeds)"
    unfolding aligned_def using example_feeds_close
    by (metis empty_iff empty_set image_is_empty list.simps(8) order_refl set_map sorted_wrt1 sorted_wrt.simps(1) subsetI)
  then show ?thesis
    using mtf_engines_agree [of example_feeds "rev example_feeds" M1 quiet_mtf any_sizer_manager "Fin 1000" "()"
        "FixedQuantity (fixed_quantity_new (Fin 2) 5)" 0 0 10 id]
    by (auto simp: example_feeds_def)
qed

text \<open>C23. The heap engine never looks ahead: with feeds in time order, at every turn of a run the snapshot shown to the
  strategy lists the bars that close at exactly that time, larger timeframes first and at least one, and its
  windows hold no bar that closes later.\<close>

theorem heap_engine_no_lookahead:
  assumes "distinct (map fst fs)" and "\<forall>(tf, bs) \<in> set fs. sorted (map (close_of tf) bs)"
    and "heap_reach st rm (heap_setup cap s r co sl base n cfg fs) e" and m: "heap_peek (hn_heap e) = Some m"
    and adv: "heap_advance (he_close_ts m) e = (e2, batch)" and "snp = heap_snapshot e2 (he_close_ts m) batch"
  shows "sn_events snp \<noteq> [] \<and> (\<forall>(tf, b) \<in> set (sn_events snp). close_of tf b = sn_close_ts snp) \<and>
    sorted_wrt (\<lambda>x y. duration_ms (fst y) < duration_ms (fst x)) (sn_events snp) \<and>
    (\<forall>tf w b. sn_views snp tf = Some w \<longrightarrow> b \<in> set w \<longrightarrow> close_of tf b \<le> sn_close_ts snp)"
proof -
  let ?eng = "heap_setup cap s r co sl base n cfg fs"
  note hs = heap_setup_simps [OF assms(1), of cap s r co sl base n cfg]
  have sorted: "sorted (map (close_of tf) (bars_of fs tf))" for tf
    using assms(2) by (auto simp: bars_of_def dest!: map_of_SomeD split: option.splits)
  have "\<exists>P. heap_causal e P"
    using assms(3)
  proof induction
    case start
    have "heap_shows (heap_start st ?eng) (bars_of fs) {}" using heap_start_shows [of ?eng st] hs(5-7) by simp
    then have "heap_causal (heap_start st ?eng) (bars_of fs)"
      using sorted by (auto simp: heap_causal_def heap_start_frame hs)
    then show ?case by blast
  next
    case (tick e m)
    then show ?case using causal_tick by blast
  qed
  then obtain P where P: "heap_causal e P" by blast
  note ca = causal_advance [OF P m adv]
  have "sorted_wrt (\<lambda>x y. duration_ms (fst y) < duration_ms (fst x)) (map (\<lambda>en. (he_tf en, he_bar en)) batch)"
    using ca(4) unfolding larger_first_def sorted_wrt_map by (rule sorted_wrt_mono_rel [rotated]) (auto simp: ca(3))
  moreover have "\<forall>(tf, b) \<in> set (map (\<lambda>en. (he_tf en, he_bar en)) batch). close_of tf b = he_close_ts m"
    by (auto simp: ca(3) due_def)
  ultimately show ?thesis using ca(2,5) unfolding assms(6) by (auto simp: heap_snapshot_def)
qed

theorem heap_engine_no_lookahead_witness:
  "\<exists>m e2 batch. heap_peek (hn_heap (heap_start quiet_mtf
       (heap_setup (Fin 1000) () (FixedQuantity (fixed_quantity_new (Fin 2) 5)) 0 0 M1 10 id example_feeds))) = Some m \<and>
     heap_advance (he_close_ts m) (heap_start quiet_mtf
       (heap_setup (Fin 1000) () (FixedQuantity (fixed_quantity_new (Fin 2) 5)) 0 0 M1 10 id example_feeds)) = (e2, batch) \<and>
     sn_events (heap_snapshot e2 (he_close_ts m) batch) \<noteq> []"
proof -
  let ?eng = "heap_setup (Fin 1000) () (FixedQuantity (fixed_quantity_new (Fin 2) 5)) 0 0 M1 10 id example_feeds"
  let ?e = "heap_start quiet_mtf ?eng"
  have d: "distinct (map fst example_feeds)" by (simp add: example_feeds_def)
  note hs = heap_setup_simps [OF d, of "Fin 1000" "()" "FixedQuantity (fixed_quantity_new (Fin 2) 5)" 0 0 M1 10 id]
  have "heap_shows ?e (bars_of example_feeds) {}" using heap_start_shows [of ?eng quiet_mtf] hs(5-7) by simp
  moreover have "bars_of example_feeds M1 \<noteq> []" by (simp add: bars_of_def example_feeds_def)
  ultimately have "hn_heap ?e \<noteq> []" by (force simp: heap_shows_def)
  then obtain m where m: "heap_peek (hn_heap ?e) = Some m" by (cases "heap_peek (hn_heap ?e)") auto
  obtain e2 batch where adv: "heap_advance (he_close_ts m) ?e = (e2, batch)" by fastforce
  have srt: "\<forall>(tf, bs) \<in> set example_feeds. sorted (map (close_of tf) bs)" by (simp add: example_feeds_def)
  show ?thesis
    using heap_engine_no_lookahead [OF d srt heap_reach.start m adv refl] m adv by blast
qed

end
