(* ===== verification/Multi_Engine.thy ===== *)
theory Multi_Engine
  imports Engine_Invariants "HOL-Library.List_Lexorder" "HOL-Library.Char_ord"
begin

text \<open>
  The multi-symbol engine of \<open>alm-engine/src/multi_engine.rs\<close>: feeds of several symbols are merged in
  time order by a heap, and every bar goes through the event loop (fills, exit rules, equity, strategy,
  signals, orders). The engine does not embed \<open>EngineCore\<close>; it has handlers of its own.

  A boxed \<open>BarFeed\<close> is the list of bars it has still to deliver, and the binary heap is a list whose
  \<open>pop\<close> takes the greatest entry, as in the other merging engines. Strings are compared bytewise.
\<close>

section \<open>State\<close>

record 's multi_strategy =
  us_on_bar :: "'s \<Rightarrow> bar \<Rightarrow> (string, f64) hmap \<Rightarrow> 's \<times> signal list"
  us_on_window :: "'s \<Rightarrow> bar \<Rightarrow> bar list \<Rightarrow> (string, f64) hmap \<Rightarrow> 's \<times> signal list"
  us_name :: "'s \<Rightarrow> string"
  us_reset :: "'s \<Rightarrow> 's"
  us_set_portfolio_snapshot :: "'s \<Rightarrow> portfolio_snapshot \<Rightarrow> 's"

record multi_entry =
  me_ts :: int
  me_symbol :: string
  me_bar :: bar

text \<open>\<open>Ord for HeapEntry\<close> with \<open>Reverse\<close> on the time: greater is earlier, and on equal times the greater symbol.\<close>

definition multi_greater :: "multi_entry \<Rightarrow> multi_entry \<Rightarrow> bool" where
  "multi_greater a b \<longleftrightarrow> me_ts a < me_ts b \<or> me_ts a = me_ts b \<and> me_symbol b < me_symbol a"

fun multi_peek :: "multi_entry list \<Rightarrow> multi_entry option" where
  "multi_peek [] = None"
| "multi_peek (e # es) =
     (case multi_peek es of None \<Rightarrow> Some e | Some m \<Rightarrow> Some (if multi_greater m e then m else e))"

definition multi_pop :: "multi_entry list \<Rightarrow> (multi_entry \<times> multi_entry list) option" where
  "multi_pop h = map_option (\<lambda>m. (m, remove1 m h)) (multi_peek h)"

definition entry_of :: "bar \<Rightarrow> multi_entry" where
  "entry_of b = \<lparr>me_ts = b_timestamp b, me_symbol = b_symbol b, me_bar = b\<rparr>"

definition multi_window_size :: nat where "multi_window_size = 200"

text \<open>\<open>(target_price, stop_price, trailing_stop_pct, max_bars_held)\<close>\<close>

type_synonym multi_levels = "f64 option \<times> f64 option \<times> f64 option \<times> nat option"

record ('s, 'r) multi_engine =
  mu_portfolio :: portfolio
  mu_broker :: sim_broker
  mu_strategy :: 's
  mu_risk :: 'r
  mu_bus :: sync_bus
  mu_feeds :: "(string, bar list) hmap"
  mu_heap :: "multi_entry list"
  mu_last_prices :: "(string, f64) hmap"
  mu_bar_windows :: "(string, bar list) hmap"
  mu_window_size :: nat
  mu_intra_bar_mode :: intra_bar_mode
  mu_position_trackers :: "(string, position_tracker) hmap"
  mu_pending_signal_levels :: "(string, multi_levels) hmap"
  mu_single_entry :: bool

definition multi_new :: "f64 \<Rightarrow> 's \<Rightarrow> 'r \<Rightarrow> f64 \<Rightarrow> f64 \<Rightarrow> ('s, 'r) multi_engine" where
  "multi_new capital strategy risk commission slippage =
     \<lparr>mu_portfolio = portfolio_new capital, mu_broker = broker_new commission slippage,
      mu_strategy = strategy, mu_risk = risk, mu_bus = sync_bus_new, mu_feeds = [], mu_heap = [],
      mu_last_prices = [], mu_bar_windows = [], mu_window_size = multi_window_size,
      mu_intra_bar_mode = Pessimistic, mu_position_trackers = [], mu_pending_signal_levels = [],
      mu_single_entry = False\<rparr>"

definition multi_with_intra_bar_mode :: "('s, 'r) multi_engine \<Rightarrow> intra_bar_mode \<Rightarrow> ('s, 'r) multi_engine" where
  "multi_with_intra_bar_mode e md = e\<lparr>mu_intra_bar_mode := md\<rparr>"

definition multi_with_window_size :: "('s, 'r) multi_engine \<Rightarrow> nat \<Rightarrow> ('s, 'r) multi_engine" where
  "multi_with_window_size e n = e\<lparr>mu_window_size := n\<rparr>"

definition multi_with_single_entry :: "('s, 'r) multi_engine \<Rightarrow> ('s, 'r) multi_engine" where
  "multi_with_single_entry e = e\<lparr>mu_single_entry := True\<rparr>"

definition multi_add_feed :: "('s, 'r) multi_engine \<Rightarrow> string \<Rightarrow> bar list \<Rightarrow> ('s, 'r) multi_engine" where
  "multi_add_feed e s bars =
     (case bars of
        [] \<Rightarrow> e\<lparr>mu_feeds := hm_insert s [] (mu_feeds e)\<rparr>
      | b # rest \<Rightarrow> e\<lparr>mu_heap := entry_of b # mu_heap e, mu_feeds := hm_insert s rest (mu_feeds e)\<rparr>)"

section \<open>Handlers\<close>

definition multi_send :: "('s, 'r) multi_engine \<Rightarrow> event \<Rightarrow> ('s, 'r) multi_engine" where
  "multi_send e ev = e\<lparr>mu_bus := bus_send (mu_bus e) ev\<rparr>"

definition multi_on_fill :: "('s, 'r) multi_engine \<Rightarrow> fill \<Rightarrow> ('s, 'r) multi_engine" where
  "multi_on_fill e0 f =
     (let e = e0\<lparr>mu_portfolio := apply_fill (mu_portfolio e0) f\<rparr>;
          s = f_symbol f
      in if still_open (mu_portfolio e) s
         then let (tp, sl, trail, max_bars) =
                    (case hm_get (mu_pending_signal_levels e) s of
                       Some l \<Rightarrow> l | None \<Rightarrow> (None, None, None, None));
                  e1 = e\<lparr>mu_pending_signal_levels := hm_remove s (mu_pending_signal_levels e)\<rparr>;
                  long = (case hm_get (pf_positions (mu_portfolio e1)) s of
                            Some p \<Rightarrow> 0 < p_qty p | None \<Rightarrow> True)
              in case hm_get (mu_position_trackers e1) s of
                   None \<Rightarrow> e1\<lparr>mu_position_trackers := hm_insert s
                              (tracker_with_levels (f_price f) sl tp trail max_bars long)
                              (mu_position_trackers e1)\<rparr>
                 | Some _ \<Rightarrow> e1
         else e\<lparr>mu_pending_signal_levels := hm_remove s (mu_pending_signal_levels e),
                mu_position_trackers := hm_remove s (mu_position_trackers e),
                mu_portfolio := annotate_last_trade (mu_portfolio e)
                  (hm_get (mu_position_trackers e) s) None None\<rparr>)"

text \<open>The drain of fills at the start of a bar, with its guard; only fills and equity points are dispatched here.\<close>

fun multi_early_drain :: "nat \<Rightarrow> ('s, 'r) multi_engine \<Rightarrow> ('s, 'r) multi_engine" where
  "multi_early_drain guard e =
     (case bus_try_recv (mu_bus e) of
        (b, None) \<Rightarrow> e\<lparr>mu_bus := b\<rparr>
      | (b, Some early) \<Rightarrow>
          (case guard of
             0 \<Rightarrow> multi_send (e\<lparr>mu_bus := b\<rparr>) early
           | Suc g \<Rightarrow>
               (case early of
                  EvFill f \<Rightarrow> multi_early_drain g (multi_on_fill (e\<lparr>mu_bus := b\<rparr>) f)
                | EvEquity _ _ _ \<Rightarrow> multi_early_drain g (e\<lparr>mu_bus := b\<rparr>)
                | other \<Rightarrow> multi_send (e\<lparr>mu_bus := b\<rparr>) other)))"

declare multi_early_drain.simps [simp del]

text \<open>The exit rules: every tracker is updated with the prices of the bar, and those that fire are closed.\<close>

definition multi_exit_close :: "bar \<Rightarrow> ('s, 'r) multi_engine \<Rightarrow> string \<times> f64 \<times> exit_reason \<Rightarrow> ('s, 'r) multi_engine" where
  "multi_exit_close b e0 = (\<lambda>(s, fill_price, reason).
     (let tracker = hm_get (mu_position_trackers e0) s;
          e = e0\<lparr>mu_position_trackers := hm_remove s (mu_position_trackers e0),
                 mu_broker := cancel_for_symbol (mu_broker e0) s\<rparr>
      in case hm_get (pf_positions (mu_portfolio e)) s of
           None \<Rightarrow> e
         | Some pos \<Rightarrow>
             let f = force_close (mu_broker e) s \<bar>p_qty pos\<bar> (if 0 < p_qty pos then Sell else Buy)
                       (b_timestamp b) fill_price
             in e\<lparr>mu_portfolio := annotate_last_trade (apply_fill (mu_portfolio e) f) tracker None (Some reason)\<rparr>))"

definition multi_check_trackers :: "('s, 'r) multi_engine \<Rightarrow> bar \<Rightarrow> (string \<times> position_tracker \<times> (f64 \<times> exit_reason) option) list" where
  "multi_check_trackers e b =
     map (\<lambda>(s, tr). (s, update_and_check tr (b_open b) (b_high b) (b_low b) (b_close b) (mu_intra_bar_mode e)))
       (mu_position_trackers e)"

definition multi_exit_checks :: "('s, 'r) multi_engine \<Rightarrow> bar \<Rightarrow> ('s, 'r) multi_engine" where
  "multi_exit_checks e b =
     (let checked = multi_check_trackers e b;
          to_close = List.map_filter (\<lambda>(s, tr, hit). map_option (\<lambda>(p, r). (s, p, r)) hit) checked;
          e1 = e\<lparr>mu_position_trackers := map (\<lambda>(s, tr, _). (s, tr)) checked\<rparr>
      in foldl (multi_exit_close b) e1 to_close)"

definition multi_fill_pending :: "('s, 'r) multi_engine \<Rightarrow> bar \<Rightarrow> ('s, 'r) multi_engine" where
  "multi_fill_pending e b =
     (let (br, fills) = process_pending (mu_broker e) b;
          e1 = foldl (\<lambda>e f. multi_send e (EvFill f)) (e\<lparr>mu_broker := br\<rparr>) fills
      in multi_early_drain (length fills + 2) e1)"

definition multi_mark_equity :: "('s, 'r) multi_engine \<Rightarrow> bar \<Rightarrow> ('s, 'r) multi_engine" where
  "multi_mark_equity e b =
     (let e1 = e\<lparr>mu_portfolio := record_equity (mu_portfolio e) (b_timestamp b) (mu_last_prices e)\<rparr>
      in multi_send e1 (EvEquity (b_timestamp b) (equity (mu_portfolio e1) (mu_last_prices e1))
           (pf_cash (mu_portfolio e1))))"

text \<open>\<open>if window.len() >= window_size { window.pop_front() }; window.push_back(bar)\<close>\<close>

definition multi_push_window :: "bar list \<Rightarrow> bar \<Rightarrow> nat \<Rightarrow> bar list" where
  "multi_push_window w b n = (if n \<le> length w then tl w else w) @ [b]"

definition multi_on_market :: "'s multi_strategy \<Rightarrow> ('s, 'r) multi_engine \<Rightarrow> bar \<Rightarrow> ('s, 'r) multi_engine" where
  "multi_on_market st e0 b =
     (let e1 = multi_fill_pending (e0\<lparr>mu_last_prices := hm_insert (b_symbol b) (b_close b) (mu_last_prices e0)\<rparr>) b;
          e2 = multi_mark_equity (multi_exit_checks e1 b) b;
          s1 = us_set_portfolio_snapshot st (mu_strategy e2) (snapshot (mu_portfolio e2) (mu_last_prices e2));
          window = multi_push_window
            (case hm_get (mu_bar_windows e2) (b_symbol b) of Some w \<Rightarrow> w | None \<Rightarrow> []) b (mu_window_size e2);
          (s2, signals) = us_on_bar st s1 b (mu_last_prices e2);
          (s3, window_signals) = us_on_window st s2 b window (mu_last_prices e2);
          e3 = e2\<lparr>mu_strategy := s3, mu_bar_windows := hm_insert (b_symbol b) window (mu_bar_windows e2)\<rparr>
      in foldl (\<lambda>e sg. multi_send e (EvSignal sg)) e3 (signals @ window_signals))"

definition multi_blocked :: "('s, 'r) multi_engine \<Rightarrow> signal \<Rightarrow> bool" where
  "multi_blocked e sg \<longleftrightarrow>
     mu_single_entry e \<and>
     (case hm_get (pf_positions (mu_portfolio e)) (sg_symbol sg) of
        None \<Rightarrow> False
      | Some p \<Rightarrow> (case sg_direction sg of Long \<Rightarrow> 0 < p_qty p | Short \<Rightarrow> p_qty p < 0 | Exit \<Rightarrow> False))"

definition multi_enter :: "'r risk_manager \<Rightarrow> ('s, 'r) multi_engine \<Rightarrow> signal \<Rightarrow> side \<Rightarrow> ('s, 'r) multi_engine" where
  "multi_enter rm e sg sd =
     (if multi_blocked e sg then e
      else if rm_validate rm (mu_risk e) sg (mu_portfolio e)
      then let price = (case hm_get (mu_last_prices e) (sg_symbol sg) of Some p \<Rightarrow> p | None \<Rightarrow> 0);
               qty = rm_size rm (mu_risk e) sg (mu_portfolio e) price
           in if f64_epsilon < qty
              then let e1 = (if has_levels sg
                             then e\<lparr>mu_pending_signal_levels := hm_insert (sg_symbol sg)
                                      (sg_target_price sg, sg_stop_price sg, sg_trailing_stop_pct sg, sg_max_bars_held sg)
                                      (mu_pending_signal_levels e)\<rparr>
                             else e)
                   in multi_send e1 (EvOrder (order_market (sg_timestamp sg) (sg_symbol sg) sd qty))
              else e
      else e)"

definition multi_on_signal :: "'r risk_manager \<Rightarrow> ('s, 'r) multi_engine \<Rightarrow> signal \<Rightarrow> ('s, 'r) multi_engine" where
  "multi_on_signal rm e sg =
     (case sg_direction sg of
        Exit \<Rightarrow>
          (case hm_get (pf_positions (mu_portfolio e)) (sg_symbol sg) of
             None \<Rightarrow> e
           | Some pos \<Rightarrow>
               if f64_epsilon < \<bar>p_qty pos\<bar>
               then multi_send e (EvOrder (order_market (sg_timestamp sg) (sg_symbol sg)
                      (if 0 < p_qty pos then Sell else Buy) \<bar>p_qty pos\<bar>))
               else e)
      | Long \<Rightarrow> multi_enter rm e sg Buy
      | Short \<Rightarrow> multi_enter rm e sg Sell)"

definition multi_dispatch :: "'s multi_strategy \<Rightarrow> 'r risk_manager \<Rightarrow> ('s, 'r) multi_engine \<Rightarrow> event \<Rightarrow> ('s, 'r) multi_engine" where
  "multi_dispatch st rm e ev =
     (case ev of
        EvMarket b \<Rightarrow> multi_on_market st e b
      | EvSignal sg \<Rightarrow> multi_on_signal rm e sg
      | EvOrder ord \<Rightarrow> e\<lparr>mu_broker := submit (mu_broker e) ord\<rparr>
      | EvFill f \<Rightarrow> multi_on_fill e f
      | EvEquity _ _ _ \<Rightarrow> e)"

section \<open>The event loop\<close>

fun is_market_ev :: "event \<Rightarrow> bool" where
  "is_market_ev (EvMarket _) = True"
| "is_market_ev _ = False"

abbreviation multi_queue :: "('s, 'r) multi_engine \<Rightarrow> event list" where
  "multi_queue e \<equiv> sb_queue (mu_bus e)"

definition market_count :: "('s, 'r) multi_engine \<Rightarrow> nat" where
  "market_count e = length (filter is_market_ev (multi_queue e))"

lemma multi_send_queue [simp]: "multi_queue (multi_send e ev) = multi_queue e @ [ev]"
  by (simp add: multi_send_def bus_send_def)

lemma multi_sends_queue [simp]:
  "multi_queue (foldl (\<lambda>e x. multi_send e (g x)) e xs) = multi_queue e @ map g xs"
  by (induction xs arbitrary: e) simp_all

lemma multi_on_fill_bus [simp]: "mu_bus (multi_on_fill e f) = mu_bus e"
  by (simp add: multi_on_fill_def Let_def split_beta split: option.splits)

lemma multi_exit_close_bus [simp]: "mu_bus (multi_exit_close b e x) = mu_bus e"
  by (simp add: multi_exit_close_def Let_def split_beta split: option.splits)

lemma multi_exit_checks_bus [simp]: "mu_bus (multi_exit_checks e b) = mu_bus e"
proof -
  have "mu_bus (foldl (multi_exit_close b) e xs) = mu_bus e" for e :: "('a, 'b) multi_engine" and xs
    by (induction xs arbitrary: e) simp_all
  then show ?thesis by (simp add: multi_exit_checks_def Let_def)
qed

lemma market_count_early_drain: "market_count (multi_early_drain g e) \<le> market_count e"
proof (induction g arbitrary: e)
  case 0
  show ?case
    by (subst multi_early_drain.simps)
      (auto simp: market_count_def bus_try_recv_def bus_send_def split: list.splits)
next
  case (Suc g)
  obtain b o' where r: "bus_try_recv (mu_bus e) = (b, o')" by fastforce
  show ?case
  proof (cases o')
    case None
    then show ?thesis using r by (subst multi_early_drain.simps)
        (auto simp: market_count_def bus_try_recv_def split: list.splits)
  next
    case (Some ev)
    have q: "multi_queue e = ev # sb_queue b" using r Some by (intro bus.recv_SomeD) simp
    have fill: "market_count (multi_early_drain g (multi_on_fill (e\<lparr>mu_bus := b\<rparr>) f)) \<le> market_count (e\<lparr>mu_bus := b\<rparr>)" for f
      using Suc [of "multi_on_fill (e\<lparr>mu_bus := b\<rparr>) f"] by (simp add: market_count_def)
    have eq: "market_count (multi_early_drain g (e\<lparr>mu_bus := b\<rparr>)) \<le> market_count (e\<lparr>mu_bus := b\<rparr>)" by (rule Suc)
    have "market_count (e\<lparr>mu_bus := b\<rparr>) \<le> market_count e" by (simp add: market_count_def q)
    with fill eq show ?thesis using r Some
      by (subst multi_early_drain.simps) (cases ev; force simp: market_count_def q bus_send_def)
  qed
qed

lemma market_count_fill_pending: "market_count (multi_fill_pending e b) \<le> market_count e"
proof -
  obtain br fills where p: "process_pending (mu_broker e) b = (br, fills)" by fastforce
  let ?e1 = "foldl (\<lambda>e f. multi_send e (EvFill f)) (e\<lparr>mu_broker := br\<rparr>) fills"
  have "filter is_market_ev (map EvFill fs) = []" for fs by (induction fs) auto
  then have "market_count ?e1 = market_count e" by (simp add: market_count_def)
  then show ?thesis
    using market_count_early_drain [of "length fills + 2" ?e1] by (simp add: multi_fill_pending_def p)
qed

lemma market_count_on_market: "market_count (multi_on_market st e b) \<le> market_count e"
proof -
  let ?e1 = "e\<lparr>mu_last_prices := hm_insert (b_symbol b) (b_close b) (mu_last_prices e)\<rparr>"
  have "market_count (multi_fill_pending ?e1 b) \<le> market_count e"
    using market_count_fill_pending [of ?e1 b] by (simp add: market_count_def)
  moreover have "filter is_market_ev (map EvSignal sgs) = []" for sgs by (induction sgs) auto
  ultimately show ?thesis
    by (auto simp: multi_on_market_def Let_def split_beta market_count_def multi_mark_equity_def bus_send_def)
qed

lemma multi_on_signal_queue: "\<exists>ords. multi_queue (multi_on_signal rm e sg) = multi_queue e @ map EvOrder ords"
proof -
  have "\<exists>ords. multi_queue (multi_enter rm e sg sd) = multi_queue e @ map EvOrder ords" for sd
    by (auto simp: multi_enter_def Let_def intro: exI [of _ "[]"] exI [of _ "[_]"])
  moreover have "\<exists>ords. multi_queue e @ [EvOrder ord] = multi_queue e @ map EvOrder ords" for ord
    by (auto intro: exI [of _ "[ord]"])
  moreover have "\<exists>ords. multi_queue e = multi_queue e @ map EvOrder ords" by (auto intro: exI [of _ "[]"])
  ultimately show ?thesis
    unfolding multi_on_signal_def by (auto split: direction.split option.split)
qed

lemma no_market_orders [simp]: "filter is_market_ev (map EvOrder ords) = []"
  by (induction ords) simp_all

function multi_drain :: "'s multi_strategy \<Rightarrow> 'r risk_manager \<Rightarrow> ('s, 'r) multi_engine \<Rightarrow> ('s, 'r) multi_engine" where
  "multi_drain st rm e =
     (case bus_try_recv (mu_bus e) of
        (b, None) \<Rightarrow> e\<lparr>mu_bus := b\<rparr>
      | (b, Some ev) \<Rightarrow> multi_drain st rm (multi_dispatch st rm (e\<lparr>mu_bus := b\<rparr>) ev))"
  by pat_completeness auto
termination
proof (relation "measures [\<lambda>(st, rm, e). market_count e,
                           \<lambda>(st, rm, e). length (filter is_signal_ev (multi_queue e)),
                           \<lambda>(st, rm, e). length (multi_queue e)]", simp, goal_cases)
  case (1 st rm e b o' ev)
  then have q: "multi_queue e = ev # sb_queue b" by (intro bus.recv_SomeD) simp
  show ?case
  proof (cases ev)
    case (EvMarket x)
    then show ?thesis using market_count_on_market [of st "e\<lparr>mu_bus := b\<rparr>" x]
      by (simp add: market_count_def multi_dispatch_def q)
  next
    case (EvSignal sg)
    obtain ords where "multi_queue (multi_on_signal rm (e\<lparr>mu_bus := b\<rparr>) sg) = sb_queue b @ map EvOrder ords"
      using multi_on_signal_queue [of rm "e\<lparr>mu_bus := b\<rparr>" sg] by auto
    then show ?thesis using EvSignal by (simp add: market_count_def multi_dispatch_def q)
  qed (simp_all add: market_count_def multi_dispatch_def q)
qed

declare multi_drain.simps [simp del]

section \<open>The run\<close>

text \<open>\<open>heap.pop()\<close> and the refill from the feed of the bar's symbol.\<close>

definition multi_take :: "('s, 'r) multi_engine \<Rightarrow> (bar \<times> ('s, 'r) multi_engine) option" where
  "multi_take e =
     (case multi_pop (mu_heap e) of
        None \<Rightarrow> None
      | Some (m, h) \<Rightarrow>
          (let b = me_bar m; e1 = e\<lparr>mu_heap := h\<rparr>
           in Some (b,
             case hm_get (mu_feeds e1) (b_symbol b) of
               Some (n # rest) \<Rightarrow>
                 e1\<lparr>mu_feeds := hm_insert (b_symbol b) rest (mu_feeds e1), mu_heap := entry_of n # mu_heap e1\<rparr>
             | _ \<Rightarrow> e1)))"

type_synonym ('s, 'r) multi_state = "('s, 'r) multi_engine \<times> (string, bar) hmap"

definition multi_bar :: "'s multi_strategy \<Rightarrow> 'r risk_manager \<Rightarrow> ('s, 'r) multi_state \<Rightarrow> bar \<Rightarrow> ('s, 'r) multi_state" where
  "multi_bar st rm = (\<lambda>(e, last_bars) b.
     (multi_drain st rm (multi_send e (EvMarket b)), hm_insert (b_symbol b) b last_bars))"

definition multi_end_close :: "(string, bar) hmap \<Rightarrow> ('s, 'r) multi_engine \<Rightarrow> string \<times> f64 \<Rightarrow> ('s, 'r) multi_engine" where
  "multi_end_close last_bars e = (\<lambda>(s, qty).
     (case hm_get last_bars s of
        None \<Rightarrow> e
      | Some b \<Rightarrow>
          (let tracker = hm_get (mu_position_trackers e) s;
               f = force_close (mu_broker e) s \<bar>qty\<bar> (if 0 < qty then Sell else Buy) (b_timestamp b) (b_close b)
           in e\<lparr>mu_position_trackers := hm_remove s (mu_position_trackers e),
                mu_portfolio := annotate_last_trade (apply_fill (mu_portfolio e) f) tracker None (Some REndOfData)\<rparr>)))"

definition multi_finish :: "('s, 'r) multi_state \<Rightarrow> ('s, 'r) multi_engine" where
  "multi_finish = (\<lambda>(e, last_bars).
     foldl (multi_end_close last_bars) e
       (map (\<lambda>p. (p_symbol p, p_qty p))
          (filter (\<lambda>p. f64_epsilon < \<bar>p_qty p\<bar>) (map snd (pf_positions (mu_portfolio e))))))"

lemma multi_peek_in_set: "multi_peek h = Some m \<Longrightarrow> m \<in> set h"
  by (induction h arbitrary: m) (auto split: option.splits if_splits)

text \<open>No handler reads or writes the heap and the feeds.\<close>

definition shelve :: "multi_entry list \<Rightarrow> (string, bar list) hmap \<Rightarrow> ('s, 'r) multi_engine \<Rightarrow> ('s, 'r) multi_engine" where
  "shelve h fs e = e\<lparr>mu_heap := h, mu_feeds := fs\<rparr>"

lemma shelve_id: "shelve (mu_heap e) (mu_feeds e) e = e"
  by (simp add: shelve_def)

lemma shelve_sel [simp]:
  "mu_heap (shelve h fs e) = h" "mu_feeds (shelve h fs e) = fs" "mu_bus (shelve h fs e) = mu_bus e"
  "mu_portfolio (shelve h fs e) = mu_portfolio e" "mu_broker (shelve h fs e) = mu_broker e"
  "mu_risk (shelve h fs e) = mu_risk e" "mu_strategy (shelve h fs e) = mu_strategy e"
  "mu_last_prices (shelve h fs e) = mu_last_prices e" "mu_bar_windows (shelve h fs e) = mu_bar_windows e"
  "mu_window_size (shelve h fs e) = mu_window_size e" "mu_intra_bar_mode (shelve h fs e) = mu_intra_bar_mode e"
  "mu_position_trackers (shelve h fs e) = mu_position_trackers e"
  "mu_pending_signal_levels (shelve h fs e) = mu_pending_signal_levels e" "mu_single_entry (shelve h fs e) = mu_single_entry e"
  by (simp_all add: shelve_def)

lemma shelve_bus: "(shelve h fs e)\<lparr>mu_bus := b\<rparr> = shelve h fs (e\<lparr>mu_bus := b\<rparr>)"
  "(shelve h fs e)\<lparr>mu_broker := br\<rparr> = shelve h fs (e\<lparr>mu_broker := br\<rparr>)"
  "(shelve h fs e)\<lparr>mu_position_trackers := tr\<rparr> = shelve h fs (e\<lparr>mu_position_trackers := tr\<rparr>)"
  "(shelve h fs e)\<lparr>mu_portfolio := pf\<rparr> = shelve h fs (e\<lparr>mu_portfolio := pf\<rparr>)"
  "(shelve h fs e)\<lparr>mu_last_prices := lp\<rparr> = shelve h fs (e\<lparr>mu_last_prices := lp\<rparr>)"
  "(shelve h fs e)\<lparr>mu_pending_signal_levels := pl\<rparr> = shelve h fs (e\<lparr>mu_pending_signal_levels := pl\<rparr>)"
  "(shelve h fs e)\<lparr>mu_strategy := s\<rparr> = shelve h fs (e\<lparr>mu_strategy := s\<rparr>)"
  "(shelve h fs e)\<lparr>mu_bar_windows := ws\<rparr> = shelve h fs (e\<lparr>mu_bar_windows := ws\<rparr>)"
  by (simp_all add: shelve_def)

lemma shelve_send: "multi_send (shelve h fs e) ev = shelve h fs (multi_send e ev)"
  by (simp add: multi_send_def shelve_bus)

lemma shelve_sends:
  "foldl (\<lambda>e x. multi_send e (g x)) (shelve h fs e) xs = shelve h fs (foldl (\<lambda>e x. multi_send e (g x)) e xs)"
  by (induction xs arbitrary: e) (simp_all add: shelve_send)

lemma shelve_on_fill: "multi_on_fill (shelve h fs e) f = shelve h fs (multi_on_fill e f)"
  by (simp add: multi_on_fill_def Let_def split_beta shelve_bus split: option.split)

lemma shelve_early_drain: "multi_early_drain g (shelve h fs e) = shelve h fs (multi_early_drain g e)"
proof (induction g arbitrary: e)
  case 0
  show ?case by (subst (1 2) multi_early_drain.simps) (simp add: shelve_bus shelve_send split: prod.split option.split)
next
  case (Suc g)
  show ?case
    by (subst (1 2) multi_early_drain.simps)
      (simp add: shelve_bus shelve_send shelve_on_fill Suc split: prod.split option.split event.split)
qed

lemma shelve_exit_close: "multi_exit_close b (shelve h fs e) x = shelve h fs (multi_exit_close b e x)"
  by (simp add: multi_exit_close_def Let_def split_beta shelve_bus split: option.split)

lemma shelve_exit_checks: "multi_exit_checks (shelve h fs e) b = shelve h fs (multi_exit_checks e b)"
proof -
  have "foldl (multi_exit_close b) (shelve h fs e) xs = shelve h fs (foldl (multi_exit_close b) e xs)"
    for e :: "('a, 'b) multi_engine" and xs
    by (induction xs arbitrary: e) (simp_all add: shelve_exit_close)
  then show ?thesis by (simp add: multi_exit_checks_def multi_check_trackers_def Let_def shelve_bus)
qed

lemma shelve_on_market: "multi_on_market st (shelve h fs e) b = shelve h fs (multi_on_market st e b)"
  by (simp add: multi_on_market_def multi_fill_pending_def multi_mark_equity_def Let_def split_beta
      shelve_bus shelve_send shelve_sends shelve_early_drain shelve_exit_checks)

lemma shelve_on_signal: "multi_on_signal rm (shelve h fs e) sg = shelve h fs (multi_on_signal rm e sg)"
proof -
  have "multi_enter rm (shelve h fs e) sg sd = shelve h fs (multi_enter rm e sg sd)" for sd
    by (simp add: multi_enter_def multi_blocked_def Let_def shelve_bus shelve_send)
  then show ?thesis
    by (simp add: multi_on_signal_def shelve_send split: direction.split option.split)
qed

lemma shelve_dispatch: "multi_dispatch st rm (shelve h fs e) ev = shelve h fs (multi_dispatch st rm e ev)"
  by (simp add: multi_dispatch_def shelve_on_market shelve_on_signal shelve_on_fill shelve_bus split: event.split)

lemma shelve_drain: "multi_drain st rm (shelve h fs e) = shelve h fs (multi_drain st rm e)"
proof (induction st rm e rule: multi_drain.induct)
  case (1 st rm e)
  then show ?case
    by (subst (1 2) multi_drain.simps) (auto simp: shelve_bus shelve_dispatch split: prod.split option.split)
qed

lemma shelve_bar: "multi_bar st rm (shelve h fs e, l) b = (shelve h fs (fst (multi_bar st rm (e, l) b)), snd (multi_bar st rm (e, l) b))"
  by (simp add: multi_bar_def shelve_send shelve_drain)

lemma multi_bar_heap [simp]:
  "mu_heap (fst (multi_bar st rm el b)) = mu_heap (fst el)" "mu_feeds (fst (multi_bar st rm el b)) = mu_feeds (fst el)"
  using shelve_bar [of st rm "mu_heap (fst el)" "mu_feeds (fst el)" "fst el" "snd el" b] shelve_id [of "fst el"]
  by (metis prod.collapse fst_conv shelve_sel(1,2))+

definition multi_left :: "('s, 'r) multi_engine \<Rightarrow> nat" where
  "multi_left e = length (mu_heap e) + sum_list (map (length \<circ> snd) (mu_feeds e))"

lemma sum_length_update:
  "map_of m k = Some v \<Longrightarrow>
     sum_list (map (length \<circ> snd) (AList.update k v' m)) + length v = sum_list (map (length \<circ> snd) m) + length v'"
  by (induction m) (auto split: if_splits)

lemma multi_take_left:
  assumes "multi_take e = Some (b, e')"
  shows "multi_left e' < multi_left e"
proof -
  obtain m where m: "multi_peek (mu_heap e) = Some m"
    using assms by (auto simp: multi_take_def multi_pop_def split: option.splits)
  have l: "length (mu_heap e) = Suc (length (remove1 m (mu_heap e)))"
    using multi_peek_in_set [OF m] length_pos_if_in_set [OF multi_peek_in_set [OF m]] by (simp add: length_remove1)
  have b: "b = me_bar m" using assms m by (auto simp: multi_take_def multi_pop_def Let_def)
  show ?thesis
  proof (cases "hm_get (mu_feeds e) (b_symbol b)")
    case None
    then show ?thesis using assms m l b by (auto simp: multi_take_def multi_pop_def multi_left_def Let_def)
  next
    case (Some bs)
    then show ?thesis using assms m l b sum_length_update [OF Some, of "tl bs"]
      by (cases bs) (auto simp: multi_take_def multi_pop_def multi_left_def Let_def)
  qed
qed

function multi_loop :: "'s multi_strategy \<Rightarrow> 'r risk_manager \<Rightarrow> ('s, 'r) multi_state \<Rightarrow> ('s, 'r) multi_state" where
  "multi_loop st rm (e, last_bars) =
     (case multi_take e of
        None \<Rightarrow> (e, last_bars)
      | Some (b, e') \<Rightarrow> multi_loop st rm (multi_bar st rm (e', last_bars) b))"
  by pat_completeness auto
termination
proof (relation "measure (\<lambda>(st, rm, e, l). multi_left e)", simp, goal_cases)
  case (1 st rm e l x b e')
  have "multi_left (fst (multi_bar st rm (e', l) b)) = multi_left e'" by (simp add: multi_left_def)
  with 1 multi_take_left [of e b e'] show ?case by (simp add: split_beta)
qed

declare multi_loop.simps [simp del]

definition multi_run :: "'s multi_strategy \<Rightarrow> 'r risk_manager \<Rightarrow> ('s, 'r) multi_engine \<Rightarrow> ('s, 'r) multi_engine" where
  "multi_run st rm e = multi_finish (multi_loop st rm (e, []))"

end
