(* ===== verification/Multi_Merge.thy ===== *)
theory Multi_Merge
  imports Multi_Engine Engine_Theorems
begin

text \<open>
  Properties of the multi-symbol engine: a run is the fold of the per-bar step over the time-ordered
  merge of the feeds, with one equity point per bar and consistent accounts, and it ends flat; and what
  the exit rules do with a bar of another symbol.
\<close>

section \<open>One bar on an idle bus\<close>

definition books_ok :: "portfolio \<Rightarrow> bool" where
  "books_ok pf \<longleftrightarrow> cash_reconciles pf \<and> positions_keyed pf"

definition curve_of :: "('s, 'r) multi_engine \<Rightarrow> int list" where
  "curve_of e = map ep_timestamp (pf_equity_curve (mu_portfolio e))"

lemma books_ok_simps [simp]:
  "books_ok pf \<Longrightarrow> books_ok (apply_fill pf f)" "books_ok (annotate_last_trade pf tr rg rs) = books_ok pf"
  "books_ok (record_equity pf ts pr) = books_ok pf"
  by (auto simp: books_ok_def positions_keyed_apply_fill)

lemma multi_on_fill_books:
  "curve_of (multi_on_fill e f) = curve_of e" "books_ok (mu_portfolio e) \<Longrightarrow> books_ok (mu_portfolio (multi_on_fill e f))"
  by (simp_all add: multi_on_fill_def Let_def split_beta curve_of_def split: option.splits)

lemma multi_exit_close_books:
  "curve_of (multi_exit_close b e x) = curve_of e"
  "books_ok (mu_portfolio e) \<Longrightarrow> books_ok (mu_portfolio (multi_exit_close b e x))"
  by (simp_all add: multi_exit_close_def Let_def split_beta curve_of_def split: option.splits)

lemma multi_exit_checks_books:
  "curve_of (multi_exit_checks e b) = curve_of e"
  "books_ok (mu_portfolio e) \<Longrightarrow> books_ok (mu_portfolio (multi_exit_checks e b))"
proof -
  have "curve_of (foldl (multi_exit_close b) e xs) = curve_of e" for e :: "('a, 'b) multi_engine" and xs
    by (induction xs arbitrary: e) (simp_all add: multi_exit_close_books)
  then show "curve_of (multi_exit_checks e b) = curve_of e"
    by (simp add: multi_exit_checks_def Let_def) (simp add: curve_of_def)
  show "books_ok (mu_portfolio e) \<Longrightarrow> books_ok (mu_portfolio (multi_exit_checks e b))"
    unfolding multi_exit_checks_def Let_def
    by (rule foldl_invariant [where P = "\<lambda>e. books_ok (mu_portfolio e)"]) (simp_all add: multi_exit_close_books)
qed

lemma multi_early_drain_fills:
  assumes "multi_queue e = map EvFill fills" and "length fills \<le> g"
  shows "multi_queue (multi_early_drain g e) = [] \<and> curve_of (multi_early_drain g e) = curve_of e \<and>
    (books_ok (mu_portfolio e) \<longrightarrow> books_ok (mu_portfolio (multi_early_drain g e)))"
  using assms
proof (induction fills arbitrary: e g)
  case Nil
  then show ?case
    by (simp add: multi_early_drain.simps [of g e] bus_try_recv_def curve_of_def)
next
  case (Cons f fs)
  obtain g' where g: "g = Suc g'" using Cons.prems(2) by (cases g) auto
  let ?e = "multi_on_fill (e\<lparr>mu_bus := (mu_bus e)\<lparr>sb_queue := map EvFill fs\<rparr>\<rparr>) f"
  have d: "multi_early_drain g e = multi_early_drain g' ?e"
    using Cons.prems(1) by (simp add: g multi_early_drain.simps [of _ e] bus_try_recv_def)
  have "curve_of ?e = curve_of e" "books_ok (mu_portfolio e) \<Longrightarrow> books_ok (mu_portfolio ?e)"
    by (simp_all add: multi_on_fill_books) (simp add: curve_of_def)
  moreover have "multi_queue ?e = map EvFill fs" "length fs \<le> g'" using Cons.prems(2) g by simp_all
  ultimately show ?case using Cons.IH [of ?e g'] unfolding d by simp
qed

lemma multi_on_market_idle:
  assumes "multi_queue e = []"
  shows "\<exists>t eq ca sgs. multi_queue (multi_on_market st e b) = EvEquity t eq ca # map EvSignal sgs"
    and "curve_of (multi_on_market st e b) = curve_of e @ [b_timestamp b]"
    and "books_ok (mu_portfolio e) \<Longrightarrow> books_ok (mu_portfolio (multi_on_market st e b))"
proof -
  let ?e0 = "e\<lparr>mu_last_prices := hm_insert (b_symbol b) (b_close b) (mu_last_prices e)\<rparr>"
  let ?e1 = "multi_fill_pending ?e0 b"
  obtain br fills where p: "process_pending (mu_broker e) b = (br, fills)" by fastforce
  let ?s = "foldl (\<lambda>e f. multi_send e (EvFill f)) (?e0\<lparr>mu_broker := br\<rparr>) fills"
  have s: "mu_portfolio (foldl (\<lambda>e f. multi_send e (EvFill f)) e xs) = mu_portfolio e" for e :: "('a, 'b) multi_engine" and xs
    by (induction xs arbitrary: e) (simp_all add: multi_send_def)
  have sg: "mu_portfolio (foldl (\<lambda>e f. multi_send e (EvSignal f)) e xs) = mu_portfolio e" for e :: "('a, 'b) multi_engine" and xs
    by (induction xs arbitrary: e) (simp_all add: multi_send_def)
  have "multi_queue ?s = map EvFill fills" "curve_of ?s = curve_of e" "mu_portfolio ?s = mu_portfolio e"
    using assms s by (simp_all add: curve_of_def)
  with multi_early_drain_fills [of ?s fills "length fills + 2"]
  have e1: "multi_queue ?e1 = []" "curve_of ?e1 = curve_of e" "books_ok (mu_portfolio e) \<Longrightarrow> books_ok (mu_portfolio ?e1)"
    by (simp_all add: multi_fill_pending_def p)
  show "\<exists>t eq ca sgs. multi_queue (multi_on_market st e b) = EvEquity t eq ca # map EvSignal sgs"
    using e1(1) by (auto simp: multi_on_market_def Let_def split_beta multi_mark_equity_def simp flip: map_append)
  have c: "curve_of (multi_exit_checks ?e1 b) = curve_of e" using e1(2) by (simp add: multi_exit_checks_books)
  have m: "mu_portfolio (multi_on_market st e b) =
      record_equity (mu_portfolio (multi_exit_checks ?e1 b)) (b_timestamp b) (mu_last_prices (multi_exit_checks ?e1 b))"
    by (simp add: multi_on_market_def Let_def split_beta sg) (simp add: multi_mark_equity_def multi_send_def Let_def)
  show "curve_of (multi_on_market st e b) = curve_of e @ [b_timestamp b]"
    using c by (simp add: curve_of_def m record_equity_def)
  show "books_ok (mu_portfolio e) \<Longrightarrow> books_ok (mu_portfolio (multi_on_market st e b))"
    using e1(3) by (simp add: m multi_exit_checks_books)
qed

text \<open>Without bars and fills in the queue, draining it leaves the portfolio alone.\<close>

fun settles :: "event \<Rightarrow> bool" where
  "settles (EvMarket _) = False"
| "settles (EvFill _) = False"
| "settles _ = True"

lemma multi_on_signal_portfolio: "mu_portfolio (multi_on_signal rm e sg) = mu_portfolio e"
  by (simp add: multi_on_signal_def multi_enter_def Let_def multi_send_def split: direction.split option.split)

lemma multi_drain_settles:
  "list_all settles (multi_queue e) \<Longrightarrow>
     multi_queue (multi_drain st rm e) = [] \<and> mu_portfolio (multi_drain st rm e) = mu_portfolio e"
proof (induction st rm e rule: multi_drain.induct)
  case (1 st rm e)
  show ?case
  proof (cases "multi_queue e")
    case Nil
    then show ?thesis by (simp add: multi_drain.simps [of st rm e] bus_try_recv_def)
  next
    case (Cons ev es)
    let ?e = "e\<lparr>mu_bus := (mu_bus e)\<lparr>sb_queue := es\<rparr>\<rparr>"
    have r: "bus_try_recv (mu_bus e) = ((mu_bus e)\<lparr>sb_queue := es\<rparr>, Some ev)" using Cons by (simp add: bus_try_recv_def)
    have "list_all settles (multi_queue (multi_dispatch st rm ?e ev)) \<and> mu_portfolio (multi_dispatch st rm ?e ev) = mu_portfolio e"
    proof (cases ev)
      case (EvSignal sg)
      obtain ords where "multi_queue (multi_on_signal rm ?e sg) = es @ map EvOrder ords"
        using multi_on_signal_queue [of rm ?e sg] by auto
      moreover have "list_all settles (map EvOrder ords)" by (induction ords) simp_all
      ultimately show ?thesis using 1 Cons EvSignal by (simp add: multi_dispatch_def multi_on_signal_portfolio)
    qed (use 1 Cons in \<open>simp_all add: multi_dispatch_def\<close>)
    then show ?thesis using 1(1) [OF r [symmetric] refl] r by (simp add: multi_drain.simps [of st rm e])
  qed
qed

lemma multi_bar_idle:
  assumes "multi_queue e = []"
  shows "multi_queue (fst (multi_bar st rm (e, l) b)) = []"
    and "curve_of (fst (multi_bar st rm (e, l) b)) = curve_of e @ [b_timestamp b]"
    and "books_ok (mu_portfolio e) \<Longrightarrow> books_ok (mu_portfolio (fst (multi_bar st rm (e, l) b)))"
proof -
  let ?m = "multi_on_market st (e\<lparr>mu_bus := (mu_bus e)\<lparr>sb_queue := []\<rparr>\<rparr>) b"
  have d: "fst (multi_bar st rm (e, l) b) = multi_drain st rm ?m"
    using assms by (simp add: multi_bar_def multi_send_def bus_send_def)
      (subst multi_drain.simps, simp add: bus_try_recv_def multi_dispatch_def)
  have e: "e\<lparr>mu_bus := (mu_bus e)\<lparr>sb_queue := []\<rparr>\<rparr> = e" using assms by simp
  note i = multi_on_market_idle [OF assms, of st b]
  have "list_all settles (map EvSignal sgs)" for sgs by (induction sgs) simp_all
  then have "list_all settles (multi_queue (multi_on_market st e b))" using i(1) by auto
  note s = multi_drain_settles [OF this, of st rm]
  show "multi_queue (fst (multi_bar st rm (e, l) b)) = []" using s by (simp add: d e)
  show "curve_of (fst (multi_bar st rm (e, l) b)) = curve_of e @ [b_timestamp b]"
    using s i(2) by (simp add: d e curve_of_def)
  show "books_ok (mu_portfolio e) \<Longrightarrow> books_ok (mu_portfolio (fst (multi_bar st rm (e, l) b)))"
    using s i(3) by (simp add: d e)
qed

section \<open>The merge\<close>

text \<open>The bars of each symbol still to come, the one in the heap included.\<close>

definition multi_shows :: "('s, 'r) multi_engine \<Rightarrow> (string \<Rightarrow> bar list) \<Rightarrow> bool" where
  "multi_shows e P \<longleftrightarrow>
     hm_ok (mu_feeds e) \<and> distinct (mu_heap e) \<and>
     set (mu_heap e) = {entry_of (hd (P s)) | s. P s \<noteq> []} \<and>
     (\<forall>s. (case hm_get (mu_feeds e) s of Some bs \<Rightarrow> bs | None \<Rightarrow> []) = tl (P s)) \<and>
     (\<forall>s b. b \<in> set (P s) \<longrightarrow> b_symbol b = s)"

definition in_time :: "(string \<Rightarrow> bar list) \<Rightarrow> bool" where
  "in_time P \<longleftrightarrow> (\<forall>s. sorted (map b_timestamp (P s)))"

text \<open>Time order, and on equal times the greater symbol first.\<close>

definition merge_le :: "bar \<Rightarrow> bar \<Rightarrow> bool" where
  "merge_le a b \<longleftrightarrow> b_timestamp a < b_timestamp b \<or> b_timestamp a = b_timestamp b \<and> b_symbol b \<le> b_symbol a"

definition merges :: "(string \<Rightarrow> bar list) \<Rightarrow> bar list \<Rightarrow> bool" where
  "merges P order \<longleftrightarrow> (\<forall>s. filter (\<lambda>b. b_symbol b = s) order = P s) \<and> sorted_wrt merge_le order"

lemma entry_of_sel [simp]: "me_bar (entry_of b) = b" "me_ts (entry_of b) = b_timestamp b" "me_symbol (entry_of b) = b_symbol b"
  by (simp_all add: entry_of_def)

lemma entry_of_inj [simp]: "entry_of a = entry_of b \<longleftrightarrow> a = b"
  by (metis entry_of_sel(1))

lemma multi_peek_None: "multi_peek h = None \<longleftrightarrow> h = []"
  by (cases h) (auto split: option.splits)

lemma multi_peek_greatest:
  "multi_peek h = Some m \<Longrightarrow> x \<in> set h \<Longrightarrow> me_ts m < me_ts x \<or> me_ts m = me_ts x \<and> me_symbol x \<le> me_symbol m"
proof (induction h arbitrary: m x)
  case (Cons e es)
  show ?case
  proof (cases "multi_peek es")
    case None
    then show ?thesis using Cons.prems by (simp add: multi_peek_None)
  next
    case (Some n)
    then have n: "\<And>x. x \<in> set es \<Longrightarrow> me_ts n < me_ts x \<or> me_ts n = me_ts x \<and> me_symbol x \<le> me_symbol n"
      using Cons.IH [OF Some] by simp
    have m: "m = (if multi_greater n e then n else e)" using Cons.prems(1) Some by simp
    show ?thesis
    proof (cases "multi_greater n e")
      case True
      then show ?thesis using Cons.prems(2) n m by (auto simp: multi_greater_def)
    next
      case False
      then show ?thesis using Cons.prems(2) n [of x] m by (fastforce simp: multi_greater_def)
    qed
  qed
qed simp

lemma multi_take_None: "multi_shows e P \<Longrightarrow> multi_take e = None \<Longrightarrow> P s = []"
  by (auto simp: multi_take_def multi_pop_def multi_peek_None multi_shows_def Let_def split: option.splits)

lemma multi_take_Some:
  assumes sh: "multi_shows e P" and t: "multi_take e = Some (b, e')" and srt: "in_time P"
  shows "P (b_symbol b) = b # tl (P (b_symbol b))" and "multi_shows e' (P(b_symbol b := tl (P (b_symbol b))))"
    and "\<And>s x. x \<in> set (P s) \<Longrightarrow> merge_le b x" and "e' = shelve (mu_heap e') (mu_feeds e') e"
proof -
  obtain m where m: "multi_peek (mu_heap e) = Some m" and b: "b = me_bar m"
    using t by (auto simp: multi_take_def multi_pop_def Let_def split: option.splits)
  have heap: "set (mu_heap e) = {entry_of (hd (P s)) | s. P s \<noteq> []}" using sh by (simp add: multi_shows_def)
  obtain s0 where s0: "m = entry_of (hd (P s0))" "P s0 \<noteq> []" using multi_peek_in_set [OF m] unfolding heap by blast
  have sy: "b_symbol x = s" if "x \<in> set (P s)" for x s using sh that by (simp add: multi_shows_def)
  have bs: "b_symbol b = s0" "b = hd (P s0)" using s0 b sy [of "hd (P s0)" s0] by simp_all
  show P0: "P (b_symbol b) = b # tl (P (b_symbol b))" using bs s0(2) by simp
  show "merge_le b x" if x: "x \<in> set (P s)" for s x
  proof -
    have ne: "P s \<noteq> []" using x by auto
    have "entry_of (hd (P s)) \<in> set (mu_heap e)" unfolding heap using ne by blast
    note g = multi_peek_greatest [OF m this]
    have "b_timestamp (hd (P s)) \<le> b_timestamp x"
      using srt x ne by (cases "P s") (auto simp: in_time_def dest!: spec [of _ s])
    moreover have "b_symbol x = b_symbol (hd (P s))" using sy [OF x] sy [of "hd (P s)" s] ne by simp
    ultimately show ?thesis using g s0(1) bs(2) by (auto simp: merge_le_def)
  qed
  let ?P = "P(s0 := tl (P s0))"
  have feed: "(case hm_get (mu_feeds e) s of Some bs \<Rightarrow> bs | None \<Rightarrow> []) = tl (P s)" for s
    using sh by (simp add: multi_shows_def)
  have ok: "hm_ok (mu_feeds e)" "distinct (mu_heap e)" using sh by (simp_all add: multi_shows_def)
  have inj: "hd (P s) = hd (P s') \<longleftrightarrow> s = s'" if "P s \<noteq> []" "P s' \<noteq> []" for s s'
    using that sy by (metis hd_in_set)
  have "set (remove1 m (mu_heap e)) = {entry_of (hd (P s)) | s. P s \<noteq> []} - {m}" using ok(2) heap by simp
  also have "\<dots> = {entry_of (hd (P s)) | s. P s \<noteq> [] \<and> s \<noteq> s0}" using s0 by (auto dest!: inj [THEN iffD1, rotated 2])
  finally have rest: "set (remove1 m (mu_heap e)) = {entry_of (hd (P s)) | s. P s \<noteq> [] \<and> s \<noteq> s0}" .
  have P_sy: "\<forall>s b. b \<in> set (?P s) \<longrightarrow> b_symbol b = s" using sy by (auto split: if_splits) (metis list.set_sel(2) tl_Nil)+
  show "e' = shelve (mu_heap e') (mu_feeds e') e"
    using t m by (auto simp: multi_take_def multi_pop_def Let_def shelve_def split: option.splits list.splits)
  show "multi_shows e' (P(b_symbol b := tl (P (b_symbol b))))"
  proof (cases "tl (P s0)")
    case Nil
    then have "e' = e\<lparr>mu_heap := remove1 m (mu_heap e)\<rparr>"
      using t m b bs feed [of s0] by (auto simp: multi_take_def multi_pop_def Let_def split: option.splits list.splits)
    moreover have "{entry_of (hd (P s)) | s. P s \<noteq> [] \<and> s \<noteq> s0} = {entry_of (hd (?P s)) | s. ?P s \<noteq> []}"
      using Nil by auto
    ultimately show ?thesis unfolding multi_shows_def bs(1)
      using Nil rest ok feed P_sy by simp
  next
    case (Cons n ns)
    then have f: "hm_get (mu_feeds e) s0 = Some (n # ns)" using feed [of s0] by (auto split: option.splits)
    have e': "e' = e\<lparr>mu_heap := entry_of n # remove1 m (mu_heap e), mu_feeds := hm_insert s0 ns (mu_feeds e)\<rparr>"
      using t m b bs f by (auto simp: multi_take_def multi_pop_def Let_def)
    have sn: "b_symbol n = s0" using sy [of n s0] Cons s0(2) by (metis list.set_sel(2) list.set_intros(1))
    have heads: "insert (entry_of n) {entry_of (hd (P s)) | s. P s \<noteq> [] \<and> s \<noteq> s0} = {entry_of (hd (?P s)) | s. ?P s \<noteq> []}"
    proof (intro set_eqI iffI)
      fix z assume "z \<in> insert (entry_of n) {entry_of (hd (P s)) | s. P s \<noteq> [] \<and> s \<noteq> s0}"
      then show "z \<in> {entry_of (hd (?P s)) | s. ?P s \<noteq> []}" using Cons by (auto intro: exI [of _ s0])
    next
      fix z assume "z \<in> {entry_of (hd (?P s)) | s. ?P s \<noteq> []}"
      then show "z \<in> insert (entry_of n) {entry_of (hd (P s)) | s. P s \<noteq> [] \<and> s \<noteq> s0}" using Cons by (auto split: if_splits)
    qed
    have "entry_of n \<notin> {entry_of (hd (P s)) | s. P s \<noteq> [] \<and> s \<noteq> s0}" using sn sy by (auto, metis hd_in_set)
    then show ?thesis unfolding multi_shows_def bs(1)
      using Cons rest ok feed P_sy heads e' by (simp del: entry_of_inj)
  qed
qed

section \<open>The loop is a fold over the merged bars\<close>

lemma shelve_shelve [simp]: "shelve h fs (shelve h' fs' e) = shelve h fs e"
  by (simp add: shelve_def)

lemma shelve_bars:
  "foldl (multi_bar st rm) (shelve h fs e, l) bs =
     (shelve h fs (fst (foldl (multi_bar st rm) (e, l) bs)), snd (foldl (multi_bar st rm) (e, l) bs))"
proof (induction bs arbitrary: e l)
  case (Cons b bs)
  show ?case using Cons [of "fst (multi_bar st rm (e, l) b)" "snd (multi_bar st rm (e, l) b)"] by (simp add: shelve_bar)
qed simp

lemma multi_shows_cong:
  "mu_heap e' = mu_heap e \<Longrightarrow> mu_feeds e' = mu_feeds e \<Longrightarrow> multi_shows e' P = multi_shows e P"
  by (simp add: multi_shows_def)

lemma in_time_tl: "in_time P \<Longrightarrow> in_time (P(s := tl (P s)))"
  by (auto simp: in_time_def map_tl sorted_tl)

lemma merges_Cons:
  assumes "P (b_symbol b) = b # tl (P (b_symbol b))" and "merges (P(b_symbol b := tl (P (b_symbol b)))) order"
    and "\<And>s x. x \<in> set (P s) \<Longrightarrow> merge_le b x"
  shows "merges P (b # order)"
proof -
  let ?P = "P(b_symbol b := tl (P (b_symbol b)))"
  have f: "filter (\<lambda>x. b_symbol x = s) order = ?P s" for s using assms(2) by (simp add: merges_def)
  have "filter (\<lambda>x. b_symbol x = s) (b # order) = P s" for s
    using f [of s] assms(1) by (cases "s = b_symbol b") auto
  moreover have "merge_le b x" if "x \<in> set order" for x
  proof -
    have "x \<in> set (filter (\<lambda>y. b_symbol y = b_symbol x) order)" using that by simp
    then have x: "x \<in> set (?P (b_symbol x))" unfolding f .
    have "x \<in> set (P (b_symbol x))"
    proof (cases "b_symbol x = b_symbol b")
      case True
      then have "x \<in> set (tl (P (b_symbol b)))" using x by simp
      then have "x \<in> set (b # tl (P (b_symbol b)))" by simp
      then show ?thesis using assms(1) True by simp
    qed (use x in simp)
    then show ?thesis by (rule assms(3))
  qed
  ultimately show ?thesis using assms(2) by (simp add: merges_def)
qed

lemma multi_loop_folds:
  assumes "multi_shows e P" and "in_time P"
  shows "\<exists>order h fs. merges P order \<and> multi_loop st rm (e, l) =
    (shelve h fs (fst (foldl (multi_bar st rm) (e, l) order)), snd (foldl (multi_bar st rm) (e, l) order))"
  using assms
proof (induction st rm "(e, l)" arbitrary: e l P rule: multi_loop.induct)
  case (1 st rm e l)
  show ?case
  proof (cases "multi_take e")
    case None
    then have "merges P []" using multi_take_None [OF 1(2)] by (simp add: merges_def)
    moreover have "multi_loop st rm (e, l) = (shelve (mu_heap e) (mu_feeds e) e, l)"
      using None by (simp add: multi_loop.simps shelve_id)
    ultimately show ?thesis by (intro exI [of _ "[]"] exI [of _ "mu_heap e"] exI [of _ "mu_feeds e"]) simp
  next
    case (Some be)
    then obtain b e' where t: "multi_take e = Some (b, e')" by (cases be) auto
    let ?P = "P(b_symbol b := tl (P (b_symbol b)))"
    let ?x = "multi_bar st rm (e', l) b"
    note tk = multi_take_Some [OF 1(2) t 1(3)]
    have "multi_shows (fst ?x) ?P" using tk(2) multi_shows_cong [of "fst ?x" e'] by simp
    then obtain order h fs where o: "merges ?P order"
        "multi_loop st rm (fst ?x, snd ?x) = (shelve h fs (fst (foldl (multi_bar st rm) (fst ?x, snd ?x) order)),
           snd (foldl (multi_bar st rm) (fst ?x, snd ?x) order))"
      using 1(1) [OF t refl, of "fst ?x" "snd ?x" ?P] in_time_tl [OF 1(3)] by auto
    have x: "?x = (shelve (mu_heap e') (mu_feeds e') (fst (multi_bar st rm (e, l) b)), snd (multi_bar st rm (e, l) b))"
      using shelve_bar [of st rm "mu_heap e'" "mu_feeds e'" e l b] tk(4) by simp
    have "multi_loop st rm (e, l) = (shelve h fs (fst (foldl (multi_bar st rm) (e, l) (b # order))),
        snd (foldl (multi_bar st rm) (e, l) (b # order)))"
      using o(2) t x by (simp add: multi_loop.simps [of st rm e l] shelve_bars)
    moreover have "merges P (b # order)" using tk(1) o(1) tk(3) by (rule merges_Cons)
    ultimately show ?thesis by blast
  qed
qed

lemma multi_bars_idle:
  assumes "multi_queue e = []" and "books_ok (mu_portfolio e)"
  shows "curve_of (fst (foldl (multi_bar st rm) (e, l) bs)) = curve_of e @ map b_timestamp bs \<and>
    books_ok (mu_portfolio (fst (foldl (multi_bar st rm) (e, l) bs)))"
  using assms
proof (induction bs arbitrary: e l)
  case (Cons b bs)
  note i = multi_bar_idle [OF Cons.prems(1), of st rm l b]
  show ?case using Cons.IH [OF i(1) i(3) [OF Cons.prems(2)], of "snd (multi_bar st rm (e, l) b)"] i(2) by simp
qed simp

lemma multi_bars_last:
  "hm_get (snd (foldl (multi_bar st rm) (e, l) bs)) s =
     (case last_opt (filter (\<lambda>b. b_symbol b = s) bs) of Some b \<Rightarrow> Some b | None \<Rightarrow> hm_get l s)"
proof (induction bs arbitrary: e l)
  case (Cons b bs)
  obtain e' where "multi_bar st rm (e, l) b = (e', hm_insert (b_symbol b) b l)" by (simp add: multi_bar_def)
  then show ?case using Cons [of e' "hm_insert (b_symbol b) b l"] by (simp add: last_opt_def)
qed (simp add: last_opt_def)

section \<open>The end of the data\<close>

lemma multi_end_close_frame:
  "k \<noteq> s \<Longrightarrow> hm_get (pf_positions (mu_portfolio (multi_end_close l e (s, q)))) k = hm_get (pf_positions (mu_portfolio e)) k"
  "curve_of (multi_end_close l e x) = curve_of e"
  "books_ok (mu_portfolio e) \<Longrightarrow> books_ok (mu_portfolio (multi_end_close l e x))"
  "multi_end_close l (shelve h fs e) x = shelve h fs (multi_end_close l e x)"
  by (simp_all add: multi_end_close_def Let_def split_beta curve_of_def shelve_bus split: option.split)

lemma multi_end_close_flattens:
  assumes "hm_get (pf_positions (mu_portfolio e)) s = Some pos" and "is_finite (p_qty pos)" and "hm_get l s \<noteq> None"
  shows "\<not> still_open (mu_portfolio (multi_end_close l e (s, p_qty pos))) s"
proof -
  obtain b where b: "hm_get l s = Some b" using assms(3) by auto
  let ?f = "force_close (mu_broker e) s \<bar>p_qty pos\<bar> (if 0 < p_qty pos then Sell else Buy) (b_timestamp b) (b_close b)"
  have "\<not> still_open (apply_fill (mu_portfolio e) ?f) s"
    using close_flattens [of "mu_portfolio e" ?f pos] assms by simp
  then show ?thesis using b by (simp add: multi_end_close_def Let_def)
qed

lemma multi_end_closes:
  assumes "distinct (map fst xs)"
    and "\<forall>(s, q) \<in> set xs. is_finite q \<and> (\<exists>p. hm_get (pf_positions (mu_portfolio e)) s = Some p \<and> p_qty p = q)"
    and "k \<in> fst ` set xs" and "hm_get l k \<noteq> None"
  shows "\<not> still_open (mu_portfolio (foldl (multi_end_close l) e xs)) k"
  using assms
proof (induction xs arbitrary: e)
  case (Cons x xs)
  obtain s q where x: "x = (s, q)" by (cases x)
  let ?e = "multi_end_close l e (s, q)"
  have keep: "hm_get (pf_positions (mu_portfolio (foldl (multi_end_close l) e ys))) j = hm_get (pf_positions (mu_portfolio e)) j"
    if "j \<notin> fst ` set ys" for j ys and e :: "('a, 'b) multi_engine"
    using that by (induction ys arbitrary: e) (auto simp: multi_end_close_frame)
  show ?case
  proof (cases "k = s")
    case True
    obtain p where p: "hm_get (pf_positions (mu_portfolio e)) s = Some p" "p_qty p = q" "is_finite q" using Cons.prems(2) x by auto
    then have "\<not> still_open (mu_portfolio ?e) k"
      using multi_end_close_flattens [OF p(1), of l] Cons.prems(4) True by simp
    then show ?thesis using keep [of k xs ?e] Cons.prems(1) True by (simp add: x still_open_def)
  next
    case False
    have s: "s \<notin> fst ` set xs" using Cons.prems(1) x by simp
    have "hm_get (pf_positions (mu_portfolio ?e)) (fst y) = hm_get (pf_positions (mu_portfolio e)) (fst y)" if "y \<in> set xs" for y
      using that s by (intro multi_end_close_frame) auto
    then have "\<forall>(j, q) \<in> set xs. is_finite q \<and> (\<exists>p. hm_get (pf_positions (mu_portfolio ?e)) j = Some p \<and> p_qty p = q)"
      using Cons.prems(2) by (simp add: split_beta)
    then show ?thesis using Cons.IH [of ?e] Cons.prems(1,3,4) False x by simp
  qed
qed simp

lemma multi_finish_flat:
  assumes keyed: "positions_keyed (mu_portfolio e)" and fin: "finite_book (mu_portfolio e)" and k: "hm_get l k \<noteq> None"
  shows "\<not> still_open (mu_portfolio (multi_finish (e, l))) k"
proof -
  let ?ps = "filter (\<lambda>p. f64_epsilon < \<bar>p_qty p\<bar>) (map snd (pf_positions (mu_portfolio e)))"
  let ?xs = "map (\<lambda>p. (p_symbol p, p_qty p)) ?ps"
  have dist: "distinct (map fst ?xs)" using open_values_distinct(1) [OF keyed] by (simp add: comp_def)
  have all: "\<forall>(s, q) \<in> set ?xs. is_finite q \<and> (\<exists>p. hm_get (pf_positions (mu_portfolio e)) s = Some p \<and> p_qty p = q)"
    using open_values_distinct(2) [OF keyed] fin by (fastforce simp: finite_book_def)
  show ?thesis
  proof (cases "k \<in> fst ` set ?xs")
    case True
    then show ?thesis using multi_end_closes [OF dist all True k] by (simp add: multi_finish_def)
  next
    case False
    have keep: "hm_get (pf_positions (mu_portfolio (foldl (multi_end_close l) e ys))) k = hm_get (pf_positions (mu_portfolio e)) k"
      if "k \<notin> fst ` set ys" for ys and e :: "('a, 'b) multi_engine"
      using that by (induction ys arbitrary: e) (auto simp: multi_end_close_frame)
    have "\<not> still_open (mu_portfolio e) k"
    proof
      assume "still_open (mu_portfolio e) k"
      then obtain p where p: "hm_get (pf_positions (mu_portfolio e)) k = Some p" "f64_epsilon < \<bar>p_qty p\<bar>"
        by (cases "hm_get (pf_positions (mu_portfolio e)) k") (auto simp: still_open_def)
      then have "p \<in> set ?ps" "p_symbol p = k" using keyed by (force dest: map_of_SomeD, auto intro: positions_keyed_get)
      then show False using False by force
    qed
    then show ?thesis using keep [OF False, of e] by (simp add: multi_finish_def still_open_def)
  qed
qed

lemma multi_finish_books:
  "curve_of (multi_finish el) = curve_of (fst el)"
  "books_ok (mu_portfolio (fst el)) \<Longrightarrow> books_ok (mu_portfolio (multi_finish el))"
proof -
  have "curve_of (foldl (multi_end_close l) e xs) = curve_of e" for l xs and e :: "('a, 'b) multi_engine"
    by (induction xs arbitrary: e) (simp_all add: multi_end_close_frame)
  then show "curve_of (multi_finish el) = curve_of (fst el)" by (simp add: multi_finish_def split_beta)
  show "books_ok (mu_portfolio (fst el)) \<Longrightarrow> books_ok (mu_portfolio (multi_finish el))"
    unfolding multi_finish_def split_beta
    by (rule foldl_invariant [where P = "\<lambda>e. books_ok (mu_portfolio e)"]) (simp_all add: multi_end_close_frame)
qed

lemma multi_finish_shelve: "multi_finish (shelve h fs e, l) = shelve h fs (multi_finish (e, l))"
proof -
  have "foldl (multi_end_close l) (shelve h fs e) xs = shelve h fs (foldl (multi_end_close l) e xs)"
    for l h fs xs and e :: "('a, 'b) multi_engine"
    by (induction xs arbitrary: e) (simp_all add: multi_end_close_frame)
  then show ?thesis by (simp add: multi_finish_def)
qed

section \<open>Registration of the feeds\<close>

definition multi_add_feeds :: "('s, 'r) multi_engine \<Rightarrow> (string \<times> bar list) list \<Rightarrow> ('s, 'r) multi_engine" where
  "multi_add_feeds e fs = foldl (\<lambda>e (s, bs). multi_add_feed e s bs) e fs"

definition feed_bars :: "(string \<times> bar list) list \<Rightarrow> string \<Rightarrow> bar list" where
  "feed_bars fs s = (case map_of fs s of Some bs \<Rightarrow> bs | None \<Rightarrow> [])"

definition own_symbols :: "(string \<times> bar list) list \<Rightarrow> bool" where
  "own_symbols fs \<longleftrightarrow> distinct (map fst fs) \<and> (\<forall>(s, bs) \<in> set fs. \<forall>b \<in> set bs. b_symbol b = s)"

lemma multi_add_feed_shows:
  assumes sh: "multi_shows e P" and "P s = []" and own: "\<forall>b \<in> set bs. b_symbol b = s"
  shows "multi_shows (multi_add_feed e s bs) (P(s := bs))"
proof (cases bs)
  case Nil
  then show ?thesis using assms by (auto simp: multi_shows_def multi_add_feed_def)
next
  case (Cons b rest)
  have heads: "insert (entry_of b) {entry_of (hd (P s)) | s. P s \<noteq> []} = {entry_of (hd ((P(s := bs)) k)) | k. (P(s := bs)) k \<noteq> []}"
  proof (intro set_eqI iffI)
    fix z assume "z \<in> insert (entry_of b) {entry_of (hd (P s)) | s. P s \<noteq> []}"
    then show "z \<in> {entry_of (hd ((P(s := bs)) k)) | k. (P(s := bs)) k \<noteq> []}"
      using Cons assms(2) by (auto intro: exI [of _ s])
  next
    fix z assume "z \<in> {entry_of (hd ((P(s := bs)) k)) | k. (P(s := bs)) k \<noteq> []}"
    then show "z \<in> insert (entry_of b) {entry_of (hd (P s)) | s. P s \<noteq> []}" using Cons by (auto split: if_splits)
  qed
  have sy: "\<And>k x. x \<in> set (P k) \<Longrightarrow> b_symbol x = k" using sh by (simp add: multi_shows_def)
  have "b_symbol b = s" using own Cons by simp
  then have "entry_of b \<notin> {entry_of (hd (P s)) | s. P s \<noteq> []}" using sy assms(2) by (auto, metis hd_in_set)
  then show ?thesis using sh heads own Cons assms(2) unfolding multi_shows_def
    by (simp add: multi_add_feed_def del: entry_of_inj)
qed

lemma multi_add_feeds_shows:
  assumes "multi_shows e P" and "own_symbols fs" and "\<forall>s \<in> fst ` set fs. P s = []"
  shows "multi_shows (multi_add_feeds e fs) (\<lambda>s. if s \<in> fst ` set fs then feed_bars fs s else P s)"
  using assms
proof (induction fs arbitrary: e P)
  case Nil
  then show ?case by (simp add: multi_add_feeds_def)
next
  case (Cons f fs)
  obtain s bs where f: "f = (s, bs)" by (cases f)
  have own: "own_symbols fs" "s \<notin> fst ` set fs" "\<forall>b \<in> set bs. b_symbol b = s" using Cons.prems(2) f by (auto simp: own_symbols_def)
  have "multi_shows (multi_add_feeds (multi_add_feed e s bs) fs)
      (\<lambda>k. if k \<in> fst ` set fs then feed_bars fs k else (P(s := bs)) k)"
    using Cons.prems(3) own(2) by (intro Cons.IH multi_add_feed_shows Cons.prems own) (auto simp: f)
  moreover have "(\<lambda>k. if k \<in> fst ` set fs then feed_bars fs k else (P(s := bs)) k) =
      (\<lambda>k. if k \<in> fst ` set (f # fs) then feed_bars (f # fs) k else P k)"
    using own(2) by (auto simp: fun_eq_iff f feed_bars_def)
  ultimately show ?case by (simp add: multi_add_feeds_def f)
qed

lemma multi_add_feeds_shelve: "\<exists>h fd. multi_add_feeds e fs = shelve h fd e"
proof (induction fs rule: rev_induct)
  case Nil
  have "multi_add_feeds e [] = shelve (mu_heap e) (mu_feeds e) e" by (simp add: multi_add_feeds_def shelve_id)
  then show ?case by blast
next
  case (snoc f fs)
  then obtain h fd where "multi_add_feeds e fs = shelve h fd e" by blast
  then have "multi_add_feeds e (fs @ [f]) = multi_add_feed (shelve h fd e) (fst f) (snd f)"
    by (simp add: multi_add_feeds_def split_beta)
  also have "\<exists>h' fd'. multi_add_feed (shelve h fd e) (fst f) (snd f) = shelve h' fd' e"
    by (cases "snd f") (auto simp: multi_add_feed_def shelve_def)
  finally show ?case .
qed

section \<open>Properties\<close>

text \<open>C24. The multi-symbol engine replays the market in time order. For feeds with distinct symbols, each in time
  order and delivering bars of its own symbol, a run terminates and computes, in every field but the
  heap and the feeds, the fold of the per-bar step over one sequence of bars: that sequence holds the
  bars of each feed exactly once and in their order, is ordered by time, and among bars of the same
  time has the greater symbol first. The equity curve has one point per bar with its time, cash
  reconciles with the recorded fills, positions stay keyed by their symbol, and every fed symbol is
  flat at the end, provided no quantity overflowed.\<close>

theorem multi_engine_replays_in_time_order:
  assumes own: "own_symbols fs" and srt: "in_time (feed_bars fs)"
    and e: "mu_heap e = []" "mu_feeds e = []" "multi_queue e = []" "books_ok (mu_portfolio e)"
    and run: "r = multi_run st rm (multi_add_feeds e fs)"
  shows "\<exists>order. merges (feed_bars fs) order \<and>
    shelve [] [] r = multi_finish (foldl (multi_bar st rm) (e, []) order) \<and>
    curve_of r = curve_of e @ map b_timestamp order \<and> books_ok (mu_portfolio r) \<and>
    (finite_book (mu_portfolio (fst (foldl (multi_bar st rm) (e, []) order))) \<longrightarrow>
     (\<forall>s. feed_bars fs s \<noteq> [] \<longrightarrow> \<not> still_open (mu_portfolio r) s))"
proof -
  let ?e = "multi_add_feeds e fs"
  have "multi_shows e (\<lambda>_. [])" using e(1,2) by (simp add: multi_shows_def)
  from multi_add_feeds_shows [OF this own] have "multi_shows ?e (\<lambda>s. if s \<in> fst ` set fs then feed_bars fs s else [])" by simp
  moreover have "(\<lambda>s. if s \<in> fst ` set fs then feed_bars fs s else []) = feed_bars fs"
    by (rule ext) (simp add: feed_bars_def map_of_eq_None_iff [THEN iffD2])
  ultimately have "multi_shows ?e (feed_bars fs)" by simp
  from multi_loop_folds [OF this srt, of st rm "[]"] obtain order h fd where o: "merges (feed_bars fs) order"
      "multi_loop st rm (?e, []) = (shelve h fd (fst (foldl (multi_bar st rm) (?e, []) order)), snd (foldl (multi_bar st rm) (?e, []) order))"
    by blast
  let ?F = "foldl (multi_bar st rm) (e, []) order"
  obtain h' fd' where "?e = shelve h' fd' e" using multi_add_feeds_shelve by blast
  with o(2) have loop: "multi_loop st rm (?e, []) = (shelve h fd (fst ?F), snd ?F)" by (simp add: shelve_bars)
  have r: "r = shelve h fd (multi_finish ?F)" by (simp add: run multi_run_def loop multi_finish_shelve)
  have hf: "mu_heap (fst (foldl (multi_bar st rm) el bs)) = mu_heap (fst el) \<and> mu_feeds (fst (foldl (multi_bar st rm) el bs)) = mu_feeds (fst el)"
    for el bs by (induction bs arbitrary: el) simp_all
  have "shelve [] [] (fst ?F) = fst ?F" using hf [of "(e, [])" order] e(1,2) shelve_id [of "fst ?F"] by simp
  then have "shelve [] [] r = multi_finish ?F"
    using multi_finish_shelve [of "[]" "[]" "fst ?F" "snd ?F"] by (simp add: r)
  moreover have pf: "curve_of r = curve_of (multi_finish ?F)" "mu_portfolio r = mu_portfolio (multi_finish ?F)"
    by (simp_all add: r curve_of_def)
  moreover have i: "curve_of (fst ?F) = curve_of e @ map b_timestamp order" "books_ok (mu_portfolio (fst ?F))"
    using multi_bars_idle [OF e(3,4), of st rm "[]" order] by simp_all
  moreover have "\<not> still_open (mu_portfolio r) s" if "finite_book (mu_portfolio (fst ?F))" "feed_bars fs s \<noteq> []" for s
  proof -
    have "filter (\<lambda>b. b_symbol b = s) order \<noteq> []" using o(1) that(2) by (simp add: merges_def)
    then have "hm_get (snd ?F) s \<noteq> None" by (simp add: multi_bars_last last_opt_def)
    then show ?thesis using multi_finish_flat [of "fst ?F" "snd ?F" s] i(2) that(1) pf(2) by (simp add: books_ok_def)
  qed
  ultimately show ?thesis using o(1) by (intro exI [of _ order]) (simp add: multi_finish_books)
qed

definition quiet_multi :: "unit multi_strategy" where
  "quiet_multi = \<lparr>us_on_bar = (\<lambda>s _ _. (s, [])), us_on_window = (\<lambda>s _ _ _. (s, [])), us_name = (\<lambda>_. ''quiet''),
     us_reset = (\<lambda>s. s), us_set_portfolio_snapshot = (\<lambda>s _. s)\<rparr>"

definition two_feeds :: "(string \<times> bar list) list" where
  "two_feeds = [(''BTC'', [bar_new 60000 ''BTC'' (Fin 100) (Fin 110) (Fin 90) (Fin 105) (Fin 1)]),
     (''ETH'', [bar_new 60000 ''ETH'' (Fin 10) (Fin 11) (Fin 9) (Fin 10) (Fin 1)])]"

definition fresh_multi :: "(unit, any_sizer) multi_engine" where
  "fresh_multi = multi_new (Fin 1000) () (FixedQuantity (fixed_quantity_new (Fin 2) 5)) 0 0"

theorem multi_engine_replays_in_time_order_witness:
  "\<exists>order. merges (feed_bars two_feeds) order \<and>
     curve_of (multi_run quiet_multi any_sizer_manager (multi_add_feeds fresh_multi two_feeds)) = map b_timestamp order"
proof -
  have "own_symbols two_feeds" by (simp add: own_symbols_def two_feeds_def bar_new_def)
  moreover have "in_time (feed_bars two_feeds)" by (simp add: in_time_def two_feeds_def feed_bars_def)
  moreover have "mu_heap fresh_multi = []" "mu_feeds fresh_multi = []" "multi_queue fresh_multi = []"
      "books_ok (mu_portfolio fresh_multi)" "curve_of fresh_multi = []"
    by (simp_all add: fresh_multi_def multi_new_def sync_bus_new_def books_ok_def curve_of_def positions_keyed_def)
       (simp_all add: portfolio_new_def)
  ultimately show ?thesis
    using multi_engine_replays_in_time_order [of two_feeds fresh_multi _ quiet_multi any_sizer_manager] by auto
qed

lemma in_map_filter: "x \<in> set xs \<Longrightarrow> f x = Some y \<Longrightarrow> y \<in> set (List.map_filter f xs)"
  by (induction xs) (auto simp: map_filter_simps split: option.split)

lemma multi_exit_close_other:
  assumes "k \<noteq> s"
  shows "hm_get (pf_positions (mu_portfolio (multi_exit_close b e (s, p, r)))) k = hm_get (pf_positions (mu_portfolio e)) k"
    and "hm_get (mu_position_trackers (multi_exit_close b e (s, p, r))) k = hm_get (mu_position_trackers e) k"
  using assms by (simp_all add: multi_exit_close_def Let_def split: option.split)

lemma multi_exit_close_fills:
  "\<exists>fs. pf_fills (mu_portfolio (multi_exit_close b e x)) = pf_fills (mu_portfolio e) @ fs"
  "br_slippage_pct (mu_broker (multi_exit_close b e x)) = br_slippage_pct (mu_broker e)"
  by (auto simp: multi_exit_close_def Let_def split_beta apply_fill_def cancel_for_symbol_def split: option.split)

lemma multi_exit_closes_keep:
  assumes "k \<notin> fst ` set xs"
  shows "hm_get (pf_positions (mu_portfolio (foldl (multi_exit_close b) e xs))) k = hm_get (pf_positions (mu_portfolio e)) k \<and>
    hm_get (mu_position_trackers (foldl (multi_exit_close b) e xs)) k = hm_get (mu_position_trackers e) k \<and>
    (\<exists>fs. pf_fills (mu_portfolio (foldl (multi_exit_close b) e xs)) = pf_fills (mu_portfolio e) @ fs) \<and>
    br_slippage_pct (mu_broker (foldl (multi_exit_close b) e xs)) = br_slippage_pct (mu_broker e)"
  using assms
proof (induction xs arbitrary: e)
  case (Cons x xs)
  obtain s p r where x: "x = (s, p, r)" by (cases x)
  obtain fs where "pf_fills (mu_portfolio (multi_exit_close b e x)) = pf_fills (mu_portfolio e) @ fs"
    using multi_exit_close_fills(1) by blast
  then show ?case using Cons.IH [of "multi_exit_close b e x"] Cons.prems multi_exit_close_other [of k s b e p r]
    by (auto simp: x multi_exit_close_fills(2))
qed simp

text \<open>The exit rules of the multi-symbol engine look at every tracker with every bar: whenever the tracker of a held
  symbol fires on the prices of a bar, whatever the symbol of that bar is, the position is closed in
  full at the price derived from that bar, with its time, and its tracker is dropped. So a bar of one
  symbol can close the position of another.\<close>

theorem multi_exit_applies_to_every_symbol:
  assumes ok: "hm_ok (mu_position_trackers e)" and tr: "hm_get (mu_position_trackers e) s = Some tr"
    and fires: "snd (update_and_check tr (b_open b) (b_high b) (b_low b) (b_close b) (mu_intra_bar_mode e)) = Some (fp, reason)"
    and pos: "hm_get (pf_positions (mu_portfolio e)) s = Some pos" and fin: "is_finite (p_qty pos)"
    and side: "sd = (if 0 < p_qty pos then Sell else Buy)"
  shows "\<not> still_open (mu_portfolio (multi_exit_checks e b)) s \<and>
    hm_get (mu_position_trackers (multi_exit_checks e b)) s = None \<and>
    (\<exists>f \<in> set (pf_fills (mu_portfolio (multi_exit_checks e b))).
       f_symbol f = s \<and> f_side f = sd \<and> f_qty f = \<bar>p_qty pos\<bar> \<and> f_timestamp f = b_timestamp b \<and>
       f_price f = fp * slip (mu_broker e) sd)"
proof -
  let ?ch = "multi_check_trackers e b"
  let ?cl = "List.map_filter (\<lambda>(s, tr, hit). map_option (\<lambda>(p, r). (s, p, r)) hit) ?ch"
  let ?e1 = "e\<lparr>mu_position_trackers := map (\<lambda>(s, tr, _). (s, tr)) ?ch\<rparr>"
  have keys: "map fst ?ch = hm_keys (mu_position_trackers e)" by (simp add: multi_check_trackers_def comp_def split_beta)
  have "distinct (map fst ?cl)" using ok keys by (intro distinct_map_filter_keys [THEN conjunct1]) (auto split: option.splits)
  moreover have "(s, update_and_check tr (b_open b) (b_high b) (b_low b) (b_close b) (mu_intra_bar_mode e)) \<in> set ?ch"
    using hm_get_SomeD [OF tr] by (force simp: multi_check_trackers_def)
  then have "(s, fp, reason) \<in> set ?cl" using fires by (intro in_map_filter) (auto simp: split_beta)
  then obtain xs ys where cl: "?cl = xs @ (s, fp, reason) # ys" by (auto simp: in_set_conv_decomp)
  ultimately have ns: "s \<notin> fst ` set xs" "s \<notin> fst ` set ys" by (auto simp: cl)
  let ?e2 = "foldl (multi_exit_close b) ?e1 xs"
  let ?e3 = "multi_exit_close b ?e2 (s, fp, reason)"
  have e4: "multi_exit_checks e b = foldl (multi_exit_close b) ?e3 ys"
    unfolding multi_exit_checks_def Let_def cl by (simp only: foldl_append foldl.simps)
  note k2 = multi_exit_closes_keep [OF ns(1), of b ?e1] and k4 = multi_exit_closes_keep [OF ns(2), of b ?e3]
  let ?f = "force_close (cancel_for_symbol (mu_broker ?e2) s) s \<bar>p_qty pos\<bar> sd (b_timestamp b) fp"
  have pf3: "\<exists>tr. mu_portfolio ?e3 = annotate_last_trade (apply_fill (mu_portfolio ?e2) ?f) tr None (Some reason)"
    and tr3: "hm_get (mu_position_trackers ?e3) s = None"
    using k2 pos side by (auto simp: multi_exit_close_def Let_def)
  have "\<not> still_open (apply_fill (mu_portfolio ?e2) ?f) s"
    using close_flattens [of "mu_portfolio ?e2" ?f pos] k2 pos fin side by simp
  then have flat: "\<not> still_open (mu_portfolio ?e3) s" using pf3 by auto
  have "?f \<in> set (pf_fills (mu_portfolio ?e3))" using pf3 by (auto simp: apply_fill_def Let_def split_beta)
  then have "?f \<in> set (pf_fills (mu_portfolio (multi_exit_checks e b)))" using k4 by (auto simp: e4)
  moreover have "slip (cancel_for_symbol (mu_broker ?e2) s) sd = slip (mu_broker e) sd"
    using k2 by (simp add: slip_def cancel_for_symbol_def split: side.split)
  ultimately show ?thesis using flat tr3 k4
    by (auto simp: e4 still_open_def force_close_def intro!: bexI [of _ ?f])
qed

definition long_btc :: "(unit, any_sizer) multi_engine" where
  "long_btc = fresh_multi\<lparr>
     mu_portfolio := (portfolio_new (Fin 40000))\<lparr>pf_positions := [(''BTC'',
       \<lparr>p_symbol = ''BTC'', p_qty = Fin 1, p_avg_price = Fin 60000, p_entry_timestamp = 0,
        p_entry_commission = 0, p_realized_pnl = 0\<rparr>)]\<rparr>,
     mu_position_trackers := [(''BTC'', tracker_with_levels (Fin 60000) (Some (Fin 55000)) None None None True)]\<rparr>"

definition eth_bar :: bar where
  "eth_bar = bar_new 60000 ''ETH'' (Fin 3000) (Fin 3010) (Fin 2990) (Fin 3005) (Fin 1)"

lemma eth_bar_stops_btc:
  "\<exists>fp. snd (update_and_check (tracker_with_levels (Fin 60000) (Some (Fin 55000)) None None None True)
     (b_open eth_bar) (b_high eth_bar) (b_low eth_bar) (b_close eth_bar) (mu_intra_bar_mode long_btc)) = Some (fp, RStopLoss)"
  by (simp add: long_btc_def fresh_multi_def multi_new_def eth_bar_def bar_new_def uac_result Let_def tp_first_def
      find_stop_def find_level_def trail_stop_price_def check_stop_def or_else_def uac_tracker tracker_with_levels_def
      List.map_filter_def)

theorem multi_exit_applies_to_every_symbol_witness:
  "b_symbol eth_bar = ''ETH'' \<and> still_open (mu_portfolio long_btc) ''BTC'' \<and>
   \<not> still_open (mu_portfolio (multi_exit_checks long_btc eth_bar)) ''BTC''"
proof -
  let ?pos = "\<lparr>p_symbol = ''BTC'', p_qty = Fin 1, p_avg_price = Fin 60000, p_entry_timestamp = 0,
        p_entry_commission = 0, p_realized_pnl = 0\<rparr>"
  obtain fp where fires: "snd (update_and_check (tracker_with_levels (Fin 60000) (Some (Fin 55000)) None None None True)
     (b_open eth_bar) (b_high eth_bar) (b_low eth_bar) (b_close eth_bar) (mu_intra_bar_mode long_btc)) = Some (fp, RStopLoss)"
    using eth_bar_stops_btc by blast
  have "hm_ok (mu_position_trackers long_btc)"
    and "hm_get (mu_position_trackers long_btc) ''BTC'' = Some (tracker_with_levels (Fin 60000) (Some (Fin 55000)) None None None True)"
    and "hm_get (pf_positions (mu_portfolio long_btc)) ''BTC'' = Some ?pos" and "is_finite (p_qty ?pos)"
    by (simp_all add: long_btc_def)
  note multi_exit_applies_to_every_symbol [OF this(1,2) fires this(3,4) refl]
  moreover have "still_open (mu_portfolio long_btc) ''BTC''"
    by (simp add: long_btc_def still_open_def f64_simps)
  ultimately show ?thesis by (simp add: eth_bar_def bar_new_def)
qed

end
