(* ===== verification/F64_Functions.thy ===== *)
theory F64_Functions
  imports F64 "HOL-Library.Multiset"
begin

text \<open>
  The methods of \<open>f64\<close> that the reports use beside arithmetic: \<open>sqrt\<close> (correctly rounded, as IEEE 754
  requires), \<open>ceil\<close>, \<open>powi\<close> (repeated squaring, as compiled code does it), \<open>clamp\<close> and sorting with
  \<open>partial_cmp\<close>. The functions whose precision Rust leaves unspecified are the record \<open>libm\<close>, a
  parameter of the definitions that call them.
\<close>

record libm =
  lm_exp :: "f64 \<Rightarrow> f64"
  lm_ln :: "f64 \<Rightarrow> f64"
  lm_powf :: "f64 \<Rightarrow> f64 \<Rightarrow> f64"

fun isqrt :: "nat \<Rightarrow> nat" where
  "isqrt n =
     (if n = 0 then 0
      else let r = 2 * isqrt (n div 4) in if (r + 1)\<^sup>2 \<le> n then r + 1 else r)"

declare isqrt.simps [simp del]

definition sqrt_fin :: "rat \<Rightarrow> rat" where
  "sqrt_fin q =
     (let e = ilog2 q div 2 - 52; s = q / 2 powi (2 * e); m = isqrt (nat \<lfloor>s\<rfloor>)
      in of_nat (if (of_nat m + 1 / 2)\<^sup>2 < s then m + 1 else m) * 2 powi e)"

fun fsqrt :: "f64 \<Rightarrow> f64" where
  "fsqrt (Fin q) = (if q < 0 then NaN else if q = 0 then Fin 0 else Fin (sqrt_fin q))"
| "fsqrt PInf = PInf"
| "fsqrt NZero = NZero"
| "fsqrt _ = NaN"

fun fceil :: "f64 \<Rightarrow> f64" where
  "fceil (Fin q) = (if q < 0 \<and> \<lceil>q\<rceil> = 0 then NZero else Fin (of_int \<lceil>q\<rceil>))"
| "fceil x = x"

function powi_loop :: "f64 \<Rightarrow> f64 \<Rightarrow> nat \<Rightarrow> f64" where
  "powi_loop r a b =
     (let r' = (if odd b then r * a else r)
      in if b div 2 = 0 then r' else powi_loop r' (a * a) (b div 2))"
  by pat_completeness auto
termination by (relation "measure (\<lambda>(r, a, b). b)") auto

declare powi_loop.simps [simp del]

definition f_powi :: "f64 \<Rightarrow> nat \<Rightarrow> f64" where
  "f_powi a b = powi_loop 1 a b"

definition fclamp :: "f64 \<Rightarrow> f64 \<Rightarrow> f64 \<Rightarrow> f64" where
  "fclamp x lo hi = (if x < lo then lo else if hi < x then hi else x)"

text \<open>\<open>sort_by(|a, b| a.partial_cmp(b).unwrap_or(Equal))\<close>, a stable sort; with NaN the order is unspecified.\<close>

fun insert_f64 :: "f64 \<Rightarrow> f64 list \<Rightarrow> f64 list" where
  "insert_f64 x [] = [x]"
| "insert_f64 x (y # ys) = (if x < y then x # y # ys else y # insert_f64 x ys)"

definition sort_f64 :: "f64 list \<Rightarrow> f64 list" where
  "sort_f64 xs = foldl (\<lambda>acc x. insert_f64 x acc) [] xs"

section \<open>Square roots\<close>

lemma isqrt_bounds: "(isqrt n)\<^sup>2 \<le> n" "n < (isqrt n + 1)\<^sup>2"
proof (induction n rule: isqrt.induct)
  case (1 n)
  have "(isqrt n)\<^sup>2 \<le> n \<and> n < (isqrt n + 1)\<^sup>2"
  proof (cases "n = 0")
    case False
    let ?h = "isqrt (n div 4)"
    have h: "?h\<^sup>2 \<le> n div 4" "n div 4 < (?h + 1)\<^sup>2" using 1 False by simp_all
    have "(2 * ?h)\<^sup>2 = 4 * ?h\<^sup>2" by (simp add: power2_eq_square)
    also have "\<dots> \<le> 4 * (n div 4)" using h(1) by simp
    finally have lo: "(2 * ?h)\<^sup>2 \<le> n" using div_mult_mod_eq [of n 4] by linarith
    have "n < 4 * (n div 4 + 1)" by presburger
    also have "\<dots> \<le> 4 * (?h + 1)\<^sup>2" using h(2) by simp
    also have "\<dots> = (2 * ?h + 2)\<^sup>2" by (simp add: power2_eq_square algebra_simps)
    finally have hi: "n < (2 * ?h + 2)\<^sup>2" .
    show ?thesis using lo hi False by (subst (1 2) isqrt.simps) (simp add: Let_def)
  qed (simp add: isqrt.simps [of 0])
  then show "(isqrt n)\<^sup>2 \<le> n" "n < (isqrt n + 1)\<^sup>2" by simp_all
qed

text \<open>The result is a multiple of the unit in the last place and the nearest one to the exact square root.\<close>

lemma sqrt_fin_nearest:
  assumes "0 < q"
  defines "u \<equiv> 2 powi (ilog2 q div 2 - 52)"
  shows "\<exists>m. sqrt_fin q = of_nat m * u \<and> (of_nat m = (0::rat) \<or> (of_nat m - 1 / 2)\<^sup>2 * u\<^sup>2 < q) \<and> q \<le> (of_nat m + 1 / 2)\<^sup>2 * u\<^sup>2"
proof -
  define s where "s = q / 2 powi (2 * (ilog2 q div 2 - 52))"
  define m where "m = isqrt (nat \<lfloor>s\<rfloor>)"
  have u2: "2 powi (2 * (ilog2 q div 2 - 52)) = u\<^sup>2" unfolding u_def
    by (simp only: power2_eq_square mult_2) (simp only: power_int_add zero_neq_numeral [symmetric] simp_thms if_True)
  have u: "0 < u\<^sup>2" by (simp add: u_def)
  have s: "0 \<le> s" "q = s * u\<^sup>2" using assms(1) u unfolding s_def u2 by simp_all
  have f: "of_nat (nat \<lfloor>s\<rfloor>) \<le> s" "s < of_nat (nat \<lfloor>s\<rfloor>) + 1" using s(1) floor_correct [of s] by simp_all
  have "(of_nat (m\<^sup>2) :: rat) \<le> of_nat (nat \<lfloor>s\<rfloor>)" unfolding m_def using isqrt_bounds(1) of_nat_mono by blast
  then have lo: "(of_nat m)\<^sup>2 \<le> s" using f(1) by simp
  have "nat \<lfloor>s\<rfloor> + 1 \<le> (m + 1)\<^sup>2" using isqrt_bounds(2) [of "nat \<lfloor>s\<rfloor>"] by (simp add: m_def)
  then have "(of_nat (nat \<lfloor>s\<rfloor> + 1) :: rat) \<le> of_nat ((m + 1)\<^sup>2)" by (rule of_nat_mono)
  then have hi: "s < (of_nat m + 1)\<^sup>2" using f(2) by (simp add: add.commute)
  show ?thesis
  proof (cases "(of_nat m + 1 / 2)\<^sup>2 < s")
    case True
    have "(of_nat m + 1 :: rat)\<^sup>2 \<le> (of_nat (m + 1) + 1 / 2)\<^sup>2" by (intro power_mono) simp_all
    then have "s \<le> (of_nat (m + 1) + 1 / 2)\<^sup>2" using hi by linarith
    then have "q \<le> (of_nat (m + 1) + 1 / 2)\<^sup>2 * u\<^sup>2" unfolding s(2) using u by (intro mult_right_mono) simp_all
    moreover have "(of_nat (m + 1) - 1 / 2)\<^sup>2 < s" using True by (simp add: add.commute)
    then have "(of_nat (m + 1) - 1 / 2)\<^sup>2 * u\<^sup>2 < q" unfolding s(2) using u by (intro mult_strict_right_mono)
    moreover have "sqrt_fin q = of_nat (m + 1) * u"
      using True unfolding sqrt_fin_def Let_def u_def s_def m_def by (simp only: if_True)
    ultimately show ?thesis by blast
  next
    case False
    then have "q \<le> (of_nat m + 1 / 2)\<^sup>2 * u\<^sup>2" unfolding s(2) using u by (intro mult_right_mono) simp_all
    moreover have "(of_nat m - 1 / 2)\<^sup>2 * u\<^sup>2 < q" if "m \<noteq> 0"
    proof -
      have "(of_nat m - 1 / 2 :: rat)\<^sup>2 < (of_nat m)\<^sup>2" using that by (intro power_strict_mono) simp_all
      then have "(of_nat m - 1 / 2)\<^sup>2 < s" using lo by linarith
      then show ?thesis unfolding s(2) using u by (intro mult_strict_right_mono)
    qed
    moreover have "sqrt_fin q = of_nat m * u"
      using False unfolding sqrt_fin_def Let_def u_def s_def m_def by (simp only: if_False)
    ultimately show ?thesis by (intro exI [of _ m]) auto
  qed
qed

lemma fsqrt_nan: "fsqrt x = NaN \<longleftrightarrow> x = NaN \<or> x < 0"
  by (cases x) (auto simp: less_f64_def zero_f64_def)

lemma fsqrt_nonneg: "0 \<le> x \<Longrightarrow> 0 \<le> fsqrt x"
  by (cases x) (auto simp: zero_f64_def sqrt_fin_def Let_def)

section \<open>Powers\<close>

lemma fmul_one: "wf64 x \<Longrightarrow> 1 * x = x"
proof (cases x)
  case (Fin q)
  moreover assume "wf64 x"
  ultimately show ?thesis
    by (cases "q = 0") (simp_all add: times_f64_def one_f64_def fl_signed_representable fl_signed_int)
qed (simp_all add: times_f64_def one_f64_def signed_inf_def fl_signed_def)

lemma f_powi_2: "f_powi x 2 = x * x"
proof -
  have "f_powi x 2 = 1 * (x * x)"
    by (simp add: f_powi_def powi_loop.simps [of _ _ 2] powi_loop.simps [of _ _ "Suc 0"] Let_def)
  then show ?thesis by (simp add: fmul_one wf64_arith)
qed

section \<open>Sorting\<close>

lemma mset_insert_f64 [simp]: "mset (insert_f64 x ys) = add_mset x (mset ys)"
  by (induction ys) simp_all

lemma mset_sort_f64 [simp]: "mset (sort_f64 xs) = mset xs"
proof -
  have "mset (foldl (\<lambda>acc x. insert_f64 x acc) acc xs) = mset acc + mset xs" for acc
    by (induction xs arbitrary: acc) simp_all
  then show ?thesis by (simp add: sort_f64_def)
qed

lemma length_sort_f64 [simp]: "length (sort_f64 xs) = length xs"
  by (metis mset_sort_f64 size_mset)

lemma set_sort_f64 [simp]: "set (sort_f64 xs) = set xs"
  by (metis mset_sort_f64 set_mset_mset)

lemma sorted_insert_f64:
  "sorted_wrt (\<le>) ys \<Longrightarrow> x \<noteq> NaN \<Longrightarrow> NaN \<notin> set ys \<Longrightarrow> sorted_wrt (\<le>) (insert_f64 x ys)"
proof (induction ys)
  case (Cons y ys)
  have s: "set (insert_f64 x ys) = insert x (set ys)" by (metis mset_insert_f64 set_mset_add_mset_insert set_mset_mset)
  have "x \<le> z" if "x < y" "z \<in> set ys" for z using that Cons.prems(1) fle_trans [OF fless_imp_le [OF that(1)], of z] by simp
  then show ?case using Cons by (auto simp: s fless_imp_le fnot_less)
qed simp

lemma sorted_sort_f64: "NaN \<notin> set xs \<Longrightarrow> sorted_wrt (\<le>) (sort_f64 xs)"
proof -
  assume "NaN \<notin> set xs"
  then have "sorted_wrt (\<le>) (sort_f64 xs) \<and> NaN \<notin> set (sort_f64 xs)"
  proof (induction xs rule: rev_induct)
    case (snoc x xs)
    have i: "sort_f64 (xs @ [x]) = insert_f64 x (sort_f64 xs)" by (simp add: sort_f64_def)
    show ?case using snoc sorted_insert_f64 [of "sort_f64 xs" x] set_sort_f64 [of "xs @ [x]"] by (auto simp: i)
  qed (simp add: sort_f64_def)
  then show ?thesis by simp
qed

end
