(* ===== verification/Metrics.thy ===== *)
theory Metrics
  imports Market_Types F64_Functions "HOL-Library.Signed_Division" "HOL-Library.Product_Lexorder"
begin

text \<open>
  \<open>alm-report/src/metrics.rs\<close>: the statistics of an equity curve and of a list of closed trades.
  Sums fold from the left as \<open>iter().sum()\<close> does. A function that indexes a slice returns \<open>None\<close>
  where the index would be out of range and the code would panic. Rust's integer division truncates
  towards zero: \<open>sdiv\<close>.
\<close>

section \<open>Moments\<close>

fun bar_returns :: "f64 list \<Rightarrow> f64 list" where
  "bar_returns (a # b # rest) = (b - a) / a # bar_returns (b # rest)"
| "bar_returns _ = []"

definition daily_returns :: "f64 list \<Rightarrow> f64 list" where
  "daily_returns eq = bar_returns eq"

definition mean :: "f64 list \<Rightarrow> f64" where
  "mean v = (if v = [] then 0 else fsum v / f64_of_nat (length v))"

definition std_dev :: "f64 list \<Rightarrow> f64" where
  "std_dev v =
     (if length v < 2 then 0
      else let m = mean v;
               var = fsum (map (\<lambda>x. f_powi (x - m) 2) v) / f64_of_nat (length v - 1)
           in fsqrt var)"

definition std_dev_pop :: "f64 list \<Rightarrow> f64" where
  "std_dev_pop v =
     (if v = [] then 0
      else let m = mean v;
               var = fsum (map (\<lambda>x. f_powi (x - m) 2) v) / f64_of_nat (length v)
           in fsqrt var)"

definition nth_opt :: "'a list \<Rightarrow> nat \<Rightarrow> 'a option" where
  "nth_opt xs i = (if i < length xs then Some (xs ! i) else None)"

definition percentile_interpolated :: "f64 list \<Rightarrow> f64 \<Rightarrow> f64 option" where
  "percentile_interpolated srt p =
     (let n = length srt in
      if n = 0 then Some 0
      else if n = 1 then nth_opt srt 0
      else let idx = p * f64_of_nat (n - 1);
               low = usize_of_f64 (ffloor idx);
               high = usize_of_f64 (fceil idx);
               fract = idx - f64_of_nat low
           in case (nth_opt srt low, nth_opt srt high) of
                (Some l, Some h) \<Rightarrow> Some (l + fract * (h - l))
              | _ \<Rightarrow> None)"

section \<open>Risk-adjusted ratios\<close>

definition sharpe_ratio :: "f64 list \<Rightarrow> f64 \<Rightarrow> f64 \<Rightarrow> f64" where
  "sharpe_ratio rs rf ann =
     (if length rs < 2 then 0
      else let excess = map (\<lambda>r. r - rf) rs; m = mean excess; s = std_dev excess
           in if s < f64_epsilon then 0 else m / s * fsqrt ann)"

definition sortino_ratio :: "f64 list \<Rightarrow> f64 \<Rightarrow> f64 \<Rightarrow> f64" where
  "sortino_ratio rs rf ann =
     (let n = length rs in
      if n < 2 then 0
      else let excess = map (\<lambda>r. r - rf) rs; m = mean excess;
               downside_sq_sum = fsum (map (\<lambda>e. if e < 0 then e * e else 0) excess)
           in if downside_sq_sum < f64_epsilon then PInf
              else let downside_dev = fsqrt (downside_sq_sum / f64_of_nat n)
                   in if downside_dev < f64_epsilon then 0 else m / downside_dev * fsqrt ann)"

text \<open>The second pass of \<open>sharpe_sortino\<close>: \<open>(sum_sq_dev, downside_sq, has_downside)\<close>.\<close>

definition sharpe_pass :: "f64 \<Rightarrow> f64 \<Rightarrow> f64 \<times> f64 \<times> bool \<Rightarrow> f64 \<Rightarrow> f64 \<times> f64 \<times> bool" where
  "sharpe_pass rf excess_mean = (\<lambda>(sum_sq_dev, downside_sq, has_downside) r.
     (let e = r - rf; dev = e - excess_mean; sum' = sum_sq_dev + dev * dev
      in if e < 0 then (sum', downside_sq + e * e, True) else (sum', downside_sq, has_downside)))"

definition sharpe_sortino :: "f64 list \<Rightarrow> f64 \<Rightarrow> f64 \<Rightarrow> f64 \<times> f64" where
  "sharpe_sortino rs rf ann =
     (let n = length rs in
      if n < 2 then (0, 0)
      else let excess_mean = fsum (map (\<lambda>r. r - rf) rs) / f64_of_nat n;
               (sum_sq_dev, downside_sq, has_downside) = foldl (sharpe_pass rf excess_mean) (0, 0, False) rs;
               sqrt_ann = fsqrt ann;
               std = fsqrt (sum_sq_dev / f64_of_nat (n - 1));
               sharpe = (if std < f64_epsilon then 0 else excess_mean / std * sqrt_ann);
               sortino = (if \<not> has_downside then PInf
                          else let downside_dev = fsqrt (downside_sq / f64_of_nat n)
                               in if downside_dev < f64_epsilon then 0 else excess_mean / downside_dev * sqrt_ann)
           in (sharpe, sortino))"

section \<open>Drawdowns\<close>

record drawdown_state =
  dd_peak :: f64
  dd_max :: f64
  dd_max_bars :: nat
  dd_start :: nat
  dd_sum :: f64
  dd_count :: nat

definition drawdown_step :: "drawdown_state \<Rightarrow> nat \<times> f64 \<Rightarrow> drawdown_state" where
  "drawdown_step d0 = (\<lambda>(i, eq).
     (let d = (if dd_peak d0 \<le> eq then d0\<lparr>dd_peak := eq, dd_start := i\<rparr>
               else let duration = i - dd_start d0
                    in if dd_max_bars d0 < duration then d0\<lparr>dd_max_bars := duration\<rparr> else d0);
          dd = (dd_peak d - eq) / dd_peak d;
          d1 = (if dd_max d < dd then d\<lparr>dd_max := dd\<rparr> else d)
      in if 0 < dd then d1\<lparr>dd_sum := dd_sum d1 + dd, dd_count := dd_count d1 + 1\<rparr> else d1))"

definition drawdown_stats :: "f64 list \<Rightarrow> f64 \<times> nat \<times> f64" where
  "drawdown_stats eq =
     (case eq of
        [] \<Rightarrow> (0, 0, 0)
      | e0 # _ \<Rightarrow>
          (let d = foldl drawdown_step
                     \<lparr>dd_peak = e0, dd_max = 0, dd_max_bars = 0, dd_start = 0, dd_sum = 0, dd_count = 0\<rparr>
                     (enumerate 0 eq);
               avg_dd = (if 0 < dd_count d then dd_sum d / f64_of_nat (dd_count d) else 0)
           in (dd_max d, dd_max_bars d, avg_dd)))"

fun rolling_dd :: "f64 \<Rightarrow> f64 list \<Rightarrow> f64 list" where
  "rolling_dd peak [] = []"
| "rolling_dd peak (eq # rest) =
     (let peak' = (if peak < eq then eq else peak)
      in (peak' - eq) / peak' * lit 100 # rolling_dd peak' rest)"

definition rolling_drawdown :: "f64 list \<Rightarrow> f64 list" where
  "rolling_drawdown eq = (case eq of [] \<Rightarrow> [] | e0 # _ \<Rightarrow> rolling_dd e0 eq)"

fun ulcer_squares :: "f64 \<Rightarrow> f64 list \<Rightarrow> f64 list" where
  "ulcer_squares peak [] = []"
| "ulcer_squares peak (e # rest) =
     (let peak' = (if peak < e then e else peak);
          dd = (if f64_epsilon < peak' then (peak' - e) / peak' * lit 100 else 0)
      in dd * dd # ulcer_squares peak' rest)"

definition ulcer_index :: "f64 list \<Rightarrow> f64" where
  "ulcer_index eq =
     (case eq of
        e0 # _ # _ \<Rightarrow> fsqrt (fsum (ulcer_squares e0 eq) / f64_of_nat (length eq))
      | _ \<Rightarrow> 0)"

section \<open>Trades\<close>

abbreviation is_loser :: "trade \<Rightarrow> bool" where "is_loser t \<equiv> \<not> is_winner t"

definition profit_factor_of :: "f64 \<Rightarrow> f64 \<Rightarrow> f64" where
  "profit_factor_of gross_profit gross_loss =
     (if f64_epsilon < gross_loss then gross_profit / gross_loss else if 0 < gross_profit then PInf else 0)"

definition avg_win_of :: "trade list \<Rightarrow> f64 \<Rightarrow> f64" where
  "avg_win_of wins cap = (if wins = [] then 0 else fsum (map (\<lambda>t. t_pnl t / cap) wins) / f64_of_nat (length wins))"

definition avg_loss_of :: "trade list \<Rightarrow> f64 \<Rightarrow> f64" where
  "avg_loss_of losses cap =
     (if losses = [] then 0 else fsum (map (\<lambda>t. \<bar>t_pnl t\<bar> / cap) losses) / f64_of_nat (length losses))"

definition trade_stats :: "trade list \<Rightarrow> f64 \<Rightarrow> f64 \<times> f64 \<times> f64 \<times> f64 \<times> f64" where
  "trade_stats trades cap =
     (if trades = [] \<or> \<bar>cap\<bar> < f64_epsilon then (0, 0, 0, 0, 0)
      else let wins = filter is_winner trades;
               losses = filter is_loser trades;
               win_rate = f64_of_nat (length wins) / f64_of_nat (length trades);
               gross_profit = fsum (map t_pnl wins);
               gross_loss = fsum (map (\<lambda>t. \<bar>t_pnl t\<bar>) losses);
               profit_factor = profit_factor_of gross_profit gross_loss;
               avg_win = avg_win_of wins cap;
               avg_loss = avg_loss_of losses cap;
               loss_rate = 1 - win_rate;
               expectancy = win_rate * avg_win - loss_rate * avg_loss
           in (win_rate, profit_factor, expectancy, avg_win, avg_loss))"

text \<open>The loop of the two streak counters: \<open>(max, current)\<close>.\<close>

definition streak_step :: "('a \<Rightarrow> bool) \<Rightarrow> nat \<times> nat \<Rightarrow> 'a \<Rightarrow> nat \<times> nat" where
  "streak_step P = (\<lambda>(mx, current) t. if P t then (max mx (current + 1), current + 1) else (mx, 0))"

definition max_consecutive_losses :: "trade list \<Rightarrow> nat" where
  "max_consecutive_losses trades = fst (foldl (streak_step is_loser) (0, 0) trades)"

definition max_consecutive_wins :: "trade list \<Rightarrow> nat" where
  "max_consecutive_wins trades = fst (foldl (streak_step is_winner) (0, 0) trades)"

definition largest_win_loss :: "trade list \<Rightarrow> f64 \<Rightarrow> f64 \<times> f64" where
  "largest_win_loss trades cap =
     (if \<bar>cap\<bar> < f64_epsilon then (0, 0)
      else (foldl fmax 0 (map (\<lambda>t. t_pnl t / cap) (filter is_winner trades)),
            foldl fmax 0 (map (\<lambda>t. \<bar>t_pnl t\<bar> / cap) (filter is_loser trades))))"

record direction_stats =
  ds_count :: nat
  ds_win_rate :: f64
  ds_profit_factor :: f64
  ds_avg_win_pct :: f64
  ds_avg_loss_pct :: f64
  ds_expectancy :: f64

definition side_stats :: "trade list \<Rightarrow> f64 \<Rightarrow> direction_stats" where
  "side_stats trades cap =
     (if trades = [] \<or> \<bar>cap\<bar> < f64_epsilon
      then \<lparr>ds_count = 0, ds_win_rate = 0, ds_profit_factor = 0, ds_avg_win_pct = 0, ds_avg_loss_pct = 0,
            ds_expectancy = 0\<rparr>
      else let wins = filter is_winner trades;
               losses = filter is_loser trades;
               win_rate = f64_of_nat (length wins) / f64_of_nat (length trades);
               gross_profit = fsum (map t_pnl wins);
               gross_loss = fsum (map (\<lambda>t. \<bar>t_pnl t\<bar>) losses);
               avg_win = avg_win_of wins cap;
               avg_loss = avg_loss_of losses cap
           in \<lparr>ds_count = length trades, ds_win_rate = win_rate,
               ds_profit_factor = profit_factor_of gross_profit gross_loss,
               ds_avg_win_pct = avg_win, ds_avg_loss_pct = avg_loss,
               ds_expectancy = win_rate * avg_win - (1 - win_rate) * avg_loss\<rparr>)"

definition direction_split :: "trade list \<Rightarrow> f64 \<Rightarrow> direction_stats \<times> direction_stats" where
  "direction_split trades cap =
     (side_stats (filter (\<lambda>t. t_side t = Buy) trades) cap, side_stats (filter (\<lambda>t. t_side t = Sell) trades) cap)"

definition sqn :: "trade list \<Rightarrow> f64 \<Rightarrow> f64" where
  "sqn trades cap =
     (if length trades < 2 \<or> \<bar>cap\<bar> < f64_epsilon then 0
      else let r = map (\<lambda>t. t_pnl t / cap) trades; m = mean r; s = std_dev r
           in if s < f64_epsilon then 0 else fsqrt (f64_of_nat (length trades)) * m / s)"

section \<open>Months and years\<close>

text \<open>A \<open>BTreeMap\<close> is an association list in the order of its keys.\<close>

fun bt_insert :: "'k::linorder \<Rightarrow> 'v \<Rightarrow> ('k \<times> 'v) list \<Rightarrow> ('k \<times> 'v) list" where
  "bt_insert k v [] = [(k, v)]"
| "bt_insert k v ((k', v') # m) =
     (if k < k' then (k, v) # (k', v') # m else if k = k' then (k, v) # m else (k', v') # bt_insert k v m)"

definition ts_to_year_month :: "int \<Rightarrow> int \<times> int" where
  "ts_to_year_month ts_ms =
     (let days = ts_ms sdiv 86400000;
          z = days + 719468;
          era = (if 0 \<le> z then z else z - 146096) sdiv 146097;
          doe = z - era * 146097;
          yoe = (doe - doe sdiv 1460 + doe sdiv 36524 - doe sdiv 146096) sdiv 365;
          y = yoe + era * 400;
          doy = doe - (365 * yoe + yoe sdiv 4 - yoe sdiv 100);
          mp = (5 * doy + 2) sdiv 153;
          month = (if mp < 10 then mp + 3 else mp - 9);
          year = (if month \<le> 2 then y + 1 else y)
      in (year, month))"

fun month_changes :: "((int \<times> int) \<times> f64) list \<Rightarrow> (int \<times> int \<times> f64) list" where
  "month_changes ((k0, eq_start) # (k1, eq_end) # rest) =
     (if f64_epsilon < \<bar>eq_start\<bar>
      then (fst k1, snd k1, (eq_end - eq_start) / eq_start * lit 100) # month_changes ((k1, eq_end) # rest)
      else month_changes ((k1, eq_end) # rest))"
| "month_changes _ = []"

definition monthly_returns :: "(int \<times> f64) list \<Rightarrow> (int \<times> int \<times> f64) list" where
  "monthly_returns curve =
     (if length curve < 2 then []
      else month_changes (foldl (\<lambda>m (ts, eq). bt_insert (ts_to_year_month ts) eq m) [] curve))"

definition yearly_returns :: "(int \<times> int \<times> f64) list \<Rightarrow> (int \<times> f64) list" where
  "yearly_returns monthly =
     map (\<lambda>(y, v). (y, (v - 1) * lit 100))
       (foldl (\<lambda>m (year, _, ret_pct).
          bt_insert year ((case map_of m year of Some v \<Rightarrow> v | None \<Rightarrow> 1) * (1 + ret_pct / lit 100)) m) [] monthly)"

section \<open>Shape of the distribution\<close>

definition skewness :: "f64 list \<Rightarrow> f64" where
  "skewness v =
     (if length v < 3 then 0
      else let m = mean v; s = std_dev_pop v
           in if s < f64_epsilon then 0
              else fsum (map (\<lambda>x. f_powi ((x - m) / s) 3) v) / f64_of_nat (length v))"

definition excess_kurtosis :: "f64 list \<Rightarrow> f64" where
  "excess_kurtosis v =
     (if length v < 4 then 0
      else let m = mean v; s = std_dev_pop v
           in if s < f64_epsilon then 0
              else fsum (map (\<lambda>x. f_powi ((x - m) / s) 4) v) / f64_of_nat (length v) - lit 3)"

definition f64_PI :: f64 where "f64_PI = lit (314159265358979323846264338327950288 / 10 ^ 35)"
definition f64_E :: f64 where "f64_E = lit (271828182845904523536028747135266250 / 10 ^ 35)"

definition normal_cdf :: "libm \<Rightarrow> f64 \<Rightarrow> f64" where
  "normal_cdf lm x =
     (let t = 1 / (1 + lit (2316419 / 10 ^ 7) * \<bar>x\<bar>);
          pdf = lm_exp lm (lit (- (1 / 2)) * x * x) / fsqrt (lit 2 * f64_PI);
          q = pdf * t * (lit (319381530 / 10 ^ 9) + t * (lit (- (356563782 / 10 ^ 9)) +
                t * (lit (1781477937 / 10 ^ 9) + t * (lit (- (1821255978 / 10 ^ 9)) + t * lit (1330274429 / 10 ^ 9)))))
      in if 0 \<le> x then 1 - q else q)"

text \<open>Horner evaluation \<open>((c0*q + c1)*q + c2)...\<close> as the source writes it.\<close>

definition horner :: "f64 list \<Rightarrow> f64 \<Rightarrow> f64" where
  "horner cs q = (case cs of [] \<Rightarrow> 0 | c # rest \<Rightarrow> foldl (\<lambda>acc c. acc * q + c) c rest)"

definition probit_A :: "f64 list" where
  "probit_A = map (\<lambda>n. lit (of_int n / 10 ^ 24))
     [- 39696830286653760000000000, 220946098424520500000000000, - 275928510446968700000000000,
      138357751867269000000000000, - 30664798066147160000000000, 2506628277459239000000000]"

definition probit_B :: "f64 list" where
  "probit_B = map (\<lambda>n. lit (of_int n / 10 ^ 24))
     [- 54476098798224060000000000, 161585836858040900000000000, - 155698979859886600000000000,
      66801311887719720000000000, - 13280681552885720000000000]"

definition probit_C :: "f64 list" where
  "probit_C = map (\<lambda>n. lit (of_int n / 10 ^ 24))
     [- 7784894002430293000000, - 322396458041136500000000, - 2400758277161838000000000,
      - 2549732539343734000000000, 4374664141464968000000000, 2938163982698783000000000]"

definition probit_D :: "f64 list" where
  "probit_D = map (\<lambda>n. lit (of_int n / 10 ^ 24))
     [7784695709041462000000, 322467129070039800000000, 2445134137142996000000000, 3754408661907416000000000]"

definition probit :: "libm \<Rightarrow> f64 \<Rightarrow> f64" where
  "probit lm p =
     (let p_low = lit (2425 / 10 ^ 5) in
      if p \<le> 0 then NInf
      else if 1 \<le> p then PInf
      else if p < p_low
      then let q = fsqrt (lit (- 2) * lm_ln lm p)
           in horner probit_C q / (horner probit_D q * q + 1)
      else if p \<le> 1 - p_low
      then let q = p - lit (1 / 2); r = q * q
           in horner probit_A r * q / (horner probit_B r * r + 1)
      else let q = fsqrt (lit (- 2) * lm_ln lm (1 - p))
           in - horner probit_C q / (horner probit_D q * q + 1))"

definition sr_variance :: "f64 list \<Rightarrow> f64 \<Rightarrow> f64" where
  "sr_variance returns sr_hat =
     (let gamma1 = skewness returns; gamma2 = excess_kurtosis returns + lit 3
      in (1 - gamma1 * sr_hat + (gamma2 - 1) / lit 4 * sr_hat * sr_hat) / (f64_of_nat (length returns) - 1))"

definition psr :: "libm \<Rightarrow> f64 list \<Rightarrow> f64 \<Rightarrow> f64" where
  "psr lm returns benchmark_sr =
     (if length returns < 4 then 0
      else let m = mean returns; s = std_dev returns
           in if s < f64_epsilon then 0
              else let sr_hat = m / s; var_sr = sr_variance returns sr_hat
                   in if var_sr \<le> 0 then 0 else normal_cdf lm ((sr_hat - benchmark_sr) / fsqrt var_sr))"

definition dsr :: "libm \<Rightarrow> f64 list \<Rightarrow> nat \<Rightarrow> f64" where
  "dsr lm returns n_trials =
     (if n_trials \<le> 1 \<or> length returns < 4 then psr lm returns 0
      else let m = mean returns; s = std_dev returns
           in if s < f64_epsilon then 0
              else let sr_hat = m / s; var_sr = sr_variance returns sr_hat
                   in if var_sr \<le> 0 then 0
                      else let gamma_em = lit (5772156649 / 10 ^ 10);
                               n = f64_of_nat n_trials;
                               e_max = fsqrt var_sr *
                                 ((1 - gamma_em) * probit lm (1 - 1 / n) + gamma_em * probit lm (1 - 1 / (n * f64_E)))
                           in psr lm returns e_max)"

section \<open>Rolling and tail metrics\<close>

definition rolling_sharpe :: "f64 list \<Rightarrow> nat \<Rightarrow> f64 \<Rightarrow> f64 list" where
  "rolling_sharpe eq window ann =
     (if length eq < 2 then replicate (length eq) 0
      else let returns = bar_returns eq; sqrt_ann = fsqrt ann
           in 0 # map (\<lambda>i. if i + 1 < window then 0
                           else let slice = drop (i + 1 - window) (take (i + 1) returns); m = mean slice; s = std_dev slice
                                in if s < f64_epsilon then 0 else m / s * sqrt_ann) [0..<length returns])"

definition var_cvar_95 :: "f64 list \<Rightarrow> (f64 \<times> f64) option" where
  "var_cvar_95 rs =
     (if length rs < 2 then Some (0, 0)
      else let srt = sort_f64 rs
           in case percentile_interpolated srt (lit (5 / 100)) of
                None \<Rightarrow> None
              | Some var_95 \<Rightarrow>
                  (let tail = filter (\<lambda>x. x \<le> var_95) srt
                   in Some (var_95, if tail = [] then var_95 else mean tail)))"

definition omega_ratio :: "f64 list \<Rightarrow> f64 \<Rightarrow> f64" where
  "omega_ratio rs threshold =
     (if rs = [] then 0
      else let gains = fsum (map (\<lambda>r. fmax (r - threshold) 0) rs);
               losses = fsum (map (\<lambda>r. fmax (threshold - r) 0) rs)
           in if losses < f64_epsilon then if 0 < gains then PInf else 0 else gains / losses)"

definition tail_ratio :: "f64 list \<Rightarrow> f64 option" where
  "tail_ratio rs =
     (if length rs < 2 then Some 0
      else let srt = sort_f64 rs
           in case (percentile_interpolated srt (lit (95 / 100)), percentile_interpolated srt (lit (5 / 100))) of
                (Some p95, Some p05) \<Rightarrow> Some (if \<bar>p05\<bar> < f64_epsilon then 0 else \<bar>p95\<bar> / \<bar>p05\<bar>)
              | _ \<Rightarrow> None)"

definition recovery_factor :: "f64 \<Rightarrow> f64 \<Rightarrow> f64" where
  "recovery_factor total_ret max_dd = (if \<bar>max_dd\<bar> < f64_epsilon then 0 else total_ret / \<bar>max_dd\<bar>)"

definition serenity_ratio :: "f64 \<Rightarrow> f64 \<Rightarrow> f64" where
  "serenity_ratio cagr_pct ui = (if ui < f64_epsilon then 0 else cagr_pct / ui)"

definition kelly_pct :: "f64 \<Rightarrow> f64 \<Rightarrow> f64 \<Rightarrow> f64" where
  "kelly_pct win_rate avg_win avg_loss =
     (if \<bar>avg_loss\<bar> < f64_epsilon \<or> \<bar>avg_win\<bar> < f64_epsilon then 0
      else let r = \<bar>avg_win\<bar> / \<bar>avg_loss\<bar> in fclamp (win_rate - (1 - win_rate) / r) (- 1) 1)"

definition trades_per_year :: "nat \<Rightarrow> f64 \<Rightarrow> f64" where
  "trades_per_year n years = (if years < f64_epsilon then 0 else f64_of_nat n / years)"

definition payoff_ratio :: "f64 \<Rightarrow> f64 \<Rightarrow> f64" where
  "payoff_ratio avg_win avg_loss = (if \<bar>avg_loss\<bar> < f64_epsilon then 0 else \<bar>avg_win\<bar> / \<bar>avg_loss\<bar>)"

definition breakeven_win_rate :: "f64 \<Rightarrow> f64" where
  "breakeven_win_rate pr = (if pr < f64_epsilon then 0 else 1 / (1 + pr) * lit 100)"

definition gross_profit_loss_usd :: "trade list \<Rightarrow> f64 \<times> f64" where
  "gross_profit_loss_usd trades =
     (fsum (map t_pnl (filter is_winner trades)), fsum (map (\<lambda>t. \<bar>t_pnl t\<bar>) (filter is_loser trades)))"

definition avg_bars_held_by_outcome :: "trade list \<Rightarrow> f64 \<times> f64" where
  "avg_bars_held_by_outcome trades =
     (let avg = (\<lambda>v. if v = [] then 0 else fsum (map (\<lambda>t. f64_of_nat (t_bars_held t)) v) / f64_of_nat (length v))
      in (avg (filter is_winner trades), avg (filter is_loser trades)))"

definition mfe_capture_ratio :: "trade list \<Rightarrow> f64" where
  "mfe_capture_ratio trades =
     (let winners = filter (\<lambda>t. is_winner t \<and> f64_epsilon < t_mfe_pct t) trades
      in if winners = [] then 0
         else fsum (map (\<lambda>t. fmax (fmin (t_pnl_pct t / t_mfe_pct t) 1) 0) winners) / f64_of_nat (length winners))"

end
