(* ===== verification/Calendar.thy ===== *)
theory Calendar
  imports Metrics
begin

text \<open>
  The Gregorian calendar, written down from its rules, and the proof that \<open>ts_to_year_month\<close> of
  \<open>alm-report/src/metrics.rs\<close> computes the year and month of an instant since 1970 by it.
\<close>

section \<open>The calendar\<close>

definition is_leap :: "int \<Rightarrow> bool" where
  "is_leap y \<longleftrightarrow> 4 dvd y \<and> (\<not> 100 dvd y \<or> 400 dvd y)"

definition month_len :: "int \<Rightarrow> int \<Rightarrow> int" where
  "month_len y m =
     (if m = 2 then (if is_leap y then 29 else 28) else if m \<in> {4, 6, 9, 11} then 30 else 31)"

text \<open>Days from 1 January 1970 to 1 January of the year \<open>1970 + n\<close>, and to the first of a month.\<close>

fun year_start :: "nat \<Rightarrow> int" where
  "year_start 0 = 0"
| "year_start (Suc n) = year_start n + (\<Sum>m\<leftarrow>[1..12]. month_len (1970 + int n) m)"

definition month_start :: "int \<Rightarrow> int \<Rightarrow> int" where
  "month_start y m = year_start (nat (y - 1970)) + (\<Sum>k\<leftarrow>[1..m - 1]. month_len y k)"

section \<open>Closed forms\<close>

definition years_days :: "int \<Rightarrow> int" where
  "years_days y = 365 * y + y div 4 - y div 100 + y div 400"

lemma div_step: "0 < k \<Longrightarrow> y div k = (y - 1) div k + (if k dvd y then 1 else 0)" for y k :: int
proof (cases "k dvd y")
  case True
  assume k: "0 < k"
  from True obtain j where j: "y = k * j" by blast
  have "y - 1 = k * (j - 1) + (k - 1)" using j by (simp add: algebra_simps)
  then have "(y - 1) div k = (j - 1) + (k - 1) div k" using k by (metis div_mult_self4 less_irrefl)
  also have "(k - 1) div k = 0" using k by simp
  finally show ?thesis using True j k by simp
next
  case False
  assume k: "0 < k"
  then have m: "0 < y mod k" using False by (simp add: dvd_eq_mod_eq_0 order_less_le)
  have "y - 1 = k * (y div k) + (y mod k - 1)" by (simp add: algebra_simps)
  then have "(y - 1) div k = y div k + (y mod k - 1) div k" using k by (metis div_mult_self4 less_irrefl)
  also have "(y mod k - 1) div k = 0" using m k pos_mod_bound [of k y] by (intro div_pos_pos_trivial) linarith+
  finally show ?thesis using False by simp
qed

lemma leap_days: "y div 4 - y div 100 + y div 400 = (y - 1) div 4 - (y - 1) div 100 + (y - 1) div 400 + (if is_leap y then 1 else 0)"
proof -
  have d: "100 dvd y \<Longrightarrow> 4 dvd y" "400 dvd y \<Longrightarrow> 100 dvd y" by presburger+
  define A B C where "A = (y - 1) div 4" and "B = (y - 1) div 100" and "C = (y - 1) div 400"
  have e: "y div 4 = A + (if 4 dvd y then 1 else 0)" "y div 100 = B + (if 100 dvd y then 1 else 0)"
      "y div 400 = C + (if 400 dvd y then 1 else 0)"
    unfolding A_def B_def C_def by (rule div_step, simp)+
  have "y div 4 - y div 100 + y div 400 = A - B + C + (if is_leap y then 1 else 0)"
    unfolding e using d by (cases "4 dvd y"; cases "100 dvd y"; cases "400 dvd y") (simp_all add: is_leap_def)
  then show ?thesis by (simp only: A_def B_def C_def)
qed

lemma years_days_step: "years_days y = years_days (y - 1) + 365 + (if is_leap y then 1 else 0)"
proof -
  define A B C D E F where "A = y div 4" and "B = y div 100" and "C = y div 400"
    and "D = (y - 1) div 4" and "E = (y - 1) div 100" and "F = (y - 1) div 400"
  have "A - B + C = D - E + F + (if is_leap y then 1 else 0)"
    using leap_days [of y] by (simp only: A_def B_def C_def D_def E_def F_def)
  then show ?thesis unfolding years_days_def A_def [symmetric] B_def [symmetric] C_def [symmetric]
      D_def [symmetric] E_def [symmetric] F_def [symmetric] by simp
qed

lemma year_start_closed: "year_start n = years_days (1969 + int n) - 719162"
proof (induction n)
  case 0
  show ?case by (simp add: years_days_def)
next
  case (Suc n)
  have "(\<Sum>m\<leftarrow>[1..12]. month_len (1970 + int n) m) = 365 + (if is_leap (1970 + int n) then 1 else 0)"
    by (simp add: upto.simps month_len_def)
  then show ?case using Suc years_days_step [of "1970 + int n"] by (simp add: algebra_simps)
qed

text \<open>The year of the algorithm begins in March: \<open>Y\<close> is its number, \<open>doy\<close> the day in it.\<close>

lemma month_start_closed:
  assumes "1970 \<le> y" and "1 \<le> m" and "m \<le> 12"
  shows "month_start y m + 719468 =
    (if m \<le> 2 then years_days (y - 1) + (if m = 1 then 306 else 337)
     else years_days y + (153 * (m - 3) + 2) div 5)"
proof -
  have ys: "year_start (nat (y - 1970)) = years_days (y - 1) - 719162"
    using assms(1) by (simp add: year_start_closed algebra_simps)
  have "m \<in> set [1..12]" using assms(2,3) by simp
  moreover have "[1..12] = [1, 2, 3, 4, 5, 6, 7, 8, 9, 10, 11, 12 :: int]" by (simp add: upto.simps)
  ultimately have "m \<in> {1, 2, 3, 4, 5, 6, 7, 8, 9, 10, 11, 12}" by (simp del: set_upto)
  then show ?thesis using years_days_step [of y]
    by (elim insertE emptyE) (simp_all add: month_start_def ys upto.simps month_len_def)
qed

section \<open>The algorithm\<close>

definition cycle_start :: "int \<Rightarrow> int" where
  "cycle_start y = 365 * y + y div 4 - y div 100"

definition year_guess :: "int \<Rightarrow> int" where
  "year_guess doe = (doe - doe div 1460 + doe div 36524 - doe div 146096) div 365"

lemma guess_mono:
  assumes "0 \<le> a" and "a \<le> b" and "b \<le> 146095"
  shows "year_guess a \<le> year_guess b"
proof -
  define a1 b1 a2 b2 where "a1 = a div 1460" and "b1 = b div 1460" and "a2 = a div 36524" and "b2 = b div 36524"
  have "b div 1460 \<le> (a + (b - a) * 1460) div 1460" by (rule zdiv_mono1) (use assms in simp_all)
  also have "\<dots> = a1 + (b - a)" unfolding a1_def by (subst div_mult_self1) simp_all
  finally have "b1 \<le> a1 + (b - a)" by (simp only: b1_def)
  moreover have "a2 \<le> b2" unfolding a2_def b2_def using assms(2) by (rule zdiv_mono1) simp
  moreover have "a div 146096 = 0" "b div 146096 = 0" using assms by (auto intro: div_pos_pos_trivial)
  ultimately show ?thesis unfolding year_guess_def a1_def [symmetric] b1_def [symmetric] a2_def [symmetric] b2_def [symmetric]
    by (intro zdiv_mono1) simp_all
qed

lemma guess_ends:
  "list_all (\<lambda>y. year_guess (cycle_start y) = y \<and> (if y < 399 then year_guess (cycle_start (y + 1) - 1) = y
     else year_guess 146095 = y \<and> year_guess 146096 = y)) [0..399]"
  by code_simp

lemma guess_correct:
  assumes "0 \<le> y" and "y < 400" and "cycle_start y \<le> doe" and "y < 399 \<Longrightarrow> doe < cycle_start (y + 1)" and "doe \<le> 146096"
  shows "year_guess doe = y"
proof -
  have "y \<in> set [0..399]" using assms(1,2) by simp
  then have e: "year_guess (cycle_start y) = y" "y < 399 \<Longrightarrow> year_guess (cycle_start (y + 1) - 1) = y"
      "\<not> y < 399 \<Longrightarrow> year_guess 146095 = y \<and> year_guess 146096 = y"
    using guess_ends unfolding list_all_iff by (metis (no_types, lifting))+
  have pos: "0 \<le> cycle_start y" using assms(1) zdiv_mono2 [of y 4 100] by (simp add: cycle_start_def)
  show ?thesis
  proof (cases "y < 399")
    case True
    have "(y + 1) div 4 \<le> 399 div 4" "0 div 100 \<le> (y + 1) div 100" using True assms(1) by (intro zdiv_mono1; simp)+
    then have "cycle_start (y + 1) - 1 \<le> 146095" using True by (simp add: cycle_start_def)
    then show ?thesis using guess_mono [of "cycle_start y" doe] guess_mono [of doe "cycle_start (y + 1) - 1"] assms(3,4) e(1,2) True pos by force
  next
    case False
    then show ?thesis using guess_mono [of "cycle_start y" doe] guess_mono [of doe 146095] assms(3,5) e(1,3) pos
      by (cases "doe = 146096") force+
  qed
qed

lemma sdiv_nonneg: "0 \<le> a \<Longrightarrow> 0 < b \<Longrightarrow> a sdiv b = a div b" for a b :: int
  by (cases "a = 0") (simp_all add: signed_divide_int_def)

text \<open>What the algorithm does with the day \<open>doy\<close> of the March year \<open>Y\<close>.\<close>

lemma civil_of_days:
  assumes ts: "ts = (years_days Y + doy - 719468) * 86400000 + ms" "0 \<le> ms" "ms < 86400000"
    and day: "0 \<le> doy" "doy < 365 + (if is_leap (Y + 1) then 1 else 0)" and Y: "0 \<le> Y" "719468 \<le> years_days Y + doy"
  shows "ts_to_year_month ts =
    (let mp = (5 * doy + 2) div 153; month = (if mp < 10 then mp + 3 else mp - 9) in (if month \<le> 2 then Y + 1 else Y, month))"
proof -
  define era yoe where "era = Y div 400" and "yoe = Y mod 400"
  have Yd: "Y = 400 * era + yoe" "0 \<le> yoe" "yoe < 400" "0 \<le> era"
    using Y(1) by (simp_all add: era_def yoe_def pos_imp_zdiv_nonneg_iff)
  have "Y div 4 = (yoe + (100 * era) * 4) div 4" "Y div 100 = (yoe + (4 * era) * 100) div 100" by (simp_all add: Yd(1))
  then have q: "Y div 4 = 100 * era + yoe div 4" "Y div 100 = 4 * era + yoe div 100"
    by (simp_all only: div_mult_self1 zero_neq_numeral [symmetric] not_False_eq_True)
  have y365: "365 * Y = 146000 * era + 365 * yoe" using Yd(1) by simp
  define doe where "doe = cycle_start yoe + doy"
  have z: "years_days Y + doy = 146097 * era + doe"
    unfolding years_days_def cycle_start_def doe_def q y365 era_def [symmetric] by simp
  have dv: "400 dvd (Y + 1) \<longleftrightarrow> yoe = 399" "4 dvd (Y + 1) \<longleftrightarrow> 4 dvd (yoe + 1)" "100 dvd (Y + 1) \<longleftrightarrow> 100 dvd (yoe + 1)"
  proof -
    have y: "Y + 1 = 400 * era + (yoe + 1)" using Yd(1) by simp
    have "400 dvd (yoe + 1) \<longleftrightarrow> yoe = 399" using Yd(2,3) zdvd_imp_le [of 400 "yoe + 1"] by auto
    then show "400 dvd (Y + 1) \<longleftrightarrow> yoe = 399" unfolding y by (simp add: dvd_add_right_iff)
    have "4 dvd 400 * era" "100 dvd 400 * era" by (simp_all add: dvd_mult2)
    then show "4 dvd (Y + 1) \<longleftrightarrow> 4 dvd (yoe + 1)" "100 dvd (Y + 1) \<longleftrightarrow> 100 dvd (yoe + 1)"
      unfolding y by (simp_all only: dvd_add_right_iff)
  qed
  have len: "doy < 365 + (if 4 dvd (yoe + 1) then 1 else 0) - (if 100 dvd (yoe + 1) then 1 else 0) + (if yoe = 399 then 1 else 0)"
    using day(2) dv by (auto simp: is_leap_def split: if_splits)
  define s0 s1 where "s0 = cycle_start yoe" and "s1 = cycle_start (yoe + 1)"
  have s1: "s1 = s0 + 365 + (if 4 dvd (yoe + 1) then 1 else 0) - (if 100 dvd (yoe + 1) then 1 else 0)"
    unfolding s0_def s1_def cycle_start_def using div_step [of 4 "yoe + 1"] div_step [of 100 "yoe + 1"] by simp
  have nxt: "doe < s1" if "yoe < 399" using len s1 that by (simp add: doe_def s0_def)
  have s0: "0 \<le> s0" unfolding s0_def cycle_start_def using Yd(2) zdiv_mono2 [of yoe 4 100] by simp
  have lst: "doe \<le> 146096"
  proof (cases "yoe < 399")
    case True
    have "(yoe + 1) div 4 \<le> 399 div 4" "0 div 100 \<le> (yoe + 1) div 100" using True Yd(2) by (intro zdiv_mono1; simp)+
    then have "s1 \<le> 146097" using True by (simp add: cycle_start_def s1_def)
    then show ?thesis using nxt [OF True] by simp
  next
    case False
    then have "yoe = 399" using Yd(3) by simp
    then show ?thesis using len by (simp add: cycle_start_def doe_def)
  qed
  have doe: "0 \<le> doe" "cycle_start yoe \<le> doe" using day(1) s0 by (simp_all add: doe_def s0_def)
  have g: "year_guess doe = yoe" using Yd(2,3) doe(2) nxt lst unfolding s1_def by (intro guess_correct) auto
  have days: "ts sdiv 86400000 = years_days Y + doy - 719468" using ts Y by (simp add: sdiv_nonneg)
  have era: "(146097 * era + doe) sdiv 146097 = era" using lst doe(1) Yd(4) by (simp add: sdiv_nonneg)
  have e1: "doe sdiv 1460 = doe div 1460" "doe sdiv 36524 = doe div 36524" "doe sdiv 146096 = doe div 146096"
      "yoe sdiv 4 = yoe div 4" "yoe sdiv 100 = yoe div 100" "(5 * doy + 2) sdiv 153 = (5 * doy + 2) div 153"
    using doe(1) Yd(2) day(1) by (simp_all add: sdiv_nonneg)
  have "0 \<le> doe - doe div 1460 + doe div 36524 - doe div 146096"
    using g Yd(2) unfolding year_guess_def by (metis pos_imp_zdiv_nonneg_iff zero_less_numeral)
  then have e2: "(doe - doe div 1460 + doe div 36524 - doe div 146096) sdiv 365 = yoe"
    using g by (simp only: sdiv_nonneg year_guess_def zero_less_numeral)
  have e3: "doe - (365 * yoe + yoe div 4 - yoe div 100) = doy" by (simp add: doe_def cycle_start_def)
  have e4: "yoe + era * 400 = Y" using Yd(1) by simp
  have z0: "years_days Y + doy - 719468 + 719468 = 146097 * era + doe" using z by simp
  have zp: "0 \<le> 146097 * era + doe" using doe(1) Yd(4) by simp
  have z1: "146097 * era + doe - era * 146097 = doe" by simp
  show ?thesis
    unfolding ts_to_year_month_def Let_def days z0 if_P [OF zp] era z1 e1 e2 e3 e4 ..
qed

lemma month_len_nonneg: "0 \<le> month_len y m"
  by (simp add: month_len_def)

lemma month_start_nonneg: "0 \<le> month_start y m"
proof -
  have "0 \<le> (\<Sum>k\<leftarrow>ks. month_len y k)" for y ks using month_len_nonneg by (induction ks) simp_all
  moreover from this have "0 \<le> year_start n" for n by (induction n) (simp_all only: year_start.simps add_nonneg_nonneg order_refl)
  ultimately show ?thesis by (simp add: month_start_def)
qed

section \<open>Properties\<close>

text \<open>The month of a report is the calendar month: for every instant from 1970 on, \<open>ts_to_year_month\<close> returns the
  year and the month of the Gregorian calendar the instant falls in.\<close>

theorem month_of_instant:
  assumes "1970 \<le> y" and "1 \<le> m" and "m \<le> 12" and "0 \<le> d" and "d < month_len y m" and "0 \<le> ms" and "ms < 86400000"
  shows "ts_to_year_month ((month_start y m + d) * 86400000 + ms) = (y, m)"
proof -
  define Y where "Y = (if m \<le> 2 then y - 1 else y)"
  define k where "k = (if m \<le> 2 then m + 9 else m - 3)"
  define doy where "doy = (153 * k + 2) div 5 + d"
  have "m \<in> set [1..12]" using assms(2,3) by simp
  moreover have "[1..12] = [1, 2, 3, 4, 5, 6, 7, 8, 9, 10, 11, 12 :: int]" by (simp add: upto.simps)
  ultimately have m: "m \<in> {1, 2, 3, 4, 5, 6, 7, 8, 9, 10, 11, 12}" by (simp del: set_upto)
  have "0 \<le> doy \<and> doy < 365 + (if is_leap (Y + 1) then 1 else 0) \<and> 153 * k \<le> 5 * doy + 2 \<and> 5 * doy + 2 < 153 * (k + 1)"
    using m assms(4,5) by (elim insertE emptyE) (simp_all add: doy_def k_def Y_def month_len_def split: if_splits)
  then have day: "0 \<le> doy" "doy < 365 + (if is_leap (Y + 1) then 1 else 0)" and mp: "(5 * doy + 2) div 153 = k"
    by (simp_all add: int_div_pos_eq [of _ _ _ "5 * doy + 2 - 153 * k"])
  have start: "month_start y m + 719468 = years_days Y + (153 * k + 2) div 5"
    unfolding month_start_closed [OF assms(1-3)] Y_def k_def using m by (elim insertE emptyE) simp_all
  have ts: "(month_start y m + d) * 86400000 + ms = (years_days Y + doy - 719468) * 86400000 + ms"
    and Y: "719468 \<le> years_days Y + doy" "0 \<le> Y"
    using start month_start_nonneg [of y m] assms(1,4) by (simp_all add: doy_def Y_def algebra_simps)
  have "ts_to_year_month ((month_start y m + d) * 86400000 + ms) =
      (let mp = (5 * doy + 2) div 153; month = (if mp < 10 then mp + 3 else mp - 9) in (if month \<le> 2 then Y + 1 else Y, month))"
    by (rule civil_of_days [OF ts assms(6,7) day Y(2,1)])
  also have "\<dots> = (y, m)" using assms(2,3) unfolding mp by (simp add: Y_def k_def)
  finally show ?thesis .
qed

theorem month_of_instant_witness: "ts_to_year_month 1709251199999 = (2024, 2)"
proof -
  have "month_start 2024 2 = 19754" by code_simp
  moreover have "28 < month_len 2024 2" by code_simp
  ultimately show ?thesis using month_of_instant [of 2024 2 28 86399999] by simp
qed

end
