(* ===== verification/Reports.thy ===== *)
theory Reports
  imports Calendar Engine_Core Timeframes
begin

text \<open>
  \<open>BacktestReport\<close> of \<open>alm-report/src/report.rs\<close>: the aggregation of the equity curve to days and the
  report generated from a finished portfolio, and \<open>EngineCore::build_report\<close>. \<open>None\<close> is a panic: an
  index out of range in a percentile, or in the detection of the timeframe.
\<close>

section \<open>The report\<close>

record exit_reason_breakdown =
  xb_signal :: nat
  xb_stop_loss :: nat
  xb_take_profit :: nat
  xb_trailing_stop :: nat
  xb_max_bars :: nat
  xb_end_of_data :: nat

definition no_exits :: exit_reason_breakdown where
  "no_exits = \<lparr>xb_signal = 0, xb_stop_loss = 0, xb_take_profit = 0, xb_trailing_stop = 0, xb_max_bars = 0, xb_end_of_data = 0\<rparr>"

definition count_exit :: "exit_reason_breakdown \<Rightarrow> trade \<Rightarrow> exit_reason_breakdown" where
  "count_exit x t =
     (case t_exit_reason t of
        RSignal \<Rightarrow> x\<lparr>xb_signal := xb_signal x + 1\<rparr>
      | RStopLoss \<Rightarrow> x\<lparr>xb_stop_loss := xb_stop_loss x + 1\<rparr>
      | RTakeProfit \<Rightarrow> x\<lparr>xb_take_profit := xb_take_profit x + 1\<rparr>
      | RTrailingStop \<Rightarrow> x\<lparr>xb_trailing_stop := xb_trailing_stop x + 1\<rparr>
      | RMaxBarsHeld \<Rightarrow> x\<lparr>xb_max_bars := xb_max_bars x + 1\<rparr>
      | REndOfData \<Rightarrow> x\<lparr>xb_end_of_data := xb_end_of_data x + 1\<rparr>)"

record backtest_report =
  rp_strategy :: string
  rp_symbol :: string
  rp_initial_capital :: f64
  rp_final_equity :: f64
  rp_total_return_pct :: f64
  rp_cagr_pct :: f64
  rp_annualized_volatility_pct :: f64
  rp_sharpe_ratio :: f64
  rp_sortino_ratio :: f64
  rp_calmar_ratio :: f64
  rp_max_drawdown_pct :: f64
  rp_max_dd_duration_bars :: nat
  rp_avg_drawdown_pct :: f64
  rp_ulcer_index :: f64
  rp_serenity_ratio :: f64
  rp_total_trades :: nat
  rp_win_rate_pct :: f64
  rp_profit_factor :: f64
  rp_expectancy :: f64
  rp_avg_win_pct :: f64
  rp_avg_loss_pct :: f64
  rp_avg_trade_duration_hours :: f64
  rp_max_consecutive_losses :: nat
  rp_max_consecutive_wins :: nat
  rp_largest_win_pct :: f64
  rp_largest_loss_pct :: f64
  rp_payoff_ratio :: f64
  rp_breakeven_win_rate_pct :: f64
  rp_gross_profit_usd :: f64
  rp_gross_loss_usd :: f64
  rp_avg_bars_held_winners :: f64
  rp_avg_bars_held_losers :: f64
  rp_trades_per_year :: f64
  rp_total_commission_paid :: f64
  rp_avg_mae_pct :: f64
  rp_avg_mfe_pct :: f64
  rp_mfe_capture_ratio :: f64
  rp_mae_mfe_ratio :: f64
  rp_var_95 :: f64
  rp_cvar_95 :: f64
  rp_omega_ratio :: f64
  rp_tail_ratio :: f64
  rp_recovery_factor :: f64
  rp_skewness :: f64
  rp_excess_kurtosis :: f64
  rp_psr :: f64
  rp_sqn :: f64
  rp_kelly_pct :: f64
  rp_long_stats :: direction_stats
  rp_short_stats :: direction_stats
  rp_monthly_returns :: "(int \<times> int \<times> f64) list"
  rp_yearly_returns :: "(int \<times> f64) list"
  rp_rolling_sharpe :: "f64 list"
  rp_rolling_drawdown :: "f64 list"
  rp_rolling_sharpe_std :: f64
  rp_timeframe :: timeframe
  rp_regime_summary :: "regime_summary option"
  rp_exit_reasons :: exit_reason_breakdown

section \<open>Daily aggregation\<close>

definition day_ms :: int where "day_ms = 86400000"

definition daily_map :: "equity_point list \<Rightarrow> (int \<times> f64) list" where
  "daily_map curve = foldl (\<lambda>m p. bt_insert (ep_timestamp p sdiv day_ms) (ep_equity p) m) [] curve"

definition aggregate_to_daily :: "portfolio \<Rightarrow> f64 list \<times> f64" where
  "aggregate_to_daily pf =
     (if pf_equity_curve pf = [] then ([], lit 252)
      else let days = daily_map (pf_equity_curve pf);
               daily_equity = pf_initial_capital pf # map snd days;
               n = length daily_equity
           in if n < 2 then (daily_equity, lit 252)
              else let first_day = f64_of_int (fst (hd days));
                       last_day = f64_of_int (fst (last days));
                       elapsed_years = (last_day - first_day + 1) / lit (36525 / 100)
                   in (daily_equity,
                       if lit (1 / 10 ^ 6) < elapsed_years then f64_of_nat (n - 1) / elapsed_years else lit 252))"

definition duration_years :: "equity_point list \<Rightarrow> f64" where
  "duration_years curve =
     (if 1 < length curve
      then f64_of_int (ep_timestamp (last curve) - ep_timestamp (hd curve)) /
             (lit (36525 / 100) * lit 24 * lit 3600 * lit 1000)
      else 1)"

definition cagr_of :: "libm \<Rightarrow> f64 \<Rightarrow> f64 \<Rightarrow> f64 \<Rightarrow> f64" where
  "cagr_of lm final_eq initial years =
     (if 0 < years then (lm_powf lm (final_eq / initial) (1 / years) - 1) * lit 100 else 0)"

section \<open>Generation\<close>

definition generate :: "libm \<Rightarrow> string \<Rightarrow> string \<Rightarrow> portfolio \<Rightarrow> f64 \<Rightarrow> backtest_report option" where
  "generate lm strategy_name symbol pf risk_free_annual =
     (let curve = pf_equity_curve pf;
          equity = map ep_equity curve;
          initial = pf_initial_capital pf;
          final_eq = (case last_opt equity of Some e \<Rightarrow> e | None \<Rightarrow> initial);
          total_return = (final_eq - initial) / initial * lit 100;
          years = duration_years curve;
          cagr = cagr_of lm final_eq initial years;
          (daily_equity, days_per_year) = aggregate_to_daily pf;
          daily_returns = bar_returns daily_equity;
          ann_vol = std_dev daily_returns * fsqrt days_per_year * lit 100;
          risk_free_daily = lm_powf lm (1 + risk_free_annual) (1 / days_per_year) - 1;
          (sharpe_raw, sortino_raw) = sharpe_sortino daily_returns risk_free_daily days_per_year;
          (max_dd, max_dd_bars, avg_dd) = drawdown_stats equity;
          calmar = (if f64_epsilon < \<bar>max_dd\<bar> then cagr / (max_dd * lit 100) else 0);
          trades = pf_trades pf;
          total_trades = length trades;
          no_trades = (total_trades = 0);
          (win_rate, profit_factor, _, avg_win, avg_loss) = trade_stats trades initial;
          (largest_win, largest_loss) = largest_win_loss trades initial;
          (long_stats, short_stats) = direction_split trades initial;
          monthly = monthly_returns (map (\<lambda>p. (ep_timestamp p, ep_equity p)) curve);
          rolling = rolling_sharpe equity 30 days_per_year;
          ui = ulcer_index equity;
          avg_mae = (if 0 < total_trades then fsum (map t_mae_pct trades) / f64_of_nat total_trades * lit 100 else 0);
          avg_mfe = (if 0 < total_trades then fsum (map t_mfe_pct trades) / f64_of_nat total_trades * lit 100 else 0);
          pr = payoff_ratio avg_win avg_loss;
          (gross_profit, gross_loss) = gross_profit_loss_usd trades;
          (avg_bars_winners, avg_bars_losers) = avg_bars_held_by_outcome trades
      in case (detect (map ep_timestamp curve), var_cvar_95 daily_returns, tail_ratio daily_returns) of
           (Some timeframe, Some (var_95, cvar_95), Some tail) \<Rightarrow>
             Some \<lparr>rp_strategy = strategy_name, rp_symbol = symbol, rp_initial_capital = initial,
               rp_final_equity = final_eq, rp_total_return_pct = total_return, rp_cagr_pct = cagr,
               rp_annualized_volatility_pct = ann_vol,
               rp_sharpe_ratio = (if no_trades then 0 else sharpe_raw),
               rp_sortino_ratio = (if no_trades then 0 else sortino_raw), rp_calmar_ratio = calmar,
               rp_max_drawdown_pct = max_dd * lit 100, rp_max_dd_duration_bars = max_dd_bars,
               rp_avg_drawdown_pct = avg_dd * lit 100, rp_ulcer_index = ui,
               rp_serenity_ratio = serenity_ratio cagr ui, rp_total_trades = total_trades,
               rp_win_rate_pct = win_rate * lit 100, rp_profit_factor = profit_factor,
               rp_expectancy = (if 0 < total_trades then (final_eq - initial) / f64_of_nat total_trades else 0),
               rp_avg_win_pct = avg_win * lit 100, rp_avg_loss_pct = avg_loss * lit 100,
               rp_avg_trade_duration_hours =
                 (if 0 < total_trades then fsum (map duration_hours trades) / f64_of_nat total_trades else 0),
               rp_max_consecutive_losses = max_consecutive_losses trades,
               rp_max_consecutive_wins = max_consecutive_wins trades,
               rp_largest_win_pct = largest_win * lit 100, rp_largest_loss_pct = largest_loss * lit 100,
               rp_payoff_ratio = pr, rp_breakeven_win_rate_pct = breakeven_win_rate pr,
               rp_gross_profit_usd = gross_profit, rp_gross_loss_usd = gross_loss,
               rp_avg_bars_held_winners = avg_bars_winners, rp_avg_bars_held_losers = avg_bars_losers,
               rp_trades_per_year = trades_per_year total_trades years,
               rp_total_commission_paid = fsum (map t_commission trades),
               rp_avg_mae_pct = avg_mae, rp_avg_mfe_pct = avg_mfe,
               rp_mfe_capture_ratio = mfe_capture_ratio trades,
               rp_mae_mfe_ratio = (if f64_epsilon < \<bar>avg_mfe\<bar> then avg_mae / avg_mfe else 0),
               rp_var_95 = var_95, rp_cvar_95 = cvar_95, rp_omega_ratio = omega_ratio daily_returns 0,
               rp_tail_ratio = tail, rp_recovery_factor = recovery_factor (total_return / lit 100) max_dd,
               rp_skewness = skewness daily_returns, rp_excess_kurtosis = excess_kurtosis daily_returns,
               rp_psr = (if no_trades then 0 else psr lm daily_returns 0),
               rp_sqn = sqn trades initial,
               rp_kelly_pct = kelly_pct win_rate (avg_win * lit 100) (\<bar>avg_loss\<bar> * lit 100),
               rp_long_stats = long_stats, rp_short_stats = short_stats,
               rp_monthly_returns = monthly, rp_yearly_returns = yearly_returns monthly,
               rp_rolling_sharpe = rolling, rp_rolling_drawdown = rolling_drawdown equity,
               rp_rolling_sharpe_std = std_dev rolling,
               rp_timeframe = timeframe, rp_regime_summary = None,
               rp_exit_reasons = foldl count_exit no_exits trades\<rparr>
         | _ \<Rightarrow> None)"

definition build_report :: "libm \<Rightarrow> 'r engine_core \<Rightarrow> string \<Rightarrow> string \<Rightarrow> f64 \<Rightarrow> backtest_report option" where
  "build_report lm c strategy_name symbol risk_free_annual =
     map_option (\<lambda>r. r\<lparr>rp_regime_summary := build_regime_summary c\<rparr>)
       (generate lm strategy_name symbol (ec_portfolio c) risk_free_annual)"

end
