(* ===== verification/Report_Theorems.thy ===== *)
theory Report_Theorems
  imports Reports
begin

text \<open>
  Properties of the reports: the single-pass ratios agree with the two-pass ones, the drawdown is the
  deepest fall from a running peak, and a report is generated for every portfolio and accounts for
  every trade.
\<close>

section \<open>Sums of squares\<close>

lemma fmul_self_not_nzero [simp]: "x * x \<noteq> NZero" for x :: f64
  by (cases x) (auto simp: times_f64_def signed_inf_def fl_signed_def fl_def Let_def)

lemma fadd_not_nzero: "x \<noteq> NZero \<Longrightarrow> x + y \<noteq> NZero" for x :: f64
  by (auto simp: plus_f64_def fl_signed_def fl_def Let_def)

lemma fadd_zero: "wf64 x \<Longrightarrow> x \<noteq> NZero \<Longrightarrow> x + 0 = x" "wf64 x \<Longrightarrow> x \<noteq> NZero \<Longrightarrow> 0 + x = x"
  by (cases x; auto simp: plus_f64_def zero_f64_def fl_signed_def fl_val_representable fl_representable)+

lemma fsum_from_zero:
  assumes "ys \<noteq> []" and "\<And>y. y \<in> set ys \<Longrightarrow> wf64 y \<and> y \<noteq> NZero"
  shows "fsum ys = foldl (+) 0 ys"
proof (cases ys)
  case (Cons y zs)
  then show ?thesis using assms(2) [of y] by (simp add: fsum_def fadd_neutral fadd_zero)
qed (use assms(1) in simp)

lemma sharpe_pass_fold:
  "foldl (sharpe_pass rf m) (a, b, h) rs =
     (foldl (+) a (map (\<lambda>r. (r - rf - m) * (r - rf - m)) rs),
      foldl (+) b (map (\<lambda>r. (r - rf) * (r - rf)) (filter (\<lambda>r. r - rf < 0) rs)),
      h \<or> (\<exists>r \<in> set rs. r - rf < 0))"
  by (induction rs arbitrary: a b h) (auto simp: sharpe_pass_def Let_def)

definition downside :: "f64 list \<Rightarrow> f64 \<Rightarrow> f64" where
  "downside rs rf = fsum (map (\<lambda>r. if r - rf < 0 then (r - rf) * (r - rf) else 0) rs)"

lemma downside_filter:
  assumes "rs \<noteq> []"
  shows "downside rs rf = foldl (+) 0 (map (\<lambda>r. (r - rf) * (r - rf)) (filter (\<lambda>r. r - rf < 0) rs))"
proof -
  have skip: "foldl (+) a (map (\<lambda>r. if r - rf < 0 then (r - rf) * (r - rf) else 0) xs) =
      foldl (+) a (map (\<lambda>r. (r - rf) * (r - rf)) (filter (\<lambda>r. r - rf < 0) xs))" if "wf64 a" "a \<noteq> NZero" for a xs
    using that by (induction xs arbitrary: a) (auto simp: fadd_zero wf64_arith fadd_not_nzero)
  have "downside rs rf = foldl (+) 0 (map (\<lambda>r. if r - rf < 0 then (r - rf) * (r - rf) else 0) rs)"
    unfolding downside_def using assms representable_of_int [of 0]
    by (intro fsum_from_zero) (auto simp: wf64_arith zero_f64_def split: if_splits)
  also have "\<dots> = foldl (+) 0 (map (\<lambda>r. (r - rf) * (r - rf)) (filter (\<lambda>r. r - rf < 0) rs))"
    using representable_of_int [of 0] by (intro skip) (simp_all add: zero_f64_def)
  finally show ?thesis .
qed

section \<open>Drawdowns\<close>

definition pos_fin :: "f64 \<Rightarrow> bool" where
  "pos_fin x \<longleftrightarrow> wf64 x \<and> is_finite x \<and> 0 < x"

text \<open>The relative fall from \<open>b\<close> to \<open>e\<close>, as the code computes it.\<close>

definition fall :: "f64 \<Rightarrow> f64 \<Rightarrow> f64" where
  "fall b e = (b - e) / b"

text \<open>\<open>j\<close> holds the highest value up to \<open>i\<close>; everything after \<open>j\<close> up to \<open>i\<close> lies below it.\<close>

definition peak_at :: "f64 list \<Rightarrow> nat \<Rightarrow> nat \<Rightarrow> bool" where
  "peak_at xs j i \<longleftrightarrow> j \<le> i \<and> (\<forall>k \<le> i. xs ! k \<le> xs ! j)"

definition under_water :: "f64 list \<Rightarrow> nat \<Rightarrow> nat \<Rightarrow> bool" where
  "under_water xs j i \<longleftrightarrow> j \<le> i \<and> (\<forall>k. j < k \<and> k \<le> i \<longrightarrow> xs ! k < xs ! j)"

lemma pos_fin_Fin: "pos_fin x \<Longrightarrow> \<exists>q. x = Fin q \<and> 0 < q \<and> representable q"
  by (cases x) (auto simp: pos_fin_def zero_f64_def)

lemma fall_self: "pos_fin b \<Longrightarrow> fall b b = 0"
  by (drule pos_fin_Fin) (auto simp: fall_def f64_simps zero_f64_def)

lemma fall_bounds:
  assumes "pos_fin b" and "pos_fin e" and "e \<le> b"
  shows "0 \<le> fall b e \<and> fall b e \<le> 1"
proof -
  obtain q where q: "b = Fin q" "0 < q" "representable q" using pos_fin_Fin [OF assms(1)] by blast
  obtain p where p: "e = Fin p" "0 < p" using pos_fin_Fin [OF assms(2)] by blast
  have b: "0 < b" "is_finite b" using assms(1) by (simp_all add: pos_fin_def)
  have lo: "Fin 0 \<le> b - e" using fl_nonneg [of "q - p"] assms(3) q(1) p(1) by (simp add: arith_Fin zero_f64_def)
  have "fl (q - p) \<le> fl q" using p(2) by (intro fl_mono) simp
  then have hi: "b - e \<le> b" using q p(1) by (simp add: arith_Fin fl_representable)
  have "b / b = 1" using q by (simp add: arith_Fin one_f64_def fl_signed_int)
  moreover have "Fin 0 / b = 0" using q by (simp add: arith_Fin zero_f64_def fl_signed_int)
  ultimately show ?thesis using fdiv_right_mono [OF lo b] fdiv_right_mono [OF hi b] by (simp add: fall_def)
qed

lemma peak_at_snoc [simp]: "i < length xs \<Longrightarrow> peak_at (xs @ [e]) j i = peak_at xs j i"
  by (auto simp: peak_at_def nth_append)

lemma under_water_snoc [simp]: "i < length xs \<Longrightarrow> under_water (xs @ [e]) j i = under_water xs j i"
  by (auto simp: under_water_def nth_append)

definition drawdown_inv :: "f64 list \<Rightarrow> drawdown_state \<Rightarrow> bool" where
  "drawdown_inv xs d \<longleftrightarrow>
     xs \<noteq> [] \<and> dd_start d < length xs \<and> dd_peak d = xs ! dd_start d \<and>
     peak_at xs (dd_start d) (length xs - 1) \<and> under_water xs (dd_start d) (length xs - 1) \<and>
     0 \<le> dd_max d \<and> dd_max d \<le> 1 \<and>
     (\<forall>i < length xs. \<forall>j. peak_at xs j i \<longrightarrow> fall (xs ! j) (xs ! i) \<le> dd_max d) \<and>
     (\<exists>i < length xs. \<exists>j. peak_at xs j i \<and> dd_max d = fall (xs ! j) (xs ! i)) \<and>
     (\<exists>i < length xs. \<exists>j. under_water xs j i \<and> i - j = dd_max_bars d) \<and>
     (\<forall>i < length xs. \<forall>j. under_water xs j i \<longrightarrow> i - j \<le> dd_max_bars d)"

lemma pos_fin_antisym: "pos_fin x \<Longrightarrow> pos_fin y \<Longrightarrow> x \<le> y \<Longrightarrow> y \<le> x \<Longrightarrow> x = y"
  by (drule pos_fin_Fin, drule pos_fin_Fin) auto

lemma peak_value_unique:
  assumes "\<forall>x \<in> set xs. pos_fin x" and "i < length xs" and "peak_at xs j i" and "peak_at xs j' i"
  shows "xs ! j = xs ! j'"
  using assms by (intro pos_fin_antisym) (auto simp: peak_at_def)

definition drawdown_start :: "f64 \<Rightarrow> drawdown_state" where
  "drawdown_start e0 = \<lparr>dd_peak = e0, dd_max = 0, dd_max_bars = 0, dd_start = 0, dd_sum = 0, dd_count = 0\<rparr>"

lemma drawdown_inv_single:
  assumes "pos_fin x"
  shows "drawdown_inv [x] (drawdown_step (drawdown_start x) (0, x))"
proof -
  have x: "x \<le> x" "\<not> (0 :: f64) < 0" "(0 :: f64) \<le> 0" "(0 :: f64) \<le> 1"
    using assms pos_fin_Fin [OF assms] by (auto simp: zero_f64_def one_f64_def)
  have "(x - x) / x = 0" using fall_self [OF assms] by (simp add: fall_def)
  then show ?thesis using x fall_self [OF assms]
    by (auto simp: drawdown_inv_def drawdown_step_def drawdown_start_def Let_def peak_at_def under_water_def)
qed

lemma drawdown_inv_rise:
  assumes inv: "drawdown_inv xs d" and pos: "\<forall>x \<in> set (xs @ [e]). pos_fin x" and up: "dd_peak d \<le> e"
  shows "drawdown_inv (xs @ [e]) (drawdown_step d (length xs, e))"
proof -
  let ?ys = "xs @ [e]" and ?n = "length xs"
  have e: "pos_fin e" "fall e e = 0" using pos fall_self by simp_all
  have "(e - e) / e = 0" using e(2) by (simp add: fall_def)
  moreover have "\<not> dd_max d < 0" using inv fless_asym [of "dd_max d" 0] by (auto simp: drawdown_inv_def)
  ultimately have step: "drawdown_step d (?n, e) = d\<lparr>dd_peak := e, dd_start := ?n\<rparr>"
    using up by (simp add: drawdown_step_def Let_def)
  have "xs ! k \<le> dd_peak d" if "k < ?n" for k using inv that by (auto simp: drawdown_inv_def peak_at_def)
  then have top: "\<forall>k < ?n. xs ! k \<le> e" using up fle_trans by blast
  have ee: "e \<le> e" using pos_fin_Fin [OF e(1)] by auto
  have pk: "peak_at ?ys ?n ?n" using top ee by (auto simp: peak_at_def nth_append less_Suc_eq_le order_le_less)
  have pk_n: "?ys ! j = e" if "peak_at ?ys j ?n" for j
    using peak_value_unique [OF pos, of ?n j ?n] that pk by simp
  have uw_n: "j = ?n" if "under_water ?ys j ?n" for j
  proof (rule ccontr)
    assume "j \<noteq> ?n"
    then have "j < ?n" "e < xs ! j" using that by (auto simp: under_water_def nth_append split: if_splits)
    then show False using top fle_less_trans [of "xs ! j" e "xs ! j"] by simp
  qed
  have m: "0 \<le> dd_max d" "dd_max d \<le> 1" using inv by (simp_all add: drawdown_inv_def)
  have all: "fall (?ys ! j) (?ys ! i) \<le> dd_max d" if "i < length ?ys" "peak_at ?ys j i" for i j
  proof (cases "i < ?n")
    case True
    then have "fall (xs ! j) (xs ! i) \<le> dd_max d" using that inv by (simp add: drawdown_inv_def)
    then show ?thesis using True that(2) by (simp add: nth_append peak_at_def)
  next
    case False
    then have "i = ?n" using that(1) by simp
    then show ?thesis using pk_n [of j] that(2) m(1) e(2) by simp
  qed
  obtain i j where "i < ?n" "peak_at xs j i" "dd_max d = fall (xs ! j) (xs ! i)" using inv by (auto simp: drawdown_inv_def)
  then have ex: "\<exists>i < length ?ys. \<exists>j. peak_at ?ys j i \<and> dd_max d = fall (?ys ! j) (?ys ! i)"
    by (intro exI [of _ i] conjI exI [of _ j]) (auto simp: nth_append peak_at_def)
  obtain i' j' where "i' < ?n" "under_water xs j' i'" "i' - j' = dd_max_bars d" using inv by (auto simp: drawdown_inv_def)
  then have bars: "\<exists>i < length ?ys. \<exists>j. under_water ?ys j i \<and> i - j = dd_max_bars d"
    by (intro exI [of _ i'] conjI exI [of _ j']) simp_all
  have most: "i - j \<le> dd_max_bars d" if "i < length ?ys" "under_water ?ys j i" for i j
  proof (cases "i < ?n")
    case True
    then show ?thesis using that inv by (simp add: drawdown_inv_def)
  next
    case False
    then have "i = ?n" using that(1) by simp
    then show ?thesis using uw_n [of j] that(2) by simp
  qed
  have "under_water ?ys ?n ?n" by (auto simp: under_water_def)
  then show ?thesis unfolding drawdown_inv_def step
    using pk m all ex bars most by simp
qed

lemma drawdown_inv_fall:
  assumes inv: "drawdown_inv xs d" and pos: "\<forall>x \<in> set (xs @ [e]). pos_fin x" and down: "\<not> dd_peak d \<le> e"
  shows "drawdown_inv (xs @ [e]) (drawdown_step d (length xs, e))"
proof -
  let ?ys = "xs @ [e]" and ?n = "length xs" and ?s = "dd_start d"
  let ?f = "fall (xs ! ?s) e"
  have s: "?s < ?n" "dd_peak d = xs ! ?s" using inv by (simp_all add: drawdown_inv_def)
  have ps: "pos_fin e" "pos_fin (xs ! ?s)" using pos s(1) by simp_all
  have lt: "e < xs ! ?s" using down s(2) pos_fin_Fin [OF ps(1)] pos_fin_Fin [OF ps(2)] by auto
  note fb = fall_bounds [OF ps(2,1) fless_imp_le [OF lt]]
  have top: "xs ! k \<le> xs ! ?s" if "k < ?n" for k
    using inv that by (auto simp: drawdown_inv_def peak_at_def)
  have wet: "xs ! k < xs ! ?s" if "?s < k" "k < ?n" for k
    using inv that by (auto simp: drawdown_inv_def under_water_def)
  have pk: "peak_at ?ys ?s ?n" using top lt s(1) by (auto simp: peak_at_def nth_append fless_imp_le)
  have uw: "under_water ?ys ?s ?n" using wet lt s(1) by (auto simp: under_water_def nth_append)
  have pk_n: "?ys ! j = xs ! ?s" if "peak_at ?ys j ?n" for j
    using peak_value_unique [OF pos, of ?n j ?s] that pk s(1) by (simp add: nth_append)
  have uw_n: "?s \<le> j" if "under_water ?ys j ?n" "j < ?s" for j
    using that top [of j] s(1) fless_le_trans [of "xs ! ?s" "xs ! j" "xs ! ?s"] by (auto simp: under_water_def nth_append)
  let ?d = "drawdown_step d (?n, e)"
  have step: "dd_start ?d = ?s" "dd_peak ?d = xs ! ?s" "dd_max ?d = (if dd_max d < ?f then ?f else dd_max d)"
      "dd_max_bars ?d = max (dd_max_bars d) (?n - ?s)"
    using down s(2) by (simp_all add: drawdown_step_def Let_def fall_def)
  have mx: "dd_max d \<le> dd_max ?d" "?f \<le> dd_max ?d" "0 \<le> dd_max ?d" "dd_max ?d \<le> 1"
  proof -
    have m: "0 \<le> dd_max d" "dd_max d \<le> 1" using inv by (simp_all add: drawdown_inv_def)
    then have nn: "dd_max d \<noteq> NaN" "?f \<noteq> NaN" using fb fle_nan by blast+
    show "dd_max d \<le> dd_max ?d" "?f \<le> dd_max ?d" "0 \<le> dd_max ?d" "dd_max ?d \<le> 1"
      unfolding step(3) using m fb nn by (simp_all add: fless_imp_le fnot_less [OF nn])
  qed
  have all: "fall (?ys ! j) (?ys ! i) \<le> dd_max ?d" if "i < length ?ys" "peak_at ?ys j i" for i j
  proof (cases "i < ?n")
    case True
    then have "fall (xs ! j) (xs ! i) \<le> dd_max d" using that inv by (simp add: drawdown_inv_def)
    then show ?thesis using mx(1) True that(2) fle_trans by (auto simp: nth_append peak_at_def)
  next
    case False
    then have "i = ?n" using that(1) by simp
    then show ?thesis using pk_n [of j] that(2) mx(2) by simp
  qed
  have ex: "\<exists>i < length ?ys. \<exists>j. peak_at ?ys j i \<and> dd_max ?d = fall (?ys ! j) (?ys ! i)"
  proof (cases "dd_max d < ?f")
    case True
    then show ?thesis using pk s(1) step(3) by (intro exI [of _ ?n] conjI exI [of _ ?s]) (simp_all add: nth_append)
  next
    case False
    obtain i j where "i < ?n" "peak_at xs j i" "dd_max d = fall (xs ! j) (xs ! i)" using inv by (auto simp: drawdown_inv_def)
    then show ?thesis using False step(3)
      by (intro exI [of _ i] conjI exI [of _ j]) (auto simp: nth_append peak_at_def)
  qed
  have bars: "\<exists>i < length ?ys. \<exists>j. under_water ?ys j i \<and> i - j = dd_max_bars ?d"
  proof (cases "dd_max_bars d < ?n - ?s")
    case True
    then show ?thesis using uw step(4) by (intro exI [of _ ?n] conjI exI [of _ ?s]) simp_all
  next
    case False
    obtain i j where "i < ?n" "under_water xs j i" "i - j = dd_max_bars d" using inv by (auto simp: drawdown_inv_def)
    then show ?thesis using False step(4) by (intro exI [of _ i] conjI exI [of _ j]) simp_all
  qed
  have most: "i - j \<le> dd_max_bars ?d" if "i < length ?ys" "under_water ?ys j i" for i j
  proof (cases "i < ?n")
    case True
    then have "i - j \<le> dd_max_bars d" using that inv by (simp add: drawdown_inv_def)
    then show ?thesis using step(4) by simp
  next
    case False
    then have i: "i = ?n" using that(1) by simp
    then have "?s \<le> j" using that(2) uw_n [of j] by (cases "j < ?s") auto
    then show ?thesis using step(4) i by simp
  qed
  show ?thesis unfolding drawdown_inv_def
    using s(1) pk uw mx(3,4) all ex bars most step(1,2) by (auto simp: nth_append)
qed

lemma drawdown_inv_fold:
  assumes "\<forall>x \<in> set (e0 # xs). pos_fin x"
  shows "drawdown_inv (e0 # xs) (foldl drawdown_step (drawdown_start e0) (enumerate 0 (e0 # xs)))"
  using assms
proof (induction xs rule: rev_induct)
  case Nil
  then show ?case using drawdown_inv_single [of e0] by simp
next
  case (snoc e xs)
  let ?d = "foldl drawdown_step (drawdown_start e0) (enumerate 0 (e0 # xs))"
  have "drawdown_inv (e0 # xs) ?d" using snoc by simp
  moreover have pos: "\<forall>x \<in> set ((e0 # xs) @ [e]). pos_fin x" using snoc.prems by simp
  ultimately have "drawdown_inv ((e0 # xs) @ [e]) (drawdown_step ?d (length (e0 # xs), e))"
    using drawdown_inv_rise drawdown_inv_fall by blast
  moreover have "enumerate 0 (e0 # xs @ [e]) = enumerate 0 (e0 # xs) @ [(length (e0 # xs), e)]"
    by (simp add: enumerate_append_eq)
  ultimately show ?case by simp
qed

section \<open>Properties\<close>

text \<open>The single pass over the returns computes what the separate functions compute: the Sharpe ratio always, and
  the Sortino ratio whenever no return is below the risk-free rate or the sum of the squared
  shortfalls is not below the machine epsilon.\<close>

theorem single_pass_ratios_agree:
  "fst (sharpe_sortino rs rf ann) = sharpe_ratio rs rf ann \<and>
   ((\<forall>r \<in> set rs. \<not> r - rf < 0) \<or> \<not> downside rs rf < f64_epsilon \<longrightarrow>
    snd (sharpe_sortino rs rf ann) = sortino_ratio rs rf ann)"
proof (cases "length rs < 2")
  case False
  then have ne: "rs \<noteq> []" by auto
  let ?m = "fsum (map (\<lambda>r. r - rf) rs) / f64_of_nat (length rs)"
  have m: "mean (map (\<lambda>r. r - rf) rs) = ?m" using ne by (simp add: mean_def)
  have "fsum (map (\<lambda>r. (r - rf - ?m) * (r - rf - ?m)) rs) = foldl (+) 0 (map (\<lambda>r. (r - rf - ?m) * (r - rf - ?m)) rs)"
    using ne by (intro fsum_from_zero) (auto simp: wf64_arith)
  then have sd: "std_dev (map (\<lambda>r. r - rf) rs) =
      fsqrt (foldl (+) 0 (map (\<lambda>r. (r - rf - ?m) * (r - rf - ?m)) rs) / f64_of_nat (length rs - 1))"
    using False unfolding std_dev_def Let_def m by (simp add: f_powi_2 comp_def)
  have ds: "fsum (map (\<lambda>e. if e < 0 then e * e else 0) (map (\<lambda>r. r - rf) rs)) = downside rs rf"
    by (simp add: downside_def comp_def)
  have none: "downside rs rf = 0" if "\<forall>r \<in> set rs. \<not> r - rf < 0"
    using that downside_filter [OF ne, of rf] by (simp add: filter_False)
  have some: "\<exists>r \<in> set rs. r - rf < 0" if "\<not> downside rs rf < f64_epsilon"
    using that none by (metis epsilon_pos(1))
  show ?thesis
    using False none some unfolding sharpe_sortino_def sharpe_ratio_def sortino_ratio_def Let_def sharpe_pass_fold m sd ds
    by (auto simp: downside_filter [OF ne])
qed (simp add: sharpe_sortino_def sharpe_ratio_def sortino_ratio_def Let_def)

theorem single_pass_ratios_agree_witness:
  "snd (sharpe_sortino [Fin 1, Fin 2] 0 (Fin 4)) = sortino_ratio [Fin 1, Fin 2] 0 (Fin 4)"
proof -
  have "\<forall>r \<in> set [Fin 1, Fin 2]. \<not> r - 0 < 0" by (simp add: zero_f64_def f64_simps)
  then show ?thesis using single_pass_ratios_agree [of "[Fin 1, Fin 2]" 0 "Fin 4"] by blast
qed

text \<open>C40. The maximum drawdown of a report is the deepest fall of the equity from its running peak: on a non-empty curve
  of positive finite values it bounds the fall at every point from the highest value so far, it is
  attained, and it lies between 0 and 1. The reported duration is the length of the longest stretch
  that stays below the value at its start.\<close>

theorem drawdown_is_deepest_fall:
  assumes "eq \<noteq> []" and "\<forall>x \<in> set eq. pos_fin x" and "drawdown_stats eq = (mx, bars, av)"
  shows "0 \<le> mx \<and> mx \<le> 1 \<and>
    (\<forall>i < length eq. \<forall>j. peak_at eq j i \<longrightarrow> fall (eq ! j) (eq ! i) \<le> mx) \<and>
    (\<exists>i < length eq. \<exists>j. peak_at eq j i \<and> mx = fall (eq ! j) (eq ! i)) \<and>
    (\<exists>i < length eq. \<exists>j. under_water eq j i \<and> i - j = bars) \<and>
    (\<forall>i < length eq. \<forall>j. under_water eq j i \<longrightarrow> i - j \<le> bars)"
proof -
  obtain e0 xs where eq: "eq = e0 # xs" using assms(1) by (cases eq) auto
  let ?d = "foldl drawdown_step (drawdown_start e0) (enumerate 0 (e0 # xs))"
  have "mx = dd_max ?d" "bars = dd_max_bars ?d"
    using assms(3) by (simp_all add: eq drawdown_stats_def drawdown_start_def Let_def)
  moreover have "drawdown_inv eq ?d" using drawdown_inv_fold [of e0 xs] assms(2) by (simp add: eq)
  ultimately show ?thesis by (simp add: drawdown_inv_def)
qed

lemma pos_fin_int: "0 < n \<Longrightarrow> n \<le> 2 ^ 53 \<Longrightarrow> pos_fin (Fin (of_int n))"
  using representable_of_int [of n] by (simp add: pos_fin_def zero_f64_def)

theorem drawdown_is_deepest_fall_witness:
  "\<exists>mx bars av. drawdown_stats [Fin 100, Fin 50, Fin 100] = (mx, bars, av) \<and> fall (Fin 100) (Fin 50) \<le> mx"
proof -
  let ?eq = "[Fin 100, Fin 50, Fin 100]"
  obtain mx bars av where d: "drawdown_stats ?eq = (mx, bars, av)" by (rule prod_cases3)
  have "\<forall>x \<in> set ?eq. pos_fin x" using pos_fin_int [of 100] pos_fin_int [of 50] by simp
  from drawdown_is_deepest_fall [OF list.distinct(2) this d]
  have all: "\<forall>i < length ?eq. \<forall>j. peak_at ?eq j i \<longrightarrow> fall (?eq ! j) (?eq ! i) \<le> mx" by (elim conjE)
  have "peak_at ?eq 0 1" by (auto simp: peak_at_def le_Suc_eq)
  then have "fall (Fin 100) (Fin 50) \<le> mx" using all [rule_format, of 1 0] by simp
  with d show ?thesis by blast
qed

section \<open>Reports are always generated\<close>

lemma percentile_total:
  assumes "length srt \<le> 2 ^ 53" and p: "0 \<le> p" "p \<le> 1"
  shows "\<exists>v. percentile_interpolated srt p = Some v"
proof (cases "length srt \<le> 1")
  case True
  then show ?thesis by (cases srt) (auto simp: percentile_interpolated_def nth_opt_def)
next
  case False
  define k where "k = length srt - 1"
  have k: "f64_of_nat k = Fin (of_nat k)" "0 < k" "k < length srt"
    using fl_of_int [of "int k"] assms(1) False by (simp_all add: f64_of_nat_def k_def)
  have idx: "p * f64_of_nat k = NZero \<or> (\<exists>r. p * f64_of_nat k = Fin r \<and> 0 \<le> r \<and> r \<le> of_nat k)"
  proof (cases p)
    case (Fin q)
    have "fl (q * of_nat k) \<le> fl (of_nat k)" using p Fin mult_right_mono [of q 1 "of_nat k"] by (intro fl_mono) (simp add: one_f64_def)
    moreover have "0 \<le> fl (q * of_nat k)" using p Fin by (intro fl_nonneg) (simp add: zero_f64_def)
    ultimately have "0 \<le> p * f64_of_nat k" "p * f64_of_nat k \<le> Fin (of_nat k)"
      using k(1) Fin by (simp_all add: arith_Fin f64_of_nat_def)
    then show ?thesis by (cases "p * f64_of_nat k") (simp_all add: zero_f64_def)
  next
    case NZero
    then show ?thesis using k by (simp add: times_f64_def fl_signed_def)
  qed (use p in \<open>auto simp: zero_f64_def one_f64_def\<close>)
  have "usize_of_f64 (ffloor (p * f64_of_nat k)) \<le> k \<and> usize_of_f64 (fceil (p * f64_of_nat k)) \<le> k"
  proof (cases "p * f64_of_nat k = NZero")
    case False
    then obtain r where r: "p * f64_of_nat k = Fin r" "0 \<le> r" "r \<le> of_nat k" using idx by blast
    have "\<lfloor>r\<rfloor> \<le> int k" "\<lceil>r\<rceil> \<le> int k" "0 \<le> \<lceil>r\<rceil>" using r(2,3) by (simp_all add: floor_le_iff ceiling_le_iff)
    then show ?thesis using r by auto
  qed simp
  then have "usize_of_f64 (ffloor (p * f64_of_nat k)) < length srt" "usize_of_f64 (fceil (p * f64_of_nat k)) < length srt"
    using k by linarith+
  then show ?thesis unfolding k_def using False by (simp add: percentile_interpolated_def Let_def nth_opt_def)
qed

lemma percent_literals: "0 \<le> fl (5 / 100)" "fl (5 / 100) \<le> 1" "0 \<le> fl (95 / 100)" "fl (95 / 100) \<le> 1"
  using fl_mono [of "5 / 100" 1] fl_mono [of "95 / 100" 1] by (simp_all add: fl_nonneg one_f64_def)

lemma length_bar_returns: "length (bar_returns eq) = length eq - 1"
  by (induction eq rule: bar_returns.induct) simp_all

lemma length_bt_insert: "length (bt_insert k v m) \<le> Suc (length m)"
  by (induction m) auto

lemma length_daily: "length (fst (aggregate_to_daily pf)) \<le> Suc (length (pf_equity_curve pf))"
proof -
  have "length (foldl (\<lambda>m p. bt_insert (ep_timestamp p sdiv day_ms) (ep_equity p) m) m ps) \<le> length m + length ps" for m ps
  proof (induction ps arbitrary: m)
    case (Cons p ps)
    show ?case using length_bt_insert [of "ep_timestamp p sdiv day_ms" "ep_equity p" m]
        Cons [of "bt_insert (ep_timestamp p sdiv day_ms) (ep_equity p) m"]
      by simp
  qed simp
  from this [of "[]" "pf_equity_curve pf"] show ?thesis
    by (simp add: aggregate_to_daily_def daily_map_def Let_def)
qed

definition exits_total :: "exit_reason_breakdown \<Rightarrow> nat" where
  "exits_total x = xb_signal x + xb_stop_loss x + xb_take_profit x + xb_trailing_stop x + xb_max_bars x + xb_end_of_data x"

lemma exits_count: "exits_total (foldl count_exit x ts) = exits_total x + length ts"
proof (induction ts arbitrary: x)
  case (Cons t ts)
  have "exits_total (count_exit x t) = Suc (exits_total x)"
    by (simp add: exits_total_def count_exit_def split: exit_reason.split)
  then show ?case using Cons by simp
qed simp

lemma streak_bounds: "fst (foldl (streak_step P) (mx, cur) ts) \<le> max mx (cur + length ts)"
proof (induction ts arbitrary: mx cur)
  case (Cons t ts)
  show ?case using Cons [of "max mx (cur + 1)" "cur + 1"] Cons [of mx 0] by (auto simp: streak_step_def max_def split: if_splits)
qed simp

lemma generate_parts:
  assumes "length (pf_equity_curve pf) \<le> 2 ^ 52"
  obtains tf v c t where "detect (map ep_timestamp (pf_equity_curve pf)) = Some tf"
    "var_cvar_95 (bar_returns (fst (aggregate_to_daily pf))) = Some (v, c)"
    "tail_ratio (bar_returns (fst (aggregate_to_daily pf))) = Some t"
proof -
  let ?dr = "bar_returns (fst (aggregate_to_daily pf))"
  have len: "length ?dr \<le> 2 ^ 53" using assms length_daily [of pf] by (simp add: length_bar_returns)
  obtain tf where tf: "detect (map ep_timestamp (pf_equity_curve pf)) = Some tf"
    using detect_total [of "map ep_timestamp (pf_equity_curve pf)"] assms by auto
  obtain p5 where "percentile_interpolated (sort_f64 ?dr) (fl (5 / 100)) = Some p5"
    using percentile_total [OF _ percent_literals(1,2), of "sort_f64 ?dr"] len by auto
  moreover obtain p95 where "percentile_interpolated (sort_f64 ?dr) (fl (95 / 100)) = Some p95"
    using percentile_total [OF _ percent_literals(3,4), of "sort_f64 ?dr"] len by auto
  ultimately have "\<exists>v c. var_cvar_95 ?dr = Some (v, c)" "\<exists>t. tail_ratio ?dr = Some t"
    by (cases "length ?dr < 2"; simp add: var_cvar_95_def tail_ratio_def Let_def)+
  then show thesis using tf that by blast
qed

lemma generate_total:
  assumes "length (pf_equity_curve pf) \<le> 2 ^ 52"
  shows "\<exists>r. generate lm name symbol pf rf = Some r \<and> rp_total_trades r = length (pf_trades pf)"
proof -
  obtain tf v c t where "detect (map ep_timestamp (pf_equity_curve pf)) = Some tf"
    "var_cvar_95 (bar_returns (fst (aggregate_to_daily pf))) = Some (v, c)"
    "tail_ratio (bar_returns (fst (aggregate_to_daily pf))) = Some t"
    using generate_parts [OF assms] .
  note parts = this
  show ?thesis unfolding generate_def Let_def split_beta parts by simp
qed



end
