(* ===== verification/Backtests.thy ===== *)
theory Backtests
  imports Engine_Run Mtf_Parity Multi_Merge Report_Theorems
begin

text \<open>
  The whole \<open>run\<close> methods of the four engines, from the feed to the report: the run of the engine
  followed by the report it builds from its final state. \<open>None\<close> is a panic, in the engine or in the report.
  The theorem shows that a single-symbol backtest always delivers its report.
\<close>

definition engine_backtest ::
  "libm \<Rightarrow> 's strategy \<Rightarrow> 'r risk_manager \<Rightarrow> ('f \<Rightarrow> ('f \<times> bar option) option) \<Rightarrow> string \<Rightarrow> f64 \<Rightarrow>
   ('s, 'r) engine \<Rightarrow> 'f \<Rightarrow> (backtest_report \<times> ('s, 'r) engine) option" where
  "engine_backtest lm st rm nxt symbol risk_free_annual e f =
     (let strategy_name = st_name st (en_strategy e)
      in case engine_run st rm nxt symbol e f of
           None \<Rightarrow> None
         | Some (f', e') \<Rightarrow>
             map_option (\<lambda>r. (r, e')) (build_report lm (en_core e') strategy_name symbol risk_free_annual))"

definition heap_backtest ::
  "libm \<Rightarrow> 's mtf_strategy \<Rightarrow> 'r risk_manager \<Rightarrow> string \<Rightarrow> f64 \<Rightarrow> ('s, 'r) heap_engine \<Rightarrow>
   (backtest_report \<times> ('s, 'r) heap_engine) option" where
  "heap_backtest lm st rm symbol risk_free_annual e =
     (let strategy_name = ms_name st (hn_strategy e); e' = heap_run st rm e
      in map_option (\<lambda>r. (r, e')) (build_report lm (hn_core e') strategy_name symbol risk_free_annual))"

definition pointer_backtest ::
  "libm \<Rightarrow> 's mtf_strategy \<Rightarrow> 'r risk_manager \<Rightarrow> string \<Rightarrow> f64 \<Rightarrow> ('s, 'r) pointer_engine \<Rightarrow>
   (backtest_report \<times> ('s, 'r) pointer_engine) option" where
  "pointer_backtest lm st rm symbol risk_free_annual e =
     (let strategy_name = ms_name st (pn_strategy e)
      in case pointer_run st rm e of
           None \<Rightarrow> None
         | Some e' \<Rightarrow>
             map_option (\<lambda>r. (r, e')) (build_report lm (pn_core e') strategy_name symbol risk_free_annual))"

text \<open>\<open>MultiEngine::run\<close> returns one report per symbol that delivered a bar, each over the whole portfolio.\<close>

definition multi_backtest ::
  "libm \<Rightarrow> 's multi_strategy \<Rightarrow> 'r risk_manager \<Rightarrow> f64 \<Rightarrow> ('s, 'r) multi_engine \<Rightarrow>
   (backtest_report list \<times> ('s, 'r) multi_engine) option" where
  "multi_backtest lm st rm risk_free_annual e =
     (let (e1, last_bars) = multi_loop st rm (e, []); e' = multi_finish (e1, last_bars)
      in map_option (\<lambda>rs. (rs, e'))
           (those (map (\<lambda>s. generate lm (us_name st (mu_strategy e')) s (mu_portfolio e') risk_free_annual)
              (hm_keys last_bars))))"

lemma multi_backtest_runs: "multi_backtest lm st rm rf e = Some (rs, e') \<Longrightarrow> e' = multi_run st rm e"
  by (auto simp: multi_backtest_def multi_run_def Let_def split: prod.splits)

section \<open>The single-symbol backtest delivers its report\<close>

lemma build_report_total:
  "length (pf_equity_curve (ec_portfolio c)) \<le> 2 ^ 52 \<Longrightarrow>
   \<exists>r. build_report lm c name symbol rf = Some r \<and> rp_total_trades r = length (pf_trades (ec_portfolio c))"
  using generate_total [of "ec_portfolio c" lm name symbol rf] by (auto simp: build_report_def)

lemma engine_finish_queue [simp]:
  fixes e :: "('s, 'r) engine"
  shows "ec_bus (en_core (engine_finish e)) = ec_bus (en_core e)"
proof -
  have "ec_bus (foldl (end_close b) c xs) = ec_bus c" for b and c :: "'r engine_core" and xs
    by (induction xs arbitrary: c) (simp_all add: end_close_def Let_def split_beta)
  then show ?thesis by (simp add: engine_finish_def force_close_all_def Let_def split: option.split)
qed

lemma engine_finish_window [simp]: "en_window_size (engine_finish e) = en_window_size e"
  by (simp add: engine_finish_def split: option.split)

lemma engine_bars_window_size [simp]: "en_window_size (foldl (engine_bar st rm) e bs) = en_window_size e"
  by (induction bs arbitrary: e) (simp_all add: engine_bar_window)

lemma length_curve: "length (pf_equity_curve (ec_portfolio (en_core e))) = length (curve_times e)"
  by (simp add: curve_times_def)

lemma engine_backtest_delivers:
  assumes feed: "bar_feed nxt remaining ok" "ok f" and eng: "engine_ok e" "en_bar_window e = []" "0 < en_window_size e"
    and len: "length (pf_equity_curve (ec_portfolio (en_core e))) + length (remaining f) \<le> 2 ^ 52"
  shows "\<exists>r e'. engine_backtest lm st rm nxt symbol rf e f = Some (r, e') \<and>
    e' = engine_finish (foldl (engine_bar st rm) (run_start st symbol e) (remaining f)) \<and>
    rp_total_trades r = length (pf_trades (ec_portfolio (en_core e'))) \<and>
    curve_times e' = curve_times e @ map b_timestamp (filter (trading_bar e) (remaining f)) \<and>
    engine_ok e' \<and> en_window_size e' = en_window_size e"
proof -
  let ?e2 = "foldl (engine_bar st rm) (run_start st symbol e) (remaining f)"
  let ?e' = "engine_finish ?e2"
  note fold = engine_run_folds [OF feed eng, where st = st and rm = rm and symbol = symbol]
  have curve: "curve_times ?e' = curve_times e @ map b_timestamp (filter (trading_bar e) (remaining f))"
    by (simp add: engine_finish_curve fold(3))
  then have "length (pf_equity_curve (ec_portfolio (en_core ?e'))) \<le> 2 ^ 52"
    using len length_filter_le [of "trading_bar e" "remaining f"]
    by (simp only: length_curve length_append length_map)
  then obtain r where r: "build_report lm (en_core ?e') (st_name st (en_strategy e)) symbol rf = Some r"
      "rp_total_trades r = length (pf_trades (ec_portfolio (en_core ?e')))"
    using build_report_total by blast
  moreover have "engine_ok ?e'" using fold(2) by (simp add: engine_ok_def engine_finish_inv)
  ultimately show ?thesis using fold(1) curve by (auto simp: engine_backtest_def Let_def)
qed

end
