(* ===== verification/Walk_Forward.thy ===== *)
theory Walk_Forward
  imports Backtests
begin

text \<open>
  Walk-forward validation, \<open>alm-engine/src/walk_forward.rs\<close>: a strategy is run on a sequence of in-sample
  and out-of-sample windows of one bar slice, with the engine reset before each run. \<open>None\<close> is a panic
  (a slice whose start is after its end) or a loop that does not end (a step of zero bars); both
  loops are partial functions, and the theorems show when they return. Indices are unbounded naturals:
  an index below the length of a slice does not overflow.
\<close>

section \<open>Configuration and results\<close>

datatype walk_forward_mode = WfRolling | WfAnchored

record walk_forward_config =
  wf_is_bars :: nat
  wf_oos_bars :: nat
  wf_step_bars :: nat
  wf_initial_capital :: f64
  wf_risk_free_annual :: f64
  wf_mode :: walk_forward_mode
  wf_embargo_bars :: nat
  wf_min_oos_trades :: "nat option"

definition walk_forward_config_new :: "nat \<Rightarrow> nat \<Rightarrow> f64 \<Rightarrow> walk_forward_config" where
  "walk_forward_config_new is_bars oos_bars capital =
     \<lparr>wf_is_bars = is_bars, wf_oos_bars = oos_bars, wf_step_bars = oos_bars, wf_initial_capital = capital,
      wf_risk_free_annual = lit (4 / 100), wf_mode = WfRolling, wf_embargo_bars = 0, wf_min_oos_trades = None\<rparr>"

record walk_forward_window =
  ww_window :: nat
  ww_is_range :: "nat \<times> nat"
  ww_oos_range :: "nat \<times> nat"
  ww_in_sample :: backtest_report
  ww_out_of_sample :: backtest_report
  ww_oos_equity_curve :: "equity_point list"

record walk_forward_result =
  wr_windows :: "walk_forward_window list"
  wr_avg_oos_sharpe :: f64
  wr_avg_oos_win_rate :: f64
  wr_total_oos_trades :: nat
  wr_avg_oos_return_pct :: f64
  wr_pct_profitable_windows :: f64
  wr_efficiency_ratio :: f64
  wr_oos_equity_curve :: "equity_point list"

section \<open>One run on a slice\<close>

definition slice :: "'a list \<Rightarrow> nat \<Rightarrow> nat \<Rightarrow> 'a list option" where
  "slice xs a b = (if a \<le> b \<and> b \<le> length xs then Some (drop a (take b xs)) else None)"

text \<open>\<open>engine.reset\<close>, \<open>BarVecFeed::new\<close> on the slice and \<open>engine.run\<close>: the three statements every window
  repeats for its probe, its in-sample and its out-of-sample run.\<close>

definition wf_run ::
  "libm \<Rightarrow> 's strategy \<Rightarrow> 'r risk_manager \<Rightarrow> bar list \<Rightarrow> string \<Rightarrow> walk_forward_config \<Rightarrow> ('s, 'r) engine \<Rightarrow> nat \<Rightarrow> nat \<Rightarrow>
   (backtest_report \<times> ('s, 'r) engine) option" where
  "wf_run lm st rm bars symbol cfg e a b =
     (let e0 = engine_reset e (wf_initial_capital cfg)
      in case slice bars a b of
           None \<Rightarrow> None
         | Some bs \<Rightarrow>
             (case bar_vec_new bs symbol of
                None \<Rightarrow> None
              | Some feed \<Rightarrow>
                  engine_backtest lm st rm bar_vec_next (bv_symbol feed) (wf_risk_free_annual cfg) e0 feed))"

section \<open>The loops\<close>

text \<open>Extending the out-of-sample window until it has enough trades.\<close>

partial_function (option) wf_probe ::
  "libm \<Rightarrow> 's strategy \<Rightarrow> 'r risk_manager \<Rightarrow> bar list \<Rightarrow> string \<Rightarrow> walk_forward_config \<Rightarrow> nat \<Rightarrow> nat \<Rightarrow>
   ('s, 'r) engine \<Rightarrow> nat \<Rightarrow> (('s, 'r) engine \<times> nat) option" where
  "wf_probe lm st rm bars symbol cfg min_trades embargo_end e oos_end =
     (if oos_end \<le> embargo_end then Some (e, oos_end)
      else case wf_run lm st rm bars symbol cfg e embargo_end oos_end of
             None \<Rightarrow> None
           | Some (probe_report, e') \<Rightarrow>
               if min_trades \<le> rp_total_trades probe_report \<or> length bars \<le> oos_end then Some (e', oos_end)
               else wf_probe lm st rm bars symbol cfg min_trades embargo_end e'
                      (min (oos_end + wf_oos_bars cfg) (length bars)))"

definition wf_is_start :: "walk_forward_config \<Rightarrow> nat \<Rightarrow> nat" where
  "wf_is_start cfg window_idx = (case wf_mode cfg of WfRolling \<Rightarrow> window_idx * wf_step_bars cfg | WfAnchored \<Rightarrow> 0)"

definition wf_oos_start :: "walk_forward_config \<Rightarrow> nat \<Rightarrow> nat" where
  "wf_oos_start cfg window_idx = wf_is_bars cfg + window_idx * wf_step_bars cfg"

definition wf_extend ::
  "libm \<Rightarrow> 's strategy \<Rightarrow> 'r risk_manager \<Rightarrow> bar list \<Rightarrow> string \<Rightarrow> walk_forward_config \<Rightarrow> nat \<Rightarrow> ('s, 'r) engine \<Rightarrow>
   (('s, 'r) engine \<times> nat) option" where
  "wf_extend lm st rm bars symbol cfg window_idx e =
     (let oos_start = wf_oos_start cfg window_idx; embargo_end = oos_start + wf_embargo_bars cfg;
          oos_end = min (oos_start + wf_oos_bars cfg) (length bars)
      in case wf_min_oos_trades cfg of
           Some min_trades \<Rightarrow> wf_probe lm st rm bars symbol cfg min_trades embargo_end e oos_end
         | None \<Rightarrow> Some (e, oos_end))"

definition wf_window ::
  "libm \<Rightarrow> 's strategy \<Rightarrow> 'r risk_manager \<Rightarrow> bar list \<Rightarrow> string \<Rightarrow> walk_forward_config \<Rightarrow> nat \<Rightarrow> ('s, 'r) engine \<Rightarrow>
   (walk_forward_window \<times> ('s, 'r) engine) option" where
  "wf_window lm st rm bars symbol cfg window_idx e =
     (let is_start = wf_is_start cfg window_idx; is_end = wf_oos_start cfg window_idx;
          embargo_end = is_end + wf_embargo_bars cfg
      in case wf_extend lm st rm bars symbol cfg window_idx e of
           None \<Rightarrow> None
         | Some (e1, oos_end) \<Rightarrow>
             (case wf_run lm st rm bars symbol cfg e1 is_start is_end of
                None \<Rightarrow> None
              | Some (is_report, e2) \<Rightarrow>
                  (case wf_run lm st rm bars symbol cfg e2 embargo_end oos_end of
                     None \<Rightarrow> None
                   | Some (oos_report, e3) \<Rightarrow>
                       Some (\<lparr>ww_window = window_idx, ww_is_range = (is_start, is_end),
                              ww_oos_range = (embargo_end, oos_end), ww_in_sample = is_report,
                              ww_out_of_sample = oos_report,
                              ww_oos_equity_curve = pf_equity_curve (ec_portfolio (en_core e3))\<rparr>, e3))))"

partial_function (option) wf_loop ::
  "libm \<Rightarrow> 's strategy \<Rightarrow> 'r risk_manager \<Rightarrow> bar list \<Rightarrow> string \<Rightarrow> walk_forward_config \<Rightarrow> nat \<Rightarrow> ('s, 'r) engine \<Rightarrow>
   walk_forward_window list \<Rightarrow> (walk_forward_window list \<times> ('s, 'r) engine) option" where
  "wf_loop lm st rm bars symbol cfg window_idx e ws =
     (if length bars \<le> wf_oos_start cfg window_idx then Some (ws, e)
      else if length bars \<le> wf_oos_start cfg window_idx + wf_embargo_bars cfg then Some (ws, e)
      else case wf_window lm st rm bars symbol cfg window_idx e of
             None \<Rightarrow> None
           | Some (w, e') \<Rightarrow>
               if length bars \<le> wf_oos_start cfg (Suc window_idx) + wf_embargo_bars cfg then Some (ws @ [w], e')
               else wf_loop lm st rm bars symbol cfg (Suc window_idx) e' (ws @ [w]))"

section \<open>The aggregate result\<close>

definition stitch_window ::
  "f64 \<Rightarrow> equity_point list \<times> f64 \<Rightarrow> walk_forward_window \<Rightarrow> equity_point list \<times> f64" where
  "stitch_window capital = (\<lambda>(result, scale) w.
     (let curve = ww_oos_equity_curve w
      in if curve = [] then (result, scale)
         else (result @ map (\<lambda>pt. \<lparr>ep_timestamp = ep_timestamp pt, ep_equity = ep_equity pt * scale\<rparr>) curve,
               scale * (ep_equity (last curve) / capital))))"

definition stitch_oos_curves :: "walk_forward_window list \<Rightarrow> f64 \<Rightarrow> equity_point list" where
  "stitch_oos_curves ws capital = fst (foldl (stitch_window capital) ([], 1) ws)"

definition wf_result :: "walk_forward_config \<Rightarrow> walk_forward_window list \<Rightarrow> walk_forward_result" where
  "wf_result cfg ws =
     (if ws = []
      then \<lparr>wr_windows = ws, wr_avg_oos_sharpe = 0, wr_avg_oos_win_rate = 0, wr_total_oos_trades = 0,
            wr_avg_oos_return_pct = 0, wr_pct_profitable_windows = 0, wr_efficiency_ratio = 0,
            wr_oos_equity_curve = []\<rparr>
      else let n_windows = f64_of_nat (length ws); oos = map ww_out_of_sample ws;
               avg_oos_sharpe = fsum (map rp_sharpe_ratio oos) / n_windows;
               profitable = f64_of_nat (length (filter (\<lambda>r. 0 < rp_sharpe_ratio r) oos));
               avg_is_sharpe = fsum (map (\<lambda>w. rp_sharpe_ratio (ww_in_sample w)) ws) / n_windows
           in \<lparr>wr_windows = ws, wr_avg_oos_sharpe = avg_oos_sharpe,
               wr_avg_oos_win_rate = fsum (map rp_win_rate_pct oos) / n_windows,
               wr_total_oos_trades = sum_list (map rp_total_trades oos),
               wr_avg_oos_return_pct = fsum (map rp_total_return_pct oos) / n_windows,
               wr_pct_profitable_windows = profitable / n_windows * lit 100,
               wr_efficiency_ratio = (if f64_epsilon < \<bar>avg_is_sharpe\<bar> then avg_oos_sharpe / avg_is_sharpe else 0),
               wr_oos_equity_curve = stitch_oos_curves ws (wf_initial_capital cfg)\<rparr>)"

definition walk_forward ::
  "libm \<Rightarrow> 's strategy \<Rightarrow> 'r risk_manager \<Rightarrow> ('s, 'r) engine \<Rightarrow> bar list \<Rightarrow> string \<Rightarrow> walk_forward_config \<Rightarrow>
   (walk_forward_result \<times> ('s, 'r) engine) option" where
  "walk_forward lm st rm e bars symbol cfg =
     map_option (\<lambda>(ws, e'). (wf_result cfg ws, e')) (wf_loop lm st rm bars symbol cfg 0 e [])"

definition walk_forward_sync ::
  "libm \<Rightarrow> 's strategy \<Rightarrow> 'r risk_manager \<Rightarrow> f64 \<Rightarrow> 's \<Rightarrow> 'r \<Rightarrow> f64 \<Rightarrow> f64 \<Rightarrow> bar list \<Rightarrow> string \<Rightarrow> walk_forward_config \<Rightarrow>
   walk_forward_result option" where
  "walk_forward_sync lm st rm capital strategy risk commission slippage bars symbol cfg =
     map_option fst (walk_forward lm st rm (engine_sync capital strategy risk commission slippage) bars symbol cfg)"

section \<open>Every run of a window returns\<close>

definition wf_ready :: "(bar \<Rightarrow> bool) \<Rightarrow> ('s, 'r) engine \<Rightarrow> bool" where
  "wf_ready live e \<longleftrightarrow> engine_ok e \<and> 0 < en_window_size e \<and> trading_bar e = live"

lemma trading_bar_cong: "ec_warmup_until (en_core e) = ec_warmup_until (en_core e') \<Longrightarrow> trading_bar e = trading_bar e'"
  by (simp add: trading_bar_def warming_up_def fun_eq_iff)

lemma engine_reset_ready:
  assumes "wf_ready live e"
  shows "engine_ok (engine_reset e cap)" "en_bar_window (engine_reset e cap) = []" "0 < en_window_size (engine_reset e cap)"
    "trading_bar (engine_reset e cap) = live" "pf_equity_curve (ec_portfolio (en_core (engine_reset e cap))) = []"
proof -
  have "trading_bar (engine_reset e cap) = trading_bar e"
    by (rule trading_bar_cong) (simp add: engine_reset_def core_reset_def)
  with assms show "trading_bar (engine_reset e cap) = live" by (simp add: wf_ready_def)
qed (use assms in \<open>simp_all add: wf_ready_def engine_ok_def engine_reset_def core_inv_reset\<close>,
     simp_all add: core_reset_def portfolio_new_def)

lemma engine_bars_trading: "engine_ok e \<Longrightarrow> trading_bar (foldl (engine_bar st rm) e bs) = trading_bar e"
proof (induction bs arbitrary: e)
  case (Cons b bs)
  have "trading_bar (engine_bar st rm e b) = trading_bar e"
    by (rule trading_bar_cong) (rule engine_bar_step(2) [OF Cons.prems])
  then show ?case using Cons.IH [OF engine_bar_step(1) [OF Cons.prems]] by simp
qed simp

lemma engine_finish_trading: "trading_bar (engine_finish e) = trading_bar e" for e :: "('s, 'r) engine"
proof -
  have "ec_warmup_until (foldl (end_close b) c xs) = ec_warmup_until c" for b and c :: "'r engine_core" and xs
    by (induction xs arbitrary: c) (simp_all add: end_close_def Let_def split_beta)
  then show ?thesis
    by (intro trading_bar_cong) (simp add: engine_finish_def force_close_all_def Let_def split: option.split)
qed

lemma wf_run_returns:
  assumes "wf_ready live e" and ab: "a \<le> b" "b \<le> length bars" and len: "length bars \<le> 2 ^ 52"
  shows "\<exists>r e'. wf_run lm st rm bars symbol cfg e a b = Some (r, e') \<and> wf_ready live e' \<and>
    rp_total_trades r = length (pf_trades (ec_portfolio (en_core e'))) \<and>
    curve_times e' = map b_timestamp (filter live (drop a (take b bars)))"
proof -
  let ?bs = "drop a (take b bars)" and ?e = "engine_reset e (wf_initial_capital cfg)"
  note rdy = engine_reset_ready [OF assms(1), of "wf_initial_capital cfg"]
  have "length (map b_timestamp ?bs) \<le> 2 ^ 53" using len ab by simp
  then obtain tf where "detect (map b_timestamp ?bs) = Some tf" using detect_total by blast
  then obtain f where f: "bar_vec_new ?bs symbol = Some f" "bar_vec_remaining f = ?bs" "bv_symbol f = symbol"
    by (auto simp: bar_vec_new_def bar_vec_remaining_def)
  have "length (pf_equity_curve (ec_portfolio (en_core ?e))) + length (bar_vec_remaining f) \<le> 2 ^ 52"
    using len ab rdy(5) f(2) by simp
  from engine_backtest_delivers [OF vec.bar_feed_axioms TrueI rdy(1-3) this]
  obtain r e' where r: "engine_backtest lm st rm bar_vec_next symbol (wf_risk_free_annual cfg) ?e f = Some (r, e')"
      "e' = engine_finish (foldl (engine_bar st rm) (run_start st symbol ?e) ?bs)"
      "rp_total_trades r = length (pf_trades (ec_portfolio (en_core e')))"
      "curve_times e' = curve_times ?e @ map b_timestamp (filter (trading_bar ?e) ?bs)"
      "engine_ok e'" "en_window_size e' = en_window_size ?e"
    unfolding f(2) by blast
  have "trading_bar e' = live"
    using rdy(1,4) by (simp add: r(2) engine_finish_trading engine_bars_trading)
  moreover have "curve_times ?e = []" using rdy(5) by (simp add: curve_times_def)
  ultimately show ?thesis using r f ab rdy(3,4) by (auto simp: wf_run_def slice_def wf_ready_def)
qed

lemma wf_probe_returns:
  assumes "wf_ready live e" and "b \<le> length bars" and "length bars \<le> 2 ^ 52" and "0 < wf_oos_bars cfg"
  shows "\<exists>e' b'. wf_probe lm st rm bars symbol cfg m a e b = Some (e', b') \<and> wf_ready live e' \<and> b \<le> b' \<and> b' \<le> length bars"
  using assms
proof (induction "length bars - b" arbitrary: b e rule: less_induct)
  case less
  show ?case
  proof (cases "b \<le> a")
    case True
    then show ?thesis using less.prems by (simp add: wf_probe.simps)
  next
    case False
    then obtain r e' where r: "wf_run lm st rm bars symbol cfg e a b = Some (r, e')" "wf_ready live e'"
      using wf_run_returns [OF less.prems(1) _ less.prems(2,3), of a lm st rm symbol cfg] by auto
    show ?thesis
    proof (cases "m \<le> rp_total_trades r \<or> length bars \<le> b")
      case True
      then show ?thesis using False r less.prems by (simp add: wf_probe.simps [of _ _ _ _ _ _ _ _ e])
    next
      case more: False
      let ?b = "min (b + wf_oos_bars cfg) (length bars)"
      have "length bars - ?b < length bars - b" using more less.prems by auto
      from less.hyps [OF this r(2)] less.prems
      obtain e2 b2 where "wf_probe lm st rm bars symbol cfg m a e' ?b = Some (e2, b2)" "wf_ready live e2"
          "?b \<le> b2" "b2 \<le> length bars"
        by auto
      then show ?thesis using False more r less.prems by (simp add: wf_probe.simps [of _ _ _ _ _ _ _ _ e])
    qed
  qed
qed

section \<open>The windows\<close>

text \<open>What window \<open>k\<close> must be: the documented ranges, and an out-of-sample curve with exactly one point per live
  bar of its range.\<close>

definition window_meets ::
  "walk_forward_config \<Rightarrow> bar list \<Rightarrow> (bar \<Rightarrow> bool) \<Rightarrow> nat \<Rightarrow> walk_forward_window \<Rightarrow> bool" where
  "window_meets cfg bars live k w \<longleftrightarrow>
     ww_window w = k \<and>
     ww_is_range w = (if wf_mode cfg = WfRolling then k * wf_step_bars cfg else 0, wf_is_bars cfg + k * wf_step_bars cfg) \<and>
     fst (ww_oos_range w) = wf_is_bars cfg + k * wf_step_bars cfg + wf_embargo_bars cfg \<and>
     fst (ww_oos_range w) \<le> snd (ww_oos_range w) \<and> snd (ww_oos_range w) \<le> length bars \<and>
     min (wf_is_bars cfg + k * wf_step_bars cfg + wf_oos_bars cfg) (length bars) \<le> snd (ww_oos_range w) \<and>
     (wf_min_oos_trades cfg = None \<longrightarrow>
      snd (ww_oos_range w) = min (wf_is_bars cfg + k * wf_step_bars cfg + wf_oos_bars cfg) (length bars)) \<and>
     map ep_timestamp (ww_oos_equity_curve w) =
       map b_timestamp (filter live (drop (fst (ww_oos_range w)) (take (snd (ww_oos_range w)) bars)))"

lemma wf_extend_returns:
  fixes cfg :: walk_forward_config and k :: nat
  assumes "wf_ready live e" and "length bars \<le> 2 ^ 52"
  defines "base \<equiv> min (wf_oos_start cfg k + wf_oos_bars cfg) (length bars)"
  shows "\<exists>e' b'. wf_extend lm st rm bars symbol cfg k e = Some (e', b') \<and> wf_ready live e' \<and> base \<le> b' \<and>
    b' \<le> length bars \<and> (wf_min_oos_trades cfg = None \<longrightarrow> b' = base)"
proof (cases "wf_min_oos_trades cfg")
  case None
  then show ?thesis using assms by (simp add: wf_extend_def Let_def)
next
  case (Some m)
  show ?thesis
  proof (cases "wf_oos_bars cfg = 0")
    case True
    then have "base \<le> wf_oos_start cfg k + wf_embargo_bars cfg" by (simp add: base_def min_def)
    then have "wf_probe lm st rm bars symbol cfg m (wf_oos_start cfg k + wf_embargo_bars cfg) e base = Some (e, base)"
      by (simp add: wf_probe.simps)
    then show ?thesis using assms(1) Some by (simp add: wf_extend_def Let_def base_def)
  next
    case False
    then show ?thesis
      using wf_probe_returns [OF assms(1) _ assms(2), of base cfg lm st rm symbol m] Some
      by (simp add: wf_extend_def Let_def base_def)
  qed
qed

lemma wf_window_meets:
  assumes "wf_ready live e" and len: "length bars \<le> 2 ^ 52" and emb: "wf_embargo_bars cfg \<le> wf_oos_bars cfg"
    and k: "wf_oos_start cfg k + wf_embargo_bars cfg < length bars"
  shows "\<exists>w e'. wf_window lm st rm bars symbol cfg k e = Some (w, e') \<and> wf_ready live e' \<and> window_meets cfg bars live k w"
proof -
  let ?o = "wf_oos_start cfg k" and ?i = "wf_is_start cfg k" and ?a = "wf_oos_start cfg k + wf_embargo_bars cfg"
  obtain e1 b where b: "wf_extend lm st rm bars symbol cfg k e = Some (e1, b)" "wf_ready live e1"
      "min (?o + wf_oos_bars cfg) (length bars) \<le> b" "b \<le> length bars"
      "wf_min_oos_trades cfg = None \<longrightarrow> b = min (?o + wf_oos_bars cfg) (length bars)"
    using wf_extend_returns [OF assms(1,2)] by blast
  have i: "?i \<le> ?o" by (simp add: wf_is_start_def wf_oos_start_def split: walk_forward_mode.split)
  obtain r2 e2 where e2: "wf_run lm st rm bars symbol cfg e1 ?i ?o = Some (r2, e2)" "wf_ready live e2"
    using wf_run_returns [OF b(2) i _ len] k by fastforce
  have ab: "?a \<le> b" using b(3) emb k by linarith
  obtain r3 e3 where e3: "wf_run lm st rm bars symbol cfg e2 ?a b = Some (r3, e3)" "wf_ready live e3"
      "curve_times e3 = map b_timestamp (filter live (drop ?a (take b bars)))"
    using wf_run_returns [OF e2(2) ab b(4) len] by blast
  let ?w = "\<lparr>ww_window = k, ww_is_range = (?i, ?o), ww_oos_range = (?a, b), ww_in_sample = r2,
    ww_out_of_sample = r3, ww_oos_equity_curve = pf_equity_curve (ec_portfolio (en_core e3))\<rparr>"
  have "wf_window lm st rm bars symbol cfg k e = Some (?w, e3)"
    using b(1) e2(1) e3(1) by (simp add: wf_window_def Let_def)
  moreover have "window_meets cfg bars live k ?w"
    using b(3-5) e3(3) ab
    by (cases "wf_mode cfg") (simp_all add: window_meets_def curve_times_def wf_is_start_def wf_oos_start_def)
  ultimately show ?thesis using e3(2) by blast
qed

lemma wf_loop_windows:
  assumes "wf_ready live e" and "length bars \<le> 2 ^ 52" and "wf_embargo_bars cfg \<le> wf_oos_bars cfg"
    and "0 < wf_step_bars cfg" and "length ws = k" and "\<forall>j < k. window_meets cfg bars live j (ws ! j)"
    and "\<forall>j < k. wf_oos_start cfg j + wf_embargo_bars cfg < length bars"
  shows "\<exists>ws' e'. wf_loop lm st rm bars symbol cfg k e ws = Some (ws', e') \<and>
    (\<forall>j. j < length ws' \<longleftrightarrow> wf_oos_start cfg j + wf_embargo_bars cfg < length bars) \<and>
    (\<forall>j < length ws'. window_meets cfg bars live j (ws' ! j))"
  using assms
proof (induction "length bars - wf_oos_start cfg k" arbitrary: k e ws rule: less_induct)
  case less
  have stop: "\<forall>j. j < i \<longleftrightarrow> wf_oos_start cfg j + wf_embargo_bars cfg < length bars"
    if "length bars \<le> wf_oos_start cfg i + wf_embargo_bars cfg"
      "\<forall>j < i. wf_oos_start cfg j + wf_embargo_bars cfg < length bars" for i
  proof (intro allI iffI)
    fix j assume j: "wf_oos_start cfg j + wf_embargo_bars cfg < length bars"
    show "j < i"
    proof (rule ccontr)
      assume "\<not> j < i"
      then have "i * wf_step_bars cfg \<le> j * wf_step_bars cfg" by (intro mult_right_mono) auto
      with j that(1) show False by (simp add: wf_oos_start_def)
    qed
  qed (use that(2) in blast)
  show ?case
  proof (cases "length bars \<le> wf_oos_start cfg k + wf_embargo_bars cfg")
    case True
    then show ?thesis using less.prems(5-7) stop [OF True less.prems(7)] by (simp add: wf_loop.simps)
  next
    case False
    then obtain w e' where w: "wf_window lm st rm bars symbol cfg k e = Some (w, e')" "wf_ready live e'"
        "window_meets cfg bars live k w"
      using wf_window_meets [OF less.prems(1-3), of k] by fastforce
    let ?ws = "ws @ [w]"
    have ws: "\<forall>j < Suc k. window_meets cfg bars live j (?ws ! j)"
      using less.prems(5,6) w(3) by (auto simp: nth_append less_Suc_eq)
    have cont: "\<forall>j < Suc k. wf_oos_start cfg j + wf_embargo_bars cfg < length bars"
      using less.prems(7) False by (auto simp: less_Suc_eq)
    have step: "wf_loop lm st rm bars symbol cfg k e ws =
        (if length bars \<le> wf_oos_start cfg (Suc k) + wf_embargo_bars cfg then Some (?ws, e')
         else wf_loop lm st rm bars symbol cfg (Suc k) e' ?ws)"
      using False w(1) by (simp add: wf_loop.simps [of _ _ _ _ _ _ k])
    show ?thesis
    proof (cases "length bars \<le> wf_oos_start cfg (Suc k) + wf_embargo_bars cfg")
      case True
      then show ?thesis using step ws stop [OF True cont] less.prems(5) by simp
    next
      case more: False
      have "length bars - wf_oos_start cfg (Suc k) < length bars - wf_oos_start cfg k"
        using False less.prems(4) by (simp add: wf_oos_start_def)
      from less.hyps [OF this w(2) less.prems(2-4) _ ws cont] show ?thesis using more step less.prems(5) by simp
    qed
  qed
qed

lemma stitch_times:
  "map ep_timestamp (stitch_oos_curves ws capital) = concat (map (\<lambda>w. map ep_timestamp (ww_oos_equity_curve w)) ws)"
proof -
  have "map ep_timestamp (fst (foldl (stitch_window capital) (acc, sc) ws)) =
      map ep_timestamp acc @ concat (map (\<lambda>w. map ep_timestamp (ww_oos_equity_curve w)) ws)" for acc sc
    by (induction ws arbitrary: acc sc) (simp_all add: stitch_window_def Let_def o_def)
  then show ?thesis by (simp add: stitch_oos_curves_def)
qed

lemma wf_window_panics:
  assumes "wf_oos_bars cfg < wf_embargo_bars cfg" and "wf_oos_start cfg k + wf_embargo_bars cfg < length bars"
  shows "wf_window lm st rm bars symbol cfg k e = None"
proof -
  let ?b = "min (wf_oos_start cfg k + wf_oos_bars cfg) (length bars)"
  have b: "?b < wf_oos_start cfg k + wf_embargo_bars cfg" using assms by simp
  then have "wf_extend lm st rm bars symbol cfg k e = Some (e, ?b)"
    by (simp add: wf_extend_def Let_def wf_probe.simps split: option.split)
  moreover have "wf_run lm st rm bars symbol cfg e' (wf_oos_start cfg k + wf_embargo_bars cfg) ?b = None" for e'
    using b by (simp add: wf_run_def slice_def not_le [symmetric] del: min.bounded_iff min_less_iff_disj min_le_iff_disj)
  ultimately show ?thesis by (simp add: wf_window_def Let_def split: option.split)
qed

lemma wf_loop_diverges:
  assumes "wf_step_bars cfg = 0" and "wf_is_bars cfg + wf_embargo_bars cfg < length bars"
  shows "wf_loop lm st rm bars symbol cfg k e ws = None"
proof -
  let ?stuck = "\<lambda>bars cfg. wf_step_bars cfg = 0 \<and> wf_is_bars cfg + wf_embargo_bars cfg < length bars"
  have "\<not> ?stuck bars cfg" if "wf_loop lm st rm bars symbol cfg k e ws = Some y" for y
  proof (rule wf_loop.raw_induct [where P = "\<lambda>lm st rm bars symbol cfg k e ws y. \<not> ?stuck bars cfg", OF _ that])
    fix loop :: "libm \<Rightarrow> 'a strategy \<Rightarrow> 'b risk_manager \<Rightarrow> bar list \<Rightarrow> string \<Rightarrow> walk_forward_config \<Rightarrow> nat \<Rightarrow>
        ('a, 'b) engine \<Rightarrow> walk_forward_window list \<Rightarrow> (walk_forward_window list \<times> ('a, 'b) engine) option"
      and lm st rm bars symbol cfg k e ws y
    assume ih: "\<And>lm st rm bars symbol cfg k e ws y. loop lm st rm bars symbol cfg k e ws = Some y \<Longrightarrow> \<not> ?stuck bars cfg"
      and body: "(if length bars \<le> wf_oos_start cfg k then Some (ws, e)
        else if length bars \<le> wf_oos_start cfg k + wf_embargo_bars cfg then Some (ws, e)
        else case wf_window lm st rm bars symbol cfg k e of
               None \<Rightarrow> None
             | Some (w, e') \<Rightarrow>
                 if length bars \<le> wf_oos_start cfg (Suc k) + wf_embargo_bars cfg then Some (ws @ [w], e')
                 else loop lm st rm bars symbol cfg (Suc k) e' (ws @ [w])) = Some y"
    show "\<not> ?stuck bars cfg"
    proof
      assume c: "?stuck bars cfg"
      then have "\<not> length bars \<le> wf_oos_start cfg j" "\<not> length bars \<le> wf_oos_start cfg j + wf_embargo_bars cfg" for j
        by (simp_all add: wf_oos_start_def)
      with body obtain w e' where "loop lm st rm bars symbol cfg (Suc k) e' (ws @ [w]) = Some y"
        by (auto split: option.splits)
      from ih [OF this] c show False by blast
    qed
  qed
  with assms show ?thesis by (cases "wf_loop lm st rm bars symbol cfg k e ws") auto
qed

section \<open>Properties\<close>



text \<open>The two configurations that walk-forward validation does not refuse and cannot run: with a first
  window to run, an embargo longer than the out-of-sample length slices backwards and panics, and a step
  of zero bars repeats the first window for ever.\<close>

theorem walk_forward_misconfigured:
  assumes "wf_is_bars cfg + wf_embargo_bars cfg < length bars"
    and "wf_oos_bars cfg < wf_embargo_bars cfg \<or> wf_step_bars cfg = 0"
  shows "walk_forward lm st rm e bars symbol cfg = None"
proof (cases "wf_step_bars cfg = 0")
  case True
  then show ?thesis using wf_loop_diverges [OF True assms(1)] by (simp add: walk_forward_def)
next
  case False
  then have "wf_window lm st rm bars symbol cfg 0 e = None"
    using assms by (intro wf_window_panics) (auto simp: wf_oos_start_def)
  then show ?thesis using assms(1) by (simp add: walk_forward_def wf_loop.simps wf_oos_start_def)
qed

theorem walk_forward_misconfigured_witness:
  "walk_forward \<lparr>lm_exp = id, lm_ln = id, lm_powf = (\<lambda>x _. x)\<rparr> buy_once any_sizer_manager example_engine
     (replicate 9 example_bar) ''BTC'' ((walk_forward_config_new 2 2 (Fin 1000))\<lparr>wf_embargo_bars := 3\<rparr>) = None"
  by (rule walk_forward_misconfigured) (simp_all add: walk_forward_config_new_def)

end
