(* ===== verification/Ledger.thy ===== *)
theory Ledger
  imports Timeframes Market_Types
begin

text \<open>
  \<open>alm-ledger\<close>: the live market state. \<open>state.rs\<close> is the window of confirmed bars of one symbol and
  timeframe, \<open>ledger.rs\<close> the map of these states with its observers, \<open>bootstrap.rs\<close> the warm start from
  history. Every operation runs under the write lock of its state, so it is a function of the state it
  locks. An observer is an identifier; what its callback does to the rest of the program is the
  parameter \<open>ob\<close>, which also says whether the callback panicked (the ledger catches that and goes on).
\<close>

section \<open>One symbol and timeframe\<close>

record advance_outcome =
  ao_ts :: int
  ao_skipped :: bool

record symbol_state =
  ss_symbol :: string
  ss_timeframe :: timeframe
  ss_bar_window :: "bar list"
  ss_capacity :: nat
  ss_last_ts :: "int option"
  ss_live_bar :: "bar option"

definition symbol_state_new :: "string \<Rightarrow> timeframe \<Rightarrow> nat \<Rightarrow> symbol_state" where
  "symbol_state_new s tf cap = \<lparr>ss_symbol = s, ss_timeframe = tf, ss_bar_window = [], ss_capacity = cap,
     ss_last_ts = None, ss_live_bar = None\<rparr>"

definition ensure_capacity :: "symbol_state \<Rightarrow> nat \<Rightarrow> symbol_state" where
  "ensure_capacity s wanted = (if ss_capacity s < wanted then s\<lparr>ss_capacity := wanted\<rparr> else s)"

definition state_advance :: "symbol_state \<Rightarrow> bar \<Rightarrow> symbol_state \<times> advance_outcome" where
  "state_advance s b =
     (let ts = b_timestamp b
      in if (case ss_last_ts s of Some l \<Rightarrow> ts \<le> l | None \<Rightarrow> False)
         then (s, \<lparr>ao_ts = ts, ao_skipped = True\<rparr>)
         else (s\<lparr>ss_last_ts := Some ts,
                 ss_bar_window := push_bounded (ss_bar_window s) b (ss_capacity s)\<rparr>,
               \<lparr>ao_ts = ts, ao_skipped = False\<rparr>))"

definition state_advance_live :: "symbol_state \<Rightarrow> bar \<Rightarrow> symbol_state" where
  "state_advance_live s b = s\<lparr>ss_live_bar := Some b\<rparr>"

section \<open>The ledger\<close>

type_synonym symbol_key = "string \<times> timeframe"

record ledger_config =
  lc_default_window :: "(timeframe, nat) hmap"
  lc_fallback_window :: nat

definition default_config :: ledger_config where
  "default_config =
     \<lparr>lc_default_window = [(M1, 2000), (M3, 1500), (M5, 1500), (M15, 1000), (M30, 1000)],
      lc_fallback_window = 1000\<rparr>"

definition default_window_for :: "ledger_config \<Rightarrow> timeframe \<Rightarrow> nat" where
  "default_window_for cfg tf =
     (case hm_get (lc_default_window cfg) tf of Some n \<Rightarrow> n | None \<Rightarrow> lc_fallback_window cfg)"

record 'i ledger =
  ld_cfg :: ledger_config
  ld_states :: "(symbol_key, symbol_state) hmap"
  ld_observers :: "'i list"

definition ledger_new :: "ledger_config \<Rightarrow> 'i ledger" where
  "ledger_new cfg = \<lparr>ld_cfg = cfg, ld_states = [], ld_observers = []\<rparr>"

definition subscribe :: "'i ledger \<Rightarrow> 'i \<Rightarrow> 'i ledger" where
  "subscribe l i = l\<lparr>ld_observers := ld_observers l @ [i]\<rparr>"

text \<open>The state of a key, created with the wanted or the configured capacity.\<close>

definition state_or_new :: "'i ledger \<Rightarrow> string \<Rightarrow> timeframe \<Rightarrow> nat option \<Rightarrow> symbol_state" where
  "state_or_new l s tf wanted =
     (case hm_get (ld_states l) (s, tf) of
        Some st \<Rightarrow> st
      | None \<Rightarrow> symbol_state_new s tf
                  (case wanted of Some c \<Rightarrow> c | None \<Rightarrow> default_window_for (ld_cfg l) tf))"

definition ensure_symbol :: "'i ledger \<Rightarrow> string \<Rightarrow> timeframe \<Rightarrow> nat option \<Rightarrow> 'i ledger \<times> symbol_state" where
  "ensure_symbol l s tf wanted =
     (let st = state_or_new l s tf wanted;
          st' = (case wanted of Some c \<Rightarrow> ensure_capacity st c | None \<Rightarrow> st)
      in (l\<lparr>ld_states := hm_insert (s, tf) st' (ld_states l)\<rparr>, st'))"

definition ledger_keys :: "'i ledger \<Rightarrow> symbol_key list" where
  "ledger_keys l = hm_keys (ld_states l)"

type_synonym ('i, 'w) observer = "'i \<Rightarrow> 'w \<Rightarrow> string \<Rightarrow> timeframe \<Rightarrow> advance_outcome \<Rightarrow> 'w \<times> bool"

text \<open>The loop over the observers; a panic is caught and the next observer is called.\<close>

definition notify :: "('i, 'w) observer \<Rightarrow> 'i list \<Rightarrow> string \<Rightarrow> timeframe \<Rightarrow> advance_outcome \<Rightarrow> 'w \<Rightarrow> 'w" where
  "notify ob obs s tf out w = foldl (\<lambda>w i. fst (ob i w s tf out)) w obs"

definition ledger_advance ::
  "('i, 'w) observer \<Rightarrow> 'i ledger \<Rightarrow> 'w \<Rightarrow> timeframe \<Rightarrow> bar \<Rightarrow> 'i ledger \<times> 'w \<times> advance_outcome option" where
  "ledger_advance ob l w tf b =
     (let (l1, st) = ensure_symbol l (b_symbol b) tf None;
          (st', out) = state_advance st b;
          l2 = l1\<lparr>ld_states := hm_insert (b_symbol b, tf) st' (ld_states l1)\<rparr>
      in if ao_skipped out then (l2, w, None)
         else (l2, notify ob (ld_observers l2) (b_symbol b) tf out w, Some out))"

definition ledger_advance_live :: "'i ledger \<Rightarrow> timeframe \<Rightarrow> bar \<Rightarrow> 'i ledger" where
  "ledger_advance_live l tf b =
     (let (l1, st) = ensure_symbol l (b_symbol b) tf None
      in l1\<lparr>ld_states := hm_insert (b_symbol b, tf) (state_advance_live st b) (ld_states l1)\<rparr>)"

definition with_state :: "'i ledger \<Rightarrow> string \<Rightarrow> timeframe \<Rightarrow> (symbol_state \<Rightarrow> 'a) \<Rightarrow> 'a option" where
  "with_state l s tf f = map_option f (hm_get (ld_states l) (s, tf))"

section \<open>Bootstrap\<close>

record bootstrap_report =
  bp_symbol :: string
  bp_tf :: timeframe
  bp_fed :: nat
  bp_skipped :: nat
  bp_first_ts :: "int option"
  bp_last_ts :: "int option"

definition bootstrap_bar ::
  "symbol_state \<times> nat \<times> nat \<times> int option \<Rightarrow> bar \<Rightarrow> symbol_state \<times> nat \<times> nat \<times> int option" where
  "bootstrap_bar = (\<lambda>(st, fed, skipped, first_ts) b.
     (let (st', out) = state_advance st b
      in if ao_skipped out then (st', fed, skipped + 1, first_ts)
         else (st', fed + 1, skipped, (case first_ts of None \<Rightarrow> Some (b_timestamp b) | Some t \<Rightarrow> Some t))))"

text \<open>The elapsed time in the report is left out.\<close>

definition bootstrap_symbol :: "'i ledger \<Rightarrow> string \<Rightarrow> timeframe \<Rightarrow> bar list \<Rightarrow> 'i ledger \<times> bootstrap_report" where
  "bootstrap_symbol l s tf bars =
     (let (l1, st) = ensure_symbol l s tf None;
          (st', fed, skipped, first_ts) = foldl bootstrap_bar (st, 0, 0, None) bars
      in (l1\<lparr>ld_states := hm_insert (s, tf) st' (ld_states l1)\<rparr>,
          \<lparr>bp_symbol = s, bp_tf = tf, bp_fed = fed, bp_skipped = skipped, bp_first_ts = first_ts,
           bp_last_ts = ss_last_ts st'\<rparr>))"

section \<open>Facts\<close>

text \<open>The reference: of a sequence of bars, those strictly newer than every earlier accepted one.\<close>

fun newer_bars :: "int option \<Rightarrow> bar list \<Rightarrow> bar list" where
  "newer_bars l [] = []"
| "newer_bars l (b # bs) =
     (if (case l of Some t \<Rightarrow> b_timestamp b \<le> t | None \<Rightarrow> False) then newer_bars l bs
      else b # newer_bars (Some (b_timestamp b)) bs)"

lemma newer_bars_sorted:
  "sorted_wrt (\<lambda>a b. b_timestamp a < b_timestamp b) (newer_bars l bs) \<and>
   (\<forall>t b. l = Some t \<longrightarrow> b \<in> set (newer_bars l bs) \<longrightarrow> t < b_timestamp b)"
proof (induction bs arbitrary: l)
  case (Cons b bs)
  show ?case using Cons [of l] Cons [of "Some (b_timestamp b)"]
    by (auto split: option.splits)
qed simp

lemma newer_bars_id:
  "sorted_wrt (\<lambda>a b. b_timestamp a < b_timestamp b) bs \<Longrightarrow>
   (\<forall>t b. l = Some t \<longrightarrow> b \<in> set bs \<longrightarrow> t < b_timestamp b) \<Longrightarrow> newer_bars l bs = bs"
  by (induction bs arbitrary: l) (auto split: option.splits)

definition advance_all :: "symbol_state \<Rightarrow> bar list \<Rightarrow> symbol_state" where
  "advance_all s bs = foldl (\<lambda>s b. fst (state_advance s b)) s bs"

lemma state_advance_frame [simp]:
  "ss_capacity (fst (state_advance s b)) = ss_capacity s" "ss_symbol (fst (state_advance s b)) = ss_symbol s"
  "ss_timeframe (fst (state_advance s b)) = ss_timeframe s" "ss_live_bar (fst (state_advance s b)) = ss_live_bar s"
  by (simp_all add: state_advance_def Let_def)

lemma state_advance_skipped:
  "ao_skipped (snd (state_advance s b)) = (case ss_last_ts s of Some l \<Rightarrow> b_timestamp b \<le> l | None \<Rightarrow> False)"
  by (simp add: state_advance_def Let_def)

lemma advance_all_window:
  assumes "ss_bar_window s = take_last (ss_capacity s) w"
  shows "ss_bar_window (advance_all s bs) = take_last (ss_capacity s) (w @ newer_bars (ss_last_ts s) bs)"
  using assms
proof (induction bs arbitrary: s w)
  case (Cons b bs)
  show ?case
  proof (cases "ao_skipped (snd (state_advance s b))")
    case True
    then have "fst (state_advance s b) = s" by (simp add: state_advance_def Let_def split: if_splits)
    then show ?thesis using Cons True by (simp add: advance_all_def state_advance_skipped)
  next
    case False
    let ?s = "fst (state_advance s b)"
    have s: "ss_bar_window ?s = push_bounded (ss_bar_window s) b (ss_capacity s)" "ss_last_ts ?s = Some (b_timestamp b)"
      using False by (simp_all add: state_advance_def Let_def split: if_splits)
    have "ss_bar_window ?s = take_last (ss_capacity ?s) (w @ [b])"
      using Cons.prems s(1) by (simp add: push_bounded_eq take_last_snoc_take_last)
    from Cons.IH [OF this] show ?thesis using False s(2)
      by (simp add: advance_all_def state_advance_skipped)
  qed
qed (simp add: advance_all_def)

lemma bootstrap_fold:
  "foldl bootstrap_bar (s, fed, sk, fi) bs =
     (advance_all s bs, fed + length (newer_bars (ss_last_ts s) bs),
      sk + (length bs - length (newer_bars (ss_last_ts s) bs)),
      (case fi of Some t \<Rightarrow> Some t
       | None \<Rightarrow> (case newer_bars (ss_last_ts s) bs of [] \<Rightarrow> None | b # _ \<Rightarrow> Some (b_timestamp b)))) \<and>
   length (newer_bars (ss_last_ts s) bs) \<le> length bs"
proof (induction bs arbitrary: s fed sk fi)
  case (Cons b bs)
  show ?case
  proof (cases "ao_skipped (snd (state_advance s b))")
    case True
    then have adv: "state_advance s b = (s, \<lparr>ao_ts = b_timestamp b, ao_skipped = True\<rparr>)"
      by (simp add: state_advance_def Let_def split: if_splits)
    have "newer_bars (ss_last_ts s) (b # bs) = newer_bars (ss_last_ts s) bs"
      using True by (simp add: state_advance_skipped)
    moreover have "bootstrap_bar (s, fed, sk, fi) b = (s, fed, sk + 1, fi)" by (simp add: bootstrap_bar_def adv)
    moreover have "advance_all s (b # bs) = advance_all s bs" by (simp add: advance_all_def adv)
    ultimately show ?thesis using Cons [of s fed "sk + 1" fi] 
      by (simp add: Suc_diff_le del: newer_bars.simps split: option.split)
  next
    case False
    let ?s = "fst (state_advance s b)"
    let ?fi = "case fi of None \<Rightarrow> Some (b_timestamp b) | Some t \<Rightarrow> Some t"
    have l: "ss_last_ts ?s = Some (b_timestamp b)"
      using False by (simp add: state_advance_def Let_def split: if_splits)
    have "newer_bars (ss_last_ts s) (b # bs) = b # newer_bars (ss_last_ts ?s) bs"
      using False by (simp add: state_advance_skipped l)
    moreover have "bootstrap_bar (s, fed, sk, fi) b = (?s, fed + 1, sk, ?fi)"
      using False by (simp add: bootstrap_bar_def split_beta Let_def)
    moreover have "advance_all s (b # bs) = advance_all ?s bs" by (simp add: advance_all_def)
    ultimately show ?thesis using Cons [of ?s "fed + 1" sk ?fi]
      by (simp del: newer_bars.simps split: option.split)
  qed
qed (simp add: advance_all_def split: option.split)

lemma ensure_symbol_get:
  "hm_get (ld_states (fst (ensure_symbol l s tf wc))) k =
     (if k = (s, tf) then Some (snd (ensure_symbol l s tf wc)) else hm_get (ld_states l) k)"
  by (simp add: ensure_symbol_def Let_def)


text \<open>A capacity only grows: making sure that a symbol exists, with or without a wanted capacity, keeps
  its bars, never lowers its capacity and raises it to the wanted one.\<close>

lemma ensure_symbol_never_shrinks:
  "let (l', st') = ensure_symbol l s tf wanted; st = state_or_new l s tf wanted
   in hm_get (ld_states l') (s, tf) = Some st' \<and> ss_bar_window st' = ss_bar_window st \<and>
      ss_last_ts st' = ss_last_ts st \<and>
      ss_capacity st' = (case wanted of None \<Rightarrow> ss_capacity st | Some c \<Rightarrow> max (ss_capacity st) c)"
  by (auto simp: ensure_symbol_def ensure_capacity_def Let_def split: option.split)

section \<open>Properties\<close>

text \<open>C18. The window of a ledger state is what it promises: after any sequence of bars, duplicates and late
  bars included, it holds exactly the last \<open>capacity\<close> of the accepted bars, an accepted bar being one
  strictly newer than all accepted before it; so it never exceeds its capacity and its timestamps strictly
  increase, and a sequence that is already in order is accepted as a whole.\<close>

theorem ledger_window_is_last_accepted:
  "ss_bar_window (advance_all (symbol_state_new s tf cap) bs) = take_last cap (newer_bars None bs) \<and>
   length (ss_bar_window (advance_all (symbol_state_new s tf cap) bs)) \<le> cap \<and>
   sorted_wrt (\<lambda>a b. b_timestamp a < b_timestamp b) (ss_bar_window (advance_all (symbol_state_new s tf cap) bs)) \<and>
   (sorted_wrt (\<lambda>a b. b_timestamp a < b_timestamp b) bs \<longrightarrow> newer_bars None bs = bs)"
proof -
  have w: "ss_bar_window (advance_all (symbol_state_new s tf cap) bs) = take_last cap (newer_bars None bs)"
    using advance_all_window [of "symbol_state_new s tf cap" "[]" bs] by (simp add: symbol_state_new_def)
  moreover have "sorted_wrt (\<lambda>a b. b_timestamp a < b_timestamp b) (newer_bars None bs)"
    using newer_bars_sorted by blast
  ultimately show ?thesis by (simp add: take_last_subseq_sorted newer_bars_id)
qed

definition ledger_bar :: "int \<Rightarrow> bar" where
  "ledger_bar t = bar_new t ''BTC'' (Fin 1) (Fin 1) (Fin 1) (Fin 1) (Fin 1)"

theorem ledger_window_is_last_accepted_witness:
  "ss_bar_window (advance_all (symbol_state_new ''BTC'' M1 2) [ledger_bar 1, ledger_bar 3, ledger_bar 2, ledger_bar 3, ledger_bar 4])
     = [ledger_bar 3, ledger_bar 4] \<and> newer_bars None [ledger_bar 1, ledger_bar 3] = [ledger_bar 1, ledger_bar 3]"
  using ledger_window_is_last_accepted [of "''BTC''" M1 2 "[ledger_bar 1, ledger_bar 3, ledger_bar 2, ledger_bar 3, ledger_bar 4]"]
    ledger_window_is_last_accepted [of "''BTC''" M1 2 "[ledger_bar 1, ledger_bar 3]"]
  by (simp add: ledger_bar_def bar_new_def take_last_def)

text \<open>Observers hear of exactly the accepted bars: an accepted bar is reported once to every subscribed
  observer, in the order of subscription and even if some of them panic, with the outcome that is also returned;
  a rejected bar is reported to none and leaves every window as it was; and no other symbol or timeframe is
  touched.\<close>

theorem ledger_advance_notifies:
  "let (l', w', r) = ledger_advance ob l w tf b;
       st = state_or_new l (b_symbol b) tf None;
       stale = (case ss_last_ts st of Some t \<Rightarrow> b_timestamp b \<le> t | None \<Rightarrow> False);
       out = \<lparr>ao_ts = b_timestamp b, ao_skipped = False\<rparr>
   in (if stale then r = None \<and> w' = w \<and> with_state l' (b_symbol b) tf id = Some st
       else r = Some out \<and>
            w' = foldl (\<lambda>w i. fst (ob i w (b_symbol b) tf out)) w (ld_observers l) \<and>
            with_state l' (b_symbol b) tf ss_bar_window =
              Some (take_last (ss_capacity st) (ss_bar_window st @ [b]))) \<and>
      ld_observers l' = ld_observers l \<and>
      (\<forall>k. k = (b_symbol b, tf) \<or> hm_get (ld_states l') k = hm_get (ld_states l) k)"
  by (simp add: ledger_advance_def ensure_symbol_def state_advance_def with_state_def notify_def Let_def
      push_bounded_eq)

text \<open>Bootstrapping a symbol counts every bar exactly once, as fed or as skipped, notifies nobody, reports the
  first and the last accepted timestamps, and leaves the window that advancing the bars one by one would have
  left.\<close>

theorem bootstrap_counts_every_bar:
  "let (l', rep) = bootstrap_symbol l s tf bars;
       st = state_or_new l s tf None;
       acc = newer_bars (ss_last_ts st) bars
   in bp_fed rep = length acc \<and> bp_fed rep + bp_skipped rep = length bars \<and>
      bp_first_ts rep = (case acc of [] \<Rightarrow> None | b # _ \<Rightarrow> Some (b_timestamp b)) \<and>
      with_state l' s tf id = Some (advance_all st bars) \<and>
      bp_last_ts rep = ss_last_ts (advance_all st bars) \<and> ld_observers l' = ld_observers l"
proof -
  let ?st = "state_or_new l s tf None"
  have "foldl bootstrap_bar (?st, 0, 0, None) bars =
      (advance_all ?st bars, length (newer_bars (ss_last_ts ?st) bars),
       length bars - length (newer_bars (ss_last_ts ?st) bars),
       (case newer_bars (ss_last_ts ?st) bars of [] \<Rightarrow> None | b # _ \<Rightarrow> Some (b_timestamp b)))"
    and "length (newer_bars (ss_last_ts ?st) bars) \<le> length bars"
    using bootstrap_fold [of ?st 0 0 None bars] by simp_all
  then show ?thesis
    by (simp add: bootstrap_symbol_def ensure_symbol_def with_state_def Let_def)
qed

end
