(* ===== verification/Script_Text.thy ===== *)
theory Script_Text
  imports Engine_Core Timeframes
begin

text \<open>
  The string operations of the Rust library that the script parser uses, on texts. A text is a list of ASCII characters:
  on such texts a byte is a character, and trimming, the character classes and slicing are as written here. On a
  script with other characters the parser also trims Unicode white space and accepts Unicode letters, which
  these definitions do not show.
\<close>

section \<open>Characters\<close>

definition nl :: char where "nl = CHR 0x0A"
definition quote :: char where "quote = CHR 0x22"
definition apostrophe :: char where "apostrophe = CHR 0x27"
definition backslash :: char where "backslash = CHR 0x5C"
definition slash :: char where "slash = CHR ''/''"

lemmas char_defs = nl_def quote_def apostrophe_def backslash_def slash_def

text \<open>\<open>char::is_whitespace\<close> and \<open>u8::is_ascii_whitespace\<close>, which does not count the vertical tab.\<close>

definition is_whitespace :: "char \<Rightarrow> bool" where
  "is_whitespace c \<longleftrightarrow> c \<in> {CHR 0x09, CHR 0x0A, CHR 0x0B, CHR 0x0C, CHR 0x0D, CHR 0x20}"

definition is_ascii_whitespace :: "char \<Rightarrow> bool" where
  "is_ascii_whitespace c \<longleftrightarrow> c \<in> {CHR 0x09, CHR 0x0A, CHR 0x0C, CHR 0x0D, CHR 0x20}"

abbreviation code_of :: "char \<Rightarrow> nat" where "code_of c \<equiv> of_char c"

definition is_digit :: "char \<Rightarrow> bool" where
  "is_digit c \<longleftrightarrow> 48 \<le> code_of c \<and> code_of c \<le> 57"

definition is_alphanumeric :: "char \<Rightarrow> bool" where
  "is_alphanumeric c \<longleftrightarrow> is_digit c \<or> (65 \<le> code_of c \<and> code_of c \<le> 90) \<or> (97 \<le> code_of c \<and> code_of c \<le> 122)"

definition is_ident_byte :: "char \<Rightarrow> bool" where
  "is_ident_byte c \<longleftrightarrow> is_alphanumeric c \<or> c = CHR ''_''"

section \<open>Slices of a text\<close>

definition trim_start :: "string \<Rightarrow> string" where "trim_start = dropWhile is_whitespace"
definition trim_end :: "string \<Rightarrow> string" where "trim_end s = rev (dropWhile is_whitespace (rev s))"
definition trim :: "string \<Rightarrow> string" where "trim s = trim_end (trim_start s)"

definition trim_end_matches :: "char \<Rightarrow> string \<Rightarrow> string" where
  "trim_end_matches c s = rev (dropWhile (\<lambda>x. x = c) (rev s))"

definition trim_matches :: "char \<Rightarrow> string \<Rightarrow> string" where
  "trim_matches c s = trim_end_matches c (dropWhile (\<lambda>x. x = c) s)"

definition starts_with :: "string \<Rightarrow> string \<Rightarrow> bool" where
  "starts_with p s \<longleftrightarrow> take (length p) s = p"

definition strip_prefix :: "string \<Rightarrow> string \<Rightarrow> string option" where
  "strip_prefix p s = (if starts_with p s then Some (drop (length p) s) else None)"

fun str_find :: "char \<Rightarrow> string \<Rightarrow> nat option" where
  "str_find c [] = None"
| "str_find c (x # xs) = (if x = c then Some 0 else map_option Suc (str_find c xs))"

definition str_rfind :: "char \<Rightarrow> string \<Rightarrow> nat option" where
  "str_rfind c s = map_option (\<lambda>i. length s - 1 - i) (str_find c (rev s))"

text \<open>\<open>split\<close> on a character, and \<open>split("//").next()\<close>, the text before the first double slash.\<close>

fun str_split :: "char \<Rightarrow> string \<Rightarrow> string list" where
  "str_split c [] = [[]]"
| "str_split c (x # xs) =
     (if x = c then [] # str_split c xs else (x # hd (str_split c xs)) # tl (str_split c xs))"

fun before_comment :: "string \<Rightarrow> string" where
  "before_comment (x # y # xs) = (if x = slash \<and> y = slash then [] else x # before_comment (y # xs))"
| "before_comment xs = xs"

text \<open>\<open>str::lines\<close>: a line ends with a newline, which is dropped with a carriage return before it; there is no
  empty last line after a final newline.\<close>

definition drop_cr :: "string \<Rightarrow> string" where
  "drop_cr s = (if s \<noteq> [] \<and> last s = CHR 0x0D then butlast s else s)"

definition str_lines :: "string \<Rightarrow> string list" where
  "str_lines s =
     (let parts = str_split nl s
      in map drop_cr (butlast parts) @ (if last parts = [] then [] else [last parts]))"

fun str_join :: "string \<Rightarrow> string list \<Rightarrow> string" where
  "str_join sep [] = []"
| "str_join sep [x] = x"
| "str_join sep (x # y # xs) = x @ sep @ str_join sep (y # xs)"

section \<open>Numbers\<close>

text \<open>\<open>str::parse::<usize>\<close>: an optional plus sign, at least one digit, at most \<open>u64::MAX\<close>.\<close>

definition parse_usize :: "string \<Rightarrow> nat option" where
  "parse_usize s =
     (let ds = (case s of c # cs \<Rightarrow> if c = CHR ''+'' then cs else s | [] \<Rightarrow> s)
      in if ds \<noteq> [] \<and> list_all is_digit ds \<and> digits_val ds < 2 ^ 64 then Some (digits_val ds) else None)"

text \<open>\<open>str::parse::<f64>\<close>: an optional sign, then \<open>inf\<close>, \<open>infinity\<close> or \<open>nan\<close> in any case, or a decimal number
  with at least one digit and an optional exponent, rounded once.\<close>

definition parse_exponent :: "string \<Rightarrow> int option" where
  "parse_exponent s =
     (case s of
        [] \<Rightarrow> None
      | c # cs \<Rightarrow>
          (let sgn = (if c = CHR ''-'' then -1 else 1); ds = (if c = CHR ''-'' \<or> c = CHR ''+'' then cs else s)
           in if ds \<noteq> [] \<and> list_all is_digit ds then Some (sgn * int (digits_val ds)) else None))"

definition pow10 :: "int \<Rightarrow> rat" where
  "pow10 e = (if 0 \<le> e then 10 ^ nat e else 1 / 10 ^ nat (- e))"

definition parse_decimal :: "string \<Rightarrow> rat option" where
  "parse_decimal s =
     (let whole = takeWhile is_digit s; r1 = dropWhile is_digit s;
          frac = (case r1 of c # cs \<Rightarrow> if c = CHR ''.'' then takeWhile is_digit cs else [] | [] \<Rightarrow> []);
          r2 = (case r1 of c # cs \<Rightarrow> if c = CHR ''.'' then dropWhile is_digit cs else r1 | [] \<Rightarrow> []);
          m = rat_of_nat (digits_val (whole @ frac)) * pow10 (- int (length frac))
      in if whole = [] \<and> frac = [] then None
         else case r2 of
                [] \<Rightarrow> Some m
              | c # cs \<Rightarrow>
                  if c = CHR ''e'' \<or> c = CHR ''E'' then map_option (\<lambda>e. m * pow10 e) (parse_exponent cs) else None)"

definition parse_f64 :: "string \<Rightarrow> f64 option" where
  "parse_f64 s =
     (let neg = (case s of c # _ \<Rightarrow> c = CHR ''-'' | [] \<Rightarrow> False);
          body = (case s of c # cs \<Rightarrow> if c = CHR ''-'' \<or> c = CHR ''+'' then cs else s | [] \<Rightarrow> s);
          u = to_ascii_uppercase body
      in if u = ''INF'' \<or> u = ''INFINITY'' then Some (if neg then NInf else PInf)
         else if u = ''NAN'' then Some NaN
         else map_option (\<lambda>q. if neg then - fl q else fl q) (parse_decimal body))"

text \<open>\<open>f64::round\<close>: half away from zero, the sign kept.\<close>

fun fround :: "f64 \<Rightarrow> f64" where
  "fround (Fin q) =
     (if 0 \<le> q then Fin (of_int \<lfloor>q + 1 / 2\<rfloor>)
      else if \<lfloor>- q + 1 / 2\<rfloor> = 0 then NZero else Fin (- of_int \<lfloor>- q + 1 / 2\<rfloor>))"
| "fround x = x"

end
