(* ===== verification/Script_Parse.thy ===== *)
theory Script_Parse
  imports Script_Text
begin

text \<open>
  The source scanner of the strategy scripts, \<open>alm-strategy/src/script/v1/parse.rs\<close>: the \<open>regime\<close> block, the
  \<open>candle\<close> directives, the \<open>ta\<close> calls and the \<open>ind\<close> declarations are found and rewritten on the text, line by
  line, before the rest is compiled. A scanner position is the suffix still to be read; the byte offset of the
  source is the length of the text before it. Diagnostics are values of \<open>script_error\<close> with the data of the
  message; where the code can panic the result is an option.
\<close>

datatype script_error =
    RegimeUnbalanced
  | CandleNotAtTop nat
  | NotACandleDirective nat string
  | MissingOpenParen nat string
  | MissingCloseParen nat string
  | UnknownDirective nat string
  | MissingKind nat
  | BadSmooth nat string
  | UnknownCandleKind string
  | TaNested string int string
  | TaUnclosed string string
  | TaBufExpected string string string
  | TaBufInvalid string string string
  | TaBufTooSmall string nat string
  | TaManyOnLine nat string
  | TaResetBound string
  | TaNotDeclared string string
  | DeclaredTwice string
  | TimeframeInV1 string string
  | PeriodZero string string
  | NegativeParam string string f64
  | IndicatorError string
  | CompileError bool string

section \<open>Scanning past comments and string literals\<close>

definition skip_comment :: "string \<Rightarrow> string" where
  "skip_comment = dropWhile (\<lambda>c. c \<noteq> nl)"

text \<open>The rest after a string literal whose opening quote has been read; \<open>i += 2\<close> skips an escaped byte.\<close>

fun skip_quoted :: "string \<Rightarrow> string" where
  "skip_quoted [] = []"
| "skip_quoted (c # cs) =
     (if c = backslash then skip_quoted (tl cs) else if c = quote then cs else skip_quoted cs)"

lemma skip_quoted_length: "length (skip_quoted cs) \<le> length cs"
  by (induction cs rule: skip_quoted.induct) (auto split: if_splits)

lemma skip_comment_length: "length (skip_comment cs) \<le> length cs"
  by (simp add: skip_comment_def length_dropWhile_le)

definition at_comment :: "string \<Rightarrow> bool" where
  "at_comment s \<longleftrightarrow> starts_with [slash, slash] s"

lemma skip_comment_shorter: "at_comment (c # cs) \<Longrightarrow> length (skip_comment (c # cs)) < Suc (length cs)"
  using skip_comment_length [of cs] by (simp add: at_comment_def starts_with_def skip_comment_def char_defs)

section \<open>The regime block\<close>

text \<open>The balanced-brace match: the suffix that starts at the closing brace.\<close>

function find_close :: "int \<Rightarrow> string \<Rightarrow> string option" where
  "find_close depth [] = None"
| "find_close depth (c # cs) =
     (if at_comment (c # cs) then find_close depth (skip_comment (c # cs))
      else if c = quote then find_close depth (skip_quoted cs)
      else if c = CHR ''{'' then find_close (depth + 1) cs
      else if c = CHR ''}'' then (if depth - 1 = 0 then Some (c # cs) else find_close (depth - 1) cs)
      else find_close depth cs)"
  by pat_completeness auto
termination
  by (relation "measure (\<lambda>(d, s). length s)")
    (auto simp: skip_comment_shorter le_imp_less_Suc skip_quoted_length)

definition text_before :: "string \<Rightarrow> string \<Rightarrow> string" where
  "text_before script rest = take (length script - length rest) script"

definition prev_is_ident :: "string \<Rightarrow> string \<Rightarrow> bool" where
  "prev_is_ident script rest =
     (text_before script rest \<noteq> [] \<and> is_ident_byte (last (text_before script rest)))"

text \<open>The suffix at the opening brace of a block whose keyword starts here.\<close>

definition regime_open :: "string \<Rightarrow> string \<Rightarrow> string option" where
  "regime_open script rest =
     (if starts_with ''regime'' rest
      then (let after = dropWhile is_ascii_whitespace (drop 6 rest)
            in if \<not> prev_is_ident script rest \<and> after \<noteq> [] \<and> hd after = CHR ''{'' then Some after else None)
      else None)"

text \<open>The block is replaced by its newlines.\<close>

definition cut_block :: "string \<Rightarrow> string \<Rightarrow> string \<Rightarrow> string \<Rightarrow> string option \<times> string" where
  "cut_block script rest opened close =
     (Some (take (length opened - length close - 1) (tl opened)),
      text_before script rest @ filter (\<lambda>b. b = nl) (take (length rest - length close + 1) rest) @ tl close)"

function regime_scan :: "string \<Rightarrow> string \<Rightarrow> script_error + (string option \<times> string)" where
  "regime_scan script [] = Inr (None, script)"
| "regime_scan script (c # cs) =
     (if at_comment (c # cs) then regime_scan script (skip_comment (c # cs))
      else if c = quote then regime_scan script (skip_quoted cs)
      else case regime_open script (c # cs) of
             Some opened \<Rightarrow>
               (case find_close 0 opened of
                  None \<Rightarrow> Inl RegimeUnbalanced
                | Some close \<Rightarrow> Inr (cut_block script (c # cs) opened close))
           | None \<Rightarrow> regime_scan script cs)"
  by pat_completeness auto
termination
  by (relation "measure (\<lambda>(t, s). length s)")
    (auto simp: skip_comment_shorter le_imp_less_Suc skip_quoted_length)

definition extract_regime_block :: "string \<Rightarrow> script_error + (string option \<times> string)" where
  "extract_regime_block script = regime_scan script script"

section \<open>Candle directives\<close>

datatype candle_directive = Transform string "nat option"

text \<open>The part of a line before a comment, where a double slash in a string literal is not a comment.\<close>

fun strip_from :: "bool \<Rightarrow> string \<Rightarrow> string" where
  "strip_from in_string [] = []"
| "strip_from in_string (c # cs) =
     (if in_string
      then if c = backslash then c # take 1 cs @ strip_from True (tl cs)
           else c # strip_from (c \<noteq> quote) cs
      else if c = quote then c # strip_from True cs
      else if c = slash \<and> cs \<noteq> [] \<and> hd cs = slash then []
      else c # strip_from False cs)"

definition strip_line_comment :: "string \<Rightarrow> string" where
  "strip_line_comment line = strip_from False line"

definition parse_transform_args :: "string \<Rightarrow> nat \<Rightarrow> script_error + candle_directive" where
  "parse_transform_args args line_no =
     (let parts = map trim (str_split (CHR '','') args)
      in if hd parts = [] then Inl (MissingKind line_no)
         else let kind = trim_matches apostrophe (trim_matches quote (hd parts))
              in case tl parts of
                   [] \<Rightarrow> Inr (Transform kind None)
                 | s # _ \<Rightarrow>
                     (case parse_usize s of
                        None \<Rightarrow> Inl (BadSmooth line_no s)
                      | Some n \<Rightarrow> Inr (Transform kind (Some n))))"

text \<open>\<open>None\<close>: the slice between the first opening and the last closing parenthesis runs backwards and panics.\<close>

definition parse_candle_directive :: "string \<Rightarrow> nat \<Rightarrow> (script_error + candle_directive) option" where
  "parse_candle_directive stmt line_no =
     (let s = trim (trim_end_matches (CHR '';'') (trim stmt))
      in case strip_prefix ''candle.'' s of
           None \<Rightarrow> Some (Inl (NotACandleDirective line_no stmt))
         | Some after_ns \<Rightarrow>
             (case str_find (CHR ''('') after_ns of
                None \<Rightarrow> Some (Inl (MissingOpenParen line_no stmt))
              | Some lparen \<Rightarrow>
                  (case str_rfind (CHR '')'') after_ns of
                     None \<Rightarrow> Some (Inl (MissingCloseParen line_no stmt))
                   | Some rparen \<Rightarrow>
                       (let method = trim (take lparen after_ns)
                        in if rparen < lparen + 1 then None
                           else let args_src = drop (lparen + 1) (take rparen after_ns)
                                in if method = ''transform'' then Some (parse_transform_args args_src line_no)
                                   else Some (Inl (UnknownDirective line_no method))))))"

fun candle_lines ::
  "nat \<Rightarrow> bool \<Rightarrow> string list \<Rightarrow> (script_error + (candle_directive list \<times> string list)) option" where
  "candle_lines line_no in_header [] = Some (Inr ([], []))"
| "candle_lines line_no in_header (raw # rest) =
     (let stripped = trim (strip_line_comment raw);
          keep = (\<lambda>h. case candle_lines (Suc line_no) h rest of
                       Some (Inr (ds, ls)) \<Rightarrow> Some (Inr (ds, raw # ls)) | r \<Rightarrow> r)
      in if stripped = [] then keep in_header
         else if starts_with ''candle.'' stripped
         then if \<not> in_header then Some (Inl (CandleNotAtTop line_no))
              else case parse_candle_directive stripped line_no of
                     None \<Rightarrow> None
                   | Some (Inl e) \<Rightarrow> Some (Inl e)
                   | Some (Inr d) \<Rightarrow>
                       (case candle_lines (Suc line_no) in_header rest of
                          Some (Inr (ds, ls)) \<Rightarrow> Some (Inr (d # ds, [] # ls)) | r \<Rightarrow> r)
         else keep False)"

definition extract_candle_directives ::
  "string \<Rightarrow> (script_error + (candle_directive list \<times> string)) option" where
  "extract_candle_directives script =
     (case candle_lines 1 True (str_lines script) of
        Some (Inr (ds, out_lines)) \<Rightarrow>
          Some (Inr (ds, str_join [nl] out_lines @ (if script \<noteq> [] \<and> last script = nl then [nl] else [])))
      | Some (Inl e) \<Rightarrow> Some (Inl e)
      | None \<Rightarrow> None)"

section \<open>Calls of \<open>ta\<close>\<close>

definition default_buf_depth :: nat where "default_buf_depth = 2"
definition min_ta_buf :: nat where "min_ta_buf = 1"

fun close_scan :: "int \<Rightarrow> bool \<Rightarrow> nat \<Rightarrow> string \<Rightarrow> nat option" where
  "close_scan depth in_str i [] = None"
| "close_scan depth in_str i (c # cs) =
     (if in_str
      then if c = backslash then close_scan depth True (i + 2) (tl cs)
           else close_scan depth (c \<noteq> quote) (Suc i) cs
      else if c = quote then close_scan depth True (Suc i) cs
      else if c = CHR ''('' \<or> c = CHR ''['' then close_scan (depth + 1) False (Suc i) cs
      else if c = CHR '')'' \<or> c = CHR '']''
      then if depth - 1 = 0 then Some i else close_scan (depth - 1) False (Suc i) cs
      else close_scan depth False (Suc i) cs)"

definition find_matching_close :: "string \<Rightarrow> nat option" where
  "find_matching_close s = close_scan 1 False 0 s"

fun comma_scan :: "int \<Rightarrow> bool \<Rightarrow> string \<Rightarrow> string \<Rightarrow> string list" where
  "comma_scan depth in_str seg [] = [seg]"
| "comma_scan depth in_str seg (c # cs) =
     (if in_str
      then if c = backslash then comma_scan depth True (seg @ c # take 1 cs) (tl cs)
           else comma_scan depth (c \<noteq> quote) (seg @ [c]) cs
      else if c = quote then comma_scan depth True (seg @ [c]) cs
      else if c = CHR ''('' \<or> c = CHR ''['' then comma_scan (depth + 1) False (seg @ [c]) cs
      else if c = CHR '')'' \<or> c = CHR '']'' then comma_scan (depth - 1) False (seg @ [c]) cs
      else if c = CHR '','' \<and> depth = 0 then seg # comma_scan depth False [] cs
      else comma_scan depth False (seg @ [c]) cs)"

definition split_top_level_commas :: "string \<Rightarrow> string list" where
  "split_top_level_commas s = (if trim s = [] then [] else comma_scan 0 False [] s)"

text \<open>The name after \<open>ta.\<close> runs to the next opening parenthesis, or to the end of the line.\<close>

definition ta_func :: "string \<Rightarrow> string" where
  "ta_func after = trim (case str_find (CHR ''('') after of Some k \<Rightarrow> take k after | None \<Rightarrow> after)"

fun ta_scan :: "string \<Rightarrow> bool \<Rightarrow> string \<Rightarrow> (nat \<times> string) list" where
  "ta_scan code in_str [] = []"
| "ta_scan code in_str (c # cs) =
     (if in_str
      then if c = backslash then ta_scan code True (tl cs) else ta_scan code (c \<noteq> quote) cs
      else if c = quote then ta_scan code True cs
      else if starts_with ''ta.'' (c # cs) \<and> \<not> prev_is_ident code (c # cs)
      then (length code - length (c # cs), ta_func (drop 3 (c # cs))) # ta_scan code False cs
      else ta_scan code False cs)"

definition find_ta_occurrences :: "string \<Rightarrow> (nat \<times> string) list" where
  "find_ta_occurrences code = ta_scan code False code"

fun brace_scan :: "bool \<Rightarrow> string \<Rightarrow> int" where
  "brace_scan in_str [] = 0"
| "brace_scan in_str (c # cs) =
     (if in_str
      then if c = backslash then brace_scan True (tl cs) else brace_scan (c \<noteq> quote) cs
      else if c = quote then brace_scan True cs
      else if c = CHR ''{'' then 1 + brace_scan False cs
      else if c = CHR ''}'' then brace_scan False cs - 1
      else brace_scan False cs)"

definition brace_depth_delta :: "string \<Rightarrow> int" where
  "brace_depth_delta line = brace_scan False (before_comment line)"

definition validate_ta_top_level :: "string \<Rightarrow> string \<Rightarrow> int \<Rightarrow> script_error + unit" where
  "validate_ta_top_level var_name line depth =
     (if depth \<noteq> 0 then Inl (TaNested var_name depth (trim line)) else Inr ())"

definition is_ident :: "string \<Rightarrow> bool" where
  "is_ident s \<longleftrightarrow> s \<noteq> [] \<and> list_all is_ident_byte s"

text \<open>The trailing \<open>buf=N\<close> argument: the segments without it and the depth.\<close>

definition take_buf :: "string \<Rightarrow> string \<Rightarrow> string list \<Rightarrow> script_error + (string list \<times> nat)" where
  "take_buf func code segments =
     (case last_opt (map trim segments) of
        None \<Rightarrow> Inr (segments, default_buf_depth)
      | Some lst \<Rightarrow>
          (case strip_prefix ''buf'' lst of
             None \<Rightarrow> Inr (segments, default_buf_depth)
           | Some after_buf \<Rightarrow>
               (case strip_prefix ''='' (trim_start after_buf) of
                  None \<Rightarrow> Inl (TaBufExpected func lst (trim code))
                | Some v \<Rightarrow>
                    (case parse_usize (trim v) of
                       None \<Rightarrow> Inl (TaBufInvalid func (trim v) (trim code))
                     | Some n \<Rightarrow>
                         if n < min_ta_buf then Inl (TaBufTooSmall func n (trim code))
                         else Inr (butlast segments, n)))))"

text \<open>The rewritten call, once the line is known to be \<open>let NAME = ta.FUNC(...)\<close>.\<close>

definition rewrite_call ::
  "string \<Rightarrow> string \<Rightarrow> string \<Rightarrow> string \<Rightarrow> string \<Rightarrow> script_error + (string \<times> string) option" where
  "rewrite_call indent code var_name func after_paren =
     (case find_matching_close after_paren of
        None \<Rightarrow> Inl (TaUnclosed func (trim code))
      | Some close \<Rightarrow>
          (case take_buf func code (split_top_level_commas (take close after_paren)) of
             Inl e \<Rightarrow> Inl e
           | Inr (segments, buf) \<Rightarrow>
               Inr (Some (var_name,
                 indent @ ''let '' @ var_name @ '' = ta.'' @ func @ [CHR ''('', quote] @ var_name @ [quote, CHR '','', CHR '' ''] @
                 str_join '', '' (map trim segments @ [show_nat buf]) @ drop close after_paren))))"

definition rewrite_ta_line :: "string \<Rightarrow> script_error + (string \<times> string) option" where
  "rewrite_ta_line line =
     (let indent = takeWhile is_whitespace line; code = before_comment (trim_start line)
      in if trim code = [] then Inr None
         else case strip_prefix ''let '' (trim_start code) of
                None \<Rightarrow> Inr None
              | Some r \<Rightarrow>
                  (let rest = trim_start r
                   in case str_find (CHR ''='') rest of
                        None \<Rightarrow> Inr None
                      | Some eq_pos \<Rightarrow>
                          (let var_name = trim (take eq_pos rest)
                           in if \<not> is_ident var_name then Inr None
                              else case strip_prefix ''ta.'' (trim_start (drop (eq_pos + 1) rest)) of
                                     None \<Rightarrow> Inr None
                                   | Some after_ta \<Rightarrow>
                                       (case str_find (CHR ''('') after_ta of
                                          None \<Rightarrow> Inr None
                                        | Some paren \<Rightarrow>
                                            (let func = trim (take paren after_ta)
                                             in if \<not> is_ident func \<or> func = ''reset'' then Inr None
                                                else rewrite_call indent code var_name func
                                                       (drop (paren + 1) after_ta))))))"

definition validate_ta_declarations :: "string \<Rightarrow> script_error + unit" where
  "validate_ta_declarations line =
     (let code = before_comment line; occurrences = find_ta_occurrences code
      in if 1 < length occurrences then Inl (TaManyOnLine (length occurrences) (trim code))
         else case occurrences of
                [] \<Rightarrow> Inr ()
              | (_, func) # _ \<Rightarrow>
                  if func = ''reset''
                  then if starts_with ''let '' (trim_start code) then Inl (TaResetBound (trim code)) else Inr ()
                  else case rewrite_ta_line line of
                         Inl e \<Rightarrow> Inl e
                       | Inr None \<Rightarrow> Inl (TaNotDeclared func (trim code))
                       | Inr (Some _) \<Rightarrow> Inr ())"

end
