(* ===== verification/Script_Decl.thy ===== *)
theory Script_Decl
  imports Script_Parse
begin

text \<open>
  The indicator declarations of the strategy scripts: the parser of \<open>let NAME = ind.TYPE(...)\<close> lines, the tables that
  name the parameters and the primary output of each indicator type, and the configuration handed to the indicator
  constructor (\<open>alm-strategy/src/script/v1/parse.rs\<close> from line 262 on and \<open>script/utils.rs\<close>). The constructor itself,
  \<open>IndicatorBox::from_config\<close>, is not part of this theory: building an indicator returns its configuration.
\<close>

section \<open>Tables\<close>

definition positional_table :: "(string \<times> string list) list" where
  "positional_table =
    [(''macd'', [''slow'', ''signal'']),
     (''bbands'', [''multiplier'']),
     (''supertrend'', [''multiplier'']),
     (''stochastic'', [''d_period'']),
     (''stoch_rsi'', [''smooth_d'']),
     (''parabolic_sar'', [''step'', ''max'']),
     (''kdj'', [''k_period'', ''d_period'']),
     (''alma'', [''offset'', ''sigma'']),
     (''trix'', [''signal'']),
     (''kama'', [''fast'', ''slow'']),
     (''keltner'', [''atr_period'', ''multiplier'']),
     (''chop_zone'', [''threshold'']),
     (''chandelier_exit'', [''multiplier'']),
     (''chande_kroll'', [''factor'', ''stop_period'']),
     (''alligator'', [''teeth'', ''lips'']),
     (''tsi'', [''second'']),
     (''ppo'', [''slow'', ''signal'']),
     (''pmo'', [''smooth2'', ''signal'']),
     (''smi'', [''smooth1'', ''smooth2'', ''signal'']),
     (''coppock'', [''long'', ''wma'']),
     (''uo'', [''medium'', ''slow'']),
     (''ao'', [''slow'']),
     (''connors_rsi'', [''streak_period'', ''rank_period'']),
     (''ichimoku'', [''kijun'', ''senkou_b'']),
     (''gmma'', [''s1'', ''s2'', ''s3'', ''s4'', ''s5'', ''l0'', ''l1'', ''l2'', ''l3'', ''l4'', ''l5''])]"

definition positional_param_names :: "string \<Rightarrow> string list" where
  "positional_param_names ind_type = (case map_of positional_table ind_type of Some ns \<Rightarrow> ns | None \<Rightarrow> [])"

datatype indicator_kind = Single string | Multi string

definition kind_table :: "(string \<times> indicator_kind) list" where
  "kind_table =
    [(''atr'', Multi ''atr''),
     (''lsma'', Multi ''value''),
     (''macd'', Multi ''macd''),
     (''adx'', Multi ''adx''),
     (''dmi'', Multi ''plus_di''),
     (''bbands'', Multi ''middle''),
     (''keltner'', Multi ''middle''),
     (''donchian'', Multi ''middle''),
     (''stochastic'', Multi ''k''),
     (''stoch_rsi'', Multi ''k''),
     (''kdj'', Multi ''k''),
     (''supertrend'', Multi ''value''),
     (''parabolic_sar'', Multi ''sar''),
     (''aroon'', Multi ''up''),
     (''aroon_osc'', Single ''value''),
     (''vortex'', Multi ''plus_vi''),
     (''trix'', Multi ''trix''),
     (''ppo'', Multi ''ppo''),
     (''kst'', Multi ''kst''),
     (''pmo'', Multi ''pmo''),
     (''rvi'', Multi ''rvi''),
     (''smi'', Multi ''smi''),
     (''fisher'', Multi ''fisher''),
     (''rwi'', Multi ''rwi_high''),
     (''elder_ray'', Multi ''bull_power''),
     (''ichimoku'', Multi ''tenkan''),
     (''alligator'', Multi ''teeth''),
     (''gmma'', Multi ''spread''),
     (''kalman'', Multi ''value''),
     (''bull_bear'', Multi ''bull''),
     (''chandelier_exit'', Multi ''long_stop''),
     (''chande_kroll'', Multi ''stop_long''),
     (''fractal'', Multi ''bullish''),
     (''chop_zone'', Multi ''zone'')]"

text \<open>The single-output types and every unknown type fall to the same kind.\<close>

definition map_indicator_type :: "string \<Rightarrow> string \<times> indicator_kind" where
  "map_indicator_type type_str =
     (type_str, case map_of kind_table type_str of Some k \<Rightarrow> k | None \<Rightarrow> Single ''value'')"

definition period_exempt :: "string list" where
  "period_exempt = [''kalman'', ''gmma'', ''ao'', ''coppock'', ''bop'', ''obv'', ''vwap'', ''fractal'',
     ''pmo'', ''smi'', ''kst'', ''parabolic_sar'', ''uo'']"

definition parse_timeframe :: "string \<Rightarrow> timeframe option" where
  "parse_timeframe s = map_of
     [(''M1'', M1), (''M3'', M3), (''M5'', M5), (''M10'', M10), (''M15'', M15), (''M30'', M30), (''H1'', H1), (''H2'', H2),
      (''H4'', H4), (''H6'', H6), (''H12'', H12), (''D1'', D1), (''W1'', W1)] (to_ascii_uppercase s)"

section \<open>Declarations\<close>

record indicator_decl =
  id_var_name :: string
  id_ind_type :: string
  id_period :: nat
  id_extra_params :: "(string, f64) hmap"
  id_buf_depth :: nat
  id_kind :: indicator_kind
  id_timeframe :: "timeframe option"
  id_live :: bool

definition parse_period :: "string \<Rightarrow> nat" where
  "parse_period tok =
     (case parse_usize tok of
        Some n \<Rightarrow> n
      | None \<Rightarrow> (case parse_f64 tok of Some f \<Rightarrow> usize_of_f64 (fround (fmax f 0)) | None \<Rightarrow> 0))"

text \<open>The loop over the arguments after the period. The local variables of the loop are the fields it fills and
  the number of positional parameters seen.\<close>

definition ind_token :: "string \<Rightarrow> indicator_decl \<times> nat \<Rightarrow> string \<Rightarrow> indicator_decl \<times> nat" where
  "ind_token type_str = (\<lambda>(d, positional_idx) raw.
     (let token = trim raw
      in case str_find (CHR ''='') token of
           Some eq \<Rightarrow>
             (let name = trim (take eq token); val_str = trim (drop (eq + 1) token)
              in if name = ''buf''
                 then (case parse_usize val_str of Some n \<Rightarrow> (d\<lparr>id_buf_depth := n\<rparr>, positional_idx) | None \<Rightarrow> (d, positional_idx))
                 else (case parse_f64 val_str of
                         Some v \<Rightarrow> (d\<lparr>id_extra_params := hm_insert name v (id_extra_params d)\<rparr>, positional_idx)
                       | None \<Rightarrow> (d, positional_idx)))
         | None \<Rightarrow>
             (let s = trim_matches apostrophe (trim_matches quote token)
              in case parse_f64 s of
                   Some n \<Rightarrow>
                     (let names = positional_param_names type_str
                      in (if positional_idx < length names
                          then d\<lparr>id_extra_params := hm_insert (names ! positional_idx) n (id_extra_params d)\<rparr> else d,
                          positional_idx + 1))
                 | None \<Rightarrow>
                     if s = [] then (d, positional_idx)
                     else (case strip_prefix ''live_'' s of
                             Some r \<Rightarrow> (d\<lparr>id_live := True, id_timeframe := parse_timeframe r\<rparr>, positional_idx)
                           | None \<Rightarrow> (d\<lparr>id_live := False, id_timeframe := parse_timeframe s\<rparr>, positional_idx)))))"

definition ind_args :: "string \<Rightarrow> string \<Rightarrow> string list \<Rightarrow> indicator_decl" where
  "ind_args var_name type_str args =
     (let (ind_type, kind) = map_indicator_type type_str
      in fst (foldl (ind_token type_str)
           (\<lparr>id_var_name = var_name, id_ind_type = ind_type, id_period = parse_period (trim (hd args)),
             id_extra_params = [], id_buf_depth = default_buf_depth, id_kind = kind, id_timeframe = None,
             id_live = False\<rparr>, 0) (tl args)))"

definition try_parse_indicator_line :: "string \<Rightarrow> indicator_decl option" where
  "try_parse_indicator_line raw =
     (let line = trim (before_comment (trim raw))
      in if line = [] then None
         else case strip_prefix ''let '' line of
                None \<Rightarrow> None
              | Some r \<Rightarrow>
                  (let rest = trim r
                   in case str_find (CHR ''='') rest of
                        None \<Rightarrow> None
                      | Some eq_pos \<Rightarrow>
                          (let var_name = trim (take eq_pos rest)
                           in if var_name = [] then None
                              else case strip_prefix ''ind.'' (trim (trim_end_matches (CHR '';'') (trim (drop (eq_pos + 1) rest)))) of
                                     None \<Rightarrow> None
                                   | Some after_dot \<Rightarrow>
                                       (case str_find (CHR ''('') after_dot of
                                          None \<Rightarrow> None
                                        | Some paren \<Rightarrow>
                                            (let type_str = trim (take paren after_dot)
                                             in if type_str = [] then None
                                                else Some (ind_args var_name type_str
                                                  (str_split (CHR '','') (trim_end_matches (CHR '')'') (drop (paren + 1) after_dot)))))))))"

section \<open>The configuration of an indicator\<close>

datatype json = JNull | JBool bool | JStr string | JInt nat | JFloat f64 | JArr "json list" | JObj "(string \<times> json) list"

text \<open>A number that is not finite becomes \<open>null\<close>.\<close>

definition json_f64 :: "f64 \<Rightarrow> json" where
  "json_f64 x = (if is_finite x then JFloat x else JNull)"

definition param :: "(string, f64) hmap \<Rightarrow> string \<Rightarrow> f64 \<Rightarrow> f64" where
  "param extra key def = (case hm_get extra key of Some v \<Rightarrow> v | None \<Rightarrow> def)"

definition count_param :: "(string, f64) hmap \<Rightarrow> string \<Rightarrow> f64 \<Rightarrow> json" where
  "count_param extra key def = JInt (usize_of_f64 (fround (fmax (param extra key def) 0)))"

definition config_arms :: "nat \<Rightarrow> (string, f64) hmap \<Rightarrow> (string \<times> (string \<times> json) list) list" where
  "config_arms period extra =
     [(''macd'', [(''fast'', JInt period), (''slow'', count_param extra ''slow'' (lit 26)), (''signal'', count_param extra ''signal'' (lit 9))]),
      (''bbands'', [(''period'', JInt period), (''multiplier'', json_f64 (param extra ''multiplier'' (lit 2)))]),
      (''stochastic'', [(''k_period'', JInt period), (''smooth_k'', count_param extra ''smooth_k'' (lit 1)), (''d_period'', count_param extra ''d_period'' (lit 3))]),
      (''stoch_rsi'', [(''rsi_period'', JInt period), (''smooth_d'', count_param extra ''smooth_d'' (lit 3))]),
      (''supertrend'', [(''period'', JInt period), (''multiplier'', json_f64 (param extra ''multiplier'' (lit 3)))]),
      (''parabolic_sar'', [(''step'', json_f64 (param extra ''step'' (lit (2 / 100)))), (''max'', json_f64 (param extra ''max'' (lit (2 / 10))))]),
      (''kdj'', [(''period'', JInt period), (''k_period'', count_param extra ''k_period'' (lit 3)), (''d_period'', count_param extra ''d_period'' (lit 3))]),
      (''gmma'', if period = 0 then [] else
        [(''short'', JArr [JInt period, count_param extra ''s1'' (lit 5), count_param extra ''s2'' (lit 8), count_param extra ''s3'' (lit 10), count_param extra ''s4'' (lit 12), count_param extra ''s5'' (lit 15)]),
          (''long'', JArr [count_param extra ''l0'' (lit 30), count_param extra ''l1'' (lit 35), count_param extra ''l2'' (lit 40), count_param extra ''l3'' (lit 45), count_param extra ''l4'' (lit 50), count_param extra ''l5'' (lit 60)])]),
      (''alma'', [(''period'', JInt period), (''offset'', json_f64 (param extra ''offset'' (lit (85 / 100)))), (''sigma'', json_f64 (param extra ''sigma'' (lit 6)))]),
      (''trix'', [(''period'', JInt period), (''signal'', count_param extra ''signal'' (lit 9))]),
      (''kama'', [(''er_period'', JInt period), (''fast'', count_param extra ''fast'' (lit 2)), (''slow'', count_param extra ''slow'' (lit 30))]),
      (''keltner'', [(''period'', JInt period), (''atr_period'', count_param extra ''atr_period'' (lit 10)), (''multiplier'', json_f64 (param extra ''multiplier'' (lit 2)))]),
      (''chop_zone'', [(''ema_period'', JInt period), (''threshold'', json_f64 (param extra ''threshold'' (lit 5)))]),
      (''chandelier_exit'', [(''period'', JInt period), (''multiplier'', json_f64 (param extra ''multiplier'' (lit 3)))]),
      (''chande_kroll'', [(''atr_period'', JInt period), (''factor'', json_f64 (param extra ''factor'' (lit (15 / 10)))), (''stop_period'', count_param extra ''stop_period'' (lit 9))]),
      (''kalman'', [(''q_pos'', json_f64 (param extra ''q_pos'' (lit (1 / 1000)))), (''q_vel'', json_f64 (param extra ''q_vel'' (lit (1 / 1000)))), (''r'', json_f64 (param extra ''r'' (lit 1)))]),
      (''alligator'', [(''jaw'', JInt period), (''teeth'', count_param extra ''teeth'' (lit 8)), (''lips'', count_param extra ''lips'' (lit 5))]),
      (''tsi'', [(''first'', JInt period), (''second'', count_param extra ''second'' (lit 13))]),
      (''ppo'', [(''fast'', JInt period), (''slow'', count_param extra ''slow'' (lit 26)), (''signal'', count_param extra ''signal'' (lit 9))]),
      (''uo'', [(''fast'', JInt (if period = 0 then 7 else period)), (''medium'', count_param extra ''medium'' (lit 14)), (''slow'', count_param extra ''slow'' (lit 28))]),
      (''ao'', [(''fast'', JInt (if period = 0 then 5 else period)), (''slow'', count_param extra ''slow'' (lit 34))]),
      (''connors_rsi'', [(''rsi_period'', JInt period), (''streak_period'', count_param extra ''streak_period'' (lit 2)), (''rank_period'', count_param extra ''rank_period'' (lit 100))]),
      (''ichimoku'', [(''tenkan'', JInt period), (''kijun'', count_param extra ''kijun'' (lit 26)), (''senkou_b'', count_param extra ''senkou_b'' (lit 52))]),
      (''volatility_ratio'', [(''lookback'', JInt period)]),
      (''obv'', []),
      (''vwap'', [(''session_gap_mins'', count_param extra ''session_gap_mins'' (lit 390))]),
      (''bop'', []),
      (''coppock'', [(''short'', JInt (if period = 0 then 11 else period)), (''long'', count_param extra ''long'' (lit 14)), (''wma'', count_param extra ''wma'' (lit 10))]),
      (''pmo'', [(''smooth1'', JInt (if period = 0 then 35 else period)), (''smooth2'', count_param extra ''smooth2'' (lit 20)), (''signal'', count_param extra ''signal'' (lit 10))]),
      (''smi'', [(''period'', JInt (if period = 0 then 13 else period)), (''smooth1'', count_param extra ''smooth1'' (lit 25)), (''smooth2'', count_param extra ''smooth2'' (lit 2)), (''signal'', count_param extra ''signal'' (lit 9))]),
      (''kst'', [(''signal'', JInt (if period = 0 then 9 else period))])]"

definition indicator_json_config :: "string \<Rightarrow> nat \<Rightarrow> (string, f64) hmap \<Rightarrow> json" where
  "indicator_json_config ind_type period extra =
     JObj ((''type'', JStr ind_type) #
       (case map_of (config_arms period extra) ind_type of Some fs \<Rightarrow> fs | None \<Rightarrow> [(''period'', JInt period)]))"

definition build_indicator_box ::
  "string \<Rightarrow> string \<Rightarrow> nat \<Rightarrow> (string, f64) hmap \<Rightarrow> script_error + json" where
  "build_indicator_box var_name ind_type period extra =
     (if period = 0 \<and> ind_type \<notin> set period_exempt then Inl (PeriodZero var_name ind_type)
      else case find (\<lambda>(k, v). v < 0) extra of
             Some (k, v) \<Rightarrow> Inl (NegativeParam var_name k v)
           | None \<Rightarrow> Inr (indicator_json_config ind_type period extra))"

definition validate_candle_kind :: "string \<Rightarrow> script_error + unit" where
  "validate_candle_kind kind =
     (if kind \<in> {''raw'', ''heiken_ashi'', ''ha'', ''smooth_ha'', ''smooth_heiken_ashi''} then Inr ()
      else Inl (UnknownCandleKind kind))"

end
