(* ===== verification/Script_Build.thy ===== *)
theory Script_Build
  imports Script_Decl
begin

text \<open>
  Building a script strategy, \<open>alm-strategy/src/script/v1/strategy.rs\<close>: the lines of the regime block and of the main
  block are sorted into indicator declarations, rewritten \<open>ta\<close> calls and plain code, in one namespace; the rest is
  compiled. The static look-back analysis of \<open>script/engine.rs\<close> sizes the bar buffer.

  The Rhai engine is a third-party crate: its compiler is an argument. The constructor of an indicator from its
  configuration is an argument too, so that the result holds for every indicator.
\<close>

section \<open>The static look-back analysis\<close>

text \<open>The last top-level plus or minus sign, not at the first position.\<close>

fun last_sum :: "int \<Rightarrow> nat \<Rightarrow> string \<Rightarrow> (nat \<times> char) option \<Rightarrow> (nat \<times> char) option" where
  "last_sum depth i [] split = split"
| "last_sum depth i (b # bs) split =
     (if b = CHR ''('' then last_sum (depth + 1) (Suc i) bs split
      else if b = CHR '')'' then last_sum (depth - 1) (Suc i) bs split
      else if (b = CHR ''+'' \<or> b = CHR ''-'') \<and> depth = 0 \<and> 0 < i then last_sum depth (Suc i) bs (Some (i, b))
      else last_sum depth (Suc i) bs split)"

text \<open>The first \<open>*\<close>, or the first \<open>/\<close> that is not at the first position.\<close>

fun first_product :: "nat \<Rightarrow> string \<Rightarrow> (nat \<times> char) option" where
  "first_product i [] = None"
| "first_product i (b # bs) =
     (if b = CHR ''*'' \<or> (b = CHR ''/'' \<and> 0 < i) then Some (i, b) else first_product (Suc i) bs)"

lemma last_sum_bound:
  "last_sum depth i bs split = Some (pos, b) \<Longrightarrow> split = Some (pos, b) \<or> i \<le> pos \<and> pos < i + length bs"
  by (induction depth i bs split rule: last_sum.induct) (force split: if_splits)+

lemma first_product_bound: "first_product i bs = Some (pos, b) \<Longrightarrow> i \<le> pos \<and> pos < i + length bs"
  by (induction i bs rule: first_product.induct) (force split: if_splits)+

lemma trim_length: "length (trim s) \<le> length s"
proof -
  have "length (trim_end t) \<le> length t" for t
    using length_dropWhile_le [of is_whitespace "rev t"] by (simp add: trim_end_def)
  then show ?thesis
    using length_dropWhile_le [of is_whitespace s] order_trans by (fastforce simp: trim_def trim_start_def)
qed

definition sat_usize :: "nat \<Rightarrow> nat" where "sat_usize n = min n (2 ^ 64 - 1)"

function eval_const_int_expr :: "string \<Rightarrow> nat option" where
  "eval_const_int_expr raw =
     (let expr = trim raw
      in if expr = [] then None
         else if list_all is_digit expr then parse_usize expr
         else case last_sum 0 0 expr None of
                Some (pos, op) \<Rightarrow>
                  (case eval_const_int_expr (take pos expr) of
                     None \<Rightarrow> None
                   | Some left \<Rightarrow>
                       (case eval_const_int_expr (drop (pos + 1) expr) of
                          None \<Rightarrow> None
                        | Some right \<Rightarrow>
                            if op = CHR ''+'' then Some (sat_usize (left + right))
                            else if right \<le> left then Some (left - right) else None))
              | None \<Rightarrow>
                  (case first_product 0 expr of
                     None \<Rightarrow> None
                   | Some (i, b) \<Rightarrow>
                       (case eval_const_int_expr (take i expr) of
                          None \<Rightarrow> None
                        | Some left \<Rightarrow>
                            (case eval_const_int_expr (drop (i + 1) expr) of
                               None \<Rightarrow> None
                             | Some right \<Rightarrow>
                                 if b = CHR ''*'' then Some (sat_usize (left * right))
                                 else if right = 0 then None else Some (left div right)))))"
  by pat_completeness auto
termination
proof (relation "measure length", simp, goal_cases)
  case (1 raw expr x i b)
  then show ?case using first_product_bound [of 0 expr i b] trim_length [of raw] by auto
next
  case (2 raw expr x i b left)
  then show ?case using first_product_bound [of 0 expr i b] trim_length [of raw] by auto
next
  case (3 raw expr x pos op)
  then show ?case using last_sum_bound [of 0 0 expr None pos op] trim_length [of raw] by auto
next
  case (4 raw expr x pos op left)
  then show ?case using last_sum_bound [of 0 0 expr None pos op] trim_length [of raw] by auto
qed

declare eval_const_int_expr.simps [simp del]

text \<open>The second argument of a call whose opening parenthesis has been read.\<close>

fun second_arg_scan :: "nat \<Rightarrow> nat \<Rightarrow> nat option \<Rightarrow> string \<Rightarrow> string \<Rightarrow> string option" where
  "second_arg_scan depth i comma args [] = map_option (\<lambda>cb. trim (drop (cb + 1) args)) comma"
| "second_arg_scan depth i comma args (c # cs) =
     (if c = CHR ''('' \<or> c = CHR ''['' then second_arg_scan (Suc depth) (Suc i) comma args cs
      else if c = CHR '')'' \<or> c = CHR '']''
      then if depth = 0 then map_option (\<lambda>cb. trim (drop (cb + 1) (take i args))) comma
           else second_arg_scan (depth - 1) (Suc i) comma args cs
      else if c = CHR '','' \<and> depth = 0 \<and> comma = None then second_arg_scan depth (Suc i) (Some i) args cs
      else second_arg_scan depth (Suc i) comma args cs)"

definition second_arg_text :: "string \<Rightarrow> string option" where
  "second_arg_text args = second_arg_scan 0 0 None args args"

definition parse_second_int_arg :: "string \<Rightarrow> nat" where
  "parse_second_int_arg args =
     (case Option.bind (second_arg_text args) eval_const_int_expr of Some n \<Rightarrow> n | None \<Rightarrow> 0)"

definition second_arg_is_static_literal :: "string \<Rightarrow> bool" where
  "second_arg_is_static_literal args =
     (case second_arg_text args of Some t \<Rightarrow> eval_const_int_expr t \<noteq> None | None \<Rightarrow> False)"

definition second_arg_fns :: "(string \<times> nat) list" where
  "second_arg_fns =
     [(''highest('', 0), (''lowest('', 0), (''momentum('', 1), (''pct_change('', 1), (''rising_n('', 1),
      (''falling_n('', 1), (''stdev('', 0), (''zscore('', 0), (''slope('', 0), (''avg('', 0), (''sum('', 0)]"

text \<open>The rest after the first occurrence of a text; the sum wraps at 64 bits.\<close>

fun find_after :: "string \<Rightarrow> string \<Rightarrow> string option" where
  "find_after p [] = (if p = [] then Some [] else None)"
| "find_after p (c # cs) = (if starts_with p (c # cs) then Some (drop (length p) (c # cs)) else find_after p cs)"

lemma find_after_length: "find_after p s = Some r \<Longrightarrow> p \<noteq> [] \<Longrightarrow> length r < length s"
proof (induction s)
  case (Cons c cs)
  then show ?case by (cases p) (auto split: if_splits)
qed (auto split: if_splits)

function lookback_scan :: "string \<Rightarrow> nat \<Rightarrow> string \<Rightarrow> nat \<Rightarrow> nat" where
  "lookback_scan p extra search max_n =
     (if p = [] then max_n
      else case find_after p search of
             None \<Rightarrow> max_n
           | Some after_open \<Rightarrow>
               lookback_scan p extra after_open (max max_n ((parse_second_int_arg after_open + extra) mod 2 ^ 64)))"
  by pat_completeness auto
termination by (relation "measure (\<lambda>(p, extra, s, m). length s)") (auto simp: find_after_length)

declare lookback_scan.simps [simp del]

definition extract_max_lookback :: "string \<Rightarrow> nat" where
  "extract_max_lookback script = foldl (\<lambda>n (p, extra). lookback_scan p extra script n) 0 second_arg_fns"

section \<open>Processing a block\<close>

type_synonym script_names = "string list"

fun process_lines ::
  "string list \<Rightarrow> int \<Rightarrow> indicator_decl list \<Rightarrow> script_names \<Rightarrow> string list \<Rightarrow>
   script_error + (string list \<times> indicator_decl list \<times> script_names)" where
  "process_lines [] brace_depth decls names cleaned = Inr (cleaned, decls, names)"
| "process_lines (line # rest) brace_depth decls names cleaned =
     (let depth' = brace_depth + brace_depth_delta line
      in case try_parse_indicator_line line of
           Some decl \<Rightarrow>
             if id_var_name decl \<in> set names then Inl (DeclaredTwice (id_var_name decl))
             else process_lines rest depth' (decls @ [decl]) (id_var_name decl # names) cleaned
         | None \<Rightarrow>
             (case validate_ta_declarations line of
                Inl e \<Rightarrow> Inl e
              | Inr _ \<Rightarrow>
                  (case rewrite_ta_line line of
                     Inl e \<Rightarrow> Inl e
                   | Inr None \<Rightarrow> process_lines rest depth' decls names (cleaned @ [line])
                   | Inr (Some (var_name, rewritten)) \<Rightarrow>
                       (case validate_ta_top_level var_name line brace_depth of
                          Inl e \<Rightarrow> Inl e
                        | Inr _ \<Rightarrow>
                            if var_name \<in> set names then Inl (DeclaredTwice var_name)
                            else process_lines rest depth' decls (var_name # names) (cleaned @ [rewritten])))))"

definition process_script_block ::
  "string \<Rightarrow> indicator_decl list \<Rightarrow> script_names \<Rightarrow>
   script_error + (string \<times> indicator_decl list \<times> script_names)" where
  "process_script_block body decls names =
     (case process_lines (str_lines body) 0 decls names [] of
        Inl e \<Rightarrow> Inl e
      | Inr (ls, decls', names') \<Rightarrow> Inr (str_join [nl] ls, decls', names'))"

end
