(* ===== verification/Moving_Averages.thy ===== *)
theory Moving_Averages
  imports F64
begin

text \<open>
  \<open>alm-indicator/src/signal/trend\<close>: the streaming averages \<open>Sma\<close> (with its compensated running sum),
  \<open>Ema\<close>, \<open>Smma\<close>, \<open>Wma\<close>, \<open>Dema\<close> and \<open>Tema\<close>. An update takes the state and one price and returns the new
  state with the value of the indicator, if it has one; the outer option is the panic of an \<open>unwrap\<close> or
  an \<open>assert\<close>.

  The contract all indicators share is the locale \<open>warm_up\<close>: after construction an indicator never panics,
  is silent for a known number of inputs and speaks from then on, and \<open>reset\<close> gives back the fresh
  indicator. It is interpreted on every indicator of this theory and of \<open>Oscillators\<close>.
\<close>

section \<open>Feeding a stream of inputs\<close>

type_synonym ('s, 'i, 'o) updater = "'s \<Rightarrow> 'i \<Rightarrow> ('s \<times> 'o option) option"

primrec run_updates :: "('s, 'i, 'o) updater \<Rightarrow> 's \<Rightarrow> 'i list \<Rightarrow> ('s \<times> 'o option list) option" where
  "run_updates upd s [] = Some (s, [])"
| "run_updates upd s (x # xs) =
     (case upd s x of
        None \<Rightarrow> None
      | Some (s', v) \<Rightarrow> map_option (\<lambda>(s'', vs). (s'', v # vs)) (run_updates upd s' xs))"

text \<open>No panic, silent exactly for the first \<open>n - 1\<close> inputs, and \<open>reset\<close> restores the start state.\<close>

definition warms_up :: "('s, 'i, 'o) updater \<Rightarrow> ('s \<Rightarrow> 's option) \<Rightarrow> 's \<Rightarrow> nat \<Rightarrow> 'i list \<Rightarrow> bool" where
  "warms_up upd rst s0 n xs \<longleftrightarrow>
     (case run_updates upd s0 xs of
        None \<Rightarrow> False
      | Some (s, vs) \<Rightarrow>
          map (\<lambda>v. v = None) vs = map (\<lambda>k. Suc k < n) [0..<length xs] \<and> rst s = Some s0)"

section \<open>\<open>Sma\<close>\<close>

record sma =
  sma_period :: nat
  sma_buffer :: "f64 list"
  sma_sum :: f64
  sma_c :: f64

definition sma_start :: "nat \<Rightarrow> sma" where
  "sma_start period = \<lparr>sma_period = period, sma_buffer = [], sma_sum = 0, sma_c = 0\<rparr>"

definition sma_new :: "nat \<Rightarrow> sma option" where
  "sma_new period = (if 0 < period then Some (sma_start period) else None)"

definition kahan_add :: "sma \<Rightarrow> f64 \<Rightarrow> sma" where
  "kahan_add s x =
     (let y = x - sma_c s;
          t = sma_sum s + y
      in s\<lparr>sma_c := (t - sma_sum s) - y, sma_sum := t\<rparr>)"

definition sma_value :: "sma \<Rightarrow> f64 option" where
  "sma_value s =
     (if length (sma_buffer s) = sma_period s then Some (sma_sum s / f64_of_nat (sma_period s)) else None)"

definition sma_update :: "sma \<Rightarrow> f64 \<Rightarrow> (sma \<times> f64 option) option" where
  "sma_update s value =
     (let s1 = kahan_add (s\<lparr>sma_buffer := sma_buffer s @ [value]\<rparr>) value;
          s2 = (if sma_period s1 < length (sma_buffer s1) then
                  (case sma_buffer s1 of
                     [] \<Rightarrow> None
                   | old # rest \<Rightarrow> Some (kahan_add (s1\<lparr>sma_buffer := rest\<rparr>) (- old)))
                else Some s1)
      in map_option (\<lambda>s. (s, sma_value s)) s2)"

definition sma_is_ready :: "sma \<Rightarrow> bool" where
  "sma_is_ready s \<longleftrightarrow> length (sma_buffer s) = sma_period s"

definition sma_reset :: "sma \<Rightarrow> sma" where
  "sma_reset s = s\<lparr>sma_buffer := [], sma_sum := 0, sma_c := 0\<rparr>"

section \<open>\<open>Ema\<close>\<close>

record ema =
  ema_period :: nat
  ema_multiplier :: f64
  ema_val :: "f64 option"
  ema_count :: nat
  ema_seed_sum :: f64

definition ema_start :: "nat \<Rightarrow> ema" where
  "ema_start period =
     \<lparr>ema_period = period, ema_multiplier = lit 2 / (f64_of_nat period + 1), ema_val = None,
      ema_count = 0, ema_seed_sum = 0\<rparr>"

definition ema_new :: "nat \<Rightarrow> ema option" where
  "ema_new period = (if 0 < period then Some (ema_start period) else None)"

definition ema_update :: "ema \<Rightarrow> f64 \<Rightarrow> (ema \<times> f64 option) option" where
  "ema_update e0 value =
     (let e = e0\<lparr>ema_count := ema_count e0 + 1\<rparr> in
      if ema_count e < ema_period e then
        Some (e\<lparr>ema_seed_sum := ema_seed_sum e + value\<rparr>, None)
      else if ema_count e = ema_period e then
        (let e1 = e\<lparr>ema_seed_sum := ema_seed_sum e + value\<rparr>;
             e2 = e1\<lparr>ema_val := Some (ema_seed_sum e1 / f64_of_nat (ema_period e1))\<rparr>
         in Some (e2, ema_val e2))
      else
        (case ema_val e of
           None \<Rightarrow> None
         | Some prev \<Rightarrow>
             (let e1 = e\<lparr>ema_val := Some (value * ema_multiplier e + prev * (1 - ema_multiplier e))\<rparr>
              in Some (e1, ema_val e1))))"

definition ema_value :: "ema \<Rightarrow> f64 option" where
  "ema_value e = ema_val e"

definition ema_is_ready :: "ema \<Rightarrow> bool" where
  "ema_is_ready e \<longleftrightarrow> ema_val e \<noteq> None"

definition ema_reset :: "ema \<Rightarrow> ema" where
  "ema_reset e = e\<lparr>ema_val := None, ema_count := 0, ema_seed_sum := 0\<rparr>"

section \<open>\<open>Smma\<close>\<close>

record smma =
  smma_period :: nat
  smma_alpha :: f64
  smma_val :: "f64 option"
  smma_count :: nat
  smma_seed_sum :: f64

definition smma_start :: "nat \<Rightarrow> smma" where
  "smma_start period =
     \<lparr>smma_period = period, smma_alpha = 1 / f64_of_nat period, smma_val = None, smma_count = 0,
      smma_seed_sum = 0\<rparr>"

definition smma_new :: "nat \<Rightarrow> smma option" where
  "smma_new period = (if 0 < period then Some (smma_start period) else None)"

definition smma_update :: "smma \<Rightarrow> f64 \<Rightarrow> (smma \<times> f64 option) option" where
  "smma_update s0 price =
     (let s = s0\<lparr>smma_count := smma_count s0 + 1\<rparr> in
      if smma_count s < smma_period s then
        Some (s\<lparr>smma_seed_sum := smma_seed_sum s + price\<rparr>, None)
      else if smma_count s = smma_period s then
        (let s1 = s\<lparr>smma_seed_sum := smma_seed_sum s + price\<rparr>;
             s2 = s1\<lparr>smma_val := Some (smma_seed_sum s1 / f64_of_nat (smma_period s1))\<rparr>
         in Some (s2, smma_val s2))
      else
        (case smma_val s of
           None \<Rightarrow> None
         | Some prev \<Rightarrow>
             (let s1 = s\<lparr>smma_val := Some (prev + smma_alpha s * (price - prev))\<rparr>
              in Some (s1, smma_val s1))))"

definition smma_value :: "smma \<Rightarrow> f64 option" where
  "smma_value s = smma_val s"

definition smma_is_ready :: "smma \<Rightarrow> bool" where
  "smma_is_ready s \<longleftrightarrow> smma_val s \<noteq> None"

definition smma_reset :: "smma \<Rightarrow> smma" where
  "smma_reset s = s\<lparr>smma_val := None, smma_count := 0, smma_seed_sum := 0\<rparr>"

section \<open>\<open>Wma\<close>\<close>

record wma =
  wma_period :: nat
  wma_buffer :: "f64 list"
  wma_weight_sum :: f64

definition wma_start :: "nat \<Rightarrow> wma" where
  "wma_start period =
     \<lparr>wma_period = period, wma_buffer = [], wma_weight_sum = f64_of_nat (period * (period + 1) div 2)\<rparr>"

definition wma_new :: "nat \<Rightarrow> wma option" where
  "wma_new period = (if 0 < period then Some (wma_start period) else None)"

definition weighted_sum :: "f64 list \<Rightarrow> f64" where
  "weighted_sum xs = fsum (map (\<lambda>(i, v). v * f64_of_nat (i + 1)) (enumerate 0 xs))"

definition wma_update :: "wma \<Rightarrow> f64 \<Rightarrow> wma \<times> f64 option" where
  "wma_update w value =
     (let b1 = wma_buffer w @ [value];
          b2 = (if wma_period w < length b1 then tl b1 else b1);
          w' = w\<lparr>wma_buffer := b2\<rparr>
      in (w', if length b2 < wma_period w then None else Some (weighted_sum b2 / wma_weight_sum w)))"

definition wma_is_ready :: "wma \<Rightarrow> bool" where
  "wma_is_ready w \<longleftrightarrow> wma_period w \<le> length (wma_buffer w)"

definition wma_reset :: "wma \<Rightarrow> wma" where
  "wma_reset w = w\<lparr>wma_buffer := []\<rparr>"

section \<open>\<open>Dema\<close> and \<open>Tema\<close>\<close>

record dema =
  dema_ema1 :: ema
  dema_ema2 :: ema
  dema_period :: nat

definition dema_start :: "nat \<Rightarrow> dema" where
  "dema_start period =
     \<lparr>dema_ema1 = ema_start period, dema_ema2 = ema_start period, dema_period = period\<rparr>"

definition dema_new :: "nat \<Rightarrow> dema option" where
  "dema_new period = Option.bind (ema_new period) (\<lambda>e1. map_option (\<lambda>e2.
     \<lparr>dema_ema1 = e1, dema_ema2 = e2, dema_period = period\<rparr>) (ema_new period))"

definition dema_update :: "dema \<Rightarrow> f64 \<Rightarrow> (dema \<times> f64 option) option" where
  "dema_update d value =
     (case ema_update (dema_ema1 d) value of
        None \<Rightarrow> None
      | Some (m1, None) \<Rightarrow> Some (d\<lparr>dema_ema1 := m1\<rparr>, None)
      | Some (m1, Some e1) \<Rightarrow>
          (case ema_update (dema_ema2 d) e1 of
             None \<Rightarrow> None
           | Some (m2, None) \<Rightarrow> Some (d\<lparr>dema_ema1 := m1, dema_ema2 := m2\<rparr>, None)
           | Some (m2, Some e2) \<Rightarrow>
               Some (d\<lparr>dema_ema1 := m1, dema_ema2 := m2\<rparr>, Some (lit 2 * e1 - e2))))"

definition dema_value :: "dema \<Rightarrow> f64 option" where
  "dema_value d =
     Option.bind (ema_value (dema_ema1 d)) (\<lambda>e1. map_option (\<lambda>e2. lit 2 * e1 - e2) (ema_value (dema_ema2 d)))"

definition dema_reset :: "dema \<Rightarrow> dema option" where
  "dema_reset d = Option.bind (ema_new (dema_period d)) (\<lambda>e1. map_option (\<lambda>e2.
     d\<lparr>dema_ema1 := e1, dema_ema2 := e2\<rparr>) (ema_new (dema_period d)))"

record tema =
  tema_ema1 :: ema
  tema_ema2 :: ema
  tema_ema3 :: ema

definition tema_start :: "nat \<Rightarrow> tema" where
  "tema_start period =
     \<lparr>tema_ema1 = ema_start period, tema_ema2 = ema_start period, tema_ema3 = ema_start period\<rparr>"

definition tema_new :: "nat \<Rightarrow> tema option" where
  "tema_new period = Option.bind (ema_new period) (\<lambda>e1. Option.bind (ema_new period) (\<lambda>e2.
     map_option (\<lambda>e3. \<lparr>tema_ema1 = e1, tema_ema2 = e2, tema_ema3 = e3\<rparr>) (ema_new period)))"

definition tema_update :: "tema \<Rightarrow> f64 \<Rightarrow> (tema \<times> f64 option) option" where
  "tema_update t close =
     (case ema_update (tema_ema1 t) close of
        None \<Rightarrow> None
      | Some (m1, None) \<Rightarrow> Some (t\<lparr>tema_ema1 := m1\<rparr>, None)
      | Some (m1, Some e1) \<Rightarrow>
          (case ema_update (tema_ema2 t) e1 of
             None \<Rightarrow> None
           | Some (m2, None) \<Rightarrow> Some (t\<lparr>tema_ema1 := m1, tema_ema2 := m2\<rparr>, None)
           | Some (m2, Some e2) \<Rightarrow>
               (case ema_update (tema_ema3 t) e2 of
                  None \<Rightarrow> None
                | Some (m3, None) \<Rightarrow>
                    Some (t\<lparr>tema_ema1 := m1, tema_ema2 := m2, tema_ema3 := m3\<rparr>, None)
                | Some (m3, Some e3) \<Rightarrow>
                    Some (t\<lparr>tema_ema1 := m1, tema_ema2 := m2, tema_ema3 := m3\<rparr>,
                          Some (lit 3 * e1 - lit 3 * e2 + e3)))))"

definition tema_reset :: "tema \<Rightarrow> tema" where
  "tema_reset t =
     t\<lparr>tema_ema1 := ema_reset (tema_ema1 t), tema_ema2 := ema_reset (tema_ema2 t),
       tema_ema3 := ema_reset (tema_ema3 t)\<rparr>"

section \<open>The shared contract\<close>

locale warm_up =
  fixes upd :: "('s, 'i, 'o) updater"
    and rst :: "'s \<Rightarrow> 's option"
    and start :: "nat \<Rightarrow> 's"
    and need :: "nat \<Rightarrow> nat"
    and fed :: "nat \<Rightarrow> nat \<Rightarrow> 's \<Rightarrow> bool"
  assumes fed_start: "0 < p \<Longrightarrow> fed p 0 (start p)"
    and fed_update: "0 < p \<Longrightarrow> fed p k s \<Longrightarrow>
      \<exists>s' v. upd s x = Some (s', v) \<and> fed p (Suc k) s' \<and> (v = None \<longleftrightarrow> Suc k < need p)"
    and fed_reset: "0 < p \<Longrightarrow> fed p k s \<Longrightarrow> rst s = Some (start p)"
begin

lemma run_from:
  "0 < p \<Longrightarrow> fed p k s \<Longrightarrow>
   \<exists>s' vs. run_updates upd s xs = Some (s', vs) \<and> fed p (k + length xs) s' \<and>
     map (\<lambda>v. v = None) vs = map (\<lambda>j. Suc j < need p) [k..<k + length xs]"
proof (induction xs arbitrary: k s)
  case (Cons x xs)
  obtain s1 v where u: "upd s x = Some (s1, v)" "fed p (Suc k) s1" "v = None \<longleftrightarrow> Suc k < need p"
    using fed_update [OF Cons.prems] by blast
  obtain s2 vs where r: "run_updates upd s1 xs = Some (s2, vs)" "fed p (Suc k + length xs) s2"
      "map (\<lambda>v. v = None) vs = map (\<lambda>j. Suc j < need p) [Suc k..<Suc k + length xs]"
    using Cons.IH [OF Cons.prems(1) u(2)] by blast
  have "[k..<k + length (x # xs)] = k # [Suc k..<Suc k + length xs]" by (simp add: upt_rec)
  then show ?case using u r by auto
qed simp

lemma warms_up_run: "0 < p \<Longrightarrow> warms_up upd rst (start p) (need p) xs"
  using run_from [OF _ fed_start, of p xs] fed_reset by (auto simp: warms_up_def)

lemma run_length: "0 < p \<Longrightarrow> run_updates upd (start p) xs = Some (s, vs) \<Longrightarrow> length vs = length xs"
  using run_from [OF _ fed_start, of p xs] by (metis (no_types, lifting) Pair_inject add_0 diff_zero length_map length_upt option.inject)

end

subsection \<open>The averages keep the contract\<close>

definition sma_fed :: "nat \<Rightarrow> nat \<Rightarrow> sma \<Rightarrow> bool" where
  "sma_fed p k s \<longleftrightarrow> sma_period s = p \<and> length (sma_buffer s) = min k p"

definition ema_fed :: "nat \<Rightarrow> nat \<Rightarrow> ema \<Rightarrow> bool" where
  "ema_fed p k e \<longleftrightarrow> ema_period e = p \<and> ema_multiplier e = ema_multiplier (ema_start p) \<and>
     ema_count e = k \<and> (ema_val e = None \<longleftrightarrow> k < p)"

definition smma_fed :: "nat \<Rightarrow> nat \<Rightarrow> smma \<Rightarrow> bool" where
  "smma_fed p k s \<longleftrightarrow> smma_period s = p \<and> smma_alpha s = smma_alpha (smma_start p) \<and>
     smma_count s = k \<and> (smma_val s = None \<longleftrightarrow> k < p)"

definition wma_fed :: "nat \<Rightarrow> nat \<Rightarrow> wma \<Rightarrow> bool" where
  "wma_fed p k w \<longleftrightarrow> wma_period w = p \<and> wma_weight_sum w = wma_weight_sum (wma_start p) \<and>
     length (wma_buffer w) = min k p"

definition dema_fed :: "nat \<Rightarrow> nat \<Rightarrow> dema \<Rightarrow> bool" where
  "dema_fed p k d \<longleftrightarrow> dema_period d = p \<and> ema_fed p k (dema_ema1 d) \<and> ema_fed p (k - (p - 1)) (dema_ema2 d)"

definition tema_fed :: "nat \<Rightarrow> nat \<Rightarrow> tema \<Rightarrow> bool" where
  "tema_fed p k t \<longleftrightarrow> ema_fed p k (tema_ema1 t) \<and> ema_fed p (k - (p - 1)) (tema_ema2 t) \<and>
     ema_fed p (k - 2 * (p - 1)) (tema_ema3 t)"

lemma kahan_add_simps [simp]:
  "sma_buffer (kahan_add s x) = sma_buffer s" "sma_period (kahan_add s x) = sma_period s"
  by (simp_all add: kahan_add_def Let_def)

interpretation sma: warm_up sma_update "\<lambda>s. Some (sma_reset s)" sma_start "\<lambda>p. p" sma_fed
proof unfold_locales
  fix p k and s :: sma and x :: f64
  assume "0 < p" and "sma_fed p k s"
  then show "\<exists>s' v. sma_update s x = Some (s', v) \<and> sma_fed p (Suc k) s' \<and> (v = None \<longleftrightarrow> Suc k < p)"
    by (cases "sma_buffer s") (auto simp: sma_update_def sma_fed_def sma_value_def Let_def min_def split: if_splits)
qed (auto simp: sma_fed_def sma_start_def sma_reset_def)

lemma ema_fed_update:
  assumes "0 < p" and "ema_fed p k e"
  shows "\<exists>e' v. ema_update e x = Some (e', v) \<and> ema_fed p (Suc k) e' \<and> (v = None \<longleftrightarrow> Suc k < p)"
  using assms by (auto simp: ema_update_def ema_fed_def Let_def split: option.splits)

lemma ema_fed_start: "0 < p \<Longrightarrow> ema_fed p 0 (ema_start p)"
  by (simp add: ema_fed_def ema_start_def)

lemma ema_fed_reset: "ema_fed p k e \<Longrightarrow> ema_reset e = ema_start p"
  by (simp add: ema_fed_def ema_start_def ema_reset_def)

interpretation ema: warm_up ema_update "\<lambda>e. Some (ema_reset e)" ema_start "\<lambda>p. p" ema_fed
  by unfold_locales (simp_all add: ema_fed_start ema_fed_update ema_fed_reset)

interpretation smma: warm_up smma_update "\<lambda>s. Some (smma_reset s)" smma_start "\<lambda>p. p" smma_fed
proof unfold_locales
  fix p k and s :: smma and x :: f64
  assume "0 < p" and "smma_fed p k s"
  then show "\<exists>s' v. smma_update s x = Some (s', v) \<and> smma_fed p (Suc k) s' \<and> (v = None \<longleftrightarrow> Suc k < p)"
    by (auto simp: smma_update_def smma_fed_def Let_def split: option.splits)
qed (simp_all add: smma_fed_def smma_start_def smma_reset_def)

interpretation wma: warm_up "\<lambda>w x. Some (wma_update w x)" "\<lambda>w. Some (wma_reset w)" wma_start "\<lambda>p. p" wma_fed
proof unfold_locales
  fix p k and w :: wma and x :: f64
  assume "0 < p" and "wma_fed p k w"
  then show "\<exists>w' v. Some (wma_update w x) = Some (w', v) \<and> wma_fed p (Suc k) w' \<and> (v = None \<longleftrightarrow> Suc k < p)"
    by (auto simp: wma_update_def wma_fed_def Let_def min_def split: if_splits)
qed (simp_all add: wma_fed_def wma_start_def wma_reset_def)

interpretation dema: warm_up dema_update dema_reset dema_start "\<lambda>p. 2 * p - 1" dema_fed
proof unfold_locales
  fix p k and d :: dema and x :: f64
  assume p: "0 < p" and d: "dema_fed p k d"
  obtain m1 v1 where u1: "ema_update (dema_ema1 d) x = Some (m1, v1)" "ema_fed p (Suc k) m1" "v1 = None \<longleftrightarrow> Suc k < p"
    using ema_fed_update [OF p] d unfolding dema_fed_def by blast
  show "\<exists>d' v. dema_update d x = Some (d', v) \<and> dema_fed p (Suc k) d' \<and> (v = None \<longleftrightarrow> Suc k < 2 * p - 1)"
  proof (cases v1)
    case None
    then show ?thesis using u1 d p by (auto simp: dema_update_def dema_fed_def)
  next
    case (Some e1)
    obtain m2 v2 where u2: "ema_update (dema_ema2 d) e1 = Some (m2, v2)" "ema_fed p (Suc (k - (p - 1))) m2"
        "v2 = None \<longleftrightarrow> Suc (k - (p - 1)) < p"
      using ema_fed_update [OF p] d unfolding dema_fed_def by blast
    have "Suc (k - (p - 1)) = Suc k - (p - 1)" using Some u1 by auto
    then show ?thesis using u1 u2 d p Some by (cases v2) (auto simp: dema_update_def dema_fed_def)
  qed
qed (auto simp: dema_fed_def dema_start_def dema_reset_def ema_new_def ema_fed_start)

interpretation tema: warm_up tema_update "\<lambda>t. Some (tema_reset t)" tema_start "\<lambda>p. 3 * p - 2" tema_fed
proof unfold_locales
  fix p k and t :: tema and x :: f64
  assume p: "0 < p" and t: "tema_fed p k t"
  obtain m1 v1 where u1: "ema_update (tema_ema1 t) x = Some (m1, v1)" "ema_fed p (Suc k) m1" "v1 = None \<longleftrightarrow> Suc k < p"
    using ema_fed_update [OF p] t unfolding tema_fed_def by blast
  show "\<exists>t' v. tema_update t x = Some (t', v) \<and> tema_fed p (Suc k) t' \<and> (v = None \<longleftrightarrow> Suc k < 3 * p - 2)"
  proof (cases v1)
    case None
    then show ?thesis using u1 t p by (auto simp: tema_update_def tema_fed_def)
  next
    case e1: (Some e1)
    obtain m2 v2 where u2: "ema_update (tema_ema2 t) e1 = Some (m2, v2)" "ema_fed p (Suc (k - (p - 1))) m2"
        "v2 = None \<longleftrightarrow> Suc (k - (p - 1)) < p"
      using ema_fed_update [OF p] t unfolding tema_fed_def by blast
    have k2: "Suc (k - (p - 1)) = Suc k - (p - 1)" using e1 u1 by auto
    show ?thesis
    proof (cases v2)
      case None
      then show ?thesis using u1 u2 t p e1 k2 by (auto simp: tema_update_def tema_fed_def)
    next
      case e2: (Some e2)
      obtain m3 v3 where u3: "ema_update (tema_ema3 t) e2 = Some (m3, v3)"
          "ema_fed p (Suc (k - 2 * (p - 1))) m3" "v3 = None \<longleftrightarrow> Suc (k - 2 * (p - 1)) < p"
        using ema_fed_update [OF p] t unfolding tema_fed_def by blast
      have "Suc (k - 2 * (p - 1)) = Suc k - 2 * (p - 1)" using e1 e2 u1 u2 by auto
      moreover have "v3 = None \<longleftrightarrow> Suc k < 3 * p - 2" using u3(3) e1 e2 u1 u2 p by auto
      ultimately show ?thesis using u1 u2 u3(1,2) t p e1 e2 k2
        by (cases v3) (auto simp: tema_update_def tema_fed_def)
    qed
  qed
qed (auto simp: tema_fed_def tema_start_def tema_reset_def ema_fed_start ema_fed_reset)

section \<open>Exact averages of whole prices\<close>

lemma run_updates_snoc:
  "run_updates upd s (xs @ [x]) =
     (case run_updates upd s xs of
        None \<Rightarrow> None
      | Some (s', vs) \<Rightarrow> (case upd s' x of None \<Rightarrow> None | Some (s'', v) \<Rightarrow> Some (s'', vs @ [v])))"
  by (induction xs arbitrary: s) (auto split: option.splits)

text \<open>The reference: an exact sum, divided once.\<close>

definition mean_f64 :: "int list \<Rightarrow> f64" where
  "mean_f64 ns = int_f64 (sum_list ns) / f64_of_nat (length ns)"

definition weighted_total :: "int list \<Rightarrow> int" where
  "weighted_total ns = (\<Sum>i<length ns. ns ! i * (int i + 1))"

lemma sum_list_bound: "\<forall>n \<in> set ns. \<bar>n\<bar> \<le> B \<Longrightarrow> \<bar>sum_list ns\<bar> \<le> int (length ns) * B"
  for B :: int
  by (induction ns) (auto simp: algebra_simps)

lemma kahan_add_exact:
  assumes "sma_sum s = int_f64 a" and "sma_c s = 0" and "\<bar>a\<bar> \<le> 2 ^ 53" and "\<bar>n\<bar> \<le> 2 ^ 53" and "\<bar>a + n\<bar> \<le> 2 ^ 53"
    and "x = int_f64 n \<or> n = 0 \<and> x = NZero"
  shows "kahan_add s x = s\<lparr>sma_sum := int_f64 (a + n), sma_c := 0\<rparr>"
proof -
  have z: "int_f64 m - 0 = int_f64 m" if "\<bar>m\<bar> \<le> 2 ^ 53" for m
    using that int_f64_arith(2) [of m 0] by (simp add: int_f64_0)
  show ?thesis
  proof (cases "x = int_f64 n")
    case True
    have "int_f64 a + int_f64 n = int_f64 (a + n)" "int_f64 (a + n) - int_f64 a = int_f64 n"
      "int_f64 n - int_f64 n = 0"
      using assms int_f64_arith(1) [of a n] int_f64_arith(2) [of "a + n" a] int_f64_arith(2) [of n n]
      by (simp_all add: int_f64_0)
    then show ?thesis using assms True by (simp add: kahan_add_def Let_def z)
  next
    case False
    then have x: "n = 0" "x = NZero" using assms by auto
    have "NZero - 0 = NZero" "int_f64 a + NZero = int_f64 a" "int_f64 a - int_f64 a = 0" "(0 :: f64) - NZero = 0"
      using fadd_neutral [of "int_f64 a"] representable_of_int [of a] assms int_f64_arith(2) [of a a]
      by (simp_all add: minus_f64_def zero_f64_def plus_f64_def fl_signed_def int_f64_def)
    then show ?thesis using assms x by (simp add: kahan_add_def Let_def)
  qed
qed

definition sma_exact :: "nat \<Rightarrow> int list \<Rightarrow> sma \<Rightarrow> bool" where
  "sma_exact p ns s \<longleftrightarrow> sma_period s = p \<and> sma_buffer s = map int_f64 (take_last p ns) \<and>
     sma_sum s = int_f64 (sum_list (take_last p ns)) \<and> sma_c s = 0"

lemma set_take_last_subset: "set (take_last p xs) \<subseteq> set xs"
  by (simp add: take_last_def set_drop_subset)

lemma sma_update_exact:
  assumes inv: "sma_exact p ns s" and p: "0 < p"
    and B: "\<forall>m \<in> set (ns @ [n]). \<bar>m\<bar> \<le> B" "int (p + 1) * B \<le> 2 ^ 53"
  shows "\<exists>s'. sma_update s (int_f64 n) = Some (s', sma_value s') \<and> sma_exact p (ns @ [n]) s'"
proof -
  let ?w = "take_last p ns"
  let ?S = "sum_list ?w"
  have w: "\<forall>m \<in> set ?w. \<bar>m\<bar> \<le> B" using B(1) set_take_last_subset [of p ns] by auto
  have B0: "0 \<le> B" "\<bar>n\<bar> \<le> B" using B(1) by auto
  have "int (length ?w) * B \<le> int p * B" using B0(1) by (intro mult_right_mono) auto
  then have S: "\<bar>?S\<bar> \<le> int p * B" using sum_list_bound [OF w] by linarith
  have mul: "int (p + 1) * B = int p * B + B" "B \<le> int p * B"
    using p B0(1) mult_right_mono [of 1 "int p" B] by (auto simp: algebra_simps)
  have bounds: "\<bar>?S\<bar> \<le> 2 ^ 53" "\<bar>n\<bar> \<le> 2 ^ 53" "\<bar>?S + n\<bar> \<le> 2 ^ 53" using S B0 B(2) mul by linarith+
  have add: "kahan_add (s\<lparr>sma_buffer := b\<rparr>) (int_f64 n) =
      s\<lparr>sma_buffer := b, sma_sum := int_f64 (?S + n), sma_c := 0\<rparr>" for b
    using kahan_add_exact [of "s\<lparr>sma_buffer := b\<rparr>" ?S n "int_f64 n"] inv bounds by (simp add: sma_exact_def)
  show ?thesis
  proof (cases "length ns < p")
    case True
    then show ?thesis using inv by (auto simp: sma_update_def sma_exact_def add Let_def)
  next
    case False
    then obtain old rest where or: "?w = old # rest" using p by (cases ?w) (auto dest: arg_cong [where f = length])
    then have len: "length rest = p - 1" using False by (metis length_take_last length_Cons diff_Suc_1 min.absorb1 not_less)
    have "take_last p (ns @ [n]) = take_last p (?w @ [n])" by (simp add: take_last_snoc_take_last)
    also have "\<dots> = rest @ [n]" using or len p by (simp add: take_last_def)
    finally have tl: "take_last p (ns @ [n]) = rest @ [n]" .
    have old: "\<bar>old\<bar> \<le> B" using w or by simp
    have rest: "\<bar>sum_list rest + n\<bar> \<le> 2 ^ 53"
    proof -
      have "\<bar>sum_list rest\<bar> \<le> int (p - 1) * B" using sum_list_bound [of rest B] w or len by simp
      moreover have "int (p - 1) * B \<le> int p * B" using B0(1) by (intro mult_right_mono) auto
      ultimately show ?thesis using B0 B(2) mul by linarith
    qed
    have "kahan_add (s\<lparr>sma_sum := int_f64 (?S + n), sma_c := 0, sma_buffer := b\<rparr>) (- int_f64 old) =
      s\<lparr>sma_buffer := b, sma_sum := int_f64 (sum_list rest + n), sma_c := 0\<rparr>" for b
      using kahan_add_exact [of "s\<lparr>sma_sum := int_f64 (?S + n), sma_c := 0, sma_buffer := b\<rparr>" "?S + n" "- old" "- int_f64 old"]
        bounds rest old B0 B(2) mul or int_f64_arith(3) [of old] by (cases "old = 0") (auto simp: int_f64_def)
    then show ?thesis using inv or len p tl by (auto simp: sma_update_def sma_exact_def add)
  qed
qed

lemma sma_value_exact:
  "sma_exact p ns s \<Longrightarrow>
   sma_value s = (if length ns < p then None else Some (mean_f64 (take_last p ns)))"
  by (auto simp: sma_value_def sma_exact_def mean_f64_def)

text \<open>The outputs a windowed average should have on the prices \<open>ns\<close>.\<close>

definition windowed :: "nat \<Rightarrow> (int list \<Rightarrow> f64) \<Rightarrow> int list \<Rightarrow> f64 option list" where
  "windowed p f ns =
     map (\<lambda>k. if Suc k < p then None else Some (f (take_last p (take (Suc k) ns)))) [0..<length ns]"

lemma windowed_snoc:
  "windowed p f (ns @ [n]) = windowed p f ns @
     [if Suc (length ns) < p then None else Some (f (take_last p (ns @ [n])))]"
  by (simp add: windowed_def)

lemma sma_run_exact:
  assumes "0 < p" and "\<forall>m \<in> set ns. \<bar>m\<bar> \<le> B" and "int (p + 1) * B \<le> 2 ^ 53"
  shows "\<exists>s. run_updates sma_update (sma_start p) (map int_f64 ns) = Some (s, windowed p mean_f64 ns) \<and>
    sma_exact p ns s"
  using assms(2)
proof (induction ns rule: rev_induct)
  case Nil
  then show ?case by (simp add: windowed_def sma_exact_def sma_start_def take_last_def int_f64_0)
next
  case (snoc n ns)
  then obtain s where s: "run_updates sma_update (sma_start p) (map int_f64 ns) = Some (s, windowed p mean_f64 ns)"
    "sma_exact p ns s" by auto
  obtain s' where s': "sma_update s (int_f64 n) = Some (s', sma_value s')" "sma_exact p (ns @ [n]) s'"
    using sma_update_exact [OF s(2) assms(1) snoc.prems assms(3)] by blast
  then show ?case using s by (auto simp: run_updates_snoc windowed_snoc sma_value_exact)
qed

subsection \<open>The weighted average\<close>

lemma weighted_total_snoc: "weighted_total (ns @ [n]) = weighted_total ns + n * (int (length ns) + 1)"
  by (simp add: weighted_total_def nth_append)

lemma weighted_total_bound:
  fixes B :: int
  assumes "\<forall>n \<in> set ns. \<bar>n\<bar> \<le> B"
  shows "\<bar>weighted_total ns\<bar> \<le> int (length ns * (length ns + 1)) * B"
  using assms
proof (induction ns rule: rev_induct)
  case (snoc n ns)
  let ?l = "int (length ns)"
  have "\<bar>n * (?l + 1)\<bar> \<le> B * (?l + 1)" using snoc.prems by (simp add: abs_mult mult_right_mono)
  moreover have "0 \<le> B * (?l + 1)" using snoc.prems by auto
  moreover have "int (length (ns @ [n]) * (length (ns @ [n]) + 1)) * B
      = int (length ns * (length ns + 1)) * B + 2 * (B * (?l + 1))" by (simp add: algebra_simps)
  moreover have "\<bar>weighted_total ns\<bar> \<le> int (length ns * (length ns + 1)) * B" using snoc by simp
  ultimately show ?case unfolding weighted_total_snoc by linarith
qed (simp add: weighted_total_def)

lemma int_f64_mult: "\<bar>a * b\<bar> \<le> 2 ^ 53 \<Longrightarrow> 0 < b \<Longrightarrow> int_f64 a * int_f64 b = int_f64 (a * b)"
  using fl_signed_representable [OF representable_of_int [of "a * b"]]
  by (auto simp: int_f64_def arith_Fin)

lemma f64_of_nat_int: "int n \<le> 2 ^ 53 \<Longrightarrow> f64_of_nat n = int_f64 (int n)"
  using fl_of_int [of "int n"] by (simp add: f64_of_nat_def int_f64_def)

lemma weighted_sum_snoc:
  "weighted_sum (xs @ [x]) = weighted_sum xs + x * f64_of_nat (length xs + 1)"
  by (simp add: weighted_sum_def fsum_def enumerate_append_eq)

lemma weighted_sum_exact:
  fixes B :: int
  assumes "\<forall>n \<in> set ns. \<bar>n\<bar> \<le> B" and "int (length ns * (length ns + 1)) * B \<le> 2 ^ 53" and "ns \<noteq> []" and "int (length ns) \<le> 2 ^ 53"
  shows "weighted_sum (map int_f64 ns) = int_f64 (weighted_total ns)"
  using assms
proof (induction ns rule: rev_induct)
  case (snoc n ns)
  let ?l = "length ns"
  have B0: "0 \<le> B" "\<bar>n\<bar> \<le> B" using snoc.prems(1) by auto
  have big: "int (length (ns @ [n]) * (length (ns @ [n]) + 1)) * B = int (?l * (?l + 1)) * B + 2 * (B * (int ?l + 1))"
    by (simp add: algebra_simps)
  have nn: "0 \<le> int (?l * (?l + 1)) * B" "0 \<le> B * (int ?l + 1)" using B0 by simp_all
  have l: "int (?l + 1) \<le> 2 ^ 53" using snoc.prems(4) by simp
  have pb: "\<bar>n * int (?l + 1)\<bar> \<le> B * (int ?l + 1)" using B0 mult_right_mono [of "\<bar>n\<bar>" B "int ?l + 1"] by (simp add: abs_mult add.commute)
  then have prod: "int_f64 n * f64_of_nat (?l + 1) = int_f64 (n * int (?l + 1))"
    using big nn snoc.prems(2) l by (simp only: f64_of_nat_int) (rule int_f64_mult, linarith+)
  have tot: "\<bar>weighted_total (ns @ [n])\<bar> \<le> 2 ^ 53"
    using weighted_total_bound [OF snoc.prems(1)] snoc.prems(2) by linarith
  show ?case
  proof (cases "ns = []")
    case True
    have "wf64 (int_f64 (n * int (?l + 1)))"
      using representable_of_int [of "n * int (?l + 1)"] pb big nn snoc.prems(2) by (simp add: int_f64_def)
    then show ?thesis using prod True fadd_neutral(2)
      by (simp add: weighted_sum_def fsum_def weighted_total_def)
  next
    case False
    have "weighted_sum (map int_f64 ns) = int_f64 (weighted_total ns)"
      by (rule snoc.IH) (use snoc.prems False big nn in \<open>auto\<close>)
    then show ?thesis using prod tot int_f64_arith(1) [of "weighted_total ns" "n * int (?l + 1)"]
      by (simp add: weighted_sum_snoc weighted_total_snoc add.commute [of 1])
  qed
qed simp

definition wma_mean :: "int list \<Rightarrow> f64" where
  "wma_mean ns = int_f64 (weighted_total ns) / f64_of_nat (length ns * (length ns + 1) div 2)"

lemma wma_run_window:
  assumes "0 < p"
  shows "run_updates (\<lambda>w x. Some (wma_update w x)) (wma_start p) xs =
    Some ((wma_start p)\<lparr>wma_buffer := take_last p xs\<rparr>,
      map (\<lambda>k. if Suc k < p then None
        else Some (weighted_sum (take_last p (take (Suc k) xs)) / wma_weight_sum (wma_start p))) [0..<length xs])"
proof (induction xs rule: rev_induct)
  case Nil
  then show ?case by (simp add: wma_start_def take_last_def)
next
  case (snoc x xs)
  have "(if p < length (take_last p xs @ [x]) then tl (take_last p xs @ [x]) else take_last p xs @ [x])
      = take_last p (xs @ [x])"
  proof (cases "length xs < p")
    case False
    then have "take_last p xs \<noteq> []" using assms by (auto dest: arg_cong [where f = length])
    then show ?thesis using False assms take_last_snoc_take_last [of p xs x]
      by (simp add: take_last_def [of p "take_last p xs @ [x]"] drop_Suc)
  qed (simp add: take_last_def)
  then have b: "(let b1 = take_last p xs @ [x] in if p < length b1 then tl b1 else b1) = take_last p (xs @ [x])"
    by (simp only: Let_def)
  have "wma_update ((wma_start p)\<lparr>wma_buffer := take_last p xs\<rparr>) x =
      ((wma_start p)\<lparr>wma_buffer := take_last p (xs @ [x])\<rparr>,
       if Suc (length xs) < p then None
       else Some (weighted_sum (take_last p (xs @ [x])) / wma_weight_sum (wma_start p)))"
    using b by (simp add: wma_update_def wma_start_def Let_def)
  then show ?case by (simp add: run_updates_snoc snoc.IH)
qed

lemma wma_run_exact:
  fixes B :: int
  assumes "0 < p" and "\<forall>m \<in> set ns. \<bar>m\<bar> \<le> B" and "int (p * (p + 1)) * B \<le> 2 ^ 53" and "int p \<le> 2 ^ 53"
  shows "\<exists>w. run_updates (\<lambda>w x. Some (wma_update w x)) (wma_start p) (map int_f64 ns) = Some (w, windowed p wma_mean ns)"
proof -
  have "weighted_sum (take_last p (take (Suc k) (map int_f64 ns))) / wma_weight_sum (wma_start p)
      = wma_mean (take_last p (take (Suc k) ns))" if k: "k < length ns" "\<not> Suc k < p" for k
  proof -
    let ?w = "take_last p (take (Suc k) ns)"
    have len: "length ?w = p" using k by simp
    have "set ?w \<subseteq> set ns" using set_take_last_subset [of p "take (Suc k) ns"] set_take_subset [of "Suc k" ns] by blast
    then have "weighted_sum (map int_f64 ?w) = int_f64 (weighted_total ?w)"
      using assms len by (intro weighted_sum_exact [of _ B]) (auto simp del: length_take_last)
    moreover have "take_last p (take (Suc k) (map int_f64 ns)) = map int_f64 ?w"
      by (simp add: take_last_def take_map drop_map)
    ultimately show ?thesis using len by (simp add: wma_mean_def wma_start_def)
  qed
  then show ?thesis unfolding wma_run_window [OF assms(1)] windowed_def by auto
qed

section \<open>Properties\<close>

text \<open>The averages keep their warm-up contract on every stream of prices and for every period: no update
  panics; the first value comes exactly with input number \<open>period\<close> for \<open>Sma\<close>, \<open>Ema\<close>, \<open>Smma\<close> and \<open>Wma\<close>,
  number \<open>2 * period - 1\<close> for \<open>Dema\<close> and number \<open>3 * period - 2\<close> for \<open>Tema\<close>, and every later input has
  one; and at any moment \<open>reset\<close> gives back the state of a new indicator.\<close>

theorem averages_warm_up:
  assumes "0 < p"
  shows "warms_up sma_update (\<lambda>s. Some (sma_reset s)) (sma_start p) p xs \<and>
    warms_up ema_update (\<lambda>e. Some (ema_reset e)) (ema_start p) p xs \<and>
    warms_up smma_update (\<lambda>s. Some (smma_reset s)) (smma_start p) p xs \<and>
    warms_up (\<lambda>w x. Some (wma_update w x)) (\<lambda>w. Some (wma_reset w)) (wma_start p) p xs \<and>
    warms_up dema_update dema_reset (dema_start p) (2 * p - 1) xs \<and>
    warms_up tema_update (\<lambda>t. Some (tema_reset t)) (tema_start p) (3 * p - 2) xs"
  by (intro conjI sma.warms_up_run ema.warms_up_run smma.warms_up_run wma.warms_up_run
    dema.warms_up_run tema.warms_up_run assms)

theorem averages_warm_up_witness: "warms_up dema_update dema_reset (dema_start 2) 3 [Fin 1, Fin 2, Fin 3]"
  using averages_warm_up [of 2 "[Fin 1, Fin 2, Fin 3]"] by simp

text \<open>C20. On whole prices the compensated running sum loses nothing: fed prices of size at most \<open>B\<close>, with
  \<open>(period + 1) * B\<close> within the exact range of \<open>f64\<close>, \<open>Sma\<close> answers each price from number \<open>period\<close> on
  with the exact sum of the last \<open>period\<close> prices divided by \<open>period\<close>, rounded once, however long the
  stream; and \<open>Wma\<close> answers with the exact linearly weighted sum divided by the sum of the weights.\<close>

theorem averages_exact_on_whole_prices:
  fixes B :: int
  assumes "0 < p" and "\<forall>m \<in> set ns. \<bar>m\<bar> \<le> B" and "int (p + 1) * B \<le> 2 ^ 53"
  shows "(\<exists>s. run_updates sma_update (sma_start p) (map int_f64 ns) = Some (s, windowed p mean_f64 ns)) \<and>
    (int (p * (p + 1)) * B \<le> 2 ^ 53 \<and> int p \<le> 2 ^ 53 \<longrightarrow>
      (\<exists>w. run_updates (\<lambda>w x. Some (wma_update w x)) (wma_start p) (map int_f64 ns) = Some (w, windowed p wma_mean ns)))"
  using sma_run_exact [OF assms] wma_run_exact [OF assms(1,2)] by blast

theorem averages_exact_on_whole_prices_witness:
  "(\<exists>s. run_updates sma_update (sma_start 2) [int_f64 3, int_f64 5, int_f64 8] =
     Some (s, [None, Some (mean_f64 [3, 5]), Some (mean_f64 [5, 8])])) \<and>
   (\<exists>w. run_updates (\<lambda>w x. Some (wma_update w x)) (wma_start 2) [int_f64 3, int_f64 5, int_f64 8] =
     Some (w, [None, Some (wma_mean [3, 5]), Some (wma_mean [5, 8])]))"
  using averages_exact_on_whole_prices [of 2 "[3, 5, 8]" 8]
  by (simp add: windowed_def take_last_def upt_rec)

end
