(* ===== verification/Candles.thy ===== *)
theory Candles
  imports Moving_Averages Market_Types
begin

text \<open>
  Heiken Ashi candles (\<open>alm-indicator/src/viewing/heiken_ashi.rs\<close>) and the candle transform of the strategies
  (\<open>alm-strategy/src/candle_type.rs\<close>). \<open>None\<close> is a panic.
\<close>

record ha_bar =
  hb_open :: f64
  hb_high :: f64
  hb_low :: f64
  hb_close :: f64
  hb_is_bullish :: bool

record heiken_ashi =
  hk_smooth :: nat
  hk_ema_open :: "ema option"
  hk_ema_high :: "ema option"
  hk_ema_low :: "ema option"
  hk_ema_close :: "ema option"
  hk_prev_ha_open :: "f64 option"
  hk_prev_ha_close :: "f64 option"

definition heiken_ashi_new :: "nat \<Rightarrow> heiken_ashi option" where
  "heiken_ashi_new n =
     (let smooth = max n 1
      in if 1 < smooth
         then (case ema_new smooth of
                 None \<Rightarrow> None
               | Some e \<Rightarrow> Some \<lparr>hk_smooth = smooth, hk_ema_open = Some e, hk_ema_high = Some e, hk_ema_low = Some e,
                   hk_ema_close = Some e, hk_prev_ha_open = None, hk_prev_ha_close = None\<rparr>)
         else Some \<lparr>hk_smooth = smooth, hk_ema_open = None, hk_ema_high = None, hk_ema_low = None,
                hk_ema_close = None, hk_prev_ha_open = None, hk_prev_ha_close = None\<rparr>)"

text \<open>\<open>as_mut().unwrap().update(value)\<close>.\<close>

definition smooth_price :: "ema option \<Rightarrow> f64 \<Rightarrow> (ema option \<times> f64 option) option" where
  "smooth_price eo value =
     (case eo of None \<Rightarrow> None | Some e \<Rightarrow> map_option (\<lambda>(e', r). (Some e', r)) (ema_update e value))"

text \<open>The candle from the (smoothed) prices.\<close>

definition ha_candle :: "heiken_ashi \<Rightarrow> f64 \<Rightarrow> f64 \<Rightarrow> f64 \<Rightarrow> f64 \<Rightarrow> heiken_ashi \<times> ha_bar" where
  "ha_candle h so sh sl sc =
     (let ha_close = (so + sh + sl + sc) / lit 4;
          ha_open = (case (hk_prev_ha_open h, hk_prev_ha_close h) of
                       (Some po, Some pc) \<Rightarrow> (po + pc) / lit 2
                     | _ \<Rightarrow> (so + sc) / lit 2)
      in (h\<lparr>hk_prev_ha_open := Some ha_open, hk_prev_ha_close := Some ha_close\<rparr>,
          \<lparr>hb_open = ha_open, hb_high = fmax (fmax sh ha_open) ha_close, hb_low = fmin (fmin sl ha_open) ha_close,
           hb_close = ha_close, hb_is_bullish = (ha_open \<le> ha_close)\<rparr>))"

definition heiken_ashi_update ::
  "heiken_ashi \<Rightarrow> f64 \<Rightarrow> f64 \<Rightarrow> f64 \<Rightarrow> f64 \<Rightarrow> (heiken_ashi \<times> ha_bar option) option" where
  "heiken_ashi_update h op hi lo cl =
     (if 1 < hk_smooth h
      then case (smooth_price (hk_ema_open h) op, smooth_price (hk_ema_high h) hi, smooth_price (hk_ema_low h) lo,
                 smooth_price (hk_ema_close h) cl) of
             (Some (eo, so), Some (eh, sh), Some (el, sl), Some (ec, sc)) \<Rightarrow>
               (let h1 = h\<lparr>hk_ema_open := eo, hk_ema_high := eh, hk_ema_low := el, hk_ema_close := ec\<rparr>
                in case (so, sh, sl, sc) of
                     (Some o', Some h', Some l', Some c') \<Rightarrow>
                       (let (h2, b) = ha_candle h1 o' h' l' c' in Some (h2, Some b))
                   | _ \<Rightarrow> Some (h1, None))
           | _ \<Rightarrow> None
      else let (h2, b) = ha_candle h op hi lo cl in Some (h2, Some b))"

definition heiken_ashi_reset :: "heiken_ashi \<Rightarrow> heiken_ashi option" where
  "heiken_ashi_reset h =
     (let h1 = h\<lparr>hk_prev_ha_open := None, hk_prev_ha_close := None\<rparr>
      in if 1 < hk_smooth h
         then map_option (\<lambda>e. h1\<lparr>hk_ema_open := Some e, hk_ema_high := Some e, hk_ema_low := Some e,
                hk_ema_close := Some e\<rparr>) (ema_new (hk_smooth h))
         else Some h1)"

section \<open>The candle transform\<close>

datatype candle_type = RawCandle | HeikenAshiCandle | SmoothHeikenAshi nat

definition candle_type_from_str :: "string \<Rightarrow> nat \<Rightarrow> candle_type" where
  "candle_type_from_str s smooth_period =
     (if s = ''heiken_ashi'' \<or> s = ''ha'' then HeikenAshiCandle
      else if s = ''smooth_ha'' \<or> s = ''smooth_heiken_ashi'' then SmoothHeikenAshi (max smooth_period 2)
      else RawCandle)"

record candle_transform =
  ct_candle_type :: candle_type
  ct_ha :: heiken_ashi

definition candle_transform_new :: "candle_type \<Rightarrow> candle_transform option" where
  "candle_transform_new ty =
     map_option (\<lambda>h. \<lparr>ct_candle_type = ty, ct_ha = h\<rparr>)
       (heiken_ashi_new (case ty of SmoothHeikenAshi n \<Rightarrow> n | _ \<Rightarrow> 1))"

definition candle_apply :: "candle_transform \<Rightarrow> bar \<Rightarrow> (candle_transform \<times> bar option) option" where
  "candle_apply t b =
     (case ct_candle_type t of
        RawCandle \<Rightarrow> Some (t, Some b)
      | _ \<Rightarrow>
          map_option (\<lambda>(h, r). (t\<lparr>ct_ha := h\<rparr>,
              map_option (\<lambda>x. bar_new (b_timestamp b) (b_symbol b) (hb_open x) (hb_high x) (hb_low x) (hb_close x) (b_volume b)) r))
            (heiken_ashi_update (ct_ha t) (b_open b) (b_high b) (b_low b) (b_close b)))"

definition candle_reset :: "candle_transform \<Rightarrow> candle_transform option" where
  "candle_reset t = map_option (\<lambda>h. t\<lparr>ct_ha := h\<rparr>) (heiken_ashi_reset (ct_ha t))"

section \<open>The warm-up contract\<close>

definition ha_start :: "nat \<Rightarrow> heiken_ashi" where
  "ha_start p =
     (let e = (if 1 < p then Some (ema_start p) else None)
      in \<lparr>hk_smooth = p, hk_ema_open = e, hk_ema_high = e, hk_ema_low = e, hk_ema_close = e,
          hk_prev_ha_open = None, hk_prev_ha_close = None\<rparr>)"

lemma heiken_ashi_new_start: "heiken_ashi_new n = Some (ha_start (max n 1))"
  by (simp add: heiken_ashi_new_def ha_start_def ema_new_def Let_def)

definition ema_opt_fed :: "nat \<Rightarrow> nat \<Rightarrow> ema option \<Rightarrow> bool" where
  "ema_opt_fed p k eo \<longleftrightarrow> (if 1 < p then (\<exists>e. eo = Some e \<and> ema_fed p k e) else eo = None)"

definition ha_fed :: "nat \<Rightarrow> nat \<Rightarrow> heiken_ashi \<Rightarrow> bool" where
  "ha_fed p k h \<longleftrightarrow> hk_smooth h = p \<and> ema_opt_fed p k (hk_ema_open h) \<and> ema_opt_fed p k (hk_ema_high h) \<and>
     ema_opt_fed p k (hk_ema_low h) \<and> ema_opt_fed p k (hk_ema_close h)"

lemma smooth_price_fed:
  assumes "1 < p" and "ema_opt_fed p k eo"
  shows "\<exists>eo' v. smooth_price eo x = Some (eo', v) \<and> ema_opt_fed p (Suc k) eo' \<and> (v = None \<longleftrightarrow> Suc k < p)"
proof -
  obtain e where e: "eo = Some e" "ema_fed p k e" using assms by (auto simp: ema_opt_fed_def)
  then show ?thesis using ema_fed_update [of p k e x] assms(1) by (auto simp: smooth_price_def ema_opt_fed_def)
qed

lemma ha_candle_frame [simp]:
  "hk_smooth (fst (ha_candle h a b c d)) = hk_smooth h" "hk_ema_open (fst (ha_candle h a b c d)) = hk_ema_open h"
  "hk_ema_high (fst (ha_candle h a b c d)) = hk_ema_high h" "hk_ema_low (fst (ha_candle h a b c d)) = hk_ema_low h"
  "hk_ema_close (fst (ha_candle h a b c d)) = hk_ema_close h"
  by (simp_all add: ha_candle_def Let_def)

abbreviation ha_step :: "heiken_ashi \<Rightarrow> f64 \<times> f64 \<times> f64 \<times> f64 \<Rightarrow> (heiken_ashi \<times> ha_bar option) option" where
  "ha_step h \<equiv> \<lambda>(op, hi, lo, cl). heiken_ashi_update h op hi lo cl"

lemma ha_fed_update:
  assumes "0 < p" and h: "ha_fed p k h"
  shows "\<exists>h' v. heiken_ashi_update h op hi lo cl = Some (h', v) \<and> ha_fed p (Suc k) h' \<and> (v = None \<longleftrightarrow> Suc k < p)"
proof (cases "1 < p")
  case True
  have fed: "ema_opt_fed p k (hk_ema_open h)" "ema_opt_fed p k (hk_ema_high h)" "ema_opt_fed p k (hk_ema_low h)"
    "ema_opt_fed p k (hk_ema_close h)" and s: "hk_smooth h = p"
    using h by (simp_all add: ha_fed_def)
  obtain eo so where o: "smooth_price (hk_ema_open h) op = Some (eo, so)" "ema_opt_fed p (Suc k) eo" "so = None \<longleftrightarrow> Suc k < p"
    using smooth_price_fed [OF True] fed by blast
  obtain eh sh where hi: "smooth_price (hk_ema_high h) hi = Some (eh, sh)" "ema_opt_fed p (Suc k) eh" "sh = None \<longleftrightarrow> Suc k < p"
    using smooth_price_fed [OF True] fed by blast
  obtain el sl where lo: "smooth_price (hk_ema_low h) lo = Some (el, sl)" "ema_opt_fed p (Suc k) el" "sl = None \<longleftrightarrow> Suc k < p"
    using smooth_price_fed [OF True] fed by blast
  obtain ec sc where cl: "smooth_price (hk_ema_close h) cl = Some (ec, sc)" "ema_opt_fed p (Suc k) ec" "sc = None \<longleftrightarrow> Suc k < p"
    using smooth_price_fed [OF True] fed by blast
  show ?thesis
  proof (cases "Suc k < p")
    case True
    then show ?thesis using o hi lo cl s \<open>1 < p\<close> by (simp add: heiken_ashi_update_def ha_fed_def Let_def)
  next
    case False
    then obtain a b c d where "so = Some a" "sh = Some b" "sl = Some c" "sc = Some d" using o hi lo cl by auto
    then show ?thesis using False o hi lo cl s \<open>1 < p\<close>
      by (simp add: heiken_ashi_update_def ha_fed_def Let_def split_beta)
  qed
next
  case False
  then show ?thesis using h assms(1)
    by (simp add: heiken_ashi_update_def ha_fed_def ema_opt_fed_def Let_def split_beta)
qed

interpretation ha: warm_up ha_step heiken_ashi_reset ha_start "\<lambda>p. p" ha_fed
proof unfold_locales
  fix p k :: nat and h :: heiken_ashi and x :: "f64 \<times> f64 \<times> f64 \<times> f64"
  assume p: "0 < p"
  show "ha_fed p 0 (ha_start p)" using p by (simp add: ha_fed_def ha_start_def ema_opt_fed_def ema_fed_start Let_def)
  assume h: "ha_fed p k h"
  show "\<exists>h' v. ha_step h x = Some (h', v) \<and> ha_fed p (Suc k) h' \<and> (v = None \<longleftrightarrow> Suc k < p)"
    using ha_fed_update [OF p h] by (cases x) simp
  have s: "hk_smooth h = p" using h by (simp add: ha_fed_def)
  show "heiken_ashi_reset h = Some (ha_start p)"
    using h p by (cases h) (auto simp: s heiken_ashi_reset_def ha_fed_def ha_start_def ema_opt_fed_def ema_new_def Let_def)
qed

section \<open>The shape of a candle\<close>

lemma ha_candle_encloses:
  assumes "ha_candle h so sh sl sc = (h', b)" and "hb_open b \<noteq> NaN" and "hb_close b \<noteq> NaN"
  shows "hb_low b \<le> hb_open b \<and> hb_low b \<le> hb_close b \<and> hb_open b \<le> hb_high b \<and> hb_close b \<le> hb_high b"
proof -
  let ?o = "hb_open b" and ?c = "hb_close b"
  have b: "hb_high b = fmax (fmax sh ?o) ?c" "hb_low b = fmin (fmin sl ?o) ?c"
    using assms(1) by (auto simp: ha_candle_def Let_def)
  have up: "?o \<le> fmax sh ?o" "fmax sh ?o \<noteq> NaN" using assms(2) fmax_ge(2) [of ?o sh] by (auto simp: fmax_def)
  have dn: "fmin sl ?o \<le> ?o" "fmin sl ?o \<noteq> NaN" using assms(2) fmin_le(2) [of ?o sl] by (auto simp: fmin_def)
  show ?thesis unfolding b
    using fmax_ge [of "fmax sh ?o" ?c] fmax_ge(2) [of ?c "fmax sh ?o"] fmin_le [of "fmin sl ?o" ?c] fmin_le(2) [of ?c "fmin sl ?o"]
      up dn assms(2,3) by (auto intro: fle_trans)
qed

end
