(* ===== verification/Script_Strategy.thy ===== *)
theory Script_Strategy
  imports Script_Build Candles F64_Functions
begin

text \<open>
  The script strategy at run time, \<open>ScriptStrategy\<close> of \<open>alm-strategy/src/script/v1/strategy.rs\<close> with the bindings of
  \<open>v1/binding.rs\<close>. Every bar feeds the candle transform, the bar buffer and the indicators; when all are warm the
  compiled regime block and the main block run over a scope of variables, and the output variables become a signal.

  The Rhai crate is a parameter, a record of the operations the code calls: compiling, the scope as an abstract type
  with pushing and looking up, and running a compiled script, which changes the scope and may report an error. An
  indicator is a parameter as well, given by its constructor, its update and its reset. Panics are \<open>None\<close>.
\<close>

section \<open>Values and the scripting engine\<close>

datatype dyn = DUnit | DFloat f64 | DInt int | DBool bool | DStr string | DArr "dyn list"
  | DEntry "(string, f64) hmap" string | DMap "(string \<times> dyn) list"

record ('ast, 'sc) rhai =
  rh_compile :: "string \<Rightarrow> string + 'ast"
  rh_scope_new :: 'sc
  rh_push :: "string \<Rightarrow> dyn \<Rightarrow> 'sc \<Rightarrow> 'sc"
  rh_get :: "string \<Rightarrow> 'sc \<Rightarrow> dyn option"
  rh_run :: "'ast \<Rightarrow> 'sc \<Rightarrow> 'sc \<times> string option"

record 'i indicator_ops =
  io_from_config :: "json \<Rightarrow> string + 'i"
  io_update :: "'i \<Rightarrow> bar \<Rightarrow> 'i \<times> (string, f64) hmap option"
  io_reset :: "'i \<Rightarrow> 'i"

text \<open>\<open>Scope::get_value\<close> returns a value only of the type asked for.\<close>

definition get_f64 :: "('ast, 'sc) rhai \<Rightarrow> string \<Rightarrow> 'sc \<Rightarrow> f64 option" where
  "get_f64 rh name sc = (case rh_get rh name sc of Some (DFloat x) \<Rightarrow> Some x | _ \<Rightarrow> None)"

definition get_i64 :: "('ast, 'sc) rhai \<Rightarrow> string \<Rightarrow> 'sc \<Rightarrow> int option" where
  "get_i64 rh name sc = (case rh_get rh name sc of Some (DInt i) \<Rightarrow> Some i | _ \<Rightarrow> None)"

definition get_bool :: "('ast, 'sc) rhai \<Rightarrow> string \<Rightarrow> 'sc \<Rightarrow> bool option" where
  "get_bool rh name sc = (case rh_get rh name sc of Some (DBool b) \<Rightarrow> Some b | _ \<Rightarrow> None)"

definition get_str :: "('ast, 'sc) rhai \<Rightarrow> string \<Rightarrow> 'sc \<Rightarrow> string option" where
  "get_str rh name sc = (case rh_get rh name sc of Some (DStr s) \<Rightarrow> Some s | _ \<Rightarrow> None)"

definition get_map :: "('ast, 'sc) rhai \<Rightarrow> string \<Rightarrow> 'sc \<Rightarrow> (string \<times> dyn) list option" where
  "get_map rh name sc = (case rh_get rh name sc of Some (DMap m) \<Rightarrow> Some m | _ \<Rightarrow> None)"

definition scalar_out :: "('ast, 'sc) rhai \<Rightarrow> 'sc \<Rightarrow> string \<Rightarrow> f64 option" where
  "scalar_out rh sc name =
     (case get_f64 rh name sc of Some x \<Rightarrow> Some x | None \<Rightarrow> map_option f64_of_int (get_i64 rh name sc))"

definition bool_out :: "('ast, 'sc) rhai \<Rightarrow> 'sc \<Rightarrow> string \<Rightarrow> bool" where
  "bool_out rh sc name =
     (get_bool rh name sc = Some True \<or>
      (case get_i64 rh name sc of Some v \<Rightarrow> v \<noteq> 0 | None \<Rightarrow> False) \<or>
      (case get_f64 rh name sc of Some v \<Rightarrow> lit (1 / 2) < v | None \<Rightarrow> False))"

section \<open>Bindings\<close>

datatype history = HSingle string "f64 list" | HMulti string "(string, f64) hmap list"

definition history_new :: "indicator_kind \<Rightarrow> history" where
  "history_new kind = (case kind of Single field \<Rightarrow> HSingle field [] | Multi primary \<Rightarrow> HMulti primary [])"

definition ring_push :: "'a list \<Rightarrow> 'a \<Rightarrow> nat \<Rightarrow> 'a list" where
  "ring_push xs x cap = (let ys = xs @ [x] in if cap < length ys then tl ys else ys)"

fun history_push :: "history \<Rightarrow> (string, f64) hmap \<Rightarrow> nat \<Rightarrow> history" where
  "history_push (HSingle field data) fs cap =
     (case hm_get fs field of Some v \<Rightarrow> HSingle field (ring_push data v cap) | None \<Rightarrow> HSingle field data)"
| "history_push (HMulti primary data) fs cap = HMulti primary (ring_push data fs cap)"

fun history_len :: "history \<Rightarrow> nat" where
  "history_len (HSingle field data) = length data"
| "history_len (HMulti primary data) = length data"

fun to_script_array :: "history \<Rightarrow> dyn list" where
  "to_script_array (HSingle field data) = map DFloat (rev data)"
| "to_script_array (HMulti primary data) = map (\<lambda>fs. DEntry fs primary) (rev data)"

fun current_fields :: "history \<Rightarrow> (string, f64) hmap option" where
  "current_fields (HSingle field data) = map_option (\<lambda>v. [(field, v)]) (last_opt data)"
| "current_fields (HMulti primary data) = last_opt data"

fun history_clear :: "history \<Rightarrow> history" where
  "history_clear (HSingle field data) = HSingle field []"
| "history_clear (HMulti primary data) = HMulti primary []"

record 'i var_binding =
  vb_ind :: 'i
  vb_history :: history
  vb_buf_depth :: nat

definition var_binding_new :: "'i \<Rightarrow> indicator_kind \<Rightarrow> nat \<Rightarrow> 'i var_binding" where
  "var_binding_new ind kind buf_depth = \<lparr>vb_ind = ind, vb_history = history_new kind, vb_buf_depth = buf_depth\<rparr>"

definition is_multi :: "'i var_binding \<Rightarrow> bool" where
  "is_multi b = (case vb_history b of HMulti _ _ \<Rightarrow> True | HSingle _ _ \<Rightarrow> False)"

definition binding_update :: "'i indicator_ops \<Rightarrow> 'i var_binding \<Rightarrow> bar \<Rightarrow> 'i var_binding \<times> bool" where
  "binding_update io b x =
     (let (ind, r) = io_update io (vb_ind b) x;
          h = (case r of Some fs \<Rightarrow> history_push (vb_history b) fs (vb_buf_depth b) | None \<Rightarrow> vb_history b);
          b' = b\<lparr>vb_ind := ind, vb_history := h\<rparr>
      in (b', vb_buf_depth b' \<le> history_len h))"

definition binding_reset :: "'i indicator_ops \<Rightarrow> 'i var_binding \<Rightarrow> 'i var_binding" where
  "binding_reset io b = b\<lparr>vb_ind := io_reset io (vb_ind b), vb_history := history_clear (vb_history b)\<rparr>"

section \<open>The strategy\<close>

record ('i, 'ast) script_strategy =
  ss_ast :: 'ast
  ss_regime_ast :: "'ast option"
  ss_bindings :: "(string, 'i var_binding) hmap"
  ss_binding_order :: "string list"
  ss_bar_buf :: "bar list"
  ss_bar_buf_depth :: nat
  ss_series :: "(string, (int \<times> f64) list) hmap option"
  ss_candle_transform :: candle_transform
  ss_current_regime :: "regime_state option"
  ss_error_sink :: "string option option"
  ss_persistent_state :: "(string \<times> dyn) list"
  ss_ta_state :: "(string \<times> dyn) list"

definition make_indicator_box :: "'i indicator_ops \<Rightarrow> indicator_decl \<Rightarrow> script_error + 'i" where
  "make_indicator_box io d =
     (case build_indicator_box (id_var_name d) (id_ind_type d) (id_period d) (id_extra_params d) of
        Inl e \<Rightarrow> Inl e
      | Inr conf \<Rightarrow> (case io_from_config io conf of Inl msg \<Rightarrow> Inl (IndicatorError msg) | Inr ind \<Rightarrow> Inr ind))"

fun make_bindings ::
  "'i indicator_ops \<Rightarrow> indicator_decl list \<Rightarrow> (string, 'i var_binding) hmap \<Rightarrow>
   script_error + (string, 'i var_binding) hmap" where
  "make_bindings io [] bindings = Inr bindings"
| "make_bindings io (d # ds) bindings =
     (case make_indicator_box io d of
        Inl e \<Rightarrow> Inl e
      | Inr ind \<Rightarrow>
          make_bindings io ds
            (hm_insert (id_var_name d) (var_binding_new ind (id_kind d) (id_buf_depth d)) bindings))"

text \<open>The last directive decides the candles, and its kind is checked.\<close>

definition script_candle :: "candle_directive list \<Rightarrow> script_error + (string \<times> nat option) option" where
  "script_candle ds =
     (case last_opt ds of
        None \<Rightarrow> Inr None
      | Some (Transform kind smooth) \<Rightarrow>
          (case validate_candle_kind kind of Inl e \<Rightarrow> Inl e | Inr _ \<Rightarrow> Inr (Some (kind, smooth))))"

definition effective_candle :: "(string \<times> nat option) option \<Rightarrow> candle_type" where
  "effective_candle sc =
     (case sc of
        Some (kind, smooth) \<Rightarrow> candle_type_from_str kind (case smooth of Some n \<Rightarrow> n | None \<Rightarrow> 3)
      | None \<Rightarrow> RawCandle)"

definition compile_regime :: "('ast, 'sc) rhai \<Rightarrow> string \<Rightarrow> script_error + 'ast option" where
  "compile_regime rh cleaned =
     (if trim cleaned = [] then Inr None
      else case rh_compile rh cleaned of Inl e \<Rightarrow> Inl (CompileError True e) | Inr a \<Rightarrow> Inr (Some a))"

text \<open>The declarations and the two cleaned blocks of a script without its directives.\<close>

definition split_script :: "string \<Rightarrow> script_error + (indicator_decl list \<times> string \<times> string)" where
  "split_script after_candle =
     (case extract_regime_block after_candle of
        Inl e \<Rightarrow> Inl e
      | Inr (regime_body, main_source) \<Rightarrow>
          (case process_script_block (case regime_body of Some b \<Rightarrow> b | None \<Rightarrow> []) [] [] of
             Inl e \<Rightarrow> Inl e
           | Inr (regime_cleaned, decls1, names1) \<Rightarrow>
               (case process_script_block main_source decls1 names1 of
                  Inl e \<Rightarrow> Inl e
                | Inr (main_cleaned, decls, names) \<Rightarrow>
                    (case find (\<lambda>d. id_timeframe d \<noteq> None) decls of
                       Some d \<Rightarrow> Inl (TimeframeInV1 (id_var_name d) (id_ind_type d))
                     | None \<Rightarrow> Inr (decls, regime_cleaned, main_cleaned)))))"

definition max_buf_of :: "indicator_decl list \<Rightarrow> string \<Rightarrow> string \<Rightarrow> nat" where
  "max_buf_of decls regime_cleaned main_cleaned =
     (let max_buf = foldl (\<lambda>m d. if m < id_buf_depth d then id_buf_depth d else m) default_buf_depth decls;
          lookback = max (extract_max_lookback main_cleaned) (extract_max_lookback regime_cleaned)
      in if max_buf < lookback then lookback else max_buf)"

definition assemble ::
  "'i indicator_ops \<Rightarrow> ('ast, 'sc) rhai \<Rightarrow> bool \<Rightarrow> (string \<times> nat option) option \<Rightarrow>
   indicator_decl list \<times> string \<times> string \<Rightarrow> (script_error + ('i, 'ast) script_strategy) option" where
  "assemble io rh collect_series candle = (\<lambda>(decls, regime_cleaned, main_cleaned).
     (case compile_regime rh regime_cleaned of
        Inl e \<Rightarrow> Some (Inl e)
      | Inr regime_ast \<Rightarrow>
          (case rh_compile rh main_cleaned of
             Inl e \<Rightarrow> Some (Inl (CompileError False e))
           | Inr ast \<Rightarrow>
               (case make_bindings io decls [] of
                  Inl e \<Rightarrow> Some (Inl e)
                | Inr bindings \<Rightarrow>
                    (case candle_transform_new (effective_candle candle) of
                       None \<Rightarrow> None
                     | Some ct \<Rightarrow>
                         Some (Inr \<lparr>ss_ast = ast, ss_regime_ast = regime_ast, ss_bindings = bindings,
                           ss_binding_order = map id_var_name decls, ss_bar_buf = [],
                           ss_bar_buf_depth = max_buf_of decls regime_cleaned main_cleaned,
                           ss_series = (if collect_series then Some [] else None), ss_candle_transform = ct,
                           ss_current_regime = None, ss_error_sink = None, ss_persistent_state = [],
                           ss_ta_state = []\<rparr>))))))"

definition script_build ::
  "'i indicator_ops \<Rightarrow> ('ast, 'sc) rhai \<Rightarrow> string \<Rightarrow> bool \<Rightarrow> (script_error + ('i, 'ast) script_strategy) option" where
  "script_build io rh script collect_series =
     (case extract_candle_directives script of
        None \<Rightarrow> None
      | Some (Inl e) \<Rightarrow> Some (Inl e)
      | Some (Inr (ds, after_candle)) \<Rightarrow>
          (case script_candle ds of
             Inl e \<Rightarrow> Some (Inl e)
           | Inr candle \<Rightarrow>
               (case split_script after_candle of
                  Inl e \<Rightarrow> Some (Inl e)
                | Inr parts \<Rightarrow> assemble io rh collect_series candle parts)))"

section \<open>One bar\<close>

definition bool_fields :: "string list" where
  "bool_fields = [''bullish'', ''bearish'', ''above_cloud'', ''below_cloud'', ''chikou_above'', ''chikou_below'']"

definition is_boolean_flag_field :: "string \<Rightarrow> bool" where
  "is_boolean_flag_field field \<longleftrightarrow> field \<in> set bool_fields"

text \<open>Every binding in the order of declaration, with the conjunction of what they answer.\<close>

fun update_bindings ::
  "'i indicator_ops \<Rightarrow> bar \<Rightarrow> string list \<Rightarrow> (string, 'i var_binding) hmap \<Rightarrow> bool \<Rightarrow>
   (string, 'i var_binding) hmap \<times> bool" where
  "update_bindings io x [] bindings ready = (bindings, ready)"
| "update_bindings io x (name # names) bindings ready =
     (case hm_get bindings name of
        None \<Rightarrow> update_bindings io x names bindings ready
      | Some b \<Rightarrow>
          (let (b', full) = binding_update io b x
           in update_bindings io x names (hm_insert name b' bindings) (ready \<and> full)))"

definition series_push ::
  "string \<Rightarrow> int \<times> f64 \<Rightarrow> (string, (int \<times> f64) list) hmap \<Rightarrow> (string, (int \<times> f64) list) hmap" where
  "series_push key p series =
     hm_insert key ((case hm_get series key of Some ps \<Rightarrow> ps | None \<Rightarrow> []) @ [p]) series"

definition collect_binding ::
  "int \<Rightarrow> (string, 'i var_binding) hmap \<Rightarrow> (string, (int \<times> f64) list) hmap \<Rightarrow> string \<Rightarrow>
   (string, (int \<times> f64) list) hmap" where
  "collect_binding ts bindings series name =
     (case Option.bind (hm_get bindings name) (\<lambda>b. map_option (Pair b) (current_fields (vb_history b))) of
        None \<Rightarrow> series
      | Some (b, fs) \<Rightarrow>
          if is_multi b
          then foldl (\<lambda>s (field, v). if is_boolean_flag_field field then s
                                   else series_push (name @ ''.'' @ field) (ts, v) s) series fs
          else (case fs of (_, v) # _ \<Rightarrow> series_push name (ts, v) series | [] \<Rightarrow> series))"

definition output_defaults :: "(string \<times> dyn) list" where
  "output_defaults =
     [(''trend'', DStr []), (''trend_value'', DFloat 0), (''vol'', DStr []), (''vol_value'', DFloat 0),
      (''entry'', DBool False), (''exit'', DBool False), (''long'', DBool False), (''short'', DBool False),
      (''tp'', DFloat 0), (''sl'', DFloat 0), (''trail'', DFloat 0), (''max_bars'', DInt 0),
      (''strength'', DFloat 1), (''is_offset'', DBool False), (''reason'', DStr []), (''atr'', DFloat 0)]"

definition bar_arrays :: "bar list \<Rightarrow> (string \<times> dyn) list" where
  "bar_arrays buf =
     map (\<lambda>(name, sel). (name, DArr (map (\<lambda>b. DFloat (sel b)) (rev buf))))
       [(''open'', b_open), (''high'', b_high), (''low'', b_low), (''close'', b_close), (''volume'', b_volume)]"

text \<open>The scope of a run, in the order of pushing.\<close>

definition scope_entries :: "('i, 'ast) script_strategy \<Rightarrow> (string \<times> dyn) list" where
  "scope_entries s =
     output_defaults @ [(''state'', DMap (ss_persistent_state s)), (''ta'', DMap (ss_ta_state s))] @
     bar_arrays (ss_bar_buf s) @
     concat (map (\<lambda>name. case hm_get (ss_bindings s) name of
                          Some b \<Rightarrow> [(name, DArr (to_script_array (vb_history b)))] | None \<Rightarrow> [])
               (ss_binding_order s))"

definition scope_of :: "('ast, 'sc) rhai \<Rightarrow> ('i, 'ast) script_strategy \<Rightarrow> 'sc" where
  "scope_of rh s = foldl (\<lambda>sc (name, v). rh_push rh name v sc) (rh_scope_new rh) (scope_entries s)"

text \<open>The first error stays in the sink.\<close>

definition sink_error :: "string \<Rightarrow> ('i, 'ast) script_strategy \<Rightarrow> ('i, 'ast) script_strategy" where
  "sink_error msg s =
     (case ss_error_sink s of Some None \<Rightarrow> s\<lparr>ss_error_sink := Some (Some msg)\<rparr> | _ \<Rightarrow> s)"

definition run_regime ::
  "('ast, 'sc) rhai \<Rightarrow> ('i, 'ast) script_strategy \<Rightarrow> 'sc \<Rightarrow> ('i, 'ast) script_strategy \<times> 'sc" where
  "run_regime rh s sc =
     (case ss_regime_ast s of
        None \<Rightarrow> (s, sc)
      | Some a \<Rightarrow>
          (case rh_run rh a sc of
             (sc', None) \<Rightarrow>
               (let str = (\<lambda>n. case get_str rh n sc' of Some x \<Rightarrow> x | None \<Rightarrow> []);
                    num = (\<lambda>n. case get_f64 rh n sc' of Some x \<Rightarrow> x | None \<Rightarrow> 0)
                in (s\<lparr>ss_current_regime := Some \<lparr>rs_trend = dim_new (num ''trend_value'') (str ''trend''),
                       rs_volatility = dim_new (num ''vol_value'') (str ''vol'')\<rparr>\<rparr>, sc'))
           | (sc', Some e) \<Rightarrow> (sink_error (''regime block: '' @ e) s, sc')))"

definition positive :: "f64 option \<Rightarrow> f64 option" where
  "positive v = (case v of Some x \<Rightarrow> if 0 < x then Some x else None | None \<Rightarrow> None)"

definition non_zero :: "f64 option \<Rightarrow> f64 option" where
  "non_zero v = (case v of Some x \<Rightarrow> if feq x 0 then None else Some x | None \<Rightarrow> None)"

text \<open>The signal the output variables ask for: long before short before exit.\<close>

definition script_signals :: "('ast, 'sc) rhai \<Rightarrow> 'sc \<Rightarrow> bar \<Rightarrow> signal list" where
  "script_signals rh sc b =
     (let strength = fclamp (case scalar_out rh sc ''strength'' of Some v \<Rightarrow> v | None \<Rightarrow> 1) 0 1;
          reason = (case get_str rh ''reason'' sc of Some s \<Rightarrow> if s = [] then None else Some s | None \<Rightarrow> None);
          atr = positive (scalar_out rh sc ''atr'');
          enrich = (\<lambda>sg. sg\<lparr>sg_price := Some (b_close b), sg_target_price := non_zero (scalar_out rh sc ''tp''),
             sg_stop_price := non_zero (scalar_out rh sc ''sl''), sg_trailing_stop_pct := positive (scalar_out rh sc ''trail''),
             sg_max_bars_held := (case get_i64 rh ''max_bars'' sc of Some v \<Rightarrow> if 0 < v then Some (nat v) else None | None \<Rightarrow> None),
             sg_is_offset := (get_bool rh ''is_offset'' sc = Some True), sg_reason := reason, sg_atr := atr\<rparr>)
      in if bool_out rh sc ''long'' \<or> bool_out rh sc ''entry''
         then [enrich (signal_long (b_timestamp b) (b_symbol b) strength)]
         else if bool_out rh sc ''short'' then [enrich (signal_short (b_timestamp b) (b_symbol b) strength)]
         else if bool_out rh sc ''exit''
         then [(signal_exit (b_timestamp b) (b_symbol b))\<lparr>sg_reason := reason, sg_atr := atr\<rparr>]
         else [])"

text \<open>The state and \<open>ta\<close> maps are written back after a run without error.\<close>

definition run_main ::
  "('ast, 'sc) rhai \<Rightarrow> ('i, 'ast) script_strategy \<Rightarrow> 'sc \<Rightarrow> bar \<Rightarrow> ('i, 'ast) script_strategy \<times> signal list" where
  "run_main rh s sc b =
     (case rh_run rh (ss_ast s) sc of
        (_, Some e) \<Rightarrow> (sink_error e s, [])
      | (sc', None) \<Rightarrow>
          (s\<lparr>ss_persistent_state := (case get_map rh ''state'' sc' of Some m \<Rightarrow> m | None \<Rightarrow> ss_persistent_state s),
             ss_ta_state := (case get_map rh ''ta'' sc' of Some m \<Rightarrow> m | None \<Rightarrow> ss_ta_state s)\<rparr>,
           script_signals rh sc' b))"

text \<open>The part of \<open>on_bar\<close> before the script runs, on a transformed bar, with its readiness.\<close>

definition script_feed ::
  "'i indicator_ops \<Rightarrow> ('i, 'ast) script_strategy \<Rightarrow> bar \<Rightarrow> ('i, 'ast) script_strategy \<times> bool" where
  "script_feed io s b =
     (let buf = ring_push (ss_bar_buf s) b (ss_bar_buf_depth s);
          (bindings, ready) = update_bindings io b (ss_binding_order s) (ss_bindings s) (ss_bar_buf_depth s \<le> length buf);
          series = map_option (\<lambda>sr. foldl (collect_binding (b_timestamp b) bindings) sr (ss_binding_order s)) (ss_series s)
      in (s\<lparr>ss_bar_buf := buf, ss_bindings := bindings, ss_series := series\<rparr>, ready))"

definition script_on_bar ::
  "'i indicator_ops \<Rightarrow> ('ast, 'sc) rhai \<Rightarrow> ('i, 'ast) script_strategy \<Rightarrow> bar \<Rightarrow>
   (('i, 'ast) script_strategy \<times> signal list) option" where
  "script_on_bar io rh s raw =
     (case candle_apply (ss_candle_transform s) raw of
        None \<Rightarrow> None
      | Some (ct, None) \<Rightarrow> Some (s\<lparr>ss_current_regime := None, ss_candle_transform := ct\<rparr>, [])
      | Some (ct, Some b) \<Rightarrow>
          (let (s1, ready) = script_feed io (s\<lparr>ss_current_regime := None, ss_candle_transform := ct\<rparr>) b
           in if \<not> ready then Some (s1, [])
              else let (s2, sc) = run_regime rh s1 (scope_of rh s1) in Some (run_main rh s2 sc b)))"

definition take_indicator_series ::
  "('i, 'ast) script_strategy \<Rightarrow> ('i, 'ast) script_strategy \<times> (string, (int \<times> f64) list) hmap" where
  "take_indicator_series s =
     (case ss_series s of Some sr \<Rightarrow> (s\<lparr>ss_series := Some []\<rparr>, sr) | None \<Rightarrow> (s, []))"

definition script_reset ::
  "'i indicator_ops \<Rightarrow> ('i, 'ast) script_strategy \<Rightarrow> ('i, 'ast) script_strategy option" where
  "script_reset io s =
     map_option (\<lambda>ct. s\<lparr>ss_bindings := map (\<lambda>(k, b). (k, binding_reset io b)) (ss_bindings s), ss_bar_buf := [],
         ss_candle_transform := ct, ss_series := map_option (\<lambda>_. []) (ss_series s), ss_current_regime := None,
         ss_persistent_state := [], ss_ta_state := []\<rparr>)
       (candle_reset (ss_candle_transform s))"

text \<open>The indicators a script needs, for the registry of live strategies: the declarations whose
  construction succeeds, with their configuration.\<close>

definition script_indicator_deps :: "'i indicator_ops \<Rightarrow> string \<Rightarrow> (json \<times> timeframe option) list" where
  "script_indicator_deps io script =
     concat (map (\<lambda>line. case try_parse_indicator_line line of
                         None \<Rightarrow> []
                       | Some d \<Rightarrow>
                           (case make_indicator_box io d of
                              Inl _ \<Rightarrow> []
                            | Inr _ \<Rightarrow> [(indicator_json_config (id_ind_type d) (id_period d) (id_extra_params d), id_timeframe d)]))
              (str_lines script))"

end
