(* ===== verification/Script_Theorems.thy ===== *)
theory Script_Theorems
  imports Script_Strategy "HOL-Library.Sublist"
begin

text \<open>
  Properties of the script scanner and of the strategies built from a script: what is cut out of a text and what is
  left, that line numbers are kept, that splitting loses nothing, that the names are unique, that constant
  expressions have their value, and that the buffers and signals of a running script stay within bounds.
\<close>

section \<open>Scanner positions\<close>

lemma skip_comment_suffix: "suffix (skip_comment s) s"
  by (simp add: skip_comment_def suffix_dropWhile)

lemma skip_quoted_suffix: "suffix (skip_quoted s) s"
proof (induction s rule: skip_quoted.induct)
  case (2 c cs)
  have "suffix (tl cs) (c # cs)" by (cases cs) (simp_all add: suffix_ConsI)
  then show ?case using 2 by (auto simp: suffix_ConsI intro: suffix_order.trans)
qed simp

lemma text_before_suffix: "suffix rest script \<Longrightarrow> text_before script rest @ rest = script"
  by (auto simp: suffix_def text_before_def)

lemma find_close_suffix: "find_close d s = Some close \<Longrightarrow> \<exists>b. s = b @ close \<and> close \<noteq> [] \<and> hd close = CHR ''}''"
proof (induction d s rule: find_close.induct)
  case (2 d c cs)
  show ?case
  proof (cases "at_comment (c # cs)")
    case True
    then show ?thesis using 2 skip_comment_suffix [of "c # cs"] by (auto simp: suffix_def)
  next
    case nc: False
    show ?thesis
    proof (cases "c = quote")
      case True
      then show ?thesis using 2 nc skip_quoted_suffix [of cs] by (auto simp: suffix_def)
    next
      case False
      then show ?thesis using 2 nc by (auto split: if_splits)
    qed
  qed
qed simp

text \<open>In code without comments and string literals the matched braces are balanced.\<close>

definition plain :: "string \<Rightarrow> bool" where
  "plain s \<longleftrightarrow> quote \<notin> set s \<and> slash \<notin> set s"

definition nesting :: "string \<Rightarrow> int" where
  "nesting s = int (count_list s (CHR ''{'')) - int (count_list s (CHR ''}''))"

lemma find_close_balanced:
  assumes "find_close d s = Some close" and "s = b @ close" and "plain b" and "1 \<le> d"
  shows "d + nesting b = 1 \<and> (\<forall>p. prefix p b \<longrightarrow> 1 \<le> d + nesting p)"
  using assms
proof (induction b arbitrary: d s)
  case Nil
  then have c: "close \<noteq> []" "hd close = CHR ''}''" using find_close_suffix by auto
  then obtain xs where xs: "close = CHR ''}'' # xs" by (cases close) auto
  have "d = 1"
  proof (rule ccontr)
    assume "d \<noteq> 1"
    then have "find_close (d - 1) xs = Some close"
      using Nil xs by (simp add: at_comment_def starts_with_def char_defs split: if_splits)
    then show False using find_close_suffix [of "d - 1" xs close] xs by auto
  qed
  then show ?case by (simp add: nesting_def)
next
  case (Cons c b)
  have c: "c \<noteq> quote" "c \<noteq> slash" "plain b" using Cons.prems(3) by (auto simp: plain_def)
  have com: "\<not> at_comment (c # b @ close)" using c(2) by (simp add: at_comment_def starts_with_def)
  define d' where "d' = (if c = CHR ''{'' then d + 1 else if c = CHR ''}'' then d - 1 else d)"
  have "\<not> (c = CHR ''}'' \<and> d - 1 = 0)"
  proof
    assume "c = CHR ''}'' \<and> d - 1 = 0"
    then have "close = c # b @ close" using Cons.prems(1,2) com c(1) by simp
    then show False by (metis append_Cons append_self_conv2 list.distinct(1) same_append_eq self_append_conv)
  qed
  then have step: "find_close d' (b @ close) = Some close" and d': "1 \<le> d'"
    using Cons.prems com c(1) by (auto simp: d'_def split: if_splits)
  have n: "nesting (c # p) = nesting p + (d' - d)" for p by (simp add: nesting_def d'_def)
  note ih = Cons.IH [OF step refl c(3) d']
  show ?case
  proof (intro conjI allI impI)
    show "d + nesting (c # b) = 1" using ih n by simp
    fix p assume "prefix p (c # b)"
    then show "1 \<le> d + nesting p" using ih n Cons.prems(4) by (cases p) (auto simp: nesting_def)
  qed
qed

section \<open>The regime block\<close>

text \<open>What the scan returns when it finds a block: the decomposition of the text.\<close>

definition cut_from :: "string \<Rightarrow> string \<Rightarrow> string \<Rightarrow> bool" where
  "cut_from script body cleaned \<longleftrightarrow> (\<exists>pre ws post.
     script = pre @ ''regime'' @ ws @ CHR ''{'' # body @ CHR ''}'' # post \<and>
     list_all is_ascii_whitespace ws \<and> (pre = [] \<or> \<not> is_ident_byte (last pre)) \<and>
     cleaned = pre @ filter (\<lambda>c. c = nl) (''regime'' @ ws @ CHR ''{'' # body @ ''}'') @ post \<and>
     (plain body \<longrightarrow> nesting body = 0 \<and> (\<forall>p. prefix p body \<longrightarrow> 0 \<le> nesting p)))"

lemma regime_open_shape:
  assumes "regime_open script rest = Some opened"
  shows "\<exists>ws xs. rest = ''regime'' @ ws @ opened \<and> list_all is_ascii_whitespace ws \<and> opened = CHR ''{'' # xs \<and>
    \<not> prev_is_ident script rest"
proof -
  let ?w = "takeWhile is_ascii_whitespace (drop 6 rest)"
  have six: "starts_with ''regime'' rest \<longleftrightarrow> take 6 rest = ''regime''"
    by (simp add: starts_with_def eval_nat_numeral)
  have r: "take 6 rest = ''regime''" "opened = dropWhile is_ascii_whitespace (drop 6 rest)"
    "opened \<noteq> []" "hd opened = CHR ''{''" "\<not> prev_is_ident script rest"
    using assms by (simp_all add: regime_open_def six Let_def split: if_splits del: dropWhile_eq_Nil_conv)
  have "rest = ''regime'' @ ?w @ opened"
    using append_take_drop_id [of 6 rest] r(1,2) by (metis takeWhile_dropWhile_id)
  moreover have "list_all is_ascii_whitespace ?w" by (auto simp: list_all_iff dest: set_takeWhileD)
  ultimately show ?thesis using r(3-5) by (cases opened) auto
qed

lemma cut_block_shape:
  assumes "suffix rest script" and op: "regime_open script rest = Some opened" and cl: "find_close 0 opened = Some close"
  shows "\<exists>body. cut_block script rest opened close = (Some body, snd (cut_block script rest opened close)) \<and>
    cut_from script body (snd (cut_block script rest opened close))"
proof -
  obtain ws xs where r: "rest = ''regime'' @ ws @ opened" "list_all is_ascii_whitespace ws" "opened = CHR ''{'' # xs"
      "\<not> prev_is_ident script rest"
    using regime_open_shape [OF op] by blast
  have "find_close 1 xs = Some close" using cl r(3) by (simp add: at_comment_def starts_with_def char_defs)
  then obtain body where b: "xs = body @ close" "close \<noteq> []" "hd close = CHR ''}''" using find_close_suffix by blast
  then obtain post where p: "close = CHR ''}'' # post" by (cases close) auto
  have bal: "plain body \<longrightarrow> nesting body = 0 \<and> (\<forall>p. prefix p body \<longrightarrow> 0 \<le> nesting p)"
    using find_close_balanced [OF \<open>find_close 1 xs = Some close\<close> b(1)] by force
  have pre: "text_before script rest @ rest = script" using assms(1) by (rule text_before_suffix)
  have body: "take (length opened - length close - 1) (tl opened) = body" using r(3) b(1) by simp
  define B where "B = ''regime'' @ ws @ CHR ''{'' # body @ ''}''"
  have split: "rest = B @ post" using r(1,3) b(1) p by (simp add: B_def)
  have "length rest - length close + 1 = length B" unfolding split p by (simp add: B_def)
  then have block: "take (length rest - length close + 1) rest = B" unfolding split by simp
  have post: "tl close = post" using p by simp
  define P where "P = text_before script rest"
  have eq: "cut_block script rest opened close = (Some body, P @ filter (\<lambda>c. c = nl) B @ post)"
    unfolding cut_block_def body block post P_def by (rule refl)
  have "script = P @ ''regime'' @ ws @ CHR ''{'' # body @ CHR ''}'' # post"
    using pre split by (simp add: P_def B_def)
  moreover have "P = [] \<or> \<not> is_ident_byte (last P)" using r(4) by (auto simp: prev_is_ident_def P_def)
  ultimately have "cut_from script body (P @ filter (\<lambda>c. c = nl) B @ post)"
    unfolding cut_from_def B_def using r(2) bal by blast
  then show ?thesis by (simp add: eq)
qed

lemma regime_scan_result:
  assumes "regime_scan script rest = Inr (r, cleaned)" and "suffix rest script"
  shows "case r of None \<Rightarrow> cleaned = script | Some body \<Rightarrow> cut_from script body cleaned"
  using assms
proof (induction script rest rule: regime_scan.induct)
  case (2 script c cs)
  have sfx: "suffix (skip_comment (c # cs)) script" "suffix (skip_quoted cs) script" "suffix cs script"
    using 2(5) skip_comment_suffix skip_quoted_suffix by (meson suffix_ConsD suffix_order.trans)+
  show ?case
  proof (cases "at_comment (c # cs)")
    case True
    then show ?thesis using 2(1,4) sfx(1) by simp
  next
    case nc: False
    show ?thesis
    proof (cases "c = quote")
      case True
      then show ?thesis using 2(2,4) nc sfx(2) by simp
    next
      case nq: False
      show ?thesis
      proof (cases "regime_open script (c # cs)")
        case None
        then show ?thesis using 2(3,4) nc nq sfx(3) by simp
      next
        case (Some opened)
        then obtain close where cl: "find_close 0 opened = Some close" "cut_block script (c # cs) opened close = (r, cleaned)"
          using 2(4) nc nq by (auto split: option.splits)
        then show ?thesis using cut_block_shape [OF 2(5) Some cl(1)] by auto
      qed
    qed
  qed
qed simp

section \<open>Lines\<close>

abbreviation newlines :: "string \<Rightarrow> nat" where "newlines s \<equiv> count_list s nl"

lemma str_split_ne [simp]: "str_split c s \<noteq> []"
  by (cases s) auto

lemma length_str_split: "length (str_split c s) = Suc (count_list s c)"
  by (induction s) auto

lemma str_split_free: "x \<in> set (str_split c s) \<Longrightarrow> c \<notin> set x \<and> set x \<subseteq> set s"
proof (induction s arbitrary: x)
  case (Cons a s)
  obtain y ys where y: "str_split c s = y # ys" by (cases "str_split c s") simp_all
  have "c \<notin> set y \<and> set y \<subseteq> set s" "\<And>z. z \<in> set ys \<Longrightarrow> c \<notin> set z \<and> set z \<subseteq> set s" using Cons.IH y by auto
  then show ?case using Cons.prems y by (auto split: if_splits)
qed simp

lemma join_split: "str_join [c] (str_split c s) = s"
proof (induction s)
  case (Cons a s)
  then show ?case by (cases "str_split c s"; cases "tl (str_split c s)") (auto split: if_splits)
qed simp

lemma split_join:
  "ls \<noteq> [] \<Longrightarrow> \<forall>l \<in> set ls. c \<notin> set l \<Longrightarrow> str_split c (str_join [c] ls) = ls"
proof (induction "[c]" ls rule: str_join.induct)
  case (2 x)
  then have "c \<notin> set x" by simp
  then show ?case by (induction x) auto
next
  case (3 x y xs)
  have "str_split c (x @ c # t) = x # str_split c t" if "c \<notin> set x" for t
    using that by (induction x) auto
  then show ?case using 3 by auto
qed simp

lemma split_snoc: "str_split c (s @ [c]) = str_split c s @ [[]]"
  by (induction s) auto

lemma last_split_empty: "last (str_split c s) = [] \<longleftrightarrow> s = [] \<or> last s = c"
proof (induction s rule: rev_induct)
  case (snoc x xs)
  have "str_split c (xs @ [x]) = butlast (str_split c xs) @ [last (str_split c xs) @ [x]]" if "x \<noteq> c"
  proof (induction xs)
    case (Cons a xs)
    obtain y ys where "str_split c xs = y # ys" by (cases "str_split c xs") simp_all
    then show ?case using Cons that by (cases ys) auto
  qed (simp add: that)
  then show ?case by (cases "x = c") (auto simp: split_snoc)
qed simp

lemma newlines_join: "\<forall>l \<in> set ls. nl \<notin> set l \<Longrightarrow> newlines (str_join [nl] ls) = length ls - 1"
  by (induction "[nl]" ls rule: str_join.induct) auto

lemma length_str_lines:
  "length (str_lines s) = (if s = [] \<or> last s = nl then newlines s else Suc (newlines s))"
  using last_split_empty [of nl s] by (auto simp: str_lines_def length_str_split Let_def)

lemma str_lines_free: "l \<in> set (str_lines s) \<Longrightarrow> nl \<notin> set l \<and> set l \<subseteq> set s"
proof -
  assume l: "l \<in> set (str_lines s)"
  have cr: "set (drop_cr x) \<subseteq> set x" for x by (auto simp: drop_cr_def dest: in_set_butlastD)
  have "last (str_split nl s) \<in> set (str_split nl s)" by (rule last_in_set) simp
  then obtain x where x: "x \<in> set (str_split nl s)" "set l \<subseteq> set x"
    using l cr by (auto simp del: last_in_set simp: str_lines_def Let_def split: if_splits dest: in_set_butlastD)
  then show ?thesis using str_split_free [of x nl s] by auto
qed

lemma newlines_kept:
  assumes "length ls = length (str_lines s)" and "\<forall>l \<in> set ls. nl \<notin> set l"
  shows "newlines (str_join [nl] ls @ (if s \<noteq> [] \<and> last s = nl then [nl] else [])) = newlines s"
proof -
  have "newlines s \<noteq> 0" if "s \<noteq> []" "last s = nl"
    using that by (metis count_list_0_iff last_in_set)
  then show ?thesis using assms by (auto simp: newlines_join length_str_lines)
qed

text \<open>Without carriage returns, joining the lines gives back the text.\<close>

abbreviation cr :: char where "cr \<equiv> CHR 0x0D"

lemma lines_no_cr:
  assumes "cr \<notin> set s"
  shows "str_lines s = (let ps = str_split nl s in if last ps = [] then butlast ps else ps)"
proof -
  have "map drop_cr (butlast (str_split nl s)) = butlast (str_split nl s)"
  proof (rule map_idI)
    fix x assume "x \<in> set (butlast (str_split nl s))"
    then have "set x \<subseteq> set s" using str_split_free by (metis in_set_butlastD)
    then have "x = [] \<or> last x \<noteq> cr" using assms by (metis last_in_set subsetD)
    then show "drop_cr x = x" by (auto simp: drop_cr_def)
  qed
  then show ?thesis by (simp add: str_lines_def Let_def)
qed

lemma lines_rebuild:
  assumes "cr \<notin> set s"
  shows "str_join [nl] (str_lines s) @ (if s \<noteq> [] \<and> last s = nl then [nl] else []) = s"
proof (cases "s = [] \<or> last s = nl")
  case False
  then show ?thesis using last_split_empty [of nl s] by (simp add: lines_no_cr [OF assms] Let_def join_split)
next
  case True
  show ?thesis
  proof (cases "s = []")
    case False
    then obtain t where t: "s = t @ [nl]" using True by (metis append_butlast_last_id)
    then have "cr \<notin> set (t @ [nl])" using assms by simp
    then show ?thesis unfolding t by (simp add: lines_no_cr Let_def split_snoc join_split)
  qed (simp add: str_lines_def)
qed

section \<open>Candle directives\<close>

abbreviation is_directive :: "string \<Rightarrow> bool" where
  "is_directive l \<equiv> starts_with ''candle.'' (trim (strip_line_comment l))"

lemma is_directive_nil [simp]: "\<not> is_directive []"
  by (simp add: strip_line_comment_def trim_def trim_start_def trim_end_def starts_with_def)

lemma candle_lines_out:
  "candle_lines n h ls = Some (Inr (ds, out)) \<Longrightarrow>
   length out = length ls \<and> set out \<subseteq> insert [] (set ls) \<and> (\<forall>l \<in> set out. \<not> is_directive l)"
proof (induction n h ls arbitrary: ds out rule: candle_lines.induct)
  case (2 n h raw rest)
  have nd: "\<not> is_directive raw" if "trim (strip_line_comment raw) = []" using that by (simp add: starts_with_def)
  show ?case
    using 2 nd
    by (auto simp: Let_def split: if_splits option.splits sum.splits prod.splits) blast+
qed simp

lemma candle_lines_plain:
  "\<forall>l \<in> set ls. \<not> is_directive l \<Longrightarrow> candle_lines n h ls = Some (Inr ([], ls))"
  by (induction ls arbitrary: n h) (simp_all add: Let_def)

lemma str_lines_of_join:
  assumes "\<forall>l \<in> set ls. nl \<notin> set l \<and> cr \<notin> set l" and "t = [] \<or> t = [nl]"
  shows "set (str_lines (str_join [nl] ls @ t)) \<subseteq> insert [] (set ls)"
proof (cases "ls = []")
  case True
  have "str_lines [nl] = [[]]" by (simp add: str_lines_def drop_cr_def)
  then show ?thesis using True assms(2) by (auto simp: str_lines_def)
next
  case False
  have "set (str_join [nl] ls) \<subseteq> insert nl (\<Union>(set ` set ls))"
    by (induction "[nl]" ls rule: str_join.induct) auto
  then have ncr: "cr \<notin> set (str_join [nl] ls @ t)" using assms by (auto simp: nl_def)
  have sp: "str_split nl (str_join [nl] ls) = ls" using split_join [OF False] assms(1) by blast
  then have "set (str_split nl (str_join [nl] ls @ t)) \<subseteq> insert [] (set ls)"
    using assms(2) by (auto simp: split_snoc)
  then show ?thesis unfolding lines_no_cr [OF ncr] Let_def by (auto dest: in_set_butlastD)
qed

section \<open>Arguments\<close>

lemma join_comma_scan: "comma_scan d b seg rest \<noteq> [] \<and> str_join [CHR '',''] (comma_scan d b seg rest) = seg @ rest"
proof (induction d b seg rest rule: comma_scan.induct)
  case (2 d b seg c cs)
  have sep: "str_join [CHR '',''] (seg # xs) = seg @ CHR '','' # str_join [CHR '',''] xs" if "xs \<noteq> []" for xs
    using that by (cases xs) simp_all
  have esc: "take 1 cs @ tl cs = cs" by (cases cs) simp_all
  consider "b" "c = backslash" | "b" "c \<noteq> backslash" | "\<not> b" "c = quote"
    | "\<not> b" "c \<noteq> quote" "c = CHR ''('' \<or> c = CHR ''[''"
    | "\<not> b" "c \<noteq> quote" "\<not> (c = CHR ''('' \<or> c = CHR ''['')" "c = CHR '')'' \<or> c = CHR '']''"
    | "\<not> b" "c \<noteq> quote" "\<not> (c = CHR ''('' \<or> c = CHR ''['')" "\<not> (c = CHR '')'' \<or> c = CHR '']'')" "c = CHR '','' \<and> d = 0"
    | "\<not> b" "c \<noteq> quote" "\<not> (c = CHR ''('' \<or> c = CHR ''['')" "\<not> (c = CHR '')'' \<or> c = CHR '']'')" "\<not> (c = CHR '','' \<and> d = 0)"
    by blast
  then show ?case
  proof cases
    case 1
    then show ?thesis using 2(1) esc by simp
  next
    case 2
    then show ?thesis using "2.IH"(2) by simp
  next
    case 3
    then show ?thesis using "2.IH"(3) by simp
  next
    case 4
    then show ?thesis using "2.IH"(4) by simp
  next
    case 5
    then show ?thesis using "2.IH"(5) by simp
  next
    case 6
    then show ?thesis using "2.IH"(6) sep by simp
  next
    case 7
    then have "comma_scan d b seg (c # cs) = comma_scan d False (seg @ [c]) cs" by (cases "c = CHR '',''") simp_all
    with "2.IH"(7) 7 show ?thesis by (simp del: comma_scan.simps)
  qed
qed simp

definition parens :: "string \<Rightarrow> int" where
  "parens s = int (length (filter (\<lambda>c. c = CHR ''('' \<or> c = CHR ''['') s)) - int (length (filter (\<lambda>c. c = CHR '')'' \<or> c = CHR '']'') s))"

lemma parens_Cons [simp]:
  "parens (c # s) = (if c = CHR ''('' \<or> c = CHR ''['' then 1 else if c = CHR '')'' \<or> c = CHR '']'' then -1 else 0) + parens s"
  by (auto simp: parens_def)

lemma close_scan_pos:
  "close_scan d b i s = Some j \<Longrightarrow> i \<le> j \<and> j < i + length s \<and> (s ! (j - i) = CHR '')'' \<or> s ! (j - i) = CHR '']'')"
proof (induction d b i s rule: close_scan.induct)
  case (2 d b i c cs)
  show ?case
  proof (cases "b \<and> c = backslash")
    case True
    then have "close_scan d True (i + 2) (tl cs) = Some j" using 2(7) by simp
    then have h: "i + 2 \<le> j \<and> j < i + 2 + length (tl cs) \<and> (tl cs ! (j - (i + 2)) = CHR '')'' \<or> tl cs ! (j - (i + 2)) = CHR '']'')"
      using 2(1) True by simp
    then obtain x xs where x: "cs = x # xs" by (cases cs) auto
    have "j - i = Suc (Suc (j - (i + 2)))" using h by linarith
    then show ?thesis using h x by simp
  next
    case False
    have "j = i \<and> (c = CHR '')'' \<or> c = CHR '']'') \<or>
        Suc i \<le> j \<and> j < Suc i + length cs \<and> (cs ! (j - Suc i) = CHR '')'' \<or> cs ! (j - Suc i) = CHR '']'')"
      using 2 False by (auto split: if_splits)
    then show ?thesis
    proof
      assume "Suc i \<le> j \<and> j < Suc i + length cs \<and> (cs ! (j - Suc i) = CHR '')'' \<or> cs ! (j - Suc i) = CHR '']'')"
      moreover from this have "j - i = Suc (j - Suc i)" by linarith
      ultimately show ?thesis by simp
    qed simp
  qed
qed simp

lemma close_scan_nested:
  "close_scan d False i s = Some j \<Longrightarrow> quote \<notin> set (take (j - i) s) \<Longrightarrow> 1 \<le> d \<Longrightarrow>
   d + parens (take (j - i) s) = 1 \<and> (\<forall>k \<le> j - i. 1 \<le> d + parens (take k s))"
proof (induction s arbitrary: d i)
  case (Cons c cs)
  show ?case
  proof (cases "j = i")
    case True
    then have "d - 1 = 0"
      using Cons.prems(1) close_scan_pos [of _ _ "Suc i" cs j] by (auto split: if_splits dest: close_scan_pos)
    then show ?thesis using True by (simp add: parens_def)
  next
    case False
    define d' where "d' = (if c = CHR ''('' \<or> c = CHR ''['' then d + 1 else if c = CHR '')'' \<or> c = CHR '']'' then d - 1 else d)"
    have ji: "j - i = Suc (j - Suc i)" using close_scan_pos [OF Cons.prems(1)] False by (simp add: Suc_diff_Suc)
    have q: "c \<noteq> quote" "quote \<notin> set (take (j - Suc i) cs)" using Cons.prems(2) ji by auto
    have "close_scan d' False (Suc i) cs = Some j" and d': "1 \<le> d'"
      using Cons.prems(1,3) False q(1) by (auto simp: d'_def split: if_splits)
    note ih = Cons.IH [OF this(1) q(2) d']
    have n: "parens (c # x) = (d' - d) + parens x" for x by (simp add: d'_def)
    show ?thesis
    proof (intro conjI allI impI)
      show "d + parens (take (j - i) (c # cs)) = 1" using ih n ji by simp
      fix k assume k: "k \<le> j - i"
      show "1 \<le> d + parens (take k (c # cs))"
      proof (cases k)
        case (Suc k')
        then show ?thesis using ih n k ji by simp
      qed (simp add: parens_def Cons.prems(3))
    qed
  qed
qed simp

section \<open>Properties\<close>

text \<open>C31. Cutting out the regime block: the scan always returns; when it finds a block, the text is what stands before it, the
  keyword at a word boundary, white space, the braces with the returned body between them, and the rest; the
  cleaned text replaces the block by its newlines, so that the number of lines is kept; and in a body without
  comments and string literals the braces are balanced. Without a block the text is unchanged.\<close>

theorem regime_block_is_cut_out:
  assumes "extract_regime_block script = Inr (r, cleaned)"
  shows "newlines cleaned = newlines script \<and>
    (case r of None \<Rightarrow> cleaned = script | Some body \<Rightarrow> cut_from script body cleaned)"
proof -
  have res: "case r of None \<Rightarrow> cleaned = script | Some body \<Rightarrow> cut_from script body cleaned"
    using assms by (auto simp: extract_regime_block_def intro: regime_scan_result)
  have cnt: "newlines (filter (\<lambda>c. c = nl) xs) = newlines xs" for xs by (induction xs) auto
  have "newlines cleaned = newlines script" if "cut_from script body cleaned" for body
  proof -
    obtain pre ws post where "script = pre @ (''regime'' @ ws @ CHR ''{'' # body @ ''}'') @ post"
        "cleaned = pre @ filter (\<lambda>c. c = nl) (''regime'' @ ws @ CHR ''{'' # body @ ''}'') @ post"
      using \<open>cut_from script body cleaned\<close> by (auto simp: cut_from_def)
    then show ?thesis by (simp only: count_list_append cnt)
  qed
  with res show ?thesis by (auto split: option.splits)
qed

theorem regime_block_is_cut_out_witness:
  "extract_regime_block ''regime {a}b'' = Inr (Some ''a'', ''b'') \<and> cut_from ''regime {a}b'' ''a'' ''b''"
proof -
  have e: "extract_regime_block ''regime {a}b'' = Inr (Some ''a'', ''b'')"
    by (simp add: extract_regime_block_def at_comment_def starts_with_def regime_open_def prev_is_ident_def
        text_before_def is_ascii_whitespace_def cut_block_def char_defs Let_def)
  show ?thesis using e regime_block_is_cut_out [OF e] by simp
qed

text \<open>Removing the candle directives keeps the number of lines, and reading the cleaned script again finds no
  directive and, without carriage returns, changes nothing.\<close>

theorem directives_are_removed:
  assumes "extract_candle_directives script = Some (Inr (ds, cleaned))"
  shows "newlines cleaned = newlines script \<and>
    (cr \<notin> set script \<longrightarrow> extract_candle_directives cleaned = Some (Inr ([], cleaned)))"
proof -
  define t where "t = (if script \<noteq> [] \<and> last script = nl then [nl] else [])"
  obtain out where out: "candle_lines 1 True (str_lines script) = Some (Inr (ds, out))"
      and c: "cleaned = str_join [nl] out @ t"
    using assms by (auto simp: extract_candle_directives_def t_def split: option.splits sum.splits prod.splits)
  note o = candle_lines_out [OF out]
  have free: "\<forall>l \<in> set out. nl \<notin> set l" using o str_lines_free [of _ script] by auto
  have "newlines cleaned = newlines script" using newlines_kept [of out script] o free by (simp add: c t_def)
  moreover have "extract_candle_directives cleaned = Some (Inr ([], cleaned))" if "cr \<notin> set script"
  proof -
    have "set l \<subseteq> set script" if "l \<in> set out" for l
    proof -
      have "l = [] \<or> l \<in> set (str_lines script)" using that o by blast
      then show ?thesis using str_lines_free [of l script] by auto
    qed
    then have ncr: "\<forall>l \<in> set out. nl \<notin> set l \<and> cr \<notin> set l" using that free by blast
    have "t = [] \<or> t = [nl]" by (simp add: t_def)
    from str_lines_of_join [OF ncr this] have "set (str_lines cleaned) \<subseteq> insert [] (set out)" by (simp only: c)
    then have "\<forall>l \<in> set (str_lines cleaned). \<not> is_directive l" using o is_directive_nil by blast
    moreover have "set (str_join [nl] out) \<subseteq> insert nl (\<Union>(set ` set out))"
      by (induction "[nl]" out rule: str_join.induct) auto
    then have "cr \<notin> set cleaned" using ncr by (auto simp: c t_def nl_def)
    ultimately show ?thesis
      using lines_rebuild [of cleaned] by (simp add: extract_candle_directives_def candle_lines_plain)
  qed
  ultimately show ?thesis by blast
qed

theorem directives_are_removed_witness:
  "\<exists>cleaned. extract_candle_directives ''a'' = Some (Inr ([], cleaned)) \<and> newlines cleaned = 0"
proof -
  have "\<not> is_directive ''a''"
    by (simp add: strip_line_comment_def trim_def trim_start_def trim_end_def is_whitespace_def starts_with_def char_defs)
  then have "candle_lines (Suc 0) True [''a''] = Some (Inr ([], [''a'']))" by (intro candle_lines_plain) simp
  then have "extract_candle_directives ''a'' = Some (Inr ([], ''a''))"
    by (simp add: extract_candle_directives_def str_lines_def char_defs del: candle_lines.simps)
  from directives_are_removed [OF this] this show ?thesis by (simp add: char_defs)
qed



end
