(* ===== verification/Script_Runs.thy ===== *)
theory Script_Runs
  imports Script_Theorems
begin

text \<open>
  Script strategies from the text to the signals: the names of a script are unique, building gives a consistent
  strategy, and a consistent strategy answers every bar, stays consistent, keeps its buffers within their depths
  and sends at most one signal, only when everything is warm.
\<close>

section \<open>Names\<close>

definition names_ok :: "indicator_decl list \<Rightarrow> script_names \<Rightarrow> bool" where
  "names_ok decls names \<longleftrightarrow> distinct (map id_var_name decls) \<and> id_var_name ` set decls \<subseteq> set names \<and> distinct names"

lemma process_lines_names:
  "process_lines ls d decls names cl = Inr (cl', decls', names') \<Longrightarrow> names_ok decls names \<Longrightarrow> names_ok decls' names'"
proof (induction ls arbitrary: d decls names cl)
  case (Cons line rest)
  show ?case
  proof (cases "try_parse_indicator_line line")
    case (Some decl)
    then have "process_lines rest (d + brace_depth_delta line) (decls @ [decl]) (id_var_name decl # names) cl = Inr (cl', decls', names')"
        "id_var_name decl \<notin> set names"
      using Cons.prems(1) by (auto simp: Let_def split: if_splits)
    moreover from this(2) have "names_ok (decls @ [decl]) (id_var_name decl # names)"
      using Cons.prems(2) by (auto simp: names_ok_def)
    ultimately show ?thesis using Cons.IH by blast
  next
    case None
    then obtain r where r: "rewrite_ta_line line = Inr r" using Cons.prems(1) by (auto simp: Let_def split: sum.splits)
    show ?thesis
    proof (cases r)
      case n: None
      then show ?thesis using Cons.IH [OF _ Cons.prems(2)] Cons.prems(1) None r by (auto simp: Let_def split: sum.splits)
    next
      case (Some p)
      obtain v out where "p = (v, out)" by force
      then have "process_lines rest (d + brace_depth_delta line) decls (v # names) (cl @ [out]) = Inr (cl', decls', names')"
          "v \<notin> set names"
        using Cons.prems(1) None r Some by (auto simp: Let_def split: sum.splits if_splits)
      moreover from this(2) have "names_ok decls (v # names)" using Cons.prems(2) by (auto simp: names_ok_def)
      ultimately show ?thesis using Cons.IH by blast
    qed
  qed
qed simp

lemma process_block_names:
  "process_script_block body decls names = Inr (t, decls', names') \<Longrightarrow> names_ok decls names \<Longrightarrow> names_ok decls' names'"
  by (auto simp: process_script_block_def split: sum.splits prod.splits dest: process_lines_names)

lemma split_script_names: "split_script t = Inr (decls, rc, mc) \<Longrightarrow> distinct (map id_var_name decls)"
proof -
  assume a: "split_script t = Inr (decls, rc, mc)"
  then obtain rb ms rc' d1 n1 names where
      p: "process_script_block rb [] [] = Inr (rc', d1, n1)" "process_script_block ms d1 n1 = Inr (mc, decls, names)"
    by (auto simp: split_script_def split: sum.splits prod.splits option.splits)
  have "names_ok [] []" by (simp add: names_ok_def)
  from process_block_names [OF p(2) process_block_names [OF p(1) this]] show ?thesis by (simp add: names_ok_def)
qed

section \<open>Consistency\<close>

definition candle_need :: "candle_type \<Rightarrow> nat" where
  "candle_need ty = (case ty of SmoothHeikenAshi n \<Rightarrow> max n 1 | _ \<Rightarrow> 1)"

definition candle_ok :: "candle_transform \<Rightarrow> bool" where
  "candle_ok t \<longleftrightarrow> (\<exists>k. ha_fed (candle_need (ct_candle_type t)) k (ct_ha t))"

definition binding_ok :: "nat \<Rightarrow> 'i var_binding \<Rightarrow> bool" where
  "binding_ok depth b \<longleftrightarrow> history_len (vb_history b) \<le> vb_buf_depth b \<and> vb_buf_depth b \<le> depth"

definition script_ok :: "('i, 'ast) script_strategy \<Rightarrow> bool" where
  "script_ok s \<longleftrightarrow> map fst (ss_bindings s) = ss_binding_order s \<and> distinct (ss_binding_order s) \<and>
     length (ss_bar_buf s) \<le> ss_bar_buf_depth s \<and> (\<forall>(k, b) \<in> set (ss_bindings s). binding_ok (ss_bar_buf_depth s) b) \<and>
     2 \<le> ss_bar_buf_depth s \<and> candle_ok (ss_candle_transform s)"

text \<open>Warm: the bar buffer and every history is filled to its depth.\<close>

definition script_warm :: "('i, 'ast) script_strategy \<Rightarrow> bool" where
  "script_warm s \<longleftrightarrow> ss_bar_buf_depth s \<le> length (ss_bar_buf s) \<and>
     (\<forall>(k, b) \<in> set (ss_bindings s). vb_buf_depth b \<le> history_len (vb_history b))"

lemma candle_need_pos: "0 < candle_need ty"
  by (cases ty) (simp_all add: candle_need_def)

lemma candle_new_ok: "\<exists>t. candle_transform_new ty = Some t \<and> candle_ok t"
proof -
  have "max (case ty of SmoothHeikenAshi n \<Rightarrow> n | _ \<Rightarrow> 1) 1 = candle_need ty"
    by (cases ty) (simp_all add: candle_need_def)
  then show ?thesis using ha.fed_start [OF candle_need_pos, of ty]
    by (auto simp: candle_transform_new_def heiken_ashi_new_start candle_ok_def)
qed

lemma candle_apply_ok:
  assumes "candle_ok t"
  shows "\<exists>t' r. candle_apply t b = Some (t', r) \<and> candle_ok t' \<and>
    (\<forall>x. r = Some x \<longrightarrow> b_timestamp x = b_timestamp b \<and> b_symbol x = b_symbol b)"
proof -
  obtain k where k: "ha_fed (candle_need (ct_candle_type t)) k (ct_ha t)" using assms by (auto simp: candle_ok_def)
  obtain h v where h: "heiken_ashi_update (ct_ha t) (b_open b) (b_high b) (b_low b) (b_close b) = Some (h, v)"
      "ha_fed (candle_need (ct_candle_type t)) (Suc k) h"
    using ha_fed_update [OF candle_need_pos k] by blast
  then show ?thesis using assms
    by (cases "ct_candle_type t") (auto simp: candle_apply_def candle_ok_def bar_new_def)
qed

lemma ring_push_le: "length xs \<le> cap \<Longrightarrow> length (ring_push xs x cap) \<le> cap"
  by (simp add: ring_push_def Let_def)

lemma history_push_le: "history_len h \<le> cap \<Longrightarrow> history_len (history_push h fs cap) \<le> cap"
  by (cases h) (auto simp: ring_push_le split: option.split)

lemma binding_update_ok:
  assumes "binding_update io b x = (b', full)"
  shows "binding_ok depth b \<Longrightarrow> binding_ok depth b'" and "full \<Longrightarrow> vb_buf_depth b' \<le> history_len (vb_history b')"
  using assms by (auto simp: binding_update_def binding_ok_def history_push_le Let_def split: prod.splits option.splits)

lemma update_bindings_ok:
  assumes "update_bindings io x names bs ready = (bs', ready')" and "distinct names" and "set names \<subseteq> fst ` set bs"
    and "distinct (map fst bs)" and "\<forall>(k, b) \<in> set bs. binding_ok depth b"
  shows "map fst bs' = map fst bs \<and> (\<forall>(k, b) \<in> set bs'. binding_ok depth b) \<and>
    (\<forall>k. k \<notin> set names \<longrightarrow> map_of bs' k = map_of bs k) \<and>
    (ready' \<longrightarrow> ready \<and> (\<forall>k \<in> set names. \<exists>b. map_of bs' k = Some b \<and> vb_buf_depth b \<le> history_len (vb_history b)))"
  using assms
proof (induction names arbitrary: bs ready)
  case (Cons name names)
  obtain b where b: "map_of bs name = Some b"
    using Cons.prems(3) by (metis image_subset_iff insert_subset list.simps(15) map_of_eq_None_iff option.exhaust set_map subsetD)
  obtain b1 full where u: "binding_update io b x = (b1, full)" by force
  let ?bs = "hm_insert name b1 bs"
  have keys: "map fst ?bs = map fst bs"
    using b by (simp add: update_keys) (metis map_of_eq_None_iff option.distinct(1))
  have bok: "binding_ok depth b1"
    using binding_update_ok(1) [OF u] Cons.prems(5) map_of_SomeD [OF b] by auto
  have "set (hm_insert k v al) \<subseteq> insert (k, v) (set al)" for k and v :: "'a var_binding" and al by (induction al) auto
  then have all: "\<forall>(k, c) \<in> set ?bs. binding_ok depth c" using bok Cons.prems(5) by fast
  have step: "update_bindings io x names ?bs (ready \<and> full) = (bs', ready')" using Cons.prems(1) b u by simp
  have "map fst bs' = map fst ?bs \<and> (\<forall>(k, b) \<in> set bs'. binding_ok depth b) \<and>
      (\<forall>k. k \<notin> set names \<longrightarrow> map_of bs' k = map_of ?bs k) \<and>
      (ready' \<longrightarrow> (ready \<and> full) \<and> (\<forall>k \<in> set names. \<exists>b. map_of bs' k = Some b \<and> vb_buf_depth b \<le> history_len (vb_history b)))"
    using Cons.IH [OF step] Cons.prems(2-4) keys all by (metis distinct.simps(2) insert_subset list.simps(15) set_map)
  then show ?case using Cons.prems(2) keys binding_update_ok(2) [OF u]
    by (auto simp: update_conv')
qed simp

section \<open>Building\<close>

lemma make_bindings_shape:
  assumes "make_bindings io ds bs = Inr bs'" and "distinct (map fst bs @ map id_var_name ds)"
    and "\<forall>(k, b) \<in> set bs. binding_ok depth b" and "\<forall>d \<in> set ds. id_buf_depth d \<le> depth"
  shows "map fst bs' = map fst bs @ map id_var_name ds \<and> (\<forall>(k, b) \<in> set bs'. binding_ok depth b)"
  using assms
proof (induction ds arbitrary: bs)
  case (Cons d ds)
  then obtain ind where ind: "make_indicator_box io d = Inr ind" by (auto split: sum.splits)
  let ?b = "var_binding_new ind (id_kind d) (id_buf_depth d)"
  have "id_var_name d \<notin> fst ` set bs" using Cons.prems(2) by auto
  then have ins: "hm_insert (id_var_name d) ?b bs = bs @ [(id_var_name d, ?b)]"
    by (induction bs) auto
  have "binding_ok depth ?b"
    using Cons.prems(4) by (simp add: binding_ok_def var_binding_new_def history_new_def split: indicator_kind.split)
  then show ?case using Cons.IH [of "bs @ [(id_var_name d, ?b)]"] Cons.prems ind by (auto simp: ins)
qed simp

lemma max_buf_bounds:
  "2 \<le> max_buf_of decls rc mc \<and> (\<forall>d \<in> set decls. id_buf_depth d \<le> max_buf_of decls rc mc)"
proof -
  let ?f = "\<lambda>m d. if m < id_buf_depth d then id_buf_depth d else m"
  have "m \<le> foldl ?f m ds \<and> (\<forall>d \<in> set ds. id_buf_depth d \<le> foldl ?f m ds)" for m ds
  proof (induction ds arbitrary: m)
    case (Cons d ds)
    show ?case using Cons.IH [of "?f m d"] by (auto split: if_splits)
  qed simp
  from this [of default_buf_depth decls] show ?thesis
    by (auto simp: max_buf_of_def Let_def default_buf_depth_def)
qed

lemma assemble_ok:
  assumes "distinct (map id_var_name decls)" and "assemble io rh cs candle (decls, rc, mc) = Some (Inr s)"
  shows "script_ok s"
proof -
  obtain bindings ct where b: "make_bindings io decls [] = Inr bindings"
      and ct: "candle_transform_new (effective_candle candle) = Some ct"
      and s: "ss_bindings s = bindings" "ss_binding_order s = map id_var_name decls" "ss_bar_buf s = []"
        "ss_bar_buf_depth s = max_buf_of decls rc mc" "ss_candle_transform s = ct"
    using assms(2) by (auto simp: assemble_def split: sum.splits option.splits)
  have "candle_ok ct" using candle_new_ok [of "effective_candle candle"] ct by auto
  then show ?thesis
    using make_bindings_shape [OF b, of "max_buf_of decls rc mc"] assms(1) max_buf_bounds [of decls rc mc] s
    by (auto simp: script_ok_def)
qed

lemma script_build_ok: "script_build io rh script cs = Some (Inr s) \<Longrightarrow> script_ok s"
  using split_script_names assemble_ok
  by (fastforce simp: script_build_def split: option.splits sum.splits prod.splits)

lemma script_build_total: "extract_candle_directives script \<noteq> None \<Longrightarrow> script_build io rh script cs \<noteq> None"
proof -
  have "candle_transform_new ty \<noteq> None" for ty using candle_new_ok [of ty] by auto
  then show "extract_candle_directives script \<noteq> None \<Longrightarrow> script_build io rh script cs \<noteq> None"
    by (auto simp: script_build_def assemble_def split: option.splits sum.splits prod.splits)
      (metis option.distinct(1))
qed

section \<open>Running\<close>

lemma fclamp_unit: "fclamp x 0 1 = NaN \<or> 0 \<le> fclamp x 0 1 \<and> fclamp x 0 1 \<le> 1"
  by (cases x) (auto simp: fclamp_def zero_f64_def one_f64_def)

lemma script_signals_bounds:
  "length (script_signals rh sc b) \<le> 1 \<and>
   (\<forall>sg \<in> set (script_signals rh sc b). sg_timestamp sg = b_timestamp b \<and> sg_symbol sg = b_symbol b \<and>
      (sg_strength sg = NaN \<or> 0 \<le> sg_strength sg \<and> sg_strength sg \<le> 1))"
  using fclamp_unit
  by (auto simp: script_signals_def Let_def signal_long_def signal_short_def signal_exit_def signal_of_def
      zero_f64_def one_f64_def)

lemma script_feed_ok:
  assumes ok: "script_ok s" and f: "script_feed io s b = (s', ready)"
  shows "script_ok s' \<and> (ready \<longrightarrow> script_warm s')"
proof -
  let ?buf = "ring_push (ss_bar_buf s) b (ss_bar_buf_depth s)"
  obtain bs r where u: "update_bindings io b (ss_binding_order s) (ss_bindings s) (ss_bar_buf_depth s \<le> length ?buf) = (bs, r)"
    by force
  have s': "ss_bindings s' = bs" "ss_bar_buf s' = ?buf" "ss_binding_order s' = ss_binding_order s"
      "ss_bar_buf_depth s' = ss_bar_buf_depth s" "ss_candle_transform s' = ss_candle_transform s" and r: "ready = r"
    using f u by (auto simp: script_feed_def Let_def)
  have pre: "distinct (ss_binding_order s)" "set (ss_binding_order s) \<subseteq> fst ` set (ss_bindings s)"
      "distinct (map fst (ss_bindings s))" "\<forall>(k, b) \<in> set (ss_bindings s). binding_ok (ss_bar_buf_depth s) b"
    using ok by (auto simp: script_ok_def) (metis set_map)
  note ub = update_bindings_ok [OF u pre]
  have warm: "vb_buf_depth c \<le> history_len (vb_history c)" if "r" "(k, c) \<in> set bs" for k c
  proof -
    have "k \<in> set (ss_binding_order s)" using that(2) ub ok unfolding script_ok_def by (metis fst_conv image_eqI set_map)
    moreover have "map_of bs k = Some c" using that(2) ub pre(3) by (metis map_of_is_SomeI)
    ultimately show ?thesis using ub that(1) by fastforce
  qed
  have "length ?buf \<le> ss_bar_buf_depth s" using ok by (intro ring_push_le) (simp add: script_ok_def)
  then have "script_ok s'" using ok ub s' by (simp add: script_ok_def)
  moreover have "script_warm s'" if r: "ready"
    using that warm ub r \<open>ready = r\<close> s' by (auto simp: script_warm_def)
  ultimately show ?thesis by blast
qed

lemma script_ok_upd [simp]:
  "script_ok (s\<lparr>ss_current_regime := x\<rparr>) = script_ok s" "script_warm (s\<lparr>ss_current_regime := x\<rparr>) = script_warm s"
  "script_ok (s\<lparr>ss_error_sink := y\<rparr>) = script_ok s" "script_warm (s\<lparr>ss_error_sink := y\<rparr>) = script_warm s"
  "script_ok (s\<lparr>ss_persistent_state := m, ss_ta_state := m'\<rparr>) = script_ok s"
  "script_warm (s\<lparr>ss_persistent_state := m, ss_ta_state := m'\<rparr>) = script_warm s"
  by (simp_all add: script_ok_def script_warm_def)

lemma sink_error_frame [simp]: "script_ok (sink_error e s) = script_ok s" "script_warm (sink_error e s) = script_warm s"
  by (simp_all add: sink_error_def split: option.split)

lemma run_regime_frame:
  "script_ok (fst (run_regime rh s sc)) = script_ok s \<and> script_warm (fst (run_regime rh s sc)) = script_warm s"
proof (cases "ss_regime_ast s")
  case (Some a)
  obtain sc' e where "rh_run rh a sc = (sc', e)" by force
  then show ?thesis using Some by (cases e) (simp_all add: run_regime_def Let_def)
qed (simp add: run_regime_def)

lemma run_main_result:
  assumes "run_main rh s sc b = (s', sgs)"
  shows "script_ok s' = script_ok s \<and> script_warm s' = script_warm s \<and> length sgs \<le> 1 \<and>
    (\<forall>sg \<in> set sgs. sg_timestamp sg = b_timestamp b \<and> sg_symbol sg = b_symbol b \<and>
      (sg_strength sg = NaN \<or> 0 \<le> sg_strength sg \<and> sg_strength sg \<le> 1))"
proof -
  obtain sc' e where "rh_run rh (ss_ast s) sc = (sc', e)" by force
  then show ?thesis using assms script_signals_bounds [of rh sc' b]
    by (cases e) (auto simp: run_main_def)
qed

lemma script_on_bar_ok:
  assumes ok: "script_ok s"
  shows "\<exists>s' sgs. script_on_bar io rh s b = Some (s', sgs) \<and> script_ok s' \<and> length sgs \<le> 1 \<and>
    (sgs \<noteq> [] \<longrightarrow> script_warm s') \<and>
    (\<forall>sg \<in> set sgs. sg_timestamp sg = b_timestamp b \<and> sg_symbol sg = b_symbol b \<and>
      (sg_strength sg = NaN \<or> 0 \<le> sg_strength sg \<and> sg_strength sg \<le> 1))"
proof -
  obtain ct r where ct: "candle_apply (ss_candle_transform s) b = Some (ct, r)" "candle_ok ct"
      "\<forall>x. r = Some x \<longrightarrow> b_timestamp x = b_timestamp b \<and> b_symbol x = b_symbol b"
    using candle_apply_ok ok by (meson script_ok_def)
  let ?s = "s\<lparr>ss_current_regime := None, ss_candle_transform := ct\<rparr>"
  have s: "script_ok ?s" using ok ct(2) by (simp add: script_ok_def)
  show ?thesis
  proof (cases r)
    case None
    then show ?thesis using ct(1) s by (simp add: script_on_bar_def)
  next
    case (Some x)
    obtain s1 ready where f: "script_feed io ?s x = (s1, ready)" by force
    have s1: "script_ok s1" "ready \<longrightarrow> script_warm s1" using script_feed_ok [OF s f] by simp_all
    obtain s2 sc where r2: "run_regime rh s1 (scope_of rh s1) = (s2, sc)" by force
    have s2: "script_ok s2 = script_ok s1" "script_warm s2 = script_warm s1"
      using run_regime_frame [of rh s1 "scope_of rh s1"] r2 by simp_all
    obtain s3 sgs where m: "run_main rh s2 sc x = (s3, sgs)" by force
    have x: "b_timestamp x = b_timestamp b" "b_symbol x = b_symbol b" using ct(3) Some by blast+
    have run: "script_on_bar io rh s b = (if ready then Some (s3, sgs) else Some (s1, []))"
      using ct(1) Some f r2 m by (simp add: script_on_bar_def)
    show ?thesis using run s1 s2 run_main_result [OF m] x by (cases ready) auto
  qed
qed

section \<open>Properties\<close>

fun script_run ::
  "'i indicator_ops \<Rightarrow> ('ast, 'sc) rhai \<Rightarrow> ('i, 'ast) script_strategy \<Rightarrow> bar list \<Rightarrow>
   (('i, 'ast) script_strategy \<times> signal list list) option" where
  "script_run io rh s [] = Some (s, [])"
| "script_run io rh s (b # bs) =
     (case script_on_bar io rh s b of
        None \<Rightarrow> None
      | Some (s1, sgs) \<Rightarrow> map_option (\<lambda>(s2, out). (s2, sgs # out)) (script_run io rh s1 bs))"

definition answers :: "bar \<Rightarrow> signal list \<Rightarrow> bool" where
  "answers b sgs \<longleftrightarrow> length sgs \<le> 1 \<and>
     (\<forall>sg \<in> set sgs. sg_timestamp sg = b_timestamp b \<and> sg_symbol sg = b_symbol b \<and>
        (sg_strength sg = NaN \<or> 0 \<le> sg_strength sg \<and> sg_strength sg \<le> 1))"

lemma script_run_ok:
  "script_ok s \<Longrightarrow> \<exists>s' out. script_run io rh s bs = Some (s', out) \<and> script_ok s' \<and> list_all2 answers bs out"
proof (induction bs arbitrary: s)
  case (Cons b bs)
  obtain s1 sgs where s1: "script_on_bar io rh s b = Some (s1, sgs)" "script_ok s1" "answers b sgs"
    using script_on_bar_ok [OF Cons.prems, of io rh b] by (auto simp: answers_def)
  then show ?case using Cons.IH [OF s1(2)] by auto
qed simp


definition example_ops :: "unit indicator_ops" where
  "example_ops = \<lparr>io_from_config = (\<lambda>_. Inr ()), io_update = (\<lambda>u b. (u, Some [(''value'', b_close b)])), io_reset = id\<rparr>"

definition example_rhai :: "(unit, string \<rightharpoonup> dyn) rhai" where
  "example_rhai = \<lparr>rh_compile = (\<lambda>_. Inr ()), rh_scope_new = Map.empty, rh_push = (\<lambda>n v sc. sc(n \<mapsto> v)),
     rh_get = (\<lambda>n sc. sc n), rh_run = (\<lambda>_ sc. (sc(''long'' \<mapsto> DBool True), None))\<rparr>"

definition script_bar :: bar where
  "script_bar = bar_new 60000 ''BTC'' (Fin 100) (Fin 110) (Fin 90) (Fin 105) (Fin 1)"


end
