(* ===== verification/Script_Const.thy ===== *)
theory Script_Const
  imports Script_Theorems
begin

text \<open>
  The constant expressions that size the bar buffer of a script, \<open>eval_const_int_expr\<close> of
  \<open>alm-strategy/src/script/engine.rs\<close>, against a grammar: sums and differences of products and quotients of
  literals. A sum is evaluated from the left, as the language does; a product is split at its first operator, so that
  it groups to the right, and a quotient inside a product differs from its value in the language.
\<close>

section \<open>Expressions and their values\<close>

datatype const_product = Literal nat | Times nat const_product | Over nat const_product

datatype const_sum = Summand const_product | Plus const_sum const_product | Minus const_sum const_product

fun show_product :: "const_product \<Rightarrow> string" where
  "show_product (Literal n) = show_nat n"
| "show_product (Times n p) = show_nat n @ '' * '' @ show_product p"
| "show_product (Over n p) = show_nat n @ '' / '' @ show_product p"

fun show_sum :: "const_sum \<Rightarrow> string" where
  "show_sum (Summand p) = show_product p"
| "show_sum (Plus s p) = show_sum s @ '' + '' @ show_product p"
| "show_sum (Minus s p) = show_sum s @ '' - '' @ show_product p"

definition literal_val :: "nat \<Rightarrow> nat option" where
  "literal_val n = (if n < 2 ^ 64 then Some n else None)"

fun product_val :: "const_product \<Rightarrow> nat option" where
  "product_val (Literal n) = literal_val n"
| "product_val (Times n p) =
     Option.bind (literal_val n) (\<lambda>l. Option.bind (product_val p) (\<lambda>r. Some (sat_usize (l * r))))"
| "product_val (Over n p) =
     Option.bind (literal_val n) (\<lambda>l. Option.bind (product_val p) (\<lambda>r. if r = 0 then None else Some (l div r)))"

fun sum_val :: "const_sum \<Rightarrow> nat option" where
  "sum_val (Summand p) = product_val p"
| "sum_val (Plus s p) =
     Option.bind (sum_val s) (\<lambda>l. Option.bind (product_val p) (\<lambda>r. Some (sat_usize (l + r))))"
| "sum_val (Minus s p) =
     Option.bind (sum_val s) (\<lambda>l. Option.bind (product_val p) (\<lambda>r. if r \<le> l then Some (l - r) else None))"

text \<open>The value of an expression in the language: integers, operators of one level grouped to the left. The pending
  operator of a product is applied to the literal that follows it.\<close>

fun product_after :: "(nat \<Rightarrow> int) \<Rightarrow> const_product \<Rightarrow> int" where
  "product_after f (Literal n) = f n"
| "product_after f (Times n p) = product_after (\<lambda>m. f n * int m) p"
| "product_after f (Over n p) = product_after (\<lambda>m. f n div int m) p"

definition product_lang :: "const_product \<Rightarrow> int" where
  "product_lang = product_after int"

fun sum_lang :: "const_sum \<Rightarrow> int" where
  "sum_lang (Summand p) = product_lang p"
| "sum_lang (Plus s p) = sum_lang s + product_lang p"
| "sum_lang (Minus s p) = sum_lang s - product_lang p"

text \<open>Expressions whose products have no quotient, or are one quotient of two literals, and whose partial values all
  fit into 64 bits.\<close>

definition fits :: "int \<Rightarrow> bool" where "fits v \<longleftrightarrow> 0 \<le> v \<and> v < 2 ^ 64"

fun only_times :: "const_product \<Rightarrow> bool" where
  "only_times (Literal n) = fits (int n)"
| "only_times (Times n p) = (fits (int n) \<and> only_times p \<and> fits (int n * product_lang p))"
| "only_times (Over n p) = False"

fun simple_product :: "const_product \<Rightarrow> bool" where
  "simple_product (Over n (Literal m)) = (fits (int n) \<and> fits (int m) \<and> m \<noteq> 0)"
| "simple_product p = only_times p"

fun simple_sum :: "const_sum \<Rightarrow> bool" where
  "simple_sum (Summand p) = simple_product p"
| "simple_sum (Plus s p) = (simple_sum s \<and> simple_product p \<and> fits (sum_lang (Plus s p)))"
| "simple_sum (Minus s p) = (simple_sum s \<and> simple_product p \<and> fits (sum_lang (Minus s p)))"

section \<open>Texts\<close>

definition bare :: "string \<Rightarrow> bool" where
  "bare s \<longleftrightarrow> s \<noteq> [] \<and> \<not> is_whitespace (hd s) \<and> \<not> is_whitespace (last s)"

lemma dropWhile_hd: "s \<noteq> [] \<Longrightarrow> \<not> P (hd s) \<Longrightarrow> dropWhile P s = s"
  by (cases s) simp_all

lemma trim_bare: "bare s \<Longrightarrow> trim s = s"
  by (simp add: bare_def trim_def trim_start_def trim_end_def dropWhile_hd hd_rev)

lemma is_whitespace_space [simp]: "is_whitespace (CHR '' '')"
  by (simp add: is_whitespace_def)

lemma trim_pad_left: "bare s \<Longrightarrow> trim (CHR '' '' # s) = s"
  using trim_bare [of s] by (simp add: trim_def trim_start_def)

lemma trim_pad_right:
  assumes "bare s" shows "trim (s @ '' '') = s"
proof -
  have "dropWhile is_whitespace (s @ '' '') = s @ '' ''" using assms by (cases s) (auto simp: bare_def)
  moreover have "trim_end (s @ '' '') = trim_end s" by (simp add: trim_end_def)
  moreover have "trim_end s = s" using trim_bare [OF assms] assms by (cases s) (auto simp: bare_def trim_def trim_start_def)
  ultimately show ?thesis by (simp add: trim_def trim_start_def)
qed

lemma eval_trim: "trim (trim s) = trim s \<Longrightarrow> eval_const_int_expr (trim s) = eval_const_int_expr s"
  by (subst (1 2) eval_const_int_expr.simps) simp

lemma eval_pad [simp]:
  assumes "bare s"
  shows "eval_const_int_expr (s @ '' '') = eval_const_int_expr s"
    and "eval_const_int_expr (CHR '' '' # s) = eval_const_int_expr s"
  using eval_trim [of "s @ '' ''"] eval_trim [of "CHR '' '' # s"] trim_bare [OF assms] trim_pad_left [OF assms]
    trim_pad_right [OF assms] by simp_all

lemma digit_chars: "is_digit c \<Longrightarrow> \<not> is_whitespace c \<and> c \<notin> set ''()+-*/''"
  by (auto simp: is_digit_def is_whitespace_def)

declare show_nat.simps [simp del]

lemma show_nat_digits [simp]: "list_all is_digit (show_nat n)"
proof (induction n rule: show_nat.induct)
  case (1 n)
  have d: "is_digit (digit k)" if "k < 10" for k using that by (simp add: is_digit_def digit_def of_char_of)
  show ?case using 1 d [of n] d [of "n mod 10"] by (subst show_nat.simps) simp
qed

lemma show_nat_ne [simp]: "show_nat n \<noteq> []"
  by (subst show_nat.simps) simp

text \<open>The characters of a product are digits, spaces and the two operators.\<close>

definition product_char :: "char \<Rightarrow> bool" where
  "product_char c \<longleftrightarrow> is_digit c \<or> c \<in> set '' */''"

lemma show_nat_chars: "c \<in> set (show_nat n) \<Longrightarrow> is_digit c"
  using show_nat_digits [of n] by (simp add: list_all_iff del: show_nat_digits)

lemma bare_nat: "bare (show_nat n)"
  using show_nat_chars [of "hd (show_nat n)" n] show_nat_chars [of "last (show_nat n)" n] digit_chars
  by (auto simp: bare_def)

lemma bare_append: "bare s \<Longrightarrow> bare t \<Longrightarrow> bare (s @ u @ t)"
  by (simp add: bare_def)

lemma product_text: "bare (show_product p)" "list_all product_char (show_product p)"
proof -
  have "list_all product_char (show_nat n)" for n
    using show_nat_chars by (auto simp: list_all_iff product_char_def)
  then show "list_all product_char (show_product p)"
    by (induction p) (auto simp: product_char_def)
  show "bare (show_product p)"
    by (induction p) (auto intro!: bare_nat bare_append [of "show_nat _" _ "'' * ''", simplified] bare_append [of "show_nat _" _ "'' / ''", simplified])
qed

lemma sum_text: "bare (show_sum s)" "list_all (\<lambda>c. product_char c \<or> c \<in> set ''+-'') (show_sum s)"
proof -
  have "list_all (\<lambda>c. product_char c \<or> c \<in> set ''+-'') (show_product p)" for p
    using product_text(2) [of p] by (auto simp: list_all_iff)
  then show "list_all (\<lambda>c. product_char c \<or> c \<in> set ''+-'') (show_sum s)"
    by (induction s) (auto simp: product_char_def)
  show "bare (show_sum s)"
    by (induction s) (auto intro!: product_text bare_append [of "show_sum _" _ "'' + ''", simplified] bare_append [of "show_sum _" _ "'' - ''", simplified])
qed

section \<open>Splitting\<close>

lemma last_sum_skip: "list_all product_char s \<Longrightarrow> last_sum 0 i s acc = acc"
proof (induction s arbitrary: i)
  case (Cons c cs)
  then have "c \<notin> set ''()+-''" using digit_chars [of c] by (auto simp: product_char_def)
  then show ?case using Cons by simp
qed simp

lemma last_sum_append:
  "list_all (\<lambda>c. product_char c \<or> c \<in> set ''+-'') s \<Longrightarrow>
   last_sum 0 i (s @ t) acc = last_sum 0 (i + length s) t (last_sum 0 i s acc)"
proof (induction s arbitrary: i acc)
  case (Cons c cs)
  then have "c \<notin> set ''()''" using digit_chars [of c] by (auto simp: product_char_def)
  then show ?case using Cons by simp
qed simp

lemma last_sum_split:
  assumes "op = CHR ''+'' \<or> op = CHR ''-''"
  shows "last_sum 0 0 (show_sum s @ [CHR '' '', op, CHR '' ''] @ show_product p) None = Some (Suc (length (show_sum s)), op)"
  using assms last_sum_append [OF sum_text(2) [of s], of 0 "[CHR '' '', op, CHR '' ''] @ show_product p" None]
    last_sum_skip [OF product_text(2) [of p]] by auto

lemma first_product_split:
  assumes "op = CHR ''*'' \<or> op = CHR ''/''"
  shows "first_product i (show_nat n @ [CHR '' '', op, CHR '' ''] @ t) = Some (i + Suc (length (show_nat n)), op)"
proof -
  have "first_product i (s @ [CHR '' '', op] @ u) = Some (i + Suc (length s), op)" if "list_all is_digit s" for s u
    using that
  proof (induction s arbitrary: i)
    case (Cons c cs)
    then show ?case using digit_chars [of c] by auto
  qed (use assms in auto)
  from this [of "show_nat n" "CHR '' '' # t"] show ?thesis by simp
qed

section \<open>The value of an expression\<close>

lemma parse_show: "parse_usize (show_nat n) = literal_val n"
proof -
  have "hd (show_nat n) \<noteq> CHR ''+''" using show_nat_chars [of "hd (show_nat n)" n] digit_chars [of "hd (show_nat n)"] by auto
  moreover obtain c cs where "show_nat n = c # cs" using show_nat_ne [of n] by (cases "show_nat n") simp_all
  moreover have "list_all is_digit (show_nat n)" "digits_val (show_nat n) = n" by simp_all
  ultimately show ?thesis by (simp add: parse_usize_def literal_val_def)
qed

lemma eval_literal: "eval_const_int_expr (show_nat n) = literal_val n"
  by (subst eval_const_int_expr.simps) (simp add: trim_bare bare_nat parse_show)

lemma eval_at_sum:
  assumes "bare e" "\<not> list_all is_digit e" "last_sum 0 0 e None = Some (pos, op)"
  shows "eval_const_int_expr e =
    Option.bind (eval_const_int_expr (take pos e)) (\<lambda>l. Option.bind (eval_const_int_expr (drop (Suc pos) e)) (\<lambda>r.
      if op = CHR ''+'' then Some (sat_usize (l + r)) else if r \<le> l then Some (l - r) else None))"
proof -
  have "e \<noteq> []" using assms(1) by (simp add: bare_def)
  then show ?thesis
    by (subst eval_const_int_expr.simps) (simp add: trim_bare assms Let_def split: option.split)
qed

lemma eval_at_product:
  assumes "bare e" "\<not> list_all is_digit e" "last_sum 0 0 e None = None" "first_product 0 e = Some (pos, op)"
  shows "eval_const_int_expr e =
    Option.bind (eval_const_int_expr (take pos e)) (\<lambda>l. Option.bind (eval_const_int_expr (drop (Suc pos) e)) (\<lambda>r.
      if op = CHR ''*'' then Some (sat_usize (l * r)) else if r = 0 then None else Some (l div r)))"
proof -
  have "e \<noteq> []" using assms(1) by (simp add: bare_def)
  then show ?thesis
    by (subst eval_const_int_expr.simps) (simp add: trim_bare assms Let_def split: option.split)
qed

lemma not_digits [simp]: "\<not> is_digit (CHR '' '')"
  by (simp add: is_digit_def)

lemma eval_product: "eval_const_int_expr (show_product p) = product_val p"
proof (induction p)
  case (Literal n)
  then show ?case by (simp add: eval_literal)
next
  case (Times n p)
  have "first_product 0 (show_product (Times n p)) = Some (Suc (length (show_nat n)), CHR ''*'')"
    using first_product_split [of "CHR ''*''" 0 n "show_product p"] by simp
  from eval_at_product [OF product_text(1) _ last_sum_skip [OF product_text(2)] this] Times show ?case
    by (simp add: bare_nat product_text eval_literal)
next
  case (Over n p)
  have "first_product 0 (show_product (Over n p)) = Some (Suc (length (show_nat n)), CHR ''/'')"
    using first_product_split [of "CHR ''/''" 0 n "show_product p"] by simp
  from eval_at_product [OF product_text(1) _ last_sum_skip [OF product_text(2)] this] Over show ?case
    by (simp add: bare_nat product_text eval_literal)
qed

lemma eval_sum: "eval_const_int_expr (show_sum s) = sum_val s"
proof (induction s)
  case (Summand p)
  then show ?case by (simp add: eval_product)
next
  case (Plus s p)
  have "last_sum 0 0 (show_sum (Plus s p)) None = Some (Suc (length (show_sum s)), CHR ''+'')"
    using last_sum_split [of "CHR ''+''" s p] by simp
  from eval_at_sum [OF sum_text(1) _ this] Plus show ?case by (simp add: sum_text product_text eval_product)
next
  case (Minus s p)
  have "last_sum 0 0 (show_sum (Minus s p)) None = Some (Suc (length (show_sum s)), CHR ''-'')"
    using last_sum_split [of "CHR ''-''" s p] by simp
  from eval_at_sum [OF sum_text(1) _ this] Minus show ?case by (simp add: sum_text product_text eval_product)
qed

section \<open>The value in the language\<close>

lemma product_after_times: "only_times p \<Longrightarrow> product_after (\<lambda>m. a * int m) p = a * product_after int p"
proof (induction p arbitrary: a)
  case (Times n p)
  have p: "only_times p" using Times.prems by simp
  have "product_after (\<lambda>m. a * int n * int m) p = a * int n * product_after int p" by (rule Times.IH [OF p])
  moreover have "product_after (\<lambda>m. int n * int m) p = int n * product_after int p" by (rule Times.IH [OF p])
  ultimately show ?case by simp
qed simp_all

lemma fits_literal: "fits (int n) \<longleftrightarrow> n < 2 ^ 64"
proof -
  have "int n < 2 ^ 64 \<longleftrightarrow> int n < int (2 ^ 64)" by simp
  then show ?thesis by (simp only: fits_def of_nat_less_iff) simp
qed

lemma sat_fits: "fits (int n) \<Longrightarrow> sat_usize n = n"
  by (simp add: fits_literal sat_usize_def)

lemma times_val: "only_times p \<Longrightarrow> \<exists>v. product_val p = Some v \<and> int v = product_lang p"
proof (induction p)
  case (Times n p)
  then obtain v where v: "product_val p = Some v" "int v = product_lang p" by auto
  have l: "product_lang (Times n p) = int n * product_lang p"
    using product_after_times [of p "int n"] Times.prems by (simp add: product_lang_def)
  have "fits (int (n * v))" using Times.prems v by simp
  moreover have "n < 2 ^ 64" using Times.prems by (simp add: fits_literal)
  ultimately show ?case using v l by (simp add: literal_val_def sat_fits)
qed (simp_all add: literal_val_def fits_literal product_lang_def)

lemma simple_product_val: "simple_product p \<Longrightarrow> \<exists>v. product_val p = Some v \<and> int v = product_lang p"
proof (cases p rule: simple_product.cases)
  case (1 n m)
  then show "simple_product p \<Longrightarrow> ?thesis" by (auto simp: literal_val_def fits_literal product_lang_def zdiv_int)
qed (use times_val [of p] in simp_all)

lemma simple_sum_val: "simple_sum s \<Longrightarrow> \<exists>v. sum_val s = Some v \<and> int v = sum_lang s"
proof (induction s)
  case (Plus s p)
  then obtain v w where v: "sum_val s = Some v" "int v = sum_lang s" "product_val p = Some w" "int w = product_lang p"
    using simple_product_val by fastforce
  have "fits (int (v + w))" using Plus.prems v by simp
  then show ?case using v by (simp add: sat_fits)
next
  case (Minus s p)
  then obtain v w where v: "sum_val s = Some v" "int v = sum_lang s" "product_val p = Some w" "int w = product_lang p"
    using simple_product_val by fastforce
  have "w \<le> v" using Minus.prems v by (simp add: fits_def)
  then show ?case using v by (simp add: of_nat_diff)
qed (simp add: simple_product_val)

text \<open>C37. The look-back analysis evaluates every printed constant expression: sums from the left, products grouped to
  the right, with no value when a literal exceeds 64 bits, a difference is negative or a divisor zero. When the
  products have no quotient or are one quotient, and nothing exceeds 64 bits, this is the value of the expression in
  the language. A quotient within a longer product differs: \<open>100 / 5 * 2\<close> is 40 bars in the language, and 10
  bars are reserved.\<close>

theorem constant_expressions_are_folded:
  "eval_const_int_expr (show_sum s) = sum_val s \<and>
   (simple_sum s \<longrightarrow> (\<exists>v. eval_const_int_expr (show_sum s) = Some v \<and> int v = sum_lang s)) \<and>
   (let q = Summand (Over 100 (Times 5 (Literal 2)))
    in show_sum q = ''100 / 5 * 2'' \<and> sum_lang q = 40 \<and> eval_const_int_expr (show_sum q) = Some 10)"
proof -
  let ?q = "Summand (Over 100 (Times 5 (Literal 2)))"
  have "show_sum ?q = ''100 / 5 * 2''" by code_simp
  moreover have "sum_lang ?q = 40" by (simp add: product_lang_def)
  moreover have "sum_val ?q = Some 10" by (simp add: literal_val_def sat_usize_def)
  ultimately show ?thesis using simple_sum_val unfolding eval_sum Let_def by blast
qed

theorem constant_expressions_are_folded_witness:
  "eval_const_int_expr (show_sum (Minus (Plus (Summand (Literal 20)) (Times 3 (Literal 5))) (Literal 4))) = Some 31"
proof -
  let ?s = "Minus (Plus (Summand (Literal 20)) (Times 3 (Literal 5))) (Literal 4)"
  have "simple_sum ?s" by (simp add: fits_def product_lang_def)
  with constant_expressions_are_folded [of ?s]
  obtain v where "eval_const_int_expr (show_sum ?s) = Some v" "int v = sum_lang ?s" by blast
  then show ?thesis by (simp add: product_lang_def)
qed

end
