(* ===== verification/Rolling.thy ===== *)
theory Rolling
  imports F64
begin

text \<open>
  \<open>alm-indicator/src/util.rs\<close>: \<open>RollingMax\<close> and \<open>RollingMin\<close>, the extremum of a sliding window in
  amortised constant time with a monotone deque. The deque lists pairs of absolute index and value.
  The reference is the extremum of the last \<open>period\<close> values; the proof is done once for any total
  preorder, in the locale \<open>monotone_deque\<close>, and the two structures are its instances.
\<close>

record rolling =
  ro_deque :: "(nat \<times> f64) list"
  ro_period :: nat
  ro_count :: nat

definition rolling_new :: "nat \<Rightarrow> rolling option" where
  "rolling_new period =
     (if 0 < period then Some \<lparr>ro_deque = [], ro_period = period, ro_count = 0\<rparr> else None)"

text \<open>\<open>while deque.back() ... pop_back()\<close> and \<open>while deque.front() ... pop_front()\<close>\<close>

definition pop_back_while :: "('a \<Rightarrow> bool) \<Rightarrow> 'a list \<Rightarrow> 'a list" where
  "pop_back_while P xs = rev (dropWhile P (rev xs))"

definition evict :: "nat \<Rightarrow> (nat \<times> f64) list \<Rightarrow> (nat \<times> f64) list" where
  "evict window_start xs = dropWhile (\<lambda>(i, _). i < window_start) xs"

definition front_value :: "rolling \<Rightarrow> f64 option" where
  "front_value r =
     (if ro_period r \<le> ro_count r
      then (case ro_deque r of [] \<Rightarrow> None | (_, v) # _ \<Rightarrow> Some v) else None)"

definition rolling_push :: "(f64 \<Rightarrow> f64 \<Rightarrow> bool) \<Rightarrow> rolling \<Rightarrow> f64 \<Rightarrow> rolling \<times> f64 option" where
  "rolling_push beaten r val =
     (let d1 = pop_back_while (\<lambda>(_, v). beaten v val) (ro_deque r) @ [(ro_count r, val)];
          count = ro_count r + 1;
          r' = r\<lparr>ro_deque := evict (count - ro_period r) d1, ro_count := count\<rparr>
      in (r', front_value r'))"

definition rolling_max_push :: "rolling \<Rightarrow> f64 \<Rightarrow> rolling \<times> f64 option" where
  "rolling_max_push = rolling_push (\<lambda>v val. v \<le> val)"

definition rolling_min_push :: "rolling \<Rightarrow> f64 \<Rightarrow> rolling \<times> f64 option" where
  "rolling_min_push = rolling_push (\<lambda>v val. val \<le> v)"

definition rolling_value :: "rolling \<Rightarrow> f64 option" where
  "rolling_value r = front_value r"

definition rolling_reset :: "rolling \<Rightarrow> rolling" where
  "rolling_reset r = r\<lparr>ro_deque := [], ro_count := 0\<rparr>"

section \<open>The loops as filters\<close>

lemma pop_back_while_filter:
  assumes "sorted_wrt Q xs" and "\<And>a b. Q a b \<Longrightarrow> P a \<Longrightarrow> P b"
  shows "pop_back_while P xs = filter (\<lambda>x. \<not> P x) xs"
  using assms(1)
proof (induction xs rule: rev_induct)
  case (snoc x xs)
  then have IH: "pop_back_while P xs = filter (\<lambda>x. \<not> P x) xs" by (simp add: sorted_wrt_append)
  show ?case
  proof (cases "P x")
    case True
    then show ?thesis using IH by (simp add: pop_back_while_def)
  next
    case False
    have "\<not> P y" if "y \<in> set xs" for y
      using that snoc.prems assms(2) [of y x] False by (auto simp: sorted_wrt_append)
    then have "filter (\<lambda>x. \<not> P x) xs = xs" by simp
    then show ?thesis using False by (simp add: pop_back_while_def)
  qed
qed (simp add: pop_back_while_def)

lemma evict_filter:
  "sorted_wrt (\<lambda>a b. fst a < fst b) xs \<Longrightarrow> evict w xs = filter (\<lambda>x. w \<le> fst x) xs"
proof (induction xs)
  case (Cons x xs)
  show ?case
  proof (cases "fst x < w")
    case True
    then show ?thesis using Cons by (simp add: evict_def split_beta)
  next
    case False
    then have "filter (\<lambda>x. w \<le> fst x) xs = xs" using Cons.prems by (auto simp: filter_id_conv)
    then show ?thesis using False by (simp add: evict_def split_beta)
  qed
qed (simp add: evict_def)

lemma set_take_last: "set (take_last p xs) = {xs ! k | k. length xs - p \<le> k \<and> k < length xs}"
proof -
  have "set (drop m xs) = {xs ! k | k. m \<le> k \<and> k < length xs}" for m
  proof (intro set_eqI iffI)
    fix y assume "y \<in> set (drop m xs)"
    then obtain j where "j < length xs - m" "y = xs ! (m + j)" by (auto simp: in_set_conv_nth)
    then show "y \<in> {xs ! k | k. m \<le> k \<and> k < length xs}" by (auto intro: exI [of _ "m + j"])
  next
    fix y assume "y \<in> {xs ! k | k. m \<le> k \<and> k < length xs}"
    then obtain k where "m \<le> k" "k < length xs" "y = xs ! k" by auto
    then show "y \<in> set (drop m xs)" by (auto simp: in_set_conv_nth intro!: exI [of _ "k - m"])
  qed
  then show ?thesis by (simp add: take_last_def)
qed

section \<open>The invariant\<close>

text \<open>
  For the values \<open>xs\<close> pushed so far: the deque lists, by increasing index, strictly falling values of the
  window, and every value of the window is beaten by a listed one that is not older.
\<close>

definition deque_inv :: "(f64 \<Rightarrow> f64 \<Rightarrow> bool) \<Rightarrow> nat \<Rightarrow> f64 list \<Rightarrow> rolling \<Rightarrow> bool" where
  "deque_inv beaten p xs r \<longleftrightarrow> ro_count r = length xs \<and> ro_period r = p \<and>
     sorted_wrt (\<lambda>a b. fst a < fst b \<and> \<not> beaten (snd a) (snd b)) (ro_deque r) \<and>
     (\<forall>(i, v) \<in> set (ro_deque r). i < length xs \<and> length xs - p \<le> i \<and> v = xs ! i) \<and>
     (\<forall>k. length xs - p \<le> k \<and> k < length xs \<longrightarrow>
        (\<exists>(i, v) \<in> set (ro_deque r). k \<le> i \<and> beaten (xs ! k) v))"

locale monotone_deque =
  fixes beaten :: "f64 \<Rightarrow> f64 \<Rightarrow> bool" and ok :: "f64 \<Rightarrow> bool"
  assumes beaten_refl: "ok x \<Longrightarrow> beaten x x"
    and beaten_trans: "beaten x y \<Longrightarrow> beaten y z \<Longrightarrow> beaten x z"
    and beaten_total: "ok x \<Longrightarrow> ok y \<Longrightarrow> \<not> beaten x y \<Longrightarrow> beaten y x"
begin

lemma push_invariant:
  assumes inv: "deque_inv beaten p xs r" and okx: "ok x" and okxs: "\<forall>y \<in> set xs. ok y" and p: "0 < p"
  shows "deque_inv beaten p (xs @ [x]) (fst (rolling_push beaten r x))"
proof -
  let ?n = "length xs"
  let ?D = "ro_deque r"
  let ?D1 = "filter (\<lambda>(_, v). \<not> beaten v x) ?D @ [(?n, x)]"
  let ?D2 = "filter (\<lambda>a. Suc ?n - p \<le> fst a) ?D1"
  have cnt: "ro_count r = ?n" "ro_period r = p" using inv by (auto simp: deque_inv_def)
  have srt: "sorted_wrt (\<lambda>a b. fst a < fst b \<and> \<not> beaten (snd a) (snd b)) ?D" using inv by (simp add: deque_inv_def)
  have mem: "\<And>i v. (i, v) \<in> set ?D \<Longrightarrow> i < ?n \<and> ?n - p \<le> i \<and> v = xs ! i" using inv by (auto simp: deque_inv_def)
  have okD: "ok v" if "(i, v) \<in> set ?D" for i v using mem [OF that] okxs by auto
  have pop: "pop_back_while (\<lambda>(_, v). beaten v x) ?D = filter (\<lambda>(_, v). \<not> beaten v x) ?D"
  proof -
    have s: "sorted_wrt (\<lambda>a b. a \<in> set ?D \<and> b \<in> set ?D \<and> \<not> beaten (snd a) (snd b)) ?D"
      using srt by (auto simp: sorted_wrt_iff_nth_less)
    have "pop_back_while (\<lambda>(_, v). beaten v x) ?D = filter (\<lambda>a. \<not> (\<lambda>(_, v). beaten v x) a) ?D"
      using s
    proof (rule pop_back_while_filter)
      fix a b
      assume q: "a \<in> set ?D \<and> b \<in> set ?D \<and> \<not> beaten (snd a) (snd b)" and a: "(\<lambda>(_, v). beaten v x) a"
      then have "ok (snd a)" "ok (snd b)" using okD by (metis prod.collapse)+
      then have "beaten (snd b) (snd a)" using q beaten_total by blast
      then show "(\<lambda>(_, v). beaten v x) b" using a beaten_trans by (auto simp: split_beta)
    qed
    also have "(\<lambda>a. \<not> (\<lambda>(_, v). beaten v x) a) = (\<lambda>(_, v). \<not> beaten v x)" by auto
    finally show ?thesis .
  qed
  have s1: "sorted_wrt (\<lambda>a b. fst a < fst b \<and> \<not> beaten (snd a) (snd b)) ?D1"
    using srt mem by (auto simp: sorted_wrt_append sorted_wrt_filter)
  then have "sorted_wrt (\<lambda>a b. fst a < fst b) ?D1" by (rule sorted_wrt_mono_rel [rotated]) auto
  then have D: "ro_deque (fst (rolling_push beaten r x)) = ?D2"
    by (simp add: rolling_push_def Let_def cnt pop evict_filter)
  have s2: "sorted_wrt (\<lambda>a b. fst a < fst b \<and> \<not> beaten (snd a) (snd b)) ?D2"
    using s1 by (rule sorted_wrt_filter)
  have m2: "i < Suc ?n \<and> Suc ?n - p \<le> i \<and> v = (xs @ [x]) ! i" if "(i, v) \<in> set ?D2" for i v
    using that mem [of i v] by (auto simp: nth_append split: if_split_asm)
  have c2: "\<exists>(i, v) \<in> set ?D2. k \<le> i \<and> beaten ((xs @ [x]) ! k) v"
    if k: "Suc ?n - p \<le> k" "k < Suc ?n" for k
  proof (cases "k = ?n")
    case True
    then show ?thesis using k okx by (intro bexI [of _ "(?n, x)"]) (auto simp: beaten_refl)
  next
    case False
    then have kn: "?n - p \<le> k" "k < ?n" using k by auto
    then obtain i v where iv: "(i, v) \<in> set ?D" "k \<le> i" "beaten (xs ! k) v" using inv by (auto simp: deque_inv_def)
    show ?thesis
    proof (cases "beaten v x")
      case True
      then show ?thesis using iv kn k p beaten_trans by (intro bexI [of _ "(?n, x)"]) (auto simp: nth_append)
    next
      case False
      then show ?thesis using iv kn k by (intro bexI [of _ "(i, v)"]) (auto simp: nth_append)
    qed
  qed
  have "ro_count (fst (rolling_push beaten r x)) = Suc ?n" "ro_period (fst (rolling_push beaten r x)) = p"
    by (simp_all add: rolling_push_def Let_def cnt)
  moreover have "\<forall>(i, v) \<in> set ?D2. i < Suc ?n \<and> Suc ?n - p \<le> i \<and> v = (xs @ [x]) ! i" using m2 by blast
  moreover have "\<forall>k. Suc ?n - p \<le> k \<and> k < Suc ?n \<longrightarrow> (\<exists>(i, v) \<in> set ?D2. k \<le> i \<and> beaten ((xs @ [x]) ! k) v)"
    using c2 by blast
  ultimately show ?thesis using s2 unfolding deque_inv_def D length_append_singleton by blast
qed


lemma front_is_extremum:
  assumes inv: "deque_inv beaten p xs r" and ok: "\<forall>y \<in> set xs. ok y" and p: "0 < p" "p \<le> length xs"
  shows "\<exists>v. front_value r = Some v \<and> v \<in> set (take_last p xs) \<and> (\<forall>w \<in> set (take_last p xs). beaten w v)"
proof -
  let ?n = "length xs"
  have win: "set (take_last p xs) = {xs ! k | k. ?n - p \<le> k \<and> k < ?n}"
    by (rule set_take_last)
  have ex: "\<exists>(i, v) \<in> set (ro_deque r). k \<le> i \<and> beaten (xs ! k) v" if "?n - p \<le> k" "k < ?n" for k
    using inv that by (simp add: deque_inv_def)
  obtain i0 v0 D where D: "ro_deque r = (i0, v0) # D"
  proof (cases "ro_deque r")
    case Nil
    have "?n - p \<le> ?n - 1" "?n - 1 < ?n" using p by auto
    then show ?thesis using ex [of "?n - 1"] Nil by auto
  next
    case (Cons a D)
    then show ?thesis using that by (cases a) simp
  qed
  have v0: "i0 < ?n" "?n - p \<le> i0" "v0 = xs ! i0" using inv by (auto simp: deque_inv_def D)
  have le: "beaten v v0" if "(i, v) \<in> set (ro_deque r)" for i v
  proof (cases "(i, v) = (i0, v0)")
    case True
    then show ?thesis using v0 ok beaten_refl by auto
  next
    case False
    then have "\<not> beaten v0 v" using that inv by (force simp: deque_inv_def D)
    moreover have "ok v" using that inv ok by (auto simp: deque_inv_def)
    ultimately show ?thesis using beaten_total v0 ok by auto
  qed
  have "beaten (xs ! k) v0" if "?n - p \<le> k" "k < ?n" for k
    using ex [OF that] le beaten_trans by blast
  moreover have "front_value r = Some v0" using inv p by (simp add: front_value_def D deque_inv_def)
  ultimately show ?thesis using v0 by (auto simp: win)
qed

lemma pushes_invariant:
  assumes "0 < p" and "\<forall>x \<in> set xs. ok x"
  shows "deque_inv beaten p xs (foldl (\<lambda>r x. fst (rolling_push beaten r x)) \<lparr>ro_deque = [], ro_period = p, ro_count = 0\<rparr> xs)"
  using assms(2)
proof (induction xs rule: rev_induct)
  case (snoc x xs)
  then show ?case using push_invariant [of p xs _ x] assms(1) by simp
qed (simp add: deque_inv_def)

lemma push_last:
  assumes "0 < p" and "\<forall>x \<in> set (xs @ [x]). ok x"
    and "r = foldl (\<lambda>r x. fst (rolling_push beaten r x)) \<lparr>ro_deque = [], ro_period = p, ro_count = 0\<rparr> xs"
  shows "(length xs + 1 < p \<longrightarrow> snd (rolling_push beaten r x) = None) \<and>
    (p \<le> length xs + 1 \<longrightarrow> (\<exists>v. snd (rolling_push beaten r x) = Some v \<and>
       v \<in> set (take_last p (xs @ [x])) \<and> (\<forall>w \<in> set (take_last p (xs @ [x])). beaten w v)))"
proof -
  let ?r = "fst (rolling_push beaten r x)"
  have inv: "deque_inv beaten p (xs @ [x]) ?r"
    using push_invariant [OF pushes_invariant, of p xs x] assms by auto
  have "snd (rolling_push beaten r x) = front_value ?r" by (simp add: rolling_push_def Let_def)
  moreover have "front_value ?r = None" if "length xs + 1 < p"
    using inv that by (simp add: front_value_def deque_inv_def)
  ultimately show ?thesis using front_is_extremum [OF inv assms(2,1)] by auto
qed

end

interpretation rmax: monotone_deque "\<lambda>v val. v \<le> val" "\<lambda>x. x \<noteq> NaN"
  by unfold_locales (auto intro: fle_trans simp: fnot_le fless_imp_le)

interpretation rmin: monotone_deque "\<lambda>v val. val \<le> v" "\<lambda>x. x \<noteq> NaN"
  by unfold_locales (auto intro: fle_trans simp: fnot_le fless_imp_le)

definition rolling_start :: "nat \<Rightarrow> rolling" where
  "rolling_start p = \<lparr>ro_deque = [], ro_period = p, ro_count = 0\<rparr>"

definition rolling_max_all :: "nat \<Rightarrow> f64 list \<Rightarrow> rolling" where
  "rolling_max_all p xs = foldl (\<lambda>r x. fst (rolling_max_push r x)) (rolling_start p) xs"

definition rolling_min_all :: "nat \<Rightarrow> f64 list \<Rightarrow> rolling" where
  "rolling_min_all p xs = foldl (\<lambda>r x. fst (rolling_min_push r x)) (rolling_start p) xs"

lemmas rolling_max_last = rmax.push_last [folded rolling_max_push_def rolling_start_def]
lemmas rolling_min_last = rmin.push_last [folded rolling_min_push_def rolling_start_def]

section \<open>Properties\<close>

text \<open>C19. The monotone deques compute the extrema of the sliding window: after any values that are numbers,
  pushing one more returns nothing while fewer than \<open>period\<close> values have been seen, and from then on
  the greatest (for \<open>RollingMax\<close>) and the least (for \<open>RollingMin\<close>) of the last \<open>period\<close> values.\<close>

theorem rolling_extrema_correct:
  assumes "0 < p" and "\<forall>v \<in> set (xs @ [x]). v \<noteq> NaN"
  shows "(length xs + 1 < p \<longrightarrow>
       snd (rolling_max_push (rolling_max_all p xs) x) = None \<and>
       snd (rolling_min_push (rolling_min_all p xs) x) = None) \<and>
    (p \<le> length xs + 1 \<longrightarrow>
      (\<exists>v. snd (rolling_max_push (rolling_max_all p xs) x) = Some v \<and> v \<in> set (take_last p (xs @ [x])) \<and>
           (\<forall>w \<in> set (take_last p (xs @ [x])). w \<le> v)) \<and>
      (\<exists>v. snd (rolling_min_push (rolling_min_all p xs) x) = Some v \<and> v \<in> set (take_last p (xs @ [x])) \<and>
           (\<forall>w \<in> set (take_last p (xs @ [x])). v \<le> w)))"
  using rolling_max_last [OF assms(1,2) refl] rolling_min_last [OF assms(1,2) refl]
  unfolding rolling_max_all_def rolling_min_all_def by blast

theorem rolling_extrema_correct_witness:
  "\<exists>v. snd (rolling_max_push (rolling_max_all 2 [Fin 3, Fin 1]) (Fin 2)) = Some v \<and>
     v \<in> {Fin 1, Fin 2} \<and> Fin 1 \<le> v \<and> Fin 2 \<le> v"
  using rolling_extrema_correct [of 2 "[Fin 3, Fin 1]" "Fin 2"] by (auto simp: take_last_def)

end
