(* ===== verification/Oscillators.thy ===== *)
theory Oscillators
  imports Moving_Averages Rolling
begin

text \<open>
  \<open>alm-indicator/src/signal\<close> and \<open>alm-indicator/src/risk\<close>: the relative strength index \<open>Rsi\<close>, Williams
  %R \<open>WilliamsR\<close>, the Donchian channel \<open>Donchian\<close>, on-balance volume \<open>Obv\<close> and the average true range
  \<open>Atr\<close>. They keep the contract \<open>warm_up\<close>; \<open>WilliamsR\<close> and \<open>Donchian\<close> rest on the sliding extrema of
  \<open>Rolling\<close>, \<open>Atr\<close> on the \<open>Smma\<close> of \<open>Moving_Averages\<close>.
\<close>

section \<open>\<open>Rsi\<close>\<close>

record rsi =
  rsi_period :: nat
  rsi_avg_gain :: "f64 option"
  rsi_avg_loss :: "f64 option"
  rsi_prev_close :: "f64 option"
  rsi_count :: nat
  rsi_seed_gains :: "f64 list"
  rsi_seed_losses :: "f64 list"

definition rsi_start :: "nat \<Rightarrow> rsi" where
  "rsi_start period =
     \<lparr>rsi_period = period, rsi_avg_gain = None, rsi_avg_loss = None, rsi_prev_close = None, rsi_count = 0,
      rsi_seed_gains = [], rsi_seed_losses = []\<rparr>"

definition rsi_new :: "nat \<Rightarrow> rsi option" where
  "rsi_new period = (if 0 < period then Some (rsi_start period) else None)"

definition rsi_from :: "f64 \<Rightarrow> f64 \<Rightarrow> f64" where
  "rsi_from avg_gain avg_loss =
     (if avg_loss < f64_epsilon then lit 100
      else (let rs = avg_gain / avg_loss in lit 100 - (lit 100 / (1 + rs))))"

definition rsi_update :: "rsi \<Rightarrow> f64 \<Rightarrow> (rsi \<times> f64 option) option" where
  "rsi_update r0 close =
     (case rsi_prev_close r0 of
        None \<Rightarrow> Some (r0\<lparr>rsi_prev_close := Some close\<rparr>, None)
      | Some prev \<Rightarrow>
          (let change = close - prev;
               gain = fmax change 0;
               loss = fmax (- change) 0;
               r = r0\<lparr>rsi_prev_close := Some close, rsi_count := rsi_count r0 + 1\<rparr>;
               seeded = r\<lparr>rsi_seed_gains := rsi_seed_gains r @ [gain], rsi_seed_losses := rsi_seed_losses r @ [loss]\<rparr>
           in
           if rsi_count r < rsi_period r then Some (seeded, None)
           else if rsi_count r = rsi_period r then
             (let avg_g = fsum (rsi_seed_gains seeded) / f64_of_nat (rsi_period r);
                  avg_l = fsum (rsi_seed_losses seeded) / f64_of_nat (rsi_period r)
              in Some (seeded\<lparr>rsi_avg_gain := Some avg_g, rsi_avg_loss := Some avg_l\<rparr>, Some (rsi_from avg_g avg_l)))
           else
             (let alpha = 1 / f64_of_nat (rsi_period r) in
              case (rsi_avg_gain r, rsi_avg_loss r) of
                (Some pg, Some pl) \<Rightarrow>
                  (let ag = gain * alpha + pg * (1 - alpha);
                       al = loss * alpha + pl * (1 - alpha)
                   in Some (r\<lparr>rsi_avg_gain := Some ag, rsi_avg_loss := Some al\<rparr>, Some (rsi_from ag al)))
              | _ \<Rightarrow> None)))"

definition rsi_value :: "rsi \<Rightarrow> f64 option" where
  "rsi_value r = (case (rsi_avg_gain r, rsi_avg_loss r) of (Some g, Some l) \<Rightarrow> Some (rsi_from g l) | _ \<Rightarrow> None)"

definition rsi_is_ready :: "rsi \<Rightarrow> bool" where
  "rsi_is_ready r \<longleftrightarrow> rsi_avg_gain r \<noteq> None"

definition rsi_reset :: "rsi \<Rightarrow> rsi" where
  "rsi_reset r =
     r\<lparr>rsi_avg_gain := None, rsi_avg_loss := None, rsi_prev_close := None, rsi_count := 0,
       rsi_seed_gains := [], rsi_seed_losses := []\<rparr>"

section \<open>\<open>WilliamsR\<close> and \<open>Donchian\<close>\<close>

record hl_window =
  hw_max_high :: rolling
  hw_min_low :: rolling

type_synonym williams_r = hl_window
type_synonym donchian = hl_window

definition hl_window_start :: "nat \<Rightarrow> hl_window" where
  "hl_window_start period = \<lparr>hw_max_high = rolling_start period, hw_min_low = rolling_start period\<rparr>"

definition williams_new :: "nat \<Rightarrow> williams_r option" where
  "williams_new period = (if 0 < period then Some (hl_window_start period) else None)"

definition williams_standard :: "williams_r option" where
  "williams_standard = williams_new 14"

definition williams_update :: "williams_r \<Rightarrow> f64 \<times> f64 \<times> f64 \<Rightarrow> williams_r \<times> f64 option" where
  "williams_update w = (\<lambda>(high, low, close).
     (let (mx, highest) = rolling_max_push (hw_max_high w) high;
          (mn, lowest) = rolling_min_push (hw_min_low w) low;
          w' = w\<lparr>hw_max_high := mx, hw_min_low := mn\<rparr>
      in case (highest, lowest) of
           (Some h, Some l) \<Rightarrow>
             (let range = h - l
              in (w', Some (if range < f64_epsilon then lit (- 50) else (h - close) / range * lit (- 100))))
         | _ \<Rightarrow> (w', None)))"

definition williams_is_ready :: "williams_r \<Rightarrow> bool" where
  "williams_is_ready w \<longleftrightarrow> rolling_value (hw_max_high w) \<noteq> None"

definition williams_reset :: "williams_r \<Rightarrow> williams_r" where
  "williams_reset w = w\<lparr>hw_max_high := rolling_reset (hw_max_high w), hw_min_low := rolling_reset (hw_min_low w)\<rparr>"

record donchian_value =
  dv_upper :: f64
  dv_lower :: f64
  dv_middle :: f64

definition donchian_new :: "nat \<Rightarrow> donchian option" where
  "donchian_new period = (if 0 < period then Some (hl_window_start period) else None)"

definition donchian_update :: "donchian \<Rightarrow> f64 \<times> f64 \<Rightarrow> donchian \<times> donchian_value option" where
  "donchian_update d = (\<lambda>(high, low).
     (let (mx, upper) = rolling_max_push (hw_max_high d) high;
          (mn, lower) = rolling_min_push (hw_min_low d) low;
          d' = d\<lparr>hw_max_high := mx, hw_min_low := mn\<rparr>
      in case (upper, lower) of
           (Some u, Some l) \<Rightarrow> (d', Some \<lparr>dv_upper = u, dv_lower = l, dv_middle = (u + l) / lit 2\<rparr>)
         | _ \<Rightarrow> (d', None)))"

definition donchian_reset :: "donchian \<Rightarrow> donchian" where
  "donchian_reset d = d\<lparr>hw_max_high := rolling_reset (hw_max_high d), hw_min_low := rolling_reset (hw_min_low d)\<rparr>"

section \<open>\<open>Obv\<close>\<close>

record obv =
  obv_val :: f64
  obv_prev_close :: "f64 option"
  obv_count :: nat

definition obv_new :: obv where
  "obv_new = \<lparr>obv_val = 0, obv_prev_close = None, obv_count = 0\<rparr>"

definition obv_update :: "obv \<Rightarrow> f64 \<times> f64 \<Rightarrow> obv \<times> f64" where
  "obv_update s = (\<lambda>(close, volume).
     (let v = (case obv_prev_close s of
                 None \<Rightarrow> obv_val s
               | Some pc \<Rightarrow>
                   if pc < close then obv_val s + volume
                   else if close < pc then obv_val s - volume else obv_val s)
      in (s\<lparr>obv_val := v, obv_prev_close := Some close, obv_count := obv_count s + 1\<rparr>, v)))"

definition obv_value :: "obv \<Rightarrow> f64" where
  "obv_value s = obv_val s"

definition obv_is_ready :: "obv \<Rightarrow> bool" where
  "obv_is_ready s \<longleftrightarrow> 2 \<le> obv_count s"

definition obv_reset :: "obv \<Rightarrow> obv" where
  "obv_reset s = s\<lparr>obv_val := 0, obv_prev_close := None, obv_count := 0\<rparr>"

section \<open>\<open>Atr\<close>\<close>

record atr =
  atr_period' :: nat
  atr_smma :: smma
  atr_prev_close :: "f64 option"

record atr_value_rec =
  av_tr :: f64
  av_atr :: f64

definition atr_start :: "nat \<Rightarrow> atr" where
  "atr_start period = \<lparr>atr_period' = period, atr_smma = smma_start period, atr_prev_close = None\<rparr>"

definition atr_ind_new :: "nat \<Rightarrow> atr option" where
  "atr_ind_new period =
     map_option (\<lambda>s. \<lparr>atr_period' = period, atr_smma = s, atr_prev_close = None\<rparr>) (smma_new period)"

definition atr_standard :: "atr option" where
  "atr_standard = atr_ind_new 14"

definition true_range :: "f64 option \<Rightarrow> f64 \<Rightarrow> f64 \<Rightarrow> f64" where
  "true_range prev_close high low =
     (case prev_close of
        Some pc \<Rightarrow> fmax (fmax (high - low) \<bar>high - pc\<bar>) \<bar>low - pc\<bar>
      | None \<Rightarrow> high - low)"

definition atr_update :: "atr \<Rightarrow> f64 \<times> f64 \<times> f64 \<Rightarrow> (atr \<times> atr_value_rec option) option" where
  "atr_update a = (\<lambda>(high, low, close).
     (let tr = true_range (atr_prev_close a) high low;
          a1 = a\<lparr>atr_prev_close := Some close\<rparr>
      in map_option (\<lambda>(s, v). (a1\<lparr>atr_smma := s\<rparr>, map_option (\<lambda>x. \<lparr>av_tr = tr, av_atr = x\<rparr>) v))
           (smma_update (atr_smma a1) tr)))"

definition atr_value :: "atr \<Rightarrow> f64 option" where
  "atr_value a = smma_value (atr_smma a)"

definition atr_is_ready :: "atr \<Rightarrow> bool" where
  "atr_is_ready a \<longleftrightarrow> smma_is_ready (atr_smma a)"

definition atr_reset :: "atr \<Rightarrow> atr" where
  "atr_reset a = a\<lparr>atr_smma := smma_reset (atr_smma a), atr_prev_close := None\<rparr>"

section \<open>The warm-up contract\<close>

definition rsi_fed :: "nat \<Rightarrow> nat \<Rightarrow> rsi \<Rightarrow> bool" where
  "rsi_fed p k r \<longleftrightarrow> rsi_period r = p \<and> (rsi_prev_close r = None \<longleftrightarrow> k = 0) \<and> rsi_count r = k - 1 \<and>
     (rsi_avg_gain r = None \<longleftrightarrow> k < p + 1) \<and> (rsi_avg_loss r = None \<longleftrightarrow> k < p + 1)"

definition rolling_fed :: "nat \<Rightarrow> nat \<Rightarrow> rolling \<Rightarrow> bool" where
  "rolling_fed p k r \<longleftrightarrow> ro_period r = p \<and> ro_count r = k \<and>
     (k = 0 \<longrightarrow> ro_deque r = [])"

definition hl_fed :: "nat \<Rightarrow> nat \<Rightarrow> hl_window \<Rightarrow> bool" where
  "hl_fed p k w \<longleftrightarrow> rolling_fed p k (hw_max_high w) \<and> rolling_fed p k (hw_min_low w)"

definition atr_fed :: "nat \<Rightarrow> nat \<Rightarrow> atr \<Rightarrow> bool" where
  "atr_fed p k a \<longleftrightarrow> atr_period' a = p \<and> smma_fed p k (atr_smma a)"

interpretation rsi: warm_up rsi_update "\<lambda>r. Some (rsi_reset r)" rsi_start "\<lambda>p. p + 1" rsi_fed
proof unfold_locales
  fix p k and r :: rsi and x :: f64
  assume "0 < p" and "rsi_fed p k r"
  then show "\<exists>r' v. rsi_update r x = Some (r', v) \<and> rsi_fed p (Suc k) r' \<and> (v = None \<longleftrightarrow> Suc k < p + 1)"
    by (cases "rsi_prev_close r"; cases "rsi_avg_gain r"; cases "rsi_avg_loss r")
      (auto simp: rsi_update_def rsi_fed_def Let_def)
qed (simp_all add: rsi_fed_def rsi_start_def rsi_reset_def)

lemma evict_last: "w \<le> i \<Longrightarrow> evict w (xs @ [(i, v)]) \<noteq> []"
  by (induction xs) (auto simp: evict_def)

lemma rolling_fed_push:
  assumes "0 < p" and "rolling_fed p k r"
  shows "\<exists>r' v. rolling_push b r x = (r', v) \<and> rolling_fed p (Suc k) r' \<and> (v = None \<longleftrightarrow> Suc k < p)"
  using assms evict_last [of "Suc k - p" k "pop_back_while (\<lambda>(_, v). b v x) (ro_deque r)" x]
  by (auto simp: rolling_push_def rolling_fed_def Let_def front_value_def split: list.splits)

lemma rolling_fed_start: "rolling_fed p 0 (rolling_start p)"
  by (simp add: rolling_fed_def rolling_start_def)

lemma rolling_fed_reset: "rolling_fed p k r \<Longrightarrow> rolling_reset r = rolling_start p"
  by (simp add: rolling_fed_def rolling_start_def rolling_reset_def)

interpretation williams: warm_up "\<lambda>w x. Some (williams_update w x)" "\<lambda>w. Some (williams_reset w)" hl_window_start "\<lambda>p. p" hl_fed
proof unfold_locales
  fix p k and w :: hl_window and x :: "f64 \<times> f64 \<times> f64"
  assume p: "0 < p" and w: "hl_fed p k w"
  obtain high low close where x: "x = (high, low, close)" by (cases x)
  obtain mx h where "rolling_max_push (hw_max_high w) high = (mx, h)" "rolling_fed p (Suc k) mx" "h = None \<longleftrightarrow> Suc k < p"
    using rolling_fed_push [OF p] w unfolding rolling_max_push_def hl_fed_def by blast
  moreover obtain mn l where "rolling_min_push (hw_min_low w) low = (mn, l)" "rolling_fed p (Suc k) mn" "l = None \<longleftrightarrow> Suc k < p"
    using rolling_fed_push [OF p] w unfolding rolling_min_push_def hl_fed_def by blast
  ultimately show "\<exists>w' v. Some (williams_update w x) = Some (w', v) \<and> hl_fed p (Suc k) w' \<and> (v = None \<longleftrightarrow> Suc k < p)"
    by (cases h; cases l) (auto simp: williams_update_def hl_fed_def Let_def x)
qed (auto simp: hl_fed_def hl_window_start_def williams_reset_def rolling_fed_start rolling_fed_reset)

interpretation donchian: warm_up "\<lambda>d x. Some (donchian_update d x)" "\<lambda>d. Some (donchian_reset d)" hl_window_start "\<lambda>p. p" hl_fed
proof unfold_locales
  fix p k and d :: hl_window and x :: "f64 \<times> f64"
  assume p: "0 < p" and d: "hl_fed p k d"
  obtain high low where x: "x = (high, low)" by (cases x)
  obtain mx h where "rolling_max_push (hw_max_high d) high = (mx, h)" "rolling_fed p (Suc k) mx" "h = None \<longleftrightarrow> Suc k < p"
    using rolling_fed_push [OF p] d unfolding rolling_max_push_def hl_fed_def by blast
  moreover obtain mn l where "rolling_min_push (hw_min_low d) low = (mn, l)" "rolling_fed p (Suc k) mn" "l = None \<longleftrightarrow> Suc k < p"
    using rolling_fed_push [OF p] d unfolding rolling_min_push_def hl_fed_def by blast
  ultimately show "\<exists>d' v. Some (donchian_update d x) = Some (d', v) \<and> hl_fed p (Suc k) d' \<and> (v = None \<longleftrightarrow> Suc k < p)"
    by (cases h; cases l) (auto simp: donchian_update_def hl_fed_def Let_def x)
qed (auto simp: hl_fed_def hl_window_start_def donchian_reset_def rolling_fed_start rolling_fed_reset)

interpretation atr: warm_up atr_update "\<lambda>a. Some (atr_reset a)" atr_start "\<lambda>p. p" atr_fed
proof unfold_locales
  fix p k and a :: atr and x :: "f64 \<times> f64 \<times> f64"
  assume p: "0 < p" and a: "atr_fed p k a"
  obtain high low close where x: "x = (high, low, close)" by (cases x)
  obtain s v where "smma_update (atr_smma a) (true_range (atr_prev_close a) high low) = Some (s, v)"
      "smma_fed p (Suc k) s" "v = None \<longleftrightarrow> Suc k < p"
    using smma.fed_update [OF p] a unfolding atr_fed_def by blast
  then show "\<exists>a' v. atr_update a x = Some (a', v) \<and> atr_fed p (Suc k) a' \<and> (v = None \<longleftrightarrow> Suc k < p)"
    using a by (auto simp: atr_update_def atr_fed_def Let_def x)
next
  fix p k and a :: atr
  assume "0 < p" and "atr_fed p k a"
  then show "Some (atr_reset a) = Some (atr_start p)"
    using smma.fed_reset [of p k "atr_smma a"] by (simp add: atr_fed_def atr_reset_def atr_start_def)
qed (simp add: atr_fed_def atr_start_def smma.fed_start)

section \<open>\<open>Rsi\<close> stays between 0 and 100\<close>

text \<open>A number that is not negative, or not a number at all (the only trace an overflow can leave).\<close>

definition nan_or_nonneg :: "f64 \<Rightarrow> bool" where
  "nan_or_nonneg x \<longleftrightarrow> x = NaN \<or> 0 \<le> x"

lemma nan_or_nonneg_arith:
  "nan_or_nonneg x \<Longrightarrow> nan_or_nonneg y \<Longrightarrow> nan_or_nonneg (x + y)"
  "nan_or_nonneg x \<Longrightarrow> nan_or_nonneg y \<Longrightarrow> nan_or_nonneg (x * y)"
  "nan_or_nonneg x \<Longrightarrow> 0 < y \<Longrightarrow> nan_or_nonneg (x / y)"
  using fadd_nonneg [of x y] fmul_nonneg [of x y] fdiv_nonneg [of x y]
  by (auto simp: nan_or_nonneg_def plus_f64_def times_f64_def divide_f64_def)

lemma nan_or_nonneg_fmax [simp]: "nan_or_nonneg (fmax x 0)"
  by (auto simp: nan_or_nonneg_def fmax_def zero_f64_def fnot_less intro: fless_imp_le)

lemma nan_or_nonneg_fsum: "\<forall>x \<in> set xs. nan_or_nonneg x \<Longrightarrow> nan_or_nonneg (fsum xs)"
proof -
  have "nan_or_nonneg a \<Longrightarrow> \<forall>x \<in> set xs. nan_or_nonneg x \<Longrightarrow> nan_or_nonneg (foldl (+) a xs)" for a
    by (induction xs arbitrary: a) (simp_all add: nan_or_nonneg_arith(1))
  moreover have "nan_or_nonneg NZero" by (simp add: nan_or_nonneg_def zero_f64_def less_eq_f64_def)
  ultimately show "\<forall>x \<in> set xs. nan_or_nonneg x \<Longrightarrow> nan_or_nonneg (fsum xs)" by (simp add: fsum_def)
qed

lemma f64_of_nat_ge_1: "0 < p \<Longrightarrow> 1 \<le> f64_of_nat p" "0 < p \<Longrightarrow> 0 < f64_of_nat p"
proof -
  assume "0 < p"
  then show "1 \<le> f64_of_nat p" using fl_mono [of 1 "of_nat p"] by (simp add: f64_of_nat_def one_f64_def)
  then show "0 < f64_of_nat p" by (rule fless_le_trans [rotated]) (simp add: zero_f64_def one_f64_def)
qed

lemma wilder_alpha:
  assumes "0 < p"
  shows "0 \<le> 1 / f64_of_nat p" and "1 / f64_of_nat p \<le> 1" and "0 \<le> 1 - 1 / f64_of_nat p"
proof -
  let ?p = "f64_of_nat p"
  show a: "1 / ?p \<le> 1" using fdiv_left_antimono [of 1 ?p 1] f64_of_nat_ge_1 [OF assms]
    by (simp add: one_f64_def zero_f64_def f64_simps)
  then show "0 \<le> 1 / ?p" using fdiv_nonneg [of 1 ?p] f64_of_nat_ge_1 [OF assms] by (auto simp: one_f64_def zero_f64_def)
  then show "0 \<le> 1 - 1 / ?p" using a
    by (intro fsub_nonneg) (cases "1 / ?p", auto simp: minus_f64_def plus_f64_def one_f64_def zero_f64_def)
qed

lemma hundred_minus:
  assumes "0 \<le> rs"
  shows "0 \<le> lit 100 - lit 100 / (1 + rs)" and "lit 100 - lit 100 / (1 + rs) \<le> lit 100"
proof -
  have one: "(0 :: f64) < 1" "(1 :: f64) + 0 = 1" "lit 100 / 1 = lit 100" "lit 100 - 0 = lit 100"
    by (simp_all add: one_f64_def zero_f64_def f64_simps)
  have h: "lit 100 = Fin 100" by (simp add: f64_simps)
  have "1 + rs \<noteq> NaN" using assms by (cases rs) (auto simp: plus_f64_def one_f64_def zero_f64_def)
  then have ge: "1 \<le> 1 + rs" using fadd_mono [of 1 1 0 rs] assms one by (simp add: one_f64_def)
  then have gt: "0 < 1 + rs" using one fless_le_trans [of 0 1 "1 + rs"] by simp
  have h0: "0 \<le> lit 100" by (simp add: fl_nonneg)
  have q: "lit 100 / (1 + rs) \<le> lit 100"
    using fdiv_left_antimono [OF ge one(1) h0] one by (simp add: h)
  then have "lit 100 / (1 + rs) \<noteq> NaN" by auto
  then have q0: "0 \<le> lit 100 / (1 + rs)" by (rule fdiv_nonneg [OF h0 gt])
  have nn: "lit 100 - x \<noteq> NaN" if "x \<le> lit 100" "0 \<le> x" for x
    using that by (cases x) (auto simp: minus_f64_def plus_f64_def zero_f64_def h)
  show "0 \<le> lit 100 - lit 100 / (1 + rs)" using q nn [OF q q0] by (rule fsub_nonneg)
  have "lit 100 \<noteq> NaN" by simp
  then show "lit 100 - lit 100 / (1 + rs) \<le> lit 100"
    using fsub_mono [OF _ q0 nn [OF q q0]] one(4) by (metis fle_refl)
qed

lemma rsi_from_bounds:
  assumes "nan_or_nonneg g" and "nan_or_nonneg l"
  shows "rsi_from g l = NaN \<or> 0 \<le> rsi_from g l \<and> rsi_from g l \<le> lit 100" (is ?bounds)
    and "is_finite g \<Longrightarrow> is_finite l \<Longrightarrow> rsi_from g l \<noteq> NaN"
proof -
  have nan: "lit 100 - lit 100 / (1 + NaN) = NaN" by (simp add: minus_f64_def plus_f64_def divide_f64_def)
  have pos: "0 < l" if "\<not> l < f64_epsilon" "l \<noteq> NaN"
    using that fless_le_trans [of 0 f64_epsilon l] by (simp add: fnot_less)
  have rs: "nan_or_nonneg (g / l)" if "\<not> l < f64_epsilon"
    using nan_or_nonneg_arith(3) [OF assms(1), of l] pos [OF that]
    by (cases "l = NaN") (auto simp: nan_or_nonneg_def divide_f64_def)
  show ?bounds
    using rs hundred_minus [of "g / l"] nan
    by (cases "g / l = NaN") (auto simp: rsi_from_def Let_def nan_or_nonneg_def fl_nonneg)
  show "rsi_from g l \<noteq> NaN" if "is_finite g" "is_finite l"
  proof (cases "l < f64_epsilon")
    case False
    then have "0 < l" using pos that by (cases l) auto
    then have "g / l \<noteq> NaN" using that by (cases g; cases l) (auto simp: divide_f64_def zero_f64_def)
    then show ?thesis using rs [OF False] hundred_minus [of "g / l"] False
      by (auto simp: rsi_from_def Let_def nan_or_nonneg_def)
  qed (simp add: rsi_from_def)
qed

definition rsi_ok :: "rsi \<Rightarrow> bool" where
  "rsi_ok r \<longleftrightarrow> 0 < rsi_period r \<and> (\<forall>x \<in> set (rsi_seed_gains r @ rsi_seed_losses r). nan_or_nonneg x) \<and>
     pred_option nan_or_nonneg (rsi_avg_gain r) \<and> pred_option nan_or_nonneg (rsi_avg_loss r)"

lemma rsi_update_ok:
  assumes "rsi_ok r" and "rsi_update r x = Some (r', v)"
  shows "rsi_ok r' \<and> (v = None \<or> (\<exists>g l. rsi_avg_gain r' = Some g \<and> rsi_avg_loss r' = Some l \<and> v = Some (rsi_from g l)))"
proof -
  note [simp] = nan_or_nonneg_arith nan_or_nonneg_fsum f64_of_nat_ge_1
  have "nan_or_nonneg (1 / f64_of_nat (rsi_period r))" "nan_or_nonneg (1 - 1 / f64_of_nat (rsi_period r))"
    using wilder_alpha [of "rsi_period r"] assms by (simp_all add: rsi_ok_def nan_or_nonneg_def)
  then show ?thesis using assms
    by (auto simp: rsi_update_def rsi_ok_def Let_def split: option.splits if_splits)
qed

lemma run_updates_invariant:
  assumes "I s" and step: "\<And>s x s' v. I s \<Longrightarrow> upd s x = Some (s', v) \<Longrightarrow> I s' \<and> Q s' v"
    and run: "run_updates upd s (xs @ [x]) = Some (s', vs)"
  shows "I s' \<and> Q s' (last vs)"
proof -
  have inv: "I s \<Longrightarrow> run_updates upd s xs = Some (s1, vs1) \<Longrightarrow> I s1" for s1 vs1
  proof (induction xs arbitrary: s vs1)
    case (Cons y ys)
    then obtain s2 v vs2 where "upd s y = Some (s2, v)" "run_updates upd s2 ys = Some (s1, vs2)"
      by (auto split: option.splits)
    then show ?case using Cons.IH Cons.prems(1) step by blast
  qed simp
  obtain s1 vs1 v where "run_updates upd s xs = Some (s1, vs1)" "upd s1 x = Some (s', v)" "vs = vs1 @ [v]"
    using run by (auto simp: run_updates_snoc split: option.splits)
  then show ?thesis using inv assms(1) step by simp
qed

section \<open>The oscillators over the sliding extrema\<close>

text \<open>Prices whose differences and sums cannot overflow.\<close>

definition price_cap :: rat where "price_cap = 2 ^ 1022"

definition in_cap :: "f64 \<Rightarrow> bool" where
  "in_cap x \<longleftrightarrow> wf64 x \<and> Fin (- price_cap) \<le> x \<and> x \<le> Fin price_cap"

lemma in_capD: "in_cap x \<Longrightarrow> is_finite x \<and> x \<noteq> NaN \<and> \<bar>fval x\<bar> \<le> price_cap"
  by (cases x) (auto simp: in_cap_def price_cap_def less_eq_f64_def)

lemma representable_double_cap: "representable (2 * price_cap)"
  unfolding representable_def by (intro exI [of _ 1] exI [of _ "1023 :: int"]) (simp add: price_cap_def power_int_numeral)

lemma williams_states:
  "run_updates (\<lambda>w x. Some (williams_update w x)) (hl_window_start p) ws = Some (w, vs) \<Longrightarrow>
     w = \<lparr>hw_max_high = rolling_max_all p (map fst ws), hw_min_low = rolling_min_all p (map (fst \<circ> snd) ws)\<rparr>"
proof (induction ws arbitrary: w vs rule: rev_induct)
  case (snoc x ws)
  then show ?case
    by (cases x) (auto simp: run_updates_snoc williams_update_def Let_def rolling_max_all_def rolling_min_all_def
      split: option.splits prod.splits)
qed (simp add: hl_window_start_def rolling_max_all_def rolling_min_all_def)

lemma donchian_states:
  "run_updates (\<lambda>d x. Some (donchian_update d x)) (hl_window_start p) ds = Some (d, us) \<Longrightarrow>
     d = \<lparr>hw_max_high = rolling_max_all p (map fst ds), hw_min_low = rolling_min_all p (map snd ds)\<rparr>"
proof (induction ds arbitrary: d us rule: rev_induct)
  case (snoc x ds)
  then show ?case
    by (cases x) (auto simp: run_updates_snoc donchian_update_def Let_def rolling_max_all_def rolling_min_all_def
      split: option.splits prod.splits)
qed (simp add: hl_window_start_def rolling_max_all_def rolling_min_all_def)

lemma cap_sub:
  assumes "in_cap x" and "in_cap y"
  shows "x - y \<noteq> NaN" and "is_finite (x - y)"
proof -
  have le: "fval x - fval y \<le> 2 * price_cap" "- (2 * price_cap) \<le> fval x - fval y"
    using in_capD [OF assms(1)] in_capD [OF assms(2)] by auto
  have "fl (2 * price_cap) = Fin (2 * price_cap)" "fl (- (2 * price_cap)) = Fin (- (2 * price_cap))"
    using fl_representable [OF representable_double_cap] fl_val_representable [OF representable_double_cap]
      fl_val_minus [of "2 * price_cap"] by (auto simp: fl_def Let_def split: if_splits)
  then have "Fin (- (2 * price_cap)) \<le> fl (fval x - fval y)" "fl (fval x - fval y) \<le> Fin (2 * price_cap)"
    using fl_mono [OF le(1)] fl_mono [OF le(2)] by simp_all
  then have "is_finite (fl (fval x - fval y))" by (cases "fl (fval x - fval y)") auto
  then show "x - y \<noteq> NaN" "is_finite (x - y)" using in_capD [OF assms(1)] in_capD [OF assms(2)]
    by (cases x; cases y; auto simp: minus_f64_def plus_f64_def fl_signed_def signed_zero_def)+
qed

lemma percent_of_range:
  assumes "0 \<le> x" and "x \<le> r" and "is_finite r" and "0 < r"
  shows "lit (- 100) \<le> x / r * lit (- 100)" and "x / r * lit (- 100) \<le> 0"
proof -
  have one: "r / r = Fin 1" using assms by (cases r) (auto simp: zero_f64_def f64_simps)
  have "x / r \<le> Fin 1" using fdiv_right_mono [OF assms(2,4,3)] one by simp
  moreover from this have "0 \<le> x / r" using fdiv_nonneg [of x r] assms by auto
  ultimately obtain q where q: "x / r = NZero \<and> q = 0 \<or> x / r = Fin q" "0 \<le> q" "q \<le> 1"
    by (cases "x / r") (auto simp: zero_f64_def)
  have "fl (- 100) \<le> fl (q * (- 100))" "fl (q * (- 100)) \<le> 0" using q by (auto intro: fl_mono fl_nonpos)
  moreover have "fl (- 100) = Fin (- 100)" by (simp add: f64_simps)
  ultimately show "lit (- 100) \<le> x / r * lit (- 100)" "x / r * lit (- 100) \<le> 0"
    using q(1) by (auto simp: times_f64_def arith_Fin)
qed

lemma half_double:
  assumes "in_cap u"
  shows "(u + u) / lit 2 \<le> u" and "u \<le> (u + u) / lit 2" and "u + u \<noteq> NaN"
proof -
  have two: "lit 2 = Fin 2" by (simp add: f64_simps)
  have "representable (2 * q)" if "u = Fin q" for q
  proof -
    from that assms obtain m e where q: "q = of_int m * 2 powi e" "\<bar>m\<bar> \<le> 2 ^ 53" "- 1074 \<le> e" "\<bar>q\<bar> \<le> price_cap"
      using in_capD [OF assms] by (auto simp: in_cap_def representable_def)
    then show ?thesis unfolding representable_def
      by (intro exI [of _ m] exI [of _ "e + 1"]) (auto simp: power_int_add price_cap_def abs_mult)
  qed
  then have "u = Fin q \<Longrightarrow> q \<noteq> 0 \<Longrightarrow> (u + u) / Fin 2 = u \<and> u + u \<noteq> NaN" for q
    using assms fl_signed_representable [of "2 * q" False] fl_signed_representable [of q]
    by (simp add: arith_Fin in_cap_def flip: mult_2)
  moreover have "u = Fin 0 \<Longrightarrow> (u + u) / Fin 2 = u \<and> u + u \<noteq> NaN" by (simp add: f64_simps)
  moreover have "u = NZero \<Longrightarrow> (u + u) / Fin 2 = u \<and> u + u \<noteq> NaN"
    by (simp add: plus_f64_def divide_f64_def f64_simps)
  ultimately have "(u + u) / Fin 2 = u \<and> u + u \<noteq> NaN" using in_capD [OF assms] by (cases u) auto
  then show "(u + u) / lit 2 \<le> u" "u \<le> (u + u) / lit 2" "u + u \<noteq> NaN"
    using in_capD [OF assms] by (auto simp: two)
qed

lemma cap_middle:
  assumes "in_cap u" and "in_cap l" and "l \<le> u"
  shows "l \<le> (u + l) / lit 2" and "(u + l) / lit 2 \<le> u"
proof -
  have two: "lit 2 = Fin 2" by (simp add: f64_simps)
  have u: "u \<le> u" "l \<le> l" and n: "u + l \<noteq> NaN"
    using in_capD [OF assms(1)] in_capD [OF assms(2)] by (cases u; cases l; auto simp: plus_f64_def)+
  note h = half_double [OF assms(1)] half_double [OF assms(2)]
  have "(l + l) / lit 2 \<le> (u + l) / lit 2" "(u + l) / lit 2 \<le> (u + u) / lit 2"
    using fdiv_right_mono [OF fadd_mono [OF assms(3) u(2) h(6) n], of "Fin 2"]
      fdiv_right_mono [OF fadd_mono [OF u(1) assms(3) n h(3)], of "Fin 2"]
    by (simp_all add: two zero_f64_def)
  then show "l \<le> (u + l) / lit 2" "(u + l) / lit 2 \<le> u" using h fle_trans by blast+
qed

lemma williams_value_bounds:
  assumes "in_cap h" and "in_cap l" and "in_cap c" and "l \<le> c" and "c \<le> h"
  shows "lit (- 100) \<le> (if h - l < f64_epsilon then lit (- 50) else (h - c) / (h - l) * lit (- 100)) \<and>
    (if h - l < f64_epsilon then lit (- 50) else (h - c) / (h - l) * lit (- 100)) \<le> 0"
proof (cases "h - l < f64_epsilon")
  case True
  then show ?thesis by (simp add: f64_simps)
next
  case False
  have fin: "h - l \<noteq> NaN" "is_finite (h - l)" "h - c \<noteq> NaN" using cap_sub assms by blast+
  have "f64_epsilon \<le> h - l" using False fin by (simp add: fnot_less)
  then have "0 < h - l" using fless_le_trans [of 0 f64_epsilon "h - l"] by simp
  moreover have "0 \<le> h - c" using assms fin by (intro fsub_nonneg) auto
  moreover have "h - c \<le> h - l" using assms fin in_capD [OF assms(1)] by (intro fsub_mono) auto
  ultimately show ?thesis using percent_of_range [of "h - c" "h - l"] False fin by simp
qed

text \<open>The extrema of the window, from the theorems of \<open>Rolling\<close>.\<close>

definition window_top :: "nat \<Rightarrow> f64 list \<Rightarrow> f64 \<Rightarrow> bool" where
  "window_top p xs v \<longleftrightarrow> v \<in> set (take_last p xs) \<and> (\<forall>w \<in> set (take_last p xs). w \<le> v)"

definition window_bottom :: "nat \<Rightarrow> f64 list \<Rightarrow> f64 \<Rightarrow> bool" where
  "window_bottom p xs v \<longleftrightarrow> v \<in> set (take_last p xs) \<and> (\<forall>w \<in> set (take_last p xs). v \<le> w)"

lemma window_last: "0 < p \<Longrightarrow> x \<in> set (take_last p (xs @ [x]))"
  by (simp add: take_last_def Suc_diff_le)

lemma push_window:
  assumes "0 < p" and "\<forall>y \<in> set (xs @ [x]). y \<noteq> NaN"
  shows "rolling_max_push (rolling_max_all p xs) x = (r, Some v) \<Longrightarrow> window_top p (xs @ [x]) v"
    and "rolling_min_push (rolling_min_all p xs) x = (r, Some v) \<Longrightarrow> window_bottom p (xs @ [x]) v"
  using rolling_max_last [OF assms refl] rolling_min_last [OF assms refl]
  unfolding rolling_max_all_def rolling_min_all_def window_top_def window_bottom_def
  by (cases "length xs + 1 < p"; force)+

lemma williams_last:
  assumes "run_updates (\<lambda>w x. Some (williams_update w x)) (hl_window_start p) (bars @ [(high, low, close)]) = Some (w, vs)"
    and "last vs = Some v" and p: "0 < p"
    and nn: "\<forall>y \<in> set (map fst (bars @ [(high, low, close)])). y \<noteq> NaN"
      "\<forall>y \<in> set (map (fst \<circ> snd) (bars @ [(high, low, close)])). y \<noteq> NaN"
  shows "\<exists>h l. window_top p (map fst (bars @ [(high, low, close)])) h \<and>
    window_bottom p (map (fst \<circ> snd) (bars @ [(high, low, close)])) l \<and>
    v = (if h - l < f64_epsilon then lit (- 50) else (h - close) / (h - l) * lit (- 100))"
proof -
  obtain w0 vs0 where run: "run_updates (\<lambda>w x. Some (williams_update w x)) (hl_window_start p) bars = Some (w0, vs0)"
    using assms(1) by (auto simp: run_updates_snoc split: option.splits)
  obtain w1 where "williams_update w0 (high, low, close) = (w1, Some v)"
    using assms(1,2) run by (auto simp: run_updates_snoc split: option.splits prod.splits)
  then obtain mx h mn l where "rolling_max_push (rolling_max_all p (map fst bars)) high = (mx, Some h)"
      "rolling_min_push (rolling_min_all p (map (fst \<circ> snd) bars)) low = (mn, Some l)"
      "v = (if h - l < f64_epsilon then lit (- 50) else (h - close) / (h - l) * lit (- 100))"
    unfolding williams_states [OF run] williams_update_def Let_def
    by (auto split: prod.splits option.splits)
  then show ?thesis using push_window [OF p, of "map fst bars" high] push_window [OF p, of "map (fst \<circ> snd) bars" low] nn
    by auto
qed

lemma donchian_last:
  assumes "run_updates (\<lambda>d x. Some (donchian_update d x)) (hl_window_start p) (bars @ [(high, low)]) = Some (d, vs)"
    and "last vs = Some v" and p: "0 < p"
    and nn: "\<forall>y \<in> set (map fst (bars @ [(high, low)])). y \<noteq> NaN" "\<forall>y \<in> set (map snd (bars @ [(high, low)])). y \<noteq> NaN"
  shows "window_top p (map fst (bars @ [(high, low)])) (dv_upper v) \<and>
    window_bottom p (map snd (bars @ [(high, low)])) (dv_lower v) \<and> dv_middle v = (dv_upper v + dv_lower v) / lit 2"
proof -
  obtain d0 vs0 where run: "run_updates (\<lambda>d x. Some (donchian_update d x)) (hl_window_start p) bars = Some (d0, vs0)"
    using assms(1) by (auto simp: run_updates_snoc split: option.splits)
  obtain d1 where "donchian_update d0 (high, low) = (d1, Some v)"
    using assms(1,2) run by (auto simp: run_updates_snoc split: option.splits prod.splits)
  then obtain mx h mn l where "rolling_max_push (rolling_max_all p (map fst bars)) high = (mx, Some h)"
      "rolling_min_push (rolling_min_all p (map snd bars)) low = (mn, Some l)"
      "v = \<lparr>dv_upper = h, dv_lower = l, dv_middle = (h + l) / lit 2\<rparr>"
    unfolding donchian_states [OF run] donchian_update_def Let_def
    by (auto split: prod.splits option.splits)
  then show ?thesis using push_window [OF p, of "map fst bars" high] push_window [OF p, of "map snd bars" low] nn
    by auto
qed

section \<open>On-balance volume of whole volumes\<close>

fun signed_volume :: "f64 option \<Rightarrow> (f64 \<times> int) list \<Rightarrow> int" where
  "signed_volume prev [] = 0"
| "signed_volume None ((c, v) # xs) = signed_volume (Some c) xs"
| "signed_volume (Some pc) ((c, v) # xs) =
     (if pc < c then v else if c < pc then - v else 0) + signed_volume (Some c) xs"

lemma obv_run:
  assumes "obv_val s = int_f64 a" and "\<bar>a\<bar> + (\<Sum>(c, v) \<leftarrow> xs. \<bar>v\<bar>) \<le> 2 ^ 53"
  shows "obv_val (foldl (\<lambda>s (c, v). fst (obv_update s (c, int_f64 v))) s xs) =
    int_f64 (a + signed_volume (obv_prev_close s) xs)"
  using assms
proof (induction xs arbitrary: s a)
  case (Cons cv xs)
  obtain c v where cv: "cv = (c, v)" by (cases cv)
  let ?d = "case obv_prev_close s of None \<Rightarrow> 0 | Some pc \<Rightarrow> if pc < c then v else if c < pc then - v else 0"
  let ?s = "fst (obv_update s (c, int_f64 v))"
  have nn: "0 \<le> (\<Sum>(c, v) \<leftarrow> xs. \<bar>v\<bar>)" by (rule sum_list_nonneg) auto
  have b: "\<bar>a\<bar> + \<bar>v\<bar> + (\<Sum>(c, v) \<leftarrow> xs. \<bar>v\<bar>) \<le> 2 ^ 53" using Cons.prems(2) cv by simp
  have d: "\<bar>?d\<bar> \<le> \<bar>v\<bar>" by (auto split: option.splits)
  have "obv_val ?s = int_f64 (a + ?d)"
    using b nn Cons.prems(1) int_f64_arith(1) [of a v] int_f64_arith(2) [of a v]
    by (auto simp: obv_update_def Let_def split: option.splits)
  moreover have "\<bar>a + ?d\<bar> + (\<Sum>(c, v) \<leftarrow> xs. \<bar>v\<bar>) \<le> 2 ^ 53" using b d by linarith
  moreover have "obv_prev_close ?s = Some c" by (simp add: obv_update_def Let_def)
  ultimately show ?case using Cons.IH [of ?s "a + ?d"] cv by (auto simp: algebra_simps split: option.splits)
qed simp

section \<open>The average true range is not negative\<close>

lemma fval_wf_minus: "wf64 x \<Longrightarrow> is_finite x \<Longrightarrow> fl (- fval x) = Fin (- fval x)"
  using wf64_uminus [of x] fl_representable [of "- fval x"] by (cases x) (auto split: if_splits)

lemma wilder_step_nonneg:
  assumes prev: "nan_or_nonneg prev" "wf64 prev" and price: "nan_or_nonneg price" and a: "0 \<le> a" "a \<le> 1"
  shows "nan_or_nonneg (prev + a * (price - prev))"
proof -
  consider "prev = NaN \<or> price = NaN" | "prev = PInf" | "price = PInf" "is_finite prev"
    | "is_finite prev" "is_finite price" "0 \<le> fval prev" "0 \<le> fval price"
    using prev(1) price by (auto simp: nan_or_nonneg_def f_ge_0)
  then show ?thesis
  proof cases
    case 1
    then show ?thesis by (auto simp: nan_or_nonneg_def plus_f64_def times_f64_def minus_f64_def)
  next
    case 2
    then show ?thesis using a price by (cases price; cases a)
      (auto simp: nan_or_nonneg_def plus_f64_def times_f64_def minus_f64_def signed_inf_def zero_f64_def one_f64_def)
  next
    case 3
    then show ?thesis using a by (cases prev; cases a)
      (auto simp: nan_or_nonneg_def plus_f64_def times_f64_def minus_f64_def signed_inf_def zero_f64_def one_f64_def)
  next
    case 4
    let ?d = "price - prev"
    have low: "Fin (- fval prev) \<le> ?d"
      using 4 fl_mono [of "- fval prev" "fval price - fval prev"] fval_wf_minus [OF prev(2)]
      by (cases price; cases prev) (auto simp: minus_f64_def plus_f64_def)
    have "a * ?d = NaN \<or> Fin (- fval prev) \<le> a * ?d"
    proof (cases "is_finite ?d")
      case True
      then have D: "- fval prev \<le> fval ?d" using low by (cases ?d) (auto simp: less_eq_f64_def)
      have A: "is_finite a" "0 \<le> fval a" "fval a \<le> 1" using a by (cases a; auto simp: zero_f64_def one_f64_def less_eq_f64_def)+
      have "- fval prev \<le> fval a * fval ?d"
      proof (cases "0 \<le> fval ?d")
        case True
        then have "0 \<le> fval a * fval ?d" using A(2) by simp
        then show ?thesis using 4 by linarith
      qed (use D A mult_left_le_one_le [of "- fval ?d" "fval a"] in \<open>auto intro: order_trans\<close>)
      then have "Fin (- fval prev) \<le> fl (fval a * fval ?d)" using fl_mono fval_wf_minus [OF prev(2)] 4 by metis
      then show ?thesis using A True by (auto simp: times_f64_def Let_def)
    next
      case False
      then have "?d = PInf" using low by (cases ?d) auto
      then show ?thesis using a by (cases a) (auto simp: times_f64_def signed_inf_def zero_f64_def one_f64_def)
    qed
    moreover have "0 \<le> prev + x" if x: "Fin (- fval prev) \<le> x" for x
    proof (cases "is_finite x")
      case True
      then have "- fval prev \<le> fval x" using x by (cases x) (auto simp: less_eq_f64_def)
      then show ?thesis using 4(1) True fl_nonneg [of "fval prev + fval x"]
        by (cases prev; cases x) (simp_all add: plus_f64_def)
    next
      case False
      then show ?thesis using x 4(1) by (cases x; cases prev) (simp_all add: plus_f64_def zero_f64_def)
    qed
    moreover have "prev + NaN = NaN" by (simp add: plus_f64_def)
    ultimately show ?thesis unfolding nan_or_nonneg_def by metis
  qed
qed

definition atr_ok :: "atr \<Rightarrow> bool" where
  "atr_ok a \<longleftrightarrow> 0 < smma_period (atr_smma a) \<and> smma_alpha (atr_smma a) = 1 / f64_of_nat (smma_period (atr_smma a)) \<and>
     nan_or_nonneg (smma_seed_sum (atr_smma a)) \<and>
     pred_option (\<lambda>v. nan_or_nonneg v \<and> wf64 v) (smma_val (atr_smma a))"

lemma true_range_nonneg:
  assumes "low \<le> high"
  shows "nan_or_nonneg (true_range prev high low)"
    and "high - low \<noteq> NaN \<Longrightarrow> high - low \<le> true_range prev high low"
proof -
  have hl: "nan_or_nonneg (high - low)" using fsub_nonneg [OF assms] by (auto simp: nan_or_nonneg_def)
  have ab: "nan_or_nonneg \<bar>x\<bar>" for x :: f64 using fabs_nonneg [of x] by (cases "x = NaN") (auto simp: nan_or_nonneg_def abs_f64_def)
  have mx: "nan_or_nonneg x \<Longrightarrow> nan_or_nonneg y \<Longrightarrow> nan_or_nonneg (fmax x y)" for x y
    by (auto simp: fmax_def nan_or_nonneg_def)
  show "nan_or_nonneg (true_range prev high low)" by (auto simp: true_range_def hl ab mx split: option.splits)
  show "high - low \<le> true_range prev high low" if n: "high - low \<noteq> NaN"
  proof (cases prev)
    case (Some pc)
    have 1: "high - low \<le> fmax (high - low) \<bar>high - pc\<bar>" by (rule fmax_ge(1) [OF n])
    moreover from this have "fmax (high - low) \<bar>high - pc\<bar> \<le> true_range prev high low"
      using Some by (auto simp: true_range_def intro!: fmax_ge(1))
    ultimately show ?thesis by (rule fle_trans)
  qed (use n in \<open>simp add: true_range_def\<close>)
qed

lemma atr_update_ok:
  assumes ok: "atr_ok a" and bar: "low \<le> high" and upd: "atr_update a (high, low, close) = Some (a', v)"
  shows "atr_ok a' \<and> (\<forall>x. v = Some x \<longrightarrow> av_tr x = true_range (atr_prev_close a) high low \<and> nan_or_nonneg (av_atr x))"
proof -
  let ?s = "atr_smma a"
  have tr: "nan_or_nonneg (true_range (atr_prev_close a) high low)" by (rule true_range_nonneg(1) [OF bar])
  have alpha: "0 \<le> smma_alpha ?s" "smma_alpha ?s \<le> 1" using ok wilder_alpha [of "smma_period ?s"] by (auto simp: atr_ok_def)
  show ?thesis
    using ok upd tr wilder_step_nonneg [OF _ _ tr alpha]
    by (auto simp: atr_update_def atr_ok_def smma_update_def Let_def nan_or_nonneg_arith f64_of_nat_ge_1 wf64_arith
      split: if_splits option.splits)
qed

section \<open>Properties\<close>

text \<open>The oscillators keep their warm-up contract on every stream of inputs and for every period: no update
  panics; the first value comes with input number \<open>period + 1\<close> for \<open>Rsi\<close> and number \<open>period\<close> for \<open>WilliamsR\<close>,
  \<open>Donchian\<close> and \<open>Atr\<close>, and every later input has one; and \<open>reset\<close> gives back a new indicator.\<close>

theorem oscillators_warm_up:
  assumes "0 < p"
  shows "warms_up rsi_update (\<lambda>r. Some (rsi_reset r)) (rsi_start p) (p + 1) closes \<and>
    warms_up (\<lambda>w x. Some (williams_update w x)) (\<lambda>w. Some (williams_reset w)) (hl_window_start p) p bars \<and>
    warms_up (\<lambda>d x. Some (donchian_update d x)) (\<lambda>d. Some (donchian_reset d)) (hl_window_start p) p ranges \<and>
    warms_up atr_update (\<lambda>a. Some (atr_reset a)) (atr_start p) p bars"
  by (intro conjI rsi.warms_up_run williams.warms_up_run donchian.warms_up_run atr.warms_up_run assms)

theorem oscillators_warm_up_witness:
  "warms_up rsi_update (\<lambda>r. Some (rsi_reset r)) (rsi_start 2) 3 [Fin 1, Fin 2, Fin 3]"
  using oscillators_warm_up [of 2 "[Fin 1, Fin 2, Fin 3]" "[]" "[]"] by simp

text \<open>C21. The relative strength index is a number between 0 and 100 whenever it is a number, whatever closes
  it is fed (infinities and NaN included), and it is a number whenever both of its averages are finite.\<close>

theorem rsi_between_0_and_100:
  assumes "0 < p" and "run_updates rsi_update (rsi_start p) (closes @ [close]) = Some (r, vs)" and "last vs = Some v"
  shows "(v = NaN \<or> 0 \<le> v \<and> v \<le> lit 100) \<and>
    (\<exists>g l. rsi_avg_gain r = Some g \<and> rsi_avg_loss r = Some l \<and> rsi_value r = Some v \<and>
       (is_finite g \<and> is_finite l \<longrightarrow> v \<noteq> NaN))"
proof -
  let ?Q = "\<lambda>r v. v = None \<or> (\<exists>g l. rsi_avg_gain r = Some g \<and> rsi_avg_loss r = Some l \<and> v = Some (rsi_from g l))"
  have "rsi_ok (rsi_start p)" using assms(1) by (simp add: rsi_ok_def rsi_start_def)
  then have "rsi_ok r \<and> ?Q r (last vs)"
    by (rule run_updates_invariant [where I = rsi_ok and Q = ?Q, OF _ _ assms(2)]) (rule rsi_update_ok)
  then obtain g l where "rsi_avg_gain r = Some g" "rsi_avg_loss r = Some l" "v = rsi_from g l"
      "nan_or_nonneg g" "nan_or_nonneg l" using assms(3) by (auto simp: rsi_ok_def)
  then show ?thesis using rsi_from_bounds [of g l] by (simp add: rsi_value_def)
qed

theorem rsi_between_0_and_100_witness:
  "\<exists>r v. run_updates rsi_update (rsi_start 1) [Fin 1, Fin 2] = Some (r, [None, Some v]) \<and> 0 \<le> v \<and> v \<le> lit 100"
proof -
  obtain r v where r: "run_updates rsi_update (rsi_start 1) [Fin 1, Fin 2] = Some (r, [None, Some v])"
      "is_finite v" by (simp add: rsi_update_def rsi_start_def f64_simps fmax_def Let_def f64_of_nat_def fsum_def plus_f64_def rsi_from_def zero_f64_def divide_f64_def)
  then show ?thesis using rsi_between_0_and_100 [of 1 "[Fin 1]" "Fin 2" r "[None, Some v]" v] by auto
qed

text \<open>Williams %R reads the position of the close in the window: for bars whose low, close and high are in
  order, with prices that cannot overflow, each value it returns is computed from the highest high and the
  lowest low of the last \<open>period\<close> bars and lies between -100 and 0. The Donchian channel of the same
  bars has the highest high as its upper band, the lowest low as its lower band, and its middle between them.\<close>

theorem window_oscillators_bounded:
  assumes "0 < p" and "\<forall>(h, l, c) \<in> set (bars @ [b]). in_cap h \<and> in_cap l \<and> in_cap c \<and> l \<le> c \<and> c \<le> h"
    and "run_updates (\<lambda>w x. Some (williams_update w x)) (hl_window_start p) (bars @ [b]) = Some (w, vs)"
    and "last vs = Some v"
    and "run_updates (\<lambda>d x. Some (donchian_update d x)) (hl_window_start p) (map (\<lambda>(h, l, _). (h, l)) (bars @ [b])) = Some (d, us)"
    and "last us = Some u"
  shows "lit (- 100) \<le> v \<and> v \<le> 0 \<and>
    window_top p (map fst (bars @ [b])) (dv_upper u) \<and> window_bottom p (map (fst \<circ> snd) (bars @ [b])) (dv_lower u) \<and>
    dv_lower u \<le> dv_middle u \<and> dv_middle u \<le> dv_upper u"
proof -
  obtain high low close where b: "b = (high, low, close)" by (cases b)
  let ?H = "map fst (bars @ [b])" and ?L = "map (fst \<circ> snd) (bars @ [b])"
  have capH: "in_cap y" if "y \<in> set ?H" for y using that assms(2) by auto
  have capL: "in_cap y" if "y \<in> set ?L" for y using that assms(2) by auto
  have nn: "\<forall>y \<in> set ?H. y \<noteq> NaN" "\<forall>y \<in> set ?L. y \<noteq> NaN" using capH capL in_capD by blast+
  have "window_top p ?H h \<Longrightarrow> h \<in> set ?H" "window_bottom p ?L l \<Longrightarrow> l \<in> set ?L" for h l
    unfolding window_top_def window_bottom_def by (blast intro: subsetD [OF set_take_last_subset])+
  then have cap: "window_top p ?H h \<Longrightarrow> in_cap h" "window_bottom p ?L l \<Longrightarrow> in_cap l" for h l
    using capH capL by blast+
  have high: "high \<le> h" if "window_top p ?H h" for h
    using that window_last [OF assms(1), of high "map fst bars"] b by (simp add: window_top_def)
  have low: "l \<le> low" if "window_bottom p ?L l" for l
    using that window_last [OF assms(1), of low "map (fst \<circ> snd) bars"] b by (simp add: window_bottom_def)
  have bar: "in_cap close" "low \<le> close" "close \<le> high" using assms(2) b by auto
  obtain h l where hl: "window_top p ?H h" "window_bottom p ?L l"
      "v = (if h - l < f64_epsilon then lit (- 50) else (h - close) / (h - l) * lit (- 100))"
    using williams_last [OF assms(3) [unfolded b] assms(4,1)] nn b by auto
  have "lit (- 100) \<le> v \<and> v \<le> 0" unfolding hl(3)
    by (rule williams_value_bounds) (use cap(1) [of h] cap(2) [of l] hl bar high [OF hl(1)] low [OF hl(2)] in \<open>auto intro: fle_trans\<close>)
  moreover have d: "window_top p ?H (dv_upper u) \<and> window_bottom p ?L (dv_lower u) \<and> dv_middle u = (dv_upper u + dv_lower u) / lit 2"
    using donchian_last [of p "map (\<lambda>(h, l, _). (h, l)) bars" high low d us u] assms(1,5,6) nn b
    by (auto simp: comp_def split_beta)
  moreover have "dv_lower u \<le> dv_upper u"
    using high low bar d by (blast intro: fle_trans)
  ultimately show ?thesis using cap_middle [of "dv_upper u" "dv_lower u"] cap by auto
qed

lemma small_in_cap: "\<bar>n\<bar> \<le> 2 ^ 53 \<Longrightarrow> in_cap (Fin (of_int n))"
proof -
  assume n: "\<bar>n\<bar> \<le> 2 ^ 53"
  have c: "(2 :: int) ^ 53 \<le> 2 ^ 1022" by (rule power_increasing) simp_all
  have "n \<le> 2 ^ 1022" "- (2 ^ 1022) \<le> n" using n c by linarith+
  then have "of_int n \<le> (of_int (2 ^ 1022) :: rat)" "of_int (- (2 ^ 1022)) \<le> (of_int n :: rat)"
    by (simp_all only: of_int_le_iff)
  then show ?thesis using representable_of_int [OF n] by (simp add: in_cap_def price_cap_def)
qed

theorem window_oscillators_bounded_witness:
  "\<exists>w d v u. run_updates (\<lambda>w x. Some (williams_update w x)) (hl_window_start 1) [(Fin 3, Fin 1, Fin 2)] = Some (w, [Some v]) \<and>
     run_updates (\<lambda>d x. Some (donchian_update d x)) (hl_window_start 1) [(Fin 3, Fin 1)] = Some (d, [Some u]) \<and>
     lit (- 100) \<le> v \<and> v \<le> 0 \<and> dv_lower u \<le> dv_middle u"
proof -
  note defs = williams_update_def donchian_update_def hl_window_start_def rolling_start_def rolling_max_push_def
    rolling_min_push_def rolling_push_def pop_back_while_def evict_def front_value_def
  obtain w v where w: "run_updates (\<lambda>w x. Some (williams_update w x)) (hl_window_start 1) [(Fin 3, Fin 1, Fin 2)] = Some (w, [Some v])"
    by (simp add: defs Let_def)
  obtain d u where d: "run_updates (\<lambda>d x. Some (donchian_update d x)) (hl_window_start 1) [(Fin 3, Fin 1)] = Some (d, [Some u])"
    by (simp add: defs Let_def)
  have "in_cap (Fin 1)" "in_cap (Fin 2)" "in_cap (Fin 3)"
    using small_in_cap [of 1] small_in_cap [of 2] small_in_cap [of 3] by simp_all
  then show ?thesis using w d window_oscillators_bounded [of 1 "[]" "(Fin 3, Fin 1, Fin 2)" w "[Some v]" v d "[Some u]" u] by auto
qed

text \<open>On-balance volume adds up: on any closes with whole volumes whose sizes sum to at most \<open>2 ^ 53\<close>, the
  value after the last bar is exactly the volume of the rising bars minus the volume of the falling ones.\<close>

theorem obv_is_signed_volume:
  assumes "(\<Sum>(c, v) \<leftarrow> xs. \<bar>v\<bar>) \<le> 2 ^ 53"
  shows "obv_value (foldl (\<lambda>s (c, v). fst (obv_update s (c, int_f64 v))) obv_new xs) = int_f64 (signed_volume None xs)"
  using obv_run [of obv_new 0 xs] assms by (simp add: obv_new_def obv_value_def int_f64_0)

theorem obv_is_signed_volume_witness:
  "obv_value (foldl (\<lambda>s (c, v). fst (obv_update s (c, int_f64 v))) obv_new
     [(Fin 10, 100), (Fin 11, 200), (Fin 10, 150), (Fin 10, 300)]) = int_f64 50"
  using obv_is_signed_volume [of "[(Fin 10, 100), (Fin 11, 200), (Fin 10, 150), (Fin 10, 300)]"] by simp

text \<open>The average true range measures size: on bars whose low does not exceed their high, each value is not
  negative unless an overflow made it NaN, and the true range it reports is at least the range of the bar.\<close>

theorem atr_not_negative:
  assumes "0 < p" and "\<forall>(h, l, c) \<in> set (bars @ [(high, low, close)]). l \<le> h"
    and "run_updates atr_update (atr_start p) (bars @ [(high, low, close)]) = Some (a, vs)" and "last vs = Some v"
  shows "(av_atr v = NaN \<or> 0 \<le> av_atr v) \<and> (high - low \<noteq> NaN \<longrightarrow> high - low \<le> av_tr v \<and> 0 \<le> av_tr v)"
proof -
  let ?s = "atr_start p"
  have ok: "atr_ok ?s" using assms(1) by (simp add: atr_ok_def atr_start_def smma_start_def nan_or_nonneg_def zero_f64_def)
  obtain a0 vs0 where run: "run_updates atr_update ?s bars = Some (a0, vs0)"
    and last: "atr_update a0 (high, low, close) = Some (a, Some v)"
    using assms(3,4) by (auto simp: run_updates_snoc split: option.splits)
  have "atr_ok a0" using ok run assms(2)
  proof (induction bars arbitrary: a0 vs0 rule: rev_induct)
    case (snoc b bars)
    then show ?case using atr_update_ok
      by (cases b) (fastforce simp: run_updates_snoc split: option.splits)
  qed simp
  then show ?thesis using atr_update_ok [OF _ _ last] true_range_nonneg [of low high "atr_prev_close a0"] assms(2)
    by (auto simp: nan_or_nonneg_def)
qed

theorem atr_not_negative_witness:
  "\<exists>a v. run_updates atr_update (atr_start 1) [(Fin 3, Fin 1, Fin 2)] = Some (a, [Some v]) \<and>
     (av_atr v = NaN \<or> 0 \<le> av_atr v) \<and> 0 \<le> av_tr v"
proof -
  obtain a v where a: "run_updates atr_update (atr_start 1) [(Fin 3, Fin 1, Fin 2)] = Some (a, [Some v])"
    by (simp add: atr_update_def atr_start_def smma_update_def smma_start_def Let_def)
  have "Fin 3 - Fin 1 \<noteq> NaN" by (simp add: f64_simps)
  then show ?thesis using a atr_not_negative [of 1 "[]" "Fin 3" "Fin 1" "Fin 2" a "[Some v]" v] by auto
qed

end
