(* ===== verification/Indicators.thy ===== *)
theory Indicators
  imports Oscillators F64_Functions "HOL-Library.Monad_Syntax"
begin

text \<open>
  The contract of the streaming indicators of \<open>alm-indicator\<close>, for configurations of any type. An indicator is a
  constructor that may panic on its arguments, an update and a reset. The locale \<open>streaming\<close> is the safety every
  indicator promises: a constructed indicator never panics again, and \<open>reset\<close> gives back what the constructor
  returned. The locale \<open>timed\<close> adds that the first output comes after a number of inputs that depends on the
  configuration only. The contract \<open>warm_up\<close> of the averages gives both.

  Indicators are composed of others: \<open>feed\<close> passes an optional value on to the next stage, as the \<open>?\<close> and
  \<open>and_then\<close> of the code do, and \<open>feed_step\<close> counts the inputs of the next stage.
\<close>

section \<open>Stages\<close>

primrec feed :: "('s, 'i, 'o) updater \<Rightarrow> 's \<Rightarrow> 'i option \<Rightarrow> ('s \<times> 'o option) option" where
  "feed upd s None = Some (s, None)"
| "feed upd s (Some x) = upd s x"

text \<open>A state from which no input leads to a panic and from which \<open>reset\<close> returns to the start.\<close>

definition steady :: "('i \<Rightarrow> bool) \<Rightarrow> ('s, 'i, 'o) updater \<Rightarrow> ('s \<Rightarrow> 's option) \<Rightarrow> 's \<Rightarrow> bool" where
  "steady inp upd rst s0 \<longleftrightarrow>
     (\<forall>xs. list_all inp xs \<longrightarrow>
       (\<exists>s vs. run_updates upd s0 xs = Some (s, vs) \<and> length vs = length xs \<and> rst s = Some s0))"

lemma pred_option_True [simp]: "pred_option (\<lambda>_. True) v"
  by (cases v) simp_all

lemma max_Suc_0_pos [simp]: "0 < max p (Suc 0)"
  by (simp add: less_max_iff_disj)

definition any_fed :: "('c \<Rightarrow> nat \<Rightarrow> 's \<Rightarrow> bool) \<Rightarrow> 'c \<Rightarrow> 's \<Rightarrow> bool" where
  "any_fed fed c s \<longleftrightarrow> (\<exists>k. fed c k s)"

locale streaming =
  fixes inp :: "'i \<Rightarrow> bool"
    and upd :: "('s, 'i, 'o) updater"
    and rst :: "'s \<Rightarrow> 's option"
    and new :: "'c \<Rightarrow> 's option"
    and fed :: "'c \<Rightarrow> nat \<Rightarrow> 's \<Rightarrow> bool"
  assumes new_fed: "new c = Some s \<Longrightarrow> fed c 0 s"
    and upd_fed: "inp x \<Longrightarrow> fed c k s \<Longrightarrow> \<exists>s' v. upd s x = Some (s', v) \<and> fed c (Suc k) s'"
    and rst_fed: "fed c k s \<Longrightarrow> \<exists>s0. new c = Some s0 \<and> rst s = Some s0"
begin

lemma run_fed:
  "list_all inp xs \<Longrightarrow> fed c k s \<Longrightarrow>
   \<exists>s' vs. run_updates upd s xs = Some (s', vs) \<and> length vs = length xs \<and> fed c (k + length xs) s'"
proof (induction xs arbitrary: k s)
  case (Cons x xs)
  have i: "inp x" "list_all inp xs" using Cons.prems(1) by simp_all
  obtain s1 v where u: "upd s x = Some (s1, v)" "fed c (Suc k) s1" using upd_fed [OF i(1) Cons.prems(2)] by blast
  then show ?case using Cons.IH [OF i(2) u(2)] by auto
qed simp

lemma new_steady: "new c = Some s \<Longrightarrow> steady inp upd rst s"
  unfolding steady_def using run_fed [OF _ new_fed] rst_fed by (metis option.inject)

lemma upd_any: "inp x \<Longrightarrow> any_fed fed c s \<Longrightarrow> \<exists>s' v. upd s x = Some (s', v) \<and> any_fed fed c s'"
  unfolding any_fed_def using upd_fed by blast

lemma feed_any: "pred_option inp v \<Longrightarrow> any_fed fed c s \<Longrightarrow> \<exists>s' v'. feed upd s v = Some (s', v') \<and> any_fed fed c s'"
  using upd_any by (cases v) auto

lemma new_any: "new c = Some s \<Longrightarrow> any_fed fed c s"
  using new_fed by (auto simp: any_fed_def)

lemma rst_any: "any_fed fed c s \<Longrightarrow> \<exists>s0. new c = Some s0 \<and> rst s = Some s0"
  using rst_fed by (auto simp: any_fed_def)

end

locale timed = streaming +
  fixes need :: "'c \<Rightarrow> nat"
  assumes speaks: "inp x \<Longrightarrow> fed c k s \<Longrightarrow> upd s x = Some (s', v) \<Longrightarrow> v = None \<longleftrightarrow> Suc k < need c"
begin

lemma step: "inp x \<Longrightarrow> fed c k s \<Longrightarrow> \<exists>s' v. upd s x = Some (s', v) \<and> fed c (Suc k) s' \<and> (v = None \<longleftrightarrow> Suc k < need c)"
  using upd_fed speaks by blast

lemma feed_step:
  assumes "0 < need c" and "0 < n" and "fed c (k - (n - 1)) s" and "v = None \<longleftrightarrow> Suc k < n" and "pred_option inp v"
  shows "\<exists>s' v'. feed upd s v = Some (s', v') \<and> fed c (Suc k - (n - 1)) s' \<and> (v' = None \<longleftrightarrow> Suc k < n + need c - 1)"
proof (cases v)
  case None
  then have "Suc k < n" using assms(4) by simp
  then show ?thesis using assms None by auto
next
  case (Some x)
  then have "n \<le> Suc k" using assms(4) by auto
  then have k: "Suc (k - (n - 1)) = Suc k - (n - 1)" using assms(2) by linarith
  obtain s' v' where "upd s x = Some (s', v')" "fed c (Suc (k - (n - 1))) s'" "v' = None \<longleftrightarrow> Suc (k - (n - 1)) < need c"
    using step [OF _ assms(3), of x] Some assms(5) by auto
  moreover have "Suc (k - (n - 1)) < need c \<longleftrightarrow> Suc k < n + need c - 1" using k assms(1,2) \<open>n \<le> Suc k\<close> by linarith
  ultimately show ?thesis using Some k by auto
qed

lemma run_timed:
  "list_all inp xs \<Longrightarrow> fed c k s \<Longrightarrow> \<exists>s' vs. run_updates upd s xs = Some (s', vs) \<and> fed c (k + length xs) s' \<and>
     map (\<lambda>v. v = None) vs = map (\<lambda>j. Suc j < need c) [k..<k + length xs]"
proof (induction xs arbitrary: k s)
  case (Cons x xs)
  have i: "inp x" "list_all inp xs" using Cons.prems(1) by simp_all
  obtain s1 v where u: "upd s x = Some (s1, v)" "fed c (Suc k) s1" "v = None \<longleftrightarrow> Suc k < need c"
    using step [OF i(1) Cons.prems(2)] by blast
  have "[k..<k + length (x # xs)] = k # [Suc k..<Suc k + length xs]" by (simp add: upt_rec)
  then show ?case using u Cons.IH [OF i(2) u(2)] by auto
qed simp

lemma new_warms_up: "list_all inp xs \<Longrightarrow> new c = Some s \<Longrightarrow> warms_up upd rst s (need c) xs"
  using run_timed [OF _ new_fed] rst_fed by (fastforce simp: warms_up_def)

end

sublocale warm_up \<subseteq> timed "\<lambda>_. True" upd rst "\<lambda>p. if 0 < p then Some (start p) else None" "\<lambda>p k s. 0 < p \<and> fed p k s" need
proof unfold_locales
  fix c k s x s' v
  assume "0 < c \<and> fed c k s" and u: "upd s x = Some (s', v)"
  then obtain s1 v1 where "upd s x = Some (s1, v1)" "v1 = None \<longleftrightarrow> Suc k < need c" using fed_update by blast
  then show "v = None \<longleftrightarrow> Suc k < need c" using u by simp
next
  fix c k s x
  assume "0 < c \<and> fed c k s"
  then show "\<exists>s' v. upd s x = Some (s', v) \<and> 0 < c \<and> fed c (Suc k) s'" using fed_update by blast
qed (auto simp: fed_start fed_reset split: if_splits)

lemma timedI:
  assumes "\<And>c s. new c = Some s \<Longrightarrow> fed c 0 s"
    and step: "\<And>c k s x. inp x \<Longrightarrow> fed c k s \<Longrightarrow> \<exists>s' v. upd s x = Some (s', v) \<and> fed c (Suc k) s' \<and> (v = None \<longleftrightarrow> Suc k < need c)"
    and "\<And>c k s. fed c k s \<Longrightarrow> \<exists>s0. new c = Some s0 \<and> rst s = Some s0"
  shows "timed inp upd rst new fed need"
proof unfold_locales
  fix c k s x s' v
  assume "inp x" and "fed c k s" and "upd s x = Some (s', v)"
  then show "v = None \<longleftrightarrow> Suc k < need c" using step [of x c k s] by auto
next
  fix c k s x
  assume "inp x" and "fed c k s"
  then show "\<exists>s' v. upd s x = Some (s', v) \<and> fed c (Suc k) s'" using step [of x c k s] by blast
qed (use assms in blast)+

definition opt2 :: "('a \<Rightarrow> 'b \<Rightarrow> 'c) \<Rightarrow> 'a option \<Rightarrow> 'b option \<Rightarrow> 'c option" where
  "opt2 f a b = (case (a, b) of (Some x, Some y) \<Rightarrow> Some (f x y) | _ \<Rightarrow> None)"

lemma opt2_None [simp]: "opt2 f a b = None \<longleftrightarrow> a = None \<or> b = None"
  by (cases a; cases b) (auto simp: opt2_def)

section \<open>Windows\<close>

text \<open>The two ways the code keeps the last values of a window: dropping the oldest before the push when the window is
  full, and pushing before dropping.\<close>

definition push_full :: "nat \<Rightarrow> 'a list \<Rightarrow> 'a \<Rightarrow> 'a list" where
  "push_full cap buf x = (if length buf = cap then tl buf else buf) @ [x]"

definition push_trim :: "nat \<Rightarrow> 'a list \<Rightarrow> 'a \<Rightarrow> 'a list" where
  "push_trim cap buf x = (if cap < length (buf @ [x]) then tl (buf @ [x]) else buf @ [x])"

lemma push_lengths:
  "0 < cap \<Longrightarrow> length buf = min k cap \<Longrightarrow> length (push_full cap buf x) = min (Suc k) cap"
  "length buf = min k cap \<Longrightarrow> length (push_trim cap buf x) = min (Suc k) cap"
  by (auto simp: push_full_def push_trim_def min_def)

lemma push_ne [simp]: "push_full cap buf x \<noteq> []" "0 < cap \<Longrightarrow> push_trim cap buf x \<noteq> []"
  by (cases buf; auto simp: push_full_def push_trim_def)+

text \<open>\<open>fold(NEG_INFINITY, f64::max)\<close> and \<open>fold(INFINITY, f64::min)\<close>.\<close>

definition fold_max :: "f64 list \<Rightarrow> f64" where "fold_max xs = foldl fmax NInf xs"
definition fold_min :: "f64 list \<Rightarrow> f64" where "fold_min xs = foldl fmin PInf xs"

end
