(* ===== verification/Ind_Trend.thy ===== *)
theory Ind_Trend
  imports Indicators Script_Text
begin

text \<open>
  \<open>alm-indicator/src/signal/trend\<close>: the trend indicators beside the plain averages. Each has a constructor with the
  assertions of the code, an update, a reset, and a predicate that describes its state after a number of inputs; the
  interpretations of \<open>timed\<close> give the exact warm-up, those of \<open>streaming\<close> the safety of the indicators whose
  first output depends on the prices.
\<close>

section \<open>\<open>Macd\<close>\<close>

record macd_value =
  mv_macd :: f64
  mv_signal :: f64
  mv_histogram :: f64

record macd =
  macd_fast :: ema
  macd_slow :: ema
  macd_signal :: ema

definition macd_new :: "nat \<Rightarrow> nat \<Rightarrow> nat \<Rightarrow> macd option" where
  "macd_new fast slow signal =
     (if fast < slow then do {
        f \<leftarrow> ema_new fast; s \<leftarrow> ema_new slow; g \<leftarrow> ema_new signal;
        Some \<lparr>macd_fast = f, macd_slow = s, macd_signal = g\<rparr> }
      else None)"

definition macd_of :: "f64 \<Rightarrow> f64 \<Rightarrow> macd_value" where
  "macd_of line signal = \<lparr>mv_macd = line, mv_signal = signal, mv_histogram = line - signal\<rparr>"

definition macd_update :: "macd \<Rightarrow> f64 \<Rightarrow> (macd \<times> macd_value option) option" where
  "macd_update m close = do {
     (f, fv) \<leftarrow> ema_update (macd_fast m) close;
     (s, sv) \<leftarrow> ema_update (macd_slow m) close;
     let line = opt2 (-) fv sv;
     (g, gv) \<leftarrow> feed ema_update (macd_signal m) line;
     Some (\<lparr>macd_fast = f, macd_slow = s, macd_signal = g\<rparr>, opt2 macd_of line gv) }"

definition macd_val :: "macd \<Rightarrow> macd_value option" where
  "macd_val m = do {
     fast \<leftarrow> ema_value (macd_fast m); slow \<leftarrow> ema_value (macd_slow m);
     signal \<leftarrow> ema_value (macd_signal m);
     Some (macd_of (fast - slow) signal) }"

definition macd_is_ready :: "macd \<Rightarrow> bool" where
  "macd_is_ready m \<longleftrightarrow> ema_is_ready (macd_fast m) \<and> ema_is_ready (macd_slow m) \<and> ema_is_ready (macd_signal m)"

definition macd_reset :: "macd \<Rightarrow> macd" where
  "macd_reset m =
     \<lparr>macd_fast = ema_reset (macd_fast m), macd_slow = ema_reset (macd_slow m), macd_signal = ema_reset (macd_signal m)\<rparr>"

fun macd_fed :: "nat \<times> nat \<times> nat \<Rightarrow> nat \<Rightarrow> macd \<Rightarrow> bool" where
  "macd_fed (f, s, g) k m \<longleftrightarrow> 0 < f \<and> f < s \<and> 0 < g \<and> ema_fed f k (macd_fast m) \<and> ema_fed s k (macd_slow m) \<and>
     ema_fed g (k - (s - 1)) (macd_signal m)"

lemma macd_step:
  assumes "macd_fed (f, s, g) k m"
  shows "\<exists>m' v. macd_update m x = Some (m', v) \<and> macd_fed (f, s, g) (Suc k) m' \<and> (v = None \<longleftrightarrow> Suc k < s + g - 1)"
proof -
  obtain a fv where a: "ema_update (macd_fast m) x = Some (a, fv)" "ema_fed f (Suc k) a" "fv = None \<longleftrightarrow> Suc k < f"
    using ema_fed_update [of f k "macd_fast m" x] assms by auto
  obtain b sv where b: "ema_update (macd_slow m) x = Some (b, sv)" "ema_fed s (Suc k) b" "sv = None \<longleftrightarrow> Suc k < s"
    using ema_fed_update [of s k "macd_slow m" x] assms by auto
  have "opt2 (-) fv sv = None \<longleftrightarrow> Suc k < s" using a b assms by auto
  then obtain d gv where "feed ema_update (macd_signal m) (opt2 (-) fv sv) = Some (d, gv)"
      "ema_fed g (Suc k - (s - 1)) d" "gv = None \<longleftrightarrow> Suc k < s + g - 1"
    using ema.feed_step [of g s k "macd_signal m" "opt2 (-) fv sv"] assms by auto
  then show ?thesis using a b assms by (auto simp: macd_update_def Let_def)
qed

interpretation macd: timed "\<lambda>_. True" macd_update "\<lambda>m. Some (macd_reset m)" "\<lambda>(f, s, g). macd_new f s g" macd_fed
    "\<lambda>(f, s, g). s + g - 1"
proof (rule timedI)
  fix c k m x
  assume "macd_fed c k m"
  then show "\<exists>m' v. macd_update m x = Some (m', v) \<and> macd_fed c (Suc k) m' \<and>
      (v = None \<longleftrightarrow> Suc k < (case c of (f, s, g) \<Rightarrow> s + g - 1))"
    using macd_step by (cases c) auto
qed (auto simp: macd_new_def ema_new_def ema_fed_start ema_fed_reset macd_reset_def split: if_splits)

section \<open>\<open>Hma\<close>\<close>

record hma =
  hma_half :: wma
  hma_full :: wma
  hma_sqrt :: wma
  hma_sqrt_period :: nat
  hma_period :: nat
  hma_intermediate :: "f64 list"

abbreviation wma_upd :: "(wma, f64, f64) updater" where
  "wma_upd \<equiv> \<lambda>w x. Some (wma_update w x)"

definition hma_sqrt_of :: "nat \<Rightarrow> nat" where
  "hma_sqrt_of period = usize_of_f64 (fround (fsqrt (f64_of_nat period)))"

definition hma_new :: "nat \<Rightarrow> hma option" where
  "hma_new period =
     (if 4 \<le> period then do {
        h \<leftarrow> wma_new (max (period div 2) 1); f \<leftarrow> wma_new period; s \<leftarrow> wma_new (hma_sqrt_of period);
        Some \<lparr>hma_half = h, hma_full = f, hma_sqrt = s, hma_sqrt_period = hma_sqrt_of period, hma_period = period,
              hma_intermediate = []\<rparr> }
      else None)"

definition hma_update :: "hma \<Rightarrow> f64 \<Rightarrow> (hma \<times> f64 option) option" where
  "hma_update h value =
     (let (a, hv) = wma_update (hma_half h) value; (b, fv) = wma_update (hma_full h) value;
          h1 = h\<lparr>hma_half := a, hma_full := b\<rparr>
      in map_option (\<lambda>(s, v). (h1\<lparr>hma_sqrt := s\<rparr>, v))
           (feed wma_upd (hma_sqrt h) (opt2 (\<lambda>x y. lit 2 * x - y) hv fv)))"

definition hma_is_ready :: "hma \<Rightarrow> bool" where
  "hma_is_ready h \<longleftrightarrow> wma_is_ready (hma_full h)"

definition hma_reset :: "hma \<Rightarrow> hma option" where
  "hma_reset h = do {
     a \<leftarrow> wma_new (hma_period h div 2); b \<leftarrow> wma_new (hma_period h); s \<leftarrow> wma_new (hma_sqrt_period h);
     Some (h\<lparr>hma_half := a, hma_full := b, hma_sqrt := s, hma_intermediate := []\<rparr>) }"

definition hma_fed :: "nat \<Rightarrow> nat \<Rightarrow> hma \<Rightarrow> bool" where
  "hma_fed p k h \<longleftrightarrow> 4 \<le> p \<and> 0 < hma_sqrt_of p \<and> hma_period h = p \<and> hma_sqrt_period h = hma_sqrt_of p \<and>
     wma_fed (p div 2) k (hma_half h) \<and> wma_fed p k (hma_full h) \<and>
     wma_fed (hma_sqrt_of p) (k - (p - 1)) (hma_sqrt h)"

interpretation hma: timed "\<lambda>_. True" hma_update hma_reset hma_new hma_fed "\<lambda>p. p + hma_sqrt_of p - 1"
proof (rule timedI)
  fix p k h and x :: f64
  assume h: "hma_fed p k h"
  obtain a hv where a: "wma_update (hma_half h) x = (a, hv)" "wma_fed (p div 2) (Suc k) a" "hv = None \<longleftrightarrow> Suc k < p div 2"
    using wma.fed_update [of "p div 2" k "hma_half h" x] h by (auto simp: hma_fed_def)
  obtain b fv where b: "wma_update (hma_full h) x = (b, fv)" "wma_fed p (Suc k) b" "fv = None \<longleftrightarrow> Suc k < p"
    using wma.fed_update [of p k "hma_full h" x] h by (auto simp: hma_fed_def)
  let ?v = "opt2 (\<lambda>x y. lit 2 * x - y) hv fv"
  have "?v = None \<longleftrightarrow> Suc k < p" using a b by auto
  then obtain s v where "feed wma_upd (hma_sqrt h) ?v = Some (s, v)" "wma_fed (hma_sqrt_of p) (Suc k - (p - 1)) s"
      "v = None \<longleftrightarrow> Suc k < p + hma_sqrt_of p - 1"
    using wma.feed_step [of "hma_sqrt_of p" p k "hma_sqrt h" ?v] h by (auto simp: hma_fed_def)
  then show "\<exists>h' v. hma_update h x = Some (h', v) \<and> hma_fed p (Suc k) h' \<and> (v = None \<longleftrightarrow> Suc k < p + hma_sqrt_of p - 1)"
    using a b h by (auto simp: hma_update_def hma_fed_def Let_def)
qed (auto simp: hma_new_def hma_reset_def hma_fed_def wma_new_def wma.fed_start max_def split: if_splits)

section \<open>\<open>Vwma\<close>\<close>

record vwma =
  vw_period :: nat
  vw_buf :: "(f64 \<times> f64) list"
  vw_sum_pv :: f64
  vw_sum_v :: f64
  vw_sum_p :: f64

definition vwma_new :: "nat \<Rightarrow> vwma option" where
  "vwma_new period =
     (if 0 < period then Some \<lparr>vw_period = period, vw_buf = [], vw_sum_pv = 0, vw_sum_v = 0, vw_sum_p = 0\<rparr> else None)"

definition vwma_update :: "vwma \<Rightarrow> f64 \<times> f64 \<Rightarrow> (vwma \<times> f64 option) option" where
  "vwma_update s0 = (\<lambda>(close, volume0). do {
     let volume = fmax volume0 0;
     s1 \<leftarrow> (if length (vw_buf s0) = vw_period s0 then
               (case vw_buf s0 of
                  [] \<Rightarrow> None
                | (old_p, old_v) # rest \<Rightarrow>
                    Some (s0\<lparr>vw_buf := rest, vw_sum_pv := vw_sum_pv s0 - old_p * old_v,
                             vw_sum_v := vw_sum_v s0 - old_v, vw_sum_p := vw_sum_p s0 - old_p\<rparr>))
             else Some s0);
     let s = s1\<lparr>vw_buf := vw_buf s1 @ [(close, volume)], vw_sum_pv := vw_sum_pv s1 + close * volume,
                vw_sum_v := vw_sum_v s1 + volume, vw_sum_p := vw_sum_p s1 + close\<rparr>;
     Some (s, if length (vw_buf s) < vw_period s then None
              else if vw_sum_v s < f64_epsilon then Some (vw_sum_p s / f64_of_nat (vw_period s))
              else Some (vw_sum_pv s / vw_sum_v s)) })"

definition vwma_is_ready :: "vwma \<Rightarrow> bool" where
  "vwma_is_ready s \<longleftrightarrow> vw_period s \<le> length (vw_buf s)"

definition vwma_reset :: "vwma \<Rightarrow> vwma" where
  "vwma_reset s = s\<lparr>vw_buf := [], vw_sum_pv := 0, vw_sum_v := 0, vw_sum_p := 0\<rparr>"

definition vwma_fed :: "nat \<Rightarrow> nat \<Rightarrow> vwma \<Rightarrow> bool" where
  "vwma_fed p k s \<longleftrightarrow> 0 < p \<and> vw_period s = p \<and> length (vw_buf s) = min k p"

interpretation vwma: timed "\<lambda>_. True" vwma_update "\<lambda>s. Some (vwma_reset s)" vwma_new vwma_fed "\<lambda>p. p"
proof (rule timedI)
  fix p k s and x :: "f64 \<times> f64"
  assume "vwma_fed p k s"
  then show "\<exists>s' v. vwma_update s x = Some (s', v) \<and> vwma_fed p (Suc k) s' \<and> (v = None \<longleftrightarrow> Suc k < p)"
    by (cases x; cases "vw_buf s") (auto simp: vwma_update_def vwma_fed_def Let_def min_def split: if_splits)
qed (auto simp: vwma_new_def vwma_reset_def vwma_fed_def split: if_splits)

section \<open>\<open>Lsma\<close>\<close>

record lsma_value =
  lsv_value :: f64
  lsv_slope :: f64

record lsma =
  ls_period :: nat
  ls_buf :: "f64 list"
  ls_sum_x :: f64
  ls_sum_x2 :: f64
  ls_denom :: f64

definition lsma_new :: "nat \<Rightarrow> lsma option" where
  "lsma_new period =
     (if 2 \<le> period then
        let n = f64_of_nat period; sum_x = n * (n - 1) / lit 2; sum_x2 = n * (n - 1) * (lit 2 * n - 1) / lit 6
        in Some \<lparr>ls_period = period, ls_buf = [], ls_sum_x = sum_x, ls_sum_x2 = sum_x2,
                 ls_denom = n * sum_x2 - sum_x * sum_x\<rparr>
      else None)"

definition lsma_update :: "lsma \<Rightarrow> f64 \<Rightarrow> lsma \<times> lsma_value option" where
  "lsma_update s price =
     (let buf = push_full (ls_period s) (ls_buf s) price; n = f64_of_nat (ls_period s);
          sum_p = foldl (+) 0 buf;
          sum_xp = foldl (\<lambda>a (i, p). a + f64_of_nat i * p) 0 (enumerate 0 buf);
          slope = (n * sum_xp - ls_sum_x s * sum_p) / ls_denom s;
          intercept = (sum_p - slope * ls_sum_x s) / n
      in (s\<lparr>ls_buf := buf\<rparr>,
          if length buf < ls_period s then None
          else Some \<lparr>lsv_value = intercept + slope * (n - 1), lsv_slope = slope\<rparr>))"

definition lsma_is_ready :: "lsma \<Rightarrow> bool" where
  "lsma_is_ready s \<longleftrightarrow> ls_period s \<le> length (ls_buf s)"

definition lsma_reset :: "lsma \<Rightarrow> lsma" where
  "lsma_reset s = s\<lparr>ls_buf := []\<rparr>"

definition lsma_fed :: "nat \<Rightarrow> nat \<Rightarrow> lsma \<Rightarrow> bool" where
  "lsma_fed p k s \<longleftrightarrow> 2 \<le> p \<and> lsma_new p = Some (s\<lparr>ls_buf := []\<rparr>) \<and> ls_period s = p \<and> length (ls_buf s) = min k p"

interpretation lsma: timed "\<lambda>_. True" "\<lambda>s x. Some (lsma_update s x)" "\<lambda>s. Some (lsma_reset s)" lsma_new lsma_fed "\<lambda>p. p"
proof (rule timedI)
  fix p k s and x :: f64
  assume "lsma_fed p k s"
  then show "\<exists>s' v. Some (lsma_update s x) = Some (s', v) \<and> lsma_fed p (Suc k) s' \<and> (v = None \<longleftrightarrow> Suc k < p)"
    by (auto simp: lsma_update_def lsma_fed_def Let_def push_lengths)
qed (auto simp: lsma_new_def lsma_reset_def lsma_fed_def Let_def split: if_splits)

section \<open>\<open>Alma\<close>\<close>

record alma =
  al_period :: nat
  al_weights :: "f64 list"
  al_buf :: "f64 list"

definition alma_weights :: "libm \<Rightarrow> nat \<Rightarrow> f64 \<Rightarrow> f64 \<Rightarrow> f64 list" where
  "alma_weights lm period offset sigma =
     (let m = ffloor (offset * (f64_of_nat period - 1)); s = f64_of_nat period / sigma; denom = lit 2 * s * s;
          raw = map (\<lambda>i. let diff = f64_of_nat i - m in lm_exp lm (- diff * diff / denom)) [0..<period]
      in map (\<lambda>w. w / fsum raw) raw)"

definition alma_new :: "libm \<Rightarrow> nat \<Rightarrow> f64 \<Rightarrow> f64 \<Rightarrow> alma option" where
  "alma_new lm period offset sigma =
     (if 0 < period \<and> 0 < sigma then Some \<lparr>al_period = period, al_weights = alma_weights lm period offset sigma, al_buf = []\<rparr>
      else None)"

definition alma_update :: "alma \<Rightarrow> f64 \<Rightarrow> alma \<times> f64 option" where
  "alma_update s price =
     (let buf = push_full (al_period s) (al_buf s) price
      in (s\<lparr>al_buf := buf\<rparr>,
          if length buf < al_period s then None else Some (fsum (map2 (*) buf (al_weights s)))))"

definition alma_is_ready :: "alma \<Rightarrow> bool" where
  "alma_is_ready s \<longleftrightarrow> al_period s \<le> length (al_buf s)"

definition alma_reset :: "alma \<Rightarrow> alma" where
  "alma_reset s = s\<lparr>al_buf := []\<rparr>"

fun alma_fed :: "libm \<times> nat \<times> f64 \<times> f64 \<Rightarrow> nat \<Rightarrow> alma \<Rightarrow> bool" where
  "alma_fed (lm, p, offs, sigma) k s \<longleftrightarrow> 0 < p \<and> 0 < sigma \<and> al_period s = p \<and>
     al_weights s = alma_weights lm p offs sigma \<and> length (al_buf s) = min k p"

interpretation alma: timed "\<lambda>_. True" "\<lambda>s x. Some (alma_update s x)" "\<lambda>s. Some (alma_reset s)"
    "\<lambda>(lm, p, offs, sigma). alma_new lm p offs sigma" alma_fed "\<lambda>(lm, p, offs, sigma). p"
proof (rule timedI)
  fix c k s and x :: f64
  assume "alma_fed c k s"
  then show "\<exists>s' v. Some (alma_update s x) = Some (s', v) \<and> alma_fed c (Suc k) s' \<and>
      (v = None \<longleftrightarrow> Suc k < (case c of (lm, p, offs, sigma) \<Rightarrow> p))"
    by (cases c) (auto simp: alma_update_def Let_def push_lengths)
qed (auto simp: alma_new_def alma_reset_def split: if_splits)

end
