(* ===== verification/Ind_Trend2.thy ===== *)
theory Ind_Trend2
  imports Ind_Trend
begin

text \<open>
  \<open>alm-indicator/src/signal/trend\<close>, continued: the adaptive averages \<open>Kama\<close> and \<open>McGinleyDynamic\<close>, \<open>Trix\<close>,
  \<open>Aroon\<close> and its oscillator, the directional indicators \<open>Dmi\<close>, \<open>Adx\<close> and \<open>Vortex\<close>, \<open>Kdj\<close> and the
  Kalman filter.
\<close>

section \<open>\<open>Kama\<close>\<close>

record kama =
  ka_er_period :: nat
  ka_fast_sc :: f64
  ka_slow_sc :: f64
  ka_closes :: "f64 list"
  ka_kama :: "f64 option"

definition kama_start :: "nat \<Rightarrow> nat \<Rightarrow> nat \<Rightarrow> kama" where
  "kama_start er_period fast slow =
     \<lparr>ka_er_period = er_period, ka_fast_sc = lit 2 / (f64_of_nat fast + 1), ka_slow_sc = lit 2 / (f64_of_nat slow + 1),
      ka_closes = [], ka_kama = None\<rparr>"

definition kama_new :: "nat \<Rightarrow> nat \<Rightarrow> nat \<Rightarrow> kama option" where
  "kama_new er_period fast slow =
     (if 0 < er_period \<and> 0 < fast \<and> fast < slow then Some (kama_start er_period fast slow) else None)"

definition kama_update :: "kama \<Rightarrow> f64 \<Rightarrow> kama \<times> f64 option" where
  "kama_update s0 close =
     (let s = s0\<lparr>ka_closes := push_bounded (ka_closes s0) close (ka_er_period s0 + 1)\<rparr>; closes = ka_closes s
      in if length closes < ka_er_period s + 1 then (s, None)
         else
           let oldest = hd closes;
               direction = \<bar>close - oldest\<bar>;
               volatility = fsum (map2 (\<lambda>a b. \<bar>b - a\<bar>) closes (tl closes));
               er = (if volatility < f64_epsilon then 0 else fclamp (direction / volatility) 0 1);
               sc = f_powi (er * (ka_fast_sc s - ka_slow_sc s) + ka_slow_sc s) 2;
               prev_kama = (case ka_kama s of Some v \<Rightarrow> v | None \<Rightarrow> fsum closes / f64_of_nat (length closes));
               new_kama = prev_kama + sc * (close - prev_kama)
           in (s\<lparr>ka_kama := Some new_kama\<rparr>, Some new_kama))"

definition kama_value :: "kama \<Rightarrow> f64 option" where "kama_value s = ka_kama s"
definition kama_is_ready :: "kama \<Rightarrow> bool" where "kama_is_ready s \<longleftrightarrow> ka_kama s \<noteq> None"

definition kama_reset :: "kama \<Rightarrow> kama" where
  "kama_reset s = s\<lparr>ka_closes := [], ka_kama := None\<rparr>"

fun kama_fed :: "nat \<times> nat \<times> nat \<Rightarrow> nat \<Rightarrow> kama \<Rightarrow> bool" where
  "kama_fed (p, f, l) k s \<longleftrightarrow> 0 < p \<and> 0 < f \<and> f < l \<and> kama_reset s = kama_start p f l \<and> ka_er_period s = p \<and> length (ka_closes s) = min k (p + 1)"

interpretation kama: timed "\<lambda>_. True" "\<lambda>s x. Some (kama_update s x)" "\<lambda>s. Some (kama_reset s)"
    "\<lambda>(p, f, l). kama_new p f l" kama_fed "\<lambda>(p, f, l). p + 1"
proof (rule timedI)
  fix c k s and x :: f64
  assume "kama_fed c k s"
  then show "\<exists>s' v. Some (kama_update s x) = Some (s', v) \<and> kama_fed c (Suc k) s' \<and>
      (v = None \<longleftrightarrow> Suc k < (case c of (p, f, l) \<Rightarrow> p + 1))"
    by (cases c) (auto simp: kama_update_def kama_reset_def kama_start_def Let_def length_push_bounded)
qed (auto simp: kama_new_def kama_start_def kama_reset_def split: if_splits)

section \<open>\<open>McGinleyDynamic\<close>\<close>

record mcginley =
  mg_period :: nat
  mg_n :: f64
  mg_val :: "f64 option"
  mg_count :: nat
  mg_seed_sum :: f64

definition mcginley_start :: "nat \<Rightarrow> mcginley" where
  "mcginley_start period = \<lparr>mg_period = period, mg_n = f64_of_nat period, mg_val = None, mg_count = 0, mg_seed_sum = 0\<rparr>"

definition mcginley_new :: "nat \<Rightarrow> mcginley option" where
  "mcginley_new period = (if 0 < period then Some (mcginley_start period) else None)"

definition mcginley_update :: "mcginley \<Rightarrow> f64 \<Rightarrow> (mcginley \<times> f64 option) option" where
  "mcginley_update s0 price =
     (let s = s0\<lparr>mg_count := mg_count s0 + 1\<rparr> in
      if mg_count s < mg_period s then Some (s\<lparr>mg_seed_sum := mg_seed_sum s + price\<rparr>, None)
      else if mg_count s = mg_period s then
        let s1 = s\<lparr>mg_seed_sum := mg_seed_sum s + price\<rparr>; v = Some (mg_seed_sum s1 / mg_n s1)
        in Some (s1\<lparr>mg_val := v\<rparr>, v)
      else
        (case mg_val s of
           None \<Rightarrow> None
         | Some prev \<Rightarrow>
             let ratio = price / prev;
                 v = (if \<bar>prev\<bar> < f64_epsilon then Some price
                      else Some (prev + (price - prev) / (mg_n s * f_powi ratio 4)))
             in Some (s\<lparr>mg_val := v\<rparr>, v)))"

definition mcginley_value :: "mcginley \<Rightarrow> f64 option" where "mcginley_value s = mg_val s"
definition mcginley_is_ready :: "mcginley \<Rightarrow> bool" where "mcginley_is_ready s \<longleftrightarrow> mg_val s \<noteq> None"

definition mcginley_reset :: "mcginley \<Rightarrow> mcginley" where
  "mcginley_reset s = s\<lparr>mg_val := None, mg_count := 0, mg_seed_sum := 0\<rparr>"

definition mcginley_fed :: "nat \<Rightarrow> nat \<Rightarrow> mcginley \<Rightarrow> bool" where
  "mcginley_fed p k s \<longleftrightarrow> mcginley_reset s = mcginley_start p \<and> mg_period s = p \<and> mg_count s = k \<and> (mg_val s = None \<longleftrightarrow> k < p)"

interpretation mcginley: warm_up mcginley_update "\<lambda>s. Some (mcginley_reset s)" mcginley_start "\<lambda>p. p" mcginley_fed
proof unfold_locales
  fix p k s and x :: f64
  assume "0 < p" and "mcginley_fed p k s"
  then show "\<exists>s' v. mcginley_update s x = Some (s', v) \<and> mcginley_fed p (Suc k) s' \<and> (v = None \<longleftrightarrow> Suc k < p)"
    by (cases "mg_val s") (auto simp: mcginley_update_def mcginley_fed_def mcginley_reset_def mcginley_start_def Let_def)
qed (simp_all add: mcginley_fed_def mcginley_reset_def mcginley_start_def)

section \<open>\<open>Trix\<close>\<close>

record trix =
  tx_ema1 :: ema
  tx_ema2 :: ema
  tx_ema3 :: ema
  tx_signal_ema :: ema
  tx_prev_ema3 :: "f64 option"
  tx_period :: nat
  tx_signal_period :: nat

definition trix_new :: "nat \<Rightarrow> nat \<Rightarrow> trix option" where
  "trix_new period signal_period = do {
     a \<leftarrow> ema_new period; b \<leftarrow> ema_new period; c \<leftarrow> ema_new period; g \<leftarrow> ema_new signal_period;
     Some \<lparr>tx_ema1 = a, tx_ema2 = b, tx_ema3 = c, tx_signal_ema = g, tx_prev_ema3 = None, tx_period = period,
           tx_signal_period = signal_period\<rparr> }"

definition trix_change :: "f64 option \<Rightarrow> f64 \<Rightarrow> f64 option" where
  "trix_change prev_ema3 e3 =
     map_option (\<lambda>prev. if \<not> feq prev 0 then (e3 - prev) / prev * lit 100 else 0) prev_ema3"

definition trix_update :: "trix \<Rightarrow> f64 \<Rightarrow> (trix \<times> macd_value option) option" where
  "trix_update t close = do {
     (a, v1) \<leftarrow> ema_update (tx_ema1 t) close;
     (b, v2) \<leftarrow> feed ema_update (tx_ema2 t) v1;
     (c, v3) \<leftarrow> feed ema_update (tx_ema3 t) v2;
     let trix = Option.bind v3 (trix_change (tx_prev_ema3 t));
     (g, signal) \<leftarrow> feed ema_update (tx_signal_ema t) trix;
     Some (t\<lparr>tx_ema1 := a, tx_ema2 := b, tx_ema3 := c, tx_signal_ema := g,
             tx_prev_ema3 := (case v3 of Some e3 \<Rightarrow> Some e3 | None \<Rightarrow> tx_prev_ema3 t)\<rparr>,
           opt2 macd_of trix signal) }"

definition trix_reset :: "trix \<Rightarrow> trix option" where
  "trix_reset t = do {
     a \<leftarrow> ema_new (tx_period t); b \<leftarrow> ema_new (tx_period t); c \<leftarrow> ema_new (tx_period t); g \<leftarrow> ema_new (tx_signal_period t);
     Some (t\<lparr>tx_ema1 := a, tx_ema2 := b, tx_ema3 := c, tx_signal_ema := g, tx_prev_ema3 := None\<rparr>) }"

fun trix_fed :: "nat \<times> nat \<Rightarrow> nat \<Rightarrow> trix \<Rightarrow> bool" where
  "trix_fed (p, g) k t \<longleftrightarrow> 0 < p \<and> 0 < g \<and> tx_period t = p \<and> tx_signal_period t = g \<and>
     ema_fed p k (tx_ema1 t) \<and> ema_fed p (k - (p - 1)) (tx_ema2 t) \<and> ema_fed p (k - (2 * p - 1 - 1)) (tx_ema3 t) \<and>
     ema_fed g (k - (3 * p - 1 - 1)) (tx_signal_ema t) \<and> (tx_prev_ema3 t = None \<longleftrightarrow> k < 3 * p - 2)"

lemma trix_step:
  assumes "trix_fed (p, g) k t"
  shows "\<exists>t' v. trix_update t x = Some (t', v) \<and> trix_fed (p, g) (Suc k) t' \<and> (v = None \<longleftrightarrow> Suc k < 3 * p + g - 2)"
proof -
  have pg: "0 < p" "0 < g" using assms by simp_all
  obtain a v1 where a: "ema_update (tx_ema1 t) x = Some (a, v1)" "ema_fed p (Suc k) a" "v1 = None \<longleftrightarrow> Suc k < p"
    using ema_fed_update [of p k "tx_ema1 t" x] assms by auto
  obtain b v2 where b: "feed ema_update (tx_ema2 t) v1 = Some (b, v2)" "ema_fed p (Suc k - (p - 1)) b"
      "v2 = None \<longleftrightarrow> Suc k < 2 * p - 1"
    using ema.feed_step [of p p k "tx_ema2 t" v1] a(3) assms by auto
  obtain c v3 where c: "feed ema_update (tx_ema3 t) v2 = Some (c, v3)" "ema_fed p (Suc k - (2 * p - 1 - 1)) c"
      "v3 = None \<longleftrightarrow> Suc k < 3 * p - 2"
    using ema.feed_step [of p "2 * p - 1" k "tx_ema3 t" v2] b(3) assms by auto
  let ?v = "Option.bind v3 (trix_change (tx_prev_ema3 t))"
  have "?v = None \<longleftrightarrow> Suc k < 3 * p - 1"
    using c(3) assms pg by (cases v3; cases "tx_prev_ema3 t") (auto simp: trix_change_def)
  then obtain d gv where d: "feed ema_update (tx_signal_ema t) ?v = Some (d, gv)" "ema_fed g (Suc k - (3 * p - 1 - 1)) d"
      "gv = None \<longleftrightarrow> Suc k < 3 * p + g - 2"
    using ema.feed_step [of g "3 * p - 1" k "tx_signal_ema t" ?v] assms by auto
  have "opt2 macd_of ?v gv = None \<longleftrightarrow> Suc k < 3 * p + g - 2"
    using d(3) \<open>?v = None \<longleftrightarrow> Suc k < 3 * p - 1\<close> pg by auto
  moreover have "(case v3 of Some e3 \<Rightarrow> Some e3 | None \<Rightarrow> tx_prev_ema3 t) = None \<longleftrightarrow> Suc k < 3 * p - 2"
    using c(3) assms by (cases v3) auto
  ultimately show ?thesis using a b c d assms by (simp add: trix_update_def Let_def)
qed

interpretation trix: timed "\<lambda>_. True" trix_update trix_reset "\<lambda>(p, g). trix_new p g" trix_fed "\<lambda>(p, g). 3 * p + g - 2"
proof (rule timedI)
  fix c k t and x :: f64
  assume "trix_fed c k t"
  then show "\<exists>t' v. trix_update t x = Some (t', v) \<and> trix_fed c (Suc k) t' \<and>
      (v = None \<longleftrightarrow> Suc k < (case c of (p, g) \<Rightarrow> 3 * p + g - 2))"
    using trix_step by (cases c) (auto simp del: trix_fed.simps)
qed (auto simp: trix_new_def trix_reset_def ema_new_def ema_fed_start split: if_splits)

section \<open>\<open>Aroon\<close> and \<open>AroonOscillator\<close>\<close>

record aroon_value =
  arv_up :: f64
  arv_down :: f64

record aroon =
  ar_period :: nat
  ar_highs :: "f64 list"
  ar_lows :: "f64 list"

definition aroon_new :: "nat \<Rightarrow> aroon option" where
  "aroon_new period = (if 0 < period then Some \<lparr>ar_period = period, ar_highs = [], ar_lows = []\<rparr> else None)"

text \<open>\<open>max_by\<close> and \<open>min_by\<close> with \<open>partial_cmp(..).unwrap()\<close>: comparing with NaN panics; of equal elements the
  last is the maximum and the first the minimum.\<close>

fun max_by_cmp :: "f64 \<Rightarrow> f64 list \<Rightarrow> f64 option" where
  "max_by_cmp m [] = Some m"
| "max_by_cmp m (x # xs) = (if is_nan m \<or> is_nan x then None else max_by_cmp (if x < m then m else x) xs)"

fun min_by_cmp :: "f64 \<Rightarrow> f64 list \<Rightarrow> f64 option" where
  "min_by_cmp m [] = Some m"
| "min_by_cmp m (x # xs) = (if is_nan m \<or> is_nan x then None else min_by_cmp (if x < m then x else m) xs)"

definition bars_since :: "f64 list \<Rightarrow> f64 \<Rightarrow> nat" where
  "bars_since xs v =
     (let i = length (takeWhile (\<lambda>x. \<not> \<bar>x - v\<bar> < f64_epsilon) (rev xs)) in if i < length xs then i else 0)"

definition aroon_line :: "nat \<Rightarrow> nat \<Rightarrow> f64" where
  "aroon_line period since = f64_of_nat (period - since) / f64_of_nat period * lit 100"

definition aroon_push :: "aroon \<Rightarrow> f64 \<Rightarrow> f64 \<Rightarrow> aroon" where
  "aroon_push a high low =
     (let hs = ar_highs a @ [high]; ls = ar_lows a @ [low]
      in if ar_period a + 1 < length hs then a\<lparr>ar_highs := tl hs, ar_lows := tl ls\<rparr>
         else a\<lparr>ar_highs := hs, ar_lows := ls\<rparr>)"

definition aroon_update :: "aroon \<Rightarrow> f64 \<times> f64 \<Rightarrow> (aroon \<times> aroon_value option) option" where
  "aroon_update a0 = (\<lambda>(high, low).
     let a = aroon_push a0 high low
     in if length (ar_highs a) < ar_period a + 1 then Some (a, None)
        else (case (ar_highs a, ar_lows a) of
                (h # hr, l # lr) \<Rightarrow> do {
                  max_val \<leftarrow> max_by_cmp h hr;
                  min_val \<leftarrow> min_by_cmp l lr;
                  Some (a, Some \<lparr>arv_up = aroon_line (ar_period a) (bars_since (ar_highs a) max_val),
                                 arv_down = aroon_line (ar_period a) (bars_since (ar_lows a) min_val)\<rparr>) }
              | _ \<Rightarrow> None))"

definition aroon_reset :: "aroon \<Rightarrow> aroon" where
  "aroon_reset a = a\<lparr>ar_highs := [], ar_lows := []\<rparr>"

type_synonym aroon_oscillator = aroon

definition aroon_osc_update :: "aroon_oscillator \<Rightarrow> f64 \<times> f64 \<Rightarrow> (aroon_oscillator \<times> f64 option) option" where
  "aroon_osc_update a x = map_option (\<lambda>(a', v). (a', map_option (\<lambda>v. arv_up v - arv_down v) v)) (aroon_update a x)"

definition no_nan2 :: "f64 \<times> f64 \<Rightarrow> bool" where
  "no_nan2 = (\<lambda>(x, y). \<not> is_nan x \<and> \<not> is_nan y)"

definition aroon_fed :: "nat \<Rightarrow> nat \<Rightarrow> aroon \<Rightarrow> bool" where
  "aroon_fed p k a \<longleftrightarrow> 0 < p \<and> ar_period a = p \<and> length (ar_highs a) = min k (p + 1) \<and> length (ar_lows a) = min k (p + 1) \<and>
     list_all (\<lambda>x. \<not> is_nan x) (ar_highs a) \<and> list_all (\<lambda>x. \<not> is_nan x) (ar_lows a)"

lemma by_cmp_total:
  "list_all (\<lambda>x. \<not> is_nan x) (m # xs) \<Longrightarrow> \<exists>v. max_by_cmp m xs = Some v"
  "list_all (\<lambda>x. \<not> is_nan x) (m # xs) \<Longrightarrow> \<exists>v. min_by_cmp m xs = Some v"
  by (induction xs arbitrary: m) auto

lemma list_all_tl: "list_all P xs \<Longrightarrow> list_all P (tl xs)"
  by (cases xs) simp_all

lemma aroon_push_fed:
  assumes "aroon_fed p k a" and "no_nan2 (high, low)"
  shows "aroon_fed p (Suc k) (aroon_push a high low)"
proof -
  have "ar_highs a \<noteq> [] \<and> ar_lows a \<noteq> []" if "p < k" using that assms(1) by (auto simp: aroon_fed_def)
  then show ?thesis using assms by (auto simp: aroon_push_def aroon_fed_def no_nan2_def Let_def list_all_tl min_def split: if_splits)
qed

lemma aroon_step:
  assumes a: "aroon_fed p k a" and x: "no_nan2 (high, low)"
  shows "\<exists>a' v. aroon_update a (high, low) = Some (a', v) \<and> aroon_fed p (Suc k) a' \<and> (v = None \<longleftrightarrow> Suc k < p + 1)"
proof -
  define b where "b = aroon_push a high low"
  have b: "aroon_fed p (Suc k) b" using aroon_push_fed [OF a x] by (simp add: b_def)
  then obtain h hr l lr where hl: "ar_highs b = h # hr" "ar_lows b = l # lr"
    by (cases "ar_highs b"; cases "ar_lows b") (auto simp: aroon_fed_def)
  have "list_all (\<lambda>x. \<not> is_nan x) (h # hr)" "list_all (\<lambda>x. \<not> is_nan x) (l # lr)"
    using b unfolding aroon_fed_def hl by blast+
  then obtain m n where "max_by_cmp h hr = Some m" "min_by_cmp l lr = Some n" using by_cmp_total by blast
  moreover have "length (h # hr) < p + 1 \<longleftrightarrow> Suc k < p + 1" using b unfolding aroon_fed_def hl by auto
  moreover have "ar_period b = p" using b by (simp add: aroon_fed_def)
  ultimately show ?thesis using b hl unfolding aroon_update_def by (simp flip: b_def)
qed

interpretation aroon: timed no_nan2 aroon_update "\<lambda>a. Some (aroon_reset a)" aroon_new aroon_fed "\<lambda>p. p + 1"
proof (rule timedI)
  fix p k a and x :: "f64 \<times> f64"
  assume "no_nan2 x" and "aroon_fed p k a"
  then show "\<exists>a' v. aroon_update a x = Some (a', v) \<and> aroon_fed p (Suc k) a' \<and> (v = None \<longleftrightarrow> Suc k < p + 1)"
    using aroon_step by (cases x) auto
qed (auto simp: aroon_new_def aroon_reset_def aroon_fed_def split: if_splits)

interpretation aroon_osc: timed no_nan2 aroon_osc_update "\<lambda>a. Some (aroon_reset a)" aroon_new aroon_fed "\<lambda>p. p + 1"
proof (rule timedI)
  fix p k a and x :: "f64 \<times> f64"
  assume "no_nan2 x" and "aroon_fed p k a"
  then show "\<exists>a' v. aroon_osc_update a x = Some (a', v) \<and> aroon_fed p (Suc k) a' \<and> (v = None \<longleftrightarrow> Suc k < p + 1)"
    using aroon.step [of x p k a] by (auto simp: aroon_osc_update_def)
qed (auto simp: aroon_new_def aroon_reset_def aroon_fed_def split: if_splits)

section \<open>\<open>Dmi\<close> and \<open>Adx\<close>\<close>

abbreviation smma_any :: "nat \<Rightarrow> smma \<Rightarrow> bool" where
  "smma_any \<equiv> any_fed (\<lambda>p k s. 0 < p \<and> smma_fed p k s)"

record dmi_value =
  dv_plus_di :: f64
  dv_minus_di :: f64

record dmi =
  dm_plus :: smma
  dm_minus :: smma
  dm_tr :: smma
  dm_prev_high :: "f64 option"
  dm_prev_low :: "f64 option"
  dm_prev_close :: "f64 option"

definition dmi_new :: "nat \<Rightarrow> dmi option" where
  "dmi_new period = do {
     a \<leftarrow> smma_new period; b \<leftarrow> smma_new period; c \<leftarrow> smma_new period;
     Some \<lparr>dm_plus = a, dm_minus = b, dm_tr = c, dm_prev_high = None, dm_prev_low = None, dm_prev_close = None\<rparr> }"

definition plus_dm :: "f64 \<Rightarrow> f64 \<Rightarrow> f64" where
  "plus_dm up_move down_move = (if down_move < up_move \<and> 0 < up_move then up_move else 0)"

definition minus_dm :: "f64 \<Rightarrow> f64 \<Rightarrow> f64" where
  "minus_dm up_move down_move = (if up_move < down_move \<and> 0 < down_move then down_move else 0)"

definition gap_range :: "f64 \<Rightarrow> f64 \<Rightarrow> f64 \<Rightarrow> f64" where
  "gap_range high low pc = fmax (fmax (high - low) \<bar>high - pc\<bar>) \<bar>low - pc\<bar>"

definition dmi_update :: "dmi \<Rightarrow> f64 \<times> f64 \<times> f64 \<Rightarrow> (dmi \<times> dmi_value option) option" where
  "dmi_update d = (\<lambda>(high, low, close). do {
     (d1, result) \<leftarrow>
       (case (dm_prev_high d, dm_prev_low d, dm_prev_close d) of
          (Some ph, Some pl, Some pc) \<Rightarrow> do {
            (a, s_plus) \<leftarrow> smma_update (dm_plus d) (plus_dm (high - ph) (pl - low));
            (b, s_minus) \<leftarrow> smma_update (dm_minus d) (minus_dm (high - ph) (pl - low));
            (c, s_tr) \<leftarrow> smma_update (dm_tr d) (gap_range high low pc);
            Some (d\<lparr>dm_plus := a, dm_minus := b, dm_tr := c\<rparr>,
              (case (s_plus, s_minus, s_tr) of
                 (Some sp, Some sm, Some st) \<Rightarrow>
                   if f64_epsilon < st then Some \<lparr>dv_plus_di = sp / st * lit 100, dv_minus_di = sm / st * lit 100\<rparr> else None
               | _ \<Rightarrow> None)) }
        | _ \<Rightarrow> Some (d, None));
     Some (d1\<lparr>dm_prev_high := Some high, dm_prev_low := Some low, dm_prev_close := Some close\<rparr>, result) })"

definition dmi_is_ready :: "dmi \<Rightarrow> bool" where "dmi_is_ready d \<longleftrightarrow> smma_is_ready (dm_tr d)"

definition dmi_reset :: "dmi \<Rightarrow> dmi" where
  "dmi_reset d =
     \<lparr>dm_plus = smma_reset (dm_plus d), dm_minus = smma_reset (dm_minus d), dm_tr = smma_reset (dm_tr d),
      dm_prev_high = None, dm_prev_low = None, dm_prev_close = None\<rparr>"

definition dmi_fed :: "nat \<Rightarrow> nat \<Rightarrow> dmi \<Rightarrow> bool" where
  "dmi_fed p k d \<longleftrightarrow> smma_any p (dm_plus d) \<and> smma_any p (dm_minus d) \<and> smma_any p (dm_tr d)"

lemma smma_anyD:
  "smma_any p s \<Longrightarrow> \<exists>s' v. smma_update s x = Some (s', v) \<and> smma_any p s'"
  "smma_any p s \<Longrightarrow> smma_reset s = smma_start p \<and> 0 < p"
  using smma.upd_any [of p s x] smma.rst_any [of p s] by (auto split: if_splits)

lemma smma_new_any: "smma_new p = Some s \<Longrightarrow> smma_any p s"
  using smma.new_any [of p s] by (simp add: smma_new_def)

interpretation dmi: streaming "\<lambda>_. True" dmi_update "\<lambda>d. Some (dmi_reset d)" dmi_new dmi_fed
proof unfold_locales
  fix p k d and x :: "f64 \<times> f64 \<times> f64"
  assume d: "dmi_fed p k d"
  obtain high low close where x: "x = (high, low, close)" by (cases x)
  show "\<exists>d' v. dmi_update d x = Some (d', v) \<and> dmi_fed p (Suc k) d'"
  proof (cases "dm_prev_high d = None \<or> dm_prev_low d = None \<or> dm_prev_close d = None")
    case True
    then show ?thesis using d x by (auto simp: dmi_update_def dmi_fed_def split: option.split)
  next
    case False
    then obtain ph pl pc where p: "dm_prev_high d = Some ph" "dm_prev_low d = Some pl" "dm_prev_close d = Some pc" by auto
    obtain a va where "smma_update (dm_plus d) (plus_dm (high - ph) (pl - low)) = Some (a, va)" "smma_any p a"
      using smma_anyD(1) d unfolding dmi_fed_def by blast
    moreover obtain b vb where "smma_update (dm_minus d) (minus_dm (high - ph) (pl - low)) = Some (b, vb)" "smma_any p b"
      using smma_anyD(1) d unfolding dmi_fed_def by blast
    moreover obtain c vc where "smma_update (dm_tr d) (gap_range high low pc) = Some (c, vc)" "smma_any p c"
      using smma_anyD(1) d unfolding dmi_fed_def by blast
    ultimately show ?thesis using p x by (simp add: dmi_update_def dmi_fed_def)
  qed
next
  fix p k d
  assume "dmi_fed p k d"
  then show "\<exists>d0. dmi_new p = Some d0 \<and> Some (dmi_reset d) = Some d0"
    using smma_anyD(2) by (auto simp: dmi_fed_def dmi_new_def dmi_reset_def smma_new_def)
qed (auto simp: dmi_new_def dmi_fed_def smma_new_any split: bind_splits)

end
