(* ===== verification/Ind_Directional.thy ===== *)
theory Ind_Directional
  imports Ind_Trend2
begin

text \<open>
  \<open>alm-indicator/src/signal/trend\<close>, the last part: \<open>Adx\<close>, \<open>Vortex\<close>, \<open>Kdj\<close> and \<open>KalmanFilter\<close>. The private
  running average of \<open>kdj.rs\<close> is the same code as that of \<open>awesome_oscillator.rs\<close>.
\<close>

section \<open>\<open>Adx\<close>\<close>

record adx_value =
  adv_adx :: f64
  adv_plus_di :: f64
  adv_minus_di :: f64

record adx =
  ax_period :: nat
  ax_plus :: smma
  ax_minus :: smma
  ax_tr :: smma
  ax_adx :: smma
  ax_prev_high :: "f64 option"
  ax_prev_low :: "f64 option"
  ax_prev_close :: "f64 option"

definition adx_new :: "nat \<Rightarrow> adx option" where
  "adx_new period = do {
     a \<leftarrow> smma_new period; b \<leftarrow> smma_new period; c \<leftarrow> smma_new period; d \<leftarrow> smma_new period;
     Some \<lparr>ax_period = period, ax_plus = a, ax_minus = b, ax_tr = c, ax_adx = d,
           ax_prev_high = None, ax_prev_low = None, ax_prev_close = None\<rparr> }"

definition dx_of :: "f64 \<Rightarrow> f64 \<Rightarrow> f64" where
  "dx_of plus_di minus_di =
     (let di_sum = plus_di + minus_di
      in if f64_epsilon < di_sum then \<bar>plus_di - minus_di\<bar> / di_sum * lit 100 else 0)"

definition adx_update :: "adx \<Rightarrow> f64 \<times> f64 \<times> f64 \<Rightarrow> (adx \<times> adx_value option) option" where
  "adx_update d = (\<lambda>(high, low, close). do {
     (d1, result) \<leftarrow>
       (case (ax_prev_high d, ax_prev_low d, ax_prev_close d) of
          (Some ph, Some pl, Some pc) \<Rightarrow> do {
            (a, s_plus) \<leftarrow> smma_update (ax_plus d) (plus_dm (high - ph) (pl - low));
            (b, s_minus) \<leftarrow> smma_update (ax_minus d) (minus_dm (high - ph) (pl - low));
            (c, s_tr) \<leftarrow> smma_update (ax_tr d) (gap_range high low pc);
            let d1 = d\<lparr>ax_plus := a, ax_minus := b, ax_tr := c\<rparr>;
            (case (s_plus, s_minus, s_tr) of
               (Some sp, Some sm, Some st) \<Rightarrow>
                 if f64_epsilon < st then do {
                   let plus_di = sp / st * lit 100; let minus_di = sm / st * lit 100;
                   (e, v) \<leftarrow> smma_update (ax_adx d) (dx_of plus_di minus_di);
                   Some (d1\<lparr>ax_adx := e\<rparr>,
                         map_option (\<lambda>x. \<lparr>adv_adx = x, adv_plus_di = plus_di, adv_minus_di = minus_di\<rparr>) v) }
                 else Some (d1, None)
             | _ \<Rightarrow> Some (d1, None)) }
        | _ \<Rightarrow> Some (d, None));
     Some (d1\<lparr>ax_prev_high := Some high, ax_prev_low := Some low, ax_prev_close := Some close\<rparr>, result) })"

definition adx_is_ready :: "adx \<Rightarrow> bool" where "adx_is_ready d \<longleftrightarrow> smma_is_ready (ax_adx d)"

definition adx_reset :: "adx \<Rightarrow> adx" where
  "adx_reset d =
     \<lparr>ax_period = ax_period d, ax_plus = smma_reset (ax_plus d), ax_minus = smma_reset (ax_minus d),
      ax_tr = smma_reset (ax_tr d), ax_adx = smma_reset (ax_adx d),
      ax_prev_high = None, ax_prev_low = None, ax_prev_close = None\<rparr>"

definition adx_fed :: "nat \<Rightarrow> nat \<Rightarrow> adx \<Rightarrow> bool" where
  "adx_fed p k d \<longleftrightarrow> ax_period d = p \<and> smma_any p (ax_plus d) \<and> smma_any p (ax_minus d) \<and> smma_any p (ax_tr d) \<and>
     smma_any p (ax_adx d)"

interpretation adx: streaming "\<lambda>_. True" adx_update "\<lambda>d. Some (adx_reset d)" adx_new adx_fed
proof unfold_locales
  fix p k d and x :: "f64 \<times> f64 \<times> f64"
  assume d: "adx_fed p k d"
  obtain high low close where x: "x = (high, low, close)" by (cases x)
  show "\<exists>d' v. adx_update d x = Some (d', v) \<and> adx_fed p (Suc k) d'"
  proof (cases "ax_prev_high d = None \<or> ax_prev_low d = None \<or> ax_prev_close d = None")
    case True
    then show ?thesis using d x by (auto simp: adx_update_def adx_fed_def split: option.split)
  next
    case False
    then obtain ph pl pc where p: "ax_prev_high d = Some ph" "ax_prev_low d = Some pl" "ax_prev_close d = Some pc" by auto
    obtain a va where a: "smma_update (ax_plus d) (plus_dm (high - ph) (pl - low)) = Some (a, va)" "smma_any p a"
      using smma_anyD(1) d unfolding adx_fed_def by blast
    obtain b vb where b: "smma_update (ax_minus d) (minus_dm (high - ph) (pl - low)) = Some (b, vb)" "smma_any p b"
      using smma_anyD(1) d unfolding adx_fed_def by blast
    obtain c vc where c: "smma_update (ax_tr d) (gap_range high low pc) = Some (c, vc)" "smma_any p c"
      using smma_anyD(1) d unfolding adx_fed_def by blast
    have e: "\<exists>e ve. smma_update (ax_adx d) y = Some (e, ve) \<and> smma_any p e" for y
      using smma_anyD(1) d unfolding adx_fed_def by blast
    show ?thesis
    proof (cases "\<exists>sp sm st. va = Some sp \<and> vb = Some sm \<and> vc = Some st \<and> f64_epsilon < st")
      case True
      then obtain sp sm st where "va = Some sp" "vb = Some sm" "vc = Some st" "f64_epsilon < st" by blast
      moreover obtain e ve where "smma_update (ax_adx d) (dx_of (sp / st * lit 100) (sm / st * lit 100)) = Some (e, ve)"
          "smma_any p e" using e by blast
      ultimately show ?thesis using p x a b c d by (simp add: adx_update_def adx_fed_def Let_def)
    next
      case False
      then show ?thesis using p x a b c d by (auto simp: adx_update_def adx_fed_def Let_def split: option.split)
    qed
  qed
next
  fix p k d
  assume "adx_fed p k d"
  then show "\<exists>d0. adx_new p = Some d0 \<and> Some (adx_reset d) = Some d0"
    using smma_anyD(2) by (auto simp: adx_fed_def adx_new_def adx_reset_def smma_new_def)
qed (auto simp: adx_new_def adx_fed_def smma_new_any split: bind_splits)

section \<open>\<open>Vortex\<close>\<close>

record vortex_value =
  vov_plus_vi :: f64
  vov_minus_vi :: f64

record vortex =
  vo_period :: nat
  vo_buf :: "(f64 \<times> f64 \<times> f64) list"
  vo_sum_plus :: f64
  vo_sum_minus :: f64
  vo_sum_tr :: f64
  vo_prev_high :: "f64 option"
  vo_prev_low :: "f64 option"
  vo_prev_close :: "f64 option"

definition vortex_start :: "nat \<Rightarrow> vortex" where
  "vortex_start period =
     \<lparr>vo_period = period, vo_buf = [], vo_sum_plus = 0, vo_sum_minus = 0, vo_sum_tr = 0,
      vo_prev_high = None, vo_prev_low = None, vo_prev_close = None\<rparr>"

definition vortex_new :: "nat \<Rightarrow> vortex option" where
  "vortex_new period = (if 2 \<le> period then Some (vortex_start period) else None)"

definition vortex_slide :: "vortex \<Rightarrow> vortex option" where
  "vortex_slide s =
     (if length (vo_buf s) = vo_period s then
        (case vo_buf s of
           [] \<Rightarrow> None
         | (p, m, t) # rest \<Rightarrow>
             Some (s\<lparr>vo_buf := rest, vo_sum_plus := vo_sum_plus s - p, vo_sum_minus := vo_sum_minus s - m,
                     vo_sum_tr := vo_sum_tr s - t\<rparr>))
      else Some s)"

definition vortex_update :: "vortex \<Rightarrow> f64 \<times> f64 \<times> f64 \<Rightarrow> (vortex \<times> vortex_value option) option" where
  "vortex_update s0 = (\<lambda>(high, low, close). do {
     (s1, result) \<leftarrow>
       (case (vo_prev_high s0, vo_prev_low s0, vo_prev_close s0) of
          (Some ph, Some pl, Some pc) \<Rightarrow> do {
            let plus_vm = \<bar>high - pl\<bar>; let minus_vm = \<bar>low - ph\<bar>; let tr = gap_range high low pc;
            s1 \<leftarrow> vortex_slide s0;
            let s = s1\<lparr>vo_buf := vo_buf s1 @ [(plus_vm, minus_vm, tr)], vo_sum_plus := vo_sum_plus s1 + plus_vm,
                       vo_sum_minus := vo_sum_minus s1 + minus_vm, vo_sum_tr := vo_sum_tr s1 + tr\<rparr>;
            Some (s, if length (vo_buf s) = vo_period s \<and> f64_epsilon < vo_sum_tr s
                     then Some \<lparr>vov_plus_vi = vo_sum_plus s / vo_sum_tr s, vov_minus_vi = vo_sum_minus s / vo_sum_tr s\<rparr>
                     else None) }
        | _ \<Rightarrow> Some (s0, None));
     Some (s1\<lparr>vo_prev_high := Some high, vo_prev_low := Some low, vo_prev_close := Some close\<rparr>, result) })"

definition vortex_is_ready :: "vortex \<Rightarrow> bool" where "vortex_is_ready s \<longleftrightarrow> vo_period s \<le> length (vo_buf s)"

definition vortex_reset :: "vortex \<Rightarrow> vortex" where
  "vortex_reset s =
     s\<lparr>vo_buf := [], vo_sum_plus := 0, vo_sum_minus := 0, vo_sum_tr := 0,
       vo_prev_high := None, vo_prev_low := None, vo_prev_close := None\<rparr>"

definition vortex_fed :: "nat \<Rightarrow> nat \<Rightarrow> vortex \<Rightarrow> bool" where
  "vortex_fed p k s \<longleftrightarrow> 2 \<le> p \<and> vo_period s = p \<and> length (vo_buf s) \<le> p"

lemma vortex_slide_total:
  "vortex_fed p k s \<Longrightarrow> \<exists>s'. vortex_slide s = Some s' \<and> vo_period s' = p \<and> length (vo_buf s') < p"
  by (cases "vo_buf s") (auto simp: vortex_slide_def vortex_fed_def)

interpretation vortex: streaming "\<lambda>_. True" vortex_update "\<lambda>s. Some (vortex_reset s)" vortex_new vortex_fed
proof unfold_locales
  fix p k s and x :: "f64 \<times> f64 \<times> f64"
  assume s: "vortex_fed p k s"
  obtain high low close where x: "x = (high, low, close)" by (cases x)
  obtain s' where s': "vortex_slide s = Some s'" "vo_period s' = p" "length (vo_buf s') < p"
    using vortex_slide_total [OF s] by blast
  show "\<exists>s' v. vortex_update s x = Some (s', v) \<and> vortex_fed p (Suc k) s'"
  proof (cases "vo_prev_high s = None \<or> vo_prev_low s = None \<or> vo_prev_close s = None")
    case True
    then show ?thesis using s x by (auto simp: vortex_update_def vortex_fed_def split: option.split)
  next
    case False
    then show ?thesis using s s' x by (auto simp: vortex_update_def vortex_fed_def Let_def)
  qed
qed (auto simp: vortex_new_def vortex_start_def vortex_reset_def vortex_fed_def split: if_splits)

section \<open>\<open>Kdj\<close>\<close>

record roll_sma =
  rs_period :: nat
  rs_buf :: "f64 list"
  rs_sum :: f64

definition roll_sma_new :: "nat \<Rightarrow> roll_sma" where
  "roll_sma_new period = \<lparr>rs_period = period, rs_buf = [], rs_sum = 0\<rparr>"

definition roll_sma_update :: "roll_sma \<Rightarrow> f64 \<Rightarrow> roll_sma \<times> f64 option" where
  "roll_sma_update s v =
     (let b = rs_buf s @ [v]; sum = rs_sum s + v;
          s' = (if rs_period s < length b then s\<lparr>rs_buf := tl b, rs_sum := sum - hd b\<rparr> else s\<lparr>rs_buf := b, rs_sum := sum\<rparr>)
      in (s', if length (rs_buf s') = rs_period s then Some (rs_sum s' / f64_of_nat (rs_period s)) else None))"

definition roll_sma_reset :: "roll_sma \<Rightarrow> roll_sma" where
  "roll_sma_reset s = s\<lparr>rs_buf := [], rs_sum := 0\<rparr>"

abbreviation roll_sma_upd :: "(roll_sma, f64, f64) updater" where
  "roll_sma_upd \<equiv> \<lambda>s v. Some (roll_sma_update s v)"

definition roll_sma_fed :: "nat \<Rightarrow> nat \<Rightarrow> roll_sma \<Rightarrow> bool" where
  "roll_sma_fed p k s \<longleftrightarrow> rs_period s = p \<and> length (rs_buf s) = min k p"

interpretation roll_sma: timed "\<lambda>_. True" roll_sma_upd "\<lambda>s. Some (roll_sma_reset s)" "\<lambda>p. Some (roll_sma_new p)"
    roll_sma_fed "\<lambda>p. max p 1"
proof (rule timedI)
  fix p k s and x :: f64
  assume "roll_sma_fed p k s"
  then show "\<exists>s' v. Some (roll_sma_update s x) = Some (s', v) \<and> roll_sma_fed p (Suc k) s' \<and> (v = None \<longleftrightarrow> Suc k < max p 1)"
    by (auto simp: roll_sma_update_def roll_sma_fed_def Let_def min_def split: if_splits)
qed (auto simp: roll_sma_new_def roll_sma_reset_def roll_sma_fed_def)

record kdj_value =
  kdv_k :: f64
  kdv_d :: f64
  kdv_j :: f64

record kdj =
  kd_max_high :: rolling
  kd_min_low :: rolling
  kd_k_sma :: roll_sma
  kd_d_sma :: roll_sma

definition kdj_new :: "nat \<Rightarrow> nat \<Rightarrow> nat \<Rightarrow> kdj option" where
  "kdj_new period k_period d_period = do {
     mx \<leftarrow> rolling_new period; mn \<leftarrow> rolling_new period;
     Some \<lparr>kd_max_high = mx, kd_min_low = mn, kd_k_sma = roll_sma_new k_period, kd_d_sma = roll_sma_new d_period\<rparr> }"

definition kdj_rsv :: "f64 \<Rightarrow> f64 \<Rightarrow> f64 \<Rightarrow> f64" where
  "kdj_rsv close highest lowest =
     (if f64_epsilon < \<bar>highest - lowest\<bar>
      then fclamp ((close - lowest) / (highest - lowest) * lit 100) 0 (lit 100) else lit 50)"

definition kdj_update :: "kdj \<Rightarrow> f64 \<times> f64 \<times> f64 \<Rightarrow> (kdj \<times> kdj_value option) option" where
  "kdj_update s = (\<lambda>(high, low, close). do {
     let (mx, highest) = rolling_max_push (kd_max_high s) high; let (mn, lowest) = rolling_min_push (kd_min_low s) low;
     (ks, kv) \<leftarrow> feed roll_sma_upd (kd_k_sma s) (opt2 (kdj_rsv close) highest lowest);
     let k = map_option (\<lambda>v. fclamp v 0 (lit 100)) kv;
     (ds, dv) \<leftarrow> feed roll_sma_upd (kd_d_sma s) k;
     let d = map_option (\<lambda>v. fclamp v 0 (lit 100)) dv;
     Some (\<lparr>kd_max_high = mx, kd_min_low = mn, kd_k_sma = ks, kd_d_sma = ds\<rparr>,
           opt2 (\<lambda>k d. \<lparr>kdv_k = k, kdv_d = d, kdv_j = lit 3 * k - lit 2 * d\<rparr>) k d) })"

definition kdj_reset :: "kdj \<Rightarrow> kdj" where
  "kdj_reset s =
     \<lparr>kd_max_high = rolling_reset (kd_max_high s), kd_min_low = rolling_reset (kd_min_low s),
      kd_k_sma = roll_sma_reset (kd_k_sma s), kd_d_sma = roll_sma_reset (kd_d_sma s)\<rparr>"

fun kdj_fed :: "nat \<times> nat \<times> nat \<Rightarrow> nat \<Rightarrow> kdj \<Rightarrow> bool" where
  "kdj_fed (p, kp, dp) n s \<longleftrightarrow> 0 < p \<and> rolling_fed p n (kd_max_high s) \<and> rolling_fed p n (kd_min_low s) \<and>
     roll_sma_fed kp (n - (p - 1)) (kd_k_sma s) \<and> roll_sma_fed dp (n - (p + max kp 1 - 1 - 1)) (kd_d_sma s)"

lemma kdj_step:
  assumes "kdj_fed (p, kp, dp) n s"
  shows "\<exists>s' v. kdj_update s (high, low, close) = Some (s', v) \<and> kdj_fed (p, kp, dp) (Suc n) s' \<and>
    (v = None \<longleftrightarrow> Suc n < p + max kp 1 + max dp 1 - 2)"
proof -
  have p: "0 < p" using assms by simp
  obtain mx h where h: "rolling_max_push (kd_max_high s) high = (mx, h)" "rolling_fed p (Suc n) mx" "h = None \<longleftrightarrow> Suc n < p"
    using rolling_fed_push [OF p, of n "kd_max_high s"] assms unfolding rolling_max_push_def kdj_fed.simps by blast
  obtain mn l where l: "rolling_min_push (kd_min_low s) low = (mn, l)" "rolling_fed p (Suc n) mn" "l = None \<longleftrightarrow> Suc n < p"
    using rolling_fed_push [OF p, of n "kd_min_low s"] assms unfolding rolling_min_push_def kdj_fed.simps by blast
  let ?r = "opt2 (kdj_rsv close) h l"
  obtain ks kv where k: "feed roll_sma_upd (kd_k_sma s) ?r = Some (ks, kv)" "roll_sma_fed kp (Suc n - (p - 1)) ks"
      "kv = None \<longleftrightarrow> Suc n < p + max kp 1 - 1"
    using roll_sma.feed_step [of kp p n "kd_k_sma s" ?r] h(3) l(3) assms by auto
  let ?k = "map_option (\<lambda>v. fclamp v 0 (lit 100)) kv"
  have m: "Suc 0 < p + max kp (Suc 0)" "Suc 0 \<le> max dp (Suc 0)" using p max_Suc_0_pos [of kp] by (linarith, simp)
  obtain ds dv where d: "feed roll_sma_upd (kd_d_sma s) ?k = Some (ds, dv)"
      "roll_sma_fed dp (Suc n - (p + max kp 1 - 1 - 1)) ds" "dv = None \<longleftrightarrow> Suc n < p + max kp 1 + max dp 1 - 2"
    using roll_sma.feed_step [of dp "p + max kp 1 - 1" n "kd_d_sma s" ?k] k(3) assms m by (auto simp: numeral_2_eq_2)
  have "kv = None \<or> dv = None \<longleftrightarrow> Suc n < p + max kp 1 + max dp 1 - 2" using k(3) d(3) p by auto
  then show ?thesis using h l k d assms by (simp add: kdj_update_def Let_def)
qed

interpretation kdj: timed "\<lambda>_. True" kdj_update "\<lambda>s. Some (kdj_reset s)" "\<lambda>(p, kp, dp). kdj_new p kp dp" kdj_fed
    "\<lambda>(p, kp, dp). p + max kp 1 + max dp 1 - 2"
proof (rule timedI)
  fix c n s and x :: "f64 \<times> f64 \<times> f64"
  assume "kdj_fed c n s"
  then show "\<exists>s' v. kdj_update s x = Some (s', v) \<and> kdj_fed c (Suc n) s' \<and>
      (v = None \<longleftrightarrow> Suc n < (case c of (p, kp, dp) \<Rightarrow> p + max kp 1 + max dp 1 - 2))"
    using kdj_step by (cases c; cases x) (auto simp del: kdj_fed.simps)
qed (auto simp: kdj_new_def kdj_reset_def rolling_new_def rolling_fed_start rolling_start_def roll_sma.new_fed
    rolling_fed_reset roll_sma_fed_def roll_sma_new_def roll_sma_reset_def rolling_fed_def rolling_reset_def split: if_splits)

section \<open>\<open>KalmanFilter\<close>\<close>

record kalman_value =
  kav_value :: f64
  kav_velocity :: f64

record kalman =
  kf_q_pos :: f64
  kf_q_vel :: f64
  kf_r :: f64
  kf_x_hat :: f64
  kf_v_hat :: f64
  kf_p00 :: f64
  kf_p01 :: f64
  kf_p10 :: f64
  kf_p11 :: f64
  kf_initialized :: bool

definition kalman_start :: "f64 \<Rightarrow> f64 \<Rightarrow> f64 \<Rightarrow> kalman" where
  "kalman_start q_pos q_vel r =
     \<lparr>kf_q_pos = q_pos, kf_q_vel = q_vel, kf_r = r, kf_x_hat = 0, kf_v_hat = 0, kf_p00 = 1, kf_p01 = 0, kf_p10 = 0,
      kf_p11 = 1, kf_initialized = False\<rparr>"

definition kalman_new :: "f64 \<Rightarrow> f64 \<Rightarrow> f64 \<Rightarrow> kalman option" where
  "kalman_new q_pos q_vel r = (if 0 \<le> q_pos \<and> 0 \<le> q_vel \<and> 0 < r then Some (kalman_start q_pos q_vel r) else None)"

definition kalman_update :: "kalman \<Rightarrow> f64 \<Rightarrow> kalman \<times> kalman_value" where
  "kalman_update s price =
     (if \<not> kf_initialized s then
        (s\<lparr>kf_x_hat := price, kf_v_hat := 0, kf_initialized := True\<rparr>, \<lparr>kav_value = price, kav_velocity = 0\<rparr>)
      else
        let x_prior = kf_x_hat s + kf_v_hat s; v_prior = kf_v_hat s;
            p00_p = kf_p00 s + kf_p10 s + kf_p01 s + kf_p11 s + kf_q_pos s;
            p01_p = kf_p01 s + kf_p11 s; p10_p = kf_p10 s + kf_p11 s; p11_p = kf_p11 s + kf_q_vel s;
            sv = p00_p + kf_r s; k0 = p00_p / sv; k1 = p10_p / sv; y = price - x_prior;
            x_hat = x_prior + k0 * y; v_hat = v_prior + k1 * y
        in (s\<lparr>kf_x_hat := x_hat, kf_v_hat := v_hat, kf_p00 := (1 - k0) * p00_p, kf_p01 := (1 - k0) * p01_p,
              kf_p10 := - k1 * p00_p + p10_p, kf_p11 := - k1 * p01_p + p11_p\<rparr>,
            \<lparr>kav_value = x_hat, kav_velocity = v_hat\<rparr>))"

definition kalman_val :: "kalman \<Rightarrow> f64 option" where
  "kalman_val s = (if kf_initialized s then Some (kf_x_hat s) else None)"

definition kalman_velocity :: "kalman \<Rightarrow> f64 option" where
  "kalman_velocity s = (if kf_initialized s then Some (kf_v_hat s) else None)"

definition kalman_is_ready :: "kalman \<Rightarrow> bool" where "kalman_is_ready s = kf_initialized s"

definition kalman_reset :: "kalman \<Rightarrow> kalman" where
  "kalman_reset s =
     s\<lparr>kf_x_hat := 0, kf_v_hat := 0, kf_p00 := 1, kf_p01 := 0, kf_p10 := 0, kf_p11 := 1, kf_initialized := False\<rparr>"

abbreviation kalman_upd :: "(kalman, f64, kalman_value) updater" where
  "kalman_upd \<equiv> \<lambda>s x. Some (map_prod id Some (kalman_update s x))"

fun kalman_fed :: "f64 \<times> f64 \<times> f64 \<Rightarrow> nat \<Rightarrow> kalman \<Rightarrow> bool" where
  "kalman_fed (a, b, r) k s \<longleftrightarrow> 0 \<le> a \<and> 0 \<le> b \<and> 0 < r \<and> kalman_reset s = kalman_start a b r"

interpretation kalman: timed "\<lambda>_. True" kalman_upd "\<lambda>s. Some (kalman_reset s)" "\<lambda>(a, b, r). kalman_new a b r" kalman_fed
    "\<lambda>_. 1"
proof (rule timedI)
  fix c k s and x :: f64
  assume "kalman_fed c k s"
  then show "\<exists>s' v. Some (map_prod id Some (kalman_update s x)) = Some (s', v) \<and> kalman_fed c (Suc k) s' \<and> (v = None \<longleftrightarrow> Suc k < 1)"
    by (cases c) (auto simp: kalman_update_def kalman_reset_def Let_def)
qed (auto simp: kalman_new_def kalman_start_def kalman_reset_def split: if_splits)

end
