(* ===== verification/Ind_Momentum.thy ===== *)
theory Ind_Momentum
  imports Ind_Directional
begin

text \<open>
  \<open>alm-indicator/src/signal/momentum\<close>: the momentum indicators over a window of prices, \<open>Roc\<close>, \<open>Mom\<close>, \<open>Cci\<close>,
  \<open>Cmo\<close>, \<open>Dpo\<close>, \<open>Mfi\<close>, \<open>Rci\<close> with its ribbon, \<open>Fisher\<close>, \<open>Uo\<close> and \<open>Coppock\<close>, and the stateless \<open>Bop\<close>.
\<close>

section \<open>\<open>Roc\<close> and \<open>Mom\<close>\<close>

record roc =
  roc_period :: nat
  roc_buffer :: "f64 list"

definition roc_new :: "nat \<Rightarrow> roc option" where
  "roc_new period = (if 0 < period then Some \<lparr>roc_period = period, roc_buffer = []\<rparr> else None)"

definition roc_update :: "roc \<Rightarrow> f64 \<Rightarrow> roc \<times> f64 option" where
  "roc_update s close =
     (let b = push_trim (roc_period s + 1) (roc_buffer s) close; past = hd b
      in (s\<lparr>roc_buffer := b\<rparr>,
          if length b < roc_period s + 1 then None
          else if feq past 0 then Some 0 else Some ((close - past) / past * lit 100)))"

definition roc_is_ready :: "roc \<Rightarrow> bool" where "roc_is_ready s \<longleftrightarrow> roc_period s + 1 \<le> length (roc_buffer s)"
definition roc_reset :: "roc \<Rightarrow> roc" where "roc_reset s = s\<lparr>roc_buffer := []\<rparr>"

abbreviation roc_upd :: "(roc, f64, f64) updater" where "roc_upd \<equiv> \<lambda>s x. Some (roc_update s x)"

definition roc_fed :: "nat \<Rightarrow> nat \<Rightarrow> roc \<Rightarrow> bool" where
  "roc_fed p k s \<longleftrightarrow> 0 < p \<and> roc_period s = p \<and> length (roc_buffer s) = min k (p + 1)"

interpretation roc: timed "\<lambda>_. True" roc_upd "\<lambda>s. Some (roc_reset s)" roc_new roc_fed "\<lambda>p. p + 1"
proof (rule timedI)
  fix p k s and x :: f64
  assume "roc_fed p k s"
  then show "\<exists>s' v. Some (roc_update s x) = Some (s', v) \<and> roc_fed p (Suc k) s' \<and> (v = None \<longleftrightarrow> Suc k < p + 1)"
    by (auto simp: roc_update_def roc_fed_def Let_def push_lengths(2) simp flip: Suc_eq_plus1)
qed (auto simp: roc_new_def roc_reset_def roc_fed_def split: if_splits)

record mom =
  mom_period :: nat
  mom_buf :: "f64 list"

definition mom_new :: "nat \<Rightarrow> mom option" where
  "mom_new period = (if 0 < period then Some \<lparr>mom_period = period, mom_buf = []\<rparr> else None)"

definition mom_update :: "mom \<Rightarrow> f64 \<Rightarrow> mom \<times> f64 option" where
  "mom_update s price =
     (let b = push_full (mom_period s + 1) (mom_buf s) price
      in (s\<lparr>mom_buf := b\<rparr>, if length b = mom_period s + 1 then Some (price - hd b) else None))"

definition mom_is_ready :: "mom \<Rightarrow> bool" where "mom_is_ready s \<longleftrightarrow> length (mom_buf s) = mom_period s + 1"
definition mom_reset :: "mom \<Rightarrow> mom" where "mom_reset s = s\<lparr>mom_buf := []\<rparr>"

definition mom_fed :: "nat \<Rightarrow> nat \<Rightarrow> mom \<Rightarrow> bool" where
  "mom_fed p k s \<longleftrightarrow> 0 < p \<and> mom_period s = p \<and> length (mom_buf s) = min k (p + 1)"

interpretation mom: timed "\<lambda>_. True" "\<lambda>s x. Some (mom_update s x)" "\<lambda>s. Some (mom_reset s)" mom_new mom_fed "\<lambda>p. p + 1"
proof (rule timedI)
  fix p k s and x :: f64
  assume "mom_fed p k s"
  then show "\<exists>s' v. Some (mom_update s x) = Some (s', v) \<and> mom_fed p (Suc k) s' \<and> (v = None \<longleftrightarrow> Suc k < p + 1)"
    by (auto simp: mom_update_def mom_fed_def Let_def push_lengths(1) simp flip: Suc_eq_plus1)
qed (auto simp: mom_new_def mom_reset_def mom_fed_def split: if_splits)

section \<open>\<open>Cci\<close>\<close>

record cci =
  cci_period :: nat
  cci_buffer :: "f64 list"
  cci_sum :: f64

definition cci_new :: "nat \<Rightarrow> cci option" where
  "cci_new period = (if 0 < period then Some \<lparr>cci_period = period, cci_buffer = [], cci_sum = 0\<rparr> else None)"

definition cci_update :: "cci \<Rightarrow> f64 \<times> f64 \<times> f64 \<Rightarrow> cci \<times> f64 option" where
  "cci_update s = (\<lambda>(high, low, close).
     let tp = (high + low + close) / lit 3; b = cci_buffer s @ [tp]; sum = cci_sum s + tp;
         s' = (if cci_period s < length b then s\<lparr>cci_buffer := tl b, cci_sum := sum - hd b\<rparr>
               else s\<lparr>cci_buffer := b, cci_sum := sum\<rparr>);
         sma = cci_sum s' / f64_of_nat (cci_period s);
         mean_dev = fsum (map (\<lambda>x. \<bar>x - sma\<bar>) (cci_buffer s')) / f64_of_nat (cci_period s)
     in (s', if length (cci_buffer s') < cci_period s then None
             else if feq mean_dev 0 then Some 0 else Some ((tp - sma) / (lit (15 / 1000) * mean_dev))))"

definition cci_is_ready :: "cci \<Rightarrow> bool" where "cci_is_ready s \<longleftrightarrow> cci_period s \<le> length (cci_buffer s)"
definition cci_reset :: "cci \<Rightarrow> cci" where "cci_reset s = s\<lparr>cci_buffer := [], cci_sum := 0\<rparr>"

definition cci_fed :: "nat \<Rightarrow> nat \<Rightarrow> cci \<Rightarrow> bool" where
  "cci_fed p k s \<longleftrightarrow> 0 < p \<and> cci_period s = p \<and> length (cci_buffer s) = min k p"

interpretation cci: timed "\<lambda>_. True" "\<lambda>s x. Some (cci_update s x)" "\<lambda>s. Some (cci_reset s)" cci_new cci_fed "\<lambda>p. p"
proof (rule timedI)
  fix p k s and x :: "f64 \<times> f64 \<times> f64"
  assume "cci_fed p k s"
  then show "\<exists>s' v. Some (cci_update s x) = Some (s', v) \<and> cci_fed p (Suc k) s' \<and> (v = None \<longleftrightarrow> Suc k < p)"
    by (cases x) (auto simp: cci_update_def cci_fed_def Let_def min_def split: if_splits)
qed (auto simp: cci_new_def cci_reset_def cci_fed_def split: if_splits)

section \<open>\<open>Cmo\<close>\<close>

record cmo =
  cmo_period :: nat
  cmo_buf :: "(f64 \<times> f64) list"
  cmo_sum_up :: f64
  cmo_sum_down :: f64
  cmo_prev_close :: "f64 option"

definition cmo_new :: "nat \<Rightarrow> cmo option" where
  "cmo_new period =
     (if 0 < period then Some \<lparr>cmo_period = period, cmo_buf = [], cmo_sum_up = 0, cmo_sum_down = 0, cmo_prev_close = None\<rparr>
      else None)"

definition cmo_slide :: "cmo \<Rightarrow> cmo option" where
  "cmo_slide s =
     (if length (cmo_buf s) = cmo_period s then
        (case cmo_buf s of
           [] \<Rightarrow> None
         | (u, d) # rest \<Rightarrow> Some (s\<lparr>cmo_buf := rest, cmo_sum_up := cmo_sum_up s - u, cmo_sum_down := cmo_sum_down s - d\<rparr>))
      else Some s)"

definition cmo_update :: "cmo \<Rightarrow> f64 \<Rightarrow> (cmo \<times> f64 option) option" where
  "cmo_update s0 close = do {
     (s1, result) \<leftarrow>
       (case cmo_prev_close s0 of
          None \<Rightarrow> Some (s0, None)
        | Some prev \<Rightarrow> do {
            let up = fmax (close - prev) 0; let down = fmax (- (close - prev)) 0;
            s1 \<leftarrow> cmo_slide s0;
            let s = s1\<lparr>cmo_buf := cmo_buf s1 @ [(up, down)], cmo_sum_up := cmo_sum_up s1 + up,
                       cmo_sum_down := cmo_sum_down s1 + down\<rparr>;
            let tot = cmo_sum_up s + cmo_sum_down s;
            Some (s, if length (cmo_buf s) = cmo_period s then
                       Some (if tot < f64_epsilon then 0 else (cmo_sum_up s - cmo_sum_down s) / tot * lit 100)
                     else None) });
     Some (s1\<lparr>cmo_prev_close := Some close\<rparr>, result) }"

definition cmo_is_ready :: "cmo \<Rightarrow> bool" where "cmo_is_ready s \<longleftrightarrow> length (cmo_buf s) = cmo_period s"

definition cmo_reset :: "cmo \<Rightarrow> cmo" where
  "cmo_reset s = s\<lparr>cmo_buf := [], cmo_sum_up := 0, cmo_sum_down := 0, cmo_prev_close := None\<rparr>"

definition cmo_fed :: "nat \<Rightarrow> nat \<Rightarrow> cmo \<Rightarrow> bool" where
  "cmo_fed p k s \<longleftrightarrow> 0 < p \<and> cmo_period s = p \<and> length (cmo_buf s) = min (k - 1) p \<and> (cmo_prev_close s = None \<longleftrightarrow> k = 0)"

interpretation cmo: timed "\<lambda>_. True" cmo_update "\<lambda>s. Some (cmo_reset s)" cmo_new cmo_fed "\<lambda>p. p + 1"
proof (rule timedI)
  fix p k s and x :: f64
  assume "cmo_fed p k s"
  then show "\<exists>s' v. cmo_update s x = Some (s', v) \<and> cmo_fed p (Suc k) s' \<and> (v = None \<longleftrightarrow> Suc k < p + 1)"
    by (cases "cmo_prev_close s"; cases "cmo_buf s")
      (auto simp: cmo_update_def cmo_slide_def cmo_fed_def Let_def min_def split: if_splits)
qed (auto simp: cmo_new_def cmo_reset_def cmo_fed_def split: if_splits)

section \<open>\<open>Dpo\<close>\<close>

record dpo =
  dpo_period :: nat
  dpo_displacement :: nat
  dpo_buf :: "f64 list"

definition dpo_new :: "nat \<Rightarrow> dpo option" where
  "dpo_new period = (if 2 \<le> period then Some \<lparr>dpo_period = period, dpo_displacement = period div 2 + 1, dpo_buf = []\<rparr> else None)"

definition dpo_update :: "dpo \<Rightarrow> f64 \<Rightarrow> dpo \<times> f64 option" where
  "dpo_update s price =
     (let max_len = dpo_period s + dpo_displacement s; b = push_full max_len (dpo_buf s) price
      in (s\<lparr>dpo_buf := b\<rparr>,
          if length b < max_len then None
          else Some (b ! (dpo_period s - 1) - fsum (drop (dpo_displacement s) b) / f64_of_nat (dpo_period s))))"

definition dpo_is_ready :: "dpo \<Rightarrow> bool" where
  "dpo_is_ready s \<longleftrightarrow> dpo_period s + dpo_displacement s \<le> length (dpo_buf s)"

definition dpo_reset :: "dpo \<Rightarrow> dpo" where "dpo_reset s = s\<lparr>dpo_buf := []\<rparr>"

definition dpo_fed :: "nat \<Rightarrow> nat \<Rightarrow> dpo \<Rightarrow> bool" where
  "dpo_fed p k s \<longleftrightarrow> 2 \<le> p \<and> dpo_period s = p \<and> dpo_displacement s = p div 2 + 1 \<and>
     length (dpo_buf s) = min k (p + (p div 2 + 1))"

interpretation dpo: timed "\<lambda>_. True" "\<lambda>s x. Some (dpo_update s x)" "\<lambda>s. Some (dpo_reset s)" dpo_new dpo_fed
    "\<lambda>p. p + (p div 2 + 1)"
proof (rule timedI)
  fix p k s and x :: f64
  assume s: "dpo_fed p k s"
  then have "length (push_full (p + (p div 2 + 1)) (dpo_buf s) x) = min (Suc k) (p + (p div 2 + 1))"
    by (intro push_lengths) (auto simp: dpo_fed_def)
  then show "\<exists>s' v. Some (dpo_update s x) = Some (s', v) \<and> dpo_fed p (Suc k) s' \<and> (v = None \<longleftrightarrow> Suc k < p + (p div 2 + 1))"
    using s by (auto simp: dpo_update_def dpo_fed_def Let_def)
qed (auto simp: dpo_new_def dpo_reset_def dpo_fed_def split: if_splits)

section \<open>\<open>Mfi\<close>\<close>

record mfi =
  mfi_period :: nat
  mfi_prev_tp :: "f64 option"
  mfi_pos_flows :: "f64 list"
  mfi_neg_flows :: "f64 list"

definition mfi_new :: "nat \<Rightarrow> mfi option" where
  "mfi_new period =
     (if 0 < period then Some \<lparr>mfi_period = period, mfi_prev_tp = None, mfi_pos_flows = [], mfi_neg_flows = []\<rparr> else None)"

definition mfi_flows :: "f64 option \<Rightarrow> f64 \<Rightarrow> f64 \<Rightarrow> f64 \<times> f64" where
  "mfi_flows prev_tp tp mf =
     (case prev_tp of
        Some prev \<Rightarrow> if prev < tp then (mf, 0) else if tp < prev then (0, mf) else (0, 0)
      | None \<Rightarrow> (0, 0))"

definition mfi_update :: "mfi \<Rightarrow> f64 \<times> f64 \<times> f64 \<times> f64 \<Rightarrow> mfi \<times> f64 option" where
  "mfi_update s = (\<lambda>(high, low, close, volume).
     let tp = (high + low + close) / lit 3; (pos, neg) = mfi_flows (mfi_prev_tp s) tp (tp * volume);
         ps = mfi_pos_flows s @ [pos]; ns = mfi_neg_flows s @ [neg];
         s' = (if mfi_period s < length ps then s\<lparr>mfi_prev_tp := Some tp, mfi_pos_flows := tl ps, mfi_neg_flows := tl ns\<rparr>
               else s\<lparr>mfi_prev_tp := Some tp, mfi_pos_flows := ps, mfi_neg_flows := ns\<rparr>);
         pos_sum = fsum (mfi_pos_flows s'); neg_sum = fsum (mfi_neg_flows s')
     in (s', if length (mfi_pos_flows s') < mfi_period s then None
             else if feq neg_sum 0 then Some (lit 100)
             else Some (lit 100 - lit 100 / (1 + pos_sum / neg_sum))))"

definition mfi_reset :: "mfi \<Rightarrow> mfi" where
  "mfi_reset s = s\<lparr>mfi_prev_tp := None, mfi_pos_flows := [], mfi_neg_flows := []\<rparr>"

definition mfi_fed :: "nat \<Rightarrow> nat \<Rightarrow> mfi \<Rightarrow> bool" where
  "mfi_fed p k s \<longleftrightarrow> 0 < p \<and> mfi_period s = p \<and> length (mfi_pos_flows s) = min k p"

interpretation mfi: timed "\<lambda>_. True" "\<lambda>s x. Some (mfi_update s x)" "\<lambda>s. Some (mfi_reset s)" mfi_new mfi_fed "\<lambda>p. p"
proof (rule timedI)
  fix p k s and x :: "f64 \<times> f64 \<times> f64 \<times> f64"
  assume "mfi_fed p k s"
  then show "\<exists>s' v. Some (mfi_update s x) = Some (s', v) \<and> mfi_fed p (Suc k) s' \<and> (v = None \<longleftrightarrow> Suc k < p)"
    by (cases x) (auto simp: mfi_update_def mfi_fed_def Let_def min_def split: if_splits prod.split)
qed (auto simp: mfi_new_def mfi_reset_def mfi_fed_def split: if_splits)

section \<open>\<open>Bop\<close>\<close>

definition bop_update :: "unit \<Rightarrow> f64 \<times> f64 \<times> f64 \<times> f64 \<Rightarrow> unit \<times> f64 option" where
  "bop_update s = (\<lambda>(open, high, low, close).
     let range = high - low in (s, if range < f64_epsilon then None else Some ((close - open) / range)))"

interpretation bop: streaming "\<lambda>_. True" "\<lambda>s x. Some (bop_update s x)" "\<lambda>s. Some s" "\<lambda>_ :: unit. Some ()" "\<lambda>_ _ _. True"
  by unfold_locales (auto simp: bop_update_def Let_def)

section \<open>\<open>Rci\<close> and \<open>RciRibbon\<close>\<close>

record rci =
  rci_period :: nat
  rci_buf :: "f64 list"

definition rci_new :: "nat \<Rightarrow> rci option" where
  "rci_new period = (if 2 \<le> period then Some \<lparr>rci_period = period, rci_buf = []\<rparr> else None)"

text \<open>The stable sort by descending price.\<close>

fun insert_desc :: "nat \<times> f64 \<Rightarrow> (nat \<times> f64) list \<Rightarrow> (nat \<times> f64) list" where
  "insert_desc x [] = [x]"
| "insert_desc x (y # ys) = (if snd x < snd y then y # insert_desc x ys else x # y # ys)"

definition price_ranks :: "f64 list \<Rightarrow> nat list" where
  "price_ranks buf =
     foldl (\<lambda>ranks (rank, i, _). ranks[i := rank + 1]) (replicate (length buf) 0)
       (enumerate 0 (foldr insert_desc (enumerate 0 buf) []))"

definition rci_compute :: "f64 list \<Rightarrow> f64" where
  "rci_compute buf =
     (let m = length buf; ranks = price_ranks buf;
          sum_d_sq = fsum (map (\<lambda>i. let d = f64_of_nat (m - i) - f64_of_nat (ranks ! i) in d * d) [0..<m]);
          n = f64_of_nat m
      in fclamp ((1 - lit 6 * sum_d_sq / (n * n * n - n)) * lit 100) (lit (- 100)) (lit 100))"

definition rci_update :: "rci \<Rightarrow> f64 \<Rightarrow> rci \<times> f64 option" where
  "rci_update s price =
     (let b = push_full (rci_period s) (rci_buf s) price
      in (s\<lparr>rci_buf := b\<rparr>, if length b < rci_period s then None else Some (rci_compute b)))"

definition rci_is_ready :: "rci \<Rightarrow> bool" where "rci_is_ready s \<longleftrightarrow> rci_period s \<le> length (rci_buf s)"
definition rci_reset :: "rci \<Rightarrow> rci" where "rci_reset s = s\<lparr>rci_buf := []\<rparr>"

definition rci_fed :: "nat \<Rightarrow> nat \<Rightarrow> rci \<Rightarrow> bool" where
  "rci_fed p k s \<longleftrightarrow> 2 \<le> p \<and> rci_period s = p \<and> length (rci_buf s) = min k p"

interpretation rci: timed "\<lambda>_. True" "\<lambda>s x. Some (rci_update s x)" "\<lambda>s. Some (rci_reset s)" rci_new rci_fed "\<lambda>p. p"
proof (rule timedI)
  fix p k s and x :: f64
  assume "rci_fed p k s"
  then show "\<exists>s' v. Some (rci_update s x) = Some (s', v) \<and> rci_fed p (Suc k) s' \<and> (v = None \<longleftrightarrow> Suc k < p)"
    by (auto simp: rci_update_def rci_fed_def Let_def push_lengths(1))
qed (auto simp: rci_new_def rci_reset_def rci_fed_def split: if_splits)

record rci_ribbon =
  rr_short :: rci
  rr_medium :: rci
  rr_long :: rci

definition rci_ribbon_new :: "nat \<Rightarrow> nat \<Rightarrow> nat \<Rightarrow> rci_ribbon option" where
  "rci_ribbon_new short_period medium_period long_period = do {
     a \<leftarrow> rci_new short_period; b \<leftarrow> rci_new medium_period; c \<leftarrow> rci_new long_period;
     Some \<lparr>rr_short = a, rr_medium = b, rr_long = c\<rparr> }"

definition rci_ribbon_update :: "rci_ribbon \<Rightarrow> f64 \<Rightarrow> rci_ribbon \<times> (f64 \<times> f64 \<times> f64) option" where
  "rci_ribbon_update r price =
     (let (a, s) = rci_update (rr_short r) price; (b, m) = rci_update (rr_medium r) price;
          (c, l) = rci_update (rr_long r) price
      in (\<lparr>rr_short = a, rr_medium = b, rr_long = c\<rparr>, opt2 (\<lambda>sv (mv, lv). (sv, mv, lv)) s (opt2 Pair m l)))"

definition rci_ribbon_reset :: "rci_ribbon \<Rightarrow> rci_ribbon" where
  "rci_ribbon_reset r =
     \<lparr>rr_short = rci_reset (rr_short r), rr_medium = rci_reset (rr_medium r), rr_long = rci_reset (rr_long r)\<rparr>"

fun rci_ribbon_fed :: "nat \<times> nat \<times> nat \<Rightarrow> nat \<Rightarrow> rci_ribbon \<Rightarrow> bool" where
  "rci_ribbon_fed (a, b, c) k r \<longleftrightarrow> rci_fed a k (rr_short r) \<and> rci_fed b k (rr_medium r) \<and> rci_fed c k (rr_long r)"

interpretation rci_ribbon: timed "\<lambda>_. True" "\<lambda>r x. Some (rci_ribbon_update r x)" "\<lambda>r. Some (rci_ribbon_reset r)"
    "\<lambda>(a, b, c). rci_ribbon_new a b c" rci_ribbon_fed "\<lambda>(a, b, c). max a (max b c)"
proof (rule timedI)
  fix p k r and x :: f64
  assume "rci_ribbon_fed p k r"
  then show "\<exists>r' v. Some (rci_ribbon_update r x) = Some (r', v) \<and> rci_ribbon_fed p (Suc k) r' \<and>
      (v = None \<longleftrightarrow> Suc k < (case p of (a, b, c) \<Rightarrow> max a (max b c)))"
    by (cases p) (auto simp: rci_ribbon_update_def rci_update_def rci_fed_def Let_def push_lengths(1) less_max_iff_disj)
qed (auto simp: rci_ribbon_new_def rci_ribbon_reset_def rci_new_def rci_reset_def rci_fed_def split: if_splits)

section \<open>\<open>Fisher\<close>\<close>

record fisher_value =
  fiv_fisher :: f64
  fiv_signal :: f64

record fisher =
  fi_period :: nat
  fi_buf :: "f64 list"
  fi_prev_value :: f64
  fi_prev_fisher :: f64

definition fisher_new :: "nat \<Rightarrow> fisher option" where
  "fisher_new period =
     (if 2 \<le> period then Some \<lparr>fi_period = period, fi_buf = [], fi_prev_value = 0, fi_prev_fisher = 0\<rparr> else None)"

definition fisher_update :: "libm \<Rightarrow> fisher \<Rightarrow> f64 \<times> f64 \<Rightarrow> fisher \<times> fisher_value option" where
  "fisher_update lm s = (\<lambda>(high, low).
     let midpoint = (high + low) / lit 2; b = push_full (fi_period s) (fi_buf s) midpoint; s1 = s\<lparr>fi_buf := b\<rparr>
     in if length b < fi_period s then (s1, None)
        else
          let hh = fold_max b; ll = fold_min b; range = hh - ll;
              raw = (if range < f64_epsilon then 0 else lit 2 * (midpoint - ll) / range - 1);
              v = fclamp (lit (33 / 100) * raw + lit (67 / 100) * fi_prev_value s) (lit (- 999 / 1000)) (lit (999 / 1000));
              fisher = lit (1 / 2) * lm_ln lm ((1 + v) / (1 - v)) + lit (1 / 2) * fi_prev_fisher s
          in (s1\<lparr>fi_prev_value := v, fi_prev_fisher := fisher\<rparr>,
              Some \<lparr>fiv_fisher = fisher, fiv_signal = fi_prev_fisher s\<rparr>))"

definition fisher_is_ready :: "fisher \<Rightarrow> bool" where "fisher_is_ready s \<longleftrightarrow> fi_period s \<le> length (fi_buf s)"

definition fisher_reset :: "fisher \<Rightarrow> fisher" where
  "fisher_reset s = s\<lparr>fi_buf := [], fi_prev_value := 0, fi_prev_fisher := 0\<rparr>"

definition fisher_fed :: "nat \<Rightarrow> nat \<Rightarrow> fisher \<Rightarrow> bool" where
  "fisher_fed p k s \<longleftrightarrow> 2 \<le> p \<and> fi_period s = p \<and> length (fi_buf s) = min k p"

interpretation fisher: timed "\<lambda>_. True" "\<lambda>s x. Some (fisher_update lm s x)" "\<lambda>s. Some (fisher_reset s)" fisher_new fisher_fed "\<lambda>p. p"
  for lm
proof (rule timedI)
  fix p k s and x :: "f64 \<times> f64"
  assume s: "fisher_fed p k s"
  then have "length (push_full p (fi_buf s) y) = min (Suc k) p" for y by (intro push_lengths) (auto simp: fisher_fed_def)
  with s show "\<exists>s' v. Some (fisher_update lm s x) = Some (s', v) \<and> fisher_fed p (Suc k) s' \<and> (v = None \<longleftrightarrow> Suc k < p)"
    by (cases x) (auto simp: fisher_update_def fisher_fed_def Let_def)
qed (auto simp: fisher_new_def fisher_reset_def fisher_fed_def split: if_splits)

section \<open>\<open>Uo\<close>\<close>

record uo =
  uo_fast :: nat
  uo_medium :: nat
  uo_slow :: nat
  uo_buf :: "(f64 \<times> f64) list"
  uo_sum_bp :: f64
  uo_sum_tr :: f64
  uo_prev_close :: "f64 option"

definition uo_start :: "nat \<Rightarrow> nat \<Rightarrow> nat \<Rightarrow> uo" where
  "uo_start fast medium slow =
     \<lparr>uo_fast = fast, uo_medium = medium, uo_slow = slow, uo_buf = [], uo_sum_bp = 0, uo_sum_tr = 0, uo_prev_close = None\<rparr>"

definition uo_new :: "nat \<Rightarrow> nat \<Rightarrow> nat \<Rightarrow> uo option" where
  "uo_new fast medium slow = (if fast < medium \<and> medium < slow then Some (uo_start fast medium slow) else None)"

definition uo_slide :: "uo \<Rightarrow> uo option" where
  "uo_slide s =
     (if length (uo_buf s) = uo_slow s then
        (case uo_buf s of
           [] \<Rightarrow> None
         | (b, t) # rest \<Rightarrow> Some (s\<lparr>uo_buf := rest, uo_sum_bp := uo_sum_bp s - b, uo_sum_tr := uo_sum_tr s - t\<rparr>))
      else Some s)"

definition uo_sums :: "nat \<Rightarrow> (f64 \<times> f64) list \<Rightarrow> f64 \<times> f64" where
  "uo_sums n buf = foldl (\<lambda>(sb, st) (b, t). (sb + b, st + t)) (0, 0) (drop (length buf - n) buf)"

definition uo_of :: "uo \<Rightarrow> f64" where
  "uo_of s =
     (let (bp_fast, tr_fast) = uo_sums (uo_fast s) (uo_buf s); (bp_med, tr_med) = uo_sums (uo_medium s) (uo_buf s)
      in if tr_fast < f64_epsilon \<or> tr_med < f64_epsilon \<or> uo_sum_tr s < f64_epsilon then lit 50
         else lit 100 * (lit 4 * (bp_fast / tr_fast) + lit 2 * (bp_med / tr_med) + uo_sum_bp s / uo_sum_tr s) / lit 7)"

definition uo_update :: "uo \<Rightarrow> f64 \<times> f64 \<times> f64 \<Rightarrow> (uo \<times> f64 option) option" where
  "uo_update s0 = (\<lambda>(high, low, close). do {
     let pc = (case uo_prev_close s0 of Some c \<Rightarrow> c | None \<Rightarrow> close);
     let min_lc = fmin low pc; let bp = close - min_lc; let tr = fmax high pc - min_lc;
     s1 \<leftarrow> uo_slide s0;
     let s = s1\<lparr>uo_buf := uo_buf s1 @ [(bp, tr)], uo_sum_bp := uo_sum_bp s1 + bp, uo_sum_tr := uo_sum_tr s1 + tr,
                uo_prev_close := Some close\<rparr>;
     Some (s, if length (uo_buf s) < uo_slow s then None else Some (uo_of s)) })"

definition uo_is_ready :: "uo \<Rightarrow> bool" where "uo_is_ready s \<longleftrightarrow> uo_slow s \<le> length (uo_buf s)"

definition uo_reset :: "uo \<Rightarrow> uo" where
  "uo_reset s = s\<lparr>uo_buf := [], uo_sum_bp := 0, uo_sum_tr := 0, uo_prev_close := None\<rparr>"

fun uo_fed :: "nat \<times> nat \<times> nat \<Rightarrow> nat \<Rightarrow> uo \<Rightarrow> bool" where
  "uo_fed (f, m, l) k s \<longleftrightarrow> f < m \<and> m < l \<and> uo_fast s = f \<and> uo_medium s = m \<and> uo_slow s = l \<and> length (uo_buf s) = min k l"

interpretation uo: timed "\<lambda>_. True" uo_update "\<lambda>s. Some (uo_reset s)" "\<lambda>(f, m, l). uo_new f m l" uo_fed "\<lambda>(f, m, l). l"
proof (rule timedI)
  fix c k s and x :: "f64 \<times> f64 \<times> f64"
  assume "uo_fed c k s"
  then show "\<exists>s' v. uo_update s x = Some (s', v) \<and> uo_fed c (Suc k) s' \<and> (v = None \<longleftrightarrow> Suc k < (case c of (f, m, l) \<Rightarrow> l))"
    by (cases c; cases x; cases "uo_buf s") (auto simp: uo_update_def uo_slide_def Let_def min_def split: if_splits)
qed (auto simp: uo_new_def uo_start_def uo_reset_def split: if_splits)

section \<open>\<open>Coppock\<close>\<close>

record coppock =
  co_short_period :: nat
  co_long_period :: nat
  co_wma_period :: nat
  co_short_buf :: "f64 list"
  co_long_buf :: "f64 list"
  co_sum_buf :: "f64 list"

definition coppock_new :: "nat \<Rightarrow> nat \<Rightarrow> nat \<Rightarrow> coppock option" where
  "coppock_new short_period long_period wma_len =
     (if short_period < long_period \<and> 0 < wma_len then
        Some \<lparr>co_short_period = short_period, co_long_period = long_period, co_wma_period = wma_len,
              co_short_buf = [], co_long_buf = [], co_sum_buf = []\<rparr>
      else None)"

definition roc_pct :: "f64 \<Rightarrow> f64 \<Rightarrow> f64" where
  "roc_pct price oldest = (if f64_epsilon < \<bar>oldest\<bar> then (price / oldest - 1) * lit 100 else 0)"

definition coppock_wma :: "nat \<Rightarrow> f64 list \<Rightarrow> f64" where
  "coppock_wma wma_len b =
     (let n = f64_of_nat wma_len
      in fsum (map (\<lambda>(i, v). v * (f64_of_nat i + 1)) (enumerate 0 b)) / (n * (n + 1) / lit 2))"

definition coppock_update :: "coppock \<Rightarrow> f64 \<Rightarrow> coppock \<times> f64 option" where
  "coppock_update s price =
     (let sb = push_full (co_short_period s + 1) (co_short_buf s) price;
          lb = push_full (co_long_period s + 1) (co_long_buf s) price;
          s1 = s\<lparr>co_short_buf := sb, co_long_buf := lb\<rparr>
      in if length sb < co_short_period s + 1 \<or> length lb < co_long_period s + 1 then (s1, None)
         else
           let combined = roc_pct price (hd sb) + roc_pct price (hd lb);
               b = push_full (co_wma_period s) (co_sum_buf s) combined
           in (s1\<lparr>co_sum_buf := b\<rparr>, if length b < co_wma_period s then None else Some (coppock_wma (co_wma_period s) b)))"

definition coppock_is_ready :: "coppock \<Rightarrow> bool" where
  "coppock_is_ready s \<longleftrightarrow> co_wma_period s \<le> length (co_sum_buf s) \<and> co_long_period s + 1 \<le> length (co_long_buf s)"

definition coppock_reset :: "coppock \<Rightarrow> coppock" where
  "coppock_reset s = s\<lparr>co_short_buf := [], co_long_buf := [], co_sum_buf := []\<rparr>"

fun coppock_fed :: "nat \<times> nat \<times> nat \<Rightarrow> nat \<Rightarrow> coppock \<Rightarrow> bool" where
  "coppock_fed (a, b, w) k s \<longleftrightarrow> a < b \<and> 0 < w \<and> co_short_period s = a \<and> co_long_period s = b \<and> co_wma_period s = w \<and>
     length (co_short_buf s) = min k (Suc a) \<and> length (co_long_buf s) = min k (Suc b) \<and>
     length (co_sum_buf s) = min (k - b) w"

interpretation coppock: timed "\<lambda>_. True" "\<lambda>s x. Some (coppock_update s x)" "\<lambda>s. Some (coppock_reset s)"
    "\<lambda>(a, b, w). coppock_new a b w" coppock_fed "\<lambda>(a, b, w). b + w"
proof (rule timedI)
  fix c k s and x :: f64
  assume s: "coppock_fed c k s"
  obtain a b w where c: "c = (a, b, w)" by (cases c)
  have "length (push_full (Suc a) (co_short_buf s) x) = min (Suc k) (Suc a)"
    "length (push_full (Suc b) (co_long_buf s) x) = min (Suc k) (Suc b)"
    "length (push_full w (co_sum_buf s) y) = min (Suc (k - b)) w" for y
    by (rule push_lengths(1); use s c in simp)+
  then show "\<exists>s' v. Some (coppock_update s x) = Some (s', v) \<and> coppock_fed c (Suc k) s' \<and>
      (v = None \<longleftrightarrow> Suc k < (case c of (a, b, w) \<Rightarrow> b + w))"
    using s c by (auto simp: coppock_update_def Let_def Suc_diff_le)
qed (auto simp: coppock_new_def coppock_reset_def split: if_splits)

end
