(* ===== verification/Ind_Momentum2.thy ===== *)
theory Ind_Momentum2
  imports Ind_Momentum
begin

text \<open>
  \<open>alm-indicator/src/signal/momentum\<close>, continued: the momentum indicators composed of averages, \<open>Stochastic\<close>,
  \<open>Tsi\<close>, \<open>BullBearPower\<close>, \<open>Kst\<close>, \<open>Pmo\<close>, \<open>Ppo\<close>, \<open>Rvi\<close>, \<open>Smi\<close>, \<open>ConnorsRsi\<close> and \<open>AwesomeOscillator\<close>.
\<close>

section \<open>\<open>Stochastic\<close>\<close>

record stoch_value =
  stv_k :: f64
  stv_d :: f64

record stochastic =
  st_max_high :: rolling
  st_min_low :: rolling
  st_k_smooth :: sma
  st_d_smooth :: sma

definition stochastic_new_full :: "nat \<Rightarrow> nat \<Rightarrow> nat \<Rightarrow> stochastic option" where
  "stochastic_new_full k_period smooth_k d_period = do {
     mx \<leftarrow> rolling_new k_period; mn \<leftarrow> rolling_new k_period; ks \<leftarrow> sma_new (max smooth_k 1); ds \<leftarrow> sma_new d_period;
     Some \<lparr>st_max_high = mx, st_min_low = mn, st_k_smooth = ks, st_d_smooth = ds\<rparr> }"

definition stochastic_new :: "nat \<Rightarrow> nat \<Rightarrow> stochastic option" where
  "stochastic_new k_period d_period = stochastic_new_full k_period 1 d_period"

definition stochastic_raw :: "f64 \<Rightarrow> f64 \<Rightarrow> f64 \<Rightarrow> f64" where
  "stochastic_raw close highest lowest =
     (let range = highest - lowest
      in if f64_epsilon < range then fclamp ((close - lowest) / range * lit 100) 0 (lit 100) else lit 50)"

definition stochastic_update :: "stochastic \<Rightarrow> f64 \<times> f64 \<times> f64 \<Rightarrow> (stochastic \<times> stoch_value option) option" where
  "stochastic_update s = (\<lambda>(high, low, close). do {
     let (mx, highest) = rolling_max_push (st_max_high s) high; let (mn, lowest) = rolling_min_push (st_min_low s) low;
     (ks, kv) \<leftarrow> feed sma_update (st_k_smooth s) (opt2 (stochastic_raw close) highest lowest);
     let k = map_option (\<lambda>v. fclamp v 0 (lit 100)) kv;
     (ds, dv) \<leftarrow> feed sma_update (st_d_smooth s) k;
     Some (\<lparr>st_max_high = mx, st_min_low = mn, st_k_smooth = ks, st_d_smooth = ds\<rparr>,
           opt2 (\<lambda>k d. \<lparr>stv_k = k, stv_d = fclamp d 0 (lit 100)\<rparr>) k dv) })"

definition stochastic_is_ready :: "stochastic \<Rightarrow> bool" where "stochastic_is_ready s = sma_is_ready (st_d_smooth s)"

definition stochastic_reset :: "stochastic \<Rightarrow> stochastic" where
  "stochastic_reset s =
     \<lparr>st_max_high = rolling_reset (st_max_high s), st_min_low = rolling_reset (st_min_low s),
      st_k_smooth = sma_reset (st_k_smooth s), st_d_smooth = sma_reset (st_d_smooth s)\<rparr>"

fun stochastic_fed :: "nat \<times> nat \<times> nat \<Rightarrow> nat \<Rightarrow> stochastic \<Rightarrow> bool" where
  "stochastic_fed (p, sk, dp) n s \<longleftrightarrow> 0 < p \<and> 0 < dp \<and> rolling_fed p n (st_max_high s) \<and> rolling_fed p n (st_min_low s) \<and>
     sma_fed (max sk 1) (n - (p - 1)) (st_k_smooth s) \<and> sma_fed dp (n - (p + max sk 1 - 1 - 1)) (st_d_smooth s)"

lemma stochastic_step:
  assumes "stochastic_fed (p, sk, dp) n s"
  shows "\<exists>s' v. stochastic_update s (high, low, close) = Some (s', v) \<and> stochastic_fed (p, sk, dp) (Suc n) s' \<and>
    (v = None \<longleftrightarrow> Suc n < p + max sk 1 + dp - 2)"
proof -
  have p: "0 < p" "0 < dp" using assms by simp_all
  obtain mx h where h: "rolling_max_push (st_max_high s) high = (mx, h)" "rolling_fed p (Suc n) mx" "h = None \<longleftrightarrow> Suc n < p"
    using rolling_fed_push [OF p(1), of n "st_max_high s"] assms unfolding rolling_max_push_def stochastic_fed.simps by blast
  obtain mn l where l: "rolling_min_push (st_min_low s) low = (mn, l)" "rolling_fed p (Suc n) mn" "l = None \<longleftrightarrow> Suc n < p"
    using rolling_fed_push [OF p(1), of n "st_min_low s"] assms unfolding rolling_min_push_def stochastic_fed.simps by blast
  let ?r = "opt2 (stochastic_raw close) h l"
  obtain ks kv where k: "feed sma_update (st_k_smooth s) ?r = Some (ks, kv)" "sma_fed (max sk 1) (Suc n - (p - 1)) ks"
      "kv = None \<longleftrightarrow> Suc n < p + max sk 1 - 1"
    using sma.feed_step [of "max sk 1" p n "st_k_smooth s" ?r] h(3) l(3) assms by auto
  let ?k = "map_option (\<lambda>v. fclamp v 0 (lit 100)) kv"
  have m: "Suc 0 < p + max sk (Suc 0)" using p max_Suc_0_pos [of sk] by linarith
  obtain ds dv where d: "feed sma_update (st_d_smooth s) ?k = Some (ds, dv)"
      "sma_fed dp (Suc n - (p + max sk 1 - 1 - 1)) ds" "dv = None \<longleftrightarrow> Suc n < p + max sk 1 + dp - 2"
    using sma.feed_step [of dp "p + max sk 1 - 1" n "st_d_smooth s" ?k] k(3) assms m by (auto simp: numeral_2_eq_2)
  have "kv = None \<or> dv = None \<longleftrightarrow> Suc n < p + max sk 1 + dp - 2" using k(3) d(3) p by auto
  then show ?thesis using h l k d assms by (simp add: stochastic_update_def Let_def)
qed

interpretation stochastic: timed "\<lambda>_. True" stochastic_update "\<lambda>s. Some (stochastic_reset s)"
    "\<lambda>(p, sk, dp). stochastic_new_full p sk dp" stochastic_fed "\<lambda>(p, sk, dp). p + max sk 1 + dp - 2"
proof (rule timedI)
  fix c n s and x :: "f64 \<times> f64 \<times> f64"
  assume "stochastic_fed c n s"
  then show "\<exists>s' v. stochastic_update s x = Some (s', v) \<and> stochastic_fed c (Suc n) s' \<and>
      (v = None \<longleftrightarrow> Suc n < (case c of (p, sk, dp) \<Rightarrow> p + max sk 1 + dp - 2))"
    using stochastic_step by (cases c; cases x) (auto simp del: stochastic_fed.simps)
qed (auto simp: stochastic_new_full_def stochastic_reset_def rolling_new_def rolling_fed_def rolling_reset_def sma_new_def
    sma_start_def sma_fed_def sma_reset_def split: if_splits)

section \<open>\<open>Tsi\<close>\<close>

record tsi =
  ts_first :: nat
  ts_second :: nat
  ts_prev_close :: "f64 option"
  ts_ema1_pc :: ema
  ts_ema2_pc :: ema
  ts_ema1_apc :: ema
  ts_ema2_apc :: ema
  ts_value :: "f64 option"

definition tsi_new :: "nat \<Rightarrow> nat \<Rightarrow> tsi option" where
  "tsi_new first second =
     (if 0 < first \<and> 0 < second then do {
        a \<leftarrow> ema_new first; b \<leftarrow> ema_new second; c \<leftarrow> ema_new first; d \<leftarrow> ema_new second;
        Some \<lparr>ts_first = first, ts_second = second, ts_prev_close = None, ts_ema1_pc = a, ts_ema2_pc = b,
              ts_ema1_apc = c, ts_ema2_apc = d, ts_value = None\<rparr> }
      else None)"

definition tsi_of :: "f64 \<Rightarrow> f64 \<Rightarrow> f64" where
  "tsi_of pcds apcds = (if \<bar>apcds\<bar> < f64_epsilon then 0 else pcds / apcds * lit 100)"

definition tsi_update :: "tsi \<Rightarrow> f64 \<Rightarrow> (tsi \<times> f64 option) option" where
  "tsi_update t close = do {
     let pc = map_option (\<lambda>prev. close - prev) (ts_prev_close t);
     (a, v1) \<leftarrow> feed ema_update (ts_ema1_pc t) pc;
     (c, w1) \<leftarrow> feed ema_update (ts_ema1_apc t) (map_option abs pc);
     let stage = opt2 Pair v1 w1;
     (b, pcds) \<leftarrow> feed ema_update (ts_ema2_pc t) (map_option fst stage);
     (d, apcds) \<leftarrow> feed ema_update (ts_ema2_apc t) (map_option snd stage);
     let v = opt2 tsi_of pcds apcds;
     Some (t\<lparr>ts_prev_close := Some close, ts_ema1_pc := a, ts_ema1_apc := c, ts_ema2_pc := b, ts_ema2_apc := d,
             ts_value := (if v = None then ts_value t else v)\<rparr>, v) }"

definition tsi_val :: "tsi \<Rightarrow> f64 option" where "tsi_val t = ts_value t"
definition tsi_is_ready :: "tsi \<Rightarrow> bool" where "tsi_is_ready t \<longleftrightarrow> ts_value t \<noteq> None"

definition tsi_reset :: "tsi \<Rightarrow> tsi option" where
  "tsi_reset t = do {
     a \<leftarrow> ema_new (ts_first t); b \<leftarrow> ema_new (ts_second t); c \<leftarrow> ema_new (ts_first t); d \<leftarrow> ema_new (ts_second t);
     Some (t\<lparr>ts_prev_close := None, ts_ema1_pc := a, ts_ema2_pc := b, ts_ema1_apc := c, ts_ema2_apc := d, ts_value := None\<rparr>) }"

fun tsi_fed :: "nat \<times> nat \<Rightarrow> nat \<Rightarrow> tsi \<Rightarrow> bool" where
  "tsi_fed (f, g) k t \<longleftrightarrow> 0 < f \<and> 0 < g \<and> ts_first t = f \<and> ts_second t = g \<and> (ts_prev_close t = None \<longleftrightarrow> k = 0) \<and>
     ema_fed f (k - (2 - 1)) (ts_ema1_pc t) \<and> ema_fed f (k - (2 - 1)) (ts_ema1_apc t) \<and>
     ema_fed g (k - (Suc f - 1)) (ts_ema2_pc t) \<and> ema_fed g (k - (Suc f - 1)) (ts_ema2_apc t)"

lemma tsi_step:
  assumes "tsi_fed (f, g) k t"
  shows "\<exists>t' v. tsi_update t x = Some (t', v) \<and> tsi_fed (f, g) (Suc k) t' \<and> (v = None \<longleftrightarrow> Suc k < f + g)"
proof -
  have fg: "0 < f" "0 < g" using assms by simp_all
  let ?pc = "map_option (\<lambda>prev. x - prev) (ts_prev_close t)"
  obtain a v1 where a: "feed ema_update (ts_ema1_pc t) ?pc = Some (a, v1)" "ema_fed f (Suc k - (2 - 1)) a" "v1 = None \<longleftrightarrow> Suc k < Suc f"
    using ema.feed_step [of f 2 k "ts_ema1_pc t" ?pc] assms by auto
  obtain c w1 where c: "feed ema_update (ts_ema1_apc t) (map_option abs ?pc) = Some (c, w1)" "ema_fed f (Suc k - (2 - 1)) c"
      "w1 = None \<longleftrightarrow> Suc k < Suc f"
    using ema.feed_step [of f 2 k "ts_ema1_apc t" "map_option abs ?pc"] assms by auto
  let ?st = "opt2 Pair v1 w1"
  obtain b v2 where b: "feed ema_update (ts_ema2_pc t) (map_option fst ?st) = Some (b, v2)"
      "ema_fed g (Suc k - (Suc f - 1)) b" "v2 = None \<longleftrightarrow> Suc k < f + g"
    using ema.feed_step [of g "Suc f" k "ts_ema2_pc t" "map_option fst ?st"] a(3) c(3) assms by auto
  obtain d w2 where d: "feed ema_update (ts_ema2_apc t) (map_option snd ?st) = Some (d, w2)"
      "ema_fed g (Suc k - (Suc f - 1)) d" "w2 = None \<longleftrightarrow> Suc k < f + g"
    using ema.feed_step [of g "Suc f" k "ts_ema2_apc t" "map_option snd ?st"] a(3) c(3) assms by auto
  then show ?thesis using a b c assms by (auto simp: tsi_update_def Let_def)
qed

interpretation tsi: timed "\<lambda>_. True" tsi_update tsi_reset "\<lambda>(f, g). tsi_new f g" tsi_fed "\<lambda>(f, g). f + g"
proof (rule timedI)
  fix c k t and x :: f64
  assume "tsi_fed c k t"
  then show "\<exists>t' v. tsi_update t x = Some (t', v) \<and> tsi_fed c (Suc k) t' \<and> (v = None \<longleftrightarrow> Suc k < (case c of (f, g) \<Rightarrow> f + g))"
    using tsi_step by (cases c) (auto simp del: tsi_fed.simps)
qed (auto simp: tsi_new_def tsi_reset_def ema_new_def ema_fed_start split: if_splits)

section \<open>\<open>BullBearPower\<close>\<close>

record bull_bear_value =
  bbv_bull :: f64
  bbv_bear :: f64
  bbv_ema :: f64

record bull_bear =
  bb_ema :: ema

definition bull_bear_new :: "nat \<Rightarrow> bull_bear option" where
  "bull_bear_new period = map_option (\<lambda>e. \<lparr>bb_ema = e\<rparr>) (ema_new period)"

definition bull_bear_update :: "bull_bear \<Rightarrow> f64 \<times> f64 \<times> f64 \<Rightarrow> (bull_bear \<times> bull_bear_value option) option" where
  "bull_bear_update s = (\<lambda>(high, low, close).
     map_option (\<lambda>(e, v). (\<lparr>bb_ema = e\<rparr>, map_option (\<lambda>x. \<lparr>bbv_bull = high - x, bbv_bear = low - x, bbv_ema = x\<rparr>) v))
       (ema_update (bb_ema s) close))"

definition bull_bear_is_ready :: "bull_bear \<Rightarrow> bool" where "bull_bear_is_ready s = ema_is_ready (bb_ema s)"
definition bull_bear_reset :: "bull_bear \<Rightarrow> bull_bear" where "bull_bear_reset s = \<lparr>bb_ema = ema_reset (bb_ema s)\<rparr>"

interpretation bull_bear: timed "\<lambda>_. True" bull_bear_update "\<lambda>s. Some (bull_bear_reset s)" bull_bear_new
    "\<lambda>p k s. 0 < p \<and> ema_fed p k (bb_ema s)" "\<lambda>p. p"
proof (rule timedI)
  fix p k and s :: bull_bear and x :: "f64 \<times> f64 \<times> f64"
  assume "0 < p \<and> ema_fed p k (bb_ema s)"
  then show "\<exists>s' v. bull_bear_update s x = Some (s', v) \<and> (0 < p \<and> ema_fed p (Suc k) (bb_ema s')) \<and> (v = None \<longleftrightarrow> Suc k < p)"
    using ema_fed_update [of p k "bb_ema s" "snd (snd x)"] by (cases x) (auto simp: bull_bear_update_def)
qed (auto simp: bull_bear_new_def bull_bear_reset_def ema_new_def ema_fed_start ema_fed_reset split: if_splits)

section \<open>\<open>Kst\<close>\<close>

record kst =
  ks_roc1 :: roc
  ks_sma1 :: sma
  ks_roc2 :: roc
  ks_sma2 :: sma
  ks_roc3 :: roc
  ks_sma3 :: sma
  ks_roc4 :: roc
  ks_sma4 :: sma
  ks_signal :: sma

definition kst_new :: "nat \<times> nat \<times> nat \<times> nat \<Rightarrow> nat \<times> nat \<times> nat \<times> nat \<Rightarrow> nat \<Rightarrow> kst option" where
  "kst_new = (\<lambda>(a1, a2, a3, a4) (b1, b2, b3, b4) signal_period. do {
     r1 \<leftarrow> roc_new a1; s1 \<leftarrow> sma_new b1; r2 \<leftarrow> roc_new a2; s2 \<leftarrow> sma_new b2;
     r3 \<leftarrow> roc_new a3; s3 \<leftarrow> sma_new b3; r4 \<leftarrow> roc_new a4; s4 \<leftarrow> sma_new b4; g \<leftarrow> sma_new signal_period;
     Some \<lparr>ks_roc1 = r1, ks_sma1 = s1, ks_roc2 = r2, ks_sma2 = s2, ks_roc3 = r3, ks_sma3 = s3, ks_roc4 = r4, ks_sma4 = s4,
           ks_signal = g\<rparr> })"

definition roc_sma :: "roc \<Rightarrow> sma \<Rightarrow> f64 \<Rightarrow> (roc \<times> sma \<times> f64 option) option" where
  "roc_sma r s price =
     (let (r', v) = roc_update r price in map_option (\<lambda>(s', w). (r', s', w)) (feed sma_update s v))"

definition kst_sum :: "f64 option \<Rightarrow> f64 option \<Rightarrow> f64 option \<Rightarrow> f64 option \<Rightarrow> f64 option" where
  "kst_sum r1 r2 r3 r4 =
     (case (r1, r2, r3, r4) of
        (Some v1, Some v2, Some v3, Some v4) \<Rightarrow> Some (1 * v1 + lit 2 * v2 + lit 3 * v3 + lit 4 * v4)
      | _ \<Rightarrow> None)"

definition kst_update :: "kst \<Rightarrow> f64 \<Rightarrow> (kst \<times> macd_value option) option" where
  "kst_update s price = do {
     (r1, s1, v1) \<leftarrow> roc_sma (ks_roc1 s) (ks_sma1 s) price;
     (r2, s2, v2) \<leftarrow> roc_sma (ks_roc2 s) (ks_sma2 s) price;
     (r3, s3, v3) \<leftarrow> roc_sma (ks_roc3 s) (ks_sma3 s) price;
     (r4, s4, v4) \<leftarrow> roc_sma (ks_roc4 s) (ks_sma4 s) price;
     let kst = kst_sum v1 v2 v3 v4;
     (g, signal) \<leftarrow> feed sma_update (ks_signal s) kst;
     Some (\<lparr>ks_roc1 = r1, ks_sma1 = s1, ks_roc2 = r2, ks_sma2 = s2, ks_roc3 = r3, ks_sma3 = s3, ks_roc4 = r4, ks_sma4 = s4,
            ks_signal = g\<rparr>, opt2 macd_of kst signal) }"

definition kst_is_ready :: "kst \<Rightarrow> bool" where "kst_is_ready s = sma_is_ready (ks_signal s)"

definition kst_reset :: "kst \<Rightarrow> kst" where
  "kst_reset s =
     \<lparr>ks_roc1 = roc_reset (ks_roc1 s), ks_sma1 = sma_reset (ks_sma1 s), ks_roc2 = roc_reset (ks_roc2 s),
      ks_sma2 = sma_reset (ks_sma2 s), ks_roc3 = roc_reset (ks_roc3 s), ks_sma3 = sma_reset (ks_sma3 s),
      ks_roc4 = roc_reset (ks_roc4 s), ks_sma4 = sma_reset (ks_sma4 s), ks_signal = sma_reset (ks_signal s)\<rparr>"

type_synonym kst_config = "(nat \<times> nat \<times> nat \<times> nat) \<times> (nat \<times> nat \<times> nat \<times> nat) \<times> nat"

definition roc_sma_fed :: "nat \<Rightarrow> nat \<Rightarrow> nat \<Rightarrow> roc \<Rightarrow> sma \<Rightarrow> bool" where
  "roc_sma_fed a b k r s \<longleftrightarrow> 0 < b \<and> roc_fed a k r \<and> sma_fed b (k - (a + 1 - 1)) s"

fun kst_need :: "kst_config \<Rightarrow> nat" where
  "kst_need ((a1, a2, a3, a4), (b1, b2, b3, b4), g) = max (max (a1 + b1) (a2 + b2)) (max (a3 + b3) (a4 + b4)) + g - 1"

fun kst_fed :: "kst_config \<Rightarrow> nat \<Rightarrow> kst \<Rightarrow> bool" where
  "kst_fed ((a1, a2, a3, a4), (b1, b2, b3, b4), g) k s \<longleftrightarrow> 0 < g \<and>
     roc_sma_fed a1 b1 k (ks_roc1 s) (ks_sma1 s) \<and> roc_sma_fed a2 b2 k (ks_roc2 s) (ks_sma2 s) \<and>
     roc_sma_fed a3 b3 k (ks_roc3 s) (ks_sma3 s) \<and> roc_sma_fed a4 b4 k (ks_roc4 s) (ks_sma4 s) \<and>
     sma_fed g (k - (max (max (a1 + b1) (a2 + b2)) (max (a3 + b3) (a4 + b4)) - 1)) (ks_signal s)"

lemma roc_sma_step:
  assumes "roc_sma_fed a b k r s"
  shows "\<exists>r' s' v. roc_sma r s x = Some (r', s', v) \<and> roc_sma_fed a b (Suc k) r' s' \<and> (v = None \<longleftrightarrow> Suc k < a + b)"
proof -
  obtain r' v where r: "roc_update r x = (r', v)" "roc_fed a (Suc k) r'" "v = None \<longleftrightarrow> Suc k < a + 1"
    using roc.step [of a k r x] assms by (auto simp: roc_sma_fed_def)
  obtain s' w where "feed sma_update s v = Some (s', w)" "sma_fed b (Suc k - (a + 1 - 1)) s'" "w = None \<longleftrightarrow> Suc k < a + b"
    using sma.feed_step [of b "a + 1" k s v] r(3) assms by (auto simp: roc_sma_fed_def)
  then show ?thesis using r assms by (auto simp: roc_sma_def roc_sma_fed_def)
qed

lemma kst_step:
  assumes "kst_fed ((a1, a2, a3, a4), (b1, b2, b3, b4), g) k s"
  shows "\<exists>s' v. kst_update s x = Some (s', v) \<and> kst_fed ((a1, a2, a3, a4), (b1, b2, b3, b4), g) (Suc k) s' \<and>
    (v = None \<longleftrightarrow> Suc k < kst_need ((a1, a2, a3, a4), (b1, b2, b3, b4), g))"
proof -
  define m where "m = max (max (a1 + b1) (a2 + b2)) (max (a3 + b3) (a4 + b4))"
  have g: "0 < g" "0 < m" using assms by (auto simp: m_def roc_sma_fed_def less_max_iff_disj)
  obtain r1 s1 v1 where 1: "roc_sma (ks_roc1 s) (ks_sma1 s) x = Some (r1, s1, v1)" "roc_sma_fed a1 b1 (Suc k) r1 s1"
      "v1 = None \<longleftrightarrow> Suc k < a1 + b1" using roc_sma_step [of a1 b1 k "ks_roc1 s" "ks_sma1 s" x] assms by auto
  obtain r2 s2 v2 where 2: "roc_sma (ks_roc2 s) (ks_sma2 s) x = Some (r2, s2, v2)" "roc_sma_fed a2 b2 (Suc k) r2 s2"
      "v2 = None \<longleftrightarrow> Suc k < a2 + b2" using roc_sma_step [of a2 b2 k "ks_roc2 s" "ks_sma2 s" x] assms by auto
  obtain r3 s3 v3 where 3: "roc_sma (ks_roc3 s) (ks_sma3 s) x = Some (r3, s3, v3)" "roc_sma_fed a3 b3 (Suc k) r3 s3"
      "v3 = None \<longleftrightarrow> Suc k < a3 + b3" using roc_sma_step [of a3 b3 k "ks_roc3 s" "ks_sma3 s" x] assms by auto
  obtain r4 s4 v4 where 4: "roc_sma (ks_roc4 s) (ks_sma4 s) x = Some (r4, s4, v4)" "roc_sma_fed a4 b4 (Suc k) r4 s4"
      "v4 = None \<longleftrightarrow> Suc k < a4 + b4" using roc_sma_step [of a4 b4 k "ks_roc4 s" "ks_sma4 s" x] assms by auto
  let ?v = "kst_sum v1 v2 v3 v4"
  have v: "?v = None \<longleftrightarrow> Suc k < m"
    using 1(3) 2(3) 3(3) 4(3) by (auto simp: kst_sum_def m_def less_max_iff_disj split: option.split)
  obtain h w where h: "feed sma_update (ks_signal s) ?v = Some (h, w)" "sma_fed g (Suc k - (m - 1)) h" "w = None \<longleftrightarrow> Suc k < m + g - 1"
    using sma.feed_step [of g m k "ks_signal s" ?v] v g assms by (auto simp: m_def)
  have "opt2 macd_of ?v w = None \<longleftrightarrow> Suc k < m + g - 1" using v h(3) g by auto
  then show ?thesis using 1 2 3 4 h g by (simp add: kst_update_def Let_def flip: m_def)
qed

interpretation kst: timed "\<lambda>_. True" kst_update "\<lambda>s. Some (kst_reset s)" "\<lambda>(a, b, g). kst_new a b g" kst_fed kst_need
proof (rule timedI)
  fix c :: kst_config and k s and x :: f64
  assume "kst_fed c k s"
  then show "\<exists>s' v. kst_update s x = Some (s', v) \<and> kst_fed c (Suc k) s' \<and> (v = None \<longleftrightarrow> Suc k < kst_need c)"
    using kst_step by (cases c rule: kst_need.cases) (auto simp del: kst_fed.simps kst_need.simps)
qed (auto simp: kst_new_def kst_reset_def roc_sma_fed_def roc_new_def roc_fed_def roc_reset_def sma_new_def sma_start_def sma_fed_def
    sma_reset_def split: if_splits)

section \<open>\<open>AwesomeOscillator\<close>\<close>

record awesome_oscillator =
  ao_fast :: roll_sma
  ao_slow :: roll_sma

definition ao_new :: "nat \<Rightarrow> nat \<Rightarrow> awesome_oscillator" where
  "ao_new fast_period slow_period = \<lparr>ao_fast = roll_sma_new fast_period, ao_slow = roll_sma_new slow_period\<rparr>"

definition ao_update :: "awesome_oscillator \<Rightarrow> f64 \<times> f64 \<Rightarrow> awesome_oscillator \<times> f64 option" where
  "ao_update s = (\<lambda>(high, low).
     let median = (high + low) / lit 2;
         (f, fv) = roll_sma_update (ao_fast s) median; (l, sv) = roll_sma_update (ao_slow s) median
     in (\<lparr>ao_fast = f, ao_slow = l\<rparr>, opt2 (-) fv sv))"

definition ao_reset :: "awesome_oscillator \<Rightarrow> awesome_oscillator" where
  "ao_reset s = \<lparr>ao_fast = roll_sma_reset (ao_fast s), ao_slow = roll_sma_reset (ao_slow s)\<rparr>"

fun ao_fed :: "nat \<times> nat \<Rightarrow> nat \<Rightarrow> awesome_oscillator \<Rightarrow> bool" where
  "ao_fed (f, l) k s \<longleftrightarrow> roll_sma_fed f k (ao_fast s) \<and> roll_sma_fed l k (ao_slow s)"

interpretation ao: timed "\<lambda>_. True" "\<lambda>s x. Some (ao_update s x)" "\<lambda>s. Some (ao_reset s)" "\<lambda>(f, l). Some (ao_new f l)" ao_fed
    "\<lambda>(f, l). max (max f 1) (max l 1)"
proof (rule timedI)
  fix c k s and x :: "f64 \<times> f64"
  assume s: "ao_fed c k s"
  obtain f l where c: "c = (f, l)" by (cases c)
  obtain high low where x: "x = (high, low)" by (cases x)
  obtain a v where "roll_sma_update (ao_fast s) ((high + low) / lit 2) = (a, v)" "roll_sma_fed f (Suc k) a" "v = None \<longleftrightarrow> Suc k < max f 1"
    using roll_sma.step [of f k "ao_fast s" "(high + low) / lit 2"] s c by auto
  moreover obtain b w where "roll_sma_update (ao_slow s) ((high + low) / lit 2) = (b, w)" "roll_sma_fed l (Suc k) b" "w = None \<longleftrightarrow> Suc k < max l 1"
    using roll_sma.step [of l k "ao_slow s" "(high + low) / lit 2"] s c by auto
  ultimately show "\<exists>s' v. Some (ao_update s x) = Some (s', v) \<and> ao_fed c (Suc k) s' \<and>
      (v = None \<longleftrightarrow> Suc k < (case c of (f, l) \<Rightarrow> max (max f 1) (max l 1)))"
    using c x by (auto simp: ao_update_def less_max_iff_disj)
qed (auto simp: ao_new_def ao_reset_def roll_sma.new_fed roll_sma_fed_def roll_sma_new_def roll_sma_reset_def)

end
