(* ===== verification/Ind_Momentum3.thy ===== *)
theory Ind_Momentum3
  imports Ind_Momentum2
begin

text \<open>
  \<open>alm-indicator/src/signal/momentum\<close>, the last part: \<open>Pmo\<close>, \<open>Ppo\<close>, \<open>Rvi\<close> and \<open>Smi\<close>, whose first output depends on
  the prices, and \<open>ConnorsRsi\<close>.
\<close>

abbreviation ema_any :: "nat \<Rightarrow> ema \<Rightarrow> bool" where
  "ema_any \<equiv> any_fed (\<lambda>p k s. 0 < p \<and> ema_fed p k s)"

lemma ema_anyD:
  "ema_any p s \<Longrightarrow> \<exists>s' v. ema_update s x = Some (s', v) \<and> ema_any p s'"
  "ema_any p s \<Longrightarrow> \<exists>s' v. feed ema_update s y = Some (s', v) \<and> ema_any p s'"
  "ema_any p s \<Longrightarrow> ema_reset s = ema_start p \<and> 0 < p"
  using ema.upd_any [of p s x] ema.feed_any [of y p s] ema.rst_any [of p s] by (auto split: if_splits)

lemma ema_new_any: "ema_new p = Some s \<Longrightarrow> ema_any p s"
  using ema.new_any [of p s] by (simp add: ema_new_def)

section \<open>\<open>Pmo\<close>\<close>

record pmo =
  pm_prev_close :: "f64 option"
  pm_ema1 :: ema
  pm_ema2 :: ema
  pm_signal :: ema

definition pmo_new :: "nat \<Rightarrow> nat \<Rightarrow> nat \<Rightarrow> pmo option" where
  "pmo_new smooth1 smooth2 signal = do {
     a \<leftarrow> ema_new smooth1; b \<leftarrow> ema_new smooth2; g \<leftarrow> ema_new signal;
     Some \<lparr>pm_prev_close = None, pm_ema1 = a, pm_ema2 = b, pm_signal = g\<rparr> }"

definition pmo_roc :: "f64 option \<Rightarrow> f64 \<Rightarrow> f64 option" where
  "pmo_roc prev_close close =
     (case prev_close of
        Some prev \<Rightarrow> if f64_epsilon < \<bar>prev\<bar> then Some ((close / prev - 1) * lit 1000) else None
      | None \<Rightarrow> None)"

definition pmo_update :: "pmo \<Rightarrow> f64 \<Rightarrow> (pmo \<times> macd_value option) option" where
  "pmo_update s close = do {
     (a, v1) \<leftarrow> feed ema_update (pm_ema1 s) (pmo_roc (pm_prev_close s) close);
     (b, pmo) \<leftarrow> feed ema_update (pm_ema2 s) (map_option (\<lambda>e1. e1 * lit 10) v1);
     (g, signal) \<leftarrow> feed ema_update (pm_signal s) pmo;
     Some (\<lparr>pm_prev_close = Some close, pm_ema1 = a, pm_ema2 = b, pm_signal = g\<rparr>, opt2 macd_of pmo signal) }"

definition pmo_is_ready :: "pmo \<Rightarrow> bool" where "pmo_is_ready s = ema_is_ready (pm_signal s)"

definition pmo_reset :: "pmo \<Rightarrow> pmo" where
  "pmo_reset s =
     \<lparr>pm_prev_close = None, pm_ema1 = ema_reset (pm_ema1 s), pm_ema2 = ema_reset (pm_ema2 s), pm_signal = ema_reset (pm_signal s)\<rparr>"

fun pmo_fed :: "nat \<times> nat \<times> nat \<Rightarrow> nat \<Rightarrow> pmo \<Rightarrow> bool" where
  "pmo_fed (a, b, g) k s \<longleftrightarrow> ema_any a (pm_ema1 s) \<and> ema_any b (pm_ema2 s) \<and> ema_any g (pm_signal s)"

interpretation pmo: streaming "\<lambda>_. True" pmo_update "\<lambda>s. Some (pmo_reset s)" "\<lambda>(a, b, g). pmo_new a b g" pmo_fed
proof unfold_locales
  fix c k s and x :: f64
  assume s: "pmo_fed c k s"
  obtain p q r where c: "c = (p, q, r)" by (cases c)
  obtain a v1 where a: "feed ema_update (pm_ema1 s) (pmo_roc (pm_prev_close s) x) = Some (a, v1)" "ema_any p a"
    using ema_anyD(2) s c by (fastforce simp del: One_nat_def)
  obtain b v2 where b: "feed ema_update (pm_ema2 s) (map_option (\<lambda>e1. e1 * lit 10) v1) = Some (b, v2)" "ema_any q b"
    using ema_anyD(2) s c by fastforce
  obtain g v3 where "feed ema_update (pm_signal s) v2 = Some (g, v3)" "ema_any r g"
    using ema_anyD(2) s c by fastforce
  then show "\<exists>s' v. pmo_update s x = Some (s', v) \<and> pmo_fed c (Suc k) s'" using a b c by (simp add: pmo_update_def)
next
  fix c k s
  assume "pmo_fed c k s"
  then show "\<exists>s0. (case c of (a, b, g) \<Rightarrow> pmo_new a b g) = Some s0 \<and> Some (pmo_reset s) = Some s0"
    using ema_anyD(3) by (cases c) (auto simp: pmo_new_def pmo_reset_def ema_new_def)
qed (auto simp: pmo_new_def ema_new_any split: bind_splits)

section \<open>\<open>Ppo\<close>\<close>

record ppo =
  pp_fast :: ema
  pp_slow :: ema
  pp_signal :: ema

definition ppo_new :: "nat \<Rightarrow> nat \<Rightarrow> nat \<Rightarrow> ppo option" where
  "ppo_new fast slow signal =
     (if fast < slow then do {
        a \<leftarrow> ema_new fast; b \<leftarrow> ema_new slow; g \<leftarrow> ema_new signal;
        Some \<lparr>pp_fast = a, pp_slow = b, pp_signal = g\<rparr> }
      else None)"

definition ppo_line :: "f64 option \<Rightarrow> f64 option \<Rightarrow> f64 option" where
  "ppo_line fast slow =
     (case (fast, slow) of
        (Some f, Some s) \<Rightarrow> if f64_epsilon < \<bar>s\<bar> then Some ((f - s) / s * lit 100) else None
      | _ \<Rightarrow> None)"

definition ppo_update :: "ppo \<Rightarrow> f64 \<Rightarrow> (ppo \<times> macd_value option) option" where
  "ppo_update s price = do {
     (a, fast) \<leftarrow> ema_update (pp_fast s) price;
     (b, slow) \<leftarrow> ema_update (pp_slow s) price;
     let ppo = ppo_line fast slow;
     (g, signal) \<leftarrow> feed ema_update (pp_signal s) ppo;
     Some (\<lparr>pp_fast = a, pp_slow = b, pp_signal = g\<rparr>, opt2 macd_of ppo signal) }"

definition ppo_is_ready :: "ppo \<Rightarrow> bool" where "ppo_is_ready s = ema_is_ready (pp_signal s)"

definition ppo_reset :: "ppo \<Rightarrow> ppo" where
  "ppo_reset s = \<lparr>pp_fast = ema_reset (pp_fast s), pp_slow = ema_reset (pp_slow s), pp_signal = ema_reset (pp_signal s)\<rparr>"

fun ppo_fed :: "nat \<times> nat \<times> nat \<Rightarrow> nat \<Rightarrow> ppo \<Rightarrow> bool" where
  "ppo_fed (a, b, g) k s \<longleftrightarrow> a < b \<and> ema_any a (pp_fast s) \<and> ema_any b (pp_slow s) \<and> ema_any g (pp_signal s)"

interpretation ppo: streaming "\<lambda>_. True" ppo_update "\<lambda>s. Some (ppo_reset s)" "\<lambda>(a, b, g). ppo_new a b g" ppo_fed
proof unfold_locales
  fix c k s and x :: f64
  assume s: "ppo_fed c k s"
  obtain p q r where c: "c = (p, q, r)" by (cases c)
  obtain a v1 where a: "ema_update (pp_fast s) x = Some (a, v1)" "ema_any p a" using ema_anyD(1) s c by fastforce
  obtain b v2 where b: "ema_update (pp_slow s) x = Some (b, v2)" "ema_any q b" using ema_anyD(1) s c by fastforce
  obtain g v3 where "feed ema_update (pp_signal s) (ppo_line v1 v2) = Some (g, v3)" "ema_any r g"
    using ema_anyD(2) s c by fastforce
  then show "\<exists>s' v. ppo_update s x = Some (s', v) \<and> ppo_fed c (Suc k) s'" using a b c s by (simp add: ppo_update_def Let_def)
next
  fix c k s
  assume "ppo_fed c k s"
  then show "\<exists>s0. (case c of (a, b, g) \<Rightarrow> ppo_new a b g) = Some s0 \<and> Some (ppo_reset s) = Some s0"
    using ema_anyD(3) by (cases c) (auto simp: ppo_new_def ppo_reset_def ema_new_def)
qed (auto simp: ppo_new_def ema_new_any split: bind_splits if_splits)

section \<open>\<open>Rvi\<close>\<close>

record rvi_value =
  rvv_rvi :: f64
  rvv_signal :: f64

record rvi =
  rv_period :: nat
  rv_ohlc_buf :: "(f64 \<times> f64 \<times> f64 \<times> f64) list"
  rv_num_buf :: "f64 list"
  rv_denom_buf :: "f64 list"
  rv_sum_num :: f64
  rv_sum_denom :: f64
  rv_rvi_buf :: "f64 list"

definition rvi_start :: "nat \<Rightarrow> rvi" where
  "rvi_start period =
     \<lparr>rv_period = period, rv_ohlc_buf = [], rv_num_buf = [], rv_denom_buf = [], rv_sum_num = 0, rv_sum_denom = 0, rv_rvi_buf = []\<rparr>"

definition rvi_new :: "nat \<Rightarrow> rvi option" where
  "rvi_new period = (if 0 < period then Some (rvi_start period) else None)"

definition rvi_weighted :: "(f64 \<times> f64 \<times> f64 \<times> f64 \<Rightarrow> f64) \<Rightarrow> (f64 \<times> f64 \<times> f64 \<times> f64) list \<Rightarrow> f64" where
  "rvi_weighted f buf = foldl (\<lambda>a (w, b). a + w * f b) 0 (zip [1, lit 2, lit 2, 1] buf) / lit 6"

definition rvi_slide :: "rvi \<Rightarrow> rvi option" where
  "rvi_slide s =
     (if length (rv_num_buf s) = rv_period s then
        (case (rv_num_buf s, rv_denom_buf s) of
           (n # ns, d # ds) \<Rightarrow>
             Some (s\<lparr>rv_num_buf := ns, rv_denom_buf := ds, rv_sum_num := rv_sum_num s - n, rv_sum_denom := rv_sum_denom s - d\<rparr>)
         | _ \<Rightarrow> None)
      else Some s)"

definition rvi_signal :: "f64 list \<Rightarrow> f64" where
  "rvi_signal b = (b ! 0 + lit 2 * b ! 1 + lit 2 * b ! 2 + b ! 3) / lit 6"

definition rvi_update :: "rvi \<Rightarrow> f64 \<times> f64 \<times> f64 \<times> f64 \<Rightarrow> (rvi \<times> rvi_value option) option" where
  "rvi_update s0 bar =
     (let s1 = s0\<lparr>rv_ohlc_buf := push_full 4 (rv_ohlc_buf s0) bar\<rparr>
      in if length (rv_ohlc_buf s1) < 4 then Some (s1, None)
         else do {
           let num = rvi_weighted (\<lambda>(op, h, l, c). c - op) (rv_ohlc_buf s1);
           let denom = rvi_weighted (\<lambda>(op, h, l, c). h - l) (rv_ohlc_buf s1);
           s2 \<leftarrow> rvi_slide s1;
           let s = s2\<lparr>rv_num_buf := rv_num_buf s2 @ [num], rv_denom_buf := rv_denom_buf s2 @ [denom],
                      rv_sum_num := rv_sum_num s2 + num, rv_sum_denom := rv_sum_denom s2 + denom\<rparr>;
           (if length (rv_num_buf s) < rv_period s \<or> \<bar>rv_sum_denom s\<bar> < f64_epsilon then Some (s, None)
            else do {
              let rvi = rv_sum_num s / rv_sum_denom s;
              let b = push_full 4 (rv_rvi_buf s) rvi;
              Some (s\<lparr>rv_rvi_buf := b\<rparr>, if length b < 4 then None else Some \<lparr>rvv_rvi = rvi, rvv_signal = rvi_signal b\<rparr>) }) })"

definition rvi_is_ready :: "rvi \<Rightarrow> bool" where
  "rvi_is_ready s \<longleftrightarrow> 4 \<le> length (rv_rvi_buf s) \<and> rv_period s \<le> length (rv_num_buf s)"

definition rvi_reset :: "rvi \<Rightarrow> rvi" where
  "rvi_reset s =
     s\<lparr>rv_ohlc_buf := [], rv_num_buf := [], rv_denom_buf := [], rv_sum_num := 0, rv_sum_denom := 0, rv_rvi_buf := []\<rparr>"

definition rvi_fed :: "nat \<Rightarrow> nat \<Rightarrow> rvi \<Rightarrow> bool" where
  "rvi_fed p k s \<longleftrightarrow> 0 < p \<and> rv_period s = p \<and> length (rv_num_buf s) \<le> p \<and> length (rv_denom_buf s) = length (rv_num_buf s)"

lemma rvi_slide_total:
  "rvi_fed p k s \<Longrightarrow> \<exists>s'. rvi_slide s = Some s' \<and> rv_period s' = p \<and> length (rv_num_buf s') < p \<and>
     length (rv_denom_buf s') = length (rv_num_buf s')"
  by (cases "rv_num_buf s"; cases "rv_denom_buf s") (auto simp: rvi_slide_def rvi_fed_def)

interpretation rvi: streaming "\<lambda>_. True" rvi_update "\<lambda>s. Some (rvi_reset s)" rvi_new rvi_fed
proof unfold_locales
  fix p k s and x :: "f64 \<times> f64 \<times> f64 \<times> f64"
  assume s: "rvi_fed p k s"
  define s1 where "s1 = s\<lparr>rv_ohlc_buf := push_full 4 (rv_ohlc_buf s) x\<rparr>"
  have s1: "rvi_fed p k s1" using s by (simp add: s1_def rvi_fed_def)
  obtain s2 where s2: "rvi_slide s1 = Some s2" "rv_period s2 = p" "length (rv_num_buf s2) < p"
      "length (rv_denom_buf s2) = length (rv_num_buf s2)" using rvi_slide_total [OF s1] by blast
  show "\<exists>s' v. rvi_update s x = Some (s', v) \<and> rvi_fed p (Suc k) s'"
    using s s1 s2 by (auto simp: rvi_update_def Let_def rvi_fed_def simp flip: s1_def)
qed (auto simp: rvi_new_def rvi_start_def rvi_reset_def rvi_fed_def split: if_splits)

section \<open>\<open>Smi\<close>\<close>

record smi_value =
  smv_smi :: f64
  smv_signal :: f64

record smi =
  sm_period :: nat
  sm_high_buf :: "f64 list"
  sm_low_buf :: "f64 list"
  sm_d_ema1 :: ema
  sm_d_ema2 :: ema
  sm_hl_ema1 :: ema
  sm_hl_ema2 :: ema
  sm_signal :: ema

definition smi_new :: "nat \<Rightarrow> nat \<Rightarrow> nat \<Rightarrow> nat \<Rightarrow> smi option" where
  "smi_new period smooth1 smooth2 signal =
     (if 0 < period \<and> 0 < smooth1 \<and> 0 < smooth2 \<and> 0 < signal then do {
        a \<leftarrow> ema_new smooth1; b \<leftarrow> ema_new smooth2; c \<leftarrow> ema_new smooth1; d \<leftarrow> ema_new smooth2; g \<leftarrow> ema_new signal;
        Some \<lparr>sm_period = period, sm_high_buf = [], sm_low_buf = [], sm_d_ema1 = a, sm_d_ema2 = b, sm_hl_ema1 = c,
              sm_hl_ema2 = d, sm_signal = g\<rparr> }
      else None)"

text \<open>Both windows drop their oldest element when the window of the highs is full.\<close>

definition push_pair :: "nat \<Rightarrow> f64 list \<times> f64 list \<Rightarrow> f64 \<Rightarrow> f64 \<Rightarrow> f64 list \<times> f64 list" where
  "push_pair cap = (\<lambda>(hs, ls) h l. (push_full cap hs h, (if length hs = cap then tl ls else ls) @ [l]))"

definition smi_line :: "f64 option \<Rightarrow> f64 option \<Rightarrow> f64 option" where
  "smi_line ds dhl =
     (case (ds, dhl) of
        (Some d, Some r) \<Rightarrow> if f64_epsilon < \<bar>r\<bar> then Some (lit 100 * d / (lit (1 / 2) * r)) else None
      | _ \<Rightarrow> None)"

definition smi_update :: "smi \<Rightarrow> f64 \<times> f64 \<times> f64 \<Rightarrow> (smi \<times> smi_value option) option" where
  "smi_update s = (\<lambda>(high, low, close). do {
     let (hs, ls) = push_pair (sm_period s) (sm_high_buf s, sm_low_buf s) high low;
     let full = \<not> length hs < sm_period s;
     let hh = fold_max hs; let ll = fold_min ls;
     (a, v1) \<leftarrow> feed ema_update (sm_d_ema1 s) (if full then Some (close - (hh + ll) / lit 2) else None);
     (b, ds) \<leftarrow> feed ema_update (sm_d_ema2 s) v1;
     (c, w1) \<leftarrow> feed ema_update (sm_hl_ema1 s) (if full then Some (hh - ll) else None);
     (d, dhl) \<leftarrow> feed ema_update (sm_hl_ema2 s) w1;
     let smi = smi_line ds dhl;
     (g, signal) \<leftarrow> feed ema_update (sm_signal s) smi;
     Some (\<lparr>sm_period = sm_period s, sm_high_buf = hs, sm_low_buf = ls, sm_d_ema1 = a, sm_d_ema2 = b, sm_hl_ema1 = c,
            sm_hl_ema2 = d, sm_signal = g\<rparr>, opt2 (\<lambda>x y. \<lparr>smv_smi = x, smv_signal = y\<rparr>) smi signal) })"

definition smi_is_ready :: "smi \<Rightarrow> bool" where "smi_is_ready s = ema_is_ready (sm_signal s)"

definition smi_reset :: "smi \<Rightarrow> smi" where
  "smi_reset s =
     \<lparr>sm_period = sm_period s, sm_high_buf = [], sm_low_buf = [], sm_d_ema1 = ema_reset (sm_d_ema1 s),
      sm_d_ema2 = ema_reset (sm_d_ema2 s), sm_hl_ema1 = ema_reset (sm_hl_ema1 s), sm_hl_ema2 = ema_reset (sm_hl_ema2 s),
      sm_signal = ema_reset (sm_signal s)\<rparr>"

fun smi_fed :: "nat \<times> nat \<times> nat \<times> nat \<Rightarrow> nat \<Rightarrow> smi \<Rightarrow> bool" where
  "smi_fed (p, a, b, g) k s \<longleftrightarrow> 0 < p \<and> sm_period s = p \<and> ema_any a (sm_d_ema1 s) \<and> ema_any b (sm_d_ema2 s) \<and>
     ema_any a (sm_hl_ema1 s) \<and> ema_any b (sm_hl_ema2 s) \<and> ema_any g (sm_signal s)"

lemma smi_step:
  assumes "smi_fed (p, m, n, q) k s"
  shows "\<exists>s' v. smi_update s (high, low, close) = Some (s', v) \<and> smi_fed (p, m, n, q) (Suc k) s'"
proof -
  have e: "ema_any m (sm_d_ema1 s)" "ema_any n (sm_d_ema2 s)" "ema_any m (sm_hl_ema1 s)" "ema_any n (sm_hl_ema2 s)"
    "ema_any q (sm_signal s)" using assms by simp_all
  obtain hs ls where hl: "push_pair (sm_period s) (sm_high_buf s, sm_low_buf s) high low = (hs, ls)" by fastforce
  let ?full = "\<not> length hs < sm_period s" and ?hh = "fold_max hs" and ?ll = "fold_min ls"
  obtain a v1 where a: "feed ema_update (sm_d_ema1 s) (if ?full then Some (close - (?hh + ?ll) / lit 2) else None) = Some (a, v1)"
      "ema_any m a" using ema_anyD(2) [OF e(1)] by blast
  obtain b v2 where b: "feed ema_update (sm_d_ema2 s) v1 = Some (b, v2)" "ema_any n b" using ema_anyD(2) [OF e(2)] by blast
  obtain c w1 where c: "feed ema_update (sm_hl_ema1 s) (if ?full then Some (?hh - ?ll) else None) = Some (c, w1)" "ema_any m c"
    using ema_anyD(2) [OF e(3)] by blast
  obtain d w2 where d: "feed ema_update (sm_hl_ema2 s) w1 = Some (d, w2)" "ema_any n d" using ema_anyD(2) [OF e(4)] by blast
  obtain g v3 where "feed ema_update (sm_signal s) (smi_line v2 w2) = Some (g, v3)" "ema_any q g"
    using ema_anyD(2) [OF e(5)] by blast
  then show ?thesis using hl a b c d assms by (simp add: smi_update_def Let_def)
qed

interpretation smi: streaming "\<lambda>_. True" smi_update "\<lambda>s. Some (smi_reset s)" "\<lambda>(p, a, b, g). smi_new p a b g" smi_fed
proof unfold_locales
  fix c k s and x :: "f64 \<times> f64 \<times> f64"
  assume "smi_fed c k s"
  then show "\<exists>s' v. smi_update s x = Some (s', v) \<and> smi_fed c (Suc k) s'"
    using smi_step by (cases c; cases x) (auto simp del: smi_fed.simps)
next
  fix c k s
  assume "smi_fed c k s"
  then show "\<exists>s0. (case c of (p, a, b, g) \<Rightarrow> smi_new p a b g) = Some s0 \<and> Some (smi_reset s) = Some s0"
    using ema_anyD(3) by (cases c) (auto simp: smi_new_def smi_reset_def ema_new_def)
qed (auto simp: smi_new_def ema_new_any split: bind_splits if_splits)

section \<open>\<open>ConnorsRsi\<close>\<close>

record connors_rsi =
  cr_rsi_period :: nat
  cr_streak_period :: nat
  cr_rank_period :: nat
  cr_rsi_close :: rsi
  cr_rsi_streak :: rsi
  cr_prev_close :: "f64 option"
  cr_streak :: f64
  cr_roc_window :: "f64 list"
  cr_value :: "f64 option"

definition connors_rsi_new :: "nat \<Rightarrow> nat \<Rightarrow> nat \<Rightarrow> connors_rsi option" where
  "connors_rsi_new rsi_p streak_p rank_p =
     (if 0 < rsi_p \<and> 0 < streak_p \<and> 0 < rank_p then do {
        a \<leftarrow> rsi_new rsi_p; b \<leftarrow> rsi_new streak_p;
        Some \<lparr>cr_rsi_period = rsi_p, cr_streak_period = streak_p, cr_rank_period = rank_p, cr_rsi_close = a, cr_rsi_streak = b,
              cr_prev_close = None, cr_streak = 0, cr_roc_window = [], cr_value = None\<rparr> }
      else None)"

definition next_streak :: "f64 \<Rightarrow> f64 \<Rightarrow> f64 \<Rightarrow> f64" where
  "next_streak streak close prev =
     (if prev < close then (if streak < 0 then 1 else streak + 1)
      else if close < prev then (if 0 < streak then - 1 else streak - 1)
      else 0)"

definition connors_rsi_update :: "connors_rsi \<Rightarrow> f64 \<Rightarrow> (connors_rsi \<times> f64 option) option" where
  "connors_rsi_update s close = do {
     (a, rsi1) \<leftarrow> rsi_update (cr_rsi_close s) close;
     (case cr_prev_close s of
        None \<Rightarrow> Some (s\<lparr>cr_rsi_close := a, cr_prev_close := Some close\<rparr>, None)
      | Some prev \<Rightarrow> do {
          let streak = next_streak (cr_streak s) close prev;
          (b, rsi2) \<leftarrow> rsi_update (cr_rsi_streak s) streak;
          let roc = (if f64_epsilon < \<bar>prev\<bar> then (close - prev) / prev * lit 100 else 0);
          let w = push_trim (cr_rank_period s + 1) (cr_roc_window s) roc;
          let s1 = s\<lparr>cr_rsi_close := a, cr_prev_close := Some close, cr_streak := streak, cr_rsi_streak := b, cr_roc_window := w\<rparr>;
          let count_below = length (filter (\<lambda>r. r < roc) (take (cr_rank_period s) w));
          let pct_rank = f64_of_nat count_below / f64_of_nat (cr_rank_period s) * lit 100;
          let v = opt2 (\<lambda>r1 r2. (r1 + r2 + pct_rank) / lit 3) rsi1 rsi2;
          (if length w < cr_rank_period s + 1 then Some (s1, None)
           else if v = None then Some (s1, None) else Some (s1\<lparr>cr_value := v\<rparr>, v)) }) }"

definition connors_rsi_val :: "connors_rsi \<Rightarrow> f64 option" where "connors_rsi_val s = cr_value s"
definition connors_rsi_is_ready :: "connors_rsi \<Rightarrow> bool" where "connors_rsi_is_ready s \<longleftrightarrow> cr_value s \<noteq> None"

definition connors_rsi_reset :: "connors_rsi \<Rightarrow> connors_rsi option" where
  "connors_rsi_reset s = do {
     a \<leftarrow> rsi_new (cr_rsi_period s); b \<leftarrow> rsi_new (cr_streak_period s);
     Some (s\<lparr>cr_rsi_close := a, cr_rsi_streak := b, cr_prev_close := None, cr_streak := 0, cr_roc_window := [], cr_value := None\<rparr>) }"

fun connors_rsi_need :: "nat \<times> nat \<times> nat \<Rightarrow> nat" where
  "connors_rsi_need (p, q, r) = max (p + 1) (max (q + 2) (r + 2))"

fun connors_rsi_fed :: "nat \<times> nat \<times> nat \<Rightarrow> nat \<Rightarrow> connors_rsi \<Rightarrow> bool" where
  "connors_rsi_fed (p, q, r) k s \<longleftrightarrow> 0 < p \<and> 0 < q \<and> 0 < r \<and> cr_rsi_period s = p \<and> cr_streak_period s = q \<and> cr_rank_period s = r \<and>
     rsi_fed p k (cr_rsi_close s) \<and> rsi_fed q (k - 1) (cr_rsi_streak s) \<and> (cr_prev_close s = None \<longleftrightarrow> k = 0) \<and>
     length (cr_roc_window s) = min (k - 1) (Suc r)"

lemma connors_rsi_step:
  assumes "connors_rsi_fed (p, q, r) k s"
  shows "\<exists>s' v. connors_rsi_update s x = Some (s', v) \<and> connors_rsi_fed (p, q, r) (Suc k) s' \<and>
    (v = None \<longleftrightarrow> Suc k < connors_rsi_need (p, q, r))"
proof -
  obtain a v1 where a: "rsi_update (cr_rsi_close s) x = Some (a, v1)" "rsi_fed p (Suc k) a" "v1 = None \<longleftrightarrow> Suc k < p + 1"
    using rsi.fed_update [of p k "cr_rsi_close s" x] assms by auto
  show ?thesis
  proof (cases "cr_prev_close s")
    case None
    then show ?thesis using a assms by (auto simp: connors_rsi_update_def)
  next
    case (Some prev)
    then have k: "0 < k" using assms by auto
    let ?st = "next_streak (cr_streak s) x prev"
    obtain b v2 where b: "rsi_update (cr_rsi_streak s) ?st = Some (b, v2)" "rsi_fed q (Suc (k - 1)) b" "v2 = None \<longleftrightarrow> Suc (k - 1) < q + 1"
      using rsi.fed_update [of q "k - 1" "cr_rsi_streak s" ?st] assms by auto
    have w: "length (push_trim (Suc r) (cr_roc_window s) y) = min (Suc (k - 1)) (Suc r)" for y
      by (rule push_lengths(2)) (use assms in simp)
    show ?thesis using a b w Some k assms
      by (auto simp: connors_rsi_update_def Let_def less_max_iff_disj)
  qed
qed

interpretation connors_rsi: timed "\<lambda>_. True" connors_rsi_update connors_rsi_reset "\<lambda>(p, q, r). connors_rsi_new p q r"
    connors_rsi_fed connors_rsi_need
proof (rule timedI)
  fix c k s and x :: f64
  assume "connors_rsi_fed c k s"
  then show "\<exists>s' v. connors_rsi_update s x = Some (s', v) \<and> connors_rsi_fed c (Suc k) s' \<and> (v = None \<longleftrightarrow> Suc k < connors_rsi_need c)"
    using connors_rsi_step by (cases c) (auto simp del: connors_rsi_fed.simps connors_rsi_need.simps)
qed (auto simp: connors_rsi_new_def connors_rsi_reset_def rsi_new_def rsi_start_def rsi_fed_def split: if_splits)

end
