(* ===== verification/Ind_Channels.thy ===== *)
theory Ind_Channels
  imports Ind_Momentum3
begin

text \<open>
  The bands and stops of \<open>alm-indicator\<close>: \<open>BBands\<close> and \<open>Keltner\<close> of \<open>src/signal/channel\<close>, and \<open>SuperTrend\<close>,
  \<open>ChandelierExit\<close> and \<open>ChandeKrollStop\<close> of \<open>src/risk\<close>. All but the first feed the average true range.
\<close>

section \<open>\<open>BBands\<close>\<close>

record bbands_value =
  bbv_middle :: f64
  bbv_upper :: f64
  bbv_lower :: f64
  bbv_bandwidth :: f64
  bbv_percent_b :: f64

record bbands =
  bb_period :: nat
  bb_k :: f64
  bb_buffer :: "f64 list"
  bb_sum :: f64

definition bbands_new :: "nat \<Rightarrow> f64 \<Rightarrow> bbands option" where
  "bbands_new period k =
     (if 1 < period then Some \<lparr>bb_period = period, bb_k = k, bb_buffer = [], bb_sum = 0\<rparr> else None)"

definition bbands_of :: "nat \<Rightarrow> f64 \<Rightarrow> f64 list \<Rightarrow> f64 \<Rightarrow> f64 \<Rightarrow> bbands_value" where
  "bbands_of period k buffer acc val =
     (let mean = acc / f64_of_nat period;
          variance = fsum (map (\<lambda>x. f_powi (x - mean) 2) buffer) / f64_of_nat period;
          stddev = fsqrt variance;
          upper = mean + k * stddev;
          lower = mean - k * stddev;
          bandwidth = (if f64_epsilon < \<bar>mean\<bar> then (upper - lower) / mean else 0);
          range = upper - lower;
          percent_b = (if f64_epsilon < \<bar>range\<bar> then (val - lower) / range else lit (1 / 2))
      in \<lparr>bbv_middle = mean, bbv_upper = upper, bbv_lower = lower, bbv_bandwidth = bandwidth, bbv_percent_b = percent_b\<rparr>)"

definition bbands_update :: "bbands \<Rightarrow> f64 \<Rightarrow> bbands \<times> bbands_value option" where
  "bbands_update s val =
     (let b = bb_buffer s @ [val]; acc = bb_sum s + val;
          s' = (if bb_period s < length b then s\<lparr>bb_buffer := tl b, bb_sum := acc - hd b\<rparr>
                else s\<lparr>bb_buffer := b, bb_sum := acc\<rparr>)
      in (s', if length (bb_buffer s') < bb_period s then None
              else Some (bbands_of (bb_period s) (bb_k s) (bb_buffer s') (bb_sum s') val)))"

definition bbands_is_ready :: "bbands \<Rightarrow> bool" where "bbands_is_ready s \<longleftrightarrow> length (bb_buffer s) = bb_period s"
definition bbands_reset :: "bbands \<Rightarrow> bbands" where "bbands_reset s = s\<lparr>bb_buffer := [], bb_sum := 0\<rparr>"

fun bbands_fed :: "nat \<times> f64 \<Rightarrow> nat \<Rightarrow> bbands \<Rightarrow> bool" where
  "bbands_fed (p, m) k s \<longleftrightarrow> 1 < p \<and> bb_period s = p \<and> bb_k s = m \<and> length (bb_buffer s) = min k p"

interpretation bbands: timed "\<lambda>_. True" "\<lambda>s x. Some (bbands_update s x)" "\<lambda>s. Some (bbands_reset s)"
  "\<lambda>(p, m). bbands_new p m" bbands_fed "\<lambda>(p, m). p"
proof (rule timedI)
  fix c k s and x :: f64
  assume "bbands_fed c k s"
  then show "\<exists>s' v. Some (bbands_update s x) = Some (s', v) \<and> bbands_fed c (Suc k) s' \<and>
      (v = None \<longleftrightarrow> Suc k < (case c of (p, m) \<Rightarrow> p))"
    by (cases c) (auto simp: bbands_update_def Let_def min_def split: if_splits)
qed (auto simp: bbands_new_def bbands_reset_def split: if_splits)

section \<open>\<open>Keltner\<close>\<close>

record keltner_value =
  klv_middle :: f64
  klv_upper :: f64
  klv_lower :: f64

record keltner =
  kl_ema :: ema
  kl_atr :: atr
  kl_multiplier :: f64
  kl_period :: nat
  kl_atr_period :: nat

definition keltner_new :: "nat \<Rightarrow> nat \<Rightarrow> f64 \<Rightarrow> keltner option" where
  "keltner_new period atr_period multiplier = do {
     e \<leftarrow> ema_new period; a \<leftarrow> atr_ind_new atr_period;
     Some \<lparr>kl_ema = e, kl_atr = a, kl_multiplier = multiplier, kl_period = period, kl_atr_period = atr_period\<rparr> }"

definition keltner_update :: "keltner \<Rightarrow> f64 \<times> f64 \<times> f64 \<Rightarrow> (keltner \<times> keltner_value option) option" where
  "keltner_update s = (\<lambda>(high, low, close). do {
     (e, mid_v) \<leftarrow> ema_update (kl_ema s) close;
     (a, atr_v) \<leftarrow> atr_update (kl_atr s) (high, low, close);
     Some (s\<lparr>kl_ema := e, kl_atr := a\<rparr>,
           opt2 (\<lambda>mid av. let band = kl_multiplier s * av_atr av
                          in \<lparr>klv_middle = mid, klv_upper = mid + band, klv_lower = mid - band\<rparr>) mid_v atr_v) })"

definition keltner_reset :: "keltner \<Rightarrow> keltner option" where
  "keltner_reset s = do {
     e \<leftarrow> ema_new (kl_period s); a \<leftarrow> atr_ind_new (kl_atr_period s); Some (s\<lparr>kl_ema := e, kl_atr := a\<rparr>) }"

lemma atr_ind_new_pos: "atr_ind_new p = (if 0 < p then Some (atr_start p) else None)"
  by (auto simp: atr_ind_new_def atr_start_def smma_new_def smma_start_def)

lemma ema_new_pos: "ema_new p = (if 0 < p then Some (ema_start p) else None)"
  by (auto simp: ema_new_def ema_start_def)

fun keltner_fed :: "nat \<times> nat \<times> f64 \<Rightarrow> nat \<Rightarrow> keltner \<Rightarrow> bool" where
  "keltner_fed (p, q, m) k s \<longleftrightarrow> 0 < p \<and> 0 < q \<and> kl_period s = p \<and> kl_atr_period s = q \<and> kl_multiplier s = m \<and>
     ema_fed p k (kl_ema s) \<and> atr_fed q k (kl_atr s)"

interpretation keltner: timed "\<lambda>_. True" keltner_update keltner_reset "\<lambda>(p, q, m). keltner_new p q m" keltner_fed
  "\<lambda>(p, q, m). max p q"
proof (rule timedI)
  fix c k s and x :: "f64 \<times> f64 \<times> f64"
  assume s: "keltner_fed c k s"
  obtain p q m where c: "c = (p, q, m)" by (cases c)
  obtain high low close where x: "x = (high, low, close)" by (cases x)
  obtain e v where "ema_update (kl_ema s) close = Some (e, v)" "ema_fed p (Suc k) e" "v = None \<longleftrightarrow> Suc k < p"
    using ema.step [of p k "kl_ema s" close] s c by auto
  moreover obtain a w where "atr_update (kl_atr s) x = Some (a, w)" "atr_fed q (Suc k) a" "w = None \<longleftrightarrow> Suc k < q"
    using atr.step [of q k "kl_atr s" x] s c by auto
  ultimately show "\<exists>s' v. keltner_update s x = Some (s', v) \<and> keltner_fed c (Suc k) s' \<and>
      (v = None \<longleftrightarrow> Suc k < (case c of (p, q, m) \<Rightarrow> max p q))"
    using s c x by (auto simp: keltner_update_def)
qed (auto simp: keltner_new_def keltner_reset_def ema_new_pos atr_ind_new_pos ema.fed_start atr.fed_start
    split: bind_splits if_splits)

section \<open>\<open>SuperTrend\<close>\<close>

record supertrend_value =
  stv_value :: f64
  stv_is_bullish :: bool

record supertrend =
  su_atr :: atr
  su_multiplier :: f64
  su_prev_close :: "f64 option"
  su_prev_upper :: "f64 option"
  su_prev_lower :: "f64 option"
  su_prev_supertrend :: "f64 option"
  su_prev_is_bullish :: "bool option"
  su_atr_period :: nat

definition supertrend_of :: "atr \<Rightarrow> nat \<Rightarrow> f64 \<Rightarrow> supertrend" where
  "supertrend_of a atr_period multiplier =
     \<lparr>su_atr = a, su_multiplier = multiplier, su_prev_close = None, su_prev_upper = None, su_prev_lower = None,
      su_prev_supertrend = None, su_prev_is_bullish = None, su_atr_period = atr_period\<rparr>"

definition supertrend_new :: "nat \<Rightarrow> f64 \<Rightarrow> supertrend option" where
  "supertrend_new atr_period multiplier =
     map_option (\<lambda>a. supertrend_of a atr_period multiplier) (atr_ind_new atr_period)"

definition supertrend_bands :: "supertrend \<Rightarrow> f64 \<Rightarrow> f64 \<Rightarrow> f64 \<Rightarrow> f64 \<times> f64 \<times> bool" where
  "supertrend_bands s basic_lower basic_upper close =
     (case (su_prev_lower s, su_prev_upper s, su_prev_is_bullish s) of
        (Some pl, Some pu, Some prev_bull) \<Rightarrow>
          if prev_bull then
            if close < pl then (basic_lower, basic_upper, False)
            else (if pl < basic_lower then basic_lower else pl, basic_upper, True)
          else
            if pu < close then (basic_lower, basic_upper, True)
            else (basic_lower, if basic_upper < pu then basic_upper else pu, False)
      | _ \<Rightarrow> (basic_lower, basic_upper, basic_lower < close))"

definition supertrend_update :: "supertrend \<Rightarrow> f64 \<times> f64 \<times> f64 \<Rightarrow> (supertrend \<times> supertrend_value option) option" where
  "supertrend_update s = (\<lambda>(high, low, close). do {
     (a, atr_v) \<leftarrow> atr_update (su_atr s) (high, low, close);
     Some (case atr_v of
       None \<Rightarrow> (s\<lparr>su_atr := a\<rparr>, None)
     | Some atr_val \<Rightarrow>
         (let hl2 = (high + low) / lit 2;
              basic_upper = hl2 + su_multiplier s * av_atr atr_val;
              basic_lower = hl2 - su_multiplier s * av_atr atr_val;
              (final_lower, final_upper, is_bullish) = supertrend_bands s basic_lower basic_upper close;
              st = (if is_bullish then final_lower else final_upper)
          in (s\<lparr>su_atr := a, su_prev_close := Some close, su_prev_upper := Some final_upper,
                su_prev_lower := Some final_lower, su_prev_supertrend := Some st, su_prev_is_bullish := Some is_bullish\<rparr>,
              Some \<lparr>stv_value = st, stv_is_bullish = is_bullish\<rparr>))) })"

definition supertrend_reset :: "supertrend \<Rightarrow> supertrend option" where
  "supertrend_reset s = do {
     a \<leftarrow> atr_ind_new (su_atr_period s);
     Some (s\<lparr>su_atr := a, su_prev_close := None, su_prev_upper := None, su_prev_lower := None,
             su_prev_supertrend := None, su_prev_is_bullish := None\<rparr>) }"

fun supertrend_fed :: "nat \<times> f64 \<Rightarrow> nat \<Rightarrow> supertrend \<Rightarrow> bool" where
  "supertrend_fed (p, m) k s \<longleftrightarrow> 0 < p \<and> su_atr_period s = p \<and> su_multiplier s = m \<and> atr_fed p k (su_atr s)"

interpretation supertrend: timed "\<lambda>_. True" supertrend_update supertrend_reset "\<lambda>(p, m). supertrend_new p m"
  supertrend_fed "\<lambda>(p, m). p"
proof (rule timedI)
  fix c k s and x :: "f64 \<times> f64 \<times> f64"
  assume s: "supertrend_fed c k s"
  obtain p m where c: "c = (p, m)" by (cases c)
  obtain high low close where x: "x = (high, low, close)" by (cases x)
  obtain a w where "atr_update (su_atr s) x = Some (a, w)" "atr_fed p (Suc k) a" "w = None \<longleftrightarrow> Suc k < p"
    using atr.step [of p k "su_atr s" x] s c by auto
  then show "\<exists>s' v. supertrend_update s x = Some (s', v) \<and> supertrend_fed c (Suc k) s' \<and>
      (v = None \<longleftrightarrow> Suc k < (case c of (p, m) \<Rightarrow> p))"
    using s c x by (auto simp: supertrend_update_def Let_def split: prod.split option.split)
qed (auto simp: supertrend_new_def supertrend_of_def supertrend_reset_def atr_ind_new_pos atr.fed_start split: if_splits)

section \<open>\<open>ChandelierExit\<close>\<close>

record chandelier_value =
  chv_long_stop :: f64
  chv_short_stop :: f64
  chv_atr :: f64

record chandelier_exit =
  ch_period :: nat
  ch_multiplier :: f64
  ch_atr :: atr
  ch_high_buf :: "f64 list"
  ch_low_buf :: "f64 list"

definition chandelier_new :: "nat \<Rightarrow> f64 \<Rightarrow> chandelier_exit option" where
  "chandelier_new period multiplier =
     (if 0 < period \<and> 0 < multiplier then do {
        a \<leftarrow> atr_ind_new period;
        Some \<lparr>ch_period = period, ch_multiplier = multiplier, ch_atr = a, ch_high_buf = [], ch_low_buf = []\<rparr> }
      else None)"

definition chandelier_update :: "chandelier_exit \<Rightarrow> f64 \<times> f64 \<times> f64 \<Rightarrow> (chandelier_exit \<times> chandelier_value option) option" where
  "chandelier_update s = (\<lambda>(high, low, close). do {
     let full = (length (ch_high_buf s) = ch_period s);
     let highs = (if full then tl (ch_high_buf s) else ch_high_buf s) @ [high];
     let lows = (if full then tl (ch_low_buf s) else ch_low_buf s) @ [low];
     (a, atr_v) \<leftarrow> atr_update (ch_atr s) (high, low, close);
     Some (s\<lparr>ch_high_buf := highs, ch_low_buf := lows, ch_atr := a\<rparr>,
           case atr_v of
             None \<Rightarrow> None
           | Some atr_val \<Rightarrow>
               if length highs < ch_period s then None
               else Some \<lparr>chv_long_stop = fold_max highs - ch_multiplier s * av_atr atr_val,
                          chv_short_stop = fold_min lows + ch_multiplier s * av_atr atr_val,
                          chv_atr = av_atr atr_val\<rparr>) })"

definition chandelier_is_ready :: "chandelier_exit \<Rightarrow> bool" where
  "chandelier_is_ready s \<longleftrightarrow> atr_is_ready (ch_atr s) \<and> ch_period s \<le> length (ch_high_buf s)"

definition chandelier_reset :: "chandelier_exit \<Rightarrow> chandelier_exit" where
  "chandelier_reset s = s\<lparr>ch_atr := atr_reset (ch_atr s), ch_high_buf := [], ch_low_buf := []\<rparr>"

fun chandelier_fed :: "nat \<times> f64 \<Rightarrow> nat \<Rightarrow> chandelier_exit \<Rightarrow> bool" where
  "chandelier_fed (p, m) k s \<longleftrightarrow> 0 < p \<and> 0 < m \<and> ch_period s = p \<and> ch_multiplier s = m \<and> atr_fed p k (ch_atr s) \<and>
     length (ch_high_buf s) = min k p \<and> length (ch_low_buf s) = min k p"

lemma slide_length: "0 < p \<Longrightarrow> length b = min k p \<Longrightarrow> length ((if min k p = p then tl b else b) @ [x]) = min (Suc k) p"
  by (auto simp: min_def)

interpretation chandelier: timed "\<lambda>_. True" chandelier_update "\<lambda>s. Some (chandelier_reset s)"
  "\<lambda>(p, m). chandelier_new p m" chandelier_fed "\<lambda>(p, m). p"
proof (rule timedI)
  fix c k s and x :: "f64 \<times> f64 \<times> f64"
  assume s: "chandelier_fed c k s"
  obtain p m where c: "c = (p, m)" by (cases c)
  obtain high low close where x: "x = (high, low, close)" by (cases x)
  obtain a w where "atr_update (ch_atr s) x = Some (a, w)" "atr_fed p (Suc k) a" "w = None \<longleftrightarrow> Suc k < p"
    using atr.step [of p k "ch_atr s" x] s c by auto
  then show "\<exists>s' v. chandelier_update s x = Some (s', v) \<and> chandelier_fed c (Suc k) s' \<and>
      (v = None \<longleftrightarrow> Suc k < (case c of (p, m) \<Rightarrow> p))"
    using s c x by (auto simp: chandelier_update_def Let_def slide_length split: option.split)
next
  fix c k s
  assume "chandelier_fed c k s"
  then show "\<exists>s0. (case c of (p, m) \<Rightarrow> chandelier_new p m) = Some s0 \<and> Some (chandelier_reset s) = Some s0"
    using atr.fed_reset by (cases c) (auto simp: chandelier_new_def chandelier_reset_def atr_ind_new_pos)
qed (auto simp: chandelier_new_def atr_ind_new_pos atr.fed_start split: if_splits)

section \<open>\<open>ChandeKrollStop\<close>\<close>

record chande_kroll_value =
  ckv_stop_long :: f64
  ckv_stop_short :: f64

record chande_kroll_stop =
  ck_atr_period :: nat
  ck_factor :: f64
  ck_stop_period :: nat
  ck_atr :: atr
  ck_high_buf :: "f64 list"
  ck_low_buf :: "f64 list"
  ck_first_long_buf :: "f64 list"
  ck_first_short_buf :: "f64 list"

definition chande_kroll_new :: "nat \<Rightarrow> f64 \<Rightarrow> nat \<Rightarrow> chande_kroll_stop option" where
  "chande_kroll_new atr_period factor stop_period =
     (if 0 < atr_period \<and> 0 < stop_period \<and> 0 < factor then do {
        a \<leftarrow> atr_ind_new atr_period;
        Some \<lparr>ck_atr_period = atr_period, ck_factor = factor, ck_stop_period = stop_period, ck_atr = a,
              ck_high_buf = [], ck_low_buf = [], ck_first_long_buf = [], ck_first_short_buf = []\<rparr> }
      else None)"

text \<open>The second layer: the extrema of the first stops.\<close>

definition chande_kroll_second :: "chande_kroll_stop \<Rightarrow> f64 \<Rightarrow> f64 \<Rightarrow> chande_kroll_stop \<times> chande_kroll_value option" where
  "chande_kroll_second s first_long first_short =
     (let full = (length (ck_first_long_buf s) = ck_stop_period s);
          longs = (if full then tl (ck_first_long_buf s) else ck_first_long_buf s) @ [first_long];
          shorts = (if full then tl (ck_first_short_buf s) else ck_first_short_buf s) @ [first_short]
      in (s\<lparr>ck_first_long_buf := longs, ck_first_short_buf := shorts\<rparr>,
          if length longs < ck_stop_period s then None
          else Some \<lparr>ckv_stop_long = fold_max longs, ckv_stop_short = fold_min shorts\<rparr>))"

definition chande_kroll_update :: "chande_kroll_stop \<Rightarrow> f64 \<times> f64 \<times> f64 \<Rightarrow>
    (chande_kroll_stop \<times> chande_kroll_value option) option" where
  "chande_kroll_update s = (\<lambda>(high, low, close). do {
     let full = (length (ck_high_buf s) = ck_atr_period s);
     let highs = (if full then tl (ck_high_buf s) else ck_high_buf s) @ [high];
     let lows = (if full then tl (ck_low_buf s) else ck_low_buf s) @ [low];
     (a, atr_v) \<leftarrow> atr_update (ck_atr s) (high, low, close);
     let s1 = s\<lparr>ck_high_buf := highs, ck_low_buf := lows, ck_atr := a\<rparr>;
     Some (case atr_v of
       None \<Rightarrow> (s1, None)
     | Some atr_val \<Rightarrow>
         if length highs < ck_atr_period s then (s1, None)
         else chande_kroll_second s1 (fold_max highs - ck_factor s * av_atr atr_val)
                (fold_min lows + ck_factor s * av_atr atr_val)) })"

definition chande_kroll_is_ready :: "chande_kroll_stop \<Rightarrow> bool" where
  "chande_kroll_is_ready s \<longleftrightarrow> ck_stop_period s \<le> length (ck_first_long_buf s)"

definition chande_kroll_reset :: "chande_kroll_stop \<Rightarrow> chande_kroll_stop" where
  "chande_kroll_reset s =
     s\<lparr>ck_atr := atr_reset (ck_atr s), ck_high_buf := [], ck_low_buf := [], ck_first_long_buf := [],
       ck_first_short_buf := []\<rparr>"

fun chande_kroll_fed :: "nat \<times> f64 \<times> nat \<Rightarrow> nat \<Rightarrow> chande_kroll_stop \<Rightarrow> bool" where
  "chande_kroll_fed (p, m, q) k s \<longleftrightarrow> 0 < p \<and> 0 < q \<and> 0 < m \<and> ck_atr_period s = p \<and> ck_factor s = m \<and>
     ck_stop_period s = q \<and> atr_fed p k (ck_atr s) \<and> length (ck_high_buf s) = min k p \<and> length (ck_low_buf s) = min k p \<and>
     length (ck_first_long_buf s) = min (k - (p - 1)) q \<and> length (ck_first_short_buf s) = min (k - (p - 1)) q"

lemma chande_kroll_second_length:
  assumes "0 < ck_stop_period s" and "length (ck_first_long_buf s) = min j (ck_stop_period s)"
    and "length (ck_first_short_buf s) = min j (ck_stop_period s)"
  shows "\<exists>ls ss v. chande_kroll_second s a b = (s\<lparr>ck_first_long_buf := ls, ck_first_short_buf := ss\<rparr>, v) \<and>
    length ls = min (Suc j) (ck_stop_period s) \<and> length ss = min (Suc j) (ck_stop_period s) \<and>
    (v = None \<longleftrightarrow> Suc j < ck_stop_period s)"
proof -
  let ?full = "length (ck_first_long_buf s) = ck_stop_period s"
  let ?ls = "(if ?full then tl (ck_first_long_buf s) else ck_first_long_buf s) @ [a]"
  let ?ss = "(if ?full then tl (ck_first_short_buf s) else ck_first_short_buf s) @ [b]"
  have len: "length ?ls = min (Suc j) (ck_stop_period s)" "length ?ss = min (Suc j) (ck_stop_period s)"
    unfolding assms(2) by (rule slide_length [OF assms(1,2)], rule slide_length [OF assms(1,3)])
  let ?v = "if length ?ls < ck_stop_period s then None else Some \<lparr>ckv_stop_long = fold_max ?ls, ckv_stop_short = fold_min ?ss\<rparr>"
  have second: "chande_kroll_second s a b = (s\<lparr>ck_first_long_buf := ?ls, ck_first_short_buf := ?ss\<rparr>, ?v)"
    by (simp only: chande_kroll_second_def Let_def)
  have "length ?ls < ck_stop_period s \<longleftrightarrow> Suc j < ck_stop_period s" unfolding len by (simp add: min_def)
  then have v: "?v = None \<longleftrightarrow> Suc j < ck_stop_period s" by (cases "Suc j < ck_stop_period s") simp_all
  show ?thesis by (rule exI [of _ ?ls], rule exI [of _ ?ss], rule exI [of _ ?v]) (intro conjI second len v)
qed

interpretation chande_kroll: timed "\<lambda>_. True" chande_kroll_update "\<lambda>s. Some (chande_kroll_reset s)"
  "\<lambda>(p, m, q). chande_kroll_new p m q" chande_kroll_fed "\<lambda>(p, m, q). p + q - 1"
proof (rule timedI)
  fix c k s and x :: "f64 \<times> f64 \<times> f64"
  assume s: "chande_kroll_fed c k s"
  obtain p m q where c: "c = (p, m, q)" by (cases c)
  obtain high low close where x: "x = (high, low, close)" by (cases x)
  obtain a w where w: "atr_update (ck_atr s) x = Some (a, w)" "atr_fed p (Suc k) a" "w = None \<longleftrightarrow> Suc k < p"
    using atr.step [of p k "ck_atr s" x] s c by auto
  show "\<exists>s' v. chande_kroll_update s x = Some (s', v) \<and> chande_kroll_fed c (Suc k) s' \<and>
      (v = None \<longleftrightarrow> Suc k < (case c of (p, m, q) \<Rightarrow> p + q - 1))"
  proof (cases w)
    case None
    then have "Suc k < p" "Suc k < p + q - 1" "k - (p - 1) = 0" "Suc k - (p - 1) = 0" using w s c by auto
    then show ?thesis using w s c x None by (auto simp: chande_kroll_update_def Let_def slide_length)
  next
    case (Some v)
    then have "p \<le> Suc k" using w by auto
    then have k: "Suc k - (p - 1) = Suc (k - (p - 1))" "Suc k < p + q - 1 \<longleftrightarrow> Suc (k - (p - 1)) < q" using s c by auto
    have len: "length ((if length (ck_high_buf s) = p then tl (ck_high_buf s) else ck_high_buf s) @ [high]) = p"
      "length ((if length (ck_high_buf s) = p then tl (ck_low_buf s) else ck_low_buf s) @ [low]) = p"
      using s c \<open>p \<le> Suc k\<close> slide_length [of p "ck_high_buf s" k high] slide_length [of p "ck_low_buf s" k low] by auto
    define s1 where "s1 = s\<lparr>ck_high_buf := (if length (ck_high_buf s) = p then tl (ck_high_buf s) else ck_high_buf s) @ [high],
      ck_low_buf := (if length (ck_high_buf s) = p then tl (ck_low_buf s) else ck_low_buf s) @ [low], ck_atr := a\<rparr>"
    have s1: "ck_stop_period s1 = q" "length (ck_first_long_buf s1) = min (k - (p - 1)) q" "ck_atr_period s1 = p"
      "length (ck_first_short_buf s1) = min (k - (p - 1)) q" "ck_factor s1 = m" "ck_atr s1 = a" "0 < p" "0 < q" "0 < m"
      "length (ck_high_buf s1) = p" "length (ck_low_buf s1) = p" using s c len by (simp_all add: s1_def)
    obtain ls ss u where second: "chande_kroll_second s1 (fold_max (ck_high_buf s1) - m * av_atr v) (fold_min (ck_low_buf s1) + m * av_atr v) =
        (s1\<lparr>ck_first_long_buf := ls, ck_first_short_buf := ss\<rparr>, u)"
      "length ls = min (Suc (k - (p - 1))) q" "length ss = min (Suc (k - (p - 1))) q" "u = None \<longleftrightarrow> Suc (k - (p - 1)) < q"
      using chande_kroll_second_length [of s1 "k - (p - 1)"] s1 by metis
    have "ck_atr_period s = p" "ck_factor s = m" using s c by simp_all
    then have "chande_kroll_update s x = Some (s1\<lparr>ck_first_long_buf := ls, ck_first_short_buf := ss\<rparr>, u)"
      using second(1) w(1) Some s1(10) x by (simp add: chande_kroll_update_def Let_def s1_def)
    then show ?thesis using w(2) c second k s1 \<open>p \<le> Suc k\<close> by simp
  qed
next
  fix c k s
  assume "chande_kroll_fed c k s"
  then show "\<exists>s0. (case c of (p, m, q) \<Rightarrow> chande_kroll_new p m q) = Some s0 \<and> Some (chande_kroll_reset s) = Some s0"
    using atr.fed_reset by (cases c) (auto simp: chande_kroll_new_def chande_kroll_reset_def atr_ind_new_pos)
qed (auto simp: chande_kroll_new_def atr_ind_new_pos atr.fed_start split: if_splits)

end
