(* ===== verification/Ind_Regime.thy ===== *)
theory Ind_Regime
  imports Ind_Channels Metrics
begin

text \<open>
  \<open>alm-indicator/src/regime\<close> and \<open>src/signal/volume\<close>: \<open>Chop\<close>, \<open>ChopZone\<close>, \<open>VolatilityRatio\<close>, the \<open>RegimeDetector\<close>
  built on the first, \<open>Cmf\<close> and \<open>Vwap\<close>. The decimal logarithm and the arc tangent are two more functions of the
  platform's mathematical library.
\<close>

record mathlib = libm +
  lm_log10 :: "f64 \<Rightarrow> f64"
  lm_atan :: "f64 \<Rightarrow> f64"

section \<open>\<open>Chop\<close>\<close>

record chop =
  cp_period :: nat
  cp_bars :: "(f64 \<times> f64 \<times> f64) list"
  cp_value :: "f64 option"

definition chop_new :: "nat \<Rightarrow> chop option" where
  "chop_new period = (if 1 < period then Some \<lparr>cp_period = period, cp_bars = [], cp_value = None\<rparr> else None)"

text \<open>The loop over the bars of the window: the sum of the true ranges, the highest high and the lowest low. The first
  argument is the close of the bar before.\<close>

fun chop_scan :: "f64 \<Rightarrow> (f64 \<times> f64 \<times> f64) list \<Rightarrow> f64 \<times> f64 \<times> f64 \<Rightarrow> f64 \<times> f64 \<times> f64" where
  "chop_scan prev_close [] acc = acc"
| "chop_scan prev_close ((h, l, c) # rest) (sum_tr, period_high, period_low) =
     (let tr = fmax (fmax (h - l) \<bar>h - prev_close\<bar>) \<bar>l - prev_close\<bar>
      in chop_scan c rest (sum_tr + tr, if period_high < h then h else period_high, if l < period_low then l else period_low))"

text \<open>The value of a full window; the empty list does not occur.\<close>

definition chop_of :: "mathlib \<Rightarrow> nat \<Rightarrow> (f64 \<times> f64 \<times> f64) list \<Rightarrow> f64" where
  "chop_of lm period bars =
     (case bars of
        [] \<Rightarrow> NaN
      | (_, _, c0) # rest \<Rightarrow>
          (let (sum_tr, period_high, period_low) = chop_scan c0 rest (0, f64_MIN, f64_MAX);
               range = period_high - period_low
           in if range < f64_epsilon \<or> sum_tr < f64_epsilon then lit 100
              else fclamp (lit 100 * lm_log10 lm (sum_tr / range) / lm_log10 lm (f64_of_nat period)) 0 (lit 100)))"

definition chop_update :: "mathlib \<Rightarrow> chop \<Rightarrow> f64 \<times> f64 \<times> f64 \<Rightarrow> chop \<times> f64 option" where
  "chop_update lm s bar =
     (let b = cp_bars s @ [bar];
          bars = drop (length b - (cp_period s + 1)) b;
          s1 = s\<lparr>cp_bars := bars\<rparr>
      in if length bars < cp_period s + 1 then (s1, None)
         else (let v = Some (chop_of lm (cp_period s) bars) in (s1\<lparr>cp_value := v\<rparr>, v)))"

definition chop_val :: "chop \<Rightarrow> f64 option" where "chop_val s = cp_value s"
definition chop_is_ready :: "chop \<Rightarrow> bool" where "chop_is_ready s \<longleftrightarrow> cp_value s \<noteq> None"
definition chop_reset :: "chop \<Rightarrow> chop" where "chop_reset s = s\<lparr>cp_bars := [], cp_value := None\<rparr>"

definition chop_fed :: "nat \<Rightarrow> nat \<Rightarrow> chop \<Rightarrow> bool" where
  "chop_fed p k s \<longleftrightarrow> 1 < p \<and> cp_period s = p \<and> length (cp_bars s) = min k (p + 1)"

interpretation chop: timed "\<lambda>_. True" "\<lambda>s x. Some (chop_update lm s x)" "\<lambda>s. Some (chop_reset s)" chop_new chop_fed
  "\<lambda>p. p + 1" for lm
proof (rule timedI)
  fix p k s and x :: "f64 \<times> f64 \<times> f64"
  assume "chop_fed p k s"
  then show "\<exists>s' v. Some (chop_update lm s x) = Some (s', v) \<and> chop_fed p (Suc k) s' \<and> (v = None \<longleftrightarrow> Suc k < p + 1)"
    by (auto simp: chop_update_def chop_fed_def Let_def min_def)
qed (auto simp: chop_new_def chop_reset_def chop_fed_def split: if_splits)

section \<open>\<open>ChopZone\<close>\<close>

datatype chop_zone_class = TrendingUp | TrendingDown | Choppy

record chop_zone_value =
  czv_angle :: f64
  czv_zone :: chop_zone_class

record chop_zone =
  cz_ema :: ema
  cz_atr :: atr
  cz_prev_ema :: "f64 option"
  cz_threshold :: f64

definition chop_zone_new :: "nat \<Rightarrow> f64 \<Rightarrow> chop_zone option" where
  "chop_zone_new period threshold_degrees = do {
     e \<leftarrow> ema_new period; a \<leftarrow> atr_ind_new 1;
     Some \<lparr>cz_ema = e, cz_atr = a, cz_prev_ema = None, cz_threshold = threshold_degrees\<rparr> }"

definition chop_zone_of :: "mathlib \<Rightarrow> f64 \<Rightarrow> f64 \<Rightarrow> f64 \<Rightarrow> chop_zone_value" where
  "chop_zone_of lm threshold ema_change atr =
     (let angle = (if f64_epsilon < atr then lm_atan lm (ema_change / atr) * (lit 180 / f64_PI) else 0)
      in \<lparr>czv_angle = angle,
          czv_zone = (if threshold < angle then TrendingUp else if angle < - threshold then TrendingDown else Choppy)\<rparr>)"

definition chop_zone_update :: "mathlib \<Rightarrow> chop_zone \<Rightarrow> f64 \<times> f64 \<times> f64 \<Rightarrow> (chop_zone \<times> chop_zone_value option) option" where
  "chop_zone_update lm s = (\<lambda>(high, low, close). do {
     (e, ema_v) \<leftarrow> ema_update (cz_ema s) close;
     (a, atr_v) \<leftarrow> atr_update (cz_atr s) (high, low, close);
     let s1 = s\<lparr>cz_ema := e, cz_atr := a\<rparr>;
     Some (case (ema_v, atr_v) of
       (Some ema_now, Some atr_now) \<Rightarrow>
         (s1\<lparr>cz_prev_ema := Some ema_now\<rparr>,
          map_option (\<lambda>prev. chop_zone_of lm (cz_threshold s) (ema_now - prev) (av_atr atr_now)) (cz_prev_ema s))
     | _ \<Rightarrow> (s1, None)) })"

definition chop_zone_is_ready :: "chop_zone \<Rightarrow> bool" where
  "chop_zone_is_ready s \<longleftrightarrow> cz_prev_ema s \<noteq> None \<and> ema_is_ready (cz_ema s)"

definition chop_zone_reset :: "chop_zone \<Rightarrow> chop_zone" where
  "chop_zone_reset s = s\<lparr>cz_ema := ema_reset (cz_ema s), cz_atr := atr_reset (cz_atr s), cz_prev_ema := None\<rparr>"

fun chop_zone_fed :: "nat \<times> f64 \<Rightarrow> nat \<Rightarrow> chop_zone \<Rightarrow> bool" where
  "chop_zone_fed (p, t) k s \<longleftrightarrow> 0 < p \<and> cz_threshold s = t \<and> ema_fed p k (cz_ema s) \<and> atr_fed 1 k (cz_atr s) \<and>
     (cz_prev_ema s = None \<longleftrightarrow> k < p)"

interpretation chop_zone: timed "\<lambda>_. True" "chop_zone_update lm" "\<lambda>s. Some (chop_zone_reset s)"
  "\<lambda>(p, t). chop_zone_new p t" chop_zone_fed "\<lambda>(p, t). p + 1" for lm
proof (rule timedI)
  fix c k s and x :: "f64 \<times> f64 \<times> f64"
  assume s: "chop_zone_fed c k s"
  obtain p t where c: "c = (p, t)" by (cases c)
  obtain high low close where x: "x = (high, low, close)" by (cases x)
  obtain e v where "ema_update (cz_ema s) close = Some (e, v)" "ema_fed p (Suc k) e" "v = None \<longleftrightarrow> Suc k < p"
    using ema.step [of p k "cz_ema s" close] s c by auto
  moreover obtain a w where "atr_update (cz_atr s) x = Some (a, w)" "atr_fed 1 (Suc k) a" "w \<noteq> None"
    using atr.step [of 1 k "cz_atr s" x] s c by auto
  ultimately show "\<exists>s' v. chop_zone_update lm s x = Some (s', v) \<and> chop_zone_fed c (Suc k) s' \<and>
      (v = None \<longleftrightarrow> Suc k < (case c of (p, t) \<Rightarrow> p + 1))"
    using s c x by (cases v; cases w) (auto simp: chop_zone_update_def Let_def)
next
  fix c k s
  assume "chop_zone_fed c k s"
  then show "\<exists>s0. (case c of (p, t) \<Rightarrow> chop_zone_new p t) = Some s0 \<and> Some (chop_zone_reset s) = Some s0"
    using atr.fed_reset [of 1] ema.fed_reset
    by (cases c) (auto simp: chop_zone_new_def chop_zone_reset_def atr_ind_new_pos ema_new_pos)
qed (auto simp: chop_zone_new_def atr_ind_new_pos ema_new_pos atr.fed_start ema.fed_start split: if_splits)

section \<open>\<open>VolatilityRatio\<close>\<close>

record volatility_ratio =
  vr_lookback :: nat
  vr_highs :: "f64 list"
  vr_lows :: "f64 list"
  vr_prev_close :: "f64 option"

definition volatility_ratio_new :: "nat \<Rightarrow> volatility_ratio option" where
  "volatility_ratio_new lookback =
     (if 2 \<le> lookback then Some \<lparr>vr_lookback = lookback, vr_highs = [], vr_lows = [], vr_prev_close = None\<rparr> else None)"

definition volatility_ratio_update :: "volatility_ratio \<Rightarrow> f64 \<times> f64 \<times> f64 \<Rightarrow> volatility_ratio \<times> f64 option" where
  "volatility_ratio_update s = (\<lambda>(high, low, close).
     let tr = (case vr_prev_close s of
                 Some pc \<Rightarrow> fmax (fmax (high - low) \<bar>high - pc\<bar>) \<bar>low - pc\<bar>
               | None \<Rightarrow> high - low);
         hs = vr_highs s @ [high]; ls = vr_lows s @ [low];
         (highs, lows) = (if vr_lookback s < length hs then (tl hs, tl ls) else (hs, ls));
         range = fold_max highs - fold_min lows
     in (s\<lparr>vr_prev_close := Some close, vr_highs := highs, vr_lows := lows\<rparr>,
         if length highs < vr_lookback s then None else if feq range 0 then Some 0 else Some (tr / range)))"

definition volatility_ratio_reset :: "volatility_ratio \<Rightarrow> volatility_ratio" where
  "volatility_ratio_reset s = s\<lparr>vr_highs := [], vr_lows := [], vr_prev_close := None\<rparr>"

definition volatility_ratio_fed :: "nat \<Rightarrow> nat \<Rightarrow> volatility_ratio \<Rightarrow> bool" where
  "volatility_ratio_fed p k s \<longleftrightarrow> 2 \<le> p \<and> vr_lookback s = p \<and> length (vr_highs s) = min k p"

interpretation volatility_ratio: timed "\<lambda>_. True" "\<lambda>s x. Some (volatility_ratio_update s x)"
  "\<lambda>s. Some (volatility_ratio_reset s)" volatility_ratio_new volatility_ratio_fed "\<lambda>p. p"
proof (rule timedI)
  fix p k s and x :: "f64 \<times> f64 \<times> f64"
  assume "volatility_ratio_fed p k s"
  then show "\<exists>s' v. Some (volatility_ratio_update s x) = Some (s', v) \<and> volatility_ratio_fed p (Suc k) s' \<and>
      (v = None \<longleftrightarrow> Suc k < p)"
    by (cases x) (auto simp: volatility_ratio_update_def volatility_ratio_fed_def Let_def min_def split: if_splits)
qed (auto simp: volatility_ratio_new_def volatility_ratio_reset_def volatility_ratio_fed_def split: if_splits)

section \<open>\<open>RegimeDetector\<close>\<close>

record regime_detector =
  rg_adx :: adx
  rg_chop :: chop
  rg_atr_short :: atr
  rg_atr_long :: atr
  rg_adx_period :: nat
  rg_chop_period :: nat
  rg_atr_short_period :: nat
  rg_atr_long_period :: nat
  rg_adx_threshold :: f64
  rg_chop_threshold :: f64
  rg_vol_high_ratio :: f64
  rg_vol_low_ratio :: f64

definition regime_detector_new :: "regime_detector option" where
  "regime_detector_new = do {
     x \<leftarrow> adx_new 14; c \<leftarrow> chop_new 14; s \<leftarrow> atr_ind_new 14; l \<leftarrow> atr_ind_new 50;
     Some \<lparr>rg_adx = x, rg_chop = c, rg_atr_short = s, rg_atr_long = l,
           rg_adx_period = 14, rg_chop_period = 14, rg_atr_short_period = 14, rg_atr_long_period = 50,
           rg_adx_threshold = lit 25, rg_chop_threshold = lit (618 / 10),
           rg_vol_high_ratio = lit (13 / 10), rg_vol_low_ratio = lit (7 / 10)\<rparr> }"

definition with_thresholds :: "f64 \<Rightarrow> f64 \<Rightarrow> f64 \<Rightarrow> f64 \<Rightarrow> regime_detector \<Rightarrow> regime_detector" where
  "with_thresholds a c h l d =
     d\<lparr>rg_adx_threshold := a, rg_chop_threshold := c, rg_vol_high_ratio := h, rg_vol_low_ratio := l\<rparr>"

definition trend_dimension :: "regime_detector \<Rightarrow> f64 \<Rightarrow> f64 \<Rightarrow> regime_dimension" where
  "trend_dimension d adx chop =
     (if rg_adx_threshold d < adx then dim_new adx ''trending''
      else if rg_chop_threshold d < chop then dim_new chop ''ranging''
      else dim_new adx ''neutral'')"

definition volatility_dimension :: "regime_detector \<Rightarrow> atr_value_rec option \<Rightarrow> atr_value_rec option \<Rightarrow> regime_dimension" where
  "volatility_dimension d atr_s atr_l =
     (case (atr_s, atr_l) of
        (Some s, Some l) \<Rightarrow>
          if f64_epsilon < av_atr l then
            (let ratio = av_atr s / av_atr l
             in dim_new ratio (if rg_vol_high_ratio d < ratio then ''high''
                               else if ratio < rg_vol_low_ratio d then ''low'' else ''normal''))
          else dim_new 1 ''normal''
      | _ \<Rightarrow> dim_new 1 ''normal'')"

definition regime_detector_update :: "mathlib \<Rightarrow> regime_detector \<Rightarrow> bar \<Rightarrow> (regime_detector \<times> regime_state option) option" where
  "regime_detector_update lm d b = do {
     let hlc = (b_high b, b_low b, b_close b);
     (x, adx_val) \<leftarrow> adx_update (rg_adx d) hlc;
     let (c, chop_val) = chop_update lm (rg_chop d) hlc;
     (s, atr_s_val) \<leftarrow> atr_update (rg_atr_short d) hlc;
     (l, atr_l_val) \<leftarrow> atr_update (rg_atr_long d) hlc;
     Some (d\<lparr>rg_adx := x, rg_chop := c, rg_atr_short := s, rg_atr_long := l\<rparr>,
           opt2 (\<lambda>av ch. \<lparr>rs_trend = trend_dimension d (adv_adx av) ch,
                           rs_volatility = volatility_dimension d atr_s_val atr_l_val\<rparr>) adx_val chop_val) }"

definition regime_detector_reset :: "regime_detector \<Rightarrow> regime_detector option" where
  "regime_detector_reset d = do {
     x \<leftarrow> adx_new (rg_adx_period d); c \<leftarrow> chop_new (rg_chop_period d);
     s \<leftarrow> atr_ind_new (rg_atr_short_period d); l \<leftarrow> atr_ind_new (rg_atr_long_period d);
     Some (d\<lparr>rg_adx := x, rg_chop := c, rg_atr_short := s, rg_atr_long := l\<rparr>) }"

text \<open>The configuration of a detector is the four thresholds.\<close>

definition regime_detector_with :: "f64 \<times> f64 \<times> f64 \<times> f64 \<Rightarrow> regime_detector option" where
  "regime_detector_with = (\<lambda>(a, c, h, l). map_option (with_thresholds a c h l) regime_detector_new)"

fun regime_detector_fed :: "f64 \<times> f64 \<times> f64 \<times> f64 \<Rightarrow> nat \<Rightarrow> regime_detector \<Rightarrow> bool" where
  "regime_detector_fed (a, c, h, l) k d \<longleftrightarrow>
     rg_adx_period d = 14 \<and> rg_chop_period d = 14 \<and> rg_atr_short_period d = 14 \<and> rg_atr_long_period d = 50 \<and>
     rg_adx_threshold d = a \<and> rg_chop_threshold d = c \<and> rg_vol_high_ratio d = h \<and> rg_vol_low_ratio d = l \<and>
     adx_fed 14 k (rg_adx d) \<and> chop_fed 14 k (rg_chop d) \<and> atr_fed 14 k (rg_atr_short d) \<and> atr_fed 50 k (rg_atr_long d)"

lemma adx_new_14: "\<exists>x. adx_new 14 = Some x \<and> adx_fed 14 0 x" "\<exists>c. chop_new 14 = Some c \<and> chop_fed 14 0 c"
  using adx.new_fed [of 14] chop.new_fed [of 14] by (auto simp: adx_new_def smma_new_def chop_new_def)

interpretation detector: streaming "\<lambda>_. True" "regime_detector_update lm" regime_detector_reset regime_detector_with
  regime_detector_fed for lm
proof unfold_locales
  fix t k d and b :: bar
  assume d: "regime_detector_fed t k d"
  let ?x = "(b_high b, b_low b, b_close b)"
  obtain a c h l where t: "t = (a, c, h, l)" by (cases t)
  obtain x xv where "adx_update (rg_adx d) ?x = Some (x, xv)" "adx_fed 14 (Suc k) x"
    using adx.upd_fed [of 14 k "rg_adx d" ?x] d t by auto
  moreover obtain ch cv where "chop_update lm (rg_chop d) ?x = (ch, cv)" "chop_fed 14 (Suc k) ch"
    using chop.upd_fed [of 14 k "rg_chop d" lm ?x] d t by auto
  moreover obtain s sv where "atr_update (rg_atr_short d) ?x = Some (s, sv)" "atr_fed 14 (Suc k) s"
    using atr.step [of 14 k "rg_atr_short d" ?x] d t by auto
  moreover obtain g gv where "atr_update (rg_atr_long d) ?x = Some (g, gv)" "atr_fed 50 (Suc k) g"
    using atr.step [of 50 k "rg_atr_long d" ?x] d t by auto
  ultimately show "\<exists>d' v. regime_detector_update lm d b = Some (d', v) \<and> regime_detector_fed t (Suc k) d'"
    using d t by (simp add: regime_detector_update_def)
next
  fix t k d
  assume d: "regime_detector_fed t k d"
  obtain x c where "adx_new 14 = Some x" "chop_new 14 = Some c" using adx_new_14 by blast
  then show "\<exists>d0. regime_detector_with t = Some d0 \<and> regime_detector_reset d = Some d0" using d
    by (cases t) (auto simp: regime_detector_with_def regime_detector_new_def with_thresholds_def regime_detector_reset_def
        atr_ind_new_pos)
next
  fix t d
  assume d: "regime_detector_with t = Some d"
  obtain x c where "adx_new 14 = Some x" "adx_fed 14 0 x" "chop_new 14 = Some c" "chop_fed 14 0 c" using adx_new_14 by blast
  then show "regime_detector_fed t 0 d" using d
    by (cases t) (auto simp: regime_detector_with_def regime_detector_new_def with_thresholds_def atr_ind_new_pos atr.fed_start)
qed

section \<open>\<open>Cmf\<close> and \<open>Vwap\<close>\<close>

record cmf =
  cf_period :: nat
  cf_mfv_buf :: "f64 list"
  cf_vol_buf :: "f64 list"
  cf_mfv_sum :: f64
  cf_vol_sum :: f64

definition cmf_new :: "nat \<Rightarrow> cmf" where
  "cmf_new period = \<lparr>cf_period = period, cf_mfv_buf = [], cf_vol_buf = [], cf_mfv_sum = 0, cf_vol_sum = 0\<rparr>"

definition cmf_update :: "cmf \<Rightarrow> f64 \<times> f64 \<times> f64 \<times> f64 \<Rightarrow> cmf \<times> f64 option" where
  "cmf_update s = (\<lambda>(high, low, close, volume).
     let range = high - low;
         mfv = (if f64_epsilon < range then ((close - low) - (high - close)) / range * volume else 0);
         mb = cf_mfv_buf s @ [mfv]; vb = cf_vol_buf s @ [volume];
         ms = cf_mfv_sum s + mfv; vs = cf_vol_sum s + volume;
         s' = (if cf_period s < length mb
               then s\<lparr>cf_mfv_buf := tl mb, cf_vol_buf := tl vb, cf_mfv_sum := ms - hd mb, cf_vol_sum := vs - hd vb\<rparr>
               else s\<lparr>cf_mfv_buf := mb, cf_vol_buf := vb, cf_mfv_sum := ms, cf_vol_sum := vs\<rparr>)
     in (s', if length (cf_mfv_buf s') = cf_period s \<and> f64_epsilon < cf_vol_sum s'
             then Some (cf_mfv_sum s' / cf_vol_sum s') else None))"

definition cmf_reset :: "cmf \<Rightarrow> cmf" where
  "cmf_reset s = s\<lparr>cf_mfv_buf := [], cf_vol_buf := [], cf_mfv_sum := 0, cf_vol_sum := 0\<rparr>"

interpretation cmf: streaming "\<lambda>_. True" "\<lambda>s x. Some (cmf_update s x)" "\<lambda>s. Some (cmf_reset s)"
  "\<lambda>p. Some (cmf_new p)" "\<lambda>p k s. cf_period s = p"
  by unfold_locales (auto simp: cmf_new_def cmf_reset_def cmf_update_def Let_def)

record vwap =
  vw_session_gap_ms :: int
  vw_cum_tpv :: f64
  vw_cum_vol :: f64
  vw_last_ts :: "int option"
  vw_value :: "f64 option"

text \<open>Arithmetic on \<open>i64\<close> wraps around in the release profile.\<close>

definition wrap_i64 :: "int \<Rightarrow> int" where "wrap_i64 x = (x + 2 ^ 63) mod 2 ^ 64 - 2 ^ 63"

definition vwap_new :: "nat \<Rightarrow> vwap" where
  "vwap_new session_gap_mins =
     \<lparr>vw_session_gap_ms = wrap_i64 (wrap_i64 (int session_gap_mins) * 60000), vw_cum_tpv = 0, vw_cum_vol = 0,
      vw_last_ts = None, vw_value = None\<rparr>"

definition vwap_update :: "vwap \<Rightarrow> int \<times> f64 \<times> f64 \<times> f64 \<times> f64 \<Rightarrow> vwap \<times> f64" where
  "vwap_update s = (\<lambda>(ts_ms, high, low, close, volume).
     let fresh = (case vw_last_ts s of Some prev \<Rightarrow> vw_session_gap_ms s < wrap_i64 (ts_ms - prev) | None \<Rightarrow> False);
         cum_tpv = (if fresh then 0 else vw_cum_tpv s) + (high + low + close) / lit 3 * volume;
         cum_vol = (if fresh then 0 else vw_cum_vol s) + volume;
         v = (if 0 < cum_vol then cum_tpv / cum_vol else close)
     in (s\<lparr>vw_cum_tpv := cum_tpv, vw_cum_vol := cum_vol, vw_last_ts := Some ts_ms, vw_value := Some v\<rparr>, v))"

definition vwap_val :: "vwap \<Rightarrow> f64 option" where "vwap_val s = vw_value s"

definition vwap_reset :: "vwap \<Rightarrow> vwap" where
  "vwap_reset s = s\<lparr>vw_cum_tpv := 0, vw_cum_vol := 0, vw_last_ts := None, vw_value := None\<rparr>"

interpretation vwap: timed "\<lambda>_. True" "\<lambda>s x. Some (map_prod id Some (vwap_update s x))" "\<lambda>s. Some (vwap_reset s)"
  "\<lambda>g. Some (vwap_new g)" "\<lambda>g k s. vw_session_gap_ms s = vw_session_gap_ms (vwap_new g)" "\<lambda>_. 1"
proof (rule timedI)
  fix g k and s :: vwap and x :: "int \<times> f64 \<times> f64 \<times> f64 \<times> f64"
  assume "vw_session_gap_ms s = vw_session_gap_ms (vwap_new g)"
  then show "\<exists>s' v. Some (map_prod id Some (vwap_update s x)) = Some (s', v) \<and>
      vw_session_gap_ms s' = vw_session_gap_ms (vwap_new g) \<and> (v = None \<longleftrightarrow> Suc k < 1)"
    by (cases x) (simp add: vwap_update_def Let_def)
qed (auto simp: vwap_new_def vwap_reset_def)

end
