(* ===== verification/Ind_Patterns.thy ===== *)
theory Ind_Patterns
  imports Ind_Regime
begin

text \<open>
  \<open>alm-indicator/src/signal/pattern\<close> and \<open>src/viewing\<close>, with the parabolic stop of \<open>src/risk\<close>: \<open>Ichimoku\<close>,
  \<open>ParabolicSar\<close>, \<open>Rwi\<close>, \<open>WilliamsFractal\<close>, \<open>ElderRay\<close>, \<open>StochasticRsi\<close>, \<open>Alligator\<close> and \<open>Gmma\<close>.
\<close>

section \<open>\<open>Ichimoku\<close>\<close>

record ichimoku_value =
  icv_tenkan :: f64
  icv_kijun :: f64
  icv_senkou_a :: f64
  icv_senkou_b :: f64
  icv_chikou :: f64
  icv_above_cloud :: bool
  icv_below_cloud :: bool
  icv_chikou_above :: bool
  icv_chikou_below :: bool

record ichimoku =
  ic_tenkan :: nat
  ic_kijun :: nat
  ic_senkou_b_period :: nat
  ic_highs :: "f64 list"
  ic_lows :: "f64 list"
  ic_senkou_delay :: "(f64 \<times> f64) list"
  ic_close_delay :: "f64 list"

definition ichimoku_new :: "nat \<Rightarrow> nat \<Rightarrow> nat \<Rightarrow> ichimoku" where
  "ichimoku_new tenkan kijun senkou_b_period =
     \<lparr>ic_tenkan = tenkan, ic_kijun = kijun, ic_senkou_b_period = senkou_b_period, ic_highs = [], ic_lows = [],
      ic_senkou_delay = [], ic_close_delay = []\<rparr>"

definition midpoint :: "f64 list \<Rightarrow> f64 list \<Rightarrow> nat \<Rightarrow> f64 option" where
  "midpoint highs lows n =
     (let len = length highs in
      if len < n then None
      else (let start = len - n in Some ((fold_max (drop start highs) + fold_min (drop start lows)) / lit 2)))"

definition ichimoku_push :: "ichimoku \<Rightarrow> f64 \<Rightarrow> f64 \<Rightarrow> f64 \<Rightarrow> ichimoku" where
  "ichimoku_push s high low close =
     (let hs = ic_highs s @ [high]; ls = ic_lows s @ [low]; n = length hs - ic_senkou_b_period s
      in s\<lparr>ic_highs := drop n hs, ic_lows := drop n ls,
           ic_close_delay := push_trim (ic_kijun s + 1) (ic_close_delay s) close\<rparr>)"

definition ichimoku_value_of :: "ichimoku \<Rightarrow> f64 \<Rightarrow> f64 \<Rightarrow> f64 \<Rightarrow> f64 \<Rightarrow> f64 \<Rightarrow> ichimoku_value" where
  "ichimoku_value_of s tenkan kijun senkou_a senkou_b close =
     (let (above_cloud, below_cloud) =
            (case ic_senkou_delay s of
               (da, db) # _ \<Rightarrow>
                 if length (ic_senkou_delay s) = ic_kijun s + 1 then (fmax da db < close, close < fmin da db)
                 else (False, False)
             | [] \<Rightarrow> (False, False));
          (chikou_above, chikou_below) =
            (case ic_close_delay s of
               past_close # _ \<Rightarrow>
                 if length (ic_close_delay s) = ic_kijun s + 1 then (past_close < close, close < past_close)
                 else (False, False)
             | [] \<Rightarrow> (False, False))
      in \<lparr>icv_tenkan = tenkan, icv_kijun = kijun, icv_senkou_a = senkou_a, icv_senkou_b = senkou_b, icv_chikou = close,
          icv_above_cloud = above_cloud, icv_below_cloud = below_cloud,
          icv_chikou_above = chikou_above, icv_chikou_below = chikou_below\<rparr>)"

definition ichimoku_update :: "ichimoku \<Rightarrow> f64 \<times> f64 \<times> f64 \<Rightarrow> ichimoku \<times> ichimoku_value option" where
  "ichimoku_update s = (\<lambda>(high, low, close).
     let s1 = ichimoku_push s high low close
     in if length (ic_highs s1) < ic_senkou_b_period s then (s1, None)
        else case (midpoint (ic_highs s1) (ic_lows s1) (ic_tenkan s), midpoint (ic_highs s1) (ic_lows s1) (ic_kijun s),
                   midpoint (ic_highs s1) (ic_lows s1) (ic_senkou_b_period s)) of
          (Some tenkan, Some kijun, Some senkou_b) \<Rightarrow>
            (let senkou_a = (tenkan + kijun) / lit 2;
                 s2 = s1\<lparr>ic_senkou_delay := push_trim (ic_kijun s + 1) (ic_senkou_delay s) (senkou_a, senkou_b)\<rparr>
             in (s2, Some (ichimoku_value_of s2 tenkan kijun senkou_a senkou_b close)))
        | _ \<Rightarrow> (s1, None))"

definition ichimoku_reset :: "ichimoku \<Rightarrow> ichimoku" where
  "ichimoku_reset s = s\<lparr>ic_highs := [], ic_lows := [], ic_senkou_delay := [], ic_close_delay := []\<rparr>"

text \<open>The lines of \<open>tenkan\<close> and \<open>kijun\<close> come from the window of \<open>senkou_b\<close>, so a period longer than that window
  silences the indicator for ever: its warm-up is then infinite. The contract covers the sensible configurations.\<close>

definition ichimoku_build :: "nat \<times> nat \<times> nat \<Rightarrow> ichimoku option" where
  "ichimoku_build = (\<lambda>(t, kj, b). if t \<le> b \<and> kj \<le> b \<and> 0 < b then Some (ichimoku_new t kj b) else None)"

fun ichimoku_fed :: "nat \<times> nat \<times> nat \<Rightarrow> nat \<Rightarrow> ichimoku \<Rightarrow> bool" where
  "ichimoku_fed (t, kj, b) k s \<longleftrightarrow> t \<le> b \<and> kj \<le> b \<and> 0 < b \<and> ic_tenkan s = t \<and> ic_kijun s = kj \<and>
     ic_senkou_b_period s = b \<and> length (ic_highs s) = min k b"

interpretation ichimoku_timed: timed "\<lambda>_. True" "\<lambda>s x. Some (ichimoku_update s x)" "\<lambda>s. Some (ichimoku_reset s)"
  ichimoku_build ichimoku_fed "\<lambda>(t, kj, b). b"
proof (rule timedI)
  fix c k s and x :: "f64 \<times> f64 \<times> f64"
  assume "ichimoku_fed c k s"
  then show "\<exists>s' v. Some (ichimoku_update s x) = Some (s', v) \<and> ichimoku_fed c (Suc k) s' \<and>
      (v = None \<longleftrightarrow> Suc k < (case c of (t, kj, b) \<Rightarrow> b))"
    by (cases c; cases x) (auto simp: ichimoku_update_def ichimoku_push_def midpoint_def Let_def min_def)
qed (auto simp: ichimoku_build_def ichimoku_new_def ichimoku_reset_def split: if_splits)

fun ichimoku_kept :: "nat \<times> nat \<times> nat \<Rightarrow> nat \<Rightarrow> ichimoku \<Rightarrow> bool" where
  "ichimoku_kept (t, kj, b) k s \<longleftrightarrow> ic_tenkan s = t \<and> ic_kijun s = kj \<and> ic_senkou_b_period s = b"

interpretation ichimoku: streaming "\<lambda>_. True" "\<lambda>s x. Some (ichimoku_update s x)" "\<lambda>s. Some (ichimoku_reset s)"
  "\<lambda>(t, kj, b). Some (ichimoku_new t kj b)" ichimoku_kept
proof unfold_locales
  fix c k s and x :: "f64 \<times> f64 \<times> f64"
  assume "ichimoku_kept c k s"
  then show "\<exists>s' v. Some (ichimoku_update s x) = Some (s', v) \<and> ichimoku_kept c (Suc k) s'"
    by (cases c; cases x) (auto simp: ichimoku_update_def ichimoku_push_def Let_def split: option.split)
qed (auto simp: ichimoku_new_def ichimoku_reset_def)

section \<open>\<open>ParabolicSar\<close>\<close>

record sar_value =
  srv_sar :: f64
  srv_is_bullish :: bool

record parabolic_sar =
  ps_initial_af :: f64
  ps_step :: f64
  ps_max_af :: f64
  ps_sar :: "f64 option"
  ps_ep :: "f64 option"
  ps_af :: f64
  ps_is_bullish :: bool
  ps_prev_high :: "f64 option"
  ps_prev_low :: "f64 option"
  ps_prev_high2 :: "f64 option"
  ps_prev_low2 :: "f64 option"

definition parabolic_sar_new :: "f64 \<Rightarrow> f64 \<Rightarrow> parabolic_sar" where
  "parabolic_sar_new step max_af =
     \<lparr>ps_initial_af = step, ps_step = step, ps_max_af = max_af, ps_sar = None, ps_ep = None, ps_af = step,
      ps_is_bullish = True, ps_prev_high = None, ps_prev_low = None, ps_prev_high2 = None, ps_prev_low2 = None\<rparr>"

text \<open>The new stop, extreme point, acceleration and direction while the trend is up, and while it is down.\<close>

definition sar_up :: "parabolic_sar \<Rightarrow> f64 \<Rightarrow> f64 \<Rightarrow> f64 \<Rightarrow> f64 \<Rightarrow> f64 \<Rightarrow> f64 \<times> f64 \<times> f64 \<times> bool" where
  "sar_up s prev_low prev_ep new_sar0 high low =
     (let new_sar1 = fmin new_sar0 prev_low;
          new_sar = (case ps_prev_low2 s of Some pl2 \<Rightarrow> fmin new_sar1 pl2 | None \<Rightarrow> new_sar1)
      in if low < new_sar then (prev_ep, low, ps_initial_af s, False)
         else if prev_ep < high then (new_sar, high, fmin (ps_af s + ps_step s) (ps_max_af s), True)
         else (new_sar, prev_ep, ps_af s, True))"

definition sar_down :: "parabolic_sar \<Rightarrow> f64 \<Rightarrow> f64 \<Rightarrow> f64 \<Rightarrow> f64 \<Rightarrow> f64 \<Rightarrow> f64 \<times> f64 \<times> f64 \<times> bool" where
  "sar_down s prev_high prev_ep new_sar0 high low =
     (let new_sar1 = fmax new_sar0 prev_high;
          new_sar = (case ps_prev_high2 s of Some ph2 \<Rightarrow> fmax new_sar1 ph2 | None \<Rightarrow> new_sar1)
      in if new_sar < high then (prev_ep, high, ps_initial_af s, True)
         else if low < prev_ep then (new_sar, low, fmin (ps_af s + ps_step s) (ps_max_af s), False)
         else (new_sar, prev_ep, ps_af s, False))"

definition parabolic_sar_update :: "parabolic_sar \<Rightarrow> f64 \<times> f64 \<times> f64 \<Rightarrow> (parabolic_sar \<times> sar_value option) option" where
  "parabolic_sar_update s = (\<lambda>(high, low, _).
     case (ps_prev_high s, ps_prev_low s) of
       (Some prev_high, Some prev_low) \<Rightarrow>
         (let next = s\<lparr>ps_prev_high2 := Some prev_high, ps_prev_low2 := Some prev_low,
                       ps_prev_high := Some high, ps_prev_low := Some low\<rparr>
          in case ps_sar s of
               None \<Rightarrow>
                 Some (next\<lparr>ps_sar := Some (fmin prev_low low), ps_ep := Some high, ps_is_bullish := True,
                            ps_af := ps_initial_af s\<rparr>,
                       Some \<lparr>srv_sar = fmin prev_low low, srv_is_bullish = True\<rparr>)
             | Some prev_sar \<Rightarrow> do {
                 prev_ep \<leftarrow> ps_ep s;
                 let new_sar0 = prev_sar + ps_af s * (prev_ep - prev_sar);
                 let (new_sar, ep, af, bullish) =
                   (if ps_is_bullish s then sar_up s prev_low prev_ep new_sar0 high low
                    else sar_down s prev_high prev_ep new_sar0 high low);
                 Some (next\<lparr>ps_sar := Some new_sar, ps_ep := Some ep, ps_af := af, ps_is_bullish := bullish\<rparr>,
                       Some \<lparr>srv_sar = new_sar, srv_is_bullish = bullish\<rparr>) })
     | _ \<Rightarrow> Some (s\<lparr>ps_prev_high := Some high, ps_prev_low := Some low\<rparr>, None))"

definition parabolic_sar_reset :: "parabolic_sar \<Rightarrow> parabolic_sar" where
  "parabolic_sar_reset s =
     s\<lparr>ps_sar := None, ps_ep := None, ps_af := ps_initial_af s, ps_is_bullish := True, ps_prev_high := None,
       ps_prev_low := None, ps_prev_high2 := None, ps_prev_low2 := None\<rparr>"

fun parabolic_sar_fed :: "f64 \<times> f64 \<Rightarrow> nat \<Rightarrow> parabolic_sar \<Rightarrow> bool" where
  "parabolic_sar_fed (a, m) k s \<longleftrightarrow> ps_initial_af s = a \<and> ps_step s = a \<and> ps_max_af s = m \<and>
     (ps_prev_high s = None \<longleftrightarrow> k = 0) \<and> (ps_prev_low s = None \<longleftrightarrow> k = 0) \<and> (ps_sar s = None \<longleftrightarrow> ps_ep s = None)"

interpretation parabolic_sar: timed "\<lambda>_. True" parabolic_sar_update "\<lambda>s. Some (parabolic_sar_reset s)"
  "\<lambda>(a, m). Some (parabolic_sar_new a m)" parabolic_sar_fed "\<lambda>_. 2"
proof (rule timedI)
  fix c k s and x :: "f64 \<times> f64 \<times> f64"
  assume s: "parabolic_sar_fed c k s"
  obtain a m where c: "c = (a, m)" by (cases c)
  obtain high low close where x: "x = (high, low, close)" by (cases x)
  show "\<exists>s' v. parabolic_sar_update s x = Some (s', v) \<and> parabolic_sar_fed c (Suc k) s' \<and> (v = None \<longleftrightarrow> Suc k < 2)"
  proof (cases "k = 0")
    case True
    then show ?thesis using s c x by (auto simp: parabolic_sar_update_def)
  next
    case False
    then obtain ph pl where p: "ps_prev_high s = Some ph" "ps_prev_low s = Some pl" using s c by auto
    show ?thesis
    proof (cases "ps_sar s")
      case None
      then show ?thesis using False p s c x by (simp add: parabolic_sar_update_def Let_def)
    next
      case (Some sar)
      then obtain ep where "ps_ep s = Some ep" using s c by auto
      then show ?thesis using Some False p s c x
        by (simp add: parabolic_sar_update_def Let_def split: prod.split)
    qed
  qed
qed (auto simp: parabolic_sar_new_def parabolic_sar_reset_def)

section \<open>\<open>Rwi\<close>\<close>

record rwi_value =
  rwv_rwi_high :: f64
  rwv_rwi_low :: f64

record rwi =
  rw_period :: nat
  rw_highs :: "f64 list"
  rw_lows :: "f64 list"
  rw_true_ranges :: "f64 list"
  rw_prev_close :: "f64 option"

definition rwi_new :: "nat \<Rightarrow> rwi option" where
  "rwi_new period =
     (if 2 \<le> period then Some \<lparr>rw_period = period, rw_highs = [], rw_lows = [], rw_true_ranges = [], rw_prev_close = None\<rparr>
      else None)"

text \<open>\<open>atr_n[n]\<close>: the mean of the \<open>n\<close> newest true ranges, summed from the newest.\<close>

definition suffix_atr :: "f64 list \<Rightarrow> nat \<Rightarrow> f64" where
  "suffix_atr trs n = foldl (\<lambda>running j. running + trs ! (length trs - j)) 0 [1..<Suc n] / f64_of_nat n"

definition rwi_step :: "f64 list \<Rightarrow> f64 list \<Rightarrow> f64 list \<Rightarrow> f64 \<times> f64 \<Rightarrow> nat \<Rightarrow> f64 \<times> f64" where
  "rwi_step highs lows trs = (\<lambda>(rwi_h, rwi_l) n.
     let atr = suffix_atr trs n in
     if atr \<le> f64_epsilon then (rwi_h, rwi_l)
     else (let idx = length highs - 1 - n;
               denom = atr * fsqrt (f64_of_nat n);
               rh = (last highs - lows ! idx) / denom;
               rl = (highs ! idx - last lows) / denom
           in (fmax rwi_h rh, fmax rwi_l rl)))"

definition rwi_of :: "nat \<Rightarrow> f64 list \<Rightarrow> f64 list \<Rightarrow> f64 list \<Rightarrow> rwi_value" where
  "rwi_of period highs lows trs =
     (let (h, l) = foldl (rwi_step highs lows trs) (0, 0) [2..<Suc period] in \<lparr>rwv_rwi_high = h, rwv_rwi_low = l\<rparr>)"

definition rwi_update :: "rwi \<Rightarrow> f64 \<times> f64 \<times> f64 \<Rightarrow> rwi \<times> rwi_value option" where
  "rwi_update s = (\<lambda>(high, low, close).
     let tr = (case rw_prev_close s of
                 Some pc \<Rightarrow> fmax (fmax (high - low) \<bar>high - pc\<bar>) \<bar>low - pc\<bar>
               | None \<Rightarrow> high - low);
         hs = rw_highs s @ [high]; ls = rw_lows s @ [low];
         (highs, lows) = (if rw_period s + 1 < length hs then (tl hs, tl ls) else (hs, ls));
         trs = push_trim (rw_period s) (rw_true_ranges s) tr
     in (s\<lparr>rw_prev_close := Some close, rw_highs := highs, rw_lows := lows, rw_true_ranges := trs\<rparr>,
         if length highs < rw_period s + 1 then None else Some (rwi_of (rw_period s) highs lows trs)))"

definition rwi_reset :: "rwi \<Rightarrow> rwi" where
  "rwi_reset s = s\<lparr>rw_highs := [], rw_lows := [], rw_true_ranges := [], rw_prev_close := None\<rparr>"

text \<open>The windows are long enough for every index the loops read: \<open>period\<close> true ranges and \<open>period + 1\<close> bars.\<close>

definition rwi_fed :: "nat \<Rightarrow> nat \<Rightarrow> rwi \<Rightarrow> bool" where
  "rwi_fed p k s \<longleftrightarrow> 2 \<le> p \<and> rw_period s = p \<and> length (rw_highs s) = min k (p + 1) \<and>
     length (rw_lows s) = min k (p + 1) \<and> length (rw_true_ranges s) = min k p"

interpretation rwi: timed "\<lambda>_. True" "\<lambda>s x. Some (rwi_update s x)" "\<lambda>s. Some (rwi_reset s)" rwi_new rwi_fed "\<lambda>p. p + 1"
proof (rule timedI)
  fix p k s and x :: "f64 \<times> f64 \<times> f64"
  assume "rwi_fed p k s"
  then show "\<exists>s' v. Some (rwi_update s x) = Some (s', v) \<and> rwi_fed p (Suc k) s' \<and> (v = None \<longleftrightarrow> Suc k < p + 1)"
    by (cases x) (auto simp: rwi_update_def rwi_fed_def Let_def push_lengths min_def split: if_splits)
qed (auto simp: rwi_new_def rwi_reset_def rwi_fed_def split: if_splits)

section \<open>\<open>WilliamsFractal\<close>\<close>

record fractal_value =
  frv_bearish :: bool
  frv_bullish :: bool
  frv_high :: f64
  frv_low :: f64

record williams_fractal =
  wf_buf :: "(f64 \<times> f64) list"

definition williams_fractal_new :: williams_fractal where "williams_fractal_new = \<lparr>wf_buf = []\<rparr>"

definition fractal_of :: "(f64 \<times> f64) list \<Rightarrow> fractal_value option" where
  "fractal_of buf =
     (case buf of
        [b0, b1, (mid_high, mid_low), b3, b4] \<Rightarrow>
          Some \<lparr>frv_bearish = list_all (\<lambda>b. fst b < mid_high) [b0, b1, b3, b4],
                frv_bullish = list_all (\<lambda>b. mid_low < snd b) [b0, b1, b3, b4],
                frv_high = mid_high, frv_low = mid_low\<rparr>
      | _ \<Rightarrow> None)"

definition williams_fractal_update :: "williams_fractal \<Rightarrow> f64 \<times> f64 \<Rightarrow> williams_fractal \<times> fractal_value option" where
  "williams_fractal_update s bar =
     (let buf = push_full 5 (wf_buf s) bar
      in (s\<lparr>wf_buf := buf\<rparr>, if length buf < 5 then None else fractal_of buf))"

definition williams_fractal_update_signal :: "williams_fractal \<Rightarrow> f64 \<times> f64 \<Rightarrow> williams_fractal \<times> fractal_value option" where
  "williams_fractal_update_signal s bar =
     (let (s', v) = williams_fractal_update s bar
      in (s', case v of Some f \<Rightarrow> if frv_bearish f \<or> frv_bullish f then Some f else None | None \<Rightarrow> None))"

definition williams_fractal_is_ready :: "williams_fractal \<Rightarrow> bool" where
  "williams_fractal_is_ready s \<longleftrightarrow> 5 \<le> length (wf_buf s)"

definition williams_fractal_reset :: "williams_fractal \<Rightarrow> williams_fractal" where
  "williams_fractal_reset s = s\<lparr>wf_buf := []\<rparr>"

lemma fractal_of_5: "length buf = 5 \<Longrightarrow> fractal_of buf \<noteq> None"
  by (auto simp: fractal_of_def eval_nat_numeral length_Suc_conv)

interpretation williams_fractal: timed "\<lambda>_. True" "\<lambda>s x. Some (williams_fractal_update s x)"
  "\<lambda>s. Some (williams_fractal_reset s)" "\<lambda>_ :: unit. Some williams_fractal_new" "\<lambda>_ k s. length (wf_buf s) = min k 5" "\<lambda>_. 5"
proof (rule timedI)
  fix c :: unit and k and s :: williams_fractal and x :: "f64 \<times> f64"
  assume "length (wf_buf s) = min k 5"
  then have l: "length (push_full 5 (wf_buf s) x) = min (Suc k) 5" by (simp add: push_lengths)
  then have "5 \<le> Suc k \<Longrightarrow> fractal_of (push_full 5 (wf_buf s) x) \<noteq> None" by (intro fractal_of_5) simp
  then show "\<exists>s' v. Some (williams_fractal_update s x) = Some (s', v) \<and> length (wf_buf s') = min (Suc k) 5 \<and>
      (v = None \<longleftrightarrow> Suc k < 5)"
    using l by (cases "Suc k < 5") (simp_all add: williams_fractal_update_def Let_def)
next
  fix c :: unit and k and s :: williams_fractal
  show "\<exists>s0. Some williams_fractal_new = Some s0 \<and> Some (williams_fractal_reset s) = Some s0"
    by (simp add: williams_fractal_new_def williams_fractal_reset_def)
qed (auto simp: williams_fractal_new_def)

section \<open>\<open>ElderRay\<close>\<close>

record elder_ray_value =
  erv_ema :: f64
  erv_bull_power :: f64
  erv_bear_power :: f64

record elder_ray =
  er_ema :: ema
  er_period :: nat

definition elder_ray_new :: "nat \<Rightarrow> elder_ray option" where
  "elder_ray_new period = map_option (\<lambda>e. \<lparr>er_ema = e, er_period = period\<rparr>) (ema_new period)"

definition elder_ray_update :: "elder_ray \<Rightarrow> f64 \<times> f64 \<times> f64 \<Rightarrow> (elder_ray \<times> elder_ray_value option) option" where
  "elder_ray_update s = (\<lambda>(high, low, close). do {
     (e, v) \<leftarrow> ema_update (er_ema s) close;
     Some (s\<lparr>er_ema := e\<rparr>,
           map_option (\<lambda>ema. \<lparr>erv_ema = ema, erv_bull_power = high - ema, erv_bear_power = low - ema\<rparr>) v) })"

definition elder_ray_reset :: "elder_ray \<Rightarrow> elder_ray option" where
  "elder_ray_reset s = map_option (\<lambda>e. s\<lparr>er_ema := e\<rparr>) (ema_new (er_period s))"

definition elder_ray_fed :: "nat \<Rightarrow> nat \<Rightarrow> elder_ray \<Rightarrow> bool" where
  "elder_ray_fed p k s \<longleftrightarrow> 0 < p \<and> er_period s = p \<and> ema_fed p k (er_ema s)"

interpretation elder_ray: timed "\<lambda>_. True" elder_ray_update elder_ray_reset elder_ray_new elder_ray_fed "\<lambda>p. p"
proof (rule timedI)
  fix p k s and x :: "f64 \<times> f64 \<times> f64"
  assume s: "elder_ray_fed p k s"
  obtain high low close where x: "x = (high, low, close)" by (cases x)
  show "\<exists>s' v. elder_ray_update s x = Some (s', v) \<and> elder_ray_fed p (Suc k) s' \<and> (v = None \<longleftrightarrow> Suc k < p)"
    using ema.step [of p k "er_ema s" close] s x by (auto simp: elder_ray_fed_def elder_ray_update_def)
qed (auto simp: elder_ray_fed_def elder_ray_new_def elder_ray_reset_def ema_new_pos ema.fed_start split: if_splits)

end
