(* ===== verification/Ind_Viewing.thy ===== *)
theory Ind_Viewing
  imports Ind_Patterns
begin

text \<open>
  \<open>StochasticRsi\<close> of \<open>alm-indicator/src/signal/pattern\<close>, and \<open>Alligator\<close> and \<open>Gmma\<close> of \<open>src/viewing\<close>.
\<close>

section \<open>\<open>StochasticRsi\<close>\<close>

record stoch_rsi_value =
  sqv_k :: f64
  sqv_d :: f64

record stochastic_rsi =
  sr_rsi_period :: nat
  sr_smooth_d :: nat
  sr_rsi :: rsi
  sr_rsi_window :: "f64 list"
  sr_raw_k_window :: "f64 list"
  sr_raw_k_sum :: f64
  sr_k_window :: "f64 list"
  sr_k_sum :: f64
  sr_value :: "stoch_rsi_value option"

definition SMOOTH_K :: nat where "SMOOTH_K = 3"

definition stochastic_rsi_new :: "nat \<Rightarrow> nat \<Rightarrow> stochastic_rsi option" where
  "stochastic_rsi_new period smooth_d =
     (if 0 < period \<and> 0 < smooth_d then do {
        r \<leftarrow> rsi_new period;
        Some \<lparr>sr_rsi_period = period, sr_smooth_d = smooth_d, sr_rsi = r, sr_rsi_window = [], sr_raw_k_window = [],
              sr_raw_k_sum = 0, sr_k_window = [], sr_k_sum = 0, sr_value = None\<rparr> }
      else None)"

text \<open>A running mean over a window: push, add, drop the oldest when too long.\<close>

definition push_sum :: "nat \<Rightarrow> f64 list \<times> f64 \<Rightarrow> f64 \<Rightarrow> f64 list \<times> f64" where
  "push_sum cap = (\<lambda>(buf, acc) x.
     let b = buf @ [x] in if cap < length b then (tl b, acc + x - hd b) else (b, acc + x))"

definition raw_k_of :: "f64 list \<Rightarrow> f64 \<Rightarrow> f64" where
  "raw_k_of window rsi =
     (let min_rsi = foldl fmin f64_MAX window; max_rsi = foldl fmax f64_MIN window
      in if \<bar>max_rsi - min_rsi\<bar> < f64_epsilon then 0
         else fclamp ((rsi - min_rsi) / (max_rsi - min_rsi)) 0 1)"

text \<open>The stages after the index itself, each of which may return early.\<close>

definition stoch_rsi_d :: "stochastic_rsi \<Rightarrow> f64 \<Rightarrow> stochastic_rsi \<times> stoch_rsi_value option" where
  "stoch_rsi_d s k =
     (let (kw, ks) = push_sum (sr_smooth_d s) (sr_k_window s, sr_k_sum s) k;
          s1 = s\<lparr>sr_k_window := kw, sr_k_sum := ks\<rparr>
      in if length kw < sr_smooth_d s then (s1, None)
         else (let v = Some \<lparr>sqv_k = k, sqv_d = ks / f64_of_nat (sr_smooth_d s)\<rparr> in (s1\<lparr>sr_value := v\<rparr>, v)))"

definition stoch_rsi_k :: "stochastic_rsi \<Rightarrow> f64 \<Rightarrow> stochastic_rsi \<times> stoch_rsi_value option" where
  "stoch_rsi_k s raw_k =
     (let (rw, rs) = push_sum SMOOTH_K (sr_raw_k_window s, sr_raw_k_sum s) raw_k;
          s1 = s\<lparr>sr_raw_k_window := rw, sr_raw_k_sum := rs\<rparr>
      in if length rw < SMOOTH_K then (s1, None) else stoch_rsi_d s1 (rs / f64_of_nat SMOOTH_K))"

definition stoch_rsi_window :: "stochastic_rsi \<Rightarrow> f64 \<Rightarrow> stochastic_rsi \<times> stoch_rsi_value option" where
  "stoch_rsi_window s rsi =
     (let w = push_trim (sr_rsi_period s) (sr_rsi_window s) rsi; s1 = s\<lparr>sr_rsi_window := w\<rparr>
      in if length w < sr_rsi_period s then (s1, None) else stoch_rsi_k s1 (raw_k_of w rsi))"

definition stochastic_rsi_update :: "stochastic_rsi \<Rightarrow> f64 \<Rightarrow> (stochastic_rsi \<times> stoch_rsi_value option) option" where
  "stochastic_rsi_update s close = do {
     (r, v) \<leftarrow> rsi_update (sr_rsi s) close;
     let s1 = s\<lparr>sr_rsi := r\<rparr>;
     Some (case v of None \<Rightarrow> (s1, None) | Some rsi \<Rightarrow> stoch_rsi_window s1 rsi) }"

definition stochastic_rsi_val :: "stochastic_rsi \<Rightarrow> stoch_rsi_value option" where "stochastic_rsi_val s = sr_value s"
definition stochastic_rsi_is_ready :: "stochastic_rsi \<Rightarrow> bool" where "stochastic_rsi_is_ready s \<longleftrightarrow> sr_value s \<noteq> None"

definition stochastic_rsi_reset :: "stochastic_rsi \<Rightarrow> stochastic_rsi option" where
  "stochastic_rsi_reset s = do {
     r \<leftarrow> rsi_new (sr_rsi_period s);
     Some (s\<lparr>sr_rsi := r, sr_rsi_window := [], sr_raw_k_window := [], sr_raw_k_sum := 0, sr_k_window := [],
             sr_k_sum := 0, sr_value := None\<rparr>) }"

fun stochastic_rsi_fed :: "nat \<times> nat \<Rightarrow> nat \<Rightarrow> stochastic_rsi \<Rightarrow> bool" where
  "stochastic_rsi_fed (p, d) k s \<longleftrightarrow> 0 < p \<and> 0 < d \<and> sr_rsi_period s = p \<and> sr_smooth_d s = d \<and> rsi_fed p k (sr_rsi s) \<and>
     length (sr_rsi_window s) = min (k - p) p \<and> length (sr_raw_k_window s) = min (k - (2 * p - 1)) 3 \<and>
     length (sr_k_window s) = min (k - (2 * p + 1)) d"

lemma push_sum_length: "length buf = min k cap \<Longrightarrow> length (fst (push_sum cap (buf, acc) x)) = min (Suc k) cap"
  by (auto simp: push_sum_def Let_def min_def)

lemma stoch_rsi_d_fed:
  assumes "length (sr_k_window s) = min j (sr_smooth_d s)"
  shows "\<exists>kw ks w v. stoch_rsi_d s x = (s\<lparr>sr_k_window := kw, sr_k_sum := ks, sr_value := w\<rparr>, v) \<and>
    length kw = min (Suc j) (sr_smooth_d s) \<and> (v = None \<longleftrightarrow> Suc j < sr_smooth_d s)"
proof -
  obtain kw ks where "push_sum (sr_smooth_d s) (sr_k_window s, sr_k_sum s) x = (kw, ks)" "length kw = min (Suc j) (sr_smooth_d s)"
    using push_sum_length [OF assms, of "sr_k_sum s" x] by (metis fst_eqD surj_pair)
  then have d: "stoch_rsi_d s x =
      (if Suc j < sr_smooth_d s then (s\<lparr>sr_k_window := kw, sr_k_sum := ks, sr_value := sr_value s\<rparr>, None)
       else (let v = Some \<lparr>sqv_k = x, sqv_d = ks / f64_of_nat (sr_smooth_d s)\<rparr>
             in (s\<lparr>sr_k_window := kw, sr_k_sum := ks, sr_value := v\<rparr>, v)))" and "length kw = min (Suc j) (sr_smooth_d s)"
    by (simp_all add: stoch_rsi_d_def Let_def)
  then show ?thesis unfolding Let_def by (cases "Suc j < sr_smooth_d s") (simp only: if_True if_False, blast)+
qed

interpretation stochastic_rsi: timed "\<lambda>_. True" stochastic_rsi_update stochastic_rsi_reset
  "\<lambda>(p, d). stochastic_rsi_new p d" stochastic_rsi_fed "\<lambda>(p, d). 2 * p + d + 1"
proof (rule timedI)
  fix c k s and x :: f64
  assume s: "stochastic_rsi_fed c k s"
  obtain p d where c: "c = (p, d)" by (cases c)
  obtain r v where r: "rsi_update (sr_rsi s) x = Some (r, v)" "rsi_fed p (Suc k) r" "v = None \<longleftrightarrow> Suc k < p + 1"
    using rsi.step [of p k "sr_rsi s" x] s c by auto
  show "\<exists>s' v. stochastic_rsi_update s x = Some (s', v) \<and> stochastic_rsi_fed c (Suc k) s' \<and>
      (v = None \<longleftrightarrow> Suc k < (case c of (p, d) \<Rightarrow> 2 * p + d + 1))"
  proof (cases v)
    case None
    then show ?thesis using r s c by (simp add: stochastic_rsi_update_def)
  next
    case (Some y)
    define w where "w = push_trim p (sr_rsi_window s) y"
    define s1 where "s1 = s\<lparr>sr_rsi := r, sr_rsi_window := w\<rparr>"
    have k: "p \<le> k" using r(3) Some by simp
    have w: "length w = min (Suc k - p) p"
      using push_lengths(2) [of "sr_rsi_window s" "k - p" p y] s c k by (simp add: w_def Suc_diff_le)
    have s1: "sr_rsi_period s1 = p" "sr_smooth_d s1 = d" "sr_rsi s1 = r" "sr_rsi_window s1 = w" "0 < p" "0 < d"
      "length (sr_raw_k_window s1) = min (k - (2 * p - 1)) 3" "length (sr_k_window s1) = min (k - (2 * p + 1)) d"
      using s c by (simp_all add: s1_def)
    have upd: "stochastic_rsi_update s x = Some (if length w < p then (s1, None) else stoch_rsi_k s1 (raw_k_of w y))"
      using r(1) Some s c by (simp add: stochastic_rsi_update_def stoch_rsi_window_def Let_def w_def s1_def)
    show ?thesis
    proof (cases "Suc k < 2 * p")
      case True
      then have "k - (2 * p - 1) = 0" "k - (2 * p + 1) = 0" "Suc k - (2 * p - 1) = 0" by simp_all
      then show ?thesis using True upd w s1 r(2) c by auto
    next
      case False
      obtain rw rs where rw: "push_sum SMOOTH_K (sr_raw_k_window s1, sr_raw_k_sum s1) (raw_k_of w y) = (rw, rs)"
        "length rw = min (Suc (k - (2 * p - 1))) 3"
        using push_sum_length [OF s1(7), of "sr_raw_k_sum s1" "raw_k_of w y"] by (metis fst_eqD surj_pair SMOOTH_K_def)
      have j: "Suc (k - (2 * p - 1)) = Suc k - (2 * p - 1)" using False by simp
      define s2 where "s2 = s1\<lparr>sr_raw_k_window := rw, sr_raw_k_sum := rs\<rparr>"
      have s2: "sr_rsi_period s2 = p" "sr_smooth_d s2 = d" "sr_rsi s2 = r" "sr_rsi_window s2 = w" "sr_raw_k_window s2 = rw"
        "length (sr_k_window s2) = min (k - (2 * p + 1)) d" using s1 by (simp_all add: s2_def)
      have upd2: "stochastic_rsi_update s x =
          Some (if length rw < 3 then (s2, None) else stoch_rsi_d s2 (rs / f64_of_nat SMOOTH_K))"
        using upd w False rw(1) by (simp add: stoch_rsi_k_def Let_def s2_def SMOOTH_K_def)
      show ?thesis
      proof (cases "Suc k < 2 * p + 2")
        case True
        then have "k - (2 * p + 1) = 0" "Suc k - (2 * p + 1) = 0" "length rw < 3" using rw(2) j by simp_all
        then show ?thesis using True upd2 rw(2) j w s1 s2 r(2) c by auto
      next
        case False
        then have "2 \<le> k - (2 * p - 1)" using s1(5) by arith
        then have k2: "\<not> length rw < 3" "Suc (k - (2 * p + 1)) = Suc k - (2 * p + 1)" using rw(2) False by simp_all
        obtain kw ks u z where z: "stoch_rsi_d s2 (rs / f64_of_nat SMOOTH_K) =
            (s2\<lparr>sr_k_window := kw, sr_k_sum := ks, sr_value := u\<rparr>, z)"
          "length kw = min (Suc (k - (2 * p + 1))) d" "z = None \<longleftrightarrow> Suc (k - (2 * p + 1)) < d"
          using stoch_rsi_d_fed [of s2 "k - (2 * p + 1)"] s2 by metis
        define s3 where "s3 = s2\<lparr>sr_k_window := kw, sr_k_sum := ks, sr_value := u\<rparr>"
        have "stochastic_rsi_fed c (Suc k) s3" unfolding c
          using s2 z(2) [unfolded k2(2)] w rw(2) [unfolded j] s1(5,6) r(2) by (simp add: s3_def)
        moreover have "stochastic_rsi_update s x = Some (s3, z)" using upd2 k2(1) z(1) by (simp add: s3_def)
        moreover have "z = None \<longleftrightarrow> Suc k < 2 * p + d + 1" using z(3) False by linarith
        ultimately show ?thesis unfolding c prod.case by blast
      qed
    qed
  qed
next
  fix c k s
  assume "stochastic_rsi_fed c k s"
  then show "\<exists>s0. (case c of (p, d) \<Rightarrow> stochastic_rsi_new p d) = Some s0 \<and> stochastic_rsi_reset s = Some s0"
    by (cases c) (auto simp: stochastic_rsi_new_def stochastic_rsi_reset_def rsi_new_def)
qed (auto simp: stochastic_rsi_new_def rsi_new_def rsi.fed_start split: if_splits)

section \<open>\<open>Alligator\<close>\<close>

record alligator_value =
  alv_jaw :: f64
  alv_teeth :: f64
  alv_lips :: f64
  alv_bullish :: bool
  alv_bearish :: bool

record alligator =
  ag_jaw :: smma
  ag_teeth :: smma
  ag_lips :: smma
  ag_jaw_period :: nat
  ag_teeth_period :: nat
  ag_lips_period :: nat
  ag_jaw_shift :: nat
  ag_teeth_shift :: nat
  ag_lips_shift :: nat
  ag_jaw_buf :: "f64 list"
  ag_teeth_buf :: "f64 list"
  ag_lips_buf :: "f64 list"

definition JAW_SHIFT :: nat where "JAW_SHIFT = 8"
definition TEETH_SHIFT :: nat where "TEETH_SHIFT = 5"
definition LIPS_SHIFT :: nat where "LIPS_SHIFT = 3"

lemmas shift_defs = JAW_SHIFT_def TEETH_SHIFT_def LIPS_SHIFT_def

definition shifted :: "f64 list \<Rightarrow> f64 option \<Rightarrow> nat \<Rightarrow> f64 list \<times> f64 option" where
  "shifted buf v shift =
     (let b = (case v of Some x \<Rightarrow> push_trim (shift + 1) buf x | None \<Rightarrow> buf)
      in (b, if length b = shift + 1 then Some (hd b) else None))"

definition alligator_new :: "nat \<Rightarrow> nat \<Rightarrow> nat \<Rightarrow> alligator option" where
  "alligator_new jaw_period teeth_period lips_period = do {
     j \<leftarrow> smma_new jaw_period; t \<leftarrow> smma_new teeth_period; l \<leftarrow> smma_new lips_period;
     Some \<lparr>ag_jaw = j, ag_teeth = t, ag_lips = l, ag_jaw_period = jaw_period, ag_teeth_period = teeth_period,
           ag_lips_period = lips_period, ag_jaw_shift = JAW_SHIFT, ag_teeth_shift = TEETH_SHIFT,
           ag_lips_shift = LIPS_SHIFT, ag_jaw_buf = [], ag_teeth_buf = [], ag_lips_buf = []\<rparr> }"

definition alligator_of :: "f64 \<Rightarrow> f64 \<Rightarrow> f64 \<Rightarrow> alligator_value" where
  "alligator_of jaw teeth lips =
     \<lparr>alv_jaw = jaw, alv_teeth = teeth, alv_lips = lips,
      alv_bullish = (teeth < lips \<and> jaw < teeth), alv_bearish = (lips < teeth \<and> teeth < jaw)\<rparr>"

definition alligator_update :: "alligator \<Rightarrow> f64 \<times> f64 \<Rightarrow> (alligator \<times> alligator_value option) option" where
  "alligator_update s = (\<lambda>(high, low). do {
     let median = (high + low) / lit 2;
     (j, jv) \<leftarrow> smma_update (ag_jaw s) median;
     let (jb, jaw_v) = shifted (ag_jaw_buf s) jv (ag_jaw_shift s);
     (t, tv) \<leftarrow> smma_update (ag_teeth s) median;
     let (tb, teeth_v) = shifted (ag_teeth_buf s) tv (ag_teeth_shift s);
     (l, lv) \<leftarrow> smma_update (ag_lips s) median;
     let (lb, lips_v) = shifted (ag_lips_buf s) lv (ag_lips_shift s);
     Some (s\<lparr>ag_jaw := j, ag_teeth := t, ag_lips := l, ag_jaw_buf := jb, ag_teeth_buf := tb, ag_lips_buf := lb\<rparr>,
           case (jaw_v, teeth_v, lips_v) of
             (Some jaw, Some teeth, Some lips) \<Rightarrow> Some (alligator_of jaw teeth lips)
           | _ \<Rightarrow> None) })"

definition alligator_reset :: "alligator \<Rightarrow> alligator option" where
  "alligator_reset s = do {
     j \<leftarrow> smma_new (ag_jaw_period s); t \<leftarrow> smma_new (ag_teeth_period s); l \<leftarrow> smma_new (ag_lips_period s);
     Some (s\<lparr>ag_jaw := j, ag_teeth := t, ag_lips := l, ag_jaw_buf := [], ag_teeth_buf := [], ag_lips_buf := []\<rparr>) }"

fun alligator_fed :: "nat \<times> nat \<times> nat \<Rightarrow> nat \<Rightarrow> alligator \<Rightarrow> bool" where
  "alligator_fed (a, b, c) k s \<longleftrightarrow> 0 < a \<and> 0 < b \<and> 0 < c \<and> ag_jaw_period s = a \<and> ag_teeth_period s = b \<and> ag_lips_period s = c \<and>
     ag_jaw_shift s = 8 \<and> ag_teeth_shift s = 5 \<and> ag_lips_shift s = 3 \<and>
     smma_fed a k (ag_jaw s) \<and> smma_fed b k (ag_teeth s) \<and> smma_fed c k (ag_lips s) \<and>
     length (ag_jaw_buf s) = min (k - (a - 1)) 9 \<and> length (ag_teeth_buf s) = min (k - (b - 1)) 6 \<and>
     length (ag_lips_buf s) = min (k - (c - 1)) 4"

text \<open>One line of the alligator: an average whose output is delayed.\<close>

lemma shifted_step:
  assumes "0 < p" and "smma_fed p k s" and "length buf = min (k - (p - 1)) (Suc n)"
  shows "\<exists>s' v b w. smma_update s x = Some (s', v) \<and> shifted buf v n = (b, w) \<and> smma_fed p (Suc k) s' \<and>
    length b = min (Suc k - (p - 1)) (Suc n) \<and> (w = None \<longleftrightarrow> Suc k < p + n)"
proof -
  obtain s' v where v: "smma_update s x = Some (s', v)" "smma_fed p (Suc k) s'" "v = None \<longleftrightarrow> Suc k < p"
    using smma.step [of p k s x] assms by auto
  define b where "b = fst (shifted buf v n)"
  have "length b = min (Suc k - (p - 1)) (Suc n)"
  proof (cases v)
    case None
    then show ?thesis using v(3) assms(3) by (simp add: b_def shifted_def)
  next
    case (Some y)
    then have "Suc k - (p - 1) = Suc (k - (p - 1))" using v(3) assms(1) by auto
    then show ?thesis using Some push_lengths(2) [OF assms(3), of y] by (simp add: b_def shifted_def Let_def)
  qed
  moreover have "shifted buf v n = (b, if length b = n + 1 then Some (hd b) else None)"
    by (simp add: b_def shifted_def Let_def)
  moreover have "length b = n + 1 \<longleftrightarrow> \<not> Suc k < p + n" using calculation(1) assms(1) by auto
  ultimately show ?thesis using v by simp
qed

interpretation alligator: timed "\<lambda>_. True" alligator_update alligator_reset "\<lambda>(a, b, c). alligator_new a b c" alligator_fed
  "\<lambda>(a, b, c). max (a + 8) (max (b + 5) (c + 3))"
proof (rule timedI)
  fix c k s and x :: "f64 \<times> f64"
  assume s: "alligator_fed c k s"
  obtain p q r where c: "c = (p, q, r)" by (cases c)
  obtain high low where x: "x = (high, low)" by (cases x)
  let ?m = "(high + low) / lit 2"
  obtain j jv jb jw where "smma_update (ag_jaw s) ?m = Some (j, jv)" "shifted (ag_jaw_buf s) jv 8 = (jb, jw)"
    "smma_fed p (Suc k) j" "length jb = min (Suc k - (p - 1)) 9" "jw = None \<longleftrightarrow> Suc k < p + 8"
    using shifted_step [of p k "ag_jaw s" "ag_jaw_buf s" 8 ?m] s c by auto
  moreover obtain t tv tb tw where "smma_update (ag_teeth s) ?m = Some (t, tv)" "shifted (ag_teeth_buf s) tv 5 = (tb, tw)"
    "smma_fed q (Suc k) t" "length tb = min (Suc k - (q - 1)) 6" "tw = None \<longleftrightarrow> Suc k < q + 5"
    using shifted_step [of q k "ag_teeth s" "ag_teeth_buf s" 5 ?m] s c by auto
  moreover obtain l lv lb lw where "smma_update (ag_lips s) ?m = Some (l, lv)" "shifted (ag_lips_buf s) lv 3 = (lb, lw)"
    "smma_fed r (Suc k) l" "length lb = min (Suc k - (r - 1)) 4" "lw = None \<longleftrightarrow> Suc k < r + 3"
    using shifted_step [of r k "ag_lips s" "ag_lips_buf s" 3 ?m] s c by auto
  moreover define s1 where
    "s1 = s\<lparr>ag_jaw := j, ag_teeth := t, ag_lips := l, ag_jaw_buf := jb, ag_teeth_buf := tb, ag_lips_buf := lb\<rparr>"
  ultimately have upd: "alligator_update s x =
      Some (s1, case (jw, tw, lw) of (Some jaw, Some teeth, Some lips) \<Rightarrow> Some (alligator_of jaw teeth lips) | _ \<Rightarrow> None)"
    and fed: "alligator_fed c (Suc k) s1" and v: "jw = None \<longleftrightarrow> Suc k < p + 8" "tw = None \<longleftrightarrow> Suc k < q + 5" "lw = None \<longleftrightarrow> Suc k < r + 3"
    using s c x by (simp_all add: alligator_update_def)
  have "Suc k < max (p + 8) (max (q + 5) (r + 3)) \<longleftrightarrow> jw = None \<or> tw = None \<or> lw = None"
    unfolding v by (simp only: less_max_iff_disj)
  then have none: "(case (jw, tw, lw) of (Some jaw, Some teeth, Some lips) \<Rightarrow> Some (alligator_of jaw teeth lips) | _ \<Rightarrow> None) = None
      \<longleftrightarrow> Suc k < max (p + 8) (max (q + 5) (r + 3))" by (simp only:) (cases jw; cases tw; cases lw; simp)
  show "\<exists>s' v. alligator_update s x = Some (s', v) \<and> alligator_fed c (Suc k) s' \<and>
      (v = None \<longleftrightarrow> Suc k < (case c of (a, b, c) \<Rightarrow> max (a + 8) (max (b + 5) (c + 3))))"
    unfolding c prod.case by (intro exI conjI, rule upd, rule fed [unfolded c], rule none)
qed (auto simp: alligator_new_def alligator_reset_def smma_new_def smma.fed_start shift_defs split: bind_splits if_splits)

section \<open>\<open>Gmma\<close>\<close>

record gmma_value =
  gmv_short :: "f64 list"
  gmv_long :: "f64 list"
  gmv_bullish :: bool

record gmma =
  gm_short_emas :: "ema list"
  gm_long_emas :: "ema list"

definition SHORT_PERIODS :: "nat list" where "SHORT_PERIODS = [3, 5, 8, 10, 12, 15]"
definition LONG_PERIODS :: "nat list" where "LONG_PERIODS = [30, 35, 40, 45, 50, 60]"

text \<open>\<open>periods.map(Ema::new)\<close>, and feeding one value to all averages of a group.\<close>

primrec emas_new :: "nat list \<Rightarrow> ema list option" where
  "emas_new [] = Some []"
| "emas_new (p # ps) = do { e \<leftarrow> ema_new p; es \<leftarrow> emas_new ps; Some (e # es) }"

primrec emas_update :: "f64 \<Rightarrow> ema list \<Rightarrow> (ema list \<times> f64 option list) option" where
  "emas_update x [] = Some ([], [])"
| "emas_update x (e # es) = do {
     (e', v) \<leftarrow> ema_update e x; (es', vs) \<leftarrow> emas_update x es; Some (e' # es', v # vs) }"

definition gmma_with_periods :: "nat list \<Rightarrow> nat list \<Rightarrow> gmma option" where
  "gmma_with_periods short long = do {
     s \<leftarrow> emas_new short; l \<leftarrow> emas_new long; Some \<lparr>gm_short_emas = s, gm_long_emas = l\<rparr> }"

definition gmma_new :: "gmma option" where "gmma_new = gmma_with_periods SHORT_PERIODS LONG_PERIODS"

definition gmma_update :: "gmma \<Rightarrow> f64 \<Rightarrow> (gmma \<times> gmma_value option) option" where
  "gmma_update s close = do {
     (es, short_vs) \<leftarrow> emas_update close (gm_short_emas s);
     (el, long_vs) \<leftarrow> emas_update close (gm_long_emas s);
     let s1 = s\<lparr>gm_short_emas := es, gm_long_emas := el\<rparr>;
     Some (s1, if None \<in> set (short_vs @ long_vs) then None
               else (let short_vals = map the short_vs; long_vals = map the long_vs
                     in Some \<lparr>gmv_short = short_vals, gmv_long = long_vals,
                              gmv_bullish = (fold_max long_vals < fold_min short_vals)\<rparr>)) }"

definition gmma_reset :: "gmma \<Rightarrow> gmma option" where
  "gmma_reset s = do {
     a \<leftarrow> emas_new SHORT_PERIODS; b \<leftarrow> emas_new LONG_PERIODS; Some (s\<lparr>gm_short_emas := a, gm_long_emas := b\<rparr>) }"

definition emas_fed :: "nat list \<Rightarrow> nat \<Rightarrow> ema list \<Rightarrow> bool" where
  "emas_fed ps k es \<longleftrightarrow> list_all2 (\<lambda>p e. 0 < p \<and> ema_fed p k e) ps es"

lemma emas_new_fed: "emas_new ps = Some es \<Longrightarrow> emas_fed ps 0 es"
  by (induction ps arbitrary: es) (auto simp: emas_fed_def ema_new_pos ema.fed_start split: bind_splits if_splits)

lemma emas_new_ok: "0 \<notin> set ps \<Longrightarrow> \<exists>es. emas_new ps = Some es"
  by (induction ps) (auto simp: ema_new_pos)

lemma emas_update_fed:
  "emas_fed ps k es \<Longrightarrow> \<exists>es' vs. emas_update x es = Some (es', vs) \<and> emas_fed ps (Suc k) es' \<and>
    (None \<in> set vs \<longleftrightarrow> (\<exists>p \<in> set ps. Suc k < p))"
proof (induction ps arbitrary: es)
  case (Cons p ps)
  then obtain e es1 where es: "es = e # es1" "0 < p" "ema_fed p k e" "emas_fed ps k es1"
    by (cases es) (auto simp: emas_fed_def)
  obtain e' v where "ema_update e x = Some (e', v)" "ema_fed p (Suc k) e'" "v = None \<longleftrightarrow> Suc k < p"
    using ema.step [of p k e x] es by auto
  moreover obtain es' vs where "emas_update x es1 = Some (es', vs)" "emas_fed ps (Suc k) es'"
    "None \<in> set vs \<longleftrightarrow> (\<exists>p \<in> set ps. Suc k < p)" using Cons.IH [OF es(4)] by blast
  ultimately show ?case using es by (auto simp: emas_fed_def)
qed (simp add: emas_fed_def)

text \<open>The contract holds of the default periods only: \<open>reset\<close> rebuilds the averages from the constants, whatever periods
  the indicator was made with.\<close>

definition gmma_fed :: "unit \<Rightarrow> nat \<Rightarrow> gmma \<Rightarrow> bool" where
  "gmma_fed _ k s \<longleftrightarrow> emas_fed SHORT_PERIODS k (gm_short_emas s) \<and> emas_fed LONG_PERIODS k (gm_long_emas s)"

lemma gmma_period_sets:
  "(\<exists>p \<in> set SHORT_PERIODS. Suc k < p) \<or> (\<exists>p \<in> set LONG_PERIODS. Suc k < p) \<longleftrightarrow> Suc k < 60"
  "0 \<notin> set SHORT_PERIODS" "0 \<notin> set LONG_PERIODS"
  by (auto simp: SHORT_PERIODS_def LONG_PERIODS_def)

interpretation gmma: timed "\<lambda>_. True" gmma_update gmma_reset "\<lambda>_. gmma_new" gmma_fed "\<lambda>_. 60"
proof (rule timedI)
  fix c k s and x :: f64
  assume s: "gmma_fed c k s"
  obtain es vs where "emas_update x (gm_short_emas s) = Some (es, vs)" "emas_fed SHORT_PERIODS (Suc k) es"
    "None \<in> set vs \<longleftrightarrow> (\<exists>p \<in> set SHORT_PERIODS. Suc k < p)"
    using emas_update_fed [of SHORT_PERIODS k "gm_short_emas s" x] s by (auto simp: gmma_fed_def)
  moreover obtain el ws where "emas_update x (gm_long_emas s) = Some (el, ws)" "emas_fed LONG_PERIODS (Suc k) el"
    "None \<in> set ws \<longleftrightarrow> (\<exists>p \<in> set LONG_PERIODS. Suc k < p)"
    using emas_update_fed [of LONG_PERIODS k "gm_long_emas s" x] s by (auto simp: gmma_fed_def)
  moreover have "None \<in> set (vs @ ws) \<longleftrightarrow> Suc k < 60" using calculation gmma_period_sets(1) [of k] by simp
  ultimately show "\<exists>s' v. gmma_update s x = Some (s', v) \<and> gmma_fed c (Suc k) s' \<and> (v = None \<longleftrightarrow> Suc k < 60)"
    by (simp add: gmma_update_def gmma_fed_def Let_def del: set_append)
next
  fix c k and s :: gmma
  show "\<exists>s0. gmma_new = Some s0 \<and> gmma_reset s = Some s0"
    using emas_new_ok [OF gmma_period_sets(2)] emas_new_ok [OF gmma_period_sets(3)]
    by (auto simp: gmma_new_def gmma_with_periods_def gmma_reset_def)
qed (auto simp: gmma_new_def gmma_with_periods_def gmma_fed_def emas_new_fed split: bind_splits)

section \<open>Bars as inputs\<close>

text \<open>A bar whose high and low are numbers; the other prices may be anything.\<close>

definition plain_bar :: "bar \<Rightarrow> bool" where
  "plain_bar b \<longleftrightarrow> b_high b \<noteq> NaN \<and> b_low b \<noteq> NaN"

interpretation obv: timed "\<lambda>_. True" "\<lambda>s x. Some (map_prod id Some (obv_update s x))" "\<lambda>s. Some (obv_reset s)"
  "\<lambda>_ :: unit. Some obv_new" "\<lambda>_ _ _. True" "\<lambda>_. 1"
  by (rule timedI) (auto simp: obv_update_def obv_new_def obv_reset_def Let_def split: prod.split)

lemma dema_new_pos: "dema_new p = (if 0 < p then Some (dema_start p) else None)"
  by (simp add: dema_new_def dema_start_def ema_new_def)

lemma tema_new_pos: "tema_new p = (if 0 < p then Some (tema_start p) else None)"
  by (simp add: tema_new_def tema_start_def ema_new_def)

end
