(* ===== verification/Indicator_Box.thy ===== *)
theory Indicator_Box
  imports Ind_Viewing Script_Strategy
begin

text \<open>
  \<open>alm-indicator/src/box_.rs\<close>: the one type over all concrete indicators. \<open>from_config\<close> builds a boxed indicator from a
  JSON configuration, turning the panic of a constructor into an error; \<open>box_update\<close> feeds a bar and returns the named
  output fields; \<open>box_reset\<close>, \<open>type_name\<close> and \<open>field_names\<close> are the remaining methods. The texts of \<open>description\<close>
  and \<open>script_usage\<close> are left out. The platform's mathematical library is an argument.
\<close>

section \<open>Reading the configuration\<close>

text \<open>Lookup in a JSON object and the number of a JSON value, as \<open>Value::get\<close>, \<open>as_f64\<close>, \<open>as_str\<close> and \<open>as_array\<close>
  return them.\<close>

fun json_get :: "json \<Rightarrow> string \<Rightarrow> json option" where
  "json_get (JObj fs) key = map_of fs key"
| "json_get _ key = None"

fun json_as_f64 :: "json \<Rightarrow> f64 option" where
  "json_as_f64 (JInt n) = Some (f64_of_nat n)"
| "json_as_f64 (JFloat x) = Some x"
| "json_as_f64 _ = None"

fun json_as_str :: "json \<Rightarrow> string option" where
  "json_as_str (JStr s) = Some s"
| "json_as_str _ = None"

fun json_as_array :: "json \<Rightarrow> json list option" where
  "json_as_array (JArr xs) = Some xs"
| "json_as_array _ = None"

definition cfg_usize :: "json \<Rightarrow> string \<Rightarrow> nat \<Rightarrow> nat" where
  "cfg_usize cfg key dflt =
     (case Option.bind (json_get cfg key) json_as_f64 of Some x \<Rightarrow> max (usize_of_f64 x) 1 | None \<Rightarrow> dflt)"

definition cfg_f64 :: "json \<Rightarrow> string \<Rightarrow> f64 \<Rightarrow> f64" where
  "cfg_f64 cfg key dflt = (case Option.bind (json_get cfg key) json_as_f64 of Some x \<Rightarrow> x | None \<Rightarrow> dflt)"

text \<open>\<open>get_usize_arr4\<close> and \<open>get_usize_arr6\<close> differ in the length only.\<close>

definition cfg_usize_arr :: "nat \<Rightarrow> json \<Rightarrow> string \<Rightarrow> nat list \<Rightarrow> nat list" where
  "cfg_usize_arr n cfg key dflt =
     (case Option.bind (json_get cfg key) json_as_array of
        Some arr \<Rightarrow>
          if length arr = n then
            (case those (map json_as_f64 arr) of Some xs \<Rightarrow> map (\<lambda>x. max (usize_of_f64 x) 1) xs | None \<Rightarrow> dflt)
          else dflt
      | None \<Rightarrow> dflt)"

definition quad :: "nat list \<Rightarrow> nat \<times> nat \<times> nat \<times> nat" where
  "quad xs = (xs ! 0, xs ! 1, xs ! 2, xs ! 3)"

section \<open>The boxed indicators\<close>

datatype (plugins only: code) indicator_box =
    Sma sma
  | Ema ema
  | Wma wma
  | Hma hma
  | Dema dema
  | Tema tema
  | Smma smma
  | Alma alma
  | McGinley mcginley
  | Lsma lsma
  | Vwma vwma
  | Kama kama
  | Macd macd
  | Trix trix
  | Adx adx
  | Dmi dmi
  | Aroon aroon
  | AroonOsc aroon_oscillator
  | Vortex vortex
  | Alligator alligator
  | Gmma gmma
  | Kdj kdj
  | Kalman kalman
  | Rsi rsi
  | Cci cci
  | Roc roc
  | Mom mom
  | Cmo cmo
  | Dpo dpo
  | Mfi mfi
  | Bop unit
  | WilliamsR williams_r
  | Stochastic stochastic
  | StochRsi stochastic_rsi
  | Tsi tsi
  | Rci rci
  | BullBear bull_bear
  | Fisher fisher
  | Kst kst
  | Pmo pmo
  | Ppo ppo
  | Rvi rvi
  | Smi smi
  | Uo uo
  | ConnorsRsi connors_rsi
  | Ao awesome_oscillator
  | Coppock coppock
  | Atr atr
  | BBands bbands
  | Keltner keltner
  | SuperTrend supertrend
  | Donchian donchian
  | Chop chop
  | ChopZone chop_zone
  | ChandelierExit chandelier_exit
  | ChandeKroll chande_kroll_stop
  | VolatilityRatio volatility_ratio
  | Obv obv
  | Cmf cmf
  | Vwap vwap
  | Ichimoku ichimoku
  | ParabolicSar parabolic_sar
  | Rwi rwi
  | WilliamsFractal williams_fractal
  | ElderRay elder_ray

datatype box_error = UnknownIndicatorType string | RejectedParameters string

definition trend_variants :: "mathlib \<Rightarrow> json \<Rightarrow> (string \<times> indicator_box option) list" where
  "trend_variants lm cfg =
    [(''sma'', map_option Sma (sma_new (cfg_usize cfg ''period'' 20))),
     (''ema'', map_option Ema (ema_new (cfg_usize cfg ''period'' 20))),
     (''wma'', map_option Wma (wma_new (cfg_usize cfg ''period'' 20))),
     (''hma'', map_option Hma (hma_new (cfg_usize cfg ''period'' 20))),
     (''dema'', map_option Dema (dema_new (cfg_usize cfg ''period'' 20))),
     (''tema'', map_option Tema (tema_new (cfg_usize cfg ''period'' 20))),
     (''smma'', map_option Smma (smma_new (cfg_usize cfg ''period'' 20))),
     (''alma'', map_option Alma (alma_new (libm.truncate lm) (cfg_usize cfg ''period'' 9) (cfg_f64 cfg ''offset'' (lit (85 / 100))) (cfg_f64 cfg ''sigma'' (lit 6)))),
     (''mcginley'', map_option McGinley (mcginley_new (cfg_usize cfg ''period'' 14))),
     (''lsma'', map_option Lsma (lsma_new (cfg_usize cfg ''period'' 25))),
     (''vwma'', map_option Vwma (vwma_new (cfg_usize cfg ''period'' 20))),
     (''kama'', map_option Kama (kama_new (cfg_usize cfg ''er_period'' 10) (cfg_usize cfg ''fast'' 2) (cfg_usize cfg ''slow'' 30))),
     (''macd'', map_option Macd (macd_new (cfg_usize cfg ''fast'' 12) (cfg_usize cfg ''slow'' 26) (cfg_usize cfg ''signal'' 9))),
     (''trix'', map_option Trix (trix_new (cfg_usize cfg ''period'' 18) (cfg_usize cfg ''signal'' 9))),
     (''adx'', map_option Adx (adx_new (cfg_usize cfg ''period'' 14))),
     (''dmi'', map_option Dmi (dmi_new (cfg_usize cfg ''period'' 14))),
     (''aroon'', map_option Aroon (aroon_new (cfg_usize cfg ''period'' 25))),
     (''aroon_osc'', map_option AroonOsc (aroon_new (cfg_usize cfg ''period'' 25))),
     (''vortex'', map_option Vortex (vortex_new (cfg_usize cfg ''period'' 14))),
     (''alligator'', map_option Alligator (alligator_new (cfg_usize cfg ''jaw'' 13) (cfg_usize cfg ''teeth'' 8) (cfg_usize cfg ''lips'' 5))),
     (''gmma'', map_option Gmma (gmma_with_periods (cfg_usize_arr 6 cfg ''short'' [3, 5, 8, 10, 12, 15]) (cfg_usize_arr 6 cfg ''long'' [30, 35, 40, 45, 50, 60]))),
     (''kdj'', map_option Kdj (kdj_new (cfg_usize cfg ''period'' 9) (cfg_usize cfg ''k_period'' 3) (cfg_usize cfg ''d_period'' 3))),
     (''kalman'', map_option Kalman (kalman_new (cfg_f64 cfg ''q_pos'' (lit (1 / 1000))) (cfg_f64 cfg ''q_vel'' (lit (1 / 1000))) (cfg_f64 cfg ''r'' (lit 1))))]"

definition momentum_variants :: "mathlib \<Rightarrow> json \<Rightarrow> (string \<times> indicator_box option) list" where
  "momentum_variants lm cfg =
    [(''rsi'', map_option Rsi (rsi_new (cfg_usize cfg ''period'' 14))),
     (''cci'', map_option Cci (cci_new (cfg_usize cfg ''period'' 20))),
     (''roc'', map_option Roc (roc_new (cfg_usize cfg ''period'' 10))),
     (''mom'', map_option Mom (mom_new (cfg_usize cfg ''period'' 10))),
     (''cmo'', map_option Cmo (cmo_new (cfg_usize cfg ''period'' 14))),
     (''dpo'', map_option Dpo (dpo_new (cfg_usize cfg ''period'' 20))),
     (''mfi'', map_option Mfi (mfi_new (cfg_usize cfg ''period'' 14))),
     (''bop'', Some (Bop ())),
     (''williams_r'', map_option WilliamsR (williams_new (cfg_usize cfg ''period'' 14))),
     (''stochastic'', map_option Stochastic (stochastic_new_full (cfg_usize cfg ''k_period'' 14) (cfg_usize cfg ''smooth_k'' 1) (cfg_usize cfg ''d_period'' 3))),
     (''stoch_rsi'', map_option StochRsi (stochastic_rsi_new (cfg_usize cfg ''rsi_period'' 14) (cfg_usize cfg ''smooth_d'' 3))),
     (''tsi'', map_option Tsi (tsi_new (cfg_usize cfg ''first'' 25) (cfg_usize cfg ''second'' 13))),
     (''rci'', map_option Rci (rci_new (cfg_usize cfg ''period'' 9))),
     (''bull_bear'', map_option BullBear (bull_bear_new (cfg_usize cfg ''period'' 13))),
     (''fisher'', map_option Fisher (fisher_new (cfg_usize cfg ''period'' 9))),
     (''kst'', map_option Kst (kst_new (quad (cfg_usize_arr 4 cfg ''roc_periods'' [10, 13, 14, 15])) (quad (cfg_usize_arr 4 cfg ''sma_periods'' [10, 13, 14, 15])) (cfg_usize cfg ''signal'' 9))),
     (''pmo'', map_option Pmo (pmo_new (cfg_usize cfg ''smooth1'' 35) (cfg_usize cfg ''smooth2'' 20) (cfg_usize cfg ''signal'' 10))),
     (''ppo'', map_option Ppo (ppo_new (cfg_usize cfg ''fast'' 12) (cfg_usize cfg ''slow'' 26) (cfg_usize cfg ''signal'' 9))),
     (''rvi'', map_option Rvi (rvi_new (cfg_usize cfg ''period'' 10))),
     (''smi'', map_option Smi (smi_new (cfg_usize cfg ''period'' 13) (cfg_usize cfg ''smooth1'' 25) (cfg_usize cfg ''smooth2'' 2) (cfg_usize cfg ''signal'' 9))),
     (''uo'', map_option Uo (uo_new (cfg_usize cfg ''fast'' 7) (cfg_usize cfg ''medium'' 14) (cfg_usize cfg ''slow'' 28))),
     (''connors_rsi'', map_option ConnorsRsi (connors_rsi_new (cfg_usize cfg ''rsi_period'' 3) (cfg_usize cfg ''streak_period'' 2) (cfg_usize cfg ''rank_period'' 100))),
     (''ao'', Some (Ao (ao_new (cfg_usize cfg ''fast'' 5) (cfg_usize cfg ''slow'' 34)))),
     (''coppock'', map_option Coppock (coppock_new (cfg_usize cfg ''short'' 11) (cfg_usize cfg ''long'' 14) (cfg_usize cfg ''wma'' 10)))]"

definition volatility_variants :: "mathlib \<Rightarrow> json \<Rightarrow> (string \<times> indicator_box option) list" where
  "volatility_variants lm cfg =
    [(''atr'', map_option Atr (atr_ind_new (cfg_usize cfg ''period'' 14))),
     (''bbands'', map_option BBands (bbands_new (cfg_usize cfg ''period'' 20) (cfg_f64 cfg ''multiplier'' (lit 2)))),
     (''keltner'', map_option Keltner (keltner_new (cfg_usize cfg ''period'' 20) (cfg_usize cfg ''atr_period'' 10) (cfg_f64 cfg ''multiplier'' (lit 2)))),
     (''supertrend'', map_option SuperTrend (supertrend_new (cfg_usize cfg ''period'' 10) (cfg_f64 cfg ''multiplier'' (lit 3)))),
     (''donchian'', map_option Donchian (donchian_new (cfg_usize cfg ''period'' 20))),
     (''chop'', map_option Chop (chop_new (cfg_usize cfg ''period'' 14))),
     (''chop_zone'', map_option ChopZone (chop_zone_new (cfg_usize cfg ''ema_period'' 34) (cfg_f64 cfg ''threshold'' (lit 5)))),
     (''chandelier_exit'', map_option ChandelierExit (chandelier_new (cfg_usize cfg ''period'' 22) (cfg_f64 cfg ''multiplier'' (lit 3)))),
     (''chande_kroll'', map_option ChandeKroll (chande_kroll_new (cfg_usize cfg ''atr_period'' 10) (cfg_f64 cfg ''factor'' (lit (15 / 10))) (cfg_usize cfg ''stop_period'' 9))),
     (''volatility_ratio'', map_option VolatilityRatio (volatility_ratio_new (cfg_usize cfg ''lookback'' 10)))]"

definition volume_variants :: "mathlib \<Rightarrow> json \<Rightarrow> (string \<times> indicator_box option) list" where
  "volume_variants lm cfg =
    [(''obv'', Some (Obv obv_new)),
     (''cmf'', Some (Cmf (cmf_new (cfg_usize cfg ''period'' 20)))),
     (''vwap'', Some (Vwap (vwap_new (cfg_usize cfg ''session_gap_mins'' 390))))]"

definition pattern_variants :: "mathlib \<Rightarrow> json \<Rightarrow> (string \<times> indicator_box option) list" where
  "pattern_variants lm cfg =
    [(''ichimoku'', Some (Ichimoku (ichimoku_new (cfg_usize cfg ''tenkan'' 9) (cfg_usize cfg ''kijun'' 26) (cfg_usize cfg ''senkou_b'' 52)))),
     (''parabolic_sar'', Some (ParabolicSar (parabolic_sar_new (cfg_f64 cfg ''step'' (lit (2 / 100))) (cfg_f64 cfg ''max'' (lit (2 / 10)))))),
     (''rwi'', map_option Rwi (rwi_new (cfg_usize cfg ''period'' 14))),
     (''fractal'', Some (WilliamsFractal williams_fractal_new)),
     (''elder_ray'', map_option ElderRay (elder_ray_new (cfg_usize cfg ''period'' 13)))]"

text \<open>A constructor that panics is \<open>None\<close>.\<close>

definition variants :: "mathlib \<Rightarrow> json \<Rightarrow> (string \<times> indicator_box option) list" where
  "variants lm cfg = trend_variants lm cfg @ momentum_variants lm cfg @ volatility_variants lm cfg @
     volume_variants lm cfg @ pattern_variants lm cfg"

definition build_variant :: "mathlib \<Rightarrow> string \<Rightarrow> json \<Rightarrow> (box_error + indicator_box) option" where
  "build_variant lm ty cfg =
     (case map_of (variants lm cfg) ty of
        Some (Some b) \<Rightarrow> Some (Inr b)
      | Some None \<Rightarrow> None
      | None \<Rightarrow> Some (Inl (UnknownIndicatorType ty)))"

definition from_config :: "mathlib \<Rightarrow> json \<Rightarrow> box_error + indicator_box" where
  "from_config lm cfg =
     (let ty = (case Option.bind (json_get cfg ''type'') json_as_str of Some s \<Rightarrow> s | None \<Rightarrow> [])
      in case build_variant lm ty cfg of Some r \<Rightarrow> r | None \<Rightarrow> Inl (RejectedParameters ty))"

section \<open>Output fields\<close>

definition flag :: "bool \<Rightarrow> f64" where "flag b = (if b then 1 else 0)"

fun zone_f :: "chop_zone_class \<Rightarrow> f64" where
  "zone_f TrendingUp = 1"
| "zone_f Choppy = 0"
| "zone_f TrendingDown = - 1"

definition gmma_fields :: "gmma_value \<Rightarrow> (string, f64) hmap" where
  "gmma_fields v =
     (let short_avg = fsum (gmv_short v) / lit 6;
          long_avg = fsum (gmv_long v) / lit 6;
          spread = (if f64_epsilon < \<bar>long_avg\<bar> then (short_avg - long_avg) / long_avg else 0)
      in [(''spread'', spread), (''bullish'', flag (gmv_bullish v)),
          (''short_0'', gmv_short v ! 0), (''short_1'', gmv_short v ! 1), (''short_2'', gmv_short v ! 2),
          (''short_3'', gmv_short v ! 3), (''short_4'', gmv_short v ! 4), (''short_5'', gmv_short v ! 5),
          (''long_0'', gmv_long v ! 0), (''long_1'', gmv_long v ! 1), (''long_2'', gmv_long v ! 2),
          (''long_3'', gmv_long v ! 3), (''long_4'', gmv_long v ! 4), (''long_5'', gmv_long v ! 5)])"

text \<open>Running the update of an inner indicator and naming its outputs.\<close>

definition boxed :: "('s \<Rightarrow> indicator_box) \<Rightarrow> ('o \<Rightarrow> (string, f64) hmap) \<Rightarrow> ('s \<times> 'o option) option \<Rightarrow>
    (indicator_box \<times> (string, f64) hmap option) option" where
  "boxed C f r = map_option (\<lambda>(s, v). (C s, map_option f v)) r"

primrec box_update :: "mathlib \<Rightarrow> indicator_box \<Rightarrow> bar \<Rightarrow> (indicator_box \<times> (string, f64) hmap option) option" where
  "box_update lm (Sma i) bar = boxed Sma (\<lambda>v. [(''value'', v)]) (sma_update i (b_close bar))"
| "box_update lm (Ema i) bar = boxed Ema (\<lambda>v. [(''value'', v)]) (ema_update i (b_close bar))"
| "box_update lm (Wma i) bar = boxed Wma (\<lambda>v. [(''value'', v)]) (Some (wma_update i (b_close bar)))"
| "box_update lm (Hma i) bar = boxed Hma (\<lambda>v. [(''value'', v)]) (hma_update i (b_close bar))"
| "box_update lm (Dema i) bar = boxed Dema (\<lambda>v. [(''value'', v)]) (dema_update i (b_close bar))"
| "box_update lm (Tema i) bar = boxed Tema (\<lambda>v. [(''value'', v)]) (tema_update i (b_close bar))"
| "box_update lm (Smma i) bar = boxed Smma (\<lambda>v. [(''value'', v)]) (smma_update i (b_close bar))"
| "box_update lm (Alma i) bar = boxed Alma (\<lambda>v. [(''value'', v)]) (Some (alma_update i (b_close bar)))"
| "box_update lm (McGinley i) bar = boxed McGinley (\<lambda>v. [(''value'', v)]) (mcginley_update i (b_close bar))"
| "box_update lm (Lsma i) bar = boxed Lsma (\<lambda>v. [(''value'', lsv_value v), (''slope'', lsv_slope v)]) (Some (lsma_update i (b_close bar)))"
| "box_update lm (Vwma i) bar = boxed Vwma (\<lambda>v. [(''value'', v)]) (vwma_update i (b_close bar, b_volume bar))"
| "box_update lm (Kama i) bar = boxed Kama (\<lambda>v. [(''value'', v)]) (Some (kama_update i (b_close bar)))"
| "box_update lm (Macd i) bar = boxed Macd (\<lambda>v. [(''macd'', mv_macd v), (''signal'', mv_signal v), (''histogram'', mv_histogram v)]) (macd_update i (b_close bar))"
| "box_update lm (Trix i) bar = boxed Trix (\<lambda>v. [(''trix'', mv_macd v), (''signal'', mv_signal v), (''histogram'', mv_histogram v)]) (trix_update i (b_close bar))"
| "box_update lm (Adx i) bar = boxed Adx (\<lambda>v. [(''adx'', adv_adx v), (''plus_di'', adv_plus_di v), (''minus_di'', adv_minus_di v)]) (adx_update i (b_high bar, b_low bar, b_close bar))"
| "box_update lm (Dmi i) bar = boxed Dmi (\<lambda>v. [(''plus_di'', dv_plus_di v), (''minus_di'', dv_minus_di v)]) (dmi_update i (b_high bar, b_low bar, b_close bar))"
| "box_update lm (Aroon i) bar = boxed Aroon (\<lambda>v. [(''up'', arv_up v), (''down'', arv_down v)]) (aroon_update i (b_high bar, b_low bar))"
| "box_update lm (AroonOsc i) bar = boxed AroonOsc (\<lambda>v. [(''value'', v)]) (aroon_osc_update i (b_high bar, b_low bar))"
| "box_update lm (Vortex i) bar = boxed Vortex (\<lambda>v. [(''plus_vi'', vov_plus_vi v), (''minus_vi'', vov_minus_vi v)]) (vortex_update i (b_high bar, b_low bar, b_close bar))"
| "box_update lm (Alligator i) bar = boxed Alligator (\<lambda>v. [(''jaw'', alv_jaw v), (''teeth'', alv_teeth v), (''lips'', alv_lips v), (''bullish'', flag (alv_bullish v)), (''bearish'', flag (alv_bearish v))]) (alligator_update i (b_high bar, b_low bar))"
| "box_update lm (Gmma i) bar = boxed Gmma (\<lambda>v. gmma_fields v) (gmma_update i (b_close bar))"
| "box_update lm (Kdj i) bar = boxed Kdj (\<lambda>v. [(''k'', kdv_k v), (''d'', kdv_d v), (''j'', kdv_j v)]) (kdj_update i (b_high bar, b_low bar, b_close bar))"
| "box_update lm (Kalman i) bar = boxed Kalman (\<lambda>v. [(''value'', kav_value v), (''velocity'', kav_velocity v)]) (Some (map_prod id Some (kalman_update i (b_close bar))))"
| "box_update lm (Rsi i) bar = boxed Rsi (\<lambda>v. [(''value'', v)]) (rsi_update i (b_close bar))"
| "box_update lm (Cci i) bar = boxed Cci (\<lambda>v. [(''value'', v)]) (Some (cci_update i (b_high bar, b_low bar, b_close bar)))"
| "box_update lm (Roc i) bar = boxed Roc (\<lambda>v. [(''value'', v)]) (Some (roc_update i (b_close bar)))"
| "box_update lm (Mom i) bar = boxed Mom (\<lambda>v. [(''value'', v)]) (Some (mom_update i (b_close bar)))"
| "box_update lm (Cmo i) bar = boxed Cmo (\<lambda>v. [(''value'', v)]) (cmo_update i (b_close bar))"
| "box_update lm (Dpo i) bar = boxed Dpo (\<lambda>v. [(''value'', v)]) (Some (dpo_update i (b_close bar)))"
| "box_update lm (Mfi i) bar = boxed Mfi (\<lambda>v. [(''value'', v)]) (Some (mfi_update i (b_high bar, b_low bar, b_close bar, b_volume bar)))"
| "box_update lm (Bop i) bar = boxed Bop (\<lambda>v. [(''value'', v)]) (Some (bop_update i (b_open bar, b_high bar, b_low bar, b_close bar)))"
| "box_update lm (WilliamsR i) bar = boxed WilliamsR (\<lambda>v. [(''value'', v)]) (Some (williams_update i (b_high bar, b_low bar, b_close bar)))"
| "box_update lm (Stochastic i) bar = boxed Stochastic (\<lambda>v. [(''k'', stv_k v), (''d'', stv_d v)]) (stochastic_update i (b_high bar, b_low bar, b_close bar))"
| "box_update lm (StochRsi i) bar = boxed StochRsi (\<lambda>v. [(''k'', sqv_k v), (''d'', sqv_d v)]) (stochastic_rsi_update i (b_close bar))"
| "box_update lm (Tsi i) bar = boxed Tsi (\<lambda>v. [(''value'', v)]) (tsi_update i (b_close bar))"
| "box_update lm (Rci i) bar = boxed Rci (\<lambda>v. [(''value'', v)]) (Some (rci_update i (b_close bar)))"
| "box_update lm (BullBear i) bar = boxed BullBear (\<lambda>v. [(''bull'', bbv_bull v), (''bear'', bbv_bear v), (''ema'', bbv_ema v)]) (bull_bear_update i (b_high bar, b_low bar, b_close bar))"
| "box_update lm (Fisher i) bar = boxed Fisher (\<lambda>v. [(''fisher'', fiv_fisher v), (''signal'', fiv_signal v)]) (Some (fisher_update (libm.truncate lm) i (b_high bar, b_low bar)))"
| "box_update lm (Kst i) bar = boxed Kst (\<lambda>v. [(''kst'', mv_macd v), (''signal'', mv_signal v), (''histogram'', mv_histogram v)]) (kst_update i (b_close bar))"
| "box_update lm (Pmo i) bar = boxed Pmo (\<lambda>v. [(''pmo'', mv_macd v), (''signal'', mv_signal v), (''histogram'', mv_histogram v)]) (pmo_update i (b_close bar))"
| "box_update lm (Ppo i) bar = boxed Ppo (\<lambda>v. [(''ppo'', mv_macd v), (''signal'', mv_signal v), (''histogram'', mv_histogram v)]) (ppo_update i (b_close bar))"
| "box_update lm (Rvi i) bar = boxed Rvi (\<lambda>v. [(''rvi'', rvv_rvi v), (''signal'', rvv_signal v)]) (rvi_update i (b_open bar, b_high bar, b_low bar, b_close bar))"
| "box_update lm (Smi i) bar = boxed Smi (\<lambda>v. [(''smi'', smv_smi v), (''signal'', smv_signal v)]) (smi_update i (b_high bar, b_low bar, b_close bar))"
| "box_update lm (Uo i) bar = boxed Uo (\<lambda>v. [(''value'', v)]) (uo_update i (b_high bar, b_low bar, b_close bar))"
| "box_update lm (ConnorsRsi i) bar = boxed ConnorsRsi (\<lambda>v. [(''value'', v)]) (connors_rsi_update i (b_close bar))"
| "box_update lm (Ao i) bar = boxed Ao (\<lambda>v. [(''value'', v)]) (Some (ao_update i (b_high bar, b_low bar)))"
| "box_update lm (Coppock i) bar = boxed Coppock (\<lambda>v. [(''value'', v)]) (Some (coppock_update i (b_close bar)))"
| "box_update lm (Atr i) bar = boxed Atr (\<lambda>v. [(''tr'', av_tr v), (''atr'', av_atr v)]) (atr_update i (b_high bar, b_low bar, b_close bar))"
| "box_update lm (BBands i) bar = boxed BBands (\<lambda>v. [(''upper'', bbv_upper v), (''middle'', bbv_middle v), (''lower'', bbv_lower v), (''bandwidth'', bbv_bandwidth v), (''percent_b'', bbv_percent_b v)]) (Some (bbands_update i (b_close bar)))"
| "box_update lm (Keltner i) bar = boxed Keltner (\<lambda>v. [(''upper'', klv_upper v), (''middle'', klv_middle v), (''lower'', klv_lower v)]) (keltner_update i (b_high bar, b_low bar, b_close bar))"
| "box_update lm (SuperTrend i) bar = boxed SuperTrend (\<lambda>v. [(''value'', stv_value v), (''bullish'', flag (stv_is_bullish v)), (''bearish'', flag (\<not> stv_is_bullish v))]) (supertrend_update i (b_high bar, b_low bar, b_close bar))"
| "box_update lm (Donchian i) bar = boxed Donchian (\<lambda>v. [(''upper'', dv_upper v), (''middle'', dv_middle v), (''lower'', dv_lower v)]) (Some (donchian_update i (b_high bar, b_low bar)))"
| "box_update lm (Chop i) bar = boxed Chop (\<lambda>v. [(''value'', v)]) (Some (chop_update lm i (b_high bar, b_low bar, b_close bar)))"
| "box_update lm (ChopZone i) bar = boxed ChopZone (\<lambda>v. [(''angle'', czv_angle v), (''zone'', zone_f (czv_zone v))]) (chop_zone_update lm i (b_high bar, b_low bar, b_close bar))"
| "box_update lm (ChandelierExit i) bar = boxed ChandelierExit (\<lambda>v. [(''long_stop'', chv_long_stop v), (''short_stop'', chv_short_stop v), (''atr'', chv_atr v)]) (chandelier_update i (b_high bar, b_low bar, b_close bar))"
| "box_update lm (ChandeKroll i) bar = boxed ChandeKroll (\<lambda>v. [(''stop_long'', ckv_stop_long v), (''stop_short'', ckv_stop_short v)]) (chande_kroll_update i (b_high bar, b_low bar, b_close bar))"
| "box_update lm (VolatilityRatio i) bar = boxed VolatilityRatio (\<lambda>v. [(''value'', v)]) (Some (volatility_ratio_update i (b_high bar, b_low bar, b_close bar)))"
| "box_update lm (Obv i) bar = boxed Obv (\<lambda>v. [(''value'', v)]) (Some (map_prod id Some (obv_update i (b_close bar, b_volume bar))))"
| "box_update lm (Cmf i) bar = boxed Cmf (\<lambda>v. [(''value'', v)]) (Some (cmf_update i (b_high bar, b_low bar, b_close bar, b_volume bar)))"
| "box_update lm (Vwap i) bar = boxed Vwap (\<lambda>v. [(''value'', v)]) (Some (map_prod id Some (vwap_update i (b_timestamp bar, b_high bar, b_low bar, b_close bar, b_volume bar))))"
| "box_update lm (Ichimoku i) bar = boxed Ichimoku (\<lambda>v. [(''tenkan'', icv_tenkan v), (''kijun'', icv_kijun v), (''senkou_a'', icv_senkou_a v), (''senkou_b'', icv_senkou_b v),
      (''chikou'', icv_chikou v), (''above_cloud'', flag (icv_above_cloud v)), (''below_cloud'', flag (icv_below_cloud v)),
      (''chikou_above'', flag (icv_chikou_above v)), (''chikou_below'', flag (icv_chikou_below v))]) (Some (ichimoku_update i (b_high bar, b_low bar, b_close bar)))"
| "box_update lm (ParabolicSar i) bar = boxed ParabolicSar (\<lambda>v. [(''sar'', srv_sar v), (''bullish'', flag (srv_is_bullish v))]) (parabolic_sar_update i (b_high bar, b_low bar, b_close bar))"
| "box_update lm (Rwi i) bar = boxed Rwi (\<lambda>v. [(''rwi_high'', rwv_rwi_high v), (''rwi_low'', rwv_rwi_low v)]) (Some (rwi_update i (b_high bar, b_low bar, b_close bar)))"
| "box_update lm (WilliamsFractal i) bar = boxed WilliamsFractal (\<lambda>v. [(''bullish'', flag (frv_bullish v)), (''bearish'', flag (frv_bearish v)), (''fractal_high'', frv_high v), (''fractal_low'', frv_low v)]) (Some (williams_fractal_update i (b_high bar, b_low bar)))"
| "box_update lm (ElderRay i) bar = boxed ElderRay (\<lambda>v. [(''bull_power'', erv_bull_power v), (''bear_power'', erv_bear_power v), (''ema'', erv_ema v)]) (elder_ray_update i (b_high bar, b_low bar, b_close bar))"

primrec type_name :: "indicator_box \<Rightarrow> string" where
  "type_name (Sma _) = ''sma''"
| "type_name (Ema _) = ''ema''"
| "type_name (Wma _) = ''wma''"
| "type_name (Hma _) = ''hma''"
| "type_name (Dema _) = ''dema''"
| "type_name (Tema _) = ''tema''"
| "type_name (Smma _) = ''smma''"
| "type_name (Alma _) = ''alma''"
| "type_name (McGinley _) = ''mcginley''"
| "type_name (Lsma _) = ''lsma''"
| "type_name (Vwma _) = ''vwma''"
| "type_name (Kama _) = ''kama''"
| "type_name (Macd _) = ''macd''"
| "type_name (Trix _) = ''trix''"
| "type_name (Adx _) = ''adx''"
| "type_name (Dmi _) = ''dmi''"
| "type_name (Aroon _) = ''aroon''"
| "type_name (AroonOsc _) = ''aroon_osc''"
| "type_name (Vortex _) = ''vortex''"
| "type_name (Alligator _) = ''alligator''"
| "type_name (Gmma _) = ''gmma''"
| "type_name (Kdj _) = ''kdj''"
| "type_name (Kalman _) = ''kalman''"
| "type_name (Rsi _) = ''rsi''"
| "type_name (Cci _) = ''cci''"
| "type_name (Roc _) = ''roc''"
| "type_name (Mom _) = ''mom''"
| "type_name (Cmo _) = ''cmo''"
| "type_name (Dpo _) = ''dpo''"
| "type_name (Mfi _) = ''mfi''"
| "type_name (Bop _) = ''bop''"
| "type_name (WilliamsR _) = ''williams_r''"
| "type_name (Stochastic _) = ''stochastic''"
| "type_name (StochRsi _) = ''stoch_rsi''"
| "type_name (Tsi _) = ''tsi''"
| "type_name (Rci _) = ''rci''"
| "type_name (BullBear _) = ''bull_bear''"
| "type_name (Fisher _) = ''fisher''"
| "type_name (Kst _) = ''kst''"
| "type_name (Pmo _) = ''pmo''"
| "type_name (Ppo _) = ''ppo''"
| "type_name (Rvi _) = ''rvi''"
| "type_name (Smi _) = ''smi''"
| "type_name (Uo _) = ''uo''"
| "type_name (ConnorsRsi _) = ''connors_rsi''"
| "type_name (Ao _) = ''ao''"
| "type_name (Coppock _) = ''coppock''"
| "type_name (Atr _) = ''atr''"
| "type_name (BBands _) = ''bbands''"
| "type_name (Keltner _) = ''keltner''"
| "type_name (SuperTrend _) = ''supertrend''"
| "type_name (Donchian _) = ''donchian''"
| "type_name (Chop _) = ''chop''"
| "type_name (ChopZone _) = ''chop_zone''"
| "type_name (ChandelierExit _) = ''chandelier_exit''"
| "type_name (ChandeKroll _) = ''chande_kroll''"
| "type_name (VolatilityRatio _) = ''volatility_ratio''"
| "type_name (Obv _) = ''obv''"
| "type_name (Cmf _) = ''cmf''"
| "type_name (Vwap _) = ''vwap''"
| "type_name (Ichimoku _) = ''ichimoku''"
| "type_name (ParabolicSar _) = ''parabolic_sar''"
| "type_name (Rwi _) = ''rwi''"
| "type_name (WilliamsFractal _) = ''fractal''"
| "type_name (ElderRay _) = ''elder_ray''"

primrec field_names :: "indicator_box \<Rightarrow> string list" where
  "field_names (Sma _) = [''value'']"
| "field_names (Ema _) = [''value'']"
| "field_names (Wma _) = [''value'']"
| "field_names (Hma _) = [''value'']"
| "field_names (Dema _) = [''value'']"
| "field_names (Tema _) = [''value'']"
| "field_names (Smma _) = [''value'']"
| "field_names (Alma _) = [''value'']"
| "field_names (McGinley _) = [''value'']"
| "field_names (Lsma _) = [''value'', ''slope'']"
| "field_names (Vwma _) = [''value'']"
| "field_names (Kama _) = [''value'']"
| "field_names (Macd _) = [''macd'', ''signal'', ''histogram'']"
| "field_names (Trix _) = [''trix'', ''signal'', ''histogram'']"
| "field_names (Adx _) = [''adx'', ''plus_di'', ''minus_di'']"
| "field_names (Dmi _) = [''plus_di'', ''minus_di'']"
| "field_names (Aroon _) = [''up'', ''down'']"
| "field_names (AroonOsc _) = [''value'']"
| "field_names (Vortex _) = [''plus_vi'', ''minus_vi'']"
| "field_names (Alligator _) = [''jaw'', ''teeth'', ''lips'', ''bullish'', ''bearish'']"
| "field_names (Gmma _) = [''spread'', ''bullish'', ''short_0'', ''short_1'', ''short_2'', ''short_3'', ''short_4'', ''short_5'', ''long_0'', ''long_1'', ''long_2'', ''long_3'', ''long_4'', ''long_5'']"
| "field_names (Kdj _) = [''k'', ''d'', ''j'']"
| "field_names (Kalman _) = [''value'', ''velocity'']"
| "field_names (Rsi _) = [''value'']"
| "field_names (Cci _) = [''value'']"
| "field_names (Roc _) = [''value'']"
| "field_names (Mom _) = [''value'']"
| "field_names (Cmo _) = [''value'']"
| "field_names (Dpo _) = [''value'']"
| "field_names (Mfi _) = [''value'']"
| "field_names (Bop _) = [''value'']"
| "field_names (WilliamsR _) = [''value'']"
| "field_names (Stochastic _) = [''k'', ''d'']"
| "field_names (StochRsi _) = [''k'', ''d'']"
| "field_names (Tsi _) = [''value'']"
| "field_names (Rci _) = [''value'']"
| "field_names (BullBear _) = [''bull'', ''bear'', ''ema'']"
| "field_names (Fisher _) = [''fisher'', ''signal'']"
| "field_names (Kst _) = [''kst'', ''signal'', ''histogram'']"
| "field_names (Pmo _) = [''pmo'', ''signal'', ''histogram'']"
| "field_names (Ppo _) = [''ppo'', ''signal'', ''histogram'']"
| "field_names (Rvi _) = [''rvi'', ''signal'']"
| "field_names (Smi _) = [''smi'', ''signal'']"
| "field_names (Uo _) = [''value'']"
| "field_names (ConnorsRsi _) = [''value'']"
| "field_names (Ao _) = [''value'']"
| "field_names (Coppock _) = [''value'']"
| "field_names (Atr _) = [''atr'', ''tr'']"
| "field_names (BBands _) = [''upper'', ''middle'', ''lower'', ''bandwidth'', ''percent_b'']"
| "field_names (Keltner _) = [''upper'', ''middle'', ''lower'']"
| "field_names (SuperTrend _) = [''value'', ''bullish'', ''bearish'']"
| "field_names (Donchian _) = [''upper'', ''middle'', ''lower'']"
| "field_names (Chop _) = [''value'']"
| "field_names (ChopZone _) = [''angle'', ''zone'']"
| "field_names (ChandelierExit _) = [''long_stop'', ''short_stop'', ''atr'']"
| "field_names (ChandeKroll _) = [''stop_long'', ''stop_short'']"
| "field_names (VolatilityRatio _) = [''value'']"
| "field_names (Obv _) = [''value'']"
| "field_names (Cmf _) = [''value'']"
| "field_names (Vwap _) = [''value'']"
| "field_names (Ichimoku _) = [''tenkan'', ''kijun'', ''senkou_a'', ''senkou_b'', ''chikou'', ''above_cloud'', ''below_cloud'', ''chikou_above'', ''chikou_below'']"
| "field_names (ParabolicSar _) = [''sar'', ''bullish'']"
| "field_names (Rwi _) = [''rwi_high'', ''rwi_low'']"
| "field_names (WilliamsFractal _) = [''bullish'', ''bearish'', ''fractal_high'', ''fractal_low'']"
| "field_names (ElderRay _) = [''bull_power'', ''bear_power'', ''ema'']"

primrec box_reset :: "indicator_box \<Rightarrow> indicator_box option" where
  "box_reset (Sma i) = Some (Sma (sma_reset i))"
| "box_reset (Ema i) = Some (Ema (ema_reset i))"
| "box_reset (Wma i) = Some (Wma (wma_reset i))"
| "box_reset (Hma i) = map_option Hma (hma_reset i)"
| "box_reset (Dema i) = map_option Dema (dema_reset i)"
| "box_reset (Tema i) = Some (Tema (tema_reset i))"
| "box_reset (Smma i) = Some (Smma (smma_reset i))"
| "box_reset (Alma i) = Some (Alma (alma_reset i))"
| "box_reset (McGinley i) = Some (McGinley (mcginley_reset i))"
| "box_reset (Lsma i) = Some (Lsma (lsma_reset i))"
| "box_reset (Vwma i) = Some (Vwma (vwma_reset i))"
| "box_reset (Kama i) = Some (Kama (kama_reset i))"
| "box_reset (Macd i) = Some (Macd (macd_reset i))"
| "box_reset (Trix i) = map_option Trix (trix_reset i)"
| "box_reset (Adx i) = Some (Adx (adx_reset i))"
| "box_reset (Dmi i) = Some (Dmi (dmi_reset i))"
| "box_reset (Aroon i) = Some (Aroon (aroon_reset i))"
| "box_reset (AroonOsc i) = Some (AroonOsc (aroon_reset i))"
| "box_reset (Vortex i) = Some (Vortex (vortex_reset i))"
| "box_reset (Alligator i) = map_option Alligator (alligator_reset i)"
| "box_reset (Gmma i) = map_option Gmma (gmma_reset i)"
| "box_reset (Kdj i) = Some (Kdj (kdj_reset i))"
| "box_reset (Kalman i) = Some (Kalman (kalman_reset i))"
| "box_reset (Rsi i) = Some (Rsi (rsi_reset i))"
| "box_reset (Cci i) = Some (Cci (cci_reset i))"
| "box_reset (Roc i) = Some (Roc (roc_reset i))"
| "box_reset (Mom i) = Some (Mom (mom_reset i))"
| "box_reset (Cmo i) = Some (Cmo (cmo_reset i))"
| "box_reset (Dpo i) = Some (Dpo (dpo_reset i))"
| "box_reset (Mfi i) = Some (Mfi (mfi_reset i))"
| "box_reset (Bop i) = Some (Bop i)"
| "box_reset (WilliamsR i) = Some (WilliamsR (williams_reset i))"
| "box_reset (Stochastic i) = Some (Stochastic (stochastic_reset i))"
| "box_reset (StochRsi i) = map_option StochRsi (stochastic_rsi_reset i)"
| "box_reset (Tsi i) = map_option Tsi (tsi_reset i)"
| "box_reset (Rci i) = Some (Rci (rci_reset i))"
| "box_reset (BullBear i) = Some (BullBear (bull_bear_reset i))"
| "box_reset (Fisher i) = Some (Fisher (fisher_reset i))"
| "box_reset (Kst i) = Some (Kst (kst_reset i))"
| "box_reset (Pmo i) = Some (Pmo (pmo_reset i))"
| "box_reset (Ppo i) = Some (Ppo (ppo_reset i))"
| "box_reset (Rvi i) = Some (Rvi (rvi_reset i))"
| "box_reset (Smi i) = Some (Smi (smi_reset i))"
| "box_reset (Uo i) = Some (Uo (uo_reset i))"
| "box_reset (ConnorsRsi i) = map_option ConnorsRsi (connors_rsi_reset i)"
| "box_reset (Ao i) = Some (Ao (ao_reset i))"
| "box_reset (Coppock i) = Some (Coppock (coppock_reset i))"
| "box_reset (Atr i) = Some (Atr (atr_reset i))"
| "box_reset (BBands i) = Some (BBands (bbands_reset i))"
| "box_reset (Keltner i) = map_option Keltner (keltner_reset i)"
| "box_reset (SuperTrend i) = map_option SuperTrend (supertrend_reset i)"
| "box_reset (Donchian i) = Some (Donchian (donchian_reset i))"
| "box_reset (Chop i) = Some (Chop (chop_reset i))"
| "box_reset (ChopZone i) = Some (ChopZone (chop_zone_reset i))"
| "box_reset (ChandelierExit i) = Some (ChandelierExit (chandelier_reset i))"
| "box_reset (ChandeKroll i) = Some (ChandeKroll (chande_kroll_reset i))"
| "box_reset (VolatilityRatio i) = Some (VolatilityRatio (volatility_ratio_reset i))"
| "box_reset (Obv i) = Some (Obv (obv_reset i))"
| "box_reset (Cmf i) = Some (Cmf (cmf_reset i))"
| "box_reset (Vwap i) = Some (Vwap (vwap_reset i))"
| "box_reset (Ichimoku i) = Some (Ichimoku (ichimoku_reset i))"
| "box_reset (ParabolicSar i) = Some (ParabolicSar (parabolic_sar_reset i))"
| "box_reset (Rwi i) = Some (Rwi (rwi_reset i))"
| "box_reset (WilliamsFractal i) = Some (WilliamsFractal (williams_fractal_reset i))"
| "box_reset (ElderRay i) = map_option ElderRay (elder_ray_reset i)"

datatype field_kind_t = Scalar | Bool

fun field_kind_as_str :: "field_kind_t \<Rightarrow> string" where
  "field_kind_as_str Scalar = ''f64''"
| "field_kind_as_str Bool = ''bool''"

definition BOOL_FIELDS :: "string list" where
  "BOOL_FIELDS = [''bullish'', ''bearish'', ''above_cloud'', ''below_cloud'', ''chikou_above'', ''chikou_below'']"

definition field_kind :: "string \<Rightarrow> field_kind_t" where
  "field_kind name = (if name \<in> set BOOL_FIELDS then Bool else Scalar)"

end
