(* ===== verification/Box_Theorems.thy ===== *)
theory Box_Theorems
  imports Indicator_Box
begin

text \<open>
  What every boxed indicator promises, whatever its type: a configuration is accepted or rejected without a panic, the
  outputs are exactly the advertised fields with flags that are 0 or 1, an accepted indicator never panics on bars whose
  high and low are numbers, and \<open>reset\<close> brings it back to the start. The proofs lift the contract \<open>streaming\<close> of the
  concrete indicators through the box.
\<close>

section \<open>Lifting the contract\<close>

lemma run_boxed:
  assumes "\<And>i x. U (C i) x = boxed C f (upd i (proj x))"
  shows "run_updates upd s (map proj xs) = Some (s', vs) \<Longrightarrow>
    run_updates U (C s) xs = Some (C s', map (map_option f) vs)"
proof (induction xs arbitrary: s vs)
  case (Cons x xs)
  then obtain s1 v ws where "upd s (proj x) = Some (s1, v)" "run_updates upd s1 (map proj xs) = Some (s', ws)" "vs = v # ws"
    by (auto split: option.splits prod.splits)
  then show ?case using Cons.IH by (simp add: assms boxed_def)
qed simp

context streaming
begin

lemma into_box:
  assumes "new c = Some s"
    and box: "\<And>i x. U (C i) x = boxed C f (upd i (proj x))"
    and "\<And>i. R (C i) = map_option C (rst i)"
    and "\<And>x. binp x \<Longrightarrow> inp (proj x)"
  shows "steady binp U R (C s)"
  unfolding steady_def
proof (intro allI impI)
  fix xs
  assume "list_all binp xs"
  then have "list_all inp (map proj xs)" using assms(4) by (auto simp: list_all_iff)
  then obtain s' vs where "run_updates upd s (map proj xs) = Some (s', vs)" "length vs = length xs" "rst s' = Some s"
    using new_steady [OF assms(1)] unfolding steady_def by force
  then show "\<exists>b outs. run_updates U (C s) xs = Some (b, outs) \<and> length outs = length xs \<and> R b = Some (C s)"
    using run_boxed [where U = U and C = C and f = f and upd = upd and proj = proj, OF box] assms(3) by fastforce
qed

end

definition keeps_going :: "mathlib \<Rightarrow> indicator_box option \<Rightarrow> bool" where
  "keeps_going lm ob \<longleftrightarrow> (\<forall>b. ob = Some b \<longrightarrow> steady plain_bar (box_update lm) box_reset b)"

lemma keeps_goingI:
  "(\<And>s. n = Some s \<Longrightarrow> steady plain_bar (box_update lm) box_reset (C s)) \<Longrightarrow> keeps_going lm (map_option C n)"
  "steady plain_bar (box_update lm) box_reset b \<Longrightarrow> keeps_going lm (Some b)"
  by (auto simp: keeps_going_def)

lemmas box_facts = plain_bar_def no_nan2_def is_nan_def sma_new_def ema_new_def wma_new_def dema_new_pos tema_new_pos smma_new_def
  mcginley_new_def rsi_new_def williams_new_def donchian_new_def atr_ind_new_pos

lemma trend_keeps_going:
  shows "keeps_going lm (map_option Sma (sma_new p1))"
    and "keeps_going lm (map_option Ema (ema_new p1))"
    and "keeps_going lm (map_option Wma (wma_new p1))"
    and "keeps_going lm (map_option Hma (hma_new p1))"
    and "keeps_going lm (map_option Dema (dema_new p1))"
    and "keeps_going lm (map_option Tema (tema_new p1))"
    and "keeps_going lm (map_option Smma (smma_new p1))"
    and "keeps_going lm (map_option Alma (alma_new (libm.truncate lm) p1 x2 x3))"
    and "keeps_going lm (map_option McGinley (mcginley_new p1))"
    and "keeps_going lm (map_option Lsma (lsma_new p1))"
    and "keeps_going lm (map_option Vwma (vwma_new p1))"
    and "keeps_going lm (map_option Kama (kama_new p1 p2 p3))"
    and "keeps_going lm (map_option Macd (macd_new p1 p2 p3))"
    and "keeps_going lm (map_option Trix (trix_new p1 p2))"
    and "keeps_going lm (map_option Adx (adx_new p1))"
    and "keeps_going lm (map_option Dmi (dmi_new p1))"
    and "keeps_going lm (map_option Aroon (aroon_new p1))"
    and "keeps_going lm (map_option AroonOsc (aroon_new p1))"
    and "keeps_going lm (map_option Vortex (vortex_new p1))"
    and "keeps_going lm (map_option Alligator (alligator_new p1 p2 p3))"
    and "keeps_going lm (map_option Kdj (kdj_new p1 p2 p3))"
    and "keeps_going lm (map_option Kalman (kalman_new x1 x2 x3))"
  subgoal by (rule keeps_goingI(1), rule sma.into_box [where c = p1, OF _ box_update.simps(1)]) (simp_all add: box_facts)
  subgoal by (rule keeps_goingI(1), rule ema.into_box [where c = p1, OF _ box_update.simps(2)]) (simp_all add: box_facts)
  subgoal by (rule keeps_goingI(1), rule wma.into_box [where c = p1, OF _ box_update.simps(3)]) (simp_all add: box_facts)
  subgoal by (rule keeps_goingI(1), rule hma.into_box [where c = p1, OF _ box_update.simps(4)]) (simp_all add: box_facts)
  subgoal by (rule keeps_goingI(1), rule dema.into_box [where c = p1, OF _ box_update.simps(5)]) (simp_all add: box_facts)
  subgoal by (rule keeps_goingI(1), rule tema.into_box [where c = p1, OF _ box_update.simps(6)]) (simp_all add: box_facts)
  subgoal by (rule keeps_goingI(1), rule smma.into_box [where c = p1, OF _ box_update.simps(7)]) (simp_all add: box_facts)
  subgoal by (rule keeps_goingI(1), rule alma.into_box [where c = "(libm.truncate lm, p1, x2, x3)", OF _ box_update.simps(8)]) (simp_all add: box_facts)
  subgoal by (rule keeps_goingI(1), rule mcginley.into_box [where c = p1, OF _ box_update.simps(9)]) (simp_all add: box_facts)
  subgoal by (rule keeps_goingI(1), rule lsma.into_box [where c = p1, OF _ box_update.simps(10)]) (simp_all add: box_facts)
  subgoal by (rule keeps_goingI(1), rule vwma.into_box [where c = p1, OF _ box_update.simps(11)]) (simp_all add: box_facts)
  subgoal by (rule keeps_goingI(1), rule kama.into_box [where c = "(p1, p2, p3)", OF _ box_update.simps(12)]) (simp_all add: box_facts)
  subgoal by (rule keeps_goingI(1), rule macd.into_box [where c = "(p1, p2, p3)", OF _ box_update.simps(13)]) (simp_all add: box_facts)
  subgoal by (rule keeps_goingI(1), rule trix.into_box [where c = "(p1, p2)", OF _ box_update.simps(14)]) (simp_all add: box_facts)
  subgoal by (rule keeps_goingI(1), rule adx.into_box [where c = p1, OF _ box_update.simps(15)]) (simp_all add: box_facts)
  subgoal by (rule keeps_goingI(1), rule dmi.into_box [where c = p1, OF _ box_update.simps(16)]) (simp_all add: box_facts)
  subgoal by (rule keeps_goingI(1), rule aroon.into_box [where c = p1, OF _ box_update.simps(17)]) (simp_all add: box_facts)
  subgoal by (rule keeps_goingI(1), rule aroon_osc.into_box [where c = p1, OF _ box_update.simps(18)]) (simp_all add: box_facts)
  subgoal by (rule keeps_goingI(1), rule vortex.into_box [where c = p1, OF _ box_update.simps(19)]) (simp_all add: box_facts)
  subgoal by (rule keeps_goingI(1), rule alligator.into_box [where c = "(p1, p2, p3)", OF _ box_update.simps(20)]) (simp_all add: box_facts)
  subgoal by (rule keeps_goingI(1), rule kdj.into_box [where c = "(p1, p2, p3)", OF _ box_update.simps(22)]) (simp_all add: box_facts)
  subgoal by (rule keeps_goingI(1), rule kalman.into_box [where c = "(x1, x2, x3)", OF _ box_update.simps(23)]) (simp_all add: box_facts)
  done

lemma momentum_keeps_going:
  shows "keeps_going lm (map_option Rsi (rsi_new p1))"
    and "keeps_going lm (map_option Cci (cci_new p1))"
    and "keeps_going lm (map_option Roc (roc_new p1))"
    and "keeps_going lm (map_option Mom (mom_new p1))"
    and "keeps_going lm (map_option Cmo (cmo_new p1))"
    and "keeps_going lm (map_option Dpo (dpo_new p1))"
    and "keeps_going lm (map_option Mfi (mfi_new p1))"
    and "keeps_going lm (Some (Bop ()))"
    and "keeps_going lm (map_option WilliamsR (williams_new p1))"
    and "keeps_going lm (map_option Stochastic (stochastic_new_full p1 p2 p3))"
    and "keeps_going lm (map_option StochRsi (stochastic_rsi_new p1 p2))"
    and "keeps_going lm (map_option Tsi (tsi_new p1 p2))"
    and "keeps_going lm (map_option Rci (rci_new p1))"
    and "keeps_going lm (map_option BullBear (bull_bear_new p1))"
    and "keeps_going lm (map_option Fisher (fisher_new p1))"
    and "keeps_going lm (map_option Kst (kst_new ts1 ts2 p3))"
    and "keeps_going lm (map_option Pmo (pmo_new p1 p2 p3))"
    and "keeps_going lm (map_option Ppo (ppo_new p1 p2 p3))"
    and "keeps_going lm (map_option Rvi (rvi_new p1))"
    and "keeps_going lm (map_option Smi (smi_new p1 p2 p3 p4))"
    and "keeps_going lm (map_option Uo (uo_new p1 p2 p3))"
    and "keeps_going lm (map_option ConnorsRsi (connors_rsi_new p1 p2 p3))"
    and "keeps_going lm (Some (Ao (ao_new p1 p2)))"
    and "keeps_going lm (map_option Coppock (coppock_new p1 p2 p3))"
  subgoal by (rule keeps_goingI(1), rule rsi.into_box [where c = p1, OF _ box_update.simps(24)]) (simp_all add: box_facts)
  subgoal by (rule keeps_goingI(1), rule cci.into_box [where c = p1, OF _ box_update.simps(25)]) (simp_all add: box_facts)
  subgoal by (rule keeps_goingI(1), rule roc.into_box [where c = p1, OF _ box_update.simps(26)]) (simp_all add: box_facts)
  subgoal by (rule keeps_goingI(1), rule mom.into_box [where c = p1, OF _ box_update.simps(27)]) (simp_all add: box_facts)
  subgoal by (rule keeps_goingI(1), rule cmo.into_box [where c = p1, OF _ box_update.simps(28)]) (simp_all add: box_facts)
  subgoal by (rule keeps_goingI(1), rule dpo.into_box [where c = p1, OF _ box_update.simps(29)]) (simp_all add: box_facts)
  subgoal by (rule keeps_goingI(1), rule mfi.into_box [where c = p1, OF _ box_update.simps(30)]) (simp_all add: box_facts)
  subgoal by (rule keeps_goingI(2), rule bop.into_box [OF _ box_update.simps(31)]) (simp_all add: box_facts)
  subgoal by (rule keeps_goingI(1), rule williams.into_box [where c = p1, OF _ box_update.simps(32)]) (simp_all add: box_facts)
  subgoal by (rule keeps_goingI(1), rule stochastic.into_box [where c = "(p1, p2, p3)", OF _ box_update.simps(33)]) (simp_all add: box_facts)
  subgoal by (rule keeps_goingI(1), rule stochastic_rsi.into_box [where c = "(p1, p2)", OF _ box_update.simps(34)]) (simp_all add: box_facts)
  subgoal by (rule keeps_goingI(1), rule tsi.into_box [where c = "(p1, p2)", OF _ box_update.simps(35)]) (simp_all add: box_facts)
  subgoal by (rule keeps_goingI(1), rule rci.into_box [where c = p1, OF _ box_update.simps(36)]) (simp_all add: box_facts)
  subgoal by (rule keeps_goingI(1), rule bull_bear.into_box [where c = p1, OF _ box_update.simps(37)]) (simp_all add: box_facts)
  subgoal by (rule keeps_goingI(1), rule fisher.into_box [where c = p1, OF _ box_update.simps(38)]) (simp_all add: box_facts)
  subgoal by (rule keeps_goingI(1), rule kst.into_box [where c = "(ts1, ts2, p3)", OF _ box_update.simps(39)]) (simp_all add: box_facts)
  subgoal by (rule keeps_goingI(1), rule pmo.into_box [where c = "(p1, p2, p3)", OF _ box_update.simps(40)]) (simp_all add: box_facts)
  subgoal by (rule keeps_goingI(1), rule ppo.into_box [where c = "(p1, p2, p3)", OF _ box_update.simps(41)]) (simp_all add: box_facts)
  subgoal by (rule keeps_goingI(1), rule rvi.into_box [where c = p1, OF _ box_update.simps(42)]) (simp_all add: box_facts)
  subgoal by (rule keeps_goingI(1), rule smi.into_box [where c = "(p1, p2, p3, p4)", OF _ box_update.simps(43)]) (simp_all add: box_facts)
  subgoal by (rule keeps_goingI(1), rule uo.into_box [where c = "(p1, p2, p3)", OF _ box_update.simps(44)]) (simp_all add: box_facts)
  subgoal by (rule keeps_goingI(1), rule connors_rsi.into_box [where c = "(p1, p2, p3)", OF _ box_update.simps(45)]) (simp_all add: box_facts)
  subgoal by (rule keeps_goingI(2), rule ao.into_box [where c = "(p1, p2)", OF _ box_update.simps(46)]) (simp_all add: box_facts)
  subgoal by (rule keeps_goingI(1), rule coppock.into_box [where c = "(p1, p2, p3)", OF _ box_update.simps(47)]) (simp_all add: box_facts)
  done

lemma volatility_keeps_going:
  shows "keeps_going lm (map_option Atr (atr_ind_new p1))"
    and "keeps_going lm (map_option BBands (bbands_new p1 x2))"
    and "keeps_going lm (map_option Keltner (keltner_new p1 p2 x3))"
    and "keeps_going lm (map_option SuperTrend (supertrend_new p1 x2))"
    and "keeps_going lm (map_option Donchian (donchian_new p1))"
    and "keeps_going lm (map_option Chop (chop_new p1))"
    and "keeps_going lm (map_option ChopZone (chop_zone_new p1 x2))"
    and "keeps_going lm (map_option ChandelierExit (chandelier_new p1 x2))"
    and "keeps_going lm (map_option ChandeKroll (chande_kroll_new p1 x2 p3))"
    and "keeps_going lm (map_option VolatilityRatio (volatility_ratio_new p1))"
  subgoal by (rule keeps_goingI(1), rule atr.into_box [where c = p1, OF _ box_update.simps(48)]) (simp_all add: box_facts)
  subgoal by (rule keeps_goingI(1), rule bbands.into_box [where c = "(p1, x2)", OF _ box_update.simps(49)]) (simp_all add: box_facts)
  subgoal by (rule keeps_goingI(1), rule keltner.into_box [where c = "(p1, p2, x3)", OF _ box_update.simps(50)]) (simp_all add: box_facts)
  subgoal by (rule keeps_goingI(1), rule supertrend.into_box [where c = "(p1, x2)", OF _ box_update.simps(51)]) (simp_all add: box_facts)
  subgoal by (rule keeps_goingI(1), rule donchian.into_box [where c = p1, OF _ box_update.simps(52)]) (simp_all add: box_facts)
  subgoal by (rule keeps_goingI(1), rule chop.into_box [where c = p1, OF _ box_update.simps(53)]) (simp_all add: box_facts)
  subgoal by (rule keeps_goingI(1), rule chop_zone.into_box [where c = "(p1, x2)", OF _ box_update.simps(54)]) (simp_all add: box_facts)
  subgoal by (rule keeps_goingI(1), rule chandelier.into_box [where c = "(p1, x2)", OF _ box_update.simps(55)]) (simp_all add: box_facts)
  subgoal by (rule keeps_goingI(1), rule chande_kroll.into_box [where c = "(p1, x2, p3)", OF _ box_update.simps(56)]) (simp_all add: box_facts)
  subgoal by (rule keeps_goingI(1), rule volatility_ratio.into_box [where c = p1, OF _ box_update.simps(57)]) (simp_all add: box_facts)
  done

lemma volume_keeps_going:
  shows "keeps_going lm (Some (Obv obv_new))"
    and "keeps_going lm (Some (Cmf (cmf_new p1)))"
    and "keeps_going lm (Some (Vwap (vwap_new p1)))"
  subgoal by (rule keeps_goingI(2), rule obv.into_box [OF _ box_update.simps(58)]) (simp_all add: box_facts)
  subgoal by (rule keeps_goingI(2), rule cmf.into_box [where c = p1, OF _ box_update.simps(59)]) (simp_all add: box_facts)
  subgoal by (rule keeps_goingI(2), rule vwap.into_box [where c = p1, OF _ box_update.simps(60)]) (simp_all add: box_facts)
  done

lemma pattern_keeps_going:
  shows "keeps_going lm (Some (Ichimoku (ichimoku_new p1 p2 p3)))"
    and "keeps_going lm (Some (ParabolicSar (parabolic_sar_new x1 x2)))"
    and "keeps_going lm (map_option Rwi (rwi_new p1))"
    and "keeps_going lm (Some (WilliamsFractal williams_fractal_new))"
    and "keeps_going lm (map_option ElderRay (elder_ray_new p1))"
  subgoal by (rule keeps_goingI(2), rule ichimoku.into_box [where c = "(p1, p2, p3)", OF _ box_update.simps(61)]) (simp_all add: box_facts)
  subgoal by (rule keeps_goingI(2), rule parabolic_sar.into_box [where c = "(x1, x2)", OF _ box_update.simps(62)]) (simp_all add: box_facts)
  subgoal by (rule keeps_goingI(1), rule rwi.into_box [where c = p1, OF _ box_update.simps(63)]) (simp_all add: box_facts)
  subgoal by (rule keeps_goingI(2), rule williams_fractal.into_box [OF _ box_update.simps(64)]) (simp_all add: box_facts)
  subgoal by (rule keeps_goingI(1), rule elder_ray.into_box [where c = p1, OF _ box_update.simps(65)]) (simp_all add: box_facts)
  done

text \<open>The ribbon of twelve averages never panics either, but its \<open>reset\<close> rebuilds the default periods.\<close>

lemma gmma_keeps_going:
  "emas_fed ps k (gm_short_emas s) \<Longrightarrow> emas_fed qs k (gm_long_emas s) \<Longrightarrow>
    \<exists>s' vs. run_updates gmma_update s xs = Some (s', vs) \<and> length vs = length xs"
proof (induction xs arbitrary: k s)
  case (Cons x xs)
  obtain es vs where es: "emas_update x (gm_short_emas s) = Some (es, vs)" "emas_fed ps (Suc k) es"
    using emas_update_fed [OF Cons.prems(1)] by blast
  obtain el ws where el: "emas_update x (gm_long_emas s) = Some (el, ws)" "emas_fed qs (Suc k) el"
    using emas_update_fed [OF Cons.prems(2)] by blast
  obtain v where "gmma_update s x = Some (s\<lparr>gm_short_emas := es, gm_long_emas := el\<rparr>, v)"
    using es(1) el(1) by (simp add: gmma_update_def Let_def)
  then show ?case using Cons.IH [of "Suc k" "s\<lparr>gm_short_emas := es, gm_long_emas := el\<rparr>"] es(2) el(2) by auto
qed simp

lemma gmma_box_runs:
  assumes "gmma_with_periods ps qs = Some s"
  shows "\<exists>s' outs. run_updates (box_update lm) (Gmma s) bars = Some (Gmma s', outs) \<and> length outs = length bars"
proof -
  have "emas_fed ps 0 (gm_short_emas s)" "emas_fed qs 0 (gm_long_emas s)"
    using assms emas_new_fed by (auto simp: gmma_with_periods_def split: bind_splits)
  then obtain s' vs where "run_updates gmma_update s (map b_close bars) = Some (s', vs)" "length vs = length bars"
    using gmma_keeps_going [of ps 0 s qs "map b_close bars"] by auto
  then show ?thesis using run_boxed [where U = "box_update lm" and C = Gmma and upd = gmma_update and proj = b_close, OF box_update.simps(21)] by fastforce
qed

definition default_ribbon :: "json \<Rightarrow> bool" where
  "default_ribbon cfg \<longleftrightarrow> cfg_usize_arr 6 cfg ''short'' SHORT_PERIODS = SHORT_PERIODS \<and>
     cfg_usize_arr 6 cfg ''long'' LONG_PERIODS = LONG_PERIODS"

lemma gmma_default_keeps_going:
  assumes "default_ribbon cfg"
  shows "keeps_going lm (map_option Gmma (gmma_with_periods (cfg_usize_arr 6 cfg ''short'' [3, 5, 8, 10, 12, 15])
    (cfg_usize_arr 6 cfg ''long'' [30, 35, 40, 45, 50, 60])))"
  by (rule keeps_goingI(1), rule gmma.into_box [OF _ box_update.simps(21)])
     (use assms in \<open>simp_all add: default_ribbon_def SHORT_PERIODS_def LONG_PERIODS_def gmma_new_def\<close>)

section \<open>Building\<close>

definition indicator_types :: "string list" where
  "indicator_types = [''sma'', ''ema'', ''wma'', ''hma'', ''dema'', ''tema'', ''smma'', ''alma'', ''mcginley'', ''lsma'', ''vwma'', ''kama'', ''macd'', ''trix'', ''adx'', ''dmi'', ''aroon'', ''aroon_osc'', ''vortex'', ''alligator'', ''gmma'', ''kdj'', ''kalman'', ''rsi'', ''cci'', ''roc'', ''mom'', ''cmo'', ''dpo'', ''mfi'', ''bop'', ''williams_r'', ''stochastic'', ''stoch_rsi'', ''tsi'', ''rci'', ''bull_bear'', ''fisher'', ''kst'', ''pmo'', ''ppo'', ''rvi'', ''smi'', ''uo'', ''connors_rsi'', ''ao'', ''coppock'', ''atr'', ''bbands'', ''keltner'', ''supertrend'', ''donchian'', ''chop'', ''chop_zone'', ''chandelier_exit'', ''chande_kroll'', ''volatility_ratio'', ''obv'', ''cmf'', ''vwap'', ''ichimoku'', ''parabolic_sar'', ''rwi'', ''fractal'', ''elder_ray'']"

definition config_type :: "json \<Rightarrow> string" where
  "config_type cfg = (case Option.bind (json_get cfg ''type'') json_as_str of Some s \<Rightarrow> s | None \<Rightarrow> [])"

lemmas variants_defs = trend_variants_def momentum_variants_def volatility_variants_def volume_variants_def pattern_variants_def

lemma variant_names: "map fst (variants lm cfg) = indicator_types"
  by (simp add: variants_def variants_defs indicator_types_def)

lemma variants_keep_type:
  "list_all (\<lambda>(ty, ob). \<forall>b. ob = Some b \<longrightarrow> type_name b = ty) (variants lm cfg)"
  by (auto simp: variants_def variants_defs)

lemma variants_keep_going:
  "list_all (\<lambda>(ty, ob). ty = ''gmma'' \<and> \<not> default_ribbon cfg \<or> keeps_going lm ob) (variants lm cfg)"
  using gmma_default_keeps_going [of cfg lm]
  by (auto simp: variants_def variants_defs trend_keeps_going momentum_keeps_going volatility_keeps_going
      volume_keeps_going pattern_keeps_going)

lemma from_config_variant:
  "from_config lm cfg = Inr b \<Longrightarrow> (config_type cfg, Some b) \<in> set (variants lm cfg)"
  by (auto simp: from_config_def build_variant_def config_type_def Let_def split: option.splits dest: map_of_SomeD)

lemma from_config_type: "from_config lm cfg = Inr b \<Longrightarrow> type_name b = config_type cfg"
  using from_config_variant variants_keep_type by (fastforce simp: list_all_iff)


lemma gmma_variant:
  assumes "(''gmma'', Some b) \<in> set (variants lm cfg)"
  obtains s ps qs where "b = Gmma s" "gmma_with_periods ps qs = Some s"
  using assms by (auto simp: variants_def variants_defs)

section \<open>The default parameters\<close>

text \<open>Every type accepts its default parameters; the only computation is the square root in the Hull average.\<close>

lemma cfg_defaults:
  "key \<noteq> ''type'' \<Longrightarrow> cfg_usize (JObj [(''type'', JStr ty)]) key d = d"
  "key \<noteq> ''type'' \<Longrightarrow> cfg_f64 (JObj [(''type'', JStr ty)]) key x = x"
  "key \<noteq> ''type'' \<Longrightarrow> cfg_usize_arr n (JObj [(''type'', JStr ty)]) key ds = ds"
  by (simp_all add: cfg_usize_def cfg_f64_def cfg_usize_arr_def)

lemma default_literals: "0 < lit 6" "0 < lit 3" "0 < lit (3 / 2)" "0 < Fin 1" "0 \<le> lit (1 / 1000)"
proof -
  show "0 < lit 6" "0 < lit 3" "0 < Fin 1" by (simp_all add: f64_simps)
  show "0 \<le> lit (1 / 1000)" by (simp add: fl_nonneg)
  have "lit 1 \<le> lit (3 / 2)" by (rule fl_mono) simp
  then show "0 < lit (3 / 2)" using \<open>0 < Fin 1\<close> by (metis fl_1 fless_le_trans)
qed

lemma sqrt_fin_pos:
  assumes e: "ilog2 (rat_of_nat n) div 2 - 52 = - 50" and n: "4 \<le> n"
  shows "1 \<le> sqrt_fin (rat_of_nat n)"
proof -
  define m where "m = isqrt (n * 2 ^ 100)"
  have s: "rat_of_nat n / 2 powi (2 * (- 50 :: int)) = of_nat (n * 2 ^ 100)" by (simp add: power_int_def power_one_over)
  have "(2 :: nat) ^ 102 \<le> n * 2 ^ 100" using n by simp
  then have "(2 ^ 51)\<^sup>2 < (m + 1)\<^sup>2" using isqrt_bounds(2) [of "n * 2 ^ 100"] unfolding m_def [symmetric] by simp
  then have "2 ^ 51 < m + 1" by (rule power2_less_imp_less) simp
  then have "(2 :: rat) ^ 51 \<le> of_nat m" by (metis Suc_eq_plus1 less_Suc_eq_le of_nat_le_iff of_nat_numeral of_nat_power)
  then have "1 \<le> of_nat m * (2 :: rat) powi (- 50)" "1 \<le> of_nat (m + 1) * (2 :: rat) powi (- 50)"
    by (simp_all add: power_int_def power_one_over field_simps)
  then show ?thesis unfolding sqrt_fin_def Let_def e s floor_of_nat nat_int m_def [symmetric]
    by (cases "(rat_of_nat m + 1 / 2)\<^sup>2 < rat_of_nat (n * 2 ^ 100)") (simp_all only: if_True if_False)
qed

lemma hma_sqrt_pos:
  assumes e: "ilog2 (rat_of_nat n) div 2 - 52 = - 50" and n: "4 \<le> n" and f: "f64_of_nat n = Fin (of_nat n)"
  shows "0 < hma_sqrt_of n"
proof -
  have "1 \<le> \<lfloor>sqrt_fin (rat_of_nat n) + 1 / 2\<rfloor>" using sqrt_fin_pos [OF e n] by linarith
  then show ?thesis using sqrt_fin_pos [OF e n] n by (simp add: hma_sqrt_of_def f)
qed

lemma hma_defaults: "0 < hma_sqrt_of 16" "0 < hma_sqrt_of 20" "0 < hma_sqrt_of 49"
proof -
  have e: "ilog2 (rat_of_nat 16) div 2 - 52 = - 50" "ilog2 (rat_of_nat 20) div 2 - 52 = - 50"
    "ilog2 (rat_of_nat 49) div 2 - 52 = - 50" by code_simp+
  have f: "f64_of_nat 16 = Fin (of_nat 16)" "f64_of_nat 20 = Fin (of_nat 20)" "f64_of_nat 49 = Fin (of_nat 49)"
    by (simp_all add: f64_of_nat_def f64_simps)
  show "0 < hma_sqrt_of 16" by (rule hma_sqrt_pos [OF e(1) _ f(1)]) simp
  show "0 < hma_sqrt_of 20" by (rule hma_sqrt_pos [OF e(2) _ f(2)]) simp
  show "0 < hma_sqrt_of 49" by (rule hma_sqrt_pos [OF e(3) _ f(3)]) simp
qed

lemma defaults_build: "list_all (\<lambda>(name, ob). ob \<noteq> None) (variants lm (JObj [(''type'', JStr ty)]))"
  unfolding variants_def list_all_append variants_defs
  by (simp add: cfg_defaults default_literals 
   sma_new_def ema_new_def wma_new_def dema_new_pos tema_new_pos smma_new_def
  mcginley_new_def rsi_new_def williams_new_def donchian_new_def atr_ind_new_pos
  hma_new_def alma_new_def lsma_new_def vwma_new_def kama_new_def macd_new_def trix_new_def adx_new_def dmi_new_def aroon_new_def vortex_new_def alligator_new_def gmma_with_periods_def kdj_new_def kalman_new_def
  cci_new_def roc_new_def mom_new_def cmo_new_def dpo_new_def mfi_new_def stochastic_new_full_def stochastic_rsi_new_def tsi_new_def rci_new_def bull_bear_new_def fisher_new_def kst_new_def pmo_new_def ppo_new_def rvi_new_def smi_new_def uo_new_def connors_rsi_new_def coppock_new_def
  bbands_new_def keltner_new_def supertrend_new_def chop_new_def chop_zone_new_def chandelier_new_def chande_kroll_new_def volatility_ratio_new_def rwi_new_def elder_ray_new_def quad_def hma_defaults rolling_new_def Let_def)

section \<open>Properties\<close>


text \<open>C34. Every output of a boxed indicator has exactly the advertised fields, each once, the flags among them are 0 or 1,
  the indicator keeps its type, and the field a script reads by default is among the outputs; a script treats a type as
  multi-valued exactly when it has more than one field.\<close>

definition primary_field :: "indicator_kind \<Rightarrow> string" where
  "primary_field k = (case k of Single f \<Rightarrow> f | Multi f \<Rightarrow> f)"

lemma boxed_SomeD: "boxed C f r = Some (b', Some m) \<Longrightarrow> \<exists>s v. b' = C s \<and> m = f v"
  by (auto simp: boxed_def)

definition flags_clean :: "(string, f64) hmap \<Rightarrow> bool" where
  "flags_clean m \<longleftrightarrow> list_all (\<lambda>(k, v). field_kind k = Bool \<longrightarrow> v = 0 \<or> v = 1) m"

lemma flag_01 [simp]: "flag x = 0 \<or> flag x = 1"
  by (simp add: flag_def)

definition well_named :: "indicator_box \<Rightarrow> (string, f64) hmap \<Rightarrow> bool" where
  "well_named b m \<longleftrightarrow> distinct (map fst m) \<and> set (map fst m) = set (field_names b) \<and> flags_clean m"

lemma box_update_shape:
  "box_update lm b bar = Some (b', Some m) \<Longrightarrow> type_name b' = type_name b \<and> field_names b' = field_names b \<and>
    map fst m = (if type_name b = ''atr'' then rev (field_names b) else field_names b)"
  by (cases b) (auto dest!: boxed_SomeD simp: gmma_fields_def Let_def)

lemma box_update_flags: "box_update lm b bar = Some (b', Some m) \<Longrightarrow> flags_clean m"
  by (cases b) (auto dest!: boxed_SomeD simp: flags_clean_def field_kind_def BOOL_FIELDS_def gmma_fields_def Let_def)

lemma field_names_distinct: "distinct (field_names b)"
  by (cases b) simp_all

lemma box_update_well_named:
  assumes "box_update lm b bar = Some (b', Some m)"
  shows "well_named b m"
  using box_update_shape [OF assms] box_update_flags [OF assms] field_names_distinct [of b]
  by (simp add: well_named_def split: if_splits)

lemma kind_fits:
  "case snd (map_indicator_type (type_name b)) of
     Single f \<Rightarrow> field_names b = [f] | Multi f \<Rightarrow> f \<in> set (field_names b) \<and> 1 < length (field_names b)"
  by (cases b) (simp_all add: map_indicator_type_def kind_table_def)

theorem outputs_are_as_advertised:
  assumes "box_update lm b bar = Some (b', Some m)"
  shows "type_name b' = type_name b \<and> distinct (map fst m) \<and> set (map fst m) = set (field_names b) \<and>
    list_all (\<lambda>(k, v). is_boolean_flag_field k \<longrightarrow> v = 0 \<or> v = 1) m \<and>
    (\<exists>v. map_of m (primary_field (snd (map_indicator_type (type_name b)))) = Some v) \<and>
    ((\<exists>f. snd (map_indicator_type (type_name b)) = Multi f) \<longleftrightarrow> 1 < length m)"
proof -
  have w: "well_named b m" by (rule box_update_well_named [OF assms])
  have "field_kind k = Bool \<longleftrightarrow> is_boolean_flag_field k" for k
    by (simp add: field_kind_def BOOL_FIELDS_def is_boolean_flag_field_def bool_fields_def)
  moreover have "length m = length (field_names b)"
    using box_update_shape [OF assms] by (metis length_map length_rev)
  moreover have "primary_field (snd (map_indicator_type (type_name b))) \<in> set (field_names b)"
    using kind_fits [of b] by (auto simp: primary_field_def split: indicator_kind.splits)
  then have "\<exists>v. map_of m (primary_field (snd (map_indicator_type (type_name b)))) = Some v"
    using w by (metis well_named_def map_of_eq_None_iff not_None_eq list.set_map)
  moreover have "(\<exists>f. snd (map_indicator_type (type_name b)) = Multi f) \<longleftrightarrow> 1 < length (field_names b)"
    using kind_fits [of b] by (auto split: indicator_kind.splits)
  ultimately show ?thesis using w box_update_shape [OF assms] by (simp add: well_named_def flags_clean_def)
qed

text \<open>C35. Building an indicator never panics: the configuration is accepted, and then the indicator has the type the
  configuration names; or the type is unknown; or the constructor's own assertion is reported as an error. Every known
  type accepts the configuration that names only the type.\<close>

theorem configurations_are_classified:
  "(case from_config lm cfg of
      Inr b \<Rightarrow> type_name b = config_type cfg \<and> config_type cfg \<in> set indicator_types
    | Inl (UnknownIndicatorType ty) \<Rightarrow> ty = config_type cfg \<and> ty \<notin> set indicator_types
    | Inl (RejectedParameters ty) \<Rightarrow> ty = config_type cfg \<and> ty \<in> set indicator_types) \<and>
   list_all (\<lambda>ty. \<exists>b. from_config lm (JObj [(''type'', JStr ty)]) = Inr b \<and> type_name b = ty) indicator_types"
proof (intro conjI)
  have names: "map_of (variants lm c) ty = None \<longleftrightarrow> ty \<notin> set indicator_types" for c ty
    using variant_names [of lm c] by (metis list.set_map map_of_eq_None_iff)
  show "case from_config lm cfg of
      Inr b \<Rightarrow> type_name b = config_type cfg \<and> config_type cfg \<in> set indicator_types
    | Inl (UnknownIndicatorType ty) \<Rightarrow> ty = config_type cfg \<and> ty \<notin> set indicator_types
    | Inl (RejectedParameters ty) \<Rightarrow> ty = config_type cfg \<and> ty \<in> set indicator_types"
    using names [of cfg "config_type cfg"] from_config_type [of lm cfg]
    by (auto simp: from_config_def build_variant_def config_type_def Let_def split: option.splits)
  show "list_all (\<lambda>ty. \<exists>b. from_config lm (JObj [(''type'', JStr ty)]) = Inr b \<and> type_name b = ty) indicator_types"
    unfolding list_all_iff
  proof
    fix ty
    assume ty: "ty \<in> set indicator_types"
    let ?cfg = "JObj [(''type'', JStr ty)]"
    have c: "config_type ?cfg = ty" by (simp add: config_type_def)
    obtain ob where ob: "map_of (variants lm ?cfg) ty = Some ob" using names ty by fastforce
    then obtain b where "ob = Some b" using defaults_build [of lm ty] by (force dest: map_of_SomeD simp: list_all_iff)
    then have "from_config lm ?cfg = Inr b" using ob c by (simp add: from_config_def build_variant_def config_type_def)
    then show "\<exists>b. from_config lm ?cfg = Inr b \<and> type_name b = ty" using from_config_type [of lm ?cfg b] c by simp
  qed
qed

definition example_math :: mathlib where
  "example_math = \<lparr>lm_exp = id, lm_ln = id, lm_powf = (\<lambda>x y. x), lm_log10 = id, lm_atan = id\<rparr>"


theorem outputs_are_as_advertised_witness:
  "\<exists>b' m. box_update example_math (Obv obv_new) (bar_new 0 ''A'' 1 1 1 1 1) = Some (b', Some m) \<and>
     set (map fst m) = {''value''} \<and> type_name b' = ''obv''"
proof -
  have "box_update example_math (Obv obv_new) (bar_new 0 ''A'' 1 1 1 1 1) =
      Some (Obv (fst (obv_update obv_new (1, 1))), Some [(''value'', snd (obv_update obv_new (1, 1)))])"
    by (simp add: boxed_def bar_new_def map_prod_def split: prod.split)
  then show ?thesis using outputs_are_as_advertised [of example_math "Obv obv_new" "bar_new 0 ''A'' 1 1 1 1 1"] by auto
qed

text \<open>A ribbon built with custom periods is not restored by \<open>reset\<close>.\<close>

lemma custom_ribbon_is_not_restored:
  "\<exists>b. from_config lm (JObj [(''type'', JStr ''gmma''), (''short'', JArr (map JInt [4, 4, 4, 4, 4, 4]))]) = Inr b \<and>
     box_reset b \<noteq> Some b"
proof -
  let ?cfg = "JObj [(''type'', JStr ''gmma''), (''short'', JArr (map JInt [4, 4, 4, 4, 4, 4]))]"
  let ?b = "Gmma \<lparr>gm_short_emas = map ema_start [4, 4, 4, 4, 4, 4], gm_long_emas = map ema_start LONG_PERIODS\<rparr>"
  have four: "usize_of_f64 (f64_of_nat 4) = 4" by (simp add: f64_of_nat_def f64_simps)
  have "map_of (variants lm ?cfg) ''gmma'' = Some (Some ?b)"
    by (simp add: variants_def variants_defs gmma_with_periods_def cfg_usize_arr_def four ema_new_def LONG_PERIODS_def)
  then have "from_config lm ?cfg = Inr ?b" by (simp add: from_config_def build_variant_def)
  moreover have "ema_start 3 \<noteq> ema_start 4" by (simp add: ema_start_def)
  then have "box_reset ?b \<noteq> Some ?b" by (simp add: gmma_reset_def SHORT_PERIODS_def LONG_PERIODS_def ema_new_def)
  ultimately show ?thesis by blast
qed

end
