(* ===== verification/Box_Warmup.thy ===== *)
theory Box_Warmup
  imports Box_Theorems
begin

text \<open>
  The warm-up of the boxed indicators. For every type whose first output does not depend on the prices, \<open>warm_ups\<close> gives
  the number of bars after which it speaks; the theorem says that it is silent exactly until then. The other types stay
  silent as long as a denominator is zero, and \<open>Ichimoku\<close> and \<open>Gmma\<close> depend on the relation of their periods.
\<close>

section \<open>Lifting the warm-up\<close>

context timed
begin

lemma into_box_timed:
  assumes "new c = Some s"
    and box: "\<And>i x. U (C i) x = boxed C f (upd i (proj x))"
    and "\<And>i. R (C i) = map_option C (rst i)"
    and "\<And>x. binp x \<Longrightarrow> inp (proj x)"
    and "list_all binp xs"
  shows "warms_up U R (C s) (need c) xs"
proof -
  have "list_all inp (map proj xs)" using assms(4,5) by (auto simp: list_all_iff)
  then have "warms_up upd rst s (need c) (map proj xs)" using new_warms_up assms(1) by blast
  then obtain s' vs where run: "run_updates upd s (map proj xs) = Some (s', vs)"
    and vs: "map (\<lambda>v. v = None) vs = map (\<lambda>k. Suc k < need c) [0..<length xs]" and "rst s' = Some s"
    by (auto simp: warms_up_def split: option.splits)
  moreover have "run_updates U (C s) xs = Some (C s', map (map_option f) vs)"
    by (rule run_boxed [where U = U and C = C and f = f and upd = upd and proj = proj, OF box run])
  moreover have "map (\<lambda>v. v = None) (map (map_option f) vs) = map (\<lambda>v. v = None) vs" by simp
  ultimately show ?thesis using assms(3) by (simp add: warms_up_def)
qed

end

definition warms :: "mathlib \<Rightarrow> indicator_box option \<Rightarrow> nat \<Rightarrow> bool" where
  "warms lm ob n \<longleftrightarrow> (\<forall>b bars. ob = Some b \<longrightarrow> list_all plain_bar bars \<longrightarrow> warms_up (box_update lm) box_reset b n bars)"

lemma warmsI:
  "(\<And>s bars. k = Some s \<Longrightarrow> list_all plain_bar bars \<Longrightarrow> warms_up (box_update lm) box_reset (C s) n bars) \<Longrightarrow>
    warms lm (map_option C k) n"
  "(\<And>bars. list_all plain_bar bars \<Longrightarrow> warms_up (box_update lm) box_reset b n bars) \<Longrightarrow> warms lm (Some b) n"
  by (auto simp: warms_def)

lemma trend_warm:
  shows "warms lm (map_option Sma (sma_new p1)) (p1)"
    and "warms lm (map_option Ema (ema_new p1)) (p1)"
    and "warms lm (map_option Wma (wma_new p1)) (p1)"
    and "warms lm (map_option Hma (hma_new p1)) (p1 + hma_sqrt_of (p1) - 1)"
    and "warms lm (map_option Dema (dema_new p1)) (2 * (p1) - 1)"
    and "warms lm (map_option Tema (tema_new p1)) (3 * (p1) - 2)"
    and "warms lm (map_option Smma (smma_new p1)) (p1)"
    and "warms lm (map_option Alma (alma_new (libm.truncate lm) p1 x2 x3)) (p1)"
    and "warms lm (map_option McGinley (mcginley_new p1)) (p1)"
    and "warms lm (map_option Lsma (lsma_new p1)) (p1)"
    and "warms lm (map_option Vwma (vwma_new p1)) (p1)"
    and "warms lm (map_option Kama (kama_new p1 p2 p3)) (p1 + 1)"
    and "warms lm (map_option Macd (macd_new p1 p2 p3)) (p2 + p3 - 1)"
    and "warms lm (map_option Trix (trix_new p1 p2)) (3 * (p1) + p2 - 2)"
    and "warms lm (map_option Aroon (aroon_new p1)) (p1 + 1)"
    and "warms lm (map_option AroonOsc (aroon_new p1)) (p1 + 1)"
    and "warms lm (map_option Alligator (alligator_new p1 p2 p3)) (max (p1 + 8) (max (p2 + 5) (p3 + 3)))"
    and "warms lm (map_option Kdj (kdj_new p1 p2 p3)) (p1 + max (p2) 1 + max (p3) 1 - 2)"
    and "warms lm (map_option Kalman (kalman_new x1 x2 x3)) (1)"
  subgoal by (rule warmsI(1), rule sma.into_box_timed [where c = p1, OF _ box_update.simps(1), simplified prod.case]) (simp_all add: box_facts)
  subgoal by (rule warmsI(1), rule ema.into_box_timed [where c = p1, OF _ box_update.simps(2), simplified prod.case]) (simp_all add: box_facts)
  subgoal by (rule warmsI(1), rule wma.into_box_timed [where c = p1, OF _ box_update.simps(3), simplified prod.case]) (simp_all add: box_facts)
  subgoal by (rule warmsI(1), rule hma.into_box_timed [where c = p1, OF _ box_update.simps(4), simplified prod.case]) (simp_all add: box_facts)
  subgoal by (rule warmsI(1), rule dema.into_box_timed [where c = p1, OF _ box_update.simps(5), simplified prod.case]) (simp_all add: box_facts)
  subgoal by (rule warmsI(1), rule tema.into_box_timed [where c = p1, OF _ box_update.simps(6), simplified prod.case]) (simp_all add: box_facts)
  subgoal by (rule warmsI(1), rule smma.into_box_timed [where c = p1, OF _ box_update.simps(7), simplified prod.case]) (simp_all add: box_facts)
  subgoal by (rule warmsI(1), rule alma.into_box_timed [where c = "(libm.truncate lm, p1, x2, x3)", OF _ box_update.simps(8), simplified prod.case]) (simp_all add: box_facts)
  subgoal by (rule warmsI(1), rule mcginley.into_box_timed [where c = p1, OF _ box_update.simps(9), simplified prod.case]) (simp_all add: box_facts)
  subgoal by (rule warmsI(1), rule lsma.into_box_timed [where c = p1, OF _ box_update.simps(10), simplified prod.case]) (simp_all add: box_facts)
  subgoal by (rule warmsI(1), rule vwma.into_box_timed [where c = p1, OF _ box_update.simps(11), simplified prod.case]) (simp_all add: box_facts)
  subgoal by (rule warmsI(1), rule kama.into_box_timed [where c = "(p1, p2, p3)", OF _ box_update.simps(12), simplified prod.case]) (simp_all add: box_facts)
  subgoal by (rule warmsI(1), rule macd.into_box_timed [where c = "(p1, p2, p3)", OF _ box_update.simps(13), simplified prod.case]) (simp_all add: box_facts)
  subgoal by (rule warmsI(1), rule trix.into_box_timed [where c = "(p1, p2)", OF _ box_update.simps(14), simplified prod.case]) (simp_all add: box_facts)
  subgoal by (rule warmsI(1), rule aroon.into_box_timed [where c = p1, OF _ box_update.simps(17), simplified prod.case]) (simp_all add: box_facts)
  subgoal by (rule warmsI(1), rule aroon_osc.into_box_timed [where c = p1, OF _ box_update.simps(18), simplified prod.case]) (simp_all add: box_facts)
  subgoal by (rule warmsI(1), rule alligator.into_box_timed [where c = "(p1, p2, p3)", OF _ box_update.simps(20), simplified prod.case]) (simp_all add: box_facts)
  subgoal by (rule warmsI(1), rule kdj.into_box_timed [where c = "(p1, p2, p3)", OF _ box_update.simps(22), simplified prod.case]) (simp_all add: box_facts)
  subgoal by (rule warmsI(1), rule kalman.into_box_timed [where c = "(x1, x2, x3)", OF _ box_update.simps(23), simplified prod.case]) (simp_all add: box_facts)
  done

lemma momentum_warm:
  shows "warms lm (map_option Rsi (rsi_new p1)) (p1 + 1)"
    and "warms lm (map_option Cci (cci_new p1)) (p1)"
    and "warms lm (map_option Roc (roc_new p1)) (p1 + 1)"
    and "warms lm (map_option Mom (mom_new p1)) (p1 + 1)"
    and "warms lm (map_option Cmo (cmo_new p1)) (p1 + 1)"
    and "warms lm (map_option Dpo (dpo_new p1)) (p1 + ((p1) div 2 + 1))"
    and "warms lm (map_option Mfi (mfi_new p1)) (p1)"
    and "warms lm (map_option WilliamsR (williams_new p1)) (p1)"
    and "warms lm (map_option Stochastic (stochastic_new_full p1 p2 p3)) (p1 + max (p2) 1 + p3 - 2)"
    and "warms lm (map_option StochRsi (stochastic_rsi_new p1 p2)) (2 * (p1) + p2 + 1)"
    and "warms lm (map_option Tsi (tsi_new p1 p2)) (p1 + p2)"
    and "warms lm (map_option Rci (rci_new p1)) (p1)"
    and "warms lm (map_option BullBear (bull_bear_new p1)) (p1)"
    and "warms lm (map_option Fisher (fisher_new p1)) (p1)"
    and "warms lm (map_option Kst (kst_new ts1 ts2 p3)) (kst_need (ts1, ts2, p3))"
    and "warms lm (map_option Uo (uo_new p1 p2 p3)) (p3)"
    and "warms lm (map_option ConnorsRsi (connors_rsi_new p1 p2 p3)) (connors_rsi_need (p1, p2, p3))"
    and "warms lm (Some (Ao (ao_new p1 p2))) (max (max (p1) 1) (max (p2) 1))"
    and "warms lm (map_option Coppock (coppock_new p1 p2 p3)) (p2 + p3)"
  subgoal by (rule warmsI(1), rule rsi.into_box_timed [where c = p1, OF _ box_update.simps(24), simplified prod.case]) (simp_all add: box_facts)
  subgoal by (rule warmsI(1), rule cci.into_box_timed [where c = p1, OF _ box_update.simps(25), simplified prod.case]) (simp_all add: box_facts)
  subgoal by (rule warmsI(1), rule roc.into_box_timed [where c = p1, OF _ box_update.simps(26), simplified prod.case]) (simp_all add: box_facts)
  subgoal by (rule warmsI(1), rule mom.into_box_timed [where c = p1, OF _ box_update.simps(27), simplified prod.case]) (simp_all add: box_facts)
  subgoal by (rule warmsI(1), rule cmo.into_box_timed [where c = p1, OF _ box_update.simps(28), simplified prod.case]) (simp_all add: box_facts)
  subgoal by (rule warmsI(1), rule dpo.into_box_timed [where c = p1, OF _ box_update.simps(29), simplified prod.case]) (simp_all add: box_facts)
  subgoal by (rule warmsI(1), rule mfi.into_box_timed [where c = p1, OF _ box_update.simps(30), simplified prod.case]) (simp_all add: box_facts)
  subgoal by (rule warmsI(1), rule williams.into_box_timed [where c = p1, OF _ box_update.simps(32), simplified prod.case]) (simp_all add: box_facts)
  subgoal by (rule warmsI(1), rule stochastic.into_box_timed [where c = "(p1, p2, p3)", OF _ box_update.simps(33), simplified prod.case]) (simp_all add: box_facts)
  subgoal by (rule warmsI(1), rule stochastic_rsi.into_box_timed [where c = "(p1, p2)", OF _ box_update.simps(34), simplified prod.case]) (simp_all add: box_facts)
  subgoal by (rule warmsI(1), rule tsi.into_box_timed [where c = "(p1, p2)", OF _ box_update.simps(35), simplified prod.case]) (simp_all add: box_facts)
  subgoal by (rule warmsI(1), rule rci.into_box_timed [where c = p1, OF _ box_update.simps(36), simplified prod.case]) (simp_all add: box_facts)
  subgoal by (rule warmsI(1), rule bull_bear.into_box_timed [where c = p1, OF _ box_update.simps(37), simplified prod.case]) (simp_all add: box_facts)
  subgoal by (rule warmsI(1), rule fisher.into_box_timed [where c = p1, OF _ box_update.simps(38), simplified prod.case]) (simp_all add: box_facts)
  subgoal by (rule warmsI(1), rule kst.into_box_timed [where c = "(ts1, ts2, p3)", OF _ box_update.simps(39), simplified prod.case]) (simp_all add: box_facts)
  subgoal by (rule warmsI(1), rule uo.into_box_timed [where c = "(p1, p2, p3)", OF _ box_update.simps(44), simplified prod.case]) (simp_all add: box_facts)
  subgoal by (rule warmsI(1), rule connors_rsi.into_box_timed [where c = "(p1, p2, p3)", OF _ box_update.simps(45), simplified prod.case]) (simp_all add: box_facts)
  subgoal by (rule warmsI(2), rule ao.into_box_timed [where c = "(p1, p2)", OF _ box_update.simps(46), simplified prod.case]) (simp_all add: box_facts)
  subgoal by (rule warmsI(1), rule coppock.into_box_timed [where c = "(p1, p2, p3)", OF _ box_update.simps(47), simplified prod.case]) (simp_all add: box_facts)
  done

lemma volatility_warm:
  shows "warms lm (map_option Atr (atr_ind_new p1)) (p1)"
    and "warms lm (map_option BBands (bbands_new p1 x2)) (p1)"
    and "warms lm (map_option Keltner (keltner_new p1 p2 x3)) (max (p1) (p2))"
    and "warms lm (map_option SuperTrend (supertrend_new p1 x2)) (p1)"
    and "warms lm (map_option Donchian (donchian_new p1)) (p1)"
    and "warms lm (map_option Chop (chop_new p1)) (p1 + 1)"
    and "warms lm (map_option ChopZone (chop_zone_new p1 x2)) (p1 + 1)"
    and "warms lm (map_option ChandelierExit (chandelier_new p1 x2)) (p1)"
    and "warms lm (map_option ChandeKroll (chande_kroll_new p1 x2 p3)) (p1 + p3 - 1)"
    and "warms lm (map_option VolatilityRatio (volatility_ratio_new p1)) (p1)"
  subgoal by (rule warmsI(1), rule atr.into_box_timed [where c = p1, OF _ box_update.simps(48), simplified prod.case]) (simp_all add: box_facts)
  subgoal by (rule warmsI(1), rule bbands.into_box_timed [where c = "(p1, x2)", OF _ box_update.simps(49), simplified prod.case]) (simp_all add: box_facts)
  subgoal by (rule warmsI(1), rule keltner.into_box_timed [where c = "(p1, p2, x3)", OF _ box_update.simps(50), simplified prod.case]) (simp_all add: box_facts)
  subgoal by (rule warmsI(1), rule supertrend.into_box_timed [where c = "(p1, x2)", OF _ box_update.simps(51), simplified prod.case]) (simp_all add: box_facts)
  subgoal by (rule warmsI(1), rule donchian.into_box_timed [where c = p1, OF _ box_update.simps(52), simplified prod.case]) (simp_all add: box_facts)
  subgoal by (rule warmsI(1), rule chop.into_box_timed [where c = p1, OF _ box_update.simps(53), simplified prod.case]) (simp_all add: box_facts)
  subgoal by (rule warmsI(1), rule chop_zone.into_box_timed [where c = "(p1, x2)", OF _ box_update.simps(54), simplified prod.case]) (simp_all add: box_facts)
  subgoal by (rule warmsI(1), rule chandelier.into_box_timed [where c = "(p1, x2)", OF _ box_update.simps(55), simplified prod.case]) (simp_all add: box_facts)
  subgoal by (rule warmsI(1), rule chande_kroll.into_box_timed [where c = "(p1, x2, p3)", OF _ box_update.simps(56), simplified prod.case]) (simp_all add: box_facts)
  subgoal by (rule warmsI(1), rule volatility_ratio.into_box_timed [where c = p1, OF _ box_update.simps(57), simplified prod.case]) (simp_all add: box_facts)
  done

lemma volume_warm:
  shows "warms lm (Some (Obv obv_new)) (1)"
    and "warms lm (Some (Vwap (vwap_new p1))) (1)"
  subgoal by (rule warmsI(2), rule obv.into_box_timed [OF _ box_update.simps(58), simplified prod.case]) (simp_all add: box_facts)
  subgoal by (rule warmsI(2), rule vwap.into_box_timed [where c = p1, OF _ box_update.simps(60), simplified prod.case]) (simp_all add: box_facts)
  done

lemma pattern_warm:
  shows "warms lm (Some (ParabolicSar (parabolic_sar_new x1 x2))) (2)"
    and "warms lm (map_option Rwi (rwi_new p1)) (p1 + 1)"
    and "warms lm (Some (WilliamsFractal williams_fractal_new)) (5)"
    and "warms lm (map_option ElderRay (elder_ray_new p1)) (p1)"
  subgoal by (rule warmsI(2), rule parabolic_sar.into_box_timed [where c = "(x1, x2)", OF _ box_update.simps(62), simplified prod.case]) (simp_all add: box_facts)
  subgoal by (rule warmsI(1), rule rwi.into_box_timed [where c = p1, OF _ box_update.simps(63), simplified prod.case]) (simp_all add: box_facts)
  subgoal by (rule warmsI(2), rule williams_fractal.into_box_timed [OF _ box_update.simps(64), simplified prod.case]) (simp_all add: box_facts)
  subgoal by (rule warmsI(1), rule elder_ray.into_box_timed [where c = p1, OF _ box_update.simps(65), simplified prod.case]) (simp_all add: box_facts)
  done

section \<open>The table\<close>

definition warm_ups :: "json \<Rightarrow> (string \<times> nat) list" where
  "warm_ups cfg =
    [(''sma'', cfg_usize cfg ''period'' 20),
     (''ema'', cfg_usize cfg ''period'' 20),
     (''wma'', cfg_usize cfg ''period'' 20),
     (''hma'', cfg_usize cfg ''period'' 20 + hma_sqrt_of (cfg_usize cfg ''period'' 20) - 1),
     (''dema'', 2 * (cfg_usize cfg ''period'' 20) - 1),
     (''tema'', 3 * (cfg_usize cfg ''period'' 20) - 2),
     (''smma'', cfg_usize cfg ''period'' 20),
     (''alma'', cfg_usize cfg ''period'' 9),
     (''mcginley'', cfg_usize cfg ''period'' 14),
     (''lsma'', cfg_usize cfg ''period'' 25),
     (''vwma'', cfg_usize cfg ''period'' 20),
     (''kama'', cfg_usize cfg ''er_period'' 10 + 1),
     (''macd'', cfg_usize cfg ''slow'' 26 + cfg_usize cfg ''signal'' 9 - 1),
     (''trix'', 3 * (cfg_usize cfg ''period'' 18) + cfg_usize cfg ''signal'' 9 - 2),
     (''aroon'', cfg_usize cfg ''period'' 25 + 1),
     (''aroon_osc'', cfg_usize cfg ''period'' 25 + 1),
     (''alligator'', max (cfg_usize cfg ''jaw'' 13 + 8) (max (cfg_usize cfg ''teeth'' 8 + 5) (cfg_usize cfg ''lips'' 5 + 3))),
     (''kdj'', cfg_usize cfg ''period'' 9 + max (cfg_usize cfg ''k_period'' 3) 1 + max (cfg_usize cfg ''d_period'' 3) 1 - 2),
     (''kalman'', 1),
     (''rsi'', cfg_usize cfg ''period'' 14 + 1),
     (''cci'', cfg_usize cfg ''period'' 20),
     (''roc'', cfg_usize cfg ''period'' 10 + 1),
     (''mom'', cfg_usize cfg ''period'' 10 + 1),
     (''cmo'', cfg_usize cfg ''period'' 14 + 1),
     (''dpo'', cfg_usize cfg ''period'' 20 + ((cfg_usize cfg ''period'' 20) div 2 + 1)),
     (''mfi'', cfg_usize cfg ''period'' 14),
     (''williams_r'', cfg_usize cfg ''period'' 14),
     (''stochastic'', cfg_usize cfg ''k_period'' 14 + max (cfg_usize cfg ''smooth_k'' 1) 1 + cfg_usize cfg ''d_period'' 3 - 2),
     (''stoch_rsi'', 2 * (cfg_usize cfg ''rsi_period'' 14) + cfg_usize cfg ''smooth_d'' 3 + 1),
     (''tsi'', cfg_usize cfg ''first'' 25 + cfg_usize cfg ''second'' 13),
     (''rci'', cfg_usize cfg ''period'' 9),
     (''bull_bear'', cfg_usize cfg ''period'' 13),
     (''fisher'', cfg_usize cfg ''period'' 9),
     (''kst'', kst_need (quad (cfg_usize_arr 4 cfg ''roc_periods'' [10, 13, 14, 15]), quad (cfg_usize_arr 4 cfg ''sma_periods'' [10, 13, 14, 15]), cfg_usize cfg ''signal'' 9)),
     (''uo'', cfg_usize cfg ''slow'' 28),
     (''connors_rsi'', connors_rsi_need (cfg_usize cfg ''rsi_period'' 3, cfg_usize cfg ''streak_period'' 2, cfg_usize cfg ''rank_period'' 100)),
     (''ao'', max (max (cfg_usize cfg ''fast'' 5) 1) (max (cfg_usize cfg ''slow'' 34) 1)),
     (''coppock'', cfg_usize cfg ''long'' 14 + cfg_usize cfg ''wma'' 10),
     (''atr'', cfg_usize cfg ''period'' 14),
     (''bbands'', cfg_usize cfg ''period'' 20),
     (''keltner'', max (cfg_usize cfg ''period'' 20) (cfg_usize cfg ''atr_period'' 10)),
     (''supertrend'', cfg_usize cfg ''period'' 10),
     (''donchian'', cfg_usize cfg ''period'' 20),
     (''chop'', cfg_usize cfg ''period'' 14 + 1),
     (''chop_zone'', cfg_usize cfg ''ema_period'' 34 + 1),
     (''chandelier_exit'', cfg_usize cfg ''period'' 22),
     (''chande_kroll'', cfg_usize cfg ''atr_period'' 10 + cfg_usize cfg ''stop_period'' 9 - 1),
     (''volatility_ratio'', cfg_usize cfg ''lookback'' 10),
     (''obv'', 1),
     (''vwap'', 1),
     (''parabolic_sar'', 2),
     (''rwi'', cfg_usize cfg ''period'' 14 + 1),
     (''fractal'', 5),
     (''elder_ray'', cfg_usize cfg ''period'' 13)]"

text \<open>The types with a fixed warm-up, in the order of the table.\<close>

definition untimed :: "string list" where
  "untimed = [''adx'', ''dmi'', ''vortex'', ''gmma'', ''bop'', ''pmo'', ''ppo'', ''rvi'', ''smi'', ''cmf'', ''ichimoku'']"

lemma timed_variants:
  "filter (\<lambda>v. fst v \<notin> set untimed) (variants lm cfg) =
    [
     (''sma'', map_option Sma (sma_new (cfg_usize cfg ''period'' 20))),
     (''ema'', map_option Ema (ema_new (cfg_usize cfg ''period'' 20))),
     (''wma'', map_option Wma (wma_new (cfg_usize cfg ''period'' 20))),
     (''hma'', map_option Hma (hma_new (cfg_usize cfg ''period'' 20))),
     (''dema'', map_option Dema (dema_new (cfg_usize cfg ''period'' 20))),
     (''tema'', map_option Tema (tema_new (cfg_usize cfg ''period'' 20))),
     (''smma'', map_option Smma (smma_new (cfg_usize cfg ''period'' 20))),
     (''alma'', map_option Alma (alma_new (libm.truncate lm) (cfg_usize cfg ''period'' 9) (cfg_f64 cfg ''offset'' (lit (85 / 100))) (cfg_f64 cfg ''sigma'' (lit 6)))),
     (''mcginley'', map_option McGinley (mcginley_new (cfg_usize cfg ''period'' 14))),
     (''lsma'', map_option Lsma (lsma_new (cfg_usize cfg ''period'' 25))),
     (''vwma'', map_option Vwma (vwma_new (cfg_usize cfg ''period'' 20))),
     (''kama'', map_option Kama (kama_new (cfg_usize cfg ''er_period'' 10) (cfg_usize cfg ''fast'' 2) (cfg_usize cfg ''slow'' 30))),
     (''macd'', map_option Macd (macd_new (cfg_usize cfg ''fast'' 12) (cfg_usize cfg ''slow'' 26) (cfg_usize cfg ''signal'' 9))),
     (''trix'', map_option Trix (trix_new (cfg_usize cfg ''period'' 18) (cfg_usize cfg ''signal'' 9))),
     (''aroon'', map_option Aroon (aroon_new (cfg_usize cfg ''period'' 25))),
     (''aroon_osc'', map_option AroonOsc (aroon_new (cfg_usize cfg ''period'' 25))),
     (''alligator'', map_option Alligator (alligator_new (cfg_usize cfg ''jaw'' 13) (cfg_usize cfg ''teeth'' 8) (cfg_usize cfg ''lips'' 5))),
     (''kdj'', map_option Kdj (kdj_new (cfg_usize cfg ''period'' 9) (cfg_usize cfg ''k_period'' 3) (cfg_usize cfg ''d_period'' 3))),
     (''kalman'', map_option Kalman (kalman_new (cfg_f64 cfg ''q_pos'' (lit (1 / 1000))) (cfg_f64 cfg ''q_vel'' (lit (1 / 1000))) (cfg_f64 cfg ''r'' (lit 1)))),
     (''rsi'', map_option Rsi (rsi_new (cfg_usize cfg ''period'' 14))),
     (''cci'', map_option Cci (cci_new (cfg_usize cfg ''period'' 20))),
     (''roc'', map_option Roc (roc_new (cfg_usize cfg ''period'' 10))),
     (''mom'', map_option Mom (mom_new (cfg_usize cfg ''period'' 10))),
     (''cmo'', map_option Cmo (cmo_new (cfg_usize cfg ''period'' 14))),
     (''dpo'', map_option Dpo (dpo_new (cfg_usize cfg ''period'' 20))),
     (''mfi'', map_option Mfi (mfi_new (cfg_usize cfg ''period'' 14))),
     (''williams_r'', map_option WilliamsR (williams_new (cfg_usize cfg ''period'' 14))),
     (''stochastic'', map_option Stochastic (stochastic_new_full (cfg_usize cfg ''k_period'' 14) (cfg_usize cfg ''smooth_k'' 1) (cfg_usize cfg ''d_period'' 3))),
     (''stoch_rsi'', map_option StochRsi (stochastic_rsi_new (cfg_usize cfg ''rsi_period'' 14) (cfg_usize cfg ''smooth_d'' 3))),
     (''tsi'', map_option Tsi (tsi_new (cfg_usize cfg ''first'' 25) (cfg_usize cfg ''second'' 13))),
     (''rci'', map_option Rci (rci_new (cfg_usize cfg ''period'' 9))),
     (''bull_bear'', map_option BullBear (bull_bear_new (cfg_usize cfg ''period'' 13))),
     (''fisher'', map_option Fisher (fisher_new (cfg_usize cfg ''period'' 9))),
     (''kst'', map_option Kst (kst_new (quad (cfg_usize_arr 4 cfg ''roc_periods'' [10, 13, 14, 15])) (quad (cfg_usize_arr 4 cfg ''sma_periods'' [10, 13, 14, 15])) (cfg_usize cfg ''signal'' 9))),
     (''uo'', map_option Uo (uo_new (cfg_usize cfg ''fast'' 7) (cfg_usize cfg ''medium'' 14) (cfg_usize cfg ''slow'' 28))),
     (''connors_rsi'', map_option ConnorsRsi (connors_rsi_new (cfg_usize cfg ''rsi_period'' 3) (cfg_usize cfg ''streak_period'' 2) (cfg_usize cfg ''rank_period'' 100))),
     (''ao'', Some (Ao (ao_new (cfg_usize cfg ''fast'' 5) (cfg_usize cfg ''slow'' 34)))),
     (''coppock'', map_option Coppock (coppock_new (cfg_usize cfg ''short'' 11) (cfg_usize cfg ''long'' 14) (cfg_usize cfg ''wma'' 10))),
     (''atr'', map_option Atr (atr_ind_new (cfg_usize cfg ''period'' 14))),
     (''bbands'', map_option BBands (bbands_new (cfg_usize cfg ''period'' 20) (cfg_f64 cfg ''multiplier'' (lit 2)))),
     (''keltner'', map_option Keltner (keltner_new (cfg_usize cfg ''period'' 20) (cfg_usize cfg ''atr_period'' 10) (cfg_f64 cfg ''multiplier'' (lit 2)))),
     (''supertrend'', map_option SuperTrend (supertrend_new (cfg_usize cfg ''period'' 10) (cfg_f64 cfg ''multiplier'' (lit 3)))),
     (''donchian'', map_option Donchian (donchian_new (cfg_usize cfg ''period'' 20))),
     (''chop'', map_option Chop (chop_new (cfg_usize cfg ''period'' 14))),
     (''chop_zone'', map_option ChopZone (chop_zone_new (cfg_usize cfg ''ema_period'' 34) (cfg_f64 cfg ''threshold'' (lit 5)))),
     (''chandelier_exit'', map_option ChandelierExit (chandelier_new (cfg_usize cfg ''period'' 22) (cfg_f64 cfg ''multiplier'' (lit 3)))),
     (''chande_kroll'', map_option ChandeKroll (chande_kroll_new (cfg_usize cfg ''atr_period'' 10) (cfg_f64 cfg ''factor'' (lit (15 / 10))) (cfg_usize cfg ''stop_period'' 9))),
     (''volatility_ratio'', map_option VolatilityRatio (volatility_ratio_new (cfg_usize cfg ''lookback'' 10))),
     (''obv'', Some (Obv obv_new)),
     (''vwap'', Some (Vwap (vwap_new (cfg_usize cfg ''session_gap_mins'' 390)))),
     (''parabolic_sar'', Some (ParabolicSar (parabolic_sar_new (cfg_f64 cfg ''step'' (lit (2 / 100))) (cfg_f64 cfg ''max'' (lit (2 / 10)))))),
     (''rwi'', map_option Rwi (rwi_new (cfg_usize cfg ''period'' 14))),
     (''fractal'', Some (WilliamsFractal williams_fractal_new)),
     (''elder_ray'', map_option ElderRay (elder_ray_new (cfg_usize cfg ''period'' 13)))]"
  by (simp add: variants_def variants_defs untimed_def)

lemma warm_ups_warm:
  "list_all2 (\<lambda>v w. fst v = fst w \<and> warms lm (snd v) (snd w)) (filter (\<lambda>v. fst v \<notin> set untimed) (variants lm cfg)) (warm_ups cfg)"
  unfolding timed_variants warm_ups_def list_all2_Cons list_all2_Nil fst_conv snd_conv
  by (intro conjI refl TrueI trend_warm momentum_warm volatility_warm volume_warm pattern_warm)

lemma indicator_types_distinct: "distinct indicator_types"
  by code_simp



end
