(* ===== verification/Named_Base.thy ===== *)
theory Named_Base
  imports Ind_Viewing Candles
begin

text \<open>
  The ground for the named strategies of \<open>alm-strategy/src/named\<close>. A strategy answers a bar with its new state and at
  most one signal; \<open>None\<close> is a panic. The contract is the locale \<open>bar_strategy\<close>: a live strategy answers every bar of
  its symbol whose high and low are numbers, stays live, and \<open>reset\<close> leads to a live state; \<open>restoring\<close> adds that
  \<open>reset\<close> leads to the same state whatever the bars were. The proofs run through the updates of the indicators with the
  rules \<open>steps\<close>, in the style of a weakest precondition: \<open>runs Q m\<close> says that \<open>m\<close> does not panic and its result
  satisfies \<open>Q\<close>.
\<close>

section \<open>Computations that do not panic\<close>

definition runs :: "('s \<Rightarrow> 'o \<Rightarrow> bool) \<Rightarrow> ('s \<times> 'o) option \<Rightarrow> bool" where
  "runs Q m \<longleftrightarrow> (\<exists>s v. m = Some (s, v) \<and> Q s v)"

lemma runs_simps [simp]: "runs Q (Some (s, v)) \<longleftrightarrow> Q s v" "\<not> runs Q None"
  by (auto simp: runs_def)

lemma runs_bindI:
  "\<exists>s' v. m = Some (s', v) \<and> P s' \<Longrightarrow> (\<And>s' v. P s' \<Longrightarrow> runs Q (f s' v)) \<Longrightarrow> runs Q (m \<bind> (\<lambda>(a, v). f a v))"
  by auto

lemma runs_pure:
  "\<exists>s' v. Some r = Some (s', v) \<and> P s' \<Longrightarrow> (\<And>s' v. P s' \<Longrightarrow> runs Q (f s' v)) \<Longrightarrow> runs Q (let (a, v) = r in f a v)"
  by auto

definition gives :: "('s \<Rightarrow> bool) \<Rightarrow> 's option \<Rightarrow> bool" where
  "gives Q m \<longleftrightarrow> (\<exists>s. m = Some s \<and> Q s)"

lemma gives_simps [simp]: "gives Q (Some s) \<longleftrightarrow> Q s" "\<not> gives Q None"
  by (auto simp: gives_def)

section \<open>Signals\<close>

definition long_at :: "bar \<Rightarrow> f64 \<Rightarrow> signal list" where
  "long_at b strength = [signal_long (b_timestamp b) (b_symbol b) strength]"

definition exit_at :: "bar \<Rightarrow> signal list" where
  "exit_at b = [signal_exit (b_timestamp b) (b_symbol b)]"

text \<open>What a strategy may answer to a bar: nothing, a long entry or an exit, stamped with the bar.\<close>

definition proper :: "bar \<Rightarrow> signal list \<Rightarrow> bool" where
  "proper b sigs \<longleftrightarrow>
     sigs = [] \<or> (\<exists>strength. sigs = long_at b strength) \<or> sigs = exit_at b"

lemma proper_simps [simp]: "proper b []" "proper b (long_at b x)" "proper b (exit_at b)"
  by (auto simp: proper_def)

section \<open>The contract\<close>

primrec run_bars :: "('s \<Rightarrow> bar \<Rightarrow> ('s \<times> signal list) option) \<Rightarrow> 's \<Rightarrow> bar list \<Rightarrow> ('s \<times> signal list list) option" where
  "run_bars on_bar s [] = Some (s, [])"
| "run_bars on_bar s (b # bs) =
     (case on_bar s b of
        None \<Rightarrow> None
      | Some (s', sigs) \<Rightarrow> map_option (\<lambda>(s'', out). (s'', sigs # out)) (run_bars on_bar s' bs))"

definition bar_of :: "string \<Rightarrow> bar \<Rightarrow> bool" where
  "bar_of y b \<longleftrightarrow> plain_bar b \<and> b_symbol b = y"

locale bar_strategy =
  fixes y :: string
    and on_bar :: "'s \<Rightarrow> bar \<Rightarrow> ('s \<times> signal list) option"
    and rst :: "'s \<Rightarrow> 's option"
    and live :: "'s \<Rightarrow> bool"
  assumes answers: "bar_of y b \<Longrightarrow> live s \<Longrightarrow> runs (\<lambda>s' sigs. live s' \<and> proper b sigs) (on_bar s b)"
    and resets: "live s \<Longrightarrow> gives live (rst s)"
begin

lemma run_live:
  "list_all (bar_of y) bs \<Longrightarrow> live s \<Longrightarrow>
   \<exists>s' out. run_bars on_bar s bs = Some (s', out) \<and> live s' \<and> list_all2 proper bs out"
proof (induction bs arbitrary: s)
  case (Cons b bs)
  then obtain s1 sigs where 1: "on_bar s b = Some (s1, sigs)" "live s1" "proper b sigs"
    using answers [of b s] by (auto simp: runs_def)
  obtain s2 out where 2: "run_bars on_bar s1 bs = Some (s2, out)" "live s2" "list_all2 proper bs out"
    using Cons.IH [OF _ 1(2)] Cons.prems(1) by auto
  show ?case using 1 2 by simp
qed simp

end

locale restoring = bar_strategy +
  assumes keeps: "bar_of y b \<Longrightarrow> live s \<Longrightarrow> on_bar s b = Some (s', sigs) \<Longrightarrow> rst s' = rst s"
begin

lemma run_restores:
  "list_all (bar_of y) bs \<Longrightarrow> live s \<Longrightarrow> run_bars on_bar s bs = Some (s', out) \<Longrightarrow> rst s' = rst s"
proof (induction bs arbitrary: s out)
  case (Cons b bs)
  from Cons.prems(3) obtain s1 sigs out' where 1: "on_bar s b = Some (s1, sigs)" "run_bars on_bar s1 bs = Some (s', out')"
    by (auto split: option.splits)
  have "live s1" using answers [of b s] 1(1) Cons.prems by (auto simp: runs_def)
  then show ?case using Cons.IH [OF _ _ 1(2)] keeps [OF _ Cons.prems(2) 1(1)] Cons.prems(1) by simp
qed simp

end

lemma restoringI:
  assumes "\<And>b s. bar_of y b \<Longrightarrow> live s \<Longrightarrow> runs (\<lambda>s' sigs. live s' \<and> proper b sigs \<and> rst s' = rst s) (on_bar s b)"
    and "\<And>s. live s \<Longrightarrow> gives live (rst s)"
  shows "restoring y on_bar rst live"
proof unfold_locales
  fix b s s' sigs
  assume "bar_of y b" "live s"
  note 1 = assms(1) [OF this]
  show "runs (\<lambda>s' sigs. live s' \<and> proper b sigs) (on_bar s b)" using 1 by (auto simp: runs_def)
  show "on_bar s b = Some (s', sigs) \<Longrightarrow> rst s' = rst s" using 1 by (auto simp: runs_def)
qed (rule assms(2))

section \<open>Live indicators\<close>

context streaming
begin

lemma rst_same: "any_fed fed c s \<Longrightarrow> any_fed fed c s' \<Longrightarrow> rst s' = rst s"
  using rst_any [of c s] rst_any [of c s'] by auto

lemma rst_live: "any_fed fed c s \<Longrightarrow> rst s = Some s0 \<Longrightarrow> any_fed fed c s0"
  using rst_any [of c s] new_any [of c s0] by auto

lemma rst_new: "new c = Some s \<Longrightarrow> rst s = Some s"
  using rst_any [of c s] new_any [of c s] by auto

end

interpretation hab: timed "\<lambda>_. True" ha_step heiken_ashi_reset "\<lambda>p. if 0 < p then Some (ha_start p) else None"
  "\<lambda>p k s. 0 < p \<and> ha_fed p k s" "\<lambda>p. p"
proof (rule timedI)
  fix c k s and x :: "f64 \<times> f64 \<times> f64 \<times> f64"
  assume "0 < c \<and> ha_fed c k s"
  then show "\<exists>s' v. ha_step s x = Some (s', v) \<and> (0 < c \<and> ha_fed c (Suc k) s') \<and> (v = None \<longleftrightarrow> Suc k < c)"
    using ha.fed_update [of c k s x] by auto
qed (auto simp: ha.fed_start ha.fed_reset split: if_splits)

definition ema_live :: "nat \<Rightarrow> ema \<Rightarrow> bool" where "ema_live c s \<longleftrightarrow> any_fed (\<lambda>p k s. 0 < p \<and> ema_fed p k s) c s"
definition sma_live :: "nat \<Rightarrow> sma \<Rightarrow> bool" where "sma_live c s \<longleftrightarrow> any_fed (\<lambda>p k s. 0 < p \<and> sma_fed p k s) c s"
definition dema_live :: "nat \<Rightarrow> dema \<Rightarrow> bool" where "dema_live c s \<longleftrightarrow> any_fed (\<lambda>p k s. 0 < p \<and> dema_fed p k s) c s"
definition tema_live :: "nat \<Rightarrow> tema \<Rightarrow> bool" where "tema_live c s \<longleftrightarrow> any_fed (\<lambda>p k s. 0 < p \<and> tema_fed p k s) c s"
definition rsi_live :: "nat \<Rightarrow> rsi \<Rightarrow> bool" where "rsi_live c s \<longleftrightarrow> any_fed (\<lambda>p k s. 0 < p \<and> rsi_fed p k s) c s"
definition atr_live :: "nat \<Rightarrow> atr \<Rightarrow> bool" where "atr_live c s \<longleftrightarrow> any_fed (\<lambda>p k s. 0 < p \<and> atr_fed p k s) c s"
definition williams_live :: "nat \<Rightarrow> williams_r \<Rightarrow> bool" where "williams_live c s \<longleftrightarrow> any_fed (\<lambda>p k s. 0 < p \<and> hl_fed p k s) c s"
definition donchian_live :: "nat \<Rightarrow> donchian \<Rightarrow> bool" where "donchian_live c s \<longleftrightarrow> any_fed (\<lambda>p k s. 0 < p \<and> hl_fed p k s) c s"
definition adx_live :: "nat \<Rightarrow> adx \<Rightarrow> bool" where "adx_live c s \<longleftrightarrow> any_fed adx_fed c s"
definition alma_live :: "mathlib \<times> nat \<times> f64 \<times> f64 \<Rightarrow> alma \<Rightarrow> bool" where "alma_live c s \<longleftrightarrow> any_fed alma_fed (libm.truncate (fst c), snd c) s"
definition aroon_live :: "nat \<Rightarrow> aroon \<Rightarrow> bool" where "aroon_live c s \<longleftrightarrow> any_fed aroon_fed c s"
definition gmma_live :: "unit \<Rightarrow> gmma \<Rightarrow> bool" where "gmma_live c s \<longleftrightarrow> any_fed gmma_fed c s"
definition hma_live :: "nat \<Rightarrow> hma \<Rightarrow> bool" where "hma_live c s \<longleftrightarrow> any_fed hma_fed c s"
definition ichimoku_live :: "nat \<times> nat \<times> nat \<Rightarrow> ichimoku \<Rightarrow> bool" where "ichimoku_live c s \<longleftrightarrow> any_fed ichimoku_kept c s"
definition kama_live :: "nat \<times> nat \<times> nat \<Rightarrow> kama \<Rightarrow> bool" where "kama_live c s \<longleftrightarrow> any_fed kama_fed c s"
definition lsma_live :: "nat \<Rightarrow> lsma \<Rightarrow> bool" where "lsma_live c s \<longleftrightarrow> any_fed lsma_fed c s"
definition macd_live :: "nat \<times> nat \<times> nat \<Rightarrow> macd \<Rightarrow> bool" where "macd_live c s \<longleftrightarrow> any_fed macd_fed c s"
definition vortex_live :: "nat \<Rightarrow> vortex \<Rightarrow> bool" where "vortex_live c s \<longleftrightarrow> any_fed vortex_fed c s"
definition ao_live :: "nat \<times> nat \<Rightarrow> awesome_oscillator \<Rightarrow> bool" where "ao_live c s \<longleftrightarrow> any_fed ao_fed c s"
definition cci_live :: "nat \<Rightarrow> cci \<Rightarrow> bool" where "cci_live c s \<longleftrightarrow> any_fed cci_fed c s"
definition cmo_live :: "nat \<Rightarrow> cmo \<Rightarrow> bool" where "cmo_live c s \<longleftrightarrow> any_fed cmo_fed c s"
definition connors_rsi_live :: "nat \<times> nat \<times> nat \<Rightarrow> connors_rsi \<Rightarrow> bool" where "connors_rsi_live c s \<longleftrightarrow> any_fed connors_rsi_fed c s"
definition roc_live :: "nat \<Rightarrow> roc \<Rightarrow> bool" where "roc_live c s \<longleftrightarrow> any_fed roc_fed c s"
definition fisher_live :: "nat \<Rightarrow> fisher \<Rightarrow> bool" where "fisher_live c s \<longleftrightarrow> any_fed fisher_fed c s"
definition kdj_live :: "nat \<times> nat \<times> nat \<Rightarrow> kdj \<Rightarrow> bool" where "kdj_live c s \<longleftrightarrow> any_fed kdj_fed c s"
definition ppo_live :: "nat \<times> nat \<times> nat \<Rightarrow> ppo \<Rightarrow> bool" where "ppo_live c s \<longleftrightarrow> any_fed ppo_fed c s"
definition smi_live :: "nat \<times> nat \<times> nat \<times> nat \<Rightarrow> smi \<Rightarrow> bool" where "smi_live c s \<longleftrightarrow> any_fed smi_fed c s"
definition stochastic_rsi_live :: "nat \<times> nat \<Rightarrow> stochastic_rsi \<Rightarrow> bool" where "stochastic_rsi_live c s \<longleftrightarrow> any_fed stochastic_rsi_fed c s"
definition stochastic_live :: "nat \<times> nat \<Rightarrow> stochastic \<Rightarrow> bool" where "stochastic_live c s \<longleftrightarrow> any_fed stochastic_fed (fst c, 1, snd c) s"
definition trix_live :: "nat \<times> nat \<Rightarrow> trix \<Rightarrow> bool" where "trix_live c s \<longleftrightarrow> any_fed trix_fed c s"
definition tsi_live :: "nat \<times> nat \<Rightarrow> tsi \<Rightarrow> bool" where "tsi_live c s \<longleftrightarrow> any_fed tsi_fed c s"
definition uo_live :: "nat \<times> nat \<times> nat \<Rightarrow> uo \<Rightarrow> bool" where "uo_live c s \<longleftrightarrow> any_fed uo_fed c s"
definition cmf_live :: "nat \<Rightarrow> cmf \<Rightarrow> bool" where "cmf_live c s \<longleftrightarrow> any_fed (\<lambda>p k s. cf_period s = p) c s"
definition mfi_live :: "nat \<Rightarrow> mfi \<Rightarrow> bool" where "mfi_live c s \<longleftrightarrow> any_fed mfi_fed c s"
definition obv_live :: "unit \<Rightarrow> obv \<Rightarrow> bool" where "obv_live c s \<longleftrightarrow> any_fed (\<lambda>_ _ _. True) c s"
definition vwap_live :: "nat \<Rightarrow> vwap \<Rightarrow> bool" where "vwap_live c s \<longleftrightarrow> any_fed (\<lambda>g k s. vw_session_gap_ms s = vw_session_gap_ms (vwap_new g)) c s"
definition vwma_live :: "nat \<Rightarrow> vwma \<Rightarrow> bool" where "vwma_live c s \<longleftrightarrow> any_fed vwma_fed c s"
definition bbands_live :: "nat \<times> f64 \<Rightarrow> bbands \<Rightarrow> bool" where "bbands_live c s \<longleftrightarrow> any_fed bbands_fed c s"
definition keltner_live :: "nat \<times> nat \<times> f64 \<Rightarrow> keltner \<Rightarrow> bool" where "keltner_live c s \<longleftrightarrow> any_fed keltner_fed c s"
definition volatility_ratio_live :: "nat \<Rightarrow> volatility_ratio \<Rightarrow> bool" where "volatility_ratio_live c s \<longleftrightarrow> any_fed volatility_ratio_fed c s"
definition alligator_live :: "nat \<times> nat \<times> nat \<Rightarrow> alligator \<Rightarrow> bool" where "alligator_live c s \<longleftrightarrow> any_fed alligator_fed c s"
definition elder_ray_live :: "nat \<Rightarrow> elder_ray \<Rightarrow> bool" where "elder_ray_live c s \<longleftrightarrow> any_fed elder_ray_fed c s"
definition ha_live :: "nat \<Rightarrow> heiken_ashi \<Rightarrow> bool" where "ha_live c s \<longleftrightarrow> any_fed (\<lambda>p k s. 0 < p \<and> ha_fed p k s) (max c 1) s"
definition rwi_live :: "nat \<Rightarrow> rwi \<Rightarrow> bool" where "rwi_live c s \<longleftrightarrow> any_fed rwi_fed c s"
definition parabolic_sar_live :: "f64 \<times> f64 \<Rightarrow> parabolic_sar \<Rightarrow> bool" where "parabolic_sar_live c s \<longleftrightarrow> any_fed parabolic_sar_fed c s"
definition supertrend_live :: "nat \<times> f64 \<Rightarrow> supertrend \<Rightarrow> bool" where "supertrend_live c s \<longleftrightarrow> any_fed supertrend_fed c s"
definition chop_live :: "nat \<Rightarrow> chop \<Rightarrow> bool" where "chop_live c s \<longleftrightarrow> any_fed chop_fed c s"

named_theorems steps \<open>one update of an indicator keeps it live\<close>

lemma ema_steps [steps]: "ema_live c s \<Longrightarrow> (\<And>s' v. ema_live c s' \<Longrightarrow> runs Q (f s' v)) \<Longrightarrow> runs Q (ema_update s x \<bind> (\<lambda>(a, v). f a v))"
  unfolding ema_live_def by (rule runs_bindI [OF ema.upd_any]) (simp_all)

lemma sma_steps [steps]: "sma_live c s \<Longrightarrow> (\<And>s' v. sma_live c s' \<Longrightarrow> runs Q (f s' v)) \<Longrightarrow> runs Q (sma_update s x \<bind> (\<lambda>(a, v). f a v))"
  unfolding sma_live_def by (rule runs_bindI [OF sma.upd_any]) (simp_all)

lemma dema_steps [steps]: "dema_live c s \<Longrightarrow> (\<And>s' v. dema_live c s' \<Longrightarrow> runs Q (f s' v)) \<Longrightarrow> runs Q (dema_update s x \<bind> (\<lambda>(a, v). f a v))"
  unfolding dema_live_def by (rule runs_bindI [OF dema.upd_any]) (simp_all)

lemma rsi_steps [steps]: "rsi_live c s \<Longrightarrow> (\<And>s' v. rsi_live c s' \<Longrightarrow> runs Q (f s' v)) \<Longrightarrow> runs Q (rsi_update s x \<bind> (\<lambda>(a, v). f a v))"
  unfolding rsi_live_def by (rule runs_bindI [OF rsi.upd_any]) (simp_all)

lemma atr_steps [steps]: "atr_live c s \<Longrightarrow> (\<And>s' v. atr_live c s' \<Longrightarrow> runs Q (f s' v)) \<Longrightarrow> runs Q (atr_update s x \<bind> (\<lambda>(a, v). f a v))"
  unfolding atr_live_def by (rule runs_bindI [OF atr.upd_any]) (simp_all)

lemma williams_steps [steps]: "williams_live c s \<Longrightarrow> (\<And>s' v. williams_live c s' \<Longrightarrow> runs Q (f s' v)) \<Longrightarrow> runs Q (let (a, v) = williams_update s x in f a v)"
  unfolding williams_live_def by (rule runs_pure [OF williams.upd_any]) simp_all

lemma donchian_steps [steps]: "donchian_live c s \<Longrightarrow> (\<And>s' v. donchian_live c s' \<Longrightarrow> runs Q (f s' v)) \<Longrightarrow> runs Q (let (a, v) = donchian_update s x in f a v)"
  unfolding donchian_live_def by (rule runs_pure [OF donchian.upd_any]) simp_all

lemma adx_steps [steps]: "adx_live c s \<Longrightarrow> (\<And>s' v. adx_live c s' \<Longrightarrow> runs Q (f s' v)) \<Longrightarrow> runs Q (adx_update s x \<bind> (\<lambda>(a, v). f a v))"
  unfolding adx_live_def by (rule runs_bindI [OF adx.upd_any]) (simp_all)

lemma alma_steps [steps]: "alma_live c s \<Longrightarrow> (\<And>s' v. alma_live c s' \<Longrightarrow> runs Q (f s' v)) \<Longrightarrow> runs Q (let (a, v) = alma_update s x in f a v)"
  unfolding alma_live_def by (rule runs_pure [OF alma.upd_any]) simp_all

lemma aroon_steps [steps]: "aroon_live c s \<Longrightarrow> plain_bar b \<Longrightarrow> (\<And>s' v. aroon_live c s' \<Longrightarrow> runs Q (f s' v)) \<Longrightarrow> runs Q (aroon_update s (b_high b, b_low b) \<bind> (\<lambda>(a, v). f a v))"
  unfolding aroon_live_def by (rule runs_bindI [OF aroon.upd_any]) (simp_all add: plain_bar_def no_nan2_def is_nan_def)

lemma gmma_steps [steps]: "gmma_live c s \<Longrightarrow> (\<And>s' v. gmma_live c s' \<Longrightarrow> runs Q (f s' v)) \<Longrightarrow> runs Q (gmma_update s x \<bind> (\<lambda>(a, v). f a v))"
  unfolding gmma_live_def by (rule runs_bindI [OF gmma.upd_any]) (simp_all)

lemma hma_steps [steps]: "hma_live c s \<Longrightarrow> (\<And>s' v. hma_live c s' \<Longrightarrow> runs Q (f s' v)) \<Longrightarrow> runs Q (hma_update s x \<bind> (\<lambda>(a, v). f a v))"
  unfolding hma_live_def by (rule runs_bindI [OF hma.upd_any]) (simp_all)

lemma ichimoku_steps [steps]: "ichimoku_live c s \<Longrightarrow> (\<And>s' v. ichimoku_live c s' \<Longrightarrow> runs Q (f s' v)) \<Longrightarrow> runs Q (let (a, v) = ichimoku_update s x in f a v)"
  unfolding ichimoku_live_def by (rule runs_pure [OF ichimoku.upd_any]) simp_all

lemma kama_steps [steps]: "kama_live c s \<Longrightarrow> (\<And>s' v. kama_live c s' \<Longrightarrow> runs Q (f s' v)) \<Longrightarrow> runs Q (let (a, v) = kama_update s x in f a v)"
  unfolding kama_live_def by (rule runs_pure [OF kama.upd_any]) simp_all

lemma lsma_steps [steps]: "lsma_live c s \<Longrightarrow> (\<And>s' v. lsma_live c s' \<Longrightarrow> runs Q (f s' v)) \<Longrightarrow> runs Q (let (a, v) = lsma_update s x in f a v)"
  unfolding lsma_live_def by (rule runs_pure [OF lsma.upd_any]) simp_all

lemma macd_steps [steps]: "macd_live c s \<Longrightarrow> (\<And>s' v. macd_live c s' \<Longrightarrow> runs Q (f s' v)) \<Longrightarrow> runs Q (macd_update s x \<bind> (\<lambda>(a, v). f a v))"
  unfolding macd_live_def by (rule runs_bindI [OF macd.upd_any]) (simp_all)

lemma vortex_steps [steps]: "vortex_live c s \<Longrightarrow> (\<And>s' v. vortex_live c s' \<Longrightarrow> runs Q (f s' v)) \<Longrightarrow> runs Q (vortex_update s x \<bind> (\<lambda>(a, v). f a v))"
  unfolding vortex_live_def by (rule runs_bindI [OF vortex.upd_any]) (simp_all)

lemma cci_steps [steps]: "cci_live c s \<Longrightarrow> (\<And>s' v. cci_live c s' \<Longrightarrow> runs Q (f s' v)) \<Longrightarrow> runs Q (let (a, v) = cci_update s x in f a v)"
  unfolding cci_live_def by (rule runs_pure [OF cci.upd_any]) simp_all

lemma cmo_steps [steps]: "cmo_live c s \<Longrightarrow> (\<And>s' v. cmo_live c s' \<Longrightarrow> runs Q (f s' v)) \<Longrightarrow> runs Q (cmo_update s x \<bind> (\<lambda>(a, v). f a v))"
  unfolding cmo_live_def by (rule runs_bindI [OF cmo.upd_any]) (simp_all)

lemma connors_rsi_steps [steps]: "connors_rsi_live c s \<Longrightarrow> (\<And>s' v. connors_rsi_live c s' \<Longrightarrow> runs Q (f s' v)) \<Longrightarrow> runs Q (connors_rsi_update s x \<bind> (\<lambda>(a, v). f a v))"
  unfolding connors_rsi_live_def by (rule runs_bindI [OF connors_rsi.upd_any]) (simp_all)

lemma roc_steps [steps]: "roc_live c s \<Longrightarrow> (\<And>s' v. roc_live c s' \<Longrightarrow> runs Q (f s' v)) \<Longrightarrow> runs Q (let (a, v) = roc_update s x in f a v)"
  unfolding roc_live_def by (rule runs_pure [OF roc.upd_any]) simp_all

lemma fisher_steps [steps]: "fisher_live c s \<Longrightarrow> (\<And>s' v. fisher_live c s' \<Longrightarrow> runs Q (f s' v)) \<Longrightarrow> runs Q (let (a, v) = fisher_update (libm.truncate lm) s x in f a v)"
  unfolding fisher_live_def by (rule runs_pure [OF fisher.upd_any]) simp_all

lemma ppo_steps [steps]: "ppo_live c s \<Longrightarrow> (\<And>s' v. ppo_live c s' \<Longrightarrow> runs Q (f s' v)) \<Longrightarrow> runs Q (ppo_update s x \<bind> (\<lambda>(a, v). f a v))"
  unfolding ppo_live_def by (rule runs_bindI [OF ppo.upd_any]) (simp_all)

lemma smi_steps [steps]: "smi_live c s \<Longrightarrow> (\<And>s' v. smi_live c s' \<Longrightarrow> runs Q (f s' v)) \<Longrightarrow> runs Q (smi_update s x \<bind> (\<lambda>(a, v). f a v))"
  unfolding smi_live_def by (rule runs_bindI [OF smi.upd_any]) (simp_all)

lemma stochastic_rsi_steps [steps]: "stochastic_rsi_live c s \<Longrightarrow> (\<And>s' v. stochastic_rsi_live c s' \<Longrightarrow> runs Q (f s' v)) \<Longrightarrow> runs Q (stochastic_rsi_update s x \<bind> (\<lambda>(a, v). f a v))"
  unfolding stochastic_rsi_live_def by (rule runs_bindI [OF stochastic_rsi.upd_any]) (simp_all)

lemma stochastic_steps [steps]: "stochastic_live c s \<Longrightarrow> (\<And>s' v. stochastic_live c s' \<Longrightarrow> runs Q (f s' v)) \<Longrightarrow> runs Q (stochastic_update s x \<bind> (\<lambda>(a, v). f a v))"
  unfolding stochastic_live_def by (rule runs_bindI [OF stochastic.upd_any]) (simp_all)

lemma trix_steps [steps]: "trix_live c s \<Longrightarrow> (\<And>s' v. trix_live c s' \<Longrightarrow> runs Q (f s' v)) \<Longrightarrow> runs Q (trix_update s x \<bind> (\<lambda>(a, v). f a v))"
  unfolding trix_live_def by (rule runs_bindI [OF trix.upd_any]) (simp_all)

lemma tsi_steps [steps]: "tsi_live c s \<Longrightarrow> (\<And>s' v. tsi_live c s' \<Longrightarrow> runs Q (f s' v)) \<Longrightarrow> runs Q (tsi_update s x \<bind> (\<lambda>(a, v). f a v))"
  unfolding tsi_live_def by (rule runs_bindI [OF tsi.upd_any]) (simp_all)

lemma uo_steps [steps]: "uo_live c s \<Longrightarrow> (\<And>s' v. uo_live c s' \<Longrightarrow> runs Q (f s' v)) \<Longrightarrow> runs Q (uo_update s x \<bind> (\<lambda>(a, v). f a v))"
  unfolding uo_live_def by (rule runs_bindI [OF uo.upd_any]) (simp_all)

lemma cmf_steps [steps]: "cmf_live c s \<Longrightarrow> (\<And>s' v. cmf_live c s' \<Longrightarrow> runs Q (f s' v)) \<Longrightarrow> runs Q (let (a, v) = cmf_update s x in f a v)"
  unfolding cmf_live_def by (rule runs_pure [OF cmf.upd_any]) simp_all

lemma mfi_steps [steps]: "mfi_live c s \<Longrightarrow> (\<And>s' v. mfi_live c s' \<Longrightarrow> runs Q (f s' v)) \<Longrightarrow> runs Q (let (a, v) = mfi_update s x in f a v)"
  unfolding mfi_live_def by (rule runs_pure [OF mfi.upd_any]) simp_all

lemma obv_steps [steps]: "obv_live c s \<Longrightarrow> (\<And>s' v. obv_live c s' \<Longrightarrow> runs Q (f s' v)) \<Longrightarrow> runs Q (let (a, v) = obv_update s x in f a v)"
  by (auto simp: obv_live_def any_fed_def Let_def  split: prod.split)

lemma vwap_steps [steps]: "vwap_live c s \<Longrightarrow> (\<And>s' v. vwap_live c s' \<Longrightarrow> runs Q (f s' v)) \<Longrightarrow> runs Q (let (a, v) = vwap_update s x in f a v)"
  by (auto simp: vwap_live_def any_fed_def Let_def vwap_update_def split: prod.split)

lemma vwma_steps [steps]: "vwma_live c s \<Longrightarrow> (\<And>s' v. vwma_live c s' \<Longrightarrow> runs Q (f s' v)) \<Longrightarrow> runs Q (vwma_update s x \<bind> (\<lambda>(a, v). f a v))"
  unfolding vwma_live_def by (rule runs_bindI [OF vwma.upd_any]) (simp_all)

lemma bbands_steps [steps]: "bbands_live c s \<Longrightarrow> (\<And>s' v. bbands_live c s' \<Longrightarrow> runs Q (f s' v)) \<Longrightarrow> runs Q (let (a, v) = bbands_update s x in f a v)"
  unfolding bbands_live_def by (rule runs_pure [OF bbands.upd_any]) simp_all

lemma keltner_steps [steps]: "keltner_live c s \<Longrightarrow> (\<And>s' v. keltner_live c s' \<Longrightarrow> runs Q (f s' v)) \<Longrightarrow> runs Q (keltner_update s x \<bind> (\<lambda>(a, v). f a v))"
  unfolding keltner_live_def by (rule runs_bindI [OF keltner.upd_any]) (simp_all)

lemma volatility_ratio_steps [steps]: "volatility_ratio_live c s \<Longrightarrow> (\<And>s' v. volatility_ratio_live c s' \<Longrightarrow> runs Q (f s' v)) \<Longrightarrow> runs Q (let (a, v) = volatility_ratio_update s x in f a v)"
  unfolding volatility_ratio_live_def by (rule runs_pure [OF volatility_ratio.upd_any]) simp_all

lemma alligator_steps [steps]: "alligator_live c s \<Longrightarrow> (\<And>s' v. alligator_live c s' \<Longrightarrow> runs Q (f s' v)) \<Longrightarrow> runs Q (alligator_update s x \<bind> (\<lambda>(a, v). f a v))"
  unfolding alligator_live_def by (rule runs_bindI [OF alligator.upd_any]) (simp_all)

lemma elder_ray_steps [steps]: "elder_ray_live c s \<Longrightarrow> (\<And>s' v. elder_ray_live c s' \<Longrightarrow> runs Q (f s' v)) \<Longrightarrow> runs Q (elder_ray_update s x \<bind> (\<lambda>(a, v). f a v))"
  unfolding elder_ray_live_def by (rule runs_bindI [OF elder_ray.upd_any]) (simp_all)

lemma ha_steps [steps]: "ha_live c s \<Longrightarrow> (\<And>s' v. ha_live c s' \<Longrightarrow> runs Q (f s' v)) \<Longrightarrow> runs Q (ha_step s x \<bind> (\<lambda>(a, v). f a v))"
  unfolding ha_live_def by (rule runs_bindI [OF hab.upd_any]) (simp_all)

lemma rwi_steps [steps]: "rwi_live c s \<Longrightarrow> (\<And>s' v. rwi_live c s' \<Longrightarrow> runs Q (f s' v)) \<Longrightarrow> runs Q (let (a, v) = rwi_update s x in f a v)"
  unfolding rwi_live_def by (rule runs_pure [OF rwi.upd_any]) simp_all

lemma parabolic_sar_steps [steps]: "parabolic_sar_live c s \<Longrightarrow> (\<And>s' v. parabolic_sar_live c s' \<Longrightarrow> runs Q (f s' v)) \<Longrightarrow> runs Q (parabolic_sar_update s x \<bind> (\<lambda>(a, v). f a v))"
  unfolding parabolic_sar_live_def by (rule runs_bindI [OF parabolic_sar.upd_any]) (simp_all)

lemma supertrend_steps [steps]: "supertrend_live c s \<Longrightarrow> (\<And>s' v. supertrend_live c s' \<Longrightarrow> runs Q (f s' v)) \<Longrightarrow> runs Q (supertrend_update s x \<bind> (\<lambda>(a, v). f a v))"
  unfolding supertrend_live_def by (rule runs_bindI [OF supertrend.upd_any]) (simp_all)

lemma chop_steps [steps]: "chop_live c s \<Longrightarrow> (\<And>s' v. chop_live c s' \<Longrightarrow> runs Q (f s' v)) \<Longrightarrow> runs Q (let (a, v) = chop_update lm s x in f a v)"
  unfolding chop_live_def by (rule runs_pure [OF chop.upd_any]) simp_all

lemma ema_feed_steps [steps]:
  "ema_live c s \<Longrightarrow> (\<And>s' v. ema_live c s' \<Longrightarrow> runs Q (f s' v)) \<Longrightarrow> runs Q (feed ema_update s x \<bind> (\<lambda>(a, v). f a v))"
  unfolding ema_live_def by (rule runs_bindI [OF ema.feed_any]) simp_all

named_theorems alive \<open>a constructed indicator is live\<close>
named_theorems renews \<open>a live indicator can be constructed again\<close>

lemma ema_lives [alive]: "ema_new p = Some s \<Longrightarrow> ema_live p s"
  using ema.new_any [where c = "p"] by (auto simp: ema_live_def ema_new_def split: if_splits)

lemma ema_renews [renews]: "ema_live p s \<Longrightarrow> (\<And>s0. ema_live p s0 \<Longrightarrow> gives Q (f s0)) \<Longrightarrow> gives Q (ema_new p \<bind> f)"
  using ema.rst_any [where c = "p" and s = s] ema_lives
  by (auto simp: ema_live_def ema_new_def split: if_splits)

lemma sma_lives [alive]: "sma_new p = Some s \<Longrightarrow> sma_live p s"
  using sma.new_any [where c = "p"] by (auto simp: sma_live_def sma_new_def split: if_splits)

lemma sma_renews [renews]: "sma_live p s \<Longrightarrow> (\<And>s0. sma_live p s0 \<Longrightarrow> gives Q (f s0)) \<Longrightarrow> gives Q (sma_new p \<bind> f)"
  using sma.rst_any [where c = "p" and s = s] sma_lives
  by (auto simp: sma_live_def sma_new_def split: if_splits)

lemma dema_lives [alive]: "dema_new p = Some s \<Longrightarrow> dema_live p s"
  using dema.new_any [where c = "p"] by (auto simp: dema_live_def dema_new_pos any_fed_def split: if_splits)

lemma dema_renews [renews]: "dema_live p s \<Longrightarrow> (\<And>s0. dema_live p s0 \<Longrightarrow> gives Q (f s0)) \<Longrightarrow> gives Q (dema_new p \<bind> f)"
  using dema.rst_any [where c = "p" and s = s] dema_lives
  by (auto simp: dema_live_def dema_new_pos any_fed_def split: if_splits)

lemma tema_lives [alive]: "tema_new p = Some s \<Longrightarrow> tema_live p s"
  using tema.new_any [where c = "p"] by (auto simp: tema_live_def tema_new_pos any_fed_def split: if_splits)

lemma tema_renews [renews]: "tema_live p s \<Longrightarrow> (\<And>s0. tema_live p s0 \<Longrightarrow> gives Q (f s0)) \<Longrightarrow> gives Q (tema_new p \<bind> f)"
  using tema.rst_any [where c = "p" and s = s] tema_lives
  by (auto simp: tema_live_def tema_new_pos any_fed_def split: if_splits)

lemma rsi_lives [alive]: "rsi_new p = Some s \<Longrightarrow> rsi_live p s"
  using rsi.new_any [where c = "p"] by (auto simp: rsi_live_def rsi_new_def split: if_splits)

lemma rsi_renews [renews]: "rsi_live p s \<Longrightarrow> (\<And>s0. rsi_live p s0 \<Longrightarrow> gives Q (f s0)) \<Longrightarrow> gives Q (rsi_new p \<bind> f)"
  using rsi.rst_any [where c = "p" and s = s] rsi_lives
  by (auto simp: rsi_live_def rsi_new_def split: if_splits)

lemma atr_lives [alive]: "atr_ind_new p = Some s \<Longrightarrow> atr_live p s"
  using atr.new_any [where c = "p"] by (auto simp: atr_live_def atr_ind_new_pos split: if_splits)

lemma atr_renews [renews]: "atr_live p s \<Longrightarrow> (\<And>s0. atr_live p s0 \<Longrightarrow> gives Q (f s0)) \<Longrightarrow> gives Q (atr_ind_new p \<bind> f)"
  using atr.rst_any [where c = "p" and s = s] atr_lives
  by (auto simp: atr_live_def atr_ind_new_pos split: if_splits)

lemma williams_lives [alive]: "williams_new p = Some s \<Longrightarrow> williams_live p s"
  using williams.new_any [where c = "p"] by (auto simp: williams_live_def williams_new_def split: if_splits)

lemma williams_renews [renews]: "williams_live p s \<Longrightarrow> (\<And>s0. williams_live p s0 \<Longrightarrow> gives Q (f s0)) \<Longrightarrow> gives Q (williams_new p \<bind> f)"
  using williams.rst_any [where c = "p" and s = s] williams_lives
  by (auto simp: williams_live_def williams_new_def split: if_splits)

lemma donchian_lives [alive]: "donchian_new p = Some s \<Longrightarrow> donchian_live p s"
  using donchian.new_any [where c = "p"] by (auto simp: donchian_live_def donchian_new_def split: if_splits)

lemma donchian_renews [renews]: "donchian_live p s \<Longrightarrow> (\<And>s0. donchian_live p s0 \<Longrightarrow> gives Q (f s0)) \<Longrightarrow> gives Q (donchian_new p \<bind> f)"
  using donchian.rst_any [where c = "p" and s = s] donchian_lives
  by (auto simp: donchian_live_def donchian_new_def split: if_splits)

lemma adx_lives [alive]: "adx_new p = Some s \<Longrightarrow> adx_live p s"
  using adx.new_any [where c = "p"] by (auto simp: adx_live_def  split: if_splits)

lemma adx_renews [renews]: "adx_live p s \<Longrightarrow> (\<And>s0. adx_live p s0 \<Longrightarrow> gives Q (f s0)) \<Longrightarrow> gives Q (adx_new p \<bind> f)"
  using adx.rst_any [where c = "p" and s = s] adx_lives
  by (auto simp: adx_live_def  split: if_splits)

lemma alma_lives [alive]: "alma_new (libm.truncate lm) q r t = Some s \<Longrightarrow> alma_live (lm, q, r, t) s"
  using alma.new_any [where c = "(libm.truncate lm, q, r, t)"] by (auto simp: alma_live_def  split: if_splits)

lemma alma_renews [renews]: "alma_live (lm, q, r, t) s \<Longrightarrow> (\<And>s0. alma_live (lm, q, r, t) s0 \<Longrightarrow> gives Q (f s0)) \<Longrightarrow> gives Q (alma_new (libm.truncate lm) q r t \<bind> f)"
  using alma.rst_any [where c = "(libm.truncate lm, q, r, t)" and s = s] alma_lives
  by (auto simp: alma_live_def  split: if_splits)

lemma aroon_lives [alive]: "aroon_new p = Some s \<Longrightarrow> aroon_live p s"
  using aroon.new_any [where c = "p"] by (auto simp: aroon_live_def  split: if_splits)

lemma aroon_renews [renews]: "aroon_live p s \<Longrightarrow> (\<And>s0. aroon_live p s0 \<Longrightarrow> gives Q (f s0)) \<Longrightarrow> gives Q (aroon_new p \<bind> f)"
  using aroon.rst_any [where c = "p" and s = s] aroon_lives
  by (auto simp: aroon_live_def  split: if_splits)

lemma gmma_lives [alive]: "gmma_new = Some s \<Longrightarrow> gmma_live () s"
  using gmma.new_any [where c = "()"] by (auto simp: gmma_live_def  split: if_splits)

lemma gmma_renews [renews]:
  assumes "gmma_live () s" and "\<And>s0. gmma_live () s0 \<Longrightarrow> gives Q (f s0)"
  shows "gives Q (gmma_new \<bind> f)"
proof -
  obtain s0 where n: "gmma_new = Some s0" using gmma.rst_any [where c = "()" and s = s] assms(1) by (auto simp: gmma_live_def)
  show ?thesis unfolding n using assms(2) [OF gmma_lives [OF n]] by simp
qed

lemma hma_lives [alive]: "hma_new p = Some s \<Longrightarrow> hma_live p s"
  using hma.new_any [where c = "p"] by (auto simp: hma_live_def  split: if_splits)

lemma hma_renews [renews]: "hma_live p s \<Longrightarrow> (\<And>s0. hma_live p s0 \<Longrightarrow> gives Q (f s0)) \<Longrightarrow> gives Q (hma_new p \<bind> f)"
  using hma.rst_any [where c = "p" and s = s] hma_lives
  by (auto simp: hma_live_def  split: if_splits)

lemma ichimoku_lives [alive]: "ichimoku_live (p, q, r) (ichimoku_new p q r)"
  using ichimoku.new_any [where c = "(p, q, r)"] by (simp add: ichimoku_live_def any_fed_def )

lemma kama_lives [alive]: "kama_new p q r = Some s \<Longrightarrow> kama_live (p, q, r) s"
  using kama.new_any [where c = "(p, q, r)"] by (auto simp: kama_live_def  split: if_splits)

lemma kama_renews [renews]: "kama_live (p, q, r) s \<Longrightarrow> (\<And>s0. kama_live (p, q, r) s0 \<Longrightarrow> gives Q (f s0)) \<Longrightarrow> gives Q (kama_new p q r \<bind> f)"
  using kama.rst_any [where c = "(p, q, r)" and s = s] kama_lives
  by (auto simp: kama_live_def  split: if_splits)

lemma lsma_lives [alive]: "lsma_new p = Some s \<Longrightarrow> lsma_live p s"
  using lsma.new_any [where c = "p"] by (auto simp: lsma_live_def  split: if_splits)

lemma lsma_renews [renews]: "lsma_live p s \<Longrightarrow> (\<And>s0. lsma_live p s0 \<Longrightarrow> gives Q (f s0)) \<Longrightarrow> gives Q (lsma_new p \<bind> f)"
  using lsma.rst_any [where c = "p" and s = s] lsma_lives
  by (auto simp: lsma_live_def  split: if_splits)

lemma macd_lives [alive]: "macd_new p q r = Some s \<Longrightarrow> macd_live (p, q, r) s"
  using macd.new_any [where c = "(p, q, r)"] by (auto simp: macd_live_def  split: if_splits)

lemma macd_renews [renews]: "macd_live (p, q, r) s \<Longrightarrow> (\<And>s0. macd_live (p, q, r) s0 \<Longrightarrow> gives Q (f s0)) \<Longrightarrow> gives Q (macd_new p q r \<bind> f)"
  using macd.rst_any [where c = "(p, q, r)" and s = s] macd_lives
  by (auto simp: macd_live_def  split: if_splits)

lemma vortex_lives [alive]: "vortex_new p = Some s \<Longrightarrow> vortex_live p s"
  using vortex.new_any [where c = "p"] by (auto simp: vortex_live_def  split: if_splits)

lemma vortex_renews [renews]: "vortex_live p s \<Longrightarrow> (\<And>s0. vortex_live p s0 \<Longrightarrow> gives Q (f s0)) \<Longrightarrow> gives Q (vortex_new p \<bind> f)"
  using vortex.rst_any [where c = "p" and s = s] vortex_lives
  by (auto simp: vortex_live_def  split: if_splits)

lemma ao_lives [alive]: "ao_live (p, q) (ao_new p q)"
  using ao.new_any [where c = "(p, q)"] by (simp add: ao_live_def any_fed_def )

lemma cci_lives [alive]: "cci_new p = Some s \<Longrightarrow> cci_live p s"
  using cci.new_any [where c = "p"] by (auto simp: cci_live_def  split: if_splits)

lemma cci_renews [renews]: "cci_live p s \<Longrightarrow> (\<And>s0. cci_live p s0 \<Longrightarrow> gives Q (f s0)) \<Longrightarrow> gives Q (cci_new p \<bind> f)"
  using cci.rst_any [where c = "p" and s = s] cci_lives
  by (auto simp: cci_live_def  split: if_splits)

lemma cmo_lives [alive]: "cmo_new p = Some s \<Longrightarrow> cmo_live p s"
  using cmo.new_any [where c = "p"] by (auto simp: cmo_live_def  split: if_splits)

lemma cmo_renews [renews]: "cmo_live p s \<Longrightarrow> (\<And>s0. cmo_live p s0 \<Longrightarrow> gives Q (f s0)) \<Longrightarrow> gives Q (cmo_new p \<bind> f)"
  using cmo.rst_any [where c = "p" and s = s] cmo_lives
  by (auto simp: cmo_live_def  split: if_splits)

lemma connors_rsi_lives [alive]: "connors_rsi_new p q r = Some s \<Longrightarrow> connors_rsi_live (p, q, r) s"
  using connors_rsi.new_any [where c = "(p, q, r)"] by (auto simp: connors_rsi_live_def  split: if_splits)

lemma connors_rsi_renews [renews]: "connors_rsi_live (p, q, r) s \<Longrightarrow> (\<And>s0. connors_rsi_live (p, q, r) s0 \<Longrightarrow> gives Q (f s0)) \<Longrightarrow> gives Q (connors_rsi_new p q r \<bind> f)"
  using connors_rsi.rst_any [where c = "(p, q, r)" and s = s] connors_rsi_lives
  by (auto simp: connors_rsi_live_def  split: if_splits)

lemma roc_lives [alive]: "roc_new p = Some s \<Longrightarrow> roc_live p s"
  using roc.new_any [where c = "p"] by (auto simp: roc_live_def  split: if_splits)

lemma roc_renews [renews]: "roc_live p s \<Longrightarrow> (\<And>s0. roc_live p s0 \<Longrightarrow> gives Q (f s0)) \<Longrightarrow> gives Q (roc_new p \<bind> f)"
  using roc.rst_any [where c = "p" and s = s] roc_lives
  by (auto simp: roc_live_def  split: if_splits)

lemma fisher_lives [alive]: "fisher_new p = Some s \<Longrightarrow> fisher_live p s"
  using fisher.new_any [where c = "p"] by (auto simp: fisher_live_def  split: if_splits)

lemma fisher_renews [renews]: "fisher_live p s \<Longrightarrow> (\<And>s0. fisher_live p s0 \<Longrightarrow> gives Q (f s0)) \<Longrightarrow> gives Q (fisher_new p \<bind> f)"
  using fisher.rst_any [where c = "p" and s = s] fisher_lives
  by (auto simp: fisher_live_def  split: if_splits)

lemma kdj_lives [alive]: "kdj_new p q r = Some s \<Longrightarrow> kdj_live (p, q, r) s"
  using kdj.new_any [where c = "(p, q, r)"] by (auto simp: kdj_live_def  split: if_splits)

lemma kdj_renews [renews]: "kdj_live (p, q, r) s \<Longrightarrow> (\<And>s0. kdj_live (p, q, r) s0 \<Longrightarrow> gives Q (f s0)) \<Longrightarrow> gives Q (kdj_new p q r \<bind> f)"
  using kdj.rst_any [where c = "(p, q, r)" and s = s] kdj_lives
  by (auto simp: kdj_live_def  split: if_splits)

lemma ppo_lives [alive]: "ppo_new p q r = Some s \<Longrightarrow> ppo_live (p, q, r) s"
  using ppo.new_any [where c = "(p, q, r)"] by (auto simp: ppo_live_def  split: if_splits)

lemma ppo_renews [renews]: "ppo_live (p, q, r) s \<Longrightarrow> (\<And>s0. ppo_live (p, q, r) s0 \<Longrightarrow> gives Q (f s0)) \<Longrightarrow> gives Q (ppo_new p q r \<bind> f)"
  using ppo.rst_any [where c = "(p, q, r)" and s = s] ppo_lives
  by (auto simp: ppo_live_def  split: if_splits)

lemma smi_lives [alive]: "smi_new p q r t = Some s \<Longrightarrow> smi_live (p, q, r, t) s"
  using smi.new_any [where c = "(p, q, r, t)"] by (auto simp: smi_live_def  split: if_splits)

lemma smi_renews [renews]: "smi_live (p, q, r, t) s \<Longrightarrow> (\<And>s0. smi_live (p, q, r, t) s0 \<Longrightarrow> gives Q (f s0)) \<Longrightarrow> gives Q (smi_new p q r t \<bind> f)"
  using smi.rst_any [where c = "(p, q, r, t)" and s = s] smi_lives
  by (auto simp: smi_live_def  split: if_splits)

lemma stochastic_rsi_lives [alive]: "stochastic_rsi_new p q = Some s \<Longrightarrow> stochastic_rsi_live (p, q) s"
  using stochastic_rsi.new_any [where c = "(p, q)"] by (auto simp: stochastic_rsi_live_def  split: if_splits)

lemma stochastic_rsi_renews [renews]: "stochastic_rsi_live (p, q) s \<Longrightarrow> (\<And>s0. stochastic_rsi_live (p, q) s0 \<Longrightarrow> gives Q (f s0)) \<Longrightarrow> gives Q (stochastic_rsi_new p q \<bind> f)"
  using stochastic_rsi.rst_any [where c = "(p, q)" and s = s] stochastic_rsi_lives
  by (auto simp: stochastic_rsi_live_def  split: if_splits)

lemma stochastic_lives [alive]: "stochastic_new p q = Some s \<Longrightarrow> stochastic_live (p, q) s"
  using stochastic.new_any [where c = "(p, 1, q)"] by (auto simp: stochastic_live_def stochastic_new_def split: if_splits)

lemma stochastic_renews [renews]: "stochastic_live (p, q) s \<Longrightarrow> (\<And>s0. stochastic_live (p, q) s0 \<Longrightarrow> gives Q (f s0)) \<Longrightarrow> gives Q (stochastic_new p q \<bind> f)"
  using stochastic.rst_any [where c = "(p, 1, q)" and s = s] stochastic_lives
  by (auto simp: stochastic_live_def stochastic_new_def split: if_splits)

lemma trix_lives [alive]: "trix_new p q = Some s \<Longrightarrow> trix_live (p, q) s"
  using trix.new_any [where c = "(p, q)"] by (auto simp: trix_live_def  split: if_splits)

lemma trix_renews [renews]: "trix_live (p, q) s \<Longrightarrow> (\<And>s0. trix_live (p, q) s0 \<Longrightarrow> gives Q (f s0)) \<Longrightarrow> gives Q (trix_new p q \<bind> f)"
  using trix.rst_any [where c = "(p, q)" and s = s] trix_lives
  by (auto simp: trix_live_def  split: if_splits)

lemma tsi_lives [alive]: "tsi_new p q = Some s \<Longrightarrow> tsi_live (p, q) s"
  using tsi.new_any [where c = "(p, q)"] by (auto simp: tsi_live_def  split: if_splits)

lemma tsi_renews [renews]: "tsi_live (p, q) s \<Longrightarrow> (\<And>s0. tsi_live (p, q) s0 \<Longrightarrow> gives Q (f s0)) \<Longrightarrow> gives Q (tsi_new p q \<bind> f)"
  using tsi.rst_any [where c = "(p, q)" and s = s] tsi_lives
  by (auto simp: tsi_live_def  split: if_splits)

lemma uo_lives [alive]: "uo_new p q r = Some s \<Longrightarrow> uo_live (p, q, r) s"
  using uo.new_any [where c = "(p, q, r)"] by (auto simp: uo_live_def  split: if_splits)

lemma uo_renews [renews]: "uo_live (p, q, r) s \<Longrightarrow> (\<And>s0. uo_live (p, q, r) s0 \<Longrightarrow> gives Q (f s0)) \<Longrightarrow> gives Q (uo_new p q r \<bind> f)"
  using uo.rst_any [where c = "(p, q, r)" and s = s] uo_lives
  by (auto simp: uo_live_def  split: if_splits)

lemma cmf_lives [alive]: "cmf_live p (cmf_new p)"
  using cmf.new_any [where c = "p"] by (simp add: cmf_live_def any_fed_def )

lemma mfi_lives [alive]: "mfi_new p = Some s \<Longrightarrow> mfi_live p s"
  using mfi.new_any [where c = "p"] by (auto simp: mfi_live_def  split: if_splits)

lemma mfi_renews [renews]: "mfi_live p s \<Longrightarrow> (\<And>s0. mfi_live p s0 \<Longrightarrow> gives Q (f s0)) \<Longrightarrow> gives Q (mfi_new p \<bind> f)"
  using mfi.rst_any [where c = "p" and s = s] mfi_lives
  by (auto simp: mfi_live_def  split: if_splits)

lemma obv_lives [alive]: "obv_live () (obv_new)"
  using obv.new_any [where c = "()"] by (simp add: obv_live_def any_fed_def )

lemma vwap_lives [alive]: "vwap_live p (vwap_new p)"
  using vwap.new_any [where c = "p"] by (simp add: vwap_live_def any_fed_def )

lemma vwma_lives [alive]: "vwma_new p = Some s \<Longrightarrow> vwma_live p s"
  using vwma.new_any [where c = "p"] by (auto simp: vwma_live_def  split: if_splits)

lemma vwma_renews [renews]: "vwma_live p s \<Longrightarrow> (\<And>s0. vwma_live p s0 \<Longrightarrow> gives Q (f s0)) \<Longrightarrow> gives Q (vwma_new p \<bind> f)"
  using vwma.rst_any [where c = "p" and s = s] vwma_lives
  by (auto simp: vwma_live_def  split: if_splits)

lemma bbands_lives [alive]: "bbands_new p q = Some s \<Longrightarrow> bbands_live (p, q) s"
  using bbands.new_any [where c = "(p, q)"] by (auto simp: bbands_live_def  split: if_splits)

lemma bbands_renews [renews]: "bbands_live (p, q) s \<Longrightarrow> (\<And>s0. bbands_live (p, q) s0 \<Longrightarrow> gives Q (f s0)) \<Longrightarrow> gives Q (bbands_new p q \<bind> f)"
  using bbands.rst_any [where c = "(p, q)" and s = s] bbands_lives
  by (auto simp: bbands_live_def  split: if_splits)

lemma keltner_lives [alive]: "keltner_new p q r = Some s \<Longrightarrow> keltner_live (p, q, r) s"
  using keltner.new_any [where c = "(p, q, r)"] by (auto simp: keltner_live_def  split: if_splits)

lemma keltner_renews [renews]: "keltner_live (p, q, r) s \<Longrightarrow> (\<And>s0. keltner_live (p, q, r) s0 \<Longrightarrow> gives Q (f s0)) \<Longrightarrow> gives Q (keltner_new p q r \<bind> f)"
  using keltner.rst_any [where c = "(p, q, r)" and s = s] keltner_lives
  by (auto simp: keltner_live_def  split: if_splits)

lemma volatility_ratio_lives [alive]: "volatility_ratio_new p = Some s \<Longrightarrow> volatility_ratio_live p s"
  using volatility_ratio.new_any [where c = "p"] by (auto simp: volatility_ratio_live_def  split: if_splits)

lemma volatility_ratio_renews [renews]: "volatility_ratio_live p s \<Longrightarrow> (\<And>s0. volatility_ratio_live p s0 \<Longrightarrow> gives Q (f s0)) \<Longrightarrow> gives Q (volatility_ratio_new p \<bind> f)"
  using volatility_ratio.rst_any [where c = "p" and s = s] volatility_ratio_lives
  by (auto simp: volatility_ratio_live_def  split: if_splits)

lemma alligator_lives [alive]: "alligator_new p q r = Some s \<Longrightarrow> alligator_live (p, q, r) s"
  using alligator.new_any [where c = "(p, q, r)"] by (auto simp: alligator_live_def  split: if_splits)

lemma alligator_renews [renews]: "alligator_live (p, q, r) s \<Longrightarrow> (\<And>s0. alligator_live (p, q, r) s0 \<Longrightarrow> gives Q (f s0)) \<Longrightarrow> gives Q (alligator_new p q r \<bind> f)"
  using alligator.rst_any [where c = "(p, q, r)" and s = s] alligator_lives
  by (auto simp: alligator_live_def  split: if_splits)

lemma elder_ray_lives [alive]: "elder_ray_new p = Some s \<Longrightarrow> elder_ray_live p s"
  using elder_ray.new_any [where c = "p"] by (auto simp: elder_ray_live_def  split: if_splits)

lemma elder_ray_renews [renews]: "elder_ray_live p s \<Longrightarrow> (\<And>s0. elder_ray_live p s0 \<Longrightarrow> gives Q (f s0)) \<Longrightarrow> gives Q (elder_ray_new p \<bind> f)"
  using elder_ray.rst_any [where c = "p" and s = s] elder_ray_lives
  by (auto simp: elder_ray_live_def  split: if_splits)

lemma ha_lives [alive]: "heiken_ashi_new p = Some s \<Longrightarrow> ha_live p s"
  using hab.new_any [where c = "max p 1"] by (auto simp: ha_live_def heiken_ashi_new_start split: if_splits)

lemma ha_renews [renews]: "ha_live p s \<Longrightarrow> (\<And>s0. ha_live p s0 \<Longrightarrow> gives Q (f s0)) \<Longrightarrow> gives Q (heiken_ashi_new p \<bind> f)"
  using hab.rst_any [where c = "max p 1" and s = s] ha_lives
  by (auto simp: ha_live_def heiken_ashi_new_start split: if_splits)

lemma rwi_lives [alive]: "rwi_new p = Some s \<Longrightarrow> rwi_live p s"
  using rwi.new_any [where c = "p"] by (auto simp: rwi_live_def  split: if_splits)

lemma rwi_renews [renews]: "rwi_live p s \<Longrightarrow> (\<And>s0. rwi_live p s0 \<Longrightarrow> gives Q (f s0)) \<Longrightarrow> gives Q (rwi_new p \<bind> f)"
  using rwi.rst_any [where c = "p" and s = s] rwi_lives
  by (auto simp: rwi_live_def  split: if_splits)

lemma parabolic_sar_lives [alive]: "parabolic_sar_live (p, q) (parabolic_sar_new p q)"
  using parabolic_sar.new_any [where c = "(p, q)"] by (simp add: parabolic_sar_live_def any_fed_def )

lemma supertrend_lives [alive]: "supertrend_new p q = Some s \<Longrightarrow> supertrend_live (p, q) s"
  using supertrend.new_any [where c = "(p, q)"] by (auto simp: supertrend_live_def  split: if_splits)

lemma supertrend_renews [renews]: "supertrend_live (p, q) s \<Longrightarrow> (\<And>s0. supertrend_live (p, q) s0 \<Longrightarrow> gives Q (f s0)) \<Longrightarrow> gives Q (supertrend_new p q \<bind> f)"
  using supertrend.rst_any [where c = "(p, q)" and s = s] supertrend_lives
  by (auto simp: supertrend_live_def  split: if_splits)

lemma chop_lives [alive]: "chop_new p = Some s \<Longrightarrow> chop_live p s"
  using chop.new_any [where c = "p"] by (auto simp: chop_live_def  split: if_splits)

lemma chop_renews [renews]: "chop_live p s \<Longrightarrow> (\<And>s0. chop_live p s0 \<Longrightarrow> gives Q (f s0)) \<Longrightarrow> gives Q (chop_new p \<bind> f)"
  using chop.rst_any [where c = "p" and s = s] chop_lives
  by (auto simp: chop_live_def  split: if_splits)

lemma tema_same: "tema_live c s \<Longrightarrow> tema_live c s' \<Longrightarrow> tema_reset s' = tema_reset s"
  using tema.rst_same [of c s s'] by (simp add: tema_live_def)

lemma tema_steps [steps]:
  assumes l: "tema_live c s" and k: "\<And>s' v. tema_live c s' \<Longrightarrow> tema_reset s' = tema_reset s \<Longrightarrow> runs Q (f s' v)"
  shows "runs Q (tema_update s x \<bind> (\<lambda>(a, v). f a v))"
  by (rule runs_bindI [OF tema.upd_any [OF TrueI l [unfolded tema_live_def]]], rule k)
    (simp_all add: tema_same [OF l] tema_live_def)

lemma tema_again [alive]: "tema_live c s \<Longrightarrow> tema_live c (tema_reset s)"
  using tema.rst_live [of c s "tema_reset s"] by (simp add: tema_live_def)

lemma tema_fresh: "tema_new p = Some s \<Longrightarrow> tema_reset s = s"
  using tema.rst_new [where c = "p" and s = s] by (auto simp: tema_new_pos split: if_splits)

lemma ao_same: "ao_live c s \<Longrightarrow> ao_live c s' \<Longrightarrow> ao_reset s' = ao_reset s"
  using ao.rst_same [of c s s'] by (simp add: ao_live_def)

lemma ao_steps [steps]:
  assumes l: "ao_live c s" and k: "\<And>s' v. ao_live c s' \<Longrightarrow> ao_reset s' = ao_reset s \<Longrightarrow> runs Q (f s' v)"
  shows "runs Q (let (a, v) = ao_update s x in f a v)"
  by (rule runs_pure [OF ao.upd_any [OF TrueI l [unfolded ao_live_def]]], rule k)
    (simp_all add: ao_same [OF l] ao_live_def)

lemma ao_again [alive]: "ao_live c s \<Longrightarrow> ao_live c (ao_reset s)"
  using ao.rst_live [of c s "ao_reset s"] by (simp add: ao_live_def)

lemma ao_fresh: "ao_reset (ao_new p q) = ao_new p q"
  using ao.rst_new [where c = "(p, q)"] by simp

lemma kdj_same: "kdj_live c s \<Longrightarrow> kdj_live c s' \<Longrightarrow> kdj_reset s' = kdj_reset s"
  using kdj.rst_same [of c s s'] by (simp add: kdj_live_def)

lemma kdj_steps [steps]:
  assumes l: "kdj_live c s" and k: "\<And>s' v. kdj_live c s' \<Longrightarrow> kdj_reset s' = kdj_reset s \<Longrightarrow> runs Q (f s' v)"
  shows "runs Q (kdj_update s x \<bind> (\<lambda>(a, v). f a v))"
  by (rule runs_bindI [OF kdj.upd_any [OF TrueI l [unfolded kdj_live_def]]], rule k)
    (simp_all add: kdj_same [OF l] kdj_live_def)

lemma kdj_again [alive]: "kdj_live c s \<Longrightarrow> kdj_live c (kdj_reset s)"
  using kdj.rst_live [of c s "kdj_reset s"] by (simp add: kdj_live_def)

lemma kdj_fresh: "kdj_new p q r = Some s \<Longrightarrow> kdj_reset s = s"
  using kdj.rst_new [where c = "(p, q, r)" and s = s] by (auto simp: split: if_splits)

end
