(* ===== verification/Named_Trend.thy ===== *)
theory Named_Trend
  imports Named_Base
begin

text \<open>
  \<open>alm-strategy/src/named/trend\<close>: the trend strategies. Each has the record of its state, the constructor with its
  assertions, the answer to a bar, the reset, the states it can be in, and its instance of the contract.
\<close>

section \<open>\<open>AdxEmaCross\<close>\<close>

record adx_ema_cross =
  aec_fast :: ema
  aec_slow :: ema
  aec_adx :: adx
  aec_prev_fast :: "f64 option"
  aec_prev_slow :: "f64 option"
  aec_fast_period :: nat
  aec_slow_period :: nat
  aec_adx_period :: nat
  aec_adx_threshold :: f64

definition adx_ema_cross_new :: "nat \<Rightarrow> nat \<Rightarrow> nat \<Rightarrow> f64 \<Rightarrow> adx_ema_cross option" where
  "adx_ema_cross_new fast_period slow_period adx_period adx_threshold =
     do {
       i1 \<leftarrow> ema_new fast_period;
       i2 \<leftarrow> ema_new slow_period;
       i3 \<leftarrow> adx_new adx_period;
       Some \<lparr>aec_fast = i1, aec_slow = i2, aec_adx = i3, aec_prev_fast = None, aec_prev_slow = None,
           aec_fast_period = fast_period, aec_slow_period = slow_period, aec_adx_period = adx_period,
               aec_adx_threshold = adx_threshold\<rparr>
     }"

definition adx_ema_cross_on_bar :: "adx_ema_cross \<Rightarrow> bar \<Rightarrow> (adx_ema_cross \<times> signal list) option" where
  "adx_ema_cross_on_bar s b = do {
     (i1, fast) \<leftarrow> ema_update (aec_fast s) (b_close b);
     (i2, slow) \<leftarrow> ema_update (aec_slow s) (b_close b);
     (i3, adx_val) \<leftarrow> adx_update (aec_adx s) (b_high b, b_low b, b_close b);
     let s = s\<lparr>aec_fast := i1, aec_slow := i2, aec_adx := i3\<rparr>;
     Some (case (fast, slow, adx_val) of (Some f, Some sl, Some ad) \<Rightarrow>
       (case (aec_prev_fast s, aec_prev_slow s) of (Some pf, Some ps) \<Rightarrow>
       (s\<lparr>aec_prev_fast := Some f, aec_prev_slow := Some sl\<rparr>,
           if pf \<le> ps \<and> f > sl \<and> adv_adx ad > aec_adx_threshold s then long_at b 1
       else if pf \<ge> ps \<and> f < sl then exit_at b else [])
       | _ \<Rightarrow> (s\<lparr>aec_prev_fast := Some f, aec_prev_slow := Some sl\<rparr>, []))
       | _ \<Rightarrow> (s, []))
   }"

definition adx_ema_cross_reset :: "adx_ema_cross \<Rightarrow> adx_ema_cross option" where
  "adx_ema_cross_reset s = do {
     i1 \<leftarrow> ema_new (aec_fast_period s);
     i2 \<leftarrow> ema_new (aec_slow_period s);
     i3 \<leftarrow> adx_new (aec_adx_period s);
     Some (s\<lparr>aec_fast := i1, aec_slow := i2, aec_adx := i3, aec_prev_fast := None, aec_prev_slow := None\<rparr>)
   }"

definition adx_ema_cross_live :: "adx_ema_cross \<Rightarrow> bool" where
  "adx_ema_cross_live s \<longleftrightarrow> ema_live (aec_fast_period s) (aec_fast s) \<and> ema_live (aec_slow_period s) (aec_slow s) \<and>
     adx_live (aec_adx_period s) (aec_adx s)"

interpretation aec: restoring y adx_ema_cross_on_bar adx_ema_cross_reset adx_ema_cross_live for y
  by (rule restoringI; unfold adx_ema_cross_live_def adx_ema_cross_on_bar_def adx_ema_cross_reset_def; (elim conjE exE)?; ((erule steps renews | assumption)+)?)
    (auto simp: Let_def bar_of_def split: option.split intro: alive)

lemma aec_built: "adx_ema_cross_new fast_period slow_period adx_period adx_threshold = Some s \<Longrightarrow> adx_ema_cross_live s \<and> adx_ema_cross_reset s = Some s"
  by (auto simp: adx_ema_cross_new_def adx_ema_cross_live_def adx_ema_cross_reset_def bind_eq_Some_conv split: if_splits intro: alive)

section \<open>\<open>AlmaCross\<close>\<close>

record alma_cross =
  alc_fast :: alma
  alc_slow :: alma
  alc_prev_fast :: "f64 option"
  alc_prev_slow :: "f64 option"
  alc_fast_period :: nat
  alc_slow_period :: nat
  alc_offset :: f64
  alc_sigma :: f64

definition alma_cross_new :: "mathlib \<Rightarrow> nat \<Rightarrow> nat \<Rightarrow> f64 \<Rightarrow> f64 \<Rightarrow> alma_cross option" where
  "alma_cross_new lm fast_period slow_period offset sigma =
     (if fast_period < slow_period then
     do {
       i1 \<leftarrow> alma_new (libm.truncate lm) fast_period offset sigma;
       i2 \<leftarrow> alma_new (libm.truncate lm) slow_period offset sigma;
       Some \<lparr>alc_fast = i1, alc_slow = i2, alc_prev_fast = None, alc_prev_slow = None,
           alc_fast_period = fast_period, alc_slow_period = slow_period, alc_offset = offset, alc_sigma = sigma\<rparr>
     }
     else None)"

definition alma_cross_on_bar :: "alma_cross \<Rightarrow> bar \<Rightarrow> (alma_cross \<times> signal list) option" where
  "alma_cross_on_bar s b = do {
     let (i1, fast) = alma_update (alc_fast s) (b_close b);
     let (i2, slow) = alma_update (alc_slow s) (b_close b);
     let s = s\<lparr>alc_fast := i1, alc_slow := i2\<rparr>;
     Some (case (fast, slow) of (Some f, Some sl) \<Rightarrow>
       (case (alc_prev_fast s, alc_prev_slow s) of (Some pf, Some ps) \<Rightarrow>
       (s\<lparr>alc_prev_fast := Some f, alc_prev_slow := Some sl\<rparr>, if pf \<le> ps \<and> sl < f then long_at b 1
       else if pf \<ge> ps \<and> f < sl then exit_at b else [])
       | _ \<Rightarrow> (s\<lparr>alc_prev_fast := Some f, alc_prev_slow := Some sl\<rparr>, []))
       | _ \<Rightarrow> (s, []))
   }"

definition alma_cross_reset :: "mathlib \<Rightarrow> alma_cross \<Rightarrow> alma_cross option" where
  "alma_cross_reset lm s = do {
     i1 \<leftarrow> alma_new (libm.truncate lm) (alc_fast_period s) (alc_offset s) (alc_sigma s);
     i2 \<leftarrow> alma_new (libm.truncate lm) (alc_slow_period s) (alc_offset s) (alc_sigma s);
     Some (s\<lparr>alc_fast := i1, alc_slow := i2, alc_prev_fast := None, alc_prev_slow := None\<rparr>)
   }"

definition alma_cross_live :: "mathlib \<Rightarrow> alma_cross \<Rightarrow> bool" where
  "alma_cross_live lm s \<longleftrightarrow> alma_live (lm, alc_fast_period s, alc_offset s, alc_sigma s) (alc_fast s) \<and>
     alma_live (lm, alc_slow_period s, alc_offset s, alc_sigma s) (alc_slow s)"

interpretation alc: restoring y alma_cross_on_bar "alma_cross_reset lm" "alma_cross_live lm" for y lm
  by (rule restoringI; unfold alma_cross_live_def alma_cross_on_bar_def alma_cross_reset_def; (elim conjE exE)?; ((erule steps renews | assumption)+)?)
    (auto simp: Let_def bar_of_def split: option.split intro: alive)

lemma alc_built: "alma_cross_new lm fast_period slow_period offset sigma = Some s \<Longrightarrow> alma_cross_live lm s \<and> alma_cross_reset lm s = Some s"
  by (auto simp: alma_cross_new_def alma_cross_live_def alma_cross_reset_def bind_eq_Some_conv split: if_splits intro: alive)

section \<open>\<open>AroonTrend\<close>\<close>

record aroon_trend =
  art_aroon :: aroon
  art_period :: nat
  art_bull_threshold :: f64
  art_bear_threshold :: f64

definition aroon_trend_new :: "nat \<Rightarrow> f64 \<Rightarrow> f64 \<Rightarrow> aroon_trend option" where
  "aroon_trend_new period bull_threshold bear_threshold =
     do {
       i1 \<leftarrow> aroon_new period;
       Some \<lparr>art_aroon = i1, art_period = period, art_bull_threshold = bull_threshold,
           art_bear_threshold = bear_threshold\<rparr>
     }"

definition aroon_trend_on_bar :: "aroon_trend \<Rightarrow> bar \<Rightarrow> (aroon_trend \<times> signal list) option" where
  "aroon_trend_on_bar s b = do {
     (i1, v) \<leftarrow> aroon_update (art_aroon s) (b_high b, b_low b);
     let s = s\<lparr>art_aroon := i1\<rparr>;
     Some (case v of Some w \<Rightarrow> ((s,
         if arv_up w > art_bull_threshold s \<and> arv_down w < art_bear_threshold s then long_at b (fclamp ((arv_up w - arv_down w) / (lit 200) + (lit (1 / 2))) 0 1)
       else if arv_up w < arv_down w then exit_at b else [])) | None \<Rightarrow> (s, []))
   }"

definition aroon_trend_reset :: "aroon_trend \<Rightarrow> aroon_trend option" where
  "aroon_trend_reset s = do {
     i1 \<leftarrow> aroon_new (art_period s);
     Some (s\<lparr>art_aroon := i1\<rparr>)
   }"

definition aroon_trend_live :: "aroon_trend \<Rightarrow> bool" where
  "aroon_trend_live s \<longleftrightarrow> aroon_live (art_period s) (art_aroon s)"

interpretation art: restoring y aroon_trend_on_bar aroon_trend_reset aroon_trend_live for y
  by (rule restoringI; unfold aroon_trend_live_def aroon_trend_on_bar_def aroon_trend_reset_def; (elim conjE exE)?; ((erule steps renews | assumption)+)?)
    (auto simp: Let_def bar_of_def split: option.split intro: alive)

lemma art_built: "aroon_trend_new period bull_threshold bear_threshold = Some s \<Longrightarrow> aroon_trend_live s \<and> aroon_trend_reset s = Some s"
  by (auto simp: aroon_trend_new_def aroon_trend_live_def aroon_trend_reset_def bind_eq_Some_conv split: if_splits intro: alive)

section \<open>\<open>DemaCrossover\<close>\<close>

record dema_crossover =
  dec_fast :: dema
  dec_slow :: dema
  dec_fast_p :: nat
  dec_slow_p :: nat
  dec_prev_fast :: "f64 option"
  dec_prev_slow :: "f64 option"

definition dema_crossover_new :: "nat \<Rightarrow> nat \<Rightarrow> dema_crossover option" where
  "dema_crossover_new fast slow =
     do {
       i1 \<leftarrow> dema_new fast;
       i2 \<leftarrow> dema_new slow;
       Some \<lparr>dec_fast = i1, dec_slow = i2, dec_fast_p = fast, dec_slow_p = slow, dec_prev_fast = None,
           dec_prev_slow = None\<rparr>
     }"

definition dema_crossover_on_bar :: "dema_crossover \<Rightarrow> bar \<Rightarrow> (dema_crossover \<times> signal list) option" where
  "dema_crossover_on_bar s b = do {
     (i1, fv) \<leftarrow> dema_update (dec_fast s) (b_close b);
     (i2, sv) \<leftarrow> dema_update (dec_slow s) (b_close b);
     let s = s\<lparr>dec_fast := i1, dec_slow := i2\<rparr>;
     Some (case (fv, sv) of (Some f, Some sl) \<Rightarrow>
       (case (dec_prev_fast s, dec_prev_slow s) of (Some pf, Some ps) \<Rightarrow>
       (s\<lparr>dec_prev_fast := Some f, dec_prev_slow := Some sl\<rparr>, if pf \<le> ps \<and> sl < f then long_at b 1
       else if pf \<ge> ps \<and> f < sl then exit_at b else [])
       | _ \<Rightarrow> (s\<lparr>dec_prev_fast := Some f, dec_prev_slow := Some sl\<rparr>, []))
       | _ \<Rightarrow> (s, []))
   }"

definition dema_crossover_reset :: "dema_crossover \<Rightarrow> dema_crossover option" where
  "dema_crossover_reset s = do {
     i1 \<leftarrow> dema_new (dec_fast_p s);
     i2 \<leftarrow> dema_new (dec_slow_p s);
     Some (s\<lparr>dec_fast := i1, dec_slow := i2, dec_prev_fast := None, dec_prev_slow := None\<rparr>)
   }"

definition dema_crossover_live :: "dema_crossover \<Rightarrow> bool" where
  "dema_crossover_live s \<longleftrightarrow> dema_live (dec_fast_p s) (dec_fast s) \<and> dema_live (dec_slow_p s) (dec_slow s)"

interpretation dec: restoring y dema_crossover_on_bar dema_crossover_reset dema_crossover_live for y
  by (rule restoringI; unfold dema_crossover_live_def dema_crossover_on_bar_def dema_crossover_reset_def; (elim conjE exE)?; ((erule steps renews | assumption)+)?)
    (auto simp: Let_def bar_of_def split: option.split intro: alive)

lemma dec_built: "dema_crossover_new fast slow = Some s \<Longrightarrow> dema_crossover_live s \<and> dema_crossover_reset s = Some s"
  by (auto simp: dema_crossover_new_def dema_crossover_live_def dema_crossover_reset_def bind_eq_Some_conv split: if_splits intro: alive)

section \<open>\<open>DmiAdx\<close>\<close>

record dmi_adx =
  dma_adx :: adx
  dma_prev_plus_di :: "f64 option"
  dma_prev_minus_di :: "f64 option"
  dma_adx_threshold :: f64
  dma_period :: nat

definition dmi_adx_new :: "nat \<Rightarrow> f64 \<Rightarrow> dmi_adx option" where
  "dmi_adx_new period adx_threshold =
     do {
       i1 \<leftarrow> adx_new period;
       Some \<lparr>dma_adx = i1, dma_prev_plus_di = None, dma_prev_minus_di = None,
           dma_adx_threshold = adx_threshold, dma_period = period\<rparr>
     }"

definition dmi_adx_on_bar :: "dmi_adx \<Rightarrow> bar \<Rightarrow> (dmi_adx \<times> signal list) option" where
  "dmi_adx_on_bar s b = do {
     (i1, av) \<leftarrow> adx_update (dma_adx s) (b_high b, b_low b, b_close b);
     let s = s\<lparr>dma_adx := i1\<rparr>;
     Some (case av of Some v \<Rightarrow> (let f = adv_plus_di v; sl = adv_minus_di v in
       case (dma_prev_plus_di s, dma_prev_minus_di s) of (Some pf, Some ps) \<Rightarrow>
       (s\<lparr>dma_prev_plus_di := Some f, dma_prev_minus_di := Some sl\<rparr>,
           if pf \<le> ps \<and> f > sl \<and> adv_adx v > dma_adx_threshold s then long_at b (adv_adx v / (lit 100))
       else if ps \<le> pf \<and> sl > f then exit_at b else [])
       | _ \<Rightarrow> (s\<lparr>dma_prev_plus_di := Some f, dma_prev_minus_di := Some sl\<rparr>, []))
       | None \<Rightarrow> (s, []))
   }"

definition dmi_adx_reset :: "dmi_adx \<Rightarrow> dmi_adx option" where
  "dmi_adx_reset s = do {
     i1 \<leftarrow> adx_new (dma_period s);
     Some (s\<lparr>dma_adx := i1, dma_prev_plus_di := None, dma_prev_minus_di := None\<rparr>)
   }"

definition dmi_adx_live :: "dmi_adx \<Rightarrow> bool" where
  "dmi_adx_live s \<longleftrightarrow> adx_live (dma_period s) (dma_adx s)"

interpretation dma: restoring y dmi_adx_on_bar dmi_adx_reset dmi_adx_live for y
  by (rule restoringI; unfold dmi_adx_live_def dmi_adx_on_bar_def dmi_adx_reset_def; (elim conjE exE)?; ((erule steps renews | assumption)+)?)
    (auto simp: Let_def bar_of_def split: option.split intro: alive)

lemma dma_built: "dmi_adx_new period adx_threshold = Some s \<Longrightarrow> dmi_adx_live s \<and> dmi_adx_reset s = Some s"
  by (auto simp: dmi_adx_new_def dmi_adx_live_def dmi_adx_reset_def bind_eq_Some_conv split: if_splits intro: alive)

section \<open>\<open>GmmaCrossover\<close>\<close>

record gmma_crossover =
  gmc_gmma :: gmma
  gmc_prev_short_above :: "bool option"

definition gmma_crossover_new :: "gmma_crossover option" where
  "gmma_crossover_new =
     do {
       i1 \<leftarrow> gmma_new;
       Some \<lparr>gmc_gmma = i1, gmc_prev_short_above = None\<rparr>
     }"

definition gmma_crossover_on_bar :: "gmma_crossover \<Rightarrow> bar \<Rightarrow> (gmma_crossover \<times> signal list) option" where
  "gmma_crossover_on_bar s b = do {
     (i1, gv) \<leftarrow> gmma_update (gmc_gmma s) (b_close b);
     let s = s\<lparr>gmc_gmma := i1\<rparr>;
     Some (case gv of Some v \<Rightarrow> (let short_avg = fsum (gmv_short v) / (lit 6); long_avg = fsum (gmv_long v) / (lit 6); short_above = short_avg > long_avg in
       case gmc_prev_short_above s of Some p \<Rightarrow> (s\<lparr>gmc_prev_short_above := Some short_above\<rparr>, if \<not> p \<and> short_above then long_at b 1
       else if p \<and> \<not> short_above then exit_at b else [])
       | None \<Rightarrow> (s\<lparr>gmc_prev_short_above := Some short_above\<rparr>, []))
       | None \<Rightarrow> (s, []))
   }"

definition gmma_crossover_reset :: "gmma_crossover \<Rightarrow> gmma_crossover option" where
  "gmma_crossover_reset s = do {
     i1 \<leftarrow> gmma_new;
     Some (s\<lparr>gmc_gmma := i1, gmc_prev_short_above := None\<rparr>)
   }"

definition gmma_crossover_live :: "gmma_crossover \<Rightarrow> bool" where
  "gmma_crossover_live s \<longleftrightarrow> gmma_live () (gmc_gmma s)"

interpretation gmc: restoring y gmma_crossover_on_bar gmma_crossover_reset gmma_crossover_live for y
  by (rule restoringI; unfold gmma_crossover_live_def gmma_crossover_on_bar_def gmma_crossover_reset_def; (elim conjE exE)?; ((erule steps renews | assumption)+)?)
    (auto simp: Let_def bar_of_def split: option.split intro: alive)

lemma gmc_built: "gmma_crossover_new  = Some s \<Longrightarrow> gmma_crossover_live s \<and> gmma_crossover_reset s = Some s"
  by (auto simp: gmma_crossover_new_def gmma_crossover_live_def gmma_crossover_reset_def bind_eq_Some_conv split: if_splits intro: alive)

section \<open>\<open>HmaCrossover\<close>\<close>

record hma_crossover =
  hmc_fast :: hma
  hmc_slow :: hma
  hmc_fast_period :: nat
  hmc_slow_period :: nat
  hmc_prev_fast :: "f64 option"
  hmc_prev_slow :: "f64 option"

definition hma_crossover_new :: "nat \<Rightarrow> nat \<Rightarrow> hma_crossover option" where
  "hma_crossover_new fast_period slow_period =
     (if fast_period < slow_period then
     do {
       i1 \<leftarrow> hma_new fast_period;
       i2 \<leftarrow> hma_new slow_period;
       Some \<lparr>hmc_fast = i1, hmc_slow = i2, hmc_fast_period = fast_period, hmc_slow_period = slow_period,
           hmc_prev_fast = None, hmc_prev_slow = None\<rparr>
     }
     else None)"

definition hma_crossover_on_bar :: "hma_crossover \<Rightarrow> bar \<Rightarrow> (hma_crossover \<times> signal list) option" where
  "hma_crossover_on_bar s b = do {
     (i1, fv) \<leftarrow> hma_update (hmc_fast s) (b_close b);
     (i2, sv) \<leftarrow> hma_update (hmc_slow s) (b_close b);
     let s = s\<lparr>hmc_fast := i1, hmc_slow := i2\<rparr>;
     Some (case (fv, sv) of (Some f, Some sl) \<Rightarrow>
       (case (hmc_prev_fast s, hmc_prev_slow s) of (Some pf, Some ps) \<Rightarrow>
       (s\<lparr>hmc_prev_fast := Some f, hmc_prev_slow := Some sl\<rparr>, if pf \<le> ps \<and> sl < f then long_at b 1
       else if pf \<ge> ps \<and> f < sl then exit_at b else [])
       | _ \<Rightarrow> (s\<lparr>hmc_prev_fast := Some f, hmc_prev_slow := Some sl\<rparr>, []))
       | _ \<Rightarrow> (s, []))
   }"

definition hma_crossover_reset :: "hma_crossover \<Rightarrow> hma_crossover option" where
  "hma_crossover_reset s = do {
     i1 \<leftarrow> hma_new (hmc_fast_period s);
     i2 \<leftarrow> hma_new (hmc_slow_period s);
     Some (s\<lparr>hmc_fast := i1, hmc_slow := i2, hmc_prev_fast := None, hmc_prev_slow := None\<rparr>)
   }"

definition hma_crossover_live :: "hma_crossover \<Rightarrow> bool" where
  "hma_crossover_live s \<longleftrightarrow> hma_live (hmc_fast_period s) (hmc_fast s) \<and> hma_live (hmc_slow_period s) (hmc_slow s)"

interpretation hmc: restoring y hma_crossover_on_bar hma_crossover_reset hma_crossover_live for y
  by (rule restoringI; unfold hma_crossover_live_def hma_crossover_on_bar_def hma_crossover_reset_def; (elim conjE exE)?; ((erule steps renews | assumption)+)?)
    (auto simp: Let_def bar_of_def split: option.split intro: alive)

lemma hmc_built: "hma_crossover_new fast_period slow_period = Some s \<Longrightarrow> hma_crossover_live s \<and> hma_crossover_reset s = Some s"
  by (auto simp: hma_crossover_new_def hma_crossover_live_def hma_crossover_reset_def bind_eq_Some_conv split: if_splits intro: alive)

section \<open>\<open>IchimokuCloud\<close>\<close>

record ichimoku_cloud =
  icl_ichi :: ichimoku
  icl_tenkan :: nat
  icl_kijun :: nat
  icl_senkou_b :: nat

definition ichimoku_cloud_new :: "nat \<Rightarrow> nat \<Rightarrow> nat \<Rightarrow> ichimoku_cloud option" where
  "ichimoku_cloud_new tenkan kijun senkou_b =
     Some \<lparr>icl_ichi = ichimoku_new tenkan kijun senkou_b, icl_tenkan = tenkan, icl_kijun = kijun,
         icl_senkou_b = senkou_b\<rparr>"

definition ichimoku_cloud_on_bar :: "ichimoku_cloud \<Rightarrow> bar \<Rightarrow> (ichimoku_cloud \<times> signal list) option" where
  "ichimoku_cloud_on_bar s b = do {
     let (i1, iv) = ichimoku_update (icl_ichi s) (b_high b, b_low b, b_close b);
     let s = s\<lparr>icl_ichi := i1\<rparr>;
     Some (case iv of Some v \<Rightarrow> ((s, if icv_above_cloud v then long_at b 1
       else if icv_below_cloud v then exit_at b else [])) | None \<Rightarrow> (s, []))
   }"

definition ichimoku_cloud_reset :: "ichimoku_cloud \<Rightarrow> ichimoku_cloud option" where
  "ichimoku_cloud_reset s = Some (s\<lparr>icl_ichi := ichimoku_new (icl_tenkan s) (icl_kijun s) (icl_senkou_b s)\<rparr>)"

definition ichimoku_cloud_live :: "ichimoku_cloud \<Rightarrow> bool" where
  "ichimoku_cloud_live s \<longleftrightarrow> ichimoku_live (icl_tenkan s, icl_kijun s, icl_senkou_b s) (icl_ichi s)"

interpretation icl: restoring y ichimoku_cloud_on_bar ichimoku_cloud_reset ichimoku_cloud_live for y
  by (rule restoringI; unfold ichimoku_cloud_live_def ichimoku_cloud_on_bar_def ichimoku_cloud_reset_def; (elim conjE exE)?; ((erule steps renews | assumption)+)?)
    (auto simp: Let_def bar_of_def split: option.split intro: alive)

lemma icl_built: "ichimoku_cloud_new tenkan kijun senkou_b = Some s \<Longrightarrow> ichimoku_cloud_live s \<and> ichimoku_cloud_reset s = Some s"
  by (auto simp: ichimoku_cloud_new_def ichimoku_cloud_live_def ichimoku_cloud_reset_def bind_eq_Some_conv split: if_splits intro: alive)

section \<open>\<open>IchimokuCross\<close>\<close>

record ichimoku_cross =
  icx_ichi :: ichimoku
  icx_tenkan :: nat
  icx_kijun :: nat
  icx_senkou_b :: nat
  icx_prev_tenkan :: "f64 option"
  icx_prev_kijun :: "f64 option"

definition ichimoku_cross_new :: "nat \<Rightarrow> nat \<Rightarrow> nat \<Rightarrow> ichimoku_cross option" where
  "ichimoku_cross_new tenkan kijun senkou_b =
     Some \<lparr>icx_ichi = ichimoku_new tenkan kijun senkou_b, icx_tenkan = tenkan, icx_kijun = kijun,
         icx_senkou_b = senkou_b, icx_prev_tenkan = None, icx_prev_kijun = None\<rparr>"

definition ichimoku_cross_on_bar :: "ichimoku_cross \<Rightarrow> bar \<Rightarrow> (ichimoku_cross \<times> signal list) option" where
  "ichimoku_cross_on_bar s b = do {
     let (i1, iv) = ichimoku_update (icx_ichi s) (b_high b, b_low b, b_close b);
     let s = s\<lparr>icx_ichi := i1\<rparr>;
     Some (case iv of Some v \<Rightarrow> (let f = icv_tenkan v; sl = icv_kijun v in
       case (icx_prev_tenkan s, icx_prev_kijun s) of (Some pf, Some ps) \<Rightarrow>
       (s\<lparr>icx_prev_tenkan := Some f, icx_prev_kijun := Some sl\<rparr>,
           if pf \<le> ps \<and> sl < f \<and> icv_above_cloud v then long_at b 1
       else if pf \<ge> ps \<and> f < sl then exit_at b else [])
       | _ \<Rightarrow> (s\<lparr>icx_prev_tenkan := Some f, icx_prev_kijun := Some sl\<rparr>, []))
       | None \<Rightarrow> (s, []))
   }"

definition ichimoku_cross_reset :: "ichimoku_cross \<Rightarrow> ichimoku_cross option" where
  "ichimoku_cross_reset s = Some (s\<lparr>icx_ichi := ichimoku_new (icx_tenkan s) (icx_kijun s) (icx_senkou_b s),
      icx_prev_tenkan := None, icx_prev_kijun := None\<rparr>)"

definition ichimoku_cross_live :: "ichimoku_cross \<Rightarrow> bool" where
  "ichimoku_cross_live s \<longleftrightarrow> ichimoku_live (icx_tenkan s, icx_kijun s, icx_senkou_b s) (icx_ichi s)"

interpretation icx: restoring y ichimoku_cross_on_bar ichimoku_cross_reset ichimoku_cross_live for y
  by (rule restoringI; unfold ichimoku_cross_live_def ichimoku_cross_on_bar_def ichimoku_cross_reset_def; (elim conjE exE)?; ((erule steps renews | assumption)+)?)
    (auto simp: Let_def bar_of_def split: option.split intro: alive)

lemma icx_built: "ichimoku_cross_new tenkan kijun senkou_b = Some s \<Longrightarrow> ichimoku_cross_live s \<and> ichimoku_cross_reset s = Some s"
  by (auto simp: ichimoku_cross_new_def ichimoku_cross_live_def ichimoku_cross_reset_def bind_eq_Some_conv split: if_splits intro: alive)

section \<open>\<open>KamaStrategy\<close>\<close>

record kama_strategy =
  kas_er_period :: nat
  kas_fast :: nat
  kas_slow :: nat
  kas_kama :: kama
  kas_prev_above :: "bool option"

definition kama_strategy_new :: "nat \<Rightarrow> nat \<Rightarrow> nat \<Rightarrow> kama_strategy option" where
  "kama_strategy_new er_period' fast slow =
     do {
       i1 \<leftarrow> kama_new er_period' fast slow;
       Some \<lparr>kas_er_period = er_period', kas_fast = fast, kas_slow = slow, kas_kama = i1, kas_prev_above = None\<rparr>
     }"

definition kama_strategy_on_bar :: "kama_strategy \<Rightarrow> bar \<Rightarrow> (kama_strategy \<times> signal list) option" where
  "kama_strategy_on_bar s b = do {
     let (i1, kv) = kama_update (kas_kama s) (b_close b);
     let s = s\<lparr>kas_kama := i1\<rparr>;
     Some (case kv of Some k \<Rightarrow> (let above = b_close b > k in
       case kas_prev_above s of Some p \<Rightarrow> (s\<lparr>kas_prev_above := Some above\<rparr>,
           if above \<and> \<not> p then long_at b (fclamp ((b_close b - k) / k) 0 1)
       else if \<not> above \<and> p then exit_at b else [])
       | None \<Rightarrow> (s\<lparr>kas_prev_above := Some above\<rparr>, [])) | None \<Rightarrow> (s, []))
   }"

definition kama_strategy_reset :: "kama_strategy \<Rightarrow> kama_strategy option" where
  "kama_strategy_reset s = do {
     i1 \<leftarrow> kama_new (kas_er_period s) (kas_fast s) (kas_slow s);
     Some (s\<lparr>kas_kama := i1, kas_prev_above := None\<rparr>)
   }"

definition kama_strategy_live :: "kama_strategy \<Rightarrow> bool" where
  "kama_strategy_live s \<longleftrightarrow> kama_live (kas_er_period s, kas_fast s, kas_slow s) (kas_kama s)"

interpretation kas: restoring y kama_strategy_on_bar kama_strategy_reset kama_strategy_live for y
  by (rule restoringI; unfold kama_strategy_live_def kama_strategy_on_bar_def kama_strategy_reset_def; (elim conjE exE)?; ((erule steps renews | assumption)+)?)
    (auto simp: Let_def bar_of_def split: option.split intro: alive)

lemma kas_built: "kama_strategy_new er_period' fast slow = Some s \<Longrightarrow> kama_strategy_live s \<and> kama_strategy_reset s = Some s"
  by (auto simp: kama_strategy_new_def kama_strategy_live_def kama_strategy_reset_def bind_eq_Some_conv split: if_splits intro: alive)

section \<open>\<open>LsmaCross\<close>\<close>

record lsma_cross =
  lsc_fast :: lsma
  lsc_slow :: lsma
  lsc_prev_fast :: "f64 option"
  lsc_prev_slow :: "f64 option"
  lsc_fast_period :: nat
  lsc_slow_period :: nat

definition lsma_cross_new :: "nat \<Rightarrow> nat \<Rightarrow> lsma_cross option" where
  "lsma_cross_new fast_period slow_period =
     (if fast_period < slow_period then
     do {
       i1 \<leftarrow> lsma_new fast_period;
       i2 \<leftarrow> lsma_new slow_period;
       Some \<lparr>lsc_fast = i1, lsc_slow = i2, lsc_prev_fast = None, lsc_prev_slow = None,
           lsc_fast_period = fast_period, lsc_slow_period = slow_period\<rparr>
     }
     else None)"

definition lsma_cross_on_bar :: "lsma_cross \<Rightarrow> bar \<Rightarrow> (lsma_cross \<times> signal list) option" where
  "lsma_cross_on_bar s b = do {
     let (i1, fast) = lsma_update (lsc_fast s) (b_close b);
     let (i2, slow) = lsma_update (lsc_slow s) (b_close b);
     let s = s\<lparr>lsc_fast := i1, lsc_slow := i2\<rparr>;
     Some (case (fast, slow) of (Some fv, Some sv) \<Rightarrow> (let f = lsv_value fv; sl = lsv_value sv in
       case (lsc_prev_fast s, lsc_prev_slow s) of (Some pf, Some ps) \<Rightarrow>
       (s\<lparr>lsc_prev_fast := Some f, lsc_prev_slow := Some sl\<rparr>, if pf \<le> ps \<and> sl < f then long_at b 1
       else if pf \<ge> ps \<and> f < sl then exit_at b else [])
       | _ \<Rightarrow> (s\<lparr>lsc_prev_fast := Some f, lsc_prev_slow := Some sl\<rparr>, []))
       | _ \<Rightarrow> (s, []))
   }"

definition lsma_cross_reset :: "lsma_cross \<Rightarrow> lsma_cross option" where
  "lsma_cross_reset s = do {
     i1 \<leftarrow> lsma_new (lsc_fast_period s);
     i2 \<leftarrow> lsma_new (lsc_slow_period s);
     Some (s\<lparr>lsc_fast := i1, lsc_slow := i2, lsc_prev_fast := None, lsc_prev_slow := None\<rparr>)
   }"

definition lsma_cross_live :: "lsma_cross \<Rightarrow> bool" where
  "lsma_cross_live s \<longleftrightarrow> lsma_live (lsc_fast_period s) (lsc_fast s) \<and> lsma_live (lsc_slow_period s) (lsc_slow s)"

interpretation lsc: restoring y lsma_cross_on_bar lsma_cross_reset lsma_cross_live for y
  by (rule restoringI; unfold lsma_cross_live_def lsma_cross_on_bar_def lsma_cross_reset_def; (elim conjE exE)?; ((erule steps renews | assumption)+)?)
    (auto simp: Let_def bar_of_def split: option.split intro: alive)

lemma lsc_built: "lsma_cross_new fast_period slow_period = Some s \<Longrightarrow> lsma_cross_live s \<and> lsma_cross_reset s = Some s"
  by (auto simp: lsma_cross_new_def lsma_cross_live_def lsma_cross_reset_def bind_eq_Some_conv split: if_splits intro: alive)

section \<open>\<open>MaCrossover\<close>\<close>

record ma_crossover =
  mac_fast :: ema
  mac_slow :: ema
  mac_prev_fast :: "f64 option"
  mac_prev_slow :: "f64 option"
  mac_fast_period :: nat
  mac_slow_period :: nat

definition ma_crossover_new :: "nat \<Rightarrow> nat \<Rightarrow> ma_crossover option" where
  "ma_crossover_new fast slow =
     (if fast < slow then
     do {
       i1 \<leftarrow> ema_new fast;
       i2 \<leftarrow> ema_new slow;
       Some \<lparr>mac_fast = i1, mac_slow = i2, mac_prev_fast = None, mac_prev_slow = None, mac_fast_period = fast,
           mac_slow_period = slow\<rparr>
     }
     else None)"

definition ma_crossover_on_bar :: "ma_crossover \<Rightarrow> bar \<Rightarrow> (ma_crossover \<times> signal list) option" where
  "ma_crossover_on_bar s b = do {
     (i1, fast) \<leftarrow> ema_update (mac_fast s) (b_close b);
     (i2, slow) \<leftarrow> ema_update (mac_slow s) (b_close b);
     let s = s\<lparr>mac_fast := i1, mac_slow := i2\<rparr>;
     Some (case (fast, slow) of (Some f, Some sl) \<Rightarrow>
       (case (mac_prev_fast s, mac_prev_slow s) of (Some pf, Some ps) \<Rightarrow>
       (s\<lparr>mac_prev_fast := Some f, mac_prev_slow := Some sl\<rparr>, if pf \<le> ps \<and> sl < f then long_at b 1
       else if pf \<ge> ps \<and> f < sl then exit_at b else [])
       | _ \<Rightarrow> (s\<lparr>mac_prev_fast := Some f, mac_prev_slow := Some sl\<rparr>, []))
       | _ \<Rightarrow> (s, []))
   }"

definition ma_crossover_reset :: "ma_crossover \<Rightarrow> ma_crossover option" where
  "ma_crossover_reset s = do {
     i1 \<leftarrow> ema_new (mac_fast_period s);
     i2 \<leftarrow> ema_new (mac_slow_period s);
     Some (s\<lparr>mac_fast := i1, mac_slow := i2, mac_prev_fast := None, mac_prev_slow := None\<rparr>)
   }"

definition ma_crossover_live :: "ma_crossover \<Rightarrow> bool" where
  "ma_crossover_live s \<longleftrightarrow> ema_live (mac_fast_period s) (mac_fast s) \<and> ema_live (mac_slow_period s) (mac_slow s)"

interpretation mac: restoring y ma_crossover_on_bar ma_crossover_reset ma_crossover_live for y
  by (rule restoringI; unfold ma_crossover_live_def ma_crossover_on_bar_def ma_crossover_reset_def; (elim conjE exE)?; ((erule steps renews | assumption)+)?)
    (auto simp: Let_def bar_of_def split: option.split intro: alive)

lemma mac_built: "ma_crossover_new fast slow = Some s \<Longrightarrow> ma_crossover_live s \<and> ma_crossover_reset s = Some s"
  by (auto simp: ma_crossover_new_def ma_crossover_live_def ma_crossover_reset_def bind_eq_Some_conv split: if_splits intro: alive)

section \<open>\<open>MaPullback\<close>\<close>

record ma_pullback =
  map_ma :: sma
  map_proximity_pct :: f64
  map_near_ma :: bool
  map_in_position :: bool
  map_ma_period :: nat

definition ma_pullback_new :: "nat \<Rightarrow> ma_pullback option" where
  "ma_pullback_new ma_period =
     do {
       i1 \<leftarrow> sma_new ma_period;
       Some \<lparr>map_ma = i1, map_proximity_pct = lit (1 / 50), map_near_ma = False, map_in_position = False,
           map_ma_period = ma_period\<rparr>
     }"

definition ma_pullback_on_bar :: "ma_pullback \<Rightarrow> bar \<Rightarrow> (ma_pullback \<times> signal list) option" where
  "ma_pullback_on_bar s b = do {
     (i1, mv) \<leftarrow> sma_update (map_ma s) (b_close b);
     let s = s\<lparr>map_ma := i1\<rparr>;
     Some (case mv of Some m \<Rightarrow> (if map_in_position s then if b_close b < m then (s\<lparr>map_in_position := False, map_near_ma := False\<rparr>, exit_at b) else (s, [])
       else if b_close b < m then (s\<lparr>map_near_ma := False\<rparr>, [])
       else let proximity = (b_close b - m) / m in
         if proximity \<le> map_proximity_pct s then (s\<lparr>map_near_ma := True\<rparr>, [])
         else if map_near_ma s \<and> proximity > map_proximity_pct s then (s\<lparr>map_near_ma := False,
             map_in_position := True\<rparr>, long_at b 1)
         else (s, [])) | None \<Rightarrow> (s, []))
   }"

definition ma_pullback_reset :: "ma_pullback \<Rightarrow> ma_pullback option" where
  "ma_pullback_reset s = do {
     i1 \<leftarrow> sma_new (map_ma_period s);
     Some (s\<lparr>map_ma := i1, map_near_ma := False, map_in_position := False\<rparr>)
   }"

definition ma_pullback_live :: "ma_pullback \<Rightarrow> bool" where
  "ma_pullback_live s \<longleftrightarrow> sma_live (map_ma_period s) (map_ma s)"

interpretation map: restoring y ma_pullback_on_bar ma_pullback_reset ma_pullback_live for y
  by (rule restoringI; unfold ma_pullback_live_def ma_pullback_on_bar_def ma_pullback_reset_def; (elim conjE exE)?; ((erule steps renews | assumption)+)?)
    (auto simp: Let_def bar_of_def split: option.split intro: alive)

lemma map_built: "ma_pullback_new ma_period = Some s \<Longrightarrow> ma_pullback_live s \<and> ma_pullback_reset s = Some s"
  by (auto simp: ma_pullback_new_def ma_pullback_live_def ma_pullback_reset_def bind_eq_Some_conv split: if_splits intro: alive)

section \<open>\<open>ScalpingEma\<close>\<close>

record scalping_ema =
  sce_fast :: ema
  sce_slow :: ema
  sce_atr :: atr
  sce_atr_ma :: ema
  sce_fast_p :: nat
  sce_slow_p :: nat
  sce_atr_p :: nat
  sce_atr_ma_p :: nat
  sce_prev_fast :: "f64 option"
  sce_prev_slow :: "f64 option"

definition scalping_ema_new :: "nat \<Rightarrow> nat \<Rightarrow> nat \<Rightarrow> nat \<Rightarrow> scalping_ema option" where
  "scalping_ema_new fast slow atr_period atr_ma_period =
     do {
       i1 \<leftarrow> ema_new fast;
       i2 \<leftarrow> ema_new slow;
       i3 \<leftarrow> atr_ind_new atr_period;
       i4 \<leftarrow> ema_new atr_ma_period;
       Some \<lparr>sce_fast = i1, sce_slow = i2, sce_atr = i3, sce_atr_ma = i4, sce_fast_p = fast,
           sce_slow_p = slow, sce_atr_p = atr_period, sce_atr_ma_p = atr_ma_period, sce_prev_fast = None,
               sce_prev_slow = None\<rparr>
     }"

definition scalping_ema_on_bar :: "scalping_ema \<Rightarrow> bar \<Rightarrow> (scalping_ema \<times> signal list) option" where
  "scalping_ema_on_bar s b = do {
     (i1, fast) \<leftarrow> ema_update (sce_fast s) (b_close b);
     (i2, slow) \<leftarrow> ema_update (sce_slow s) (b_close b);
     (i3, atr_val) \<leftarrow> atr_update (sce_atr s) (b_high b, b_low b, b_close b);
     (i4, atr_ma) \<leftarrow> feed ema_update (sce_atr_ma s) (map_option av_atr atr_val);
     let s = s\<lparr>sce_fast := i1, sce_slow := i2, sce_atr := i3, sce_atr_ma := i4\<rparr>;
     Some (case (fast, slow, atr_val, atr_ma) of (Some f, Some sl, Some a, Some a_ma) \<Rightarrow>
       (case (sce_prev_fast s, sce_prev_slow s) of (Some pf, Some ps) \<Rightarrow>
       (s\<lparr>sce_prev_fast := Some f, sce_prev_slow := Some sl\<rparr>,
           if pf \<le> ps \<and> sl < f \<and> av_atr a > a_ma then long_at b (fclamp ((f - sl) / sl) 0 1)
       else if pf \<ge> ps \<and> f < sl then exit_at b else [])
       | _ \<Rightarrow> (s\<lparr>sce_prev_fast := Some f, sce_prev_slow := Some sl\<rparr>, []))
       | _ \<Rightarrow> (s\<lparr>sce_prev_fast := fast, sce_prev_slow := slow\<rparr>, []))
   }"

definition scalping_ema_reset :: "scalping_ema \<Rightarrow> scalping_ema option" where
  "scalping_ema_reset s = do {
     i1 \<leftarrow> ema_new (sce_fast_p s);
     i2 \<leftarrow> ema_new (sce_slow_p s);
     i3 \<leftarrow> atr_ind_new (sce_atr_p s);
     i4 \<leftarrow> ema_new (sce_atr_ma_p s);
     Some (s\<lparr>sce_fast := i1, sce_slow := i2, sce_atr := i3, sce_atr_ma := i4, sce_prev_fast := None,
         sce_prev_slow := None\<rparr>)
   }"

definition scalping_ema_live :: "scalping_ema \<Rightarrow> bool" where
  "scalping_ema_live s \<longleftrightarrow> ema_live (sce_fast_p s) (sce_fast s) \<and> ema_live (sce_slow_p s) (sce_slow s) \<and> atr_live (sce_atr_p s) (sce_atr s) \<and>
     ema_live (sce_atr_ma_p s) (sce_atr_ma s)"

interpretation sce: restoring y scalping_ema_on_bar scalping_ema_reset scalping_ema_live for y
  by (rule restoringI; unfold scalping_ema_live_def scalping_ema_on_bar_def scalping_ema_reset_def; (elim conjE exE)?; ((erule steps renews | assumption)+)?)
    (auto simp: Let_def bar_of_def split: option.split intro: alive)

lemma sce_built: "scalping_ema_new fast slow atr_period atr_ma_period = Some s \<Longrightarrow> scalping_ema_live s \<and> scalping_ema_reset s = Some s"
  by (auto simp: scalping_ema_new_def scalping_ema_live_def scalping_ema_reset_def bind_eq_Some_conv split: if_splits intro: alive)

section \<open>\<open>TemaCrossover\<close>\<close>

record tema_crossover =
  tec_fast :: tema
  tec_slow :: tema
  tec_prev_fast :: "f64 option"
  tec_prev_slow :: "f64 option"

definition tema_crossover_new :: "nat \<Rightarrow> nat \<Rightarrow> tema_crossover option" where
  "tema_crossover_new fast_period slow_period =
     do {
       i1 \<leftarrow> tema_new fast_period;
       i2 \<leftarrow> tema_new slow_period;
       Some \<lparr>tec_fast = i1, tec_slow = i2, tec_prev_fast = None, tec_prev_slow = None\<rparr>
     }"

definition tema_crossover_on_bar :: "tema_crossover \<Rightarrow> bar \<Rightarrow> (tema_crossover \<times> signal list) option" where
  "tema_crossover_on_bar s b = do {
     (i1, fast) \<leftarrow> tema_update (tec_fast s) (b_close b);
     (i2, slow) \<leftarrow> tema_update (tec_slow s) (b_close b);
     let s = s\<lparr>tec_fast := i1, tec_slow := i2\<rparr>;
     Some (case (fast, slow) of (Some f, Some sl) \<Rightarrow>
       ((s\<lparr>tec_prev_fast := Some f, tec_prev_slow := Some sl\<rparr>, case (tec_prev_fast s,
           tec_prev_slow s) of (Some pf, Some ps) \<Rightarrow> if \<not> pf > ps \<and> f > sl then long_at b 1
       else if pf > ps \<and> \<not> f > sl then exit_at b else [] | _ \<Rightarrow> []))
       | _ \<Rightarrow> (s, []))
   }"

definition tema_crossover_reset :: "tema_crossover \<Rightarrow> tema_crossover option" where
  "tema_crossover_reset s = Some (s\<lparr>tec_fast := tema_reset (tec_fast s), tec_slow := tema_reset (tec_slow s),
      tec_prev_fast := None, tec_prev_slow := None\<rparr>)"

definition tema_crossover_live :: "tema_crossover \<Rightarrow> bool" where
  "tema_crossover_live s \<longleftrightarrow> (\<exists>c. tema_live c (tec_fast s)) \<and> (\<exists>c. tema_live c (tec_slow s))"

interpretation tec: restoring y tema_crossover_on_bar tema_crossover_reset tema_crossover_live for y
  by (rule restoringI; unfold tema_crossover_live_def tema_crossover_on_bar_def tema_crossover_reset_def; (elim conjE exE)?; ((erule steps renews | assumption)+)?)
    (auto simp: Let_def bar_of_def split: option.split intro: alive)

lemma tec_built: "tema_crossover_new fast_period slow_period = Some s \<Longrightarrow> tema_crossover_live s \<and> tema_crossover_reset s = Some s"
  by (auto simp: tema_crossover_new_def tema_crossover_live_def tema_crossover_reset_def bind_eq_Some_conv tema_fresh split: if_splits intro: alive; blast intro: tema_lives)

section \<open>\<open>TrendFollower\<close>\<close>

record trend_follower =
  trf_fast_ma :: sma
  trf_slow_ma :: sma
  trf_macd :: macd
  trf_in_position :: bool
  trf_fast_period :: nat
  trf_slow_period :: nat
  trf_macd_fast :: nat
  trf_macd_slow :: nat
  trf_macd_signal :: nat

definition trend_follower_new :: "nat \<Rightarrow> nat \<Rightarrow> nat \<Rightarrow> nat \<Rightarrow> nat \<Rightarrow> trend_follower option" where
  "trend_follower_new fast_period slow_period macd_fast' macd_slow' macd_signal' =
     do {
       i1 \<leftarrow> sma_new fast_period;
       i2 \<leftarrow> sma_new slow_period;
       i3 \<leftarrow> macd_new macd_fast' macd_slow' macd_signal';
       Some \<lparr>trf_fast_ma = i1, trf_slow_ma = i2, trf_macd = i3, trf_in_position = False,
           trf_fast_period = fast_period, trf_slow_period = slow_period, trf_macd_fast = macd_fast',
               trf_macd_slow = macd_slow', trf_macd_signal = macd_signal'\<rparr>
     }"

definition trend_follower_on_bar :: "trend_follower \<Rightarrow> bar \<Rightarrow> (trend_follower \<times> signal list) option" where
  "trend_follower_on_bar s b = do {
     (i1, fast_val) \<leftarrow> sma_update (trf_fast_ma s) (b_close b);
     (i2, slow_val) \<leftarrow> sma_update (trf_slow_ma s) (b_close b);
     (i3, macd_val) \<leftarrow> macd_update (trf_macd s) (b_close b);
     let s = s\<lparr>trf_fast_ma := i1, trf_slow_ma := i2, trf_macd := i3\<rparr>;
     Some (case (fast_val, slow_val, macd_val) of (Some f, Some sl,
         Some m) \<Rightarrow> (if \<not> trf_in_position s \<and> f > sl \<and> mv_histogram m > 0 then (s\<lparr>trf_in_position := True\<rparr>, long_at b 1)
       else if trf_in_position s \<and> (f < sl \<or> mv_histogram m < 0) then (s\<lparr>trf_in_position := False\<rparr>, exit_at b)
       else (s, [])) | _ \<Rightarrow> (s, []))
   }"

definition trend_follower_reset :: "trend_follower \<Rightarrow> trend_follower option" where
  "trend_follower_reset s = do {
     i1 \<leftarrow> sma_new (trf_fast_period s);
     i2 \<leftarrow> sma_new (trf_slow_period s);
     i3 \<leftarrow> macd_new (trf_macd_fast s) (trf_macd_slow s) (trf_macd_signal s);
     Some (s\<lparr>trf_fast_ma := i1, trf_slow_ma := i2, trf_macd := i3, trf_in_position := False\<rparr>)
   }"

definition trend_follower_live :: "trend_follower \<Rightarrow> bool" where
  "trend_follower_live s \<longleftrightarrow> sma_live (trf_fast_period s) (trf_fast_ma s) \<and> sma_live (trf_slow_period s) (trf_slow_ma s) \<and>
     macd_live (trf_macd_fast s, trf_macd_slow s, trf_macd_signal s) (trf_macd s)"

interpretation trf: restoring y trend_follower_on_bar trend_follower_reset trend_follower_live for y
  by (rule restoringI; unfold trend_follower_live_def trend_follower_on_bar_def trend_follower_reset_def; (elim conjE exE)?; ((erule steps renews | assumption)+)?)
    (auto simp: Let_def bar_of_def split: option.split intro: alive)

lemma trf_built: "trend_follower_new fast_period slow_period macd_fast' macd_slow' macd_signal' = Some s \<Longrightarrow> trend_follower_live s \<and> trend_follower_reset s = Some s"
  by (auto simp: trend_follower_new_def trend_follower_live_def trend_follower_reset_def bind_eq_Some_conv split: if_splits intro: alive)

section \<open>\<open>TrendTransition\<close>\<close>

record trend_transition =
  trt_fast_ema :: ema
  trt_slow_ema :: ema
  trt_adx :: adx
  trt_prev_fast :: "f64 option"
  trt_prev_slow :: "f64 option"
  trt_adx_threshold :: f64
  trt_fast_period :: nat
  trt_slow_period :: nat
  trt_adx_period :: nat

definition trend_transition_new :: "nat \<Rightarrow> nat \<Rightarrow> nat \<Rightarrow> f64 \<Rightarrow> trend_transition option" where
  "trend_transition_new fast_period slow_period adx_period adx_threshold =
     do {
       i1 \<leftarrow> ema_new fast_period;
       i2 \<leftarrow> ema_new slow_period;
       i3 \<leftarrow> adx_new adx_period;
       Some \<lparr>trt_fast_ema = i1, trt_slow_ema = i2, trt_adx = i3, trt_prev_fast = None, trt_prev_slow = None,
           trt_adx_threshold = adx_threshold, trt_fast_period = fast_period, trt_slow_period = slow_period,
               trt_adx_period = adx_period\<rparr>
     }"

definition trend_transition_on_bar :: "trend_transition \<Rightarrow> bar \<Rightarrow> (trend_transition \<times> signal list) option" where
  "trend_transition_on_bar s b = do {
     (i1, fast_val) \<leftarrow> ema_update (trt_fast_ema s) (b_close b);
     (i2, slow_val) \<leftarrow> ema_update (trt_slow_ema s) (b_close b);
     (i3, adx_val) \<leftarrow> adx_update (trt_adx s) (b_high b, b_low b, b_close b);
     let s = s\<lparr>trt_fast_ema := i1, trt_slow_ema := i2, trt_adx := i3\<rparr>;
     Some (case (fast_val, slow_val, adx_val) of (Some f, Some sl, Some ad) \<Rightarrow>
       (case (trt_prev_fast s, trt_prev_slow s) of (Some pf, Some ps) \<Rightarrow>
       (s\<lparr>trt_prev_fast := Some f, trt_prev_slow := Some sl\<rparr>,
           if pf \<le> ps \<and> sl < f \<and> adv_adx ad > trt_adx_threshold s then long_at b 1
       else if pf \<ge> ps \<and> f < sl then exit_at b else [])
       | _ \<Rightarrow> (s\<lparr>trt_prev_fast := Some f, trt_prev_slow := Some sl\<rparr>, []))
       | _ \<Rightarrow> (s, []))
   }"

definition trend_transition_reset :: "trend_transition \<Rightarrow> trend_transition option" where
  "trend_transition_reset s = do {
     i1 \<leftarrow> ema_new (trt_fast_period s);
     i2 \<leftarrow> ema_new (trt_slow_period s);
     i3 \<leftarrow> adx_new (trt_adx_period s);
     Some (s\<lparr>trt_fast_ema := i1, trt_slow_ema := i2, trt_adx := i3, trt_prev_fast := None, trt_prev_slow := None\<rparr>)
   }"

definition trend_transition_live :: "trend_transition \<Rightarrow> bool" where
  "trend_transition_live s \<longleftrightarrow> ema_live (trt_fast_period s) (trt_fast_ema s) \<and> ema_live (trt_slow_period s) (trt_slow_ema s) \<and>
     adx_live (trt_adx_period s) (trt_adx s)"

interpretation trt: restoring y trend_transition_on_bar trend_transition_reset trend_transition_live for y
  by (rule restoringI; unfold trend_transition_live_def trend_transition_on_bar_def trend_transition_reset_def; (elim conjE exE)?; ((erule steps renews | assumption)+)?)
    (auto simp: Let_def bar_of_def split: option.split intro: alive)

lemma trt_built: "trend_transition_new fast_period slow_period adx_period adx_threshold = Some s \<Longrightarrow> trend_transition_live s \<and> trend_transition_reset s = Some s"
  by (auto simp: trend_transition_new_def trend_transition_live_def trend_transition_reset_def bind_eq_Some_conv split: if_splits intro: alive)

section \<open>\<open>TripleEma\<close>\<close>

record triple_ema =
  tre_ema1 :: ema
  tre_ema2 :: ema
  tre_ema3 :: ema
  tre_prev_bull :: "bool option"
  tre_period1 :: nat
  tre_period2 :: nat
  tre_period3 :: nat

definition triple_ema_new :: "nat \<Rightarrow> nat \<Rightarrow> nat \<Rightarrow> triple_ema option" where
  "triple_ema_new period1 period2 period3 =
     (if period1 < period2 \<and> period2 < period3 then
     do {
       i1 \<leftarrow> ema_new period1;
       i2 \<leftarrow> ema_new period2;
       i3 \<leftarrow> ema_new period3;
       Some \<lparr>tre_ema1 = i1, tre_ema2 = i2, tre_ema3 = i3, tre_prev_bull = None, tre_period1 = period1,
           tre_period2 = period2, tre_period3 = period3\<rparr>
     }
     else None)"

definition triple_ema_on_bar :: "triple_ema \<Rightarrow> bar \<Rightarrow> (triple_ema \<times> signal list) option" where
  "triple_ema_on_bar s b = do {
     (i1, v1) \<leftarrow> ema_update (tre_ema1 s) (b_close b);
     (i2, v2) \<leftarrow> ema_update (tre_ema2 s) (b_close b);
     (i3, v3) \<leftarrow> ema_update (tre_ema3 s) (b_close b);
     let s = s\<lparr>tre_ema1 := i1, tre_ema2 := i2, tre_ema3 := i3\<rparr>;
     Some (case (v1, v2, v3) of (Some e1, Some e2, Some e3) \<Rightarrow> (let bull = e1 > e2 \<and> e2 > e3 in
       case tre_prev_bull s of Some p \<Rightarrow> (s\<lparr>tre_prev_bull := Some bull\<rparr>,
           if \<not> p \<and> bull then long_at b 1
       else if p \<and> \<not> bull then exit_at b else [])
       | None \<Rightarrow> (s\<lparr>tre_prev_bull := Some bull\<rparr>, [])) | _ \<Rightarrow> (s, []))
   }"

definition triple_ema_reset :: "triple_ema \<Rightarrow> triple_ema option" where
  "triple_ema_reset s = do {
     i1 \<leftarrow> ema_new (tre_period1 s);
     i2 \<leftarrow> ema_new (tre_period2 s);
     i3 \<leftarrow> ema_new (tre_period3 s);
     Some (s\<lparr>tre_ema1 := i1, tre_ema2 := i2, tre_ema3 := i3, tre_prev_bull := None\<rparr>)
   }"

definition triple_ema_live :: "triple_ema \<Rightarrow> bool" where
  "triple_ema_live s \<longleftrightarrow> ema_live (tre_period1 s) (tre_ema1 s) \<and> ema_live (tre_period2 s) (tre_ema2 s) \<and>
     ema_live (tre_period3 s) (tre_ema3 s)"

interpretation tre: restoring y triple_ema_on_bar triple_ema_reset triple_ema_live for y
  by (rule restoringI; unfold triple_ema_live_def triple_ema_on_bar_def triple_ema_reset_def; (elim conjE exE)?; ((erule steps renews | assumption)+)?)
    (auto simp: Let_def bar_of_def split: option.split intro: alive)

lemma tre_built: "triple_ema_new period1 period2 period3 = Some s \<Longrightarrow> triple_ema_live s \<and> triple_ema_reset s = Some s"
  by (auto simp: triple_ema_new_def triple_ema_live_def triple_ema_reset_def bind_eq_Some_conv split: if_splits intro: alive)

section \<open>\<open>VortexTrend\<close>\<close>

record vortex_trend =
  vot_vortex :: vortex
  vot_prev_plus :: "f64 option"
  vot_prev_minus :: "f64 option"
  vot_period :: nat

definition vortex_trend_new :: "nat \<Rightarrow> vortex_trend option" where
  "vortex_trend_new period =
     do {
       i1 \<leftarrow> vortex_new period;
       Some \<lparr>vot_vortex = i1, vot_prev_plus = None, vot_prev_minus = None, vot_period = period\<rparr>
     }"

definition vortex_trend_on_bar :: "vortex_trend \<Rightarrow> bar \<Rightarrow> (vortex_trend \<times> signal list) option" where
  "vortex_trend_on_bar s b = do {
     (i1, wv) \<leftarrow> vortex_update (vot_vortex s) (b_high b, b_low b, b_close b);
     let s = s\<lparr>vot_vortex := i1\<rparr>;
     Some (case wv of Some vv \<Rightarrow> (let f = vov_plus_vi vv; sl = vov_minus_vi vv in
       case (vot_prev_plus s, vot_prev_minus s) of (Some pf, Some ps) \<Rightarrow>
       (s\<lparr>vot_prev_plus := Some f, vot_prev_minus := Some sl\<rparr>, if pf \<le> ps \<and> sl < f then long_at b 1
       else if pf \<ge> ps \<and> f < sl then exit_at b else [])
       | _ \<Rightarrow> (s\<lparr>vot_prev_plus := Some f, vot_prev_minus := Some sl\<rparr>, []))
       | None \<Rightarrow> (s, []))
   }"

definition vortex_trend_reset :: "vortex_trend \<Rightarrow> vortex_trend option" where
  "vortex_trend_reset s = do {
     i1 \<leftarrow> vortex_new (vot_period s);
     Some (s\<lparr>vot_vortex := i1, vot_prev_plus := None, vot_prev_minus := None\<rparr>)
   }"

definition vortex_trend_live :: "vortex_trend \<Rightarrow> bool" where
  "vortex_trend_live s \<longleftrightarrow> vortex_live (vot_period s) (vot_vortex s)"

interpretation vot: restoring y vortex_trend_on_bar vortex_trend_reset vortex_trend_live for y
  by (rule restoringI; unfold vortex_trend_live_def vortex_trend_on_bar_def vortex_trend_reset_def; (elim conjE exE)?; ((erule steps renews | assumption)+)?)
    (auto simp: Let_def bar_of_def split: option.split intro: alive)

lemma vot_built: "vortex_trend_new period = Some s \<Longrightarrow> vortex_trend_live s \<and> vortex_trend_reset s = Some s"
  by (auto simp: vortex_trend_new_def vortex_trend_live_def vortex_trend_reset_def bind_eq_Some_conv split: if_splits intro: alive)

end
