(* ===== verification/Named_Momentum.thy ===== *)
theory Named_Momentum
  imports Named_Base
begin

text \<open>
  \<open>alm-strategy/src/named/momentum\<close>: the momentum strategies. Each has the record of its state, the constructor with its
  assertions, the answer to a bar, the reset, the states it can be in, and its instance of the contract.
\<close>

section \<open>\<open>AoStrategy\<close>\<close>

record ao_strategy =
  aos_ao :: awesome_oscillator
  aos_prev_ao :: "f64 option"

definition ao_strategy_new :: "nat \<Rightarrow> nat \<Rightarrow> ao_strategy option" where
  "ao_strategy_new fast slow =
     Some \<lparr>aos_ao = ao_new fast slow, aos_prev_ao = None\<rparr>"

definition ao_strategy_on_bar :: "ao_strategy \<Rightarrow> bar \<Rightarrow> (ao_strategy \<times> signal list) option" where
  "ao_strategy_on_bar s b = do {
     let (i1, av) = ao_update (aos_ao s) (b_high b, b_low b);
     let s = s\<lparr>aos_ao := i1\<rparr>;
     Some (case av of Some a \<Rightarrow> (case aos_prev_ao s of Some p \<Rightarrow> (s\<lparr>aos_prev_ao := Some a\<rparr>, if p \<le> 0 \<and> a > 0 then long_at b 1
       else if p \<ge> 0 \<and> a < 0 then exit_at b else [])
       | None \<Rightarrow> (s\<lparr>aos_prev_ao := Some a\<rparr>, [])) | None \<Rightarrow> (s, []))
   }"

definition ao_strategy_reset :: "ao_strategy \<Rightarrow> ao_strategy option" where
  "ao_strategy_reset s = Some (s\<lparr>aos_ao := ao_reset (aos_ao s), aos_prev_ao := None\<rparr>)"

definition ao_strategy_live :: "ao_strategy \<Rightarrow> bool" where
  "ao_strategy_live s \<longleftrightarrow> (\<exists>c. ao_live c (aos_ao s))"

interpretation aos: restoring y ao_strategy_on_bar ao_strategy_reset ao_strategy_live for y
  by (rule restoringI; unfold ao_strategy_live_def ao_strategy_on_bar_def ao_strategy_reset_def; (elim conjE exE)?; ((erule steps renews | assumption)+)?)
    (auto simp: Let_def bar_of_def split: option.split intro: alive)

lemma aos_built: "ao_strategy_new fast slow = Some s \<Longrightarrow> ao_strategy_live s \<and> ao_strategy_reset s = Some s"
  by (auto simp: ao_strategy_new_def ao_strategy_live_def ao_strategy_reset_def bind_eq_Some_conv ao_fresh split: if_splits intro: alive; blast intro: ao_lives)

section \<open>\<open>CciReversal\<close>\<close>

record cci_reversal =
  ccr_cci :: cci
  ccr_entry_level :: f64
  ccr_exit_level :: f64
  ccr_prev_cci :: "f64 option"
  ccr_period :: nat

definition cci_reversal_new :: "nat \<Rightarrow> f64 \<Rightarrow> f64 \<Rightarrow> cci_reversal option" where
  "cci_reversal_new period entry_level exit_level =
     do {
       i1 \<leftarrow> cci_new period;
       Some \<lparr>ccr_cci = i1, ccr_entry_level = entry_level, ccr_exit_level = exit_level, ccr_prev_cci = None,
           ccr_period = period\<rparr>
     }"

definition cci_reversal_on_bar :: "cci_reversal \<Rightarrow> bar \<Rightarrow> (cci_reversal \<times> signal list) option" where
  "cci_reversal_on_bar s b = do {
     let (i1, cv) = cci_update (ccr_cci s) (b_high b, b_low b, b_close b);
     let s = s\<lparr>ccr_cci := i1\<rparr>;
     Some (case cv of Some v \<Rightarrow> (case ccr_prev_cci s of Some p \<Rightarrow> (s\<lparr>ccr_prev_cci := Some v\<rparr>, if p \<le> ccr_entry_level s \<and> v > ccr_entry_level s then long_at b 1
       else if p \<le> ccr_exit_level s \<and> v > ccr_exit_level s then exit_at b else [])
       | None \<Rightarrow> (s\<lparr>ccr_prev_cci := Some v\<rparr>, [])) | None \<Rightarrow> (s, []))
   }"

definition cci_reversal_reset :: "cci_reversal \<Rightarrow> cci_reversal option" where
  "cci_reversal_reset s = do {
     i1 \<leftarrow> cci_new (ccr_period s);
     Some (s\<lparr>ccr_cci := i1, ccr_prev_cci := None\<rparr>)
   }"

definition cci_reversal_live :: "cci_reversal \<Rightarrow> bool" where
  "cci_reversal_live s \<longleftrightarrow> cci_live (ccr_period s) (ccr_cci s)"

interpretation ccr: restoring y cci_reversal_on_bar cci_reversal_reset cci_reversal_live for y
  by (rule restoringI; unfold cci_reversal_live_def cci_reversal_on_bar_def cci_reversal_reset_def; (elim conjE exE)?; ((erule steps renews | assumption)+)?)
    (auto simp: Let_def bar_of_def split: option.split intro: alive)

lemma ccr_built: "cci_reversal_new period entry_level exit_level = Some s \<Longrightarrow> cci_reversal_live s \<and> cci_reversal_reset s = Some s"
  by (auto simp: cci_reversal_new_def cci_reversal_live_def cci_reversal_reset_def bind_eq_Some_conv split: if_splits intro: alive)

section \<open>\<open>CmoZeroCross\<close>\<close>

record cmo_zero_cross =
  czc_cmo :: cmo
  czc_ema :: ema
  czc_prev_cmo :: "f64 option"
  czc_cmo_period :: nat
  czc_ema_period :: nat

definition cmo_zero_cross_new :: "nat \<Rightarrow> nat \<Rightarrow> cmo_zero_cross option" where
  "cmo_zero_cross_new cmo_period' ema_period' =
     do {
       i1 \<leftarrow> cmo_new cmo_period';
       i2 \<leftarrow> ema_new ema_period';
       Some \<lparr>czc_cmo = i1, czc_ema = i2, czc_prev_cmo = None, czc_cmo_period = cmo_period',
           czc_ema_period = ema_period'\<rparr>
     }"

definition cmo_zero_cross_on_bar :: "cmo_zero_cross \<Rightarrow> bar \<Rightarrow> (cmo_zero_cross \<times> signal list) option" where
  "cmo_zero_cross_on_bar s b = do {
     (i1, cv) \<leftarrow> cmo_update (czc_cmo s) (b_close b);
     (i2, ev) \<leftarrow> ema_update (czc_ema s) (b_close b);
     let s = s\<lparr>czc_cmo := i1, czc_ema := i2\<rparr>;
     Some (case cv of Some c \<Rightarrow> ((s\<lparr>czc_prev_cmo := Some c\<rparr>, case (ev,
         czc_prev_cmo s) of (Some e, Some p) \<Rightarrow> if p \<le> 0 \<and> c > 0 \<and> b_close b > e then long_at b 1
       else if (p \<ge> 0 \<and> c < 0) \<or> b_close b < e then exit_at b else [] | _ \<Rightarrow> []))
       | None \<Rightarrow> (s, []))
   }"

definition cmo_zero_cross_reset :: "cmo_zero_cross \<Rightarrow> cmo_zero_cross option" where
  "cmo_zero_cross_reset s = do {
     i1 \<leftarrow> cmo_new (czc_cmo_period s);
     i2 \<leftarrow> ema_new (czc_ema_period s);
     Some (s\<lparr>czc_cmo := i1, czc_ema := i2, czc_prev_cmo := None\<rparr>)
   }"

definition cmo_zero_cross_live :: "cmo_zero_cross \<Rightarrow> bool" where
  "cmo_zero_cross_live s \<longleftrightarrow> cmo_live (czc_cmo_period s) (czc_cmo s) \<and> ema_live (czc_ema_period s) (czc_ema s)"

interpretation czc: restoring y cmo_zero_cross_on_bar cmo_zero_cross_reset cmo_zero_cross_live for y
  by (rule restoringI; unfold cmo_zero_cross_live_def cmo_zero_cross_on_bar_def cmo_zero_cross_reset_def; (elim conjE exE)?; ((erule steps renews | assumption)+)?)
    (auto simp: Let_def bar_of_def split: option.split intro: alive)

lemma czc_built: "cmo_zero_cross_new cmo_period' ema_period' = Some s \<Longrightarrow> cmo_zero_cross_live s \<and> cmo_zero_cross_reset s = Some s"
  by (auto simp: cmo_zero_cross_new_def cmo_zero_cross_live_def cmo_zero_cross_reset_def bind_eq_Some_conv split: if_splits intro: alive)

section \<open>\<open>ConnorsRsiStrategy\<close>\<close>

record connors_rsi_strategy =
  cns_rsi_period :: nat
  cns_streak_period :: nat
  cns_rank_period :: nat
  cns_oversold :: f64
  cns_overbought :: f64
  cns_crsi :: connors_rsi

definition connors_rsi_strategy_new :: "nat \<Rightarrow> nat \<Rightarrow> nat \<Rightarrow> f64 \<Rightarrow> f64 \<Rightarrow> connors_rsi_strategy option" where
  "connors_rsi_strategy_new rsi_period' streak_period rank_period oversold overbought =
     do {
       i1 \<leftarrow> connors_rsi_new rsi_period' streak_period rank_period;
       Some \<lparr>cns_rsi_period = rsi_period', cns_streak_period = streak_period, cns_rank_period = rank_period,
           cns_oversold = oversold, cns_overbought = overbought, cns_crsi = i1\<rparr>
     }"

definition connors_rsi_strategy_on_bar :: "connors_rsi_strategy \<Rightarrow> bar \<Rightarrow> (connors_rsi_strategy \<times> signal list) option" where
  "connors_rsi_strategy_on_bar s b = do {
     (i1, cv) \<leftarrow> connors_rsi_update (cns_crsi s) (b_close b);
     let s = s\<lparr>cns_crsi := i1\<rparr>;
     Some (case cv of Some v \<Rightarrow> ((s,
         if v < cns_oversold s then long_at b (fclamp ((cns_oversold s - v) / cns_oversold s) 0 1)
       else if v > cns_overbought s then exit_at b else [])) | None \<Rightarrow> (s, []))
   }"

definition connors_rsi_strategy_reset :: "connors_rsi_strategy \<Rightarrow> connors_rsi_strategy option" where
  "connors_rsi_strategy_reset s = do {
     i1 \<leftarrow> connors_rsi_new (cns_rsi_period s) (cns_streak_period s) (cns_rank_period s);
     Some (s\<lparr>cns_crsi := i1\<rparr>)
   }"

definition connors_rsi_strategy_live :: "connors_rsi_strategy \<Rightarrow> bool" where
  "connors_rsi_strategy_live s \<longleftrightarrow> connors_rsi_live (cns_rsi_period s, cns_streak_period s,
      cns_rank_period s) (cns_crsi s)"

interpretation cns: restoring y connors_rsi_strategy_on_bar connors_rsi_strategy_reset connors_rsi_strategy_live for y
  by (rule restoringI; unfold connors_rsi_strategy_live_def connors_rsi_strategy_on_bar_def connors_rsi_strategy_reset_def; (elim conjE exE)?; ((erule steps renews | assumption)+)?)
    (auto simp: Let_def bar_of_def split: option.split intro: alive)

lemma cns_built: "connors_rsi_strategy_new rsi_period' streak_period rank_period oversold overbought = Some s \<Longrightarrow> connors_rsi_strategy_live s \<and> connors_rsi_strategy_reset s = Some s"
  by (auto simp: connors_rsi_strategy_new_def connors_rsi_strategy_live_def connors_rsi_strategy_reset_def bind_eq_Some_conv split: if_splits intro: alive)

section \<open>\<open>DualMomentum\<close>\<close>

record dual_momentum =
  dum_fast :: roc
  dum_slow :: roc
  dum_fast_p :: nat
  dum_slow_p :: nat

definition dual_momentum_new :: "nat \<Rightarrow> nat \<Rightarrow> dual_momentum option" where
  "dual_momentum_new fast_period slow_period =
     do {
       i1 \<leftarrow> roc_new fast_period;
       i2 \<leftarrow> roc_new slow_period;
       Some \<lparr>dum_fast = i1, dum_slow = i2, dum_fast_p = fast_period, dum_slow_p = slow_period\<rparr>
     }"

definition dual_momentum_on_bar :: "dual_momentum \<Rightarrow> bar \<Rightarrow> (dual_momentum \<times> signal list) option" where
  "dual_momentum_on_bar s b = do {
     let (i1, fv) = roc_update (dum_fast s) (b_close b);
     let (i2, sv) = roc_update (dum_slow s) (b_close b);
     let s = s\<lparr>dum_fast := i1, dum_slow := i2\<rparr>;
     Some (case (fv, sv) of (Some f, Some sl) \<Rightarrow> ((s, if f > 0 \<and> sl > 0 then long_at b 1
       else if f < 0 \<or> sl < 0 then exit_at b else [])) | _ \<Rightarrow> (s, []))
   }"

definition dual_momentum_reset :: "dual_momentum \<Rightarrow> dual_momentum option" where
  "dual_momentum_reset s = do {
     i1 \<leftarrow> roc_new (dum_fast_p s);
     i2 \<leftarrow> roc_new (dum_slow_p s);
     Some (s\<lparr>dum_fast := i1, dum_slow := i2\<rparr>)
   }"

definition dual_momentum_live :: "dual_momentum \<Rightarrow> bool" where
  "dual_momentum_live s \<longleftrightarrow> roc_live (dum_fast_p s) (dum_fast s) \<and> roc_live (dum_slow_p s) (dum_slow s)"

interpretation dum: restoring y dual_momentum_on_bar dual_momentum_reset dual_momentum_live for y
  by (rule restoringI; unfold dual_momentum_live_def dual_momentum_on_bar_def dual_momentum_reset_def; (elim conjE exE)?; ((erule steps renews | assumption)+)?)
    (auto simp: Let_def bar_of_def split: option.split intro: alive)

lemma dum_built: "dual_momentum_new fast_period slow_period = Some s \<Longrightarrow> dual_momentum_live s \<and> dual_momentum_reset s = Some s"
  by (auto simp: dual_momentum_new_def dual_momentum_live_def dual_momentum_reset_def bind_eq_Some_conv split: if_splits intro: alive)

section \<open>\<open>FisherCrossover\<close>\<close>

record fisher_crossover =
  fic_fisher :: fisher
  fic_prev_fisher :: "f64 option"
  fic_prev_signal :: "f64 option"
  fic_period :: nat

definition fisher_crossover_new :: "nat \<Rightarrow> fisher_crossover option" where
  "fisher_crossover_new period =
     do {
       i1 \<leftarrow> fisher_new period;
       Some \<lparr>fic_fisher = i1, fic_prev_fisher = None, fic_prev_signal = None, fic_period = period\<rparr>
     }"

definition fisher_crossover_on_bar :: "mathlib \<Rightarrow> fisher_crossover \<Rightarrow> bar \<Rightarrow> (fisher_crossover \<times> signal list) option" where
  "fisher_crossover_on_bar lm s b = do {
     let (i1, wv) = fisher_update (libm.truncate lm) (fic_fisher s) (b_high b, b_low b);
     let s = s\<lparr>fic_fisher := i1\<rparr>;
     Some (case wv of Some fv \<Rightarrow> (let f = fiv_fisher fv; sl = fiv_signal fv in
       case (fic_prev_fisher s, fic_prev_signal s) of (Some pf, Some ps) \<Rightarrow>
       (s\<lparr>fic_prev_fisher := Some f, fic_prev_signal := Some sl\<rparr>, if pf \<le> ps \<and> sl < f then long_at b 1
       else if pf \<ge> ps \<and> f < sl then exit_at b else [])
       | _ \<Rightarrow> (s\<lparr>fic_prev_fisher := Some f, fic_prev_signal := Some sl\<rparr>, []))
       | None \<Rightarrow> (s, []))
   }"

definition fisher_crossover_reset :: "fisher_crossover \<Rightarrow> fisher_crossover option" where
  "fisher_crossover_reset s = do {
     i1 \<leftarrow> fisher_new (fic_period s);
     Some (s\<lparr>fic_fisher := i1, fic_prev_fisher := None, fic_prev_signal := None\<rparr>)
   }"

definition fisher_crossover_live :: "fisher_crossover \<Rightarrow> bool" where
  "fisher_crossover_live s \<longleftrightarrow> fisher_live (fic_period s) (fic_fisher s)"

interpretation fic: restoring y "fisher_crossover_on_bar lm" fisher_crossover_reset fisher_crossover_live for y lm
  by (rule restoringI; unfold fisher_crossover_live_def fisher_crossover_on_bar_def fisher_crossover_reset_def; (elim conjE exE)?; ((erule steps renews | assumption)+)?)
    (auto simp: Let_def bar_of_def split: option.split intro: alive)

lemma fic_built: "fisher_crossover_new period = Some s \<Longrightarrow> fisher_crossover_live s \<and> fisher_crossover_reset s = Some s"
  by (auto simp: fisher_crossover_new_def fisher_crossover_live_def fisher_crossover_reset_def bind_eq_Some_conv split: if_splits intro: alive)

section \<open>\<open>KdjStrategy\<close>\<close>

record kdj_strategy =
  kds_kdj :: kdj
  kds_oversold :: f64
  kds_overbought :: f64
  kds_prev_k :: "f64 option"
  kds_in_position :: bool

definition kdj_strategy_new :: "nat \<Rightarrow> nat \<Rightarrow> nat \<Rightarrow> f64 \<Rightarrow> f64 \<Rightarrow> kdj_strategy option" where
  "kdj_strategy_new period k_period d_period oversold overbought =
     do {
       i1 \<leftarrow> kdj_new period k_period d_period;
       Some \<lparr>kds_kdj = i1, kds_oversold = oversold, kds_overbought = overbought, kds_prev_k = None,
           kds_in_position = False\<rparr>
     }"

definition kdj_strategy_on_bar :: "kdj_strategy \<Rightarrow> bar \<Rightarrow> (kdj_strategy \<times> signal list) option" where
  "kdj_strategy_on_bar s b = do {
     (i1, kv) \<leftarrow> kdj_update (kds_kdj s) (b_high b, b_low b, b_close b);
     let s = s\<lparr>kds_kdj := i1\<rparr>;
     Some (case kv of Some v \<Rightarrow> (let (s, sigs) =
         (if \<not> kds_in_position s then
            case kds_prev_k s of
              Some pk \<Rightarrow> if kdv_k v < kds_oversold s \<and> kdv_d v < kds_oversold s \<and> kdv_k v > pk
                then (s\<lparr>kds_in_position := True\<rparr>, long_at b 1) else (s, [])
            | None \<Rightarrow> (s, [])
          else if kdv_k v > kds_overbought s \<or> kdv_j v > (lit 100) then (s\<lparr>kds_in_position := False\<rparr>, exit_at b) else (s, []))
       in (s\<lparr>kds_prev_k := Some (kdv_k v)\<rparr>, sigs)) | None \<Rightarrow> (s, []))
   }"

definition kdj_strategy_reset :: "kdj_strategy \<Rightarrow> kdj_strategy option" where
  "kdj_strategy_reset s = Some (s\<lparr>kds_kdj := kdj_reset (kds_kdj s), kds_prev_k := None, kds_in_position := False\<rparr>)"

definition kdj_strategy_live :: "kdj_strategy \<Rightarrow> bool" where
  "kdj_strategy_live s \<longleftrightarrow> (\<exists>c. kdj_live c (kds_kdj s))"

interpretation kds: restoring y kdj_strategy_on_bar kdj_strategy_reset kdj_strategy_live for y
  by (rule restoringI; unfold kdj_strategy_live_def kdj_strategy_on_bar_def kdj_strategy_reset_def; (elim conjE exE)?; ((erule steps renews | assumption)+)?)
    (auto simp: Let_def bar_of_def split: option.split intro: alive)

lemma kds_built: "kdj_strategy_new period k_period d_period oversold overbought = Some s \<Longrightarrow> kdj_strategy_live s \<and> kdj_strategy_reset s = Some s"
  by (auto simp: kdj_strategy_new_def kdj_strategy_live_def kdj_strategy_reset_def bind_eq_Some_conv kdj_fresh split: if_splits intro: alive; blast intro: kdj_lives)

section \<open>\<open>MacdCrossover\<close>\<close>

record macd_crossover =
  mcc_macd :: macd
  mcc_prev_hist :: "f64 option"
  mcc_fast :: nat
  mcc_slow :: nat
  mcc_signal_period :: nat

definition macd_crossover_new :: "nat \<Rightarrow> nat \<Rightarrow> nat \<Rightarrow> macd_crossover option" where
  "macd_crossover_new fast slow signal_period =
     do {
       i1 \<leftarrow> macd_new fast slow signal_period;
       Some \<lparr>mcc_macd = i1, mcc_prev_hist = None, mcc_fast = fast, mcc_slow = slow, mcc_signal_period = signal_period\<rparr>
     }"

definition macd_crossover_on_bar :: "macd_crossover \<Rightarrow> bar \<Rightarrow> (macd_crossover \<times> signal list) option" where
  "macd_crossover_on_bar s b = do {
     (i1, wv) \<leftarrow> macd_update (mcc_macd s) (b_close b);
     let s = s\<lparr>mcc_macd := i1\<rparr>;
     Some (case wv of Some v \<Rightarrow> (let h = mv_histogram v in
       case mcc_prev_hist s of Some p \<Rightarrow> (s\<lparr>mcc_prev_hist := Some h\<rparr>,
           if p \<le> 0 \<and> h > 0 then long_at b 1
       else if p \<ge> 0 \<and> h < 0 then exit_at b else [])
       | None \<Rightarrow> (s\<lparr>mcc_prev_hist := Some h\<rparr>, [])) | None \<Rightarrow> (s, []))
   }"

definition macd_crossover_reset :: "macd_crossover \<Rightarrow> macd_crossover option" where
  "macd_crossover_reset s = do {
     i1 \<leftarrow> macd_new (mcc_fast s) (mcc_slow s) (mcc_signal_period s);
     Some (s\<lparr>mcc_macd := i1, mcc_prev_hist := None\<rparr>)
   }"

definition macd_crossover_live :: "macd_crossover \<Rightarrow> bool" where
  "macd_crossover_live s \<longleftrightarrow> macd_live (mcc_fast s, mcc_slow s, mcc_signal_period s) (mcc_macd s)"

interpretation mcc: restoring y macd_crossover_on_bar macd_crossover_reset macd_crossover_live for y
  by (rule restoringI; unfold macd_crossover_live_def macd_crossover_on_bar_def macd_crossover_reset_def; (elim conjE exE)?; ((erule steps renews | assumption)+)?)
    (auto simp: Let_def bar_of_def split: option.split intro: alive)

lemma mcc_built: "macd_crossover_new fast slow signal_period = Some s \<Longrightarrow> macd_crossover_live s \<and> macd_crossover_reset s = Some s"
  by (auto simp: macd_crossover_new_def macd_crossover_live_def macd_crossover_reset_def bind_eq_Some_conv split: if_splits intro: alive)

section \<open>\<open>MacdMa\<close>\<close>

record macd_ma =
  mcm_macd :: macd
  mcm_ma :: sma
  mcm_in_position :: bool
  mcm_fast :: nat
  mcm_slow :: nat
  mcm_signal_period :: nat
  mcm_ma_period :: nat

definition macd_ma_new :: "nat \<Rightarrow> nat \<Rightarrow> nat \<Rightarrow> nat \<Rightarrow> macd_ma option" where
  "macd_ma_new fast slow signal_period ma_period =
     do {
       i1 \<leftarrow> macd_new fast slow signal_period;
       i2 \<leftarrow> sma_new ma_period;
       Some \<lparr>mcm_macd = i1, mcm_ma = i2, mcm_in_position = False, mcm_fast = fast, mcm_slow = slow,
           mcm_signal_period = signal_period, mcm_ma_period = ma_period\<rparr>
     }"

definition macd_ma_on_bar :: "macd_ma \<Rightarrow> bar \<Rightarrow> (macd_ma \<times> signal list) option" where
  "macd_ma_on_bar s b = do {
     (i1, macd_val) \<leftarrow> macd_update (mcm_macd s) (b_close b);
     (i2, ma_val) \<leftarrow> sma_update (mcm_ma s) (b_close b);
     let s = s\<lparr>mcm_macd := i1, mcm_ma := i2\<rparr>;
     Some (case (macd_val, ma_val) of (Some m,
         Some a) \<Rightarrow> (if \<not> mcm_in_position s \<and> mv_histogram m > 0 \<and> b_close b > a then (s\<lparr>mcm_in_position := True\<rparr>, long_at b 1)
       else if mcm_in_position s \<and> mv_histogram m < 0 then (s\<lparr>mcm_in_position := False\<rparr>, exit_at b)
       else (s, [])) | _ \<Rightarrow> (s, []))
   }"

definition macd_ma_reset :: "macd_ma \<Rightarrow> macd_ma option" where
  "macd_ma_reset s = do {
     i1 \<leftarrow> macd_new (mcm_fast s) (mcm_slow s) (mcm_signal_period s);
     i2 \<leftarrow> sma_new (mcm_ma_period s);
     Some (s\<lparr>mcm_macd := i1, mcm_ma := i2, mcm_in_position := False\<rparr>)
   }"

definition macd_ma_live :: "macd_ma \<Rightarrow> bool" where
  "macd_ma_live s \<longleftrightarrow> macd_live (mcm_fast s, mcm_slow s,
      mcm_signal_period s) (mcm_macd s) \<and> sma_live (mcm_ma_period s) (mcm_ma s)"

interpretation mcm: restoring y macd_ma_on_bar macd_ma_reset macd_ma_live for y
  by (rule restoringI; unfold macd_ma_live_def macd_ma_on_bar_def macd_ma_reset_def; (elim conjE exE)?; ((erule steps renews | assumption)+)?)
    (auto simp: Let_def bar_of_def split: option.split intro: alive)

lemma mcm_built: "macd_ma_new fast slow signal_period ma_period = Some s \<Longrightarrow> macd_ma_live s \<and> macd_ma_reset s = Some s"
  by (auto simp: macd_ma_new_def macd_ma_live_def macd_ma_reset_def bind_eq_Some_conv split: if_splits intro: alive)

section \<open>\<open>MomentumRoc\<close>\<close>

record momentum_roc =
  mro_roc :: roc
  mro_ema :: ema
  mro_roc_p :: nat
  mro_ema_p :: nat
  mro_entry_threshold :: f64
  mro_exit_threshold :: f64

definition momentum_roc_new :: "nat \<Rightarrow> nat \<Rightarrow> f64 \<Rightarrow> f64 \<Rightarrow> momentum_roc option" where
  "momentum_roc_new roc_period' ema_period' entry_threshold exit_threshold =
     do {
       i1 \<leftarrow> roc_new roc_period';
       i2 \<leftarrow> ema_new ema_period';
       Some \<lparr>mro_roc = i1, mro_ema = i2, mro_roc_p = roc_period', mro_ema_p = ema_period',
           mro_entry_threshold = entry_threshold, mro_exit_threshold = exit_threshold\<rparr>
     }"

definition momentum_roc_on_bar :: "momentum_roc \<Rightarrow> bar \<Rightarrow> (momentum_roc \<times> signal list) option" where
  "momentum_roc_on_bar s b = do {
     let (i1, rv) = roc_update (mro_roc s) (b_close b);
     (i2, ev) \<leftarrow> ema_update (mro_ema s) (b_close b);
     let s = s\<lparr>mro_roc := i1, mro_ema := i2\<rparr>;
     Some (case (rv, ev) of (Some r, Some e) \<Rightarrow> (let above_trend = b_close b > e in
       (s, if r > mro_entry_threshold s \<and> above_trend then long_at b (fclamp (r / (mro_entry_threshold s * (lit 3))) 0 1)
       else if r < mro_exit_threshold s \<or> \<not> above_trend then exit_at b else []))
       | _ \<Rightarrow> (s, []))
   }"

definition momentum_roc_reset :: "momentum_roc \<Rightarrow> momentum_roc option" where
  "momentum_roc_reset s = do {
     i1 \<leftarrow> roc_new (mro_roc_p s);
     i2 \<leftarrow> ema_new (mro_ema_p s);
     Some (s\<lparr>mro_roc := i1, mro_ema := i2\<rparr>)
   }"

definition momentum_roc_live :: "momentum_roc \<Rightarrow> bool" where
  "momentum_roc_live s \<longleftrightarrow> roc_live (mro_roc_p s) (mro_roc s) \<and> ema_live (mro_ema_p s) (mro_ema s)"

interpretation mro: restoring y momentum_roc_on_bar momentum_roc_reset momentum_roc_live for y
  by (rule restoringI; unfold momentum_roc_live_def momentum_roc_on_bar_def momentum_roc_reset_def; (elim conjE exE)?; ((erule steps renews | assumption)+)?)
    (auto simp: Let_def bar_of_def split: option.split intro: alive)

lemma mro_built: "momentum_roc_new roc_period' ema_period' entry_threshold exit_threshold = Some s \<Longrightarrow> momentum_roc_live s \<and> momentum_roc_reset s = Some s"
  by (auto simp: momentum_roc_new_def momentum_roc_live_def momentum_roc_reset_def bind_eq_Some_conv split: if_splits intro: alive)

section \<open>\<open>PpoHistogram\<close>\<close>

record ppo_histogram =
  pph_ppo :: ppo
  pph_prev_hist :: "f64 option"
  pph_fast :: nat
  pph_slow :: nat
  pph_signal :: nat

definition ppo_histogram_new :: "nat \<Rightarrow> nat \<Rightarrow> nat \<Rightarrow> ppo_histogram option" where
  "ppo_histogram_new fast slow signal =
     do {
       i1 \<leftarrow> ppo_new fast slow signal;
       Some \<lparr>pph_ppo = i1, pph_prev_hist = None, pph_fast = fast, pph_slow = slow, pph_signal = signal\<rparr>
     }"

definition ppo_histogram_on_bar :: "ppo_histogram \<Rightarrow> bar \<Rightarrow> (ppo_histogram \<times> signal list) option" where
  "ppo_histogram_on_bar s b = do {
     (i1, wv) \<leftarrow> ppo_update (pph_ppo s) (b_close b);
     let s = s\<lparr>pph_ppo := i1\<rparr>;
     Some (case wv of Some v \<Rightarrow> (let h = mv_histogram v in
       case pph_prev_hist s of Some p \<Rightarrow> (s\<lparr>pph_prev_hist := Some h\<rparr>,
           if p \<le> 0 \<and> h > 0 then long_at b 1
       else if p \<ge> 0 \<and> h < 0 then exit_at b else [])
       | None \<Rightarrow> (s\<lparr>pph_prev_hist := Some h\<rparr>, [])) | None \<Rightarrow> (s, []))
   }"

definition ppo_histogram_reset :: "ppo_histogram \<Rightarrow> ppo_histogram option" where
  "ppo_histogram_reset s = do {
     i1 \<leftarrow> ppo_new (pph_fast s) (pph_slow s) (pph_signal s);
     Some (s\<lparr>pph_ppo := i1, pph_prev_hist := None\<rparr>)
   }"

definition ppo_histogram_live :: "ppo_histogram \<Rightarrow> bool" where
  "ppo_histogram_live s \<longleftrightarrow> ppo_live (pph_fast s, pph_slow s, pph_signal s) (pph_ppo s)"

interpretation pph: restoring y ppo_histogram_on_bar ppo_histogram_reset ppo_histogram_live for y
  by (rule restoringI; unfold ppo_histogram_live_def ppo_histogram_on_bar_def ppo_histogram_reset_def; (elim conjE exE)?; ((erule steps renews | assumption)+)?)
    (auto simp: Let_def bar_of_def split: option.split intro: alive)

lemma pph_built: "ppo_histogram_new fast slow signal = Some s \<Longrightarrow> ppo_histogram_live s \<and> ppo_histogram_reset s = Some s"
  by (auto simp: ppo_histogram_new_def ppo_histogram_live_def ppo_histogram_reset_def bind_eq_Some_conv split: if_splits intro: alive)

section \<open>\<open>RocCrossover\<close>\<close>

record roc_crossover =
  rcx_roc :: roc
  rcx_prev_roc :: "f64 option"
  rcx_period :: nat

definition roc_crossover_new :: "nat \<Rightarrow> roc_crossover option" where
  "roc_crossover_new period =
     do {
       i1 \<leftarrow> roc_new period;
       Some \<lparr>rcx_roc = i1, rcx_prev_roc = None, rcx_period = period\<rparr>
     }"

definition roc_crossover_on_bar :: "roc_crossover \<Rightarrow> bar \<Rightarrow> (roc_crossover \<times> signal list) option" where
  "roc_crossover_on_bar s b = do {
     let (i1, rv) = roc_update (rcx_roc s) (b_close b);
     let s = s\<lparr>rcx_roc := i1\<rparr>;
     Some (case rv of Some v \<Rightarrow> (case rcx_prev_roc s of Some p \<Rightarrow> (s\<lparr>rcx_prev_roc := Some v\<rparr>, if p \<le> 0 \<and> v > 0 then long_at b 1
       else if p \<ge> 0 \<and> v < 0 then exit_at b else [])
       | None \<Rightarrow> (s\<lparr>rcx_prev_roc := Some v\<rparr>, [])) | None \<Rightarrow> (s, []))
   }"

definition roc_crossover_reset :: "roc_crossover \<Rightarrow> roc_crossover option" where
  "roc_crossover_reset s = do {
     i1 \<leftarrow> roc_new (rcx_period s);
     Some (s\<lparr>rcx_roc := i1, rcx_prev_roc := None\<rparr>)
   }"

definition roc_crossover_live :: "roc_crossover \<Rightarrow> bool" where
  "roc_crossover_live s \<longleftrightarrow> roc_live (rcx_period s) (rcx_roc s)"

interpretation rcx: restoring y roc_crossover_on_bar roc_crossover_reset roc_crossover_live for y
  by (rule restoringI; unfold roc_crossover_live_def roc_crossover_on_bar_def roc_crossover_reset_def; (elim conjE exE)?; ((erule steps renews | assumption)+)?)
    (auto simp: Let_def bar_of_def split: option.split intro: alive)

lemma rcx_built: "roc_crossover_new period = Some s \<Longrightarrow> roc_crossover_live s \<and> roc_crossover_reset s = Some s"
  by (auto simp: roc_crossover_new_def roc_crossover_live_def roc_crossover_reset_def bind_eq_Some_conv split: if_splits intro: alive)

section \<open>\<open>RsiMaCross\<close>\<close>

record rsi_ma_cross =
  rmx_fast :: ema
  rmx_slow :: ema
  rmx_rsi :: rsi
  rmx_prev_fast :: "f64 option"
  rmx_prev_slow :: "f64 option"
  rmx_fast_period :: nat
  rmx_slow_period :: nat
  rmx_rsi_period :: nat
  rmx_rsi_entry :: f64
  rmx_rsi_exit :: f64

definition rsi_ma_cross_new :: "nat \<Rightarrow> nat \<Rightarrow> nat \<Rightarrow> f64 \<Rightarrow> f64 \<Rightarrow> rsi_ma_cross option" where
  "rsi_ma_cross_new fast_period slow_period rsi_period' rsi_entry rsi_exit =
     do {
       i1 \<leftarrow> ema_new fast_period;
       i2 \<leftarrow> ema_new slow_period;
       i3 \<leftarrow> rsi_new rsi_period';
       Some \<lparr>rmx_fast = i1, rmx_slow = i2, rmx_rsi = i3, rmx_prev_fast = None, rmx_prev_slow = None,
           rmx_fast_period = fast_period, rmx_slow_period = slow_period, rmx_rsi_period = rsi_period',
               rmx_rsi_entry = rsi_entry, rmx_rsi_exit = rsi_exit\<rparr>
     }"

definition rsi_ma_cross_on_bar :: "rsi_ma_cross \<Rightarrow> bar \<Rightarrow> (rsi_ma_cross \<times> signal list) option" where
  "rsi_ma_cross_on_bar s b = do {
     (i1, fast) \<leftarrow> ema_update (rmx_fast s) (b_close b);
     (i2, slow) \<leftarrow> ema_update (rmx_slow s) (b_close b);
     (i3, rv) \<leftarrow> rsi_update (rmx_rsi s) (b_close b);
     let s = s\<lparr>rmx_fast := i1, rmx_slow := i2, rmx_rsi := i3\<rparr>;
     Some (case (fast, slow, rv) of (Some f, Some sl, Some r) \<Rightarrow>
       (case (rmx_prev_fast s, rmx_prev_slow s) of (Some pf, Some ps) \<Rightarrow>
       (s\<lparr>rmx_prev_fast := Some f, rmx_prev_slow := Some sl\<rparr>,
           if pf \<le> ps \<and> sl < f \<and> r > rmx_rsi_entry s then long_at b 1
       else if (pf \<ge> ps \<and> f < sl) \<or> r < rmx_rsi_exit s then exit_at b else [])
       | _ \<Rightarrow> (s\<lparr>rmx_prev_fast := Some f, rmx_prev_slow := Some sl\<rparr>, []))
       | _ \<Rightarrow> (s, []))
   }"

definition rsi_ma_cross_reset :: "rsi_ma_cross \<Rightarrow> rsi_ma_cross option" where
  "rsi_ma_cross_reset s = do {
     i1 \<leftarrow> ema_new (rmx_fast_period s);
     i2 \<leftarrow> ema_new (rmx_slow_period s);
     i3 \<leftarrow> rsi_new (rmx_rsi_period s);
     Some (s\<lparr>rmx_fast := i1, rmx_slow := i2, rmx_rsi := i3, rmx_prev_fast := None, rmx_prev_slow := None\<rparr>)
   }"

definition rsi_ma_cross_live :: "rsi_ma_cross \<Rightarrow> bool" where
  "rsi_ma_cross_live s \<longleftrightarrow> ema_live (rmx_fast_period s) (rmx_fast s) \<and> ema_live (rmx_slow_period s) (rmx_slow s) \<and>
     rsi_live (rmx_rsi_period s) (rmx_rsi s)"

interpretation rmx: restoring y rsi_ma_cross_on_bar rsi_ma_cross_reset rsi_ma_cross_live for y
  by (rule restoringI; unfold rsi_ma_cross_live_def rsi_ma_cross_on_bar_def rsi_ma_cross_reset_def; (elim conjE exE)?; ((erule steps renews | assumption)+)?)
    (auto simp: Let_def bar_of_def split: option.split intro: alive)

lemma rmx_built: "rsi_ma_cross_new fast_period slow_period rsi_period' rsi_entry rsi_exit = Some s \<Longrightarrow> rsi_ma_cross_live s \<and> rsi_ma_cross_reset s = Some s"
  by (auto simp: rsi_ma_cross_new_def rsi_ma_cross_live_def rsi_ma_cross_reset_def bind_eq_Some_conv split: if_splits intro: alive)

section \<open>\<open>RsiMeanRev\<close>\<close>

record rsi_mean_rev =
  rmr_rsi :: rsi
  rmr_oversold :: f64
  rmr_overbought :: f64
  rmr_period :: nat

definition rsi_mean_rev_new :: "nat \<Rightarrow> f64 \<Rightarrow> f64 \<Rightarrow> rsi_mean_rev option" where
  "rsi_mean_rev_new period oversold overbought =
     do {
       i1 \<leftarrow> rsi_new period;
       Some \<lparr>rmr_rsi = i1, rmr_oversold = oversold, rmr_overbought = overbought, rmr_period = period\<rparr>
     }"

definition rsi_mean_rev_on_bar :: "rsi_mean_rev \<Rightarrow> bar \<Rightarrow> (rsi_mean_rev \<times> signal list) option" where
  "rsi_mean_rev_on_bar s b = do {
     (i1, rv) \<leftarrow> rsi_update (rmr_rsi s) (b_close b);
     let s = s\<lparr>rmr_rsi := i1\<rparr>;
     Some (case rv of Some r \<Rightarrow> ((s,
         if r < rmr_oversold s then long_at b (fclamp ((rmr_oversold s - r) / rmr_oversold s) 0 1)
       else if r > rmr_overbought s then exit_at b else [])) | None \<Rightarrow> (s, []))
   }"

definition rsi_mean_rev_reset :: "rsi_mean_rev \<Rightarrow> rsi_mean_rev option" where
  "rsi_mean_rev_reset s = do {
     i1 \<leftarrow> rsi_new (rmr_period s);
     Some (s\<lparr>rmr_rsi := i1\<rparr>)
   }"

definition rsi_mean_rev_live :: "rsi_mean_rev \<Rightarrow> bool" where
  "rsi_mean_rev_live s \<longleftrightarrow> rsi_live (rmr_period s) (rmr_rsi s)"

interpretation rmr: restoring y rsi_mean_rev_on_bar rsi_mean_rev_reset rsi_mean_rev_live for y
  by (rule restoringI; unfold rsi_mean_rev_live_def rsi_mean_rev_on_bar_def rsi_mean_rev_reset_def; (elim conjE exE)?; ((erule steps renews | assumption)+)?)
    (auto simp: Let_def bar_of_def split: option.split intro: alive)

lemma rmr_built: "rsi_mean_rev_new period oversold overbought = Some s \<Longrightarrow> rsi_mean_rev_live s \<and> rsi_mean_rev_reset s = Some s"
  by (auto simp: rsi_mean_rev_new_def rsi_mean_rev_live_def rsi_mean_rev_reset_def bind_eq_Some_conv split: if_splits intro: alive)

section \<open>\<open>SmiReversal\<close>\<close>

record smi_reversal =
  smr_smi :: smi
  smr_prev_smi :: "f64 option"
  smr_prev_signal :: "f64 option"
  smr_period :: nat
  smr_smooth1 :: nat
  smr_smooth2 :: nat
  smr_signal_period :: nat
  smr_oversold :: f64
  smr_overbought :: f64

definition smi_reversal_new :: "nat \<Rightarrow> nat \<Rightarrow> nat \<Rightarrow> nat \<Rightarrow> f64 \<Rightarrow> f64 \<Rightarrow> smi_reversal option" where
  "smi_reversal_new period smooth1 smooth2 signal_period oversold overbought =
     do {
       i1 \<leftarrow> smi_new period smooth1 smooth2 signal_period;
       Some \<lparr>smr_smi = i1, smr_prev_smi = None, smr_prev_signal = None, smr_period = period,
           smr_smooth1 = smooth1, smr_smooth2 = smooth2, smr_signal_period = signal_period, smr_oversold = oversold,
               smr_overbought = overbought\<rparr>
     }"

definition smi_reversal_on_bar :: "smi_reversal \<Rightarrow> bar \<Rightarrow> (smi_reversal \<times> signal list) option" where
  "smi_reversal_on_bar s b = do {
     (i1, wv) \<leftarrow> smi_update (smr_smi s) (b_high b, b_low b, b_close b);
     let s = s\<lparr>smr_smi := i1\<rparr>;
     Some (case wv of Some v \<Rightarrow> (let f = smv_smi v; sl = smv_signal v in
       case (smr_prev_smi s, smr_prev_signal s) of (Some pf, Some ps) \<Rightarrow>
       (s\<lparr>smr_prev_smi := Some f, smr_prev_signal := Some sl\<rparr>,
           if pf \<le> ps \<and> sl < f \<and> pf < smr_oversold s then long_at b 1
       else if f > smr_overbought s \<or> (pf \<ge> ps \<and> f < sl) then exit_at b else [])
       | _ \<Rightarrow> (s\<lparr>smr_prev_smi := Some f, smr_prev_signal := Some sl\<rparr>, []))
       | None \<Rightarrow> (s, []))
   }"

definition smi_reversal_reset :: "smi_reversal \<Rightarrow> smi_reversal option" where
  "smi_reversal_reset s = do {
     i1 \<leftarrow> smi_new (smr_period s) (smr_smooth1 s) (smr_smooth2 s) (smr_signal_period s);
     Some (s\<lparr>smr_smi := i1, smr_prev_smi := None, smr_prev_signal := None\<rparr>)
   }"

definition smi_reversal_live :: "smi_reversal \<Rightarrow> bool" where
  "smi_reversal_live s \<longleftrightarrow> smi_live (smr_period s, smr_smooth1 s, smr_smooth2 s,
      smr_signal_period s) (smr_smi s)"

interpretation smr: restoring y smi_reversal_on_bar smi_reversal_reset smi_reversal_live for y
  by (rule restoringI; unfold smi_reversal_live_def smi_reversal_on_bar_def smi_reversal_reset_def; (elim conjE exE)?; ((erule steps renews | assumption)+)?)
    (auto simp: Let_def bar_of_def split: option.split intro: alive)

lemma smr_built: "smi_reversal_new period smooth1 smooth2 signal_period oversold overbought = Some s \<Longrightarrow> smi_reversal_live s \<and> smi_reversal_reset s = Some s"
  by (auto simp: smi_reversal_new_def smi_reversal_live_def smi_reversal_reset_def bind_eq_Some_conv split: if_splits intro: alive)

section \<open>\<open>StochRsiStrategy\<close>\<close>

record stoch_rsi_strategy =
  srs_rsi_period :: nat
  srs_smooth_d :: nat
  srs_oversold :: f64
  srs_overbought :: f64
  srs_srsi :: stochastic_rsi
  srs_prev_k :: "f64 option"

definition stoch_rsi_strategy_new :: "nat \<Rightarrow> nat \<Rightarrow> f64 \<Rightarrow> f64 \<Rightarrow> stoch_rsi_strategy option" where
  "stoch_rsi_strategy_new rsi_period' smooth_d oversold overbought =
     do {
       i1 \<leftarrow> stochastic_rsi_new rsi_period' smooth_d;
       Some \<lparr>srs_rsi_period = rsi_period', srs_smooth_d = smooth_d, srs_oversold = oversold,
           srs_overbought = overbought, srs_srsi = i1, srs_prev_k = None\<rparr>
     }"

definition stoch_rsi_strategy_on_bar :: "stoch_rsi_strategy \<Rightarrow> bar \<Rightarrow> (stoch_rsi_strategy \<times> signal list) option" where
  "stoch_rsi_strategy_on_bar s b = do {
     (i1, wv) \<leftarrow> stochastic_rsi_update (srs_srsi s) (b_close b);
     let s = s\<lparr>srs_srsi := i1\<rparr>;
     Some (case wv of Some v \<Rightarrow> (let k = sqv_k v in
       case srs_prev_k s of Some p \<Rightarrow> (s\<lparr>srs_prev_k := Some k\<rparr>,
           if p \<ge> srs_oversold s \<and> k < srs_oversold s then long_at b (fclamp ((srs_oversold s - k) / srs_oversold s) 0 1)
       else if p \<le> srs_overbought s \<and> k > srs_overbought s then exit_at b else [])
       | None \<Rightarrow> (s\<lparr>srs_prev_k := Some k\<rparr>, [])) | None \<Rightarrow> (s, []))
   }"

definition stoch_rsi_strategy_reset :: "stoch_rsi_strategy \<Rightarrow> stoch_rsi_strategy option" where
  "stoch_rsi_strategy_reset s = do {
     i1 \<leftarrow> stochastic_rsi_new (srs_rsi_period s) (srs_smooth_d s);
     Some (s\<lparr>srs_srsi := i1, srs_prev_k := None\<rparr>)
   }"

definition stoch_rsi_strategy_live :: "stoch_rsi_strategy \<Rightarrow> bool" where
  "stoch_rsi_strategy_live s \<longleftrightarrow> stochastic_rsi_live (srs_rsi_period s, srs_smooth_d s) (srs_srsi s)"

interpretation srs: restoring y stoch_rsi_strategy_on_bar stoch_rsi_strategy_reset stoch_rsi_strategy_live for y
  by (rule restoringI; unfold stoch_rsi_strategy_live_def stoch_rsi_strategy_on_bar_def stoch_rsi_strategy_reset_def; (elim conjE exE)?; ((erule steps renews | assumption)+)?)
    (auto simp: Let_def bar_of_def split: option.split intro: alive)

lemma srs_built: "stoch_rsi_strategy_new rsi_period' smooth_d oversold overbought = Some s \<Longrightarrow> stoch_rsi_strategy_live s \<and> stoch_rsi_strategy_reset s = Some s"
  by (auto simp: stoch_rsi_strategy_new_def stoch_rsi_strategy_live_def stoch_rsi_strategy_reset_def bind_eq_Some_conv split: if_splits intro: alive)

section \<open>\<open>StochasticCrossover\<close>\<close>

record stochastic_crossover =
  stc_stoch :: stochastic
  stc_prev :: "stoch_value option"
  stc_k_period :: nat
  stc_d_period :: nat
  stc_oversold :: f64
  stc_overbought :: f64

definition stochastic_crossover_new :: "nat \<Rightarrow> nat \<Rightarrow> f64 \<Rightarrow> f64 \<Rightarrow> stochastic_crossover option" where
  "stochastic_crossover_new k_period d_period oversold overbought =
     do {
       i1 \<leftarrow> stochastic_new k_period d_period;
       Some \<lparr>stc_stoch = i1, stc_prev = None, stc_k_period = k_period, stc_d_period = d_period,
           stc_oversold = oversold, stc_overbought = overbought\<rparr>
     }"

definition stochastic_crossover_on_bar :: "stochastic_crossover \<Rightarrow> bar \<Rightarrow> (stochastic_crossover \<times> signal list) option" where
  "stochastic_crossover_on_bar s b = do {
     (i1, wv) \<leftarrow> stochastic_update (stc_stoch s) (b_high b, b_low b, b_close b);
     let s = s\<lparr>stc_stoch := i1\<rparr>;
     Some (case wv of Some now \<Rightarrow> (case stc_prev s of Some p \<Rightarrow> (s\<lparr>stc_prev := Some now\<rparr>, if stv_k p \<le> stv_d p \<and> stv_k now > stv_d now \<and> stv_d now < stc_oversold s then long_at b (stv_k now / (lit 100))
       else if stv_k p \<ge> stv_d p \<and> stv_k now < stv_d now \<and> stv_d now > stc_overbought s then exit_at b
       else []) | None \<Rightarrow> (s\<lparr>stc_prev := Some now\<rparr>, [])) | None \<Rightarrow> (s, []))
   }"

definition stochastic_crossover_reset :: "stochastic_crossover \<Rightarrow> stochastic_crossover option" where
  "stochastic_crossover_reset s = do {
     i1 \<leftarrow> stochastic_new (stc_k_period s) (stc_d_period s);
     Some (s\<lparr>stc_stoch := i1, stc_prev := None\<rparr>)
   }"

definition stochastic_crossover_live :: "stochastic_crossover \<Rightarrow> bool" where
  "stochastic_crossover_live s \<longleftrightarrow> stochastic_live (stc_k_period s, stc_d_period s) (stc_stoch s)"

interpretation stc: restoring y stochastic_crossover_on_bar stochastic_crossover_reset stochastic_crossover_live for y
  by (rule restoringI; unfold stochastic_crossover_live_def stochastic_crossover_on_bar_def stochastic_crossover_reset_def; (elim conjE exE)?; ((erule steps renews | assumption)+)?)
    (auto simp: Let_def bar_of_def split: option.split intro: alive)

lemma stc_built: "stochastic_crossover_new k_period d_period oversold overbought = Some s \<Longrightarrow> stochastic_crossover_live s \<and> stochastic_crossover_reset s = Some s"
  by (auto simp: stochastic_crossover_new_def stochastic_crossover_live_def stochastic_crossover_reset_def bind_eq_Some_conv split: if_splits intro: alive)

section \<open>\<open>StochasticDk\<close>\<close>

record stochastic_dk =
  sdk_stoch :: stochastic
  sdk_prev_k :: "f64 option"
  sdk_prev_d :: "f64 option"
  sdk_k_period :: nat
  sdk_d_period :: nat

definition stochastic_dk_new :: "nat \<Rightarrow> nat \<Rightarrow> stochastic_dk option" where
  "stochastic_dk_new k_period d_period =
     do {
       i1 \<leftarrow> stochastic_new k_period d_period;
       Some \<lparr>sdk_stoch = i1, sdk_prev_k = None, sdk_prev_d = None, sdk_k_period = k_period, sdk_d_period = d_period\<rparr>
     }"

definition stochastic_dk_on_bar :: "stochastic_dk \<Rightarrow> bar \<Rightarrow> (stochastic_dk \<times> signal list) option" where
  "stochastic_dk_on_bar s b = do {
     (i1, wv) \<leftarrow> stochastic_update (sdk_stoch s) (b_high b, b_low b, b_close b);
     let s = s\<lparr>sdk_stoch := i1\<rparr>;
     Some (case wv of Some v \<Rightarrow> (let f = stv_k v; sl = stv_d v in
       case (sdk_prev_k s, sdk_prev_d s) of (Some pf, Some ps) \<Rightarrow>
       (s\<lparr>sdk_prev_k := Some f, sdk_prev_d := Some sl\<rparr>, if pf \<le> ps \<and> sl < f then long_at b 1
       else if pf \<ge> ps \<and> f < sl then exit_at b else [])
       | _ \<Rightarrow> (s\<lparr>sdk_prev_k := Some f, sdk_prev_d := Some sl\<rparr>, []))
       | None \<Rightarrow> (s, []))
   }"

definition stochastic_dk_reset :: "stochastic_dk \<Rightarrow> stochastic_dk option" where
  "stochastic_dk_reset s = do {
     i1 \<leftarrow> stochastic_new (sdk_k_period s) (sdk_d_period s);
     Some (s\<lparr>sdk_stoch := i1, sdk_prev_k := None, sdk_prev_d := None\<rparr>)
   }"

definition stochastic_dk_live :: "stochastic_dk \<Rightarrow> bool" where
  "stochastic_dk_live s \<longleftrightarrow> stochastic_live (sdk_k_period s, sdk_d_period s) (sdk_stoch s)"

interpretation sdk: restoring y stochastic_dk_on_bar stochastic_dk_reset stochastic_dk_live for y
  by (rule restoringI; unfold stochastic_dk_live_def stochastic_dk_on_bar_def stochastic_dk_reset_def; (elim conjE exE)?; ((erule steps renews | assumption)+)?)
    (auto simp: Let_def bar_of_def split: option.split intro: alive)

lemma sdk_built: "stochastic_dk_new k_period d_period = Some s \<Longrightarrow> stochastic_dk_live s \<and> stochastic_dk_reset s = Some s"
  by (auto simp: stochastic_dk_new_def stochastic_dk_live_def stochastic_dk_reset_def bind_eq_Some_conv split: if_splits intro: alive)

section \<open>\<open>TrixStrategy\<close>\<close>

record trix_strategy =
  txs_trix :: trix
  txs_prev_hist :: "f64 option"
  txs_period :: nat
  txs_signal_period :: nat

definition trix_strategy_new :: "nat \<Rightarrow> nat \<Rightarrow> trix_strategy option" where
  "trix_strategy_new period signal_period =
     do {
       i1 \<leftarrow> trix_new period signal_period;
       Some \<lparr>txs_trix = i1, txs_prev_hist = None, txs_period = period, txs_signal_period = signal_period\<rparr>
     }"

definition trix_strategy_on_bar :: "trix_strategy \<Rightarrow> bar \<Rightarrow> (trix_strategy \<times> signal list) option" where
  "trix_strategy_on_bar s b = do {
     (i1, wv) \<leftarrow> trix_update (txs_trix s) (b_close b);
     let s = s\<lparr>txs_trix := i1\<rparr>;
     Some (case wv of Some v \<Rightarrow> (let h = mv_histogram v in
       case txs_prev_hist s of Some p \<Rightarrow> (s\<lparr>txs_prev_hist := Some h\<rparr>,
           if p \<le> 0 \<and> h > 0 then long_at b 1
       else if p \<ge> 0 \<and> h < 0 then exit_at b else [])
       | None \<Rightarrow> (s\<lparr>txs_prev_hist := Some h\<rparr>, [])) | None \<Rightarrow> (s, []))
   }"

definition trix_strategy_reset :: "trix_strategy \<Rightarrow> trix_strategy option" where
  "trix_strategy_reset s = do {
     i1 \<leftarrow> trix_new (txs_period s) (txs_signal_period s);
     Some (s\<lparr>txs_trix := i1, txs_prev_hist := None\<rparr>)
   }"

definition trix_strategy_live :: "trix_strategy \<Rightarrow> bool" where
  "trix_strategy_live s \<longleftrightarrow> trix_live (txs_period s, txs_signal_period s) (txs_trix s)"

interpretation txs: restoring y trix_strategy_on_bar trix_strategy_reset trix_strategy_live for y
  by (rule restoringI; unfold trix_strategy_live_def trix_strategy_on_bar_def trix_strategy_reset_def; (elim conjE exE)?; ((erule steps renews | assumption)+)?)
    (auto simp: Let_def bar_of_def split: option.split intro: alive)

lemma txs_built: "trix_strategy_new period signal_period = Some s \<Longrightarrow> trix_strategy_live s \<and> trix_strategy_reset s = Some s"
  by (auto simp: trix_strategy_new_def trix_strategy_live_def trix_strategy_reset_def bind_eq_Some_conv split: if_splits intro: alive)

section \<open>\<open>TsiStrategy\<close>\<close>

record tsi_strategy =
  tss_first :: nat
  tss_second :: nat
  tss_entry_threshold :: f64
  tss_exit_threshold :: f64
  tss_tsi :: tsi
  tss_prev_tsi :: "f64 option"

definition tsi_strategy_new :: "nat \<Rightarrow> nat \<Rightarrow> f64 \<Rightarrow> f64 \<Rightarrow> tsi_strategy option" where
  "tsi_strategy_new first second entry_threshold exit_threshold =
     do {
       i1 \<leftarrow> tsi_new first second;
       Some \<lparr>tss_first = first, tss_second = second, tss_entry_threshold = entry_threshold,
           tss_exit_threshold = exit_threshold, tss_tsi = i1, tss_prev_tsi = None\<rparr>
     }"

definition tsi_strategy_on_bar :: "tsi_strategy \<Rightarrow> bar \<Rightarrow> (tsi_strategy \<times> signal list) option" where
  "tsi_strategy_on_bar s b = do {
     (i1, wv) \<leftarrow> tsi_update (tss_tsi s) (b_close b);
     let s = s\<lparr>tss_tsi := i1\<rparr>;
     Some (case wv of Some v \<Rightarrow> (case tss_prev_tsi s of Some p \<Rightarrow> (s\<lparr>tss_prev_tsi := Some v\<rparr>, if p < tss_entry_threshold s \<and> v \<ge> tss_entry_threshold s then long_at b (fclamp ((v - tss_entry_threshold s) / ((lit 100) - tss_entry_threshold s)) 0 1)
       else if p \<ge> tss_exit_threshold s \<and> v < tss_exit_threshold s then exit_at b else [])
       | None \<Rightarrow> (s\<lparr>tss_prev_tsi := Some v\<rparr>, [])) | None \<Rightarrow> (s, []))
   }"

definition tsi_strategy_reset :: "tsi_strategy \<Rightarrow> tsi_strategy option" where
  "tsi_strategy_reset s = do {
     i1 \<leftarrow> tsi_new (tss_first s) (tss_second s);
     Some (s\<lparr>tss_tsi := i1, tss_prev_tsi := None\<rparr>)
   }"

definition tsi_strategy_live :: "tsi_strategy \<Rightarrow> bool" where
  "tsi_strategy_live s \<longleftrightarrow> tsi_live (tss_first s, tss_second s) (tss_tsi s)"

interpretation tss: restoring y tsi_strategy_on_bar tsi_strategy_reset tsi_strategy_live for y
  by (rule restoringI; unfold tsi_strategy_live_def tsi_strategy_on_bar_def tsi_strategy_reset_def; (elim conjE exE)?; ((erule steps renews | assumption)+)?)
    (auto simp: Let_def bar_of_def split: option.split intro: alive)

lemma tss_built: "tsi_strategy_new first second entry_threshold exit_threshold = Some s \<Longrightarrow> tsi_strategy_live s \<and> tsi_strategy_reset s = Some s"
  by (auto simp: tsi_strategy_new_def tsi_strategy_live_def tsi_strategy_reset_def bind_eq_Some_conv split: if_splits intro: alive)

section \<open>\<open>UoReversal\<close>\<close>

record uo_reversal =
  uor_uo :: uo
  uor_prev_uo :: "f64 option"
  uor_fast :: nat
  uor_medium :: nat
  uor_slow :: nat
  uor_oversold :: f64
  uor_overbought :: f64

definition uo_reversal_new :: "nat \<Rightarrow> nat \<Rightarrow> nat \<Rightarrow> f64 \<Rightarrow> f64 \<Rightarrow> uo_reversal option" where
  "uo_reversal_new fast medium slow oversold overbought =
     do {
       i1 \<leftarrow> uo_new fast medium slow;
       Some \<lparr>uor_uo = i1, uor_prev_uo = None, uor_fast = fast, uor_medium = medium, uor_slow = slow,
           uor_oversold = oversold, uor_overbought = overbought\<rparr>
     }"

definition uo_reversal_on_bar :: "uo_reversal \<Rightarrow> bar \<Rightarrow> (uo_reversal \<times> signal list) option" where
  "uo_reversal_on_bar s b = do {
     (i1, wv) \<leftarrow> uo_update (uor_uo s) (b_high b, b_low b, b_close b);
     let s = s\<lparr>uor_uo := i1\<rparr>;
     Some (case wv of Some v \<Rightarrow> (case uor_prev_uo s of Some p \<Rightarrow> (s\<lparr>uor_prev_uo := Some v\<rparr>, if p \<le> uor_oversold s \<and> v > uor_oversold s then long_at b 1
       else if v > uor_overbought s then exit_at b else [])
       | None \<Rightarrow> (s\<lparr>uor_prev_uo := Some v\<rparr>, [])) | None \<Rightarrow> (s, []))
   }"

definition uo_reversal_reset :: "uo_reversal \<Rightarrow> uo_reversal option" where
  "uo_reversal_reset s = do {
     i1 \<leftarrow> uo_new (uor_fast s) (uor_medium s) (uor_slow s);
     Some (s\<lparr>uor_uo := i1, uor_prev_uo := None\<rparr>)
   }"

definition uo_reversal_live :: "uo_reversal \<Rightarrow> bool" where
  "uo_reversal_live s \<longleftrightarrow> uo_live (uor_fast s, uor_medium s, uor_slow s) (uor_uo s)"

interpretation uor: restoring y uo_reversal_on_bar uo_reversal_reset uo_reversal_live for y
  by (rule restoringI; unfold uo_reversal_live_def uo_reversal_on_bar_def uo_reversal_reset_def; (elim conjE exE)?; ((erule steps renews | assumption)+)?)
    (auto simp: Let_def bar_of_def split: option.split intro: alive)

lemma uor_built: "uo_reversal_new fast medium slow oversold overbought = Some s \<Longrightarrow> uo_reversal_live s \<and> uo_reversal_reset s = Some s"
  by (auto simp: uo_reversal_new_def uo_reversal_live_def uo_reversal_reset_def bind_eq_Some_conv split: if_splits intro: alive)

section \<open>\<open>WilliamsRMa\<close>\<close>

record williams_r_ma =
  wrm_wr :: williams_r
  wrm_ema :: ema
  wrm_prev_wr :: "f64 option"
  wrm_wr_period :: nat
  wrm_ema_period :: nat
  wrm_oversold :: f64
  wrm_overbought :: f64

definition williams_r_ma_new :: "nat \<Rightarrow> nat \<Rightarrow> f64 \<Rightarrow> f64 \<Rightarrow> williams_r_ma option" where
  "williams_r_ma_new wr_period ema_period' oversold overbought =
     do {
       i1 \<leftarrow> williams_new wr_period;
       i2 \<leftarrow> ema_new ema_period';
       Some \<lparr>wrm_wr = i1, wrm_ema = i2, wrm_prev_wr = None, wrm_wr_period = wr_period,
           wrm_ema_period = ema_period', wrm_oversold = oversold, wrm_overbought = overbought\<rparr>
     }"

definition williams_r_ma_on_bar :: "williams_r_ma \<Rightarrow> bar \<Rightarrow> (williams_r_ma \<times> signal list) option" where
  "williams_r_ma_on_bar s b = do {
     let (i1, wv) = williams_update (wrm_wr s) (b_high b, b_low b, b_close b);
     (i2, ev) \<leftarrow> ema_update (wrm_ema s) (b_close b);
     let s = s\<lparr>wrm_wr := i1, wrm_ema := i2\<rparr>;
     Some (case (wv, ev) of (Some v, Some e) \<Rightarrow>
       (case wrm_prev_wr s of Some p \<Rightarrow> (s\<lparr>wrm_prev_wr := Some v\<rparr>,
           if p \<le> wrm_oversold s \<and> v > wrm_oversold s \<and> b_close b > e then long_at b 1
       else if p \<ge> wrm_overbought s \<and> v < wrm_overbought s then exit_at b else [])
       | None \<Rightarrow> (s\<lparr>wrm_prev_wr := Some v\<rparr>, [])) | _ \<Rightarrow> (s, []))
   }"

definition williams_r_ma_reset :: "williams_r_ma \<Rightarrow> williams_r_ma option" where
  "williams_r_ma_reset s = do {
     i1 \<leftarrow> williams_new (wrm_wr_period s);
     i2 \<leftarrow> ema_new (wrm_ema_period s);
     Some (s\<lparr>wrm_wr := i1, wrm_ema := i2, wrm_prev_wr := None\<rparr>)
   }"

definition williams_r_ma_live :: "williams_r_ma \<Rightarrow> bool" where
  "williams_r_ma_live s \<longleftrightarrow> williams_live (wrm_wr_period s) (wrm_wr s) \<and> ema_live (wrm_ema_period s) (wrm_ema s)"

interpretation wrm: restoring y williams_r_ma_on_bar williams_r_ma_reset williams_r_ma_live for y
  by (rule restoringI; unfold williams_r_ma_live_def williams_r_ma_on_bar_def williams_r_ma_reset_def; (elim conjE exE)?; ((erule steps renews | assumption)+)?)
    (auto simp: Let_def bar_of_def split: option.split intro: alive)

lemma wrm_built: "williams_r_ma_new wr_period ema_period' oversold overbought = Some s \<Longrightarrow> williams_r_ma_live s \<and> williams_r_ma_reset s = Some s"
  by (auto simp: williams_r_ma_new_def williams_r_ma_live_def williams_r_ma_reset_def bind_eq_Some_conv split: if_splits intro: alive)

end
