(* ===== verification/Named_Volume.thy ===== *)
theory Named_Volume
  imports Named_Base
begin

text \<open>
  \<open>alm-strategy/src/named/volume\<close>: the strategies on volume. Each has the record of its state, the constructor with its
  assertions, the answer to a bar, the reset, the states it can be in, and its instance of the contract.
\<close>

section \<open>\<open>CmfEmaTrend\<close>\<close>

record cmf_ema_trend =
  cet_cmf :: cmf
  cet_ema :: ema
  cet_cmf_period :: nat
  cet_ema_period :: nat
  cet_bull_threshold :: f64
  cet_bear_threshold :: f64

definition cmf_ema_trend_new :: "nat \<Rightarrow> nat \<Rightarrow> f64 \<Rightarrow> f64 \<Rightarrow> cmf_ema_trend option" where
  "cmf_ema_trend_new cmf_period ema_period' bull_threshold bear_threshold =
     do {
       i1 \<leftarrow> ema_new ema_period';
       Some \<lparr>cet_cmf = cmf_new cmf_period, cet_ema = i1, cet_cmf_period = cmf_period,
           cet_ema_period = ema_period', cet_bull_threshold = bull_threshold, cet_bear_threshold = bear_threshold\<rparr>
     }"

definition cmf_ema_trend_on_bar :: "cmf_ema_trend \<Rightarrow> bar \<Rightarrow> (cmf_ema_trend \<times> signal list) option" where
  "cmf_ema_trend_on_bar s b = do {
     let (i1, cv) = cmf_update (cet_cmf s) (b_high b, b_low b, b_close b, b_volume b);
     (i2, ev) \<leftarrow> ema_update (cet_ema s) (b_close b);
     let s = s\<lparr>cet_cmf := i1, cet_ema := i2\<rparr>;
     Some (case (cv, ev) of (Some c, Some e) \<Rightarrow>
       ((s, if c > cet_bull_threshold s \<and> b_close b > e then long_at b 1
       else if c < - cet_bear_threshold s then exit_at b else [])) | _ \<Rightarrow> (s, []))
   }"

definition cmf_ema_trend_reset :: "cmf_ema_trend \<Rightarrow> cmf_ema_trend option" where
  "cmf_ema_trend_reset s = do {
     i1 \<leftarrow> ema_new (cet_ema_period s);
     Some (s\<lparr>cet_cmf := cmf_new (cet_cmf_period s), cet_ema := i1\<rparr>)
   }"

definition cmf_ema_trend_live :: "cmf_ema_trend \<Rightarrow> bool" where
  "cmf_ema_trend_live s \<longleftrightarrow> cmf_live (cet_cmf_period s) (cet_cmf s) \<and> ema_live (cet_ema_period s) (cet_ema s)"

interpretation cet: restoring y cmf_ema_trend_on_bar cmf_ema_trend_reset cmf_ema_trend_live for y
  by (rule restoringI; unfold cmf_ema_trend_live_def cmf_ema_trend_on_bar_def cmf_ema_trend_reset_def; (elim conjE exE)?; ((erule steps renews | assumption)+)?)
    (auto simp: Let_def bar_of_def split: option.split intro: alive)

lemma cet_built: "cmf_ema_trend_new cmf_period ema_period' bull_threshold bear_threshold = Some s \<Longrightarrow> cmf_ema_trend_live s \<and> cmf_ema_trend_reset s = Some s"
  by (auto simp: cmf_ema_trend_new_def cmf_ema_trend_live_def cmf_ema_trend_reset_def bind_eq_Some_conv split: if_splits intro: alive)

section \<open>\<open>MfiRevert\<close>\<close>

record mfi_revert =
  mfr_mfi :: mfi
  mfr_oversold :: f64
  mfr_overbought :: f64
  mfr_prev_mfi :: "f64 option"
  mfr_period :: nat

definition mfi_revert_new :: "nat \<Rightarrow> f64 \<Rightarrow> f64 \<Rightarrow> mfi_revert option" where
  "mfi_revert_new period oversold overbought =
     do {
       i1 \<leftarrow> mfi_new period;
       Some \<lparr>mfr_mfi = i1, mfr_oversold = oversold, mfr_overbought = overbought, mfr_prev_mfi = None,
           mfr_period = period\<rparr>
     }"

definition mfi_revert_on_bar :: "mfi_revert \<Rightarrow> bar \<Rightarrow> (mfi_revert \<times> signal list) option" where
  "mfi_revert_on_bar s b = do {
     let (i1, wv) = mfi_update (mfr_mfi s) (b_high b, b_low b, b_close b, b_volume b);
     let s = s\<lparr>mfr_mfi := i1\<rparr>;
     Some (case wv of Some v \<Rightarrow> (case mfr_prev_mfi s of Some p \<Rightarrow> (s\<lparr>mfr_prev_mfi := Some v\<rparr>, if p \<le> mfr_oversold s \<and> v > mfr_oversold s then long_at b 1
       else if p \<le> mfr_overbought s \<and> v > mfr_overbought s then exit_at b else [])
       | None \<Rightarrow> (s\<lparr>mfr_prev_mfi := Some v\<rparr>, [])) | None \<Rightarrow> (s, []))
   }"

definition mfi_revert_reset :: "mfi_revert \<Rightarrow> mfi_revert option" where
  "mfi_revert_reset s = do {
     i1 \<leftarrow> mfi_new (mfr_period s);
     Some (s\<lparr>mfr_mfi := i1, mfr_prev_mfi := None\<rparr>)
   }"

definition mfi_revert_live :: "mfi_revert \<Rightarrow> bool" where
  "mfi_revert_live s \<longleftrightarrow> mfi_live (mfr_period s) (mfr_mfi s)"

interpretation mfr: restoring y mfi_revert_on_bar mfi_revert_reset mfi_revert_live for y
  by (rule restoringI; unfold mfi_revert_live_def mfi_revert_on_bar_def mfi_revert_reset_def; (elim conjE exE)?; ((erule steps renews | assumption)+)?)
    (auto simp: Let_def bar_of_def split: option.split intro: alive)

lemma mfr_built: "mfi_revert_new period oversold overbought = Some s \<Longrightarrow> mfi_revert_live s \<and> mfi_revert_reset s = Some s"
  by (auto simp: mfi_revert_new_def mfi_revert_live_def mfi_revert_reset_def bind_eq_Some_conv split: if_splits intro: alive)

section \<open>\<open>MfiTrend\<close>\<close>

record mfi_trend =
  mft_mfi :: mfi
  mft_bull_threshold :: f64
  mft_bear_threshold :: f64
  mft_prev_mfi :: "f64 option"
  mft_period :: nat

definition mfi_trend_new :: "nat \<Rightarrow> f64 \<Rightarrow> f64 \<Rightarrow> mfi_trend option" where
  "mfi_trend_new period bull_threshold bear_threshold =
     do {
       i1 \<leftarrow> mfi_new period;
       Some \<lparr>mft_mfi = i1, mft_bull_threshold = bull_threshold, mft_bear_threshold = bear_threshold,
           mft_prev_mfi = None, mft_period = period\<rparr>
     }"

definition mfi_trend_on_bar :: "mfi_trend \<Rightarrow> bar \<Rightarrow> (mfi_trend \<times> signal list) option" where
  "mfi_trend_on_bar s b = do {
     let (i1, wv) = mfi_update (mft_mfi s) (b_high b, b_low b, b_close b, b_volume b);
     let s = s\<lparr>mft_mfi := i1\<rparr>;
     Some (case wv of Some v \<Rightarrow> (case mft_prev_mfi s of Some p \<Rightarrow> (s\<lparr>mft_prev_mfi := Some v\<rparr>, if p \<le> mft_bull_threshold s \<and> v > mft_bull_threshold s then long_at b 1
       else if v < mft_bear_threshold s then exit_at b else [])
       | None \<Rightarrow> (s\<lparr>mft_prev_mfi := Some v\<rparr>, [])) | None \<Rightarrow> (s, []))
   }"

definition mfi_trend_reset :: "mfi_trend \<Rightarrow> mfi_trend option" where
  "mfi_trend_reset s = do {
     i1 \<leftarrow> mfi_new (mft_period s);
     Some (s\<lparr>mft_mfi := i1, mft_prev_mfi := None\<rparr>)
   }"

definition mfi_trend_live :: "mfi_trend \<Rightarrow> bool" where
  "mfi_trend_live s \<longleftrightarrow> mfi_live (mft_period s) (mft_mfi s)"

interpretation mft: restoring y mfi_trend_on_bar mfi_trend_reset mfi_trend_live for y
  by (rule restoringI; unfold mfi_trend_live_def mfi_trend_on_bar_def mfi_trend_reset_def; (elim conjE exE)?; ((erule steps renews | assumption)+)?)
    (auto simp: Let_def bar_of_def split: option.split intro: alive)

lemma mft_built: "mfi_trend_new period bull_threshold bear_threshold = Some s \<Longrightarrow> mfi_trend_live s \<and> mfi_trend_reset s = Some s"
  by (auto simp: mfi_trend_new_def mfi_trend_live_def mfi_trend_reset_def bind_eq_Some_conv split: if_splits intro: alive)

section \<open>\<open>ObvEmaTrend\<close>\<close>

record obv_ema_trend =
  oet_obv :: obv
  oet_obv_ema :: ema
  oet_price_ema :: ema
  oet_in_position :: bool
  oet_obv_ema_period :: nat
  oet_price_ema_period :: nat

definition obv_ema_trend_new :: "nat \<Rightarrow> nat \<Rightarrow> obv_ema_trend option" where
  "obv_ema_trend_new obv_ema_period price_ema_period =
     do {
       i1 \<leftarrow> ema_new obv_ema_period;
       i2 \<leftarrow> ema_new price_ema_period;
       Some \<lparr>oet_obv = obv_new, oet_obv_ema = i1, oet_price_ema = i2, oet_in_position = False,
           oet_obv_ema_period = obv_ema_period, oet_price_ema_period = price_ema_period\<rparr>
     }"

definition obv_ema_trend_on_bar :: "obv_ema_trend \<Rightarrow> bar \<Rightarrow> (obv_ema_trend \<times> signal list) option" where
  "obv_ema_trend_on_bar s b = do {
     let (i1, obv_val) = obv_update (oet_obv s) (b_close b, b_volume b);
     (i2, oe) \<leftarrow> ema_update (oet_obv_ema s) obv_val;
     (i3, pe) \<leftarrow> ema_update (oet_price_ema s) (b_close b);
     let s = s\<lparr>oet_obv := i1, oet_obv_ema := i2, oet_price_ema := i3\<rparr>;
     Some (case (oe, pe) of (Some oe, Some p) \<Rightarrow> (let obv_bullish = obv_val > oe; price_bullish = b_close b > p in
       if obv_bullish \<and> price_bullish \<and> \<not> oet_in_position s then (s\<lparr>oet_in_position := True\<rparr>, long_at b 1)
       else if oet_in_position s \<and> (\<not> obv_bullish \<or> \<not> price_bullish) then (s\<lparr>oet_in_position := False\<rparr>, exit_at b)
       else (s, [])) | _ \<Rightarrow> (s, []))
   }"

definition obv_ema_trend_reset :: "obv_ema_trend \<Rightarrow> obv_ema_trend option" where
  "obv_ema_trend_reset s = do {
     i1 \<leftarrow> ema_new (oet_obv_ema_period s);
     i2 \<leftarrow> ema_new (oet_price_ema_period s);
     Some (s\<lparr>oet_obv := obv_new, oet_obv_ema := i1, oet_price_ema := i2, oet_in_position := False\<rparr>)
   }"

definition obv_ema_trend_live :: "obv_ema_trend \<Rightarrow> bool" where
  "obv_ema_trend_live s \<longleftrightarrow> obv_live () (oet_obv s) \<and> ema_live (oet_obv_ema_period s) (oet_obv_ema s) \<and>
     ema_live (oet_price_ema_period s) (oet_price_ema s)"

interpretation oet: restoring y obv_ema_trend_on_bar obv_ema_trend_reset obv_ema_trend_live for y
  by (rule restoringI; unfold obv_ema_trend_live_def obv_ema_trend_on_bar_def obv_ema_trend_reset_def; (elim conjE exE)?; ((erule steps renews | assumption)+)?)
    (auto simp: Let_def bar_of_def split: option.split intro: alive)

lemma oet_built: "obv_ema_trend_new obv_ema_period price_ema_period = Some s \<Longrightarrow> obv_ema_trend_live s \<and> obv_ema_trend_reset s = Some s"
  by (auto simp: obv_ema_trend_new_def obv_ema_trend_live_def obv_ema_trend_reset_def bind_eq_Some_conv split: if_splits intro: alive)

section \<open>\<open>VwapBounce\<close>\<close>

record vwap_bounce =
  vwb_vwap :: vwap
  vwb_rsi :: rsi
  vwb_rsi_p :: nat
  vwb_oversold :: f64
  vwb_overbought :: f64
  vwb_session_gap_mins :: nat
  vwb_prev_above :: "bool option"

definition vwap_bounce_new :: "nat \<Rightarrow> f64 \<Rightarrow> f64 \<Rightarrow> nat \<Rightarrow> vwap_bounce option" where
  "vwap_bounce_new rsi_period' oversold overbought session_gap_mins =
     do {
       i1 \<leftarrow> rsi_new rsi_period';
       Some \<lparr>vwb_vwap = vwap_new session_gap_mins, vwb_rsi = i1, vwb_rsi_p = rsi_period',
           vwb_oversold = oversold, vwb_overbought = overbought, vwb_session_gap_mins = session_gap_mins,
               vwb_prev_above = None\<rparr>
     }"

definition vwap_bounce_on_bar :: "vwap_bounce \<Rightarrow> bar \<Rightarrow> (vwap_bounce \<times> signal list) option" where
  "vwap_bounce_on_bar s b = do {
     let (i1, vw) = vwap_update (vwb_vwap s) (b_timestamp b, b_high b, b_low b, b_close b, b_volume b);
     (i2, rv) \<leftarrow> rsi_update (vwb_rsi s) (b_close b);
     let s = s\<lparr>vwb_vwap := i1, vwb_rsi := i2\<rparr>;
     Some (case rv of Some r \<Rightarrow> (let above_vwap = b_close b > vw in
       case vwb_prev_above s of Some p \<Rightarrow> (s\<lparr>vwb_prev_above := Some above_vwap\<rparr>,
           if \<not> p \<and> above_vwap \<and> r < vwb_oversold s + (lit 10) then long_at b (lit (4 / 5))
       else if p \<and> \<not> above_vwap then exit_at b else if r > vwb_overbought s then exit_at b else [])
       | None \<Rightarrow> (s\<lparr>vwb_prev_above := Some above_vwap\<rparr>, []))
       | None \<Rightarrow> (s, []))
   }"

definition vwap_bounce_reset :: "vwap_bounce \<Rightarrow> vwap_bounce option" where
  "vwap_bounce_reset s = do {
     i1 \<leftarrow> rsi_new (vwb_rsi_p s);
     Some (s\<lparr>vwb_vwap := vwap_new (vwb_session_gap_mins s), vwb_rsi := i1, vwb_prev_above := None\<rparr>)
   }"

definition vwap_bounce_live :: "vwap_bounce \<Rightarrow> bool" where
  "vwap_bounce_live s \<longleftrightarrow> vwap_live (vwb_session_gap_mins s) (vwb_vwap s) \<and> rsi_live (vwb_rsi_p s) (vwb_rsi s)"

interpretation vwb: restoring y vwap_bounce_on_bar vwap_bounce_reset vwap_bounce_live for y
  by (rule restoringI; unfold vwap_bounce_live_def vwap_bounce_on_bar_def vwap_bounce_reset_def; (elim conjE exE)?; ((erule steps renews | assumption)+)?)
    (auto simp: Let_def bar_of_def split: option.split intro: alive)

lemma vwb_built: "vwap_bounce_new rsi_period' oversold overbought session_gap_mins = Some s \<Longrightarrow> vwap_bounce_live s \<and> vwap_bounce_reset s = Some s"
  by (auto simp: vwap_bounce_new_def vwap_bounce_live_def vwap_bounce_reset_def bind_eq_Some_conv split: if_splits intro: alive)

section \<open>\<open>VwapTrend\<close>\<close>

record vwap_trend =
  vwt_vwap :: vwap
  vwt_session_gap_mins :: nat
  vwt_prev_vwap :: "f64 option"
  vwt_in_position :: bool

definition vwap_trend_new :: "nat \<Rightarrow> vwap_trend option" where
  "vwap_trend_new session_gap_mins =
     Some \<lparr>vwt_vwap = vwap_new session_gap_mins, vwt_session_gap_mins = session_gap_mins,
         vwt_prev_vwap = None, vwt_in_position = False\<rparr>"

definition vwap_trend_on_bar :: "vwap_trend \<Rightarrow> bar \<Rightarrow> (vwap_trend \<times> signal list) option" where
  "vwap_trend_on_bar s b = do {
     let (i1, v) = vwap_update (vwt_vwap s) (b_timestamp b, b_high b, b_low b, b_close b, b_volume b);
     let s = s\<lparr>vwt_vwap := i1\<rparr>;
     Some (case vwt_prev_vwap s of
       None \<Rightarrow> (s\<lparr>vwt_prev_vwap := Some v\<rparr>, [])
     | Some pv \<Rightarrow>
         let s = s\<lparr>vwt_prev_vwap := Some v\<rparr>; vwap_rising = v > pv; above_vwap = b_close b > v in
         if above_vwap \<and> vwap_rising \<and> \<not> vwt_in_position s then (s\<lparr>vwt_in_position := True\<rparr>, long_at b 1)
         else if \<not> above_vwap \<and> vwt_in_position s then (s\<lparr>vwt_in_position := False\<rparr>, exit_at b)
         else (s, []))
   }"

definition vwap_trend_reset :: "vwap_trend \<Rightarrow> vwap_trend option" where
  "vwap_trend_reset s = Some (s\<lparr>vwt_vwap := vwap_new (vwt_session_gap_mins s), vwt_prev_vwap := None,
      vwt_in_position := False\<rparr>)"

definition vwap_trend_live :: "vwap_trend \<Rightarrow> bool" where
  "vwap_trend_live s \<longleftrightarrow> vwap_live (vwt_session_gap_mins s) (vwt_vwap s)"

interpretation vwt: restoring y vwap_trend_on_bar vwap_trend_reset vwap_trend_live for y
  by (rule restoringI; unfold vwap_trend_live_def vwap_trend_on_bar_def vwap_trend_reset_def; (elim conjE exE)?; ((erule steps renews | assumption)+)?)
    (auto simp: Let_def bar_of_def split: option.split intro: alive)

lemma vwt_built: "vwap_trend_new session_gap_mins = Some s \<Longrightarrow> vwap_trend_live s \<and> vwap_trend_reset s = Some s"
  by (auto simp: vwap_trend_new_def vwap_trend_live_def vwap_trend_reset_def bind_eq_Some_conv split: if_splits intro: alive)

section \<open>\<open>VwmaRsi\<close>\<close>

record vwma_rsi =
  vmr_vwma :: vwma
  vmr_rsi :: rsi
  vmr_vwma_period :: nat
  vmr_rsi_period :: nat
  vmr_rsi_entry :: f64
  vmr_rsi_exit :: f64

definition vwma_rsi_new :: "nat \<Rightarrow> nat \<Rightarrow> f64 \<Rightarrow> f64 \<Rightarrow> vwma_rsi option" where
  "vwma_rsi_new vwma_period rsi_period' rsi_entry rsi_exit =
     do {
       i1 \<leftarrow> vwma_new vwma_period;
       i2 \<leftarrow> rsi_new rsi_period';
       Some \<lparr>vmr_vwma = i1, vmr_rsi = i2, vmr_vwma_period = vwma_period, vmr_rsi_period = rsi_period',
           vmr_rsi_entry = rsi_entry, vmr_rsi_exit = rsi_exit\<rparr>
     }"

definition vwma_rsi_on_bar :: "vwma_rsi \<Rightarrow> bar \<Rightarrow> (vwma_rsi \<times> signal list) option" where
  "vwma_rsi_on_bar s b = do {
     (i1, wv) \<leftarrow> vwma_update (vmr_vwma s) (b_close b, b_volume b);
     (i2, rv) \<leftarrow> rsi_update (vmr_rsi s) (b_close b);
     let s = s\<lparr>vmr_vwma := i1, vmr_rsi := i2\<rparr>;
     Some (case (wv, rv) of (Some v, Some r) \<Rightarrow>
       ((s, if b_close b > v \<and> r > vmr_rsi_entry s then long_at b 1
       else if r < vmr_rsi_exit s then exit_at b else [])) | _ \<Rightarrow> (s, []))
   }"

definition vwma_rsi_reset :: "vwma_rsi \<Rightarrow> vwma_rsi option" where
  "vwma_rsi_reset s = do {
     i1 \<leftarrow> vwma_new (vmr_vwma_period s);
     i2 \<leftarrow> rsi_new (vmr_rsi_period s);
     Some (s\<lparr>vmr_vwma := i1, vmr_rsi := i2\<rparr>)
   }"

definition vwma_rsi_live :: "vwma_rsi \<Rightarrow> bool" where
  "vwma_rsi_live s \<longleftrightarrow> vwma_live (vmr_vwma_period s) (vmr_vwma s) \<and> rsi_live (vmr_rsi_period s) (vmr_rsi s)"

interpretation vmr: restoring y vwma_rsi_on_bar vwma_rsi_reset vwma_rsi_live for y
  by (rule restoringI; unfold vwma_rsi_live_def vwma_rsi_on_bar_def vwma_rsi_reset_def; (elim conjE exE)?; ((erule steps renews | assumption)+)?)
    (auto simp: Let_def bar_of_def split: option.split intro: alive)

lemma vmr_built: "vwma_rsi_new vwma_period rsi_period' rsi_entry rsi_exit = Some s \<Longrightarrow> vwma_rsi_live s \<and> vwma_rsi_reset s = Some s"
  by (auto simp: vwma_rsi_new_def vwma_rsi_live_def vwma_rsi_reset_def bind_eq_Some_conv split: if_splits intro: alive)

section \<open>\<open>WaddahAttar\<close>\<close>

record waddah_attar =
  waa_macd :: macd
  waa_bb :: bbands
  waa_atr :: atr
  waa_prev_macd_line :: "f64 option"
  waa_sensitivity :: f64
  waa_dz_multiplier :: f64
  waa_dz_period :: nat
  waa_fast :: nat
  waa_slow :: nat
  waa_signal_period :: nat
  waa_bb_period :: nat
  waa_bb_std :: f64

definition waddah_attar_new :: "nat \<Rightarrow> nat \<Rightarrow> nat \<Rightarrow> f64 \<Rightarrow> waddah_attar option" where
  "waddah_attar_new fast slow bb_period' bb_std =
     do {
       i1 \<leftarrow> macd_new fast slow 9;
       i2 \<leftarrow> bbands_new bb_period' bb_std;
       i3 \<leftarrow> atr_ind_new 100;
       Some \<lparr>waa_macd = i1, waa_bb = i2, waa_atr = i3, waa_prev_macd_line = None, waa_sensitivity = lit 150,
           waa_dz_multiplier = lit (37 / 10), waa_dz_period = 100, waa_fast = fast, waa_slow = slow,
               waa_signal_period = 9, waa_bb_period = bb_period', waa_bb_std = bb_std\<rparr>
     }"

definition waddah_attar_on_bar :: "waddah_attar \<Rightarrow> bar \<Rightarrow> (waddah_attar \<times> signal list) option" where
  "waddah_attar_on_bar s b = do {
     (i1, macd_val) \<leftarrow> macd_update (waa_macd s) (b_close b);
     let (i2, bb_val) = bbands_update (waa_bb s) (b_close b);
     (i3, atr_val) \<leftarrow> atr_update (waa_atr s) (b_high b, b_low b, b_close b);
     let s = s\<lparr>waa_macd := i1, waa_bb := i2, waa_atr := i3\<rparr>;
     Some (case (macd_val, bb_val, atr_val) of (Some m, Some bb, Some a) \<Rightarrow> (case waa_prev_macd_line s of
         None \<Rightarrow> (s\<lparr>waa_prev_macd_line := Some (mv_macd m)\<rparr>, [])
       | Some prev_macd \<Rightarrow>
           let s = s\<lparr>waa_prev_macd_line := Some (mv_macd m)\<rparr>;
               t1 = (mv_macd m - prev_macd) * waa_sensitivity s;
               explosion_line = bbv_upper bb - bbv_lower bb;
               deadzone_line = av_atr a * waa_dz_multiplier s;
               power = \<bar>t1\<bar>;
               confirmed = power > explosion_line \<and> power > deadzone_line
           in (s,
               if confirmed \<and> t1 > 0 then long_at b 1 else if \<not> confirmed \<or> t1 \<le> 0 then exit_at b else [])) | _ \<Rightarrow> (s, []))
   }"

definition waddah_attar_reset :: "waddah_attar \<Rightarrow> waddah_attar option" where
  "waddah_attar_reset s = do {
     i1 \<leftarrow> macd_new (waa_fast s) (waa_slow s) (waa_signal_period s);
     i2 \<leftarrow> bbands_new (waa_bb_period s) (waa_bb_std s);
     i3 \<leftarrow> atr_ind_new (waa_dz_period s);
     Some (s\<lparr>waa_macd := i1, waa_bb := i2, waa_atr := i3, waa_prev_macd_line := None\<rparr>)
   }"

definition waddah_attar_live :: "waddah_attar \<Rightarrow> bool" where
  "waddah_attar_live s \<longleftrightarrow> macd_live (waa_fast s, waa_slow s, waa_signal_period s) (waa_macd s) \<and>
     bbands_live (waa_bb_period s, waa_bb_std s) (waa_bb s) \<and> atr_live (waa_dz_period s) (waa_atr s)"

interpretation waa: restoring y waddah_attar_on_bar waddah_attar_reset waddah_attar_live for y
  by (rule restoringI; unfold waddah_attar_live_def waddah_attar_on_bar_def waddah_attar_reset_def; (elim conjE exE)?; ((erule steps renews | assumption)+)?)
    (auto simp: Let_def bar_of_def split: option.split intro: alive)

lemma waa_built: "waddah_attar_new fast slow bb_period' bb_std = Some s \<Longrightarrow> waddah_attar_live s \<and> waddah_attar_reset s = Some s"
  by (auto simp: waddah_attar_new_def waddah_attar_live_def waddah_attar_reset_def bind_eq_Some_conv split: if_splits intro: alive)

end
