(* ===== verification/Named_Volatility.thy ===== *)
theory Named_Volatility
  imports Named_Base
begin

text \<open>
  \<open>alm-strategy/src/named/volatility\<close>: the strategies on volatility. Each has the record of its state, the constructor with its
  assertions, the answer to a bar, the reset, the states it can be in, and its instance of the contract.
\<close>

section \<open>\<open>AtrTrailingStop\<close>\<close>

record atr_trailing_stop =
  ats_ema :: ema
  ats_atr :: atr
  ats_ema_period :: nat
  ats_atr_period :: nat
  ats_atr_multiplier :: f64
  ats_in_position :: bool
  ats_trailing_stop :: f64
  ats_highest_since_entry :: f64

definition atr_trailing_stop_new :: "nat \<Rightarrow> nat \<Rightarrow> f64 \<Rightarrow> atr_trailing_stop option" where
  "atr_trailing_stop_new ema_period' atr_period atr_multiplier =
     do {
       i1 \<leftarrow> ema_new ema_period';
       i2 \<leftarrow> atr_ind_new atr_period;
       Some \<lparr>ats_ema = i1, ats_atr = i2, ats_ema_period = ema_period', ats_atr_period = atr_period,
           ats_atr_multiplier = atr_multiplier, ats_in_position = False, ats_trailing_stop = 0, ats_highest_since_entry = 0\<rparr>
     }"

definition atr_trailing_stop_on_bar :: "atr_trailing_stop \<Rightarrow> bar \<Rightarrow> (atr_trailing_stop \<times> signal list) option" where
  "atr_trailing_stop_on_bar s b = do {
     (i1, ema_val) \<leftarrow> ema_update (ats_ema s) (b_close b);
     (i2, atr_val) \<leftarrow> atr_update (ats_atr s) (b_high b, b_low b, b_close b);
     let s = s\<lparr>ats_ema := i1, ats_atr := i2\<rparr>;
     Some (case (ema_val, atr_val) of (Some e, Some a) \<Rightarrow> (let atr_value = av_atr a in
       if ats_in_position s then
         let s = (if b_close b > ats_highest_since_entry s
                  then s\<lparr>ats_highest_since_entry := b_close b,
                      ats_trailing_stop := b_close b - atr_value * ats_atr_multiplier s\<rparr> else s) in
         if b_close b < ats_trailing_stop s then (s\<lparr>ats_in_position := False, ats_trailing_stop := 0,
             ats_highest_since_entry := 0\<rparr>, exit_at b)
         else (s, [])
       else if b_close b > e then
         (s\<lparr>ats_in_position := True, ats_highest_since_entry := b_close b,
             ats_trailing_stop := b_close b - atr_value * ats_atr_multiplier s\<rparr>, long_at b 1)
       else (s, [])) | _ \<Rightarrow> (s, []))
   }"

definition atr_trailing_stop_reset :: "atr_trailing_stop \<Rightarrow> atr_trailing_stop option" where
  "atr_trailing_stop_reset s = do {
     i1 \<leftarrow> ema_new (ats_ema_period s);
     i2 \<leftarrow> atr_ind_new (ats_atr_period s);
     Some (s\<lparr>ats_ema := i1, ats_atr := i2, ats_in_position := False, ats_trailing_stop := 0,
         ats_highest_since_entry := 0\<rparr>)
   }"

definition atr_trailing_stop_live :: "atr_trailing_stop \<Rightarrow> bool" where
  "atr_trailing_stop_live s \<longleftrightarrow> ema_live (ats_ema_period s) (ats_ema s) \<and> atr_live (ats_atr_period s) (ats_atr s)"

interpretation ats: restoring y atr_trailing_stop_on_bar atr_trailing_stop_reset atr_trailing_stop_live for y
  by (rule restoringI; unfold atr_trailing_stop_live_def atr_trailing_stop_on_bar_def atr_trailing_stop_reset_def; (elim conjE exE)?; ((erule steps renews | assumption)+)?)
    (auto simp: Let_def bar_of_def split: option.split intro: alive)

lemma ats_built: "atr_trailing_stop_new ema_period' atr_period atr_multiplier = Some s \<Longrightarrow> atr_trailing_stop_live s \<and> atr_trailing_stop_reset s = Some s"
  by (auto simp: atr_trailing_stop_new_def atr_trailing_stop_live_def atr_trailing_stop_reset_def bind_eq_Some_conv split: if_splits intro: alive)

section \<open>\<open>BbKeltnerSqueeze\<close>\<close>

record bb_keltner_squeeze =
  bks_bb :: bbands
  bks_keltner :: keltner
  bks_was_squeezed :: bool
  bks_in_position :: bool
  bks_bb_period :: nat
  bks_bb_std :: f64
  bks_keltner_period :: nat
  bks_keltner_atr :: nat
  bks_keltner_mult :: f64

definition bb_keltner_squeeze_new :: "nat \<Rightarrow> f64 \<Rightarrow> nat \<Rightarrow> nat \<Rightarrow> f64 \<Rightarrow> bb_keltner_squeeze option" where
  "bb_keltner_squeeze_new bb_period' bb_std keltner_period keltner_atr keltner_mult =
     do {
       i1 \<leftarrow> bbands_new bb_period' bb_std;
       i2 \<leftarrow> keltner_new keltner_period keltner_atr keltner_mult;
       Some \<lparr>bks_bb = i1, bks_keltner = i2, bks_was_squeezed = False, bks_in_position = False,
           bks_bb_period = bb_period', bks_bb_std = bb_std, bks_keltner_period = keltner_period,
               bks_keltner_atr = keltner_atr, bks_keltner_mult = keltner_mult\<rparr>
     }"

definition bb_keltner_squeeze_on_bar :: "bb_keltner_squeeze \<Rightarrow> bar \<Rightarrow> (bb_keltner_squeeze \<times> signal list) option" where
  "bb_keltner_squeeze_on_bar s b = do {
     let (i1, bv) = bbands_update (bks_bb s) (b_close b);
     (i2, kv) \<leftarrow> keltner_update (bks_keltner s) (b_high b, b_low b, b_close b);
     let s = s\<lparr>bks_bb := i1, bks_keltner := i2\<rparr>;
     Some (case (bv, kv) of (Some bb,
         Some kc) \<Rightarrow> (let squeezed = bbv_upper bb < klv_upper kc \<and> bbv_lower bb > klv_lower kc;
           squeeze_released = bks_was_squeezed s \<and> \<not> squeezed;
           s = s\<lparr>bks_was_squeezed := squeezed\<rparr> in
       if squeeze_released \<and> b_close b > bbv_middle bb \<and> \<not> bks_in_position s then (s\<lparr>bks_in_position := True\<rparr>, long_at b 1)
       else if b_close b < bbv_middle bb \<and> bks_in_position s then (s\<lparr>bks_in_position := False\<rparr>, exit_at b)
       else (s, [])) | _ \<Rightarrow> (s, []))
   }"

definition bb_keltner_squeeze_reset :: "bb_keltner_squeeze \<Rightarrow> bb_keltner_squeeze option" where
  "bb_keltner_squeeze_reset s = do {
     i1 \<leftarrow> bbands_new (bks_bb_period s) (bks_bb_std s);
     i2 \<leftarrow> keltner_new (bks_keltner_period s) (bks_keltner_atr s) (bks_keltner_mult s);
     Some (s\<lparr>bks_bb := i1, bks_keltner := i2, bks_was_squeezed := False, bks_in_position := False\<rparr>)
   }"

definition bb_keltner_squeeze_live :: "bb_keltner_squeeze \<Rightarrow> bool" where
  "bb_keltner_squeeze_live s \<longleftrightarrow> bbands_live (bks_bb_period s, bks_bb_std s) (bks_bb s) \<and>
     keltner_live (bks_keltner_period s, bks_keltner_atr s, bks_keltner_mult s) (bks_keltner s)"

interpretation bks: restoring y bb_keltner_squeeze_on_bar bb_keltner_squeeze_reset bb_keltner_squeeze_live for y
  by (rule restoringI; unfold bb_keltner_squeeze_live_def bb_keltner_squeeze_on_bar_def bb_keltner_squeeze_reset_def; (elim conjE exE)?; ((erule steps renews | assumption)+)?)
    (auto simp: Let_def bar_of_def split: option.split intro: alive)

lemma bks_built: "bb_keltner_squeeze_new bb_period' bb_std keltner_period keltner_atr keltner_mult = Some s \<Longrightarrow> bb_keltner_squeeze_live s \<and> bb_keltner_squeeze_reset s = Some s"
  by (auto simp: bb_keltner_squeeze_new_def bb_keltner_squeeze_live_def bb_keltner_squeeze_reset_def bind_eq_Some_conv split: if_splits intro: alive)

section \<open>\<open>BbRsiReversal\<close>\<close>

record bb_rsi_reversal =
  brr_bb :: bbands
  brr_rsi :: rsi
  brr_bb_period :: nat
  brr_bb_std :: f64
  brr_rsi_period :: nat
  brr_oversold :: f64
  brr_overbought :: f64

definition bb_rsi_reversal_new :: "nat \<Rightarrow> f64 \<Rightarrow> nat \<Rightarrow> f64 \<Rightarrow> f64 \<Rightarrow> bb_rsi_reversal option" where
  "bb_rsi_reversal_new bb_period' bb_std rsi_period' oversold overbought =
     do {
       i1 \<leftarrow> bbands_new bb_period' bb_std;
       i2 \<leftarrow> rsi_new rsi_period';
       Some \<lparr>brr_bb = i1, brr_rsi = i2, brr_bb_period = bb_period', brr_bb_std = bb_std,
           brr_rsi_period = rsi_period', brr_oversold = oversold, brr_overbought = overbought\<rparr>
     }"

definition bb_rsi_reversal_on_bar :: "bb_rsi_reversal \<Rightarrow> bar \<Rightarrow> (bb_rsi_reversal \<times> signal list) option" where
  "bb_rsi_reversal_on_bar s b = do {
     let (i1, bv) = bbands_update (brr_bb s) (b_close b);
     (i2, rv) \<leftarrow> rsi_update (brr_rsi s) (b_close b);
     let s = s\<lparr>brr_bb := i1, brr_rsi := i2\<rparr>;
     Some (case (bv, rv) of (Some bb, Some r) \<Rightarrow>
       ((s, if b_close b < bbv_lower bb \<and> r < brr_oversold s then long_at b 1
       else if b_close b > bbv_middle bb \<or> r > brr_overbought s then exit_at b else []))
       | _ \<Rightarrow> (s, []))
   }"

definition bb_rsi_reversal_reset :: "bb_rsi_reversal \<Rightarrow> bb_rsi_reversal option" where
  "bb_rsi_reversal_reset s = do {
     i1 \<leftarrow> bbands_new (brr_bb_period s) (brr_bb_std s);
     i2 \<leftarrow> rsi_new (brr_rsi_period s);
     Some (s\<lparr>brr_bb := i1, brr_rsi := i2\<rparr>)
   }"

definition bb_rsi_reversal_live :: "bb_rsi_reversal \<Rightarrow> bool" where
  "bb_rsi_reversal_live s \<longleftrightarrow> bbands_live (brr_bb_period s,
      brr_bb_std s) (brr_bb s) \<and> rsi_live (brr_rsi_period s) (brr_rsi s)"

interpretation brr: restoring y bb_rsi_reversal_on_bar bb_rsi_reversal_reset bb_rsi_reversal_live for y
  by (rule restoringI; unfold bb_rsi_reversal_live_def bb_rsi_reversal_on_bar_def bb_rsi_reversal_reset_def; (elim conjE exE)?; ((erule steps renews | assumption)+)?)
    (auto simp: Let_def bar_of_def split: option.split intro: alive)

lemma brr_built: "bb_rsi_reversal_new bb_period' bb_std rsi_period' oversold overbought = Some s \<Longrightarrow> bb_rsi_reversal_live s \<and> bb_rsi_reversal_reset s = Some s"
  by (auto simp: bb_rsi_reversal_new_def bb_rsi_reversal_live_def bb_rsi_reversal_reset_def bind_eq_Some_conv split: if_splits intro: alive)

section \<open>\<open>BbSqueeze\<close>\<close>

record bb_squeeze =
  bsq_bb :: bbands
  bsq_squeeze_threshold :: f64
  bsq_was_squeezed :: bool
  bsq_period :: nat
  bsq_std :: f64

definition bb_squeeze_new :: "nat \<Rightarrow> f64 \<Rightarrow> bb_squeeze option" where
  "bb_squeeze_new period std =
     do {
       i1 \<leftarrow> bbands_new period std;
       Some \<lparr>bsq_bb = i1, bsq_squeeze_threshold = lit (1 / 25), bsq_was_squeezed = False, bsq_period = period,
           bsq_std = std\<rparr>
     }"

definition bb_squeeze_on_bar :: "bb_squeeze \<Rightarrow> bar \<Rightarrow> (bb_squeeze \<times> signal list) option" where
  "bb_squeeze_on_bar s b = do {
     let (i1, bv) = bbands_update (bsq_bb s) (b_close b);
     let s = s\<lparr>bsq_bb := i1\<rparr>;
     Some (case bv of Some bb \<Rightarrow> (let s = (if bbv_bandwidth bb < bsq_squeeze_threshold s then s\<lparr>bsq_was_squeezed := True\<rparr> else s) in
       if bsq_was_squeezed s \<and> b_close b > bbv_upper bb then (s\<lparr>bsq_was_squeezed := False\<rparr>, long_at b 1)
       else (s, if b_close b < bbv_middle bb then exit_at b else [])) | None \<Rightarrow> (s, []))
   }"

definition bb_squeeze_reset :: "bb_squeeze \<Rightarrow> bb_squeeze option" where
  "bb_squeeze_reset s = do {
     i1 \<leftarrow> bbands_new (bsq_period s) (bsq_std s);
     Some (s\<lparr>bsq_bb := i1, bsq_was_squeezed := False\<rparr>)
   }"

definition bb_squeeze_live :: "bb_squeeze \<Rightarrow> bool" where
  "bb_squeeze_live s \<longleftrightarrow> bbands_live (bsq_period s, bsq_std s) (bsq_bb s)"

interpretation bsq: restoring y bb_squeeze_on_bar bb_squeeze_reset bb_squeeze_live for y
  by (rule restoringI; unfold bb_squeeze_live_def bb_squeeze_on_bar_def bb_squeeze_reset_def; (elim conjE exE)?; ((erule steps renews | assumption)+)?)
    (auto simp: Let_def bar_of_def split: option.split intro: alive)

lemma bsq_built: "bb_squeeze_new period std = Some s \<Longrightarrow> bb_squeeze_live s \<and> bb_squeeze_reset s = Some s"
  by (auto simp: bb_squeeze_new_def bb_squeeze_live_def bb_squeeze_reset_def bind_eq_Some_conv split: if_splits intro: alive)

section \<open>\<open>BollingerMacd\<close>\<close>

record bollinger_macd =
  bom_bb :: bbands
  bom_macd :: macd
  bom_bb_period :: nat
  bom_bb_std :: f64
  bom_fast :: nat
  bom_slow :: nat
  bom_signal_period :: nat

definition bollinger_macd_new :: "nat \<Rightarrow> f64 \<Rightarrow> nat \<Rightarrow> nat \<Rightarrow> nat \<Rightarrow> bollinger_macd option" where
  "bollinger_macd_new bb_period' bb_std fast slow signal_period =
     do {
       i1 \<leftarrow> bbands_new bb_period' bb_std;
       i2 \<leftarrow> macd_new fast slow signal_period;
       Some \<lparr>bom_bb = i1, bom_macd = i2, bom_bb_period = bb_period', bom_bb_std = bb_std, bom_fast = fast,
           bom_slow = slow, bom_signal_period = signal_period\<rparr>
     }"

definition bollinger_macd_on_bar :: "bollinger_macd \<Rightarrow> bar \<Rightarrow> (bollinger_macd \<times> signal list) option" where
  "bollinger_macd_on_bar s b = do {
     let (i1, bb_val) = bbands_update (bom_bb s) (b_close b);
     (i2, macd_val) \<leftarrow> macd_update (bom_macd s) (b_close b);
     let s = s\<lparr>bom_bb := i1, bom_macd := i2\<rparr>;
     Some (case (bb_val, macd_val) of (Some bb, Some m) \<Rightarrow>
       ((s, if b_close b > bbv_upper bb \<and> mv_histogram m > 0 then long_at b 1
       else if b_close b < bbv_middle bb \<or> mv_histogram m < 0 then exit_at b else []))
       | _ \<Rightarrow> (s, []))
   }"

definition bollinger_macd_reset :: "bollinger_macd \<Rightarrow> bollinger_macd option" where
  "bollinger_macd_reset s = do {
     i1 \<leftarrow> bbands_new (bom_bb_period s) (bom_bb_std s);
     i2 \<leftarrow> macd_new (bom_fast s) (bom_slow s) (bom_signal_period s);
     Some (s\<lparr>bom_bb := i1, bom_macd := i2\<rparr>)
   }"

definition bollinger_macd_live :: "bollinger_macd \<Rightarrow> bool" where
  "bollinger_macd_live s \<longleftrightarrow> bbands_live (bom_bb_period s, bom_bb_std s) (bom_bb s) \<and>
     macd_live (bom_fast s, bom_slow s, bom_signal_period s) (bom_macd s)"

interpretation bom: restoring y bollinger_macd_on_bar bollinger_macd_reset bollinger_macd_live for y
  by (rule restoringI; unfold bollinger_macd_live_def bollinger_macd_on_bar_def bollinger_macd_reset_def; (elim conjE exE)?; ((erule steps renews | assumption)+)?)
    (auto simp: Let_def bar_of_def split: option.split intro: alive)

lemma bom_built: "bollinger_macd_new bb_period' bb_std fast slow signal_period = Some s \<Longrightarrow> bollinger_macd_live s \<and> bollinger_macd_reset s = Some s"
  by (auto simp: bollinger_macd_new_def bollinger_macd_live_def bollinger_macd_reset_def bind_eq_Some_conv split: if_splits intro: alive)

section \<open>\<open>ChandelierExit\<close>\<close>

record chandelier_exit_strategy =
  ces_atr :: atr
  ces_period :: nat
  ces_multiplier :: f64
  ces_atr_p :: nat
  ces_highs :: "f64 list"
  ces_in_position :: bool
  ces_prev_bull :: "bool option"

definition chandelier_exit_strategy_new :: "nat \<Rightarrow> f64 \<Rightarrow> chandelier_exit_strategy option" where
  "chandelier_exit_strategy_new period multiplier =
     do {
       i1 \<leftarrow> atr_ind_new period;
       Some \<lparr>ces_atr = i1, ces_period = period, ces_multiplier = multiplier, ces_atr_p = period,
           ces_highs = [], ces_in_position = False, ces_prev_bull = None\<rparr>
     }"

definition chandelier_exit_strategy_on_bar :: "chandelier_exit_strategy \<Rightarrow> bar \<Rightarrow> (chandelier_exit_strategy \<times> signal list) option" where
  "chandelier_exit_strategy_on_bar s b = do {
     (i1, av) \<leftarrow> atr_update (ces_atr s) (b_high b, b_low b, b_close b);
     let s = s\<lparr>ces_atr := i1, ces_highs := push_trim (ces_period s) (ces_highs s) (b_high b)\<rparr>;
     Some (case av of Some a \<Rightarrow> (if length (ces_highs s) < ces_period s then (s, [])
       else
         let hh = fold_max (ces_highs s); stop = hh - ces_multiplier s * av_atr a; bull = b_close b > stop in
         case ces_prev_bull s of
           None \<Rightarrow> (s\<lparr>ces_prev_bull := Some bull\<rparr>, [])
         | Some prev \<Rightarrow>
             let s = s\<lparr>ces_prev_bull := Some bull\<rparr> in
             if \<not> prev \<and> bull \<and> \<not> ces_in_position s then (s\<lparr>ces_in_position := True\<rparr>, long_at b 1)
             else if prev \<and> \<not> bull \<and> ces_in_position s then (s\<lparr>ces_in_position := False\<rparr>, exit_at b)
             else (s, [])) | None \<Rightarrow> (s, []))
   }"

definition chandelier_exit_strategy_reset :: "chandelier_exit_strategy \<Rightarrow> chandelier_exit_strategy option" where
  "chandelier_exit_strategy_reset s = do {
     i1 \<leftarrow> atr_ind_new (ces_atr_p s);
     Some (s\<lparr>ces_atr := i1, ces_highs := [], ces_in_position := False, ces_prev_bull := None\<rparr>)
   }"

definition chandelier_exit_strategy_live :: "chandelier_exit_strategy \<Rightarrow> bool" where
  "chandelier_exit_strategy_live s \<longleftrightarrow> atr_live (ces_atr_p s) (ces_atr s)"

interpretation ces: restoring y chandelier_exit_strategy_on_bar chandelier_exit_strategy_reset chandelier_exit_strategy_live for y
  by (rule restoringI; unfold chandelier_exit_strategy_live_def chandelier_exit_strategy_on_bar_def chandelier_exit_strategy_reset_def; (elim conjE exE)?; ((erule steps renews | assumption)+)?)
    (auto simp: Let_def bar_of_def split: option.split intro: alive)

lemma ces_built: "chandelier_exit_strategy_new period multiplier = Some s \<Longrightarrow> chandelier_exit_strategy_live s \<and> chandelier_exit_strategy_reset s = Some s"
  by (auto simp: chandelier_exit_strategy_new_def chandelier_exit_strategy_live_def chandelier_exit_strategy_reset_def bind_eq_Some_conv split: if_splits intro: alive)

section \<open>\<open>DonchianBreakout\<close>\<close>

record donchian_breakout =
  dob_entry :: donchian
  dob_exit :: donchian
  dob_entry_p :: nat
  dob_exit_p :: nat
  dob_prev_upper :: "f64 option"
  dob_prev_lower :: "f64 option"

definition donchian_breakout_new :: "nat \<Rightarrow> nat \<Rightarrow> donchian_breakout option" where
  "donchian_breakout_new entry_period exit_period =
     do {
       i1 \<leftarrow> donchian_new entry_period;
       i2 \<leftarrow> donchian_new exit_period;
       Some \<lparr>dob_entry = i1, dob_exit = i2, dob_entry_p = entry_period, dob_exit_p = exit_period,
           dob_prev_upper = None, dob_prev_lower = None\<rparr>
     }"

definition donchian_breakout_on_bar :: "donchian_breakout \<Rightarrow> bar \<Rightarrow> (donchian_breakout \<times> signal list) option" where
  "donchian_breakout_on_bar s b = do {
     let (i1, env) = donchian_update (dob_entry s) (b_high b, b_low b);
     let (i2, exv) = donchian_update (dob_exit s) (b_high b, b_low b);
     let s = s\<lparr>dob_entry := i1, dob_exit := i2\<rparr>;
     Some (case (env, exv) of (Some en, Some ex) \<Rightarrow>
       (case (dob_prev_upper s, dob_prev_lower s) of (Some pf, Some ps) \<Rightarrow>
       (s\<lparr>dob_prev_upper := Some (dv_upper en), dob_prev_lower := Some (dv_lower ex)\<rparr>,
           if b_close b > pf then long_at b 1
       else if b_close b < ps then exit_at b else [])
       | _ \<Rightarrow> (s\<lparr>dob_prev_upper := Some (dv_upper en), dob_prev_lower := Some (dv_lower ex)\<rparr>, []))
       | _ \<Rightarrow> (s, []))
   }"

definition donchian_breakout_reset :: "donchian_breakout \<Rightarrow> donchian_breakout option" where
  "donchian_breakout_reset s = do {
     i1 \<leftarrow> donchian_new (dob_entry_p s);
     i2 \<leftarrow> donchian_new (dob_exit_p s);
     Some (s\<lparr>dob_entry := i1, dob_exit := i2, dob_prev_upper := None, dob_prev_lower := None\<rparr>)
   }"

definition donchian_breakout_live :: "donchian_breakout \<Rightarrow> bool" where
  "donchian_breakout_live s \<longleftrightarrow> donchian_live (dob_entry_p s) (dob_entry s) \<and> donchian_live (dob_exit_p s) (dob_exit s)"

interpretation dob: restoring y donchian_breakout_on_bar donchian_breakout_reset donchian_breakout_live for y
  by (rule restoringI; unfold donchian_breakout_live_def donchian_breakout_on_bar_def donchian_breakout_reset_def; (elim conjE exE)?; ((erule steps renews | assumption)+)?)
    (auto simp: Let_def bar_of_def split: option.split intro: alive)

lemma dob_built: "donchian_breakout_new entry_period exit_period = Some s \<Longrightarrow> donchian_breakout_live s \<and> donchian_breakout_reset s = Some s"
  by (auto simp: donchian_breakout_new_def donchian_breakout_live_def donchian_breakout_reset_def bind_eq_Some_conv split: if_splits intro: alive)

section \<open>\<open>HighestBreakout\<close>\<close>

record highest_breakout =
  hib_period :: nat
  hib_closes :: "f64 list"

definition highest_breakout_new :: "nat \<Rightarrow> highest_breakout option" where
  "highest_breakout_new period =
     (if 2 \<le> period then
     Some \<lparr>hib_period = period, hib_closes = []\<rparr>
     else None)"

definition highest_breakout_on_bar :: "highest_breakout \<Rightarrow> bar \<Rightarrow> (highest_breakout \<times> signal list) option" where
  "highest_breakout_on_bar s b = do {
     let s = s\<lparr>hib_closes := push_trim (hib_period s + 1) (hib_closes s) (b_close b)\<rparr>;
     Some (if length (hib_closes s) < hib_period s + 1 then (s, [])
     else
       let highest = fold_max (take (hib_period s) (hib_closes s)); lowest = fold_min (take (hib_period s) (hib_closes s)) in
       (s, if b_close b > highest then long_at b 1 else if b_close b < lowest then exit_at b else []))
   }"

definition highest_breakout_reset :: "highest_breakout \<Rightarrow> highest_breakout option" where
  "highest_breakout_reset s = Some (s\<lparr>hib_closes := []\<rparr>)"

definition highest_breakout_live :: "highest_breakout \<Rightarrow> bool" where
  "highest_breakout_live s \<longleftrightarrow> True"

interpretation hib: restoring y highest_breakout_on_bar highest_breakout_reset highest_breakout_live for y
  by (rule restoringI; unfold highest_breakout_live_def highest_breakout_on_bar_def highest_breakout_reset_def; (elim conjE exE)?; ((erule steps renews | assumption)+)?)
    (auto simp: Let_def bar_of_def split: option.split intro: alive)

lemma hib_built: "highest_breakout_new period = Some s \<Longrightarrow> highest_breakout_live s \<and> highest_breakout_reset s = Some s"
  by (auto simp: highest_breakout_new_def highest_breakout_live_def highest_breakout_reset_def bind_eq_Some_conv split: if_splits intro: alive)

section \<open>\<open>KeltnerBreakout\<close>\<close>

record keltner_breakout =
  keb_keltner :: keltner
  keb_period :: nat
  keb_atr_period :: nat
  keb_multiplier :: f64

definition keltner_breakout_new :: "nat \<Rightarrow> nat \<Rightarrow> f64 \<Rightarrow> keltner_breakout option" where
  "keltner_breakout_new period atr_period multiplier =
     do {
       i1 \<leftarrow> keltner_new period atr_period multiplier;
       Some \<lparr>keb_keltner = i1, keb_period = period, keb_atr_period = atr_period, keb_multiplier = multiplier\<rparr>
     }"

definition keltner_breakout_on_bar :: "keltner_breakout \<Rightarrow> bar \<Rightarrow> (keltner_breakout \<times> signal list) option" where
  "keltner_breakout_on_bar s b = do {
     (i1, kv) \<leftarrow> keltner_update (keb_keltner s) (b_high b, b_low b, b_close b);
     let s = s\<lparr>keb_keltner := i1\<rparr>;
     Some (case kv of Some kc \<Rightarrow> ((s, if b_close b > klv_upper kc then long_at b 1
       else if b_close b < klv_lower kc then exit_at b else [])) | None \<Rightarrow> (s, []))
   }"

definition keltner_breakout_reset :: "keltner_breakout \<Rightarrow> keltner_breakout option" where
  "keltner_breakout_reset s = do {
     i1 \<leftarrow> keltner_new (keb_period s) (keb_atr_period s) (keb_multiplier s);
     Some (s\<lparr>keb_keltner := i1\<rparr>)
   }"

definition keltner_breakout_live :: "keltner_breakout \<Rightarrow> bool" where
  "keltner_breakout_live s \<longleftrightarrow> keltner_live (keb_period s, keb_atr_period s, keb_multiplier s) (keb_keltner s)"

interpretation keb: restoring y keltner_breakout_on_bar keltner_breakout_reset keltner_breakout_live for y
  by (rule restoringI; unfold keltner_breakout_live_def keltner_breakout_on_bar_def keltner_breakout_reset_def; (elim conjE exE)?; ((erule steps renews | assumption)+)?)
    (auto simp: Let_def bar_of_def split: option.split intro: alive)

lemma keb_built: "keltner_breakout_new period atr_period multiplier = Some s \<Longrightarrow> keltner_breakout_live s \<and> keltner_breakout_reset s = Some s"
  by (auto simp: keltner_breakout_new_def keltner_breakout_live_def keltner_breakout_reset_def bind_eq_Some_conv split: if_splits intro: alive)

section \<open>\<open>OrbBreakout\<close>\<close>

record orb_breakout =
  orb_range_bars :: nat
  orb_session_gap_ms :: int
  orb_bars_in_session :: nat
  orb_or_high :: f64
  orb_or_low :: f64
  orb_range_ready :: bool
  orb_last_ts :: "int option"
  orb_range_bars_cfg :: nat
  orb_session_gap_mins_cfg :: nat

text \<open>\<open>(session_gap_mins as i64) * 60 * 1_000\<close>, with wrap-around.\<close>

definition orb_gap_ms :: "nat \<Rightarrow> int" where
  "orb_gap_ms mins = wrap_i64 (int mins * 60000)"

definition orb_reset_session :: "orb_breakout \<Rightarrow> orb_breakout" where
  "orb_reset_session s = s\<lparr>orb_bars_in_session := 0, orb_or_high := NInf, orb_or_low := PInf,
      orb_range_ready := False\<rparr>"

definition orb_breakout_new :: "nat \<Rightarrow> nat \<Rightarrow> orb_breakout option" where
  "orb_breakout_new range_bars session_gap_mins =
     Some \<lparr>orb_range_bars = range_bars, orb_session_gap_ms = orb_gap_ms session_gap_mins,
         orb_bars_in_session = 0, orb_or_high = NInf, orb_or_low = PInf, orb_range_ready = False, orb_last_ts = None,
             orb_range_bars_cfg = range_bars, orb_session_gap_mins_cfg = session_gap_mins\<rparr>"

definition orb_breakout_on_bar :: "orb_breakout \<Rightarrow> bar \<Rightarrow> (orb_breakout \<times> signal list) option" where
  "orb_breakout_on_bar s b =
     (let is_new_session =
            (case orb_last_ts s of None \<Rightarrow> True | Some last_ts \<Rightarrow> wrap_i64 (b_timestamp b - last_ts) > orb_session_gap_ms s);
          s = (if is_new_session then orb_reset_session s else s);
          s = s\<lparr>orb_last_ts := Some (b_timestamp b)\<rparr>
      in if \<not> orb_range_ready s then
           let s = s\<lparr>orb_bars_in_session := orb_bars_in_session s + 1\<rparr>;
               s = (if b_high b > orb_or_high s then s\<lparr>orb_or_high := b_high b\<rparr> else s);
               s = (if b_low b < orb_or_low s then s\<lparr>orb_or_low := b_low b\<rparr> else s);
               s = (if orb_bars_in_session s \<ge> orb_range_bars s then s\<lparr>orb_range_ready := True\<rparr> else s)
           in Some (s, [])
         else if b_close b > orb_or_high s then
           Some (s, long_at b (fclamp ((b_close b - orb_or_high s) / orb_or_high s) 0 1))
         else if b_close b < orb_or_low s then Some (s, exit_at b)
         else Some (s, []))"

definition orb_breakout_reset :: "orb_breakout \<Rightarrow> orb_breakout option" where
  "orb_breakout_reset s =
     (let s = orb_reset_session s in
      Some (s\<lparr>orb_last_ts := None, orb_range_bars := orb_range_bars_cfg s,
               orb_session_gap_ms := orb_gap_ms (orb_session_gap_mins_cfg s)\<rparr>))"

definition orb_breakout_live :: "orb_breakout \<Rightarrow> bool" where
  "orb_breakout_live s \<longleftrightarrow> True"

interpretation orb: restoring y orb_breakout_on_bar orb_breakout_reset orb_breakout_live for y
  by (rule restoringI)
    (auto simp: orb_breakout_live_def orb_breakout_on_bar_def orb_breakout_reset_def orb_reset_session_def Let_def split: option.split)

lemma orb_built: "orb_breakout_new range_bars session_gap_mins = Some s \<Longrightarrow> orb_breakout_live s \<and> orb_breakout_reset s = Some s"
  by (auto simp: orb_breakout_new_def orb_breakout_live_def orb_breakout_reset_def orb_reset_session_def Let_def)

section \<open>\<open>RangeRover\<close>\<close>

record range_rover =
  rar_stoch :: stochastic
  rar_ma :: sma
  rar_oversold :: f64
  rar_overbought :: f64
  rar_k_period :: nat
  rar_d_period :: nat
  rar_ma_period :: nat

definition range_rover_new :: "nat \<Rightarrow> nat \<Rightarrow> nat \<Rightarrow> f64 \<Rightarrow> f64 \<Rightarrow> range_rover option" where
  "range_rover_new k_period d_period ma_period oversold overbought =
     do {
       i1 \<leftarrow> stochastic_new k_period d_period;
       i2 \<leftarrow> sma_new ma_period;
       Some \<lparr>rar_stoch = i1, rar_ma = i2, rar_oversold = oversold, rar_overbought = overbought,
           rar_k_period = k_period, rar_d_period = d_period, rar_ma_period = ma_period\<rparr>
     }"

definition range_rover_on_bar :: "range_rover \<Rightarrow> bar \<Rightarrow> (range_rover \<times> signal list) option" where
  "range_rover_on_bar s b = do {
     (i1, stoch_val) \<leftarrow> stochastic_update (rar_stoch s) (b_high b, b_low b, b_close b);
     (i2, ma_val) \<leftarrow> sma_update (rar_ma s) (b_close b);
     let s = s\<lparr>rar_stoch := i1, rar_ma := i2\<rparr>;
     Some (case (stoch_val, ma_val) of (Some st, Some m) \<Rightarrow>
       ((s, if stv_k st < rar_oversold s \<and> b_close b > m then long_at b 1
       else if stv_k st > rar_overbought s then exit_at b else [])) | _ \<Rightarrow> (s, []))
   }"

definition range_rover_reset :: "range_rover \<Rightarrow> range_rover option" where
  "range_rover_reset s = do {
     i1 \<leftarrow> stochastic_new (rar_k_period s) (rar_d_period s);
     i2 \<leftarrow> sma_new (rar_ma_period s);
     Some (s\<lparr>rar_stoch := i1, rar_ma := i2\<rparr>)
   }"

definition range_rover_live :: "range_rover \<Rightarrow> bool" where
  "range_rover_live s \<longleftrightarrow> stochastic_live (rar_k_period s,
      rar_d_period s) (rar_stoch s) \<and> sma_live (rar_ma_period s) (rar_ma s)"

interpretation rar: restoring y range_rover_on_bar range_rover_reset range_rover_live for y
  by (rule restoringI; unfold range_rover_live_def range_rover_on_bar_def range_rover_reset_def; (elim conjE exE)?; ((erule steps renews | assumption)+)?)
    (auto simp: Let_def bar_of_def split: option.split intro: alive)

lemma rar_built: "range_rover_new k_period d_period ma_period oversold overbought = Some s \<Longrightarrow> range_rover_live s \<and> range_rover_reset s = Some s"
  by (auto simp: range_rover_new_def range_rover_live_def range_rover_reset_def bind_eq_Some_conv split: if_splits intro: alive)

section \<open>\<open>VolatilityRatioBreakout\<close>\<close>

record volatility_ratio_breakout =
  vrb_vr :: volatility_ratio
  vrb_threshold :: f64
  vrb_lookback :: nat
  vrb_prev_close :: "f64 option"

definition volatility_ratio_breakout_new :: "nat \<Rightarrow> f64 \<Rightarrow> volatility_ratio_breakout option" where
  "volatility_ratio_breakout_new lookback threshold =
     do {
       i1 \<leftarrow> volatility_ratio_new lookback;
       Some \<lparr>vrb_vr = i1, vrb_threshold = threshold, vrb_lookback = lookback, vrb_prev_close = None\<rparr>
     }"

definition volatility_ratio_breakout_on_bar :: "volatility_ratio_breakout \<Rightarrow> bar \<Rightarrow> (volatility_ratio_breakout \<times> signal list) option" where
  "volatility_ratio_breakout_on_bar s b = do {
     let (i1, wv) = volatility_ratio_update (vrb_vr s) (b_high b, b_low b, b_close b);
     let s = s\<lparr>vrb_vr := i1\<rparr>;
     Some (case wv of Some v \<Rightarrow> (let bullish_move = (case vrb_prev_close s of Some pc \<Rightarrow> b_close b > pc
       | None \<Rightarrow> False) in
       (s\<lparr>vrb_prev_close := Some (b_close b)\<rparr>, if v > vrb_threshold s \<and> bullish_move then long_at b (fmin v 1)
       else if v \<le> vrb_threshold s then exit_at b else []))
       | None \<Rightarrow> (s\<lparr>vrb_prev_close := Some (b_close b)\<rparr>, []))
   }"

definition volatility_ratio_breakout_reset :: "volatility_ratio_breakout \<Rightarrow> volatility_ratio_breakout option" where
  "volatility_ratio_breakout_reset s = do {
     i1 \<leftarrow> volatility_ratio_new (vrb_lookback s);
     Some (s\<lparr>vrb_vr := i1, vrb_prev_close := None\<rparr>)
   }"

definition volatility_ratio_breakout_live :: "volatility_ratio_breakout \<Rightarrow> bool" where
  "volatility_ratio_breakout_live s \<longleftrightarrow> volatility_ratio_live (vrb_lookback s) (vrb_vr s)"

interpretation vrb: restoring y volatility_ratio_breakout_on_bar volatility_ratio_breakout_reset volatility_ratio_breakout_live for y
  by (rule restoringI; unfold volatility_ratio_breakout_live_def volatility_ratio_breakout_on_bar_def volatility_ratio_breakout_reset_def; (elim conjE exE)?; ((erule steps renews | assumption)+)?)
    (auto simp: Let_def bar_of_def split: option.split intro: alive)

lemma vrb_built: "volatility_ratio_breakout_new lookback threshold = Some s \<Longrightarrow> volatility_ratio_breakout_live s \<and> volatility_ratio_breakout_reset s = Some s"
  by (auto simp: volatility_ratio_breakout_new_def volatility_ratio_breakout_live_def volatility_ratio_breakout_reset_def bind_eq_Some_conv split: if_splits intro: alive)

section \<open>\<open>VolatilitySqueezer\<close>\<close>

record volatility_squeezer =
  vsq_atr :: atr
  vsq_ma :: sma
  vsq_prev_atr :: "f64 option"
  vsq_atr_period :: nat
  vsq_ma_period :: nat

definition volatility_squeezer_new :: "nat \<Rightarrow> nat \<Rightarrow> volatility_squeezer option" where
  "volatility_squeezer_new atr_period ma_period =
     do {
       i1 \<leftarrow> atr_ind_new atr_period;
       i2 \<leftarrow> sma_new ma_period;
       Some \<lparr>vsq_atr = i1, vsq_ma = i2, vsq_prev_atr = None, vsq_atr_period = atr_period, vsq_ma_period = ma_period\<rparr>
     }"

definition volatility_squeezer_on_bar :: "volatility_squeezer \<Rightarrow> bar \<Rightarrow> (volatility_squeezer \<times> signal list) option" where
  "volatility_squeezer_on_bar s b = do {
     (i1, atr_val) \<leftarrow> atr_update (vsq_atr s) (b_high b, b_low b, b_close b);
     (i2, ma_val) \<leftarrow> sma_update (vsq_ma s) (b_close b);
     let s = s\<lparr>vsq_atr := i1, vsq_ma := i2\<rparr>;
     Some (case (atr_val, ma_val) of (Some a, Some m) \<Rightarrow> (let x = av_atr a in
       case vsq_prev_atr s of Some p \<Rightarrow> (s\<lparr>vsq_prev_atr := Some x\<rparr>,
           if x > p \<and> b_close b > m then long_at b 1
       else if b_close b < m then exit_at b else [])
       | None \<Rightarrow> (s\<lparr>vsq_prev_atr := Some x\<rparr>, [])) | _ \<Rightarrow> (s, []))
   }"

definition volatility_squeezer_reset :: "volatility_squeezer \<Rightarrow> volatility_squeezer option" where
  "volatility_squeezer_reset s = do {
     i1 \<leftarrow> atr_ind_new (vsq_atr_period s);
     i2 \<leftarrow> sma_new (vsq_ma_period s);
     Some (s\<lparr>vsq_atr := i1, vsq_ma := i2, vsq_prev_atr := None\<rparr>)
   }"

definition volatility_squeezer_live :: "volatility_squeezer \<Rightarrow> bool" where
  "volatility_squeezer_live s \<longleftrightarrow> atr_live (vsq_atr_period s) (vsq_atr s) \<and> sma_live (vsq_ma_period s) (vsq_ma s)"

interpretation vsq: restoring y volatility_squeezer_on_bar volatility_squeezer_reset volatility_squeezer_live for y
  by (rule restoringI; unfold volatility_squeezer_live_def volatility_squeezer_on_bar_def volatility_squeezer_reset_def; (elim conjE exE)?; ((erule steps renews | assumption)+)?)
    (auto simp: Let_def bar_of_def split: option.split intro: alive)

lemma vsq_built: "volatility_squeezer_new atr_period ma_period = Some s \<Longrightarrow> volatility_squeezer_live s \<and> volatility_squeezer_reset s = Some s"
  by (auto simp: volatility_squeezer_new_def volatility_squeezer_live_def volatility_squeezer_reset_def bind_eq_Some_conv split: if_splits intro: alive)

section \<open>\<open>VolatilityVanguard\<close>\<close>

record volatility_vanguard =
  vva_bb :: bbands
  vva_atr :: atr
  vva_prev_atr :: "f64 option"
  vva_bb_period :: nat
  vva_bb_std :: f64
  vva_atr_period :: nat

definition volatility_vanguard_new :: "nat \<Rightarrow> f64 \<Rightarrow> nat \<Rightarrow> volatility_vanguard option" where
  "volatility_vanguard_new bb_period' bb_std atr_period =
     do {
       i1 \<leftarrow> bbands_new bb_period' bb_std;
       i2 \<leftarrow> atr_ind_new atr_period;
       Some \<lparr>vva_bb = i1, vva_atr = i2, vva_prev_atr = None, vva_bb_period = bb_period', vva_bb_std = bb_std,
           vva_atr_period = atr_period\<rparr>
     }"

definition volatility_vanguard_on_bar :: "volatility_vanguard \<Rightarrow> bar \<Rightarrow> (volatility_vanguard \<times> signal list) option" where
  "volatility_vanguard_on_bar s b = do {
     let (i1, bb_val) = bbands_update (vva_bb s) (b_close b);
     (i2, atr_val) \<leftarrow> atr_update (vva_atr s) (b_high b, b_low b, b_close b);
     let s = s\<lparr>vva_bb := i1, vva_atr := i2\<rparr>;
     Some (case (bb_val, atr_val) of (Some bb, Some a) \<Rightarrow> (let x = av_atr a in
       case vva_prev_atr s of Some p \<Rightarrow> (s\<lparr>vva_prev_atr := Some x\<rparr>,
           if b_close b > bbv_upper bb \<and> x > p then long_at b 1
       else if b_close b < bbv_middle bb then exit_at b else [])
       | None \<Rightarrow> (s\<lparr>vva_prev_atr := Some x\<rparr>, [])) | _ \<Rightarrow> (s, []))
   }"

definition volatility_vanguard_reset :: "volatility_vanguard \<Rightarrow> volatility_vanguard option" where
  "volatility_vanguard_reset s = do {
     i1 \<leftarrow> bbands_new (vva_bb_period s) (vva_bb_std s);
     i2 \<leftarrow> atr_ind_new (vva_atr_period s);
     Some (s\<lparr>vva_bb := i1, vva_atr := i2, vva_prev_atr := None\<rparr>)
   }"

definition volatility_vanguard_live :: "volatility_vanguard \<Rightarrow> bool" where
  "volatility_vanguard_live s \<longleftrightarrow> bbands_live (vva_bb_period s,
      vva_bb_std s) (vva_bb s) \<and> atr_live (vva_atr_period s) (vva_atr s)"

interpretation vva: restoring y volatility_vanguard_on_bar volatility_vanguard_reset volatility_vanguard_live for y
  by (rule restoringI; unfold volatility_vanguard_live_def volatility_vanguard_on_bar_def volatility_vanguard_reset_def; (elim conjE exE)?; ((erule steps renews | assumption)+)?)
    (auto simp: Let_def bar_of_def split: option.split intro: alive)

lemma vva_built: "volatility_vanguard_new bb_period' bb_std atr_period = Some s \<Longrightarrow> volatility_vanguard_live s \<and> volatility_vanguard_reset s = Some s"
  by (auto simp: volatility_vanguard_new_def volatility_vanguard_live_def volatility_vanguard_reset_def bind_eq_Some_conv split: if_splits intro: alive)

end
