(* ===== verification/Named_Pattern.thy ===== *)
theory Named_Pattern
  imports Named_Base
begin

text \<open>
  \<open>alm-strategy/src/named/pattern\<close>: the strategies on candle and trend patterns. Each has the record of its state, the constructor with its
  assertions, the answer to a bar, the reset, the states it can be in, and its instance of the contract.
\<close>

section \<open>\<open>AlligatorStrategy\<close>\<close>

record alligator_strategy =
  als_alligator :: alligator
  als_prev_bullish :: "bool option"

definition alligator_strategy_new :: "nat \<Rightarrow> nat \<Rightarrow> nat \<Rightarrow> alligator_strategy option" where
  "alligator_strategy_new jaw teeth lips =
     do {
       i1 \<leftarrow> alligator_new jaw teeth lips;
       Some \<lparr>als_alligator = i1, als_prev_bullish = None\<rparr>
     }"

definition alligator_strategy_on_bar :: "alligator_strategy \<Rightarrow> bar \<Rightarrow> (alligator_strategy \<times> signal list) option" where
  "alligator_strategy_on_bar s b = do {
     (i1, wv) \<leftarrow> alligator_update (als_alligator s) (b_high b, b_low b);
     let s = s\<lparr>als_alligator := i1\<rparr>;
     Some (case wv of Some v \<Rightarrow> (let bull = alv_bullish v in
       case als_prev_bullish s of Some p \<Rightarrow> (s\<lparr>als_prev_bullish := Some bull\<rparr>,
           if bull \<and> \<not> p then long_at b 1
       else if \<not> bull \<and> p then exit_at b else [])
       | None \<Rightarrow> (s\<lparr>als_prev_bullish := Some bull\<rparr>, [])) | None \<Rightarrow> (s, []))
   }"

definition alligator_strategy_reset :: "alligator_strategy \<Rightarrow> alligator_strategy option" where
  "alligator_strategy_reset s = do {
     i1 \<leftarrow> alligator_new 13 8 5;
     Some (s\<lparr>als_alligator := i1, als_prev_bullish := None\<rparr>)
   }"

definition alligator_strategy_live :: "alligator_strategy \<Rightarrow> bool" where
  "alligator_strategy_live s \<longleftrightarrow> (\<exists>c. alligator_live c (als_alligator s))"

text \<open>The reset builds the default ribbon, whatever periods were configured.\<close>

lemma default_alligator: "\<exists>a. alligator_new 13 8 5 = Some a \<and> alligator_live (13, 8, 5) a"
proof -
  obtain a where a: "alligator_new 13 8 5 = Some a" by (auto simp: alligator_new_def smma_new_def)
  then show ?thesis using alligator_lives [OF a] by blast
qed

lemma alligator_strategy_runs:
  "alligator_strategy_live s \<Longrightarrow>
   runs (\<lambda>s' sigs. alligator_strategy_live s' \<and> proper b sigs \<and> alligator_strategy_reset s' = alligator_strategy_reset s)
     (alligator_strategy_on_bar s b)"
  by (unfold alligator_strategy_live_def alligator_strategy_on_bar_def alligator_strategy_reset_def, elim exE, erule steps)
    (auto simp: Let_def split: option.split)

interpretation als: restoring y alligator_strategy_on_bar alligator_strategy_reset alligator_strategy_live for y
  using default_alligator
  by (auto intro!: restoringI alligator_strategy_runs simp: alligator_strategy_live_def alligator_strategy_reset_def gives_def;
      blast)

lemma als_built:
  "alligator_strategy_new jaw teeth lips = Some s \<Longrightarrow> alligator_strategy_live s"
  "alligator_strategy_new 13 8 5 = Some s \<Longrightarrow> alligator_strategy_reset s = Some s"
  by (auto simp: alligator_strategy_new_def alligator_strategy_live_def alligator_strategy_reset_def bind_eq_Some_conv;
      blast intro: alligator_lives)+

section \<open>\<open>ElderRayStrategy\<close>\<close>

record elder_ray_strategy =
  ers_er :: elder_ray
  ers_period :: nat
  ers_prev_bear :: "f64 option"
  ers_prev_bull :: "f64 option"
  ers_prev_ema :: "f64 option"

definition elder_ray_strategy_new :: "nat \<Rightarrow> elder_ray_strategy option" where
  "elder_ray_strategy_new period =
     do {
       i1 \<leftarrow> elder_ray_new period;
       Some \<lparr>ers_er = i1, ers_period = period, ers_prev_bear = None, ers_prev_bull = None, ers_prev_ema = None\<rparr>
     }"

definition elder_ray_strategy_on_bar :: "elder_ray_strategy \<Rightarrow> bar \<Rightarrow> (elder_ray_strategy \<times> signal list) option" where
  "elder_ray_strategy_on_bar s b = do {
     (i1, wv) \<leftarrow> elder_ray_update (ers_er s) (b_high b, b_low b, b_close b);
     let s = s\<lparr>ers_er := i1\<rparr>;
     Some (case wv of Some v \<Rightarrow> ((s\<lparr>ers_prev_bear := Some (erv_bear_power v),
         ers_prev_bull := Some (erv_bull_power v), ers_prev_ema := Some (erv_ema v)\<rparr>,
        case (ers_prev_bear s, ers_prev_bull s, ers_prev_ema s) of
          (Some pb, Some pbl, Some pe) \<Rightarrow>
            if erv_ema v > pe \<and> erv_bear_power v < 0 \<and> erv_bear_power v > pb then long_at b 1
            else if erv_bull_power v < 0 \<and> pbl \<ge> 0 then exit_at b else []
        | _ \<Rightarrow> [])) | None \<Rightarrow> (s, []))
   }"

definition elder_ray_strategy_reset :: "elder_ray_strategy \<Rightarrow> elder_ray_strategy option" where
  "elder_ray_strategy_reset s = do {
     i1 \<leftarrow> elder_ray_new (ers_period s);
     Some (s\<lparr>ers_er := i1, ers_prev_bear := None, ers_prev_bull := None, ers_prev_ema := None\<rparr>)
   }"

definition elder_ray_strategy_live :: "elder_ray_strategy \<Rightarrow> bool" where
  "elder_ray_strategy_live s \<longleftrightarrow> elder_ray_live (ers_period s) (ers_er s)"

interpretation ers: restoring y elder_ray_strategy_on_bar elder_ray_strategy_reset elder_ray_strategy_live for y
  by (rule restoringI; unfold elder_ray_strategy_live_def elder_ray_strategy_on_bar_def elder_ray_strategy_reset_def; (elim conjE exE)?; ((erule steps renews | assumption)+)?)
    (auto simp: Let_def bar_of_def split: option.split intro: alive)

lemma ers_built: "elder_ray_strategy_new period = Some s \<Longrightarrow> elder_ray_strategy_live s \<and> elder_ray_strategy_reset s = Some s"
  by (auto simp: elder_ray_strategy_new_def elder_ray_strategy_live_def elder_ray_strategy_reset_def bind_eq_Some_conv split: if_splits intro: alive)

section \<open>\<open>HaBreakout\<close>\<close>

record ha_breakout =
  hab_ha :: heiken_ashi
  hab_bull_count :: nat
  hab_bear_count :: nat
  hab_smooth :: nat
  hab_consecutive_bars :: nat

definition ha_breakout_new :: "nat \<Rightarrow> nat \<Rightarrow> ha_breakout option" where
  "ha_breakout_new smooth consecutive_bars =
     do {
       i1 \<leftarrow> heiken_ashi_new smooth;
       Some \<lparr>hab_ha = i1, hab_bull_count = 0, hab_bear_count = 0, hab_smooth = smooth,
           hab_consecutive_bars = consecutive_bars\<rparr>
     }"

definition ha_breakout_on_bar :: "ha_breakout \<Rightarrow> bar \<Rightarrow> (ha_breakout \<times> signal list) option" where
  "ha_breakout_on_bar s b = do {
     (i1, hv) \<leftarrow> ha_step (hab_ha s) (b_open b, b_high b, b_low b, b_close b);
     let s = s\<lparr>hab_ha := i1\<rparr>;
     Some (case hv of Some h \<Rightarrow> (let s = (if hb_is_bullish h then s\<lparr>hab_bull_count := hab_bull_count s + 1, hab_bear_count := 0\<rparr>
                else s\<lparr>hab_bear_count := hab_bear_count s + 1, hab_bull_count := 0\<rparr>) in
       (s, if hab_bull_count s \<ge> hab_consecutive_bars s then long_at b 1
           else if hab_bear_count s \<ge> hab_consecutive_bars s then exit_at b else [])) | None \<Rightarrow> (s, []))
   }"

definition ha_breakout_reset :: "ha_breakout \<Rightarrow> ha_breakout option" where
  "ha_breakout_reset s = do {
     i1 \<leftarrow> heiken_ashi_new (hab_smooth s);
     Some (s\<lparr>hab_ha := i1, hab_bull_count := 0, hab_bear_count := 0\<rparr>)
   }"

definition ha_breakout_live :: "ha_breakout \<Rightarrow> bool" where
  "ha_breakout_live s \<longleftrightarrow> ha_live (hab_smooth s) (hab_ha s)"

interpretation hab: restoring y ha_breakout_on_bar ha_breakout_reset ha_breakout_live for y
  by (rule restoringI; unfold ha_breakout_live_def ha_breakout_on_bar_def ha_breakout_reset_def; (elim conjE exE)?; ((erule steps renews | assumption)+)?)
    (auto simp: Let_def bar_of_def split: option.split intro: alive)

lemma hab_built: "ha_breakout_new smooth consecutive_bars = Some s \<Longrightarrow> ha_breakout_live s \<and> ha_breakout_reset s = Some s"
  by (auto simp: ha_breakout_new_def ha_breakout_live_def ha_breakout_reset_def bind_eq_Some_conv split: if_splits intro: alive)

section \<open>\<open>HaColor\<close>\<close>

record ha_color =
  hac_ha :: heiken_ashi
  hac_smooth :: nat
  hac_prev_bullish :: "bool option"

definition ha_color_new :: "nat \<Rightarrow> ha_color option" where
  "ha_color_new smooth =
     do {
       i1 \<leftarrow> heiken_ashi_new smooth;
       Some \<lparr>hac_ha = i1, hac_smooth = smooth, hac_prev_bullish = None\<rparr>
     }"

definition ha_color_on_bar :: "ha_color \<Rightarrow> bar \<Rightarrow> (ha_color \<times> signal list) option" where
  "ha_color_on_bar s b = do {
     (i1, hv) \<leftarrow> ha_step (hac_ha s) (b_open b, b_high b, b_low b, b_close b);
     let s = s\<lparr>hac_ha := i1\<rparr>;
     Some (case hv of Some v \<Rightarrow> (let bull = hb_is_bullish v in
       case hac_prev_bullish s of Some p \<Rightarrow> (s\<lparr>hac_prev_bullish := Some bull\<rparr>,
           if bull \<and> \<not> p then long_at b 1
       else if \<not> bull \<and> p then exit_at b else [])
       | None \<Rightarrow> (s\<lparr>hac_prev_bullish := Some bull\<rparr>, [])) | None \<Rightarrow> (s, []))
   }"

definition ha_color_reset :: "ha_color \<Rightarrow> ha_color option" where
  "ha_color_reset s = do {
     i1 \<leftarrow> heiken_ashi_new (hac_smooth s);
     Some (s\<lparr>hac_ha := i1, hac_prev_bullish := None\<rparr>)
   }"

definition ha_color_live :: "ha_color \<Rightarrow> bool" where
  "ha_color_live s \<longleftrightarrow> ha_live (hac_smooth s) (hac_ha s)"

interpretation hac: restoring y ha_color_on_bar ha_color_reset ha_color_live for y
  by (rule restoringI; unfold ha_color_live_def ha_color_on_bar_def ha_color_reset_def; (elim conjE exE)?; ((erule steps renews | assumption)+)?)
    (auto simp: Let_def bar_of_def split: option.split intro: alive)

lemma hac_built: "ha_color_new smooth = Some s \<Longrightarrow> ha_color_live s \<and> ha_color_reset s = Some s"
  by (auto simp: ha_color_new_def ha_color_live_def ha_color_reset_def bind_eq_Some_conv split: if_splits intro: alive)

section \<open>\<open>HaHarmonizer\<close>\<close>

record ha_harmonizer =
  hah_ha :: heiken_ashi
  hah_ema :: ema
  hah_smooth :: nat
  hah_ema_period :: nat

definition ha_harmonizer_new :: "nat \<Rightarrow> nat \<Rightarrow> ha_harmonizer option" where
  "ha_harmonizer_new smooth ema_period' =
     do {
       i1 \<leftarrow> heiken_ashi_new smooth;
       i2 \<leftarrow> ema_new ema_period';
       Some \<lparr>hah_ha = i1, hah_ema = i2, hah_smooth = smooth, hah_ema_period = ema_period'\<rparr>
     }"

definition ha_harmonizer_on_bar :: "ha_harmonizer \<Rightarrow> bar \<Rightarrow> (ha_harmonizer \<times> signal list) option" where
  "ha_harmonizer_on_bar s b = do {
     (i1, hv) \<leftarrow> ha_step (hah_ha s) (b_open b, b_high b, b_low b, b_close b);
     (i2, ev) \<leftarrow> ema_update (hah_ema s) (b_close b);
     let s = s\<lparr>hah_ha := i1, hah_ema := i2\<rparr>;
     Some (case (ev, hv) of (Some e, Some h) \<Rightarrow>
       ((s, if hb_is_bullish h \<and> b_close b > e then long_at b 1
       else if \<not> hb_is_bullish h \<or> b_close b < e then exit_at b else [])) | _ \<Rightarrow> (s, []))
   }"

definition ha_harmonizer_reset :: "ha_harmonizer \<Rightarrow> ha_harmonizer option" where
  "ha_harmonizer_reset s = do {
     i1 \<leftarrow> heiken_ashi_new (hah_smooth s);
     i2 \<leftarrow> ema_new (hah_ema_period s);
     Some (s\<lparr>hah_ha := i1, hah_ema := i2\<rparr>)
   }"

definition ha_harmonizer_live :: "ha_harmonizer \<Rightarrow> bool" where
  "ha_harmonizer_live s \<longleftrightarrow> ha_live (hah_smooth s) (hah_ha s) \<and> ema_live (hah_ema_period s) (hah_ema s)"

interpretation hah: restoring y ha_harmonizer_on_bar ha_harmonizer_reset ha_harmonizer_live for y
  by (rule restoringI; unfold ha_harmonizer_live_def ha_harmonizer_on_bar_def ha_harmonizer_reset_def; (elim conjE exE)?; ((erule steps renews | assumption)+)?)
    (auto simp: Let_def bar_of_def split: option.split intro: alive)

lemma hah_built: "ha_harmonizer_new smooth ema_period' = Some s \<Longrightarrow> ha_harmonizer_live s \<and> ha_harmonizer_reset s = Some s"
  by (auto simp: ha_harmonizer_new_def ha_harmonizer_live_def ha_harmonizer_reset_def bind_eq_Some_conv split: if_splits intro: alive)

section \<open>\<open>PriceActionSwing\<close>\<close>

record price_action_swing =
  pas_ema :: ema
  pas_atr :: atr
  pas_swing_bars :: nat
  pas_ema_p :: nat
  pas_atr_p :: nat
  pas_window :: "bar list"
  pas_swing_high :: f64
  pas_swing_low :: f64
  pas_in_position :: bool
  pas_stop_level :: f64

text \<open>The middle bar of a full window is a pivot if no other bar of the window reaches it.\<close>

definition pas_is_pivot_high :: "price_action_swing \<Rightarrow> f64 option" where
  "pas_is_pivot_high s =
     (let n = pas_swing_bars s; w = pas_window s in
      if length w < 2 * n + 1 then None
      else let mid = b_high (w ! n) in
        if \<exists>i \<in> set [0..<n]. b_high (w ! i) \<ge> mid \<or> b_high (w ! (2 * n - i)) \<ge> mid then None else Some mid)"

definition pas_is_pivot_low :: "price_action_swing \<Rightarrow> f64 option" where
  "pas_is_pivot_low s =
     (let n = pas_swing_bars s; w = pas_window s in
      if length w < 2 * n + 1 then None
      else let mid = b_low (w ! n) in
        if \<exists>i \<in> set [0..<n]. b_low (w ! i) \<le> mid \<or> b_low (w ! (2 * n - i)) \<le> mid then None else Some mid)"

definition pas_is_bullish_pin :: "bar \<Rightarrow> bool" where
  "pas_is_bullish_pin b =
     (let body = \<bar>b_close b - b_open b\<bar>;
          lower_wick = fmin (b_open b) (b_close b) - b_low b;
          upper_wick = b_high b - fmax (b_open b) (b_close b)
      in body > 0 \<and> lower_wick > lit 2 * body \<and> upper_wick < body)"

definition price_action_swing_new :: "nat \<Rightarrow> nat \<Rightarrow> nat \<Rightarrow> price_action_swing option" where
  "price_action_swing_new swing_bars ema_trend atr_period =
     do {
       i1 \<leftarrow> ema_new ema_trend;
       i2 \<leftarrow> atr_ind_new atr_period;
       Some \<lparr>pas_ema = i1, pas_atr = i2, pas_swing_bars = swing_bars, pas_ema_p = ema_trend,
           pas_atr_p = atr_period, pas_window = [], pas_swing_high = NInf, pas_swing_low = PInf,
               pas_in_position = False, pas_stop_level = 0\<rparr>
     }"

definition price_action_swing_on_bar :: "price_action_swing \<Rightarrow> bar \<Rightarrow> (price_action_swing \<times> signal list) option" where
  "price_action_swing_on_bar s b = do {
     (i1, ev) \<leftarrow> ema_update (pas_ema s) (b_close b);
     (i2, av) \<leftarrow> atr_update (pas_atr s) (b_high b, b_low b, b_close b);
     let s = s\<lparr>pas_ema := i1, pas_atr := i2, pas_window := push_trim (pas_swing_bars s * 2 + 1) (pas_window s) (b)\<rparr>;
     Some (case (ev, av) of (Some e,
         Some a) \<Rightarrow> (let s = (case pas_is_pivot_high s of Some ph \<Rightarrow> s\<lparr>pas_swing_high := ph\<rparr> | None \<Rightarrow> s);
           s = (case pas_is_pivot_low s of Some pl \<Rightarrow> s\<lparr>pas_swing_low := pl\<rparr> | None \<Rightarrow> s) in
       if pas_swing_high s = NInf \<or> pas_swing_low s = PInf then (s, [])
       else
         let above_trend = b_close b > e in
         if \<not> pas_in_position s then
           if b_close b > pas_swing_high s \<and> above_trend then (s\<lparr>pas_in_position := True,
               pas_stop_level := pas_swing_low s\<rparr>, long_at b 1)
           else
             let near_support = \<bar>b_close b - pas_swing_low s\<bar> < av_atr a * (lit (1 / 2)) in
             if pas_is_bullish_pin b \<and> near_support \<and> above_trend
             then (s\<lparr>pas_in_position := True, pas_stop_level := b_low b - av_atr a * (lit (1 / 2))\<rparr>,
                 long_at b (lit (4 / 5)))
             else (s, [])
         else if b_close b < pas_stop_level s then (s\<lparr>pas_in_position := False\<rparr>, exit_at b)
         else if pas_swing_low s > pas_stop_level s then (s\<lparr>pas_stop_level := pas_swing_low s\<rparr>, [])
         else (s, [])) | _ \<Rightarrow> (s, []))
   }"

definition price_action_swing_reset :: "price_action_swing \<Rightarrow> price_action_swing option" where
  "price_action_swing_reset s = do {
     i1 \<leftarrow> ema_new (pas_ema_p s);
     i2 \<leftarrow> atr_ind_new (pas_atr_p s);
     Some (s\<lparr>pas_ema := i1, pas_atr := i2, pas_window := [], pas_swing_high := NInf, pas_swing_low := PInf,
         pas_in_position := False, pas_stop_level := 0\<rparr>)
   }"

definition price_action_swing_live :: "price_action_swing \<Rightarrow> bool" where
  "price_action_swing_live s \<longleftrightarrow> ema_live (pas_ema_p s) (pas_ema s) \<and> atr_live (pas_atr_p s) (pas_atr s)"

interpretation pas: restoring y price_action_swing_on_bar price_action_swing_reset price_action_swing_live for y
  by (rule restoringI; unfold price_action_swing_live_def price_action_swing_on_bar_def price_action_swing_reset_def; (elim conjE exE)?; ((erule steps renews | assumption)+)?)
    (auto simp: Let_def bar_of_def split: option.split intro: alive)

lemma pas_built: "price_action_swing_new swing_bars ema_trend atr_period = Some s \<Longrightarrow> price_action_swing_live s \<and> price_action_swing_reset s = Some s"
  by (auto simp: price_action_swing_new_def price_action_swing_live_def price_action_swing_reset_def bind_eq_Some_conv split: if_splits intro: alive)

section \<open>\<open>RwiStrategy\<close>\<close>

record rwi_strategy =
  rws_rwi :: rwi
  rws_threshold :: f64
  rws_period :: nat

definition rwi_strategy_new :: "nat \<Rightarrow> f64 \<Rightarrow> rwi_strategy option" where
  "rwi_strategy_new period threshold =
     do {
       i1 \<leftarrow> rwi_new period;
       Some \<lparr>rws_rwi = i1, rws_threshold = threshold, rws_period = period\<rparr>
     }"

definition rwi_strategy_on_bar :: "rwi_strategy \<Rightarrow> bar \<Rightarrow> (rwi_strategy \<times> signal list) option" where
  "rwi_strategy_on_bar s b = do {
     let (i1, wv) = rwi_update (rws_rwi s) (b_high b, b_low b, b_close b);
     let s = s\<lparr>rws_rwi := i1\<rparr>;
     Some (case wv of Some v \<Rightarrow> ((s,
         if rwv_rwi_high v > rws_threshold s then long_at b (fmax (fmin (rwv_rwi_high v - 1) 1) 0)
       else if rwv_rwi_low v > rws_threshold s then exit_at b else [])) | None \<Rightarrow> (s, []))
   }"

definition rwi_strategy_reset :: "rwi_strategy \<Rightarrow> rwi_strategy option" where
  "rwi_strategy_reset s = do {
     i1 \<leftarrow> rwi_new (rws_period s);
     Some (s\<lparr>rws_rwi := i1\<rparr>)
   }"

definition rwi_strategy_live :: "rwi_strategy \<Rightarrow> bool" where
  "rwi_strategy_live s \<longleftrightarrow> rwi_live (rws_period s) (rws_rwi s)"

interpretation rws: restoring y rwi_strategy_on_bar rwi_strategy_reset rwi_strategy_live for y
  by (rule restoringI; unfold rwi_strategy_live_def rwi_strategy_on_bar_def rwi_strategy_reset_def; (elim conjE exE)?; ((erule steps renews | assumption)+)?)
    (auto simp: Let_def bar_of_def split: option.split intro: alive)

lemma rws_built: "rwi_strategy_new period threshold = Some s \<Longrightarrow> rwi_strategy_live s \<and> rwi_strategy_reset s = Some s"
  by (auto simp: rwi_strategy_new_def rwi_strategy_live_def rwi_strategy_reset_def bind_eq_Some_conv split: if_splits intro: alive)

section \<open>\<open>SarStrategy\<close>\<close>

record sar_strategy =
  sas_sar :: parabolic_sar
  sas_step :: f64
  sas_max :: f64
  sas_prev_bullish :: "bool option"

definition sar_strategy_new :: "f64 \<Rightarrow> f64 \<Rightarrow> sar_strategy option" where
  "sar_strategy_new step max_af =
     Some \<lparr>sas_sar = parabolic_sar_new step max_af, sas_step = step, sas_max = max_af, sas_prev_bullish = None\<rparr>"

definition sar_strategy_on_bar :: "sar_strategy \<Rightarrow> bar \<Rightarrow> (sar_strategy \<times> signal list) option" where
  "sar_strategy_on_bar s b = do {
     (i1, wv) \<leftarrow> parabolic_sar_update (sas_sar s) (b_high b, b_low b, b_close b);
     let s = s\<lparr>sas_sar := i1\<rparr>;
     Some (case wv of Some v \<Rightarrow> (let bull = srv_is_bullish v in
       case sas_prev_bullish s of Some p \<Rightarrow> (s\<lparr>sas_prev_bullish := Some bull\<rparr>,
           if bull \<and> \<not> p then long_at b 1
       else if \<not> bull \<and> p then exit_at b else [])
       | None \<Rightarrow> (s\<lparr>sas_prev_bullish := Some bull\<rparr>, [])) | None \<Rightarrow> (s, []))
   }"

definition sar_strategy_reset :: "sar_strategy \<Rightarrow> sar_strategy option" where
  "sar_strategy_reset s = Some (s\<lparr>sas_sar := parabolic_sar_new (sas_step s) (sas_max s), sas_prev_bullish := None\<rparr>)"

definition sar_strategy_live :: "sar_strategy \<Rightarrow> bool" where
  "sar_strategy_live s \<longleftrightarrow> parabolic_sar_live (sas_step s, sas_max s) (sas_sar s)"

interpretation sas: restoring y sar_strategy_on_bar sar_strategy_reset sar_strategy_live for y
  by (rule restoringI; unfold sar_strategy_live_def sar_strategy_on_bar_def sar_strategy_reset_def; (elim conjE exE)?; ((erule steps renews | assumption)+)?)
    (auto simp: Let_def bar_of_def split: option.split intro: alive)

lemma sas_built: "sar_strategy_new step max_af = Some s \<Longrightarrow> sar_strategy_live s \<and> sar_strategy_reset s = Some s"
  by (auto simp: sar_strategy_new_def sar_strategy_live_def sar_strategy_reset_def bind_eq_Some_conv split: if_splits intro: alive)

section \<open>\<open>SupertrendMacd\<close>\<close>

record supertrend_macd =
  sum_st :: supertrend
  sum_macd :: macd
  sum_st_period :: nat
  sum_multiplier :: f64
  sum_macd_fast :: nat
  sum_macd_slow :: nat
  sum_macd_signal :: nat

definition supertrend_macd_new :: "nat \<Rightarrow> f64 \<Rightarrow> nat \<Rightarrow> nat \<Rightarrow> nat \<Rightarrow> supertrend_macd option" where
  "supertrend_macd_new st_period multiplier macd_fast' macd_slow' macd_signal' =
     do {
       i1 \<leftarrow> supertrend_new st_period multiplier;
       i2 \<leftarrow> macd_new macd_fast' macd_slow' macd_signal';
       Some \<lparr>sum_st = i1, sum_macd = i2, sum_st_period = st_period, sum_multiplier = multiplier,
           sum_macd_fast = macd_fast', sum_macd_slow = macd_slow', sum_macd_signal = macd_signal'\<rparr>
     }"

definition supertrend_macd_on_bar :: "supertrend_macd \<Rightarrow> bar \<Rightarrow> (supertrend_macd \<times> signal list) option" where
  "supertrend_macd_on_bar s b = do {
     (i1, sv) \<leftarrow> supertrend_update (sum_st s) (b_high b, b_low b, b_close b);
     (i2, mv) \<leftarrow> macd_update (sum_macd s) (b_close b);
     let s = s\<lparr>sum_st := i1, sum_macd := i2\<rparr>;
     Some (case (sv, mv) of (Some v, Some m) \<Rightarrow>
       ((s, if stv_is_bullish v \<and> mv_histogram m > 0 then long_at b 1
       else if \<not> stv_is_bullish v then exit_at b else [])) | _ \<Rightarrow> (s, []))
   }"

definition supertrend_macd_reset :: "supertrend_macd \<Rightarrow> supertrend_macd option" where
  "supertrend_macd_reset s = do {
     i1 \<leftarrow> supertrend_new (sum_st_period s) (sum_multiplier s);
     i2 \<leftarrow> macd_new (sum_macd_fast s) (sum_macd_slow s) (sum_macd_signal s);
     Some (s\<lparr>sum_st := i1, sum_macd := i2\<rparr>)
   }"

definition supertrend_macd_live :: "supertrend_macd \<Rightarrow> bool" where
  "supertrend_macd_live s \<longleftrightarrow> supertrend_live (sum_st_period s, sum_multiplier s) (sum_st s) \<and>
     macd_live (sum_macd_fast s, sum_macd_slow s, sum_macd_signal s) (sum_macd s)"

interpretation sum: restoring y supertrend_macd_on_bar supertrend_macd_reset supertrend_macd_live for y
  by (rule restoringI; unfold supertrend_macd_live_def supertrend_macd_on_bar_def supertrend_macd_reset_def; (elim conjE exE)?; ((erule steps renews | assumption)+)?)
    (auto simp: Let_def bar_of_def split: option.split intro: alive)

lemma sum_built: "supertrend_macd_new st_period multiplier macd_fast' macd_slow' macd_signal' = Some s \<Longrightarrow> supertrend_macd_live s \<and> supertrend_macd_reset s = Some s"
  by (auto simp: supertrend_macd_new_def supertrend_macd_live_def supertrend_macd_reset_def bind_eq_Some_conv split: if_splits intro: alive)

section \<open>\<open>SupertrendStrategy\<close>\<close>

record supertrend_strategy =
  sus_st :: supertrend
  sus_period :: nat
  sus_multiplier :: f64
  sus_prev_bullish :: "bool option"

definition supertrend_strategy_new :: "nat \<Rightarrow> f64 \<Rightarrow> supertrend_strategy option" where
  "supertrend_strategy_new period multiplier =
     do {
       i1 \<leftarrow> supertrend_new period multiplier;
       Some \<lparr>sus_st = i1, sus_period = period, sus_multiplier = multiplier, sus_prev_bullish = None\<rparr>
     }"

definition supertrend_strategy_on_bar :: "supertrend_strategy \<Rightarrow> bar \<Rightarrow> (supertrend_strategy \<times> signal list) option" where
  "supertrend_strategy_on_bar s b = do {
     (i1, wv) \<leftarrow> supertrend_update (sus_st s) (b_high b, b_low b, b_close b);
     let s = s\<lparr>sus_st := i1\<rparr>;
     Some (case wv of Some v \<Rightarrow> (let bull = stv_is_bullish v in
       case sus_prev_bullish s of Some p \<Rightarrow> (s\<lparr>sus_prev_bullish := Some bull\<rparr>,
           if bull \<and> \<not> p then long_at b 1
       else if \<not> bull \<and> p then exit_at b else [])
       | None \<Rightarrow> (s\<lparr>sus_prev_bullish := Some bull\<rparr>, [])) | None \<Rightarrow> (s, []))
   }"

definition supertrend_strategy_reset :: "supertrend_strategy \<Rightarrow> supertrend_strategy option" where
  "supertrend_strategy_reset s = do {
     i1 \<leftarrow> supertrend_new (sus_period s) (sus_multiplier s);
     Some (s\<lparr>sus_st := i1, sus_prev_bullish := None\<rparr>)
   }"

definition supertrend_strategy_live :: "supertrend_strategy \<Rightarrow> bool" where
  "supertrend_strategy_live s \<longleftrightarrow> supertrend_live (sus_period s, sus_multiplier s) (sus_st s)"

interpretation sus: restoring y supertrend_strategy_on_bar supertrend_strategy_reset supertrend_strategy_live for y
  by (rule restoringI; unfold supertrend_strategy_live_def supertrend_strategy_on_bar_def supertrend_strategy_reset_def; (elim conjE exE)?; ((erule steps renews | assumption)+)?)
    (auto simp: Let_def bar_of_def split: option.split intro: alive)

lemma sus_built: "supertrend_strategy_new period multiplier = Some s \<Longrightarrow> supertrend_strategy_live s \<and> supertrend_strategy_reset s = Some s"
  by (auto simp: supertrend_strategy_new_def supertrend_strategy_live_def supertrend_strategy_reset_def bind_eq_Some_conv split: if_splits intro: alive)

end
