(* ===== verification/Named_Composite.thy ===== *)
theory Named_Composite
  imports Named_Base
begin

text \<open>
  \<open>alm-strategy/src/named/composite\<close>: the strategies that combine several indicators. Each has the record of its state, the constructor with its
  assertions, the answer to a bar, the reset, the states it can be in, and its instance of the contract.
\<close>

section \<open>\<open>ChopFilterStrategy\<close>\<close>

record chop_filter_strategy =
  cfs_chop_period :: nat
  cfs_fast_period :: nat
  cfs_slow_period :: nat
  cfs_chop_threshold :: f64
  cfs_chop :: chop
  cfs_fast_ema :: ema
  cfs_slow_ema :: ema
  cfs_prev_fast :: "f64 option"
  cfs_prev_slow :: "f64 option"

definition chop_filter_strategy_new :: "nat \<Rightarrow> nat \<Rightarrow> nat \<Rightarrow> f64 \<Rightarrow> chop_filter_strategy option" where
  "chop_filter_strategy_new chop_period fast_ema slow_ema chop_threshold =
     do {
       i1 \<leftarrow> chop_new chop_period;
       i2 \<leftarrow> ema_new fast_ema;
       i3 \<leftarrow> ema_new slow_ema;
       Some \<lparr>cfs_chop_period = chop_period, cfs_fast_period = fast_ema, cfs_slow_period = slow_ema,
           cfs_chop_threshold = chop_threshold, cfs_chop = i1, cfs_fast_ema = i2, cfs_slow_ema = i3,
               cfs_prev_fast = None, cfs_prev_slow = None\<rparr>
     }"

definition chop_filter_strategy_on_bar :: "mathlib \<Rightarrow> chop_filter_strategy \<Rightarrow> bar \<Rightarrow> (chop_filter_strategy \<times> signal list) option" where
  "chop_filter_strategy_on_bar lm s b = do {
     let (i1, chop_val) = chop_update lm (cfs_chop s) (b_high b, b_low b, b_close b);
     (i2, fast_val) \<leftarrow> ema_update (cfs_fast_ema s) (b_close b);
     (i3, slow_val) \<leftarrow> ema_update (cfs_slow_ema s) (b_close b);
     let s = s\<lparr>cfs_chop := i1, cfs_fast_ema := i2, cfs_slow_ema := i3\<rparr>;
     Some (case (fast_val, slow_val) of (Some f, Some sl) \<Rightarrow> ((s\<lparr>cfs_prev_fast := Some f,
         cfs_prev_slow := Some sl\<rparr>,
        case (cfs_prev_fast s, cfs_prev_slow s) of
          (Some pf, Some ps) \<Rightarrow>
            let chop_ok = (case chop_val of Some c \<Rightarrow> c < cfs_chop_threshold s | None \<Rightarrow> True) in
            if pf \<le> ps \<and> f > sl \<and> chop_ok then long_at b (fclamp \<bar>(f - sl) / sl\<bar> 0 1)
            else if pf \<ge> ps \<and> f < sl then exit_at b else []
        | _ \<Rightarrow> [])) | _ \<Rightarrow> (let s = (case fast_val of Some f \<Rightarrow> s\<lparr>cfs_prev_fast := Some f\<rparr> | None \<Rightarrow> s);
             s = (case slow_val of Some sl \<Rightarrow> s\<lparr>cfs_prev_slow := Some sl\<rparr> | None \<Rightarrow> s) in (s, [])))
   }"

definition chop_filter_strategy_reset :: "chop_filter_strategy \<Rightarrow> chop_filter_strategy option" where
  "chop_filter_strategy_reset s = do {
     i1 \<leftarrow> chop_new (cfs_chop_period s);
     i2 \<leftarrow> ema_new (cfs_fast_period s);
     i3 \<leftarrow> ema_new (cfs_slow_period s);
     Some (s\<lparr>cfs_chop := i1, cfs_fast_ema := i2, cfs_slow_ema := i3, cfs_prev_fast := None, cfs_prev_slow := None\<rparr>)
   }"

definition chop_filter_strategy_live :: "chop_filter_strategy \<Rightarrow> bool" where
  "chop_filter_strategy_live s \<longleftrightarrow> chop_live (cfs_chop_period s) (cfs_chop s) \<and> ema_live (cfs_fast_period s) (cfs_fast_ema s) \<and>
     ema_live (cfs_slow_period s) (cfs_slow_ema s)"

interpretation cfs: restoring y "chop_filter_strategy_on_bar lm" chop_filter_strategy_reset chop_filter_strategy_live for y lm
  by (rule restoringI; unfold chop_filter_strategy_live_def chop_filter_strategy_on_bar_def chop_filter_strategy_reset_def; (elim conjE exE)?; ((erule steps renews | assumption)+)?)
    (auto simp: Let_def bar_of_def split: option.split intro: alive)

lemma cfs_built: "chop_filter_strategy_new chop_period fast_ema slow_ema chop_threshold = Some s \<Longrightarrow> chop_filter_strategy_live s \<and> chop_filter_strategy_reset s = Some s"
  by (auto simp: chop_filter_strategy_new_def chop_filter_strategy_live_def chop_filter_strategy_reset_def bind_eq_Some_conv split: if_splits intro: alive)

section \<open>\<open>EquilibriumExplorer\<close>\<close>

record equilibrium_explorer =
  eqe_ema :: ema
  eqe_stoch :: stochastic
  eqe_macd :: macd
  eqe_stoch_oversold :: f64
  eqe_stoch_overbought :: f64
  eqe_ema_period :: nat
  eqe_stoch_k :: nat
  eqe_stoch_d :: nat
  eqe_macd_fast :: nat
  eqe_macd_slow :: nat
  eqe_macd_signal :: nat

definition equilibrium_explorer_new :: "nat \<Rightarrow> nat \<Rightarrow> nat \<Rightarrow> f64 \<Rightarrow> f64 \<Rightarrow> nat \<Rightarrow> nat \<Rightarrow> nat \<Rightarrow> equilibrium_explorer option" where
  "equilibrium_explorer_new ema_period' stoch_k stoch_d stoch_oversold stoch_overbought macd_fast' macd_slow' macd_signal' =
     do {
       i1 \<leftarrow> ema_new ema_period';
       i2 \<leftarrow> stochastic_new stoch_k stoch_d;
       i3 \<leftarrow> macd_new macd_fast' macd_slow' macd_signal';
       Some \<lparr>eqe_ema = i1, eqe_stoch = i2, eqe_macd = i3, eqe_stoch_oversold = stoch_oversold,
           eqe_stoch_overbought = stoch_overbought, eqe_ema_period = ema_period', eqe_stoch_k = stoch_k,
               eqe_stoch_d = stoch_d, eqe_macd_fast = macd_fast', eqe_macd_slow = macd_slow',
                   eqe_macd_signal = macd_signal'\<rparr>
     }"

definition equilibrium_explorer_on_bar :: "equilibrium_explorer \<Rightarrow> bar \<Rightarrow> (equilibrium_explorer \<times> signal list) option" where
  "equilibrium_explorer_on_bar s b = do {
     (i1, ema_val) \<leftarrow> ema_update (eqe_ema s) (b_close b);
     (i2, stoch_val) \<leftarrow> stochastic_update (eqe_stoch s) (b_high b, b_low b, b_close b);
     (i3, macd_val) \<leftarrow> macd_update (eqe_macd s) (b_close b);
     let s = s\<lparr>eqe_ema := i1, eqe_stoch := i2, eqe_macd := i3\<rparr>;
     Some (case (ema_val, stoch_val, macd_val) of (Some e, Some st, Some m) \<Rightarrow>
       ((s, if b_close b > e \<and> stv_k st < eqe_stoch_oversold s \<and> mv_histogram m > 0 then long_at b 1
       else if stv_k st > eqe_stoch_overbought s \<or> mv_histogram m < 0 then exit_at b else []))
       | _ \<Rightarrow> (s, []))
   }"

definition equilibrium_explorer_reset :: "equilibrium_explorer \<Rightarrow> equilibrium_explorer option" where
  "equilibrium_explorer_reset s = do {
     i1 \<leftarrow> ema_new (eqe_ema_period s);
     i2 \<leftarrow> stochastic_new (eqe_stoch_k s) (eqe_stoch_d s);
     i3 \<leftarrow> macd_new (eqe_macd_fast s) (eqe_macd_slow s) (eqe_macd_signal s);
     Some (s\<lparr>eqe_ema := i1, eqe_stoch := i2, eqe_macd := i3\<rparr>)
   }"

definition equilibrium_explorer_live :: "equilibrium_explorer \<Rightarrow> bool" where
  "equilibrium_explorer_live s \<longleftrightarrow> ema_live (eqe_ema_period s) (eqe_ema s) \<and> stochastic_live (eqe_stoch_k s, eqe_stoch_d s) (eqe_stoch s) \<and>
     macd_live (eqe_macd_fast s, eqe_macd_slow s, eqe_macd_signal s) (eqe_macd s)"

interpretation eqe: restoring y equilibrium_explorer_on_bar equilibrium_explorer_reset equilibrium_explorer_live for y
  by (rule restoringI; unfold equilibrium_explorer_live_def equilibrium_explorer_on_bar_def equilibrium_explorer_reset_def; (elim conjE exE)?; ((erule steps renews | assumption)+)?)
    (auto simp: Let_def bar_of_def split: option.split intro: alive)

lemma eqe_built: "equilibrium_explorer_new ema_period' stoch_k stoch_d stoch_oversold stoch_overbought macd_fast' macd_slow' macd_signal' = Some s \<Longrightarrow> equilibrium_explorer_live s \<and> equilibrium_explorer_reset s = Some s"
  by (auto simp: equilibrium_explorer_new_def equilibrium_explorer_live_def equilibrium_explorer_reset_def bind_eq_Some_conv split: if_splits intro: alive)

section \<open>\<open>MeanReversion\<close>\<close>

record mean_reversion =
  mer_bb :: bbands
  mer_rsi :: rsi
  mer_min_bars :: nat
  mer_below_band_count :: nat
  mer_in_position :: bool
  mer_bb_period :: nat
  mer_bb_std :: f64
  mer_rsi_period :: nat
  mer_rsi_overbought :: f64

definition mean_reversion_new :: "nat \<Rightarrow> f64 \<Rightarrow> nat \<Rightarrow> nat \<Rightarrow> mean_reversion option" where
  "mean_reversion_new bb_period' bb_std rsi_period' min_bars =
     do {
       i1 \<leftarrow> bbands_new bb_period' bb_std;
       i2 \<leftarrow> rsi_new rsi_period';
       Some \<lparr>mer_bb = i1, mer_rsi = i2, mer_min_bars = min_bars, mer_below_band_count = 0,
           mer_in_position = False, mer_bb_period = bb_period', mer_bb_std = bb_std, mer_rsi_period = rsi_period',
               mer_rsi_overbought = lit 70\<rparr>
     }"

definition mean_reversion_on_bar :: "mean_reversion \<Rightarrow> bar \<Rightarrow> (mean_reversion \<times> signal list) option" where
  "mean_reversion_on_bar s b = do {
     let (i1, bb_val) = bbands_update (mer_bb s) (b_close b);
     (i2, rsi_val) \<leftarrow> rsi_update (mer_rsi s) (b_close b);
     let s = s\<lparr>mer_bb := i1, mer_rsi := i2\<rparr>;
     Some (case (bb_val, rsi_val) of (Some bb, Some r) \<Rightarrow> (if mer_in_position s then
         if b_close b \<ge> bbv_upper bb \<or> r > mer_rsi_overbought s then (s\<lparr>mer_in_position := False,
             mer_below_band_count := 0\<rparr>, exit_at b)
         else (s, [])
       else if b_close b < bbv_lower bb then (s\<lparr>mer_below_band_count := mer_below_band_count s + 1\<rparr>, [])
       else if b_close b > bbv_lower bb \<and> mer_below_band_count s \<ge> mer_min_bars s then
         (s\<lparr>mer_below_band_count := 0, mer_in_position := True\<rparr>, long_at b (fclamp (((lit 50) - r) / (lit 50)) 0 1))
       else (s\<lparr>mer_below_band_count := 0\<rparr>, [])) | _ \<Rightarrow> (s, []))
   }"

definition mean_reversion_reset :: "mean_reversion \<Rightarrow> mean_reversion option" where
  "mean_reversion_reset s = do {
     i1 \<leftarrow> bbands_new (mer_bb_period s) (mer_bb_std s);
     i2 \<leftarrow> rsi_new (mer_rsi_period s);
     Some (s\<lparr>mer_bb := i1, mer_rsi := i2, mer_below_band_count := 0, mer_in_position := False\<rparr>)
   }"

definition mean_reversion_live :: "mean_reversion \<Rightarrow> bool" where
  "mean_reversion_live s \<longleftrightarrow> bbands_live (mer_bb_period s,
      mer_bb_std s) (mer_bb s) \<and> rsi_live (mer_rsi_period s) (mer_rsi s)"

interpretation mer: restoring y mean_reversion_on_bar mean_reversion_reset mean_reversion_live for y
  by (rule restoringI; unfold mean_reversion_live_def mean_reversion_on_bar_def mean_reversion_reset_def; (elim conjE exE)?; ((erule steps renews | assumption)+)?)
    (auto simp: Let_def bar_of_def split: option.split intro: alive)

lemma mer_built: "mean_reversion_new bb_period' bb_std rsi_period' min_bars = Some s \<Longrightarrow> mean_reversion_live s \<and> mean_reversion_reset s = Some s"
  by (auto simp: mean_reversion_new_def mean_reversion_live_def mean_reversion_reset_def bind_eq_Some_conv split: if_splits intro: alive)

section \<open>\<open>OscillatorOverlord\<close>\<close>

record oscillator_overlord =
  oso_rsi :: rsi
  oso_stoch :: stochastic
  oso_cci :: cci
  oso_rsi_period :: nat
  oso_stoch_k :: nat
  oso_stoch_d :: nat
  oso_cci_period :: nat
  oso_in_position :: bool

definition oscillator_overlord_new :: "nat \<Rightarrow> nat \<Rightarrow> nat \<Rightarrow> nat \<Rightarrow> oscillator_overlord option" where
  "oscillator_overlord_new rsi_period' stoch_k stoch_d cci_period' =
     do {
       i1 \<leftarrow> rsi_new rsi_period';
       i2 \<leftarrow> stochastic_new stoch_k stoch_d;
       i3 \<leftarrow> cci_new cci_period';
       Some \<lparr>oso_rsi = i1, oso_stoch = i2, oso_cci = i3, oso_rsi_period = rsi_period', oso_stoch_k = stoch_k,
           oso_stoch_d = stoch_d, oso_cci_period = cci_period', oso_in_position = False\<rparr>
     }"

definition oscillator_overlord_on_bar :: "oscillator_overlord \<Rightarrow> bar \<Rightarrow> (oscillator_overlord \<times> signal list) option" where
  "oscillator_overlord_on_bar s b = do {
     (i1, rsi_val) \<leftarrow> rsi_update (oso_rsi s) (b_close b);
     (i2, stoch_val) \<leftarrow> stochastic_update (oso_stoch s) (b_high b, b_low b, b_close b);
     let (i3, cci_val) = cci_update (oso_cci s) (b_high b, b_low b, b_close b);
     let s = s\<lparr>oso_rsi := i1, oso_stoch := i2, oso_cci := i3\<rparr>;
     Some (case (rsi_val, stoch_val, cci_val) of (Some r, Some st,
         Some c) \<Rightarrow> (let os_count = length (filter (\<lambda>x. x) [r < (lit 30), stv_k st < (lit 20), c < - (lit 100)]);
           ob_count = length (filter (\<lambda>x. x) [r > (lit 70), stv_k st > (lit 80), c > (lit 100)]) in
       if \<not> oso_in_position s \<and> os_count \<ge> 2 then (s\<lparr>oso_in_position := True\<rparr>, long_at b 1)
       else if oso_in_position s \<and> ob_count \<ge> 2 then (s\<lparr>oso_in_position := False\<rparr>, exit_at b)
       else (s, [])) | _ \<Rightarrow> (s, []))
   }"

definition oscillator_overlord_reset :: "oscillator_overlord \<Rightarrow> oscillator_overlord option" where
  "oscillator_overlord_reset s = do {
     i1 \<leftarrow> rsi_new (oso_rsi_period s);
     i2 \<leftarrow> stochastic_new (oso_stoch_k s) (oso_stoch_d s);
     i3 \<leftarrow> cci_new (oso_cci_period s);
     Some (s\<lparr>oso_rsi := i1, oso_stoch := i2, oso_cci := i3, oso_in_position := False\<rparr>)
   }"

definition oscillator_overlord_live :: "oscillator_overlord \<Rightarrow> bool" where
  "oscillator_overlord_live s \<longleftrightarrow> rsi_live (oso_rsi_period s) (oso_rsi s) \<and> stochastic_live (oso_stoch_k s, oso_stoch_d s) (oso_stoch s) \<and>
     cci_live (oso_cci_period s) (oso_cci s)"

interpretation oso: restoring y oscillator_overlord_on_bar oscillator_overlord_reset oscillator_overlord_live for y
  by (rule restoringI; unfold oscillator_overlord_live_def oscillator_overlord_on_bar_def oscillator_overlord_reset_def; (elim conjE exE)?; ((erule steps renews | assumption)+)?)
    (auto simp: Let_def bar_of_def split: option.split intro: alive)

lemma oso_built: "oscillator_overlord_new rsi_period' stoch_k stoch_d cci_period' = Some s \<Longrightarrow> oscillator_overlord_live s \<and> oscillator_overlord_reset s = Some s"
  by (auto simp: oscillator_overlord_new_def oscillator_overlord_live_def oscillator_overlord_reset_def bind_eq_Some_conv split: if_splits intro: alive)

section \<open>\<open>Pixel3\<close>\<close>

record pixel_3 =
  px3_symbol :: string
  px3_window_short :: "(f64 \<times> f64) list"
  px3_window_medium :: "(f64 \<times> f64) list"
  px3_window_long :: "(f64 \<times> f64) list"
  px3_period_short :: nat
  px3_period_medium :: nat
  px3_period_long :: nat


definition pixel_3_new :: "string \<Rightarrow> nat \<Rightarrow> nat \<Rightarrow> nat \<Rightarrow> pixel_3 option" where
  "pixel_3_new symbol period_short period_medium period_long =
     Some \<lparr>px3_symbol = symbol, px3_window_short = [], px3_window_medium = [], px3_window_long = [],
         px3_period_short = period_short, px3_period_medium = period_medium, px3_period_long = period_long\<rparr>"

definition px3_midpoint :: "(f64 \<times> f64) list \<Rightarrow> f64" where
  "px3_midpoint window = (fold_max (map fst window) + fold_min (map snd window)) / lit 2"

definition px3_push_bar :: "(f64 \<times> f64) list \<Rightarrow> bar \<Rightarrow> nat \<Rightarrow> (f64 \<times> f64) list" where
  "px3_push_bar window b max_len = (if max_len \<le> length window then tl window else window) @ [(b_high b, b_low b)]"

definition pixel_3_on_bar :: "pixel_3 \<Rightarrow> bar \<Rightarrow> (pixel_3 \<times> signal list) option" where
  "pixel_3_on_bar s b =
     (let s = (if px3_symbol s = [] then s\<lparr>px3_symbol := b_symbol b\<rparr> else s);
          s = s\<lparr>px3_window_short := px3_push_bar (px3_window_short s) b (px3_period_short s),
                px3_window_medium := px3_push_bar (px3_window_medium s) b (px3_period_medium s),
                px3_window_long := px3_push_bar (px3_window_long s) b (px3_period_long s)\<rparr>
      in if length (px3_window_long s) < px3_period_long s then Some (s, [])
         else
           let ts5 = b_close b > px3_midpoint (px3_window_short s);
               ts4 = b_close b > px3_midpoint (px3_window_medium s);
               ts3 = b_close b > px3_midpoint (px3_window_long s);
               green_count = length (filter (\<lambda>v. v) [ts5, ts4, ts3])
           in if green_count \<ge> 2 then
                Some (s, [signal_long (b_timestamp b) (px3_symbol s) (f64_of_nat green_count / lit 3)])
              else if green_count = 0 then Some (s, [signal_exit (b_timestamp b) (px3_symbol s)])
              else Some (s, []))"

definition pixel_3_reset :: "pixel_3 \<Rightarrow> pixel_3 option" where
  "pixel_3_reset s = Some (s\<lparr>px3_window_short := [], px3_window_medium := [], px3_window_long := []\<rparr>)"

definition pixel_3_live :: "string \<Rightarrow> pixel_3 \<Rightarrow> bool" where
  "pixel_3_live y s \<longleftrightarrow> px3_symbol s = [] \<or> px3_symbol s = y"

lemma pixel_3_at: "b_symbol b = y \<Longrightarrow> [signal_long (b_timestamp b) y x] = long_at b x"
  "b_symbol b = y \<Longrightarrow> [signal_exit (b_timestamp b) y] = exit_at b"
  by (auto simp: long_at_def exit_at_def)

text \<open>Only the symbol taken over from the first bar survives a reset.\<close>

interpretation px3: bar_strategy y pixel_3_on_bar pixel_3_reset "pixel_3_live y" for y
  by unfold_locales
    (auto simp: pixel_3_live_def pixel_3_on_bar_def pixel_3_reset_def bar_of_def pixel_3_at Let_def)

lemma px3_built: "pixel_3_new [] period_short period_medium period_long = Some s \<Longrightarrow> pixel_3_live y s"
  by (auto simp: pixel_3_new_def pixel_3_live_def)

section \<open>\<open>ReversalCatcher\<close>\<close>

record reversal_catcher =
  rec_stoch :: stochastic
  rec_rsi :: rsi
  rec_prev_k :: "f64 option"
  rec_prev_d :: "f64 option"
  rec_k_period :: nat
  rec_d_period :: nat
  rec_rsi_period :: nat

definition reversal_catcher_new :: "nat \<Rightarrow> nat \<Rightarrow> nat \<Rightarrow> reversal_catcher option" where
  "reversal_catcher_new k_period d_period rsi_period' =
     do {
       i1 \<leftarrow> stochastic_new k_period d_period;
       i2 \<leftarrow> rsi_new rsi_period';
       Some \<lparr>rec_stoch = i1, rec_rsi = i2, rec_prev_k = None, rec_prev_d = None, rec_k_period = k_period,
           rec_d_period = d_period, rec_rsi_period = rsi_period'\<rparr>
     }"

definition reversal_catcher_on_bar :: "reversal_catcher \<Rightarrow> bar \<Rightarrow> (reversal_catcher \<times> signal list) option" where
  "reversal_catcher_on_bar s b = do {
     (i1, stoch_val) \<leftarrow> stochastic_update (rec_stoch s) (b_high b, b_low b, b_close b);
     (i2, rsi_val) \<leftarrow> rsi_update (rec_rsi s) (b_close b);
     let s = s\<lparr>rec_stoch := i1, rec_rsi := i2\<rparr>;
     Some (case (stoch_val, rsi_val) of (Some st, Some r) \<Rightarrow> (let f = stv_k st; sl = stv_d st in
       case (rec_prev_k s, rec_prev_d s) of (Some pf, Some ps) \<Rightarrow>
       (s\<lparr>rec_prev_k := Some f, rec_prev_d := Some sl\<rparr>, if pf \<le> ps \<and> sl < f \<and> r < (lit 50) then long_at b 1
       else if (pf \<ge> ps \<and> f < sl) \<or> r > (lit 70) then exit_at b else [])
       | _ \<Rightarrow> (s\<lparr>rec_prev_k := Some f, rec_prev_d := Some sl\<rparr>, []))
       | _ \<Rightarrow> (s, []))
   }"

definition reversal_catcher_reset :: "reversal_catcher \<Rightarrow> reversal_catcher option" where
  "reversal_catcher_reset s = do {
     i1 \<leftarrow> stochastic_new (rec_k_period s) (rec_d_period s);
     i2 \<leftarrow> rsi_new (rec_rsi_period s);
     Some (s\<lparr>rec_stoch := i1, rec_rsi := i2, rec_prev_k := None, rec_prev_d := None\<rparr>)
   }"

definition reversal_catcher_live :: "reversal_catcher \<Rightarrow> bool" where
  "reversal_catcher_live s \<longleftrightarrow> stochastic_live (rec_k_period s,
      rec_d_period s) (rec_stoch s) \<and> rsi_live (rec_rsi_period s) (rec_rsi s)"

interpretation rec: restoring y reversal_catcher_on_bar reversal_catcher_reset reversal_catcher_live for y
  by (rule restoringI; unfold reversal_catcher_live_def reversal_catcher_on_bar_def reversal_catcher_reset_def; (elim conjE exE)?; ((erule steps renews | assumption)+)?)
    (auto simp: Let_def bar_of_def split: option.split intro: alive)

lemma rec_built: "reversal_catcher_new k_period d_period rsi_period' = Some s \<Longrightarrow> reversal_catcher_live s \<and> reversal_catcher_reset s = Some s"
  by (auto simp: reversal_catcher_new_def reversal_catcher_live_def reversal_catcher_reset_def bind_eq_Some_conv split: if_splits intro: alive)

section \<open>\<open>SwingTrader\<close>\<close>

record swing_trader =
  swt_cci :: cci
  swt_adx :: adx
  swt_prev_cci :: "f64 option"
  swt_adx_threshold :: f64
  swt_cci_period :: nat
  swt_adx_period :: nat

definition swing_trader_new :: "nat \<Rightarrow> nat \<Rightarrow> f64 \<Rightarrow> swing_trader option" where
  "swing_trader_new cci_period' adx_period adx_threshold =
     do {
       i1 \<leftarrow> cci_new cci_period';
       i2 \<leftarrow> adx_new adx_period;
       Some \<lparr>swt_cci = i1, swt_adx = i2, swt_prev_cci = None, swt_adx_threshold = adx_threshold,
           swt_cci_period = cci_period', swt_adx_period = adx_period\<rparr>
     }"

definition swing_trader_on_bar :: "swing_trader \<Rightarrow> bar \<Rightarrow> (swing_trader \<times> signal list) option" where
  "swing_trader_on_bar s b = do {
     let (i1, cci_val) = cci_update (swt_cci s) (b_high b, b_low b, b_close b);
     (i2, adx_val) \<leftarrow> adx_update (swt_adx s) (b_high b, b_low b, b_close b);
     let s = s\<lparr>swt_cci := i1, swt_adx := i2\<rparr>;
     Some (case (cci_val, adx_val) of (Some c, Some ad) \<Rightarrow>
       (case swt_prev_cci s of Some p \<Rightarrow> (s\<lparr>swt_prev_cci := Some c\<rparr>,
           if p \<le> (lit 100) \<and> c > (lit 100) \<and> adv_adx ad > swt_adx_threshold s then long_at b 1
       else if p \<ge> - (lit 100) \<and> c < - (lit 100) then exit_at b else [])
       | None \<Rightarrow> (s\<lparr>swt_prev_cci := Some c\<rparr>, [])) | _ \<Rightarrow> (s, []))
   }"

definition swing_trader_reset :: "swing_trader \<Rightarrow> swing_trader option" where
  "swing_trader_reset s = do {
     i1 \<leftarrow> cci_new (swt_cci_period s);
     i2 \<leftarrow> adx_new (swt_adx_period s);
     Some (s\<lparr>swt_cci := i1, swt_adx := i2, swt_prev_cci := None\<rparr>)
   }"

definition swing_trader_live :: "swing_trader \<Rightarrow> bool" where
  "swing_trader_live s \<longleftrightarrow> cci_live (swt_cci_period s) (swt_cci s) \<and> adx_live (swt_adx_period s) (swt_adx s)"

interpretation swt: restoring y swing_trader_on_bar swing_trader_reset swing_trader_live for y
  by (rule restoringI; unfold swing_trader_live_def swing_trader_on_bar_def swing_trader_reset_def; (elim conjE exE)?; ((erule steps renews | assumption)+)?)
    (auto simp: Let_def bar_of_def split: option.split intro: alive)

lemma swt_built: "swing_trader_new cci_period' adx_period adx_threshold = Some s \<Longrightarrow> swing_trader_live s \<and> swing_trader_reset s = Some s"
  by (auto simp: swing_trader_new_def swing_trader_live_def swing_trader_reset_def bind_eq_Some_conv split: if_splits intro: alive)

section \<open>\<open>Wolfstein\<close>\<close>

record wolfstein =
  wol_adx :: adx
  wol_long_threshold :: f64
  wol_short_threshold :: f64
  wol_period :: nat

definition wolfstein_new :: "nat \<Rightarrow> f64 \<Rightarrow> f64 \<Rightarrow> wolfstein option" where
  "wolfstein_new period long_threshold short_threshold =
     do {
       i1 \<leftarrow> adx_new period;
       Some \<lparr>wol_adx = i1, wol_long_threshold = long_threshold, wol_short_threshold = short_threshold,
           wol_period = period\<rparr>
     }"

definition wolfstein_on_bar :: "wolfstein \<Rightarrow> bar \<Rightarrow> (wolfstein \<times> signal list) option" where
  "wolfstein_on_bar s b = do {
     (i1, wv) \<leftarrow> adx_update (wol_adx s) (b_high b, b_low b, b_close b);
     let s = s\<lparr>wol_adx := i1\<rparr>;
     Some (case wv of Some v \<Rightarrow> ((s,
         if adv_adx v > wol_long_threshold s \<and> adv_plus_di v > adv_minus_di v then long_at b (adv_adx v / (lit 100))
       else if adv_adx v < wol_short_threshold s then exit_at b else [])) | None \<Rightarrow> (s, []))
   }"

definition wolfstein_reset :: "wolfstein \<Rightarrow> wolfstein option" where
  "wolfstein_reset s = do {
     i1 \<leftarrow> adx_new (wol_period s);
     Some (s\<lparr>wol_adx := i1\<rparr>)
   }"

definition wolfstein_live :: "wolfstein \<Rightarrow> bool" where
  "wolfstein_live s \<longleftrightarrow> adx_live (wol_period s) (wol_adx s)"

interpretation wol: restoring y wolfstein_on_bar wolfstein_reset wolfstein_live for y
  by (rule restoringI; unfold wolfstein_live_def wolfstein_on_bar_def wolfstein_reset_def; (elim conjE exE)?; ((erule steps renews | assumption)+)?)
    (auto simp: Let_def bar_of_def split: option.split intro: alive)

lemma wol_built: "wolfstein_new period long_threshold short_threshold = Some s \<Longrightarrow> wolfstein_live s \<and> wolfstein_reset s = Some s"
  by (auto simp: wolfstein_new_def wolfstein_live_def wolfstein_reset_def bind_eq_Some_conv split: if_splits intro: alive)

end
