(* ===== verification/Chart_Patterns.thy ===== *)
theory Chart_Patterns
  imports Named_Base
begin

text \<open>
  The crate \<open>alm-pattern\<close>: swing points (\<open>pivot.rs\<close>), candlestick patterns (\<open>candlestick.rs\<close>), chart patterns
  (\<open>chart.rs\<close>) and their composition (\<open>detector.rs\<close>), with the strategy that trades them
  (\<open>alm-strategy/src/named/pattern/pattern_breakout.rs\<close>). A detector looks at a window of bars, the last of which is
  the current one; \<open>None\<close> is a panic: an empty window, a slice out of range, or a comparison of NaN.
\<close>

section \<open>Types\<close>

datatype (plugins only: code) pattern_kind =
    HeadAndShoulders | InverseHeadAndShoulders | DoubleTop | DoubleBottom | TripleTop | TripleBottom
  | AscendingTriangle | DescendingTriangle | SymmetricTriangle | BullFlag | BearFlag | BullPennant | BearPennant
  | CupAndHandle | Wedge bool
  | Gartley bool | Butterfly bool | Bat bool | Crab bool | Cypher bool | DeepCrab bool
  | Engulfing bool | MorningStar | EveningStar | ThreeWhiteSoldiers | ThreeBlackCrows
  | Doji | Hammer | InvertedHammer | ShootingStar | HangingMan | MarubozuBull | MarubozuBear

record pivot_point =
  pp_bar_index :: nat
  pp_timestamp :: int
  pp_price :: f64
  pp_is_high :: bool

record pattern_signal =
  pg_kind :: pattern_kind
  pg_confidence :: f64
  pg_entry_price :: f64
  pg_target_price :: "f64 option"
  pg_stop_price :: "f64 option"
  pg_pivots :: "pivot_point list"
  pg_confirmed_at :: int

section \<open>Swing points\<close>

text \<open>One turn of the loop, for the bar at index \<open>i\<close>.\<close>

definition swing_points :: "bar list \<Rightarrow> nat \<Rightarrow> nat \<Rightarrow> nat \<Rightarrow> pivot_point list" where
  "swing_points bars left right i =
     (let n = length bars; h = b_high (bars ! i); l = b_low (bars ! i);
          left_ok_high = list_all (\<lambda>j. b_high (bars ! j) \<le> h) [i - left..<i];
          left_ok_low = list_all (\<lambda>j. b_low (bars ! j) \<ge> l) [i - left..<i];
          right_ok_high = list_all (\<lambda>j. b_high (bars ! j) \<le> h) [i + 1..<min (i + right) (n - 1) + 1];
          right_ok_low = list_all (\<lambda>j. b_low (bars ! j) \<ge> l) [i + 1..<min (i + right) (n - 1) + 1]
      in (if left_ok_high \<and> right_ok_high
          then [\<lparr>pp_bar_index = i, pp_timestamp = b_timestamp (bars ! i), pp_price = h, pp_is_high = True\<rparr>] else []) @
         (if left_ok_low \<and> right_ok_low
          then [\<lparr>pp_bar_index = i, pp_timestamp = b_timestamp (bars ! i), pp_price = l, pp_is_high = False\<rparr>] else []))"

definition find_pivots :: "bar list \<Rightarrow> nat \<Rightarrow> nat \<Rightarrow> pivot_point list" where
  "find_pivots bars left right =
     (let n = length bars in
      if n < left + right + 1 then []
      else concat (map (swing_points bars left right) [left..<n - right]))"

definition pivot_highs :: "pivot_point list \<Rightarrow> pivot_point list" where
  "pivot_highs pivots = filter pp_is_high pivots"

definition pivot_lows :: "pivot_point list \<Rightarrow> pivot_point list" where
  "pivot_lows pivots = filter (\<lambda>p. \<not> pp_is_high p) pivots"

text \<open>\<open>min_by\<close> and \<open>max_by\<close> with \<open>partial_cmp(..).unwrap()\<close>: the first least and the last greatest element; comparing NaN
  panics.\<close>

definition pick_by :: "('a \<Rightarrow> f64) \<Rightarrow> (f64 \<Rightarrow> f64 \<Rightarrow> bool) \<Rightarrow> 'a list \<Rightarrow> 'a option option" where
  "pick_by key replaces xs =
     (case xs of
        [] \<Rightarrow> Some None
      | x # ys \<Rightarrow> map_option Some (foldl (\<lambda>acc y. case acc of
            None \<Rightarrow> None
          | Some a \<Rightarrow> if key a = NaN \<or> key y = NaN then None else Some (if replaces (key a) (key y) then y else a))
          (Some x) ys))"

definition min_by :: "('a \<Rightarrow> f64) \<Rightarrow> 'a list \<Rightarrow> 'a option option" where
  "min_by key = pick_by key (\<lambda>a y. y < a)"

definition max_by :: "('a \<Rightarrow> f64) \<Rightarrow> 'a list \<Rightarrow> 'a option option" where
  "max_by key = pick_by key (\<lambda>a y. \<not> y < a)"

section \<open>Candlesticks\<close>

definition body_ratio :: "bar \<Rightarrow> f64" where
  "body_ratio b = (let range = b_high b - b_low b in if range < f64_epsilon then 0 else \<bar>b_close b - b_open b\<bar> / range)"

definition upper_shadow_ratio :: "bar \<Rightarrow> f64" where
  "upper_shadow_ratio b =
     (let range = b_high b - b_low b in
      if range < f64_epsilon then 0 else (b_high b - fmax (b_open b) (b_close b)) / range)"

definition lower_shadow_ratio :: "bar \<Rightarrow> f64" where
  "lower_shadow_ratio b =
     (let range = b_high b - b_low b in
      if range < f64_epsilon then 0 else (fmin (b_open b) (b_close b) - b_low b) / range)"

definition candle_bullish :: "bar \<Rightarrow> bool" where "candle_bullish b \<longleftrightarrow> b_close b \<ge> b_open b"
definition candle_bearish :: "bar \<Rightarrow> bool" where "candle_bearish b \<longleftrightarrow> b_close b < b_open b"

definition avg_body_size :: "bar list \<Rightarrow> f64" where
  "avg_body_size bars =
     (if bars = [] then 0 else fsum (map (\<lambda>b. \<bar>b_close b - b_open b\<bar>) bars) / f64_of_nat (length bars))"

definition candle_signal :: "pattern_kind \<Rightarrow> bar \<Rightarrow> f64 \<Rightarrow> pattern_signal" where
  "candle_signal kind b confidence =
     \<lparr>pg_kind = kind, pg_confidence = confidence, pg_entry_price = b_close b, pg_target_price = None, pg_stop_price = None,
      pg_pivots = [], pg_confirmed_at = b_timestamp b\<rparr>"

definition doji_detect :: "f64 \<Rightarrow> bar list \<Rightarrow> pattern_signal list option" where
  "doji_detect body_threshold bars =
     (if bars = [] then None
      else let b = last bars in
        Some (if body_ratio b < body_threshold then [candle_signal Doji b (1 - body_ratio b)] else []))"

text \<open>The close four bars before the last, or the first close of a shorter window.\<close>

definition prior_close :: "bar list \<Rightarrow> f64" where
  "prior_close bars = (let n = length bars in if n \<ge> 5 then b_close (bars ! (n - 5)) else b_close (bars ! 0))"

definition hammer_detect :: "bar list \<Rightarrow> pattern_signal list option" where
  "hammer_detect bars =
     (if bars = [] then None
      else let b = last bars in
        Some (if upper_shadow_ratio b < lit (2 / 10) \<and> lower_shadow_ratio b > lit (6 / 10) \<and> body_ratio b < lit (35 / 100)
              then [candle_signal (if b_close b < prior_close bars then Hammer else HangingMan) b (fmin (lower_shadow_ratio b) 1)]
              else []))"

definition shooting_star_detect :: "bar list \<Rightarrow> pattern_signal list option" where
  "shooting_star_detect bars =
     (if bars = [] then None
      else let b = last bars in
        Some (if upper_shadow_ratio b > lit (6 / 10) \<and> lower_shadow_ratio b < lit (2 / 10) \<and> body_ratio b < lit (35 / 100)
              then [candle_signal (if b_close b > prior_close bars then ShootingStar else InvertedHammer) b
                     (fmin (upper_shadow_ratio b) 1)]
              else []))"

definition marubozu_detect :: "bar list \<Rightarrow> pattern_signal list option" where
  "marubozu_detect bars =
     (if bars = [] then None
      else let b = last bars in
        Some (if body_ratio b > lit (95 / 100)
              then [candle_signal (if candle_bullish b then MarubozuBull else MarubozuBear) b (body_ratio b)]
              else []))"

definition engulfing_detect :: "bar list \<Rightarrow> pattern_signal list option" where
  "engulfing_detect bars =
     (let n = length bars in
      if n < 2 then Some []
      else let prev = bars ! (n - 2); now = bars ! (n - 1);
               prev_body_top = fmax (b_open prev) (b_close prev); prev_body_bot = fmin (b_open prev) (b_close prev);
               now_body_top = fmax (b_open now) (b_close now); now_body_bot = fmin (b_open now) (b_close now)
           in Some (if now_body_top > prev_body_top \<and> now_body_bot < prev_body_bot then
                      if candle_bullish now \<and> candle_bearish prev then [candle_signal (Engulfing True) now (lit (85 / 100))]
                      else if candle_bearish now \<and> candle_bullish prev then [candle_signal (Engulfing False) now (lit (85 / 100))]
                      else []
                    else []))"

text \<open>The slice \<open>bars[n - 10..n - 3]\<close> needs ten bars, although three are promised to suffice.\<close>

definition morning_star_detect :: "bar list \<Rightarrow> pattern_signal list option" where
  "morning_star_detect bars =
     (let n = length bars in
      if n < 3 then Some []
      else if n < 10 then None
      else let b1 = bars ! (n - 3); mid = bars ! (n - 2); b3 = bars ! (n - 1);
               avg = avg_body_size (take 7 (drop (n - 10) bars));
               first_body = \<bar>b_close b1 - b_open b1\<bar>
           in Some (if candle_bearish b1 \<and> first_body > avg * lit (5 / 10) \<and> body_ratio mid < lit (4 / 10) \<and>
                       b_high mid < fmin (b_close b1) (b_open b3) + avg * lit (3 / 10) \<and> candle_bullish b3 \<and>
                       b_close b3 > (b_open b1 + b_close b1) / lit 2
                    then [candle_signal MorningStar b3 (lit (8 / 10))] else []))"

definition evening_star_detect :: "bar list \<Rightarrow> pattern_signal list option" where
  "evening_star_detect bars =
     (let n = length bars in
      if n < 3 then Some []
      else let b1 = bars ! (n - 3); mid = bars ! (n - 2); b3 = bars ! (n - 1);
               avg = avg_body_size (take 1 bars);
               first_body = \<bar>b_close b1 - b_open b1\<bar>
           in Some (if candle_bullish b1 \<and> first_body > avg * lit (5 / 10) \<and> body_ratio mid < lit (4 / 10) \<and>
                       candle_bearish b3 \<and> b_close b3 < (b_open b1 + b_close b1) / lit 2
                    then [candle_signal EveningStar b3 (lit (8 / 10))] else []))"

definition three_white_soldiers_detect :: "bar list \<Rightarrow> pattern_signal list option" where
  "three_white_soldiers_detect bars =
     (let n = length bars in
      if n < 3 then Some []
      else let a = bars ! (n - 3); b = bars ! (n - 2); c = bars ! (n - 1)
           in Some (if candle_bullish a \<and> candle_bullish b \<and> candle_bullish c \<and> b_close b > b_close a \<and> b_close c > b_close b \<and>
                       body_ratio a > lit (5 / 10) \<and> body_ratio b > lit (5 / 10) \<and> body_ratio c > lit (5 / 10) \<and>
                       b_open b > b_open a \<and> b_open b < b_close a \<and> b_open c > b_open b \<and> b_open c < b_close b
                    then [candle_signal ThreeWhiteSoldiers c (lit (85 / 100))] else []))"

definition three_black_crows_detect :: "bar list \<Rightarrow> pattern_signal list option" where
  "three_black_crows_detect bars =
     (let n = length bars in
      if n < 3 then Some []
      else let a = bars ! (n - 3); b = bars ! (n - 2); c = bars ! (n - 1)
           in Some (if candle_bearish a \<and> candle_bearish b \<and> candle_bearish c \<and> b_close b < b_close a \<and> b_close c < b_close b \<and>
                       body_ratio a > lit (5 / 10) \<and> body_ratio b > lit (5 / 10) \<and> body_ratio c > lit (5 / 10) \<and>
                       b_open b < b_open a \<and> b_open b > b_close a \<and> b_open c < b_open b \<and> b_open c > b_close b
                    then [candle_signal ThreeBlackCrows c (lit (85 / 100))] else []))"

section \<open>Chart patterns\<close>

definition within_tol :: "f64 \<Rightarrow> f64 \<Rightarrow> f64 \<Rightarrow> bool" where
  "within_tol a b tol = (let avg = (a + b) / lit 2 in if avg < f64_epsilon then True else \<bar>a - b\<bar> / avg \<le> tol)"

text \<open>\<open>make_signal\<close>; the callers have found pivots, so the window is not empty.\<close>

definition make_signal ::
  "pattern_kind \<Rightarrow> bar list \<Rightarrow> f64 \<Rightarrow> pivot_point list \<Rightarrow> f64 option \<Rightarrow> f64 option \<Rightarrow> pattern_signal" where
  "make_signal kind bars confidence pivots target stop =
     \<lparr>pg_kind = kind, pg_confidence = confidence, pg_entry_price = b_close (last bars), pg_target_price = target,
      pg_stop_price = stop, pg_pivots = pivots, pg_confirmed_at = b_timestamp (last bars)\<rparr>"

definition between :: "nat \<Rightarrow> nat \<Rightarrow> pivot_point list \<Rightarrow> pivot_point list" where
  "between i j ps = filter (\<lambda>p. pp_bar_index p > i \<and> pp_bar_index p < j) ps"

text \<open>A scan over consecutive pivots: the results of the turns that are not skipped, or a panic.\<close>

definition scan :: "(nat \<Rightarrow> 'a option option) \<Rightarrow> nat \<Rightarrow> 'a list option" where
  "scan turn n = map_option (\<lambda>rs. map the (filter (\<lambda>r. r \<noteq> None) rs)) (those (map turn [0..<n]))"

definition double_top_turn :: "f64 \<Rightarrow> bar list \<Rightarrow> pivot_point list \<Rightarrow> pivot_point list \<Rightarrow> nat \<Rightarrow> pattern_signal option option" where
  "double_top_turn tolerance bars hs ls i =
     (let left_top = hs ! i; right_top = hs ! (i + 1); pl = pp_price left_top; pr = pp_price right_top in
      if \<not> within_tol pl pr tolerance then Some None
      else (case min_by pp_price (between (pp_bar_index left_top) (pp_bar_index right_top) ls) of
          None \<Rightarrow> None
        | Some None \<Rightarrow> Some None
        | Some (Some neckline) \<Rightarrow>
            if b_close (last bars) \<ge> pp_price neckline then Some None
            else let pattern_height = (pl + pr) / lit 2 - pp_price neckline;
                     target = pp_price neckline - pattern_height;
                     stop = pr * lit (1005 / 1000);
                     level_match = 1 - \<bar>pl - pr\<bar> / ((pl + pr) / lit 2);
                     confidence = fmin (level_match * lit (7 / 10) + lit (3 / 10)) 1
                 in Some (Some (make_signal DoubleTop bars confidence [left_top, neckline, right_top] (Some target) (Some stop)))))"

definition double_top_detect :: "nat \<Rightarrow> f64 \<Rightarrow> bar list \<Rightarrow> pattern_signal list option" where
  "double_top_detect pivot_size tolerance bars =
     (let pivots = find_pivots bars pivot_size pivot_size; hs = pivot_highs pivots; ls = pivot_lows pivots in
      if length hs < 2 \<or> ls = [] then Some []
      else scan (double_top_turn tolerance bars hs ls) (length hs - 1))"

definition double_bottom_turn :: "f64 \<Rightarrow> bar list \<Rightarrow> pivot_point list \<Rightarrow> pivot_point list \<Rightarrow> nat \<Rightarrow> pattern_signal option option" where
  "double_bottom_turn tolerance bars hs ls i =
     (let left_bot = ls ! i; right_bot = ls ! (i + 1); pl = pp_price left_bot; pr = pp_price right_bot in
      if \<not> within_tol pl pr tolerance then Some None
      else (case max_by pp_price (between (pp_bar_index left_bot) (pp_bar_index right_bot) hs) of
          None \<Rightarrow> None
        | Some None \<Rightarrow> Some None
        | Some (Some neckline) \<Rightarrow>
            if b_close (last bars) \<le> pp_price neckline then Some None
            else let pattern_height = pp_price neckline - (pl + pr) / lit 2;
                     target = pp_price neckline + pattern_height;
                     stop = pr * lit (995 / 1000);
                     level_match = 1 - \<bar>pl - pr\<bar> / ((pl + pr) / lit 2);
                     confidence = fmin (level_match * lit (7 / 10) + lit (3 / 10)) 1
                 in Some (Some (make_signal DoubleBottom bars confidence [left_bot, neckline, right_bot] (Some target) (Some stop)))))"

definition double_bottom_detect :: "nat \<Rightarrow> f64 \<Rightarrow> bar list \<Rightarrow> pattern_signal list option" where
  "double_bottom_detect pivot_size tolerance bars =
     (let pivots = find_pivots bars pivot_size pivot_size; hs = pivot_highs pivots; ls = pivot_lows pivots in
      if length ls < 2 \<or> hs = [] then Some []
      else scan (double_bottom_turn tolerance bars hs ls) (length ls - 1))"

definition head_and_shoulders_turn ::
  "f64 \<Rightarrow> bar list \<Rightarrow> pivot_point list \<Rightarrow> pivot_point list \<Rightarrow> nat \<Rightarrow> pattern_signal option option" where
  "head_and_shoulders_turn tolerance bars hs ls i =
     (let left_sh = hs ! i; head = hs ! (i + 1); right_sh = hs ! (i + 2);
          pl = pp_price left_sh; ph = pp_price head; pr = pp_price right_sh in
      if ph \<le> pl \<or> ph \<le> pr then Some None
      else if \<not> within_tol pl pr tolerance then Some None
      else (case (min_by pp_price (between (pp_bar_index left_sh) (pp_bar_index head) ls),
                  min_by pp_price (between (pp_bar_index head) (pp_bar_index right_sh) ls)) of
          (Some (Some lt), Some (Some rt)) \<Rightarrow>
            let neckline = (pp_price lt + pp_price rt) / lit 2 in
            if b_close (last bars) \<ge> neckline then Some None
            else let pattern_height = ph - neckline;
                     target = neckline - pattern_height;
                     stop = pr * lit (1005 / 1000);
                     shoulder_symmetry = 1 - \<bar>pl - pr\<bar> / ph;
                     confidence = fmin (shoulder_symmetry * lit (7 / 10) + lit (3 / 10)) 1
                 in Some (Some (make_signal HeadAndShoulders bars confidence [left_sh, lt, head, rt, right_sh]
                      (Some target) (Some stop)))
        | (None, _) \<Rightarrow> None
        | (_, None) \<Rightarrow> None
        | _ \<Rightarrow> Some None))"

definition head_and_shoulders_detect :: "nat \<Rightarrow> f64 \<Rightarrow> bar list \<Rightarrow> pattern_signal list option" where
  "head_and_shoulders_detect pivot_size shoulder_tolerance bars =
     (let pivots = find_pivots bars pivot_size pivot_size; hs = pivot_highs pivots; ls = pivot_lows pivots in
      if length hs < 3 \<or> length ls < 2 then Some []
      else scan (head_and_shoulders_turn shoulder_tolerance bars hs ls) (length hs - 2))"

definition inverse_head_and_shoulders_turn ::
  "f64 \<Rightarrow> bar list \<Rightarrow> pivot_point list \<Rightarrow> pivot_point list \<Rightarrow> nat \<Rightarrow> pattern_signal option option" where
  "inverse_head_and_shoulders_turn tolerance bars hs ls i =
     (let left_sh = ls ! i; head = ls ! (i + 1); right_sh = ls ! (i + 2);
          pl = pp_price left_sh; ph = pp_price head; pr = pp_price right_sh in
      if ph \<ge> pl \<or> ph \<ge> pr then Some None
      else if \<not> within_tol pl pr tolerance then Some None
      else (case (max_by pp_price (between (pp_bar_index left_sh) (pp_bar_index head) hs),
                  max_by pp_price (between (pp_bar_index head) (pp_bar_index right_sh) hs)) of
          (Some (Some lp), Some (Some rp)) \<Rightarrow>
            let neckline = (pp_price lp + pp_price rp) / lit 2 in
            if b_close (last bars) \<le> neckline then Some None
            else let pattern_height = neckline - ph;
                     target = neckline + pattern_height;
                     stop = pr * lit (995 / 1000);
                     shoulder_symmetry = 1 - \<bar>pl - pr\<bar> / neckline;
                     confidence = fmin (shoulder_symmetry * lit (7 / 10) + lit (3 / 10)) 1
                 in Some (Some (make_signal InverseHeadAndShoulders bars confidence [left_sh, lp, head, rp, right_sh]
                      (Some target) (Some stop)))
        | (None, _) \<Rightarrow> None
        | (_, None) \<Rightarrow> None
        | _ \<Rightarrow> Some None))"

definition inverse_head_and_shoulders_detect :: "nat \<Rightarrow> f64 \<Rightarrow> bar list \<Rightarrow> pattern_signal list option" where
  "inverse_head_and_shoulders_detect pivot_size shoulder_tolerance bars =
     (let pivots = find_pivots bars pivot_size pivot_size; hs = pivot_highs pivots; ls = pivot_lows pivots in
      if length ls < 3 \<or> length hs < 2 then Some []
      else scan (inverse_head_and_shoulders_turn shoulder_tolerance bars hs ls) (length ls - 2))"

definition trendline_at :: "f64 \<times> f64 \<Rightarrow> f64 \<times> f64 \<Rightarrow> f64 \<Rightarrow> f64" where
  "trendline_at p1 p2 x =
     (if \<bar>fst p2 - fst p1\<bar> < f64_epsilon then snd p1
      else let slope = (snd p2 - snd p1) / (fst p2 - fst p1) in snd p1 + slope * (x - fst p1))"

definition pivot_at :: "pivot_point \<Rightarrow> f64 \<times> f64" where
  "pivot_at p = (f64_of_nat (pp_bar_index p), pp_price p)"

definition ascending_triangle_detect :: "nat \<Rightarrow> f64 \<Rightarrow> bar list \<Rightarrow> pattern_signal list option" where
  "ascending_triangle_detect pivot_size tolerance bars =
     (let pivots = find_pivots bars pivot_size pivot_size; hs = pivot_highs pivots; ls = pivot_lows pivots in
      Some (if length hs < 2 \<or> length ls < 2 then []
      else let h1 = hs ! (length hs - 2); h2 = hs ! (length hs - 1); l1 = ls ! (length ls - 2); l2 = ls ! (length ls - 1) in
        if \<not> within_tol (pp_price h1) (pp_price h2) tolerance then []
        else if pp_price l2 \<le> pp_price l1 then []
        else let resistance = (pp_price h1 + pp_price h2) / lit 2 in
          if b_close (last bars) \<le> resistance then []
          else let pattern_height = resistance - pp_price l1;
                   target = resistance + pattern_height;
                   stop = pp_price l2 * lit (995 / 1000);
                   flatness = 1 - \<bar>pp_price h1 - pp_price h2\<bar> / resistance;
                   confidence = fmin (flatness * lit (8 / 10) + lit (2 / 10)) 1
               in [make_signal AscendingTriangle bars confidence [h1, l1, h2, l2] (Some target) (Some stop)]))"

definition descending_triangle_detect :: "nat \<Rightarrow> f64 \<Rightarrow> bar list \<Rightarrow> pattern_signal list option" where
  "descending_triangle_detect pivot_size tolerance bars =
     (let pivots = find_pivots bars pivot_size pivot_size; hs = pivot_highs pivots; ls = pivot_lows pivots in
      Some (if length hs < 2 \<or> length ls < 2 then []
      else let h1 = hs ! (length hs - 2); h2 = hs ! (length hs - 1); l1 = ls ! (length ls - 2); l2 = ls ! (length ls - 1) in
        if pp_price h2 \<ge> pp_price h1 then []
        else if \<not> within_tol (pp_price l1) (pp_price l2) tolerance then []
        else let support = (pp_price l1 + pp_price l2) / lit 2 in
          if b_close (last bars) \<ge> support then []
          else let pattern_height = pp_price h1 - support;
                   target = support - pattern_height;
                   stop = pp_price h2 * lit (1005 / 1000);
                   flatness = 1 - \<bar>pp_price l1 - pp_price l2\<bar> / support;
                   confidence = fmin (flatness * lit (8 / 10) + lit (2 / 10)) 1
               in [make_signal DescendingTriangle bars confidence [h1, l1, h2, l2] (Some target) (Some stop)]))"

definition symmetric_triangle_detect :: "nat \<Rightarrow> bar list \<Rightarrow> pattern_signal list option" where
  "symmetric_triangle_detect pivot_size bars =
     (let pivots = find_pivots bars pivot_size pivot_size; hs = pivot_highs pivots; ls = pivot_lows pivots in
      Some (if length hs < 2 \<or> length ls < 2 then []
      else let h1 = hs ! (length hs - 2); h2 = hs ! (length hs - 1); l1 = ls ! (length ls - 2); l2 = ls ! (length ls - 1) in
        if pp_price h2 \<ge> pp_price h1 \<or> pp_price l2 \<le> pp_price l1 then []
        else let last_idx = f64_of_nat (length bars - 1);
                 upper = trendline_at (pivot_at h1) (pivot_at h2) last_idx;
                 lower = trendline_at (pivot_at l1) (pivot_at l2) last_idx in
          if upper \<le> lower then []
          else if b_close (last bars) \<le> upper then []
          else let pattern_height = pp_price h1 - pp_price l1;
                   target = upper + pattern_height;
                   stop = lower * lit (995 / 1000);
                   convergence = 1 - (upper - lower) / fmax pattern_height f64_epsilon;
                   confidence = fmax (fmin (convergence * lit (6 / 10) + lit (4 / 10)) 1) 0
               in [make_signal SymmetricTriangle bars confidence [h1, l1, h2, l2] (Some target) (Some stop)]))"

record flag_detector =
  fd_lookback :: nat
  fd_pole_pct :: f64
  fd_pole_min_move :: f64
  fd_max_retrace :: f64
  fd_bullish :: bool

definition flag_bull :: "nat \<Rightarrow> flag_detector" where
  "flag_bull lookback = \<lparr>fd_lookback = lookback, fd_pole_pct = lit (4 / 10), fd_pole_min_move = lit (4 / 100),
     fd_max_retrace = lit (5 / 10), fd_bullish = True\<rparr>"

definition flag_bear :: "nat \<Rightarrow> flag_detector" where
  "flag_bear lookback = (flag_bull lookback)\<lparr>fd_bullish := False\<rparr>"

definition flag_detect :: "flag_detector \<Rightarrow> bar list \<Rightarrow> pattern_signal list option" where
  "flag_detect d bars =
     (if length bars < fd_lookback d then Some []
      else let window = drop (length bars - fd_lookback d) bars; n = length window;
               pole_end = max (usize_of_f64 (f64_of_nat n * fd_pole_pct d)) 2 in
        if pole_end \<ge> n then Some []
        else let pole_bars = take pole_end window; flag_bars = drop pole_end window;
                 pivots = find_pivots bars 3 3; pivot_points = pivot_highs pivots @ pivot_lows pivots;
                 pole_base = fold_min (map b_low pole_bars); pole_top = fold_max (map b_high pole_bars);
                 close = b_close (last bars) in
          Some (if fd_bullish d then
            (let pole_move = (pole_top - pole_base) / pole_base in
             if pole_move < fd_pole_min_move d then []
             else let flag_low = fold_min (map b_low flag_bars);
                      retrace = (pole_top - flag_low) / fmax (pole_top - pole_base) f64_epsilon in
               if retrace > fd_max_retrace d then []
               else if close \<le> pole_top then []
               else let pole_height = pole_top - pole_base;
                        target = pole_top + pole_height;
                        stop = flag_low * lit (995 / 1000);
                        confidence = fmin ((1 - retrace / fd_max_retrace d) * lit (6 / 10) + lit (4 / 10)) 1
                    in [make_signal BullFlag bars confidence pivot_points (Some target) (Some stop)])
           else
            (let pole_move = (pole_top - pole_base) / pole_top in
             if pole_move < fd_pole_min_move d then []
             else let flag_high = fold_max (map b_high flag_bars);
                      retrace = (flag_high - pole_base) / fmax (pole_top - pole_base) f64_epsilon in
               if retrace > fd_max_retrace d then []
               else if close \<ge> pole_base then []
               else let pole_height = pole_top - pole_base;
                        target = pole_base - pole_height;
                        stop = flag_high * lit (1005 / 1000);
                        confidence = fmin ((1 - retrace / fd_max_retrace d) * lit (6 / 10) + lit (4 / 10)) 1
                    in [make_signal BearFlag bars confidence pivot_points (Some target) (Some stop)])))"

definition wedge_detect :: "nat \<Rightarrow> bool \<Rightarrow> bar list \<Rightarrow> pattern_signal list option" where
  "wedge_detect pivot_size rising bars =
     (let pivots = find_pivots bars pivot_size pivot_size; hs = pivot_highs pivots; ls = pivot_lows pivots in
      Some (if length hs < 2 \<or> length ls < 2 then []
      else let h1 = hs ! (length hs - 2); h2 = hs ! (length hs - 1); l1 = ls ! (length ls - 2); l2 = ls ! (length ls - 1);
               bars_h = fmax (f64_of_nat (pp_bar_index h2) - f64_of_nat (pp_bar_index h1)) 1;
               bars_l = fmax (f64_of_nat (pp_bar_index l2) - f64_of_nat (pp_bar_index l1)) 1;
               slope_h = (pp_price h2 - pp_price h1) / bars_h;
               slope_l = (pp_price l2 - pp_price l1) / bars_l;
               last_idx = f64_of_nat (length bars - 1);
               close = b_close (last bars);
               lower = trendline_at (pivot_at l1) (pivot_at l2) last_idx;
               upper = trendline_at (pivot_at h1) (pivot_at h2) last_idx;
               pattern_height = fmax (upper - lower) 0;
               convergence = (slope_l - slope_h) * lit 5;
               confidence = fmax (fmin (lit (4 / 10) + convergence) 1) (lit (3 / 10)) in
        if rising then
          if slope_h \<le> 0 \<or> slope_l \<le> 0 then []
          else if slope_l \<le> slope_h then []
          else if close \<ge> lower then []
          else [make_signal (Wedge True) bars confidence [h1, l1, h2, l2] (Some (lower - pattern_height)) (Some (upper * lit (1005 / 1000)))]
        else
          if slope_h \<ge> 0 \<or> slope_l \<ge> 0 then []
          else if slope_h \<ge> slope_l then []
          else if close \<le> upper then []
          else [make_signal (Wedge False) bars confidence [h1, l1, h2, l2] (Some (upper + pattern_height)) (Some (lower * lit (995 / 1000)))]))"

section \<open>Composition\<close>

text \<open>The implementations of the trait \<open>PatternDetector\<close>.\<close>

datatype (plugins only: code) pattern_detector =
    NoopDetector | DojiDetector f64 | HammerDetector | ShootingStarDetector | MarubozuDetector | EngulfingDetector
  | MorningStarDetector | EveningStarDetector | ThreeWhiteSoldiersDetector | ThreeBlackCrowsDetector
  | DoubleTopDetector nat f64 | DoubleBottomDetector nat f64 | HeadAndShouldersDetector nat f64
  | InverseHeadAndShouldersDetector nat f64 | AscendingTriangleDetector nat f64 | DescendingTriangleDetector nat f64
  | SymmetricTriangleDetector nat | FlagDetector flag_detector | WedgeDetector nat bool

fun detect_pattern :: "pattern_detector \<Rightarrow> bar list \<Rightarrow> pattern_signal list option" where
  "detect_pattern NoopDetector bars = Some []"
| "detect_pattern (DojiDetector t) bars = doji_detect t bars"
| "detect_pattern HammerDetector bars = hammer_detect bars"
| "detect_pattern ShootingStarDetector bars = shooting_star_detect bars"
| "detect_pattern MarubozuDetector bars = marubozu_detect bars"
| "detect_pattern EngulfingDetector bars = engulfing_detect bars"
| "detect_pattern MorningStarDetector bars = morning_star_detect bars"
| "detect_pattern EveningStarDetector bars = evening_star_detect bars"
| "detect_pattern ThreeWhiteSoldiersDetector bars = three_white_soldiers_detect bars"
| "detect_pattern ThreeBlackCrowsDetector bars = three_black_crows_detect bars"
| "detect_pattern (DoubleTopDetector p t) bars = double_top_detect p t bars"
| "detect_pattern (DoubleBottomDetector p t) bars = double_bottom_detect p t bars"
| "detect_pattern (HeadAndShouldersDetector p t) bars = head_and_shoulders_detect p t bars"
| "detect_pattern (InverseHeadAndShouldersDetector p t) bars = inverse_head_and_shoulders_detect p t bars"
| "detect_pattern (AscendingTriangleDetector p t) bars = ascending_triangle_detect p t bars"
| "detect_pattern (DescendingTriangleDetector p t) bars = descending_triangle_detect p t bars"
| "detect_pattern (SymmetricTriangleDetector p) bars = symmetric_triangle_detect p bars"
| "detect_pattern (FlagDetector d) bars = flag_detect d bars"
| "detect_pattern (WedgeDetector p r) bars = wedge_detect p r bars"

fun min_lookback :: "pattern_detector \<Rightarrow> nat" where
  "min_lookback EngulfingDetector = 2"
| "min_lookback MorningStarDetector = 3"
| "min_lookback EveningStarDetector = 3"
| "min_lookback ThreeWhiteSoldiersDetector = 3"
| "min_lookback ThreeBlackCrowsDetector = 3"
| "min_lookback (DoubleTopDetector p t) = p * 4 + 5"
| "min_lookback (DoubleBottomDetector p t) = p * 4 + 5"
| "min_lookback (HeadAndShouldersDetector p t) = p * 6 + 5"
| "min_lookback (InverseHeadAndShouldersDetector p t) = p * 6 + 5"
| "min_lookback (AscendingTriangleDetector p t) = p * 4 + 5"
| "min_lookback (DescendingTriangleDetector p t) = p * 4 + 5"
| "min_lookback (SymmetricTriangleDetector p) = p * 4 + 5"
| "min_lookback (FlagDetector d) = fd_lookback d"
| "min_lookback (WedgeDetector p r) = p * 4 + 5"
| "min_lookback _ = 1"

definition composite_detect :: "pattern_detector list \<Rightarrow> bar list \<Rightarrow> pattern_signal list option" where
  "composite_detect ds bars =
     map_option concat (those (map (\<lambda>d. detect_pattern d bars) (filter (\<lambda>d. length bars \<ge> min_lookback d) ds)))"

definition composite_max_lookback :: "pattern_detector list \<Rightarrow> nat" where
  "composite_max_lookback ds = (if ds = [] then 0 else Max (set (map min_lookback ds)))"

section \<open>Trading patterns\<close>

definition pattern_is_bullish :: "pattern_kind \<Rightarrow> bool" where
  "pattern_is_bullish kind \<longleftrightarrow>
     kind \<in> {DoubleBottom, InverseHeadAndShoulders, AscendingTriangle, BullFlag, BullPennant, Wedge False}"

definition pattern_is_bearish :: "pattern_kind \<Rightarrow> bool" where
  "pattern_is_bearish kind \<longleftrightarrow>
     kind \<in> {DoubleTop, HeadAndShoulders, DescendingTriangle, BearFlag, BearPennant, Wedge True}"

record pattern_breakout =
  pbk_detector :: "pattern_detector list"
  pbk_window_size :: nat
  pbk_min_confidence :: f64

definition pattern_breakout_default :: "nat \<Rightarrow> pattern_breakout" where
  "pattern_breakout_default window_size =
     \<lparr>pbk_detector = [DoubleBottomDetector 3 (lit (3 / 100)), DoubleTopDetector 3 (lit (3 / 100)),
        InverseHeadAndShouldersDetector 3 (lit (5 / 100)), HeadAndShouldersDetector 3 (lit (5 / 100)),
        AscendingTriangleDetector 3 (lit (2 / 100)), DescendingTriangleDetector 3 (lit (2 / 100)),
        SymmetricTriangleDetector 3, FlagDetector (flag_bull window_size), WedgeDetector 3 False],
      pbk_window_size = window_size, pbk_min_confidence = lit (6 / 10)\<rparr>"

definition pattern_breakout_on_bar :: "pattern_breakout \<Rightarrow> bar \<Rightarrow> (pattern_breakout \<times> signal list) option" where
  "pattern_breakout_on_bar s b = Some (s, [])"

definition pattern_breakout_on_window :: "pattern_breakout \<Rightarrow> bar list \<Rightarrow> (pattern_breakout \<times> signal list) option" where
  "pattern_breakout_on_window s bars =
     (if length bars < 20 then Some (s, [])
      else do {
        sigs \<leftarrow> composite_detect (pbk_detector s) bars;
        best \<leftarrow> max_by pg_confidence (filter (\<lambda>g. pg_confidence g \<ge> pbk_min_confidence s) sigs);
        Some (s, case best of
            None \<Rightarrow> []
          | Some sig \<Rightarrow>
              if pattern_is_bullish (pg_kind sig) then long_at (last bars) (pg_confidence sig)
              else if pattern_is_bearish (pg_kind sig) then exit_at (last bars)
              else [])
      })"

definition pattern_breakout_reset :: "pattern_breakout \<Rightarrow> pattern_breakout option" where
  "pattern_breakout_reset s = Some s"

section \<open>Swing points are extrema\<close>

lemma list_all_around:
  assumes "i + right < n"
  shows "list_all P [i - left..<i] \<and> list_all P [i + 1..<min (i + right) (n - 1) + 1] \<longleftrightarrow>
    (\<forall>j. i - left \<le> j \<and> j \<le> i + right \<and> j \<noteq> i \<longrightarrow> P j)"
proof -
  have m: "min (i + right) (n - 1) = i + right" using assms by simp
  have "{i - left..<i} \<union> {i + 1..<i + right + 1} = {j. i - left \<le> j \<and> j \<le> i + right \<and> j \<noteq> i}" by auto
  then show ?thesis unfolding list_all_iff set_upt m by blast
qed

text \<open>The bar at index \<open>i\<close> tops, or bottoms out, the bars around it.\<close>

definition swing :: "bar list \<Rightarrow> nat \<Rightarrow> nat \<Rightarrow> pivot_point \<Rightarrow> bool" where
  "swing bars left right p \<longleftrightarrow>
     (let i = pp_bar_index p; around = (\<lambda>j. i - left \<le> j \<and> j \<le> i + right \<and> j \<noteq> i) in
      left \<le> i \<and> i + right < length bars \<and> pp_timestamp p = b_timestamp (bars ! i) \<and>
      (if pp_is_high p then pp_price p = b_high (bars ! i) \<and> (\<forall>j. around j \<longrightarrow> b_high (bars ! j) \<le> pp_price p)
       else pp_price p = b_low (bars ! i) \<and> (\<forall>j. around j \<longrightarrow> pp_price p \<le> b_low (bars ! j))))"

lemma swing_points_iff:
  assumes "left \<le> i" and "i + right < length bars"
  shows "p \<in> set (swing_points bars left right i) \<longleftrightarrow> pp_bar_index p = i \<and> swing bars left right p"
  using assms unfolding swing_points_def swing_def Let_def list_all_around [OF assms(2)]
  by (cases p) auto

lemma find_pivots_iff: "p \<in> set (find_pivots bars left right) \<longleftrightarrow> swing bars left right p"
proof (cases "length bars < left + right + 1")
  case True
  then show ?thesis by (auto simp: find_pivots_def swing_def Let_def)
next
  case False
  then have "p \<in> set (find_pivots bars left right) \<longleftrightarrow>
      (\<exists>i \<in> {left..<length bars - right}. p \<in> set (swing_points bars left right i))"
    by (simp add: find_pivots_def)
  also have "\<dots> \<longleftrightarrow> (\<exists>i \<in> {left..<length bars - right}. pp_bar_index p = i \<and> swing bars left right p)"
    by (rule bex_cong) (auto simp: swing_points_iff)
  finally show ?thesis using False by (auto simp: swing_def Let_def)
qed

lemma pivot_not_nan:
  assumes "p \<in> set (find_pivots bars left right)" and "0 < left"
  shows "pp_price p \<noteq> NaN"
proof -
  define i where "i = pp_bar_index p"
  have p: "swing bars left right p" using assms(1) by (simp add: find_pivots_iff)
  then have "left \<le> i" by (simp add: swing_def Let_def i_def)
  then have j: "i - left \<le> i - 1 \<and> i - 1 \<le> i + right \<and> i - 1 \<noteq> i" using assms(2) by linarith
  have "b_high (bars ! (i - 1)) \<le> pp_price p \<or> pp_price p \<le> b_low (bars ! (i - 1))"
  proof (cases "pp_is_high p")
    case True
    then have "b_high (bars ! j) \<le> pp_price p" if "i - left \<le> j \<and> j \<le> i + right \<and> j \<noteq> i" for j
      using p that by (auto simp: swing_def Let_def i_def)
    then show ?thesis using j by blast
  next
    case False
    then have "pp_price p \<le> b_low (bars ! j)" if "i - left \<le> j \<and> j \<le> i + right \<and> j \<noteq> i" for j
      using p that by (auto simp: swing_def Let_def i_def)
    then show ?thesis using j by blast
  qed
  then show ?thesis by auto
qed

section \<open>Picking an extremum\<close>

lemma pick_fold:
  assumes "key x \<noteq> NaN" and "\<forall>y \<in> set ys. key y \<noteq> NaN"
    and rep: "\<And>a y. a \<noteq> NaN \<Longrightarrow> y \<noteq> NaN \<Longrightarrow> (if replaces a y then R y a else R a y)"
    and refl: "\<And>a. a \<noteq> NaN \<Longrightarrow> R a a" and trans: "\<And>a b c. R a b \<Longrightarrow> R b c \<Longrightarrow> R a c"
  shows "\<exists>z. foldl (\<lambda>acc y. case acc of
            None \<Rightarrow> None
          | Some a \<Rightarrow> if key a = NaN \<or> key y = NaN then None else Some (if replaces (key a) (key y) then y else a))
          (Some x) ys = Some z \<and> z \<in> set (x # ys) \<and> (\<forall>y \<in> set (x # ys). R (key z) (key y))"
  using assms(1,2)
proof (induction ys arbitrary: x)
  case Nil
  then show ?case using refl by simp
next
  case (Cons y ys)
  define w where "w = (if replaces (key x) (key y) then y else x)"
  have w: "key w \<noteq> NaN" "w \<in> {x, y}" "R (key w) (key x)" "R (key w) (key y)"
    using Cons.prems rep [of "key x" "key y"] refl by (auto simp: w_def)
  obtain z where z: "foldl (\<lambda>acc y. case acc of
            None \<Rightarrow> None
          | Some a \<Rightarrow> if key a = NaN \<or> key y = NaN then None else Some (if replaces (key a) (key y) then y else a))
          (Some w) ys = Some z" "z \<in> set (w # ys)" "\<forall>y \<in> set (w # ys). R (key z) (key y)"
    using Cons.IH [OF w(1)] Cons.prems(2) by auto
  have "R (key z) (key x)" "R (key z) (key y)" using z(3) w(3,4) trans by auto
  moreover have "key x \<noteq> NaN" "key y \<noteq> NaN" using Cons.prems by simp_all
  ultimately show ?case using z w(2) by (auto simp: w_def)
qed

lemma max_by_ok:
  assumes "\<forall>y \<in> set xs. key y \<noteq> NaN"
  shows "\<exists>r. max_by key xs = Some r \<and> (\<forall>z. r = Some z \<longrightarrow> z \<in> set xs \<and> (\<forall>y \<in> set xs. key y \<le> key z))"
proof (cases xs)
  case Nil
  then show ?thesis by (simp add: max_by_def pick_by_def)
next
  case (Cons x ys)
  have k: "key x \<noteq> NaN" "\<forall>y \<in> set ys. key y \<noteq> NaN" using assms Cons by simp_all
  have r: "a \<noteq> NaN \<Longrightarrow> y \<noteq> NaN \<Longrightarrow> (if \<not> y < a then a \<le> y else y \<le> a)" for a y :: f64
    using fnot_less [of y a] fless_imp_le [of y a] by auto
  obtain z where z: "foldl (\<lambda>acc y. case acc of
            None \<Rightarrow> None
          | Some a \<Rightarrow> if key a = NaN \<or> key y = NaN then None else Some (if \<not> key y < key a then y else a))
          (Some x) ys = Some z" "z \<in> set (x # ys)" "\<forall>y \<in> set (x # ys). key y \<le> key z"
    using pick_fold [where key = key and x = x and ys = ys and replaces = "\<lambda>a y. \<not> y < a" and R = "\<lambda>a b. b \<le> a", OF k r]
      fle_trans by (simp only: fle_refl) blast
  show ?thesis using z unfolding Cons by (simp add: max_by_def pick_by_def)
qed

lemma min_by_ok:
  assumes "\<forall>y \<in> set xs. key y \<noteq> NaN"
  shows "\<exists>r. min_by key xs = Some r \<and> (\<forall>z. r = Some z \<longrightarrow> z \<in> set xs \<and> (\<forall>y \<in> set xs. key z \<le> key y))"
proof (cases xs)
  case Nil
  then show ?thesis by (simp add: min_by_def pick_by_def)
next
  case (Cons x ys)
  have k: "key x \<noteq> NaN" "\<forall>y \<in> set ys. key y \<noteq> NaN" using assms Cons by simp_all
  have r: "a \<noteq> NaN \<Longrightarrow> y \<noteq> NaN \<Longrightarrow> (if y < a then y \<le> a else a \<le> y)" for a y :: f64
    using fnot_less [of y a] fless_imp_le [of y a] by auto
  obtain z where z: "foldl (\<lambda>acc y. case acc of
            None \<Rightarrow> None
          | Some a \<Rightarrow> if key a = NaN \<or> key y = NaN then None else Some (if key y < key a then y else a))
          (Some x) ys = Some z" "z \<in> set (x # ys)" "\<forall>y \<in> set (x # ys). key z \<le> key y"
    using pick_fold [where key = key and x = x and ys = ys and replaces = "\<lambda>a y. y < a" and R = "\<lambda>a b. a \<le> b", OF k r]
      fle_trans by (simp only: fle_refl) blast
  show ?thesis using z unfolding Cons by (simp add: min_by_def pick_by_def)
qed

section \<open>What detectors report\<close>

definition sound_pattern :: "bar list \<Rightarrow> pattern_signal \<Rightarrow> bool" where
  "sound_pattern bars g \<longleftrightarrow>
     pg_confidence g \<le> 1 \<and> (\<forall>p \<in> set (pg_pivots g). swing bars 3 3 p) \<and>
     pg_entry_price g = b_close (last bars) \<and> pg_confirmed_at g = b_timestamp (last bars)"

definition sound_detection :: "bar list \<Rightarrow> pattern_signal list option \<Rightarrow> bool" where
  "sound_detection bars m \<longleftrightarrow> (\<exists>gs. m = Some gs \<and> (\<forall>g \<in> set gs. sound_pattern bars g))"

lemma sound_detection_simps [simp]:
  "sound_detection bars (Some gs) \<longleftrightarrow> (\<forall>g \<in> set gs. sound_pattern bars g)" "\<not> sound_detection bars None"
  by (simp_all add: sound_detection_def)

lemma fmin_1_le [simp]: "fmin x 1 \<le> 1"
  by (cases x) (auto simp: fmin_def one_f64_def)

lemma fmax_fmin_le [simp]: "fmax (fmin x 1) 0 \<le> 1" "fmax (fmin x 1) (lit (3 / 10)) \<le> 1"
proof -
  have "lit (3 / 10) \<le> 1" by code_simp
  moreover have "(0 :: f64) \<le> 1" by code_simp
  ultimately show "fmax (fmin x 1) 0 \<le> 1" "fmax (fmin x 1) (lit (3 / 10)) \<le> 1"
    using fmin_1_le [of x] by (auto simp: fmax_def split: if_splits)
qed

lemma sound_make_signal [simp]:
  "sound_pattern bars (make_signal k bars c ps t st) \<longleftrightarrow> c \<le> 1 \<and> (\<forall>p \<in> set ps. swing bars 3 3 p)"
  by (simp add: sound_pattern_def make_signal_def)

definition sound_turn :: "bar list \<Rightarrow> pattern_signal option option \<Rightarrow> bool" where
  "sound_turn bars r \<longleftrightarrow> (\<exists>g. r = Some g \<and> (\<forall>x. g = Some x \<longrightarrow> sound_pattern bars x))"

lemma sound_turn_simps [simp]:
  "sound_turn bars (Some None)" "sound_turn bars (Some (Some g)) \<longleftrightarrow> sound_pattern bars g" "\<not> sound_turn bars None"
  by (auto simp: sound_turn_def)

lemma those_all: "(\<forall>x \<in> set xs. \<exists>y. x = Some y \<and> P y) \<Longrightarrow> \<exists>ys. those xs = Some ys \<and> (\<forall>y \<in> set ys. P y)"
  by (induction xs) auto

lemma sound_scan: "(\<And>i. i < n \<Longrightarrow> sound_turn bars (turn i)) \<Longrightarrow> sound_detection bars (scan turn n)"
proof -
  assume "\<And>i. i < n \<Longrightarrow> sound_turn bars (turn i)"
  then have "\<forall>r \<in> set (map turn [0..<n]). \<exists>y. r = Some y \<and> (\<forall>x. y = Some x \<longrightarrow> sound_pattern bars x)"
    by (auto simp: sound_turn_def)
  from those_all [OF this] show ?thesis by (auto simp: scan_def)
qed

text \<open>The swing points of a window, split into highs and lows.\<close>

lemma pivots_swing:
  "\<forall>p \<in> set (pivot_highs (find_pivots bars 3 3)). swing bars 3 3 p \<and> pp_price p \<noteq> NaN"
  "\<forall>p \<in> set (pivot_lows (find_pivots bars 3 3)). swing bars 3 3 p \<and> pp_price p \<noteq> NaN"
  using pivot_not_nan [of _ bars 3 3] by (auto simp: pivot_highs_def pivot_lows_def find_pivots_iff)

lemma nth_swing: "\<forall>p \<in> set hs. swing bars 3 3 p \<and> pp_price p \<noteq> NaN \<Longrightarrow> i < length hs \<Longrightarrow> swing bars 3 3 (hs ! i)"
  by simp

lemma between_picks:
  assumes "\<forall>p \<in> set ls. swing bars 3 3 p \<and> pp_price p \<noteq> NaN"
  shows "\<exists>r. min_by pp_price (between i j ls) = Some r \<and> (\<forall>z. r = Some z \<longrightarrow> swing bars 3 3 z)"
    and "\<exists>r. max_by pp_price (between i j ls) = Some r \<and> (\<forall>z. r = Some z \<longrightarrow> swing bars 3 3 z)"
  using min_by_ok [of "between i j ls" pp_price] max_by_ok [of "between i j ls" pp_price] assms
  by (fastforce simp: between_def)+

lemma double_turns_sound:
  assumes h: "\<forall>p \<in> set hs. swing bars 3 3 p \<and> pp_price p \<noteq> NaN" and l: "\<forall>p \<in> set ls. swing bars 3 3 p \<and> pp_price p \<noteq> NaN"
  shows "i + 1 < length hs \<Longrightarrow> sound_turn bars (double_top_turn t bars hs ls i)"
    and "i + 1 < length ls \<Longrightarrow> sound_turn bars (double_bottom_turn t bars hs ls i)"
proof -
  assume i: "i + 1 < length hs"
  obtain r where r: "min_by pp_price (between (pp_bar_index (hs ! i)) (pp_bar_index (hs ! (i + 1))) ls) = Some r"
    "\<And>z. r = Some z \<Longrightarrow> swing bars 3 3 z" using between_picks(1) [OF l] by blast
  show "sound_turn bars (double_top_turn t bars hs ls i)"
    using r(2) nth_swing [OF h, of i] nth_swing [OF h i] i
    by (cases r) (simp_all add: double_top_turn_def Let_def r(1) [simplified])
next
  assume i: "i + 1 < length ls"
  obtain r where r: "max_by pp_price (between (pp_bar_index (ls ! i)) (pp_bar_index (ls ! (i + 1))) hs) = Some r"
    "\<And>z. r = Some z \<Longrightarrow> swing bars 3 3 z" using between_picks(2) [OF h] by blast
  show "sound_turn bars (double_bottom_turn t bars hs ls i)"
    using r(2) nth_swing [OF l, of i] nth_swing [OF l i] i
    by (cases r) (simp_all add: double_bottom_turn_def Let_def r(1) [simplified])
qed

lemma shoulder_turns_sound:
  assumes h: "\<forall>p \<in> set hs. swing bars 3 3 p \<and> pp_price p \<noteq> NaN" and l: "\<forall>p \<in> set ls. swing bars 3 3 p \<and> pp_price p \<noteq> NaN"
  shows "i + 2 < length hs \<Longrightarrow> sound_turn bars (head_and_shoulders_turn t bars hs ls i)"
    and "i + 2 < length ls \<Longrightarrow> sound_turn bars (inverse_head_and_shoulders_turn t bars hs ls i)"
proof -
  assume i: "i + 2 < length hs"
  obtain r where r: "min_by pp_price (between (pp_bar_index (hs ! i)) (pp_bar_index (hs ! (i + 1))) ls) = Some r"
    "\<And>z. r = Some z \<Longrightarrow> swing bars 3 3 z" using between_picks(1) [OF l] by blast
  obtain q where q: "min_by pp_price (between (pp_bar_index (hs ! (i + 1))) (pp_bar_index (hs ! (i + 2))) ls) = Some q"
    "\<And>z. q = Some z \<Longrightarrow> swing bars 3 3 z" using between_picks(1) [OF l] by blast
  show "sound_turn bars (head_and_shoulders_turn t bars hs ls i)"
    using r(2) q(2) nth_swing [OF h, of i] nth_swing [OF h, of "i + 1"] nth_swing [OF h i] i
    by (cases r; cases q) (simp_all add: head_and_shoulders_turn_def Let_def r(1) [simplified] q(1) [simplified])
next
  assume i: "i + 2 < length ls"
  obtain r where r: "max_by pp_price (between (pp_bar_index (ls ! i)) (pp_bar_index (ls ! (i + 1))) hs) = Some r"
    "\<And>z. r = Some z \<Longrightarrow> swing bars 3 3 z" using between_picks(2) [OF h] by blast
  obtain q where q: "max_by pp_price (between (pp_bar_index (ls ! (i + 1))) (pp_bar_index (ls ! (i + 2))) hs) = Some q"
    "\<And>z. q = Some z \<Longrightarrow> swing bars 3 3 z" using between_picks(2) [OF h] by blast
  show "sound_turn bars (inverse_head_and_shoulders_turn t bars hs ls i)"
    using r(2) q(2) nth_swing [OF l, of i] nth_swing [OF l, of "i + 1"] nth_swing [OF l i] i
    by (cases r; cases q) (simp_all add: inverse_head_and_shoulders_turn_def Let_def r(1) [simplified] q(1) [simplified])
qed

lemma scans_sound:
  "sound_detection bars (double_top_detect 3 t bars)"
  "sound_detection bars (double_bottom_detect 3 t bars)"
  "sound_detection bars (head_and_shoulders_detect 3 t bars)"
  "sound_detection bars (inverse_head_and_shoulders_detect 3 t bars)"
  using double_turns_sound [OF pivots_swing] shoulder_turns_sound [OF pivots_swing]
  by (auto simp: double_top_detect_def double_bottom_detect_def head_and_shoulders_detect_def
      inverse_head_and_shoulders_detect_def Let_def intro!: sound_scan)

lemma lasts_swing:
  assumes "\<forall>p \<in> set hs. swing bars 3 3 p \<and> pp_price p \<noteq> NaN" and "\<not> length hs < 2"
  shows "swing bars 3 3 (hs ! (length hs - 2))" "swing bars 3 3 (hs ! (length hs - 1))"
  using nth_swing [OF assms(1), of "length hs - 2"] nth_swing [OF assms(1), of "length hs - 1"] assms(2) by simp_all

lemma triangles_sound:
  "sound_detection bars (ascending_triangle_detect 3 t bars)"
  "sound_detection bars (descending_triangle_detect 3 t bars)"
  "sound_detection bars (symmetric_triangle_detect 3 bars)"
  "sound_detection bars (wedge_detect 3 r bars)"
  using lasts_swing [OF pivots_swing(1)] lasts_swing [OF pivots_swing(2)]
  by (auto simp: ascending_triangle_detect_def descending_triangle_detect_def symmetric_triangle_detect_def wedge_detect_def Let_def)

lemma flag_sound: "sound_detection bars (flag_detect d bars)"
  using pivots_swing [of bars] by (auto simp: flag_detect_def Let_def)

lemma composite_sound:
  assumes "\<And>d. d \<in> set ds \<Longrightarrow> sound_detection bars (detect_pattern d bars)"
  shows "sound_detection bars (composite_detect ds bars)"
proof -
  have "\<forall>m \<in> set (map (\<lambda>d. detect_pattern d bars) (filter (\<lambda>d. length bars \<ge> min_lookback d) ds)).
      \<exists>gs. m = Some gs \<and> (\<forall>g \<in> set gs. sound_pattern bars g)"
    using assms by (auto simp: sound_detection_def)
  from those_all [OF this] show ?thesis by (auto simp: composite_detect_def)
qed

section \<open>The breakout strategy\<close>

lemma default_detection:
  "\<exists>gs. composite_detect (pbk_detector (pattern_breakout_default w)) bars = Some gs \<and> (\<forall>g \<in> set gs. sound_pattern bars g)"
proof -
  have "sound_detection bars (composite_detect (pbk_detector (pattern_breakout_default w)) bars)"
    using scans_sound [of bars] triangles_sound [of bars] flag_sound [of bars]
    by (intro composite_sound) (auto simp: pattern_breakout_default_def)
  then show ?thesis by (simp add: sound_detection_def)
qed

text \<open>Although it asks for three bars only, the morning star detector panics on fewer than ten.\<close>

lemma morning_star_panics:
  "3 \<le> length bars \<Longrightarrow> length bars < 10 \<Longrightarrow> composite_detect [MorningStarDetector] bars = None"
  by (simp add: composite_detect_def morning_star_detect_def)


definition quiet_window :: "bar list" where
  "quiet_window = map (\<lambda>i. bar_new (int i * 60000) ''BTC'' (Fin 100) (Fin 110) (Fin 90) (Fin 105) (Fin 1)) [0..<20]"


end
