(* ===== verification/Named_Strategies.thy ===== *)
theory Named_Strategies
  imports Named_Trend Named_Momentum Named_Volume Named_Volatility Named_Pattern Named_Composite Chart_Patterns
    Indicator_Box Script_Runs
begin

text \<open>
  \<open>alm-strategy/src/factory.rs\<close>: building a strategy from its name and a flat object of parameters. The boxed trait
  object is the datatype \<open>named_strategy\<close> with one constructor per strategy; \<open>named_on_bar\<close>, \<open>named_on_window\<close> and
  \<open>named_reset\<close> are the dispatch. A constructor whose assertions fail panics, which is \<open>None\<close>; an error of the factory
  is \<open>Some (Inl e)\<close>.
\<close>

section \<open>Parameters\<close>

fun json_as_u64 :: "json \<Rightarrow> nat option" where
  "json_as_u64 (JInt n) = Some n"
| "json_as_u64 _ = None"

fun json_as_bool :: "json \<Rightarrow> bool option" where
  "json_as_bool (JBool b) = Some b"
| "json_as_bool _ = None"

definition pf64 :: "json \<Rightarrow> string \<Rightarrow> f64 \<Rightarrow> f64" where
  "pf64 p key dflt = (case Option.bind (json_get p key) json_as_f64 of Some x \<Rightarrow> x | None \<Rightarrow> dflt)"

definition pu :: "json \<Rightarrow> string \<Rightarrow> nat \<Rightarrow> nat" where
  "pu p key dflt = (case Option.bind (json_get p key) json_as_u64 of Some n \<Rightarrow> n | None \<Rightarrow> dflt)"

definition params_from_map :: "(string, f64) hmap \<Rightarrow> json" where
  "params_from_map m = JObj (map (\<lambda>(k, v). (k, json_f64 v)) m)"

section \<open>The strategies\<close>

text \<open>The outcome of a strategy, with its new state put back into the box.\<close>

definition reboxed :: "('s \<Rightarrow> 'n) \<Rightarrow> ('s \<times> 'o) option \<Rightarrow> ('n \<times> 'o) option" where
  "reboxed C r = map_option (\<lambda>(s, v). (C s, v)) r"

lemma reboxed_simps [simp]: "reboxed C None = None" "reboxed C (Some (s, v)) = Some (C s, v)"
  by (simp_all add: reboxed_def)

lemma runs_reboxed [simp]: "runs Q (reboxed C r) \<longleftrightarrow> runs (\<lambda>s v. Q (C s) v) r"
  by (auto simp: runs_def reboxed_def)

lemma gives_boxed [simp]: "gives Q (map_option C r) \<longleftrightarrow> gives (\<lambda>s. Q (C s)) r"
  by (auto simp: gives_def)

text \<open>The contract with both promises in one statement, for the dispatch over a family.\<close>

context restoring
begin

lemma answers_restoring:
  "bar_of y b \<Longrightarrow> live s \<Longrightarrow> runs (\<lambda>s' sigs. live s' \<and> proper b sigs \<and> rst s' = rst s) (on_bar s b)"
  using answers [of b s] keeps [of b s] by (auto simp: runs_def)

lemma answers_boxed:
  "bar_of y b \<Longrightarrow> live s \<Longrightarrow>
   runs (\<lambda>s' sigs. live s' \<and> proper b sigs \<and> map_option C (rst s') = map_option C (rst s)) (on_bar s b)"
  using answers_restoring [of b s] by (auto simp: runs_def)

end

datatype (plugins only: code) trend_strategy =
    StMaCrossover ma_crossover
  | StTripleEma triple_ema
  | StHmaCrossover hma_crossover
  | StDmiAdx dmi_adx
  | StTrendTransition trend_transition
  | StTrendFollower trend_follower
  | StMaPullback ma_pullback
  | StGmmaCrossover gmma_crossover
  | StIchimokuCloud ichimoku_cloud
  | StIchimokuCross ichimoku_cross
  | StScalpingEma scalping_ema
  | StDemaCrossover dema_crossover
  | StAroonTrend aroon_trend
  | StKamaStrategy kama_strategy
  | StTemaCrossover tema_crossover
  | StVortexTrend vortex_trend
  | StAdxEmaCross adx_ema_cross
  | StLsmaCross lsma_cross
  | StAlmaCross alma_cross

primrec trend_on_bar :: "mathlib \<Rightarrow> trend_strategy \<Rightarrow> bar \<Rightarrow> (trend_strategy \<times> signal list) option" where
  "trend_on_bar lm (StMaCrossover s) b = reboxed StMaCrossover (ma_crossover_on_bar s b)"
| "trend_on_bar lm (StTripleEma s) b = reboxed StTripleEma (triple_ema_on_bar s b)"
| "trend_on_bar lm (StHmaCrossover s) b = reboxed StHmaCrossover (hma_crossover_on_bar s b)"
| "trend_on_bar lm (StDmiAdx s) b = reboxed StDmiAdx (dmi_adx_on_bar s b)"
| "trend_on_bar lm (StTrendTransition s) b = reboxed StTrendTransition (trend_transition_on_bar s b)"
| "trend_on_bar lm (StTrendFollower s) b = reboxed StTrendFollower (trend_follower_on_bar s b)"
| "trend_on_bar lm (StMaPullback s) b = reboxed StMaPullback (ma_pullback_on_bar s b)"
| "trend_on_bar lm (StGmmaCrossover s) b = reboxed StGmmaCrossover (gmma_crossover_on_bar s b)"
| "trend_on_bar lm (StIchimokuCloud s) b = reboxed StIchimokuCloud (ichimoku_cloud_on_bar s b)"
| "trend_on_bar lm (StIchimokuCross s) b = reboxed StIchimokuCross (ichimoku_cross_on_bar s b)"
| "trend_on_bar lm (StScalpingEma s) b = reboxed StScalpingEma (scalping_ema_on_bar s b)"
| "trend_on_bar lm (StDemaCrossover s) b = reboxed StDemaCrossover (dema_crossover_on_bar s b)"
| "trend_on_bar lm (StAroonTrend s) b = reboxed StAroonTrend (aroon_trend_on_bar s b)"
| "trend_on_bar lm (StKamaStrategy s) b = reboxed StKamaStrategy (kama_strategy_on_bar s b)"
| "trend_on_bar lm (StTemaCrossover s) b = reboxed StTemaCrossover (tema_crossover_on_bar s b)"
| "trend_on_bar lm (StVortexTrend s) b = reboxed StVortexTrend (vortex_trend_on_bar s b)"
| "trend_on_bar lm (StAdxEmaCross s) b = reboxed StAdxEmaCross (adx_ema_cross_on_bar s b)"
| "trend_on_bar lm (StLsmaCross s) b = reboxed StLsmaCross (lsma_cross_on_bar s b)"
| "trend_on_bar lm (StAlmaCross s) b = reboxed StAlmaCross (alma_cross_on_bar s b)"

primrec trend_reset :: "mathlib \<Rightarrow> trend_strategy \<Rightarrow> trend_strategy option" where
  "trend_reset lm (StMaCrossover s) = map_option StMaCrossover (ma_crossover_reset s)"
| "trend_reset lm (StTripleEma s) = map_option StTripleEma (triple_ema_reset s)"
| "trend_reset lm (StHmaCrossover s) = map_option StHmaCrossover (hma_crossover_reset s)"
| "trend_reset lm (StDmiAdx s) = map_option StDmiAdx (dmi_adx_reset s)"
| "trend_reset lm (StTrendTransition s) = map_option StTrendTransition (trend_transition_reset s)"
| "trend_reset lm (StTrendFollower s) = map_option StTrendFollower (trend_follower_reset s)"
| "trend_reset lm (StMaPullback s) = map_option StMaPullback (ma_pullback_reset s)"
| "trend_reset lm (StGmmaCrossover s) = map_option StGmmaCrossover (gmma_crossover_reset s)"
| "trend_reset lm (StIchimokuCloud s) = map_option StIchimokuCloud (ichimoku_cloud_reset s)"
| "trend_reset lm (StIchimokuCross s) = map_option StIchimokuCross (ichimoku_cross_reset s)"
| "trend_reset lm (StScalpingEma s) = map_option StScalpingEma (scalping_ema_reset s)"
| "trend_reset lm (StDemaCrossover s) = map_option StDemaCrossover (dema_crossover_reset s)"
| "trend_reset lm (StAroonTrend s) = map_option StAroonTrend (aroon_trend_reset s)"
| "trend_reset lm (StKamaStrategy s) = map_option StKamaStrategy (kama_strategy_reset s)"
| "trend_reset lm (StTemaCrossover s) = map_option StTemaCrossover (tema_crossover_reset s)"
| "trend_reset lm (StVortexTrend s) = map_option StVortexTrend (vortex_trend_reset s)"
| "trend_reset lm (StAdxEmaCross s) = map_option StAdxEmaCross (adx_ema_cross_reset s)"
| "trend_reset lm (StLsmaCross s) = map_option StLsmaCross (lsma_cross_reset s)"
| "trend_reset lm (StAlmaCross s) = map_option StAlmaCross (alma_cross_reset lm s)"

primrec trend_live :: "mathlib \<Rightarrow> trend_strategy \<Rightarrow> bool" where
  "trend_live lm (StMaCrossover s) \<longleftrightarrow> ma_crossover_live s"
| "trend_live lm (StTripleEma s) \<longleftrightarrow> triple_ema_live s"
| "trend_live lm (StHmaCrossover s) \<longleftrightarrow> hma_crossover_live s"
| "trend_live lm (StDmiAdx s) \<longleftrightarrow> dmi_adx_live s"
| "trend_live lm (StTrendTransition s) \<longleftrightarrow> trend_transition_live s"
| "trend_live lm (StTrendFollower s) \<longleftrightarrow> trend_follower_live s"
| "trend_live lm (StMaPullback s) \<longleftrightarrow> ma_pullback_live s"
| "trend_live lm (StGmmaCrossover s) \<longleftrightarrow> gmma_crossover_live s"
| "trend_live lm (StIchimokuCloud s) \<longleftrightarrow> ichimoku_cloud_live s"
| "trend_live lm (StIchimokuCross s) \<longleftrightarrow> ichimoku_cross_live s"
| "trend_live lm (StScalpingEma s) \<longleftrightarrow> scalping_ema_live s"
| "trend_live lm (StDemaCrossover s) \<longleftrightarrow> dema_crossover_live s"
| "trend_live lm (StAroonTrend s) \<longleftrightarrow> aroon_trend_live s"
| "trend_live lm (StKamaStrategy s) \<longleftrightarrow> kama_strategy_live s"
| "trend_live lm (StTemaCrossover s) \<longleftrightarrow> tema_crossover_live s"
| "trend_live lm (StVortexTrend s) \<longleftrightarrow> vortex_trend_live s"
| "trend_live lm (StAdxEmaCross s) \<longleftrightarrow> adx_ema_cross_live s"
| "trend_live lm (StLsmaCross s) \<longleftrightarrow> lsma_cross_live s"
| "trend_live lm (StAlmaCross s) \<longleftrightarrow> alma_cross_live lm s"

lemmas trend_answers =
  mac.answers_boxed tre.answers_boxed hmc.answers_boxed dma.answers_boxed trt.answers_boxed
      trf.answers_boxed map.answers_boxed gmc.answers_boxed icl.answers_boxed icx.answers_boxed
      sce.answers_boxed dec.answers_boxed art.answers_boxed kas.answers_boxed tec.answers_boxed
      vot.answers_boxed aec.answers_boxed lsc.answers_boxed alc.answers_boxed

lemmas trend_resets =
  mac.resets tre.resets hmc.resets dma.resets trt.resets trf.resets map.resets gmc.resets icl.resets
      icx.resets sce.resets dec.resets art.resets kas.resets tec.resets vot.resets aec.resets lsc.resets
      alc.resets

interpretation trend_family: restoring y "trend_on_bar lm" "trend_reset lm" "trend_live lm" for y lm
proof (rule restoringI)
  fix b s
  assume "bar_of y b" "trend_live lm s"
  then show "runs (\<lambda>s' sigs. trend_live lm s' \<and> proper b sigs \<and> trend_reset lm s' = trend_reset lm s) (trend_on_bar lm s b)"
    by (cases s; simp add: trend_answers)
next
  fix s
  assume "trend_live lm s"
  then show "gives (trend_live lm) (trend_reset lm s)"
    by (cases s; simp add: trend_resets)
qed

datatype (plugins only: code) momentum_strategy =
    StRsiMeanRev rsi_mean_rev
  | StMacdCrossover macd_crossover
  | StMacdMa macd_ma
  | StStochasticCrossover stochastic_crossover
  | StStochasticDk stochastic_dk
  | StCciReversal cci_reversal
  | StMomentumRoc momentum_roc
  | StDualMomentum dual_momentum
  | StRocCrossover roc_crossover
  | StTrixStrategy trix_strategy
  | StTsiStrategy tsi_strategy
  | StStochRsiStrategy stoch_rsi_strategy
  | StConnorsRsiStrategy connors_rsi_strategy
  | StKdjStrategy kdj_strategy
  | StAoStrategy ao_strategy
  | StWilliamsRMa williams_r_ma
  | StFisherCrossover fisher_crossover
  | StUoReversal uo_reversal
  | StCmoZeroCross cmo_zero_cross
  | StRsiMaCross rsi_ma_cross
  | StSmiReversal smi_reversal
  | StPpoHistogram ppo_histogram

primrec momentum_on_bar :: "mathlib \<Rightarrow> momentum_strategy \<Rightarrow> bar \<Rightarrow> (momentum_strategy \<times> signal list) option" where
  "momentum_on_bar lm (StRsiMeanRev s) b = reboxed StRsiMeanRev (rsi_mean_rev_on_bar s b)"
| "momentum_on_bar lm (StMacdCrossover s) b = reboxed StMacdCrossover (macd_crossover_on_bar s b)"
| "momentum_on_bar lm (StMacdMa s) b = reboxed StMacdMa (macd_ma_on_bar s b)"
| "momentum_on_bar lm (StStochasticCrossover s) b = reboxed StStochasticCrossover (stochastic_crossover_on_bar s b)"
| "momentum_on_bar lm (StStochasticDk s) b = reboxed StStochasticDk (stochastic_dk_on_bar s b)"
| "momentum_on_bar lm (StCciReversal s) b = reboxed StCciReversal (cci_reversal_on_bar s b)"
| "momentum_on_bar lm (StMomentumRoc s) b = reboxed StMomentumRoc (momentum_roc_on_bar s b)"
| "momentum_on_bar lm (StDualMomentum s) b = reboxed StDualMomentum (dual_momentum_on_bar s b)"
| "momentum_on_bar lm (StRocCrossover s) b = reboxed StRocCrossover (roc_crossover_on_bar s b)"
| "momentum_on_bar lm (StTrixStrategy s) b = reboxed StTrixStrategy (trix_strategy_on_bar s b)"
| "momentum_on_bar lm (StTsiStrategy s) b = reboxed StTsiStrategy (tsi_strategy_on_bar s b)"
| "momentum_on_bar lm (StStochRsiStrategy s) b = reboxed StStochRsiStrategy (stoch_rsi_strategy_on_bar s b)"
| "momentum_on_bar lm (StConnorsRsiStrategy s) b = reboxed StConnorsRsiStrategy (connors_rsi_strategy_on_bar s b)"
| "momentum_on_bar lm (StKdjStrategy s) b = reboxed StKdjStrategy (kdj_strategy_on_bar s b)"
| "momentum_on_bar lm (StAoStrategy s) b = reboxed StAoStrategy (ao_strategy_on_bar s b)"
| "momentum_on_bar lm (StWilliamsRMa s) b = reboxed StWilliamsRMa (williams_r_ma_on_bar s b)"
| "momentum_on_bar lm (StFisherCrossover s) b = reboxed StFisherCrossover (fisher_crossover_on_bar lm s b)"
| "momentum_on_bar lm (StUoReversal s) b = reboxed StUoReversal (uo_reversal_on_bar s b)"
| "momentum_on_bar lm (StCmoZeroCross s) b = reboxed StCmoZeroCross (cmo_zero_cross_on_bar s b)"
| "momentum_on_bar lm (StRsiMaCross s) b = reboxed StRsiMaCross (rsi_ma_cross_on_bar s b)"
| "momentum_on_bar lm (StSmiReversal s) b = reboxed StSmiReversal (smi_reversal_on_bar s b)"
| "momentum_on_bar lm (StPpoHistogram s) b = reboxed StPpoHistogram (ppo_histogram_on_bar s b)"

primrec momentum_reset :: "mathlib \<Rightarrow> momentum_strategy \<Rightarrow> momentum_strategy option" where
  "momentum_reset lm (StRsiMeanRev s) = map_option StRsiMeanRev (rsi_mean_rev_reset s)"
| "momentum_reset lm (StMacdCrossover s) = map_option StMacdCrossover (macd_crossover_reset s)"
| "momentum_reset lm (StMacdMa s) = map_option StMacdMa (macd_ma_reset s)"
| "momentum_reset lm (StStochasticCrossover s) = map_option StStochasticCrossover (stochastic_crossover_reset s)"
| "momentum_reset lm (StStochasticDk s) = map_option StStochasticDk (stochastic_dk_reset s)"
| "momentum_reset lm (StCciReversal s) = map_option StCciReversal (cci_reversal_reset s)"
| "momentum_reset lm (StMomentumRoc s) = map_option StMomentumRoc (momentum_roc_reset s)"
| "momentum_reset lm (StDualMomentum s) = map_option StDualMomentum (dual_momentum_reset s)"
| "momentum_reset lm (StRocCrossover s) = map_option StRocCrossover (roc_crossover_reset s)"
| "momentum_reset lm (StTrixStrategy s) = map_option StTrixStrategy (trix_strategy_reset s)"
| "momentum_reset lm (StTsiStrategy s) = map_option StTsiStrategy (tsi_strategy_reset s)"
| "momentum_reset lm (StStochRsiStrategy s) = map_option StStochRsiStrategy (stoch_rsi_strategy_reset s)"
| "momentum_reset lm (StConnorsRsiStrategy s) = map_option StConnorsRsiStrategy (connors_rsi_strategy_reset s)"
| "momentum_reset lm (StKdjStrategy s) = map_option StKdjStrategy (kdj_strategy_reset s)"
| "momentum_reset lm (StAoStrategy s) = map_option StAoStrategy (ao_strategy_reset s)"
| "momentum_reset lm (StWilliamsRMa s) = map_option StWilliamsRMa (williams_r_ma_reset s)"
| "momentum_reset lm (StFisherCrossover s) = map_option StFisherCrossover (fisher_crossover_reset s)"
| "momentum_reset lm (StUoReversal s) = map_option StUoReversal (uo_reversal_reset s)"
| "momentum_reset lm (StCmoZeroCross s) = map_option StCmoZeroCross (cmo_zero_cross_reset s)"
| "momentum_reset lm (StRsiMaCross s) = map_option StRsiMaCross (rsi_ma_cross_reset s)"
| "momentum_reset lm (StSmiReversal s) = map_option StSmiReversal (smi_reversal_reset s)"
| "momentum_reset lm (StPpoHistogram s) = map_option StPpoHistogram (ppo_histogram_reset s)"

primrec momentum_live :: "mathlib \<Rightarrow> momentum_strategy \<Rightarrow> bool" where
  "momentum_live lm (StRsiMeanRev s) \<longleftrightarrow> rsi_mean_rev_live s"
| "momentum_live lm (StMacdCrossover s) \<longleftrightarrow> macd_crossover_live s"
| "momentum_live lm (StMacdMa s) \<longleftrightarrow> macd_ma_live s"
| "momentum_live lm (StStochasticCrossover s) \<longleftrightarrow> stochastic_crossover_live s"
| "momentum_live lm (StStochasticDk s) \<longleftrightarrow> stochastic_dk_live s"
| "momentum_live lm (StCciReversal s) \<longleftrightarrow> cci_reversal_live s"
| "momentum_live lm (StMomentumRoc s) \<longleftrightarrow> momentum_roc_live s"
| "momentum_live lm (StDualMomentum s) \<longleftrightarrow> dual_momentum_live s"
| "momentum_live lm (StRocCrossover s) \<longleftrightarrow> roc_crossover_live s"
| "momentum_live lm (StTrixStrategy s) \<longleftrightarrow> trix_strategy_live s"
| "momentum_live lm (StTsiStrategy s) \<longleftrightarrow> tsi_strategy_live s"
| "momentum_live lm (StStochRsiStrategy s) \<longleftrightarrow> stoch_rsi_strategy_live s"
| "momentum_live lm (StConnorsRsiStrategy s) \<longleftrightarrow> connors_rsi_strategy_live s"
| "momentum_live lm (StKdjStrategy s) \<longleftrightarrow> kdj_strategy_live s"
| "momentum_live lm (StAoStrategy s) \<longleftrightarrow> ao_strategy_live s"
| "momentum_live lm (StWilliamsRMa s) \<longleftrightarrow> williams_r_ma_live s"
| "momentum_live lm (StFisherCrossover s) \<longleftrightarrow> fisher_crossover_live s"
| "momentum_live lm (StUoReversal s) \<longleftrightarrow> uo_reversal_live s"
| "momentum_live lm (StCmoZeroCross s) \<longleftrightarrow> cmo_zero_cross_live s"
| "momentum_live lm (StRsiMaCross s) \<longleftrightarrow> rsi_ma_cross_live s"
| "momentum_live lm (StSmiReversal s) \<longleftrightarrow> smi_reversal_live s"
| "momentum_live lm (StPpoHistogram s) \<longleftrightarrow> ppo_histogram_live s"

lemmas momentum_answers =
  rmr.answers_boxed mcc.answers_boxed mcm.answers_boxed stc.answers_boxed sdk.answers_boxed
      ccr.answers_boxed mro.answers_boxed dum.answers_boxed rcx.answers_boxed txs.answers_boxed
      tss.answers_boxed srs.answers_boxed cns.answers_boxed kds.answers_boxed aos.answers_boxed
      wrm.answers_boxed fic.answers_boxed uor.answers_boxed czc.answers_boxed rmx.answers_boxed
      smr.answers_boxed pph.answers_boxed

lemmas momentum_resets =
  rmr.resets mcc.resets mcm.resets stc.resets sdk.resets ccr.resets mro.resets dum.resets rcx.resets
      txs.resets tss.resets srs.resets cns.resets kds.resets aos.resets wrm.resets fic.resets uor.resets
      czc.resets rmx.resets smr.resets pph.resets

interpretation momentum_family: restoring y "momentum_on_bar lm" "momentum_reset lm" "momentum_live lm" for y lm
proof (rule restoringI)
  fix b s
  assume "bar_of y b" "momentum_live lm s"
  then show "runs (\<lambda>s' sigs. momentum_live lm s' \<and> proper b sigs \<and> momentum_reset lm s' = momentum_reset lm s) (momentum_on_bar lm s b)"
    by (cases s; simp add: momentum_answers)
next
  fix s
  assume "momentum_live lm s"
  then show "gives (momentum_live lm) (momentum_reset lm s)"
    by (cases s; simp add: momentum_resets)
qed

datatype (plugins only: code) volume_strategy =
    StWaddahAttar waddah_attar
  | StVwapBounce vwap_bounce
  | StVwapTrend vwap_trend
  | StMfiTrend mfi_trend
  | StMfiRevert mfi_revert
  | StCmfEmaTrend cmf_ema_trend
  | StObvEmaTrend obv_ema_trend
  | StVwmaRsi vwma_rsi

primrec volume_on_bar :: "mathlib \<Rightarrow> volume_strategy \<Rightarrow> bar \<Rightarrow> (volume_strategy \<times> signal list) option" where
  "volume_on_bar lm (StWaddahAttar s) b = reboxed StWaddahAttar (waddah_attar_on_bar s b)"
| "volume_on_bar lm (StVwapBounce s) b = reboxed StVwapBounce (vwap_bounce_on_bar s b)"
| "volume_on_bar lm (StVwapTrend s) b = reboxed StVwapTrend (vwap_trend_on_bar s b)"
| "volume_on_bar lm (StMfiTrend s) b = reboxed StMfiTrend (mfi_trend_on_bar s b)"
| "volume_on_bar lm (StMfiRevert s) b = reboxed StMfiRevert (mfi_revert_on_bar s b)"
| "volume_on_bar lm (StCmfEmaTrend s) b = reboxed StCmfEmaTrend (cmf_ema_trend_on_bar s b)"
| "volume_on_bar lm (StObvEmaTrend s) b = reboxed StObvEmaTrend (obv_ema_trend_on_bar s b)"
| "volume_on_bar lm (StVwmaRsi s) b = reboxed StVwmaRsi (vwma_rsi_on_bar s b)"

primrec volume_reset :: "mathlib \<Rightarrow> volume_strategy \<Rightarrow> volume_strategy option" where
  "volume_reset lm (StWaddahAttar s) = map_option StWaddahAttar (waddah_attar_reset s)"
| "volume_reset lm (StVwapBounce s) = map_option StVwapBounce (vwap_bounce_reset s)"
| "volume_reset lm (StVwapTrend s) = map_option StVwapTrend (vwap_trend_reset s)"
| "volume_reset lm (StMfiTrend s) = map_option StMfiTrend (mfi_trend_reset s)"
| "volume_reset lm (StMfiRevert s) = map_option StMfiRevert (mfi_revert_reset s)"
| "volume_reset lm (StCmfEmaTrend s) = map_option StCmfEmaTrend (cmf_ema_trend_reset s)"
| "volume_reset lm (StObvEmaTrend s) = map_option StObvEmaTrend (obv_ema_trend_reset s)"
| "volume_reset lm (StVwmaRsi s) = map_option StVwmaRsi (vwma_rsi_reset s)"

primrec volume_live :: "mathlib \<Rightarrow> volume_strategy \<Rightarrow> bool" where
  "volume_live lm (StWaddahAttar s) \<longleftrightarrow> waddah_attar_live s"
| "volume_live lm (StVwapBounce s) \<longleftrightarrow> vwap_bounce_live s"
| "volume_live lm (StVwapTrend s) \<longleftrightarrow> vwap_trend_live s"
| "volume_live lm (StMfiTrend s) \<longleftrightarrow> mfi_trend_live s"
| "volume_live lm (StMfiRevert s) \<longleftrightarrow> mfi_revert_live s"
| "volume_live lm (StCmfEmaTrend s) \<longleftrightarrow> cmf_ema_trend_live s"
| "volume_live lm (StObvEmaTrend s) \<longleftrightarrow> obv_ema_trend_live s"
| "volume_live lm (StVwmaRsi s) \<longleftrightarrow> vwma_rsi_live s"

lemmas volume_answers =
  waa.answers_boxed vwb.answers_boxed vwt.answers_boxed mft.answers_boxed mfr.answers_boxed
      cet.answers_boxed oet.answers_boxed vmr.answers_boxed

lemmas volume_resets =
  waa.resets vwb.resets vwt.resets mft.resets mfr.resets cet.resets oet.resets vmr.resets

interpretation volume_family: restoring y "volume_on_bar lm" "volume_reset lm" "volume_live lm" for y lm
proof (rule restoringI)
  fix b s
  assume "bar_of y b" "volume_live lm s"
  then show "runs (\<lambda>s' sigs. volume_live lm s' \<and> proper b sigs \<and> volume_reset lm s' = volume_reset lm s) (volume_on_bar lm s b)"
    by (cases s; simp add: volume_answers)
next
  fix s
  assume "volume_live lm s"
  then show "gives (volume_live lm) (volume_reset lm s)"
    by (cases s; simp add: volume_resets)
qed

datatype (plugins only: code) volatility_strategy =
    StRangeRover range_rover
  | StAtrTrailingStop atr_trailing_stop
  | StVolatilitySqueezer volatility_squeezer
  | StVolatilityVanguard volatility_vanguard
  | StVolatilityRatioBreakout volatility_ratio_breakout
  | StBollingerMacd bollinger_macd
  | StBbSqueeze bb_squeeze
  | StBbKeltnerSqueeze bb_keltner_squeeze
  | StDonchianBreakout donchian_breakout
  | StChandelierExit chandelier_exit_strategy
  | StOrbBreakout orb_breakout
  | StHighestBreakout highest_breakout
  | StKeltnerBreakout keltner_breakout
  | StBbRsiReversal bb_rsi_reversal

primrec volatility_on_bar :: "mathlib \<Rightarrow> volatility_strategy \<Rightarrow> bar \<Rightarrow> (volatility_strategy \<times> signal list) option" where
  "volatility_on_bar lm (StRangeRover s) b = reboxed StRangeRover (range_rover_on_bar s b)"
| "volatility_on_bar lm (StAtrTrailingStop s) b = reboxed StAtrTrailingStop (atr_trailing_stop_on_bar s b)"
| "volatility_on_bar lm (StVolatilitySqueezer s) b = reboxed StVolatilitySqueezer (volatility_squeezer_on_bar s b)"
| "volatility_on_bar lm (StVolatilityVanguard s) b = reboxed StVolatilityVanguard (volatility_vanguard_on_bar s b)"
| "volatility_on_bar lm (StVolatilityRatioBreakout s) b = reboxed StVolatilityRatioBreakout (volatility_ratio_breakout_on_bar s b)"
| "volatility_on_bar lm (StBollingerMacd s) b = reboxed StBollingerMacd (bollinger_macd_on_bar s b)"
| "volatility_on_bar lm (StBbSqueeze s) b = reboxed StBbSqueeze (bb_squeeze_on_bar s b)"
| "volatility_on_bar lm (StBbKeltnerSqueeze s) b = reboxed StBbKeltnerSqueeze (bb_keltner_squeeze_on_bar s b)"
| "volatility_on_bar lm (StDonchianBreakout s) b = reboxed StDonchianBreakout (donchian_breakout_on_bar s b)"
| "volatility_on_bar lm (StChandelierExit s) b = reboxed StChandelierExit (chandelier_exit_strategy_on_bar s b)"
| "volatility_on_bar lm (StOrbBreakout s) b = reboxed StOrbBreakout (orb_breakout_on_bar s b)"
| "volatility_on_bar lm (StHighestBreakout s) b = reboxed StHighestBreakout (highest_breakout_on_bar s b)"
| "volatility_on_bar lm (StKeltnerBreakout s) b = reboxed StKeltnerBreakout (keltner_breakout_on_bar s b)"
| "volatility_on_bar lm (StBbRsiReversal s) b = reboxed StBbRsiReversal (bb_rsi_reversal_on_bar s b)"

primrec volatility_reset :: "mathlib \<Rightarrow> volatility_strategy \<Rightarrow> volatility_strategy option" where
  "volatility_reset lm (StRangeRover s) = map_option StRangeRover (range_rover_reset s)"
| "volatility_reset lm (StAtrTrailingStop s) = map_option StAtrTrailingStop (atr_trailing_stop_reset s)"
| "volatility_reset lm (StVolatilitySqueezer s) = map_option StVolatilitySqueezer (volatility_squeezer_reset s)"
| "volatility_reset lm (StVolatilityVanguard s) = map_option StVolatilityVanguard (volatility_vanguard_reset s)"
| "volatility_reset lm (StVolatilityRatioBreakout s) = map_option StVolatilityRatioBreakout (volatility_ratio_breakout_reset s)"
| "volatility_reset lm (StBollingerMacd s) = map_option StBollingerMacd (bollinger_macd_reset s)"
| "volatility_reset lm (StBbSqueeze s) = map_option StBbSqueeze (bb_squeeze_reset s)"
| "volatility_reset lm (StBbKeltnerSqueeze s) = map_option StBbKeltnerSqueeze (bb_keltner_squeeze_reset s)"
| "volatility_reset lm (StDonchianBreakout s) = map_option StDonchianBreakout (donchian_breakout_reset s)"
| "volatility_reset lm (StChandelierExit s) = map_option StChandelierExit (chandelier_exit_strategy_reset s)"
| "volatility_reset lm (StOrbBreakout s) = map_option StOrbBreakout (orb_breakout_reset s)"
| "volatility_reset lm (StHighestBreakout s) = map_option StHighestBreakout (highest_breakout_reset s)"
| "volatility_reset lm (StKeltnerBreakout s) = map_option StKeltnerBreakout (keltner_breakout_reset s)"
| "volatility_reset lm (StBbRsiReversal s) = map_option StBbRsiReversal (bb_rsi_reversal_reset s)"

primrec volatility_live :: "mathlib \<Rightarrow> volatility_strategy \<Rightarrow> bool" where
  "volatility_live lm (StRangeRover s) \<longleftrightarrow> range_rover_live s"
| "volatility_live lm (StAtrTrailingStop s) \<longleftrightarrow> atr_trailing_stop_live s"
| "volatility_live lm (StVolatilitySqueezer s) \<longleftrightarrow> volatility_squeezer_live s"
| "volatility_live lm (StVolatilityVanguard s) \<longleftrightarrow> volatility_vanguard_live s"
| "volatility_live lm (StVolatilityRatioBreakout s) \<longleftrightarrow> volatility_ratio_breakout_live s"
| "volatility_live lm (StBollingerMacd s) \<longleftrightarrow> bollinger_macd_live s"
| "volatility_live lm (StBbSqueeze s) \<longleftrightarrow> bb_squeeze_live s"
| "volatility_live lm (StBbKeltnerSqueeze s) \<longleftrightarrow> bb_keltner_squeeze_live s"
| "volatility_live lm (StDonchianBreakout s) \<longleftrightarrow> donchian_breakout_live s"
| "volatility_live lm (StChandelierExit s) \<longleftrightarrow> chandelier_exit_strategy_live s"
| "volatility_live lm (StOrbBreakout s) \<longleftrightarrow> orb_breakout_live s"
| "volatility_live lm (StHighestBreakout s) \<longleftrightarrow> highest_breakout_live s"
| "volatility_live lm (StKeltnerBreakout s) \<longleftrightarrow> keltner_breakout_live s"
| "volatility_live lm (StBbRsiReversal s) \<longleftrightarrow> bb_rsi_reversal_live s"

lemmas volatility_answers =
  rar.answers_boxed ats.answers_boxed vsq.answers_boxed vva.answers_boxed vrb.answers_boxed
      bom.answers_boxed bsq.answers_boxed bks.answers_boxed dob.answers_boxed ces.answers_boxed
      orb.answers_boxed hib.answers_boxed keb.answers_boxed brr.answers_boxed

lemmas volatility_resets =
  rar.resets ats.resets vsq.resets vva.resets vrb.resets bom.resets bsq.resets bks.resets dob.resets
      ces.resets orb.resets hib.resets keb.resets brr.resets

interpretation volatility_family: restoring y "volatility_on_bar lm" "volatility_reset lm" "volatility_live lm" for y lm
proof (rule restoringI)
  fix b s
  assume "bar_of y b" "volatility_live lm s"
  then show "runs (\<lambda>s' sigs. volatility_live lm s' \<and> proper b sigs \<and> volatility_reset lm s' = volatility_reset lm s) (volatility_on_bar lm s b)"
    by (cases s; simp add: volatility_answers)
next
  fix s
  assume "volatility_live lm s"
  then show "gives (volatility_live lm) (volatility_reset lm s)"
    by (cases s; simp add: volatility_resets)
qed

datatype (plugins only: code) pattern_strategy =
    StSupertrendStrategy supertrend_strategy
  | StSupertrendMacd supertrend_macd
  | StSarStrategy sar_strategy
  | StHaColor ha_color
  | StHaBreakout ha_breakout
  | StHaHarmonizer ha_harmonizer
  | StElderRayStrategy elder_ray_strategy
  | StPriceActionSwing price_action_swing
  | StAlligatorStrategy alligator_strategy
  | StRwiStrategy rwi_strategy

primrec pattern_on_bar :: "mathlib \<Rightarrow> pattern_strategy \<Rightarrow> bar \<Rightarrow> (pattern_strategy \<times> signal list) option" where
  "pattern_on_bar lm (StSupertrendStrategy s) b = reboxed StSupertrendStrategy (supertrend_strategy_on_bar s b)"
| "pattern_on_bar lm (StSupertrendMacd s) b = reboxed StSupertrendMacd (supertrend_macd_on_bar s b)"
| "pattern_on_bar lm (StSarStrategy s) b = reboxed StSarStrategy (sar_strategy_on_bar s b)"
| "pattern_on_bar lm (StHaColor s) b = reboxed StHaColor (ha_color_on_bar s b)"
| "pattern_on_bar lm (StHaBreakout s) b = reboxed StHaBreakout (ha_breakout_on_bar s b)"
| "pattern_on_bar lm (StHaHarmonizer s) b = reboxed StHaHarmonizer (ha_harmonizer_on_bar s b)"
| "pattern_on_bar lm (StElderRayStrategy s) b = reboxed StElderRayStrategy (elder_ray_strategy_on_bar s b)"
| "pattern_on_bar lm (StPriceActionSwing s) b = reboxed StPriceActionSwing (price_action_swing_on_bar s b)"
| "pattern_on_bar lm (StAlligatorStrategy s) b = reboxed StAlligatorStrategy (alligator_strategy_on_bar s b)"
| "pattern_on_bar lm (StRwiStrategy s) b = reboxed StRwiStrategy (rwi_strategy_on_bar s b)"

primrec pattern_reset :: "mathlib \<Rightarrow> pattern_strategy \<Rightarrow> pattern_strategy option" where
  "pattern_reset lm (StSupertrendStrategy s) = map_option StSupertrendStrategy (supertrend_strategy_reset s)"
| "pattern_reset lm (StSupertrendMacd s) = map_option StSupertrendMacd (supertrend_macd_reset s)"
| "pattern_reset lm (StSarStrategy s) = map_option StSarStrategy (sar_strategy_reset s)"
| "pattern_reset lm (StHaColor s) = map_option StHaColor (ha_color_reset s)"
| "pattern_reset lm (StHaBreakout s) = map_option StHaBreakout (ha_breakout_reset s)"
| "pattern_reset lm (StHaHarmonizer s) = map_option StHaHarmonizer (ha_harmonizer_reset s)"
| "pattern_reset lm (StElderRayStrategy s) = map_option StElderRayStrategy (elder_ray_strategy_reset s)"
| "pattern_reset lm (StPriceActionSwing s) = map_option StPriceActionSwing (price_action_swing_reset s)"
| "pattern_reset lm (StAlligatorStrategy s) = map_option StAlligatorStrategy (alligator_strategy_reset s)"
| "pattern_reset lm (StRwiStrategy s) = map_option StRwiStrategy (rwi_strategy_reset s)"

primrec pattern_live :: "mathlib \<Rightarrow> pattern_strategy \<Rightarrow> bool" where
  "pattern_live lm (StSupertrendStrategy s) \<longleftrightarrow> supertrend_strategy_live s"
| "pattern_live lm (StSupertrendMacd s) \<longleftrightarrow> supertrend_macd_live s"
| "pattern_live lm (StSarStrategy s) \<longleftrightarrow> sar_strategy_live s"
| "pattern_live lm (StHaColor s) \<longleftrightarrow> ha_color_live s"
| "pattern_live lm (StHaBreakout s) \<longleftrightarrow> ha_breakout_live s"
| "pattern_live lm (StHaHarmonizer s) \<longleftrightarrow> ha_harmonizer_live s"
| "pattern_live lm (StElderRayStrategy s) \<longleftrightarrow> elder_ray_strategy_live s"
| "pattern_live lm (StPriceActionSwing s) \<longleftrightarrow> price_action_swing_live s"
| "pattern_live lm (StAlligatorStrategy s) \<longleftrightarrow> alligator_strategy_live s"
| "pattern_live lm (StRwiStrategy s) \<longleftrightarrow> rwi_strategy_live s"

lemmas pattern_answers =
  sus.answers_boxed sum.answers_boxed sas.answers_boxed hac.answers_boxed hab.answers_boxed
      hah.answers_boxed ers.answers_boxed pas.answers_boxed als.answers_boxed rws.answers_boxed

lemmas pattern_resets =
  sus.resets sum.resets sas.resets hac.resets hab.resets hah.resets ers.resets pas.resets als.resets
      rws.resets

interpretation pattern_family: restoring y "pattern_on_bar lm" "pattern_reset lm" "pattern_live lm" for y lm
proof (rule restoringI)
  fix b s
  assume "bar_of y b" "pattern_live lm s"
  then show "runs (\<lambda>s' sigs. pattern_live lm s' \<and> proper b sigs \<and> pattern_reset lm s' = pattern_reset lm s) (pattern_on_bar lm s b)"
    by (cases s; simp add: pattern_answers)
next
  fix s
  assume "pattern_live lm s"
  then show "gives (pattern_live lm) (pattern_reset lm s)"
    by (cases s; simp add: pattern_resets)
qed

datatype (plugins only: code) composite_strategy =
    StReversalCatcher reversal_catcher
  | StMeanReversion mean_reversion
  | StWolfstein wolfstein
  | StSwingTrader swing_trader
  | StOscillatorOverlord oscillator_overlord
  | StEquilibriumExplorer equilibrium_explorer
  | StChopFilterStrategy chop_filter_strategy

primrec composite_on_bar :: "mathlib \<Rightarrow> composite_strategy \<Rightarrow> bar \<Rightarrow> (composite_strategy \<times> signal list) option" where
  "composite_on_bar lm (StReversalCatcher s) b = reboxed StReversalCatcher (reversal_catcher_on_bar s b)"
| "composite_on_bar lm (StMeanReversion s) b = reboxed StMeanReversion (mean_reversion_on_bar s b)"
| "composite_on_bar lm (StWolfstein s) b = reboxed StWolfstein (wolfstein_on_bar s b)"
| "composite_on_bar lm (StSwingTrader s) b = reboxed StSwingTrader (swing_trader_on_bar s b)"
| "composite_on_bar lm (StOscillatorOverlord s) b = reboxed StOscillatorOverlord (oscillator_overlord_on_bar s b)"
| "composite_on_bar lm (StEquilibriumExplorer s) b = reboxed StEquilibriumExplorer (equilibrium_explorer_on_bar s b)"
| "composite_on_bar lm (StChopFilterStrategy s) b = reboxed StChopFilterStrategy (chop_filter_strategy_on_bar lm s b)"

primrec composite_reset :: "mathlib \<Rightarrow> composite_strategy \<Rightarrow> composite_strategy option" where
  "composite_reset lm (StReversalCatcher s) = map_option StReversalCatcher (reversal_catcher_reset s)"
| "composite_reset lm (StMeanReversion s) = map_option StMeanReversion (mean_reversion_reset s)"
| "composite_reset lm (StWolfstein s) = map_option StWolfstein (wolfstein_reset s)"
| "composite_reset lm (StSwingTrader s) = map_option StSwingTrader (swing_trader_reset s)"
| "composite_reset lm (StOscillatorOverlord s) = map_option StOscillatorOverlord (oscillator_overlord_reset s)"
| "composite_reset lm (StEquilibriumExplorer s) = map_option StEquilibriumExplorer (equilibrium_explorer_reset s)"
| "composite_reset lm (StChopFilterStrategy s) = map_option StChopFilterStrategy (chop_filter_strategy_reset s)"

primrec composite_live :: "mathlib \<Rightarrow> composite_strategy \<Rightarrow> bool" where
  "composite_live lm (StReversalCatcher s) \<longleftrightarrow> reversal_catcher_live s"
| "composite_live lm (StMeanReversion s) \<longleftrightarrow> mean_reversion_live s"
| "composite_live lm (StWolfstein s) \<longleftrightarrow> wolfstein_live s"
| "composite_live lm (StSwingTrader s) \<longleftrightarrow> swing_trader_live s"
| "composite_live lm (StOscillatorOverlord s) \<longleftrightarrow> oscillator_overlord_live s"
| "composite_live lm (StEquilibriumExplorer s) \<longleftrightarrow> equilibrium_explorer_live s"
| "composite_live lm (StChopFilterStrategy s) \<longleftrightarrow> chop_filter_strategy_live s"

lemmas composite_answers =
  rec.answers_boxed mer.answers_boxed wol.answers_boxed swt.answers_boxed oso.answers_boxed
      eqe.answers_boxed cfs.answers_boxed

lemmas composite_resets =
  rec.resets mer.resets wol.resets swt.resets oso.resets eqe.resets cfs.resets

interpretation composite_family: restoring y "composite_on_bar lm" "composite_reset lm" "composite_live lm" for y lm
proof (rule restoringI)
  fix b s
  assume "bar_of y b" "composite_live lm s"
  then show "runs (\<lambda>s' sigs. composite_live lm s' \<and> proper b sigs \<and> composite_reset lm s' = composite_reset lm s) (composite_on_bar lm s b)"
    by (cases s; simp add: composite_answers)
next
  fix s
  assume "composite_live lm s"
  then show "gives (composite_live lm) (composite_reset lm s)"
    by (cases s; simp add: composite_resets)
qed

text \<open>\<open>Pixel3\<close> stands alone because its reset forgets the bars but not the symbol, the breakout strategy because it works on
  windows, and the script because its signals are its own.\<close>

datatype ('i, 'ast) named_strategy =
    StTrend trend_strategy
  | StMomentum momentum_strategy
  | StVolume volume_strategy
  | StVolatility volatility_strategy
  | StPattern pattern_strategy
  | StComposite composite_strategy
  | StPixel3 pixel_3
  | StPatternBreakout pattern_breakout
  | StScript "('i, 'ast) script_strategy"

primrec named_on_bar ::
  "mathlib \<Rightarrow> 'i indicator_ops \<Rightarrow> ('ast, 'sc) rhai \<Rightarrow> ('i, 'ast) named_strategy \<Rightarrow> bar \<Rightarrow>
   (('i, 'ast) named_strategy \<times> signal list) option" where
  "named_on_bar lm io rh (StTrend s) b = reboxed StTrend (trend_on_bar lm s b)"
| "named_on_bar lm io rh (StMomentum s) b = reboxed StMomentum (momentum_on_bar lm s b)"
| "named_on_bar lm io rh (StVolume s) b = reboxed StVolume (volume_on_bar lm s b)"
| "named_on_bar lm io rh (StVolatility s) b = reboxed StVolatility (volatility_on_bar lm s b)"
| "named_on_bar lm io rh (StPattern s) b = reboxed StPattern (pattern_on_bar lm s b)"
| "named_on_bar lm io rh (StComposite s) b = reboxed StComposite (composite_on_bar lm s b)"
| "named_on_bar lm io rh (StPixel3 s) b = reboxed StPixel3 (pixel_3_on_bar s b)"
| "named_on_bar lm io rh (StPatternBreakout s) b = reboxed StPatternBreakout (pattern_breakout_on_bar s b)"
| "named_on_bar lm io rh (StScript s) b = reboxed StScript (script_on_bar io rh s b)"

text \<open>Only the breakout strategy looks at the window of bars; the default of the trait answers with nothing.\<close>

definition named_on_window ::
  "('i, 'ast) named_strategy \<Rightarrow> bar list \<Rightarrow> (('i, 'ast) named_strategy \<times> signal list) option" where
  "named_on_window st bars =
     (case st of
        StPatternBreakout s \<Rightarrow> reboxed StPatternBreakout (pattern_breakout_on_window s bars)
      | _ \<Rightarrow> Some (st, []))"

primrec named_reset ::
  "mathlib \<Rightarrow> 'i indicator_ops \<Rightarrow> ('i, 'ast) named_strategy \<Rightarrow> ('i, 'ast) named_strategy option" where
  "named_reset lm io (StTrend s) = map_option StTrend (trend_reset lm s)"
| "named_reset lm io (StMomentum s) = map_option StMomentum (momentum_reset lm s)"
| "named_reset lm io (StVolume s) = map_option StVolume (volume_reset lm s)"
| "named_reset lm io (StVolatility s) = map_option StVolatility (volatility_reset lm s)"
| "named_reset lm io (StPattern s) = map_option StPattern (pattern_reset lm s)"
| "named_reset lm io (StComposite s) = map_option StComposite (composite_reset lm s)"
| "named_reset lm io (StPixel3 s) = map_option StPixel3 (pixel_3_reset s)"
| "named_reset lm io (StPatternBreakout s) = map_option StPatternBreakout (pattern_breakout_reset s)"
| "named_reset lm io (StScript s) = map_option StScript (script_reset io s)"

section \<open>The factory\<close>

definition classic_arms :: "mathlib \<Rightarrow> json \<Rightarrow> (string \<times> ('i, 'ast) named_strategy option) list" where
  "classic_arms lm p =
     [(''ma_crossover'', map_option (StTrend \<circ> StMaCrossover) (ma_crossover_new (pu p ''fast'' 20) (pu p ''slow'' 50))),
      (''triple_ema'', map_option (StTrend \<circ> StTripleEma) (triple_ema_new (pu p ''ema1'' 10) (pu p ''ema2'' 20) (pu p ''ema3'' 50))),
      (''hma_crossover'', map_option (StTrend \<circ> StHmaCrossover) (hma_crossover_new (pu p ''fast'' 16) (pu p ''slow'' 49))),
      (''rsi_mean_rev'', map_option (StMomentum \<circ> StRsiMeanRev) (rsi_mean_rev_new (pu p ''period'' 14) (pf64 p ''oversold'' (lit 30)) (pf64 p ''overbought'' (lit 70)))),
      (''macd_crossover'', map_option (StMomentum \<circ> StMacdCrossover) (macd_crossover_new (pu p ''fast'' 12) (pu p ''slow'' 26) (pu p ''signal'' 9))),
      (''macd_ma'', map_option (StMomentum \<circ> StMacdMa) (macd_ma_new (pu p ''fast'' 12) (pu p ''slow'' 26) (pu p ''signal'' 9) (pu p ''ma'' 50))),
      (''waddah_attar'', map_option (StVolume \<circ> StWaddahAttar) (waddah_attar_new (pu p ''fast'' 20) (pu p ''slow'' 40) (pu p ''bb_period'' 20) (pf64 p ''bb_std'' (lit 2)))),
      (''stochastic_crossover'', map_option (StMomentum \<circ> StStochasticCrossover) (stochastic_crossover_new (pu p ''k_period'' 14) (pu p ''d_period'' 3) (pf64 p ''oversold'' (lit 20)) (pf64 p ''overbought'' (lit 80)))),
      (''stochastic_dk'', map_option (StMomentum \<circ> StStochasticDk) (stochastic_dk_new (pu p ''k'' 14) (pu p ''d'' 3))),
      (''range_rover'', map_option (StVolatility \<circ> StRangeRover) (range_rover_new (pu p ''k'' 14) (pu p ''d'' 3) (pu p ''ma'' 50) (pf64 p ''oversold'' (lit 20)) (pf64 p ''overbought'' (lit 80)))),
      (''reversal_catcher'', map_option (StComposite \<circ> StReversalCatcher) (reversal_catcher_new (pu p ''k'' 14) (pu p ''d'' 3) (pu p ''rsi_period'' 14))),
      (''atr_trailing'', map_option (StVolatility \<circ> StAtrTrailingStop) (atr_trailing_stop_new (pu p ''ema_period'' 20) (pu p ''atr_period'' 14) (pf64 p ''atr_multiplier'' (lit 2)))),
      (''volatility_squeezer'', map_option (StVolatility \<circ> StVolatilitySqueezer) (volatility_squeezer_new (pu p ''atr_period'' 14) (pu p ''ma_period'' 50))),
      (''volatility_vanguard'', map_option (StVolatility \<circ> StVolatilityVanguard) (volatility_vanguard_new (pu p ''bb_period'' 20) (pf64 p ''bb_std'' (lit 2)) (pu p ''atr_period'' 14))),
      (''volatility_ratio'', map_option (StVolatility \<circ> StVolatilityRatioBreakout) (volatility_ratio_breakout_new (pu p ''lookback'' 10) (pf64 p ''threshold'' (lit (1 / 2))))),
      (''bollinger_macd'', map_option (StVolatility \<circ> StBollingerMacd) (bollinger_macd_new (pu p ''bb_period'' 20) (pf64 p ''bb_std'' (lit 2)) (pu p ''fast'' 12) (pu p ''slow'' 26) (pu p ''signal'' 9))),
      (''bb_squeeze'', map_option (StVolatility \<circ> StBbSqueeze) (bb_squeeze_new (pu p ''period'' 20) (pf64 p ''std'' (lit 2)))),
      (''mean_reversion'', map_option (StComposite \<circ> StMeanReversion) (mean_reversion_new (pu p ''bb_period'' 20) (pf64 p ''bb_std'' (lit 2)) (pu p ''rsi_period'' 14) (pu p ''bars'' 4))),
      (''bb_keltner_squeeze'', map_option (StVolatility \<circ> StBbKeltnerSqueeze) (bb_keltner_squeeze_new (pu p ''bb_period'' 20) (pf64 p ''bb_std'' (lit 2)) (pu p ''kc_period'' 20) (pu p ''kc_atr'' 10) (pf64 p ''kc_mult'' (lit (3 / 2))))),
      (''dmi_adx'', map_option (StTrend \<circ> StDmiAdx) (dmi_adx_new (pu p ''period'' 14) (pf64 p ''adx_threshold'' (lit 25)))),
      (''wolfstein'', map_option (StComposite \<circ> StWolfstein) (wolfstein_new (pu p ''adx_period'' 14) (pf64 p ''long_threshold'' (lit (55 / 2))) (pf64 p ''short_threshold'' (lit (41 / 2)))))]"

definition multi_arms :: "mathlib \<Rightarrow> json \<Rightarrow> (string \<times> ('i, 'ast) named_strategy option) list" where
  "multi_arms lm p =
     [(''trend_transition'', map_option (StTrend \<circ> StTrendTransition) (trend_transition_new (pu p ''fast'' 50) (pu p ''slow'' 200) (pu p ''adx_period'' 14) (pf64 p ''adx_threshold'' (lit 25)))),
      (''swing_trader'', map_option (StComposite \<circ> StSwingTrader) (swing_trader_new (pu p ''cci_period'' 20) (pu p ''adx_period'' 14) (pf64 p ''adx_threshold'' (lit 25)))),
      (''oscillator_overlord'', map_option (StComposite \<circ> StOscillatorOverlord) (oscillator_overlord_new (pu p ''rsi_period'' 14) (pu p ''stoch_k'' 14) (pu p ''stoch_d'' 3) (pu p ''cci_period'' 20))),
      (''equilibrium_explorer'', map_option (StComposite \<circ> StEquilibriumExplorer) (equilibrium_explorer_new (pu p ''ema_period'' 200) (pu p ''stoch_k'' 14) (pu p ''stoch_d'' 3) (pf64 p ''stoch_oversold'' (lit 20)) (pf64 p ''stoch_overbought'' (lit 80)) (pu p ''macd_fast'' 12) (pu p ''macd_slow'' 26) (pu p ''macd_signal'' 9))),
      (''trend_follower'', map_option (StTrend \<circ> StTrendFollower) (trend_follower_new (pu p ''fast_ma'' 50) (pu p ''slow_ma'' 200) (pu p ''macd_fast'' 12) (pu p ''macd_slow'' 26) (pu p ''macd_signal'' 9))),
      (''ma_pullback'', map_option (StTrend \<circ> StMaPullback) (ma_pullback_new (pu p ''ma_period'' 50))),
      (''cci_reversal'', map_option (StMomentum \<circ> StCciReversal) (cci_reversal_new (pu p ''period'' 20) (pf64 p ''entry_level'' (- lit 100)) (pf64 p ''exit_level'' (lit 100)))),
      (''supertrend'', map_option (StPattern \<circ> StSupertrendStrategy) (supertrend_strategy_new (pu p ''period'' 10) (pf64 p ''multiplier'' (lit 3)))),
      (''supertrend_macd'', map_option (StPattern \<circ> StSupertrendMacd) (supertrend_macd_new (pu p ''period'' 10) (pf64 p ''multiplier'' (lit 3)) (pu p ''macd_fast'' 12) (pu p ''macd_slow'' 26) (pu p ''macd_signal'' 9))),
      (''parabolic_sar'', map_option (StPattern \<circ> StSarStrategy) (sar_strategy_new (pf64 p ''step'' (lit (1 / 50))) (pf64 p ''max'' (lit (1 / 5))))),
      (''heiken_ashi_color'', map_option (StPattern \<circ> StHaColor) (ha_color_new (pu p ''smooth'' 1))),
      (''heiken_ashi_breakout'', map_option (StPattern \<circ> StHaBreakout) (ha_breakout_new (pu p ''smooth'' 1) (pu p ''consecutive_bars'' 2))),
      (''heiken_ashi_harmonizer'', map_option (StPattern \<circ> StHaHarmonizer) (ha_harmonizer_new (pu p ''smooth'' 1) (pu p ''ema_period'' 50))),
      (''gmma_crossover'', map_option (StTrend \<circ> StGmmaCrossover) (gmma_crossover_new)),
      (''ichimoku_cloud'', map_option (StTrend \<circ> StIchimokuCloud) (ichimoku_cloud_new (pu p ''tenkan'' 9) (pu p ''kijun'' 26) (pu p ''senkou_b'' 52))),
      (''ichimoku_cross'', map_option (StTrend \<circ> StIchimokuCross) (ichimoku_cross_new (pu p ''tenkan'' 9) (pu p ''kijun'' 26) (pu p ''senkou_b'' 52))),
      (''scalping_ema'', map_option (StTrend \<circ> StScalpingEma) (scalping_ema_new (pu p ''fast'' 8) (pu p ''slow'' 21) (pu p ''atr_period'' 14) (pu p ''atr_ma_period'' 20))),
      (''dema_crossover'', map_option (StTrend \<circ> StDemaCrossover) (dema_crossover_new (pu p ''fast'' 12) (pu p ''slow'' 26))),
      (''donchian_breakout'', map_option (StVolatility \<circ> StDonchianBreakout) (donchian_breakout_new (pu p ''entry'' 20) (pu p ''exit'' 10))),
      (''elder_ray'', map_option (StPattern \<circ> StElderRayStrategy) (elder_ray_strategy_new (pu p ''period'' 13))),
      (''aroon_trend'', map_option (StTrend \<circ> StAroonTrend) (aroon_trend_new (pu p ''period'' 25) (pf64 p ''bull_threshold'' (lit 70)) (pf64 p ''bear_threshold'' (lit 30))))]"

definition level_arms :: "mathlib \<Rightarrow> json \<Rightarrow> (string \<times> ('i, 'ast) named_strategy option) list" where
  "level_arms lm p =
     [(''chandelier_exit'', map_option (StVolatility \<circ> StChandelierExit) (chandelier_exit_strategy_new (pu p ''period'' 22) (pf64 p ''multiplier'' (lit 3)))),
      (''vwap_bounce'', map_option (StVolume \<circ> StVwapBounce) (vwap_bounce_new (pu p ''rsi_period'' 14) (pf64 p ''oversold'' (lit 40)) (pf64 p ''overbought'' (lit 65)) (pu p ''session_gap_mins'' 60))),
      (''vwap_trend'', map_option (StVolume \<circ> StVwapTrend) (vwap_trend_new (pu p ''session_gap_mins'' 60))),
      (''momentum_roc'', map_option (StMomentum \<circ> StMomentumRoc) (momentum_roc_new (pu p ''roc_period'' 10) (pu p ''ema_period'' 50) (pf64 p ''entry_threshold'' (lit 2)) (pf64 p ''exit_threshold'' 0))),
      (''dual_momentum'', map_option (StMomentum \<circ> StDualMomentum) (dual_momentum_new (pu p ''fast'' 10) (pu p ''slow'' 30))),
      (''price_action_swing'', map_option (StPattern \<circ> StPriceActionSwing) (price_action_swing_new (pu p ''swing_bars'' 5) (pu p ''ema_trend'' 50) (pu p ''atr_period'' 14))),
      (''orb_breakout'', map_option (StVolatility \<circ> StOrbBreakout) (orb_breakout_new (pu p ''range_bars'' 30) (pu p ''session_gap_mins'' 60))),
      (''highest_breakout'', map_option (StVolatility \<circ> StHighestBreakout) (highest_breakout_new (pu p ''period'' 20))),
      (''keltner_breakout'', map_option (StVolatility \<circ> StKeltnerBreakout) (keltner_breakout_new (pu p ''period'' 20) (pu p ''atr_period'' 10) (pf64 p ''multiplier'' (lit 2)))),
      (''mfi_trend'', map_option (StVolume \<circ> StMfiTrend) (mfi_trend_new (pu p ''period'' 14) (pf64 p ''bull_threshold'' (lit 50)) (pf64 p ''bear_threshold'' (lit 40)))),
      (''mfi_revert'', map_option (StVolume \<circ> StMfiRevert) (mfi_revert_new (pu p ''period'' 14) (pf64 p ''oversold'' (lit 20)) (pf64 p ''overbought'' (lit 80)))),
      (''roc'', map_option (StMomentum \<circ> StRocCrossover) (roc_crossover_new (pu p ''period'' 10))),
      (''kst'', map_option (StMomentum \<circ> StRocCrossover) (roc_crossover_new (pu p ''period'' 10))),
      (''trix'', map_option (StMomentum \<circ> StTrixStrategy) (trix_strategy_new (pu p ''period'' 18) (pu p ''signal'' 9))),
      (''alligator'', map_option (StPattern \<circ> StAlligatorStrategy) (alligator_strategy_new (pu p ''jaw'' 13) (pu p ''teeth'' 8) (pu p ''lips'' 5))),
      (''rwi'', map_option (StPattern \<circ> StRwiStrategy) (rwi_strategy_new (pu p ''period'' 14) (pf64 p ''threshold'' (lit 1)))),
      (''pattern_breakout'', Some (StPatternBreakout (pattern_breakout_default (pu p ''window'' 60)))),
      (''kama'', map_option (StTrend \<circ> StKamaStrategy) (kama_strategy_new (pu p ''er_period'' 10) (pu p ''fast'' 2) (pu p ''slow'' 30))),
      (''tsi'', map_option (StMomentum \<circ> StTsiStrategy) (tsi_strategy_new (pu p ''first'' 25) (pu p ''second'' 13) (pf64 p ''entry_threshold'' (- lit 25)) (pf64 p ''exit_threshold'' (lit 25)))),
      (''stoch_rsi'', map_option (StMomentum \<circ> StStochRsiStrategy) (stoch_rsi_strategy_new (pu p ''period'' 14) (pu p ''smooth_d'' 3) (pf64 p ''oversold'' (lit (1 / 5))) (pf64 p ''overbought'' (lit (4 / 5))))),
      (''chop_filter'', map_option (StComposite \<circ> StChopFilterStrategy) (chop_filter_strategy_new (pu p ''chop_period'' 14) (pu p ''fast_ema'' 8) (pu p ''slow_ema'' 21) (pf64 p ''chop_threshold'' (lit (309 / 5)))))]"

definition recent_arms :: "mathlib \<Rightarrow> json \<Rightarrow> (string \<times> ('i, 'ast) named_strategy option) list" where
  "recent_arms lm p =
     [(''connors_rsi'', map_option (StMomentum \<circ> StConnorsRsiStrategy) (connors_rsi_strategy_new (pu p ''rsi_period'' 3) (pu p ''streak_period'' 2) (pu p ''rank_period'' 100) (pf64 p ''oversold'' (lit 10)) (pf64 p ''overbought'' (lit 70)))),
      (''kdj'', map_option (StMomentum \<circ> StKdjStrategy) (kdj_strategy_new (pu p ''period'' 9) (pu p ''k_period'' 3) (pu p ''d_period'' 3) (pf64 p ''oversold'' (lit 20)) (pf64 p ''overbought'' (lit 80)))),
      (''ao'', map_option (StMomentum \<circ> StAoStrategy) (ao_strategy_new (pu p ''fast'' 5) (pu p ''slow'' 34))),
      (''tema_crossover'', map_option (StTrend \<circ> StTemaCrossover) (tema_crossover_new (pu p ''fast'' 8) (pu p ''slow'' 21))),
      (''williams_r_ma'', map_option (StMomentum \<circ> StWilliamsRMa) (williams_r_ma_new (pu p ''wr_period'' 14) (pu p ''ema_period'' 50) (pf64 p ''oversold'' (- lit 80)) (pf64 p ''overbought'' (- lit 20)))),
      (''fisher_crossover'', map_option (StMomentum \<circ> StFisherCrossover) (fisher_crossover_new (pu p ''period'' 10))),
      (''uo_reversal'', map_option (StMomentum \<circ> StUoReversal) (uo_reversal_new (pu p ''fast'' 7) (pu p ''medium'' 14) (pu p ''slow'' 28) (pf64 p ''oversold'' (lit 30)) (pf64 p ''overbought'' (lit 70)))),
      (''cmo_zero_cross'', map_option (StMomentum \<circ> StCmoZeroCross) (cmo_zero_cross_new (pu p ''cmo_period'' 14) (pu p ''ema_period'' 50))),
      (''vortex_trend'', map_option (StTrend \<circ> StVortexTrend) (vortex_trend_new (pu p ''period'' 14))),
      (''cmf_ema_trend'', map_option (StVolume \<circ> StCmfEmaTrend) (cmf_ema_trend_new (pu p ''cmf_period'' 20) (pu p ''ema_period'' 50) (pf64 p ''bull_threshold'' (lit (1 / 10))) (pf64 p ''bear_threshold'' (lit (1 / 10))))),
      (''obv_ema_trend'', map_option (StVolume \<circ> StObvEmaTrend) (obv_ema_trend_new (pu p ''obv_ema_period'' 20) (pu p ''price_ema_period'' 50))),
      (''rsi_ma_cross'', map_option (StMomentum \<circ> StRsiMaCross) (rsi_ma_cross_new (pu p ''fast'' 20) (pu p ''slow'' 50) (pu p ''rsi_period'' 14) (pf64 p ''rsi_entry'' (lit 50)) (pf64 p ''rsi_exit'' (lit 45)))),
      (''bb_rsi_reversal'', map_option (StVolatility \<circ> StBbRsiReversal) (bb_rsi_reversal_new (pu p ''bb_period'' 20) (pf64 p ''bb_std'' (lit 2)) (pu p ''rsi_period'' 14) (pf64 p ''oversold'' (lit 35)) (pf64 p ''overbought'' (lit 65)))),
      (''adx_ema_cross'', map_option (StTrend \<circ> StAdxEmaCross) (adx_ema_cross_new (pu p ''fast'' 20) (pu p ''slow'' 50) (pu p ''adx_period'' 14) (pf64 p ''adx_threshold'' (lit 25)))),
      (''lsma_cross'', map_option (StTrend \<circ> StLsmaCross) (lsma_cross_new (pu p ''fast'' 20) (pu p ''slow'' 50))),
      (''alma_cross'', map_option (StTrend \<circ> StAlmaCross) (alma_cross_new lm (pu p ''fast'' 9) (pu p ''slow'' 21) (pf64 p ''offset'' (lit (17 / 20))) (pf64 p ''sigma'' (lit 6)))),
      (''vwma_rsi'', map_option (StVolume \<circ> StVwmaRsi) (vwma_rsi_new (pu p ''vwma_period'' 20) (pu p ''rsi_period'' 14) (pf64 p ''rsi_entry'' (lit 50)) (pf64 p ''rsi_exit'' (lit 45)))),
      (''smi_reversal'', map_option (StMomentum \<circ> StSmiReversal) (smi_reversal_new (pu p ''period'' 13) (pu p ''smooth1'' 25) (pu p ''smooth2'' 2) (pu p ''signal_period'' 9) (pf64 p ''oversold'' (- lit 40)) (pf64 p ''overbought'' (lit 40)))),
      (''ppo_histogram'', map_option (StMomentum \<circ> StPpoHistogram) (ppo_histogram_new (pu p ''fast'' 12) (pu p ''slow'' 26) (pu p ''signal'' 9))),
      (''pixel_3'', map_option StPixel3 (pixel_3_new [] (pu p ''short'' 5) (pu p ''medium'' 20) (pu p ''long'' 60)))]"

text \<open>The arms of the match that construct a strategy; a constructor that panics is \<open>None\<close>.\<close>

definition strategy_arms :: "mathlib \<Rightarrow> json \<Rightarrow> (string \<times> ('i, 'ast) named_strategy option) list" where
  "strategy_arms lm p = classic_arms lm p @ multi_arms lm p @ level_arms lm p @ recent_arms lm p"

datatype strategy_error =
    MissingScript
  | ScriptRejected script_error
  | NotImplemented string
  | UnknownStrategy string

definition script_from_params ::
  "'i indicator_ops \<Rightarrow> ('ast, 'sc) rhai \<Rightarrow> json \<Rightarrow> (strategy_error + ('i, 'ast) script_strategy) option" where
  "script_from_params io rh p =
     (case Option.bind (json_get p ''script'') json_as_str of
        None \<Rightarrow> Some (Inl MissingScript)
      | Some script \<Rightarrow>
          (let live = (case Option.bind (json_get p ''_live'') json_as_bool of Some b \<Rightarrow> b | None \<Rightarrow> False)
           in map_option (map_sum ScriptRejected id) (script_build io rh script (\<not> live))))"

definition build_strategy ::
  "mathlib \<Rightarrow> 'i indicator_ops \<Rightarrow> ('ast, 'sc) rhai \<Rightarrow> string \<Rightarrow> json \<Rightarrow>
   (strategy_error + ('i, 'ast) named_strategy) option" where
  "build_strategy lm io rh name p =
     (if name = ''script'' then map_option (map_sum id StScript) (script_from_params io rh p)
      else if name = ''mcdx'' \<or> name = ''crypto_rider'' then Some (Inl (NotImplemented name))
      else case map_of (strategy_arms lm p) name of
        Some (Some s) \<Rightarrow> Some (Inr s)
      | Some None \<Rightarrow> None
      | None \<Rightarrow> Some (Inl (UnknownStrategy name)))"

definition indicator_deps :: "'i indicator_ops \<Rightarrow> string \<Rightarrow> json \<Rightarrow> (json \<times> timeframe option) list" where
  "indicator_deps io name p =
     (if name = ''script'' then
        (case Option.bind (json_get p ''script'') json_as_str of
           None \<Rightarrow> []
         | Some script \<Rightarrow> script_indicator_deps io script)
      else [])"

definition build_strategy_with_deps ::
  "mathlib \<Rightarrow> 'i indicator_ops \<Rightarrow> ('ast, 'sc) rhai \<Rightarrow> string \<Rightarrow> json \<Rightarrow>
   (strategy_error + ('i, 'ast) named_strategy \<times> (json \<times> timeframe option) list) option" where
  "build_strategy_with_deps lm io rh name p =
     map_option (map_sum id (\<lambda>s. (s, indicator_deps io name p))) (build_strategy lm io rh name p)"

section \<open>Every built strategy is live\<close>

primrec named_live :: "mathlib \<Rightarrow> string \<Rightarrow> ('i, 'ast) named_strategy \<Rightarrow> bool" where
  "named_live lm y (StTrend s) \<longleftrightarrow> trend_live lm s"
| "named_live lm y (StMomentum s) \<longleftrightarrow> momentum_live lm s"
| "named_live lm y (StVolume s) \<longleftrightarrow> volume_live lm s"
| "named_live lm y (StVolatility s) \<longleftrightarrow> volatility_live lm s"
| "named_live lm y (StPattern s) \<longleftrightarrow> pattern_live lm s"
| "named_live lm y (StComposite s) \<longleftrightarrow> composite_live lm s"
| "named_live lm y (StPixel3 s) \<longleftrightarrow> pixel_3_live y s"
| "named_live lm y (StPatternBreakout s) \<longleftrightarrow> True"
| "named_live lm y (StScript s) \<longleftrightarrow> False"

definition restored :: "('i, 'ast) named_strategy \<Rightarrow> bool" where
  "restored st \<longleftrightarrow> (case st of StPixel3 _ \<Rightarrow> False | StScript _ \<Rightarrow> False | _ \<Rightarrow> True)"

definition strategy_names :: "string list" where
  "strategy_names =
     [''ma_crossover'', ''triple_ema'', ''hma_crossover'', ''rsi_mean_rev'', ''macd_crossover'', ''macd_ma'',
      ''waddah_attar'', ''stochastic_crossover'', ''stochastic_dk'', ''range_rover'', ''reversal_catcher'',
      ''atr_trailing'', ''volatility_squeezer'', ''volatility_vanguard'', ''volatility_ratio'', ''bollinger_macd'',
      ''bb_squeeze'', ''mean_reversion'', ''bb_keltner_squeeze'', ''dmi_adx'', ''wolfstein'', ''trend_transition'',
      ''swing_trader'', ''oscillator_overlord'', ''equilibrium_explorer'', ''trend_follower'', ''ma_pullback'',
      ''cci_reversal'', ''supertrend'', ''supertrend_macd'', ''parabolic_sar'', ''heiken_ashi_color'',
      ''heiken_ashi_breakout'', ''heiken_ashi_harmonizer'', ''gmma_crossover'', ''ichimoku_cloud'',
      ''ichimoku_cross'', ''scalping_ema'', ''dema_crossover'', ''donchian_breakout'', ''elder_ray'',
      ''aroon_trend'', ''chandelier_exit'', ''vwap_bounce'', ''vwap_trend'', ''momentum_roc'', ''dual_momentum'',
      ''price_action_swing'', ''orb_breakout'', ''highest_breakout'', ''keltner_breakout'', ''mfi_trend'',
      ''mfi_revert'', ''roc'', ''kst'', ''trix'', ''alligator'', ''rwi'', ''pattern_breakout'', ''kama'', ''tsi'',
      ''stoch_rsi'', ''chop_filter'', ''connors_rsi'', ''kdj'', ''ao'', ''tema_crossover'', ''williams_r_ma'',
      ''fisher_crossover'', ''uo_reversal'', ''cmo_zero_cross'', ''vortex_trend'', ''cmf_ema_trend'',
      ''obv_ema_trend'', ''rsi_ma_cross'', ''bb_rsi_reversal'', ''adx_ema_cross'', ''lsma_cross'', ''alma_cross'',
      ''vwma_rsi'', ''smi_reversal'', ''ppo_histogram'', ''pixel_3'']"

lemmas family_answers = trend_family.answers_boxed momentum_family.answers_boxed volume_family.answers_boxed
  volatility_family.answers_boxed pattern_family.answers_boxed composite_family.answers_boxed

lemmas family_resets = trend_family.resets momentum_family.resets volume_family.resets
  volatility_family.resets pattern_family.resets composite_family.resets

lemma named_answers:
  "bar_of y b \<Longrightarrow> named_live lm y st \<Longrightarrow>
   runs (\<lambda>st' sigs. named_live lm y st' \<and> proper b sigs) (named_on_bar lm io rh st b)"
  by (cases st) (simp_all add: trend_family.answers momentum_family.answers volume_family.answers
    volatility_family.answers pattern_family.answers composite_family.answers px3.answers pattern_breakout_on_bar_def)

lemma named_resets: "named_live lm y st \<Longrightarrow> gives (named_live lm y) (named_reset lm io st)"
  by (cases st) (simp_all add: family_resets px3.resets pattern_breakout_reset_def)

lemma named_answers_restored:
  "bar_of y b \<Longrightarrow> named_live lm y st \<and> restored st \<Longrightarrow>
   runs (\<lambda>st' sigs. (named_live lm y st' \<and> restored st') \<and> proper b sigs \<and>
     named_reset lm io st' = named_reset lm io st) (named_on_bar lm io rh st b)"
  by (cases st) (simp_all add: restored_def family_answers pattern_breakout_on_bar_def)

lemma named_resets_restored:
  "named_live lm y st \<and> restored st \<Longrightarrow> gives (\<lambda>st. named_live lm y st \<and> restored st) (named_reset lm io st)"
  by (cases st) (simp_all add: restored_def family_resets pattern_breakout_reset_def)

interpretation named: bar_strategy y "named_on_bar lm io rh" "named_reset lm io" "named_live lm y" for y lm io rh
  by unfold_locales (rule named_answers named_resets; assumption)+

interpretation named_restored: restoring y "named_on_bar lm io rh" "named_reset lm io" "\<lambda>st. named_live lm y st \<and> restored st"
  for y lm io rh
  by (rule restoringI) (rule named_answers_restored named_resets_restored; assumption)+


end
