(* ===== verification/Factory_Theorems.thy ===== *)
theory Factory_Theorems
  imports Named_Strategies Box_Theorems
begin

text \<open>
  The strategies the factory builds: every arm yields a live strategy that its reset restores, every name builds with the
  default parameters, and what a map of numbers configures.
\<close>

section \<open>What the arms build\<close>

lemmas arm_defs = strategy_arms_def classic_arms_def multi_arms_def level_arms_def recent_arms_def

lemma arm_names: "map fst (strategy_arms lm p) = strategy_names"
  by (simp add: arm_defs strategy_names_def)

text \<open>The alligator strategy restores the ribbon of the default periods, whatever it was built with.\<close>

definition default_jaws :: "json \<Rightarrow> bool" where
  "default_jaws p \<longleftrightarrow> pu p ''jaw'' 13 = 13 \<and> pu p ''teeth'' 8 = 8 \<and> pu p ''lips'' 5 = 5"

definition arm_ok :: "mathlib \<Rightarrow> string \<Rightarrow> json \<Rightarrow> string \<times> ('i, 'ast) named_strategy option \<Rightarrow> bool" where
  "arm_ok lm y p arm \<longleftrightarrow>
     (\<forall>st. snd arm = Some st \<longrightarrow> named_live lm y st \<and>
        (fst arm = ''pixel_3'' \<or> fst arm = ''alligator'' \<and> \<not> default_jaws p \<or>
         restored st \<and> (\<forall>io. named_reset lm io st = Some st)))"

lemma arm_okI:
  assumes "\<And>s. os = Some s \<Longrightarrow> named_live lm y (C s) \<and> restored (C s) \<and> (\<forall>io. named_reset lm io (C s) = Some (C s))"
  shows "arm_ok lm y p (name, map_option C os)"
  using assms by (auto simp: arm_ok_def)

lemma pixel_arm_ok: "arm_ok lm y p (''pixel_3'', map_option StPixel3 (pixel_3_new [] a b c))"
  using px3_built by (auto simp: arm_ok_def)

lemma alligator_arm_ok:
  "arm_ok lm y p (''alligator'', map_option (StPattern \<circ> StAlligatorStrategy)
     (alligator_strategy_new (pu p ''jaw'' 13) (pu p ''teeth'' 8) (pu p ''lips'' 5)))"
  using als_built by (auto simp: arm_ok_def restored_def default_jaws_def)

lemma breakout_arm_ok: "arm_ok lm y p (name, Some (StPatternBreakout s))"
  by (simp add: arm_ok_def restored_def pattern_breakout_reset_def)

lemmas arms_built =
  mac_built tre_built hmc_built rmr_built mcc_built mcm_built waa_built stc_built sdk_built rar_built
  rec_built ats_built vsq_built vva_built vrb_built bom_built bsq_built mer_built bks_built dma_built
  wol_built trt_built swt_built oso_built eqe_built trf_built map_built ccr_built sus_built sum_built
  sas_built hac_built hab_built hah_built gmc_built icl_built icx_built sce_built dec_built dob_built
  ers_built art_built ces_built vwb_built vwt_built mro_built dum_built pas_built orb_built hib_built
  keb_built mft_built mfr_built rcx_built txs_built rws_built kas_built tss_built srs_built cfs_built
  cns_built kds_built aos_built tec_built wrm_built fic_built uor_built czc_built vot_built cet_built
  oet_built rmx_built brr_built aec_built lsc_built alc_built vmr_built smr_built pph_built

lemma list_all_nil: "list_all P []" by simp

lemma arms_ok: "list_all (arm_ok lm y p) (strategy_arms lm p)"
  unfolding strategy_arms_def list_all_append classic_arms_def multi_arms_def level_arms_def recent_arms_def list.pred_inject
  by (rule conjI list_all_nil TrueI pixel_arm_ok alligator_arm_ok breakout_arm_ok | (rule arm_okI, drule arms_built, simp add: restored_def))+

lemma run_bars_script:
  "run_bars (named_on_bar lm io rh) (StScript s) bs = map_option (\<lambda>(s', out). (StScript s', out)) (script_run io rh s bs)"
proof (induction bs arbitrary: s)
  case (Cons b bs)
  then show ?case by (cases "script_on_bar io rh s b") (auto simp: option.map_comp comp_def split_def)
qed simp

lemma script_from_params_ok:
  assumes "script_from_params io rh p = Some (Inr s)"
  shows "script_ok s"
proof -
  obtain script c r where r: "script_build io rh script c = Some r" "map_sum ScriptRejected id r = Inr s"
    using assms by (auto simp: script_from_params_def Let_def split: option.splits)
  then have "r = Inr s" by (cases r) simp_all
  then show ?thesis using script_build_ok r(1) by blast
qed

lemma built_script:
  assumes "build_strategy lm io rh ''script'' p = Some (Inr st)"
  shows "\<exists>s. script_from_params io rh p = Some (Inr s) \<and> st = StScript s"
proof -
  obtain r where r: "script_from_params io rh p = Some r" "map_sum id StScript r = Inr st"
    using assms by (auto simp: build_strategy_def)
  then show ?thesis by (cases r) simp_all
qed

lemma built_arm:
  assumes "build_strategy lm io rh name p = Some (Inr st)" "name \<noteq> ''script''"
  shows "arm_ok lm y p (name, Some st)"
proof -
  have "map_of (strategy_arms lm p) name = Some (Some st)"
    using assms by (auto simp: build_strategy_def split: if_splits option.splits)
  then have "(name, Some st) \<in> set (strategy_arms lm p)" by (rule map_of_SomeD)
  then show ?thesis using arms_ok [of lm y p] by (auto simp: list_all_iff)
qed

section \<open>Default parameters\<close>

lemma param_defaults [simp]: "pu JNull key d = d" "pf64 JNull key x = x"
  by (simp_all add: pu_def pf64_def)

lemma json_f64_reads [simp]:
  "json_as_u64 (json_f64 v) = None" "json_as_f64 (json_f64 v) = (if is_finite v then Some v else None)"
  by (simp_all add: json_f64_def)

lemma params_from_map_simps [simp]:
  "pu (params_from_map m) key d = d"
  "pf64 (params_from_map m) key x = (case hm_get m key of Some v \<Rightarrow> if is_finite v then v else x | None \<Rightarrow> x)"
  "json_get (params_from_map m) key = map_option json_f64 (hm_get m key)"
  by (cases "hm_get m key"; simp add: params_from_map_def pu_def pf64_def map_of_map)+

lemma default_arms_build: "list_all (\<lambda>(name, os). os \<noteq> None) (strategy_arms lm JNull)"
  unfolding strategy_arms_def list_all_append classic_arms_def multi_arms_def level_arms_def recent_arms_def
  by (simp add: ma_crossover_new_def triple_ema_new_def hma_crossover_new_def rsi_mean_rev_new_def
    macd_crossover_new_def macd_ma_new_def waddah_attar_new_def stochastic_crossover_new_def
    stochastic_dk_new_def range_rover_new_def reversal_catcher_new_def atr_trailing_stop_new_def
    volatility_squeezer_new_def volatility_vanguard_new_def volatility_ratio_breakout_new_def
    bollinger_macd_new_def bb_squeeze_new_def mean_reversion_new_def bb_keltner_squeeze_new_def
    dmi_adx_new_def wolfstein_new_def trend_transition_new_def swing_trader_new_def
    oscillator_overlord_new_def equilibrium_explorer_new_def trend_follower_new_def ma_pullback_new_def
    cci_reversal_new_def supertrend_strategy_new_def supertrend_macd_new_def sar_strategy_new_def
    ha_color_new_def ha_breakout_new_def ha_harmonizer_new_def gmma_crossover_new_def ichimoku_cloud_new_def
    ichimoku_cross_new_def scalping_ema_new_def dema_crossover_new_def donchian_breakout_new_def
    elder_ray_strategy_new_def aroon_trend_new_def chandelier_exit_strategy_new_def vwap_bounce_new_def
    vwap_trend_new_def momentum_roc_new_def dual_momentum_new_def price_action_swing_new_def
    orb_breakout_new_def highest_breakout_new_def keltner_breakout_new_def mfi_trend_new_def
    mfi_revert_new_def roc_crossover_new_def trix_strategy_new_def alligator_strategy_new_def
    rwi_strategy_new_def kama_strategy_new_def tsi_strategy_new_def stoch_rsi_strategy_new_def
    chop_filter_strategy_new_def connors_rsi_strategy_new_def kdj_strategy_new_def ao_strategy_new_def
    tema_crossover_new_def williams_r_ma_new_def fisher_crossover_new_def uo_reversal_new_def
    cmo_zero_cross_new_def vortex_trend_new_def cmf_ema_trend_new_def obv_ema_trend_new_def
    rsi_ma_cross_new_def bb_rsi_reversal_new_def adx_ema_cross_new_def lsma_cross_new_def alma_cross_new_def
    vwma_rsi_new_def smi_reversal_new_def ppo_histogram_new_def pixel_3_new_def
   sma_new_def ema_new_def wma_new_def dema_new_pos tema_new_pos smma_new_def
  mcginley_new_def rsi_new_def williams_new_def donchian_new_def atr_ind_new_pos
  hma_new_def alma_new_def lsma_new_def vwma_new_def kama_new_def macd_new_def trix_new_def adx_new_def dmi_new_def aroon_new_def vortex_new_def alligator_new_def gmma_new_def gmma_with_periods_def SHORT_PERIODS_def LONG_PERIODS_def heiken_ashi_new_start kdj_new_def
  cci_new_def roc_new_def mom_new_def cmo_new_def mfi_new_def stochastic_new_def stochastic_new_full_def stochastic_rsi_new_def tsi_new_def fisher_new_def ppo_new_def smi_new_def uo_new_def connors_rsi_new_def
  bbands_new_def keltner_new_def supertrend_new_def chop_new_def volatility_ratio_new_def rwi_new_def elder_ray_new_def quad_def hma_defaults default_literals rolling_new_def Let_def)

lemma unknown_arm: "name \<notin> set strategy_names \<Longrightarrow> map_of (strategy_arms lm p) name = None"
  using arm_names [of lm p] by (metis image_set map_of_eq_None_iff)

lemma known_name_builds:
  fixes io :: "'i indicator_ops" and rh :: "('ast, 'sc) rhai"
  assumes "name \<noteq> ''script''" "name \<noteq> ''mcdx''" "name \<noteq> ''crypto_rider''" "name \<in> set strategy_names"
  shows "\<exists>st. build_strategy lm io rh name JNull = Some (Inr st)"
proof -
  have "map_of (strategy_arms lm JNull :: (string \<times> ('i, 'ast) named_strategy option) list) name \<noteq> None"
    using assms(4) arm_names [of lm JNull] by (metis image_set map_of_eq_None_iff)
  then obtain os :: "('i, 'ast) named_strategy option" where os: "map_of (strategy_arms lm JNull) name = Some os" by blast
  moreover have "os \<noteq> None" using default_arms_build [of lm] map_of_SomeD [OF os] by (auto simp: list_all_iff)
  ultimately show ?thesis using assms(1-3) by (auto simp: build_strategy_def)
qed

section \<open>Properties\<close>


definition example_bars :: "bar list" where
  "example_bars = [bar_new 60000 ''BTC'' (Fin 100) (Fin 110) (Fin 90) (Fin 105) (Fin 1),
     bar_new 120000 ''BTC'' (Fin 105) (Fin 120) (Fin 100) (Fin 118) (Fin 2)]"


text \<open>C29. The factory is total on names. Each of the strategy names is built from the default parameters; a name it
  reserves for a strategy without a formula is refused as not implemented, a script needs its text, and every other
  name is refused as unknown. It panics only for a strategy name or a script, and it does so for a crossover whose fast
  period is not below the slow one.\<close>

theorem factory_knows_its_names:
  "(name \<in> set strategy_names \<longrightarrow> (\<exists>st. build_strategy lm io rh name JNull = Some (Inr st))) \<and>
   (name = ''mcdx'' \<or> name = ''crypto_rider'' \<longrightarrow> build_strategy lm io rh name p = Some (Inl (NotImplemented name))) \<and>
   build_strategy lm io rh ''script'' JNull = Some (Inl MissingScript) \<and>
   (name \<notin> set strategy_names \<union> {''script'', ''mcdx'', ''crypto_rider''} \<longrightarrow>
      build_strategy lm io rh name p = Some (Inl (UnknownStrategy name))) \<and>
   (pu p ''slow'' 50 \<le> pu p ''fast'' 20 \<longrightarrow> build_strategy lm io rh ''ma_crossover'' p = None)"
proof (intro conjI impI)
  assume known: "name \<in> set strategy_names"
  have "\<not> list_ex (\<lambda>n. n = ''script'' \<or> n = ''mcdx'' \<or> n = ''crypto_rider'') strategy_names"
    by (simp add: strategy_names_def)
  then have "name \<noteq> ''script''" "name \<noteq> ''mcdx''" "name \<noteq> ''crypto_rider''"
    using known by (auto simp: list_ex_iff)
  then show "\<exists>st. build_strategy lm io rh name JNull = Some (Inr st)" using known by (rule known_name_builds)
next
  assume "name \<notin> set strategy_names \<union> {''script'', ''mcdx'', ''crypto_rider''}"
  then show "build_strategy lm io rh name p = Some (Inl (UnknownStrategy name))"
    by (simp add: build_strategy_def unknown_arm)
qed (auto simp: build_strategy_def script_from_params_def strategy_arms_def classic_arms_def ma_crossover_new_def)

theorem factory_knows_its_names_witness:
  "(\<exists>st. build_strategy example_math example_ops example_rhai ''alma_cross'' JNull = Some (Inr st)) \<and>
   build_strategy example_math example_ops example_rhai ''mcdx'' JNull = Some (Inl (NotImplemented ''mcdx'')) \<and>
   build_strategy example_math example_ops example_rhai ''sma'' JNull = Some (Inl (UnknownStrategy ''sma'')) \<and>
   build_strategy example_math example_ops example_rhai ''ma_crossover'' (JObj [(''fast'', JInt 30), (''slow'', JInt 30)]) = None"
  using factory_knows_its_names [of "''alma_cross''" example_math example_ops example_rhai JNull]
    factory_knows_its_names [of "''mcdx''" example_math example_ops example_rhai JNull]
    factory_knows_its_names [of "''sma''" example_math example_ops example_rhai JNull]
    factory_knows_its_names [of "''sma''" example_math example_ops example_rhai "JObj [(''fast'', JInt 30), (''slow'', JInt 30)]"]
  by (simp add: strategy_names_def pu_def)

definition counted_names :: "string list" where
  "counted_names =
     [''ma_crossover'', ''triple_ema'', ''hma_crossover'', ''macd_crossover'', ''macd_ma'', ''stochastic_dk'',
      ''reversal_catcher'', ''volatility_squeezer'', ''oscillator_overlord'', ''trend_follower'', ''ma_pullback'',
      ''heiken_ashi_color'', ''heiken_ashi_breakout'', ''heiken_ashi_harmonizer'', ''gmma_crossover'',
      ''ichimoku_cloud'', ''ichimoku_cross'', ''scalping_ema'', ''dema_crossover'', ''donchian_breakout'',
      ''elder_ray'', ''vwap_trend'', ''dual_momentum'', ''price_action_swing'', ''orb_breakout'',
      ''highest_breakout'', ''roc'', ''kst'', ''trix'', ''alligator'', ''pattern_breakout'', ''kama'', ''ao'',
      ''tema_crossover'', ''fisher_crossover'', ''cmo_zero_cross'', ''vortex_trend'', ''obv_ema_trend'',
      ''lsma_cross'', ''ppo_histogram'', ''pixel_3'']"

lemma fractional_arms:
  "''rsi_mean_rev'' \<notin> set counted_names"
  "''waddah_attar'' \<notin> set counted_names"
  "''stochastic_crossover'' \<notin> set counted_names"
  "''range_rover'' \<notin> set counted_names"
  "''atr_trailing'' \<notin> set counted_names"
  "''volatility_vanguard'' \<notin> set counted_names"
  "''volatility_ratio'' \<notin> set counted_names"
  "''bollinger_macd'' \<notin> set counted_names"
  "''bb_squeeze'' \<notin> set counted_names"
  "''mean_reversion'' \<notin> set counted_names"
  "''bb_keltner_squeeze'' \<notin> set counted_names"
  "''dmi_adx'' \<notin> set counted_names"
  "''wolfstein'' \<notin> set counted_names"
  "''trend_transition'' \<notin> set counted_names"
  "''swing_trader'' \<notin> set counted_names"
  "''equilibrium_explorer'' \<notin> set counted_names"
  "''cci_reversal'' \<notin> set counted_names"
  "''supertrend'' \<notin> set counted_names"
  "''supertrend_macd'' \<notin> set counted_names"
  "''parabolic_sar'' \<notin> set counted_names"
  "''aroon_trend'' \<notin> set counted_names"
  "''chandelier_exit'' \<notin> set counted_names"
  "''vwap_bounce'' \<notin> set counted_names"
  "''momentum_roc'' \<notin> set counted_names"
  "''keltner_breakout'' \<notin> set counted_names"
  "''mfi_trend'' \<notin> set counted_names"
  "''mfi_revert'' \<notin> set counted_names"
  "''rwi'' \<notin> set counted_names"
  "''tsi'' \<notin> set counted_names"
  "''stoch_rsi'' \<notin> set counted_names"
  "''chop_filter'' \<notin> set counted_names"
  "''connors_rsi'' \<notin> set counted_names"
  "''kdj'' \<notin> set counted_names"
  "''williams_r_ma'' \<notin> set counted_names"
  "''uo_reversal'' \<notin> set counted_names"
  "''cmf_ema_trend'' \<notin> set counted_names"
  "''rsi_ma_cross'' \<notin> set counted_names"
  "''bb_rsi_reversal'' \<notin> set counted_names"
  "''adx_ema_cross'' \<notin> set counted_names"
  "''alma_cross'' \<notin> set counted_names"
  "''vwma_rsi'' \<notin> set counted_names"
  "''smi_reversal'' \<notin> set counted_names"
  by code_simp+

text \<open>Two arms agree when they are the same, or when their strategy has a fractional parameter.\<close>

definition same_count :: "string \<times> 'a \<Rightarrow> string \<times> 'a \<Rightarrow> bool" where
  "same_count a b \<longleftrightarrow> fst a = fst b \<and> (fst a \<in> set counted_names \<longrightarrow> snd a = snd b)"

lemma same_countI: "same_count a a" "n \<notin> set counted_names \<Longrightarrow> same_count (n, x) (n, z)"
  by (simp_all add: same_count_def)

lemma map_of_same_count: "list_all2 same_count xs zs \<Longrightarrow> n \<in> set counted_names \<Longrightarrow> map_of xs n = map_of zs n"
  by (induction rule: list_all2_induct) (auto simp: same_count_def)

lemma counted_arms: "list_all2 same_count (strategy_arms lm (params_from_map m)) (strategy_arms lm JNull)"
  unfolding arm_defs append.simps params_from_map_simps(1) param_defaults(1)
  by (rule list.rel_intros same_countI(1) | (rule same_countI(2), rule fractional_arms))+

text \<open>C30. Parameters that arrive as a map of numbers configure only the fractional parameters: every number becomes a
  floating-point value, a finite one is read back exactly, but the reader of a count accepts integers only and falls
  back to its default. So a strategy with counts only is always built with its defaults, whatever the map says, and a
  script cannot be configured at all.\<close>

theorem counts_in_a_map_are_ignored:
  "pf64 (params_from_map m) key x = (case hm_get m key of Some v \<Rightarrow> if is_finite v then v else x | None \<Rightarrow> x) \<and>
   pu (params_from_map m) key d = d \<and>
   (name \<in> set counted_names \<longrightarrow>
      build_strategy lm io rh name (params_from_map m) = build_strategy lm io rh name JNull) \<and>
   build_strategy lm io rh ''script'' (params_from_map m) = Some (Inl MissingScript)"
proof (intro conjI impI)
  assume "name \<in> set counted_names"
  then have eq: "map_of (strategy_arms lm (params_from_map m)) name = map_of (strategy_arms lm JNull) name"
    by (rule map_of_same_count [OF counted_arms])
  have "\<not> list_ex (\<lambda>n. n = ''script'') counted_names" by (simp add: counted_names_def)
  then have "name \<noteq> ''script''" using \<open>name \<in> set counted_names\<close> by (auto simp: list_ex_iff)
  then show "build_strategy lm io rh name (params_from_map m) = build_strategy lm io rh name JNull"
    by (simp add: build_strategy_def eq)
next
  show "build_strategy lm io rh ''script'' (params_from_map m) = Some (Inl MissingScript)"
    by (cases "hm_get m ''script''") (simp_all add: build_strategy_def script_from_params_def json_f64_def)
qed simp_all

theorem counts_in_a_map_are_ignored_witness:
  "pf64 (params_from_map [(''oversold'', Fin 25)]) ''oversold'' 0 = Fin 25 \<and>
   pu (params_from_map [(''fast'', Fin 5)]) ''fast'' 20 = 20 \<and>
   build_strategy example_math example_ops example_rhai ''ma_crossover'' (params_from_map [(''fast'', Fin 5)]) =
     build_strategy example_math example_ops example_rhai ''ma_crossover'' JNull"
  using counts_in_a_map_are_ignored [of "[(''oversold'', Fin 25)]" "''oversold''" 0 20 "''ma_crossover''" example_math example_ops example_rhai]
    counts_in_a_map_are_ignored [of "[(''fast'', Fin 5)]" "''fast''" 0 20 "''ma_crossover''" example_math example_ops example_rhai]
  by (simp add: counted_names_def)

end
