(* ===== verification/Named_Mtf.thy ===== *)
theory Named_Mtf
  imports Named_Base Mtf_Engines Indicator_Box
begin

text \<open>
  \<open>alm-strategy/src/named/mtf\<close> and \<open>mtf_factory.rs\<close>: the named strategies on several timeframes. On each tick they take
  the bars that closed, feed those of the hour to their slow indicators and answer the bar of the base timeframe. The
  contract is the locale \<open>mtf_answering\<close>: a live strategy answers every snapshot and stays live, and \<open>reset\<close> leads back
  to the one state the constructor returned.
\<close>

section \<open>Bars of the hour\<close>

primrec on_h1 :: "('s \<Rightarrow> bar \<Rightarrow> 's option) \<Rightarrow> 's \<Rightarrow> tf_bar_event list \<Rightarrow> 's option" where
  "on_h1 f s [] = Some s"
| "on_h1 f s (ev # evs) = (if fst ev = H1 then Option.bind (f s (snd ev)) (\<lambda>s'. on_h1 f s' evs) else on_h1 f s evs)"

definition unwrap_or :: "f64 \<Rightarrow> f64 option \<Rightarrow> f64" where
  "unwrap_or d v = (case v of Some x \<Rightarrow> x | None \<Rightarrow> d)"

section \<open>\<open>MtfEmaRsiStrategy\<close>\<close>

record mtf_ema_rsi =
  mer_h1_ema :: ema
  mer_m1_rsi :: rsi
  mer_prev_h1 :: f64
  mer_curr_h1 :: f64
  mer_h1_count :: nat

definition mtf_ema_rsi_new :: "mtf_ema_rsi option" where
  "mtf_ema_rsi_new = do {
     i1 \<leftarrow> ema_new 20;
     i2 \<leftarrow> rsi_new 14;
     Some \<lparr>mer_h1_ema = i1, mer_m1_rsi = i2, mer_prev_h1 = 0, mer_curr_h1 = 0, mer_h1_count = 0\<rparr>
   }"

definition mtf_ema_rsi_reset :: "mtf_ema_rsi \<Rightarrow> mtf_ema_rsi option" where
  "mtf_ema_rsi_reset s = do {
     i1 \<leftarrow> ema_new 20;
     i2 \<leftarrow> rsi_new 14;
     Some (s\<lparr>mer_h1_ema := i1, mer_m1_rsi := i2, mer_prev_h1 := 0, mer_curr_h1 := 0, mer_h1_count := 0\<rparr>)
   }"

definition mer_hour :: "mtf_ema_rsi \<Rightarrow> bar \<Rightarrow> mtf_ema_rsi option" where
  "mer_hour s b = do {
     (i, v) \<leftarrow> ema_update (mer_h1_ema s) (b_close b);
     let s = s\<lparr>mer_h1_ema := i\<rparr>;
     Some (case v of
         Some x \<Rightarrow> s\<lparr>mer_prev_h1 := mer_curr_h1 s, mer_curr_h1 := x, mer_h1_count := mer_h1_count s + 1\<rparr>
       | None \<Rightarrow> s)
   }"

definition mtf_ema_rsi_on_bars :: "mtf_ema_rsi \<Rightarrow> mtf_snapshot \<Rightarrow> (mtf_ema_rsi \<times> signal list) option" where
  "mtf_ema_rsi_on_bars s sn = do {
     s \<leftarrow> on_h1 mer_hour s (sn_events sn);
     case base_bar sn of
       None \<Rightarrow> Some (s, [])
     | Some b \<Rightarrow> do {
         (i, v) \<leftarrow> rsi_update (mer_m1_rsi s) (b_close b);
         let s = s\<lparr>mer_m1_rsi := i\<rparr>;
         let rsi = unwrap_or 0 v;
         Some (s,
           if mer_h1_count s < 2 then []
           else if mer_curr_h1 s > mer_prev_h1 s \<and> rsi < lit 40 then long_at b 1
           else if mer_curr_h1 s < mer_prev_h1 s \<or> rsi > lit 70 then exit_at b
           else [])
       }
   }"

section \<open>\<open>MtfMaCrossStrategy\<close>\<close>

record mtf_ma_cross =
  mmc_h1_ema50 :: ema
  mmc_m1_fast :: ema
  mmc_m1_slow :: ema
  mmc_curr_h1 :: f64
  mmc_h1_count :: nat
  mmc_prev_fast :: "f64 option"
  mmc_curr_fast :: "f64 option"
  mmc_prev_slow :: "f64 option"
  mmc_curr_slow :: "f64 option"

definition mtf_ma_cross_new :: "mtf_ma_cross option" where
  "mtf_ma_cross_new = do {
     i1 \<leftarrow> ema_new 50;
     i2 \<leftarrow> ema_new 9;
     i3 \<leftarrow> ema_new 21;
     Some \<lparr>mmc_h1_ema50 = i1, mmc_m1_fast = i2, mmc_m1_slow = i3, mmc_curr_h1 = 0, mmc_h1_count = 0,
       mmc_prev_fast = None, mmc_curr_fast = None, mmc_prev_slow = None, mmc_curr_slow = None\<rparr>
   }"

definition mtf_ma_cross_reset :: "mtf_ma_cross \<Rightarrow> mtf_ma_cross option" where
  "mtf_ma_cross_reset s = do {
     i1 \<leftarrow> ema_new 50;
     i2 \<leftarrow> ema_new 9;
     i3 \<leftarrow> ema_new 21;
     Some (s\<lparr>mmc_h1_ema50 := i1, mmc_m1_fast := i2, mmc_m1_slow := i3, mmc_curr_h1 := 0, mmc_h1_count := 0,
       mmc_prev_fast := None, mmc_curr_fast := None, mmc_prev_slow := None, mmc_curr_slow := None\<rparr>)
   }"

definition mmc_hour :: "mtf_ma_cross \<Rightarrow> bar \<Rightarrow> mtf_ma_cross option" where
  "mmc_hour s b = do {
     (i, v) \<leftarrow> ema_update (mmc_h1_ema50 s) (b_close b);
     let s = s\<lparr>mmc_h1_ema50 := i\<rparr>;
     Some (case v of
         Some x \<Rightarrow> s\<lparr>mmc_curr_h1 := x, mmc_h1_count := mmc_h1_count s + 1\<rparr>
       | None \<Rightarrow> s)
   }"

definition mtf_ma_cross_on_bars :: "mtf_ma_cross \<Rightarrow> mtf_snapshot \<Rightarrow> (mtf_ma_cross \<times> signal list) option" where
  "mtf_ma_cross_on_bars s sn = do {
     s \<leftarrow> on_h1 mmc_hour s (sn_events sn);
     case base_bar sn of
       None \<Rightarrow> Some (s, [])
     | Some b \<Rightarrow> do {
         (i, v) \<leftarrow> ema_update (mmc_m1_fast s) (b_close b);
         (j, w) \<leftarrow> ema_update (mmc_m1_slow s) (b_close b);
         let s = s\<lparr>mmc_m1_fast := i, mmc_prev_fast := mmc_curr_fast s, mmc_curr_fast := v,
                   mmc_m1_slow := j, mmc_prev_slow := mmc_curr_slow s, mmc_curr_slow := w\<rparr>;
         Some (s,
           if mmc_h1_count s < 2 then []
           else case (mmc_prev_fast s, mmc_curr_fast s, mmc_prev_slow s, mmc_curr_slow s) of
             (Some pf, Some cf, Some ps, Some cs) \<Rightarrow>
               if b_close b > mmc_curr_h1 s \<and> pf \<le> ps \<and> cf > cs then long_at b 1
               else if b_close b < mmc_curr_h1 s \<or> pf \<ge> ps \<and> cf < cs then exit_at b
               else []
           | _ \<Rightarrow> [])
       }
   }"

section \<open>\<open>MtfAdxPullbackStrategy\<close>\<close>

record mtf_adx_pullback =
  map_h1_adx :: adx
  map_h1_ema50 :: ema
  map_m1_rsi :: rsi
  map_curr_adx :: f64
  map_adx_count :: nat
  map_curr_h1 :: f64
  map_ema_count :: nat

definition mtf_adx_pullback_new :: "mtf_adx_pullback option" where
  "mtf_adx_pullback_new = do {
     i1 \<leftarrow> adx_new 14;
     i2 \<leftarrow> ema_new 50;
     i3 \<leftarrow> rsi_new 14;
     Some \<lparr>map_h1_adx = i1, map_h1_ema50 = i2, map_m1_rsi = i3, map_curr_adx = 0, map_adx_count = 0,
       map_curr_h1 = 0, map_ema_count = 0\<rparr>
   }"

definition mtf_adx_pullback_reset :: "mtf_adx_pullback \<Rightarrow> mtf_adx_pullback option" where
  "mtf_adx_pullback_reset s = do {
     i1 \<leftarrow> adx_new 14;
     i2 \<leftarrow> ema_new 50;
     i3 \<leftarrow> rsi_new 14;
     Some (s\<lparr>map_h1_adx := i1, map_h1_ema50 := i2, map_m1_rsi := i3, map_curr_adx := 0, map_adx_count := 0,
       map_curr_h1 := 0, map_ema_count := 0\<rparr>)
   }"

definition map_hour :: "mtf_adx_pullback \<Rightarrow> bar \<Rightarrow> mtf_adx_pullback option" where
  "map_hour s b = do {
     (i, v) \<leftarrow> adx_update (map_h1_adx s) (b_high b, b_low b, b_close b);
     let s = s\<lparr>map_h1_adx := i\<rparr>;
     let s = (case v of
         Some x \<Rightarrow> s\<lparr>map_curr_adx := adv_adx x, map_adx_count := map_adx_count s + 1\<rparr>
       | None \<Rightarrow> s);
     (j, w) \<leftarrow> ema_update (map_h1_ema50 s) (b_close b);
     let s = s\<lparr>map_h1_ema50 := j\<rparr>;
     Some (case w of
         Some x \<Rightarrow> s\<lparr>map_curr_h1 := x, map_ema_count := map_ema_count s + 1\<rparr>
       | None \<Rightarrow> s)
   }"

definition mtf_adx_pullback_on_bars ::
  "mtf_adx_pullback \<Rightarrow> mtf_snapshot \<Rightarrow> (mtf_adx_pullback \<times> signal list) option" where
  "mtf_adx_pullback_on_bars s sn = do {
     s \<leftarrow> on_h1 map_hour s (sn_events sn);
     case base_bar sn of
       None \<Rightarrow> Some (s, [])
     | Some b \<Rightarrow> do {
         (i, v) \<leftarrow> rsi_update (map_m1_rsi s) (b_close b);
         let s = s\<lparr>map_m1_rsi := i\<rparr>;
         let rsi = unwrap_or 0 v;
         Some (s,
           if map_adx_count s < 2 \<or> map_ema_count s < 2 then []
           else if map_curr_adx s > lit 25 \<and> b_close b > map_curr_h1 s \<and> rsi < lit 40 then long_at b 1
           else if map_curr_adx s < lit 20 \<or> b_close b < map_curr_h1 s \<or> rsi > lit 70 then exit_at b
           else [])
       }
   }"

section \<open>\<open>MtfBbMacdStrategy\<close>\<close>

record mtf_bb_macd =
  mbm_h1_bb :: bbands
  mbm_m1_macd :: macd
  mbm_m1_rsi :: rsi
  mbm_bb_upper :: f64
  mbm_bb_middle :: f64
  mbm_bb_count :: nat

definition mtf_bb_macd_new :: "mtf_bb_macd option" where
  "mtf_bb_macd_new = do {
     i1 \<leftarrow> bbands_new 20 (lit 2);
     i2 \<leftarrow> macd_new 12 26 9;
     i3 \<leftarrow> rsi_new 14;
     Some \<lparr>mbm_h1_bb = i1, mbm_m1_macd = i2, mbm_m1_rsi = i3, mbm_bb_upper = 0, mbm_bb_middle = 0, mbm_bb_count = 0\<rparr>
   }"

definition mtf_bb_macd_reset :: "mtf_bb_macd \<Rightarrow> mtf_bb_macd option" where
  "mtf_bb_macd_reset s = do {
     i1 \<leftarrow> bbands_new 20 (lit 2);
     i2 \<leftarrow> macd_new 12 26 9;
     i3 \<leftarrow> rsi_new 14;
     Some (s\<lparr>mbm_h1_bb := i1, mbm_m1_macd := i2, mbm_m1_rsi := i3, mbm_bb_upper := 0, mbm_bb_middle := 0,
       mbm_bb_count := 0\<rparr>)
   }"

definition mbm_hour :: "mtf_bb_macd \<Rightarrow> bar \<Rightarrow> mtf_bb_macd option" where
  "mbm_hour s b =
     (let (i, v) = bbands_update (mbm_h1_bb s) (b_close b);
          s = s\<lparr>mbm_h1_bb := i\<rparr>
      in Some (case v of
           Some x \<Rightarrow> s\<lparr>mbm_bb_upper := bbv_upper x, mbm_bb_middle := bbv_middle x, mbm_bb_count := mbm_bb_count s + 1\<rparr>
         | None \<Rightarrow> s))"

definition mtf_bb_macd_on_bars :: "mtf_bb_macd \<Rightarrow> mtf_snapshot \<Rightarrow> (mtf_bb_macd \<times> signal list) option" where
  "mtf_bb_macd_on_bars s sn = do {
     s \<leftarrow> on_h1 mbm_hour s (sn_events sn);
     case base_bar sn of
       None \<Rightarrow> Some (s, [])
     | Some b \<Rightarrow> do {
         (i, macd) \<leftarrow> macd_update (mbm_m1_macd s) (b_close b);
         (j, v) \<leftarrow> rsi_update (mbm_m1_rsi s) (b_close b);
         let s = s\<lparr>mbm_m1_macd := i, mbm_m1_rsi := j\<rparr>;
         let rsi = unwrap_or (lit 50) v;
         Some (s,
           if mbm_bb_count s < 2 then []
           else case macd of
             None \<Rightarrow> []
           | Some m \<Rightarrow>
               if b_close b > mbm_bb_upper s \<and> mv_histogram m > 0 \<and> rsi < lit 55 then long_at b 1
               else if b_close b < mbm_bb_middle s \<or> mv_histogram m < 0 then exit_at b
               else [])
       }
   }"

section \<open>\<open>KitchenSinkStrategy\<close>\<close>

text \<open>Histories hold the newest value first.\<close>

definition hist_push :: "f64 list \<Rightarrow> f64 \<Rightarrow> nat \<Rightarrow> f64 list" where
  "hist_push hist val cap = (let hist = val # hist in if length hist > cap then butlast hist else hist)"

definition cross_above :: "f64 list \<Rightarrow> f64 list \<Rightarrow> bool" where
  "cross_above a b \<longleftrightarrow> 2 \<le> length a \<and> 2 \<le> length b \<and> a ! 1 \<le> b ! 1 \<and> a ! 0 > b ! 0"

definition cross_below :: "f64 list \<Rightarrow> f64 list \<Rightarrow> bool" where
  "cross_below a b \<longleftrightarrow> 2 \<le> length a \<and> 2 \<le> length b \<and> a ! 1 \<ge> b ! 1 \<and> a ! 0 < b ! 0"

definition above :: "f64 list \<Rightarrow> f64 list \<Rightarrow> bool" where
  "above a b \<longleftrightarrow> a \<noteq> [] \<and> b \<noteq> [] \<and> a ! 0 > b ! 0"

definition rising_n :: "f64 list \<Rightarrow> nat \<Rightarrow> bool" where
  "rising_n arr n \<longleftrightarrow> n + 1 \<le> length arr \<and> list_all (\<lambda>i. arr ! i > arr ! (i + 1)) [0..<n]"

definition falling_n :: "f64 list \<Rightarrow> nat \<Rightarrow> bool" where
  "falling_n arr n \<longleftrightarrow> n + 1 \<le> length arr \<and> list_all (\<lambda>i. arr ! i < arr ! (i + 1)) [0..<n]"

definition momentum :: "f64 list \<Rightarrow> nat \<Rightarrow> f64" where
  "momentum arr n = (if n < length arr then arr ! 0 - arr ! n else 0)"

definition highest :: "f64 list \<Rightarrow> nat \<Rightarrow> f64" where
  "highest arr n = fold_max (take n arr)"

record kitchen_sink =
  ks_symbol :: string
  ks_ema9 :: ema
  ks_ema21 :: ema
  ks_ema50 :: ema
  ks_rsi14 :: rsi
  ks_adx14 :: adx
  ks_atr14 :: atr
  ks_macd :: macd
  ks_bb20 :: bbands
  ks_ema9_hist :: "f64 list"
  ks_ema21_hist :: "f64 list"
  ks_ema50_hist :: "f64 list"
  ks_rsi14_hist :: "f64 list"
  ks_adx14_hist :: "f64 list"
  ks_atr14_hist :: "f64 list"
  ks_bb_upper_hist :: "f64 list"
  ks_bb_lower_hist :: "f64 list"
  ks_close_buf :: "f64 list"
  ks_h1_ema :: ema
  ks_h1_ema_hist :: "f64 list"

definition kitchen_sink_new :: "string \<Rightarrow> kitchen_sink option" where
  "kitchen_sink_new y = do {
     i1 \<leftarrow> ema_new 9;
     i2 \<leftarrow> ema_new 21;
     i3 \<leftarrow> ema_new 50;
     i4 \<leftarrow> rsi_new 14;
     i5 \<leftarrow> adx_new 14;
     i6 \<leftarrow> atr_ind_new 14;
     i7 \<leftarrow> macd_new 12 26 9;
     i8 \<leftarrow> bbands_new 20 (lit 2);
     i9 \<leftarrow> ema_new 20;
     Some \<lparr>ks_symbol = y, ks_ema9 = i1, ks_ema21 = i2, ks_ema50 = i3, ks_rsi14 = i4, ks_adx14 = i5, ks_atr14 = i6,
       ks_macd = i7, ks_bb20 = i8, ks_ema9_hist = [], ks_ema21_hist = [], ks_ema50_hist = [], ks_rsi14_hist = [],
       ks_adx14_hist = [], ks_atr14_hist = [], ks_bb_upper_hist = [], ks_bb_lower_hist = [], ks_close_buf = [],
       ks_h1_ema = i9, ks_h1_ema_hist = []\<rparr>
   }"

definition kitchen_sink_reset :: "kitchen_sink \<Rightarrow> kitchen_sink option" where
  "kitchen_sink_reset s = do {
     i1 \<leftarrow> ema_new 9;
     i2 \<leftarrow> ema_new 21;
     i3 \<leftarrow> ema_new 50;
     i4 \<leftarrow> rsi_new 14;
     i5 \<leftarrow> adx_new 14;
     i6 \<leftarrow> atr_ind_new 14;
     i7 \<leftarrow> macd_new 12 26 9;
     i8 \<leftarrow> bbands_new 20 (lit 2);
     i9 \<leftarrow> ema_new 20;
     Some (s\<lparr>ks_ema9 := i1, ks_ema21 := i2, ks_ema50 := i3, ks_rsi14 := i4, ks_adx14 := i5, ks_atr14 := i6,
       ks_macd := i7, ks_bb20 := i8, ks_ema9_hist := [], ks_ema21_hist := [], ks_ema50_hist := [], ks_rsi14_hist := [],
       ks_adx14_hist := [], ks_atr14_hist := [], ks_bb_upper_hist := [], ks_bb_lower_hist := [], ks_close_buf := [],
       ks_h1_ema := i9, ks_h1_ema_hist := []\<rparr>)
   }"

definition ks_hour :: "kitchen_sink \<Rightarrow> bar \<Rightarrow> kitchen_sink option" where
  "ks_hour s b = do {
     (i, v) \<leftarrow> ema_update (ks_h1_ema s) (b_close b);
     let s = s\<lparr>ks_h1_ema := i\<rparr>;
     Some (case v of Some x \<Rightarrow> s\<lparr>ks_h1_ema_hist := hist_push (ks_h1_ema_hist s) x 3\<rparr> | None \<Rightarrow> s)
   }"

text \<open>The decision on the histories, once all of them have been extended.\<close>

definition ks_entry :: "kitchen_sink \<Rightarrow> bool" where
  "ks_entry s \<longleftrightarrow>
     (let trend = ks_adx14_hist s \<noteq> [] \<and> ks_adx14_hist s ! 0 > lit 25 \<and> rising_n (ks_adx14_hist s) 3;
          mom = momentum (ks_rsi14_hist s) 3 > 0;
          squeeze = ks_bb_upper_hist s \<noteq> [] \<and> ks_bb_lower_hist s \<noteq> [] \<and> ks_atr14_hist s \<noteq> [] \<and>
            ks_bb_upper_hist s ! 0 - ks_bb_lower_hist s ! 0 < ks_atr14_hist s ! 0 * lit (3 / 2);
          h_break = ks_close_buf s \<noteq> [] \<and> feq (highest (ks_close_buf s) 20) (ks_close_buf s ! 0)
      in cross_above (ks_ema9_hist s) (ks_ema21_hist s) \<and> above (ks_ema21_hist s) (ks_ema50_hist s) \<and>
         ks_rsi14_hist s \<noteq> [] \<and> ks_rsi14_hist s ! 0 > lit 50 \<and> ks_rsi14_hist s ! 0 < lit 70 \<and>
         trend \<and> mom \<and> squeeze \<and> h_break \<and> above (ks_h1_ema_hist s) (ks_ema50_hist s))"

definition ks_exit :: "kitchen_sink \<Rightarrow> bool" where
  "ks_exit s \<longleftrightarrow> cross_below (ks_ema9_hist s) (ks_ema21_hist s) \<or>
     ks_rsi14_hist s \<noteq> [] \<and> ks_rsi14_hist s ! 0 > lit 80 \<or> falling_n (ks_adx14_hist s) 2"

definition ks_signals :: "kitchen_sink \<Rightarrow> bar \<Rightarrow> f64 \<Rightarrow> signal list" where
  "ks_signals s b atr =
     (if length (ks_h1_ema_hist s) < 3 then []
      else if ks_entry s then
        [(signal_long (b_timestamp b) (ks_symbol s) 1)
           \<lparr>sg_price := Some (b_close b), sg_target_price := Some (b_close b + atr * lit (5 / 2)),
            sg_stop_price := Some (b_close b - atr * lit (3 / 2))\<rparr>]
      else if ks_exit s then [signal_exit (b_timestamp b) (ks_symbol s)]
      else [])"

definition kitchen_sink_on_bars :: "kitchen_sink \<Rightarrow> mtf_snapshot \<Rightarrow> (kitchen_sink \<times> signal list) option" where
  "kitchen_sink_on_bars s sn = do {
     s \<leftarrow> on_h1 ks_hour s (sn_events sn);
     case map_option snd (find (\<lambda>(tf, _). tf = M1) (sn_events sn)) of
       None \<Rightarrow> Some (s, [])
     | Some b \<Rightarrow> do {
         (i1, e9) \<leftarrow> ema_update (ks_ema9 s) (b_close b);
         (i2, e21) \<leftarrow> ema_update (ks_ema21 s) (b_close b);
         (i3, e50) \<leftarrow> ema_update (ks_ema50 s) (b_close b);
         (i4, rsi) \<leftarrow> rsi_update (ks_rsi14 s) (b_close b);
         (i5, adx) \<leftarrow> adx_update (ks_adx14 s) (b_high b, b_low b, b_close b);
         (i6, atr) \<leftarrow> atr_update (ks_atr14 s) (b_high b, b_low b, b_close b);
         (i7, _) \<leftarrow> macd_update (ks_macd s) (b_close b);
         let (i8, bb) = bbands_update (ks_bb20 s) (b_close b);
         let s = s\<lparr>ks_ema9 := i1, ks_ema21 := i2, ks_ema50 := i3, ks_rsi14 := i4, ks_adx14 := i5, ks_atr14 := i6,
                   ks_macd := i7, ks_bb20 := i8, ks_close_buf := hist_push (ks_close_buf s) (b_close b) 20\<rparr>;
         Some (case (e9, e21, e50, rsi, adx, atr, bb) of
             (Some e9, Some e21, Some e50, Some rsi, Some adx, Some atr, Some bb) \<Rightarrow>
               let s = s\<lparr>ks_ema9_hist := hist_push (ks_ema9_hist s) e9 4,
                         ks_ema21_hist := hist_push (ks_ema21_hist s) e21 4,
                         ks_ema50_hist := hist_push (ks_ema50_hist s) e50 4,
                         ks_rsi14_hist := hist_push (ks_rsi14_hist s) rsi 4,
                         ks_adx14_hist := hist_push (ks_adx14_hist s) (adv_adx adx) 5,
                         ks_atr14_hist := hist_push (ks_atr14_hist s) (av_atr atr) 3,
                         ks_bb_upper_hist := hist_push (ks_bb_upper_hist s) (bbv_upper bb) 3,
                         ks_bb_lower_hist := hist_push (ks_bb_lower_hist s) (bbv_lower bb) 3\<rparr>
               in (s, ks_signals s b (av_atr atr))
           | _ \<Rightarrow> (s, []))
       }
   }"

section \<open>The factory\<close>

datatype mtf_named =
    StKitchenSink kitchen_sink
  | StMtfEmaRsi mtf_ema_rsi
  | StMtfMaCross mtf_ma_cross
  | StMtfAdxPullback mtf_adx_pullback
  | StMtfBbMacd mtf_bb_macd

definition mtf_box :: "('s \<Rightarrow> mtf_named) \<Rightarrow> ('s \<times> signal list) option \<Rightarrow> (mtf_named \<times> signal list) option" where
  "mtf_box C r = map_option (\<lambda>(s, sigs). (C s, sigs)) r"

primrec mtf_on_bars :: "mtf_named \<Rightarrow> mtf_snapshot \<Rightarrow> (mtf_named \<times> signal list) option" where
  "mtf_on_bars (StKitchenSink s) sn = mtf_box StKitchenSink (kitchen_sink_on_bars s sn)"
| "mtf_on_bars (StMtfEmaRsi s) sn = mtf_box StMtfEmaRsi (mtf_ema_rsi_on_bars s sn)"
| "mtf_on_bars (StMtfMaCross s) sn = mtf_box StMtfMaCross (mtf_ma_cross_on_bars s sn)"
| "mtf_on_bars (StMtfAdxPullback s) sn = mtf_box StMtfAdxPullback (mtf_adx_pullback_on_bars s sn)"
| "mtf_on_bars (StMtfBbMacd s) sn = mtf_box StMtfBbMacd (mtf_bb_macd_on_bars s sn)"

primrec mtf_reset :: "mtf_named \<Rightarrow> mtf_named option" where
  "mtf_reset (StKitchenSink s) = map_option StKitchenSink (kitchen_sink_reset s)"
| "mtf_reset (StMtfEmaRsi s) = map_option StMtfEmaRsi (mtf_ema_rsi_reset s)"
| "mtf_reset (StMtfMaCross s) = map_option StMtfMaCross (mtf_ma_cross_reset s)"
| "mtf_reset (StMtfAdxPullback s) = map_option StMtfAdxPullback (mtf_adx_pullback_reset s)"
| "mtf_reset (StMtfBbMacd s) = map_option StMtfBbMacd (mtf_bb_macd_reset s)"

definition MTF_STRATEGY_KEYS :: "string list" where
  "MTF_STRATEGY_KEYS = [''kitchen_sink'', ''mtf_adx_pullback'', ''mtf_bb_macd'', ''mtf_ema_rsi'', ''mtf_ma_cross'']"

text \<open>The error carries the name and the known keys.\<close>

datatype mtf_error = UnknownMtfStrategy string "string list"

definition build_mtf_strategy :: "string \<Rightarrow> json \<Rightarrow> (mtf_error + mtf_named) option" where
  "build_mtf_strategy name p =
     (let y = (case Option.bind (json_get p ''symbol'') json_as_str of Some y \<Rightarrow> y | None \<Rightarrow> ''UNKNOWN'') in
      if name = ''kitchen_sink'' then map_option (Inr \<circ> StKitchenSink) (kitchen_sink_new y)
      else if name = ''mtf_ema_rsi'' then map_option (Inr \<circ> StMtfEmaRsi) mtf_ema_rsi_new
      else if name = ''mtf_ma_cross'' then map_option (Inr \<circ> StMtfMaCross) mtf_ma_cross_new
      else if name = ''mtf_adx_pullback'' then map_option (Inr \<circ> StMtfAdxPullback) mtf_adx_pullback_new
      else if name = ''mtf_bb_macd'' then map_option (Inr \<circ> StMtfBbMacd) mtf_bb_macd_new
      else Some (Inl (UnknownMtfStrategy name MTF_STRATEGY_KEYS)))"

section \<open>The contract\<close>

text \<open>What a strategy may answer to a snapshot: nothing, or one entry or exit with the time of a bar that closed on this
  tick and the symbol \<open>y\<close> gives for that bar.\<close>

definition answered :: "(bar \<Rightarrow> string) \<Rightarrow> mtf_snapshot \<Rightarrow> signal list \<Rightarrow> bool" where
  "answered y sn sigs \<longleftrightarrow> sigs = [] \<or>
     (\<exists>b \<in> snd ` set (sn_events sn). \<exists>sg. sigs = [sg] \<and> sg_timestamp sg = b_timestamp b \<and> sg_symbol sg = y b \<and>
        sg_direction sg \<noteq> Short)"

primrec run_snaps ::
  "('s \<Rightarrow> mtf_snapshot \<Rightarrow> ('s \<times> signal list) option) \<Rightarrow> 's \<Rightarrow> mtf_snapshot list \<Rightarrow> ('s \<times> signal list list) option" where
  "run_snaps on_bars s [] = Some (s, [])"
| "run_snaps on_bars s (x # xs) =
     (case on_bars s x of
        None \<Rightarrow> None
      | Some (s', sigs) \<Rightarrow> map_option (\<lambda>(s'', out). (s'', sigs # out)) (run_snaps on_bars s' xs))"

locale mtf_answering =
  fixes on_bars :: "'s \<Rightarrow> mtf_snapshot \<Rightarrow> ('s \<times> signal list) option"
    and rst :: "'s \<Rightarrow> 's option"
    and live :: "'s \<Rightarrow> bool"
    and symbol_of :: "'s \<Rightarrow> bar \<Rightarrow> string"
  assumes answers: "live s \<Longrightarrow>
      runs (\<lambda>s' sigs. live s' \<and> answered (symbol_of s) sn sigs \<and> symbol_of s' = symbol_of s \<and> rst s' = rst s)
        (on_bars s sn)"
begin

lemma run_answers:
  "live s \<Longrightarrow> \<exists>s' out. run_snaps on_bars s snaps = Some (s', out) \<and> list_all2 (answered (symbol_of s)) snaps out \<and>
     rst s' = rst s"
proof (induction snaps arbitrary: s)
  case (Cons x xs)
  obtain s1 sigs where 1: "on_bars s x = Some (s1, sigs)" "live s1" "answered (symbol_of s) x sigs"
    "symbol_of s1 = symbol_of s" "rst s1 = rst s"
    using answers [OF Cons.prems, of x] by (auto simp: runs_def)
  obtain s2 out where 2: "run_snaps on_bars s1 xs = Some (s2, out)" "list_all2 (answered (symbol_of s1)) xs out"
    "rst s2 = rst s1"
    using Cons.IH [OF 1(2)] by blast
  show ?case using 1 2 by simp
qed simp

end

section \<open>The strategies keep the contract\<close>

lemma ema_runs: "ema_live c s \<Longrightarrow> runs (\<lambda>s' v. ema_live c s') (ema_update s x)"
  using ema_steps [of c s "\<lambda>s' v. ema_live c s'" "\<lambda>a v. Some (a, v)" x] by simp

lemma adx_runs: "adx_live c s \<Longrightarrow> runs (\<lambda>s' v. adx_live c s') (adx_update s x)"
  using adx_steps [of c s "\<lambda>s' v. adx_live c s'" "\<lambda>a v. Some (a, v)" x] by simp

lemma bbands_runs: "bbands_live c s \<Longrightarrow> bbands_live c (fst (bbands_update s x))"
  using bbands_steps [of c s "\<lambda>s' v. bbands_live c s'" "\<lambda>a v. Some (a, v)" x] by (cases "bbands_update s x") simp

lemma gives_bind: "runs (\<lambda>s v. gives Q (f s v)) m \<Longrightarrow> gives Q (m \<bind> (\<lambda>(a, v). f a v))"
  by (auto simp: runs_def)

lemma runs_mono: "runs P m \<Longrightarrow> (\<And>s v. P s v \<Longrightarrow> Q s v) \<Longrightarrow> runs Q m"
  by (auto simp: runs_def)

lemma on_h1_gives: "(\<And>s b. I s \<Longrightarrow> gives I (f s b)) \<Longrightarrow> I s \<Longrightarrow> gives I (on_h1 f s evs)"
proof (induction evs arbitrary: s)
  case (Cons ev evs)
  obtain s' where "f s (snd ev) = Some s'" "I s'" using Cons.prems by (auto simp: gives_def)
  then show ?case using Cons by auto
qed simp

lemma runs_after: "gives I m \<Longrightarrow> (\<And>s. I s \<Longrightarrow> runs Q (f s)) \<Longrightarrow> runs Q (m \<bind> f)"
  by (auto simp: gives_def)

lemma find_event: "map_option snd (find P evs) = Some b \<Longrightarrow> b \<in> snd ` set evs"
  by (auto simp: find_Some_iff) (metis image_eqI nth_mem snd_conv)

lemma base_bar_event: "base_bar sn = Some b \<Longrightarrow> b \<in> snd ` set (sn_events sn)"
  unfolding base_bar_def by (rule find_event)

lemma answered_simps [simp]:
  "answered y sn []"
  "b \<in> snd ` set (sn_events sn) \<Longrightarrow> answered b_symbol sn (long_at b x)"
  "b \<in> snd ` set (sn_events sn) \<Longrightarrow> answered b_symbol sn (exit_at b)"
  by (auto simp: answered_def long_at_def exit_at_def signal_long_def signal_exit_def signal_of_def)


definition mtf_ema_rsi_live :: "mtf_ema_rsi \<Rightarrow> bool" where
  "mtf_ema_rsi_live s \<longleftrightarrow> ema_live 20 (mer_h1_ema s) \<and> rsi_live 14 (mer_m1_rsi s)"

lemma mtf_ema_rsi_reset_new: "mtf_ema_rsi_reset s = mtf_ema_rsi_new"
  by (cases s) (simp add: mtf_ema_rsi_reset_def mtf_ema_rsi_new_def)

lemma mer_hour_live: "mtf_ema_rsi_live s \<Longrightarrow> gives mtf_ema_rsi_live (mer_hour s b)"
  unfolding mer_hour_def mtf_ema_rsi_live_def
  by (elim conjE, rule gives_bind, rule runs_mono, erule ema_runs) (auto simp: Let_def split: option.split)

lemma mtf_ema_rsi_runs:
  assumes "mtf_ema_rsi_live s"
  shows "runs (\<lambda>s' sigs. mtf_ema_rsi_live s' \<and> answered b_symbol sn sigs) (mtf_ema_rsi_on_bars s sn)"
  unfolding mtf_ema_rsi_on_bars_def
  by (rule runs_after [OF on_h1_gives [where I = mtf_ema_rsi_live, OF mer_hour_live assms]], assumption, cases "base_bar sn",
      simp, frule base_bar_event, simp only: option.case mtf_ema_rsi_live_def, elim conjE, (erule steps)+)
    (auto simp: Let_def split: option.split)


definition mtf_ma_cross_live :: "mtf_ma_cross \<Rightarrow> bool" where
  "mtf_ma_cross_live s \<longleftrightarrow> ema_live 50 (mmc_h1_ema50 s) \<and> ema_live 9 (mmc_m1_fast s) \<and> ema_live 21 (mmc_m1_slow s)"

lemma mtf_ma_cross_reset_new: "mtf_ma_cross_reset s = mtf_ma_cross_new"
  by (cases s) (simp add: mtf_ma_cross_reset_def mtf_ma_cross_new_def)

lemma mmc_hour_live: "mtf_ma_cross_live s \<Longrightarrow> gives mtf_ma_cross_live (mmc_hour s b)"
  unfolding mmc_hour_def mtf_ma_cross_live_def
  by (elim conjE, rule gives_bind, rule runs_mono, erule ema_runs) (auto simp: Let_def split: option.split)

lemma mtf_ma_cross_runs:
  assumes "mtf_ma_cross_live s"
  shows "runs (\<lambda>s' sigs. mtf_ma_cross_live s' \<and> answered b_symbol sn sigs) (mtf_ma_cross_on_bars s sn)"
  unfolding mtf_ma_cross_on_bars_def
  by (rule runs_after [OF on_h1_gives [where I = mtf_ma_cross_live, OF mmc_hour_live assms]], assumption, cases "base_bar sn",
      simp, frule base_bar_event, simp only: option.case mtf_ma_cross_live_def, elim conjE, (erule steps)+)
    (auto simp: Let_def split: option.split)


definition mtf_adx_pullback_live :: "mtf_adx_pullback \<Rightarrow> bool" where
  "mtf_adx_pullback_live s \<longleftrightarrow> adx_live 14 (map_h1_adx s) \<and> ema_live 50 (map_h1_ema50 s) \<and> rsi_live 14 (map_m1_rsi s)"

lemma mtf_adx_pullback_reset_new: "mtf_adx_pullback_reset s = mtf_adx_pullback_new"
  by (cases s) (simp add: mtf_adx_pullback_reset_def mtf_adx_pullback_new_def)

lemma map_hour_live: "mtf_adx_pullback_live s \<Longrightarrow> gives mtf_adx_pullback_live (map_hour s b)"
  unfolding map_hour_def mtf_adx_pullback_live_def
  by (elim conjE, rule gives_bind, rule runs_mono, erule adx_runs, unfold Let_def, rule gives_bind, rule runs_mono, rule ema_runs)
    (auto split: option.split)

lemma mtf_adx_pullback_runs:
  assumes "mtf_adx_pullback_live s"
  shows "runs (\<lambda>s' sigs. mtf_adx_pullback_live s' \<and> answered b_symbol sn sigs) (mtf_adx_pullback_on_bars s sn)"
  unfolding mtf_adx_pullback_on_bars_def
  by (rule runs_after [OF on_h1_gives [where I = mtf_adx_pullback_live, OF map_hour_live assms]], assumption, cases "base_bar sn",
      simp, frule base_bar_event, simp only: option.case mtf_adx_pullback_live_def, elim conjE, (erule steps)+)
    (auto simp: Let_def split: option.split)


definition mtf_bb_macd_live :: "mtf_bb_macd \<Rightarrow> bool" where
  "mtf_bb_macd_live s \<longleftrightarrow> bbands_live (20, lit 2) (mbm_h1_bb s) \<and> macd_live (12, 26, 9) (mbm_m1_macd s) \<and> rsi_live 14 (mbm_m1_rsi s)"

lemma mtf_bb_macd_reset_new: "mtf_bb_macd_reset s = mtf_bb_macd_new"
  by (cases s) (simp add: mtf_bb_macd_reset_def mtf_bb_macd_new_def)

lemma mbm_hour_live: "mtf_bb_macd_live s \<Longrightarrow> gives mtf_bb_macd_live (mbm_hour s b)"
  by (auto simp: mbm_hour_def mtf_bb_macd_live_def split_def Let_def bbands_runs split: option.split)

lemma mtf_bb_macd_runs:
  assumes "mtf_bb_macd_live s"
  shows "runs (\<lambda>s' sigs. mtf_bb_macd_live s' \<and> answered b_symbol sn sigs) (mtf_bb_macd_on_bars s sn)"
  unfolding mtf_bb_macd_on_bars_def
  by (rule runs_after [OF on_h1_gives [where I = mtf_bb_macd_live, OF mbm_hour_live assms]], assumption, cases "base_bar sn",
      simp, frule base_bar_event, simp only: option.case mtf_bb_macd_live_def, elim conjE, (erule steps)+)
    (auto simp: Let_def split: option.split)


definition kitchen_sink_live :: "kitchen_sink \<Rightarrow> bool" where
  "kitchen_sink_live s \<longleftrightarrow> ema_live 9 (ks_ema9 s) \<and> ema_live 21 (ks_ema21 s) \<and> ema_live 50 (ks_ema50 s) \<and>
     rsi_live 14 (ks_rsi14 s) \<and> adx_live 14 (ks_adx14 s) \<and> atr_live 14 (ks_atr14 s) \<and> macd_live (12, 26, 9) (ks_macd s) \<and>
     bbands_live (20, lit 2) (ks_bb20 s) \<and> ema_live 20 (ks_h1_ema s)"

lemma kitchen_sink_reset_new: "kitchen_sink_reset s = kitchen_sink_new (ks_symbol s)"
  by (cases s) (simp add: kitchen_sink_reset_def kitchen_sink_new_def)

lemma ks_hour_live: "kitchen_sink_live s \<and> ks_symbol s = y \<Longrightarrow> gives (\<lambda>s. kitchen_sink_live s \<and> ks_symbol s = y) (ks_hour s b)"
  unfolding ks_hour_def kitchen_sink_live_def
  by (elim conjE, rule gives_bind, rule runs_mono, rule ema_runs, assumption) (auto simp: Let_def split: option.split)

lemma ks_signals_answered:
  "b \<in> snd ` set (sn_events sn) \<Longrightarrow> ks_symbol s = y \<Longrightarrow> answered (\<lambda>_. y) sn (ks_signals s b atr)"
  by (auto simp: answered_def ks_signals_def signal_long_def signal_exit_def signal_of_def)

lemma kitchen_sink_runs:
  assumes "kitchen_sink_live s \<and> ks_symbol s = y"
  shows "runs (\<lambda>s' sigs. (kitchen_sink_live s' \<and> ks_symbol s' = y) \<and> answered (\<lambda>_. y) sn sigs) (kitchen_sink_on_bars s sn)"
  unfolding kitchen_sink_on_bars_def
  by (rule runs_after [OF on_h1_gives [where I = "\<lambda>s. kitchen_sink_live s \<and> ks_symbol s = y", OF ks_hour_live assms]], assumption,
      cases "map_option snd (find (\<lambda>(tf, _). tf = M1) (sn_events sn))", simp, frule find_event,
      simp only: option.case kitchen_sink_live_def, elim conjE, (erule steps)+)
    (auto simp: Let_def ks_signals_answered split: option.split)


primrec mtf_symbol :: "mtf_named \<Rightarrow> bar \<Rightarrow> string" where
  "mtf_symbol (StKitchenSink s) b = ks_symbol s"
| "mtf_symbol (StMtfEmaRsi s) b = b_symbol b"
| "mtf_symbol (StMtfMaCross s) b = b_symbol b"
| "mtf_symbol (StMtfAdxPullback s) b = b_symbol b"
| "mtf_symbol (StMtfBbMacd s) b = b_symbol b"

primrec mtf_live :: "mtf_named \<Rightarrow> bool" where
  "mtf_live (StKitchenSink s) \<longleftrightarrow> kitchen_sink_live s"
| "mtf_live (StMtfEmaRsi s) \<longleftrightarrow> mtf_ema_rsi_live s"
| "mtf_live (StMtfMaCross s) \<longleftrightarrow> mtf_ma_cross_live s"
| "mtf_live (StMtfAdxPullback s) \<longleftrightarrow> mtf_adx_pullback_live s"
| "mtf_live (StMtfBbMacd s) \<longleftrightarrow> mtf_bb_macd_live s"

lemmas mtf_reset_news = mtf_ema_rsi_reset_new mtf_ma_cross_reset_new mtf_adx_pullback_reset_new mtf_bb_macd_reset_new
  kitchen_sink_reset_new

lemma runs_mtf_box [simp]: "runs Q (mtf_box C r) \<longleftrightarrow> runs (\<lambda>s v. Q (C s) v) r"
  by (auto simp: runs_def mtf_box_def)

lemma mtf_symbol_eta:
  "mtf_symbol (StKitchenSink k) = (\<lambda>_. ks_symbol k)" "mtf_symbol (StMtfEmaRsi e) = b_symbol"
  "mtf_symbol (StMtfMaCross m) = b_symbol" "mtf_symbol (StMtfAdxPullback a) = b_symbol" "mtf_symbol (StMtfBbMacd z) = b_symbol"
  by (simp_all add: fun_eq_iff)

interpretation mtf: mtf_answering mtf_on_bars mtf_reset mtf_live mtf_symbol
proof
  fix st sn
  assume "mtf_live st"
  then show "runs (\<lambda>st' sigs. mtf_live st' \<and> answered (mtf_symbol st) sn sigs \<and> mtf_symbol st' = mtf_symbol st \<and>
      mtf_reset st' = mtf_reset st) (mtf_on_bars st sn)"
    using runs_mono [OF mtf_ema_rsi_runs] runs_mono [OF mtf_ma_cross_runs] runs_mono [OF mtf_adx_pullback_runs]
      runs_mono [OF mtf_bb_macd_runs] runs_mono [OF kitchen_sink_runs [OF conjI [OF _ refl]]]
    by (cases st) (simp_all add: mtf_symbol_eta mtf_reset_news)
qed


lemma mtf_news_live:
  "mtf_ema_rsi_new = Some e \<Longrightarrow> mtf_ema_rsi_live e"
  "mtf_ma_cross_new = Some m \<Longrightarrow> mtf_ma_cross_live m"
  "mtf_adx_pullback_new = Some a \<Longrightarrow> mtf_adx_pullback_live a"
  "mtf_bb_macd_new = Some z \<Longrightarrow> mtf_bb_macd_live z"
  "kitchen_sink_new y = Some k \<Longrightarrow> kitchen_sink_live k \<and> ks_symbol k = y"
  by (auto simp: mtf_ema_rsi_new_def mtf_ma_cross_new_def mtf_adx_pullback_new_def mtf_bb_macd_new_def kitchen_sink_new_def
      mtf_ema_rsi_live_def mtf_ma_cross_live_def mtf_adx_pullback_live_def mtf_bb_macd_live_def kitchen_sink_live_def
      bind_eq_Some_conv intro: alive)

lemma mtf_news_build:
  "mtf_ema_rsi_new \<noteq> None" "mtf_ma_cross_new \<noteq> None" "mtf_adx_pullback_new \<noteq> None" "mtf_bb_macd_new \<noteq> None"
  "kitchen_sink_new y \<noteq> None"
  by (simp_all add: mtf_ema_rsi_new_def mtf_ma_cross_new_def mtf_adx_pullback_new_def mtf_bb_macd_new_def
      kitchen_sink_new_def ema_new_def rsi_new_def adx_new_def macd_new_def bbands_new_def atr_ind_new_pos dmi_new_def smma_new_def)

lemma mtf_built: "build_mtf_strategy name p = Some (Inr st) \<Longrightarrow> mtf_live st \<and> mtf_reset st = Some st"
  using mtf_news_live by (auto simp: build_mtf_strategy_def Let_def mtf_reset_news split: if_splits)

section \<open>Properties\<close>

text \<open>C27. The factory builds a strategy on several timeframes for exactly the registered keys, whatever the parameters, and
  refuses any other name with the list of keys. A strategy it built answers every sequence of snapshots without a panic:
  each with nothing, or with one entry or exit that has the time of a bar which closed on that tick and its symbol (the
  configured symbol for the kitchen sink). Afterwards \<open>reset\<close> brings back the state the factory built.\<close>

theorem mtf_strategies_run:
  "(if name \<in> set MTF_STRATEGY_KEYS then \<exists>st. build_mtf_strategy name p = Some (Inr st)
    else build_mtf_strategy name p = Some (Inl (UnknownMtfStrategy name MTF_STRATEGY_KEYS))) \<and>
   (build_mtf_strategy name p = Some (Inr st) \<longrightarrow>
    (\<exists>st' out. run_snaps mtf_on_bars st sns = Some (st', out) \<and> list_all2 (answered (mtf_symbol st)) sns out \<and>
       mtf_reset st' = Some st))"
proof (intro conjI impI)
  show "if name \<in> set MTF_STRATEGY_KEYS then \<exists>st. build_mtf_strategy name p = Some (Inr st)
    else build_mtf_strategy name p = Some (Inl (UnknownMtfStrategy name MTF_STRATEGY_KEYS))"
    using mtf_news_build by (auto simp: build_mtf_strategy_def Let_def MTF_STRATEGY_KEYS_def)
next
  assume "build_mtf_strategy name p = Some (Inr st)"
  then have "mtf_live st" "mtf_reset st = Some st" using mtf_built by blast+
  then show "\<exists>st' out. run_snaps mtf_on_bars st sns = Some (st', out) \<and> list_all2 (answered (mtf_symbol st)) sns out \<and>
      mtf_reset st' = Some st"
    using mtf.run_answers [of st sns] by auto
qed

definition mtf_example :: mtf_snapshot where
  "mtf_example = \<lparr>sn_base_tf = M1, sn_close_ts = 3600000,
     sn_events = [(M1, bar_new 3540000 ''BTC'' (Fin 100) (Fin 110) (Fin 90) (Fin 105) (Fin 1)),
       (H1, bar_new 0 ''BTC'' (Fin 100) (Fin 120) (Fin 90) (Fin 105) (Fin 9))], sn_views = (\<lambda>_. None)\<rparr>"

theorem mtf_strategies_run_witness:
  "\<exists>st st' out. build_mtf_strategy ''mtf_bb_macd'' JNull = Some (Inr st) \<and>
     run_snaps mtf_on_bars st [mtf_example, mtf_example] = Some (st', out) \<and> mtf_reset st' = Some st"
proof -
  obtain st where "build_mtf_strategy ''mtf_bb_macd'' JNull = Some (Inr st)"
    using mtf_strategies_run [where name = "''mtf_bb_macd''" and p = JNull] by (auto simp: MTF_STRATEGY_KEYS_def)
  then show ?thesis using mtf_strategies_run [of "''mtf_bb_macd''" JNull st "[mtf_example, mtf_example]"] by blast
qed

end
