(* ===== verification/Spec2Isabelle.thy ===== *)
theory Spec2Isabelle
  imports Walk_Forward Ledger Script_Runs Script_Const Box_Warmup Factory_Theorems Named_Mtf
begin

text \<open>
  A verification development for the trading core of mallow, the Rust workspace \<open>src/almanac\<close>. The crates are named
  here as in \<open>src/almanac/crates\<close>.

  \<^bold>\<open>The program.\<close> A \<^emph>\<open>bar\<close> is a candle of one symbol. Feeds (crate \<open>data\<close>) deliver bars in time order, possibly
  resampled to a larger timeframe. An engine (crate \<open>engine\<close>) takes the bars of one symbol, of one symbol in several
  timeframes, or of several symbols; it hands each bar to a strategy (crate \<open>strategy\<close>), which keeps indicators
  (crate \<open>indicator\<close>) and answers with signals. Signals become orders through a risk manager and a reverse policy, a
  simulated broker fills the orders at the next bar, the portfolio (crate \<open>core\<close>) books the fills, exit rules watch the
  open positions, and the equity curve grows by one point. At the end all positions are closed and a report (crate
  \<open>report\<close>) is computed. Walk-forward validation repeats this over windows. The live service keeps its bars in a ledger
  (crate \<open>ledger\<close>). Strategies may be texts in a small scripting language, compiled after a source transformation.

  \<^bold>\<open>Theories and sources.\<close>
  \<^item> \<open>Prelude\<close>: hash maps as association lists, bounded windows, list facts, the collections of simplification rules.
    \<open>F64\<close>, \<open>F64_Functions\<close>: the type \<open>f64\<close>.
  \<^item> \<open>Market_Types\<close> (\<open>core/src/bar.rs\<close>, \<open>signal.rs\<close>, \<open>order.rs\<close>, \<open>trade.rs\<close>, \<open>event.rs\<close>, \<open>regime.rs\<close>, \<open>msg.rs\<close>),
    \<open>Timeframes\<close> (\<open>timeframe.rs\<close>), \<open>Exit_Rules\<close> (\<open>exit.rs\<close>), \<open>Portfolios\<close> (\<open>portfolio.rs\<close>).
  \<^item> \<open>Broker\<close>, \<open>Risk\<close>, \<open>Event_Bus\<close>, \<open>Engine_Core\<close> (\<open>engine/src/broker.rs\<close>, \<open>risk/\<close>, \<open>bus.rs\<close>, \<open>core.rs\<close>), with the
    lemmas on the core in \<open>Engine_Invariants\<close> and its properties in \<open>Engine_Theorems\<close>.
  \<^item> \<open>Feeds\<close> (\<open>data/src/feed.rs\<close>, \<open>memory.rs\<close>, \<open>aggregator.rs\<close>), \<open>Engine_Run\<close> (\<open>engine/src/engine.rs\<close>), \<open>Mtf_Engines\<close>
    and \<open>Mtf_Parity\<close> (\<open>heap_mtf_engine.rs\<close>, \<open>pointer_sync_mtf_engine.rs\<close>), \<open>Multi_Engine\<close> and \<open>Multi_Merge\<close>
    (\<open>multi_engine.rs\<close>), \<open>Backtests\<close> (the \<open>run\<close> methods with their reports), \<open>Walk_Forward\<close> (\<open>walk_forward.rs\<close>).
  \<^item> \<open>Metrics\<close>, \<open>Calendar\<close>, \<open>Reports\<close>, \<open>Report_Theorems\<close> (\<open>report/src/metrics.rs\<close>, \<open>report.rs\<close>).
  \<^item> \<open>Ledger\<close> (\<open>ledger/src\<close>).
  \<^item> \<open>Rolling\<close>, \<open>Moving_Averages\<close>, \<open>Oscillators\<close>, \<open>Indicators\<close>, \<open>Ind_Trend\<close>, \<open>Ind_Trend2\<close>, \<open>Ind_Directional\<close>,
    \<open>Ind_Momentum\<close>, \<open>Ind_Momentum2\<close>, \<open>Ind_Momentum3\<close>, \<open>Ind_Channels\<close>, \<open>Ind_Regime\<close>, \<open>Ind_Patterns\<close>, \<open>Ind_Viewing\<close>
    (\<open>indicator/src/signal\<close>, \<open>risk\<close>, \<open>regime\<close>, \<open>viewing\<close>, \<open>util.rs\<close>), \<open>Candles\<close> (\<open>viewing/heiken_ashi.rs\<close> and
    \<open>strategy/src/candle_type.rs\<close>), \<open>Indicator_Box\<close>, \<open>Box_Theorems\<close>, \<open>Box_Warmup\<close> (\<open>indicator/src/box_.rs\<close>).
  \<^item> \<open>Script_Text\<close> (the string functions of the Rust library), \<open>Script_Parse\<close>, \<open>Script_Decl\<close> (\<open>strategy/src/script/v1/parse.rs\<close>,
    \<open>script/utils.rs\<close>), \<open>Script_Build\<close>, \<open>Script_Strategy\<close> (\<open>v1/strategy.rs\<close>, \<open>v1/binding.rs\<close>, the look-back
    analysis of \<open>script/engine.rs\<close>), with their properties in \<open>Script_Theorems\<close>, \<open>Script_Const\<close> and \<open>Script_Runs\<close>.
  \<^item> \<open>Named_Base\<close> (the contract of a strategy), \<open>Named_Trend\<close>, \<open>Named_Momentum\<close>, \<open>Named_Volume\<close>, \<open>Named_Volatility\<close>,
    \<open>Named_Pattern\<close>, \<open>Named_Composite\<close> (\<open>strategy/src/named\<close>, one theory per directory), \<open>Chart_Patterns\<close> (the crate
    \<open>pattern\<close> and \<open>named/pattern/pattern_breakout.rs\<close>), \<open>Named_Strategies\<close> (\<open>strategy/src/factory.rs\<close>) and its
    properties in \<open>Factory_Theorems\<close>, \<open>Named_Mtf\<close> (\<open>named/mtf\<close> and \<open>mtf_factory.rs\<close>).

  \<^bold>\<open>Correspondence.\<close> A struct is a record, an enum a datatype, a method a function that takes the state and returns it
  updated; a trait object is a record of functions over an abstract state. A panic (an assertion, an index out of
  range, an \<open>unwrap\<close>) or a loop that does not end is the outer \<open>None\<close> of an option; an error is a value of a sum type.
  \<^item> \<open>f64\<close> is IEEE 754 binary64 with NaN, infinities and the negative zero; a finite value carries its exact rational,
    and every operation rounds once, to nearest, ties to even. All NaNs are one value. Square root is correctly
    rounded; \<open>exp\<close>, \<open>ln\<close>, \<open>powf\<close>, \<open>log10\<close> and \<open>atan\<close>, whose precision Rust leaves open, are the parameters \<open>libm\<close> and
    \<open>mathlib\<close>.
  \<^item> \<open>i64\<close> timestamps are integers, with \<open>wrap_i64\<close> or saturation where the code computes with them; \<open>usize\<close> is \<open>nat\<close>.
    Lengths are bounded by available memory, far below the word size; where a count is converted to \<open>f64\<close> and a
    statement needs that to be exact, it assumes a length below \<open>2 ^ 52\<close> or \<open>2 ^ 53\<close>.
  \<^item> A \<open>HashMap\<close> is an association list, a \<open>BTreeMap\<close> a sorted one, a \<open>BinaryHeap\<close> a list whose \<open>pop\<close> takes the greatest
    entry, a boxed feed the list of bars it will still deliver (\<open>Feeds\<close> shows that a loop over a lawful feed depends
    on nothing else).
  \<^item> Texts are lists of ASCII characters. JSON values are a datatype.
  \<^item> The rhai crate is the record \<open>rhai\<close> of the operations the code calls; its laws are not needed by the properties.
  \<^item> Loops are structural recursion or \<open>function\<close> with a measure; the loops over a feed, over the event bus, for a fresh
    leg key and over the walk-forward windows, which need not end for every argument, are partial functions into
    \<open>option\<close>, and the theorems prove that they return. No fuel is used.

  \<^bold>\<open>What is shown.\<close>
  \<^item> \<^emph>\<open>Engine.\<close> A backtest on a well-behaved feed returns, has one equity point per trading bar, keeps the accounts,
    the position keys and the exit trackers consistent, and ends flat; signals only queue orders, so a fill never
    precedes the next bar; exits flatten positions; leg keys are fresh. The portfolio refines a signed book, cash is
    the initial capital plus the impacts of the fills. Limit orders never fill worse than their limit, stops only
    ratchet, sizers guard the entries. Interfaces are locales: \<open>event_bus\<close>, \<open>bar_feed\<close>, \<open>risk_guard\<close>.
  \<^item> \<^emph>\<open>Merging engines.\<close> The two multi-timeframe engines agree on aligned feeds, and never show a bar before it closed; the
    multi-symbol engine replays every bar once in time order.
  \<^item> \<^emph>\<open>Indicators.\<close> The sliding extrema are correct, window averages are exact on whole prices, the relative strength
    index is between 0 and 100. Every indicator is an instance of the locale \<open>streaming\<close> (no panic, an answer for every
    bar, \<open>reset\<close> restores the start) and, where the prices do not matter, of \<open>timed\<close> (the exact warm-up); the
    theorems on the indicator box lift this to every accepted configuration.
  \<^item> \<^emph>\<open>Scripts.\<close> The regime block and the directives are cut out with the number of lines kept, arguments split faithfully,
    constant expressions are folded; a script builds or fails without a panic, and a built script strategy answers
    every bar with at most one signal and bounded buffers.
  \<^item> \<^emph>\<open>Named strategies.\<close> Each of the 81 strategies on indicators is an instance of the locale \<open>bar_strategy\<close> (an answer to
    every bar of its symbol, no panic) and, but for one, of \<open>restoring\<close> (\<open>reset\<close> leads back to one state whatever the bars
    were); the theorems on the factory lift this to every name and parameter it accepts, say which names build and
    what a map of numbers configures. Chart patterns rest on swing points of the window, and the breakout strategy
    trades the most confident one. The strategies on several timeframes meet the locale \<open>mtf_answering\<close>.
  \<^item> \<^emph>\<open>Reports.\<close> A report is generated for every portfolio and accounts for every trade, the drawdown is the deepest
    fall, the single-pass ratios equal the separate ones, months follow the Gregorian calendar. Walk-forward
    validation returns with the documented windows.

  \<^bold>\<open>Not modelled.\<close> Logging, metrics counters and display texts change no state the program reads. The live service
  (\<open>herald\<close>), the request handling around the engines and the file feeds are input and output over third-party
  crates. The Python and WebAssembly bindings only forward calls. The script linter reports diagnostics for an
  editor; the functions registered with the rhai engine and the multi-timeframe scripts are not
  translated. The resampling statistics of the reports are left out.
\<close>

end
